(* ===== verification/Prelude.thy ===== *)
theory Prelude
  imports Complex_Main "HOL-Library.AList" "HOL-Library.List_Lexorder"
    "HOL-Library.Char_ord" "HOL-Library.Sublist"
begin

text \<open>
  Shared vocabulary of the development.

  \<^item> Python exceptions are values of \<open>py_error\<close>; a call that may raise returns
    \<open>'a res\<close>, with \<open>Inl\<close> for the exception and \<open>Inr\<close> for the returned value.
    \<open>attempt\<close> sequences two calls, \<open>mapM\<close> runs a comprehension whose body may raise.
  \<^item> A Python \<open>dict\<close> is an association list in insertion order (\<open>'v dict\<close>);
    item assignment is \<open>AList.update\<close>, which replaces the value in place or appends.
  \<^item> A Python \<open>str\<close> is a \<open>string\<close>; \<open>sorted\<close> on strings uses the
    lexicographic order of \<open>List_Lexorder\<close> and \<open>Char_ord\<close>.
  The collection \<open>res_simps\<close> unfolds the sequencing operators.
\<close>

named_theorems res_simps "equations of the operators on results"

section \<open>Exceptions as values\<close>

datatype py_error =
    ValueError string
  | RuntimeError string
  | KeyError string
  | TypeError string
  | IndexError
  | ZeroDivisionError
  | OverflowError string
  | FileNotFoundError string
  | ComparisonBlockedError string
  | PersistenceBlockedError string
  | ConsensusV2Error string
  | VersionedConsensusStateError string
  | ModuleNotFoundError string

type_synonym 'a res = "py_error + 'a"

definition attempt :: "'a res \<Rightarrow> ('a \<Rightarrow> 'b res) \<Rightarrow> 'b res" where
  "attempt r f = (case r of Inl e \<Rightarrow> Inl e | Inr x \<Rightarrow> f x)"

lemma attempt_Inl [simp, res_simps]: "attempt (Inl e) f = Inl e"
  by (simp add: attempt_def)

lemma attempt_Inr [simp, res_simps]: "attempt (Inr x) f = f x"
  by (simp add: attempt_def)

lemma attempt_eq_Inr: "attempt r f = Inr y \<longleftrightarrow> (\<exists>x. r = Inr x \<and> f x = Inr y)"
  by (cases r) auto

lemma attempt_eq_Inl:
  "attempt r f = Inl e \<longleftrightarrow> r = Inl e \<or> (\<exists>x. r = Inr x \<and> f x = Inl e)"
  by (cases r) auto

lemma attempt_assoc: "attempt (attempt r f) g = attempt r (\<lambda>x. attempt (f x) g)"
  by (cases r) auto

lemma attempt_cong [fundef_cong]:
  "r = r' \<Longrightarrow> (\<And>x. r' = Inr x \<Longrightarrow> f x = g x) \<Longrightarrow> attempt r f = attempt r' g"
  by (cases r') auto

fun mapM :: "('a \<Rightarrow> 'b res) \<Rightarrow> 'a list \<Rightarrow> 'b list res" where
  "mapM f [] = Inr []"
| "mapM f (x # xs) = attempt (f x) (\<lambda>y. attempt (mapM f xs) (\<lambda>ys. Inr (y # ys)))"

lemma mapM_cong [fundef_cong]:
  "xs = ys \<Longrightarrow> (\<And>x. x \<in> set ys \<Longrightarrow> f x = g x) \<Longrightarrow> mapM f xs = mapM g ys"
proof (induction ys arbitrary: xs)
  case (Cons y ys)
  then show ?case by (cases "g y") auto
qed simp

lemma mapM_Inr: "(\<And>x. x \<in> set xs \<Longrightarrow> f x = Inr (g x)) \<Longrightarrow> mapM f xs = Inr (map g xs)"
  by (induction xs) auto

lemma mapM_eq_Inr: "mapM f xs = Inr ys \<longleftrightarrow> list_all2 (\<lambda>x y. f x = Inr y) xs ys"
  by (induction xs arbitrary: ys) (auto simp: attempt_eq_Inr list_all2_Cons1)

lemma mapM_length: "mapM f xs = Inr ys \<Longrightarrow> length ys = length xs"
  by (simp add: mapM_eq_Inr list_all2_lengthD)

lemma mapM_map: "mapM f (map g xs) = mapM (f \<circ> g) xs"
  by (induction xs) auto

lemma mapM_set_Inr:
  assumes "mapM f xs = Inr ys" and "x \<in> set xs"
  shows "\<exists>y \<in> set ys. f x = Inr y"
proof -
  from assms(1) have "list_all2 (\<lambda>x y. f x = Inr y) xs ys" by (simp add: mapM_eq_Inr)
  then show ?thesis using assms(2)
    by (induction rule: list_all2_induct) auto
qed

lemma mapM_set_origin:
  assumes "mapM f xs = Inr ys" and "y \<in> set ys"
  shows "\<exists>x \<in> set xs. f x = Inr y"
proof -
  from assms(1) have "list_all2 (\<lambda>x y. f x = Inr y) xs ys" by (simp add: mapM_eq_Inr)
  then show ?thesis using assms(2)
    by (induction rule: list_all2_induct) auto
qed

text \<open>A comprehension whose body never raises does not raise.\<close>

lemma mapM_total:
  assumes "\<And>x. x \<in> set xs \<Longrightarrow> \<exists>y. f x = Inr y"
  obtains ys where "mapM f xs = Inr ys"
proof -
  from assms have "\<exists>ys. mapM f xs = Inr ys"
  proof (induction xs)
    case (Cons x xs)
    from Cons.prems [of x] obtain y where "f x = Inr y" by auto
    moreover from Cons obtain ys where "mapM f xs = Inr ys" by auto
    ultimately show ?case by simp
  qed simp
  then show ?thesis using that by blast
qed

section \<open>Dictionaries\<close>

type_synonym ('k, 'v) dict = "('k \<times> 'v) list"

definition getitem :: "(string, 'v) dict \<Rightarrow> string \<Rightarrow> 'v res" where
  "getitem d k = (case map_of d k of None \<Rightarrow> Inl (KeyError k) | Some v \<Rightarrow> Inr v)"

lemma getitem_Inr: "getitem d k = Inr v \<longleftrightarrow> map_of d k = Some v"
  by (simp add: getitem_def split: option.splits)

lemma getitem_Some [simp]: "map_of d k = Some v \<Longrightarrow> getitem d k = Inr v"
  by (simp add: getitem_def)

lemma getitem_None [simp]: "map_of d k = None \<Longrightarrow> getitem d k = Inl (KeyError k)"
  by (simp add: getitem_def)

lemma map_of_update [simp]: "map_of (AList.update k v d) k' = (if k' = k then Some v else map_of d k')"
  by (simp add: update_conv')

text \<open>A dictionary display or comprehension: later entries replace earlier ones.\<close>

definition dict_of :: "('k \<times> 'v) list \<Rightarrow> ('k, 'v) dict" where
  "dict_of es = foldl (\<lambda>d e. AList.update (fst e) (snd e) d) [] es"

lemma map_of_foldl_update:
  "map_of (foldl (\<lambda>d e. AList.update (fst e) (snd e) d) d es) k =
     (case map_of (rev es) k of Some v \<Rightarrow> Some v | None \<Rightarrow> map_of d k)"
  by (induction es arbitrary: d) (auto simp: map_add_def split: option.splits)

lemma map_of_dict_of: "map_of (dict_of es) k = map_of (rev es) k"
  by (simp add: dict_of_def map_of_foldl_update split: option.splits)

lemma map_of_dict_of_distinct: "distinct (map fst es) \<Longrightarrow> map_of (dict_of es) = map_of es"
  by (rule ext, rule option.expand)
    (auto simp: map_of_dict_of map_of_eq_None_iff rev_map [symmetric] intro: map_of_is_SomeI)

text \<open>\<open>dict.pop(k, None)\<close>.\<close>

definition dpop :: "'k \<Rightarrow> ('k, 'v) dict \<Rightarrow> ('k, 'v) dict" where
  "dpop k d = filter (\<lambda>e. fst e \<noteq> k) d"

lemma map_of_dpop [simp]: "map_of (dpop k d) k' = (if k' = k then None else map_of d k')"
  by (induction d) (auto simp: dpop_def)

text \<open>\<open>sorted(d.items())\<close> on a dictionary: the keys are distinct, so they decide.\<close>

definition sorted_items :: "(string, 'v) dict \<Rightarrow> (string, 'v) dict" where
  "sorted_items d = sort_key fst d"

lemma set_sorted_items [simp]: "set (sorted_items d) = set d"
  by (simp add: sorted_items_def)

section \<open>Strings\<close>

text \<open>
  Decimal digits. The argument is an \<open>int\<close>, so that evaluation stays on binary
  numerals.
\<close>

definition digit :: "int \<Rightarrow> char" where
  "digit d = char_of (48 + d)"

function digits :: "int \<Rightarrow> string" where
  "digits n = (if n < 10 then [digit n] else digits (n div 10) @ [digit (n mod 10)])"
  by pat_completeness auto
termination by (relation "measure nat") auto

declare digits.simps [simp del]

definition str_of_int :: "int \<Rightarrow> string" where
  "str_of_int i = (if i < 0 then ''-'' @ digits (- i) else digits i)"

definition str_of_nat :: "nat \<Rightarrow> string" where
  "str_of_nat n = str_of_int (int n)"

text \<open>\<open>f"{n:0kd}"\<close> for a non-negative number: pad with zeros to width \<open>k\<close>.\<close>

definition zero_pad :: "nat \<Rightarrow> int \<Rightarrow> string" where
  "zero_pad k n = replicate (k - length (digits n)) (CHR ''0'') @ digits n"

text \<open>\<open>sep.join(parts)\<close>.\<close>

fun join :: "string \<Rightarrow> string list \<Rightarrow> string" where
  "join sep [] = []"
| "join sep [x] = x"
| "join sep (x # y # zs) = x @ sep @ join sep (y # zs)"

definition newline :: string where
  "newline = [CHR 0x0A]"

text \<open>\<open>s.startswith(p)\<close> and \<open>s.endswith(p)\<close>.\<close>

definition starts_with :: "string \<Rightarrow> string \<Rightarrow> bool" where
  "starts_with p s \<longleftrightarrow> take (length p) s = p"

definition ends_with :: "string \<Rightarrow> string \<Rightarrow> bool" where
  "ends_with p s \<longleftrightarrow> length p \<le> length s \<and> drop (length s - length p) s = p"

lemma starts_with_append [simp]: "starts_with p (p @ s)"
  by (simp add: starts_with_def)

lemma ends_with_append [simp]: "ends_with p (s @ p)"
  by (simp add: ends_with_def)

text \<open>\<open>s.replace(old, new)\<close>.\<close>

fun replace_all :: "string \<Rightarrow> string \<Rightarrow> string \<Rightarrow> string" where
  "replace_all old new [] = []"
| "replace_all old new (c # s) = (if old \<noteq> [] \<and> starts_with old (c # s)
     then new @ replace_all old new (drop (length old - 1) s) else c # replace_all old new s)"

lemma replace_char: "replace_all [c] [] s = filter (\<lambda>d. d \<noteq> c) s"
  by (induction s) (simp_all add: starts_with_def)

lemma replace_absent:
  assumes "c \<in> set old" "c \<notin> set s"
  shows "replace_all old new s = s"
proof -
  have "\<not> starts_with old t" if "set t \<subseteq> set s" for t
    using assms that set_take_subset [of "length old" t] by (auto simp: starts_with_def)
  then have "set t \<subseteq> set s \<Longrightarrow> replace_all old new t = t" for t
    by (induction t) auto
  then show ?thesis by blast
qed

text \<open>ASCII \<open>str.upper\<close> and \<open>str.strip\<close>.\<close>

definition upper_char :: "char \<Rightarrow> char" where
  "upper_char c = (let n = of_char c :: nat in if 97 \<le> n \<and> n \<le> 122 then char_of (n - 32) else c)"

definition is_space :: "char \<Rightarrow> bool" where
  "is_space c \<longleftrightarrow> c \<in> {CHR '' '', CHR 0x09, CHR 0x0A, CHR 0x0B, CHR 0x0C, CHR 0x0D}"

definition strip :: "string \<Rightarrow> string" where
  "strip s = rev (dropWhile is_space (rev (dropWhile is_space s)))"

section \<open>Lists\<close>

lemma sum_list_if_filter: "sum_list (map (\<lambda>x. if P x then 1 else 0) xs) = length (filter P xs)"
  by (induction xs) auto

lemma find_Some_in: "find P xs = Some x \<Longrightarrow> x \<in> set xs \<and> P x"
  by (induction xs) (auto split: if_splits)

lemma length_filter_mono: "(\<And>x. x \<in> set xs \<Longrightarrow> P x \<Longrightarrow> Q x) \<Longrightarrow> length (filter P xs) \<le> length (filter Q xs)"
  by (induction xs) (auto simp: le_SucI)

lemma length_filter_card: "distinct xs \<Longrightarrow> length (filter P xs) = card {x \<in> set xs. P x}"
  by (metis distinct_card distinct_filter set_filter)

end
