(* ===== verification/PyTime.thy ===== *)
theory PyTime
  imports Prelude
begin

text \<open>
  The part of \<open>datetime\<close> the program uses: calendar fields with an optional UTC offset
  in minutes, comparison, subtraction of a number of minutes, \<open>isoformat\<close>,
  \<open>fromisoformat\<close> on the spellings \<open>isoformat\<close> produces (and a trailing
  \<open>Z\<close>), and the one \<open>strftime\<close> format of the source. The calendar conversions
  are those of the standard library.
\<close>

record datetime =
  dt_year :: int
  dt_month :: int
  dt_day :: int
  dt_hour :: int
  dt_minute :: int
  dt_second :: int
  dt_micro :: int
  dt_offset :: "int option"

section \<open>Calendar\<close>

definition is_leap :: "int \<Rightarrow> bool" where
  "is_leap y \<longleftrightarrow> y mod 4 = 0 \<and> (y mod 100 \<noteq> 0 \<or> y mod 400 = 0)"

definition days_in_month :: "int \<Rightarrow> int \<Rightarrow> int" where
  "days_in_month y m = (if m = 2 then (if is_leap y then 29 else 28)
     else if m \<in> {4, 6, 9, 11} then 30 else 31)"

definition days_before_month :: "int \<Rightarrow> int \<Rightarrow> int" where
  "days_before_month y m =
     (if m \<in> {1..12} then [0, 31, 59, 90, 120, 151, 181, 212, 243, 273, 304, 334] ! nat (m - 1) else 0)
       + (if 2 < m \<and> is_leap y then 1 else 0)"

definition days_before_year :: "int \<Rightarrow> int" where
  "days_before_year y = (let p = y - 1 in p * 365 + p div 4 - p div 100 + p div 400)"

definition ymd2ord :: "int \<Rightarrow> int \<Rightarrow> int \<Rightarrow> int" where
  "ymd2ord y m d = days_before_year y + days_before_month y m + d"

definition ord2ymd :: "int \<Rightarrow> int \<times> int \<times> int" where
  "ord2ymd n0 = (let n = n0 - 1; n400 = n div 146097; a = n mod 146097;
     n100 = a div 36524; b = a mod 36524; n4 = b div 1461; c = b mod 1461;
     n1 = c div 365; r = c mod 365; year = n400 * 400 + 1 + n100 * 100 + n4 * 4 + n1 in
     if n1 = 4 \<or> n100 = 4 then (year - 1, 12, 31)
     else (let month = (r + 50) div 32; before = days_before_month year month in
       if r < before then
         (year, month - 1, r - (before - days_in_month year (month - 1)) + 1)
       else (year, month, r - before + 1)))"

definition valid_datetime :: "datetime \<Rightarrow> bool" where
  "valid_datetime d \<longleftrightarrow> 1 \<le> dt_year d \<and> dt_year d \<le> 9999 \<and> 1 \<le> dt_month d \<and> dt_month d \<le> 12
     \<and> 1 \<le> dt_day d \<and> dt_day d \<le> days_in_month (dt_year d) (dt_month d)
     \<and> 0 \<le> dt_hour d \<and> dt_hour d < 24 \<and> 0 \<le> dt_minute d \<and> dt_minute d < 60
     \<and> 0 \<le> dt_second d \<and> dt_second d < 60 \<and> 0 \<le> dt_micro d \<and> dt_micro d < 1000000
     \<and> (case dt_offset d of None \<Rightarrow> True | Some z \<Rightarrow> - 1440 < z \<and> z < 1440)"

section \<open>Comparison and subtraction\<close>

text \<open>Microseconds from the calendar's origin, the offset not applied.\<close>

definition dt_wall :: "datetime \<Rightarrow> int" where
  "dt_wall d = (((ymd2ord (dt_year d) (dt_month d) (dt_day d) * 24 + dt_hour d) * 60
     + dt_minute d) * 60 + dt_second d) * 1000000 + dt_micro d"

text \<open>\<open>a < b\<close>: naive and aware values cannot be compared.\<close>

definition dt_less :: "datetime \<Rightarrow> datetime \<Rightarrow> bool res" where
  "dt_less a b = (case (dt_offset a, dt_offset b) of
     (None, None) \<Rightarrow> Inr (dt_wall a < dt_wall b)
   | (Some x, Some y) \<Rightarrow> Inr (dt_wall a - x * 60000000 < dt_wall b - y * 60000000)
   | _ \<Rightarrow> Inl (TypeError ''can't compare offset-naive and offset-aware datetimes''))"

definition dt_minus_minutes :: "datetime \<Rightarrow> int \<Rightarrow> datetime res" where
  "dt_minus_minutes d k = (let t = dt_wall d - k * 60000000; us = t mod 1000000;
     s = t div 1000000; sec = s mod 60; mi = s div 60; minu = mi mod 60; h = mi div 60;
     hour = h mod 24; n = h div 24; (y, m, dd) = ord2ymd n in
     if n < 1 \<or> 3652059 < n then Inl (OverflowError ''date value out of range'')
     else Inr \<lparr>dt_year = y, dt_month = m, dt_day = dd, dt_hour = hour, dt_minute = minu,
       dt_second = sec, dt_micro = us, dt_offset = dt_offset d\<rparr>)"

section \<open>Text\<close>

definition iso_offset :: "int option \<Rightarrow> string" where
  "iso_offset z = (case z of None \<Rightarrow> [] | Some k \<Rightarrow>
     (if k < 0 then ''-'' else ''+'') @ zero_pad 2 (\<bar>k\<bar> div 60) @ '':'' @ zero_pad 2 (\<bar>k\<bar> mod 60))"

definition iso_seconds :: "datetime \<Rightarrow> string" where
  "iso_seconds d = zero_pad 4 (dt_year d) @ ''-'' @ zero_pad 2 (dt_month d) @ ''-''
     @ zero_pad 2 (dt_day d) @ ''T'' @ zero_pad 2 (dt_hour d) @ '':'' @ zero_pad 2 (dt_minute d)
     @ '':'' @ zero_pad 2 (dt_second d)"

definition isoformat :: "datetime \<Rightarrow> string" where
  "isoformat d = iso_seconds d
     @ (if dt_micro d = 0 then [] else ''.'' @ zero_pad 6 (dt_micro d)) @ iso_offset (dt_offset d)"

text \<open>\<open>isoformat(timespec="microseconds")\<close>.\<close>

definition isoformat_us :: "datetime \<Rightarrow> string" where
  "isoformat_us d = iso_seconds d @ ''.'' @ zero_pad 6 (dt_micro d) @ iso_offset (dt_offset d)"

text \<open>\<open>strftime("%Y%m%d%H%M%S%f")\<close>.\<close>

definition strftime_compact :: "datetime \<Rightarrow> string" where
  "strftime_compact d = zero_pad 4 (dt_year d) @ zero_pad 2 (dt_month d) @ zero_pad 2 (dt_day d)
     @ zero_pad 2 (dt_hour d) @ zero_pad 2 (dt_minute d) @ zero_pad 2 (dt_second d)
     @ zero_pad 6 (dt_micro d)"

text \<open>A fixed number of decimal digits, and an expected character.\<close>

definition is_digit :: "char \<Rightarrow> bool" where
  "is_digit c \<longleftrightarrow> 48 \<le> (of_char c :: int) \<and> (of_char c :: int) \<le> 57"

definition digits_value :: "string \<Rightarrow> int" where
  "digits_value s = foldl (\<lambda>a c. 10 * a + (of_char c - 48)) 0 s"

definition take_number :: "nat \<Rightarrow> string \<Rightarrow> (int \<times> string) option" where
  "take_number k s = (if k \<le> length s \<and> list_all is_digit (take k s)
     then Some (digits_value (take k s), drop k s) else None)"

definition take_char :: "char \<Rightarrow> string \<Rightarrow> string option" where
  "take_char c s = (case s of [] \<Rightarrow> None | x # r \<Rightarrow> if x = c then Some r else None)"

definition take_micro :: "string \<Rightarrow> (int \<times> string) option" where
  "take_micro s = (case take_char (CHR ''.'') s of None \<Rightarrow> Some (0, s) | Some r \<Rightarrow> take_number 6 r)"

definition take_offset :: "string \<Rightarrow> int option option" where
  "take_offset s = (if s = [] then Some None else if s = ''Z'' then Some (Some 0)
     else if hd s = CHR ''+'' \<or> hd s = CHR ''-'' then
       Option.bind (take_number 2 (tl s)) (\<lambda>(h, s1). Option.bind (take_char (CHR '':'') s1)
         (\<lambda>s2. Option.bind (take_number 2 s2) (\<lambda>(m, s3).
           if s3 = [] \<and> m < 60 then
             Some (Some (if hd s = CHR ''-'' then - (h * 60 + m) else h * 60 + m)) else None)))
     else None)"

definition parse_datetime :: "string \<Rightarrow> datetime option" where
  "parse_datetime s0 = Option.bind (take_number 4 s0) (\<lambda>(y, s1).
     Option.bind (take_char (CHR ''-'') s1) (\<lambda>s2. Option.bind (take_number 2 s2) (\<lambda>(mo, s3).
     Option.bind (take_char (CHR ''-'') s3) (\<lambda>s4. Option.bind (take_number 2 s4) (\<lambda>(d, s5).
     Option.bind (take_char (CHR ''T'') s5) (\<lambda>s6. Option.bind (take_number 2 s6) (\<lambda>(h, s7).
     Option.bind (take_char (CHR '':'') s7) (\<lambda>s8. Option.bind (take_number 2 s8) (\<lambda>(mi, s9).
     Option.bind (take_char (CHR '':'') s9) (\<lambda>s10. Option.bind (take_number 2 s10) (\<lambda>(sec, s11).
     Option.bind (take_micro s11) (\<lambda>(us, s12). Option.bind (take_offset s12) (\<lambda>z.
       Some \<lparr>dt_year = y, dt_month = mo, dt_day = d, dt_hour = h, dt_minute = mi,
         dt_second = sec, dt_micro = us, dt_offset = z\<rparr>)))))))))))))"

definition fromisoformat :: "string \<Rightarrow> datetime res" where
  "fromisoformat s = (case parse_datetime s of
     Some d \<Rightarrow> if valid_datetime d then Inr d
       else Inl (ValueError (''Invalid isoformat string: '' @ s))
   | None \<Rightarrow> Inl (ValueError (''Invalid isoformat string: '' @ s)))"

section \<open>Printing and reading back\<close>

lemma digits_small [simp]: "n < 10 \<Longrightarrow> digits n = [digit n]"
  by (simp add: digits.simps)

lemma digit_0: "digit 0 = CHR ''0''"
  by code_simp

lemma zero_pad_Suc:
  assumes "0 \<le> n" "0 < k"
  shows "zero_pad (Suc k) n = zero_pad k (n div 10) @ [digit (n mod 10)]"
proof (cases "n < 10")
  case True
  with assms have "n div 10 = 0" "n mod 10 = n" by auto
  moreover obtain j where "k = Suc j" using assms(2) by (cases k) auto
  ultimately show ?thesis using True by (simp add: zero_pad_def digit_0 replicate_append_same)
next
  case False
  then have "digits n = digits (n div 10) @ [digit (n mod 10)]" by (simp add: digits.simps [of n])
  then show ?thesis by (simp add: zero_pad_def)
qed

lemma of_char_digit: "0 \<le> d \<Longrightarrow> d < 10 \<Longrightarrow> of_char (digit d) = (48 + d :: int)"
  by (simp add: digit_def)

lemma digits_value_snoc: "digits_value (s @ [c]) = 10 * digits_value s + (of_char c - 48)"
  by (simp add: digits_value_def)

lemma zero_pad_props:
  assumes "0 < k" "0 \<le> n" "n < 10 ^ k"
  shows "length (zero_pad k n) = k \<and> list_all is_digit (zero_pad k n) \<and> digits_value (zero_pad k n) = n"
  using assms
proof (induction k arbitrary: n)
  case (Suc k)
  show ?case
  proof (cases "k = 0")
    case True
    with Suc.prems show ?thesis
      by (simp add: zero_pad_def is_digit_def digits_value_def of_char_digit)
  next
    case False
    with Suc.prems have "0 < k" "0 \<le> n div 10" "n div 10 < 10 ^ k" by auto
    with Suc.IH [of "n div 10"] False Suc.prems(2) show ?thesis
      by (simp add: zero_pad_Suc digits_value_snoc is_digit_def of_char_digit)
  qed
qed simp

lemma take_number_zero_pad [simp]:
  assumes "0 < k" "0 \<le> n" "n < 10 ^ k"
  shows "take_number k (zero_pad k n @ s) = Some (n, s)"
  using zero_pad_props [OF assms] by (simp add: take_number_def)

lemma take_char_Cons [simp]: "take_char c (c # s) = Some s"
  by (simp add: take_char_def)

lemma zero_pad_hd:
  assumes "0 < k" "0 \<le> n" "n < 10 ^ k" shows "\<exists>c r. zero_pad k n = c # r \<and> is_digit c"
proof -
  from zero_pad_props [OF assms] assms(1) obtain c r where "zero_pad k n = c # r"
    by (cases "zero_pad k n") auto
  with zero_pad_props [OF assms] show ?thesis by auto
qed

lemma take_offset_iso:
  assumes "case z of None \<Rightarrow> True | Some k \<Rightarrow> - 1440 < k \<and> k < 1440"
  shows "take_offset (iso_offset z) = Some z"
proof (cases z)
  case None
  then show ?thesis by (simp add: take_offset_def iso_offset_def)
next
  case (Some k)
  define a where "a = \<bar>k\<bar>"
  have a: "0 \<le> a" "a < 1440" using assms Some by (auto simp: a_def)
  then have b: "0 \<le> a div 60" "a div 60 < 100" "0 \<le> a mod 60" "a mod 60 < 100" "a mod 60 < 60"
    by auto
  have last: "take_number 2 (zero_pad 2 (a mod 60)) = Some (a mod 60, [])"
    using take_number_zero_pad [of 2 "a mod 60" "[]"] b by simp
  have "a div 60 * 60 + a mod 60 = a" by simp
  then show ?thesis using b last
    by (auto simp: take_offset_def iso_offset_def Some a_def [symmetric] abs_if split: if_splits)
      (auto simp: a_def)
qed

lemma take_micro_iso:
  assumes "0 \<le> us" "us < 1000000"
  shows "take_micro ((if us = 0 then [] else ''.'' @ zero_pad 6 us) @ iso_offset z) = Some (us, iso_offset z)"
proof (cases "us = 0")
  case True
  then show ?thesis
    by (auto simp: take_micro_def iso_offset_def take_char_def split: option.splits)
next
  case False
  with assms show ?thesis by (simp add: take_micro_def)
qed

lemma fromisoformat_isoformat:
  assumes "valid_datetime d" shows "fromisoformat (isoformat d) = Inr d"
proof -
  have dim: "days_in_month y m \<le> 31" for y m by (simp add: days_in_month_def)
  have "dt_day d < 100" using assms dim [of "dt_year d" "dt_month d"] by (auto simp: valid_datetime_def)
  then have "parse_datetime (isoformat d) = Some d"
    using assms take_micro_iso [of "dt_micro d" "dt_offset d"] take_offset_iso [of "dt_offset d"]
    by (simp add: parse_datetime_def isoformat_def iso_seconds_def valid_datetime_def)
  then show ?thesis using assms by (simp add: fromisoformat_def)
qed

lemma fromisoformat_isoformat_us:
  assumes "valid_datetime d" shows "fromisoformat (isoformat_us d) = Inr d"
proof -
  have dim: "days_in_month y m \<le> 31" for y m by (simp add: days_in_month_def)
  have "dt_day d < 100" using assms dim [of "dt_year d" "dt_month d"] by (auto simp: valid_datetime_def)
  moreover have "take_micro (''.'' @ zero_pad 6 (dt_micro d) @ r) = Some (dt_micro d, r)" for r
    using assms by (simp add: take_micro_def valid_datetime_def)
  ultimately have "parse_datetime (isoformat_us d) = Some d"
    using assms take_offset_iso [of "dt_offset d"]
    by (simp add: parse_datetime_def isoformat_us_def iso_seconds_def valid_datetime_def)
  then show ?thesis using assms by (simp add: fromisoformat_def)
qed

end
