(* ===== verification/PyValue.thy ===== *)
theory PyValue
  imports PyFloat
begin

text \<open>
  Untyped values: what \<open>dict[str, object]\<close> and parsed JSON hold. \<open>PList\<close> stands
  for lists and tuples alike. The accessors follow subscripting, \<open>dict.get\<close> and the
  truth test.
\<close>

datatype pyval =
    PNone
  | PBool bool
  | PInt int
  | PFloat flt
  | PStr string
  | PList "pyval list"
  | PDict "(string \<times> pyval) list"

text \<open>\<open>v[k]\<close> with a string key, and \<open>v.get(k)\<close> on a dictionary.\<close>

fun sub :: "pyval \<Rightarrow> string \<Rightarrow> pyval res" where
  "sub (PDict d) k = getitem d k"
| "sub _ k = Inl (TypeError ''indices must be integers'')"

fun pget :: "pyval \<Rightarrow> string \<Rightarrow> pyval res" where
  "pget (PDict d) k = Inr (case map_of d k of None \<Rightarrow> PNone | Some v \<Rightarrow> v)"
| "pget _ k = Inl (TypeError ''object has no attribute get'')"

text \<open>\<open>v.get(k, default)\<close>.\<close>

fun pget_or :: "pyval \<Rightarrow> string \<Rightarrow> pyval \<Rightarrow> pyval res" where
  "pget_or (PDict d) k v = Inr (case map_of d k of None \<Rightarrow> v | Some w \<Rightarrow> w)"
| "pget_or _ k v = Inl (TypeError ''object has no attribute get'')"

fun is_dict :: "pyval \<Rightarrow> bool" where
  "is_dict (PDict _) = True"
| "is_dict _ = False"

text \<open>The truth test \<open>bool(v)\<close>.\<close>

fun truthy :: "pyval \<Rightarrow> bool" where
  "truthy PNone = False"
| "truthy (PBool b) = b"
| "truthy (PInt i) = (i \<noteq> 0)"
| "truthy (PFloat x) = (x \<noteq> 0)"
| "truthy (PStr s) = (s \<noteq> [])"
| "truthy (PList xs) = (xs \<noteq> [])"
| "truthy (PDict d) = (d \<noteq> [])"

text \<open>
  Reading a value where the source takes it as a string, a list or a dictionary without
  converting it; a value of another type fails later in the source, here at once.
\<close>

fun as_str :: "pyval \<Rightarrow> string res" where
  "as_str (PStr s) = Inr s"
| "as_str _ = Inl (TypeError ''expected str'')"

fun as_list :: "pyval \<Rightarrow> pyval list res" where
  "as_list (PList xs) = Inr xs"
| "as_list _ = Inl (TypeError ''object is not iterable'')"

fun as_items :: "pyval \<Rightarrow> (string \<times> pyval) list res" where
  "as_items (PDict d) = Inr d"
| "as_items _ = Inl (TypeError ''object has no attribute items'')"

fun as_opt_str :: "pyval \<Rightarrow> string option res" where
  "as_opt_str PNone = Inr None"
| "as_opt_str (PStr s) = Inr (Some s)"
| "as_opt_str _ = Inl (TypeError ''expected str or None'')"

text \<open>\<open>float(v)\<close> and \<open>int(v)\<close> on numbers; text arguments do not occur here.\<close>

fun to_float :: "pyval \<Rightarrow> flt res" where
  "to_float (PFloat x) = Inr x"
| "to_float (PInt i) = Inr (fl (of_int i))"
| "to_float (PBool b) = Inr (if b then 1 else 0)"
| "to_float _ = Inl (TypeError ''float() argument must be a string or a real number'')"

fun to_int :: "pyval \<Rightarrow> int res" where
  "to_int (PInt i) = Inr i"
| "to_int (PBool b) = Inr (if b then 1 else 0)"
| "to_int (PFloat x) = Inr (if x < 0 then \<lceil>x\<rceil> else \<lfloor>x\<rfloor>)"
| "to_int _ = Inl (TypeError ''int() argument must be a string or a real number'')"

definition opt_str :: "string option \<Rightarrow> pyval" where
  "opt_str s = (case s of None \<Rightarrow> PNone | Some t \<Rightarrow> PStr t)"

definition opt_float :: "flt option \<Rightarrow> pyval" where
  "opt_float s = (case s of None \<Rightarrow> PNone | Some t \<Rightarrow> PFloat t)"

definition opt_bool :: "bool option \<Rightarrow> pyval" where
  "opt_bool s = (case s of None \<Rightarrow> PNone | Some t \<Rightarrow> PBool t)"

definition opt_int :: "int option \<Rightarrow> pyval" where
  "opt_int s = (case s of None \<Rightarrow> PNone | Some t \<Rightarrow> PInt t)"

lemma as_opt_str_opt_str [simp]: "as_opt_str (opt_str s) = Inr s"
  by (cases s) (simp_all add: opt_str_def)

text \<open>Reading a dictionary display key by key.\<close>

lemma sub_hit [simp]: "sub (PDict ((k, v) # d)) k = Inr v"
  by (simp add: getitem_def)

lemma sub_miss [simp]: "k \<noteq> k' \<Longrightarrow> sub (PDict ((k', v) # d)) k = sub (PDict d) k"
  by (simp add: getitem_def)

lemma sub_empty [simp]: "sub (PDict []) k = Inl (KeyError k)"
  by simp

lemma pget_empty [simp]: "pget (PDict []) k = Inr PNone"
  by simp

lemma pget_hit [simp]: "pget (PDict ((k, v) # d)) k = Inr v"
  by simp

lemma pget_miss [simp]: "k \<noteq> k' \<Longrightarrow> pget (PDict ((k', v) # d)) k = pget (PDict d) k"
  by simp

declare sub.simps(1) [simp del] pget.simps(1) [simp del]

end
