(* ===== verification/Contracts.thy ===== *)
theory Contracts
  imports PyTime PyValue
begin

text \<open>
  The frozen dataclasses of one consensus round (\<open>contracts/*.py\<close>): HART payloads, the
  edge-local replicated state, the round input, trust evidence, the audit package and the
  observability views. A dataclass with a \<open>__post_init__\<close> has a constructor function
  \<open>mk_<Class>\<close> that runs the checks in the source's order; \<open>to_dict\<close> methods
  build a \<open>pyval\<close>.
\<close>

section \<open>HART payload\<close>

record device_info =
  di_tag :: string
  di_long_tag :: string
  di_manufacturer_id :: int
  di_device_type :: int

record process_variable =
  pv_value :: flt
  pv_unit :: string
  pv_unit_code :: "int option"
  pv_description :: "string option"

record physics_metrics =
  pm_noise_floor :: flt
  pm_rate_of_change_dtdt :: flt
  pm_local_stability_score :: flt

record process_data =
  pd_pv :: process_variable
  pd_sv :: "process_variable option"
  pd_loop_current_ma :: flt
  pd_pv_percent_range :: flt
  pd_physics_metrics :: physics_metrics

record diagnostics =
  dg_device_status_hex :: string
  dg_field_device_malfunction :: bool
  dg_loop_current_saturated :: bool
  dg_cold_start :: bool

record raw_hart_payload =
  hp_protocol :: string
  hp_gateway_id :: string
  hp_timestamp :: string
  hp_device_info :: device_info
  hp_process_data :: process_data
  hp_diagnostics :: diagnostics

definition device_info_dict :: "device_info \<Rightarrow> pyval" where
  "device_info_dict d = PDict [(''tag'', PStr (di_tag d)), (''long_tag'', PStr (di_long_tag d)),
     (''manufacturer_id'', PInt (di_manufacturer_id d)), (''device_type'', PInt (di_device_type d))]"

definition process_variable_dict :: "process_variable \<Rightarrow> pyval" where
  "process_variable_dict v = PDict [(''value'', PFloat (pv_value v)), (''unit'', PStr (pv_unit v)),
     (''unit_code'', opt_int (pv_unit_code v)), (''description'', opt_str (pv_description v))]"

definition physics_metrics_dict :: "physics_metrics \<Rightarrow> pyval" where
  "physics_metrics_dict m = PDict [(''noise_floor'', PFloat (pm_noise_floor m)),
     (''rate_of_change_dtdt'', PFloat (pm_rate_of_change_dtdt m)),
     (''local_stability_score'', PFloat (pm_local_stability_score m))]"

text \<open>\<open>process_data.pop("sv", None)\<close> when it is \<open>None\<close>.\<close>

definition process_data_dict :: "process_data \<Rightarrow> pyval" where
  "process_data_dict p = PDict ([(''pv'', process_variable_dict (pd_pv p))]
     @ (case pd_sv p of None \<Rightarrow> [] | Some v \<Rightarrow> [(''sv'', process_variable_dict v)])
     @ [(''loop_current_ma'', PFloat (pd_loop_current_ma p)),
        (''pv_percent_range'', PFloat (pd_pv_percent_range p)),
        (''physics_metrics'', physics_metrics_dict (pd_physics_metrics p))])"

definition diagnostics_dict :: "diagnostics \<Rightarrow> pyval" where
  "diagnostics_dict d = PDict [(''device_status_hex'', PStr (dg_device_status_hex d)),
     (''field_device_malfunction'', PBool (dg_field_device_malfunction d)),
     (''loop_current_saturated'', PBool (dg_loop_current_saturated d)),
     (''cold_start'', PBool (dg_cold_start d))]"

definition payload_to_dict :: "raw_hart_payload \<Rightarrow> pyval" where
  "payload_to_dict p = PDict [(''protocol'', PStr (hp_protocol p)),
     (''gateway_id'', PStr (hp_gateway_id p)), (''timestamp'', PStr (hp_timestamp p)),
     (''device_info'', device_info_dict (hp_device_info p)),
     (''process_data'', process_data_dict (hp_process_data p)),
     (''diagnostics'', diagnostics_dict (hp_diagnostics p))]"

section \<open>Round identity and input\<close>

record round_identity =
  round_id :: string
  window_started_at :: datetime
  window_ended_at :: datetime

definition mk_RoundIdentity :: "string \<Rightarrow> datetime \<Rightarrow> datetime \<Rightarrow> round_identity res" where
  "mk_RoundIdentity i a b = attempt (dt_less b a) (\<lambda>before.
     if before then Inl (ValueError ''Round window end must be greater than or equal to the start.'')
     else Inr \<lparr>round_id = i, window_started_at = a, window_ended_at = b\<rparr>)"

record replicated_state =
  rs_round_identity :: round_identity
  owner_edge_id :: string
  rs_participating_edges :: "string list"
  observations_by_sensor :: "(string, raw_hart_payload) dict"
  is_validated :: bool

definition mk_EdgeLocalReplicatedState ::
  "round_identity \<Rightarrow> string \<Rightarrow> string list \<Rightarrow> (string, raw_hart_payload) dict \<Rightarrow> bool
     \<Rightarrow> replicated_state res" where
  "mk_EdgeLocalReplicatedState r owner edges obs validated =
     (if validated then Inl (ValueError ''Edge-local replicated state must remain non-validated.'')
      else Inr \<lparr>rs_round_identity = r, owner_edge_id = owner, rs_participating_edges = edges,
        observations_by_sensor = obs, is_validated = validated\<rparr>)"

record consensus_round_input =
  ri_round_identity :: round_identity
  ri_participating_edges :: "string list"
  replicated_states :: "replicated_state list"

text \<open>The loop of \<open>__post_init__\<close> over the states.\<close>

fun check_round_states :: "round_identity \<Rightarrow> string list \<Rightarrow> replicated_state list \<Rightarrow> unit res" where
  "check_round_states r edges [] = Inr ()"
| "check_round_states r edges (s # ss) =
     (if rs_round_identity s \<noteq> r
        then Inl (ValueError ''All replicated states must share the same round identity.'')
      else if owner_edge_id s \<notin> set edges
        then Inl (ValueError ''Replicated state owner must be a participating edge.'')
      else check_round_states r edges ss)"

definition mk_ConsensusRoundInput ::
  "round_identity \<Rightarrow> string list \<Rightarrow> replicated_state list \<Rightarrow> consensus_round_input res" where
  "mk_ConsensusRoundInput r edges states = attempt (check_round_states r edges states) (\<lambda>_.
     Inr \<lparr>ri_round_identity = r, ri_participating_edges = edges, replicated_states = states\<rparr>)"

section \<open>Trust evidence\<close>

datatype exclusion_reason =
  INSUFFICIENT_DATA | INCONSISTENT_VIEW | TRUST_BELOW_THRESHOLD | SUSPECTED_BYZANTINE_BEHAVIOR

fun reason_value :: "exclusion_reason \<Rightarrow> string" where
  "reason_value INSUFFICIENT_DATA = ''insufficient_data''"
| "reason_value INCONSISTENT_VIEW = ''inconsistent_view''"
| "reason_value TRUST_BELOW_THRESHOLD = ''trust_below_threshold''"
| "reason_value SUSPECTED_BYZANTINE_BEHAVIOR = ''suspected_byzantine_behavior''"

record exclusion_decision =
  ex_round_identity :: round_identity
  ex_edge_id :: string
  ex_reason :: exclusion_reason
  ex_detail :: "string option"

record sensor_deviation =
  sd_sensor_name :: string
  sd_deviation_value :: flt
  sd_unit :: string

record pairwise_distance =
  pw_peer_edge_id :: string
  pw_sensor_name :: string
  pw_distance_value :: flt
  pw_unit :: string

record trust_evidence =
  te_round_identity :: round_identity
  te_edge_id :: string
  te_score :: flt
  te_compatible_peer_count :: int
  te_overall_normalized_deviation :: flt
  te_sensor_deviations :: "sensor_deviation list"
  te_pairwise_distances :: "pairwise_distance list"

record trust_rank_entry =
  tr_edge_id :: string
  tr_score :: flt

record trust_ranking =
  tr_round_identity :: round_identity
  tr_participating_edges :: "string list"
  tr_entries :: "trust_rank_entry list"

definition mk_TrustRanking ::
  "round_identity \<Rightarrow> string list \<Rightarrow> trust_rank_entry list \<Rightarrow> trust_ranking res" where
  "mk_TrustRanking r edges entries =
     (if tr_edge_id ` set entries \<noteq> set edges
        then Inl (ValueError ''Trust ranking must reference only participating edges for the round.'')
      else Inr \<lparr>tr_round_identity = r, tr_participating_edges = edges, tr_entries = entries\<rparr>)"

section \<open>Result and audit package\<close>

datatype consensus_status = SUCCESS | FAILED_CONSENSUS

fun status_value :: "consensus_status \<Rightarrow> string" where
  "status_value SUCCESS = ''success''"
| "status_value FAILED_CONSENSUS = ''failed_consensus''"

record valid_state =
  vs_round_identity :: round_identity
  source_edges :: "string list"
  sensor_values :: "(string, flt) dict"

record consensus_result =
  cr_round_identity :: round_identity
  cr_status :: consensus_status
  cr_participating_edges :: "string list"
  cr_trust_ranking :: trust_ranking
  cr_exclusions :: "exclusion_decision list"
  cr_valid_state :: "valid_state option"

definition mk_ConsensusResult ::
  "round_identity \<Rightarrow> consensus_status \<Rightarrow> string list \<Rightarrow> trust_ranking \<Rightarrow> exclusion_decision list
     \<Rightarrow> valid_state option \<Rightarrow> consensus_result res" where
  "mk_ConsensusResult r st edges ranking exs vs =
     (if tr_round_identity ranking \<noteq> r
        then Inl (ValueError ''Trust ranking must share the same round identity as the result.'')
      else if \<exists>e \<in> set exs. ex_round_identity e \<noteq> r
        then Inl (ValueError ''Exclusion decisions must be round-scoped.'')
      else if tr_edge_id ` set (tr_entries ranking) \<noteq> set edges
        then Inl (ValueError ''Trust ranking must reference only participating edges for that round.'')
      else if st = SUCCESS \<and> vs = None
        then Inl (ValueError ''Successful consensus must include a consensused valid state.'')
      else if st = FAILED_CONSENSUS \<and> vs \<noteq> None
        then Inl (ValueError ''Failed consensus must not include a consensused valid state.'')
      else if (case vs of None \<Rightarrow> False | Some v \<Rightarrow> vs_round_identity v \<noteq> r)
        then Inl (ValueError ''Consensused valid state must share the same round identity.'')
      else Inr \<lparr>cr_round_identity = r, cr_status = st, cr_participating_edges = edges,
        cr_trust_ranking = ranking, cr_exclusions = exs, cr_valid_state = vs\<rparr>)"

record audit_package =
  ap_round_input :: consensus_round_input
  ap_trust_ranking :: trust_ranking
  ap_exclusions :: "exclusion_decision list"
  ap_trust_evidence :: "trust_evidence list"
  ap_final_status :: consensus_status
  ap_consensus_result :: consensus_result
  ap_valid_state :: "valid_state option"

definition mk_ConsensusAuditPackage ::
  "consensus_round_input \<Rightarrow> trust_ranking \<Rightarrow> exclusion_decision list \<Rightarrow> trust_evidence list
     \<Rightarrow> consensus_status \<Rightarrow> consensus_result \<Rightarrow> valid_state option \<Rightarrow> audit_package res" where
  "mk_ConsensusAuditPackage ri ranking exs evs st result vs =
     (if tr_round_identity ranking \<noteq> ri_round_identity ri
        then Inl (ValueError ''Trust ranking must share the round identity of the input.'')
      else if \<exists>e \<in> set exs. ex_round_identity e \<noteq> ri_round_identity ri
        then Inl (ValueError ''Exclusions must be scoped to the audit round.'')
      else if \<exists>e \<in> set evs. te_round_identity e \<noteq> ri_round_identity ri
        then Inl (ValueError ''Trust evidence must be scoped to the audit round.'')
      else if cr_round_identity result \<noteq> ri_round_identity ri
        then Inl (ValueError ''Consensus result must share the round identity of the input.'')
      else if cr_trust_ranking result \<noteq> ranking
        then Inl (ValueError ''Audit package trust ranking must match the consensus result.'')
      else if cr_exclusions result \<noteq> exs
        then Inl (ValueError ''Audit package exclusions must match the consensus result.'')
      else if cr_status result \<noteq> st
        then Inl (ValueError ''Audit package final status must match the consensus result.'')
      else if cr_valid_state result \<noteq> vs
        then Inl (ValueError ''Audit package valid state must match the consensus result.'')
      else Inr \<lparr>ap_round_input = ri, ap_trust_ranking = ranking, ap_exclusions = exs,
        ap_trust_evidence = evs, ap_final_status = st, ap_consensus_result = result,
        ap_valid_state = vs\<rparr>)"

section \<open>Facts\<close>

lemma check_round_states_Inr:
  "check_round_states r edges ss = Inr () \<longleftrightarrow>
     (\<forall>s \<in> set ss. rs_round_identity s = r \<and> owner_edge_id s \<in> set edges)"
  by (induction ss) auto

lemma mk_ConsensusRoundInput_Inr:
  "mk_ConsensusRoundInput r edges states = Inr ri \<longleftrightarrow>
     (\<forall>s \<in> set states. rs_round_identity s = r \<and> owner_edge_id s \<in> set edges) \<and>
     ri = \<lparr>ri_round_identity = r, ri_participating_edges = edges, replicated_states = states\<rparr>"
  by (auto simp: mk_ConsensusRoundInput_def attempt_eq_Inr simp flip: check_round_states_Inr)

lemma reason_value_inject [simp]: "reason_value a = reason_value b \<longleftrightarrow> a = b"
  by (cases a; cases b) auto

lemma status_value_inject [simp]: "status_value a = status_value b \<longleftrightarrow> a = b"
  by (cases a; cases b) auto

end
