(* ===== verification/FloatLaws.thy ===== *)
theory FloatLaws
  imports PyFloat
begin

text \<open>
  Facts about the binary64 model of \<open>PyFloat\<close>: the rounding is monotone, odd, exact on
  doubles and nearest; the locale \<open>rounding\<close> packages what the components use; the
  compensated sum of non-negative floats is non-negative.
\<close>

section \<open>Rounding to an integer\<close>

lemma rhe_bounds: "of_int (rhe x) - 1/2 \<le> x" "x \<le> of_int (rhe x) + 1/2"
proof -
  have "of_int \<lfloor>x\<rfloor> \<le> x" "x < of_int \<lfloor>x\<rfloor> + 1" by linarith+
  then have "of_int \<lfloor>x\<rfloor> - 1/2 \<le> x \<and> x \<le> of_int \<lfloor>x\<rfloor> + 1" by linarith
  then show "of_int (rhe x) - 1/2 \<le> x" "x \<le> of_int (rhe x) + 1/2"
    by (auto simp: rhe_def Let_def algebra_simps split: if_splits)
qed

lemma rhe_ge: assumes "of_int n \<le> x" shows "n \<le> rhe x"
proof -
  from assms have "n \<le> \<lfloor>x\<rfloor>" by (simp add: le_floor_iff)
  then show ?thesis by (auto simp: rhe_def Let_def)
qed

lemma rhe_le: assumes "x \<le> of_int n" shows "rhe x \<le> n"
proof (cases "rat_of_int \<lfloor>x\<rfloor> = x")
  case True
  then have "rhe x = \<lfloor>x\<rfloor>" by (simp only: rhe_def Let_def) simp
  with True assms show ?thesis by (metis of_int_le_iff)
next
  case False
  with assms have "\<lfloor>x\<rfloor> + 1 \<le> n" by linarith
  then show ?thesis by (auto simp: rhe_def Let_def)
qed

lemma rhe_of_int [simp]: "rhe (of_int n) = n"
  by (intro antisym rhe_le rhe_ge) auto

lemma rhe_mono: assumes "x \<le> y" shows "rhe x \<le> rhe y"
proof (cases "\<lfloor>x\<rfloor> = \<lfloor>y\<rfloor>")
  case True
  with assms show ?thesis by (auto simp: rhe_def Let_def)
next
  case False
  with assms have "\<lfloor>x\<rfloor> < \<lfloor>y\<rfloor>" using floor_mono [OF assms] by linarith
  then have "x \<le> of_int \<lfloor>y\<rfloor>" by linarith
  then have "rhe x \<le> \<lfloor>y\<rfloor>" by (rule rhe_le)
  also have "\<lfloor>y\<rfloor> \<le> rhe y" by (rule rhe_ge) simp
  finally show ?thesis .
qed

lemma rhe_minus: "rhe (- x) = - rhe x"
proof (cases "rat_of_int \<lfloor>x\<rfloor> = x")
  case True
  then have "x = of_int \<lfloor>x\<rfloor>" by (rule sym)
  then obtain n where n: "x = of_int n" ..
  have "rhe (- x) = rhe (of_int (- n))" by (simp add: n)
  also have "\<dots> = - n" by (rule rhe_of_int)
  finally show ?thesis by (simp add: n)
next
  case False
  then have f: "\<lfloor>- x\<rfloor> = - \<lfloor>x\<rfloor> - 1" by linarith
  have r: "of_int \<lfloor>x\<rfloor> \<le> x" "x < of_int \<lfloor>x\<rfloor> + 1" by linarith+
  show ?thesis
    by (auto simp: rhe_def Let_def f)
qed

lemma bitlen_powi:
  assumes "0 < n"
  shows "2 powi (bitlen n - 1) \<le> rat_of_int n" "rat_of_int n < 2 powi bitlen n"
proof -
  obtain k where k: "bitlen n = int (Suc k)"
  proof
    have "0 < bitlen n"
      using bitlen_nonneg [of n] bitlen_eq_zero_iff [of n] assms by linarith
    then show "bitlen n = int (Suc (nat (bitlen n - 1)))" by simp
  qed
  from bitlen_bounds [OF assms] have b: "2 ^ k \<le> n" "n < 2 ^ Suc k"
    by (simp_all add: k nat_add_distrib del: power_Suc)
  have "rat_of_int (2 ^ k) \<le> rat_of_int n" "rat_of_int n < rat_of_int (2 ^ Suc k)"
    using b by (simp_all only: of_int_le_iff of_int_less_iff)
  moreover have "2 powi (bitlen n - 1) = (2::rat) ^ k" "2 powi bitlen n = (2::rat) ^ Suc k"
    by (simp_all only: k power_int_of_nat) simp
  ultimately show "2 powi (bitlen n - 1) \<le> rat_of_int n" "rat_of_int n < 2 powi bitlen n"
    by simp_all
qed

lemma fexpo_bounds:
  assumes "0 < x" shows "2 powi fexpo x \<le> x" "x < 2 powi (fexpo x + 1)"
proof -
  obtain n d where q: "quotient_of x = (n, d)" by fastforce
  have d: "0 < d" using q by (rule quotient_of_denom_pos)
  have x: "x = of_int n / of_int d" using q by (rule quotient_of_div)
  have n: "0 < n" using assms d by (simp add: x zero_less_divide_iff)
  define a where "a = bitlen n" 
  define b where "b = bitlen d"
  have N: "2 powi (a - 1) \<le> (of_int n :: rat)" "of_int n < (2::rat) powi a"
    using bitlen_powi [OF n] by (simp_all add: a_def)
  have D: "2 powi (b - 1) \<le> (of_int d :: rat)" "of_int d < (2::rat) powi b"
    using bitlen_powi [OF d] by (simp_all add: b_def)
  have up: "x < 2 powi (a - b + 1)"
  proof -
    have "x * 2 powi (b - 1) \<le> x * of_int d" using D(1) assms by (simp add: mult_left_mono)
    also have "\<dots> = of_int n" using d by (simp add: x)
    also have "\<dots> < 2 powi a" by (rule N(2))
    also have "(2::rat) powi a = 2 powi (a - b + 1) * 2 powi (b - 1)" by (simp flip: power_int_add)
    finally show ?thesis by simp
  qed
  have lo: "2 powi (a - b - 1) \<le> x"
  proof -
    have "2 powi (a - b - 1) * 2 powi b = (2::rat) powi (a - 1)" by (simp flip: power_int_add)
    also have "\<dots> \<le> of_int n" by (rule N(1))
    also have "\<dots> = x * of_int d" using d by (simp add: x)
    also have "\<dots> \<le> x * 2 powi b" using D(2) assms by (simp add: mult_left_mono)
    finally show ?thesis by simp
  qed
  have e: "fexpo x = (if 2 powi (a - b) \<le> x then a - b else a - b - 1)"
    by (simp add: fexpo_def q a_def b_def Let_def)
  show "2 powi fexpo x \<le> x" "x < 2 powi (fexpo x + 1)" using up lo by (auto simp: e)
qed

lemma ulp_pos [simp]: "0 < ulp x"
  by (simp add: ulp_def)

lemma ulp_neq_0 [simp]: "ulp x \<noteq> 0"
  using ulp_pos [of x] by linarith

lemma ulp_minus [simp]: "ulp (- x) = ulp x"
  by (simp add: ulp_def)

lemma powi_less_imp: "(2::rat) powi a < 2 powi b \<Longrightarrow> a < b"
  using power_int_increasing [of b a "2::rat"] by (cases "a < b") auto

lemma fexpo_less: "0 < x \<Longrightarrow> x < 2 powi e \<Longrightarrow> fexpo x < e"
  using fexpo_bounds(1) [of x] by (intro powi_less_imp) linarith

lemma fexpo_le: "0 < x \<Longrightarrow> 2 powi e \<le> x \<Longrightarrow> e \<le> fexpo x"
proof (rule ccontr)
  assume x: "0 < x" "2 powi e \<le> x" and "\<not> e \<le> fexpo x"
  then have "(2::rat) powi (fexpo x + 1) \<le> 2 powi e"
    by (intro power_int_increasing) auto
  with fexpo_bounds [OF x(1)] x(2) show False by linarith
qed

lemma fexpo_mono: "0 < x \<Longrightarrow> x \<le> y \<Longrightarrow> fexpo x \<le> fexpo y"
  using fexpo_bounds(1) [of x] by (intro fexpo_le) auto

lemma fl_0 [simp]: "fl 0 = 0"
  by (simp add: fl_def)

lemma fl_unfold: "fl x = of_int (rhe (x / ulp x)) * ulp x"
  using rhe_of_int [of 0] by (cases "x = 0") (simp_all add: fl_def Let_def)

lemma fl_minus: "fl (- x) = - fl x"
  by (simp add: fl_unfold rhe_minus)

text \<open>A multiple of the spacing at \<open>x\<close> or of a smaller power of two is not passed.\<close>

lemma fl_le_scaled: "x \<le> of_int m * ulp x \<Longrightarrow> fl x \<le> of_int m * ulp x"
  by (simp add: fl_unfold rhe_le pos_divide_le_eq)

lemma fl_ge_scaled: "of_int m * ulp x \<le> x \<Longrightarrow> of_int m * ulp x \<le> fl x"
  by (simp add: fl_unfold rhe_ge pos_le_divide_eq)

lemma powi_multiple:
  assumes "e' \<le> e" shows "\<exists>m::int. (2::rat) powi e = of_int m * 2 powi e'"
proof -
  have "(2::rat) powi e = 2 powi (e - e') * 2 powi e'" by (simp flip: power_int_add)
  also have "(2::rat) powi (e - e') = of_int (2 ^ nat (e - e'))"
    using assms by (simp add: power_int_def)
  finally show ?thesis by blast
qed

lemma fl_mono_pos:
  assumes "0 < x" "x \<le> y" shows "fl x \<le> fl y"
proof -
  define e where "e = max (fexpo x) (-1022)"
  define e' where "e' = max (fexpo y) (-1022)"
  have u: "ulp x = 2 powi (e - 52)" "ulp y = 2 powi (e' - 52)"
    using assms by (simp_all add: ulp_def e_def e'_def)
  have ee: "e \<le> e'" using fexpo_mono [OF assms] by (auto simp: e_def e'_def)
  show ?thesis
  proof (cases "e = e'")
    case True
    with u have "ulp x = ulp y" by simp
    moreover have "x / ulp y \<le> y / ulp y"
      using assms(2) ulp_pos [of y] by (intro divide_right_mono) (simp_all add: less_imp_le)
    ultimately show ?thesis by (simp add: fl_unfold rhe_mono mult_right_mono)
  next
    case False
    with ee have lt: "e < e'" by simp
    then have "e' = fexpo y" by (auto simp: e_def e'_def split: if_splits)
    then have y: "2 powi e' \<le> y" using fexpo_bounds(1) [of y] assms by simp
    have "x < 2 powi (fexpo x + 1)" using fexpo_bounds(2) [OF assms(1)] .
    also have "\<dots> \<le> 2 powi e'" using lt by (intro power_int_increasing) (auto simp: e_def)
    finally have x: "x \<le> 2 powi e'" by simp
    obtain m where m: "(2::rat) powi e' = of_int m * 2 powi (e - 52)"
      using powi_multiple [of "e - 52" e'] lt by auto
    obtain k where k: "(2::rat) powi e' = of_int k * 2 powi (e' - 52)"
      using powi_multiple [of "e' - 52" e'] by auto
    have "fl x \<le> of_int m * ulp x" using x by (intro fl_le_scaled) (simp add: u m)
    also have "\<dots> = of_int k * ulp y" using u m k by simp
    also have "\<dots> \<le> fl y" using y by (intro fl_ge_scaled) (simp add: u k)
    finally show ?thesis .
  qed
qed

lemma fl_nonneg: "0 \<le> x \<Longrightarrow> 0 \<le> fl x"
  using fl_ge_scaled [of 0 x] by simp

lemma fl_mono: assumes "x \<le> y" shows "fl x \<le> fl y"
proof -
  consider "0 < x" | "x \<le> 0" "0 \<le> y" | "y < 0" by linarith
  then show ?thesis
  proof cases
    case 1
    with assms show ?thesis by (intro fl_mono_pos)
  next
    case 2
    then have "0 \<le> fl (- x)" "0 \<le> fl y" by (simp_all add: fl_nonneg del: fl_0)
    then show ?thesis by (simp add: fl_minus)
  next
    case 3
    with assms have "fl (- y) \<le> fl (- x)" by (intro fl_mono_pos) auto
    then show ?thesis by (simp add: fl_minus)
  qed
qed

text \<open>Integers of at most 53 bits and their halvings are doubles.\<close>

lemma fl_exact:
  assumes "\<bar>m\<bar> \<le> 2 ^ 53" "- 1074 \<le> e" shows "fl (of_int m * 2 powi e) = of_int m * 2 powi e"
proof -
  define x :: rat where "x = of_int m * 2 powi e"
  have "\<exists>k. x = of_int k * ulp x"
  proof (cases "m = 0")
    case True
    then show ?thesis by (intro exI [of _ 0]) (simp add: x_def)
  next
    case False
    have ax: "0 < \<bar>x\<bar>" using False by (simp add: x_def)
    have ax': "\<bar>x\<bar> = of_int \<bar>m\<bar> * 2 powi e" by (simp add: x_def abs_mult)
    show ?thesis
    proof (cases "\<bar>m\<bar> = 2 ^ 53")
      case True
      then have p: "\<bar>x\<bar> = 2 powi (53 + e)"
        by (simp add: ax' power_int_add)
      then have "fexpo \<bar>x\<bar> \<le> 53 + e"
        using fexpo_less [OF ax, of "54 + e"] by (simp add: power_int_add)
      then have "max (fexpo \<bar>x\<bar>) (-1022) - 52 \<le> 53 + e" using assms(2) by auto
      then obtain k where "(2::rat) powi (53 + e) = of_int k * ulp x"
        using powi_multiple unfolding ulp_def by blast
      then have "x = of_int k * ulp x \<or> x = of_int (- k) * ulp x"
        using p by (auto simp: abs_if split: if_splits)
      then show ?thesis by blast
    next
      case False
      with assms have "\<bar>m\<bar> < 2 ^ 53" by simp
      then have "of_int \<bar>m\<bar> < (2::rat) ^ 53"
        by (metis of_int_less_iff of_int_numeral of_int_power)
      then have "\<bar>x\<bar> < 2 ^ 53 * 2 powi e" by (simp add: ax')
      also have "\<dots> = (2::rat) powi (53 + e)" by (simp add: power_int_add)
      finally have "\<bar>x\<bar> < 2 powi (53 + e)" .
      then have "fexpo \<bar>x\<bar> < 53 + e" by (rule fexpo_less [OF ax])
      then have "max (fexpo \<bar>x\<bar>) (-1022) - 52 \<le> e" using assms(2) by auto
      then obtain k where "(2::rat) powi e = of_int k * ulp x"
        using powi_multiple unfolding ulp_def by blast
      then have "x = of_int (m * k) * ulp x" by (simp add: x_def)
      then show ?thesis by blast
    qed
  qed
  then obtain k where "x = of_int k * ulp x" ..
  then have "x / ulp x = of_int k" by (metis less_irrefl nonzero_mult_div_cancel_right ulp_pos)
  then have "fl x = of_int k * ulp x" by (simp add: fl_unfold)
  with \<open>x = of_int k * ulp x\<close> show ?thesis by (simp add: x_def)
qed

lemma fl_of_int: "\<bar>m\<bar> \<le> 2 ^ 53 \<Longrightarrow> fl (of_int m) = of_int m"
  using fl_exact [of m 0] by simp

text \<open>The result of a rounding is a double, and rounding a double changes nothing.\<close>

lemma abs_div_ulp: "\<bar>x / ulp x\<bar> \<le> 2 ^ 53"
proof (cases "x = 0")
  case False
  define e where "e = max (fexpo \<bar>x\<bar>) (-1022)"
  have "\<bar>x\<bar> < 2 powi (fexpo \<bar>x\<bar> + 1)" using False by (intro fexpo_bounds) simp
  also have "\<dots> \<le> 2 powi (e + 1)" by (intro power_int_increasing) (auto simp: e_def)
  also have "(2::rat) powi (e + 1) = 2 powi (53 + (e - 52))" by (simp add: add.commute)
  also have "\<dots> = 2 ^ 53 * ulp x" unfolding ulp_def e_def by (subst power_int_add) auto
  finally show ?thesis by (simp add: abs_divide pos_divide_le_eq)
qed simp

lemma fl_eq_scaled: "\<exists>k e. fl x = of_int k * 2 powi e \<and> \<bar>k\<bar> \<le> 2 ^ 53 \<and> - 1074 \<le> e"
proof (intro exI conjI)
  show "fl x = of_int (rhe (x / ulp x)) * 2 powi (max (fexpo \<bar>x\<bar>) (-1022) - 52)"
    by (simp add: fl_unfold ulp_def)
  have "rat_of_int (- (2 ^ 53)) \<le> x / ulp x" "x / ulp x \<le> of_int (2 ^ 53)"
    using abs_div_ulp [of x] unfolding abs_le_iff by (simp_all add: minus_le_iff)
  then show "\<bar>rhe (x / ulp x)\<bar> \<le> 2 ^ 53"
    using rhe_ge rhe_le by (metis abs_le_iff minus_le_iff)
qed auto

definition is_double :: "rat \<Rightarrow> bool" where
  "is_double x \<longleftrightarrow> fl x = x"

lemma fl_idem [simp]: "fl (fl x) = fl x"
  using fl_eq_scaled [of x] fl_exact by metis

lemma is_double_fl [simp]: "is_double (fl x)"
  by (simp add: is_double_def)

lemma is_double_0 [simp]: "is_double 0"
  by (simp add: is_double_def)

lemma is_double_mult2: "is_double x \<Longrightarrow> is_double (2 * x)"
proof -
  assume "is_double x"
  then obtain k e where ke: "x = of_int k * 2 powi e" "\<bar>k\<bar> \<le> 2 ^ 53" "- 1074 \<le> e"
    using fl_eq_scaled [of x] by (auto simp: is_double_def)
  have "2 * x = of_int k * 2 powi (e + 1)" by (simp add: ke(1) power_int_add)
  with fl_exact [of k "e + 1"] ke(2,3) show ?thesis by (simp add: is_double_def)
qed

lemma is_double_minus: "is_double x \<Longrightarrow> is_double (- x)"
  by (simp add: is_double_def fl_minus)

text \<open>No double is nearer to \<open>z\<close> than \<open>fl z\<close>.\<close>

lemma rhe_nearest: "\<bar>of_int (rhe x) - x\<bar> \<le> \<bar>of_int n - x\<bar>"
proof -
  consider "n = rhe x" | "n + 1 \<le> rhe x" | "rhe x + 1 \<le> n" by linarith
  then show ?thesis
  proof cases
    case 2
    then have "rat_of_int n + 1 \<le> of_int (rhe x)" by (metis of_int_1 of_int_add of_int_le_iff)
    with rhe_bounds [of x] show ?thesis by linarith
  next
    case 3
    then have "rat_of_int (rhe x) + 1 \<le> of_int n" by (metis of_int_1 of_int_add of_int_le_iff)
    with rhe_bounds [of x] show ?thesis by linarith
  qed simp
qed

lemma fl_nearest_multiple: "\<bar>fl z - z\<bar> \<le> \<bar>of_int n * ulp z - z\<bar>"
proof -
  have "\<bar>of_int k * ulp z - z\<bar> = \<bar>of_int k - z / ulp z\<bar> * ulp z" for k
  proof -
    have "of_int k * ulp z - z = (of_int k - z / ulp z) * ulp z"
      by (simp add: left_diff_distrib)
    then show ?thesis by (simp add: abs_mult less_imp_le)
  qed
  then show ?thesis
    using rhe_nearest [of "z / ulp z" n] by (simp add: fl_unfold mult_right_mono less_imp_le)
qed

lemma fl_nearest_pos:
  assumes z: "0 < z" and a: "is_double a"
  shows "\<bar>fl z - z\<bar> \<le> \<bar>a - z\<bar>"
proof -
  define e where "e = max (fexpo z) (-1022)"
  have u: "ulp z = 2 powi (e - 52)" using z by (simp add: ulp_def e_def)
  obtain k where k: "a = of_int k * ulp a"
    using a by (metis fl_unfold is_double_def)
  consider "a \<le> 0" | "0 < a" "max (fexpo a) (-1022) < e" | "0 < a" "e \<le> max (fexpo a) (-1022)"
    by linarith
  then show ?thesis
  proof cases
    case 1
    with fl_nearest_multiple [of z 0] z show ?thesis by simp
  next
    case 2
    then have e: "e = fexpo z" by (auto simp: e_def)
    have "a < 2 powi (fexpo a + 1)" using 2(1) by (rule fexpo_bounds)
    also have "(2::rat) powi (fexpo a + 1) \<le> 2 powi e"
      using 2(2) by (intro power_int_increasing) auto
    finally have ae: "a < 2 powi e" .
    have ez: "2 powi e \<le> z" unfolding e using z by (rule fexpo_bounds)
    obtain n where "(2::rat) powi e = of_int n * ulp z"
      using powi_multiple [of "e - 52" e] by (auto simp: u)
    with fl_nearest_multiple [of z n] ae ez show ?thesis by simp
  next
    case 3
    then obtain n where "ulp a = of_int n * ulp z"
      using powi_multiple [of "e - 52" "max (fexpo a) (-1022) - 52"] unfolding u by (auto simp: ulp_def)
    with k have "a = of_int (k * n) * ulp z" by simp
    with fl_nearest_multiple [of z "k * n"] show ?thesis by simp
  qed
qed

lemma fl_nearest:
  assumes "is_double a" shows "\<bar>fl z - z\<bar> \<le> \<bar>a - z\<bar>"
proof -
  consider "z = 0" | "0 < z" | "0 < - z" by linarith
  then show ?thesis
  proof cases
    case 3
    from fl_nearest_pos [OF this is_double_minus [OF assms]]
    show ?thesis by (simp add: fl_minus abs_minus_commute)
  qed (auto intro: fl_nearest_pos assms)
qed

section \<open>The interface of a rounding operator\<close>

text \<open>
  What the components use of a rounding: it is monotone, odd and exact on small integers.
  Both \<open>fl\<close> and \<open>round(\<dots>, n)\<close> keep these laws.
\<close>

locale rounding =
  fixes rnd :: "rat \<Rightarrow> rat"
  assumes mono: "x \<le> y \<Longrightarrow> rnd x \<le> rnd y"
    and minus: "rnd (- x) = - rnd x"
    and of_int_exact: "\<bar>n\<bar> \<le> 2 ^ 53 \<Longrightarrow> rnd (of_int n) = of_int n"
begin

lemma zero [simp]: "rnd 0 = 0"
  using of_int_exact [of 0] by simp

lemma one [simp]: "rnd 1 = 1"
  using of_int_exact [of 1] by simp

lemma numeral_exact: "numeral n \<le> (2 ^ 53 :: int) \<Longrightarrow> rnd (numeral n) = numeral n"
  using of_int_exact [of "numeral n"] by simp

lemma nonneg: "0 \<le> x \<Longrightarrow> 0 \<le> rnd x"
  using mono [of 0 x] by simp

lemma nonpos: "x \<le> 0 \<Longrightarrow> rnd x \<le> 0"
  using mono [of x 0] by simp

lemma abs: "\<bar>rnd x\<bar> = rnd \<bar>x\<bar>"
  using nonneg [of x] nonpos [of x] by (auto simp: abs_if minus)

lemma int_lower: "of_int n \<le> x \<Longrightarrow> \<bar>n\<bar> \<le> 2 ^ 53 \<Longrightarrow> of_int n \<le> rnd x"
  using mono [of "of_int n" x] by (simp add: of_int_exact)

lemma int_upper: "x \<le> of_int n \<Longrightarrow> \<bar>n\<bar> \<le> 2 ^ 53 \<Longrightarrow> rnd x \<le> of_int n"
  using mono [of x "of_int n"] by (simp add: of_int_exact)

lemma le_one: "x \<le> 1 \<Longrightarrow> rnd x \<le> 1"
  using int_upper [of x 1] by simp

lemma abs_diff_sym: "rnd \<bar>x - y\<bar> = rnd \<bar>y - x\<bar>"
  by (simp add: abs_minus_commute)

end

interpretation fl: rounding fl
  by unfold_locales (simp_all add: fl_mono fl_minus fl_of_int)

lemma fdiv_by_pos_mono: "0 < c \<Longrightarrow> a \<le> b \<Longrightarrow> fl (a / c) \<le> fl (b / c)"
  by (simp add: fl.mono divide_right_mono)

interpretation rnd: rounding "py_round n" for n
proof
  show "py_round n x \<le> py_round n y" if "x \<le> y" for x y
    using that unfolding py_round_def
    by (intro fl.mono divide_right_mono) (simp_all add: rhe_mono mult_right_mono)
  show "py_round n (- x) = - py_round n x" for x
    using rhe_minus [of "x * 10 ^ n"] fl.minus [of "of_int (rhe (x * 10 ^ n)) / 10 ^ n"]
    by (simp add: py_round_def)
  show "py_round n (of_int m) = of_int m" if "\<bar>m\<bar> \<le> 2 ^ 53" for m
  proof -
    have "rhe (of_int m * 10 ^ n) = rhe (of_int (m * 10 ^ n))" by simp
    then have "rhe (of_int m * 10 ^ n) = m * 10 ^ n" by (simp only: rhe_of_int)
    then show ?thesis using that by (simp add: py_round_def fl.of_int_exact)
  qed
qed

lemma fsub_sym: "\<bar>fsub a b\<bar> = \<bar>fsub b a\<bar>"
  by (simp add: fsub_def fl.abs fl.abs_diff_sym)

lemma fsub_self [simp]: "fsub a a = 0"
  by (simp add: fsub_def)

lemma is_double_ops [simp]:
  "is_double (fadd a b)" "is_double (fsub a b)" "is_double (fmul a b)" "is_double (fdiv a b)"
  "is_double (py_round n a)" "is_double (dec m k)"
  by (simp_all add: fadd_def fsub_def fmul_def fdiv_def py_round_def dec_def)

section \<open>Sums of non-negative floats\<close>

text \<open>
  Each compensation is at most the smaller of the two summands, so the accumulated
  correction never exceeds the running total.
\<close>

lemma cs_error_bound:
  assumes "0 \<le> b" "b \<le> a" "is_double a" "is_double b"
  shows "\<bar>fadd (fsub a (fadd a b)) b\<bar> \<le> b"
proof -
  define t where "t = fadd a b"
  have "\<bar>t - (a + b)\<bar> \<le> \<bar>a - (a + b)\<bar>"
    unfolding t_def fadd_def by (rule fl_nearest [OF assms(3)])
  then have "t \<le> a + 2 * b" using assms by linarith
  then have "- (2 * b) \<le> a - t" by simp
  then have "fl (- (2 * b)) \<le> fl (a - t)" by (rule fl.mono)
  moreover have "fl (- (2 * b)) = - (2 * b)"
    using is_double_minus [OF is_double_mult2 [OF assms(4)]] by (simp add: is_double_def)
  ultimately have lo: "- (2 * b) \<le> fsub a t" by (simp add: fsub_def)
  have "a = fl a" using assms(3) by (simp add: is_double_def)
  also have "\<dots> \<le> t" unfolding t_def fadd_def using assms(1) by (intro fl.mono) simp
  finally have "fl (a - t) \<le> 0" by (intro fl.nonpos) simp
  then have up: "fsub a t \<le> 0" by (simp add: fsub_def)
  have "fl (- b) \<le> fl (fsub a t + b)" "fl (fsub a t + b) \<le> fl b"
    using lo up by (auto intro: fl.mono)
  moreover have "fl b = b" using assms(4) by (simp add: is_double_def)
  ultimately have "- b \<le> fadd (fsub a t) b" "fadd (fsub a t) b \<le> b"
    by (simp_all add: fadd_def fl.minus)
  then show ?thesis by (simp add: t_def abs_le_iff)
qed

lemma cs_add_bound:
  assumes "\<bar>lo\<bar> \<le> hi" "is_double hi" "0 \<le> x" "is_double x" "cs_add (hi, lo) x = (hi', lo')"
  shows "\<bar>lo'\<bar> \<le> hi' \<and> is_double hi'"
proof -
  define c where "c = (if \<bar>x\<bar> \<le> \<bar>hi\<bar> then fadd (fsub hi hi') x else fadd (fsub x hi') hi)"
  have hi: "0 \<le> hi" using assms(1) by linarith
  have h: "hi' = fadd hi x" "lo' = fadd lo c"
    using assms(5) by (auto simp: cs_add_def Let_def c_def)
  have "\<bar>c\<bar> \<le> x"
  proof (cases "x \<le> hi")
    case True
    with cs_error_bound [of x hi] assms hi show ?thesis by (simp add: c_def h)
  next
    case False
    with cs_error_bound [of hi x] assms hi show ?thesis by (simp add: c_def h fadd_def add.commute)
  qed
  then have "\<bar>lo + c\<bar> \<le> hi + x" using assms(1) by linarith
  then have "fl \<bar>lo + c\<bar> \<le> fl (hi + x)" by (rule fl.mono)
  then show ?thesis by (simp add: h fadd_def fl.abs)
qed

lemma py_sum_nonneg:
  assumes "\<And>x. x \<in> set xs \<Longrightarrow> 0 \<le> x \<and> is_double x"
  shows "0 \<le> py_sum xs"
proof (cases xs)
  case (Cons y ys)
  have inv: "\<bar>snd s\<bar> \<le> fst s \<and> is_double (fst s) \<Longrightarrow> (\<And>x. x \<in> set zs \<Longrightarrow> 0 \<le> x \<and> is_double x) \<Longrightarrow>
      \<bar>snd (foldl cs_add s zs)\<bar> \<le> fst (foldl cs_add s zs)" for s zs
  proof (induction zs arbitrary: s)
    case (Cons z zs)
    obtain hi lo where s: "s = (hi, lo)" by (cases s)
    obtain hi' lo' where s': "cs_add s z = (hi', lo')" by (cases "cs_add s z")
    from cs_add_bound [of lo hi z hi' lo'] Cons.prems s s' have "\<bar>lo'\<bar> \<le> hi' \<and> is_double hi'" by simp
    with Cons.IH [of "cs_add s z"] Cons.prems(2) s' show ?case by simp
  qed simp
  obtain hi lo where r: "foldl cs_add (y, 0) ys = (hi, lo)" by (cases "foldl cs_add (y, 0) ys")
  from inv [of "(y, 0)" ys] assms Cons r have "\<bar>lo\<bar> \<le> hi" by simp
  then have "0 \<le> hi" "0 \<le> hi + lo" by linarith+
  with r Cons show ?thesis by (simp add: cs_to_double_def fadd_def fl.nonneg)
qed simp

lemma cs_add_zeros: "foldl cs_add (0, 0) (replicate n 0) = (0, 0)"
  by (induction n) (simp_all add: cs_add_def fadd_def fsub_def Let_def)

lemma py_sum_replicate_0 [simp]: "py_sum (replicate n 0) = 0"
  by (cases n) (simp_all add: cs_add_zeros cs_to_double_def)

lemma py_sum_zeros: "(\<And>x. x \<in> set xs \<Longrightarrow> x = 0) \<Longrightarrow> py_sum xs = 0"
  using replicate_eqI [of xs "length xs" 0] by (metis py_sum_replicate_0)

section \<open>Rounding errors\<close>

lemma fl_err: "\<bar>fl x - x\<bar> \<le> ulp x / 2"
proof -
  have "fl x - x = (of_int (rhe (x / ulp x)) - x / ulp x) * ulp x"
    by (simp add: fl_unfold left_diff_distrib)
  moreover have "\<bar>of_int (rhe (x / ulp x)) - x / ulp x\<bar> \<le> 1/2"
    using rhe_bounds [of "x / ulp x"] by linarith
  ultimately have "\<bar>fl x - x\<bar> \<le> (1/2) * ulp x"
    by (simp add: abs_mult less_imp_le mult_right_mono)
  then show ?thesis by simp
qed

lemma ulp_bound:
  assumes "\<bar>x\<bar> \<le> 2 ^ 40" "x \<noteq> 0" shows "ulp x \<le> 1 / 2 ^ 12"
proof -
  have "\<bar>x\<bar> < 2 powi 41" using assms by (simp add: power_int_def)
  then have "fexpo \<bar>x\<bar> < 41" using assms(2) by (intro fexpo_less) auto
  then have "max (fexpo \<bar>x\<bar>) (- 1022) - 52 \<le> - 12" by simp
  then have "(2::rat) powi (max (fexpo \<bar>x\<bar>) (- 1022) - 52) \<le> 2 powi (- 12)"
    by (intro power_int_increasing) auto
  moreover have "(2::rat) powi (- 12) = 1 / 2 ^ 12" by (simp add: power_int_def field_simps)
  ultimately show ?thesis by (simp only: ulp_def)
qed

lemma fl_err_bound: "\<bar>x\<bar> \<le> 2 ^ 40 \<Longrightarrow> \<bar>fl x - x\<bar> \<le> 1 / 2 ^ 13"
  using fl_err [of x] ulp_bound [of x] by (cases "x = 0") simp_all

lemma rhe_unique: "\<bar>z - of_int k\<bar> < 1/2 \<Longrightarrow> rhe z = k"
proof -
  assume "\<bar>z - of_int k\<bar> < 1/2"
  then have "\<bar>rat_of_int (rhe z) - of_int k\<bar> < 1" using rhe_bounds [of z] by linarith
  then have "\<bar>rat_of_int (rhe z - k)\<bar> < 1" by simp
  then have "\<bar>rhe z - k\<bar> < 1" by linarith
  then show ?thesis by simp
qed

text \<open>The bounds below cover every plausible reading: magnitudes up to \<open>2\<^sup>3\<^sup>9\<close>.\<close>

lemma py_round3_parts:
  assumes "\<bar>x\<bar> \<le> 2 ^ 39"
  shows "\<bar>of_int (rhe (x * 10 ^ 3)) / 10 ^ 3 - x\<bar> \<le> 1 / 2000"
    "\<bar>py_round 3 x - of_int (rhe (x * 10 ^ 3)) / 10 ^ 3\<bar> \<le> 1 / 2 ^ 13"
proof -
  have "\<bar>of_int (rhe (x * 10 ^ 3)) - x * 10 ^ 3\<bar> \<le> 1 / 2" using rhe_bounds [of "x * 10 ^ 3"] by linarith
  then show a: "\<bar>of_int (rhe (x * 10 ^ 3)) / 10 ^ 3 - x\<bar> \<le> 1 / 2000" by (simp add: abs_le_iff field_simps)
  have "\<bar>y\<bar> \<le> 2 ^ 40" if "\<bar>y - x\<bar> \<le> 1 / 2000" for y
  proof -
    have "(2::rat) ^ 39 = 549755813888" "(2::rat) ^ 40 = 1099511627776" by simp_all
    with assms that show ?thesis by linarith
  qed
  from this [OF a] have "\<bar>rat_of_int (rhe (x * 10 ^ 3)) / 10 ^ 3\<bar> \<le> 2 ^ 40" .
  from fl_err_bound [OF this] show "\<bar>py_round 3 x - of_int (rhe (x * 10 ^ 3)) / 10 ^ 3\<bar> \<le> 1 / 2 ^ 13"
    by (simp add: py_round_def)
qed

lemma py_round3_err: assumes "\<bar>x\<bar> \<le> 2 ^ 39" shows "\<bar>py_round 3 x - x\<bar> \<le> 1 / 1600"
proof -
  have "\<bar>y - x\<bar> \<le> 1 / 1600" if "\<bar>z - x\<bar> \<le> 1 / 2000" "\<bar>y - z\<bar> \<le> 1 / 2 ^ 13" for y z :: rat
  proof -
    have "(1::rat) / 2 ^ 13 = 1 / 8192" by simp
    with that show ?thesis by linarith
  qed
  from this [OF py_round3_parts [OF assms]] show ?thesis .
qed

lemma py_round3_idem:
  assumes "\<bar>x\<bar> \<le> 2 ^ 39" shows "py_round 3 (py_round 3 x) = py_round 3 x"
proof -
  let ?k = "rhe (x * 10 ^ 3)"
  have "\<bar>py_round 3 x * 10 ^ 3 - of_int ?k\<bar> < 1 / 2"
    using py_round3_parts(2) [OF assms] by (simp add: abs_le_iff abs_less_iff field_simps)
  then have "rhe (py_round 3 x * 10 ^ 3) = ?k" by (rule rhe_unique)
  then show ?thesis by (simp add: py_round_def)
qed

end
