(* ===== verification/TrustModel.thy ===== *)
theory TrustModel
  imports Contracts FloatLaws
begin

text \<open>
  \<open>consensus/trust_model.py\<close> and \<open>consensus/quorum.py\<close>: the pairwise-consistency
  trust evaluation of one round. \<open>evaluate_trust\<close> follows the source's loops; a missing
  state or sensor is a \<open>KeyError\<close>, a round without peers a \<open>ZeroDivisionError\<close>.
\<close>

section \<open>Parameters\<close>

definition SENSOR_SCALES :: "(string \<times> flt) list" where
  "SENSOR_SCALES = [(''temperature'', 20), (''pressure'', 3), (''rpm'', 600)]"

definition PAIRWISE_CONSISTENCY_THRESHOLD :: flt where
  "PAIRWISE_CONSISTENCY_THRESHOLD = dec 35 2"

definition SUSPECTED_BYZANTINE_THRESHOLD :: flt where
  "SUSPECTED_BYZANTINE_THRESHOLD = dec 75 2"

definition required_quorum :: "int \<Rightarrow> int res" where
  "required_quorum n = (if n \<le> 0 then Inl (ValueError ''Participant count must be positive.'')
     else Inr (n div 2 + 1))"

section \<open>Distances\<close>

definition sensor_value :: "replicated_state \<Rightarrow> string \<Rightarrow> flt res" where
  "sensor_value s name = attempt (getitem (observations_by_sensor s) name)
     (\<lambda>p. Inr (pv_value (pd_pv (hp_process_data p))))"

text \<open>The body of the loop over the sensors, then the mean over them.\<close>

definition scaled_difference :: "replicated_state \<Rightarrow> replicated_state \<Rightarrow> string \<times> flt \<Rightarrow> flt res" where
  "scaled_difference l r sc = attempt (sensor_value l (fst sc)) (\<lambda>a.
     attempt (sensor_value r (fst sc)) (\<lambda>b. Inr (fdiv \<bar>fsub a b\<bar> (snd sc))))"

definition normalized_pair_distance :: "replicated_state \<Rightarrow> replicated_state \<Rightarrow> flt res" where
  "normalized_pair_distance l r = attempt (mapM (scaled_difference l r) SENSOR_SCALES)
     (\<lambda>ds. Inr (fdiv (py_sum ds) (of_nat (length ds))))"

text \<open>The dictionary of the distances of all ordered pairs of different edges.\<close>

definition edge_pairs :: "string list \<Rightarrow> (string \<times> string) list" where
  "edge_pairs edges = filter (\<lambda>(l, r). l \<noteq> r) (List.product edges edges)"

definition pair_distance :: "(string, replicated_state) dict \<Rightarrow> string \<times> string \<Rightarrow> flt res" where
  "pair_distance by_edge k = attempt (getitem by_edge (fst k)) (\<lambda>a.
     attempt (getitem by_edge (snd k)) (\<lambda>b. normalized_pair_distance a b))"

definition pairwise_distances ::
  "(string, replicated_state) dict \<Rightarrow> string list \<Rightarrow> (string \<times> string, flt) dict res" where
  "pairwise_distances by_edge edges = attempt
     (mapM (\<lambda>k. attempt (pair_distance by_edge k) (\<lambda>d. Inr (k, d))) (edge_pairs edges))
     (\<lambda>es. Inr (dict_of es))"

section \<open>Evidence of one edge\<close>

text \<open>One turn of the loop over the sensors: the deviation and the distances to the peers.\<close>

definition sensor_evidence ::
  "(string, replicated_state) dict \<Rightarrow> replicated_state \<Rightarrow> string list \<Rightarrow> string
     \<Rightarrow> (sensor_deviation \<times> pairwise_distance list) res" where
  "sensor_evidence by_edge state peers name =
     attempt (getitem (observations_by_sensor state) name) (\<lambda>payload.
       let pv = pd_pv (hp_process_data payload) in
       attempt (mapM (\<lambda>peer. attempt (getitem by_edge peer) (\<lambda>ps.
           attempt (getitem (observations_by_sensor ps) name) (\<lambda>peer_payload.
             Inr (peer, \<bar>fsub (pv_value pv) (pv_value (pd_pv (hp_process_data peer_payload)))\<bar>)))) peers)
         (\<lambda>ds. attempt (fdiv_res (py_sum (map snd ds)) (of_nat (length ds))) (\<lambda>mean.
           Inr (\<lparr>sd_sensor_name = name, sd_deviation_value = py_round 3 mean, sd_unit = pv_unit pv\<rparr>,
             map (\<lambda>(peer, d). \<lparr>pw_peer_edge_id = peer, pw_sensor_name = name,
               pw_distance_value = py_round 3 d, pw_unit = pv_unit pv\<rparr>) ds))))"

definition scale_of :: "string \<Rightarrow> flt res" where
  "scale_of name = getitem SENSOR_SCALES name"

definition exclusion_detail :: "nat \<Rightarrow> flt \<Rightarrow> sensor_deviation list \<Rightarrow> string res" where
  "exclusion_detail compatible overall deviations = attempt
     (mapM (\<lambda>d. attempt (scale_of (sd_sensor_name d)) (\<lambda>scale.
        Inr (sd_sensor_name d @ '':'' @ fmt_fixed 3 (sd_deviation_value d) @ sd_unit d
          @ ''(norm='' @ fmt_fixed 3 (fdiv (sd_deviation_value d) scale) @ '')''))) deviations)
     (\<lambda>parts. Inr (''compatible_peers='' @ str_of_nat compatible
        @ '', overall_normalized_deviation='' @ fmt_fixed 3 overall @ '', '' @ join '', '' parts))"

definition lookup_distance ::
  "(string \<times> string, flt) dict \<Rightarrow> string \<Rightarrow> string \<Rightarrow> flt res" where
  "lookup_distance dists l r = (case map_of dists (l, r) of
     None \<Rightarrow> Inl (KeyError (''('' @ l @ '', '' @ r @ '')'')) | Some d \<Rightarrow> Inr d)"

text \<open>
  The body of the loop over the participating edges: the ranking entry, the evidence and
  the exclusion, if any.
\<close>

type_synonym edge_verdict = "trust_rank_entry \<times> trust_evidence \<times> exclusion_decision option"

definition edge_exclusion ::
  "round_identity \<Rightarrow> nat \<Rightarrow> string \<Rightarrow> nat \<Rightarrow> flt \<Rightarrow> sensor_deviation list
     \<Rightarrow> exclusion_decision option res" where
  "edge_exclusion rid quorum edge compatible overall deviations =
     (if compatible + 1 < quorum then
        attempt (exclusion_detail compatible overall deviations) (\<lambda>detail.
          Inr (Some \<lparr>ex_round_identity = rid, ex_edge_id = edge,
            ex_reason = (if SUSPECTED_BYZANTINE_THRESHOLD \<le> overall
              then SUSPECTED_BYZANTINE_BEHAVIOR else INCONSISTENT_VIEW),
            ex_detail = Some detail\<rparr>))
      else Inr None)"

definition edge_trust ::
  "round_identity \<Rightarrow> string list \<Rightarrow> (string, replicated_state) dict
     \<Rightarrow> (string \<times> string, flt) dict \<Rightarrow> nat \<Rightarrow> string \<Rightarrow> edge_verdict res" where
  "edge_trust rid edges by_edge dists quorum edge =
     attempt (getitem by_edge edge) (\<lambda>state.
       let peers = filter (\<lambda>p. p \<noteq> edge) edges in
       attempt (mapM (sensor_evidence by_edge state peers) (map fst SENSOR_SCALES)) (\<lambda>evs.
       attempt (mapM (lookup_distance dists edge) peers) (\<lambda>ds.
         let deviations = map fst evs; compatible = length (filter (\<lambda>d. d \<le> PAIRWISE_CONSISTENCY_THRESHOLD) ds) in
         attempt (fdiv_res (py_sum ds) (of_nat (length peers))) (\<lambda>mean.
           let overall = py_round 3 mean in
           attempt (fdiv_res 1 (fadd 1 overall)) (\<lambda>raw.
             let score = py_round 3 raw in
             attempt (edge_exclusion rid quorum edge compatible overall deviations) (\<lambda>exclusion.
               Inr (\<lparr>tr_edge_id = edge, tr_score = score\<rparr>,
                 \<lparr>te_round_identity = rid, te_edge_id = edge, te_score = score,
                   te_compatible_peer_count = int compatible, te_overall_normalized_deviation = overall,
                   te_sensor_deviations = deviations,
                   te_pairwise_distances = concat (map snd evs)\<rparr>,
                 exclusion)))))))"

section \<open>The round\<close>

definition states_by_edge :: "replicated_state list \<Rightarrow> (string, replicated_state) dict" where
  "states_by_edge states = dict_of (map (\<lambda>s. (owner_edge_id s, s)) states)"

definition evaluate_trust ::
  "round_identity \<Rightarrow> string list \<Rightarrow> replicated_state list
     \<Rightarrow> (trust_ranking \<times> exclusion_decision list \<times> trust_evidence list) res" where
  "evaluate_trust rid edges states = (let by_edge = states_by_edge states;
     quorum = length edges div 2 + 1 in
     attempt (pairwise_distances by_edge edges) (\<lambda>dists.
     attempt (mapM (edge_trust rid edges by_edge dists quorum) edges) (\<lambda>vs.
     attempt (mk_TrustRanking rid edges (map fst vs)) (\<lambda>ranking.
       Inr (ranking, List.map_filter (snd \<circ> snd) vs, map (fst \<circ> snd) vs)))))"

section \<open>Specification\<close>

text \<open>
  The relation behind the evaluation: two edges are compatible when their states are at
  most the threshold apart, and the support of an edge is the number of its compatible
  peers. \<open>complete_round\<close> says that every edge has a state and every state a reading
  of every sensor.
\<close>

definition compatible_edges :: "replicated_state list \<Rightarrow> string \<Rightarrow> string \<Rightarrow> bool" where
  "compatible_edges states l r = (case map_of (states_by_edge states) l of None \<Rightarrow> False
     | Some a \<Rightarrow> (case map_of (states_by_edge states) r of None \<Rightarrow> False
     | Some b \<Rightarrow> (case normalized_pair_distance a b of Inl _ \<Rightarrow> False
     | Inr d \<Rightarrow> d \<le> PAIRWISE_CONSISTENCY_THRESHOLD)))"

definition support :: "string list \<Rightarrow> replicated_state list \<Rightarrow> string \<Rightarrow> nat" where
  "support edges states e = length (filter (\<lambda>p. p \<noteq> e \<and> compatible_edges states e p) edges)"

definition observes_all :: "replicated_state \<Rightarrow> bool" where
  "observes_all s = (\<forall>name \<in> fst ` set SENSOR_SCALES. map_of (observations_by_sensor s) name \<noteq> None)"

definition complete_round :: "string list \<Rightarrow> replicated_state list \<Rightarrow> bool" where
  "complete_round edges states =
     (set edges \<subseteq> owner_edge_id ` set states \<and> (\<forall>s \<in> set states. observes_all s))"

section \<open>Distances: laws\<close>

lemma states_by_edge_in:
  assumes "map_of (states_by_edge states) e = Some s"
  shows "s \<in> set states \<and> owner_edge_id s = e"
proof -
  from assms have "map_of (rev (map (\<lambda>s. (owner_edge_id s, s)) states)) e = Some s"
    by (simp add: states_by_edge_def map_of_dict_of)
  then show ?thesis by (auto dest!: map_of_SomeD)
qed

lemma states_by_edge_dom: "map_of (states_by_edge states) e = None \<longleftrightarrow> e \<notin> owner_edge_id ` set states"
  by (simp add: states_by_edge_def map_of_dict_of map_of_eq_None_iff image_image rev_map)

lemma complete_round_state:
  assumes "complete_round edges states" "e \<in> set edges"
  obtains s where "map_of (states_by_edge states) e = Some s" "observes_all s"
proof -
  from assms have "map_of (states_by_edge states) e \<noteq> None"
    unfolding complete_round_def states_by_edge_dom by blast
  then obtain s where s: "map_of (states_by_edge states) e = Some s" by blast
  with assms(1) have "observes_all s" by (auto simp: complete_round_def dest: states_by_edge_in)
  with s show ?thesis ..
qed

lemma getitem_observes:
  assumes "observes_all s" "name \<in> fst ` set SENSOR_SCALES"
  obtains p where "getitem (observations_by_sensor s) name = Inr p"
proof -
  from assms have "map_of (observations_by_sensor s) name \<noteq> None" unfolding observes_all_def by (rule bspec)
  then obtain p where "map_of (observations_by_sensor s) name = Some p" by blast
  then show ?thesis by (intro that) simp
qed

lemma sensor_value_total:
  assumes "observes_all s" "name \<in> fst ` set SENSOR_SCALES"
  obtains v where "sensor_value s name = Inr v"
  using getitem_observes [OF assms] by (metis attempt_Inr sensor_value_def)

lemma normalized_pair_distance_total:
  assumes "observes_all a" "observes_all b"
  obtains d where "normalized_pair_distance a b = Inr d"
proof -
  have "\<exists>y. scaled_difference a b x = Inr y" if x: "x \<in> set SENSOR_SCALES" for x
  proof -
    from x have n: "fst x \<in> fst ` set SENSOR_SCALES" by (rule imageI)
    obtain u where "sensor_value a (fst x) = Inr u" by (rule sensor_value_total [OF assms(1) n])
    moreover obtain v where "sensor_value b (fst x) = Inr v" by (rule sensor_value_total [OF assms(2) n])
    ultimately show ?thesis by (simp add: scaled_difference_def)
  qed
  then obtain ds where "mapM (scaled_difference a b) SENSOR_SCALES = Inr ds" by (rule mapM_total)
  then show ?thesis by (intro that) (simp add: normalized_pair_distance_def)
qed

lemma scaled_difference_sym: "scaled_difference a b sc = Inr d \<Longrightarrow> scaled_difference b a sc = Inr d"
  by (auto simp: scaled_difference_def attempt_eq_Inr fsub_sym)

lemma normalized_pair_distance_sym:
  "normalized_pair_distance a b = Inr d \<Longrightarrow> normalized_pair_distance b a = Inr d"
  unfolding normalized_pair_distance_def mapM_eq_Inr attempt_eq_Inr
  by (blast intro: list_all2_mono scaled_difference_sym)

lemma compatible_edges_sym: "compatible_edges states l r \<Longrightarrow> compatible_edges states r l"
  by (auto simp: compatible_edges_def dest: normalized_pair_distance_sym split: option.splits sum.splits)

section \<open>The table of distances\<close>

lemma edge_pairs_set: "(l, r) \<in> set (edge_pairs edges) \<longleftrightarrow> l \<in> set edges \<and> r \<in> set edges \<and> l \<noteq> r"
  by (auto simp: edge_pairs_def)

text \<open>Entries of a comprehension that computes the value from the key.\<close>

lemma dict_comprehension:
  assumes m: "mapM (\<lambda>k. attempt (f k) (\<lambda>v. Inr (k, v))) ks = Inr es" and k: "k \<in> set ks"
  obtains v where "f k = Inr v" "map_of (dict_of es) k = Some v"
proof -
  have vals: "f j = Inr v" if "(j, v) \<in> set es" for j v
    using mapM_set_origin [OF m that] by (auto simp: attempt_eq_Inr)
  have "\<exists>v. (k, v) \<in> set es"
    using mapM_set_Inr [OF m k] by (auto simp: attempt_eq_Inr)
  then have "k \<in> fst ` set (rev es)" by (metis fst_conv image_eqI set_rev)
  then have "map_of (rev es) k \<noteq> None" by (simp only: map_of_eq_None_iff not_not)
  then obtain v where v: "map_of (rev es) k = Some v" by blast
  then have "(k, v) \<in> set es" by (auto dest: map_of_SomeD)
  with v show ?thesis by (intro that [of v]) (simp_all add: vals map_of_dict_of)
qed

lemma pairwise_distances_entry:
  assumes "pairwise_distances by_edge edges = Inr dists" "l \<in> set edges" "r \<in> set edges" "l \<noteq> r"
  obtains a b d where "map_of by_edge l = Some a" "map_of by_edge r = Some b"
    "normalized_pair_distance a b = Inr d" "map_of dists (l, r) = Some d"
proof -
  obtain es where es: "mapM (\<lambda>k. attempt (pair_distance by_edge k) (\<lambda>d. Inr (k, d))) (edge_pairs edges) = Inr es"
    "dists = dict_of es"
    using assms(1) unfolding pairwise_distances_def attempt_eq_Inr by blast
  have "(l, r) \<in> set (edge_pairs edges)" using assms by (simp add: edge_pairs_set)
  with es(1) obtain d where "pair_distance by_edge (l, r) = Inr d" "map_of (dict_of es) (l, r) = Some d"
    by (rule dict_comprehension)
  note d = this [folded es(2)]
  from d(1) obtain a b where "map_of by_edge l = Some a" "map_of by_edge r = Some b"
    "normalized_pair_distance a b = Inr d"
    by (auto simp: pair_distance_def attempt_eq_Inr getitem_Inr)
  then show ?thesis using d(2) by (rule that)
qed

lemma lookup_distance_Inr: "lookup_distance dists l r = Inr d \<longleftrightarrow> map_of dists (l, r) = Some d"
  by (simp add: lookup_distance_def split: option.splits)

text \<open>The looked-up distances of an edge count its compatible peers.\<close>

lemma compatible_count:
  assumes "pairwise_distances (states_by_edge states) edges = Inr dists" "e \<in> set edges"
    and "mapM (lookup_distance dists e) (filter (\<lambda>p. p \<noteq> e) edges) = Inr ds"
  shows "length (filter (\<lambda>d. d \<le> PAIRWISE_CONSISTENCY_THRESHOLD) ds) = support edges states e"
proof -
  have *: "compatible_edges states e p \<longleftrightarrow> d \<le> PAIRWISE_CONSISTENCY_THRESHOLD"
    if d: "map_of dists (e, p) = Some d" and p: "p \<in> set edges" "p \<noteq> e" for p d
  proof -
    obtain a b d' where e: "map_of (states_by_edge states) e = Some a" "map_of (states_by_edge states) p = Some b"
      "normalized_pair_distance a b = Inr d'" "map_of dists (e, p) = Some d'"
      by (rule pairwise_distances_entry [OF assms(1,2) p(1) p(2) [symmetric]])
    from e(4) d have "d' = d" by simp
    with e(1-3) show ?thesis by (simp add: compatible_edges_def)
  qed
  have count: "list_all2 (\<lambda>p d. map_of dists (e, p) = Some d) ps ds \<Longrightarrow>
      (\<And>p. p \<in> set ps \<Longrightarrow> p \<in> set edges \<and> p \<noteq> e) \<Longrightarrow>
      length (filter (\<lambda>d. d \<le> PAIRWISE_CONSISTENCY_THRESHOLD) ds) = length (filter (compatible_edges states e) ps)"
    for ps
  proof (induction rule: list_all2_induct)
    case (Cons p ps d ds)
    then have "compatible_edges states e p \<longleftrightarrow> d \<le> PAIRWISE_CONSISTENCY_THRESHOLD" by (intro *) auto
    with Cons show ?case by simp
  qed simp
  have "list_all2 (\<lambda>p d. map_of dists (e, p) = Some d) (filter (\<lambda>p. p \<noteq> e) edges) ds"
    using assms(3) unfolding mapM_eq_Inr lookup_distance_Inr .
  then have "length (filter (\<lambda>d. d \<le> PAIRWISE_CONSISTENCY_THRESHOLD) ds) =
      length (filter (compatible_edges states e) (filter (\<lambda>p. p \<noteq> e) edges))"
    by (rule count) simp
  then show ?thesis by (simp only: support_def filter_filter)
qed

section \<open>One edge: laws\<close>

text \<open>What a returned verdict says, whatever the states.\<close>

lemma edge_exclusion_Inr:
  assumes "edge_exclusion rid q e c dev sds = Inr exo"
  shows "exo \<noteq> None \<longleftrightarrow> c + 1 < q"
    and "exo = Some x \<Longrightarrow> ex_round_identity x = rid \<and> ex_edge_id x = e \<and>
      ex_reason x = (if SUSPECTED_BYZANTINE_THRESHOLD \<le> dev then SUSPECTED_BYZANTINE_BEHAVIOR else INCONSISTENT_VIEW)"
  using assms by (auto simp: edge_exclusion_def attempt_eq_Inr split: if_splits)

lemma edge_trust_Inr:
  assumes "edge_trust rid edges by_edge dists q e = Inr (entry, ev, exo)"
  obtains ds where "mapM (lookup_distance dists e) (filter (\<lambda>p. p \<noteq> e) edges) = Inr ds"
    "te_compatible_peer_count ev = int (length (filter (\<lambda>d. d \<le> PAIRWISE_CONSISTENCY_THRESHOLD) ds))"
    "te_overall_normalized_deviation ev = py_round 3 (fdiv (py_sum ds) (of_nat (length (filter (\<lambda>p. p \<noteq> e) edges))))"
    "te_score ev = py_round 3 (fdiv 1 (fadd 1 (te_overall_normalized_deviation ev)))"
    "entry = \<lparr>tr_edge_id = e, tr_score = te_score ev\<rparr>" "te_edge_id ev = e" "te_round_identity ev = rid"
    "filter (\<lambda>p. p \<noteq> e) edges \<noteq> []"
    "edge_exclusion rid q e (nat (te_compatible_peer_count ev)) (te_overall_normalized_deviation ev)
       (te_sensor_deviations ev) = Inr exo"
  using assms
  by (auto simp: edge_trust_def attempt_eq_Inr Let_def fdiv_res_def split: if_splits)

text \<open>The deviations of a verdict name known sensors, so the detail text can be built.\<close>

lemma exclusion_detail_total:
  assumes "\<And>d. d \<in> set sds \<Longrightarrow> sd_sensor_name d \<in> fst ` set SENSOR_SCALES"
  obtains t where "exclusion_detail c dev sds = Inr t"
proof -
  have "\<exists>v. scale_of n = Inr v" if "n \<in> fst ` set SENSOR_SCALES" for n
  proof -
    from that have "map_of SENSOR_SCALES n \<noteq> None" by (simp only: map_of_eq_None_iff not_not)
    then show ?thesis by (auto simp: scale_of_def)
  qed
  with assms have "\<exists>part. attempt (scale_of (sd_sensor_name d)) (\<lambda>scale.
        Inr (sd_sensor_name d @ '':'' @ fmt_fixed 3 (sd_deviation_value d) @ sd_unit d
          @ ''(norm='' @ fmt_fixed 3 (fdiv (sd_deviation_value d) scale) @ '')'')) = Inr part"
    if "d \<in> set sds" for d using that by (fastforce simp: attempt_eq_Inr)
  then obtain parts where "mapM (\<lambda>d. attempt (scale_of (sd_sensor_name d)) (\<lambda>scale.
        Inr (sd_sensor_name d @ '':'' @ fmt_fixed 3 (sd_deviation_value d) @ sd_unit d
          @ ''(norm='' @ fmt_fixed 3 (fdiv (sd_deviation_value d) scale) @ '')''))) sds = Inr parts"
    by (rule mapM_total)
  then show ?thesis by (intro that) (simp add: exclusion_detail_def)
qed

lemma sensor_evidence_total:
  assumes "observes_all state" "name \<in> fst ` set SENSOR_SCALES" "peers \<noteq> []"
    and peers: "\<And>p. p \<in> set peers \<Longrightarrow> \<exists>s. map_of by_edge p = Some s \<and> observes_all s"
  obtains sd pws where "sensor_evidence by_edge state peers name = Inr (sd, pws)" "sd_sensor_name sd = name"
proof -
  obtain payload where payload: "getitem (observations_by_sensor state) name = Inr payload"
    by (rule getitem_observes [OF assms(1,2)])
  have "\<exists>y. attempt (getitem by_edge peer) (\<lambda>ps. attempt (getitem (observations_by_sensor ps) name)
      (\<lambda>pp. Inr (peer, \<bar>fsub (pv_value (pd_pv (hp_process_data payload))) (pv_value (pd_pv (hp_process_data pp)))\<bar>))) = Inr y"
    if p: "peer \<in> set peers" for peer
  proof -
    obtain s where s: "map_of by_edge peer = Some s" "observes_all s" using peers [OF p] by blast
    obtain pp where "getitem (observations_by_sensor s) name = Inr pp"
      by (rule getitem_observes [OF s(2) assms(2)])
    then show ?thesis by (simp add: s(1))
  qed
  then obtain ds where ds: "mapM (\<lambda>peer. attempt (getitem by_edge peer) (\<lambda>ps. attempt (getitem (observations_by_sensor ps) name)
      (\<lambda>pp. Inr (peer, \<bar>fsub (pv_value (pd_pv (hp_process_data payload))) (pv_value (pd_pv (hp_process_data pp)))\<bar>)))) peers = Inr ds"
    by (rule mapM_total)
  moreover have "length ds \<noteq> 0" using mapM_length [OF ds] assms(3) by simp
  ultimately show ?thesis
    by (intro that) (simp add: sensor_evidence_def payload Let_def fdiv_res_def, simp)
qed

lemma normalized_pair_distance_nonneg:
  assumes "normalized_pair_distance a b = Inr d" shows "0 \<le> d \<and> is_double d"
proof -
  obtain ds where ds: "mapM (scaled_difference a b) SENSOR_SCALES = Inr ds" "d = fdiv (py_sum ds) (of_nat (length ds))"
    using assms by (auto simp: normalized_pair_distance_def attempt_eq_Inr)
  have "0 \<le> x \<and> is_double x" if x: "x \<in> set ds" for x
  proof -
    obtain sc where sc: "sc \<in> set SENSOR_SCALES" "scaled_difference a b sc = Inr x"
      using mapM_set_origin [OF ds(1) x] by blast
    from sc(1) have "0 < snd sc" by (auto simp: SENSOR_SCALES_def)
    with sc(2) show ?thesis
      by (auto simp: scaled_difference_def attempt_eq_Inr fdiv_def intro!: fl.nonneg)
  qed
  then have "0 \<le> py_sum ds" by (rule py_sum_nonneg)
  then show ?thesis by (simp add: ds(2) fdiv_def fl.nonneg)
qed

text \<open>The overall deviation is not negative, so the score divides by at least one.\<close>

lemma overall_nonneg: "0 \<le> py_sum ds \<Longrightarrow> 0 \<le> py_round 3 (fdiv (py_sum ds) (of_nat n))"
  by (intro rnd.nonneg) (simp add: fdiv_def fl.nonneg)

lemma one_plus_ge_1: "0 \<le> x \<Longrightarrow> 1 \<le> fadd 1 x"
  using fl.int_lower [of 1 "1 + x"] by (simp add: fadd_def)

lemma score_bounds: "0 \<le> x \<Longrightarrow> 0 \<le> py_round 3 (fdiv 1 (fadd 1 x)) \<and> py_round 3 (fdiv 1 (fadd 1 x)) \<le> 1"
  using one_plus_ge_1 [of x]
  by (auto simp: fdiv_def intro!: rnd.nonneg fl.nonneg rnd.le_one fl.le_one)

lemma edge_exclusion_total:
  assumes "\<And>d. d \<in> set sds \<Longrightarrow> sd_sensor_name d \<in> fst ` set SENSOR_SCALES"
  obtains exo where "edge_exclusion rid q e c dev sds = Inr exo"
proof (cases "c + 1 < q")
  case True
  obtain t where "exclusion_detail c dev sds = Inr t" by (rule exclusion_detail_total [OF assms])
  with True show ?thesis by (intro that) (simp add: edge_exclusion_def)
next
  case False
  then show ?thesis by (intro that) (simp add: edge_exclusion_def)
qed

lemma edge_trust_total:
  assumes c: "complete_round edges states" and e: "e \<in> set edges" "p \<in> set edges" "p \<noteq> e"
    and dists: "pairwise_distances (states_by_edge states) edges = Inr dists"
  obtains v where "edge_trust rid edges (states_by_edge states) dists q e = Inr v"
proof -
  let ?by = "states_by_edge states" and ?peers = "filter (\<lambda>p. p \<noteq> e) edges"
  obtain s where s: "map_of ?by e = Some s" "observes_all s"
    by (rule complete_round_state [OF c e(1)])
  have peers: "?peers \<noteq> []" using e by (auto simp: filter_empty_conv)
  have ev: "\<exists>y. sensor_evidence ?by s ?peers name = Inr y \<and> sd_sensor_name (fst y) = name"
    if n: "name \<in> fst ` set SENSOR_SCALES" for name
  proof -
    have "\<exists>s. map_of ?by p = Some s \<and> observes_all s" if "p \<in> set ?peers" for p
      using that by (auto elim: complete_round_state [OF c])
    from sensor_evidence_total [OF s(2) n peers this]
    obtain sd pws where "sensor_evidence ?by s ?peers name = Inr (sd, pws)" "sd_sensor_name sd = name" .
    then show ?thesis by simp
  qed
  have evs: "\<exists>y. sensor_evidence ?by s ?peers name = Inr y" if "name \<in> set (map fst SENSOR_SCALES)" for name
    using ev [of name] that by (auto simp only: set_map)
  have names: "sd_sensor_name (fst y) = name"
    if n: "name \<in> fst ` set SENSOR_SCALES" and y: "sensor_evidence ?by s ?peers name = Inr y" for name y
    using ev [OF n] y by auto
  from evs obtain es where es: "mapM (sensor_evidence ?by s ?peers) (map fst SENSOR_SCALES) = Inr es"
    by (rule mapM_total)
  have entry: "\<exists>d. lookup_distance dists e p = Inr d" if "p \<in> set ?peers" for p
  proof -
    from that have "p \<in> set edges" "e \<noteq> p" by auto
    from pairwise_distances_entry [OF dists e(1) this] show ?thesis
      by (metis lookup_distance_Inr)
  qed
  then obtain ds where ds: "mapM (lookup_distance dists e) ?peers = Inr ds" by (rule mapM_total)
  have nonneg: "0 \<le> d \<and> is_double d" if d: "d \<in> set ds" for d
  proof -
    obtain p where "p \<in> set ?peers" "lookup_distance dists e p = Inr d"
      using mapM_set_origin [OF ds d] by blast
    then have p: "p \<in> set edges" "e \<noteq> p" "map_of dists (e, p) = Some d" by (auto simp: lookup_distance_Inr)
    obtain a b d' where "normalized_pair_distance a b = Inr d'" "map_of dists (e, p) = Some d'"
      by (rule pairwise_distances_entry [OF dists e(1) p(1,2)])
    with p(3) show ?thesis using normalized_pair_distance_nonneg by simp
  qed
  then have dev: "0 \<le> py_round 3 (fdiv (py_sum ds) (of_nat (length ?peers)))"
    by (intro overall_nonneg py_sum_nonneg)
  have "sd_sensor_name d \<in> fst ` set SENSOR_SCALES" if d: "d \<in> set (map fst es)" for d
  proof -
    from d obtain y where y: "y \<in> set es" "d = fst y" by auto
    from mapM_set_origin [OF es y(1)] obtain name where
      "name \<in> set (map fst SENSOR_SCALES)" "sensor_evidence ?by s ?peers name = Inr y" ..
    then show ?thesis using names [of name y] y(2) by (simp only: set_map)
  qed
  then obtain exo where exo: "edge_exclusion rid q e (length (filter (\<lambda>d. d \<le> PAIRWISE_CONSISTENCY_THRESHOLD) ds))
      (py_round 3 (fdiv (py_sum ds) (of_nat (length ?peers)))) (map fst es) = Inr exo"
    by (rule edge_exclusion_total)
  have nz: "(of_nat (length ?peers) :: flt) \<noteq> 0"
      "fadd 1 (py_round 3 (fdiv (py_sum ds) (of_nat (length ?peers)))) \<noteq> 0"
    using peers one_plus_ge_1 [OF dev] by auto
  have "\<exists>v. edge_trust rid edges ?by dists q e = Inr v"
    unfolding edge_trust_def getitem_Some [OF s(1)] Let_def attempt_Inr es ds fdiv_res_def if_not_P [OF nz(1)]
      if_not_P [OF nz(2)] exo by blast
  then show ?thesis using that by blast
qed

section \<open>The round: laws\<close>

definition verdict_of :: "round_identity \<Rightarrow> string list \<Rightarrow> replicated_state list \<Rightarrow> string \<Rightarrow> edge_verdict \<Rightarrow> bool" where
  "verdict_of rid edges states e v = (case v of (entry, ev, exo) \<Rightarrow>
     entry = \<lparr>tr_edge_id = e, tr_score = te_score ev\<rparr> \<and> te_edge_id ev = e \<and> te_round_identity ev = rid \<and>
     te_compatible_peer_count ev = int (support edges states e) \<and>
     0 \<le> te_overall_normalized_deviation ev \<and> 0 \<le> te_score ev \<and> te_score ev \<le> 1 \<and>
     (exo \<noteq> None \<longleftrightarrow> support edges states e + 1 < length edges div 2 + 1) \<and>
     (\<forall>x. exo = Some x \<longrightarrow> ex_edge_id x = e \<and> ex_round_identity x = rid \<and>
        ex_reason x = (if SUSPECTED_BYZANTINE_THRESHOLD \<le> te_overall_normalized_deviation ev
          then SUSPECTED_BYZANTINE_BEHAVIOR else INCONSISTENT_VIEW)))"

lemma verdict_of_ids:
  assumes "verdict_of rid edges states e v"
  shows "tr_edge_id (fst v) = e" "te_edge_id (fst (snd v)) = e" "tr_score (fst v) = te_score (fst (snd v))"
    "te_round_identity (fst (snd v)) = rid" "te_compatible_peer_count (fst (snd v)) = int (support edges states e)"
    "0 \<le> te_overall_normalized_deviation (fst (snd v))" "0 \<le> te_score (fst (snd v))" "te_score (fst (snd v)) \<le> 1"
  using assms by (simp_all add: verdict_of_def case_prod_beta)

lemma verdict_of_exclusion:
  assumes "verdict_of rid edges states e v" "snd (snd v) = Some x"
  shows "ex_edge_id x = e" "ex_round_identity x = rid"
    "ex_reason x = (if SUSPECTED_BYZANTINE_THRESHOLD \<le> te_overall_normalized_deviation (fst (snd v))
      then SUSPECTED_BYZANTINE_BEHAVIOR else INCONSISTENT_VIEW)"
  using assms unfolding verdict_of_def case_prod_beta by blast+

lemma edge_trust_verdict:
  assumes dists: "pairwise_distances (states_by_edge states) edges = Inr dists" and e: "e \<in> set edges"
    and v: "edge_trust rid edges (states_by_edge states) dists (length edges div 2 + 1) e = Inr v"
  shows "verdict_of rid edges states e v"
proof -
  obtain entry ev exo where v': "v = (entry, ev, exo)" by (cases v)
  from v [unfolded v'] obtain ds where d:
    "mapM (lookup_distance dists e) (filter (\<lambda>p. p \<noteq> e) edges) = Inr ds"
    "te_compatible_peer_count ev = int (length (filter (\<lambda>d. d \<le> PAIRWISE_CONSISTENCY_THRESHOLD) ds))"
    "te_overall_normalized_deviation ev = py_round 3 (fdiv (py_sum ds) (of_nat (length (filter (\<lambda>p. p \<noteq> e) edges))))"
    "te_score ev = py_round 3 (fdiv 1 (fadd 1 (te_overall_normalized_deviation ev)))"
    "entry = \<lparr>tr_edge_id = e, tr_score = te_score ev\<rparr>" "te_edge_id ev = e" "te_round_identity ev = rid"
    "edge_exclusion rid (length edges div 2 + 1) e (nat (te_compatible_peer_count ev))
       (te_overall_normalized_deviation ev) (te_sensor_deviations ev) = Inr exo"
    by (rule edge_trust_Inr)
  have count: "te_compatible_peer_count ev = int (support edges states e)"
    by (simp only: d(2) compatible_count [OF dists e d(1)])
  have "0 \<le> x \<and> is_double x" if x: "x \<in> set ds" for x
  proof -
    from mapM_set_origin [OF d(1) x] obtain p where p: "p \<in> set edges" "e \<noteq> p" "map_of dists (e, p) = Some x"
      by (auto simp: lookup_distance_Inr)
    obtain a b d' where "normalized_pair_distance a b = Inr d'" "map_of dists (e, p) = Some d'"
      by (rule pairwise_distances_entry [OF dists e p(1,2)])
    with p(3) show ?thesis using normalized_pair_distance_nonneg by simp
  qed
  then have dev: "0 \<le> te_overall_normalized_deviation ev"
    unfolding d(3) by (intro overall_nonneg py_sum_nonneg)
  show ?thesis
    using edge_exclusion_Inr [OF d(8)] score_bounds [OF dev]
    by (auto simp: verdict_of_def v' count dev d(4-7))
qed

lemma map_filter_in: "y \<in> set (List.map_filter f xs) \<longleftrightarrow> (\<exists>x \<in> set xs. f x = Some y)"
  by (induction xs) (auto split: option.splits)

lemma list_all2_in2: "list_all2 P xs ys \<Longrightarrow> y \<in> set ys \<Longrightarrow> \<exists>x \<in> set xs. P x y"
  by (induction rule: list_all2_induct) auto

lemma map_filter_verdicts:
  assumes "list_all2 (verdict_of rid edges states) es vs"
  shows "map ex_edge_id (List.map_filter (snd \<circ> snd) vs) =
    filter (\<lambda>e. support edges states e + 1 < length edges div 2 + 1) es"
  using assms
  by (induction rule: list_all2_induct) (auto simp: verdict_of_def split: option.splits)

lemma evaluate_trust_verdicts:
  assumes "evaluate_trust rid edges states = Inr (ranking, exs, evs)"
  obtains vs where "list_all2 (verdict_of rid edges states) edges vs"
    "ranking = \<lparr>tr_round_identity = rid, tr_participating_edges = edges, tr_entries = map fst vs\<rparr>"
    "exs = List.map_filter (snd \<circ> snd) vs" "evs = map (fst \<circ> snd) vs"
proof -
  let ?by = "states_by_edge states" and ?q = "length edges div 2 + 1"
  obtain dists vs where d: "pairwise_distances ?by edges = Inr dists"
    "mapM (edge_trust rid edges ?by dists ?q) edges = Inr vs"
    "mk_TrustRanking rid edges (map fst vs) = Inr ranking"
    "exs = List.map_filter (snd \<circ> snd) vs" "evs = map (fst \<circ> snd) vs"
    using assms by (auto simp: evaluate_trust_def Let_def attempt_eq_Inr)
  have "list_all2 (verdict_of rid edges states) edges vs"
  proof (rule list.rel_mono_strong [OF d(2) [unfolded mapM_eq_Inr]])
    show "verdict_of rid edges states e v" if "e \<in> set edges" "edge_trust rid edges ?by dists ?q e = Inr v" for e v
      by (rule edge_trust_verdict [OF d(1) that])
  qed
  with d show ?thesis by (intro that) (auto simp: mk_TrustRanking_def split: if_splits)
qed

lemma evaluate_trust_Inr:
  assumes "evaluate_trust rid edges states = Inr (ranking, exs, evs)"
  shows "tr_round_identity ranking = rid" "tr_participating_edges ranking = edges"
    "map tr_edge_id (tr_entries ranking) = edges" "map te_edge_id evs = edges"
    "map tr_score (tr_entries ranking) = map te_score evs"
    "map ex_edge_id exs = filter (\<lambda>e. support edges states e + 1 < length edges div 2 + 1) edges"
    "\<And>x. x \<in> set exs \<Longrightarrow> ex_round_identity x = rid"
    "\<And>ev. ev \<in> set evs \<Longrightarrow> te_round_identity ev = rid \<and> te_compatible_peer_count ev = int (support edges states (te_edge_id ev))
       \<and> 0 \<le> te_overall_normalized_deviation ev \<and> 0 \<le> te_score ev \<and> te_score ev \<le> 1"
proof -
  obtain vs where vs: "list_all2 (verdict_of rid edges states) edges vs"
    "ranking = \<lparr>tr_round_identity = rid, tr_participating_edges = edges, tr_entries = map fst vs\<rparr>"
    "exs = List.map_filter (snd \<circ> snd) vs" "evs = map (fst \<circ> snd) vs"
    by (rule evaluate_trust_verdicts [OF assms])
  have id: "list_all2 (verdict_of rid edges states) es vs \<Longrightarrow>
      map (tr_edge_id \<circ> fst) vs = es \<and> map (te_edge_id \<circ> (fst \<circ> snd)) vs = es \<and>
      map (tr_score \<circ> fst) vs = map (te_score \<circ> (fst \<circ> snd)) vs" for es vs
    by (induction rule: list_all2_induct) (simp_all add: verdict_of_ids)
  have each: "\<exists>e. verdict_of rid edges states e v" if "v \<in> set vs" for v
    using list_all2_in2 [OF vs(1) that] by blast
  show "tr_round_identity ranking = rid" "tr_participating_edges ranking = edges"
    "map tr_edge_id (tr_entries ranking) = edges" "map te_edge_id evs = edges"
    "map tr_score (tr_entries ranking) = map te_score evs"
    using id [OF vs(1)] by (simp_all add: vs(2,4))
  show "map ex_edge_id exs = filter (\<lambda>e. support edges states e + 1 < length edges div 2 + 1) edges"
    unfolding vs(3) by (rule map_filter_verdicts [OF vs(1)])
  show "ex_round_identity x = rid" if "x \<in> set exs" for x
  proof -
    from that vs(3) obtain v where v: "v \<in> set vs" "snd (snd v) = Some x"
      by (auto simp: map_filter_in)
    from each [OF v(1)] verdict_of_exclusion(2) [OF _ v(2)] show ?thesis by blast
  qed
  show "te_round_identity ev = rid \<and> te_compatible_peer_count ev = int (support edges states (te_edge_id ev))
       \<and> 0 \<le> te_overall_normalized_deviation ev \<and> 0 \<le> te_score ev \<and> te_score ev \<le> 1" if "ev \<in> set evs" for ev
  proof -
    from that vs(4) obtain v where v: "v \<in> set vs" "fst (snd v) = ev" by auto
    obtain e where "verdict_of rid edges states e v" using each [OF v(1)] ..
    from verdict_of_ids [OF this] v(2) show ?thesis by simp
  qed
qed

text \<open>The reason of an exclusion is read off the evidence of the same edge.\<close>

lemma evaluate_trust_reason:
  assumes "evaluate_trust rid edges states = Inr (ranking, exs, evs)" "x \<in> set exs"
  shows "\<exists>ev \<in> set evs. te_edge_id ev = ex_edge_id x \<and>
    ex_reason x = (if SUSPECTED_BYZANTINE_THRESHOLD \<le> te_overall_normalized_deviation ev
      then SUSPECTED_BYZANTINE_BEHAVIOR else INCONSISTENT_VIEW)"
proof -
  obtain vs where vs: "list_all2 (verdict_of rid edges states) edges vs"
    "exs = List.map_filter (snd \<circ> snd) vs" "evs = map (fst \<circ> snd) vs"
    by (rule evaluate_trust_verdicts [OF assms(1)])
  from assms(2) vs(2) obtain v where v: "v \<in> set vs" "snd (snd v) = Some x"
    by (auto simp: map_filter_in)
  then obtain e where "verdict_of rid edges states e v"
    using list_all2_in2 [OF vs(1)] by blast
  note e = verdict_of_exclusion [OF this v(2)] verdict_of_ids(2) [OF this]
  show ?thesis
  proof (rule bexI, rule conjI)
    show "te_edge_id (fst (snd v)) = ex_edge_id x" by (simp only: e)
    show "ex_reason x = (if SUSPECTED_BYZANTINE_THRESHOLD \<le> te_overall_normalized_deviation (fst (snd v))
      then SUSPECTED_BYZANTINE_BEHAVIOR else INCONSISTENT_VIEW)" by (rule e)
    show "fst (snd v) \<in> set evs" using v(1) vs(3) by simp
  qed
qed

lemma evaluate_trust_total:
  assumes c: "complete_round edges states" and two: "\<And>e. e \<in> set edges \<Longrightarrow> \<exists>p \<in> set edges. p \<noteq> e"
  obtains r where "evaluate_trust rid edges states = Inr r"
proof -
  let ?by = "states_by_edge states" and ?q = "length edges div 2 + 1"
  have "\<exists>y. attempt (pair_distance ?by k) (\<lambda>d. Inr (k, d)) = Inr y" if "k \<in> set (edge_pairs edges)" for k
  proof -
    from that have k: "fst k \<in> set edges" "snd k \<in> set edges" by (auto simp: edge_pairs_def)
    obtain a where a: "map_of ?by (fst k) = Some a" "observes_all a" by (rule complete_round_state [OF c k(1)])
    obtain b where b: "map_of ?by (snd k) = Some b" "observes_all b" by (rule complete_round_state [OF c k(2)])
    obtain d where "normalized_pair_distance a b = Inr d" by (rule normalized_pair_distance_total [OF a(2) b(2)])
    with a b show ?thesis by (simp add: pair_distance_def)
  qed
  then obtain es where "mapM (\<lambda>k. attempt (pair_distance ?by k) (\<lambda>d. Inr (k, d))) (edge_pairs edges) = Inr es"
    by (rule mapM_total)
  then have dists: "pairwise_distances ?by edges = Inr (dict_of es)" by (simp add: pairwise_distances_def)
  have "\<exists>v. edge_trust rid edges ?by (dict_of es) ?q e = Inr v" if e: "e \<in> set edges" for e
  proof -
    obtain p where p: "p \<in> set edges" "p \<noteq> e" using two [OF e] ..
    from edge_trust_total [OF c e p dists] show ?thesis by metis
  qed
  then obtain vs where vs: "mapM (edge_trust rid edges ?by (dict_of es) ?q) edges = Inr vs" by (rule mapM_total)
  have "list_all2 (verdict_of rid edges states) edges vs"
  proof (rule list.rel_mono_strong [OF vs [unfolded mapM_eq_Inr]])
    show "verdict_of rid edges states e v" if "e \<in> set edges" "edge_trust rid edges ?by (dict_of es) ?q e = Inr v" for e v
      by (rule edge_trust_verdict [OF dists that])
  qed
  then have "map (tr_edge_id \<circ> fst) vs = edges"
    by (induction rule: list_all2_induct) (simp_all add: verdict_of_ids)
  then have "set (map tr_edge_id (map fst vs)) = set edges" by (simp only: map_map)
  then have "tr_edge_id ` set (map fst vs) = set edges" by (simp only: set_map)
  then have "\<exists>r. evaluate_trust rid edges states = Inr r"
    unfolding evaluate_trust_def Let_def dists attempt_Inr vs mk_TrustRanking_def by simp
  then show ?thesis using that by blast
qed

end
