(* ===== verification/Engine.thy ===== *)
theory Engine
  imports TrustModel
begin

text \<open>
  \<open>consensus/engine.py\<close>: the decision on one round. The trust evaluation excludes edges,
  the states of the others are averaged when there are enough of them, and the result is
  packed for audit; every constructor of the package runs its checks.
\<close>

section \<open>The decision\<close>

definition consensus_sensors :: "string list" where
  "consensus_sensors = [''temperature'', ''pressure'', ''rpm'']"

definition mean_reading :: "replicated_state list \<Rightarrow> string \<Rightarrow> flt res" where
  "mean_reading valid_states name = attempt (mapM (\<lambda>s. sensor_value s name) valid_states) (\<lambda>values.
     attempt (fdiv_res (py_sum values) (of_nat (length values))) (\<lambda>mean. Inr (py_round 3 mean)))"

definition build_consensused_valid_state ::
  "consensus_round_input \<Rightarrow> replicated_state list \<Rightarrow> valid_state res" where
  "build_consensused_valid_state ri valid_states = attempt
     (mapM (\<lambda>name. attempt (mean_reading valid_states name) (\<lambda>v. Inr (name, v))) consensus_sensors)
     (\<lambda>vals. Inr \<lparr>vs_round_identity = ri_round_identity ri, source_edges = map owner_edge_id valid_states,
       sensor_values = vals\<rparr>)"

definition non_excluded :: "exclusion_decision list \<Rightarrow> replicated_state list \<Rightarrow> replicated_state list" where
  "non_excluded exs states = filter (\<lambda>s. owner_edge_id s \<notin> ex_edge_id ` set exs) states"

definition evaluate :: "consensus_round_input \<Rightarrow> audit_package res" where
  "evaluate ri =
     attempt (evaluate_trust (ri_round_identity ri) (ri_participating_edges ri) (replicated_states ri))
     (\<lambda>(ranking, exs, evs). let valid_states = non_excluded exs (replicated_states ri) in
     attempt (required_quorum (int (length (ri_participating_edges ri)))) (\<lambda>quorum.
     attempt (if quorum \<le> int (length valid_states)
         then attempt (build_consensused_valid_state ri valid_states) (\<lambda>v. Inr (SUCCESS, Some v))
         else Inr (FAILED_CONSENSUS, None)) (\<lambda>(status, valid_state).
     attempt (mk_ConsensusResult (ri_round_identity ri) status (ri_participating_edges ri) ranking exs valid_state)
     (\<lambda>result. mk_ConsensusAuditPackage ri ranking exs evs status result valid_state))))"

section \<open>Quorums\<close>

text \<open>The interface of a quorum system, and the strict majorities of the participants.\<close>

locale quorum_system =
  fixes quorum :: "'a set \<Rightarrow> bool"
  assumes intersect: "quorum A \<Longrightarrow> quorum B \<Longrightarrow> A \<inter> B \<noteq> {}"
begin

lemma not_empty: "quorum A \<Longrightarrow> A \<noteq> {}"
  using intersect [of A A] by blast

lemma disjoint_not_quorum: "quorum A \<Longrightarrow> A \<inter> B = {} \<Longrightarrow> \<not> quorum B"
  using intersect by blast

lemma common_member: "quorum A \<Longrightarrow> quorum B \<Longrightarrow> \<exists>x. x \<in> A \<and> x \<in> B"
  using intersect by blast

end

definition majority :: "string list \<Rightarrow> string set \<Rightarrow> bool" where
  "majority edges A = (A \<subseteq> set edges \<and> length edges div 2 + 1 \<le> card A)"

interpretation majority: quorum_system "majority edges" for edges
proof
  fix A B assume A: "majority edges A" and B: "majority edges B"
  show "A \<inter> B \<noteq> {}"
  proof
    assume "A \<inter> B = {}"
    moreover have "finite A" "finite B" using A B by (auto simp: majority_def intro: finite_subset)
    ultimately have "card A + card B = card (A \<union> B)" by (simp add: card_Un_disjoint)
    also have "\<dots> \<le> card (set edges)" using A B by (intro card_mono) (auto simp: majority_def)
    also have "\<dots> \<le> length edges" by (rule card_length)
    finally have sum: "card A + card B \<le> length edges" .
    have "length edges div 2 + 1 \<le> card A" "length edges div 2 + 1 \<le> card B"
      using A B by (auto simp: majority_def)
    with sum have "2 * (length edges div 2) + 2 \<le> length edges" by linarith
    then show False using div_mult_mod_eq [of "length edges" 2] mod_less_divisor [of 2 "length edges"] by linarith
  qed
qed

definition trusted :: "string list \<Rightarrow> replicated_state list \<Rightarrow> string \<Rightarrow> bool" where
  "trusted edges states e = (length edges div 2 + 1 \<le> support edges states e + 1)"

text \<open>An edge and its compatible peers.\<close>

definition neighbourhood :: "string list \<Rightarrow> replicated_state list \<Rightarrow> string \<Rightarrow> string set" where
  "neighbourhood edges states e = insert e {p \<in> set edges. p \<noteq> e \<and> compatible_edges states e p}"

lemma support_card:
  assumes "distinct edges"
  shows "card (neighbourhood edges states e) = support edges states e + 1"
  by (simp add: neighbourhood_def support_def length_filter_card [OF assms])

lemma trusted_majority:
  assumes "distinct edges" "e \<in> set edges"
  shows "trusted edges states e \<longleftrightarrow> majority edges (neighbourhood edges states e)"
  using assms by (auto simp: trusted_def majority_def support_card) (auto simp: neighbourhood_def)

lemma clique_trusted:
  assumes H: "majority edges H" and e: "e \<in> H"
    and clique: "\<And>a b. a \<in> H \<Longrightarrow> b \<in> H \<Longrightarrow> a \<noteq> b \<Longrightarrow> compatible_edges states a b"
  shows "trusted edges states e"
proof -
  have "card (H - {e}) \<le> card (set (filter (\<lambda>p. p \<noteq> e \<and> compatible_edges states e p) edges))"
    using H e clique by (intro card_mono) (auto simp: majority_def)
  also have "\<dots> \<le> support edges states e" unfolding support_def by (rule card_length)
  finally have "card H \<le> support edges states e + 1"
    using H e finite_subset [of H "set edges"] by (simp add: majority_def)
  then show ?thesis using H by (simp add: trusted_def majority_def)
qed

section \<open>The engine: laws\<close>

text \<open>A round input that its constructor accepts.\<close>

definition wf_round_input :: "consensus_round_input \<Rightarrow> bool" where
  "wf_round_input ri = (mk_ConsensusRoundInput (ri_round_identity ri) (ri_participating_edges ri)
     (replicated_states ri) = Inr ri)"

lemma wf_round_input_owner:
  "wf_round_input ri \<Longrightarrow> s \<in> set (replicated_states ri) \<Longrightarrow> owner_edge_id s \<in> set (ri_participating_edges ri)"
  by (simp add: wf_round_input_def mk_ConsensusRoundInput_Inr)

definition trusted_states :: "consensus_round_input \<Rightarrow> replicated_state list" where
  "trusted_states ri = filter (\<lambda>s. trusted (ri_participating_edges ri) (replicated_states ri) (owner_edge_id s))
     (replicated_states ri)"

lemma non_excluded_trusted:
  assumes "wf_round_input ri"
    and "evaluate_trust rid (ri_participating_edges ri) (replicated_states ri) = Inr (ranking, exs, evs)"
  shows "non_excluded exs (replicated_states ri) = trusted_states ri"
proof -
  have "ex_edge_id ` set exs = {e \<in> set (ri_participating_edges ri).
      \<not> trusted (ri_participating_edges ri) (replicated_states ri) e}"
    using arg_cong [OF evaluate_trust_Inr(6) [OF assms(2)], of set] by (auto simp: trusted_def)
  then show ?thesis
    using wf_round_input_owner [OF assms(1)]
    by (auto simp: non_excluded_def trusted_states_def intro: filter_cong)
qed

lemma required_quorum_pos: "0 < n \<Longrightarrow> required_quorum (int n) = Inr (int (n div 2 + 1))"
  by (simp add: required_quorum_def zdiv_int)

text \<open>What a returned package says.\<close>

lemma evaluate_Inr:
  assumes wf: "wf_round_input ri" and "evaluate ri = Inr pkg"
  obtains "evaluate_trust (ri_round_identity ri) (ri_participating_edges ri) (replicated_states ri)
      = Inr (ap_trust_ranking pkg, ap_exclusions pkg, ap_trust_evidence pkg)"
    "ap_round_input pkg = ri"
    "cr_status (ap_consensus_result pkg) = ap_final_status pkg" "cr_exclusions (ap_consensus_result pkg) = ap_exclusions pkg"
    "cr_valid_state (ap_consensus_result pkg) = ap_valid_state pkg"
    "ap_final_status pkg = (if length (ri_participating_edges ri) div 2 + 1 \<le> length (trusted_states ri)
       then SUCCESS else FAILED_CONSENSUS)"
    "ap_final_status pkg = FAILED_CONSENSUS \<Longrightarrow> ap_valid_state pkg = None"
    "ap_final_status pkg = SUCCESS \<Longrightarrow> \<exists>v. ap_valid_state pkg = Some v \<and>
       build_consensused_valid_state ri (trusted_states ri) = Inr v"
proof -
  obtain ranking exs evs quorum st vs result where e:
    "evaluate_trust (ri_round_identity ri) (ri_participating_edges ri) (replicated_states ri) = Inr (ranking, exs, evs)"
    "required_quorum (int (length (ri_participating_edges ri))) = Inr quorum"
    "(if quorum \<le> int (length (non_excluded exs (replicated_states ri)))
       then attempt (build_consensused_valid_state ri (non_excluded exs (replicated_states ri))) (\<lambda>v. Inr (SUCCESS, Some v))
       else Inr (FAILED_CONSENSUS, None)) = Inr (st, vs)"
    "mk_ConsensusResult (ri_round_identity ri) st (ri_participating_edges ri) ranking exs vs = Inr result"
    "mk_ConsensusAuditPackage ri ranking exs evs st result vs = Inr pkg"
    using assms(2) unfolding evaluate_def attempt_eq_Inr Let_def by (auto simp: attempt_eq_Inr)
  have q: "quorum = int (length (ri_participating_edges ri) div 2 + 1)"
    using e(2) by (auto simp: required_quorum_def zdiv_int split: if_splits)
  have pkg: "ap_trust_ranking pkg = ranking" "ap_exclusions pkg = exs" "ap_trust_evidence pkg = evs"
    "ap_round_input pkg = ri" "ap_final_status pkg = st" "ap_valid_state pkg = vs" "ap_consensus_result pkg = result"
    and res: "cr_status result = st" "cr_exclusions result = exs" "cr_valid_state result = vs"
    using e(5) unfolding mk_ConsensusAuditPackage_def by (auto split: if_splits)
  note ns = non_excluded_trusted [OF wf e(1)]
  show ?thesis
  proof (rule that)
    show "ap_final_status pkg = FAILED_CONSENSUS \<Longrightarrow> ap_valid_state pkg = None"
      using e(3) by (auto simp: pkg attempt_eq_Inr split: if_splits)
    show "ap_final_status pkg = SUCCESS \<Longrightarrow> \<exists>v. ap_valid_state pkg = Some v \<and>
       build_consensused_valid_state ri (trusted_states ri) = Inr v"
      using e(3) by (auto simp: pkg ns attempt_eq_Inr split: if_splits)
    show "ap_final_status pkg = (if length (ri_participating_edges ri) div 2 + 1 \<le> length (trusted_states ri)
       then SUCCESS else FAILED_CONSENSUS)"
      using e(3) by (auto simp: pkg ns q attempt_eq_Inr split: if_splits)
  qed (use e(1) res in \<open>simp_all add: pkg\<close>)
qed

lemma build_valid_state_total:
  assumes "\<And>s. s \<in> set vs \<Longrightarrow> observes_all s" "vs \<noteq> []"
  obtains v where "build_consensused_valid_state ri vs = Inr v"
proof -
  have "\<exists>m. attempt (mean_reading vs name) (\<lambda>v. Inr (name, v)) = Inr m" if n: "name \<in> set consensus_sensors" for name
  proof -
    have "\<exists>x. sensor_value s name = Inr x" if s: "s \<in> set vs" for s
    proof -
      have "name \<in> fst ` set SENSOR_SCALES" using n by (auto simp: consensus_sensors_def SENSOR_SCALES_def)
      from sensor_value_total [OF assms(1) [OF s] this] show ?thesis by blast
    qed
    then obtain xs where xs: "mapM (\<lambda>s. sensor_value s name) vs = Inr xs" by (rule mapM_total)
    have "length xs \<noteq> 0" using mapM_length [OF xs] assms(2) by simp
    then show ?thesis by (simp add: mean_reading_def fdiv_res_def xs)
  qed
  then obtain vals where "mapM (\<lambda>name. attempt (mean_reading vs name) (\<lambda>v. Inr (name, v))) consensus_sensors = Inr vals"
    by (rule mapM_total)
  then show ?thesis by (intro that) (simp add: build_consensused_valid_state_def)
qed

lemma build_valid_state_Inr:
  assumes "build_consensused_valid_state ri vs = Inr v"
  shows "vs_round_identity v = ri_round_identity ri" "source_edges v = map owner_edge_id vs"
    "map fst (sensor_values v) = consensus_sensors"
    "\<And>name x. (name, x) \<in> set (sensor_values v) \<Longrightarrow> mean_reading vs name = Inr x"
proof -
  obtain vals where m: "mapM (\<lambda>name. attempt (mean_reading vs name) (\<lambda>v. Inr (name, v))) consensus_sensors = Inr vals"
    "v = \<lparr>vs_round_identity = ri_round_identity ri, source_edges = map owner_edge_id vs, sensor_values = vals\<rparr>"
    using assms by (auto simp: build_consensused_valid_state_def attempt_eq_Inr)
  then show "vs_round_identity v = ri_round_identity ri" "source_edges v = map owner_edge_id vs" by simp_all
  have "list_all2 (\<lambda>n e. attempt (mean_reading vs n) (\<lambda>v. Inr (n, v)) = Inr e) ns vals \<Longrightarrow> map fst vals = ns" for ns
    by (induction rule: list_all2_induct) (auto simp: attempt_eq_Inr)
  with m(1) show "map fst (sensor_values v) = consensus_sensors" by (simp add: m(2) mapM_eq_Inr)
  show "mean_reading vs name = Inr x" if "(name, x) \<in> set (sensor_values v)" for name x
    using mapM_set_origin [OF m(1)] that by (auto simp: m(2) attempt_eq_Inr)
qed

text \<open>
  A complete round with at least two participants is always decided: no subscript, no
  division and none of the constructors' checks fails.
\<close>

lemma mk_ConsensusResult_ok:
  assumes "tr_round_identity ranking = rid" "\<And>x. x \<in> set exs \<Longrightarrow> ex_round_identity x = rid"
    "tr_edge_id ` set (tr_entries ranking) = set edges" "st = SUCCESS \<longleftrightarrow> v \<noteq> None"
    "\<And>w. v = Some w \<Longrightarrow> vs_round_identity w = rid"
  shows "mk_ConsensusResult rid st edges ranking exs v = Inr \<lparr>cr_round_identity = rid, cr_status = st,
    cr_participating_edges = edges, cr_trust_ranking = ranking, cr_exclusions = exs, cr_valid_state = v\<rparr>"
proof -
  have "\<not> (\<exists>e \<in> set exs. ex_round_identity e \<noteq> rid)" using assms(2) by blast
  moreover have "\<not> (case v of None \<Rightarrow> False | Some w \<Rightarrow> vs_round_identity w \<noteq> rid)"
    using assms(5) by (simp split: option.split)
  ultimately show ?thesis
    using assms(1,3,4) by (cases st) (simp_all add: mk_ConsensusResult_def)
qed

lemma mk_ConsensusAuditPackage_ok:
  assumes "tr_round_identity ranking = ri_round_identity ri"
    "\<And>x. x \<in> set exs \<Longrightarrow> ex_round_identity x = ri_round_identity ri"
    "\<And>x. x \<in> set evs \<Longrightarrow> te_round_identity x = ri_round_identity ri"
  shows "mk_ConsensusAuditPackage ri ranking exs evs st \<lparr>cr_round_identity = ri_round_identity ri, cr_status = st,
      cr_participating_edges = edges, cr_trust_ranking = ranking, cr_exclusions = exs, cr_valid_state = v\<rparr> v =
    Inr \<lparr>ap_round_input = ri, ap_trust_ranking = ranking, ap_exclusions = exs, ap_trust_evidence = evs,
      ap_final_status = st, ap_consensus_result = \<lparr>cr_round_identity = ri_round_identity ri, cr_status = st,
      cr_participating_edges = edges, cr_trust_ranking = ranking, cr_exclusions = exs, cr_valid_state = v\<rparr>,
      ap_valid_state = v\<rparr>"
proof -
  have "\<not> (\<exists>e \<in> set exs. ex_round_identity e \<noteq> ri_round_identity ri)"
    "\<not> (\<exists>e \<in> set evs. te_round_identity e \<noteq> ri_round_identity ri)" using assms by blast+
  with assms(1) show ?thesis by (simp add: mk_ConsensusAuditPackage_def)
qed

definition complete_input :: "consensus_round_input \<Rightarrow> bool" where
  "complete_input ri = (wf_round_input ri \<and> complete_round (ri_participating_edges ri) (replicated_states ri)
     \<and> 2 \<le> card (set (ri_participating_edges ri)))"

lemma two_participants:
  assumes "2 \<le> card A" "e \<in> A" shows "\<exists>p \<in> A. p \<noteq> e"
proof (rule ccontr)
  assume "\<not> ?thesis"
  with assms(2) have "A = {e}" by blast
  with assms(1) show False by simp
qed

lemma evaluate_total:
  assumes "complete_input ri"
  obtains pkg where "evaluate ri = Inr pkg"
proof -
  let ?rid = "ri_round_identity ri" and ?es = "ri_participating_edges ri" and ?ss = "replicated_states ri"
  have wf: "wf_round_input ri" and c: "complete_round ?es ?ss" and two: "2 \<le> card (set ?es)"
    using assms by (auto simp: complete_input_def)
  obtain r where "evaluate_trust ?rid ?es ?ss = Inr r"
    by (rule evaluate_trust_total [OF c two_participants [OF two]])
  then obtain ranking exs evs where t: "evaluate_trust ?rid ?es ?ss = Inr (ranking, exs, evs)"
    by (cases r) auto
  note facts = evaluate_trust_Inr [OF t]
  have len: "0 < length ?es" using two by (cases ?es) auto
  define vs where "vs = non_excluded exs ?ss"
  have "\<exists>st v. (if int (length ?es div 2 + 1) \<le> int (length vs)
      then attempt (build_consensused_valid_state ri vs) (\<lambda>v. Inr (SUCCESS, Some v))
      else Inr (FAILED_CONSENSUS, None)) = Inr (st, v) \<and> (st = SUCCESS \<longleftrightarrow> v \<noteq> None) \<and>
      (\<forall>w. v = Some w \<longrightarrow> vs_round_identity w = ?rid)"
  proof (cases "int (length ?es div 2 + 1) \<le> int (length vs)")
    case True
    then have "vs \<noteq> []" by auto
    moreover have "observes_all s" if "s \<in> set vs" for s
      using that c by (auto simp: vs_def non_excluded_def complete_round_def)
    ultimately obtain v where "build_consensused_valid_state ri vs = Inr v"
      using build_valid_state_total by metis
    with True build_valid_state_Inr(1) [OF this] show ?thesis by simp
  qed auto
  then obtain st v where v: "(if int (length ?es div 2 + 1) \<le> int (length vs)
      then attempt (build_consensused_valid_state ri vs) (\<lambda>v. Inr (SUCCESS, Some v))
      else Inr (FAILED_CONSENSUS, None)) = Inr (st, v)" "st = SUCCESS \<longleftrightarrow> v \<noteq> None"
      "\<And>w. v = Some w \<Longrightarrow> vs_round_identity w = ?rid" by blast
  have "tr_edge_id ` set (tr_entries ranking) = set ?es"
    using arg_cong [OF facts(3), of set] by simp
  then have r: "mk_ConsensusResult ?rid st ?es ranking exs v = Inr \<lparr>cr_round_identity = ?rid, cr_status = st,
      cr_participating_edges = ?es, cr_trust_ranking = ranking, cr_exclusions = exs, cr_valid_state = v\<rparr>"
    using facts(1,7) v(2,3) by (intro mk_ConsensusResult_ok) auto
  have p: "mk_ConsensusAuditPackage ri ranking exs evs st \<lparr>cr_round_identity = ?rid, cr_status = st,
      cr_participating_edges = ?es, cr_trust_ranking = ranking, cr_exclusions = exs, cr_valid_state = v\<rparr> v =
    Inr \<lparr>ap_round_input = ri, ap_trust_ranking = ranking, ap_exclusions = exs, ap_trust_evidence = evs,
      ap_final_status = st, ap_consensus_result = \<lparr>cr_round_identity = ?rid, cr_status = st,
      cr_participating_edges = ?es, cr_trust_ranking = ranking, cr_exclusions = exs, cr_valid_state = v\<rparr>,
      ap_valid_state = v\<rparr>"
    using facts(1,7,8) by (intro mk_ConsensusAuditPackage_ok) auto
  have "\<exists>pkg. evaluate ri = Inr pkg"
    unfolding evaluate_def Let_def t required_quorum_pos [OF len] attempt_Inr prod.case vs_def [symmetric] v(1) r p
    by blast
  then show ?thesis using that by blast
qed

section \<open>Equal readings\<close>

definition same_readings :: "replicated_state \<Rightarrow> replicated_state \<Rightarrow> bool" where
  "same_readings a b = (\<forall>name \<in> fst ` set SENSOR_SCALES. sensor_value a name = sensor_value b name)"

lemma same_readings_distance:
  assumes "same_readings a b" "observes_all a"
  shows "normalized_pair_distance a b = Inr 0"
proof -
  have "scaled_difference a b sc = Inr 0" if sc: "sc \<in> set SENSOR_SCALES" for sc
  proof -
    have n: "fst sc \<in> fst ` set SENSOR_SCALES" using sc by (rule imageI)
    obtain v where "sensor_value a (fst sc) = Inr v" by (rule sensor_value_total [OF assms(2) n])
    moreover from this have "sensor_value b (fst sc) = Inr v" using assms(1) n by (metis same_readings_def)
    ultimately show ?thesis by (simp add: scaled_difference_def fdiv_def)
  qed
  then have "mapM (scaled_difference a b) SENSOR_SCALES = Inr (map (\<lambda>_. 0) SENSOR_SCALES)"
    by (rule mapM_Inr)
  then show ?thesis
    by (simp add: normalized_pair_distance_def fdiv_def py_sum_zeros map_replicate_const)
qed

lemma same_readings_compatible:
  assumes "map_of (states_by_edge states) l = Some a" "map_of (states_by_edge states) r = Some b"
    and "same_readings a b" "observes_all a"
  shows "compatible_edges states l r"
proof -
  have "0 \<le> PAIRWISE_CONSISTENCY_THRESHOLD"
    unfolding PAIRWISE_CONSISTENCY_THRESHOLD_def dec_def by (intro fl.nonneg) simp
  then show ?thesis
    by (simp add: compatible_edges_def assms(1,2) same_readings_distance [OF assms(3,4)])
qed

section \<open>A sample round\<close>

definition sample_payload :: "string \<Rightarrow> flt \<Rightarrow> raw_hart_payload" where
  "sample_payload unit v = \<lparr>hp_protocol = ''HART'', hp_gateway_id = ''edge-1'',
     hp_timestamp = ''2026-01-01T00:00:00+00:00'',
     hp_device_info = \<lparr>di_tag = ''TT-101'', di_long_tag = ''Compressor'', di_manufacturer_id = 1, di_device_type = 2\<rparr>,
     hp_process_data = \<lparr>pd_pv = \<lparr>pv_value = v, pv_unit = unit, pv_unit_code = None, pv_description = None\<rparr>,
       pd_sv = None, pd_loop_current_ma = 12, pd_pv_percent_range = 50,
       pd_physics_metrics = \<lparr>pm_noise_floor = 0, pm_rate_of_change_dtdt = 0, pm_local_stability_score = 1\<rparr>\<rparr>,
     hp_diagnostics = \<lparr>dg_device_status_hex = ''0x00'', dg_field_device_malfunction = False,
       dg_loop_current_saturated = False, dg_cold_start = False\<rparr>\<rparr>"

definition sample_time :: datetime where
  "sample_time = \<lparr>dt_year = 2026, dt_month = 1, dt_day = 1, dt_hour = 0, dt_minute = 0, dt_second = 0,
     dt_micro = 0, dt_offset = Some 0\<rparr>"

definition sample_identity :: round_identity where
  "sample_identity = \<lparr>round_id = ''round-1'', window_started_at = sample_time, window_ended_at = sample_time\<rparr>"

definition sample_edges :: "string list" where
  "sample_edges = [''edge-1'', ''edge-2'', ''edge-3'']"

definition sample_state :: "string \<Rightarrow> flt \<times> flt \<times> flt \<Rightarrow> replicated_state" where
  "sample_state e v = \<lparr>rs_round_identity = sample_identity, owner_edge_id = e, rs_participating_edges = sample_edges,
     observations_by_sensor = [(''temperature'', sample_payload ''degC'' (fst v)),
       (''pressure'', sample_payload ''bar'' (fst (snd v))), (''rpm'', sample_payload ''rpm'' (snd (snd v)))],
     is_validated = False\<rparr>"

text \<open>Two edges agree and the third reports anything.\<close>

definition sample_input :: "flt \<times> flt \<times> flt \<Rightarrow> flt \<times> flt \<times> flt \<Rightarrow> consensus_round_input" where
  "sample_input v w = \<lparr>ri_round_identity = sample_identity, ri_participating_edges = sample_edges,
     replicated_states = [sample_state ''edge-1'' v, sample_state ''edge-2'' v, sample_state ''edge-3'' w]\<rparr>"

lemma sample_state_observes [simp]: "observes_all (sample_state e v)"
  by (simp add: observes_all_def sample_state_def SENSOR_SCALES_def)

lemma sample_state_owner [simp]: "owner_edge_id (sample_state e v) = e" "rs_round_identity (sample_state e v) = sample_identity"
  by (simp_all add: sample_state_def)

lemma sample_input_complete: "complete_input (sample_input v w)"
  by (simp add: complete_input_def wf_round_input_def mk_ConsensusRoundInput_Inr complete_round_def
    sample_input_def sample_edges_def)

lemma sample_by_edge:
  "map_of (states_by_edge (replicated_states (sample_input v w))) ''edge-1'' = Some (sample_state ''edge-1'' v)"
  "map_of (states_by_edge (replicated_states (sample_input v w))) ''edge-2'' = Some (sample_state ''edge-2'' v)"
  by (simp_all add: states_by_edge_def map_of_dict_of sample_input_def)

lemma sample_compatible:
  assumes "a \<in> {''edge-1'', ''edge-2''}" "b \<in> {''edge-1'', ''edge-2''}"
  shows "compatible_edges (replicated_states (sample_input v w)) a b"
proof -
  have "same_readings (sample_state e v) (sample_state f v)" for e f
    by (simp add: same_readings_def sensor_value_def sample_state_def SENSOR_SCALES_def)
  with assms show ?thesis
    by (auto intro: same_readings_compatible sample_by_edge)
qed

lemma sample_majority: "majority (ri_participating_edges (sample_input v w)) {''edge-1'', ''edge-2''}"
  by (simp add: majority_def sample_input_def sample_edges_def)

lemma clique_succeeds:
  assumes "complete_input ri" and H: "majority (ri_participating_edges ri) H"
    and clique: "\<And>a b. a \<in> H \<Longrightarrow> b \<in> H \<Longrightarrow> a \<noteq> b \<Longrightarrow> compatible_edges (replicated_states ri) a b"
  shows "\<exists>pkg v. evaluate ri = Inr pkg \<and> ap_final_status pkg = SUCCESS \<and> ap_valid_state pkg = Some v
    \<and> H \<subseteq> set (source_edges v) \<and> H \<inter> ex_edge_id ` set (ap_exclusions pkg) = {}"
proof -
  let ?es = "ri_participating_edges ri" and ?ss = "replicated_states ri"
  have wf: "wf_round_input ri" and c: "complete_round ?es ?ss" using assms(1) by (auto simp: complete_input_def)
  have tr: "trusted ?es ?ss e" if "e \<in> H" for e by (rule clique_trusted [OF H that clique])
  have sub: "H \<subseteq> owner_edge_id ` set (trusted_states ri)"
    using tr H c by (force simp: trusted_states_def majority_def complete_round_def)
  have "card H \<le> card (owner_edge_id ` set (trusted_states ri))" by (intro card_mono sub) simp
  also have "\<dots> \<le> length (trusted_states ri)" by (meson List.finite_set card_image_le card_length le_trans)
  finally have q: "length ?es div 2 + 1 \<le> length (trusted_states ri)" using H by (simp add: majority_def)
  obtain pkg where e: "evaluate ri = Inr pkg" by (rule evaluate_total [OF assms(1)])
  from wf e show ?thesis
  proof (rule evaluate_Inr)
    assume t: "evaluate_trust (ri_round_identity ri) ?es ?ss
        = Inr (ap_trust_ranking pkg, ap_exclusions pkg, ap_trust_evidence pkg)"
      and s: "ap_final_status pkg = (if length ?es div 2 + 1 \<le> length (trusted_states ri)
        then SUCCESS else FAILED_CONSENSUS)"
        "ap_final_status pkg = SUCCESS \<Longrightarrow> \<exists>v. ap_valid_state pkg = Some v \<and>
           build_consensused_valid_state ri (trusted_states ri) = Inr v"
    from s q obtain v where v: "ap_final_status pkg = SUCCESS" "ap_valid_state pkg = Some v"
      "build_consensused_valid_state ri (trusted_states ri) = Inr v" by auto
    have "H \<subseteq> set (source_edges v)" using sub build_valid_state_Inr(2) [OF v(3)] by simp
    moreover have "ex_edge_id ` set (ap_exclusions pkg) = {x \<in> set ?es. \<not> trusted ?es ?ss x}"
      using arg_cong [OF evaluate_trust_Inr(6) [OF t], of set] by (auto simp: trusted_def)
    then have "H \<inter> ex_edge_id ` set (ap_exclusions pkg) = {}" using tr by auto
    ultimately show ?thesis using e v(1,2) by blast
  qed
qed

lemma engine_success_sample:
  "\<exists>pkg v. evaluate (sample_input v0 w0) = Inr pkg \<and> ap_final_status pkg = SUCCESS \<and> ap_valid_state pkg = Some v
    \<and> {''edge-1'', ''edge-2''} \<subseteq> set (source_edges v) \<and> {''edge-1'', ''edge-2''} \<inter> ex_edge_id ` set (ap_exclusions pkg) = {}"
  by (rule clique_succeeds [OF sample_input_complete sample_majority]) (rule sample_compatible)

text \<open>Totality and the decision in one statement, for the clients of the engine.\<close>

lemma engine_decision:
  assumes "complete_input ri"
  shows "\<exists>pkg. evaluate ri = Inr pkg \<and> ap_round_input pkg = ri \<and>
    (ap_final_status pkg = SUCCESS \<longleftrightarrow>
       length (ri_participating_edges ri) div 2 + 1 \<le> length (trusted_states ri)) \<and>
    map_option source_edges (ap_valid_state pkg) =
      (if ap_final_status pkg = SUCCESS then Some (map owner_edge_id (trusted_states ri)) else None) \<and>
    map ex_edge_id (ap_exclusions pkg) =
      filter (\<lambda>e. \<not> trusted (ri_participating_edges ri) (replicated_states ri) e) (ri_participating_edges ri)"
proof -
  obtain pkg where e: "evaluate ri = Inr pkg" by (rule evaluate_total [OF assms])
  have "wf_round_input ri" using assms by (simp add: complete_input_def)
  from this e show ?thesis
  proof (rule evaluate_Inr)
    assume t: "evaluate_trust (ri_round_identity ri) (ri_participating_edges ri) (replicated_states ri)
        = Inr (ap_trust_ranking pkg, ap_exclusions pkg, ap_trust_evidence pkg)"
      and p: "ap_round_input pkg = ri"
      and s: "ap_final_status pkg = (if length (ri_participating_edges ri) div 2 + 1 \<le> length (trusted_states ri)
        then SUCCESS else FAILED_CONSENSUS)"
        "ap_final_status pkg = FAILED_CONSENSUS \<Longrightarrow> ap_valid_state pkg = None"
        "ap_final_status pkg = SUCCESS \<Longrightarrow> \<exists>v. ap_valid_state pkg = Some v \<and>
           build_consensused_valid_state ri (trusted_states ri) = Inr v"
    have "map_option source_edges (ap_valid_state pkg) =
        (if ap_final_status pkg = SUCCESS then Some (map owner_edge_id (trusted_states ri)) else None)"
      using s(2,3) build_valid_state_Inr(2) by (cases "ap_final_status pkg") auto
    with e p s(1) evaluate_trust_Inr(6) [OF t] show ?thesis
      by (auto simp: trusted_def not_le)
  qed
qed

section \<open>Properties\<close>

text \<open>
  C1. A complete round with at least two participants is always decided, and the decision
  is \<open>SUCCESS\<close> exactly when the states of trusted edges reach the strict majority; then
  the valid state names the trusted owners, in order, and no others.
\<close>

theorem engine_decides:
  assumes "complete_input ri"
  shows "\<exists>pkg. evaluate ri = Inr pkg \<and> ap_round_input pkg = ri \<and>
    (ap_final_status pkg = SUCCESS \<longleftrightarrow>
       length (ri_participating_edges ri) div 2 + 1 \<le> length (trusted_states ri)) \<and>
    map_option source_edges (ap_valid_state pkg) =
      (if ap_final_status pkg = SUCCESS then Some (map owner_edge_id (trusted_states ri)) else None) \<and>
    map ex_edge_id (ap_exclusions pkg) =
      filter (\<lambda>e. \<not> trusted (ri_participating_edges ri) (replicated_states ri) e) (ri_participating_edges ri)"
  using assms by (rule engine_decision)

theorem engine_decides_witness:
  "\<exists>pkg. evaluate (sample_input (60, 3, 1500) (0, 9, 0)) = Inr pkg \<and>
     ap_round_input pkg = sample_input (60, 3, 1500) (0, 9, 0)"
  using engine_decides [OF sample_input_complete] by blast

text \<open>
  C2. Byzantine tolerance: when a strict majority of the participants of a complete round are pairwise
  compatible, consensus succeeds, none of them is excluded and all of them are sources of
  the valid state, whatever the other edges report.
\<close>

theorem honest_majority_wins:
  assumes "complete_input ri" and H: "majority (ri_participating_edges ri) H"
    and clique: "\<And>a b. a \<in> H \<Longrightarrow> b \<in> H \<Longrightarrow> a \<noteq> b \<Longrightarrow> compatible_edges (replicated_states ri) a b"
  shows "\<exists>pkg v. evaluate ri = Inr pkg \<and> ap_final_status pkg = SUCCESS \<and> ap_valid_state pkg = Some v
    \<and> H \<subseteq> set (source_edges v) \<and> H \<inter> ex_edge_id ` set (ap_exclusions pkg) = {}"
  using assms by (rule clique_succeeds)

theorem honest_majority_wins_witness:
  "\<exists>pkg v. evaluate (sample_input (60, 3, 1500) (0, 9, 0)) = Inr pkg \<and> ap_final_status pkg = SUCCESS \<and>
     ap_valid_state pkg = Some v \<and> {''edge-1'', ''edge-2''} \<subseteq> set (source_edges v)"
proof -
  have "\<exists>pkg v. evaluate (sample_input (60, 3, 1500) (0, 9, 0)) = Inr pkg \<and> ap_final_status pkg = SUCCESS \<and>
      ap_valid_state pkg = Some v \<and> {''edge-1'', ''edge-2''} \<subseteq> set (source_edges v) \<and>
      {''edge-1'', ''edge-2''} \<inter> ex_edge_id ` set (ap_exclusions pkg) = {}"
    by (rule honest_majority_wins [OF sample_input_complete sample_majority]) (rule sample_compatible)
  then show ?thesis by (elim exE conjE) (intro exI conjI)
qed

text \<open>
  Two trusted edges of one round are compatible or share a compatible peer: their
  neighbourhoods are strict majorities of the same participants.
\<close>

theorem trusted_edges_connected:
  assumes "distinct edges" "e \<in> set edges" "f \<in> set edges" "e \<noteq> f"
    and "trusted edges states e" "trusted edges states f"
  shows "compatible_edges states e f \<or>
    (\<exists>p \<in> set edges. p \<noteq> e \<and> p \<noteq> f \<and> compatible_edges states e p \<and> compatible_edges states p f)"
proof -
  have "majority edges (neighbourhood edges states e)" "majority edges (neighbourhood edges states f)"
    using assms by (simp_all flip: trusted_majority)
  from majority.common_member [OF this] obtain p
    where p: "p \<in> neighbourhood edges states e" "p \<in> neighbourhood edges states f" by blast
  then show ?thesis
    using assms(4) by (auto simp: neighbourhood_def dest: compatible_edges_sym)
qed

theorem trusted_edges_connected_witness:
  "compatible_edges (replicated_states (sample_input (60, 3, 1500) (0, 9, 0))) ''edge-1'' ''edge-2'' \<or>
    (\<exists>p \<in> set sample_edges. p \<noteq> ''edge-1'' \<and> p \<noteq> ''edge-2'' \<and>
      compatible_edges (replicated_states (sample_input (60, 3, 1500) (0, 9, 0))) ''edge-1'' p \<and>
      compatible_edges (replicated_states (sample_input (60, 3, 1500) (0, 9, 0))) p ''edge-2'')"
proof (rule trusted_edges_connected)
  have m: "majority sample_edges {''edge-1'', ''edge-2''}"
    using sample_majority by (simp add: sample_input_def)
  show "trusted sample_edges (replicated_states (sample_input (60, 3, 1500) (0, 9, 0))) ''edge-1''"
    "trusted sample_edges (replicated_states (sample_input (60, 3, 1500) (0, 9, 0))) ''edge-2''"
    by (rule clique_trusted [OF m _ sample_compatible]; simp)+
qed (simp_all add: sample_edges_def)

text \<open>
  The audit trail of a decided round is faithful: one evidence entry and one ranking
  entry per participant, in order, with equal scores between 0 and 1 and the number of
  compatible peers; an exclusion is SUSPECTED_BYZANTINE_BEHAVIOR exactly when the recorded
  deviation of that edge reaches the threshold, INCONSISTENT_VIEW otherwise.
\<close>

theorem audit_trail_faithful:
  assumes "wf_round_input ri" "evaluate ri = Inr pkg"
  shows "map te_edge_id (ap_trust_evidence pkg) = ri_participating_edges ri
    \<and> map (\<lambda>t. (tr_edge_id t, tr_score t)) (tr_entries (ap_trust_ranking pkg)) =
        map (\<lambda>e. (te_edge_id e, te_score e)) (ap_trust_evidence pkg)
    \<and> (\<forall>ev \<in> set (ap_trust_evidence pkg). 0 \<le> te_score ev \<and> te_score ev \<le> 1 \<and>
        te_compatible_peer_count ev = int (support (ri_participating_edges ri) (replicated_states ri) (te_edge_id ev)))
    \<and> (\<forall>x \<in> set (ap_exclusions pkg). \<exists>ev \<in> set (ap_trust_evidence pkg). te_edge_id ev = ex_edge_id x \<and>
        ex_reason x = (if SUSPECTED_BYZANTINE_THRESHOLD \<le> te_overall_normalized_deviation ev
          then SUSPECTED_BYZANTINE_BEHAVIOR else INCONSISTENT_VIEW))"
proof -
  have t: "evaluate_trust (ri_round_identity ri) (ri_participating_edges ri) (replicated_states ri)
      = Inr (ap_trust_ranking pkg, ap_exclusions pkg, ap_trust_evidence pkg)"
    using assms by (rule evaluate_Inr)
  note facts = evaluate_trust_Inr [OF t]
  have zip: "map (\<lambda>x. (f x, g x)) xs = zip (map f xs) (map g xs)" for f :: "'x \<Rightarrow> string" and g :: "'x \<Rightarrow> flt" and xs
    by (induction xs) auto
  have "map (\<lambda>t. (tr_edge_id t, tr_score t)) (tr_entries (ap_trust_ranking pkg)) =
      map (\<lambda>e. (te_edge_id e, te_score e)) (ap_trust_evidence pkg)"
    by (simp only: zip facts(3,4,5))
  with facts(4,8) evaluate_trust_reason [OF t] show ?thesis by blast
qed

theorem audit_trail_faithful_witness:
  "\<exists>pkg. evaluate (sample_input (60, 3, 1500) (0, 9, 0)) = Inr pkg \<and>
     map te_edge_id (ap_trust_evidence pkg) = sample_edges"
proof -
  obtain pkg where e: "evaluate (sample_input (60, 3, 1500) (0, 9, 0)) = Inr pkg"
    by (rule evaluate_total [OF sample_input_complete])
  have "wf_round_input (sample_input (60, 3, 1500) (0, 9, 0))"
    using sample_input_complete by (simp add: complete_input_def)
  from audit_trail_faithful [OF this e] have "map te_edge_id (ap_trust_evidence pkg) = sample_edges"
    by (simp add: sample_input_def)
  with e show ?thesis by blast
qed

text \<open>
  C39. A round with a single participant is never decided: the mean over no peers raises
  \<open>ZeroDivisionError\<close>.
\<close>

theorem single_participant_raises:
  assumes "ri_participating_edges ri = [e]" "wf_round_input ri" "complete_round [e] (replicated_states ri)"
  shows "evaluate ri = Inl ZeroDivisionError"
proof -
  obtain s where s: "map_of (states_by_edge (replicated_states ri)) e = Some s" "observes_all s"
    using complete_round_state [OF assms(3)] by auto
  have t: "''temperature'' \<in> fst ` set SENSOR_SCALES" by (simp add: SENSOR_SCALES_def)
  obtain p where p: "getitem (observations_by_sensor s) ''temperature'' = Inr p"
    by (rule getitem_observes [OF s(2) t])
  have "sensor_evidence (states_by_edge (replicated_states ri)) s [] ''temperature'' = Inl ZeroDivisionError"
    by (simp add: sensor_evidence_def p Let_def fdiv_res_def)
  then have ev: "mapM (sensor_evidence (states_by_edge (replicated_states ri)) s []) (map fst SENSOR_SCALES) = Inl ZeroDivisionError"
    by (simp add: SENSOR_SCALES_def)
  have "pairwise_distances (states_by_edge (replicated_states ri)) [e] = Inr []"
    by (simp add: pairwise_distances_def edge_pairs_def dict_of_def)
  then have "evaluate_trust (ri_round_identity ri) [e] (replicated_states ri) = Inl ZeroDivisionError"
    by (simp add: evaluate_trust_def Let_def edge_trust_def s(1) ev)
  then show ?thesis by (simp add: evaluate_def assms(1))
qed

theorem single_participant_raises_witness:
  "evaluate \<lparr>ri_round_identity = sample_identity, ri_participating_edges = [''edge-1''],
     replicated_states = [sample_state ''edge-1'' (60, 3, 1500)]\<rparr> = Inl ZeroDivisionError"
  by (rule single_participant_raises [where e = "''edge-1''"])
    (simp_all add: wf_round_input_def mk_ConsensusRoundInput_Inr complete_round_def)

end
