(* ===== verification/Observability.thy ===== *)
theory Observability
  imports Engine
begin

text \<open>
  The views derived from an audit package: the round log (\<open>contracts/consensus_round_log.py\<close>,
  \<open>consensus/logging.py\<close>), the consensus alert (\<open>contracts/consensus_alert.py\<close>,
  \<open>consensus/alerts.py\<close>) and the round summary (\<open>contracts/consensus_round_summary.py\<close>,
  \<open>consensus/summary.py\<close>), with their dictionary and text renderings.
\<close>

section \<open>Round log\<close>

record round_log =
  rl_round_identity :: round_identity
  rl_participating_edges :: "string list"
  rl_trust_ranking :: trust_ranking
  rl_exclusions :: "exclusion_decision list"
  rl_trust_evidence :: "trust_evidence list"
  rl_final_status :: consensus_status
  rl_valid_state :: "valid_state option"

definition rank_entry_dict :: "trust_rank_entry \<Rightarrow> pyval" where
  "rank_entry_dict t = PDict [(''edge_id'', PStr (tr_edge_id t)), (''score'', PFloat (tr_score t))]"

definition exclusion_dict :: "exclusion_decision \<Rightarrow> pyval" where
  "exclusion_dict x = PDict [(''edge_id'', PStr (ex_edge_id x)),
     (''reason'', PStr (reason_value (ex_reason x))), (''detail'', opt_str (ex_detail x))]"

definition deviation_dict :: "sensor_deviation \<Rightarrow> pyval" where
  "deviation_dict d = PDict [(''sensor_name'', PStr (sd_sensor_name d)),
     (''deviation_value'', PFloat (sd_deviation_value d)), (''unit'', PStr (sd_unit d))]"

definition pairwise_dict :: "pairwise_distance \<Rightarrow> pyval" where
  "pairwise_dict p = PDict [(''peer_edge_id'', PStr (pw_peer_edge_id p)),
     (''sensor_name'', PStr (pw_sensor_name p)),
     (''distance_value'', PFloat (pw_distance_value p)), (''unit'', PStr (pw_unit p))]"

definition evidence_dict :: "trust_evidence \<Rightarrow> pyval" where
  "evidence_dict e = PDict [(''edge_id'', PStr (te_edge_id e)), (''score'', PFloat (te_score e)),
     (''compatible_peer_count'', PInt (te_compatible_peer_count e)),
     (''overall_normalized_deviation'', PFloat (te_overall_normalized_deviation e)),
     (''sensor_deviations'', PList (map deviation_dict (te_sensor_deviations e))),
     (''pairwise_distances'', PList (map pairwise_dict (te_pairwise_distances e)))]"

definition valid_state_dict :: "valid_state \<Rightarrow> pyval" where
  "valid_state_dict v = PDict [(''source_edges'', PList (map PStr (source_edges v))),
     (''sensor_values'', PDict (map (\<lambda>(k, x). (k, PFloat x)) (sensor_values v)))]"

definition round_log_to_dict :: "round_log \<Rightarrow> pyval" where
  "round_log_to_dict l = PDict [
     (''round_id'', PStr (round_id (rl_round_identity l))),
     (''window_started_at'', PStr (isoformat (window_started_at (rl_round_identity l)))),
     (''window_ended_at'', PStr (isoformat (window_ended_at (rl_round_identity l)))),
     (''participating_edges'', PList (map PStr (rl_participating_edges l))),
     (''trust_ranking'', PList (map rank_entry_dict (tr_entries (rl_trust_ranking l)))),
     (''exclusions'', PList (map exclusion_dict (rl_exclusions l))),
     (''trust_evidence'', PList (map evidence_dict (rl_trust_evidence l))),
     (''final_status'', PStr (status_value (rl_final_status l))),
     (''consensused_valid_state'', case rl_valid_state l of None \<Rightarrow> PNone | Some v \<Rightarrow> valid_state_dict v)]"

definition build_round_log :: "audit_package \<Rightarrow> round_log" where
  "build_round_log p = \<lparr>rl_round_identity = ri_round_identity (ap_round_input p),
     rl_participating_edges = ri_participating_edges (ap_round_input p),
     rl_trust_ranking = ap_trust_ranking p, rl_exclusions = ap_exclusions p,
     rl_trust_evidence = ap_trust_evidence p, rl_final_status = ap_final_status p,
     rl_valid_state = ap_valid_state p\<rparr>"

definition exclusion_tag :: "exclusion_decision \<Rightarrow> string" where
  "exclusion_tag x = ex_edge_id x @ '':'' @ reason_value (ex_reason x)"

definition format_round_log_compact :: "round_log \<Rightarrow> string" where
  "format_round_log_compact l =
     round_id (rl_round_identity l) @ '': '' @ ''status='' @ status_value (rl_final_status l)
     @ '' participants='' @ str_of_nat (length (rl_participating_edges l))
     @ '' excluded='' @ str_of_nat (length (rl_exclusions l)) @ '' exclusions[''
     @ (if rl_exclusions l \<noteq> [] then join '', '' (map exclusion_tag (rl_exclusions l)) else ''none'') @ '']''"

definition deviation_text :: "trust_evidence \<Rightarrow> string" where
  "deviation_text e = join '', '' (map (\<lambda>d. sd_sensor_name d @ ''='' @ fmt_fixed 3 (sd_deviation_value d)
     @ '' '' @ sd_unit d) (te_sensor_deviations e))"

definition pairwise_text :: "trust_evidence \<Rightarrow> string" where
  "pairwise_text e = join '', '' (map (\<lambda>p. pw_peer_edge_id p @ '':'' @ pw_sensor_name p @ ''=''
     @ fmt_fixed 3 (pw_distance_value p) @ '' '' @ pw_unit p) (te_pairwise_distances e))"

definition evidence_line :: "string \<Rightarrow> trust_evidence \<Rightarrow> string" where
  "evidence_line label e = label @ te_edge_id e @ '' score='' @ fmt_fixed 3 (te_score e)
     @ '' compatible_peers='' @ str_of_int (te_compatible_peer_count e)
     @ '' overall_dev='' @ fmt_fixed 3 (te_overall_normalized_deviation e)
     @ '' deviations['' @ deviation_text e @ ''] pairwise['' @ pairwise_text e @ '']''"

text \<open>\<open>f"{detail}"\<close> of an optional string.\<close>

definition show_opt :: "string option \<Rightarrow> string" where
  "show_opt s = (case s of None \<Rightarrow> ''None'' | Some t \<Rightarrow> t)"

definition exclusion_line :: "exclusion_decision \<Rightarrow> string" where
  "exclusion_line x = ''excluded='' @ ex_edge_id x @ '' reason='' @ reason_value (ex_reason x)
     @ '' detail='' @ show_opt (ex_detail x)"

definition format_round_log_detailed :: "round_log \<Rightarrow> string" where
  "format_round_log_detailed l = join newline (
     [''round='' @ round_id (rl_round_identity l), ''status='' @ status_value (rl_final_status l),
      ''participants='' @ join '', '' (rl_participating_edges l)]
     @ map (evidence_line ''edge='') (rl_trust_evidence l)
     @ map exclusion_line (rl_exclusions l)
     @ [case rl_valid_state l of None \<Rightarrow> ''consensused_valid_state=absent''
        | Some v \<Rightarrow> ''consensused_valid_state=present [''
            @ join '', '' (map (\<lambda>(s, x). s @ ''='' @ flt_repr x) (sorted_items (sensor_values v))) @ '']''])"

section \<open>Alert\<close>

datatype alert_type = CONSENSUS_FAILED

fun alert_type_value :: "alert_type \<Rightarrow> string" where
  "alert_type_value CONSENSUS_FAILED = ''consensus_failed''"

record consensus_alert =
  ca_alert_type :: alert_type
  ca_round_identity :: round_identity
  ca_final_status :: consensus_status
  ca_exclusions :: "exclusion_decision list"
  ca_trust_evidence :: "trust_evidence list"

definition mk_ConsensusAlert ::
  "alert_type \<Rightarrow> round_identity \<Rightarrow> consensus_status \<Rightarrow> exclusion_decision list \<Rightarrow> trust_evidence list
     \<Rightarrow> consensus_alert res" where
  "mk_ConsensusAlert t r st exs evs =
     (if t = CONSENSUS_FAILED \<and> st \<noteq> FAILED_CONSENSUS
        then Inl (ValueError ''CONSENSUS_FAILED alerts require failed_consensus status.'')
      else if \<exists>x \<in> set exs. ex_round_identity x \<noteq> r
        then Inl (ValueError ''Alert exclusions must share the alert round identity.'')
      else if \<exists>e \<in> set evs. te_round_identity e \<noteq> r
        then Inl (ValueError ''Alert trust evidence must share the alert round identity.'')
      else Inr \<lparr>ca_alert_type = t, ca_round_identity = r, ca_final_status = st, ca_exclusions = exs,
        ca_trust_evidence = evs\<rparr>)"

definition consensus_alert_to_dict :: "consensus_alert \<Rightarrow> pyval" where
  "consensus_alert_to_dict a = PDict [(''alert_type'', PStr (alert_type_value (ca_alert_type a))),
     (''round_id'', PStr (round_id (ca_round_identity a))),
     (''final_status'', PStr (status_value (ca_final_status a))),
     (''exclusions'', PList (map exclusion_dict (ca_exclusions a))),
     (''trust_evidence'', PList (map evidence_dict (ca_trust_evidence a)))]"

definition build_consensus_alert :: "audit_package \<Rightarrow> round_log \<Rightarrow> consensus_alert option res" where
  "build_consensus_alert p l =
     (if ri_round_identity (ap_round_input p) \<noteq> rl_round_identity l
        then Inl (ValueError ''Alert inputs must refer to the same round.'')
      else if ap_final_status p \<noteq> rl_final_status l
        then Inl (ValueError ''Alert inputs must share the same final status.'')
      else if ap_exclusions p \<noteq> rl_exclusions l
        then Inl (ValueError ''Alert inputs must share the same exclusions.'')
      else if ap_trust_evidence p \<noteq> rl_trust_evidence l
        then Inl (ValueError ''Alert inputs must share the same trust evidence.'')
      else if ap_final_status p \<noteq> FAILED_CONSENSUS then Inr None
      else attempt (mk_ConsensusAlert CONSENSUS_FAILED (ri_round_identity (ap_round_input p))
        (ap_final_status p) (ap_exclusions p) (ap_trust_evidence p)) (\<lambda>a. Inr (Some a)))"

definition format_consensus_alert_compact :: "consensus_alert option \<Rightarrow> string" where
  "format_consensus_alert_compact alert = (case alert of None \<Rightarrow> ''none'' | Some a \<Rightarrow>
     round_id (ca_round_identity a) @ '': alert='' @ alert_type_value (ca_alert_type a)
     @ '' status='' @ status_value (ca_final_status a)
     @ '' exclusions['' @ join '', '' (map exclusion_tag (ca_exclusions a)) @ '']'')"

definition format_consensus_alert_detailed :: "consensus_alert option \<Rightarrow> string" where
  "format_consensus_alert_detailed alert = (case alert of None \<Rightarrow> ''consensus_alert=none'' | Some a \<Rightarrow>
     join newline ([''alert_type='' @ alert_type_value (ca_alert_type a),
       ''round='' @ round_id (ca_round_identity a), ''status='' @ status_value (ca_final_status a)]
       @ map exclusion_line (ca_exclusions a) @ map (evidence_line ''evidence='') (ca_trust_evidence a)))"

section \<open>Summary\<close>

record excluded_edge_summary =
  es_edge_id :: string
  es_reason :: string
  es_detail :: "string option"

record round_summary =
  sm_round_id :: string
  total_participants :: int
  quorum_required :: int
  valid_participants_after_exclusions :: int
  excluded_edge_ids :: "string list"
  exclusion_reasons :: "string list"
  excluded_edges :: "excluded_edge_summary list"
  final_consensus_status :: consensus_status
  has_consensused_valid_state :: bool

definition excluded_summary_dict :: "excluded_edge_summary \<Rightarrow> pyval" where
  "excluded_summary_dict e = PDict [(''edge_id'', PStr (es_edge_id e)), (''reason'', PStr (es_reason e)),
     (''detail'', opt_str (es_detail e))]"

definition round_summary_to_dict :: "round_summary \<Rightarrow> pyval" where
  "round_summary_to_dict s = PDict [(''round_id'', PStr (sm_round_id s)),
     (''total_participants'', PInt (total_participants s)),
     (''quorum_required'', PInt (quorum_required s)),
     (''valid_participants_after_exclusions'', PInt (valid_participants_after_exclusions s)),
     (''excluded_edge_ids'', PList (map PStr (excluded_edge_ids s))),
     (''exclusion_reasons'', PList (map PStr (exclusion_reasons s))),
     (''excluded_edges'', PList (map excluded_summary_dict (excluded_edges s))),
     (''final_consensus_status'', PStr (status_value (final_consensus_status s))),
     (''has_consensused_valid_state'', PBool (has_consensused_valid_state s))]"

definition build_round_summary :: "audit_package \<Rightarrow> round_summary res" where
  "build_round_summary p = (let
     exs = map (\<lambda>x. \<lparr>es_edge_id = ex_edge_id x, es_reason = reason_value (ex_reason x), es_detail = ex_detail x\<rparr>)
       (ap_exclusions p);
     total = int (length (ri_participating_edges (ap_round_input p))) in
     attempt (required_quorum total) (\<lambda>quorum.
       Inr \<lparr>sm_round_id = round_id (ri_round_identity (ap_round_input p)), total_participants = total,
         quorum_required = quorum, valid_participants_after_exclusions = total - int (length exs),
         excluded_edge_ids = map es_edge_id exs, exclusion_reasons = map es_reason exs,
         excluded_edges = exs, final_consensus_status = ap_final_status p,
         has_consensused_valid_state = (ap_valid_state p \<noteq> None)\<rparr>))"

definition format_round_summary :: "round_summary \<Rightarrow> string" where
  "format_round_summary s = sm_round_id s @ '': participants='' @ str_of_int (total_participants s)
     @ '' quorum='' @ str_of_int (quorum_required s)
     @ '' valid='' @ str_of_int (valid_participants_after_exclusions s)
     @ '' status='' @ status_value (final_consensus_status s)
     @ '' valid_state='' @ (if has_consensused_valid_state s then ''present'' else ''absent'')
     @ '' exclusions['' @ (if excluded_edges s \<noteq> []
         then join '', '' (map (\<lambda>e. es_edge_id e @ '':'' @ es_reason e) (excluded_edges s)) else ''none'') @ '']''"

section \<open>Settled rounds\<close>

text \<open>
  What the stages after the decision rely on, whoever decided: the package is about the round,
  everything in it carries the identity of the round, and a valid state, present exactly on
  success, has one value for each of the three sensors and names the owner of a state.
\<close>

definition settles :: "consensus_round_input \<Rightarrow> audit_package \<Rightarrow> bool" where
  "settles ri pkg = (ap_round_input pkg = ri \<and> (ap_final_status pkg = SUCCESS \<longleftrightarrow> ap_valid_state pkg \<noteq> None) \<and>
     (\<forall>v. ap_valid_state pkg = Some v \<longrightarrow> vs_round_identity v = ri_round_identity ri \<and>
        set (map fst (sensor_values v)) = set consensus_sensors \<and> distinct (map fst (sensor_values v)) \<and>
        (\<exists>s \<in> set (replicated_states ri). owner_edge_id s \<in> set (source_edges v))) \<and>
     (\<forall>x \<in> set (ap_exclusions pkg). ex_round_identity x = ri_round_identity ri) \<and>
     (\<forall>x \<in> set (ap_trust_evidence pkg). te_round_identity x = ri_round_identity ri))"

lemma complete_wf: "complete_input ri \<Longrightarrow> wf_round_input ri"
  by (simp add: complete_input_def)

lemma settled_input: "settles ri pkg \<Longrightarrow> ap_round_input pkg = ri"
  by (simp add: settles_def)

lemma settled_success: "settles ri pkg \<Longrightarrow> ap_final_status pkg = SUCCESS \<longleftrightarrow> (\<exists>v. ap_valid_state pkg = Some v)"
  by (simp add: settles_def)

lemma settled_state:
  assumes "settles ri pkg" "ap_valid_state pkg = Some v"
  shows "vs_round_identity v = ri_round_identity ri" "set (map fst (sensor_values v)) = set consensus_sensors"
    "distinct (map fst (sensor_values v))" "\<exists>s \<in> set (replicated_states ri). owner_edge_id s \<in> set (source_edges v)"
  using assms unfolding settles_def by blast+

text \<open>What the engine guarantees to the later stages.\<close>

lemma engine_valid_state:
  assumes "wf_round_input ri" "evaluate ri = Inr pkg" "ap_final_status pkg = SUCCESS"
  obtains v where "ap_valid_state pkg = Some v" "map fst (sensor_values v) = consensus_sensors"
    "source_edges v = map owner_edge_id (trusted_states ri)" "vs_round_identity v = ri_round_identity ri"
    "\<exists>s \<in> set (replicated_states ri). owner_edge_id s \<in> set (source_edges v)"
proof -
  have st: "ap_final_status pkg = (if length (ri_participating_edges ri) div 2 + 1 \<le> length (trusted_states ri)
      then SUCCESS else FAILED_CONSENSUS)" using assms(1,2) by (rule evaluate_Inr)
  have ex: "\<exists>v. ap_valid_state pkg = Some v \<and> build_consensused_valid_state ri (trusted_states ri) = Inr v"
    using assms(1,2) by (rule evaluate_Inr) (use assms(3) in blast)
  then obtain v where v: "ap_valid_state pkg = Some v" "build_consensused_valid_state ri (trusted_states ri) = Inr v"
    by blast
  note facts = build_valid_state_Inr [OF v(2)]
  have "trusted_states ri \<noteq> []" using st assms(3) by (auto split: if_splits)
  then obtain s where "s \<in> set (trusted_states ri)" by fastforce
  then have "\<exists>s \<in> set (replicated_states ri). owner_edge_id s \<in> set (source_edges v)"
    by (auto simp: facts(2) trusted_states_def)
  from that [OF v(1) facts(3,2,1) this] show ?thesis .
qed

lemma evaluate_settles:
  assumes "wf_round_input ri" "evaluate ri = Inr pkg"
  shows "settles ri pkg"
proof -
  have t: "evaluate_trust (ri_round_identity ri) (ri_participating_edges ri) (replicated_states ri)
      = Inr (ap_trust_ranking pkg, ap_exclusions pkg, ap_trust_evidence pkg)" using assms by (rule evaluate_Inr)
  have p: "ap_round_input pkg = ri" using assms by (rule evaluate_Inr)
  have d: "distinct consensus_sensors" by (simp add: consensus_sensors_def)
  show ?thesis
  proof (cases "ap_final_status pkg")
    case SUCCESS
    obtain v where v: "ap_valid_state pkg = Some v" "map fst (sensor_values v) = consensus_sensors"
      "source_edges v = map owner_edge_id (trusted_states ri)" "vs_round_identity v = ri_round_identity ri"
      "\<exists>s \<in> set (replicated_states ri). owner_edge_id s \<in> set (source_edges v)"
      by (rule engine_valid_state [OF assms SUCCESS])
    show ?thesis using evaluate_trust_Inr(7,8) [OF t] v(4,5) d
      unfolding settles_def p v(1) SUCCESS option.inject by (metis option.distinct(1) v(2))
  next
    case FAILED_CONSENSUS
    have "ap_valid_state pkg = None" using assms by (rule evaluate_Inr) (use FAILED_CONSENSUS in blast)
    then show ?thesis using evaluate_trust_Inr(7,8) [OF t] by (simp add: settles_def p FAILED_CONSENSUS)
  qed
qed

lemma alert_of_settled:
  assumes "settles ri pkg"
  shows "\<exists>alert. build_consensus_alert pkg (build_round_log pkg) = Inr alert \<and>
    (alert \<noteq> None \<longleftrightarrow> ap_final_status pkg = FAILED_CONSENSUS) \<and>
    (\<forall>a. alert = Some a \<longrightarrow> ca_exclusions a = ap_exclusions pkg \<and> ca_trust_evidence a = ap_trust_evidence pkg
      \<and> ca_round_identity a = ri_round_identity ri)"
proof -
  have p: "ap_round_input pkg = ri" using assms by (simp add: settles_def)
  have "mk_ConsensusAlert CONSENSUS_FAILED (ri_round_identity ri) FAILED_CONSENSUS (ap_exclusions pkg) (ap_trust_evidence pkg)
      = Inr \<lparr>ca_alert_type = CONSENSUS_FAILED, ca_round_identity = ri_round_identity ri,
          ca_final_status = FAILED_CONSENSUS, ca_exclusions = ap_exclusions pkg, ca_trust_evidence = ap_trust_evidence pkg\<rparr>"
    unfolding mk_ConsensusAlert_def using assms by (auto simp: settles_def)
  then show ?thesis
    by (cases "ap_final_status pkg") (simp_all add: build_consensus_alert_def build_round_log_def p)
qed

lemma alert_of_decided:
  assumes "complete_input ri"
  shows "\<exists>pkg alert. evaluate ri = Inr pkg \<and> build_consensus_alert pkg (build_round_log pkg) = Inr alert \<and>
    (alert \<noteq> None \<longleftrightarrow> ap_final_status pkg = FAILED_CONSENSUS) \<and>
    (\<forall>a. alert = Some a \<longrightarrow> ca_exclusions a = ap_exclusions pkg \<and> ca_trust_evidence a = ap_trust_evidence pkg
      \<and> ca_round_identity a = ri_round_identity ri)"
proof -
  obtain pkg where e: "evaluate ri = Inr pkg" by (rule evaluate_total [OF assms])
  from alert_of_settled [OF evaluate_settles [OF complete_wf [OF assms] e]] e show ?thesis by blast
qed

section \<open>Properties\<close>

text \<open>
  Every decided round can be logged and alerted on: the log of its own package passes
  the alert's checks, and there is an alert exactly when consensus failed, with the
  exclusions and the evidence of the package.
\<close>

theorem alert_iff_failed:
  assumes "complete_input ri"
  shows "\<exists>pkg alert. evaluate ri = Inr pkg \<and> build_consensus_alert pkg (build_round_log pkg) = Inr alert \<and>
    (alert \<noteq> None \<longleftrightarrow> ap_final_status pkg = FAILED_CONSENSUS) \<and>
    (\<forall>a. alert = Some a \<longrightarrow> ca_exclusions a = ap_exclusions pkg \<and> ca_trust_evidence a = ap_trust_evidence pkg
      \<and> ca_round_identity a = ri_round_identity ri)"
  using assms by (rule alert_of_decided)

theorem alert_iff_failed_witness:
  "\<exists>pkg alert. evaluate (sample_input (60, 3, 1500) (0, 9, 0)) = Inr pkg \<and>
     build_consensus_alert pkg (build_round_log pkg) = Inr alert \<and>
     (alert \<noteq> None \<longleftrightarrow> ap_final_status pkg = FAILED_CONSENSUS)"
  using alert_iff_failed [OF sample_input_complete] by blast

text \<open>
  The summary is consistent with the decision when every participant submits one
  state: the participants left after the exclusions are the trusted states, and a valid
  state is present exactly when they reach the required quorum.
\<close>

theorem summary_consistent:
  assumes "wf_round_input ri" "evaluate ri = Inr pkg"
    and "distinct (ri_participating_edges ri)" "distinct (map owner_edge_id (replicated_states ri))"
    and "set (ri_participating_edges ri) \<subseteq> owner_edge_id ` set (replicated_states ri)"
  shows "\<exists>s. build_round_summary pkg = Inr s \<and>
    valid_participants_after_exclusions s = int (length (trusted_states ri)) \<and>
    (has_consensused_valid_state s \<longleftrightarrow> quorum_required s \<le> valid_participants_after_exclusions s)"
proof -
  let ?es = "ri_participating_edges ri" and ?tr = "trusted (ri_participating_edges ri) (replicated_states ri)"
  from assms(1,2) have t: "evaluate_trust (ri_round_identity ri) ?es (replicated_states ri)
      = Inr (ap_trust_ranking pkg, ap_exclusions pkg, ap_trust_evidence pkg)" by (rule evaluate_Inr)
  from assms(1,2) have p: "ap_round_input pkg = ri" by (rule evaluate_Inr)
  from assms(1,2) have st: "ap_final_status pkg = (if length ?es div 2 + 1 \<le> length (trusted_states ri)
       then SUCCESS else FAILED_CONSENSUS)" by (rule evaluate_Inr)
  have vs: "ap_valid_state pkg \<noteq> None \<longleftrightarrow> ap_final_status pkg = SUCCESS"
    using assms(1,2) by (rule evaluate_Inr) (cases "ap_final_status pkg"; auto)
  have "length (trusted_states ri) = length (filter ?tr (map owner_edge_id (replicated_states ri)))"
    by (simp add: trusted_states_def filter_map o_def)
  also have "\<dots> = length (filter ?tr ?es)"
  proof -
    have "set (map owner_edge_id (replicated_states ri)) = set ?es"
      using assms(5) wf_round_input_owner [OF assms(1)] by auto
    then show ?thesis by (simp only: length_filter_card assms(3,4))
  qed
  finally have len: "length (trusted_states ri) = length (filter ?tr ?es)" .
  have "length (ap_exclusions pkg) = length (filter (\<lambda>e. \<not> ?tr e) ?es)"
    using arg_cong [OF evaluate_trust_Inr(6) [OF t], of length] by (simp add: trusted_def not_le)
  with len have valid: "int (length ?es) - int (length (ap_exclusions pkg)) = int (length (trusted_states ri))"
    using sum_length_filter_compl [of ?tr ?es] by linarith
  have ne: "0 < length ?es"
  proof (rule ccontr)
    assume "\<not> ?thesis"
    then have "evaluate ri = Inl (ValueError ''Participant count must be positive.'')"
      using assms(2) t by (simp add: evaluate_def required_quorum_def)
    with assms(2) show False by simp
  qed
  show ?thesis
    unfolding build_round_summary_def Let_def p required_quorum_pos [OF ne] attempt_Inr
    using valid st vs by (auto simp: of_nat_add [symmetric] simp del: of_nat_add)
qed

theorem summary_consistent_witness:
  "\<exists>pkg s. evaluate (sample_input (60, 3, 1500) (0, 9, 0)) = Inr pkg \<and> build_round_summary pkg = Inr s \<and>
     (has_consensused_valid_state s \<longleftrightarrow> quorum_required s \<le> valid_participants_after_exclusions s)"
proof -
  obtain pkg where e: "evaluate (sample_input (60, 3, 1500) (0, 9, 0)) = Inr pkg"
    by (rule evaluate_total [OF sample_input_complete])
  have "wf_round_input (sample_input (60, 3, 1500) (0, 9, 0))"
    using sample_input_complete by (simp add: complete_input_def)
  from summary_consistent [OF this e] e show ?thesis
    by (auto simp: sample_input_def sample_edges_def)
qed

end
