(* ===== verification/CometBft.thy ===== *)
theory CometBft
  imports Observability "HOL-Library.Multiset"
begin

text \<open>
  The two pure halves of the CometBFT adapter: \<open>serialize_round_input\<close>
  (\<open>consensus/cometbft_client.py\<close>), the canonical transaction of a round, and
  \<open>committed_round_to_audit_package\<close> (\<open>consensus/cometbft_mapper.py\<close>), which reads
  a committed round back. The RPC calls between them are not modelled.
\<close>

section \<open>JSON\<close>

text \<open>\<open>json.dumps\<close> with sorted keys and no spaces; strings are escaped to ASCII.\<close>

definition hex_digit :: "nat \<Rightarrow> char" where
  "hex_digit n = char_of (if n < 10 then 48 + n else 87 + n)"

definition json_char :: "char \<Rightarrow> string" where
  "json_char c = (let n = of_char c :: nat in
     if n = 34 then [CHR 0x5C, CHR 0x22] else if n = 92 then [CHR 0x5C, CHR 0x5C]
     else if n = 8 then [CHR 0x5C, CHR ''b''] else if n = 9 then [CHR 0x5C, CHR ''t'']
     else if n = 10 then [CHR 0x5C, CHR ''n''] else if n = 12 then [CHR 0x5C, CHR ''f'']
     else if n = 13 then [CHR 0x5C, CHR ''r'']
     else if 32 \<le> n \<and> n < 127 then [c]
     else [CHR 0x5C, CHR ''u'', CHR ''0'', CHR ''0'', hex_digit (n div 16), hex_digit (n mod 16)])"

definition json_str :: "string \<Rightarrow> string" where
  "json_str s = [CHR 0x22] @ concat (map json_char s) @ [CHR 0x22]"

fun json_dumps :: "pyval \<Rightarrow> string" where
  "json_dumps PNone = ''null''"
| "json_dumps (PBool b) = (if b then ''true'' else ''false'')"
| "json_dumps (PInt i) = str_of_int i"
| "json_dumps (PFloat x) = flt_repr x"
| "json_dumps (PStr s) = json_str s"
| "json_dumps (PList xs) = ''['' @ join '','' (map json_dumps xs) @ '']''"
| "json_dumps (PDict d) = ''{'' @ join '',''
     (map (\<lambda>(k, t). json_str k @ '':'' @ t) (sorted_items (map (\<lambda>(k, v). (k, json_dumps v)) d))) @ ''}''"

section \<open>Transaction of a round\<close>

definition sensor_value_dict :: "raw_hart_payload \<Rightarrow> pyval" where
  "sensor_value_dict p = PDict [(''value'', PFloat (pv_value (pd_pv (hp_process_data p)))),
     (''unit'', PStr (pv_unit (pd_pv (hp_process_data p))))]"

definition state_dict :: "replicated_state \<Rightarrow> pyval" where
  "state_dict s = PDict [(''owner_edge_id'', PStr (owner_edge_id s)),
     (''sensor_values'', PDict (map (\<lambda>(k, p). (k, sensor_value_dict p)) (sorted_items (observations_by_sensor s))))]"

definition serialize_round_input :: "consensus_round_input \<Rightarrow> string" where
  "serialize_round_input ri = json_dumps (PDict [
     (''round_id'', PStr (round_id (ri_round_identity ri))),
     (''window_started_at'', PStr (isoformat (window_started_at (ri_round_identity ri)))),
     (''window_ended_at'', PStr (isoformat (window_ended_at (ri_round_identity ri)))),
     (''participating_edges'', PList (map PStr (ri_participating_edges ri))),
     (''replicated_states'', PList (map state_dict (sort_key owner_edge_id (replicated_states ri))))])"

section \<open>Reading a committed round\<close>

text \<open>\<open>str(v)\<close> of a scalar; the mapper applies it to identifiers and instants only.\<close>

fun to_str :: "pyval \<Rightarrow> string res" where
  "to_str (PStr s) = Inr s"
| "to_str PNone = Inr ''None''"
| "to_str (PBool b) = Inr (if b then ''True'' else ''False'')"
| "to_str (PInt i) = Inr (str_of_int i)"
| "to_str (PFloat x) = Inr (flt_repr x)"
| "to_str _ = Inl (TypeError ''identifier expected'')"

definition parse_reason :: "string \<Rightarrow> exclusion_reason res" where
  "parse_reason s = (if s = ''insufficient_data'' then Inr INSUFFICIENT_DATA
     else if s = ''inconsistent_view'' then Inr INCONSISTENT_VIEW
     else if s = ''trust_below_threshold'' then Inr TRUST_BELOW_THRESHOLD
     else if s = ''suspected_byzantine_behavior'' then Inr SUSPECTED_BYZANTINE_BEHAVIOR
     else Inl (ValueError (s @ '' is not a valid ExclusionReason'')))"

definition parse_status :: "string \<Rightarrow> consensus_status res" where
  "parse_status s = (if s = ''success'' then Inr SUCCESS
     else if s = ''failed_consensus'' then Inr FAILED_CONSENSUS
     else Inl (ValueError (s @ '' is not a valid ConsensusStatus'')))"

definition sub_str :: "pyval \<Rightarrow> string \<Rightarrow> string res" where
  "sub_str v k = attempt (sub v k) as_str"

definition sub_float :: "pyval \<Rightarrow> string \<Rightarrow> flt res" where
  "sub_float v k = attempt (sub v k) to_float"

definition sub_list :: "pyval \<Rightarrow> string \<Rightarrow> pyval list res" where
  "sub_list v k = attempt (sub v k) as_list"

definition read_rank_entry :: "pyval \<Rightarrow> trust_rank_entry res" where
  "read_rank_entry v = attempt (sub_str v ''edge_id'') (\<lambda>e. attempt (sub_float v ''score'') (\<lambda>x.
     Inr \<lparr>tr_edge_id = e, tr_score = x\<rparr>))"

definition read_exclusion :: "round_identity \<Rightarrow> pyval \<Rightarrow> exclusion_decision res" where
  "read_exclusion r v = attempt (sub_str v ''edge_id'') (\<lambda>e.
     attempt (attempt (sub_str v ''reason'') parse_reason) (\<lambda>reason.
     attempt (attempt (pget v ''detail'') as_opt_str) (\<lambda>detail.
       Inr \<lparr>ex_round_identity = r, ex_edge_id = e, ex_reason = reason, ex_detail = detail\<rparr>)))"

definition read_deviation :: "pyval \<Rightarrow> sensor_deviation res" where
  "read_deviation v = attempt (sub_str v ''sensor_name'') (\<lambda>n. attempt (sub_float v ''deviation_value'') (\<lambda>x.
     attempt (sub_str v ''unit'') (\<lambda>u. Inr \<lparr>sd_sensor_name = n, sd_deviation_value = x, sd_unit = u\<rparr>)))"

definition read_pairwise :: "pyval \<Rightarrow> pairwise_distance res" where
  "read_pairwise v = attempt (sub_str v ''peer_edge_id'') (\<lambda>p. attempt (sub_str v ''sensor_name'') (\<lambda>n.
     attempt (sub_float v ''distance_value'') (\<lambda>x. attempt (sub_str v ''unit'') (\<lambda>u.
       Inr \<lparr>pw_peer_edge_id = p, pw_sensor_name = n, pw_distance_value = x, pw_unit = u\<rparr>))))"

definition read_evidence :: "round_identity \<Rightarrow> pyval \<Rightarrow> trust_evidence res" where
  "read_evidence r v = attempt (sub_str v ''edge_id'') (\<lambda>e. attempt (sub_float v ''score'') (\<lambda>x.
     attempt (attempt (sub v ''compatible_peer_count'') to_int) (\<lambda>n.
     attempt (sub_float v ''overall_normalized_deviation'') (\<lambda>d.
     attempt (attempt (sub_list v ''sensor_deviations'') (mapM read_deviation)) (\<lambda>sds.
     attempt (attempt (sub_list v ''pairwise_distances'') (mapM read_pairwise)) (\<lambda>pws.
       Inr \<lparr>te_round_identity = r, te_edge_id = e, te_score = x, te_compatible_peer_count = n,
         te_overall_normalized_deviation = d, te_sensor_deviations = sds, te_pairwise_distances = pws\<rparr>))))))"

definition read_valid_state :: "round_identity \<Rightarrow> pyval \<Rightarrow> valid_state option res" where
  "read_valid_state r v = (if v = PNone then Inr None else
     attempt (attempt (sub_list v ''source_edges'') (mapM as_str)) (\<lambda>es.
     attempt (attempt (sub v ''sensor_values'') as_items) (\<lambda>items.
     attempt (mapM (\<lambda>(k, x). attempt (to_float x) (\<lambda>f. Inr (k, f))) items) (\<lambda>vals.
       Inr (Some \<lparr>vs_round_identity = r, source_edges = es, sensor_values = vals\<rparr>)))))"

definition read_round_identity :: "pyval \<Rightarrow> round_identity res" where
  "read_round_identity v = attempt (attempt (sub v ''round_id'') to_str) (\<lambda>i.
     attempt (attempt (attempt (sub v ''window_started_at'') to_str) fromisoformat) (\<lambda>a.
     attempt (attempt (attempt (sub v ''window_ended_at'') to_str) fromisoformat) (\<lambda>b.
       mk_RoundIdentity i a b)))"

text \<open>\<open>replace(state, round_identity=r)\<close>.\<close>

definition rescope_state :: "round_identity \<Rightarrow> replicated_state \<Rightarrow> replicated_state res" where
  "rescope_state r s = mk_EdgeLocalReplicatedState r (owner_edge_id s) (rs_participating_edges s)
     (observations_by_sensor s) (is_validated s)"

definition committed_round_to_audit_package :: "consensus_round_input \<Rightarrow> pyval \<Rightarrow> audit_package res" where
  "committed_round_to_audit_package ri v = attempt (read_round_identity v) (\<lambda>r.
     if round_id r \<noteq> round_id (ri_round_identity ri)
       then Inl (ValueError ''Committed round id must match the submitted round input.'') else
     attempt (mapM (rescope_state r) (replicated_states ri)) (\<lambda>states.
     attempt (mk_ConsensusRoundInput r (ri_participating_edges ri) states) (\<lambda>committed_input.
     attempt (attempt (sub_list v ''participating_edges'') (mapM as_str)) (\<lambda>edges.
     attempt (attempt (sub_list v ''trust_ranking'') (mapM read_rank_entry)) (\<lambda>entries.
     attempt (mk_TrustRanking r edges entries) (\<lambda>ranking.
     attempt (attempt (sub_list v ''exclusions'') (mapM (read_exclusion r))) (\<lambda>exs.
     attempt (attempt (sub_list v ''trust_evidence'') (mapM (read_evidence r))) (\<lambda>evs.
     attempt (attempt (pget v ''consensused_valid_state'') (read_valid_state r)) (\<lambda>vs.
     attempt (attempt (sub_str v ''final_status'') parse_status) (\<lambda>st.
     attempt (mk_ConsensusResult r st edges ranking exs vs) (\<lambda>result.
       mk_ConsensusAuditPackage committed_input ranking exs evs st result vs)))))))))))"

section \<open>Reading back what the log wrote\<close>

lemma mapM_inverse: "(\<And>x. x \<in> set xs \<Longrightarrow> f (g x) = Inr x) \<Longrightarrow> mapM f (map g xs) = Inr xs"
  using mapM_Inr [of xs "f \<circ> g" "\<lambda>x. x"] by (simp add: mapM_map)

lemma parse_reason_value [simp]: "parse_reason (reason_value r) = Inr r"
  by (cases r) (simp_all add: parse_reason_def)

lemma parse_status_value [simp]: "parse_status (status_value r) = Inr r"
  by (cases r) (simp_all add: parse_status_def)

lemmas reads = sub_str_def sub_float_def sub_list_def

lemma read_rank_entry [simp]: "read_rank_entry (rank_entry_dict t) = Inr t"
  by (simp add: read_rank_entry_def rank_entry_dict_def reads)

lemma read_exclusion [simp]: "ex_round_identity x = r \<Longrightarrow> read_exclusion r (exclusion_dict x) = Inr x"
  by (simp add: read_exclusion_def exclusion_dict_def reads)

lemma read_deviation [simp]: "read_deviation (deviation_dict d) = Inr d"
  by (simp add: read_deviation_def deviation_dict_def reads)

lemma read_pairwise [simp]: "read_pairwise (pairwise_dict p) = Inr p"
  by (simp add: read_pairwise_def pairwise_dict_def reads)

lemma read_evidence [simp]: "te_round_identity e = r \<Longrightarrow> read_evidence r (evidence_dict e) = Inr e"
  by (simp add: read_evidence_def evidence_dict_def reads mapM_inverse)

lemma read_valid_state [simp]:
  assumes "vs_round_identity v = r" shows "read_valid_state r (valid_state_dict v) = Inr (Some v)"
proof -
  have "mapM (\<lambda>(k, x). attempt (to_float x) (\<lambda>f. Inr (k, f))) (map (\<lambda>(k, x). (k, PFloat x)) (sensor_values v))
      = Inr (sensor_values v)"
    by (rule mapM_inverse) auto
  with assms show ?thesis
    by (simp add: read_valid_state_def valid_state_dict_def reads mapM_inverse)
qed

lemma read_round_identity_log:
  assumes "valid_datetime (window_started_at (rl_round_identity l))"
    "valid_datetime (window_ended_at (rl_round_identity l))"
    "dt_less (window_ended_at (rl_round_identity l)) (window_started_at (rl_round_identity l)) = Inr False"
  shows "read_round_identity (round_log_to_dict l) = Inr (rl_round_identity l)"
  using assms
  by (simp add: read_round_identity_def round_log_to_dict_def fromisoformat_isoformat mk_RoundIdentity_def)

lemma rescope_same: "\<not> is_validated s \<Longrightarrow> rs_round_identity s = r \<Longrightarrow> rescope_state r s = Inr s"
  by (cases s) (simp add: rescope_state_def mk_EdgeLocalReplicatedState_def)

lemma evaluate_constructed:
  assumes "evaluate ri = Inr pkg"
  shows "mk_ConsensusResult (ri_round_identity ri) (ap_final_status pkg) (ri_participating_edges ri)
      (ap_trust_ranking pkg) (ap_exclusions pkg) (ap_valid_state pkg) = Inr (ap_consensus_result pkg)"
    "mk_ConsensusAuditPackage ri (ap_trust_ranking pkg) (ap_exclusions pkg) (ap_trust_evidence pkg)
      (ap_final_status pkg) (ap_consensus_result pkg) (ap_valid_state pkg) = Inr pkg"
proof -
  obtain ranking exs evs st vs result where e:
    "mk_ConsensusResult (ri_round_identity ri) st (ri_participating_edges ri) ranking exs vs = Inr result"
    "mk_ConsensusAuditPackage ri ranking exs evs st result vs = Inr pkg"
    using assms unfolding evaluate_def attempt_eq_Inr Let_def by (auto simp: attempt_eq_Inr)
  moreover have "ap_trust_ranking pkg = ranking" "ap_exclusions pkg = exs" "ap_trust_evidence pkg = evs"
    "ap_final_status pkg = st" "ap_valid_state pkg = vs" "ap_consensus_result pkg = result"
    using e(2) unfolding mk_ConsensusAuditPackage_def by (auto split: if_splits)
  ultimately show "mk_ConsensusResult (ri_round_identity ri) (ap_final_status pkg) (ri_participating_edges ri)
      (ap_trust_ranking pkg) (ap_exclusions pkg) (ap_valid_state pkg) = Inr (ap_consensus_result pkg)"
    "mk_ConsensusAuditPackage ri (ap_trust_ranking pkg) (ap_exclusions pkg) (ap_trust_evidence pkg)
      (ap_final_status pkg) (ap_consensus_result pkg) (ap_valid_state pkg) = Inr pkg" by simp_all
qed

section \<open>Properties\<close>

lemma committed_roundtrip:
  assumes wf: "wf_round_input ri" and e: "evaluate ri = Inr pkg"
    and states: "\<forall>s \<in> set (replicated_states ri). \<not> is_validated s"
    and window: "valid_datetime (window_started_at (ri_round_identity ri))"
      "valid_datetime (window_ended_at (ri_round_identity ri))"
      "dt_less (window_ended_at (ri_round_identity ri)) (window_started_at (ri_round_identity ri)) = Inr False"
  shows "committed_round_to_audit_package ri (round_log_to_dict (build_round_log pkg)) = Inr pkg"
proof -
  let ?r = "ri_round_identity ri" and ?v = "round_log_to_dict (build_round_log pkg)"
  from wf e have t: "evaluate_trust ?r (ri_participating_edges ri) (replicated_states ri)
      = Inr (ap_trust_ranking pkg, ap_exclusions pkg, ap_trust_evidence pkg)" by (rule evaluate_Inr)
  note facts = evaluate_trust_Inr [OF t]
  from wf e have p: "ap_round_input pkg = ri" by (rule evaluate_Inr)
  have rid: "read_round_identity ?v = Inr ?r"
    using read_round_identity_log [of "build_round_log pkg"] window by (simp add: build_round_log_def p)
  have ss: "mapM (rescope_state ?r) (replicated_states ri) = Inr (replicated_states ri)"
    using mapM_inverse [of "replicated_states ri" "rescope_state ?r" "\<lambda>s. s"] states wf
    by (simp add: rescope_same wf_round_input_def mk_ConsensusRoundInput_Inr)
  have fields: "attempt (sub_list ?v ''participating_edges'') (mapM as_str) = Inr (ri_participating_edges ri)"
    "attempt (sub_list ?v ''trust_ranking'') (mapM read_rank_entry) = Inr (tr_entries (ap_trust_ranking pkg))"
    "attempt (sub_list ?v ''exclusions'') (mapM (read_exclusion ?r)) = Inr (ap_exclusions pkg)"
    "attempt (sub_list ?v ''trust_evidence'') (mapM (read_evidence ?r)) = Inr (ap_trust_evidence pkg)"
    "attempt (sub_str ?v ''final_status'') parse_status = Inr (ap_final_status pkg)"
    using facts(7,8) by (simp_all add: round_log_to_dict_def build_round_log_def reads p mapM_inverse)
  have vs: "attempt (pget ?v ''consensused_valid_state'') (read_valid_state ?r) = Inr (ap_valid_state pkg)"
  proof (cases "ap_valid_state pkg")
    case (Some v)
    then have "vs_round_identity v = ?r"
      using evaluate_constructed(1) [OF e] by (auto simp: mk_ConsensusResult_def split: if_splits)
    with Some show ?thesis by (simp add: round_log_to_dict_def build_round_log_def)
  qed (simp add: round_log_to_dict_def build_round_log_def read_valid_state_def)
  have ranking: "mk_TrustRanking ?r (ri_participating_edges ri) (tr_entries (ap_trust_ranking pkg)) = Inr (ap_trust_ranking pkg)"
    using facts(1,2) arg_cong [OF facts(3), of set] by (cases "ap_trust_ranking pkg") (simp add: mk_TrustRanking_def)
  show ?thesis
    using wf unfolding committed_round_to_audit_package_def rid ss fields vs attempt_Inr ranking
      evaluate_constructed [OF e] wf_round_input_def by simp (simp add: ranking evaluate_constructed [OF e])
qed

text \<open>
  C30. The dictionary of a log loses nothing the mapper needs: reading the dictionary of the log
  of a round the Python engine decided back against the submitted input gives the same audit
  package.
\<close>

theorem committed_round_roundtrip:
  assumes wf: "wf_round_input ri" and e: "evaluate ri = Inr pkg"
    and states: "\<forall>s \<in> set (replicated_states ri). \<not> is_validated s"
    and window: "valid_datetime (window_started_at (ri_round_identity ri))"
      "valid_datetime (window_ended_at (ri_round_identity ri))"
      "dt_less (window_ended_at (ri_round_identity ri)) (window_started_at (ri_round_identity ri)) = Inr False"
  shows "committed_round_to_audit_package ri (round_log_to_dict (build_round_log pkg)) = Inr pkg"
  by (rule committed_roundtrip [OF assms])

theorem committed_round_roundtrip_witness:
  "\<exists>pkg. evaluate (sample_input (60, 3, 1500) (0, 9, 0)) = Inr pkg \<and>
     committed_round_to_audit_package (sample_input (60, 3, 1500) (0, 9, 0))
       (round_log_to_dict (build_round_log pkg)) = Inr pkg"
proof -
  obtain pkg where e: "evaluate (sample_input (60, 3, 1500) (0, 9, 0)) = Inr pkg"
    by (rule evaluate_total [OF sample_input_complete])
  have wf: "wf_round_input (sample_input (60, 3, 1500) (0, 9, 0))"
    using sample_input_complete by (simp add: complete_input_def)
  have "committed_round_to_audit_package (sample_input (60, 3, 1500) (0, 9, 0))
      (round_log_to_dict (build_round_log pkg)) = Inr pkg"
  proof (rule committed_round_roundtrip [OF wf e])
    show "valid_datetime (window_started_at (ri_round_identity (sample_input (60, 3, 1500) (0, 9, 0))))"
      "valid_datetime (window_ended_at (ri_round_identity (sample_input (60, 3, 1500) (0, 9, 0))))"
      by (simp_all add: sample_input_def sample_identity_def sample_time_def valid_datetime_def days_in_month_def)
  qed (auto simp: sample_input_def sample_identity_def sample_time_def sample_state_def dt_less_def)
  with e show ?thesis by blast
qed

definition same_up_to_order :: "replicated_state \<Rightarrow> replicated_state \<Rightarrow> bool" where
  "same_up_to_order s t = (owner_edge_id s = owner_edge_id t \<and>
     mset (observations_by_sensor s) = mset (observations_by_sensor t))"

lemma insort_key_paired:
  "map (\<lambda>s. (f s, g s)) (insort_key f x xs) = insort_key fst (f x, g x) (map (\<lambda>s. (f s, g s)) xs)"
  by (induction xs) auto

lemma sort_key_paired: "map (\<lambda>s. (f s, g s)) (sort_key f xs) = sort_key fst (map (\<lambda>s. (f s, g s)) xs)"
  by (induction xs) (simp_all add: insort_key_paired)

lemma state_dict_order:
  assumes "same_up_to_order s t" "distinct (map fst (observations_by_sensor t))"
  shows "state_dict s = state_dict t"
proof -
  have set: "set (observations_by_sensor s) = set (observations_by_sensor t)"
    using assms(1) unfolding same_up_to_order_def by (blast dest: mset_eq_setD)
  have "sorted_items (observations_by_sensor s) = sorted_items (observations_by_sensor t)"
    unfolding sorted_items_def
  proof (rule sort_key_inj_key_eq)
    show "mset (observations_by_sensor s) = mset (sort_key fst (observations_by_sensor t))"
      using assms(1) by (simp add: same_up_to_order_def)
    show "inj_on fst (set (observations_by_sensor s))"
      unfolding set using assms(2) by (simp add: distinct_map)
  qed simp
  with assms(1) show ?thesis by (simp add: state_dict_def same_up_to_order_def)
qed

text \<open>
  The transaction is canonical: it depends neither on the order of the replicated
  states nor on the insertion order of the observations inside a state.
\<close>

theorem serialization_canonical:
  assumes "mset (replicated_states ri') = mset ss" "list_all2 same_up_to_order ss (replicated_states ri)"
    and "ri_round_identity ri' = ri_round_identity ri" "ri_participating_edges ri' = ri_participating_edges ri"
    and "distinct (map owner_edge_id (replicated_states ri))"
    and "\<forall>s \<in> set (replicated_states ri). distinct (map fst (observations_by_sensor s))"
  shows "serialize_round_input ri' = serialize_round_input ri"
proof -
  let ?ts = "replicated_states ri"
  have owners: "list_all2 same_up_to_order xs ys \<Longrightarrow> map owner_edge_id xs = map owner_edge_id ys" for xs ys
    by (induction rule: list_all2_induct) (auto simp: same_up_to_order_def)
  have dicts: "list_all2 same_up_to_order xs ys \<Longrightarrow> \<forall>s \<in> set ys. distinct (map fst (observations_by_sensor s)) \<Longrightarrow>
      map (\<lambda>s. (owner_edge_id s, state_dict s)) xs = map (\<lambda>s. (owner_edge_id s, state_dict s)) ys" for xs ys
  proof (induction rule: list_all2_induct)
    case (Cons x xs y ys)
    then have "state_dict x = state_dict y" by (intro state_dict_order) auto
    moreover have "owner_edge_id x = owner_edge_id y" using Cons by (simp add: same_up_to_order_def)
    ultimately show ?case using Cons by simp
  qed simp
  have keyed: "map state_dict (sort_key owner_edge_id xs) =
      map snd (sort_key fst (map (\<lambda>s. (owner_edge_id s, state_dict s)) xs))" for xs
    by (simp add: sort_key_paired [where f = owner_edge_id and g = state_dict, symmetric])
  have "sort_key owner_edge_id (replicated_states ri') = sort_key owner_edge_id ss"
  proof (rule sort_key_inj_key_eq)
    show "mset (replicated_states ri') = mset (sort_key owner_edge_id ss)" using assms(1) by simp
    have "distinct (map owner_edge_id ss)" using owners [OF assms(2)] assms(5) by simp
    then show "inj_on owner_edge_id (set (replicated_states ri'))"
      using mset_eq_setD [OF assms(1)] by (simp add: distinct_map)
  qed simp
  then have "map state_dict (sort_key owner_edge_id (replicated_states ri')) = map state_dict (sort_key owner_edge_id ?ts)"
    by (simp only: keyed dicts [OF assms(2,6)])
  with assms(3,4) show ?thesis by (simp add: serialize_round_input_def)
qed

theorem serialization_canonical_witness:
  "serialize_round_input \<lparr>ri_round_identity = sample_identity, ri_participating_edges = sample_edges,
     replicated_states = [sample_state ''edge-2'' (60, 3, 1500), sample_state ''edge-1'' (61, 3, 1500)]\<rparr> =
   serialize_round_input \<lparr>ri_round_identity = sample_identity, ri_participating_edges = sample_edges,
     replicated_states = [sample_state ''edge-1'' (61, 3, 1500), sample_state ''edge-2'' (60, 3, 1500)]\<rparr>"
  by (rule serialization_canonical
      [where ss = "[sample_state ''edge-1'' (61, 3, 1500), sample_state ''edge-2'' (60, 3, 1500)]"])
    (simp_all add: same_up_to_order_def sample_state_def)

end
