(* ===== verification/RuntimeConfig.thy ===== *)
theory RuntimeConfig
  imports PyTime FloatLaws
begin

text \<open>
  \<open>config/runtime.py\<close>: the runtime configuration read from environment variables, and
  \<open>scenario_control/runtime.py\<close>: the scenario of one cycle. \<open>int(s)\<close> and
  \<open>float(s)\<close> are the parsers of Python for decimal text; \<open>inf\<close> and \<open>nan\<close> are not
  values of \<open>flt\<close> and are rejected.
\<close>

section \<open>Parsing\<close>

text \<open>Digits with single underscores between them: value and number of digits.\<close>

fun scan_digits :: "string \<Rightarrow> bool \<Rightarrow> int \<Rightarrow> nat \<Rightarrow> (int \<times> nat \<times> string) option" where
  "scan_digits [] after acc k = (if after then Some (acc, k, []) else None)"
| "scan_digits (c # cs) after acc k =
     (if is_digit c then scan_digits cs True (10 * acc + (of_char c - 48)) (k + 1)
      else if c = CHR ''_'' \<and> after then scan_digits cs False acc k
      else if after then Some (acc, k, c # cs) else None)"

fun scan_sign :: "string \<Rightarrow> int \<times> string" where
  "scan_sign [] = (1, [])"
| "scan_sign (c # cs) = (if c = CHR ''-'' then (- 1, cs) else if c = CHR ''+'' then (1, cs) else (1, c # cs))"

definition parse_int :: "string \<Rightarrow> int res" where
  "parse_int s = (case scan_sign (strip s) of (sg, r) \<Rightarrow> (case scan_digits r False 0 0 of
     Some (v, k, []) \<Rightarrow> Inr (sg * v)
   | _ \<Rightarrow> Inl (ValueError (''invalid literal for int() with base 10: '' @ [CHR 0x27] @ s @ [CHR 0x27]))))"

definition scan_fraction :: "string \<Rightarrow> int \<Rightarrow> nat \<Rightarrow> (int \<times> nat \<times> string) option" where
  "scan_fraction r acc k = (case r of
     c # cs \<Rightarrow> if c = CHR ''.'' then (if cs \<noteq> [] \<and> is_digit (hd cs) then scan_digits cs False acc 0
         else if 0 < k then Some (acc, 0, cs) else None)
       else Some (acc, 0, r)
   | [] \<Rightarrow> Some (acc, 0, []))"

definition scan_exponent :: "string \<Rightarrow> (int \<times> string) option" where
  "scan_exponent r = (case r of
     c # cs \<Rightarrow> if c = CHR ''e'' \<or> c = CHR ''E'' then (case scan_sign cs of (sg, t) \<Rightarrow>
         (case scan_digits t False 0 0 of Some (v, _, t') \<Rightarrow> Some (sg * v, t') | None \<Rightarrow> None))
       else Some (0, r)
   | [] \<Rightarrow> Some (0, []))"

definition parse_float :: "string \<Rightarrow> flt res" where
  "parse_float s = (let err = Inl (ValueError (''could not convert string to float: '' @ [CHR 0x27] @ s @ [CHR 0x27]));
     (sg, r) = scan_sign (strip s);
     whole = (if r \<noteq> [] \<and> is_digit (hd r) then scan_digits r False 0 0 else Some (0, 0, r)) in
     case whole of None \<Rightarrow> err | Some (a, k, r1) \<Rightarrow> (case scan_fraction r1 a k of None \<Rightarrow> err
     | Some (m, f, r2) \<Rightarrow> if k = 0 \<and> f = 0 then err else (case scan_exponent r2 of
         Some (e, []) \<Rightarrow> Inr (fl (of_int (sg * m) * 10 powi (e - int f)))
       | _ \<Rightarrow> err)))"

fun split_on :: "char \<Rightarrow> string \<Rightarrow> string \<Rightarrow> string list" where
  "split_on sep acc [] = [rev acc]"
| "split_on sep acc (c # cs) = (if c = sep then rev acc # split_on sep [] cs else split_on sep (c # acc) cs)"

definition lower_char :: "char \<Rightarrow> char" where
  "lower_char c = (let n = of_char c :: nat in if 65 \<le> n \<and> n \<le> 90 then char_of (n + 32) else c)"

section \<open>Configuration\<close>

record runtime_config =
  mqtt_transport :: string
  mqtt_broker_host :: string
  mqtt_broker_port :: int
  mqtt_topic :: string
  cometbft_rpc_url :: string
  minio_endpoint :: string
  minio_access_key :: string
  minio_secret_key :: string
  minio_bucket :: string
  minio_secure :: bool
  demo_steps :: int
  demo_cycle_interval_seconds :: flt
  demo_max_cycles :: int
  demo_train_after_eligible_cycles :: int
  demo_fingerprint_sequence_length :: int
  demo_power :: flt
  demo_dashboard_host :: string
  demo_dashboard_port :: int
  demo_scenario_name :: string
  demo_scenario_start_cycle :: int
  demo_fault_mode :: string
  demo_faulty_edges :: "string list"
  demo_scada_mode :: string
  demo_scada_start_cycle :: int
  demo_scada_offset_value :: flt
  demo_log_path :: string
  demo_campaign_id :: string
  demo_disable_runtime_autoencoder :: bool

definition default_config :: runtime_config where
  "default_config = \<lparr>mqtt_transport = ''real'', mqtt_broker_host = ''localhost'', mqtt_broker_port = 1883,
     mqtt_topic = ''edges/observations'', cometbft_rpc_url = ''http://127.0.0.1:26657'',
     minio_endpoint = ''localhost:9000'', minio_access_key = ''minioadmin'', minio_secret_key = ''minioadmin'',
     minio_bucket = ''valid-consensus-artifacts'', minio_secure = False, demo_steps = 3,
     demo_cycle_interval_seconds = 30, demo_max_cycles = 0, demo_train_after_eligible_cycles = 10,
     demo_fingerprint_sequence_length = 2, demo_power = 65, demo_dashboard_host = ''127.0.0.1'',
     demo_dashboard_port = 8088, demo_scenario_name = [], demo_scenario_start_cycle = 1,
     demo_fault_mode = ''none'', demo_faulty_edges = [], demo_scada_mode = ''match'', demo_scada_start_cycle = 0,
     demo_scada_offset_value = 6, demo_log_path = ''logs/run_local_demo.log'', demo_campaign_id = [],
     demo_disable_runtime_autoencoder = False\<rparr>"

text \<open>\<open>os.getenv(name, default)\<close>, and a flag variable.\<close>

definition getenv :: "(string \<Rightarrow> string option) \<Rightarrow> string \<Rightarrow> string \<Rightarrow> string" where
  "getenv env k d = (case env k of None \<Rightarrow> d | Some v \<Rightarrow> v)"

definition env_flag :: "(string \<Rightarrow> string option) \<Rightarrow> string \<Rightarrow> bool" where
  "env_flag env k = (map lower_char (strip (getenv env k ''false'')) \<in> {''1'', ''true'', ''yes'', ''on''})"

definition load_runtime_demo_config :: "(string \<Rightarrow> string option) \<Rightarrow> runtime_config res" where
  "load_runtime_demo_config env = (let
     faulty = filter (\<lambda>s. s \<noteq> []) (map strip (split_on (CHR '','') [] (getenv env ''DEMO_FAULTY_EDGES'' [])));
     int_of = (\<lambda>k d. parse_int (getenv env k d)); float_of = (\<lambda>k d. parse_float (getenv env k d)) in
     attempt (int_of ''MQTT_BROKER_PORT'' ''1883'') (\<lambda>port.
     attempt (int_of ''DEMO_STEPS'' ''3'') (\<lambda>steps.
     attempt (float_of ''DEMO_CYCLE_INTERVAL_SECONDS'' ''30'') (\<lambda>interval.
     attempt (int_of ''DEMO_MAX_CYCLES'' ''0'') (\<lambda>max_cycles.
     attempt (int_of ''DEMO_TRAIN_AFTER_ELIGIBLE_CYCLES'' ''10'') (\<lambda>train_after.
     attempt (int_of ''DEMO_FINGERPRINT_SEQUENCE_LENGTH'' ''2'') (\<lambda>seq.
     attempt (float_of ''DEMO_POWER'' ''65.0'') (\<lambda>power.
     attempt (int_of ''DEMO_DASHBOARD_PORT'' ''8088'') (\<lambda>dport.
     attempt (int_of ''DEMO_SCENARIO_START_CYCLE'' ''1'') (\<lambda>start.
     attempt (int_of ''DEMO_SCADA_START_CYCLE'' ''0'') (\<lambda>scada_start.
     attempt (float_of ''DEMO_SCADA_OFFSET_VALUE'' ''6.0'') (\<lambda>offset.
       Inr \<lparr>mqtt_transport = getenv env ''MQTT_TRANSPORT'' ''real'',
         mqtt_broker_host = getenv env ''MQTT_BROKER_HOST'' ''localhost'', mqtt_broker_port = port,
         mqtt_topic = getenv env ''MQTT_TOPIC'' ''edges/observations'',
         cometbft_rpc_url = getenv env ''COMETBFT_RPC_URL'' ''http://127.0.0.1:26657'',
         minio_endpoint = getenv env ''MINIO_ENDPOINT'' ''localhost:9000'',
         minio_access_key = getenv env ''MINIO_ACCESS_KEY'' ''minioadmin'',
         minio_secret_key = getenv env ''MINIO_SECRET_KEY'' ''minioadmin'',
         minio_bucket = getenv env ''MINIO_BUCKET'' ''valid-consensus-artifacts'',
         minio_secure = env_flag env ''MINIO_SECURE'', demo_steps = steps,
         demo_cycle_interval_seconds = interval, demo_max_cycles = max_cycles,
         demo_train_after_eligible_cycles = train_after, demo_fingerprint_sequence_length = seq,
         demo_power = power, demo_dashboard_host = getenv env ''DEMO_DASHBOARD_HOST'' ''127.0.0.1'',
         demo_dashboard_port = dport, demo_scenario_name = strip (getenv env ''DEMO_SCENARIO'' []),
         demo_scenario_start_cycle = start, demo_fault_mode = getenv env ''DEMO_FAULT_MODE'' ''none'',
         demo_faulty_edges = faulty, demo_scada_mode = getenv env ''DEMO_SCADA_MODE'' ''match'',
         demo_scada_start_cycle = scada_start, demo_scada_offset_value = offset,
         demo_log_path = getenv env ''DEMO_LOG_PATH'' ''logs/run_local_demo.log'',
         demo_campaign_id = strip (getenv env ''DEMO_CAMPAIGN_ID'' []),
         demo_disable_runtime_autoencoder = env_flag env ''DEMO_DISABLE_RUNTIME_AUTOENCODER''\<rparr>))))))))))))"

section \<open>Properties\<close>

text \<open>
  With no variable set the loaded configuration is the dataclass's own defaults: the
  default strings of the loader parse to the default values of the fields.
\<close>

theorem empty_environment_defaults: "load_runtime_demo_config (\<lambda>_. None) = Inr default_config"
proof -
  have fl: "fl 30 = 30" "fl 65 = 65" "fl 6 = 6" by (simp_all add: fl.numeral_exact)
  have p: "parse_int ''1883'' = Inr 1883" "parse_int ''3'' = Inr 3" "parse_int ''0'' = Inr 0" "parse_int ''10'' = Inr 10"
    "parse_int ''2'' = Inr 2" "parse_int ''8088'' = Inr 8088" "parse_int ''1'' = Inr 1"
    by (simp_all add: parse_int_def strip_def is_space_def is_digit_def)
  have f: "parse_float ''30'' = Inr 30" "parse_float ''65.0'' = Inr 65" "parse_float ''6.0'' = Inr 6"
    by (simp_all add: parse_float_def strip_def is_space_def is_digit_def scan_fraction_def scan_exponent_def
        power_int_def fl)
  have l: "env_flag (\<lambda>_. None) k = False" for k
    by (simp add: env_flag_def getenv_def strip_def is_space_def lower_char_def)
  show ?thesis
    by (simp add: load_runtime_demo_config_def getenv_def Let_def p f l default_config_def strip_def is_space_def)
qed

end
