(* ===== verification/Stores.thy ===== *)
theory Stores
  imports RuntimeConfig PyValue "HOL-Library.Multiset"
begin

text \<open>
  The artifact stores. The pipeline is written against a duck-typed \<open>artifact_store\<close>:
  the record \<open>store_ops\<close> holds its methods, each returning the updated store. The locale
  \<open>artifact_store\<close> states the contract the clients rely on, over an abstraction of the
  store to a map from object names to contents. \<open>persistence/local_filesystem.py\<close> and
  \<open>persistence/artifact_store.py\<close> are modelled and shown to satisfy it.

  A saved JSON document is kept as the value it encodes (\<open>json.loads\<close> inverts
  \<open>json.dumps\<close> on the values used); bytes are opaque and are not JSON documents. Object names
  are relative slash-separated paths without dot segments, as the code builds them.
\<close>

section \<open>Interface\<close>

datatype blob = Json pyval | Bytes string

record 's store_ops =
  op_bucket :: string
  op_save_json :: "string \<Rightarrow> pyval \<Rightarrow> 's \<Rightarrow> 's res"
  op_save_bytes :: "string \<Rightarrow> string \<Rightarrow> 's \<Rightarrow> 's res"
  op_list_json_objects :: "string \<Rightarrow> 's \<Rightarrow> string list res"
  op_load_json :: "string \<Rightarrow> 's \<Rightarrow> pyval res"
  op_load_bytes :: "string \<Rightarrow> 's \<Rightarrow> string res"

definition json_under :: "string \<Rightarrow> (string \<Rightarrow> blob option) \<Rightarrow> string set" where
  "json_under p m = {k \<in> dom m. starts_with p k \<and> ends_with ''.json'' k}"

locale artifact_store =
  fixes ops :: "'s store_ops" and contents :: "'s \<Rightarrow> string \<Rightarrow> blob option"
  assumes save_json: "\<exists>s'. op_save_json ops k v s = Inr s' \<and> contents s' = (contents s)(k \<mapsto> Json v)"
    and save_bytes: "\<exists>s'. op_save_bytes ops k b s = Inr s' \<and> contents s' = (contents s)(k \<mapsto> Bytes b)"
    and load_json_iff: "op_load_json ops k s = Inr v \<longleftrightarrow> contents s k = Some (Json v)"
    and load_bytes: "contents s k = Some (Bytes b) \<Longrightarrow> op_load_bytes ops k s = Inr b"
    and list_json: "ends_with ''/'' p \<Longrightarrow> \<exists>ks. op_list_json_objects ops p s = Inr ks \<and> distinct ks \<and>
      set ks = json_under p (contents s)"
    and list_json_cong: "ends_with ''/'' p \<Longrightarrow> (\<And>k. starts_with p k \<Longrightarrow> contents s k = contents t k) \<Longrightarrow>
      op_list_json_objects ops p s = op_list_json_objects ops p t"
begin

lemma load_json: "contents s k = Some (Json v) \<Longrightarrow> op_load_json ops k s = Inr v"
  by (simp add: load_json_iff)

lemma load_missing: "contents s k = None \<Longrightarrow> \<exists>e. op_load_json ops k s = Inl e"
  using load_json_iff [of k s] by (cases "op_load_json ops k s") auto

lemma load_after_save:
  assumes "op_save_json ops k v s = Inr s'" shows "op_load_json ops k s' = Inr v"
proof -
  have "contents s' = (contents s)(k \<mapsto> Json v)" using save_json [of k v s] assms by auto
  then show ?thesis by (intro load_json) simp
qed

lemma load_other:
  assumes "op_save_json ops k v s = Inr s'" "k' \<noteq> k" "contents s k' = Some (Json w)"
  shows "op_load_json ops k' s' = Inr w"
proof -
  have "contents s' = (contents s)(k \<mapsto> Json v)" using save_json [of k v s] assms(1) by auto
  then show ?thesis using assms(2,3) by (intro load_json) simp
qed

lemma listed_after_save:
  assumes "op_save_json ops k v s = Inr s'" "starts_with p k" "ends_with ''.json'' k" "ends_with ''/'' p"
  obtains ks where "op_list_json_objects ops p s' = Inr ks" "set ks = insert k (json_under p (contents s))"
proof -
  have "contents s' = (contents s)(k \<mapsto> Json v)" using save_json [of k v s] assms(1) by auto
  then have "json_under p (contents s') = insert k (json_under p (contents s))"
    using assms(2,3) by (auto simp: json_under_def)
  then show ?thesis using list_json [OF assms(4), of s'] that by auto
qed

end

section \<open>Local files\<close>

type_synonym local_files = "(string, blob) dict"

definition local_save_json :: "string \<Rightarrow> pyval \<Rightarrow> local_files \<Rightarrow> local_files res" where
  "local_save_json name payload fs = Inr (AList.update name (Json payload) fs)"

definition local_save_bytes :: "string \<Rightarrow> string \<Rightarrow> local_files \<Rightarrow> local_files res" where
  "local_save_bytes name payload fs = Inr (AList.update name (Bytes payload) fs)"

text \<open>A directory exists where some file lies below it; the bucket root always exists.\<close>

definition dir_path :: "string \<Rightarrow> string" where
  "dir_path pre = (if pre = [] \<or> last pre = CHR ''/'' then pre else pre @ ''/'')"

definition is_dir :: "local_files \<Rightarrow> string \<Rightarrow> bool" where
  "is_dir fs pre = (pre = [] \<or> (\<exists>f \<in> set fs. starts_with (dir_path pre) (fst f)))"

text \<open>Paths are sorted component by component.\<close>

definition path_parts :: "string \<Rightarrow> string list" where
  "path_parts = split_on (CHR ''/'') []"

definition local_list_json_objects :: "string \<Rightarrow> local_files \<Rightarrow> string list res" where
  "local_list_json_objects pre fs = (let
     names = sort_key path_parts (remdups (filter (ends_with ''.json'') (map fst fs))) in
     Inr (if is_dir fs pre then filter (starts_with (dir_path pre)) names
       else filter (starts_with pre) names))"

definition local_load_json :: "string \<Rightarrow> local_files \<Rightarrow> pyval res" where
  "local_load_json name fs = (case map_of fs name of
     None \<Rightarrow> Inl (FileNotFoundError (''Object not found in local store: '' @ name))
   | Some (Json v) \<Rightarrow> Inr v
   | Some (Bytes _) \<Rightarrow> Inl (ValueError ''not a JSON document''))"

definition local_load_bytes :: "string \<Rightarrow> local_files \<Rightarrow> string res" where
  "local_load_bytes name fs = (case map_of fs name of
     None \<Rightarrow> Inl (FileNotFoundError (''Object not found in local store: '' @ name))
   | Some (Bytes b) \<Rightarrow> Inr b
   | Some (Json _) \<Rightarrow> Inl (ValueError ''a JSON document was stored''))"

definition local_ops :: "string \<Rightarrow> local_files store_ops" where
  "local_ops bucket = \<lparr>op_bucket = bucket, op_save_json = local_save_json, op_save_bytes = local_save_bytes,
     op_list_json_objects = local_list_json_objects, op_load_json = local_load_json,
     op_load_bytes = local_load_bytes\<rparr>"

lemma dir_path_slash:
  assumes "ends_with ''/'' p"
  shows "dir_path p = p"
proof -
  from assms have "p \<noteq> []" "last p = CHR ''/''"
    by (auto simp: ends_with_def) (metis append_take_drop_id last_snoc)
  then show ?thesis by (simp add: dir_path_def)
qed

lemma local_list_eq:
  "ends_with ''/'' p \<Longrightarrow> local_list_json_objects p fs =
     Inr (filter (starts_with p) (sort_key path_parts (remdups (filter (ends_with ''.json'') (map fst fs)))))"
  by (simp add: local_list_json_objects_def dir_path_slash Let_def)

lemma local_list_set:
  assumes "ends_with ''/'' p"
  shows "\<exists>ks. local_list_json_objects p fs = Inr ks \<and> distinct ks \<and> set ks = json_under p (map_of fs)"
  by (auto simp: local_list_eq [OF assms] json_under_def dom_map_of_conv_image_fst)

text \<open>A path is its components joined again, so sorting by components leaves no choice.\<close>

lemma split_on_not_Nil [simp]: "split_on sep acc s \<noteq> []"
  by (induction s arbitrary: acc) auto

lemma join_path_parts: "join ''/'' (split_on (CHR ''/'') acc s) = rev acc @ s"
proof (induction s arbitrary: acc)
  case (Cons c s)
  have "join ''/'' (x # split_on (CHR ''/'') [] s) = x @ ''/'' @ s" for x
    using Cons.IH [of "[]"] by (cases "split_on (CHR ''/'') [] s") auto
  then show ?case using Cons.IH [of "c # acc"] by simp
qed simp

lemma inj_path_parts: "inj path_parts"
  by (rule inj_on_inverseI [of _ "join ''/''"]) (simp add: path_parts_def join_path_parts)

lemma sort_key_set_cong:
  assumes "distinct xs" "distinct ys" "set xs = set ys" "inj f"
  shows "sort_key f xs = sort_key f ys"
proof -
  have "mset xs = mset (sort_key f ys)" using assms(1-3) by (simp add: set_eq_iff_mset_eq_distinct [symmetric])
  then show ?thesis using assms(4) by (intro sort_key_inj_key_eq) (auto intro: inj_on_subset)
qed

lemma local_list_cong:
  assumes "ends_with ''/'' p" "\<And>k. starts_with p k \<Longrightarrow> map_of fs k = map_of gs k"
  shows "local_list_json_objects p fs = local_list_json_objects p gs"
proof -
  have eq: "local_list_json_objects p hs = Inr (sort_key path_parts (filter (starts_with p)
      (remdups (filter (ends_with ''.json'') (map fst hs)))))" for hs
    by (simp add: local_list_eq [OF assms(1)] filter_sort)
  have "k \<in> fst ` set fs \<longleftrightarrow> k \<in> fst ` set gs" if "starts_with p k" for k
    using assms(2) [OF that] by (metis map_of_eq_None_iff set_map)
  then have "sort_key path_parts (filter (starts_with p) (remdups (filter (ends_with ''.json'') (map fst fs)))) =
      sort_key path_parts (filter (starts_with p) (remdups (filter (ends_with ''.json'') (map fst gs))))"
    by (intro sort_key_set_cong inj_path_parts) auto
  then show ?thesis by (simp add: eq)
qed

interpretation local_store: artifact_store "local_ops bucket" map_of for bucket
  by unfold_locales
    (auto simp: local_ops_def local_save_json_def local_save_bytes_def local_load_json_def local_load_bytes_def
      fun_eq_iff local_list_set intro: local_list_cong split: option.splits blob.splits)

section \<open>MinIO\<close>

text \<open>
  The functions of the \<open>minio\<close> package that the adapter calls, on the state \<open>'c\<close> of the
  service; the package is not part of the repository.
\<close>

record 'c minio_client =
  mc_bucket_exists :: "'c \<Rightarrow> string \<Rightarrow> bool"
  mc_make_bucket :: "'c \<Rightarrow> string \<Rightarrow> 'c"
  mc_put_object :: "'c \<Rightarrow> string \<Rightarrow> string \<Rightarrow> blob \<Rightarrow> 'c"
  mc_get_object :: "'c \<Rightarrow> string \<Rightarrow> string \<Rightarrow> blob res"
  mc_list_objects :: "'c \<Rightarrow> string \<Rightarrow> string \<Rightarrow> string list"

text \<open>\<open>_ensure_client\<close>: an injected client, or a new one when the package is installed.\<close>

definition ensure_client :: "'c minio_client option \<Rightarrow> 'c minio_client option \<Rightarrow> 'c minio_client res" where
  "ensure_client injected installed = (case injected of Some c \<Rightarrow> Inr c
     | None \<Rightarrow> (case installed of Some c \<Rightarrow> Inr c
       | None \<Rightarrow> Inl (RuntimeError (''MinIO artifact persistence requires the '' @ [CHR 0x27] @ ''minio'' @ [CHR 0x27]
           @ '' package. Install project dependencies before using Story 3.4 runtime persistence.''))))"

definition minio_save :: "'c minio_client \<Rightarrow> string \<Rightarrow> string \<Rightarrow> blob \<Rightarrow> 'c \<Rightarrow> 'c res" where
  "minio_save cl bucket name payload c = (let
     c' = (if \<not> mc_bucket_exists cl c bucket then mc_make_bucket cl c bucket else c) in
     Inr (mc_put_object cl c' bucket name payload))"

definition minio_list_json_objects :: "'c minio_client \<Rightarrow> string \<Rightarrow> string \<Rightarrow> 'c \<Rightarrow> string list res" where
  "minio_list_json_objects cl bucket pre c =
     (if \<not> mc_bucket_exists cl c bucket then Inr []
      else Inr (sort (filter (ends_with ''.json'') (mc_list_objects cl c bucket pre))))"

definition minio_load_json :: "'c minio_client \<Rightarrow> string \<Rightarrow> string \<Rightarrow> 'c \<Rightarrow> pyval res" where
  "minio_load_json cl bucket name c = attempt (mc_get_object cl c bucket name) (\<lambda>b.
     case b of Json v \<Rightarrow> Inr v | Bytes _ \<Rightarrow> Inl (ValueError ''not a JSON document''))"

definition minio_load_bytes :: "'c minio_client \<Rightarrow> string \<Rightarrow> string \<Rightarrow> 'c \<Rightarrow> string res" where
  "minio_load_bytes cl bucket name c = attempt (mc_get_object cl c bucket name) (\<lambda>b.
     case b of Bytes t \<Rightarrow> Inr t | Json _ \<Rightarrow> Inl (ValueError ''a JSON document was stored''))"

definition minio_ops :: "'c minio_client \<Rightarrow> string \<Rightarrow> 'c store_ops" where
  "minio_ops cl bucket = \<lparr>op_bucket = bucket, op_save_json = (\<lambda>k v. minio_save cl bucket k (Json v)),
     op_save_bytes = (\<lambda>k b. minio_save cl bucket k (Bytes b)),
     op_list_json_objects = minio_list_json_objects cl bucket, op_load_json = minio_load_json cl bucket,
     op_load_bytes = minio_load_bytes cl bucket\<rparr>"

text \<open>
  The documented behaviour of the service: \<open>objs\<close> gives the objects of each existing
  bucket; listing a prefix lists its objects once each.
\<close>

definition minio_service :: "'c minio_client \<Rightarrow> ('c \<Rightarrow> string \<Rightarrow> (string \<Rightarrow> blob option) option) \<Rightarrow> bool" where
  "minio_service cl objs \<longleftrightarrow>
     (\<forall>c b. mc_bucket_exists cl c b = (objs c b \<noteq> None)) \<and>
     (\<forall>c b. objs (mc_make_bucket cl c b) = (objs c)(b \<mapsto> Map.empty)) \<and>
     (\<forall>c b m k x. objs c b = Some m \<longrightarrow> objs (mc_put_object cl c b k x) = (objs c)(b \<mapsto> m(k \<mapsto> x))) \<and>
     (\<forall>c b k. mc_get_object cl c b k = (case objs c b of None \<Rightarrow> Inl (RuntimeError ''NoSuchBucket'')
        | Some m \<Rightarrow> (case m k of None \<Rightarrow> Inl (RuntimeError ''NoSuchKey'') | Some x \<Rightarrow> Inr x))) \<and>
     (\<forall>c b m p. objs c b = Some m \<longrightarrow> distinct (mc_list_objects cl c b p) \<and>
        set (mc_list_objects cl c b p) = {k \<in> dom m. starts_with p k})"

definition bucket_contents ::
  "('c \<Rightarrow> string \<Rightarrow> (string \<Rightarrow> blob option) option) \<Rightarrow> string \<Rightarrow> 'c \<Rightarrow> string \<Rightarrow> blob option" where
  "bucket_contents objs b c = (case objs c b of None \<Rightarrow> Map.empty | Some m \<Rightarrow> m)"

lemma minio_save_contents:
  assumes "minio_service cl objs"
  shows "\<exists>c'. minio_save cl b k x c = Inr c' \<and> bucket_contents objs b c' = (bucket_contents objs b c)(k \<mapsto> x)"
proof (cases "objs c b")
  case None
  with assms have "\<not> mc_bucket_exists cl c b" "objs (mc_make_bucket cl c b) b = Some Map.empty"
    by (auto simp: minio_service_def)
  moreover from this have "objs (mc_put_object cl (mc_make_bucket cl c b) b k x) b = Some [k \<mapsto> x]"
    using assms by (simp add: minio_service_def)
  ultimately show ?thesis by (simp add: minio_save_def bucket_contents_def None)
next
  case (Some m)
  with assms have "mc_bucket_exists cl c b" "objs (mc_put_object cl c b k x) b = Some (m(k \<mapsto> x))"
    by (auto simp: minio_service_def)
  then show ?thesis by (simp add: minio_save_def bucket_contents_def Some)
qed

text \<open>The listing is the sorted set of the objects of the bucket.\<close>

lemma minio_list_eq:
  assumes "minio_service cl objs"
  shows "minio_list_json_objects cl b p c = Inr (sorted_list_of_set (json_under p (bucket_contents objs b c)))"
    "finite (json_under p (bucket_contents objs b c))"
proof -
  have "minio_list_json_objects cl b p c = Inr (sorted_list_of_set (json_under p (bucket_contents objs b c))) \<and>
    finite (json_under p (bucket_contents objs b c))"
  proof (cases "objs c b")
    case None
    with assms have "\<not> mc_bucket_exists cl c b" by (simp add: minio_service_def)
    with None show ?thesis by (simp add: minio_list_json_objects_def bucket_contents_def json_under_def)
  next
    case (Some m)
    let ?ks = "filter (ends_with ''.json'') (mc_list_objects cl c b p)"
    from Some assms have e: "mc_bucket_exists cl c b" "distinct ?ks" "set ?ks = json_under p (bucket_contents objs b c)"
      by (auto simp: minio_service_def bucket_contents_def json_under_def)
    have "sort ?ks = sorted_list_of_set (set ?ks)"
      unfolding sorted_list_of_set_sort_remdups distinct_remdups_id [OF e(2)] ..
    with e show ?thesis using finite_set [of ?ks] by (simp only: minio_list_json_objects_def) simp
  qed
  then show "minio_list_json_objects cl b p c = Inr (sorted_list_of_set (json_under p (bucket_contents objs b c)))"
    "finite (json_under p (bucket_contents objs b c))" by simp_all
qed

section \<open>Properties\<close>

text \<open>
  C31. On a service that behaves as documented, the MinIO adapter is an artifact store: it
  satisfies every law of the contract the pipeline relies on, missing buckets included.
\<close>

theorem minio_is_artifact_store:
  assumes "minio_service cl objs"
  shows "artifact_store (minio_ops cl b) (bucket_contents objs b)"
proof
  fix k v s p t
  show "\<exists>s'. op_save_json (minio_ops cl b) k v s = Inr s' \<and>
      bucket_contents objs b s' = (bucket_contents objs b s)(k \<mapsto> Json v)"
    using minio_save_contents [OF assms] by (simp add: minio_ops_def)
  show "\<exists>s'. op_save_bytes (minio_ops cl b) k t s = Inr s' \<and>
      bucket_contents objs b s' = (bucket_contents objs b s)(k \<mapsto> Bytes t)"
    using minio_save_contents [OF assms] by (simp add: minio_ops_def)
  have get: "mc_get_object cl s b k = (case objs s b of None \<Rightarrow> Inl (RuntimeError ''NoSuchBucket'')
        | Some m \<Rightarrow> (case m k of None \<Rightarrow> Inl (RuntimeError ''NoSuchKey'') | Some x \<Rightarrow> Inr x))"
    using assms by (simp add: minio_service_def)
  show "op_load_json (minio_ops cl b) k s = Inr v \<longleftrightarrow> bucket_contents objs b s k = Some (Json v)"
    by (auto simp: minio_ops_def minio_load_json_def get bucket_contents_def split: option.splits blob.splits)
  show "bucket_contents objs b s k = Some (Bytes t) \<Longrightarrow> op_load_bytes (minio_ops cl b) k s = Inr t"
    by (auto simp: minio_ops_def minio_load_bytes_def get bucket_contents_def split: option.splits)
  show "\<exists>ks. op_list_json_objects (minio_ops cl b) p s = Inr ks \<and> distinct ks \<and>
      set ks = json_under p (bucket_contents objs b s)"
    using minio_list_eq(1) [OF assms, of b p s] minio_list_eq(2) [OF assms, of p b s] by (auto simp: minio_ops_def)
next
  fix p s t
  assume "\<And>k. starts_with p k \<Longrightarrow> bucket_contents objs b s k = bucket_contents objs b t k"
  then have "json_under p (bucket_contents objs b s) = json_under p (bucket_contents objs b t)"
    by (auto simp: json_under_def domIff)
  then show "op_list_json_objects (minio_ops cl b) p s = op_list_json_objects (minio_ops cl b) p t"
    using minio_list_eq(1) [OF assms, of b p] by (simp add: minio_ops_def)
qed

text \<open>A service kept in association lists.\<close>

definition listed_client :: "(string \<times> (string \<times> blob) list) list minio_client" where
  "listed_client = \<lparr>mc_bucket_exists = (\<lambda>c b. map_of c b \<noteq> None),
     mc_make_bucket = (\<lambda>c b. AList.update b [] c),
     mc_put_object = (\<lambda>c b k x. case map_of c b of None \<Rightarrow> c | Some m \<Rightarrow> AList.update b (AList.update k x m) c),
     mc_get_object = (\<lambda>c b k. case map_of c b of None \<Rightarrow> Inl (RuntimeError ''NoSuchBucket'')
       | Some m \<Rightarrow> (case map_of m k of None \<Rightarrow> Inl (RuntimeError ''NoSuchKey'') | Some x \<Rightarrow> Inr x)),
     mc_list_objects = (\<lambda>c b p. case map_of c b of None \<Rightarrow> []
       | Some m \<Rightarrow> filter (starts_with p) (remdups (map fst m)))\<rparr>"

definition listed_objects :: "(string \<times> (string \<times> blob) list) list \<Rightarrow> string \<Rightarrow> (string \<Rightarrow> blob option) option" where
  "listed_objects c b = map_option map_of (map_of c b)"

theorem minio_is_artifact_store_witness:
  "artifact_store (minio_ops listed_client ''valid-consensus-artifacts'')
     (bucket_contents listed_objects ''valid-consensus-artifacts'')"
proof (rule minio_is_artifact_store)
  have 1: "mc_bucket_exists listed_client c b = (listed_objects c b \<noteq> None)" for c b
    by (simp add: listed_client_def listed_objects_def)
  have 2: "listed_objects (mc_make_bucket listed_client c b) = (listed_objects c)(b \<mapsto> Map.empty)" for c b
    by (simp add: listed_client_def listed_objects_def fun_eq_iff)
  have 3: "listed_objects c b = Some m \<Longrightarrow>
      listed_objects (mc_put_object listed_client c b k x) = (listed_objects c)(b \<mapsto> m(k \<mapsto> x))" for c b m k x
    by (auto simp: listed_client_def listed_objects_def update_conv')
  have 4: "mc_get_object listed_client c b k = (case listed_objects c b of None \<Rightarrow> Inl (RuntimeError ''NoSuchBucket'')
      | Some m \<Rightarrow> (case m k of None \<Rightarrow> Inl (RuntimeError ''NoSuchKey'') | Some x \<Rightarrow> Inr x))" for c b k
    by (simp add: listed_client_def listed_objects_def split: option.split)
  have 5: "listed_objects c b = Some m \<Longrightarrow> distinct (mc_list_objects listed_client c b p) \<and>
      set (mc_list_objects listed_client c b p) = {k \<in> dom m. starts_with p k}" for c b m p
  proof -
    assume "listed_objects c b = Some m"
    then obtain z where z: "map_of c b = Some z" "m = map_of z" by (auto simp: listed_objects_def)
    have "dom m = set (map fst z)" by (simp add: z(2) dom_map_of_conv_image_fst)
    then have "{k \<in> dom m. starts_with p k} = {k \<in> set (map fst z). starts_with p k}" by simp
    then show ?thesis by (auto simp: listed_client_def z(1))
  qed
  show "minio_service listed_client listed_objects"
    unfolding minio_service_def using 1 2 3 4 5 by blast
qed

end
