(* ===== verification/ScadaContracts.thy ===== *)
theory ScadaContracts
  imports Engine
begin

text \<open>
  The supervisory side's dataclasses: \<open>contracts/scada_state.py\<close>,
  \<open>contracts/scada_comparison.py\<close>, \<open>contracts/scada_comparison_output.py\<close> and
  \<open>contracts/scada_alert.py\<close>, with their serialized views.
\<close>

section \<open>Logical SCADA state\<close>

record scada_sensor_state =
  ss_value :: flt
  ss_unit :: string
  ss_mode :: string

record behavioral_state =
  bs_loop_current_ma :: "flt option"
  bs_pv_percent_range :: "flt option"
  bs_noise_floor :: "flt option"
  bs_rate_of_change_dtdt :: "flt option"
  bs_local_stability_score :: "flt option"
  bs_field_device_malfunction :: "bool option"
  bs_loop_current_saturated :: "bool option"
  bs_cold_start :: "bool option"
  bs_mode :: string
  bs_source_round_id :: "string option"

record scada_state =
  st_compressor_id :: string
  st_source_round_id :: string
  st_timestamp :: string
  st_sensor_values :: "(string, scada_sensor_state) dict"
  st_behavioral_source_round_id :: "string option"
  st_behavioral_sensor_values :: "(string, behavioral_state) dict option"

definition sensor_state_dict :: "scada_sensor_state \<Rightarrow> pyval" where
  "sensor_state_dict s = PDict [(''value'', PFloat (ss_value s)), (''unit'', PStr (ss_unit s)),
     (''mode'', PStr (ss_mode s))]"

definition behavioral_state_dict :: "behavioral_state \<Rightarrow> pyval" where
  "behavioral_state_dict b = PDict [(''loop_current_ma'', opt_float (bs_loop_current_ma b)),
     (''pv_percent_range'', opt_float (bs_pv_percent_range b)),
     (''noise_floor'', opt_float (bs_noise_floor b)),
     (''rate_of_change_dtdt'', opt_float (bs_rate_of_change_dtdt b)),
     (''local_stability_score'', opt_float (bs_local_stability_score b)),
     (''field_device_malfunction'', opt_bool (bs_field_device_malfunction b)),
     (''loop_current_saturated'', opt_bool (bs_loop_current_saturated b)),
     (''cold_start'', opt_bool (bs_cold_start b)), (''mode'', PStr (bs_mode b)),
     (''source_round_id'', opt_str (bs_source_round_id b))]"

text \<open>\<open>self.behavioral_sensor_values or {}\<close>.\<close>

definition behavioral_or_empty :: "scada_state \<Rightarrow> (string, behavioral_state) dict" where
  "behavioral_or_empty s = (case st_behavioral_sensor_values s of None \<Rightarrow> [] | Some d \<Rightarrow> d)"

definition scada_state_to_dict :: "scada_state \<Rightarrow> pyval" where
  "scada_state_to_dict s = PDict [(''compressor_id'', PStr (st_compressor_id s)),
     (''source_round_id'', PStr (st_source_round_id s)), (''timestamp'', PStr (st_timestamp s)),
     (''behavioral_source_round_id'', opt_str (st_behavioral_source_round_id s)),
     (''sensor_values'', PDict (map (\<lambda>(k, v). (k, sensor_state_dict v)) (sorted_items (st_sensor_values s)))),
     (''behavioral_sensor_values'',
        PDict (map (\<lambda>(k, v). (k, behavioral_state_dict v)) (sorted_items (behavioral_or_empty s))))]"

section \<open>Comparison result\<close>

record sensor_comparison =
  sc_sensor_name :: string
  sc_physical_value :: flt
  sc_scada_value :: flt
  sc_absolute_difference :: flt
  sc_tolerance :: flt
  sc_within_tolerance :: bool
  sc_contextual_evidence :: "pyval option"

record comparison_result =
  cmp_round_identity :: round_identity
  cmp_scada_source_round_id :: string
  sensor_comparisons :: "sensor_comparison list"

definition evidence_entry :: "pyval option \<Rightarrow> (string \<times> pyval) list" where
  "evidence_entry e = (case e of None \<Rightarrow> [] | Some v \<Rightarrow> [(''contextual_evidence'', v)])"

definition sensor_comparison_to_dict :: "sensor_comparison \<Rightarrow> pyval" where
  "sensor_comparison_to_dict c = PDict ([(''sensor_name'', PStr (sc_sensor_name c)),
     (''physical_value'', PFloat (sc_physical_value c)), (''scada_value'', PFloat (sc_scada_value c)),
     (''absolute_difference'', PFloat (sc_absolute_difference c)),
     (''tolerance'', PFloat (sc_tolerance c)), (''within_tolerance'', PBool (sc_within_tolerance c))]
     @ evidence_entry (sc_contextual_evidence c))"

definition all_within_tolerance :: "comparison_result \<Rightarrow> bool" where
  "all_within_tolerance r = (\<forall>c \<in> set (sensor_comparisons r). sc_within_tolerance c)"

definition round_identity_dict :: "round_identity \<Rightarrow> pyval" where
  "round_identity_dict r = PDict [(''round_id'', PStr (round_id r)),
     (''window_started_at'', PStr (isoformat (window_started_at r))),
     (''window_ended_at'', PStr (isoformat (window_ended_at r)))]"

definition comparison_result_to_dict :: "comparison_result \<Rightarrow> pyval" where
  "comparison_result_to_dict r = PDict [(''round_identity'', round_identity_dict (cmp_round_identity r)),
     (''scada_source_round_id'', PStr (cmp_scada_source_round_id r)),
     (''all_within_tolerance'', PBool (all_within_tolerance r)),
     (''sensor_comparisons'', PList (map sensor_comparison_to_dict (sensor_comparisons r)))]"

section \<open>Comparison output\<close>

datatype divergence = MATCH | DIVERGENT

fun divergence_value :: "divergence \<Rightarrow> string" where
  "divergence_value MATCH = ''match''"
| "divergence_value DIVERGENT = ''divergent''"

record sensor_output =
  so_sensor_name :: string
  so_physical_value :: flt
  so_scada_value :: flt
  so_absolute_difference :: flt
  so_tolerance :: flt
  so_tolerance_evaluation :: string
  so_divergence :: divergence
  so_contextual_evidence :: "pyval option"

record comparison_output =
  co_round_identity :: round_identity
  co_scada_source_round_id :: string
  sensor_outputs :: "sensor_output list"

definition sensor_output_to_dict :: "sensor_output \<Rightarrow> pyval" where
  "sensor_output_to_dict o' = PDict ([(''sensor_name'', PStr (so_sensor_name o')),
     (''physical_value'', PFloat (so_physical_value o')), (''scada_value'', PFloat (so_scada_value o')),
     (''absolute_difference'', PFloat (so_absolute_difference o')),
     (''tolerance'', PFloat (so_tolerance o')),
     (''tolerance_evaluation'', PStr (so_tolerance_evaluation o')),
     (''divergence_classification'', PStr (divergence_value (so_divergence o')))]
     @ evidence_entry (so_contextual_evidence o'))"

definition divergent_sensors :: "comparison_output \<Rightarrow> string list" where
  "divergent_sensors o' = map so_sensor_name (filter (\<lambda>s. so_divergence s = DIVERGENT) (sensor_outputs o'))"

definition comparison_output_to_dict :: "comparison_output \<Rightarrow> pyval" where
  "comparison_output_to_dict o' = PDict [(''round_identity'', round_identity_dict (co_round_identity o')),
     (''scada_source_round_id'', PStr (co_scada_source_round_id o')),
     (''divergent_sensors'', PList (map PStr (divergent_sensors o'))),
     (''sensor_outputs'', PList (map sensor_output_to_dict (sensor_outputs o')))]"

section \<open>Alert\<close>

datatype scada_alert_type = SCADA_DIVERGENCE

fun scada_alert_type_value :: "scada_alert_type \<Rightarrow> string" where
  "scada_alert_type_value SCADA_DIVERGENCE = ''scada_divergence''"

record scada_alert =
  sa_alert_type :: scada_alert_type
  sa_round_identity :: round_identity
  sa_scada_source_round_id :: string
  divergent_sensor_outputs :: "sensor_output list"

definition mk_ScadaAlert ::
  "scada_alert_type \<Rightarrow> round_identity \<Rightarrow> string \<Rightarrow> sensor_output list \<Rightarrow> scada_alert res" where
  "mk_ScadaAlert t r src outs =
     (if t = SCADA_DIVERGENCE \<and> outs = []
        then Inl (ValueError ''SCADA_DIVERGENCE alerts require at least one divergent sensor output.'')
      else Inr \<lparr>sa_alert_type = t, sa_round_identity = r, sa_scada_source_round_id = src,
        divergent_sensor_outputs = outs\<rparr>)"

definition scada_alert_to_dict :: "scada_alert \<Rightarrow> pyval" where
  "scada_alert_to_dict a = PDict [(''alert_type'', PStr (scada_alert_type_value (sa_alert_type a))),
     (''round_identity'', round_identity_dict (sa_round_identity a)),
     (''scada_source_round_id'', PStr (sa_scada_source_round_id a)),
     (''divergent_sensor_outputs'', PList (map sensor_output_to_dict (divergent_sensor_outputs a)))]"

end
