(* ===== verification/Comparison.thy ===== *)
theory Comparison
  imports ScadaContracts
begin

text \<open>
  \<open>comparison/service.py\<close> and \<open>comparison/outputs.py\<close>: the sensor-by-sensor
  comparison of the consensused state with the SCADA state, its structured output and the
  divergence alert.
\<close>

section \<open>Comparison\<close>

definition COMPARISON_SENSOR_ORDER :: "string list" where
  "COMPARISON_SENSOR_ORDER = [''temperature'', ''pressure'', ''rpm'']"

record tolerance_profile =
  tol_temperature :: flt
  tol_pressure :: flt
  tol_rpm :: flt

definition default_tolerance_profile :: tolerance_profile where
  "default_tolerance_profile = \<lparr>tol_temperature = 2, tol_pressure = dec 35 2, tol_rpm = 120\<rparr>"

text \<open>\<open>f"{names}"\<close> of a list of sensor names.\<close>

definition list_repr :: "string list \<Rightarrow> string" where
  "list_repr xs = ''['' @ join '', '' (map (\<lambda>s. [CHR 0x27] @ s @ [CHR 0x27]) xs) @ '']''"

definition value_for :: "tolerance_profile \<Rightarrow> string \<Rightarrow> flt res" where
  "value_for p name =
     (if name \<notin> set COMPARISON_SENSOR_ORDER
        then Inl (ValueError (''Unsupported comparison sensor '' @ [CHR 0x27] @ name @ [CHR 0x27]
          @ ''. Expected one of '' @ list_repr COMPARISON_SENSOR_ORDER @ ''.''))
      else Inr (if name = ''temperature'' then tol_temperature p
        else if name = ''pressure'' then tol_pressure p else tol_rpm p))"

definition validate_supported_sensors :: "string list \<Rightarrow> string \<Rightarrow> unit res" where
  "validate_supported_sensors names source = (let missing = filter (\<lambda>n. n \<notin> set names) COMPARISON_SENSOR_ORDER in
     if missing \<noteq> [] then Inl (ValueError (source @ '' is missing supported comparison sensors: ''
       @ list_repr (sort missing))) else Inr ())"

definition compare_sensor ::
  "valid_state \<Rightarrow> scada_state \<Rightarrow> tolerance_profile \<Rightarrow> (string, pyval) dict \<Rightarrow> string \<Rightarrow> sensor_comparison res" where
  "compare_sensor v s p ctx name = attempt (getitem (sensor_values v) name) (\<lambda>x.
     attempt (getitem (st_sensor_values s) name) (\<lambda>y. attempt (value_for p name) (\<lambda>t.
       let physical = py_round 3 x; scada = py_round 3 (ss_value y); tolerance = py_round 3 t;
         difference = py_round 3 \<bar>fsub physical scada\<bar> in
       Inr \<lparr>sc_sensor_name = name, sc_physical_value = physical, sc_scada_value = scada,
         sc_absolute_difference = difference, sc_tolerance = tolerance,
         sc_within_tolerance = (difference \<le> tolerance), sc_contextual_evidence = map_of ctx name\<rparr>)))"

definition compare_consensused_to_scada ::
  "valid_state option \<Rightarrow> scada_state \<Rightarrow> tolerance_profile option \<Rightarrow> (string, pyval) dict option
     \<Rightarrow> comparison_result res" where
  "compare_consensused_to_scada vs s profile context = (case vs of
     None \<Rightarrow> Inl (ComparisonBlockedError (''SCADA comparison requires a consensused valid state and ''
       @ ''remains blocked when consensus did not produce one.''))
   | Some v \<Rightarrow>
     let p = (case profile of None \<Rightarrow> default_tolerance_profile | Some p \<Rightarrow> p);
       ctx = (case context of None \<Rightarrow> [] | Some c \<Rightarrow> c) in
     attempt (validate_supported_sensors (map fst (sensor_values v)) ''ConsensusedValidState'') (\<lambda>_.
     attempt (validate_supported_sensors (map fst (st_sensor_values s)) ''ScadaState'') (\<lambda>_.
     attempt (mapM (compare_sensor v s p ctx) COMPARISON_SENSOR_ORDER) (\<lambda>cs.
       Inr \<lparr>cmp_round_identity = vs_round_identity v, cmp_scada_source_round_id = st_source_round_id s,
         sensor_comparisons = cs\<rparr>))))"

section \<open>Output and alert\<close>

definition sensor_output_of :: "sensor_comparison \<Rightarrow> sensor_output" where
  "sensor_output_of c = \<lparr>so_sensor_name = sc_sensor_name c, so_physical_value = sc_physical_value c,
     so_scada_value = sc_scada_value c, so_absolute_difference = sc_absolute_difference c,
     so_tolerance = sc_tolerance c,
     so_tolerance_evaluation = (if sc_within_tolerance c then ''within_tolerance'' else ''outside_tolerance''),
     so_divergence = (if sc_within_tolerance c then MATCH else DIVERGENT),
     so_contextual_evidence = sc_contextual_evidence c\<rparr>"

definition build_scada_comparison_output :: "comparison_result \<Rightarrow> comparison_output" where
  "build_scada_comparison_output r = \<lparr>co_round_identity = cmp_round_identity r,
     co_scada_source_round_id = cmp_scada_source_round_id r,
     sensor_outputs = map sensor_output_of (sensor_comparisons r)\<rparr>"

definition build_scada_divergence_alert :: "comparison_output \<Rightarrow> scada_alert option res" where
  "build_scada_divergence_alert o' =
     (let outs = filter (\<lambda>s. so_divergence s = DIVERGENT) (sensor_outputs o') in
      if outs = [] then Inr None
      else attempt (mk_ScadaAlert SCADA_DIVERGENCE (co_round_identity o') (co_scada_source_round_id o') outs)
        (\<lambda>a. Inr (Some a)))"

definition format_scada_comparison_output_compact :: "comparison_output \<Rightarrow> string" where
  "format_scada_comparison_output_compact o' =
     round_id (co_round_identity o') @ '': scada_source='' @ co_scada_source_round_id o' @ '' outputs[''
     @ join '', '' (map (\<lambda>s. so_sensor_name s @ ''='' @ divergence_value (so_divergence s)
         @ ''('' @ flt_repr (so_physical_value s) @ ''->'' @ flt_repr (so_scada_value s)
         @ '',diff='' @ flt_repr (so_absolute_difference s) @ '',tol='' @ flt_repr (so_tolerance s) @ '')'')
         (sensor_outputs o')) @ '']''"

definition format_scada_alert_compact :: "scada_alert option \<Rightarrow> string" where
  "format_scada_alert_compact alert = (case alert of None \<Rightarrow> ''none'' | Some a \<Rightarrow>
     round_id (sa_round_identity a) @ '': alert='' @ scada_alert_type_value (sa_alert_type a)
     @ '' divergent['' @ join '', '' (map (\<lambda>s. so_sensor_name s @ '':'' @ divergence_value (so_divergence s))
         (divergent_sensor_outputs a)) @ '']'')"

definition format_scada_alert_detailed :: "scada_alert option \<Rightarrow> string" where
  "format_scada_alert_detailed alert = (case alert of None \<Rightarrow> ''scada_alert=none'' | Some a \<Rightarrow>
     join newline ([''alert_type='' @ scada_alert_type_value (sa_alert_type a),
       ''round='' @ round_id (sa_round_identity a),
       ''scada_source_round='' @ sa_scada_source_round_id a]
       @ map (\<lambda>s. ''sensor='' @ so_sensor_name s @ '' classification='' @ divergence_value (so_divergence s)
           @ '' physical='' @ flt_repr (so_physical_value s) @ '' scada='' @ flt_repr (so_scada_value s)
           @ '' diff='' @ flt_repr (so_absolute_difference s) @ '' tolerance='' @ flt_repr (so_tolerance s))
         (divergent_sensor_outputs a)))"

section \<open>Laws\<close>

lemma validate_ok: "validate_supported_sensors names src = Inr () \<longleftrightarrow> set COMPARISON_SENSOR_ORDER \<subseteq> set names"
  by (auto simp: validate_supported_sensors_def Let_def filter_empty_conv)

lemma value_for_Inr: "name \<in> set COMPARISON_SENSOR_ORDER \<Longrightarrow> \<exists>t. value_for p name = Inr t"
  by (simp add: value_for_def)

lemma so_divergence_of [simp]: "so_divergence (sensor_output_of c) = DIVERGENT \<longleftrightarrow> \<not> sc_within_tolerance c"
  by (simp add: sensor_output_of_def)

lemma divergent_iff: "(\<exists>s \<in> set (sensor_outputs (build_scada_comparison_output r)). so_divergence s = DIVERGENT) \<longleftrightarrow>
    \<not> all_within_tolerance r"
  by (auto simp: build_scada_comparison_output_def sensor_output_of_def all_within_tolerance_def)

lemma getitem_key: "k \<in> set (map fst d) \<Longrightarrow> \<exists>v. getitem d k = Inr v"
  by (cases "map_of d k") (auto simp: map_of_eq_None_iff)

lemma compare_sensor_total:
  assumes "set COMPARISON_SENSOR_ORDER \<subseteq> set (map fst (sensor_values v))"
    "set COMPARISON_SENSOR_ORDER \<subseteq> set (map fst (st_sensor_values s))" "name \<in> set COMPARISON_SENSOR_ORDER"
  shows "\<exists>c. compare_sensor v s p ctx name = Inr c \<and> sc_sensor_name c = name \<and>
    (sc_within_tolerance c \<longleftrightarrow> sc_absolute_difference c \<le> sc_tolerance c)"
proof -
  obtain x where "getitem (sensor_values v) name = Inr x"
    using getitem_key [of name "sensor_values v"] assms(1,3) by blast
  moreover obtain y where "getitem (st_sensor_values s) name = Inr y"
    using getitem_key [of name "st_sensor_values s"] assms(2,3) by blast
  moreover obtain t where "value_for p name = Inr t" using value_for_Inr [OF assms(3)] by blast
  ultimately show ?thesis by (simp add: compare_sensor_def Let_def)
qed

lemma compare_total:
  assumes "set COMPARISON_SENSOR_ORDER \<subseteq> set (map fst (sensor_values v))"
    "set COMPARISON_SENSOR_ORDER \<subseteq> set (map fst (st_sensor_values s))"
  obtains r where "compare_consensused_to_scada (Some v) s profile context = Inr r"
    "map sc_sensor_name (sensor_comparisons r) = COMPARISON_SENSOR_ORDER"
    "\<forall>c \<in> set (sensor_comparisons r). sc_within_tolerance c \<longleftrightarrow> sc_absolute_difference c \<le> sc_tolerance c"
proof -
  let ?p = "case profile of None \<Rightarrow> default_tolerance_profile | Some p \<Rightarrow> p"
  let ?ctx = "case context of None \<Rightarrow> [] | Some c \<Rightarrow> c"
  note total = compare_sensor_total [OF assms, of _ ?p ?ctx]
  obtain cs where cs: "mapM (compare_sensor v s ?p ?ctx) COMPARISON_SENSOR_ORDER = Inr cs"
    using mapM_total [of COMPARISON_SENSOR_ORDER "compare_sensor v s ?p ?ctx"] total by metis
  have "list_all2 (\<lambda>n c. compare_sensor v s ?p ?ctx n = Inr c) ns cs \<Longrightarrow> set ns \<subseteq> set COMPARISON_SENSOR_ORDER \<Longrightarrow>
      map sc_sensor_name cs = ns" for ns cs
  proof (induction rule: list_all2_induct)
    case (Cons n ns c cs)
    then show ?case using total [of n] by auto
  qed simp
  with cs have names: "map sc_sensor_name cs = COMPARISON_SENSOR_ORDER" by (simp add: mapM_eq_Inr)
  define r where "r = \<lparr>cmp_round_identity = vs_round_identity v, cmp_scada_source_round_id = st_source_round_id s, sensor_comparisons = cs\<rparr>"
  have "sc_within_tolerance c \<longleftrightarrow> sc_absolute_difference c \<le> sc_tolerance c" if c: "c \<in> set cs" for c
  proof -
    obtain n where "n \<in> set COMPARISON_SENSOR_ORDER" "compare_sensor v s ?p ?ctx n = Inr c"
      using mapM_set_origin [OF cs c] by blast
    with total [of n] show ?thesis by auto
  qed
  moreover have "compare_consensused_to_scada (Some v) s profile context = Inr r"
    unfolding r_def compare_consensused_to_scada_def option.case Let_def iffD2 [OF validate_ok assms(1)]
      iffD2 [OF validate_ok assms(2)] attempt_Inr cs by simp
  ultimately show ?thesis using names by (intro that [of r]) (simp_all add: r_def)
qed

section \<open>Properties\<close>

text \<open>
  The comparison is total on states that carry the three sensors, and the divergence
  alert is raised exactly when some sensor differs by more than its tolerance; it carries
  exactly the divergent sensors, in order. Without a consensused state it is blocked.
\<close>

theorem comparison_alert_iff:
  assumes "set COMPARISON_SENSOR_ORDER \<subseteq> set (map fst (sensor_values v))"
    "set COMPARISON_SENSOR_ORDER \<subseteq> set (map fst (st_sensor_values s))"
  shows "\<exists>r alert. compare_consensused_to_scada (Some v) s profile context = Inr r \<and>
    map sc_sensor_name (sensor_comparisons r) = COMPARISON_SENSOR_ORDER \<and>
    build_scada_divergence_alert (build_scada_comparison_output r) = Inr alert \<and>
    (alert = None \<longleftrightarrow> (\<forall>c \<in> set (sensor_comparisons r). sc_absolute_difference c \<le> sc_tolerance c)) \<and>
    (\<forall>a. alert = Some a \<longrightarrow> map so_sensor_name (divergent_sensor_outputs a) =
      map sc_sensor_name (filter (\<lambda>c. sc_tolerance c < sc_absolute_difference c) (sensor_comparisons r)))"
proof -
  obtain r where r: "compare_consensused_to_scada (Some v) s profile context = Inr r"
    "map sc_sensor_name (sensor_comparisons r) = COMPARISON_SENSOR_ORDER"
    "\<forall>c \<in> set (sensor_comparisons r). sc_within_tolerance c \<longleftrightarrow> sc_absolute_difference c \<le> sc_tolerance c"
    by (rule compare_total [OF assms, of profile "context"])
  let ?cs = "sensor_comparisons r"
  have outs: "filter (\<lambda>s. so_divergence s = DIVERGENT) (sensor_outputs (build_scada_comparison_output r)) =
      map sensor_output_of (filter (\<lambda>c. sc_tolerance c < sc_absolute_difference c) ?cs)"
  proof -
    have "filter (\<lambda>c. \<not> sc_within_tolerance c) ?cs = filter (\<lambda>c. sc_tolerance c < sc_absolute_difference c) ?cs"
    proof (rule filter_cong [OF refl])
      fix c assume "c \<in> set ?cs"
      with r(3) have "sc_within_tolerance c \<longleftrightarrow> sc_absolute_difference c \<le> sc_tolerance c" by (rule bspec)
      then show "(\<not> sc_within_tolerance c) = (sc_tolerance c < sc_absolute_difference c)" by (simp only: not_le)
    qed
    moreover have "filter (\<lambda>s. so_divergence s = DIVERGENT) (map sensor_output_of ?cs) =
        map sensor_output_of (filter (\<lambda>c. \<not> sc_within_tolerance c) ?cs)"
      by (simp add: filter_map o_def)
    ultimately show ?thesis by (simp add: build_scada_comparison_output_def)
  qed
  have alert: "build_scada_divergence_alert (build_scada_comparison_output r) =
      Inr (if filter (\<lambda>c. sc_tolerance c < sc_absolute_difference c) ?cs = [] then None
        else Some \<lparr>sa_alert_type = SCADA_DIVERGENCE, sa_round_identity = cmp_round_identity r,
          sa_scada_source_round_id = cmp_scada_source_round_id r,
          divergent_sensor_outputs = map sensor_output_of (filter (\<lambda>c. sc_tolerance c < sc_absolute_difference c) ?cs)\<rparr>)"
    unfolding build_scada_divergence_alert_def Let_def outs
    by (simp add: mk_ScadaAlert_def build_scada_comparison_output_def)
  show ?thesis
    by (intro exI conjI, rule r(1), rule r(2), rule alert)
      (auto simp: filter_empty_conv not_less sensor_output_of_def o_def)
qed

definition sample_valid_state :: "flt \<times> flt \<times> flt \<Rightarrow> valid_state" where
  "sample_valid_state v = \<lparr>vs_round_identity = sample_identity, source_edges = sample_edges,
     sensor_values = [(''temperature'', fst v), (''pressure'', fst (snd v)), (''rpm'', snd (snd v))]\<rparr>"

definition sample_scada_state :: "flt \<times> flt \<times> flt \<Rightarrow> scada_state" where
  "sample_scada_state v = \<lparr>st_compressor_id = ''compressor-1'', st_source_round_id = ''round-1'',
     st_timestamp = ''2026-01-01T00:00:00+00:00'',
     st_sensor_values = [(''temperature'', \<lparr>ss_value = fst v, ss_unit = ''degC'', ss_mode = ''match''\<rparr>),
       (''pressure'', \<lparr>ss_value = fst (snd v), ss_unit = ''bar'', ss_mode = ''match''\<rparr>),
       (''rpm'', \<lparr>ss_value = snd (snd v), ss_unit = ''rpm'', ss_mode = ''match''\<rparr>)],
     st_behavioral_source_round_id = None, st_behavioral_sensor_values = None\<rparr>"

theorem comparison_alert_iff_witness:
  "\<exists>r alert. compare_consensused_to_scada (Some (sample_valid_state (60, 3, 1500))) (sample_scada_state (60, 3, 1500)) None None = Inr r
     \<and> build_scada_divergence_alert (build_scada_comparison_output r) = Inr alert"
  using comparison_alert_iff [of "sample_valid_state (60, 3, 1500)" "sample_scada_state (60, 3, 1500)" None None]
  by (auto simp: sample_valid_state_def sample_scada_state_def COMPARISON_SENSOR_ORDER_def)

lemma context_neutral:
  assumes "compare_consensused_to_scada vs s profile context = Inr r"
  shows "\<exists>r0. compare_consensused_to_scada vs s profile None = Inr r0 \<and>
    map (\<lambda>c. c\<lparr>sc_contextual_evidence := None\<rparr>) (sensor_comparisons r) = sensor_comparisons r0 \<and>
    all_within_tolerance r = all_within_tolerance r0"
proof -
  let ?p = "case profile of None \<Rightarrow> default_tolerance_profile | Some p \<Rightarrow> p"
  let ?strip = "\<lambda>c. c\<lparr>sc_contextual_evidence := None\<rparr>"
  from assms obtain v where v: "vs = Some v" by (cases vs) (simp_all add: compare_consensused_to_scada_def)
  obtain ctx cs where cs: "validate_supported_sensors (map fst (sensor_values v)) ''ConsensusedValidState'' = Inr ()"
    "validate_supported_sensors (map fst (st_sensor_values s)) ''ScadaState'' = Inr ()"
    "mapM (compare_sensor v s ?p ctx) COMPARISON_SENSOR_ORDER = Inr cs" "sensor_comparisons r = cs"
    using assms by (auto simp: compare_consensused_to_scada_def v Let_def attempt_eq_Inr)
  have "compare_sensor v s ?p [] n = Inr (?strip c)" if "compare_sensor v s ?p ctx n = Inr c" for n c
    using that by (auto simp: compare_sensor_def Let_def attempt_eq_Inr)
  with cs(3) have strip: "mapM (compare_sensor v s ?p []) COMPARISON_SENSOR_ORDER = Inr (map ?strip cs)"
    unfolding mapM_eq_Inr list.rel_map by (rule list_all2_mono)
  have "compare_consensused_to_scada vs s profile None = Inr \<lparr>cmp_round_identity = vs_round_identity v,
      cmp_scada_source_round_id = st_source_round_id s, sensor_comparisons = map ?strip cs\<rparr>"
    by (simp add: compare_consensused_to_scada_def v cs(1,2) strip)
  with cs(4) show ?thesis by (simp add: all_within_tolerance_def)
qed

text \<open>
  Contextual evidence is attached but never decides: with and without it the same
  comparisons come out, apart from the attachment.
\<close>

theorem context_is_neutral:
  assumes "compare_consensused_to_scada vs s profile context = Inr r"
  shows "\<exists>r0. compare_consensused_to_scada vs s profile None = Inr r0 \<and>
    map (\<lambda>c. c\<lparr>sc_contextual_evidence := None\<rparr>) (sensor_comparisons r) = sensor_comparisons r0 \<and>
    all_within_tolerance r = all_within_tolerance r0"
  using assms by (rule context_neutral)

theorem context_is_neutral_witness:
  "\<exists>r r0. compare_consensused_to_scada (Some (sample_valid_state (60, 3, 1500))) (sample_scada_state (60, 3, 1500)) None
       (Some [(''rpm'', PStr ''note'')]) = Inr r \<and>
     compare_consensused_to_scada (Some (sample_valid_state (60, 3, 1500))) (sample_scada_state (60, 3, 1500)) None None = Inr r0 \<and>
     all_within_tolerance r = all_within_tolerance r0"
proof -
  obtain r where r: "compare_consensused_to_scada (Some (sample_valid_state (60, 3, 1500))) (sample_scada_state (60, 3, 1500)) None
       (Some [(''rpm'', PStr ''note'')]) = Inr r"
    by (rule compare_total [of "sample_valid_state (60, 3, 1500)" "sample_scada_state (60, 3, 1500)"])
      (auto simp: sample_valid_state_def sample_scada_state_def COMPARISON_SENSOR_ORDER_def)
  from context_is_neutral [OF this] r show ?thesis by blast
qed

end
