(* ===== verification/ScadaService.thy ===== *)
theory ScadaService
  imports Comparison
begin

text \<open>
  \<open>scada/opcua_service.py\<close>: the logical supervisory service. Its fields are the record
  \<open>scada_service\<close>; operations return it updated. The OPC UA server of \<open>asyncua\<close> is
  outside the repository: its node store is a type \<open>'n\<close> with the functions the service
  calls (\<open>add_variable\<close>, \<open>write_value\<close>, \<open>read_value\<close>) as arguments.
\<close>

section \<open>State and overrides\<close>

definition SUPPORTED_SCADA_SENSORS :: "string list" where
  "SUPPORTED_SCADA_SENSORS = [''temperature'', ''pressure'', ''rpm'']"

definition SCADA_SENSOR_UNITS :: "(string, string) dict" where
  "SCADA_SENSOR_UNITS = [(''temperature'', ''degC''), (''pressure'', ''bar''), (''rpm'', ''rpm'')]"

definition SUPPORTED_OVERRIDE_MODES :: "string list" where
  "SUPPORTED_OVERRIDE_MODES = [''match'', ''offset'', ''freeze'', ''replay'']"

record sensor_override =
  ov_mode :: string
  ov_offset :: flt
  ov_fixed_value :: "flt option"
  ov_replay_round_id :: "string option"

definition default_override :: sensor_override where
  "default_override = \<lparr>ov_mode = ''match'', ov_offset = 0, ov_fixed_value = None, ov_replay_round_id = None\<rparr>"

record scada_service =
  sv_compressor_id :: string
  sv_current_state :: "scada_state option"
  sv_history :: "scada_state list"
  sv_frozen_values :: "(string, flt) dict"
  sv_overrides :: "(string, sensor_override) dict"

definition init_service :: "string \<Rightarrow> scada_service" where
  "init_service compressor = \<lparr>sv_compressor_id = compressor, sv_current_state = None, sv_history = [],
     sv_frozen_values = [], sv_overrides = map (\<lambda>s. (s, default_override)) SUPPORTED_SCADA_SENSORS\<rparr>"

definition validate_sensor_name :: "string \<Rightarrow> unit res" where
  "validate_sensor_name name = (if name \<notin> set SUPPORTED_SCADA_SENSORS
     then Inl (ValueError (''Unsupported SCADA sensor '' @ [CHR 0x27] @ name @ [CHR 0x27]
       @ ''. Expected one of '' @ list_repr SUPPORTED_SCADA_SENSORS @ ''.''))
     else Inr ())"

definition set_sensor_override ::
  "string \<Rightarrow> string \<Rightarrow> flt \<Rightarrow> flt option \<Rightarrow> string option \<Rightarrow> scada_service \<Rightarrow> scada_service res" where
  "set_sensor_override name mode offset fixed replay sv = attempt (validate_sensor_name name) (\<lambda>_.
     if mode \<notin> set SUPPORTED_OVERRIDE_MODES
     then Inl (ValueError (''Unsupported SCADA override mode '' @ [CHR 0x27] @ mode @ [CHR 0x27]
       @ ''. Expected one of '' @ list_repr (sort SUPPORTED_OVERRIDE_MODES) @ ''.''))
     else let ov = \<lparr>ov_mode = mode, ov_offset = offset, ov_fixed_value = map_option (py_round 3) fixed,
         ov_replay_round_id = replay\<rparr> in
       Inr (sv\<lparr>sv_overrides := AList.update name ov (sv_overrides sv),
         sv_frozen_values := (if mode \<noteq> ''freeze'' then dpop name (sv_frozen_values sv)
           else case ov_fixed_value ov of None \<Rightarrow> sv_frozen_values sv
             | Some f \<Rightarrow> AList.update name f (sv_frozen_values sv))\<rparr>))"

definition clear_sensor_override :: "string \<Rightarrow> scada_service \<Rightarrow> scada_service res" where
  "clear_sensor_override name sv = attempt (validate_sensor_name name) (\<lambda>_.
     Inr (sv\<lparr>sv_overrides := AList.update name default_override (sv_overrides sv),
       sv_frozen_values := dpop name (sv_frozen_values sv)\<rparr>))"

definition clear_overrides :: "scada_service \<Rightarrow> scada_service" where
  "clear_overrides sv = sv\<lparr>sv_overrides :=
       foldl (\<lambda>d s. AList.update s default_override d) (sv_overrides sv) SUPPORTED_SCADA_SENSORS,
     sv_frozen_values := []\<rparr>"

section \<open>Projection\<close>

definition apply_supervisory_override ::
  "string \<Rightarrow> flt \<Rightarrow> sensor_override \<Rightarrow> (string, flt) dict \<Rightarrow> (flt \<times> (string, flt) dict) res" where
  "apply_supervisory_override name base ov frozen =
     (if ov_mode ov = ''match'' then Inr (base, frozen)
      else if ov_mode ov = ''offset'' then Inr (py_round 3 (fadd base (ov_offset ov)), frozen)
      else if ov_mode ov = ''freeze'' then (case map_of frozen name of
        Some v \<Rightarrow> Inr (v, frozen)
      | None \<Rightarrow> let f = py_round 3 (case ov_fixed_value ov of None \<Rightarrow> base | Some v \<Rightarrow> v) in
          Inr (f, AList.update name f frozen))
      else if ov_mode ov = ''replay'' then Inr (base, frozen)
      else Inl (ValueError (''Unexpected SCADA override mode: '' @ ov_mode ov)))"

definition behavioral_state_from_payload :: "raw_hart_payload \<Rightarrow> string \<Rightarrow> behavioral_state" where
  "behavioral_state_from_payload p r = \<lparr>
     bs_loop_current_ma = Some (py_round 3 (pd_loop_current_ma (hp_process_data p))),
     bs_pv_percent_range = Some (py_round 3 (pd_pv_percent_range (hp_process_data p))),
     bs_noise_floor = Some (py_round 6 (pm_noise_floor (pd_physics_metrics (hp_process_data p)))),
     bs_rate_of_change_dtdt = Some (py_round 6 (pm_rate_of_change_dtdt (pd_physics_metrics (hp_process_data p)))),
     bs_local_stability_score = Some (py_round 6 (pm_local_stability_score (pd_physics_metrics (hp_process_data p)))),
     bs_field_device_malfunction = Some (dg_field_device_malfunction (hp_diagnostics p)),
     bs_loop_current_saturated = Some (dg_loop_current_saturated (hp_diagnostics p)),
     bs_cold_start = Some (dg_cold_start (hp_diagnostics p)),
     bs_mode = ''match'', bs_source_round_id = Some r\<rparr>"

definition build_behavioral_sensor_values ::
  "valid_state \<Rightarrow> replicated_state option \<Rightarrow> (string, behavioral_state) dict res" where
  "build_behavioral_sensor_values v src = (case src of None \<Rightarrow> Inr [] | Some s \<Rightarrow>
     let missing = filter (\<lambda>n. n \<notin> set (map fst (observations_by_sensor s))) SUPPORTED_SCADA_SENSORS in
     if missing \<noteq> [] then Inl (ValueError (''SCADA projection is missing source replicated payloads for: ''
       @ list_repr (sort missing)))
     else mapM (\<lambda>n. attempt (getitem (observations_by_sensor s) n) (\<lambda>p.
       Inr (n, behavioral_state_from_payload p (round_id (vs_round_identity v))))) SUPPORTED_SCADA_SENSORS)"

text \<open>The first history entry of the round that has a behavioral state of the sensor.\<close>

fun find_replay :: "string \<Rightarrow> string \<Rightarrow> scada_state list \<Rightarrow> behavioral_state option" where
  "find_replay name r [] = None"
| "find_replay name r (s # ss) =
     (if st_source_round_id s \<noteq> r then find_replay name r ss
      else case map_of (behavioral_or_empty s) name of Some b \<Rightarrow> Some b | None \<Rightarrow> find_replay name r ss)"

definition resolve_historical_behavioral_state ::
  "string \<Rightarrow> string option \<Rightarrow> scada_state list \<Rightarrow> behavioral_state option" where
  "resolve_historical_behavioral_state name replay history =
     (if history = [] then None
      else case replay of Some r \<Rightarrow> find_replay name r history
        | None \<Rightarrow> map_of (behavioral_or_empty (last history)) name)"

definition apply_behavioral_override ::
  "string \<Rightarrow> behavioral_state \<Rightarrow> sensor_override \<Rightarrow> scada_state list \<Rightarrow> behavioral_state res" where
  "apply_behavioral_override name current ov history =
     (let past = (case resolve_historical_behavioral_state name (ov_replay_round_id ov) history of
        None \<Rightarrow> current | Some b \<Rightarrow> b) in
      if ov_mode ov \<in> {''match'', ''offset''} then Inr (current\<lparr>bs_mode := ov_mode ov\<rparr>)
      else if ov_mode ov = ''freeze'' then Inr (past\<lparr>bs_mode := ''freeze''\<rparr>)
      else if ov_mode ov = ''replay'' then Inr (past\<lparr>bs_mode := ''replay''\<rparr>)
      else Inl (ValueError (''Unexpected SCADA override mode: '' @ ov_mode ov)))"

definition behavioral_source_round_id :: "(string, behavioral_state) dict \<Rightarrow> string option" where
  "behavioral_source_round_id d = (let bs = map snd (sorted_items d);
     has = (\<lambda>b. bs_source_round_id b \<noteq> None \<and> bs_source_round_id b \<noteq> Some []) in
     case find (\<lambda>b. bs_mode b \<in> {''replay'', ''freeze''} \<and> has b) bs of
       Some b \<Rightarrow> bs_source_round_id b
     | None \<Rightarrow> (case find has bs of Some b \<Rightarrow> bs_source_round_id b | None \<Rightarrow> None))"

text \<open>
  The loop of \<open>project_state\<close>: the supervisory values so far, the frozen values and the
  behavioral states.
\<close>

fun project_sensors ::
  "valid_state \<Rightarrow> scada_service \<Rightarrow> string list
     \<Rightarrow> (string, scada_sensor_state) dict \<times> (string, flt) dict \<times> (string, behavioral_state) dict
     \<Rightarrow> ((string, scada_sensor_state) dict \<times> (string, flt) dict \<times> (string, behavioral_state) dict) res" where
  "project_sensors v sv [] acc = Inr acc"
| "project_sensors v sv (name # names) (vals, frozen, beh) =
     attempt (getitem (sensor_values v) name) (\<lambda>x.
     attempt (getitem (sv_overrides sv) name) (\<lambda>ov.
     attempt (apply_supervisory_override name (py_round 3 x) ov frozen) (\<lambda>(y, frozen').
     attempt (getitem SCADA_SENSOR_UNITS name) (\<lambda>unit.
     attempt (case map_of beh name of None \<Rightarrow> Inr beh
         | Some b \<Rightarrow> attempt (apply_behavioral_override name b ov (sv_history sv)) (\<lambda>b'. Inr (AList.update name b' beh)))
       (\<lambda>beh'. project_sensors v sv names
         (AList.update name \<lparr>ss_value = y, ss_unit = unit, ss_mode = ov_mode ov\<rparr> vals, frozen', beh'))))))"

definition project_state ::
  "valid_state \<Rightarrow> replicated_state option \<Rightarrow> scada_service \<Rightarrow> (scada_state \<times> scada_service) res" where
  "project_state v src sv =
     (let missing = filter (\<lambda>n. n \<notin> set (map fst (sensor_values v))) SUPPORTED_SCADA_SENSORS in
      if missing \<noteq> [] then Inl (ValueError (''ConsensusedValidState is missing SCADA sensor values for: ''
        @ list_repr (sort missing)))
      else attempt (build_behavioral_sensor_values v src) (\<lambda>beh.
        attempt (project_sensors v sv SUPPORTED_SCADA_SENSORS ([], sv_frozen_values sv, beh)) (\<lambda>(vals, frozen, beh').
          Inr (\<lparr>st_compressor_id = sv_compressor_id sv, st_source_round_id = round_id (vs_round_identity v),
              st_timestamp = isoformat (window_ended_at (vs_round_identity v)), st_sensor_values = vals,
              st_behavioral_source_round_id = behavioral_source_round_id beh',
              st_behavioral_sensor_values = (if beh' = [] then None else Some beh')\<rparr>,
            sv\<lparr>sv_frozen_values := frozen\<rparr>))))"

definition update_from_consensused_state ::
  "valid_state \<Rightarrow> replicated_state option \<Rightarrow> scada_service \<Rightarrow> (scada_state \<times> scada_service) res" where
  "update_from_consensused_state v src sv = attempt (project_state v src sv) (\<lambda>(st, sv').
     Inr (st, sv'\<lparr>sv_current_state := Some st, sv_history := sv_history sv' @ [st]\<rparr>))"

section \<open>The server\<close>

definition write_state_to_server :: "('n \<Rightarrow> string \<Rightarrow> flt \<Rightarrow> 'n) \<Rightarrow> scada_state \<Rightarrow> 'n \<Rightarrow> 'n" where
  "write_state_to_server write_value st n =
     foldl (\<lambda>n e. write_value n (fst e) (ss_value (snd e))) n (st_sensor_values st)"

definition start_server ::
  "bool \<Rightarrow> ('n \<Rightarrow> string \<Rightarrow> flt \<Rightarrow> 'n) \<Rightarrow> ('n \<Rightarrow> string \<Rightarrow> flt \<Rightarrow> 'n) \<Rightarrow> 'n \<Rightarrow> scada_service \<Rightarrow> 'n option \<Rightarrow> 'n option res" where
  "start_server has_asyncua add_variable write_value blank sv server = (case server of
     Some n \<Rightarrow> Inr (Some n)
   | None \<Rightarrow> if \<not> has_asyncua
       then Inl (RuntimeError (''Fake OPC UA SCADA service requires the '' @ [CHR 0x27] @ ''asyncua'' @ [CHR 0x27] @ '' package. ''
         @ ''Install project dependencies before starting Story 3.1 runtime tests.''))
       else let n = foldl (\<lambda>n s. add_variable n s 0) blank SUPPORTED_SCADA_SENSORS in
         Inr (Some (case sv_current_state sv of None \<Rightarrow> n | Some st \<Rightarrow> write_state_to_server write_value st n)))"

definition stop_server :: "'n option \<Rightarrow> 'n option" where
  "stop_server server = None"

definition publish_consensused_state ::
  "('n \<Rightarrow> string \<Rightarrow> flt \<Rightarrow> 'n) \<Rightarrow> valid_state \<Rightarrow> replicated_state option \<Rightarrow> scada_service \<times> 'n option
     \<Rightarrow> (scada_state \<times> scada_service \<times> 'n option) res" where
  "publish_consensused_state write_value v src s =
     attempt (update_from_consensused_state v src (fst s)) (\<lambda>(st, sv').
       Inr (st, sv', map_option (write_state_to_server write_value st) (snd s)))"

definition read_live_values :: "('n \<Rightarrow> string \<Rightarrow> flt) \<Rightarrow> 'n option \<Rightarrow> (string, flt) dict res" where
  "read_live_values read_value server = (case server of
     None \<Rightarrow> Inl (RuntimeError ''OPC UA server must be running before reading live values.'')
   | Some n \<Rightarrow> Inr (map (\<lambda>s. (s, read_value n s)) SUPPORTED_SCADA_SENSORS))"

section \<open>Invariant\<close>

text \<open>Every supported sensor has an override of a supported mode.\<close>

definition service_inv :: "scada_service \<Rightarrow> bool" where
  "service_inv sv = (\<forall>name \<in> set SUPPORTED_SCADA_SENSORS. \<exists>ov. map_of (sv_overrides sv) name = Some ov \<and>
     ov_mode ov \<in> set SUPPORTED_OVERRIDE_MODES)"

lemma default_override_mode [simp]: "ov_mode default_override = ''match''"
  by (simp add: default_override_def)

lemma match_supported: "''match'' \<in> set SUPPORTED_OVERRIDE_MODES"
  by (simp add: SUPPORTED_OVERRIDE_MODES_def)

lemma init_service_inv: "service_inv (init_service c)"
  by (simp add: service_inv_def init_service_def SUPPORTED_SCADA_SENSORS_def SUPPORTED_OVERRIDE_MODES_def)

lemma set_sensor_override_inv:
  assumes "service_inv sv" "set_sensor_override name mode off fixed replay sv = Inr sv'"
  shows "service_inv sv'"
  using assms by (auto simp: set_sensor_override_def service_inv_def attempt_eq_Inr Let_def split: if_splits)

lemma clear_sensor_override_inv:
  "service_inv sv \<Longrightarrow> clear_sensor_override name sv = Inr sv' \<Longrightarrow> service_inv sv'"
  using match_supported by (auto simp: clear_sensor_override_def service_inv_def attempt_eq_Inr)

lemma clear_overrides_map:
  "name \<in> set SUPPORTED_SCADA_SENSORS \<Longrightarrow> map_of (sv_overrides (clear_overrides sv)) name = Some default_override"
  by (auto simp: clear_overrides_def SUPPORTED_SCADA_SENSORS_def)

lemma clear_overrides_inv: "service_inv (clear_overrides sv)"
  by (auto simp: service_inv_def clear_overrides_map match_supported)

lemma project_state_service:
  assumes "project_state v src sv = Inr (st, sv')"
  shows "sv_overrides sv' = sv_overrides sv" "sv_history sv' = sv_history sv"
    "sv_current_state sv' = sv_current_state sv" "sv_compressor_id sv' = sv_compressor_id sv"
    "st_source_round_id st = round_id (vs_round_identity v)"
  using assms by (auto simp: project_state_def Let_def attempt_eq_Inr split: if_splits)

lemma update_inv: "service_inv sv \<Longrightarrow> update_from_consensused_state v src sv = Inr (st, sv') \<Longrightarrow> service_inv sv'"
  by (auto simp: update_from_consensused_state_def attempt_eq_Inr service_inv_def dest: project_state_service)

section \<open>What a projection returns\<close>

definition supervisory_value :: "(string, flt) dict \<Rightarrow> string \<Rightarrow> flt \<Rightarrow> sensor_override \<Rightarrow> flt" where
  "supervisory_value frozen name base ov =
     (if ov_mode ov = ''offset'' then py_round 3 (fadd base (ov_offset ov))
      else if ov_mode ov = ''freeze'' then (case map_of frozen name of Some v \<Rightarrow> v
        | None \<Rightarrow> py_round 3 (case ov_fixed_value ov of None \<Rightarrow> base | Some v \<Rightarrow> v))
      else base)"

lemma supervisory_override_spec:
  assumes "ov_mode ov \<in> set SUPPORTED_OVERRIDE_MODES"
  shows "\<exists>frozen'. apply_supervisory_override name base ov frozen =
      Inr (supervisory_value frozen name base ov, frozen') \<and>
    map_of frozen' = (if ov_mode ov = ''freeze'' then (map_of frozen)(name \<mapsto> supervisory_value frozen name base ov)
       else map_of frozen)"
  using assms by (auto simp: SUPPORTED_OVERRIDE_MODES_def apply_supervisory_override_def supervisory_value_def
      Let_def fun_eq_iff split: option.split)

definition behavioral_projection ::
  "string \<Rightarrow> behavioral_state \<Rightarrow> sensor_override \<Rightarrow> scada_state list \<Rightarrow> behavioral_state" where
  "behavioral_projection name current ov history =
     (if ov_mode ov \<in> {''match'', ''offset''} then current
      else case resolve_historical_behavioral_state name (ov_replay_round_id ov) history of
        None \<Rightarrow> current | Some b \<Rightarrow> b)\<lparr>bs_mode := ov_mode ov\<rparr>"

lemma behavioral_override_spec:
  assumes "ov_mode ov \<in> set SUPPORTED_OVERRIDE_MODES"
  shows "apply_behavioral_override name b ov history = Inr (behavioral_projection name b ov history)"
  using assms by (auto simp: apply_behavioral_override_def behavioral_projection_def Let_def SUPPORTED_OVERRIDE_MODES_def)

definition projected ::
  "valid_state \<Rightarrow> scada_service \<Rightarrow> (string, flt) dict \<Rightarrow> string \<Rightarrow> scada_sensor_state option \<Rightarrow> bool" where
  "projected v sv frozen name s = (\<exists>x ov unit. map_of (sensor_values v) name = Some x \<and>
     map_of (sv_overrides sv) name = Some ov \<and> map_of SCADA_SENSOR_UNITS name = Some unit \<and>
     s = Some \<lparr>ss_value = supervisory_value frozen name (py_round 3 x) ov, ss_unit = unit, ss_mode = ov_mode ov\<rparr>)"

lemma projected_cong:
  "map_of frozen n = map_of frozen' n \<Longrightarrow> projected v sv frozen n s = projected v sv frozen' n s"
  by (simp add: projected_def supervisory_value_def)

lemma units_total: "name \<in> set SUPPORTED_SCADA_SENSORS \<Longrightarrow> \<exists>u. map_of SCADA_SENSOR_UNITS name = Some u"
  by (auto simp: SUPPORTED_SCADA_SENSORS_def SCADA_SENSOR_UNITS_def)

lemma project_sensors_spec:
  assumes "service_inv sv" "distinct names" "set names \<subseteq> set SUPPORTED_SCADA_SENSORS"
    "set names \<subseteq> set (map fst (sensor_values v))"
  shows "\<exists>vals' frozen' beh'. project_sensors v sv names (vals, frozen, beh) = Inr (vals', frozen', beh') \<and>
    (\<forall>n \<in> set names. projected v sv frozen n (map_of vals' n) \<and>
       map_of beh' n = map_option (\<lambda>b. behavioral_projection n b (the (map_of (sv_overrides sv) n)) (sv_history sv)) (map_of beh n)) \<and>
    (\<forall>n. n \<notin> set names \<longrightarrow> map_of vals' n = map_of vals n \<and> map_of frozen' n = map_of frozen n \<and> map_of beh' n = map_of beh n)"
  using assms(2-4)
proof (induction names arbitrary: vals frozen beh)
  case (Cons name names)
  from Cons.prems have name: "name \<in> set SUPPORTED_SCADA_SENSORS" "name \<notin> set names"
    and rest: "distinct names" "set names \<subseteq> set SUPPORTED_SCADA_SENSORS" "set names \<subseteq> set (map fst (sensor_values v))"
    by auto
  obtain x where x: "getitem (sensor_values v) name = Inr x"
    using getitem_key [of name "sensor_values v"] Cons.prems(3) by auto
  obtain ov where ov: "map_of (sv_overrides sv) name = Some ov" "ov_mode ov \<in> set SUPPORTED_OVERRIDE_MODES"
    using assms(1) name(1) by (auto simp: service_inv_def)
  obtain unit where unit: "map_of SCADA_SENSOR_UNITS name = Some unit" using units_total [OF name(1)] ..
  obtain frozen1 where f: "apply_supervisory_override name (py_round 3 x) ov frozen =
      Inr (supervisory_value frozen name (py_round 3 x) ov, frozen1)"
    "map_of frozen1 = (if ov_mode ov = ''freeze'' then
       (map_of frozen)(name \<mapsto> supervisory_value frozen name (py_round 3 x) ov) else map_of frozen)"
    using supervisory_override_spec [OF ov(2)] by blast
  define beh1 where "beh1 = (case map_of beh name of None \<Rightarrow> beh
    | Some b \<Rightarrow> AList.update name (behavioral_projection name b ov (sv_history sv)) beh)"
  have b: "(case map_of beh name of None \<Rightarrow> Inr beh
      | Some b \<Rightarrow> attempt (apply_behavioral_override name b ov (sv_history sv)) (\<lambda>b'. Inr (AList.update name b' beh))) = Inr beh1"
    by (simp add: beh1_def behavioral_override_spec [OF ov(2)] split: option.split)
  let ?s = "\<lparr>ss_value = supervisory_value frozen name (py_round 3 x) ov, ss_unit = unit, ss_mode = ov_mode ov\<rparr>"
  obtain vals' frozen' beh' where r:
    "project_sensors v sv names (AList.update name ?s vals, frozen1, beh1) = Inr (vals', frozen', beh')"
    "\<And>n. n \<in> set names \<Longrightarrow> projected v sv frozen1 n (map_of vals' n) \<and>
       map_of beh' n = map_option (\<lambda>b. behavioral_projection n b (the (map_of (sv_overrides sv) n)) (sv_history sv)) (map_of beh1 n)"
    "\<And>n. n \<notin> set names \<Longrightarrow> map_of vals' n = map_of (AList.update name ?s vals) n \<and>
       map_of frozen' n = map_of frozen1 n \<and> map_of beh' n = map_of beh1 n"
    using Cons.IH [OF rest, of "AList.update name ?s vals" frozen1 beh1] by blast
  have other: "map_of frozen1 n = map_of frozen n" "map_of beh1 n = map_of beh n" if "n \<noteq> name" for n
    using that f(2) by (simp_all add: beh1_def split: option.split)
  have "projected v sv frozen n (map_of vals' n) \<and> map_of beh' n =
      map_option (\<lambda>b. behavioral_projection n b (the (map_of (sv_overrides sv) n)) (sv_history sv)) (map_of beh n)"
    if "n \<in> set (name # names)" for n
  proof (cases "n = name")
    case True
    have "projected v sv frozen n (map_of vals' n)"
      using True x ov(1) unit r(3) [OF name(2)] by (auto simp: projected_def getitem_Inr)
    with True r(3) [OF name(2)] ov(1) show ?thesis by (simp add: beh1_def split: option.split)
  next
    case False
    with that have "n \<in> set names" by simp
    from r(2) [OF this] show ?thesis by (simp only: other [OF False] projected_cong [OF other(1) [OF False]])
  qed
  moreover have "map_of vals' n = map_of vals n \<and> map_of frozen' n = map_of frozen n \<and> map_of beh' n = map_of beh n"
    if "n \<notin> set (name # names)" for n
    using that r(3) [of n] other [of n] by simp
  moreover have "project_sensors v sv (name # names) (vals, frozen, beh) = Inr (vals', frozen', beh')"
    by (simp add: x ov(1) f(1) unit b r(1))
  ultimately show ?case by blast
qed simp

definition scada_ready :: "valid_state \<Rightarrow> replicated_state option \<Rightarrow> scada_service \<Rightarrow> bool" where
  "scada_ready v src sv = (service_inv sv \<and> set SUPPORTED_SCADA_SENSORS \<subseteq> set (map fst (sensor_values v)) \<and>
     (case src of None \<Rightarrow> True | Some s \<Rightarrow> observes_all s))"

lemma behavioral_total:
  assumes "case src of None \<Rightarrow> True | Some s \<Rightarrow> observes_all s"
  shows "\<exists>beh. build_behavioral_sensor_values v src = Inr beh \<and>
    (\<forall>n. map_of beh n = (case src of None \<Rightarrow> None | Some s \<Rightarrow> if n \<in> set SUPPORTED_SCADA_SENSORS
       then map_option (\<lambda>p. behavioral_state_from_payload p (round_id (vs_round_identity v))) (map_of (observations_by_sensor s) n)
       else None))"
proof (cases src)
  case (Some s)
  have eq: "set SUPPORTED_SCADA_SENSORS = fst ` set SENSOR_SCALES"
    by (auto simp: SUPPORTED_SCADA_SENSORS_def SENSOR_SCALES_def)
  let ?f = "\<lambda>n. behavioral_state_from_payload (the (map_of (observations_by_sensor s) n)) (round_id (vs_round_identity v))"
  have obs: "\<exists>p. map_of (observations_by_sensor s) n = Some p" if "n \<in> set SUPPORTED_SCADA_SENSORS" for n
    using assms that Some by (auto simp: observes_all_def eq)
  have "filter (\<lambda>n. n \<notin> set (map fst (observations_by_sensor s))) SUPPORTED_SCADA_SENSORS = []"
    unfolding filter_empty_conv
  proof (intro ballI notI)
    fix n assume n: "n \<in> set SUPPORTED_SCADA_SENSORS" "n \<notin> set (map fst (observations_by_sensor s))"
    from n(2) have "map_of (observations_by_sensor s) n = None" by (simp add: map_of_eq_None_iff)
    with obs [OF n(1)] show False by simp
  qed
  moreover have "mapM (\<lambda>n. attempt (getitem (observations_by_sensor s) n) (\<lambda>p.
       Inr (n, behavioral_state_from_payload p (round_id (vs_round_identity v))))) SUPPORTED_SCADA_SENSORS =
     Inr (map (\<lambda>n. (n, ?f n)) SUPPORTED_SCADA_SENSORS)"
    using obs by (intro mapM_Inr) fastforce
  ultimately have "build_behavioral_sensor_values v src = Inr (map (\<lambda>n. (n, ?f n)) SUPPORTED_SCADA_SENSORS)"
    by (simp only: build_behavioral_sensor_values_def Some option.case Let_def if_False simp_thms)
  moreover have "map_of (map (\<lambda>n. (n, ?f n)) SUPPORTED_SCADA_SENSORS) n = (if n \<in> set SUPPORTED_SCADA_SENSORS
      then map_option (\<lambda>p. behavioral_state_from_payload p (round_id (vs_round_identity v))) (map_of (observations_by_sensor s) n)
      else None)" for n
    using obs [of n] by (auto simp: map_of_map_restrict restrict_map_def)
  ultimately show ?thesis
    unfolding Some option.case by (intro exI conjI allI)
qed (simp add: build_behavioral_sensor_values_def)

lemma distinct_supported: "distinct SUPPORTED_SCADA_SENSORS"
  by (simp add: SUPPORTED_SCADA_SENSORS_def)

lemma project_state_spec:
  assumes "scada_ready v src sv"
  obtains st frozen beh beh' where "project_state v src sv = Inr (st, sv\<lparr>sv_frozen_values := frozen\<rparr>)"
    "\<And>n. n \<in> set SUPPORTED_SCADA_SENSORS \<Longrightarrow> projected v sv (sv_frozen_values sv) n (map_of (st_sensor_values st) n)"
    "build_behavioral_sensor_values v src = Inr beh" "behavioral_or_empty st = beh'"
    "\<And>n. n \<in> set SUPPORTED_SCADA_SENSORS \<Longrightarrow> map_of beh' n =
       map_option (\<lambda>b. behavioral_projection n b (the (map_of (sv_overrides sv) n)) (sv_history sv)) (map_of beh n)"
proof -
  have inv: "service_inv sv" and sub: "set SUPPORTED_SCADA_SENSORS \<subseteq> set (map fst (sensor_values v))"
    and src: "case src of None \<Rightarrow> True | Some s \<Rightarrow> observes_all s"
    using assms by (auto simp: scada_ready_def)
  obtain beh where beh: "build_behavioral_sensor_values v src = Inr beh" using behavioral_total [OF src] by blast
  obtain vals frozen beh' where p:
    "project_sensors v sv SUPPORTED_SCADA_SENSORS ([], sv_frozen_values sv, beh) = Inr (vals, frozen, beh')"
    "\<And>n. n \<in> set SUPPORTED_SCADA_SENSORS \<Longrightarrow> projected v sv (sv_frozen_values sv) n (map_of vals n) \<and>
       map_of beh' n = map_option (\<lambda>b. behavioral_projection n b (the (map_of (sv_overrides sv) n)) (sv_history sv)) (map_of beh n)"
    using project_sensors_spec [OF inv distinct_supported order_refl sub, of "[]" "sv_frozen_values sv" beh] by blast
  define st where "st = \<lparr>st_compressor_id = sv_compressor_id sv, st_source_round_id = round_id (vs_round_identity v),
      st_timestamp = isoformat (window_ended_at (vs_round_identity v)), st_sensor_values = vals,
      st_behavioral_source_round_id = behavioral_source_round_id beh',
      st_behavioral_sensor_values = (if beh' = [] then None else Some beh')\<rparr>"
  have none: "filter (\<lambda>n. n \<notin> set (map fst (sensor_values v))) SUPPORTED_SCADA_SENSORS = []"
    using sub by (auto simp: filter_empty_conv)
  have "project_state v src sv = Inr (st, sv\<lparr>sv_frozen_values := frozen\<rparr>)"
    unfolding project_state_def Let_def none beh attempt_Inr p(1) by (simp add: st_def)
  then show ?thesis
    using p(2) beh by (intro that [of st frozen beh beh']) (auto simp: st_def behavioral_or_empty_def)
qed

lemma scada_update_spec:
  assumes "scada_ready v src sv"
  shows "\<exists>st sv'. update_from_consensused_state v src sv = Inr (st, sv') \<and> service_inv sv' \<and>
    sv_current_state sv' = Some st \<and> sv_history sv' = sv_history sv @ [st] \<and> sv_overrides sv' = sv_overrides sv \<and>
    st_source_round_id st = round_id (vs_round_identity v) \<and>
    (\<forall>name \<in> set SUPPORTED_SCADA_SENSORS. \<exists>x ov s. map_of (sensor_values v) name = Some x \<and>
       map_of (sv_overrides sv) name = Some ov \<and> map_of (st_sensor_values st) name = Some s \<and>
       ss_mode s = ov_mode ov \<and> ss_value s = supervisory_value (sv_frozen_values sv) name (py_round 3 x) ov)"
proof -
  obtain st frozen where p: "project_state v src sv = Inr (st, sv\<lparr>sv_frozen_values := frozen\<rparr>)"
    "\<forall>n \<in> set SUPPORTED_SCADA_SENSORS. projected v sv (sv_frozen_values sv) n (map_of (st_sensor_values st) n)"
    using project_state_spec [OF assms] by metis
  have "update_from_consensused_state v src sv =
      Inr (st, sv\<lparr>sv_frozen_values := frozen, sv_current_state := Some st, sv_history := sv_history sv @ [st]\<rparr>)"
    by (simp add: update_from_consensused_state_def p(1))
  moreover have "service_inv sv" using assms by (simp add: scada_ready_def)
  moreover have "\<exists>x ov s. map_of (sensor_values v) n = Some x \<and> map_of (sv_overrides sv) n = Some ov \<and>
      map_of (st_sensor_values st) n = Some s \<and> ss_mode s = ov_mode ov \<and>
      ss_value s = supervisory_value (sv_frozen_values sv) n (py_round 3 x) ov" if "n \<in> set SUPPORTED_SCADA_SENSORS" for n
    using bspec [OF p(2) that] by (auto simp: projected_def)
  ultimately show ?thesis using project_state_service(5) [OF p(1)] by (simp add: service_inv_def)
qed

lemma sample_ready: "scada_ready (sample_valid_state v) None (init_service c)"
  by (simp add: scada_ready_def init_service_inv sample_valid_state_def SUPPORTED_SCADA_SENSORS_def)

section \<open>Agreement with the consensused state\<close>

definition all_match :: "scada_service \<Rightarrow> bool" where
  "all_match sv = (\<forall>name \<in> set SUPPORTED_SCADA_SENSORS. \<exists>ov. map_of (sv_overrides sv) name = Some ov \<and>
     ov_mode ov \<in> {''match'', ''replay''})"

definition plausible_reading :: "flt \<Rightarrow> bool" where
  "plausible_reading x = (\<bar>x\<bar> \<le> 2 ^ 30)"

lemma supported_comparison: "set SUPPORTED_SCADA_SENSORS = set COMPARISON_SENSOR_ORDER"
  by (simp add: SUPPORTED_SCADA_SENSORS_def COMPARISON_SENSOR_ORDER_def)

lemma plausible_idem: "plausible_reading x \<Longrightarrow> py_round 3 (py_round 3 x) = py_round 3 x"
  by (intro py_round3_idem) (simp add: plausible_reading_def)

lemma default_tolerance_nonneg: "value_for default_tolerance_profile n = Inr t \<Longrightarrow> 0 \<le> py_round 3 t"
  by (intro rnd.nonneg)
    (auto simp: value_for_def default_tolerance_profile_def dec_def intro: fl.nonneg split: if_splits)

text \<open>The comparison of one sensor whose supervisory value is the rounded reading.\<close>

lemma compare_equal:
  assumes "map_of (sensor_values v) n = Some x" "map_of (st_sensor_values st) n = Some s"
    "ss_value s = py_round 3 x" "plausible_reading x" "n \<in> set COMPARISON_SENSOR_ORDER"
  shows "\<exists>c. compare_sensor v st default_tolerance_profile ctx n = Inr c \<and> sc_within_tolerance c"
proof -
  obtain t where t: "value_for default_tolerance_profile n = Inr t" using value_for_Inr [OF assms(5)] ..
  with default_tolerance_nonneg [OF t] show ?thesis
    by (simp add: compare_sensor_def assms(1-3) Let_def plausible_idem [OF assms(4)])
qed

text \<open>A comparison whose sensors are all within tolerance raises no alert.\<close>

lemma compare_all_within:
  assumes v: "set COMPARISON_SENSOR_ORDER \<subseteq> set (map fst (sensor_values v))"
    and st: "set COMPARISON_SENSOR_ORDER \<subseteq> set (map fst (st_sensor_values st))"
    and each: "\<And>n. n \<in> set COMPARISON_SENSOR_ORDER \<Longrightarrow>
      \<exists>c. compare_sensor v st default_tolerance_profile [] n = Inr c \<and> sc_within_tolerance c"
  shows "\<exists>r. compare_consensused_to_scada (Some v) st None None = Inr r \<and> all_within_tolerance r \<and>
    build_scada_divergence_alert (build_scada_comparison_output r) = Inr None"
proof -
  obtain cs where cs: "mapM (compare_sensor v st default_tolerance_profile []) COMPARISON_SENSOR_ORDER = Inr cs"
    using mapM_total [of COMPARISON_SENSOR_ORDER "compare_sensor v st default_tolerance_profile []"] each by metis
  define r where "r = \<lparr>cmp_round_identity = vs_round_identity v, cmp_scada_source_round_id = st_source_round_id st,
    sensor_comparisons = cs\<rparr>"
  have "compare_consensused_to_scada (Some v) st None None = Inr r"
    unfolding compare_consensused_to_scada_def option.case Let_def iffD2 [OF validate_ok v]
      iffD2 [OF validate_ok st] attempt_Inr cs by (simp add: r_def)
  moreover have ok: "all_within_tolerance r"
    unfolding all_within_tolerance_def
  proof
    fix c assume "c \<in> set (sensor_comparisons r)"
    then obtain n where "n \<in> set COMPARISON_SENSOR_ORDER" "compare_sensor v st default_tolerance_profile [] n = Inr c"
      using mapM_set_origin [OF cs] by (auto simp: r_def)
    with each [of n] show "sc_within_tolerance c" by auto
  qed
  moreover have "build_scada_divergence_alert (build_scada_comparison_output r) = Inr None"
    using divergent_iff [of r] ok by (simp add: build_scada_divergence_alert_def Let_def filter_empty_conv)
  ultimately show ?thesis by blast
qed

lemma dom_keys: "(\<And>n. n \<in> A \<Longrightarrow> \<exists>v. map_of d n = Some v) \<Longrightarrow> A \<subseteq> set (map fst d)"
  by (force dest: map_of_SomeD)

section \<open>Properties\<close>

text \<open>
  C29. An update from a consensused state is total when the three sensors are there: the
  new state is current and last in the history, overrides are kept, and every sensor shows
  the value its override prescribes on the rounded reading.
\<close>

theorem scada_update:
  assumes "scada_ready v src sv"
  shows "\<exists>st sv'. update_from_consensused_state v src sv = Inr (st, sv') \<and> service_inv sv' \<and>
    sv_current_state sv' = Some st \<and> sv_history sv' = sv_history sv @ [st] \<and> sv_overrides sv' = sv_overrides sv \<and>
    st_source_round_id st = round_id (vs_round_identity v) \<and>
    (\<forall>name \<in> set SUPPORTED_SCADA_SENSORS. \<exists>x ov s. map_of (sensor_values v) name = Some x \<and>
       map_of (sv_overrides sv) name = Some ov \<and> map_of (st_sensor_values st) name = Some s \<and>
       ss_mode s = ov_mode ov \<and> ss_value s = supervisory_value (sv_frozen_values sv) name (py_round 3 x) ov)"
  using assms by (rule scada_update_spec)

theorem scada_update_witness:
  "\<exists>st sv'. update_from_consensused_state (sample_valid_state (60, 3, 1500)) None (init_service ''compressor-1'') = Inr (st, sv')
     \<and> sv_history sv' = [st]"
  using scada_update [OF sample_ready [of "(60, 3, 1500)" "''compressor-1''"]] by (auto simp: init_service_def)

text \<open>
  No false alarms: while every override is match or replay, the projected state agrees
  with the consensused state on every plausible reading, so the comparison stays within
  tolerance and raises no alert.
\<close>

theorem matching_scada_never_alerts:
  assumes "scada_ready v src sv" "all_match sv"
    and "\<forall>(name, x) \<in> set (sensor_values v). plausible_reading x"
  shows "\<exists>st sv' r. update_from_consensused_state v src sv = Inr (st, sv') \<and>
    compare_consensused_to_scada (Some v) st None None = Inr r \<and> all_within_tolerance r \<and>
    build_scada_divergence_alert (build_scada_comparison_output r) = Inr None"
proof -
  obtain st sv' where u: "update_from_consensused_state v src sv = Inr (st, sv')"
    "\<forall>n \<in> set SUPPORTED_SCADA_SENSORS. \<exists>x ov s. map_of (sensor_values v) n = Some x \<and>
       map_of (sv_overrides sv) n = Some ov \<and> map_of (st_sensor_values st) n = Some s \<and>
       ss_mode s = ov_mode ov \<and> ss_value s = supervisory_value (sv_frozen_values sv) n (py_round 3 x) ov"
    using scada_update_spec [OF assms(1)] by blast
  note sensor = bspec [OF u(2), unfolded supported_comparison]
  have each: "\<exists>c. compare_sensor v st default_tolerance_profile [] n = Inr c \<and> sc_within_tolerance c"
    if n: "n \<in> set COMPARISON_SENSOR_ORDER" for n
  proof -
    obtain x ov s where s: "map_of (sensor_values v) n = Some x" "map_of (sv_overrides sv) n = Some ov"
      "map_of (st_sensor_values st) n = Some s" "ss_value s = supervisory_value (sv_frozen_values sv) n (py_round 3 x) ov"
      using sensor [OF n] by blast
    have "ov_mode ov \<in> {''match'', ''replay''}"
      using assms(2) n s(2) by (auto simp: all_match_def supported_comparison)
    then have "ss_value s = py_round 3 x" by (auto simp: s(4) supervisory_value_def)
    moreover have "plausible_reading x" using assms(3) map_of_SomeD [OF s(1)] by auto
    ultimately show ?thesis using compare_equal s(1,3) n by blast
  qed
  have v: "set COMPARISON_SENSOR_ORDER \<subseteq> set (map fst (sensor_values v))"
    using assms(1) by (simp add: scada_ready_def supported_comparison)
  have st: "set COMPARISON_SENSOR_ORDER \<subseteq> set (map fst (st_sensor_values st))"
    by (rule dom_keys) (use sensor in blast)
  from compare_all_within [OF v st each] u(1) show ?thesis by blast
qed

theorem matching_scada_never_alerts_witness:
  "\<exists>st sv' r. update_from_consensused_state (sample_valid_state (60, 3, 1500)) None (init_service ''compressor-1'') = Inr (st, sv')
     \<and> compare_consensused_to_scada (Some (sample_valid_state (60, 3, 1500))) st None None = Inr r
     \<and> build_scada_divergence_alert (build_scada_comparison_output r) = Inr None"
proof -
  have "all_match (init_service ''compressor-1'')"
    by (simp add: all_match_def init_service_def SUPPORTED_SCADA_SENSORS_def)
  moreover have "\<forall>(name, x) \<in> set (sensor_values (sample_valid_state (60, 3, 1500))). plausible_reading x"
    by (simp add: sample_valid_state_def plausible_reading_def)
  ultimately show ?thesis
    using matching_scada_never_alerts [OF sample_ready] by blast
qed

lemma alert_raised:
  assumes "\<exists>s \<in> set (sensor_outputs o'). so_divergence s = DIVERGENT"
  shows "\<exists>a. build_scada_divergence_alert o' = Inr (Some a)"
proof -
  have "filter (\<lambda>s. so_divergence s = DIVERGENT) (sensor_outputs o') \<noteq> []"
    using assms by (simp add: filter_empty_conv)
  then show ?thesis by (simp add: build_scada_divergence_alert_def Let_def mk_ScadaAlert_def)
qed

lemma offset_difference:
  fixes x d :: flt
  assumes x: "plausible_reading x" and d: "\<bar>d\<bar> \<le> 2 ^ 30"
  shows "(\<bar>d\<bar> - 1 / 200) \<le> py_round 3 (\<bar>fsub (py_round 3 x) (py_round 3 (py_round 3 (fadd (py_round 3 x) d)))\<bar>)"
proof -
  define p where "p = py_round 3 x"
  define q where "q = py_round 3 (fadd p d)"
  have n: "(2::rat) ^ 30 = 1073741824" "(2::rat) ^ 39 = 549755813888" "(2::rat) ^ 40 = 1099511627776"
    "(1::rat) / 2 ^ 13 = 1 / 8192" by simp_all
  have x': "\<bar>x\<bar> \<le> 1073741824" and d': "\<bar>d\<bar> \<le> 1073741824"
    using x d by (simp_all add: plausible_reading_def)
  have p: "\<bar>p - x\<bar> \<le> 1 / 1600" unfolding p_def by (rule py_round3_err) (use x' n in linarith)
  have a: "\<bar>fadd p d - (p + d)\<bar> \<le> 1 / 8192"
    using fl_err_bound [of "p + d"] x' d' p unfolding fadd_def n by linarith
  have q: "\<bar>q - fadd p d\<bar> \<le> 1 / 1600"
    unfolding q_def by (rule py_round3_err) (use x' d' p a n in linarith)
  have idem: "py_round 3 q = q"
    unfolding q_def by (rule py_round3_idem) (use x' d' p a n in linarith)
  have s: "\<bar>fsub p q - (p - q)\<bar> \<le> 1 / 8192"
    using fl_err_bound [of "p - q"] x' d' p a q unfolding fsub_def n by linarith
  have "\<bar>\<bar>fsub p q\<bar>\<bar> \<le> 2 ^ 39" using x' d' p a q s n by linarith
  from py_round3_err [OF this] have r: "\<bar>py_round 3 (\<bar>fsub p q\<bar>) - (\<bar>fsub p q\<bar>)\<bar> \<le> 1 / 1600" .
  have "(\<bar>d\<bar> - 1 / 200) \<le> py_round 3 (\<bar>fsub p q\<bar>)"
    using a q s r by linarith
  then show ?thesis by (simp only: idem q_def [symmetric] p_def [symmetric])
qed

text \<open>An offset a hundredth beyond the tolerance survives the roundings.\<close>

lemma offset_detected:
  assumes "scada_ready v src sv" "name \<in> set SUPPORTED_SCADA_SENSORS"
    and "map_of (sv_overrides sv) name = Some ov" "ov_mode ov = ''offset''"
    and "map_of (sensor_values v) name = Some x" "plausible_reading x"
    and "value_for profile name = Inr t" "t + 1 / 100 \<le> \<bar>ov_offset ov\<bar>" "\<bar>ov_offset ov\<bar> \<le> 2 ^ 30" "0 \<le> t"
  shows "\<exists>st sv' r a. update_from_consensused_state v src sv = Inr (st, sv') \<and>
    compare_consensused_to_scada (Some v) st (Some profile) None = Inr r \<and>
    build_scada_divergence_alert (build_scada_comparison_output r) = Inr (Some a) \<and>
    name \<in> set (divergent_sensors (build_scada_comparison_output r))"
proof -
  obtain st sv' where u: "update_from_consensused_state v src sv = Inr (st, sv')"
    "\<forall>n \<in> set SUPPORTED_SCADA_SENSORS. \<exists>x ov s. map_of (sensor_values v) n = Some x \<and>
       map_of (sv_overrides sv) n = Some ov \<and> map_of (st_sensor_values st) n = Some s \<and>
       ss_mode s = ov_mode ov \<and> ss_value s = supervisory_value (sv_frozen_values sv) n (py_round 3 x) ov"
    using scada_update_spec [OF assms(1)] by blast
  from bspec [OF u(2) assms(2)] assms(3,5) obtain s where s: "map_of (st_sensor_values st) name = Some s"
    "ss_value s = supervisory_value (sv_frozen_values sv) name (py_round 3 x) ov" by auto
  have val: "ss_value s = py_round 3 (fadd (py_round 3 x) (ov_offset ov))"
    using assms(4) by (simp add: s(2) supervisory_value_def)
  have v: "set COMPARISON_SENSOR_ORDER \<subseteq> set (map fst (sensor_values v))"
    using assms(1) by (simp add: scada_ready_def supported_comparison)
  have st: "set COMPARISON_SENSOR_ORDER \<subseteq> set (map fst (st_sensor_values st))"
    by (rule dom_keys) (use u(2) in \<open>auto simp: supported_comparison\<close>)
  obtain cs where cs: "mapM (compare_sensor v st profile []) COMPARISON_SENSOR_ORDER = Inr cs"
    using mapM_total [of COMPARISON_SENSOR_ORDER "compare_sensor v st profile []"]
      compare_sensor_total [OF v st, of _ profile "[]"] by metis
  define r where "r = \<lparr>cmp_round_identity = vs_round_identity v, cmp_scada_source_round_id = st_source_round_id st,
    sensor_comparisons = cs\<rparr>"
  have cmp: "compare_consensused_to_scada (Some v) st (Some profile) None = Inr r"
    unfolding compare_consensused_to_scada_def option.case Let_def iffD2 [OF validate_ok v]
      iffD2 [OF validate_ok st] attempt_Inr cs by (simp add: r_def)
  have "name \<in> set COMPARISON_SENSOR_ORDER" using assms(2) by (simp add: supported_comparison)
  from mapM_set_Inr [OF cs this] obtain c where c: "c \<in> set cs" "compare_sensor v st profile [] name = Inr c" by blast
  have "\<bar>t\<bar> \<le> 2 ^ 39" using assms(8-10) by simp
  from py_round3_err [OF this] have "py_round 3 t < \<bar>ov_offset ov\<bar> - 1 / 200" using assms(8) by linarith
  also have "\<dots> \<le> py_round 3 \<bar>fsub (py_round 3 x) (py_round 3 (ss_value s))\<bar>"
    unfolding val by (rule offset_difference [OF assms(6,9)])
  finally have "\<not> sc_within_tolerance c" "sc_sensor_name c = name"
    using c(2) by (auto simp: compare_sensor_def assms(5,7) s(1) Let_def not_le)
  with c(1) have div: "sensor_output_of c \<in> set (filter (\<lambda>s. so_divergence s = DIVERGENT) (sensor_outputs (build_scada_comparison_output r)))"
    "so_sensor_name (sensor_output_of c) = name"
    by (simp_all add: build_scada_comparison_output_def r_def) (simp_all add: sensor_output_of_def)
  then have "name \<in> set (divergent_sensors (build_scada_comparison_output r))"
    unfolding divergent_sensors_def set_map by blast
  moreover have "\<exists>a. build_scada_divergence_alert (build_scada_comparison_output r) = Inr (Some a)"
    by (rule alert_raised) (use div(1) in \<open>simp only: set_filter mem_Collect_eq; blast\<close>)
  ultimately show ?thesis using u(1) cmp by blast
qed

text \<open>
  An offset well above the tolerance is always detected: for a sensor whose override
  adds \<open>d\<close> with \<open>d\<close> at least a hundredth beyond the tolerance, the comparison of the
  projected state marks that sensor divergent and raises the alert.
\<close>

theorem large_offset_detected:
  assumes "scada_ready v src sv" "name \<in> set SUPPORTED_SCADA_SENSORS"
    and "map_of (sv_overrides sv) name = Some ov" "ov_mode ov = ''offset''"
    and "map_of (sensor_values v) name = Some x" "plausible_reading x"
    and "value_for profile name = Inr t" "t + 1 / 100 \<le> \<bar>ov_offset ov\<bar>" "\<bar>ov_offset ov\<bar> \<le> 2 ^ 30" "0 \<le> t"
  shows "\<exists>st sv' r a. update_from_consensused_state v src sv = Inr (st, sv') \<and>
    compare_consensused_to_scada (Some v) st (Some profile) None = Inr r \<and>
    build_scada_divergence_alert (build_scada_comparison_output r) = Inr (Some a) \<and>
    name \<in> set (divergent_sensors (build_scada_comparison_output r))"
  using assms by (rule offset_detected)

definition offset_service :: scada_service where
  "offset_service = (init_service ''compressor-1'')\<lparr>sv_overrides :=
     [(''temperature'', \<lparr>ov_mode = ''offset'', ov_offset = 5, ov_fixed_value = None, ov_replay_round_id = None\<rparr>),
      (''pressure'', default_override), (''rpm'', default_override)]\<rparr>"

lemma offset_service_ready: "scada_ready (sample_valid_state v) None offset_service"
  by (simp add: scada_ready_def service_inv_def offset_service_def sample_valid_state_def
    SUPPORTED_SCADA_SENSORS_def SUPPORTED_OVERRIDE_MODES_def)

theorem large_offset_detected_witness:
  "\<exists>st sv' r a. update_from_consensused_state (sample_valid_state (60, 3, 1500)) None offset_service = Inr (st, sv') \<and>
     compare_consensused_to_scada (Some (sample_valid_state (60, 3, 1500))) st (Some default_tolerance_profile) None = Inr r \<and>
     build_scada_divergence_alert (build_scada_comparison_output r) = Inr (Some a) \<and>
     ''temperature'' \<in> set (divergent_sensors (build_scada_comparison_output r))"
  by (rule large_offset_detected [OF offset_service_ready, where x = 60 and t = 2 and
      ov = "\<lparr>ov_mode = ''offset'', ov_offset = 5, ov_fixed_value = None, ov_replay_round_id = None\<rparr>"])
    (simp_all add: SUPPORTED_SCADA_SENSORS_def offset_service_def sample_valid_state_def plausible_reading_def
      value_for_def COMPARISON_SENSOR_ORDER_def default_tolerance_profile_def)

text \<open>
  A replay shows the past behaviour under the present readings: when the history holds
  a behavioral state of the replayed round for a sensor, the projected behavioral state is
  that one, marked replay, while the supervisory value follows the current reading.
\<close>

theorem replay_shows_history:
  assumes "scada_ready v (Some src) sv" "name \<in> set SUPPORTED_SCADA_SENSORS"
    and "map_of (sv_overrides sv) name = Some ov" "ov_mode ov = ''replay''" "ov_replay_round_id ov = Some rid"
    and "find_replay name rid (sv_history sv) = Some past" "map_of (sensor_values v) name = Some x"
  shows "\<exists>st sv' s. update_from_consensused_state v (Some src) sv = Inr (st, sv') \<and>
    map_of (behavioral_or_empty st) name = Some (past\<lparr>bs_mode := ''replay''\<rparr>) \<and>
    map_of (st_sensor_values st) name = Some s \<and> ss_value s = py_round 3 x \<and> ss_mode s = ''replay''"
proof -
  obtain st frozen beh where p: "project_state v (Some src) sv = Inr (st, sv\<lparr>sv_frozen_values := frozen\<rparr>)"
    "\<forall>n \<in> set SUPPORTED_SCADA_SENSORS. projected v sv (sv_frozen_values sv) n (map_of (st_sensor_values st) n)"
    "build_behavioral_sensor_values v (Some src) = Inr beh"
    "\<forall>n \<in> set SUPPORTED_SCADA_SENSORS. map_of (behavioral_or_empty st) n =
       map_option (\<lambda>b. behavioral_projection n b (the (map_of (sv_overrides sv) n)) (sv_history sv)) (map_of beh n)"
    using project_state_spec [OF assms(1)] by metis
  have "observes_all src" using assms(1) by (simp add: scada_ready_def)
  then obtain payload where "map_of (observations_by_sensor src) name = Some payload"
    using assms(2) by (auto simp: observes_all_def SUPPORTED_SCADA_SENSORS_def SENSOR_SCALES_def)
  then obtain b where b: "map_of beh name = Some b"
    using behavioral_total [of "Some src" v] p(3) \<open>observes_all src\<close> assms(2) by auto
  have hist: "sv_history sv \<noteq> []" using assms(6) by auto
  have "map_of (behavioral_or_empty st) name = Some (past\<lparr>bs_mode := ''replay''\<rparr>)"
    using bspec [OF p(4) assms(2)] hist assms(4-6)
    by (simp add: b assms(3) behavioral_projection_def resolve_historical_behavioral_state_def)
  moreover obtain s where "map_of (st_sensor_values st) name = Some s" "ss_value s = py_round 3 x" "ss_mode s = ''replay''"
    using bspec [OF p(2) assms(2)] assms(3,4,7) by (auto simp: projected_def supervisory_value_def)
  moreover have "update_from_consensused_state v (Some src) sv =
      Inr (st, sv\<lparr>sv_frozen_values := frozen, sv_current_state := Some st, sv_history := sv_history sv @ [st]\<rparr>)"
    by (simp add: update_from_consensused_state_def p(1))
  ultimately show ?thesis by blast
qed

definition sample_behavior :: behavioral_state where
  "sample_behavior = behavioral_state_from_payload (sample_payload ''degC'' 0) ''round-0''"

definition replay_service :: scada_service where
  "replay_service = (init_service ''compressor-1'')\<lparr>
     sv_history := [(sample_scada_state (0, 0, 0))\<lparr>st_source_round_id := ''round-0'',
       st_behavioral_sensor_values := Some [(''rpm'', sample_behavior)]\<rparr>],
     sv_overrides := [(''temperature'', default_override), (''pressure'', default_override),
      (''rpm'', \<lparr>ov_mode = ''replay'', ov_offset = 0, ov_fixed_value = None, ov_replay_round_id = Some ''round-0''\<rparr>)]\<rparr>"

theorem replay_shows_history_witness:
  "\<exists>st sv' s. update_from_consensused_state (sample_valid_state (60, 3, 1500)) (Some (sample_state ''edge-1'' (60, 3, 1500)))
       replay_service = Inr (st, sv') \<and>
     map_of (behavioral_or_empty st) ''rpm'' = Some (sample_behavior\<lparr>bs_mode := ''replay''\<rparr>) \<and>
     map_of (st_sensor_values st) ''rpm'' = Some s \<and> ss_value s = py_round 3 1500 \<and> ss_mode s = ''replay''"
  by (rule replay_shows_history [where rid = "''round-0''" and
      ov = "\<lparr>ov_mode = ''replay'', ov_offset = 0, ov_fixed_value = None, ov_replay_round_id = Some ''round-0''\<rparr>"])
    (simp_all add: scada_ready_def service_inv_def replay_service_def sample_valid_state_def behavioral_or_empty_def
      SUPPORTED_SCADA_SENSORS_def SUPPORTED_OVERRIDE_MODES_def)

lemma map_of_rev_distinct: "distinct (map fst es) \<Longrightarrow> map_of (rev es) = map_of es"
  using map_of_dict_of_distinct [of es] by (simp add: fun_eq_iff map_of_dict_of)

lemma foldl_write:
  assumes rw: "\<And>n k x k'. read_value (write_value n k x) k' = (if k' = k then x else read_value n k' :: flt)"
  shows "read_value (foldl (\<lambda>n e. write_value n (fst e) (ss_value (snd e))) n es) k =
    (case map_of (rev es) k of Some s \<Rightarrow> ss_value s | None \<Rightarrow> read_value n k)"
  by (induction es rule: rev_induct) (auto simp: rw)

lemma project_sensors_keys:
  "project_sensors v sv names (vals, frozen, beh) = Inr (vals', frozen', beh') \<Longrightarrow> distinct (map fst vals) \<Longrightarrow>
     distinct (map fst vals')"
proof (induction names arbitrary: vals frozen beh)
  case (Cons name names)
  from Cons.prems(1) obtain s frozen1 beh1 where
    "project_sensors v sv names (AList.update name s vals, frozen1, beh1) = Inr (vals', frozen', beh')"
    by (auto simp: attempt_eq_Inr)
  then show ?case using Cons.IH distinct_update [OF Cons.prems(2)] by blast
qed simp

text \<open>
  A client of the running server reads what was published: given that reading a node
  returns the last value written to it, the live values after a publication are the
  supervisory values of the state it returned.
\<close>

theorem live_values_published:
  assumes ready: "scada_ready v src sv"
    and rw: "\<And>n k x k'. read_value (write_value n k x) k' = (if k' = k then x else read_value n k' :: flt)"
  shows "\<exists>st sv' n'. publish_consensused_state write_value v src (sv, Some n) = Inr (st, sv', Some n') \<and>
    read_live_values read_value (Some n') =
      Inr (map (\<lambda>s. (s, ss_value (the (map_of (st_sensor_values st) s)))) SUPPORTED_SCADA_SENSORS)"
proof -
  obtain st frozen where p: "project_state v src sv = Inr (st, sv\<lparr>sv_frozen_values := frozen\<rparr>)"
    "\<forall>n \<in> set SUPPORTED_SCADA_SENSORS. projected v sv (sv_frozen_values sv) n (map_of (st_sensor_values st) n)"
    using project_state_spec [OF ready] by metis
  have dist: "distinct (map fst (st_sensor_values st))"
    using p(1) project_sensors_keys [of v sv SUPPORTED_SCADA_SENSORS "[]"]
    by (auto simp: project_state_def Let_def attempt_eq_Inr split: if_splits)
  have "read_value (write_state_to_server write_value st n) s = ss_value (the (map_of (st_sensor_values st) s))"
    if s: "s \<in> set SUPPORTED_SCADA_SENSORS" for s
  proof -
    obtain y where "map_of (st_sensor_values st) s = Some y" using bspec [OF p(2) s] by (auto simp: projected_def)
    then show ?thesis
      by (simp add: write_state_to_server_def foldl_write [OF rw] map_of_rev_distinct [OF dist])
  qed
  then have "read_live_values read_value (Some (write_state_to_server write_value st n)) =
      Inr (map (\<lambda>s. (s, ss_value (the (map_of (st_sensor_values st) s)))) SUPPORTED_SCADA_SENSORS)"
    by (simp add: read_live_values_def)
  moreover have "publish_consensused_state write_value v src (sv, Some n) = Inr (st,
      sv\<lparr>sv_frozen_values := frozen, sv_current_state := Some st, sv_history := sv_history sv @ [st]\<rparr>,
      Some (write_state_to_server write_value st n))"
    by (simp add: publish_consensused_state_def update_from_consensused_state_def p(1))
  ultimately show ?thesis by blast
qed

theorem live_values_published_witness:
  "\<exists>st sv' n'. publish_consensused_state (\<lambda>n k x. n(k := x)) (sample_valid_state (60, 3, 1500)) None
       (init_service ''compressor-1'', Some (\<lambda>_. 0)) = Inr (st, sv', Some n') \<and>
     read_live_values (\<lambda>n k. n k) (Some n') =
       Inr (map (\<lambda>s. (s, ss_value (the (map_of (st_sensor_values st) s)))) SUPPORTED_SCADA_SENSORS)"
  by (rule live_values_published [OF sample_ready]) simp

end
