(* ===== verification/Persistence.thy ===== *)
theory Persistence
  imports Stores Observability ScadaService
begin

text \<open>
  \<open>persistence/service.py\<close> and \<open>contracts/persistence_record.py\<close>: the artifact of a
  successful round, and the gates in front of the store. The clock is an argument.
\<close>

section \<open>Record\<close>

record artifact_record =
  ar_artifact_key :: string
  ar_persisted_at :: string
  ar_artifact_identity :: pyval
  ar_round_identity :: pyval
  ar_consensus_context :: pyval
  ar_validated_state :: pyval
  ar_dataset_context :: pyval
  ar_scada_context :: pyval
  ar_diagnostics :: pyval

definition artifact_record_to_dict :: "artifact_record \<Rightarrow> pyval" where
  "artifact_record_to_dict r = PDict [(''artifact_key'', PStr (ar_artifact_key r)),
     (''persisted_at'', PStr (ar_persisted_at r)), (''artifact_identity'', ar_artifact_identity r),
     (''round_identity'', ar_round_identity r), (''consensus_context'', ar_consensus_context r),
     (''validated_state'', ar_validated_state r), (''dataset_context'', ar_dataset_context r),
     (''scada_context'', ar_scada_context r), (''diagnostics'', ar_diagnostics r)]"

section \<open>Validated payload\<close>

definition build_validated_payload :: "raw_hart_payload \<Rightarrow> flt \<Rightarrow> raw_hart_payload" where
  "build_validated_payload p v = p\<lparr>hp_process_data := (hp_process_data p)\<lparr>
     pd_pv := (pd_pv (hp_process_data p))\<lparr>pv_value := py_round 3 v\<rparr>\<rparr>\<rparr>"

fun select_source_state :: "replicated_state list \<Rightarrow> string list \<Rightarrow> replicated_state res" where
  "select_source_state [] edges = Inl (PersistenceBlockedError
     ''Validated payload snapshot could not find a source edge view inside the round input.'')"
| "select_source_state (s # ss) edges =
     (if owner_edge_id s \<in> set edges then Inr s else select_source_state ss edges)"

definition build_validated_payload_snapshot :: "audit_package \<Rightarrow> pyval res" where
  "build_validated_payload_snapshot p = (case ap_valid_state p of
     None \<Rightarrow> Inl (PersistenceBlockedError ''Validated payload snapshot requires a consensused valid state.'')
   | Some v \<Rightarrow>
     attempt (select_source_state (replicated_states (ap_round_input p)) (source_edges v)) (\<lambda>s.
     attempt (mapM (\<lambda>(name, payload). attempt (getitem (sensor_values v) name) (\<lambda>x.
         Inr (name, payload_to_dict (build_validated_payload payload x)))) (sorted_items (observations_by_sensor s)))
       (\<lambda>payloads. Inr (PDict [(''snapshot_type'', PStr ''validated_source_view''),
         (''selected_source_edge_id'', PStr (owner_edge_id s)),
         (''payloads_by_sensor'', PDict payloads)]))))"

section \<open>Persisting\<close>

definition default_dataset_context :: pyval where
  "default_dataset_context = PDict [(''scenario_label'', PStr ''unspecified''),
     (''training_label'', PStr ''non_normal''), (''training_eligible'', PBool False),
     (''training_eligibility_reason'', PStr ''missing_dataset_context'')]"

definition artifact_key_of :: "string \<Rightarrow> string" where
  "artifact_key_of rid = ''valid-consensus-artifacts/'' @ rid @ ''.json''"

definition build_record ::
  "audit_package \<Rightarrow> valid_state \<Rightarrow> scada_state \<Rightarrow> comparison_output \<Rightarrow> scada_alert option \<Rightarrow> pyval
     \<Rightarrow> datetime \<Rightarrow> pyval \<Rightarrow> int \<Rightarrow> artifact_record" where
  "build_record p v st out alert ctx now snapshot quorum =
     (let key = artifact_key_of (round_id (vs_round_identity v));
        edges = PList (map PStr (ri_participating_edges (ap_round_input p)));
        sources = PList (map PStr (source_edges v));
        divergent = PList (map PStr (divergent_sensors out)) in
      \<lparr>ar_artifact_key = key, ar_persisted_at = isoformat now,
       ar_artifact_identity = PDict [(''artifact_type'', PStr ''valid_consensus_artifact''),
         (''artifact_version'', PStr ''2.0''), (''record_id'', PStr (''valid-consensus-artifact::'' @ key))],
       ar_round_identity = round_identity_dict (vs_round_identity v),
       ar_consensus_context = PDict [(''final_consensus_status'', PStr (status_value (ap_final_status p))),
         (''participating_edges'', edges), (''quorum_required'', PInt quorum), (''source_edges'', sources),
         (''trust_ranking'', PList (map rank_entry_dict (tr_entries (ap_trust_ranking p)))),
         (''exclusions'', PList (map exclusion_dict (ap_exclusions p))),
         (''trust_evidence'', PList (map evidence_dict (ap_trust_evidence p)))],
       ar_validated_state = PDict [(''state_type'', PStr ''consensused_valid_state''), (''source_edges'', sources),
         (''sensor_values'', PDict (map (\<lambda>(k, x). (k, PFloat x)) (sensor_values v))),
         (''structured_payload_snapshot'', snapshot)],
       ar_dataset_context = ctx,
       ar_scada_context = PDict [(''scada_state'', scada_state_to_dict st),
         (''comparison_output'', comparison_output_to_dict out),
         (''divergence_alert'', case alert of None \<Rightarrow> PNone | Some a \<Rightarrow> scada_alert_to_dict a)],
       ar_diagnostics = PDict [(''final_consensus_status'', PStr (status_value (ap_final_status p))),
         (''has_scada_divergence'', PBool (divergent_sensors out \<noteq> [])), (''divergent_sensors'', divergent),
         (''participating_edges'', edges), (''persisted_record_type'', PStr ''valid_consensus_artifact'')]\<rparr>)"

definition persist_valid_consensus_artifact ::
  "'s store_ops \<Rightarrow> audit_package \<Rightarrow> scada_state \<Rightarrow> comparison_output \<Rightarrow> scada_alert option \<Rightarrow> pyval option
     \<Rightarrow> datetime \<Rightarrow> 's \<Rightarrow> (artifact_record \<times> 's) res" where
  "persist_valid_consensus_artifact ops p st out alert ctx now s =
     (if ap_final_status p \<noteq> SUCCESS
        then Inl (PersistenceBlockedError ''Valid artifact persistence is blocked because consensus did not succeed.'')
      else case ap_valid_state p of
        None \<Rightarrow> Inl (PersistenceBlockedError
          ''Valid artifact persistence is blocked because no consensused valid state exists.'')
      | Some v \<Rightarrow>
        if ri_round_identity (ap_round_input p) \<noteq> co_round_identity out
          then Inl (ValueError ''Persistence inputs must share the same round identity.'')
        else attempt (build_validated_payload_snapshot p) (\<lambda>snapshot.
          attempt (required_quorum (int (length (ri_participating_edges (ap_round_input p))))) (\<lambda>quorum.
            let context = (case ctx of Some c \<Rightarrow> if truthy c then c else default_dataset_context
                | None \<Rightarrow> default_dataset_context);
              r = build_record p v st out alert context now snapshot quorum in
            attempt (op_save_json ops (ar_artifact_key r) (artifact_record_to_dict r) s) (\<lambda>s'. Inr (r, s')))))"

section \<open>Laws\<close>

lemma select_source_state_Inr:
  assumes "\<exists>s \<in> set ss. owner_edge_id s \<in> set edges"
  shows "\<exists>s \<in> set ss. select_source_state ss edges = Inr s \<and> owner_edge_id s \<in> set edges"
  using assms by (induction ss) auto

text \<open>Every state carries exactly the three sensors.\<close>

definition exact_sensors :: "consensus_round_input \<Rightarrow> bool" where
  "exact_sensors ri = (\<forall>s \<in> set (replicated_states ri). set (map fst (observations_by_sensor s)) = set consensus_sensors)"

text \<open>The payloads of the snapshot: the source's own, with the consensused value as reading.\<close>

definition validated_payloads :: "valid_state \<Rightarrow> replicated_state \<Rightarrow> (string, pyval) dict" where
  "validated_payloads v s = map (\<lambda>(name, payload).
     (name, payload_to_dict (build_validated_payload payload (the (map_of (sensor_values v) name)))))
     (sorted_items (observations_by_sensor s))"

lemma snapshot_total:
  assumes "ap_valid_state p = Some v" "set (map fst (sensor_values v)) = set consensus_sensors"
    and "\<exists>s \<in> set (replicated_states (ap_round_input p)). owner_edge_id s \<in> set (source_edges v)"
    and "exact_sensors (ap_round_input p)"
  shows "\<exists>s \<in> set (replicated_states (ap_round_input p)). owner_edge_id s \<in> set (source_edges v) \<and>
    build_validated_payload_snapshot p = Inr (PDict [(''snapshot_type'', PStr ''validated_source_view''),
      (''selected_source_edge_id'', PStr (owner_edge_id s)), (''payloads_by_sensor'', PDict (validated_payloads v s))])"
proof -
  obtain s where s: "s \<in> set (replicated_states (ap_round_input p))"
    "select_source_state (replicated_states (ap_round_input p)) (source_edges v) = Inr s"
    "owner_edge_id s \<in> set (source_edges v)"
    using select_source_state_Inr [OF assms(3)] by blast
  have "mapM (\<lambda>(name, payload). attempt (getitem (sensor_values v) name) (\<lambda>x.
      Inr (name, payload_to_dict (build_validated_payload payload x)))) (sorted_items (observations_by_sensor s))
    = Inr (validated_payloads v s)"
    unfolding validated_payloads_def
  proof (rule mapM_Inr)
    fix e assume "e \<in> set (sorted_items (observations_by_sensor s))"
    then have "fst e \<in> set (map fst (observations_by_sensor s))" by simp
    then have "fst e \<in> set (map fst (sensor_values v))"
      using assms(2,4) s(1) by (simp only: exact_sensors_def)
    then obtain x where "getitem (sensor_values v) (fst e) = Inr x" using getitem_key by blast
    then show "(case e of (name, payload) \<Rightarrow> attempt (getitem (sensor_values v) name) (\<lambda>x.
        Inr (name, payload_to_dict (build_validated_payload payload x)))) =
      Inr (case e of (name, payload) \<Rightarrow>
        (name, payload_to_dict (build_validated_payload payload (the (map_of (sensor_values v) name)))))"
      by (simp add: case_prod_beta getitem_Inr)
  qed
  with s show ?thesis
    by (intro bexI [of _ s]) (simp_all add: build_validated_payload_snapshot_def assms(1))
qed

text \<open>Proved once against the contract of the store.\<close>

context artifact_store begin

lemma persist_spec:
  assumes "ap_final_status p = SUCCESS" "ap_valid_state p = Some v"
    and "ri_round_identity (ap_round_input p) = co_round_identity out"
    and "build_validated_payload_snapshot p = Inr snapshot" "ri_participating_edges (ap_round_input p) \<noteq> []"
  shows "\<exists>r s'. persist_valid_consensus_artifact ops p st out alert ctx now s = Inr (r, s') \<and>
    ar_artifact_key r = artifact_key_of (round_id (vs_round_identity v)) \<and>
    ar_dataset_context r = (case ctx of Some c \<Rightarrow> if truthy c then c else default_dataset_context
      | None \<Rightarrow> default_dataset_context) \<and>
    sub (ar_validated_state r) ''structured_payload_snapshot'' = Inr snapshot \<and>
    op_load_json ops (ar_artifact_key r) s' = Inr (artifact_record_to_dict r) \<and>
    contents s' = (contents s)(ar_artifact_key r \<mapsto> Json (artifact_record_to_dict r))"
proof -
  let ?n = "length (ri_participating_edges (ap_round_input p))"
  have q: "required_quorum (int ?n) = Inr (int (?n div 2 + 1))"
    using assms(5) by (intro required_quorum_pos) simp
  let ?ctx = "case ctx of Some c \<Rightarrow> if truthy c then c else default_dataset_context | None \<Rightarrow> default_dataset_context"
  let ?r = "build_record p v st out alert ?ctx now snapshot (int (?n div 2 + 1))"
  obtain s' where s': "op_save_json ops (ar_artifact_key ?r) (artifact_record_to_dict ?r) s = Inr s'"
    "contents s' = (contents s)(ar_artifact_key ?r \<mapsto> Json (artifact_record_to_dict ?r))"
    using save_json by blast
  have "persist_valid_consensus_artifact ops p st out alert ctx now s = Inr (?r, s')"
    unfolding persist_valid_consensus_artifact_def
    by (simp only: assms(1-4) simp_thms if_False option.case attempt_Inr q Let_def s'(1))
  moreover have "ar_artifact_key ?r = artifact_key_of (round_id (vs_round_identity v))"
    "ar_dataset_context ?r = ?ctx" "sub (ar_validated_state ?r) ''structured_payload_snapshot'' = Inr snapshot"
    by (simp_all add: build_record_def Let_def)
  ultimately show ?thesis using s' load_after_save [OF s'(1)] by blast
qed

end

lemma persist_decided:
  assumes store: "artifact_store ops contents"
    and ri: "complete_input ri" "exact_sensors ri" "settles ri pkg" "co_round_identity out = ri_round_identity ri"
  shows "case ap_final_status pkg of
      SUCCESS \<Rightarrow> \<exists>r s'. persist_valid_consensus_artifact ops pkg st out alert ctx now s = Inr (r, s') \<and>
        ar_artifact_key r = artifact_key_of (round_id (ri_round_identity ri)) \<and>
        op_load_json ops (ar_artifact_key r) s' = Inr (artifact_record_to_dict r) \<and>
        contents s' = (contents s)(ar_artifact_key r \<mapsto> Json (artifact_record_to_dict r))
    | FAILED_CONSENSUS \<Rightarrow>
        \<exists>m. persist_valid_consensus_artifact ops pkg st out alert ctx now s = Inl (PersistenceBlockedError m)"
proof (cases "ap_final_status pkg")
  case SUCCESS
  note p = settled_input [OF ri(3)]
  obtain v where v: "ap_valid_state pkg = Some v" using settled_success [OF ri(3)] SUCCESS by blast
  note s = settled_state [OF ri(3) v]
  obtain snapshot where snap: "build_validated_payload_snapshot pkg = Inr snapshot"
    using snapshot_total [OF v s(2)] s(4) ri(2) by (auto simp: p)
  have "ri_participating_edges ri \<noteq> []" using ri(1) by (auto simp: complete_input_def)
  then have "\<exists>r s'. persist_valid_consensus_artifact ops pkg st out alert ctx now s = Inr (r, s') \<and>
      ar_artifact_key r = artifact_key_of (round_id (vs_round_identity v)) \<and>
      ar_dataset_context r = (case ctx of Some c \<Rightarrow> if truthy c then c else default_dataset_context
        | None \<Rightarrow> default_dataset_context) \<and>
      sub (ar_validated_state r) ''structured_payload_snapshot'' = Inr snapshot \<and>
      op_load_json ops (ar_artifact_key r) s' = Inr (artifact_record_to_dict r) \<and>
      contents s' = (contents s)(ar_artifact_key r \<mapsto> Json (artifact_record_to_dict r))"
    by (intro artifact_store.persist_spec [OF store SUCCESS v]) (simp_all add: p ri(4) snap)
  then show ?thesis by (auto simp: SUCCESS s(1))
next
  case FAILED_CONSENSUS
  then show ?thesis by (simp add: persist_valid_consensus_artifact_def)
qed

section \<open>Properties\<close>

text \<open>
  C20. Only decided truth is stored: on any store that keeps the contract, the package of a
  complete round is persisted exactly when consensus succeeded. The record lands under the
  key of its round, reads back as written, and changes no other object; a failed round
  raises \<open>PersistenceBlockedError\<close>.
\<close>

theorem persistence_gate:
  assumes store: "artifact_store ops contents"
    and ri: "complete_input ri" "exact_sensors ri" "evaluate ri = Inr pkg" "co_round_identity out = ri_round_identity ri"
  shows "case ap_final_status pkg of
      SUCCESS \<Rightarrow> \<exists>r s'. persist_valid_consensus_artifact ops pkg st out alert ctx now s = Inr (r, s') \<and>
        ar_artifact_key r = artifact_key_of (round_id (ri_round_identity ri)) \<and>
        op_load_json ops (ar_artifact_key r) s' = Inr (artifact_record_to_dict r) \<and>
        contents s' = (contents s)(ar_artifact_key r \<mapsto> Json (artifact_record_to_dict r))
    | FAILED_CONSENSUS \<Rightarrow>
        \<exists>m. persist_valid_consensus_artifact ops pkg st out alert ctx now s = Inl (PersistenceBlockedError m)"
  by (rule persist_decided [OF store ri(1,2) evaluate_settles [OF complete_wf [OF ri(1)] ri(3)] ri(4)])

lemma sample_input_exact: "exact_sensors (sample_input v w)"
  by (simp add: exact_sensors_def sample_input_def sample_state_def consensus_sensors_def)

definition sample_output :: comparison_output where
  "sample_output = \<lparr>co_round_identity = sample_identity, co_scada_source_round_id = ''round-1'', sensor_outputs = []\<rparr>"

theorem persistence_gate_witness:
  "\<exists>pkg r s'. evaluate (sample_input (60, 3, 1500) (0, 9, 0)) = Inr pkg \<and>
     persist_valid_consensus_artifact (local_ops ''b'') pkg (sample_scada_state (60, 3, 1500)) sample_output None None
       sample_time [] = Inr (r, s') \<and> op_load_json (local_ops ''b'') (ar_artifact_key r) s' = Inr (artifact_record_to_dict r)"
proof -
  obtain pkg v where e: "evaluate (sample_input (60, 3, 1500) (0, 9, 0)) = Inr pkg" "ap_final_status pkg = SUCCESS"
      "ap_valid_state pkg = Some v"
    using engine_success_sample [of "(60, 3, 1500)" "(0, 9, 0)"] by (elim exE conjE)
  have "co_round_identity sample_output = ri_round_identity (sample_input (60, 3, 1500) (0, 9, 0))"
    by (simp add: sample_output_def sample_input_def)
  note same_round = this
  have "artifact_store (local_ops ''b'') map_of" by (rule local_store.artifact_store_axioms)
  note gate = persistence_gate [OF this sample_input_complete sample_input_exact e(1) same_round]
  have "\<exists>r s'. persist_valid_consensus_artifact (local_ops ''b'') pkg (sample_scada_state (60, 3, 1500)) sample_output None None
       sample_time [] = Inr (r, s') \<and> op_load_json (local_ops ''b'') (ar_artifact_key r) s' = Inr (artifact_record_to_dict r)"
    using gate [where st = "sample_scada_state (60, 3, 1500)" and alert = None and ctx = None
      and now = sample_time and s = "[]"] unfolding e(2) consensus_status.case by blast
  with e(1) show ?thesis by blast
qed

end
