(* ===== verification/Scenario.thy ===== *)
theory Scenario
  imports RuntimeConfig PyValue
begin

text \<open>
  \<open>scenario_control/runtime.py\<close>: which scenario one cycle runs, what it overrides in the
  configuration, and whether its artifacts may train the fingerprint.
\<close>

section \<open>Stages\<close>

definition SCENARIO_OUTPUTS_NORMAL :: "string list" where
  "SCENARIO_OUTPUTS_NORMAL = [''consensus_alert'', ''persistence_stage'', ''fingerprint_lifecycle'']"

definition SCENARIO_OUTPUTS_REPLAY :: "string list" where
  "SCENARIO_OUTPUTS_REPLAY = [''consensus_alert'', ''persistence_stage'', ''replay_behavior'', ''fingerprint_inference'']"

definition SCENARIO_OUTPUTS_SCADA_BLOCKING :: "string list" where
  "SCENARIO_OUTPUTS_SCADA_BLOCKING = [''scada_divergence_alert'', ''persistence_stage'']"

definition SCENARIO_OUTPUTS_EDGE :: "string list" where
  "SCENARIO_OUTPUTS_EDGE = [''consensus_alert'', ''persistence_stage'', ''fingerprint_lifecycle'']"

definition SCENARIO_OUTPUTS_SCADA_DIVERGENCE :: "string list" where
  "SCENARIO_OUTPUTS_SCADA_DIVERGENCE = [''scada_divergence_alert'', ''persistence_stage'']"

definition SCENARIO_OUTPUTS_QUORUM :: "string list" where
  "SCENARIO_OUTPUTS_QUORUM = [''consensus_alert'', ''persistence_stage'']"

definition SUPPORTED_DEMO_SCENARIOS :: "string list" where
  "SUPPORTED_DEMO_SCENARIOS = [''normal'', ''scada_replay'', ''scada_freeze'', ''scada_divergence'',
     ''single_edge_exclusion'', ''quorum_loss'']"

record scenario_stage =
  configured_scenario :: string
  active_scenario :: string
  sg_start_cycle :: int
  sg_active :: bool
  sg_fault_mode :: string
  sg_scada_mode :: string
  sg_scenario_label :: string
  sg_training_label :: string
  sg_training_eligible :: bool
  sg_training_eligibility_reason :: string
  expected_output_channels :: "string list"

definition scenario_stage_to_dict :: "scenario_stage \<Rightarrow> pyval" where
  "scenario_stage_to_dict s = PDict [(''configured_scenario'', PStr (configured_scenario s)),
     (''active_scenario'', PStr (active_scenario s)), (''start_cycle'', PInt (sg_start_cycle s)),
     (''active'', PBool (sg_active s)), (''fault_mode'', PStr (sg_fault_mode s)),
     (''scada_mode'', PStr (sg_scada_mode s)), (''scenario_label'', PStr (sg_scenario_label s)),
     (''training_label'', PStr (sg_training_label s)), (''training_eligible'', PBool (sg_training_eligible s)),
     (''training_eligibility_reason'', PStr (sg_training_eligibility_reason s)),
     (''expected_output_channels'', PList (map PStr (expected_output_channels s)))]"

text \<open>The normal stage, and a running non-normal scenario.\<close>

definition normal_stage :: "string \<Rightarrow> int \<Rightarrow> bool \<Rightarrow> scenario_stage" where
  "normal_stage conf start act = \<lparr>configured_scenario = conf, active_scenario = ''normal'',
     sg_start_cycle = start, sg_active = act, sg_fault_mode = ''none'', sg_scada_mode = ''match'',
     sg_scenario_label = ''normal'', sg_training_label = ''normal'', sg_training_eligible = True,
     sg_training_eligibility_reason = ''normal_validated_run'',
     expected_output_channels = SCENARIO_OUTPUTS_NORMAL\<rparr>"

definition fault_stage ::
  "string \<Rightarrow> int \<Rightarrow> string \<Rightarrow> string \<Rightarrow> string \<Rightarrow> string \<Rightarrow> string list \<Rightarrow> scenario_stage" where
  "fault_stage conf start fault scada label reason outs = \<lparr>configured_scenario = conf, active_scenario = conf,
     sg_start_cycle = start, sg_active = True, sg_fault_mode = fault, sg_scada_mode = scada,
     sg_scenario_label = label, sg_training_label = ''non_normal'', sg_training_eligible = False,
     sg_training_eligibility_reason = reason, expected_output_channels = outs\<rparr>"

definition resolve_configured_scenario :: "runtime_config \<Rightarrow> (string \<times> int) res" where
  "resolve_configured_scenario c =
     (if strip (demo_scenario_name c) \<noteq> [] then Inr (strip (demo_scenario_name c), demo_scenario_start_cycle c)
      else if demo_scada_mode c \<in> {''replay'', ''freeze''} \<and> demo_fault_mode c \<noteq> ''none''
        then Inl (ValueError ''Scenario control supports only one non-normal runtime scenario at a time.'')
      else if demo_scada_mode c = ''replay'' then Inr (''scada_replay'', demo_scada_start_cycle c)
      else if demo_scada_mode c = ''freeze'' then Inr (''scada_freeze'', demo_scada_start_cycle c)
      else if demo_scada_mode c = ''offset'' then Inr (''scada_divergence'', demo_scada_start_cycle c)
      else if demo_fault_mode c \<noteq> ''none'' then Inr (demo_fault_mode c, 1)
      else Inr (''normal'', 1))"

definition resolve_runtime_scenario_control_stage :: "runtime_config \<Rightarrow> int \<Rightarrow> scenario_stage res" where
  "resolve_runtime_scenario_control_stage c cycle_index =
     attempt (resolve_configured_scenario c) (\<lambda>(conf, start0). let start = max start0 1 in
       if conf = ''normal'' then Inr (normal_stage ''normal'' start True)
       else if cycle_index < start then Inr (normal_stage conf start False)
       else if conf = ''scada_replay''
         then Inr (fault_stage conf start ''none'' ''replay'' ''scada_replay'' ''scada_replay'' SCENARIO_OUTPUTS_REPLAY)
       else if conf = ''scada_freeze''
         then Inr (fault_stage conf start ''none'' ''freeze'' ''scada_freeze'' ''scada_freeze'' SCENARIO_OUTPUTS_SCADA_BLOCKING)
       else if conf = ''scada_divergence''
         then Inr (fault_stage conf start ''none'' ''offset'' ''scada_divergence'' ''scada_divergence''
           SCENARIO_OUTPUTS_SCADA_DIVERGENCE)
       else if conf = ''single_edge_exclusion''
         then Inr (fault_stage conf start ''single_edge_exclusion'' ''match'' ''faulty_edge_exclusion''
           ''faulty_edge_exclusion'' SCENARIO_OUTPUTS_EDGE)
       else if conf = ''quorum_loss''
         then Inr (fault_stage conf start ''quorum_loss'' ''match'' ''quorum_loss'' ''scenario:quorum_loss''
           SCENARIO_OUTPUTS_QUORUM)
       else Inl (ValueError (''Unsupported demo scenario '' @ [CHR 0x27] @ conf @ [CHR 0x27] @ ''.'')))"

definition apply_runtime_scenario_control :: "runtime_config \<Rightarrow> scenario_stage \<Rightarrow> runtime_config" where
  "apply_runtime_scenario_control c s = c\<lparr>demo_fault_mode := sg_fault_mode s, demo_scada_mode := sg_scada_mode s,
     demo_scada_start_cycle := (if sg_scada_mode s \<noteq> ''match'' then sg_start_cycle s else 0)\<rparr>"

section \<open>Properties\<close>

text \<open>
  Labels and overrides of a resolved cycle agree: it may train the fingerprint exactly
  when the active scenario is normal, exactly when nothing is overridden, and exactly when
  its training label is normal; a non-normal cycle has reached its start cycle, which is
  at least 1.
\<close>

theorem scenario_stage_consistent:
  assumes "resolve_runtime_scenario_control_stage c i = Inr s"
  shows "(sg_training_eligible s \<longleftrightarrow> active_scenario s = ''normal'') \<and>
    (sg_training_eligible s \<longleftrightarrow> sg_fault_mode s = ''none'' \<and> sg_scada_mode s = ''match'') \<and>
    (sg_training_eligible s \<longleftrightarrow> sg_training_label s = ''normal'') \<and>
    (\<not> sg_training_eligible s \<longrightarrow> sg_active s \<and> sg_start_cycle s \<le> i) \<and>
    1 \<le> sg_start_cycle s \<and> active_scenario s \<in> set SUPPORTED_DEMO_SCENARIOS"
  using assms
  by (auto simp: resolve_runtime_scenario_control_stage_def attempt_eq_Inr Let_def normal_stage_def fault_stage_def
      SUPPORTED_DEMO_SCENARIOS_def split: if_splits)

theorem scenario_stage_consistent_witness:
  "\<exists>s. resolve_runtime_scenario_control_stage (default_config\<lparr>demo_scada_mode := ''freeze'', demo_scada_start_cycle := 3\<rparr>) 5 = Inr s \<and>
     \<not> sg_training_eligible s \<and> sg_start_cycle s \<le> 5"
proof -
  have "resolve_runtime_scenario_control_stage (default_config\<lparr>demo_scada_mode := ''freeze'', demo_scada_start_cycle := 3\<rparr>) 5 =
      Inr (fault_stage ''scada_freeze'' 3 ''none'' ''freeze'' ''scada_freeze'' ''scada_freeze'' SCENARIO_OUTPUTS_SCADA_BLOCKING)"
    by (simp add: resolve_runtime_scenario_control_stage_def resolve_configured_scenario_def default_config_def strip_def)
  moreover from scenario_stage_consistent [OF this] have "\<not> sg_training_eligible (fault_stage ''scada_freeze'' 3 ''none'' ''freeze''
      ''scada_freeze'' ''scada_freeze'' SCENARIO_OUTPUTS_SCADA_BLOCKING) \<longrightarrow> sg_start_cycle (fault_stage ''scada_freeze'' 3 ''none'' ''freeze''
      ''scada_freeze'' ''scada_freeze'' SCENARIO_OUTPUTS_SCADA_BLOCKING) \<le> 5" by blast
  ultimately show ?thesis by (simp add: fault_stage_def)
qed

text \<open>
  An unsupported scenario name is reported only once its start cycle is reached: before
  it the cycle resolves as a normal one, from it on every cycle raises \<open>ValueError\<close>.
\<close>

theorem unsupported_scenario:
  assumes "strip (demo_scenario_name c) = name" "name \<noteq> []" "name \<notin> set SUPPORTED_DEMO_SCENARIOS"
  shows "resolve_runtime_scenario_control_stage c i =
    (if i < max (demo_scenario_start_cycle c) 1 then Inr (normal_stage name (max (demo_scenario_start_cycle c) 1) False)
     else Inl (ValueError (''Unsupported demo scenario '' @ [CHR 0x27] @ name @ [CHR 0x27] @ ''.'')))"
  using assms
  by (simp add: resolve_runtime_scenario_control_stage_def resolve_configured_scenario_def Let_def
      SUPPORTED_DEMO_SCENARIOS_def)

theorem unsupported_scenario_witness:
  "resolve_runtime_scenario_control_stage (default_config\<lparr>demo_scenario_name := '' storm '', demo_scenario_start_cycle := 4\<rparr>) 4 =
     Inl (ValueError (''Unsupported demo scenario '' @ [CHR 0x27] @ ''storm'' @ [CHR 0x27] @ ''.''))"
  by (subst unsupported_scenario [where name = "''storm''"])
    (simp_all add: strip_def is_space_def SUPPORTED_DEMO_SCENARIOS_def)

end

