(* ===== verification/FaultInjection.thy ===== *)
theory FaultInjection
  imports ScadaService Scenario
begin

text \<open>
  The fault scenarios of the live runtime, \<open>scripts/run_local_demo.py\<close>: which edges are
  faulty in a cycle, and the round input with their readings shifted. The lemmas bound the
  distances the shifts cause in floating point.
\<close>

section \<open>Model\<close>

definition default_faulty_edges :: "string \<Rightarrow> string list" where
  "default_faulty_edges mode = (if mode = ''single_edge_exclusion'' then [''edge-3'']
     else if mode = ''quorum_loss'' then [''edge-2'', ''edge-3''] else [])"

definition resolve_faulty_edges :: "runtime_config \<Rightarrow> string list \<Rightarrow> string list" where
  "resolve_faulty_edges c edges = (let raw = (if demo_faulty_edges c \<noteq> [] then demo_faulty_edges c
     else default_faulty_edges (demo_fault_mode c)) in filter (\<lambda>e. e \<in> set edges) raw)"

definition fault_offsets :: "nat \<Rightarrow> (string, flt) dict" where
  "fault_offsets i = [(''temperature'', if i mod 2 = 0 then 40 else - 60),
     (''pressure'', if i mod 2 = 0 then dec 34 1 else - 5), (''rpm'', if i mod 2 = 0 then 1490 else - 2300)]"

definition offsets_by_edge :: "string list \<Rightarrow> (string, (string, flt) dict) dict" where
  "offsets_by_edge faulty = dict_of (map (\<lambda>(i, e). (e, fault_offsets i)) (enumerate 0 faulty))"

definition shift_payload :: "flt \<Rightarrow> raw_hart_payload \<Rightarrow> raw_hart_payload" where
  "shift_payload d p = p\<lparr>hp_process_data := (hp_process_data p)\<lparr>pd_pv := (pd_pv (hp_process_data p))\<lparr>
     pv_value := py_round 3 (fadd (pv_value (pd_pv (hp_process_data p))) d)\<rparr>\<rparr>\<rparr>"

text \<open>The body of the loop over the states.\<close>

definition inject_state :: "(string, (string, flt) dict) dict \<Rightarrow> replicated_state \<Rightarrow> replicated_state res" where
  "inject_state offsets s = (case map_of offsets (owner_edge_id s) of None \<Rightarrow> Inr s
   | Some d \<Rightarrow> attempt (mapM (\<lambda>(name, p). attempt (getitem d name) (\<lambda>x. Inr (name, shift_payload x p)))
         (observations_by_sensor s))
       (\<lambda>obs. mk_EdgeLocalReplicatedState (rs_round_identity s) (owner_edge_id s) (rs_participating_edges s)
         (dict_of obs) (is_validated s)))"

definition inject_faults :: "consensus_round_input \<Rightarrow> runtime_config \<Rightarrow> consensus_round_input res" where
  "inject_faults ri c = (if demo_fault_mode c = ''none'' then Inr ri
     else let faulty = resolve_faulty_edges c (ri_participating_edges ri) in
       if faulty = [] then Inr ri
       else attempt (mapM (inject_state (offsets_by_edge faulty)) (replicated_states ri))
         (mk_ConsensusRoundInput (ri_round_identity ri) (ri_participating_edges ri)))"

section \<open>The injected round\<close>

lemma getitem_fault_offsets:
  "name \<in> set consensus_sensors \<Longrightarrow> \<exists>x. getitem (fault_offsets i) name = Inr x"
  by (auto simp: consensus_sensors_def fault_offsets_def getitem_def)

lemma offsets_by_edge_in:
  assumes "map_of (offsets_by_edge faulty) e = Some d"
  shows "e \<in> set faulty \<and> (\<exists>i. d = fault_offsets i)"
  using assms by (auto simp: offsets_by_edge_def map_of_dict_of in_set_enumerate_eq dest!: map_of_SomeD)

lemma offsets_by_edge_dom: "map_of (offsets_by_edge faulty) e = None \<longleftrightarrow> e \<notin> set faulty"
proof -
  have "map fst (map (\<lambda>(i, e). (e, fault_offsets i)) (enumerate 0 faulty)) = map snd (enumerate 0 faulty)"
    unfolding map_map by (rule map_cong) auto
  then have "set (map fst (map (\<lambda>(i, e). (e, fault_offsets i)) (enumerate 0 faulty))) = set faulty"
    by (simp only: map_snd_enumerate)
  moreover have "map_of (rev xs) e = None \<longleftrightarrow> e \<notin> set (map fst xs)" for xs :: "(string \<times> (string, flt) dict) list"
    by (simp add: map_of_eq_None_iff)
  ultimately show ?thesis by (simp only: offsets_by_edge_def map_of_dict_of)
qed

text \<open>A state as its edge publishes it: no duplicate sensors, exactly the three, not validated.\<close>

definition clean_state :: "replicated_state \<Rightarrow> bool" where
  "clean_state s = (distinct (map fst (observations_by_sensor s)) \<and>
     set (map fst (observations_by_sensor s)) = set consensus_sensors \<and> \<not> is_validated s)"

definition shift_state :: "(string, flt) dict \<Rightarrow> replicated_state \<Rightarrow> replicated_state" where
  "shift_state d s = s\<lparr>observations_by_sensor :=
     map (\<lambda>(name, p). (name, shift_payload (the (map_of d name)) p)) (observations_by_sensor s)\<rparr>"

lemma dict_of_distinct: "distinct (map fst es) \<Longrightarrow> dict_of es = es"
proof -
  have "distinct (map fst (d @ es)) \<Longrightarrow> foldl (\<lambda>d e. AList.update (fst e) (snd e) d) d es = d @ es" for d
  proof (induction es arbitrary: d)
    case (Cons e es)
    have "AList.update k v d = d @ [(k, v)]" if "k \<notin> set (map fst d)" for k and v :: 'b
      using that by (induction d) auto
    then have "AList.update (fst e) (snd e) d = d @ [e]" using Cons.prems by simp
    with Cons.IH [of "d @ [e]"] Cons.prems show ?case by simp
  qed simp
  from this [of "[]"] show "distinct (map fst es) \<Longrightarrow> dict_of es = es" by (simp add: dict_of_def)
qed

lemma mk_unvalidated: "\<not> is_validated s \<Longrightarrow> mk_EdgeLocalReplicatedState (rs_round_identity s) (owner_edge_id s)
    (rs_participating_edges s) obs False = Inr (s\<lparr>observations_by_sensor := obs\<rparr>)"
  by (cases s) (simp add: mk_EdgeLocalReplicatedState_def)

lemma inject_state_spec:
  assumes "clean_state s"
  shows "inject_state (offsets_by_edge faulty) s = Inr (case map_of (offsets_by_edge faulty) (owner_edge_id s) of
     None \<Rightarrow> s | Some d \<Rightarrow> shift_state d s)"
proof (cases "map_of (offsets_by_edge faulty) (owner_edge_id s)")
  case (Some d)
  then obtain i where d: "d = fault_offsets i" using offsets_by_edge_in by blast
  have "mapM (\<lambda>(name, p). attempt (getitem d name) (\<lambda>x. Inr (name, shift_payload x p))) (observations_by_sensor s)
    = Inr (map (\<lambda>(name, p). (name, shift_payload (the (map_of d name)) p)) (observations_by_sensor s))"
  proof (rule mapM_Inr)
    fix e assume "e \<in> set (observations_by_sensor s)"
    then have "fst e \<in> set consensus_sensors" using assms by (auto simp: clean_state_def)
    then obtain x where "getitem d (fst e) = Inr x" using getitem_fault_offsets d by blast
    then show "(case e of (name, p) \<Rightarrow> attempt (getitem d name) (\<lambda>x. Inr (name, shift_payload x p))) =
        Inr (case e of (name, p) \<Rightarrow> (name, shift_payload (the (map_of d name)) p))"
      by (simp add: case_prod_beta getitem_Inr)
  qed
  moreover have "distinct (map fst (map (\<lambda>(name, p). (name, shift_payload (the (map_of d name)) p)) (observations_by_sensor s)))"
    using assms by (simp add: clean_state_def case_prod_beta' o_def)
  ultimately show ?thesis
    using assms by (simp add: inject_state_def Some dict_of_distinct mk_unvalidated clean_state_def shift_state_def)
qed (simp add: inject_state_def)

definition injected :: "runtime_config \<Rightarrow> consensus_round_input \<Rightarrow> consensus_round_input" where
  "injected c ri = (if demo_fault_mode c = ''none'' then ri
     else ri\<lparr>replicated_states := map (\<lambda>s. case map_of (offsets_by_edge (resolve_faulty_edges c (ri_participating_edges ri)))
         (owner_edge_id s) of None \<Rightarrow> s | Some d \<Rightarrow> shift_state d s) (replicated_states ri)\<rparr>)"

lemma inject_faults_spec:
  assumes "wf_round_input ri" "\<forall>s \<in> set (replicated_states ri). clean_state s"
  shows "inject_faults ri c = Inr (injected c ri)"
proof -
  let ?f = "resolve_faulty_edges c (ri_participating_edges ri)"
  let ?g = "\<lambda>s. case map_of (offsets_by_edge ?f) (owner_edge_id s) of None \<Rightarrow> s | Some d \<Rightarrow> shift_state d s"
  have e: "?g s = s" if "?f = []" for s using that by (simp add: offsets_by_edge_def dict_of_def)
  have m: "mapM (inject_state (offsets_by_edge ?f)) (replicated_states ri) = Inr (map ?g (replicated_states ri))"
    using assms(2) by (intro mapM_Inr inject_state_spec) blast
  have "rs_round_identity (?g s) = rs_round_identity s \<and> owner_edge_id (?g s) = owner_edge_id s" for s
    by (simp add: shift_state_def split: option.split)
  then have "mk_ConsensusRoundInput (ri_round_identity ri) (ri_participating_edges ri) (map ?g (replicated_states ri)) =
      Inr (ri\<lparr>replicated_states := map ?g (replicated_states ri)\<rparr>)"
    using assms(1) by (simp add: wf_round_input_def mk_ConsensusRoundInput_Inr)
  with m e show ?thesis by (simp add: inject_faults_def injected_def Let_def)
qed

section \<open>Distances\<close>

text \<open>On magnitudes of a million each operation is off by at most \<open>1 / 8192\<close>.\<close>

lemma fl_near: "\<bar>x\<bar> \<le> 1000000000 \<Longrightarrow> \<bar>fl x - x\<bar> \<le> 1 / 8192"
  using fl_err_bound [of x] by simp

text \<open>The sum of three numbers, where a rounding is off by at most \<open>u\<close> on magnitudes up to \<open>C\<close>.\<close>

lemma cs_add_near:
  assumes fl: "\<forall>z. \<bar>z\<bar> \<le> C \<longrightarrow> \<bar>fl z - z\<bar> \<le> u" and u: "0 \<le> u" "4 * u \<le> 1"
    and b: "\<bar>hi\<bar> \<le> B" "\<bar>lo\<bar> \<le> 1" "\<bar>x\<bar> \<le> B" "2 * B + 2 \<le> C"
  shows "\<bar>fst (cs_add (hi, lo) x) - (hi + x)\<bar> \<le> u" "\<bar>snd (cs_add (hi, lo) x) - lo\<bar> \<le> 4 * u"
proof -
  define t where "t = fadd hi x"
  have t: "\<bar>t - (hi + x)\<bar> \<le> u" unfolding t_def fadd_def by (rule fl [rule_format]) (use b in linarith)
  then show "\<bar>fst (cs_add (hi, lo) x) - (hi + x)\<bar> \<le> u" by (simp add: cs_add_def Let_def t_def)
  have step: "\<bar>fadd (fsub y t) z\<bar> \<le> 3 * u" if "y + z = hi + x" "\<bar>y\<bar> \<le> B" "\<bar>z\<bar> \<le> B" for y z
  proof -
    have s: "\<bar>fsub y t - (y - t)\<bar> \<le> u" unfolding fsub_def by (rule fl [rule_format]) (use b u t that in linarith)
    have "\<bar>fadd (fsub y t) z - (fsub y t + z)\<bar> \<le> u"
      unfolding fadd_def by (rule fl [rule_format]) (use b u t that s in linarith)
    with s t that(1) show ?thesis by linarith
  qed
  define c where "c = (if \<bar>x\<bar> \<le> \<bar>hi\<bar> then fadd (fsub hi t) x else fadd (fsub x t) hi)"
  have c: "\<bar>c\<bar> \<le> 3 * u" using step [of hi x] step [of x hi] b by (auto simp: c_def)
  have "\<bar>fadd lo c - (lo + c)\<bar> \<le> u" unfolding fadd_def by (rule fl [rule_format]) (use b u c in linarith)
  moreover have "snd (cs_add (hi, lo) x) = fadd lo c" by (simp add: cs_add_def Let_def t_def c_def)
  ultimately show "\<bar>snd (cs_add (hi, lo) x) - lo\<bar> \<le> 4 * u" using c by linarith
qed

lemma py_sum_three:
  assumes fl: "\<forall>z. \<bar>z\<bar> \<le> C \<longrightarrow> \<bar>fl z - z\<bar> \<le> u" and u: "0 \<le> u" "8 * u \<le> 1"
    and b: "\<bar>a\<bar> \<le> A" "\<bar>b\<bar> \<le> A" "\<bar>c\<bar> \<le> A" "4 * A + 4 \<le> C"
  shows "\<bar>py_sum [a, b, c] - (a + b + c)\<bar> \<le> 11 * u"
proof -
  obtain h l where s: "cs_add (a, 0) b = (h, l)" by force
  obtain h' l' where s': "cs_add (h, l) c = (h', l')" by force
  have u4: "4 * u \<le> 1" using u by linarith
  have 1: "\<bar>h - (a + b)\<bar> \<le> u" "\<bar>l\<bar> \<le> 4 * u"
    using cs_add_near [OF fl u(1) u4, where hi = a and B = A and lo = 0 and x = b] b u by (simp_all add: s)
  have h: "\<bar>h\<bar> \<le> 2 * A + 1" "\<bar>l\<bar> \<le> 1" "\<bar>c\<bar> \<le> 2 * A + 1" using 1 b u by linarith+
  have "2 * (2 * A + 1) + 2 \<le> C" using b(4) by simp
  note h = h this
  have 2: "\<bar>h' - (h + c)\<bar> \<le> u" "\<bar>l' - l\<bar> \<le> 4 * u" using cs_add_near [OF fl u(1) u4 h] s' by auto
  have 3: "\<bar>fadd h' l' - (h' + l')\<bar> \<le> u" unfolding fadd_def by (rule fl [rule_format]) (use b u 1 2 in linarith)
  have "py_sum [a, b, c] = (if l' \<noteq> 0 then fadd h' l' else h')" by (simp add: s s' cs_to_double_def)
  moreover have "\<bar>fadd h' l' - (a + b + c)\<bar> \<le> 11 * u" "l' = 0 \<Longrightarrow> \<bar>h' - (a + b + c)\<bar> \<le> 11 * u"
    using 1 2 3 by linarith+
  ultimately show ?thesis by simp
qed

text \<open>A reading shifted by \<open>d\<close>, and the scaled difference of two of them.\<close>

definition near_shift :: "flt \<Rightarrow> flt \<Rightarrow> rat \<Rightarrow> bool" where
  "near_shift y x d = (\<bar>y - (x + d)\<bar> \<le> 1 / 500)"

lemma near_shift_id: "near_shift x x 0"
  by (simp add: near_shift_def)

lemma near_shift_round:
  assumes "plausible_reading x" "\<bar>e - d\<bar> \<le> 1 / 8192" "\<bar>d\<bar> \<le> 10000"
  shows "near_shift (py_round 3 (fadd x e)) x d"
proof -
  have n: "(2::rat) ^ 30 = 1073741824" "(2::rat) ^ 39 = 549755813888" "(2::rat) ^ 40 = 1099511627776" "(1::rat) / 2 ^ 13 = 1 / 8192"
    by simp_all
  have x: "\<bar>x\<bar> \<le> 1073741824" using assms(1) by (simp add: plausible_reading_def)
  have a: "\<bar>fadd x e - (x + e)\<bar> \<le> 1 / 8192"
    using fl_err_bound [of "x + e"] x assms(2,3) unfolding fadd_def n by linarith
  have "\<bar>py_round 3 (fadd x e) - fadd x e\<bar> \<le> 1 / 1600"
    by (rule py_round3_err) (use x assms(2,3) a n in linarith)
  with a assms(2) show ?thesis unfolding near_shift_def by linarith
qed

lemma scaled_difference_near:
  assumes "near_shift y x d" "near_shift y' x d'" "1 \<le> s" "\<bar>d - d'\<bar> \<le> 10000"
    and "21 * s \<le> 20 * \<bar>d - d'\<bar>" "\<bar>d - d'\<bar> \<le> s * 50"
  shows "1 \<le> fdiv \<bar>fsub y y'\<bar> s" "fdiv \<bar>fsub y y'\<bar> s \<le> 100"
proof -
  have s: "\<bar>fsub y y' - (y - y')\<bar> \<le> 1 / 8192"
    unfolding fsub_def by (rule fl_near) (use assms(1,2,4) in \<open>unfold near_shift_def, linarith\<close>)
  then have D: "\<bar>\<bar>fsub y y'\<bar> - \<bar>d - d'\<bar>\<bar> \<le> 1 / 200" using assms(1,2) unfolding near_shift_def by linarith
  have bounds: "s \<le> F \<and> F \<le> s * 100" if "\<bar>F - G\<bar> \<le> 1 / 200" "21 * s \<le> 20 * G" "G \<le> s * 50" for F G :: rat
  proof -
    have "F \<le> G + 1 / 200" "G \<le> F + 1 / 200" using that(1) by linarith+
    with that(2,3) assms(3) show ?thesis by linarith
  qed
  from bounds [OF D assms(5,6)]
  have "1 \<le> \<bar>fsub y y'\<bar> / s" "\<bar>fsub y y'\<bar> / s \<le> 100" using assms(3) by (simp_all add: field_simps)
  then show "1 \<le> fdiv \<bar>fsub y y'\<bar> s" "fdiv \<bar>fsub y y'\<bar> s \<le> 100"
    unfolding fdiv_def using fl.int_lower [of 1 "\<bar>fsub y y'\<bar> / s"] fl.int_upper [of "\<bar>fsub y y'\<bar> / s" 100] by simp_all
qed

lemma far_apart:
  assumes "\<And>name s. (name, s) \<in> set SENSOR_SCALES \<Longrightarrow> \<exists>d. scaled_difference a b (name, s) = Inr d \<and> 1 \<le> d \<and> d \<le> 100"
  shows "\<exists>d. normalized_pair_distance a b = Inr d \<and> PAIRWISE_CONSISTENCY_THRESHOLD < d"
proof -
  obtain x where x: "scaled_difference a b (''temperature'', 20) = Inr x" "1 \<le> x" "x \<le> 100"
    using assms [of "''temperature''" 20] by (auto simp: SENSOR_SCALES_def)
  obtain y where y: "scaled_difference a b (''pressure'', 3) = Inr y" "1 \<le> y" "y \<le> 100"
    using assms [of "''pressure''" 3] by (auto simp: SENSOR_SCALES_def)
  obtain z where z: "scaled_difference a b (''rpm'', 600) = Inr z" "1 \<le> z" "z \<le> 100"
    using assms [of "''rpm''" 600] by (auto simp: SENSOR_SCALES_def)
  have s: "\<bar>py_sum [x, y, z] - (x + y + z)\<bar> \<le> 11 * (1 / 8192)"
    by (rule py_sum_three [where C = 1000000000 and A = 100]) (use fl_near x y z in simp_all)
  have "\<bar>fdiv (py_sum [x, y, z]) 3 - py_sum [x, y, z] / 3\<bar> \<le> 1 / 8192"
    unfolding fdiv_def by (rule fl_near) (use s x y z in linarith)
  then have "9 / 10 \<le> fdiv (py_sum [x, y, z]) 3" using s x y z by linarith
  moreover have "\<bar>dec 35 2 - 35 / 100\<bar> \<le> 1 / 8192" unfolding dec_def using fl_near [of "35 / 100"] by simp
  then have "PAIRWISE_CONSISTENCY_THRESHOLD \<le> 1 / 2" unfolding PAIRWISE_CONSISTENCY_THRESHOLD_def by linarith
  moreover have "normalized_pair_distance a b = Inr (fdiv (py_sum [x, y, z]) 3)"
    by (simp add: normalized_pair_distance_def SENSOR_SCALES_def x(1) y(1) z(1) del: py_sum.simps)
  ultimately show ?thesis by (intro exI [of _ "fdiv (py_sum [x, y, z]) 3"]) simp
qed

section \<open>Injected rounds\<close>

definition nominal_shift :: "nat option \<Rightarrow> string \<Rightarrow> rat" where
  "nominal_shift k name = (case k of None \<Rightarrow> 0 | Some i \<Rightarrow>
     if name = ''temperature'' then if even i then 40 else - 60
     else if name = ''pressure'' then if even i then 34 / 10 else - 5
     else if even i then 1490 else - 2300)"

definition shifted :: "nat option \<Rightarrow> replicated_state \<Rightarrow> replicated_state" where
  "shifted k s = (case k of None \<Rightarrow> s | Some i \<Rightarrow> shift_state (fault_offsets i) s)"

text \<open>Every state reports the same plausible readings.\<close>

definition agreeing :: "consensus_round_input \<Rightarrow> (string \<Rightarrow> flt) \<Rightarrow> bool" where
  "agreeing ri reading = (\<forall>s \<in> set (replicated_states ri). \<forall>name \<in> set consensus_sensors.
     sensor_value s name = Inr (reading name) \<and> plausible_reading (reading name))"

lemma scales_sensors: "fst ` set SENSOR_SCALES = set consensus_sensors"
  by (auto simp: SENSOR_SCALES_def consensus_sensors_def)

lemma map_of_map_key: "map_of (map (\<lambda>(k, v). (k, f k v)) xs) k = map_option (f k) (map_of xs k)"
  by (induction xs) auto

lemma shifted_value:
  assumes "sensor_value s name = Inr v" "name \<in> set consensus_sensors" "plausible_reading v"
  shows "\<exists>y. sensor_value (shifted k s) name = Inr y \<and> near_shift y v (nominal_shift k name)"
proof (cases k)
  case None
  with assms show ?thesis by (simp add: shifted_def nominal_shift_def near_shift_id)
next
  case (Some i)
  from assms(1) obtain p where p: "map_of (observations_by_sensor s) name = Some p" "pv_value (pd_pv (hp_process_data p)) = v"
    by (auto simp: sensor_value_def attempt_eq_Inr getitem_Inr)
  let ?x = "the (map_of (fault_offsets i) name)"
  have "map_of (observations_by_sensor (shift_state (fault_offsets i) s)) name = Some (shift_payload ?x p)"
    by (simp add: shift_state_def map_of_map_key p(1))
  then have "sensor_value (shifted k s) name = Inr (py_round 3 (fadd v ?x))"
    by (simp add: sensor_value_def shifted_def Some shift_payload_def p(2))
  moreover have "\<bar>dec 34 1 - 34 / 10\<bar> \<le> 1 / 8192" unfolding dec_def using fl_near [of "34 / 10"] by simp
  then have "\<bar>?x - nominal_shift k name\<bar> \<le> 1 / 8192" "\<bar>nominal_shift k name\<bar> \<le> 10000"
    using assms(2) by (auto simp: consensus_sensors_def fault_offsets_def nominal_shift_def Some even_iff_mod_2_eq_zero)
  ultimately show ?thesis using near_shift_round [OF assms(3)] by blast
qed

lemma nominal_gap:
  assumes "map_option even k \<noteq> map_option even l" "(name, s) \<in> set SENSOR_SCALES"
  shows "21 * s \<le> 20 * \<bar>nominal_shift k name - nominal_shift l name\<bar> \<and>
    \<bar>nominal_shift k name - nominal_shift l name\<bar> \<le> s * 50 \<and> 1 \<le> s \<and> \<bar>nominal_shift k name - nominal_shift l name\<bar> \<le> 10000"
proof -
  have "name = ''temperature'' \<and> s = 20 \<or> name = ''pressure'' \<and> s = 3 \<or> name = ''rpm'' \<and> s = 600"
    using assms(2) by (simp add: SENSOR_SCALES_def)
  then show ?thesis
  proof (elim disjE conjE)
    assume "name = ''temperature''" "s = 20"
    then show ?thesis using assms(1) by (cases k; cases l) (simp_all add: nominal_shift_def)
  next
    assume "name = ''pressure''" "s = 3"
    then show ?thesis using assms(1) by (cases k; cases l) (simp_all add: nominal_shift_def)
  next
    assume "name = ''rpm''" "s = 600"
    then show ?thesis using assms(1) by (cases k; cases l) (simp_all add: nominal_shift_def)
  qed
qed

lemma kinds_far_apart:
  assumes "\<And>name. name \<in> set consensus_sensors \<Longrightarrow> sensor_value a name = Inr (r name) \<and> plausible_reading (r name)"
    and "\<And>name. name \<in> set consensus_sensors \<Longrightarrow> sensor_value b name = Inr (r name)"
    and "map_option even k \<noteq> map_option even l"
  shows "\<exists>d. normalized_pair_distance (shifted k a) (shifted l b) = Inr d \<and> PAIRWISE_CONSISTENCY_THRESHOLD < d"
proof (rule far_apart)
  fix name s assume sc: "(name, s) \<in> set SENSOR_SCALES"
  then have n: "name \<in> set consensus_sensors" using scales_sensors by force
  obtain y where y: "sensor_value (shifted k a) name = Inr y" "near_shift y (r name) (nominal_shift k name)"
    using shifted_value [of a name "r name" k] assms(1) n by blast
  obtain z where z: "sensor_value (shifted l b) name = Inr z" "near_shift z (r name) (nominal_shift l name)"
    using shifted_value [of b name "r name" l] assms n by blast
  note gap = nominal_gap [OF assms(3) sc]
  show "\<exists>d. scaled_difference (shifted k a) (shifted l b) (name, s) = Inr d \<and> 1 \<le> d \<and> d \<le> 100"
    using scaled_difference_near [OF y(2) z(2), of s] gap by (simp add: scaled_difference_def y(1) z(1))
qed

definition fault_index :: "string list \<Rightarrow> string \<Rightarrow> nat option" where
  "fault_index faulty e = map_of (rev (map (\<lambda>(i, e). (e, i)) (enumerate 0 faulty))) e"

lemma offsets_by_edge_index: "map_of (offsets_by_edge faulty) e = map_option fault_offsets (fault_index faulty e)"
proof -
  have "rev (map (\<lambda>(i, e). (e, fault_offsets i)) xs) = map (\<lambda>(e, i). (e, fault_offsets i)) (rev (map (\<lambda>(i, e). (e, i)) xs))"
    for xs :: "(nat \<times> string) list"
    by (simp add: rev_map [symmetric] case_prod_beta')
  then show ?thesis by (simp add: offsets_by_edge_def map_of_dict_of fault_index_def map_of_map)
qed

text \<open>The injected states, looked up by their owner.\<close>

lemma injected_by_edge:
  assumes "demo_fault_mode c \<noteq> ''none''" "resolve_faulty_edges c (ri_participating_edges ri) = faulty"
  shows "map_of (states_by_edge (replicated_states (injected c ri))) e =
    map_option (shifted (fault_index faulty e)) (map_of (states_by_edge (replicated_states ri)) e)"
proof -
  let ?g = "\<lambda>s. shifted (fault_index faulty (owner_edge_id s)) s"
  have "replicated_states (injected c ri) = map ?g (replicated_states ri)"
    using assms by (auto simp: injected_def offsets_by_edge_index shifted_def split: option.split)
  moreover have owner: "owner_edge_id (shifted k s) = owner_edge_id s" for k s
    by (simp add: shifted_def shift_state_def split: option.split)
  ultimately have "rev (map (\<lambda>s. (owner_edge_id s, s)) (replicated_states (injected c ri))) =
      map (\<lambda>(e, s). (e, shifted (fault_index faulty e) s)) (rev (map (\<lambda>s. (owner_edge_id s, s)) (replicated_states ri)))"
    by (simp add: rev_map o_def)
  then show ?thesis by (simp only: states_by_edge_def map_of_dict_of map_of_map_key)
qed

lemma injected_complete:
  assumes "complete_input ri" "\<forall>s \<in> set (replicated_states ri). clean_state s"
  shows "complete_input (injected c ri)" "ri_participating_edges (injected c ri) = ri_participating_edges ri"
proof -
  show parts: "ri_participating_edges (injected c ri) = ri_participating_edges ri" by (simp add: injected_def)
  have inj: "inject_faults ri c = Inr (injected c ri)"
    using assms by (intro inject_faults_spec) (simp_all add: complete_input_def)
  let ?g = "\<lambda>s. case map_of (offsets_by_edge (resolve_faulty_edges c (ri_participating_edges ri))) (owner_edge_id s) of
      None \<Rightarrow> s | Some d \<Rightarrow> shift_state d s"
  have g: "rs_round_identity (?g s) = rs_round_identity s" "owner_edge_id (?g s) = owner_edge_id s"
    "observes_all s \<Longrightarrow> observes_all (?g s)" for s
    by (auto simp: shift_state_def observes_all_def map_of_map_key split: option.split)
  have states: "replicated_states (injected c ri) = replicated_states ri \<or>
      replicated_states (injected c ri) = map ?g (replicated_states ri)"
    by (simp add: injected_def)
  have "wf_round_input (injected c ri)"
    using assms(1) states g(1,2) parts
    by (auto simp: complete_input_def wf_round_input_def mk_ConsensusRoundInput_Inr injected_def)
  moreover have "complete_round (ri_participating_edges ri) (replicated_states (injected c ri))"
    using states
  proof
    assume s: "replicated_states (injected c ri) = map ?g (replicated_states ri)"
    have "owner_edge_id ` set (map ?g (replicated_states ri)) = owner_edge_id ` set (replicated_states ri)"
      by (simp only: set_map image_image g(2))
    with assms(1) g(3) show ?thesis
      by (simp only: s) (auto simp: complete_input_def complete_round_def)
  qed (use assms(1) in \<open>simp add: complete_input_def\<close>)
  ultimately show "complete_input (injected c ri)" using assms(1) parts by (simp add: complete_input_def)
qed

text \<open>Two edges of an injected round agree when none of them is shifted, and differ when they are shifted differently.\<close>

lemma injected_compatible:
  assumes "complete_input ri" "agreeing ri reading" "e \<in> set (ri_participating_edges ri)" "p \<in> set (ri_participating_edges ri)"
    and fault: "demo_fault_mode c \<noteq> ''none''" "resolve_faulty_edges c (ri_participating_edges ri) = faulty"
  shows "fault_index faulty e = None \<Longrightarrow> fault_index faulty p = None \<Longrightarrow>
      compatible_edges (replicated_states (injected c ri)) e p"
    and "map_option even (fault_index faulty e) \<noteq> map_option even (fault_index faulty p) \<Longrightarrow>
      \<not> compatible_edges (replicated_states (injected c ri)) e p"
proof -
  have c: "complete_round (ri_participating_edges ri) (replicated_states ri)" using assms(1) by (simp add: complete_input_def)
  obtain a where a: "map_of (states_by_edge (replicated_states ri)) e = Some a" "observes_all a"
    by (rule complete_round_state [OF c assms(3)])
  obtain b where b: "map_of (states_by_edge (replicated_states ri)) p = Some b" "observes_all b"
    by (rule complete_round_state [OF c assms(4)])
  have "a \<in> set (replicated_states ri)" "b \<in> set (replicated_states ri)"
    using states_by_edge_in [OF a(1)] states_by_edge_in [OF b(1)] by simp_all
  with assms(2) have r: "\<And>n. n \<in> set consensus_sensors \<Longrightarrow> sensor_value a n = Inr (reading n) \<and> plausible_reading (reading n)"
    "\<And>n. n \<in> set consensus_sensors \<Longrightarrow> sensor_value b n = Inr (reading n)"
    by (auto simp: agreeing_def)
  note by_edge = injected_by_edge [OF fault]
  show "compatible_edges (replicated_states (injected c ri)) e p" if "fault_index faulty e = None" "fault_index faulty p = None"
  proof (rule same_readings_compatible)
    show "map_of (states_by_edge (replicated_states (injected c ri))) e = Some a"
      "map_of (states_by_edge (replicated_states (injected c ri))) p = Some b"
      using that by (simp_all add: by_edge a(1) b(1) shifted_def)
    show "same_readings a b" using r by (simp add: same_readings_def scales_sensors)
  qed (rule a(2))
  show "\<not> compatible_edges (replicated_states (injected c ri)) e p"
    if "map_option even (fault_index faulty e) \<noteq> map_option even (fault_index faulty p)"
  proof -
    have "\<exists>d. normalized_pair_distance (shifted (fault_index faulty e) a) (shifted (fault_index faulty p) b) = Inr d \<and>
        PAIRWISE_CONSISTENCY_THRESHOLD < d"
      by (rule kinds_far_apart [where r = reading]) (use r that in auto)
    then show ?thesis by (auto simp: compatible_edges_def by_edge a(1) b(1))
  qed
qed

text \<open>A round before injection: complete, clean, agreeing, of distinct edges.\<close>

definition healthy_round :: "consensus_round_input \<Rightarrow> (string \<Rightarrow> flt) \<Rightarrow> bool" where
  "healthy_round ri reading = (complete_input ri \<and> (\<forall>s \<in> set (replicated_states ri). clean_state s) \<and>
     agreeing ri reading \<and> distinct (ri_participating_edges ri))"

lemma distinct_filter_single: "distinct xs \<Longrightarrow> x \<in> set xs \<Longrightarrow> filter (\<lambda>y. y = x) xs = [x]"
  by (induction xs) (auto simp: filter_empty_conv)

lemma unsupported_edge:
  assumes "healthy_round ri reading" "demo_fault_mode c \<noteq> ''none''"
    and "resolve_faulty_edges c (ri_participating_edges ri) = faulty" "e \<in> set (ri_participating_edges ri)"
    and "\<And>p. p \<in> set (ri_participating_edges ri) \<Longrightarrow> p \<notin> P \<Longrightarrow>
      map_option even (fault_index faulty e) \<noteq> map_option even (fault_index faulty p)"
    and P: "finite P"
  shows "support (ri_participating_edges ri) (replicated_states (injected c ri)) e \<le> card (P - {e})"
proof -
  let ?es = "ri_participating_edges ri"
  have "support ?es (replicated_states (injected c ri)) e =
      card {p \<in> set ?es. p \<noteq> e \<and> compatible_edges (replicated_states (injected c ri)) e p}"
    using assms(1) by (simp add: support_def length_filter_card healthy_round_def)
  also have "\<dots> \<le> card (P - {e})"
  proof (rule card_mono)
    show "finite (P - {e})" using P by simp
    show "{p \<in> set ?es. p \<noteq> e \<and> compatible_edges (replicated_states (injected c ri)) e p} \<subseteq> P - {e}"
    proof
      fix p assume p: "p \<in> {p \<in> set ?es. p \<noteq> e \<and> compatible_edges (replicated_states (injected c ri)) e p}"
      show "p \<in> P - {e}"
      proof (rule ccontr)
        assume "p \<notin> P - {e}"
        with p have np: "p \<in> set ?es" "p \<notin> P" by auto
        have "\<not> compatible_edges (replicated_states (injected c ri)) e p"
          by (rule injected_compatible(2) [OF _ _ assms(4) np(1) assms(2,3), of reading])
            (use assms(1) assms(5) [OF np] in \<open>simp_all add: healthy_round_def\<close>)
        with p show False by simp
      qed
    qed
  qed
  finally show ?thesis .
qed

section \<open>Properties\<close>

text \<open>
  Fault injection is confined: identity, participants and the states of healthy edges
  stay as they are, every other state keeps its owner and has its readings shifted, and the
  injected round is again a complete input of the engine.
\<close>

theorem injection_confined:
  assumes "complete_input ri" "\<forall>s \<in> set (replicated_states ri). clean_state s"
  shows "\<exists>ri'. inject_faults ri c = Inr ri' \<and> complete_input ri' \<and> ri_round_identity ri' = ri_round_identity ri \<and>
    ri_participating_edges ri' = ri_participating_edges ri \<and>
    list_all2 (\<lambda>s s'. owner_edge_id s' = owner_edge_id s \<and>
      (owner_edge_id s \<notin> set (resolve_faulty_edges c (ri_participating_edges ri)) \<or> demo_fault_mode c = ''none'' \<longrightarrow> s' = s))
      (replicated_states ri) (replicated_states ri')"
proof -
  have "inject_faults ri c = Inr (injected c ri)"
    using assms by (intro inject_faults_spec) (simp_all add: complete_input_def)
  moreover have "list_all2 (\<lambda>s s'. owner_edge_id s' = owner_edge_id s \<and>
      (owner_edge_id s \<notin> set (resolve_faulty_edges c (ri_participating_edges ri)) \<or> demo_fault_mode c = ''none'' \<longrightarrow> s' = s))
      (replicated_states ri) (replicated_states (injected c ri))"
    by (auto simp: injected_def list_all2_same list.rel_map shift_state_def simp flip: offsets_by_edge_dom split: option.split)
  ultimately show ?thesis
    using injected_complete [OF assms] by (intro exI [of _ "injected c ri"]) (auto simp: injected_def)
qed

lemma single_fault_outcome:
  assumes "healthy_round ri reading" "demo_fault_mode c = ''single_edge_exclusion''" "demo_faulty_edges c = []"
    and "''edge-3'' \<in> set (ri_participating_edges ri)" "3 \<le> length (ri_participating_edges ri)"
  shows "\<exists>ri' pkg v. inject_faults ri c = Inr ri' \<and> evaluate ri' = Inr pkg \<and> ap_final_status pkg = SUCCESS \<and>
    map ex_edge_id (ap_exclusions pkg) = [''edge-3''] \<and> ap_valid_state pkg = Some v \<and>
    set (source_edges v) = set (ri_participating_edges ri) - {''edge-3''} \<and> ri' = injected c ri"
proof -
  let ?es = "ri_participating_edges ri" and ?ri = "injected c ri"
  let ?ss = "replicated_states ?ri"
  have h: "complete_input ri" "\<forall>s \<in> set (replicated_states ri). clean_state s" "agreeing ri reading" "distinct ?es"
    using assms(1) by (auto simp: healthy_round_def)
  have f: "demo_fault_mode c \<noteq> ''none''" "resolve_faulty_edges c ?es = [''edge-3'']"
    using assms(2-4) by (simp_all add: resolve_faulty_edges_def default_faulty_edges_def)
  have idx: "fault_index [''edge-3''] e = (if e = ''edge-3'' then Some 0 else None)" for e
    by (simp add: fault_index_def)
  note parts = injected_complete [OF h(1,2), of c]
  have "card (set ?es - {''edge-3''}) = length ?es - 1" using assms(4) h(4) by (simp add: distinct_card)
  then have H: "majority ?es (set ?es - {''edge-3''})" using assms(5) by (auto simp: majority_def)
  have "trusted ?es ?ss e" if "e \<in> set ?es" "e \<noteq> ''edge-3''" for e
  proof (rule clique_trusted [OF H])
    show "compatible_edges ?ss a b" if "a \<in> set ?es - {''edge-3''}" "b \<in> set ?es - {''edge-3''}" "a \<noteq> b" for a b
      using that by (intro injected_compatible(1) [OF h(1,3) _ _ f]) (auto simp: idx)
  qed (use that in auto)
  moreover have "support ?es ?ss ''edge-3'' \<le> card ({''edge-3''} - {''edge-3''})"
    by (rule unsupported_edge [OF assms(1) f assms(4)]) (auto simp: idx)
  then have "\<not> trusted ?es ?ss ''edge-3''" using assms(5) by (simp add: trusted_def)
  ultimately have tr: "trusted ?es ?ss e \<longleftrightarrow> e \<noteq> ''edge-3''" if "e \<in> set ?es" for e using that by blast
  have "\<exists>pkg v. evaluate ?ri = Inr pkg \<and> ap_final_status pkg = SUCCESS \<and> ap_valid_state pkg = Some v \<and>
      set ?es - {''edge-3''} \<subseteq> set (source_edges v) \<and> (set ?es - {''edge-3''}) \<inter> ex_edge_id ` set (ap_exclusions pkg) = {}"
  proof (rule clique_succeeds [OF parts(1)])
    show "majority (ri_participating_edges ?ri) (set ?es - {''edge-3''})" using H by (simp add: parts(2))
    show "compatible_edges ?ss a b" if "a \<in> set ?es - {''edge-3''}" "b \<in> set ?es - {''edge-3''}" "a \<noteq> b" for a b
      using that by (intro injected_compatible(1) [OF h(1,3) _ _ f]) (auto simp: idx)
  qed
  then obtain pkg v where v: "evaluate ?ri = Inr pkg" "ap_final_status pkg = SUCCESS" "ap_valid_state pkg = Some v"
    "set ?es - {''edge-3''} \<subseteq> set (source_edges v)" by (elim exE conjE) (rule that)
  have d: "map_option source_edges (ap_valid_state pkg) = Some (map owner_edge_id (trusted_states ?ri))"
    "map ex_edge_id (ap_exclusions pkg) = filter (\<lambda>e. \<not> trusted ?es ?ss e) ?es"
    using engine_decision [OF parts(1)] v(1,2) by (auto simp: parts(2))
  have "filter (\<lambda>e. \<not> trusted ?es ?ss e) ?es = filter (\<lambda>e. e = ''edge-3'') ?es"
    by (rule filter_cong) (simp_all add: tr)
  also have "\<dots> = [''edge-3'']"
    using distinct_filter_single [OF h(4) assms(4)] .
  finally have "map ex_edge_id (ap_exclusions pkg) = [''edge-3'']" by (simp add: d(2))
  note excluded = this
  have "e \<in> set ?es - {''edge-3''}" if "e \<in> set (source_edges v)" for e
  proof -
    from that obtain s where "s \<in> set (replicated_states ?ri)" "trusted ?es ?ss e" "e = owner_edge_id s"
      using d(1) v(3) by (auto simp: trusted_states_def parts(2))
    moreover from this have "e \<in> set ?es"
      using wf_round_input_owner [of ?ri s] parts by (simp add: complete_input_def)
    ultimately show ?thesis using tr [of e] by blast
  qed
  with v(4) have sources: "set (source_edges v) = set ?es - {''edge-3''}" by blast
  have "inject_faults ri c = Inr ?ri"
    using h(1,2) by (intro inject_faults_spec) (simp_all add: complete_input_def)
  then show ?thesis by - (intro exI conjI, assumption, rule v(1), rule v(2), rule excluded, rule v(3), rule sources, rule refl)
qed

text \<open>
  C5. The single-edge scenario is tolerated: in a healthy round of three or more edges the
  shifted edge is the only one excluded, and consensus succeeds without it.
\<close>

theorem single_fault_tolerated:
  assumes "healthy_round ri reading" "demo_fault_mode c = ''single_edge_exclusion''" "demo_faulty_edges c = []"
    and "''edge-3'' \<in> set (ri_participating_edges ri)" "3 \<le> length (ri_participating_edges ri)"
  shows "\<exists>ri' pkg v. inject_faults ri c = Inr ri' \<and> evaluate ri' = Inr pkg \<and> ap_final_status pkg = SUCCESS \<and>
    map ex_edge_id (ap_exclusions pkg) = [''edge-3''] \<and> ap_valid_state pkg = Some v \<and>
    set (source_edges v) = set (ri_participating_edges ri) - {''edge-3''}"
  using single_fault_outcome [OF assms] by (elim exE conjE) (intro exI conjI, assumption+)

definition agreeing_input :: consensus_round_input where
  "agreeing_input = sample_input (60, 3, 1500) (60, 3, 1500)"

lemma agreeing_input_healthy:
  "healthy_round agreeing_input (\<lambda>n. if n = ''temperature'' then 60 else if n = ''pressure'' then 3 else 1500)"
proof -
  have "agreeing agreeing_input (\<lambda>n. if n = ''temperature'' then 60 else if n = ''pressure'' then 3 else 1500)"
    by (simp add: agreeing_def agreeing_input_def sample_input_def sample_state_def sensor_value_def consensus_sensors_def
        sample_payload_def plausible_reading_def)
  moreover have "\<forall>s \<in> set (replicated_states agreeing_input). clean_state s"
    by (simp add: agreeing_input_def sample_input_def sample_state_def clean_state_def consensus_sensors_def)
  ultimately show ?thesis
    unfolding healthy_round_def by (simp add: agreeing_input_def sample_input_complete) (simp add: sample_input_def sample_edges_def)
qed

definition fault_config :: "string \<Rightarrow> runtime_config" where
  "fault_config mode = default_config\<lparr>demo_fault_mode := mode\<rparr>"

theorem injection_confined_witness:
  "\<exists>ri'. inject_faults agreeing_input (fault_config ''quorum_loss'') = Inr ri' \<and> complete_input ri'"
  using injection_confined [of agreeing_input "fault_config ''quorum_loss''"] agreeing_input_healthy
  unfolding healthy_round_def by blast

lemma agreeing_input_edges: "ri_participating_edges agreeing_input = [''edge-1'', ''edge-2'', ''edge-3'']"
  by (simp add: agreeing_input_def sample_input_def sample_edges_def)

lemma fault_config_fields: "demo_fault_mode (fault_config mode) = mode" "demo_faulty_edges (fault_config mode) = []"
  by (simp_all add: fault_config_def default_config_def)

theorem single_fault_tolerated_witness:
  "\<exists>ri' pkg v. inject_faults agreeing_input (fault_config ''single_edge_exclusion'') = Inr ri' \<and>
     evaluate ri' = Inr pkg \<and> ap_final_status pkg = SUCCESS \<and> map ex_edge_id (ap_exclusions pkg) = [''edge-3''] \<and>
     ap_valid_state pkg = Some v \<and> set (source_edges v) = set (ri_participating_edges agreeing_input) - {''edge-3''}"
  by (rule single_fault_tolerated [OF agreeing_input_healthy])
    (simp_all add: fault_config_fields agreeing_input_edges)

lemma quorum_loss_outcome:
  assumes "healthy_round ri reading" "demo_fault_mode c = ''quorum_loss''" "demo_faulty_edges c = []"
    and "{''edge-2'', ''edge-3''} \<subseteq> set (ri_participating_edges ri)" "length (ri_participating_edges ri) \<le> 4"
  shows "\<exists>ri' pkg. inject_faults ri c = Inr ri' \<and> evaluate ri' = Inr pkg \<and> ap_final_status pkg = FAILED_CONSENSUS \<and>
    ap_valid_state pkg = None \<and> map ex_edge_id (ap_exclusions pkg) = ri_participating_edges ri \<and> ri' = injected c ri"
proof -
  let ?es = "ri_participating_edges ri" and ?ri = "injected c ri"
  let ?ss = "replicated_states ?ri"
  have h: "complete_input ri" "\<forall>s \<in> set (replicated_states ri). clean_state s" "distinct ?es"
    using assms(1) by (auto simp: healthy_round_def)
  have f: "demo_fault_mode c \<noteq> ''none''" "resolve_faulty_edges c ?es = [''edge-2'', ''edge-3'']"
    using assms(2-4) by (simp_all add: resolve_faulty_edges_def default_faulty_edges_def)
  have idx: "fault_index [''edge-2'', ''edge-3''] e =
      (if e = ''edge-2'' then Some 0 else if e = ''edge-3'' then Some 1 else None)" for e
    by (simp add: fault_index_def)
  note parts = injected_complete [OF h(1,2), of c]
  have two: "2 \<le> length ?es"
    using h(1) card_length [of ?es] by (simp add: complete_input_def)
  have bound: "support ?es ?ss e + 1 < length ?es div 2 + 1" if e: "e \<in> set ?es" for e
  proof (cases "e \<in> {''edge-2'', ''edge-3''}")
    case True
    have "support ?es ?ss e \<le> card ({e} - {e})"
      by (rule unsupported_edge [OF assms(1) f e]) (use True in \<open>auto simp: idx\<close>)
    with two show ?thesis by simp
  next
    case False
    let ?P = "set ?es - {''edge-2'', ''edge-3''}"
    have "support ?es ?ss e \<le> card (?P - {e})"
      by (rule unsupported_edge [OF assms(1) f e]) (use False in \<open>auto simp: idx\<close>)
    also have "?P - {e} = set ?es - {''edge-2'', ''edge-3'', e}" by auto
    also have "card \<dots> = length ?es - 3"
      using assms(4) False e h(3) by (subst card_Diff_subset) (auto simp: distinct_card)
    finally have "support ?es ?ss e \<le> length ?es - 3" .
    moreover have "card {''edge-2'', ''edge-3'', e} \<le> length ?es"
      using assms(4) e by (intro order_trans [OF card_mono card_length]) auto
    moreover have "card {''edge-2'', ''edge-3'', e} = 3" using False by auto
    ultimately have "length ?es = 3 \<or> length ?es = 4" "support ?es ?ss e \<le> length ?es - 3" using assms(5) by linarith+
    then show ?thesis by auto
  qed
  then have nobody: "\<not> trusted ?es ?ss e" if "e \<in> set ?es" for e
    using bound [OF that] by (simp add: trusted_def)
  have none: "trusted_states ?ri = []"
    using nobody wf_round_input_owner [of ?ri] parts by (auto simp: trusted_states_def complete_input_def filter_empty_conv)
  obtain pkg where p: "evaluate ?ri = Inr pkg"
    "ap_final_status pkg = SUCCESS \<longleftrightarrow> length ?es div 2 + 1 \<le> length (trusted_states ?ri)"
    "map_option source_edges (ap_valid_state pkg) =
      (if ap_final_status pkg = SUCCESS then Some (map owner_edge_id (trusted_states ?ri)) else None)"
    "map ex_edge_id (ap_exclusions pkg) = filter (\<lambda>e. \<not> trusted ?es ?ss e) ?es"
    using engine_decision [OF parts(1)] by (auto simp: parts(2))
  have "ap_final_status pkg \<noteq> SUCCESS" using p(2) by (simp add: none)
  then have "ap_final_status pkg = FAILED_CONSENSUS" "ap_valid_state pkg = None"
    using p(3) by (cases "ap_final_status pkg"; simp)+
  moreover have "map ex_edge_id (ap_exclusions pkg) = ?es" using nobody by (simp add: p(4))
  moreover have "inject_faults ri c = Inr ?ri"
    using h(1,2) by (intro inject_faults_spec) (simp_all add: complete_input_def)
  ultimately show ?thesis using p(1) by blast
qed

text \<open>
  The quorum-loss scenario always loses the quorum: in a healthy round of at most four
  edges the two edges are shifted apart from each other and from the rest, nobody is
  trusted, and consensus fails.
\<close>

theorem quorum_loss_fails:
  assumes "healthy_round ri reading" "demo_fault_mode c = ''quorum_loss''" "demo_faulty_edges c = []"
    and "{''edge-2'', ''edge-3''} \<subseteq> set (ri_participating_edges ri)" "length (ri_participating_edges ri) \<le> 4"
  shows "\<exists>ri' pkg. inject_faults ri c = Inr ri' \<and> evaluate ri' = Inr pkg \<and> ap_final_status pkg = FAILED_CONSENSUS \<and>
    ap_valid_state pkg = None \<and> map ex_edge_id (ap_exclusions pkg) = ri_participating_edges ri"
  using quorum_loss_outcome [OF assms] by (elim exE conjE) (intro exI conjI, assumption+)

theorem quorum_loss_fails_witness:
  "\<exists>ri' pkg. inject_faults agreeing_input (fault_config ''quorum_loss'') = Inr ri' \<and>
     evaluate ri' = Inr pkg \<and> ap_final_status pkg = FAILED_CONSENSUS \<and> ap_valid_state pkg = None \<and>
     map ex_edge_id (ap_exclusions pkg) = ri_participating_edges agreeing_input"
  by (rule quorum_loss_fails [OF agreeing_input_healthy]) (simp_all add: fault_config_fields agreeing_input_edges)

end
