(* ===== verification/ReplayStage.thy ===== *)
theory ReplayStage
  imports ScadaService Scenario
begin

text \<open>
  The logical-side SCADA stage of one cycle, \<open>configure_scada_replay_runtime_stage\<close> of
  \<open>lstm_service/replay_behavior.py\<close>: the scenario of the cycle becomes overrides of the
  supervisory service.
\<close>

section \<open>Model\<close>

record replay_stage =
  rp_active :: bool
  rp_mode :: string
  rp_start_cycle :: int
  rp_replay_source_round_id :: "string option"

definition replay_stage_to_dict :: "replay_stage \<Rightarrow> pyval" where
  "replay_stage_to_dict s = PDict [(''active'', PBool (rp_active s)), (''mode'', PStr (rp_mode s)),
     (''start_cycle'', PInt (rp_start_cycle s)),
     (''replay_source_round_id'', opt_str (rp_replay_source_round_id s))]"

definition resolve_scada_offset :: "string \<Rightarrow> runtime_config \<Rightarrow> flt" where
  "resolve_scada_offset name c = (let base = demo_scada_offset_value c in
     if name = ''temperature'' then py_round 3 base
     else if name = ''pressure'' then py_round 3 (fdiv base 10)
     else py_round 3 (fmul base 50))"

text \<open>The loop over the sensors.\<close>

fun stage_overrides ::
  "runtime_config \<Rightarrow> string \<Rightarrow> string option \<Rightarrow> string list \<Rightarrow> scada_service \<Rightarrow> scada_service res" where
  "stage_overrides c mode src [] sv = Inr sv"
| "stage_overrides c mode src (name # names) sv =
     attempt (if mode = ''freeze'' then set_sensor_override name ''freeze'' 0 None None sv
       else if mode = ''replay'' then set_sensor_override name ''replay'' 0 None src sv
       else if mode = ''offset'' then set_sensor_override name ''offset'' (resolve_scada_offset name c) None None sv
       else Inr sv)
     (stage_overrides c mode src names)"

definition configure_scada_replay_runtime_stage ::
  "runtime_config \<Rightarrow> int \<Rightarrow> scada_service \<Rightarrow> (replay_stage \<times> scada_service) res" where
  "configure_scada_replay_runtime_stage c cycle_index sv =
     (let sv0 = clear_overrides sv; mode = demo_scada_mode c; start = demo_scada_start_cycle c in
      if mode \<in> {''none'', ''match''} \<or> start \<le> 0 \<or> cycle_index < start
        then Inr (\<lparr>rp_active = False, rp_mode = ''match'', rp_start_cycle = start, rp_replay_source_round_id = None\<rparr>, sv0)
      else let src = (if mode = ''replay'' \<and> sv_history sv0 \<noteq> []
          then Some (st_source_round_id (hd (sv_history sv0))) else None) in
        attempt (stage_overrides c mode src SUPPORTED_SCADA_SENSORS sv0) (\<lambda>sv'.
          Inr (\<lparr>rp_active = True, rp_mode = mode, rp_start_cycle = start, rp_replay_source_round_id = src\<rparr>, sv')))"

section \<open>Laws\<close>

text \<open>The override a stage prescribes for a sensor.\<close>

definition stage_override :: "runtime_config \<Rightarrow> replay_stage \<Rightarrow> string \<Rightarrow> sensor_override" where
  "stage_override c stage name =
     (if rp_active stage \<and> rp_mode stage = ''freeze'' then default_override\<lparr>ov_mode := ''freeze''\<rparr>
      else if rp_active stage \<and> rp_mode stage = ''replay''
        then default_override\<lparr>ov_mode := ''replay'', ov_replay_round_id := rp_replay_source_round_id stage\<rparr>
      else if rp_active stage \<and> rp_mode stage = ''offset''
        then default_override\<lparr>ov_mode := ''offset'', ov_offset := resolve_scada_offset name c\<rparr>
      else default_override)"

lemma dpop_empty [simp]: "dpop k [] = []"
  by (simp add: dpop_def)

lemma set_override_ok:
  assumes "name \<in> set SUPPORTED_SCADA_SENSORS" "mode \<in> {''freeze'', ''replay'', ''offset''}" "sv_frozen_values sv = []"
  shows "set_sensor_override name mode off None src sv = Inr (sv\<lparr>sv_overrides :=
      AList.update name \<lparr>ov_mode = mode, ov_offset = off, ov_fixed_value = None, ov_replay_round_id = src\<rparr> (sv_overrides sv)\<rparr>)"
  using assms by (cases sv)
    (auto simp: set_sensor_override_def validate_sensor_name_def SUPPORTED_OVERRIDE_MODES_def Let_def)

lemma clear_overrides_fields [simp]:
  "sv_frozen_values (clear_overrides sv) = []" "sv_history (clear_overrides sv) = sv_history sv"
  "sv_current_state (clear_overrides sv) = sv_current_state sv"
  "sv_compressor_id (clear_overrides sv) = sv_compressor_id sv"
  by (simp_all add: clear_overrides_def)

lemma stage_overrides_spec:
  assumes "set names \<subseteq> set SUPPORTED_SCADA_SENSORS" "distinct names" "sv_frozen_values sv = []"
    and "\<And>n. n \<in> set names \<Longrightarrow> map_of (sv_overrides sv) n = Some default_override"
    and stage: "rp_active stage" "rp_mode stage = mode" "rp_replay_source_round_id stage = src"
  shows "\<exists>ovs. stage_overrides c mode src names sv = Inr (sv\<lparr>sv_overrides := ovs\<rparr>) \<and>
    (\<forall>n. map_of ovs n = (if n \<in> set names then Some (stage_override c stage n) else map_of (sv_overrides sv) n))"
  using assms(1-4)
proof (induction names arbitrary: sv)
  case Nil
  show ?case by (intro exI [of _ "sv_overrides sv"]) simp
next
  case (Cons name names)
  define f where "f = (if mode = ''freeze'' then set_sensor_override name ''freeze'' 0 None None sv
       else if mode = ''replay'' then set_sensor_override name ''replay'' 0 None src sv
       else if mode = ''offset'' then set_sensor_override name ''offset'' (resolve_scada_offset name c) None None sv
       else Inr sv)"
  have name: "name \<in> set SUPPORTED_SCADA_SENSORS" using Cons.prems(1) by simp
  have "\<exists>ovs. f = Inr (sv\<lparr>sv_overrides := ovs\<rparr>) \<and>
      (\<forall>n. map_of ovs n = (if n = name then Some (stage_override c stage name) else map_of (sv_overrides sv) n))"
  proof (cases "mode \<in> {''freeze'', ''replay'', ''offset''}")
    case True
    note ok = set_override_ok [OF name _ Cons.prems(3)]
    have "f = Inr (sv\<lparr>sv_overrides := AList.update name (stage_override c stage name) (sv_overrides sv)\<rparr>)"
      using True stage by (auto simp: f_def ok stage_override_def default_override_def)
    then show ?thesis by (intro exI [of _ "AList.update name (stage_override c stage name) (sv_overrides sv)"]) simp
  next
    case False
    then show ?thesis
      using Cons.prems(4) [of name] stage
      by (intro exI [of _ "sv_overrides sv"]) (auto simp: f_def stage_override_def)
  qed
  then obtain ovs where ovs: "f = Inr (sv\<lparr>sv_overrides := ovs\<rparr>)"
    "\<And>n. map_of ovs n = (if n = name then Some (stage_override c stage name) else map_of (sv_overrides sv) n)"
    by blast
  have "map_of (sv_overrides (sv\<lparr>sv_overrides := ovs\<rparr>)) n = Some default_override" if "n \<in> set names" for n
    using that Cons.prems(2,4) by (auto simp: ovs(2))
  then obtain ovs' where "stage_overrides c mode src names (sv\<lparr>sv_overrides := ovs\<rparr>) =
      Inr (sv\<lparr>sv_overrides := ovs, sv_overrides := ovs'\<rparr>)"
    "\<forall>n. map_of ovs' n = (if n \<in> set names then Some (stage_override c stage n)
       else map_of (sv_overrides (sv\<lparr>sv_overrides := ovs\<rparr>)) n)"
    using Cons.IH [of "sv\<lparr>sv_overrides := ovs\<rparr>"] Cons.prems(1-3) by auto
  moreover have "stage_overrides c mode src (name # names) sv = attempt f (stage_overrides c mode src names)"
    by (simp add: f_def)
  ultimately show ?case using ovs Cons.prems(2) by (auto intro!: exI [of _ ovs'])
qed

lemma configure_stage_spec:
  shows "\<exists>stage ovs. configure_scada_replay_runtime_stage c i sv =
      Inr (stage, (clear_overrides sv)\<lparr>sv_overrides := ovs\<rparr>) \<and>
    (\<forall>name \<in> set SUPPORTED_SCADA_SENSORS. map_of ovs name = Some (stage_override c stage name)) \<and>
    (rp_active stage \<longleftrightarrow> demo_scada_mode c \<notin> {''none'', ''match''} \<and> 0 < demo_scada_start_cycle c \<and>
       demo_scada_start_cycle c \<le> i) \<and>
    rp_mode stage = (if rp_active stage then demo_scada_mode c else ''match'') \<and>
    rp_replay_source_round_id stage = (if rp_active stage \<and> demo_scada_mode c = ''replay'' \<and> sv_history sv \<noteq> []
      then Some (st_source_round_id (hd (sv_history sv))) else None)"
proof (cases "demo_scada_mode c \<in> {''none'', ''match''} \<or> demo_scada_start_cycle c \<le> 0 \<or> i < demo_scada_start_cycle c")
  case True
  let ?s = "\<lparr>rp_active = False, rp_mode = ''match'', rp_start_cycle = demo_scada_start_cycle c, rp_replay_source_round_id = None\<rparr>"
  have "configure_scada_replay_runtime_stage c i sv =
      Inr (?s, (clear_overrides sv)\<lparr>sv_overrides := sv_overrides (clear_overrides sv)\<rparr>)"
    using True by (simp add: configure_scada_replay_runtime_stage_def Let_def)
  then show ?thesis using True
    by (intro exI [of _ ?s] exI [of _ "sv_overrides (clear_overrides sv)"])
      (auto simp: clear_overrides_map stage_override_def)
next
  case False
  let ?src = "if demo_scada_mode c = ''replay'' \<and> sv_history sv \<noteq> [] then Some (st_source_round_id (hd (sv_history sv))) else None"
  let ?s = "\<lparr>rp_active = True, rp_mode = demo_scada_mode c, rp_start_cycle = demo_scada_start_cycle c,
    rp_replay_source_round_id = ?src\<rparr>"
  obtain ovs where "stage_overrides c (demo_scada_mode c) ?src SUPPORTED_SCADA_SENSORS (clear_overrides sv) =
      Inr ((clear_overrides sv)\<lparr>sv_overrides := ovs\<rparr>)"
    "\<forall>n. map_of ovs n = (if n \<in> set SUPPORTED_SCADA_SENSORS then Some (stage_override c ?s n)
       else map_of (sv_overrides (clear_overrides sv)) n)"
    using stage_overrides_spec [OF order_refl distinct_supported, of "clear_overrides sv" ?s "demo_scada_mode c" ?src c]
    by (auto simp: clear_overrides_map)
  then show ?thesis using False
    by (intro exI [of _ ?s] exI [of _ ovs])
      (auto simp: configure_scada_replay_runtime_stage_def Let_def)
qed


lemma supported_stage_override: "ov_mode (stage_override c stage n) \<in> set SUPPORTED_OVERRIDE_MODES"
  by (simp add: stage_override_def SUPPORTED_OVERRIDE_MODES_def)

lemma configured_inv:
  assumes "configure_scada_replay_runtime_stage c i sv = Inr (stage, sv1)"
  shows "service_inv sv1" "sv_frozen_values sv1 = []" "sv_history sv1 = sv_history sv"
    "name \<in> set SUPPORTED_SCADA_SENSORS \<Longrightarrow> map_of (sv_overrides sv1) name = Some (stage_override c stage name)"
proof -
  obtain ovs where o: "sv1 = (clear_overrides sv)\<lparr>sv_overrides := ovs\<rparr>"
    "\<forall>name \<in> set SUPPORTED_SCADA_SENSORS. map_of ovs name = Some (stage_override c stage name)"
    using configure_stage_spec [of c i sv] assms by auto
  then show "service_inv sv1" by (simp add: service_inv_def supported_stage_override)
  show "sv_frozen_values sv1 = []" "sv_history sv1 = sv_history sv" by (simp_all add: o(1))
  show "name \<in> set SUPPORTED_SCADA_SENSORS \<Longrightarrow> map_of (sv_overrides sv1) name = Some (stage_override c stage name)"
    using o by simp
qed

text \<open>
  Without frozen values every mode but offset shows the present reading, rounded.
\<close>

lemma unfrozen_value:
  assumes "ov_mode ov \<in> {''match'', ''freeze'', ''replay''}" "ov_fixed_value ov = None"
  shows "supervisory_value [] name y ov = (if ov_mode ov = ''freeze'' then py_round 3 y else y)"
  using assms by (auto simp: supervisory_value_def)

lemma present_values_never_alert:
  assumes "scada_ready v src sv" "sv_frozen_values sv = []"
    and "\<forall>n \<in> set SUPPORTED_SCADA_SENSORS. \<exists>ov. map_of (sv_overrides sv) n = Some ov \<and> ov_mode ov \<noteq> ''offset'' \<and>
      ov_fixed_value ov = None"
    and "\<forall>(n, x) \<in> set (sensor_values v). plausible_reading x"
  shows "\<exists>st sv' r. update_from_consensused_state v src sv = Inr (st, sv') \<and>
    compare_consensused_to_scada (Some v) st None None = Inr r \<and> all_within_tolerance r \<and>
    build_scada_divergence_alert (build_scada_comparison_output r) = Inr None"
proof -
  obtain st sv' where u: "update_from_consensused_state v src sv = Inr (st, sv')"
    "\<forall>n \<in> set SUPPORTED_SCADA_SENSORS. \<exists>x ov s. map_of (sensor_values v) n = Some x \<and>
       map_of (sv_overrides sv) n = Some ov \<and> map_of (st_sensor_values st) n = Some s \<and>
       ss_mode s = ov_mode ov \<and> ss_value s = supervisory_value (sv_frozen_values sv) n (py_round 3 x) ov"
    using scada_update_spec [OF assms(1)] by blast
  note sensor = bspec [OF u(2), unfolded supported_comparison]
  have each: "\<exists>c. compare_sensor v st default_tolerance_profile [] n = Inr c \<and> sc_within_tolerance c"
    if n: "n \<in> set COMPARISON_SENSOR_ORDER" for n
  proof -
    obtain x ov s where s: "map_of (sensor_values v) n = Some x" "map_of (sv_overrides sv) n = Some ov"
      "map_of (st_sensor_values st) n = Some s" "ss_value s = supervisory_value [] n (py_round 3 x) ov"
      using sensor [OF n] assms(2) by auto
    have n': "n \<in> set SUPPORTED_SCADA_SENSORS" using n by (simp add: supported_comparison)
    have pl: "plausible_reading x" using assms(4) map_of_SomeD [OF s(1)] by auto
    have "ov_mode ov \<in> set SUPPORTED_OVERRIDE_MODES" "ov_mode ov \<noteq> ''offset''" "ov_fixed_value ov = None"
      using assms(1) bspec [OF assms(3) n'] n' s(2) by (auto simp: scada_ready_def service_inv_def)
    then have "ss_value s = py_round 3 x"
      by (auto simp: s(4) unfrozen_value SUPPORTED_OVERRIDE_MODES_def plausible_idem [OF pl])
    then show ?thesis using compare_equal pl s(1,3) n by blast
  qed
  have v: "set COMPARISON_SENSOR_ORDER \<subseteq> set (map fst (sensor_values v))"
    using assms(1) by (simp add: scada_ready_def supported_comparison)
  have st: "set COMPARISON_SENSOR_ORDER \<subseteq> set (map fst (st_sensor_values st))"
    by (rule dom_keys) (use sensor in blast)
  from compare_all_within [OF v st each] u(1) show ?thesis by blast
qed

lemma offset_stage_diverges:
  assumes "configure_scada_replay_runtime_stage c i sv = Inr (stage, sv1)" "rp_active stage" "demo_scada_mode c = ''offset''"
    and "set SUPPORTED_SCADA_SENSORS \<subseteq> set (map fst (sensor_values v))" "\<forall>s. src = Some s \<longrightarrow> observes_all s"
    and "3 \<le> \<bar>demo_scada_offset_value c\<bar>" "\<bar>demo_scada_offset_value c\<bar> \<le> 1000000"
    and "map_of (sensor_values v) ''temperature'' = Some x" "plausible_reading x"
  shows "\<exists>st sv2 r a. update_from_consensused_state v src sv1 = Inr (st, sv2) \<and>
    compare_consensused_to_scada (Some v) st None None = Inr r \<and>
    build_scada_divergence_alert (build_scada_comparison_output r) = Inr (Some a) \<and>
    ''temperature'' \<in> set (divergent_sensors (build_scada_comparison_output r))"
proof -
  note cfg = configured_inv [OF assms(1)]
  let ?ov = "default_override\<lparr>ov_mode := ''offset'', ov_offset := resolve_scada_offset ''temperature'' c\<rparr>"
  have t: "''temperature'' \<in> set SUPPORTED_SCADA_SENSORS" by (simp add: SUPPORTED_SCADA_SENSORS_def)
  have "rp_mode stage = ''offset''"
    using configure_stage_spec [of c i sv] assms(1-3) by (auto split: if_splits)
  then have ov: "map_of (sv_overrides sv1) ''temperature'' = Some ?ov"
    using cfg(4) [OF t] assms(2) by (simp add: stage_override_def)
  have ready: "scada_ready v src sv1"
    using assms(4,5) cfg(1) by (auto simp: scada_ready_def split: option.split)
  have err: "\<bar>py_round 3 (demo_scada_offset_value c) - demo_scada_offset_value c\<bar> \<le> 1 / 1600"
    by (rule py_round3_err) (use assms(7) in simp)
  have off: "ov_offset ?ov = py_round 3 (demo_scada_offset_value c)"
    by (simp add: resolve_scada_offset_def)
  have "\<exists>st sv2 r a. update_from_consensused_state v src sv1 = Inr (st, sv2) \<and>
    compare_consensused_to_scada (Some v) st (Some default_tolerance_profile) None = Inr r \<and>
    build_scada_divergence_alert (build_scada_comparison_output r) = Inr (Some a) \<and>
    ''temperature'' \<in> set (divergent_sensors (build_scada_comparison_output r))"
  proof (rule offset_detected [OF ready t ov _ assms(8,9), where t = 2])
    show "2 + 1 / 100 \<le> \<bar>ov_offset ?ov\<bar>" unfolding off using err assms(6) by linarith
    have "(2::rat) ^ 30 = 1073741824" by simp
    then show "\<bar>ov_offset ?ov\<bar> \<le> 2 ^ 30" unfolding off using err assms(7) by linarith
  qed (simp_all add: value_for_def COMPARISON_SENSOR_ORDER_def default_tolerance_profile_def)
  moreover have "compare_consensused_to_scada (Some v) st None None = compare_consensused_to_scada (Some v) st
      (Some default_tolerance_profile) None" for st
    by (simp add: compare_consensused_to_scada_def)
  ultimately show ?thesis by simp
qed

lemma freeze_stage_agrees:
  assumes "configure_scada_replay_runtime_stage c i sv = Inr (stage, sv1)" "demo_scada_mode c = ''freeze''"
    and "set SUPPORTED_SCADA_SENSORS \<subseteq> set (map fst (sensor_values v))" "\<forall>s. src = Some s \<longrightarrow> observes_all s"
    and "\<forall>(n, x) \<in> set (sensor_values v). plausible_reading x"
  shows "\<exists>st sv2 r. update_from_consensused_state v src sv1 = Inr (st, sv2) \<and>
    compare_consensused_to_scada (Some v) st None None = Inr r \<and> all_within_tolerance r \<and>
    build_scada_divergence_alert (build_scada_comparison_output r) = Inr None"
proof -
  note cfg = configured_inv [OF assms(1)]
  have m: "rp_mode stage \<in> {''freeze'', ''match''}"
    using configure_stage_spec [of c i sv] assms(1,2) by (auto split: if_splits)
  have "scada_ready v src sv1"
    using assms(3,4) cfg(1) by (auto simp: scada_ready_def split: option.split)
  moreover have "\<exists>ov. map_of (sv_overrides sv1) n = Some ov \<and> ov_mode ov \<noteq> ''offset'' \<and> ov_fixed_value ov = None"
    if "n \<in> set SUPPORTED_SCADA_SENSORS" for n
    using cfg(4) [OF that] m by (auto simp: stage_override_def default_override_def)
  ultimately show ?thesis using assms(5) cfg(2) by (intro present_values_never_alert) auto
qed

section \<open>Properties\<close>

text \<open>
  The stage decides the overrides of the cycle alone: whatever the service was set to
  before, afterwards every sensor has the override of the stage, nothing is frozen, the
  history is kept, and the stage is active exactly from its start cycle on.
\<close>

theorem stage_overrides_service:
  "\<exists>stage sv1. configure_scada_replay_runtime_stage c i sv = Inr (stage, sv1) \<and> service_inv sv1 \<and>
    sv_history sv1 = sv_history sv \<and> sv_frozen_values sv1 = [] \<and>
    (\<forall>n \<in> set SUPPORTED_SCADA_SENSORS. map_of (sv_overrides sv1) n = Some (stage_override c stage n)) \<and>
    (rp_active stage \<longleftrightarrow> demo_scada_mode c \<notin> {''none'', ''match''} \<and> 0 < demo_scada_start_cycle c \<and>
       demo_scada_start_cycle c \<le> i)"
proof -
  obtain stage sv1 where s: "configure_scada_replay_runtime_stage c i sv = Inr (stage, sv1)"
    "rp_active stage \<longleftrightarrow> demo_scada_mode c \<notin> {''none'', ''match''} \<and> 0 < demo_scada_start_cycle c \<and>
       demo_scada_start_cycle c \<le> i"
    using configure_stage_spec [of c i sv] by blast
  show ?thesis using s configured_inv [OF s(1)] by blast
qed

theorem stage_overrides_service_witness:
  "\<exists>stage sv1. configure_scada_replay_runtime_stage (default_config\<lparr>demo_scada_mode := ''offset'', demo_scada_start_cycle := 2\<rparr>) 2
       offset_service = Inr (stage, sv1) \<and> rp_active stage \<and> service_inv sv1"
  using stage_overrides_service [of "default_config\<lparr>demo_scada_mode := ''offset'', demo_scada_start_cycle := 2\<rparr>" 2 offset_service]
  by auto

text \<open>
  A live freeze never freezes: the stage clears the frozen values in every cycle, so
  under it the supervisory values are the present readings again and the comparison never
  diverges, although the scenario announces a divergence alert.
\<close>

theorem live_freeze_never_diverges:
  assumes "configure_scada_replay_runtime_stage c i sv = Inr (stage, sv1)" "demo_scada_mode c = ''freeze''"
    and "set SUPPORTED_SCADA_SENSORS \<subseteq> set (map fst (sensor_values v))" "\<forall>s. src = Some s \<longrightarrow> observes_all s"
    and "\<forall>(n, x) \<in> set (sensor_values v). plausible_reading x"
  shows "\<exists>st sv2 r. update_from_consensused_state v src sv1 = Inr (st, sv2) \<and>
    compare_consensused_to_scada (Some v) st None None = Inr r \<and> all_within_tolerance r \<and>
    build_scada_divergence_alert (build_scada_comparison_output r) = Inr None"
  using assms by (rule freeze_stage_agrees)

theorem live_freeze_never_diverges_witness:
  "\<exists>stage sv1 st sv2 r. configure_scada_replay_runtime_stage
       (default_config\<lparr>demo_scada_mode := ''freeze'', demo_scada_start_cycle := 1\<rparr>) 4 offset_service = Inr (stage, sv1) \<and>
     update_from_consensused_state (sample_valid_state (60, 3, 1500)) None sv1 = Inr (st, sv2) \<and>
     compare_consensused_to_scada (Some (sample_valid_state (60, 3, 1500))) st None None = Inr r \<and> all_within_tolerance r"
proof -
  obtain stage sv1 where s: "configure_scada_replay_runtime_stage
      (default_config\<lparr>demo_scada_mode := ''freeze'', demo_scada_start_cycle := 1\<rparr>) 4 offset_service = Inr (stage, sv1)"
    using configure_stage_spec [of "default_config\<lparr>demo_scada_mode := ''freeze'', demo_scada_start_cycle := 1\<rparr>" 4 offset_service]
    by blast
  have "\<exists>st sv2 r. update_from_consensused_state (sample_valid_state (60, 3, 1500)) None sv1 = Inr (st, sv2) \<and>
     compare_consensused_to_scada (Some (sample_valid_state (60, 3, 1500))) st None None = Inr r \<and> all_within_tolerance r \<and>
     build_scada_divergence_alert (build_scada_comparison_output r) = Inr None"
    by (rule live_freeze_never_diverges [OF s])
      (auto simp: sample_valid_state_def SUPPORTED_SCADA_SENSORS_def plausible_reading_def)
  with s show ?thesis by blast
qed

text \<open>
  A live offset scenario is always caught: with an offset of 3 to a million degrees the
  comparison under the stage marks the temperature divergent and raises the alert.
\<close>

theorem live_offset_detected:
  assumes "configure_scada_replay_runtime_stage c i sv = Inr (stage, sv1)" "rp_active stage" "demo_scada_mode c = ''offset''"
    and "set SUPPORTED_SCADA_SENSORS \<subseteq> set (map fst (sensor_values v))" "\<forall>s. src = Some s \<longrightarrow> observes_all s"
    and "3 \<le> \<bar>demo_scada_offset_value c\<bar>" "\<bar>demo_scada_offset_value c\<bar> \<le> 1000000"
    and "map_of (sensor_values v) ''temperature'' = Some x" "plausible_reading x"
  shows "\<exists>st sv2 r a. update_from_consensused_state v src sv1 = Inr (st, sv2) \<and>
    compare_consensused_to_scada (Some v) st None None = Inr r \<and>
    build_scada_divergence_alert (build_scada_comparison_output r) = Inr (Some a) \<and>
    ''temperature'' \<in> set (divergent_sensors (build_scada_comparison_output r))"
  using assms by (rule offset_stage_diverges)

theorem live_offset_detected_witness:
  "\<exists>stage sv1 st sv2 r a. configure_scada_replay_runtime_stage
       (default_config\<lparr>demo_scada_mode := ''offset'', demo_scada_start_cycle := 1\<rparr>) 4 (init_service ''c'') = Inr (stage, sv1) \<and>
     update_from_consensused_state (sample_valid_state (60, 3, 1500)) None sv1 = Inr (st, sv2) \<and>
     compare_consensused_to_scada (Some (sample_valid_state (60, 3, 1500))) st None None = Inr r \<and>
     build_scada_divergence_alert (build_scada_comparison_output r) = Inr (Some a)"
proof -
  let ?c = "default_config\<lparr>demo_scada_mode := ''offset'', demo_scada_start_cycle := 1\<rparr>"
  obtain stage sv1 where s: "configure_scada_replay_runtime_stage ?c 4 (init_service ''c'') = Inr (stage, sv1)"
    "rp_active stage"
    using configure_stage_spec [of ?c 4 "init_service ''c''"] by auto
  have "\<exists>st sv2 r a. update_from_consensused_state (sample_valid_state (60, 3, 1500)) None sv1 = Inr (st, sv2) \<and>
     compare_consensused_to_scada (Some (sample_valid_state (60, 3, 1500))) st None None = Inr r \<and>
     build_scada_divergence_alert (build_scada_comparison_output r) = Inr (Some a) \<and>
     ''temperature'' \<in> set (divergent_sensors (build_scada_comparison_output r))"
    by (rule live_offset_detected [OF s, where x = 60])
      (simp_all add: sample_valid_state_def SUPPORTED_SCADA_SENSORS_def plausible_reading_def default_config_def)
  with s(1) show ?thesis by blast
qed

end
