(* ===== verification/RuntimeCycle.thy ===== *)
theory RuntimeCycle
  imports Persistence FaultInjection ReplayStage
begin

text \<open>
  The downstream half of one live cycle, \<open>scripts/run_local_demo.py\<close>: the comparison with
  the supervisory layer, the gates in front of persistence, and the stage reports. Reports
  are dictionaries (\<open>pyval\<close>), built as the source builds them.
\<close>

section \<open>Block reasons\<close>

definition NO_QUORUM_BLOCK_REASON :: string where
  "NO_QUORUM_BLOCK_REASON = ''no_quorum_reached''"

definition SCADA_DIVERGENCE_BLOCK_REASON :: string where
  "SCADA_DIVERGENCE_BLOCK_REASON = ''scada_divergence_detected''"

definition PERSISTENCE_BLOCK_REASON :: string where
  "PERSISTENCE_BLOCK_REASON = ''downstream_persistence_unavailable''"

definition resolve_consensus_block_reason :: "round_summary \<Rightarrow> string" where
  "resolve_consensus_block_reason s =
     (if status_value (final_consensus_status s) = ''failed_consensus'' \<and>
         valid_participants_after_exclusions s < quorum_required s
      then NO_QUORUM_BLOCK_REASON else ''no_consensused_valid_state'')"

definition consensus_block_message :: "round_summary \<Rightarrow> string" where
  "consensus_block_message s = (if resolve_consensus_block_reason s = NO_QUORUM_BLOCK_REASON
     then ''No quorum was reached in distributed validation, so no trusted payload '' @
       ''was produced and nothing was forwarded downstream.''
     else ''Consensus did not produce a trusted payload, so downstream stages were '' @
       ''blocked for this cycle.'')"

definition scada_divergence_block_message :: "comparison_output \<Rightarrow> string" where
  "scada_divergence_block_message out = ''SCADA supervisory values diverged on '' @
     join '', '' (divergent_sensors out) @
     '', so the cycle was blocked before persistence and fingerprint evaluation.''"

fun select_scada_source_state :: "replicated_state list \<Rightarrow> string list \<Rightarrow> replicated_state res" where
  "select_scada_source_state [] edges = Inl (ValueError
     (''SCADA projection could not find a validated source edge view inside the current round input.''))"
| "select_scada_source_state (s # ss) edges =
     (if owner_edge_id s \<in> set edges then Inr s else select_scada_source_state ss edges)"

text \<open>The contextual evidence of the comparison, of a projected state.\<close>

definition build_scada_contextual_evidence :: "scada_state \<Rightarrow> (string, pyval) dict" where
  "build_scada_contextual_evidence st = map (\<lambda>(name, s).
     let b = map_of (behavioral_or_empty st) name in
     (name, PDict [(''supervisory_mode'', PStr (ss_mode s)),
       (''supervisory_source_round_id'', PStr (st_source_round_id st)),
       (''behavioral_mode'', case b of None \<Rightarrow> PNone | Some x \<Rightarrow> PStr (bs_mode x)),
       (''behavioral_source_round_id'', case b of None \<Rightarrow> PNone | Some x \<Rightarrow> opt_str (bs_source_round_id x)),
       (''behavioral_payload'', case b of None \<Rightarrow> PNone | Some x \<Rightarrow> behavioral_state_dict x)]))
     (sorted_items (st_sensor_values st))"

text \<open>\<open>str(stage.get(k) or dflt)\<close>; the stages hold strings or \<open>None\<close> there.\<close>

definition text_or :: "string \<Rightarrow> string \<Rightarrow> pyval \<Rightarrow> string" where
  "text_or k dflt stage = (case pget stage k of Inr (PStr s) \<Rightarrow> if s = [] then dflt else s | _ \<Rightarrow> dflt)"

definition downstream_block_reason :: "pyval \<Rightarrow> pyval \<Rightarrow> (string \<times> string) option" where
  "downstream_block_reason comparison persistence =
     (if \<not> (case pget comparison ''downstream_permitted'' of Inr v \<Rightarrow> truthy v | Inl _ \<Rightarrow> False)
        then Some (text_or ''reason'' ''downstream_blocked'' comparison,
          text_or ''operator_message'' ''The cycle was blocked before downstream fingerprint evaluation.'' comparison)
      else if pget persistence ''status'' \<noteq> Inr (PStr ''persisted'')
        then Some (text_or ''reason'' PERSISTENCE_BLOCK_REASON persistence,
          text_or ''operator_message''
            (''The cycle could not continue because no approved downstream artifact was available.'') persistence)
      else None)"

section \<open>Store metadata\<close>

record minio_store_config =
  ms_endpoint :: string
  ms_access_key :: string
  ms_secret_key :: string
  ms_bucket :: string
  ms_secure :: bool

text \<open>
  \<open>urllib.parse\<close> on \<open>http://endpoint\<close>: the network location ends at the path, query or
  fragment; host and port as \<open>SplitResult.hostname\<close> and \<open>SplitResult.port\<close> read them.
\<close>

definition partition_at :: "char \<Rightarrow> string \<Rightarrow> string \<times> bool \<times> string" where
  "partition_at c s = (takeWhile (\<lambda>x. x \<noteq> c) s, c \<in> set s, tl (dropWhile (\<lambda>x. x \<noteq> c) s))"

definition netloc_hostinfo :: "string \<Rightarrow> string \<times> string" where
  "netloc_hostinfo endpoint = (let
     netloc = takeWhile (\<lambda>x. x \<notin> {CHR ''/'', CHR 0x3F, CHR 0x23}) endpoint;
     hostinfo = rev (takeWhile (\<lambda>x. x \<noteq> CHR 0x40) (rev netloc)) in
     case partition_at (CHR ''['') hostinfo of
       (_, True, bracketed) \<Rightarrow> (case partition_at (CHR '']'') bracketed of (h, _, rest) \<Rightarrow>
          (h, snd (snd (partition_at (CHR '':'') rest))))
     | (_, False, _) \<Rightarrow> (case partition_at (CHR '':'') hostinfo of (h, _, p) \<Rightarrow> (h, p)))"

definition url_hostname :: "string \<Rightarrow> string" where
  "url_hostname endpoint = (case partition_at (CHR 0x25) (fst (netloc_hostinfo endpoint)) of
     (h, pct, zone) \<Rightarrow> map lower_char h @ (if pct then CHR 0x25 # zone else []))"

definition url_port :: "string \<Rightarrow> int option res" where
  "url_port endpoint = (let p = snd (netloc_hostinfo endpoint) in
     if p = [] then Inr None
     else if \<forall>c \<in> set p. is_digit c then attempt (parse_int p) (\<lambda>n.
       if n \<le> 65535 then Inr (Some n) else Inl (ValueError ''Port out of range 0-65535''))
     else Inl (ValueError (''Port could not be cast to integer value as '' @ p)))"

definition build_minio_runtime_metadata :: "minio_store_config \<Rightarrow> (string \<times> pyval) list res" where
  "build_minio_runtime_metadata mc = attempt (url_port (ms_endpoint mc)) (\<lambda>port.
     Inr [(''backend'', PStr ''minio''), (''endpoint'', PStr (ms_endpoint mc)),
       (''host'', PStr (if url_hostname (ms_endpoint mc) \<noteq> [] then url_hostname (ms_endpoint mc) else ms_endpoint mc)),
       (''port'', opt_int port), (''secure'', PBool (ms_secure mc)), (''bucket'', PStr (ms_bucket mc))])"

section \<open>Dataset context\<close>

definition dataset_context_of :: "string \<Rightarrow> string \<Rightarrow> bool \<Rightarrow> string \<Rightarrow> string \<Rightarrow> pyval" where
  "dataset_context_of label training eligible reason campaign = PDict [(''scenario_label'', PStr label),
     (''training_label'', PStr training), (''training_eligible'', PBool eligible),
     (''training_eligibility_reason'', PStr reason),
     (''campaign_id'', if campaign = [] then PNone else PStr campaign)]"

definition build_dataset_context ::
  "string \<Rightarrow> comparison_output \<Rightarrow> scenario_stage option \<Rightarrow> replay_stage option \<Rightarrow> string \<Rightarrow> pyval" where
  "build_dataset_context fault_mode out scenario replay campaign = (let
     of_stage = (\<lambda>s. dataset_context_of (sg_scenario_label s) (sg_training_label s) (sg_training_eligible s)
       (sg_training_eligibility_reason s) campaign);
     rest = (if divergent_sensors out \<noteq> []
         then dataset_context_of ''scada_divergence'' ''non_normal'' False ''scada_divergence'' campaign
       else if fault_mode = ''none'' then (case scenario of Some s \<Rightarrow> of_stage s
         | None \<Rightarrow> dataset_context_of ''normal'' ''normal'' True ''normal_validated_run'' campaign)
       else if fault_mode = ''single_edge_exclusion''
         then dataset_context_of ''faulty_edge_exclusion'' ''non_normal'' False ''faulty_edge_exclusion'' campaign
       else dataset_context_of fault_mode ''non_normal'' False (''scenario:'' @ fault_mode) campaign);
     replayed = (case replay of Some r \<Rightarrow> if rp_active r
         then dataset_context_of (''scada_'' @ rp_mode r) ''non_normal'' False (''scada_'' @ rp_mode r) campaign
         else rest
       | None \<Rightarrow> rest) in
     case scenario of Some s \<Rightarrow> if \<not> sg_training_eligible s then of_stage s else replayed
     | None \<Rightarrow> replayed)"

section \<open>Comparison and persistence\<close>

text \<open>\<open>str(exc)\<close>.\<close>

fun error_text :: "py_error \<Rightarrow> string" where
  "error_text (ValueError s) = s"
| "error_text (RuntimeError s) = s"
| "error_text (KeyError s) = [CHR 0x27] @ s @ [CHR 0x27]"
| "error_text (TypeError s) = s"
| "error_text IndexError = ''list index out of range''"
| "error_text ZeroDivisionError = ''float division by zero''"
| "error_text (OverflowError s) = s"
| "error_text (FileNotFoundError s) = s"
| "error_text (ComparisonBlockedError s) = s"
| "error_text (PersistenceBlockedError s) = s"
| "error_text (ConsensusV2Error s) = s"
| "error_text (VersionedConsensusStateError s) = s"
| "error_text (ModuleNotFoundError s) = s"

record cycle_outcome =
  oc_scada_state :: "scada_state option"
  oc_comparison_stage :: pyval
  oc_comparison_output :: "comparison_output option"
  oc_scada_alert :: "scada_alert option"
  oc_persistence_stage :: pyval

text \<open>The reports of a cycle without a consensused state.\<close>

definition consensus_blocked_outcome :: "round_summary \<Rightarrow> (string \<times> pyval) list \<Rightarrow> cycle_outcome" where
  "consensus_blocked_outcome summary meta = (let reason = PStr (resolve_consensus_block_reason summary);
     msg = PStr (consensus_block_message summary) in
     \<lparr>oc_scada_state = None,
      oc_comparison_stage = PDict [(''status'', PStr ''blocked''), (''reason'', reason), (''compact'', PNone),
        (''blocked_by_stage'', PStr ''consensus''), (''downstream_permitted'', PBool False), (''operator_message'', msg),
        (''quorum_required'', PInt (quorum_required summary)),
        (''valid_participants_after_exclusions'', PInt (valid_participants_after_exclusions summary))],
      oc_comparison_output = None, oc_scada_alert = None,
      oc_persistence_stage = PDict ([(''status'', PStr ''blocked'')] @ meta @ [(''reason'', reason),
        (''blocked_by_stage'', PStr ''consensus''), (''downstream_permitted'', PBool False), (''operator_message'', msg),
        (''write_confirmed'', PBool False)])\<rparr>)"

definition comparison_stage_of :: "comparison_output \<Rightarrow> pyval" where
  "comparison_stage_of out = (let ok = (divergent_sensors out = []) in
     PDict [(''status'', PStr (if ok then ''completed'' else ''blocked_downstream'')),
       (''compact'', PStr (format_scada_comparison_output_compact out)),
       (''reason'', if ok then PNone else PStr SCADA_DIVERGENCE_BLOCK_REASON),
       (''blocked_by_stage'', if ok then PNone else PStr ''scada_comparison''),
       (''downstream_permitted'', PBool ok),
       (''operator_message'', PStr (if ok
          then ''SCADA supervisory values matched the trusted committed state, so the '' @ ''cycle can continue downstream.''
          else scada_divergence_block_message out)),
       (''divergent_sensors'', PList (map PStr (divergent_sensors out)))])"

definition divergence_blocked_stage :: "(string \<times> pyval) list \<Rightarrow> comparison_output \<Rightarrow> pyval" where
  "divergence_blocked_stage meta out = PDict ([(''status'', PStr ''blocked'')] @ meta @
     [(''reason'', PStr SCADA_DIVERGENCE_BLOCK_REASON), (''blocked_by_stage'', PStr ''scada_comparison''),
      (''downstream_permitted'', PBool False), (''operator_message'', PStr (scada_divergence_block_message out)),
      (''divergent_sensors'', PList (map PStr (divergent_sensors out))), (''write_confirmed'', PBool False)])"

definition persisted_stage :: "(string \<times> pyval) list \<Rightarrow> string \<Rightarrow> artifact_record \<Rightarrow> pyval" where
  "persisted_stage meta bucket r = PDict ([(''status'', PStr ''persisted'')] @ meta @
     [(''artifact_key'', PStr (ar_artifact_key r)), (''object_name'', PStr (ar_artifact_key r)),
      (''artifact_uri'', PStr (''minio://'' @ bucket @ ''/'' @ ar_artifact_key r)),
      (''storage_action'', PStr ''put_object''), (''content_type'', PStr ''application/json''),
      (''downstream_permitted'', PBool True),
      (''operator_message'', PStr (''Trusted and supervisory validation both succeeded, so the cycle was '' @
         ''forwarded for downstream fingerprint use.'')),
      (''write_confirmed'', PBool True), (''record'', artifact_record_to_dict r)])"

text \<open>The two \<open>except\<close> clauses.\<close>

definition persistence_error_stage :: "(string \<times> pyval) list \<Rightarrow> py_error \<Rightarrow> pyval" where
  "persistence_error_stage meta e = (let blocked = (case e of PersistenceBlockedError _ \<Rightarrow> True | _ \<Rightarrow> False) in
     PDict ([(''status'', PStr (if blocked then ''blocked'' else ''error''))] @ meta @
       [(''reason'', PStr (error_text e)), (''blocked_by_stage'', PStr ''persistence''),
        (''downstream_permitted'', PBool False),
        (''operator_message'', PStr (if blocked
           then ''Persistence refused to accept the cycle, so no downstream-valid artifact was approved.''
           else ''Persistence failed, so the cycle could not continue downstream.'')),
        (''write_confirmed'', PBool False)]))"

definition run_scada_comparison_and_persistence ::
  "'s store_ops \<Rightarrow> minio_store_config \<Rightarrow> audit_package \<Rightarrow> scada_service option \<Rightarrow> string \<Rightarrow> scenario_stage option
     \<Rightarrow> replay_stage option \<Rightarrow> string \<Rightarrow> datetime \<Rightarrow> 's \<Rightarrow> (cycle_outcome \<times> scada_service option \<times> 's) res" where
  "run_scada_comparison_and_persistence ops mc p service fault_mode scenario replay campaign now s =
     attempt (build_minio_runtime_metadata mc) (\<lambda>meta.
     attempt (build_round_summary p) (\<lambda>summary.
     case ap_valid_state p of
       None \<Rightarrow> Inr (consensus_blocked_outcome summary meta, service, s)
     | Some v \<Rightarrow>
       let sv = (case service of Some x \<Rightarrow> x | None \<Rightarrow> init_service ''compressor-1'') in
       attempt (select_scada_source_state (replicated_states (ap_round_input p)) (source_edges v)) (\<lambda>source.
       attempt (update_from_consensused_state v (Some source) sv) (\<lambda>(st, sv').
       attempt (compare_consensused_to_scada (Some v) st None (Some (build_scada_contextual_evidence st))) (\<lambda>result.
       let out = build_scada_comparison_output result in
       attempt (build_scada_divergence_alert out) (\<lambda>alert.
       let service' = map_option (\<lambda>_. sv') service in
       if divergent_sensors out \<noteq> [] then
         Inr (\<lparr>oc_scada_state = Some st, oc_comparison_stage = comparison_stage_of out, oc_comparison_output = Some out,
           oc_scada_alert = alert, oc_persistence_stage = divergence_blocked_stage meta out\<rparr>, service', s)
       else let ctx = build_dataset_context fault_mode out scenario replay campaign in
         case persist_valid_consensus_artifact ops p st out alert (Some ctx) now s of
           Inr (r, s') \<Rightarrow> Inr (\<lparr>oc_scada_state = Some st, oc_comparison_stage = comparison_stage_of out,
             oc_comparison_output = Some out, oc_scada_alert = alert,
             oc_persistence_stage = persisted_stage meta (ms_bucket mc) r\<rparr>, service', s')
         | Inl e \<Rightarrow> Inr (\<lparr>oc_scada_state = Some st, oc_comparison_stage = comparison_stage_of out,
             oc_comparison_output = Some out, oc_scada_alert = alert,
             oc_persistence_stage = persistence_error_stage meta e\<rparr>, service', s)))))))"

section \<open>Laws\<close>

lemma select_scada_source_Inr:
  assumes "\<exists>s \<in> set ss. owner_edge_id s \<in> set edges"
  shows "\<exists>s \<in> set ss. select_scada_source_state ss edges = Inr s \<and> owner_edge_id s \<in> set edges"
  using assms by (induction ss) auto

text \<open>The evidence leaves the comparison as it is without any.\<close>

lemma divergent_context:
  assumes "compare_consensused_to_scada vs st profile ctx = Inr r"
  shows "\<exists>r0. compare_consensused_to_scada vs st profile None = Inr r0 \<and>
    divergent_sensors (build_scada_comparison_output r) = divergent_sensors (build_scada_comparison_output r0)"
proof -
  obtain r0 where r0: "compare_consensused_to_scada vs st profile None = Inr r0"
    "map (\<lambda>c. c\<lparr>sc_contextual_evidence := None\<rparr>) (sensor_comparisons r) = sensor_comparisons r0"
    using context_neutral [OF assms] by blast
  have "divergent_sensors (build_scada_comparison_output q) =
      map sc_sensor_name (filter (\<lambda>c. \<not> sc_within_tolerance c) (sensor_comparisons q))" for q
    by (simp add: divergent_sensors_def build_scada_comparison_output_def sensor_output_of_def filter_map o_def)
  then show ?thesis using r0 by (auto simp: filter_map o_def simp flip: r0(2))
qed

lemma alert_iff_divergent:
  "build_scada_divergence_alert out = Inr alert \<Longrightarrow> (alert = None) = (divergent_sensors out = [])"
  by (auto simp: build_scada_divergence_alert_def divergent_sensors_def Let_def mk_ScadaAlert_def attempt_eq_Inr split: if_splits)

lemma truthy_context: "truthy (build_dataset_context fm out sc rp camp)"
  by (simp add: build_dataset_context_def dataset_context_of_def Let_def split: option.split)

lemma observes_exact:
  assumes "exact_sensors ri" "s \<in> set (replicated_states ri)"
  shows "observes_all s"
proof -
  have "set (map fst (observations_by_sensor s)) = set consensus_sensors" using assms by (simp add: exact_sensors_def)
  then have "n \<in> set (map fst (observations_by_sensor s))" if "n \<in> fst ` set SENSOR_SCALES" for n
    using that scales_sensors by blast
  then show ?thesis
    using getitem_key by (metis getitem_None observes_all_def sum.distinct(1))
qed

lemma sensors_supported: "set consensus_sensors = set SUPPORTED_SCADA_SENSORS"
  by (auto simp: consensus_sensors_def SUPPORTED_SCADA_SENSORS_def)

text \<open>The steps of a cycle whose round succeeded.\<close>

lemma comparison_steps:
  assumes ri: "exact_sensors ri" "settles ri pkg" "ap_final_status pkg = SUCCESS"
    and sv: "service_inv sv"
  obtains v source st sv' r alert where "ap_valid_state pkg = Some v" "vs_round_identity v = ri_round_identity ri"
    "set (map fst (sensor_values v)) = set consensus_sensors" "observes_all source"
    "select_scada_source_state (replicated_states ri) (source_edges v) = Inr source"
    "scada_ready v (Some source) sv" "update_from_consensused_state v (Some source) sv = Inr (st, sv')" "service_inv sv'"
    "compare_consensused_to_scada (Some v) st None (Some (build_scada_contextual_evidence st)) = Inr r"
    "build_scada_divergence_alert (build_scada_comparison_output r) = Inr alert"
    "co_round_identity (build_scada_comparison_output r) = ri_round_identity ri"
proof -
  obtain v where some: "ap_valid_state pkg = Some v" using settled_success [OF ri(2)] ri(3) by blast
  note v = some settled_state(2,1,4) [OF ri(2) some]
  obtain source where source: "source \<in> set (replicated_states ri)"
    "select_scada_source_state (replicated_states ri) (source_edges v) = Inr source"
    using select_scada_source_Inr [OF v(4)] by blast
  have obs: "observes_all source" using observes_exact [OF ri(1) source(1)] .
  have ready: "scada_ready v (Some source) sv"
    using sv obs by (simp add: scada_ready_def v(2) sensors_supported flip: sensors_supported set_map)
  obtain st sv' where u: "update_from_consensused_state v (Some source) sv = Inr (st, sv')" "service_inv sv'"
    "\<forall>n \<in> set SUPPORTED_SCADA_SENSORS. \<exists>x ov s. map_of (sensor_values v) n = Some x \<and>
       map_of (sv_overrides sv) n = Some ov \<and> map_of (st_sensor_values st) n = Some s \<and>
       ss_mode s = ov_mode ov \<and> ss_value s = supervisory_value (sv_frozen_values sv) n (py_round 3 x) ov"
    using scada_update_spec [OF ready] by blast
  have d: "set COMPARISON_SENSOR_ORDER \<subseteq> set (map fst (sensor_values v))"
    "set COMPARISON_SENSOR_ORDER \<subseteq> set (map fst (st_sensor_values st))"
    using ready by (simp add: scada_ready_def supported_comparison)
      (rule dom_keys, use u(3) in \<open>auto simp: supported_comparison\<close>)
  obtain r where r: "compare_consensused_to_scada (Some v) st None (Some (build_scada_contextual_evidence st)) = Inr r"
    by (rule compare_total [OF d])
  then have "cmp_round_identity r = vs_round_identity v"
    by (auto simp: compare_consensused_to_scada_def Let_def attempt_eq_Inr)
  then have id: "co_round_identity (build_scada_comparison_output r) = ri_round_identity ri"
    by (simp add: build_scada_comparison_output_def v(3))
  have "\<exists>alert. build_scada_divergence_alert (build_scada_comparison_output r) = Inr alert"
    by (simp add: build_scada_divergence_alert_def Let_def mk_ScadaAlert_def)
  then obtain alert where "build_scada_divergence_alert (build_scada_comparison_output r) = Inr alert" ..
  from that [OF v(1,3,2) obs source(2) ready u(1,2) r this id] show ?thesis .
qed

lemma summary_total: "complete_input ri \<Longrightarrow> settles ri pkg \<Longrightarrow> \<exists>sm. build_round_summary pkg = Inr sm"
proof -
  assume a: "complete_input ri" "settles ri pkg"
  note settled_input [OF a(2)]
  moreover have "0 < length (ri_participating_edges ri)" using a(1) by (auto simp: complete_input_def)
  ultimately show ?thesis by (simp add: build_round_summary_def Let_def required_quorum_pos)
qed

definition is_persisted :: "cycle_outcome \<Rightarrow> bool" where
  "is_persisted oc = (pget (oc_persistence_stage oc) ''status'' = Inr (PStr ''persisted''))"

lemma stage_status [simp]:
  "pget (PDict ([(''status'', x)] @ rest)) ''status'' = Inr x"
  by simp

text \<open>The whole downstream half on a conforming store.\<close>

lemma cycle_spec:
  assumes store: "artifact_store ops contents" and mc: "build_minio_runtime_metadata mc = Inr meta"
    and ri: "complete_input ri" "exact_sensors ri" "settles ri pkg" and sv: "service_inv sv"
  shows "\<exists>oc sv' s'. run_scada_comparison_and_persistence ops mc pkg (Some sv) fm sc rp camp now s = Inr (oc, Some sv', s') \<and>
    service_inv sv' \<and>
    (is_persisted oc \<longleftrightarrow> ap_final_status pkg = SUCCESS \<and> oc_scada_alert oc = None) \<and>
    (ap_final_status pkg = FAILED_CONSENSUS \<longrightarrow> sv' = sv \<and> oc_comparison_output oc = None) \<and>
    (if is_persisted oc
     then \<exists>out r. oc_comparison_output oc = Some out \<and> divergent_sensors out = [] \<and>
       ar_artifact_key r = artifact_key_of (round_id (ri_round_identity ri)) \<and>
       ar_dataset_context r = build_dataset_context fm out sc rp camp \<and>
       contents s' = (contents s)(ar_artifact_key r \<mapsto> Json (artifact_record_to_dict r)) \<and>
       (\<exists>st alert. oc_scada_state oc = Some st \<and> oc_persistence_stage oc = persisted_stage meta (ms_bucket mc) r \<and>
          oc_comparison_stage oc = comparison_stage_of out \<and>
          persist_valid_consensus_artifact ops pkg st out alert (Some (build_dataset_context fm out sc rp camp)) now s = Inr (r, s'))
     else s' = s)"
proof -
  obtain sm where sm: "build_round_summary pkg = Inr sm" using summary_total [OF ri(1,3)] ..
  note p = settled_input [OF ri(3)]
  show ?thesis
  proof (cases "ap_final_status pkg")
    case FAILED_CONSENSUS
    then have "ap_valid_state pkg = None" using settled_success [OF ri(3)] by auto
    then have "run_scada_comparison_and_persistence ops mc pkg (Some sv) fm sc rp camp now s =
        Inr (consensus_blocked_outcome sm meta, Some sv, s)"
      by (simp add: run_scada_comparison_and_persistence_def mc sm)
    then show ?thesis
      using FAILED_CONSENSUS sv by (simp add: consensus_blocked_outcome_def is_persisted_def Let_def)
  next
    case SUCCESS
    obtain v source st sv' r alert where c: "ap_valid_state pkg = Some v" "vs_round_identity v = ri_round_identity ri"
      "set (map fst (sensor_values v)) = set consensus_sensors" "observes_all source"
      "select_scada_source_state (replicated_states ri) (source_edges v) = Inr source"
      "scada_ready v (Some source) sv" "update_from_consensused_state v (Some source) sv = Inr (st, sv')" "service_inv sv'"
      "compare_consensused_to_scada (Some v) st None (Some (build_scada_contextual_evidence st)) = Inr r"
      "build_scada_divergence_alert (build_scada_comparison_output r) = Inr alert"
      "co_round_identity (build_scada_comparison_output r) = ri_round_identity ri"
      by (rule comparison_steps [OF ri(2,3) SUCCESS sv])
    let ?out = "build_scada_comparison_output r"
    note alert = alert_iff_divergent [OF c(10)]
    show ?thesis
    proof (cases "divergent_sensors ?out = []")
      case False
      then have "run_scada_comparison_and_persistence ops mc pkg (Some sv) fm sc rp camp now s =
          Inr (\<lparr>oc_scada_state = Some st, oc_comparison_stage = comparison_stage_of ?out, oc_comparison_output = Some ?out,
           oc_scada_alert = alert, oc_persistence_stage = divergence_blocked_stage meta ?out\<rparr>, Some sv', s)"
        by (simp add: run_scada_comparison_and_persistence_def mc sm c p Let_def)
      then show ?thesis
        using False alert c(8) SUCCESS by (simp add: is_persisted_def divergence_blocked_stage_def)
    next
      case True
      let ?ctx = "build_dataset_context fm ?out sc rp camp"
      have "\<exists>s \<in> set (replicated_states ri). owner_edge_id s \<in> set (source_edges v)"
        by (rule settled_state(4) [OF ri(3) c(1)])
      then obtain snapshot where snap: "build_validated_payload_snapshot pkg = Inr snapshot"
        using snapshot_total [OF c(1,3)] ri(2) by (auto simp: p)
      have "ri_participating_edges ri \<noteq> []" using ri(1) by (auto simp: complete_input_def)
      then have "\<exists>rec s'. persist_valid_consensus_artifact ops pkg st ?out alert (Some ?ctx) now s = Inr (rec, s') \<and>
          ar_artifact_key rec = artifact_key_of (round_id (vs_round_identity v)) \<and>
          ar_dataset_context rec = (case Some ?ctx of Some c \<Rightarrow> if truthy c then c else default_dataset_context
            | None \<Rightarrow> default_dataset_context) \<and>
          sub (ar_validated_state rec) ''structured_payload_snapshot'' = Inr snapshot \<and>
          op_load_json ops (ar_artifact_key rec) s' = Inr (artifact_record_to_dict rec) \<and>
          contents s' = (contents s)(ar_artifact_key rec \<mapsto> Json (artifact_record_to_dict rec))"
        by (intro artifact_store.persist_spec [OF store SUCCESS c(1)]) (simp_all add: p c(11) snap)
      then obtain rec s' where rec: "persist_valid_consensus_artifact ops pkg st ?out alert (Some ?ctx) now s = Inr (rec, s')"
        "ar_artifact_key rec = artifact_key_of (round_id (vs_round_identity v))" "ar_dataset_context rec = ?ctx"
        "contents s' = (contents s)(ar_artifact_key rec \<mapsto> Json (artifact_record_to_dict rec))"
        by (auto simp: truthy_context)
      have "run_scada_comparison_and_persistence ops mc pkg (Some sv) fm sc rp camp now s =
          Inr (\<lparr>oc_scada_state = Some st, oc_comparison_stage = comparison_stage_of ?out, oc_comparison_output = Some ?out,
           oc_scada_alert = alert, oc_persistence_stage = persisted_stage meta (ms_bucket mc) rec\<rparr>, Some sv', s')"
        using True by (simp add: run_scada_comparison_and_persistence_def mc sm c p rec(1) Let_def)
      then show ?thesis
        using True alert c(2,8) SUCCESS rec by (auto simp: is_persisted_def persisted_stage_def)
    qed
  qed
qed

text \<open>Downstream stages run exactly for persisted cycles.\<close>

lemma stage_permission:
  "pget (comparison_stage_of out) ''downstream_permitted'' = Inr (PBool (divergent_sensors out = []))"
  by (simp add: comparison_stage_of_def Let_def)

lemma live_context:
  assumes "resolve_runtime_scenario_control_stage c i = Inr stage"
    and "configure_scada_replay_runtime_stage (apply_runtime_scenario_control c stage) i sv = Inr (rp, sv1)"
  shows "build_dataset_context (demo_fault_mode (apply_runtime_scenario_control c stage)) out (Some stage) (Some rp) camp =
      (if active_scenario stage = ''normal'' \<and> divergent_sensors out = []
       then dataset_context_of ''normal'' ''normal'' True ''normal_validated_run'' camp
       else dataset_context_of (if active_scenario stage = ''normal'' then ''scada_divergence'' else sg_scenario_label stage)
         ''non_normal'' False (if active_scenario stage = ''normal'' then ''scada_divergence'' else sg_training_eligibility_reason stage) camp)"
proof (cases "active_scenario stage = ''normal''")
  case True
  then have s: "sg_fault_mode stage = ''none''" "sg_scada_mode stage = ''match''" "sg_training_eligible stage"
    "sg_scenario_label stage = ''normal''" "sg_training_label stage = ''normal''"
    "sg_training_eligibility_reason stage = ''normal_validated_run''"
    using assms(1) by (auto simp: resolve_runtime_scenario_control_stage_def attempt_eq_Inr Let_def normal_stage_def
        fault_stage_def split: if_splits)
  have "\<not> rp_active rp"
    using assms(2) s by (auto simp: configure_scada_replay_runtime_stage_def apply_runtime_scenario_control_def Let_def)
  then show ?thesis
    using True s by (simp add: build_dataset_context_def apply_runtime_scenario_control_def Let_def)
next
  case False
  then have "\<not> sg_training_eligible stage \<and> sg_training_label stage = ''non_normal''"
    using assms(1) by (auto simp: resolve_runtime_scenario_control_stage_def attempt_eq_Inr Let_def normal_stage_def
        fault_stage_def split: if_splits)
  then show ?thesis using False by (simp add: build_dataset_context_def Let_def)
qed

lemma divergence_blocks:
  assumes "resolve_runtime_scenario_control_stage c i = Inr stage" "active_scenario stage = ''scada_divergence''"
    and "configure_scada_replay_runtime_stage (apply_runtime_scenario_control c stage) i sv0 = Inr (rp, sv)"
    and "3 \<le> \<bar>demo_scada_offset_value c\<bar>" "\<bar>demo_scada_offset_value c\<bar> \<le> 1000000"
    and "build_minio_runtime_metadata mc = Inr meta" "complete_input ri" "exact_sensors ri" "settles ri pkg"
    and "ap_valid_state pkg = Some v" "\<forall>(n, x) \<in> set (sensor_values v). plausible_reading x"
  shows "\<exists>oc sv' out. run_scada_comparison_and_persistence ops mc pkg (Some sv) fm sc (Some rp) camp now s = Inr (oc, Some sv', s) \<and>
    \<not> is_persisted oc \<and> oc_scada_alert oc \<noteq> None \<and> oc_comparison_output oc = Some out \<and>
    ''temperature'' \<in> set (divergent_sensors out) \<and>
    downstream_block_reason (oc_comparison_stage oc) (oc_persistence_stage oc) =
      Some (SCADA_DIVERGENCE_BLOCK_REASON, scada_divergence_block_message out)"
proof -
  let ?c = "apply_runtime_scenario_control c stage"
  have sg: "sg_scada_mode stage = ''offset''" "sg_start_cycle stage \<le> i" "1 \<le> sg_start_cycle stage"
    using assms(1,2) by (auto simp: resolve_runtime_scenario_control_stage_def attempt_eq_Inr Let_def normal_stage_def
        fault_stage_def split: if_splits)
  have cfg: "demo_scada_mode ?c = ''offset''" "demo_scada_offset_value ?c = demo_scada_offset_value c"
    "demo_scada_start_cycle ?c = sg_start_cycle stage"
    using sg by (simp_all add: apply_runtime_scenario_control_def)
  have active: "rp_active rp" using configure_stage_spec [of ?c i sv0] assms(3) sg cfg by auto
  note p = settled_input [OF assms(9)]
  have succ: "ap_final_status pkg = SUCCESS" using settled_success [OF assms(9)] assms(10) by simp
  obtain v' source st sv' r alert where c: "ap_valid_state pkg = Some v'" "vs_round_identity v' = ri_round_identity ri"
    "set (map fst (sensor_values v')) = set consensus_sensors" "observes_all source"
    "select_scada_source_state (replicated_states ri) (source_edges v') = Inr source"
    "scada_ready v' (Some source) sv" "update_from_consensused_state v' (Some source) sv = Inr (st, sv')" "service_inv sv'"
    "compare_consensused_to_scada (Some v') st None (Some (build_scada_contextual_evidence st)) = Inr r"
    "build_scada_divergence_alert (build_scada_comparison_output r) = Inr alert"
    "co_round_identity (build_scada_comparison_output r) = ri_round_identity ri"
    by (rule comparison_steps [OF assms(8,9) succ configured_inv(1) [OF assms(3)]])
  have v': "v' = v" using c(1) assms(10) by simp
  have sub: "set SUPPORTED_SCADA_SENSORS \<subseteq> set (map fst (sensor_values v))" using c(6) by (simp add: scada_ready_def v')
  obtain x where x: "map_of (sensor_values v) ''temperature'' = Some x"
    using getitem_key [of "''temperature''" "sensor_values v"] c(3)
    by (auto simp: v' consensus_sensors_def getitem_Inr simp del: set_map)
  have "plausible_reading x" using assms(11) map_of_SomeD [OF x] by auto
  then have "\<exists>st2 sv2 r2 a2. update_from_consensused_state v (Some source) sv = Inr (st2, sv2) \<and>
      compare_consensused_to_scada (Some v) st2 None None = Inr r2 \<and>
      build_scada_divergence_alert (build_scada_comparison_output r2) = Inr (Some a2) \<and>
      ''temperature'' \<in> set (divergent_sensors (build_scada_comparison_output r2))"
    using assms(4,5) c(4) by (intro offset_stage_diverges [OF assms(3) active cfg(1) sub _ _ _ x]) (simp_all add: cfg(2))
  then obtain r2 where "compare_consensused_to_scada (Some v) st None None = Inr r2"
    "''temperature'' \<in> set (divergent_sensors (build_scada_comparison_output r2))"
    using c(7) by (auto simp: v')
  with divergent_context [OF c(9)] have d: "''temperature'' \<in> set (divergent_sensors (build_scada_comparison_output r))"
    by (auto simp: v')
  then have ne: "divergent_sensors (build_scada_comparison_output r) \<noteq> []" by auto
  obtain sm where sm: "build_round_summary pkg = Inr sm" using summary_total [OF assms(7,9)] ..
  let ?out = "build_scada_comparison_output r"
  have run: "run_scada_comparison_and_persistence ops mc pkg (Some sv) fm sc (Some rp) camp now s =
      Inr (\<lparr>oc_scada_state = Some st, oc_comparison_stage = comparison_stage_of ?out, oc_comparison_output = Some ?out,
       oc_scada_alert = alert, oc_persistence_stage = divergence_blocked_stage meta ?out\<rparr>, Some sv', s)"
    using ne by (simp add: run_scada_comparison_and_persistence_def assms(6) sm c p Let_def)
  have "downstream_block_reason (comparison_stage_of ?out) (divergence_blocked_stage meta ?out) =
      Some (SCADA_DIVERGENCE_BLOCK_REASON, scada_divergence_block_message ?out)"
    using ne by (simp add: downstream_block_reason_def stage_permission)
      (simp add: text_or_def comparison_stage_of_def Let_def SCADA_DIVERGENCE_BLOCK_REASON_def scada_divergence_block_message_def)
  with run d ne alert_iff_divergent [OF c(10)] show ?thesis
    by (simp add: is_persisted_def divergence_blocked_stage_def)
qed

section \<open>Properties\<close>

text \<open>
  C6. The gates of a live cycle: on a conforming store a round the Python engine decided always yields a
  report. It is persisted exactly when consensus succeeded and the supervisory layer did
  not diverge; then one object is written, under the key of the round, with the dataset
  context of the cycle. Otherwise the store is untouched, and a failed round leaves the
  supervisory service alone too.
\<close>

theorem cycle_gates:
  assumes "artifact_store ops contents" "build_minio_runtime_metadata mc = Inr meta"
    and "complete_input ri" "exact_sensors ri" "evaluate ri = Inr pkg" "service_inv sv"
  shows "\<exists>oc sv' s'. run_scada_comparison_and_persistence ops mc pkg (Some sv) fm sc rp camp now s = Inr (oc, Some sv', s') \<and>
    service_inv sv' \<and>
    (is_persisted oc \<longleftrightarrow> ap_final_status pkg = SUCCESS \<and> oc_scada_alert oc = None) \<and>
    (ap_final_status pkg = FAILED_CONSENSUS \<longrightarrow> sv' = sv \<and> oc_comparison_output oc = None) \<and>
    (if is_persisted oc
     then \<exists>out r. oc_comparison_output oc = Some out \<and> divergent_sensors out = [] \<and>
       ar_artifact_key r = artifact_key_of (round_id (ri_round_identity ri)) \<and>
       ar_dataset_context r = build_dataset_context fm out sc rp camp \<and>
       contents s' = (contents s)(ar_artifact_key r \<mapsto> Json (artifact_record_to_dict r))
     else s' = s)"
proof -
  obtain oc sv' s' where c: "run_scada_comparison_and_persistence ops mc pkg (Some sv) fm sc rp camp now s = Inr (oc, Some sv', s')"
    "service_inv sv'" "is_persisted oc \<longleftrightarrow> ap_final_status pkg = SUCCESS \<and> oc_scada_alert oc = None"
    "ap_final_status pkg = FAILED_CONSENSUS \<longrightarrow> sv' = sv \<and> oc_comparison_output oc = None"
    "if is_persisted oc
     then \<exists>out r. oc_comparison_output oc = Some out \<and> divergent_sensors out = [] \<and>
       ar_artifact_key r = artifact_key_of (round_id (ri_round_identity ri)) \<and>
       ar_dataset_context r = build_dataset_context fm out sc rp camp \<and>
       contents s' = (contents s)(ar_artifact_key r \<mapsto> Json (artifact_record_to_dict r)) \<and>
       (\<exists>st alert. oc_scada_state oc = Some st \<and> oc_persistence_stage oc = persisted_stage meta (ms_bucket mc) r \<and>
          oc_comparison_stage oc = comparison_stage_of out \<and>
          persist_valid_consensus_artifact ops pkg st out alert (Some (build_dataset_context fm out sc rp camp)) now s = Inr (r, s'))
     else s' = s"
    using cycle_spec [OF assms(1-4) evaluate_settles [OF complete_wf [OF assms(3)] assms(5)] assms(6), of fm sc rp camp now s]
    by (elim exE conjE) (rule that)
  show ?thesis
    using c(5) by (intro exI [of _ oc] exI [of _ sv'] exI [of _ s'] conjI c(1-4)) (auto split: if_splits)
qed

definition local_minio :: minio_store_config where
  "local_minio = \<lparr>ms_endpoint = ''localhost:9000'', ms_access_key = ''a'', ms_secret_key = ''b'', ms_bucket = ''artifacts'',
     ms_secure = False\<rparr>"

lemma local_minio_metadata: "build_minio_runtime_metadata local_minio = Inr [(''backend'', PStr ''minio''),
    (''endpoint'', PStr ''localhost:9000''), (''host'', PStr ''localhost''), (''port'', PInt 9000), (''secure'', PBool False),
    (''bucket'', PStr ''artifacts'')]"
  by (simp add: build_minio_runtime_metadata_def local_minio_def url_port_def url_hostname_def netloc_hostinfo_def
      partition_at_def Let_def is_digit_def parse_int_def strip_def is_space_def opt_int_def lower_char_def)

theorem cycle_gates_witness:
  "\<exists>pkg oc sv' s'. evaluate (sample_input (60, 3, 1500) (0, 9, 0)) = Inr pkg \<and>
     run_scada_comparison_and_persistence (local_ops ''b'') local_minio pkg (Some (init_service ''c'')) ''none'' None None []
       sample_time [] = Inr (oc, Some sv', s') \<and> service_inv sv' \<and>
     (is_persisted oc \<longleftrightarrow> ap_final_status pkg = SUCCESS \<and> oc_scada_alert oc = None)"
proof -
  obtain pkg where e: "evaluate (sample_input (60, 3, 1500) (0, 9, 0)) = Inr pkg"
    by (rule evaluate_total [OF sample_input_complete])
  obtain oc sv' s' where r: "run_scada_comparison_and_persistence (local_ops ''b'') local_minio pkg (Some (init_service ''c''))
      ''none'' None None [] sample_time [] = Inr (oc, Some sv', s')" "service_inv sv'"
    "is_persisted oc \<longleftrightarrow> ap_final_status pkg = SUCCESS \<and> oc_scada_alert oc = None"
    using cycle_gates [OF local_store.artifact_store_axioms [of "''b''"] local_minio_metadata sample_input_complete sample_input_exact e
      init_service_inv [of "''c''"], where fm = "''none''" and sc = None and rp = None and camp = "[]" and now = sample_time and s = "[]"]
    by (elim exE conjE) (rule that)
  show ?thesis by (intro exI conjI, rule e, rule r(1), rule r(2), rule r(3))
qed

text \<open>
  Only normal cycles may train: for a cycle resolved from the configuration, the
  persisted dataset context is eligible exactly when the active scenario is normal and no
  sensor diverged, and then it carries the normal label.
\<close>

theorem only_normal_cycles_train:
  assumes "resolve_runtime_scenario_control_stage c i = Inr stage"
    and "configure_scada_replay_runtime_stage (apply_runtime_scenario_control c stage) i sv = Inr (rp, sv1)"
  shows "build_dataset_context (demo_fault_mode (apply_runtime_scenario_control c stage)) out (Some stage) (Some rp) camp =
      (if active_scenario stage = ''normal'' \<and> divergent_sensors out = []
       then dataset_context_of ''normal'' ''normal'' True ''normal_validated_run'' camp
       else dataset_context_of (if active_scenario stage = ''normal'' then ''scada_divergence'' else sg_scenario_label stage)
         ''non_normal'' False (if active_scenario stage = ''normal'' then ''scada_divergence'' else sg_training_eligibility_reason stage) camp)"
  using assms by (rule live_context)

theorem only_normal_cycles_train_witness:
  "\<exists>stage rp sv1. resolve_runtime_scenario_control_stage (fault_config ''quorum_loss'') 5 = Inr stage \<and>
     configure_scada_replay_runtime_stage (apply_runtime_scenario_control (fault_config ''quorum_loss'') stage) 5 (init_service ''c'') = Inr (rp, sv1) \<and>
     build_dataset_context (demo_fault_mode (apply_runtime_scenario_control (fault_config ''quorum_loss'') stage)) sample_output
       (Some stage) (Some rp) [] = dataset_context_of ''quorum_loss'' ''non_normal'' False ''scenario:quorum_loss'' []"
proof -
  let ?st = "fault_stage ''quorum_loss'' 1 ''quorum_loss'' ''match'' ''quorum_loss'' ''scenario:quorum_loss'' SCENARIO_OUTPUTS_QUORUM"
  have r: "resolve_runtime_scenario_control_stage (fault_config ''quorum_loss'') 5 = Inr ?st"
    by (simp add: resolve_runtime_scenario_control_stage_def resolve_configured_scenario_def fault_config_def default_config_def strip_def)
  obtain rp sv1 where c: "configure_scada_replay_runtime_stage
      (apply_runtime_scenario_control (fault_config ''quorum_loss'') ?st) 5 (init_service ''c'') = Inr (rp, sv1)"
    using configure_stage_spec by blast
  from only_normal_cycles_train [OF r c, of sample_output "[]"] r c show ?thesis
    by (intro exI [of _ ?st] exI [of _ rp] exI [of _ sv1]) (simp add: fault_stage_def)
qed


text \<open>The agreeing round of integer readings is decided on those readings.\<close>

lemma agreeing_input_trusted: "trusted_states agreeing_input = replicated_states agreeing_input"
proof -
  let ?ss = "replicated_states agreeing_input"
  have s: "?ss = map (\<lambda>e. sample_state e (60, 3, 1500)) sample_edges"
    by (simp add: agreeing_input_def sample_input_def sample_edges_def)
  have b: "\<exists>a. map_of (states_by_edge ?ss) e = Some (sample_state a (60, 3, 1500))" if "e \<in> set sample_edges" for e
    using that by (auto simp: s states_by_edge_def map_of_dict_of sample_edges_def)
  have same: "same_readings (sample_state e v) (sample_state f v)" for e f v
    by (simp add: same_readings_def sensor_value_def sample_state_def SENSOR_SCALES_def)
  have "compatible_edges ?ss e f" if "e \<in> set sample_edges" "f \<in> set sample_edges" for e f
    using b [OF that(1)] b [OF that(2)] same_readings_compatible same sample_state_observes by blast
  moreover have "majority sample_edges (set sample_edges)" by (simp add: majority_def sample_edges_def)
  ultimately have "trusted sample_edges ?ss e" if "e \<in> set sample_edges" for e
    using clique_trusted that by blast
  moreover have "ri_participating_edges agreeing_input = sample_edges" "\<forall>s \<in> set ?ss. owner_edge_id s \<in> set sample_edges"
    by (simp_all add: agreeing_input_def sample_input_def sample_edges_def)
  ultimately show ?thesis by (simp add: trusted_states_def filter_id_conv)
qed

lemma mean_of_equal:
  assumes "mapM (\<lambda>s. sensor_value s n) ss = Inr [of_int k, of_int k, of_int k]" "\<bar>k\<bar> \<le> 1000000"
  shows "mean_reading ss n = Inr (of_int k)"
proof -
  have e: "fl (of_int m) = of_int m" if "\<bar>m\<bar> \<le> 3000000" for m
    using that by (intro fl.of_int_exact) simp
  have a: "fadd (of_int a) (of_int b) = of_int (a + b)" if "\<bar>a + b\<bar> \<le> 3000000" for a b
    using e [OF that] by (simp add: fadd_def)
  have s: "fsub (of_int a) (of_int b) = of_int (a - b)" if "\<bar>a - b\<bar> \<le> 3000000" for a b
    using e [OF that] by (simp add: fsub_def)
  have 1: "cs_add (of_int k, 0) (of_int k) = (of_int (2 * k), 0)"
    using a [of k k] s [of k "2 * k"] a [of "- k" k] a [of 0 0] assms(2) by (simp add: cs_add_def Let_def)
  have 2: "cs_add (of_int (2 * k), 0) (of_int k) = (of_int (3 * k), 0)"
    using a [of "2 * k" k] s [of "2 * k" "3 * k"] a [of "- k" k] s [of k "3 * k"] a [of "- 2 * k" "2 * k"] a [of 0 0] assms(2)
    by (simp add: cs_add_def Let_def)
  have "py_sum [of_int k, of_int k, of_int k] = of_int (3 * k)"
    using 1 2 by (simp add: cs_to_double_def)
  moreover have "fdiv_res (of_int (3 * k)) 3 = Inr (of_int k)"
    using e [of k] assms(2) by (simp add: fdiv_res_def fdiv_def)
  moreover have "py_round 3 (of_int k) = of_int k" using assms(2) by (intro rnd.of_int_exact) simp
  ultimately show ?thesis using assms(1) by (simp add: mean_reading_def)
qed

lemma agreeing_input_valid:
  "\<exists>pkg v. evaluate agreeing_input = Inr pkg \<and> ap_valid_state pkg = Some v \<and>
    (\<forall>(n, x) \<in> set (sensor_values v). plausible_reading x)"
proof -
  have c: "complete_input agreeing_input" using agreeing_input_healthy by (simp add: healthy_round_def)
  obtain pkg where e: "evaluate agreeing_input = Inr pkg" by (rule evaluate_total [OF c])
  have wf: "wf_round_input agreeing_input" using c by (simp add: complete_input_def)
  have len: "length (ri_participating_edges agreeing_input) div 2 + 1 \<le> length (trusted_states agreeing_input)"
    unfolding agreeing_input_trusted by (simp add: agreeing_input_def sample_input_def sample_edges_def)
  have "ap_final_status pkg = (if length (ri_participating_edges agreeing_input) div 2 + 1 \<le> length (trusted_states agreeing_input)
      then SUCCESS else FAILED_CONSENSUS)"
    using wf e by (rule evaluate_Inr)
  then have succ: "ap_final_status pkg = SUCCESS" using len by simp
  have "\<exists>v. ap_valid_state pkg = Some v \<and> build_consensused_valid_state agreeing_input (trusted_states agreeing_input) = Inr v"
    using wf e by (rule evaluate_Inr) (use succ in blast)
  then obtain v where v: "ap_valid_state pkg = Some v"
    "build_consensused_valid_state agreeing_input (replicated_states agreeing_input) = Inr v"
    by (auto simp: agreeing_input_trusted)
  have mean: "mean_reading (replicated_states agreeing_input) n = Inr (of_int (if n = ''temperature'' then 60 else if n = ''pressure'' then 3 else 1500))"
    if "n \<in> set consensus_sensors" for n
    using that
    by (intro mean_of_equal)
      (auto simp: agreeing_input_def sample_input_def sample_state_def sensor_value_def sample_payload_def consensus_sensors_def)
  have "plausible_reading x" if "(n, x) \<in> set (sensor_values v)" for n x
  proof -
    have "n \<in> set consensus_sensors"
      using build_valid_state_Inr(3) [OF v(2)] that by (metis fst_conv image_eqI set_map)
    with mean [OF this] build_valid_state_Inr(4) [OF v(2) that] show ?thesis by (simp add: plausible_reading_def split: if_splits)
  qed
  with e v(1) show ?thesis by auto
qed


end
