(* ===== verification/Dataset.thy ===== *)
theory Dataset
  imports RuntimeCycle
begin

text \<open>
  \<open>lstm_service/dataset_builder.py\<close>, \<open>contracts/training_dataset.py\<close> and the fixture guard
  of \<open>evidence/v1_golden_fixtures.py\<close>: which persisted artifacts train or evaluate the
  fingerprint, their features, and the sliding windows over them. The reader works on any
  artifact store; timestamps and keys are strings, compared as Python compares them.
\<close>

section \<open>Text of a value\<close>

text \<open>\<open>str(v)\<close> and \<open>repr(v)\<close>; strings with quotes or control characters do not occur inside containers.\<close>

fun py_repr :: "pyval \<Rightarrow> string" where
  "py_repr PNone = ''None''"
| "py_repr (PBool b) = (if b then ''True'' else ''False'')"
| "py_repr (PInt i) = str_of_int i"
| "py_repr (PFloat x) = flt_repr x"
| "py_repr (PStr s) = [CHR 0x27] @ s @ [CHR 0x27]"
| "py_repr (PList xs) = ''['' @ join '', '' (map py_repr xs) @ '']''"
| "py_repr (PDict d) = CHR 0x7B # join '', '' (map (\<lambda>e. [CHR 0x27] @ fst e @ [CHR 0x27] @ '': '' @ py_repr (snd e)) d) @ [CHR 0x7D]"

fun py_str :: "pyval \<Rightarrow> string" where
  "py_str (PStr s) = s"
| "py_str v = py_repr v"

section \<open>Fixture guard\<close>

record golden_violation =
  gv_rule_id :: string
  gv_fixture_or_requirement_id :: string
  gv_contract_id :: string
  gv_field_path :: string
  gv_offending_reference :: string
  gv_expected_value :: string
  gv_observed_value :: string
  gv_explanation :: string

definition contains :: "string \<Rightarrow> string \<Rightarrow> bool" where
  "contains p s = list_ex (starts_with p) (suffixes s)"

definition bounded_text :: "string \<Rightarrow> string" where
  "bounded_text v = (let t = concat (map (\<lambda>c. if c = CHR 0x00 then ''[NUL]'' else [c]) v); low = map lower_char t in
     if list_ex (\<lambda>m. contains m low) [''password='', ''secret='', ''token='', ''private key''] then ''[REDACTED]'' else take 160 t)"

definition golden_violation_of ::
  "string \<Rightarrow> string \<Rightarrow> string \<Rightarrow> string \<Rightarrow> string \<Rightarrow> string \<Rightarrow> string \<Rightarrow> string \<Rightarrow> golden_violation" where
  "golden_violation_of rule ident contract field offending expected observed explanation =
     \<lparr>gv_rule_id = rule, gv_fixture_or_requirement_id = bounded_text ident, gv_contract_id = bounded_text contract,
      gv_field_path = field, gv_offending_reference = bounded_text offending, gv_expected_value = bounded_text expected,
      gv_observed_value = bounded_text observed, gv_explanation = explanation\<rparr>"

definition validate_fixture_use :: "string \<Rightarrow> golden_violation list" where
  "validate_fixture_use use = (if use = ''contract_fixture_replay'' then []
     else [golden_violation_of ''GOLD-USE-PROHIBITED'' ''fixture-use-policy'' ''fixture'' ''use'' use
       ''contract_fixture_replay'' use ''Fixtures cannot enter scientific consumers or authorize activity.''])"

definition validate_fixture_consumer_source :: "string \<Rightarrow> string \<Rightarrow> golden_violation list" where
  "validate_fixture_consumer_source consumer_use locator =
     (let normalized = map (\<lambda>c. if c = CHR 0x5C then CHR ''/'' else c) locator in
      if \<not> contains ''testdata/golden/v1'' normalized then [] else validate_fixture_use consumer_use)"

section \<open>Contracts\<close>

record training_window =
  tw_window_id :: string
  tw_artifact_keys :: "string list"
  tw_round_ids :: "string list"
  tw_timestamps :: "string list"
  tw_feature_schema :: "string list"
  tw_feature_matrix :: "flt list list"
  tw_label :: string

definition training_window_to_dict :: "training_window \<Rightarrow> pyval" where
  "training_window_to_dict w = PDict [(''window_id'', PStr (tw_window_id w)),
     (''artifact_keys'', PList (map PStr (tw_artifact_keys w))), (''round_ids'', PList (map PStr (tw_round_ids w))),
     (''timestamps'', PList (map PStr (tw_timestamps w))), (''feature_schema'', PList (map PStr (tw_feature_schema w))),
     (''feature_matrix'', PList (map (\<lambda>row. PList (map PFloat row)) (tw_feature_matrix w))),
     (''label'', PStr (tw_label w))]"

record dataset_manifest =
  dm_dataset_id :: string
  dm_source_bucket :: string
  dm_source_prefix :: string
  dm_sequence_length :: int
  dm_feature_schema :: "string list"
  dm_selected_artifact_keys :: "string list"
  dm_skipped_artifacts :: "(string, string) dict"
  dm_eligible_record_count :: int
  dm_window_count :: int
  dm_training_label :: string

definition skipped_dict :: "(string, string) dict \<Rightarrow> pyval" where
  "skipped_dict d = PDict (map (\<lambda>(k, v). (k, PStr v)) (sorted_items d))"

definition dataset_manifest_to_dict :: "dataset_manifest \<Rightarrow> pyval" where
  "dataset_manifest_to_dict m = PDict [(''dataset_id'', PStr (dm_dataset_id m)),
     (''source_bucket'', PStr (dm_source_bucket m)), (''source_prefix'', PStr (dm_source_prefix m)),
     (''sequence_length'', PInt (dm_sequence_length m)), (''feature_schema'', PList (map PStr (dm_feature_schema m))),
     (''selected_artifact_keys'', PList (map PStr (dm_selected_artifact_keys m))),
     (''skipped_artifacts'', skipped_dict (dm_skipped_artifacts m)),
     (''eligible_record_count'', PInt (dm_eligible_record_count m)), (''window_count'', PInt (dm_window_count m)),
     (''training_label'', PStr (dm_training_label m))]"

section \<open>Eligibility\<close>

definition evaluate_training_eligibility :: "pyval \<Rightarrow> (bool \<times> string) res" where
  "evaluate_training_eligibility artifact =
     attempt (pget_or artifact ''consensus_context'' (PDict [])) (\<lambda>cc.
     attempt (pget cc ''final_consensus_status'') (\<lambda>status.
     if status \<noteq> PStr ''success'' then Inr (False, ''consensus_not_success'')
     else attempt (pget artifact ''dataset_context'') (\<lambda>dc.
     if \<not> is_dict dc then Inr (False, ''missing_dataset_context'')
     else attempt (pget dc ''training_label'') (\<lambda>label.
     if label \<noteq> PStr ''normal'' then Inr (False, ''training_label_not_normal'')
     else attempt (pget_or dc ''training_eligible'' (PBool False)) (\<lambda>eligible.
     if \<not> truthy eligible
       then attempt (pget_or dc ''training_eligibility_reason'' (PStr ''training_ineligible'')) (\<lambda>reason.
         Inr (False, py_str reason))
     else attempt (pget_or artifact ''diagnostics'' (PDict [])) (\<lambda>diag.
     attempt (pget_or diag ''has_scada_divergence'' (PBool False)) (\<lambda>divergent.
     if truthy divergent then Inr (False, ''scada_divergence'') else Inr (True, ''normal_eligible''))))))))"

definition evaluate_inference_eligibility :: "pyval \<Rightarrow> (bool \<times> string) res" where
  "evaluate_inference_eligibility artifact =
     attempt (pget_or artifact ''consensus_context'' (PDict [])) (\<lambda>cc.
     attempt (pget cc ''final_consensus_status'') (\<lambda>status.
     if status \<noteq> PStr ''success'' then Inr (False, ''consensus_not_success'')
     else attempt (pget artifact ''dataset_context'') (\<lambda>dc.
     if \<not> is_dict dc then Inr (False, ''missing_dataset_context'')
     else attempt (pget dc ''scenario_label'') (\<lambda>label.
     if \<not> truthy label then Inr (False, ''missing_scenario_label'')
     else attempt (pget_or artifact ''diagnostics'' (PDict [])) (\<lambda>diag.
     attempt (pget_or diag ''has_scada_divergence'' (PBool False)) (\<lambda>divergent.
     if truthy divergent then Inr (False, ''scada_divergence'') else Inr (True, ''evaluation_eligible'')))))))"

section \<open>Features\<close>

definition bool_to_float :: "pyval \<Rightarrow> flt" where
  "bool_to_float v = (if truthy v then 1 else 0)"

definition normalize_loop_current :: "flt \<Rightarrow> flt" where
  "normalize_loop_current ma = fdiv (fsub ma 4) 16"

definition sensor_feature_names :: "string \<Rightarrow> string list" where
  "sensor_feature_names n = [n @ ''.loop_current_ma'', n @ ''.loop_current_normalized'',
     n @ ''.field_device_malfunction'', n @ ''.loop_current_saturated'', n @ ''.cold_start'']"

text \<open>The body of the loop over the sensors.\<close>

definition sensor_features :: "pyval \<Rightarrow> flt list res" where
  "sensor_features payload = attempt (sub payload ''process_data'') (\<lambda>pd.
     attempt (sub payload ''diagnostics'') (\<lambda>dg.
     attempt (attempt (sub pd ''loop_current_ma'') to_float) (\<lambda>ma.
     attempt (sub dg ''field_device_malfunction'') (\<lambda>a.
     attempt (sub dg ''loop_current_saturated'') (\<lambda>b.
     attempt (sub dg ''cold_start'') (\<lambda>c.
       Inr [ma, normalize_loop_current ma, bool_to_float a, bool_to_float b, bool_to_float c]))))))"

definition extract_feature_vector :: "pyval \<Rightarrow> (string list \<times> flt list) res" where
  "extract_feature_vector artifact =
     attempt (attempt (sub artifact ''validated_state'') (\<lambda>v. sub v ''structured_payload_snapshot'')) (\<lambda>snapshot.
     attempt (attempt (sub snapshot ''payloads_by_sensor'') as_items) (\<lambda>payloads.
     attempt (mapM (\<lambda>e. sensor_features (snd e)) (sorted_items payloads)) (\<lambda>vals.
       Inr (concat (map (\<lambda>e. sensor_feature_names (fst e)) (sorted_items payloads)), concat vals))))"

section \<open>Reading the artifacts\<close>

record eligible_artifact =
  ea_artifact_key :: string
  ea_round_id :: string
  ea_timestamp :: string
  ea_feature_vector :: "flt list"
  ea_label :: string

type_synonym scan_state = "eligible_artifact list \<times> (string, string) dict \<times> string list"

definition read_eligible :: "string \<Rightarrow> pyval \<Rightarrow> flt list \<Rightarrow> eligible_artifact res" where
  "read_eligible key artifact vec = attempt (sub artifact ''round_identity'') (\<lambda>ri.
     attempt (attempt (sub ri ''round_id'') as_str) (\<lambda>rid.
     attempt (attempt (sub ri ''window_ended_at'') as_str) (\<lambda>ts.
     attempt (attempt (sub artifact ''dataset_context'') (\<lambda>dc. pget_or dc ''scenario_label'' (PStr ''unknown''))) (\<lambda>label.
       Inr \<lparr>ea_artifact_key = key, ea_round_id = rid, ea_timestamp = ts, ea_feature_vector = vec, ea_label = py_str label\<rparr>))))"

text \<open>One turn of the loop over the listed objects.\<close>

definition scan_artifact ::
  "(pyval \<Rightarrow> (bool \<times> string) res) \<Rightarrow> string \<Rightarrow> pyval \<Rightarrow> scan_state \<Rightarrow> scan_state res" where
  "scan_artifact eligibility key artifact st = (case st of (recs, skipped, schema) \<Rightarrow>
     attempt (eligibility artifact) (\<lambda>(eligible, reason).
     if \<not> eligible then Inr (recs, AList.update key reason skipped, schema)
     else attempt (extract_feature_vector artifact) (\<lambda>(current, vec).
       if schema \<noteq> [] \<and> current \<noteq> schema then Inr (recs, AList.update key ''feature_schema_mismatch'' skipped, schema)
       else attempt (read_eligible key artifact vec) (\<lambda>r. Inr (recs @ [r], skipped, if schema = [] then current else schema)))))"

fun scan_artifacts ::
  "'s store_ops \<Rightarrow> (pyval \<Rightarrow> (bool \<times> string) res) \<Rightarrow> 's \<Rightarrow> string list \<Rightarrow> scan_state \<Rightarrow> scan_state res" where
  "scan_artifacts ops eligibility s [] st = Inr st"
| "scan_artifacts ops eligibility s (key # keys) st = attempt (op_load_json ops key s) (\<lambda>artifact.
     attempt (scan_artifact eligibility key artifact st) (scan_artifacts ops eligibility s keys))"

section \<open>Windows\<close>

definition window_of :: "string list \<Rightarrow> eligible_artifact list \<Rightarrow> training_window" where
  "window_of schema chunk = \<lparr>tw_window_id = ''window::'' @ ea_round_id (hd chunk) @ ''::'' @ ea_round_id (last chunk),
     tw_artifact_keys = map ea_artifact_key chunk, tw_round_ids = map ea_round_id chunk,
     tw_timestamps = map ea_timestamp chunk, tw_feature_schema = schema,
     tw_feature_matrix = map ea_feature_vector chunk,
     tw_label = (if length (remdups (map ea_label chunk)) = 1 then ea_label (hd chunk) else ''mixed'')\<rparr>"

definition build_windows :: "eligible_artifact list \<Rightarrow> string list \<Rightarrow> nat \<Rightarrow> training_window list" where
  "build_windows recs schema k = (if length recs < k then []
     else map (\<lambda>i. window_of schema (take k (drop i recs))) [0 ..< length recs - k + 1])"

definition build_dataset_id :: "eligible_artifact list \<Rightarrow> int \<Rightarrow> string" where
  "build_dataset_id recs k = (if recs = [] then ''training-dataset::empty::seq-'' @ str_of_int k
     else ''training-dataset::'' @ ea_round_id (hd recs) @ ''::'' @ ea_round_id (last recs) @ ''::seq-'' @ str_of_int k)"

definition record_order :: "eligible_artifact \<Rightarrow> string list" where
  "record_order r = [ea_timestamp r, ea_artifact_key r]"

definition build_windows_from_artifacts ::
  "'s store_ops \<Rightarrow> int \<Rightarrow> string \<Rightarrow> (pyval \<Rightarrow> (bool \<times> string) res) \<Rightarrow> string \<Rightarrow> 's
     \<Rightarrow> (training_window list \<times> dataset_manifest) res" where
  "build_windows_from_artifacts ops k pre eligibility label s =
     (if k \<le> 0 then Inl (ValueError ''sequence_length must be a positive integer.'')
      else case validate_fixture_consumer_source ''dataset_root'' pre of v # _ \<Rightarrow> Inl (ValueError (gv_rule_id v))
      | [] \<Rightarrow> attempt (op_list_json_objects ops pre s) (\<lambda>keys.
        attempt (scan_artifacts ops eligibility s keys ([], [], [])) (\<lambda>(recs0, skipped, schema).
          let recs = sort_key record_order recs0; windows = build_windows recs schema (nat k) in
          Inr (windows, \<lparr>dm_dataset_id = build_dataset_id recs k, dm_source_bucket = op_bucket ops,
            dm_source_prefix = pre, dm_sequence_length = k, dm_feature_schema = schema,
            dm_selected_artifact_keys = map ea_artifact_key recs, dm_skipped_artifacts = skipped,
            dm_eligible_record_count = int (length recs), dm_window_count = int (length windows),
            dm_training_label = label\<rparr>))))"

definition build_normal_training_windows ::
  "'s store_ops \<Rightarrow> int \<Rightarrow> string \<Rightarrow> 's \<Rightarrow> (training_window list \<times> dataset_manifest) res" where
  "build_normal_training_windows ops k pre s =
     build_windows_from_artifacts ops k pre evaluate_training_eligibility ''normal'' s"

definition build_evaluation_windows ::
  "'s store_ops \<Rightarrow> int \<Rightarrow> string \<Rightarrow> 's \<Rightarrow> (training_window list \<times> dataset_manifest) res" where
  "build_evaluation_windows ops k pre s =
     build_windows_from_artifacts ops k pre evaluate_inference_eligibility ''evaluation'' s"

section \<open>Laws\<close>

lemma build_windows_length: "0 < k \<Longrightarrow> length (build_windows recs schema k) = length recs + 1 - k"
  by (auto simp: build_windows_def)

lemma build_windows_nth:
  assumes "i < length (build_windows recs schema k)" "0 < k"
  shows "build_windows recs schema k ! i = window_of schema (take k (drop i recs))" "i + k \<le> length recs"
  using assms by (auto simp: build_windows_def simp del: upt_Suc split: if_splits)

text \<open>What the loop keeps of the objects it has seen.\<close>

definition scan_inv :: "'s store_ops \<Rightarrow> (pyval \<Rightarrow> (bool \<times> string) res) \<Rightarrow> 's \<Rightarrow> string list \<Rightarrow> scan_state \<Rightarrow> bool" where
  "scan_inv ops eligibility s keys st = (case st of (recs, skipped, schema) \<Rightarrow>
     set (map ea_artifact_key recs) \<union> set (map fst skipped) = set keys \<and>
     set (map ea_artifact_key recs) \<inter> set (map fst skipped) = {} \<and>
     distinct (map ea_artifact_key recs) \<and> distinct (map fst skipped) \<and>
     (\<forall>r \<in> set recs. \<exists>artifact reason. op_load_json ops (ea_artifact_key r) s = Inr artifact \<and>
        eligibility artifact = Inr (True, reason) \<and> read_eligible (ea_artifact_key r) artifact (ea_feature_vector r) = Inr r \<and>
        (\<exists>names. extract_feature_vector artifact = Inr (names, ea_feature_vector r) \<and> (names = schema \<or> names = []))))"

lemma read_eligible_fields:
  "read_eligible key artifact vec = Inr r \<Longrightarrow> ea_artifact_key r = key \<and> ea_feature_vector r = vec"
  by (auto simp: read_eligible_def attempt_eq_Inr)

lemma fst_update: "set (map fst (AList.update k v d)) = insert k (set (map fst d))"
  by (simp add: dom_update)

lemma scan_artifact_inv:
  assumes "scan_inv ops eligibility s keys st" "key \<notin> set keys" "op_load_json ops key s = Inr artifact"
    and "scan_artifact eligibility key artifact st = Inr st'"
  shows "scan_inv ops eligibility s (keys @ [key]) st'"
proof -
  obtain recs skipped schema where st: "st = (recs, skipped, schema)" by (cases st)
  have new: "key \<notin> set (map ea_artifact_key recs)" "key \<notin> set (map fst skipped)"
    using assms(1,2) unfolding scan_inv_def st by auto
  have skip: "scan_inv ops eligibility s (keys @ [key]) (recs, AList.update key why skipped, schema)" for why
    using assms(1) new by (simp add: scan_inv_def st dom_update distinct_update)
  obtain eligible reason where e: "eligibility artifact = Inr (eligible, reason)"
    using assms(4) by (auto simp: scan_artifact_def st attempt_eq_Inr)
  show ?thesis
  proof (cases eligible)
    case False
    then show ?thesis using skip assms(4) by (auto simp: scan_artifact_def st e)
  next
    case True
    obtain current vec where x: "extract_feature_vector artifact = Inr (current, vec)"
      using assms(4) True by (auto simp: scan_artifact_def st e attempt_eq_Inr)
    show ?thesis
    proof (cases "schema \<noteq> [] \<and> current \<noteq> schema")
      case True
      then show ?thesis using skip assms(4) \<open>eligible\<close> by (auto simp: scan_artifact_def st e x)
    next
      case False
      then obtain r where r: "read_eligible key artifact vec = Inr r"
        "st' = (recs @ [r], skipped, if schema = [] then current else schema)"
        using assms(4) \<open>eligible\<close> by (auto simp: scan_artifact_def st e x attempt_eq_Inr)
      note fields = read_eligible_fields [OF r(1)]
      show ?thesis
        unfolding r(2) scan_inv_def prod.case
      proof (intro conjI)
        show "\<forall>r' \<in> set (recs @ [r]). \<exists>artifact reason. op_load_json ops (ea_artifact_key r') s = Inr artifact \<and>
            eligibility artifact = Inr (True, reason) \<and> read_eligible (ea_artifact_key r') artifact (ea_feature_vector r') = Inr r' \<and>
            (\<exists>names. extract_feature_vector artifact = Inr (names, ea_feature_vector r') \<and>
               (names = (if schema = [] then current else schema) \<or> names = []))"
          using assms(1,3) e True x r(1) fields False unfolding scan_inv_def st by auto
      qed (use assms(1) new fields in \<open>auto simp: scan_inv_def st\<close>)
    qed
  qed
qed

lemma scan_artifacts_inv:
  assumes "scan_artifacts ops eligibility s keys st = Inr st'" "scan_inv ops eligibility s seen st" "distinct (seen @ keys)"
  shows "scan_inv ops eligibility s (seen @ keys) st'"
  using assms
proof (induction keys arbitrary: seen st)
  case (Cons key keys)
  from Cons.prems(1) obtain artifact st1 where "op_load_json ops key s = Inr artifact"
    "scan_artifact eligibility key artifact st = Inr st1" "scan_artifacts ops eligibility s keys st1 = Inr st'"
    by (auto simp: attempt_eq_Inr)
  moreover from this have "scan_inv ops eligibility s (seen @ [key]) st1"
    using Cons.prems(2,3) by (intro scan_artifact_inv) auto
  ultimately show ?case using Cons.IH [of st1 "seen @ [key]"] Cons.prems(3) by simp
qed simp

text \<open>What a built dataset is made of.\<close>

lemma build_windows_spec:
  assumes "build_windows_from_artifacts ops k pre eligibility label s = Inr (ws, m)"
  obtains keys recs schema where "0 < k" "op_list_json_objects ops pre s = Inr keys"
    "distinct keys \<Longrightarrow> scan_inv ops eligibility s keys (recs, dm_skipped_artifacts m, schema)"
    "dm_feature_schema m = schema" "sorted (map record_order (sort_key record_order recs))"
    "dm_selected_artifact_keys m = map ea_artifact_key (sort_key record_order recs)"
    "ws = build_windows (sort_key record_order recs) schema (nat k)"
    "dm_eligible_record_count m = int (length recs)" "dm_window_count m = int (length ws)"
    "dm_dataset_id m = build_dataset_id (sort_key record_order recs) k" "dm_sequence_length m = k"
    "dm_training_label m = label" "dm_source_prefix m = pre" "dm_source_bucket m = op_bucket ops"
proof -
  have k: "0 < k" using assms by (auto simp: build_windows_from_artifacts_def split: if_splits)
  have g: "validate_fixture_consumer_source ''dataset_root'' pre = []"
    using assms k by (auto simp: build_windows_from_artifacts_def split: list.splits)
  from assms k g obtain keys recs skipped schema where x: "op_list_json_objects ops pre s = Inr keys"
    "scan_artifacts ops eligibility s keys ([], [], []) = Inr (recs, skipped, schema)"
    "(ws, m) = (let rs = sort_key record_order recs; windows = build_windows rs schema (nat k) in
      (windows, \<lparr>dm_dataset_id = build_dataset_id rs k, dm_source_bucket = op_bucket ops,
            dm_source_prefix = pre, dm_sequence_length = k, dm_feature_schema = schema,
            dm_selected_artifact_keys = map ea_artifact_key rs, dm_skipped_artifacts = skipped,
            dm_eligible_record_count = int (length rs), dm_window_count = int (length windows),
            dm_training_label = label\<rparr>))"
    by (auto simp: build_windows_from_artifacts_def attempt_eq_Inr Let_def)
  have inv: "distinct keys \<Longrightarrow> scan_inv ops eligibility s keys (recs, skipped, schema)"
    using scan_artifacts_inv [OF x(2), of "[]"] by (simp add: scan_inv_def)
  show ?thesis
    by (rule that [of keys recs schema]) (use k x inv in \<open>simp_all add: Let_def\<close>)
qed

lemma sorted_take_drop: "sorted xs \<Longrightarrow> sorted (take k (drop i xs))"
  by simp

lemma record_order_timestamps: "sorted (map record_order rs) \<Longrightarrow> sorted (map ea_timestamp rs)"
proof (induction rs)
  case (Cons r rs)
  have "ea_timestamp r \<le> ea_timestamp r'" if "record_order r \<le> record_order r'" for r'
    using that by (auto simp: record_order_def)
  with Cons show ?case by auto
qed simp

section \<open>Persisted artifacts\<close>

text \<open>What the builder reads back from a record of the persistence stage.\<close>

lemma persisted_fields:
  assumes "persist_valid_consensus_artifact ops p st out alert (Some ctx) now s = Inr (r, s')" "truthy ctx"
  obtains v snapshot quorum where "ap_final_status p = SUCCESS" "ap_valid_state p = Some v"
    "build_validated_payload_snapshot p = Inr snapshot" "r = build_record p v st out alert ctx now snapshot quorum"
  using assms by (auto simp: persist_valid_consensus_artifact_def attempt_eq_Inr Let_def split: if_splits option.splits)

lemma record_sections:
  assumes "r = build_record p v st out alert ctx now snapshot quorum"
  shows "pget_or (artifact_record_to_dict r) ''consensus_context'' d = Inr (ar_consensus_context r)"
    "pget (ar_consensus_context r) ''final_consensus_status'' = Inr (PStr (status_value (ap_final_status p)))"
    "pget (artifact_record_to_dict r) ''dataset_context'' = Inr ctx"
    "sub (artifact_record_to_dict r) ''dataset_context'' = Inr ctx"
    "pget_or (artifact_record_to_dict r) ''diagnostics'' d = Inr (ar_diagnostics r)"
    "pget_or (ar_diagnostics r) ''has_scada_divergence'' d = Inr (PBool (divergent_sensors out \<noteq> []))"
    "attempt (sub (artifact_record_to_dict r) ''validated_state'') (\<lambda>v. sub v ''structured_payload_snapshot'') = Inr snapshot"
  by (simp_all add: assms artifact_record_to_dict_def build_record_def Let_def)

lemma context_fields:
  "is_dict (dataset_context_of l t e rs camp)" "truthy (dataset_context_of l t e rs camp)"
  "pget (dataset_context_of l t e rs camp) ''training_label'' = Inr (PStr t)"
  "pget_or (dataset_context_of l t e rs camp) ''training_eligible'' d = Inr (PBool e)"
  "pget_or (dataset_context_of l t e rs camp) ''training_eligibility_reason'' d = Inr (PStr rs)"
  "pget (dataset_context_of l t e rs camp) ''scenario_label'' = Inr (PStr l)"
  by (simp_all add: dataset_context_of_def)

lemma persisted_eligibility:
  assumes "persist_valid_consensus_artifact ops p st out alert (Some (dataset_context_of l t e rs camp)) now s = Inr (r, s')"
  shows "evaluate_training_eligibility (artifact_record_to_dict r) = Inr (
    if t \<noteq> ''normal'' then (False, ''training_label_not_normal'') else if \<not> e then (False, rs)
    else if divergent_sensors out \<noteq> [] then (False, ''scada_divergence'') else (True, ''normal_eligible''))"
    and "evaluate_inference_eligibility (artifact_record_to_dict r) = Inr (
    if l = [] then (False, ''missing_scenario_label'')
    else if divergent_sensors out \<noteq> [] then (False, ''scada_divergence'') else (True, ''evaluation_eligible''))"
proof -
  obtain v snapshot quorum where r: "ap_final_status p = SUCCESS"
    "r = build_record p v st out alert (dataset_context_of l t e rs camp) now snapshot quorum"
    by (rule persisted_fields [OF assms context_fields(2)])
  note sections = record_sections [OF r(2)]
  have success: "pget (ar_consensus_context r) ''final_consensus_status'' = Inr (PStr ''success'')"
    by (simp add: sections(2) r(1))
  show "evaluate_training_eligibility (artifact_record_to_dict r) = Inr (
    if t \<noteq> ''normal'' then (False, ''training_label_not_normal'') else if \<not> e then (False, rs)
    else if divergent_sensors out \<noteq> [] then (False, ''scada_divergence'') else (True, ''normal_eligible''))"
    by (simp add: evaluate_training_eligibility_def sections(1,3,5,6) success context_fields)
  show "evaluate_inference_eligibility (artifact_record_to_dict r) = Inr (
    if l = [] then (False, ''missing_scenario_label'')
    else if divergent_sensors out \<noteq> [] then (False, ''scada_divergence'') else (True, ''evaluation_eligible''))"
    by (simp add: evaluate_inference_eligibility_def sections(1,3,5,6) success context_fields)
qed

text \<open>The features of one observed payload.\<close>

definition payload_features :: "raw_hart_payload \<Rightarrow> flt list" where
  "payload_features p = (let ma = pd_loop_current_ma (hp_process_data p); dg = hp_diagnostics p in
     [ma, normalize_loop_current ma, if dg_field_device_malfunction dg then 1 else 0,
      if dg_loop_current_saturated dg then 1 else 0, if dg_cold_start dg then 1 else 0])"

lemma sensor_features_payload: "sensor_features (payload_to_dict (build_validated_payload p x)) = Inr (payload_features p)"
  by (cases "pd_sv (hp_process_data p)") (simp_all add: sensor_features_def payload_to_dict_def build_validated_payload_def payload_features_def Let_def
      process_data_dict_def diagnostics_dict_def bool_to_float_def)

lemma sorted_items_map: "sorted_items (map (\<lambda>(k, v). (k, f k v)) (sorted_items d)) = map (\<lambda>(k, v). (k, f k v)) (sorted_items d)"
proof -
  have "sorted (map fst (map (\<lambda>(k, v). (k, f k v)) (sorted_items d)))"
    by (simp add: sorted_items_def case_prod_beta' o_def)
  then show ?thesis by (simp only: sorted_items_def sort_key_id_if_sorted)
qed

lemma snapshot_features:
  assumes "sub snapshot ''payloads_by_sensor'' = Inr (PDict (validated_payloads v s))"
    and "attempt (sub artifact ''validated_state'') (\<lambda>v. sub v ''structured_payload_snapshot'') = Inr snapshot"
  shows "extract_feature_vector artifact = Inr (
    concat (map (\<lambda>(n, p). sensor_feature_names n) (sorted_items (observations_by_sensor s))),
    concat (map (\<lambda>(n, p). payload_features p) (sorted_items (observations_by_sensor s))))"
proof -
  let ?obs = "sorted_items (observations_by_sensor s)"
  have p: "sorted_items (validated_payloads v s) = validated_payloads v s"
    unfolding validated_payloads_def by (rule sorted_items_map)
  have "mapM (\<lambda>e. sensor_features (snd e)) (validated_payloads v s) = mapM (\<lambda>e. Inr (payload_features (snd e))) ?obs"
    unfolding validated_payloads_def mapM_map by (rule mapM_cong) (auto simp: sensor_features_payload)
  also have "\<dots> = Inr (map (\<lambda>e. payload_features (snd e)) ?obs)" by (rule mapM_Inr) simp
  finally have m: "mapM (\<lambda>e. sensor_features (snd e)) (validated_payloads v s) = Inr (map (\<lambda>e. payload_features (snd e)) ?obs)" .
  have "map (\<lambda>e. sensor_feature_names (fst e)) (validated_payloads v s) = map (\<lambda>e. sensor_feature_names (fst e)) ?obs"
    by (simp add: validated_payloads_def case_prod_beta' o_def)
  then show ?thesis
    by (simp add: extract_feature_vector_def assms p m case_prod_beta')
qed

lemma persist_sample:
  assumes "evaluate (sample_input (60, 3, 1500) (0, 9, 0)) = Inr pkg" "ap_final_status pkg = SUCCESS"
  shows "\<exists>r s'. persist_valid_consensus_artifact (local_ops ''b'') pkg (sample_scada_state (60, 3, 1500)) sample_output None
    ctx sample_time [] = Inr (r, s')"
proof -
  have "co_round_identity sample_output = ri_round_identity (sample_input (60, 3, 1500) (0, 9, 0))"
    by (simp add: sample_output_def sample_input_def)
  note gate = persist_decided [OF local_store.artifact_store_axioms [of "''b''"] sample_input_complete sample_input_exact
      evaluate_settles [OF complete_wf [OF sample_input_complete] assms(1)] this]
  show ?thesis
    using gate [where st = "sample_scada_state (60, 3, 1500)" and alert = None and ctx = ctx and now = sample_time and s = "[]"]
    unfolding assms(2) consensus_status.case by blast
qed

lemma persisted_features:
  assumes "exact_sensors ri" "settles ri pkg"
    and "persist_valid_consensus_artifact ops pkg st out alert (Some ctx) now s = Inr (r, s')" "truthy ctx"
  obtains source names vec where "source \<in> set (replicated_states ri)" "extract_feature_vector (artifact_record_to_dict r) = Inr (names, vec)"
    "names = concat (map (\<lambda>(n, p). sensor_feature_names n) (sorted_items (observations_by_sensor source)))"
    "vec = concat (map (\<lambda>(n, p). payload_features p) (sorted_items (observations_by_sensor source)))"
    "\<exists>v. ap_valid_state pkg = Some v \<and> owner_edge_id source \<in> set (source_edges v)"
proof -
  obtain v snapshot quorum where r: "ap_final_status pkg = SUCCESS" "ap_valid_state pkg = Some v"
    "build_validated_payload_snapshot pkg = Inr snapshot" "r = build_record pkg v st out alert ctx now snapshot quorum"
    by (rule persisted_fields [OF assms(3,4)])
  note p = settled_input [OF assms(2)] and v = settled_state(2,4) [OF assms(2) r(2)]
  obtain source where source: "source \<in> set (replicated_states ri)" "owner_edge_id source \<in> set (source_edges v)"
    "build_validated_payload_snapshot pkg = Inr (PDict [(''snapshot_type'', PStr ''validated_source_view''),
      (''selected_source_edge_id'', PStr (owner_edge_id source)), (''payloads_by_sensor'', PDict (validated_payloads v source))])"
    using snapshot_total [OF r(2) v(1)] v(2) assms(1) by (auto simp: p)
  have "sub snapshot ''payloads_by_sensor'' = Inr (PDict (validated_payloads v source))"
    using source(3) r(3) by auto
  from that [OF source(1) snapshot_features [OF this record_sections(7) [OF r(4)]]] r(2) source(2) show ?thesis by simp
qed

section \<open>Properties\<close>

text \<open>
  Windows slide over the whole selection: with \<open>n\<close> selected artifacts there are
  \<open>n - k + 1\<close> windows (none below \<open>k\<close>), the \<open>i\<close>-th one holds the \<open>k\<close> artifacts from the
  \<open>i\<close>-th on, all under the schema of the dataset and in the order of their timestamps.
\<close>

theorem windows_slide:
  assumes "build_windows_from_artifacts ops k pre eligibility label s = Inr (ws, m)"
  shows "0 < k \<and> length ws = length (dm_selected_artifact_keys m) + 1 - nat k \<and> dm_window_count m = int (length ws) \<and>
    (\<forall>i < length ws. tw_artifact_keys (ws ! i) = take (nat k) (drop i (dm_selected_artifact_keys m)) \<and>
       length (tw_artifact_keys (ws ! i)) = nat k \<and> length (tw_feature_matrix (ws ! i)) = nat k \<and>
       tw_feature_schema (ws ! i) = dm_feature_schema m \<and> sorted (tw_timestamps (ws ! i)))"
proof (rule build_windows_spec [OF assms])
  fix keys recs schema
  let ?rs = "sort_key record_order recs"
  assume a: "0 < k" "dm_feature_schema m = schema" "sorted (map record_order ?rs)"
    "dm_selected_artifact_keys m = map ea_artifact_key ?rs" "ws = build_windows ?rs schema (nat k)"
    "dm_window_count m = int (length ws)"
  have "sorted (map ea_timestamp (take (nat k) (drop i ?rs)))" for i
    using sorted_take_drop [OF record_order_timestamps [OF a(3)]] by (simp add: take_map drop_map)
  then show ?thesis
    using a(1,2,4,6) build_windows_length [of "nat k" ?rs schema] build_windows_nth [of _ ?rs schema "nat k"]
    by (simp add: a(5) window_of_def take_map drop_map)
qed

text \<open>A store with two normal artifacts and one excluded one.\<close>

definition sample_artifact :: "string \<Rightarrow> string \<Rightarrow> pyval" where
  "sample_artifact rid label = PDict [(''artifact_key'', PStr (''a/'' @ rid @ ''.json'')),
     (''round_identity'', PDict [(''round_id'', PStr rid), (''window_ended_at'', PStr rid)]),
     (''consensus_context'', PDict [(''final_consensus_status'', PStr ''success'')]),
     (''validated_state'', PDict [(''structured_payload_snapshot'', PDict [(''payloads_by_sensor'', PDict
        [(''rpm'', PDict [(''process_data'', PDict [(''loop_current_ma'', PFloat 12)]),
           (''diagnostics'', PDict [(''field_device_malfunction'', PBool False), (''loop_current_saturated'', PBool False),
              (''cold_start'', PBool False)])])])])]),
     (''dataset_context'', PDict [(''scenario_label'', PStr label), (''training_label'', PStr label),
        (''training_eligible'', PBool True)]),
     (''diagnostics'', PDict [(''has_scada_divergence'', PBool False)])]"

definition sample_files :: local_files where
  "sample_files = [(''a/r2.json'', Json (sample_artifact ''r2'' ''normal'')), (''a/r1.json'', Json (sample_artifact ''r1'' ''normal'')),
     (''a/r3.json'', Json (sample_artifact ''r3'' ''quorum_loss''))]"

lemma sample_listing: "op_list_json_objects (local_ops ''b'') ''a/'' sample_files = Inr [''a/r1.json'', ''a/r2.json'', ''a/r3.json'']"
  by (simp add: local_ops_def local_list_json_objects_def sample_files_def ends_with_def starts_with_def is_dir_def
      dir_path_def path_parts_def Let_def)

lemma sample_admission: "evaluate_training_eligibility (sample_artifact rid label) =
    Inr (if label = ''normal'' then (True, ''normal_eligible'') else (False, ''training_label_not_normal''))"
  by (simp add: evaluate_training_eligibility_def sample_artifact_def)

lemma sample_features: "extract_feature_vector (sample_artifact rid label) =
    Inr (sensor_feature_names ''rpm'', [12, normalize_loop_current 12, 0, 0, 0])"
  by (simp add: extract_feature_vector_def sample_artifact_def sorted_items_def sensor_features_def bool_to_float_def)

lemma sample_read: "read_eligible key (sample_artifact rid label) vec = Inr \<lparr>ea_artifact_key = key, ea_round_id = rid,
    ea_timestamp = rid, ea_feature_vector = vec, ea_label = label\<rparr>"
  by (simp add: read_eligible_def sample_artifact_def)

lemma sample_load:
  "op_load_json (local_ops ''b'') ''a/r1.json'' sample_files = Inr (sample_artifact ''r1'' ''normal'')"
  "op_load_json (local_ops ''b'') ''a/r2.json'' sample_files = Inr (sample_artifact ''r2'' ''normal'')"
  "op_load_json (local_ops ''b'') ''a/r3.json'' sample_files = Inr (sample_artifact ''r3'' ''quorum_loss'')"
  by (simp_all add: local_ops_def local_load_json_def sample_files_def)

lemma sample_dataset:
  "\<exists>w m. build_windows_from_artifacts (local_ops ''b'') 2 ''a/'' evaluate_training_eligibility ''normal'' sample_files = Inr ([w], m) \<and>
     dm_selected_artifact_keys m = [''a/r1.json'', ''a/r2.json''] \<and>
     dm_skipped_artifacts m = [(''a/r3.json'', ''training_label_not_normal'')]"
proof -
  have g: "validate_fixture_consumer_source ''dataset_root'' ''a/'' = []"
    by (simp add: validate_fixture_consumer_source_def contains_def starts_with_def)
  have n: "sensor_feature_names ''rpm'' \<noteq> []" by (simp add: sensor_feature_names_def)
  show ?thesis
    by (simp add: build_windows_from_artifacts_def g sample_listing sample_load scan_artifact_def sample_admission
        sample_features sample_read n record_order_def build_windows_def Let_def)
qed

theorem windows_slide_witness:
  "\<exists>w m. build_windows_from_artifacts (local_ops ''b'') 2 ''a/'' evaluate_training_eligibility ''normal'' sample_files = Inr ([w], m) \<and>
     dm_window_count m = 1 \<and> tw_artifact_keys w = [''a/r1.json'', ''a/r2.json'']"
proof -
  obtain w m where b: "build_windows_from_artifacts (local_ops ''b'') 2 ''a/'' evaluate_training_eligibility ''normal'' sample_files = Inr ([w], m)"
    "dm_selected_artifact_keys m = [''a/r1.json'', ''a/r2.json'']" using sample_dataset by blast
  with windows_slide [OF b(1)] show ?thesis by simp
qed

text \<open>
  Every artifact is accounted for: on a conforming store the selected and the skipped
  keys partition the JSON objects under the prefix, no key is selected twice, and each
  selected one loads and is eligible.
\<close>

theorem dataset_partition:
  assumes "artifact_store ops contents" "ends_with ''/'' pre"
    and "build_windows_from_artifacts ops k pre eligibility label s = Inr (ws, m)"
  shows "set (dm_selected_artifact_keys m) \<union> set (map fst (dm_skipped_artifacts m)) = json_under pre (contents s) \<and>
    set (dm_selected_artifact_keys m) \<inter> set (map fst (dm_skipped_artifacts m)) = {} \<and>
    distinct (dm_selected_artifact_keys m) \<and>
    (\<forall>key \<in> set (dm_selected_artifact_keys m). \<exists>artifact reason.
       op_load_json ops key s = Inr artifact \<and> eligibility artifact = Inr (True, reason))"
proof (rule build_windows_spec [OF assms(3)])
  fix keys recs schema
  assume a: "op_list_json_objects ops pre s = Inr keys"
    "distinct keys \<Longrightarrow> scan_inv ops eligibility s keys (recs, dm_skipped_artifacts m, schema)"
    "dm_selected_artifact_keys m = map ea_artifact_key (sort_key record_order recs)"
  have keys: "distinct keys" "set keys = json_under pre (contents s)"
    using artifact_store.list_json [OF assms(1,2), of s] a(1) by auto
  have sel: "set (dm_selected_artifact_keys m) = set (map ea_artifact_key recs)" by (simp add: a(3))
  have "distinct (map ea_artifact_key (sort_key record_order recs)) = distinct (map ea_artifact_key recs)"
    by (simp add: distinct_map)
  with a(2) [OF keys(1)] show ?thesis
    unfolding sel keys(2) [symmetric] by (auto simp: a(3) scan_inv_def)
qed

theorem dataset_partition_witness:
  "\<exists>ws m. build_windows_from_artifacts (local_ops ''b'') 2 ''a/'' evaluate_training_eligibility ''normal'' sample_files = Inr (ws, m) \<and>
     set (dm_selected_artifact_keys m) \<union> set (map fst (dm_skipped_artifacts m)) = json_under ''a/'' (map_of sample_files)"
proof -
  have p: "ends_with ''/'' ''a/''" by (simp add: ends_with_def)
  obtain w m where b: "build_windows_from_artifacts (local_ops ''b'') 2 ''a/'' evaluate_training_eligibility ''normal'' sample_files = Inr ([w], m)"
    using sample_dataset by blast
  from dataset_partition [OF local_store.artifact_store_axioms p b] b show ?thesis by metis
qed

text \<open>
  No fixture and no empty window enters a dataset: a non-positive length and any prefix
  inside the golden fixtures are refused with \<open>ValueError\<close> before the store is read.
\<close>

theorem dataset_refusals:
  "(k \<le> 0 \<longrightarrow> build_windows_from_artifacts ops k pre eligibility label s =
      Inl (ValueError ''sequence_length must be a positive integer.'')) \<and>
   (0 < k \<and> contains ''testdata/golden/v1'' (map (\<lambda>c. if c = CHR 0x5C then CHR ''/'' else c) pre) \<longrightarrow>
      build_windows_from_artifacts ops k pre eligibility label s = Inl (ValueError ''GOLD-USE-PROHIBITED''))"
  by (simp add: build_windows_from_artifacts_def validate_fixture_consumer_source_def validate_fixture_use_def
      golden_violation_of_def)

theorem dataset_refusals_witness:
  "build_windows_from_artifacts (local_ops ''b'') 2 ''testdata/golden/v1/'' evaluate_training_eligibility ''normal'' [] =
     Inl (ValueError ''GOLD-USE-PROHIBITED'')"
  using dataset_refusals [of 2 "local_ops ''b''" "''testdata/golden/v1/''" evaluate_training_eligibility "''normal''" "[]"]
  by (simp add: contains_def starts_with_def)

text \<open>
  A live artifact trains the fingerprint exactly when its cycle was normal: the builder's
  admission of a persisted record follows the scenario of the cycle and the divergence of
  the supervisory layer, and every admitted artifact is also admitted for evaluation.
\<close>

theorem live_artifact_trains_iff_normal:
  assumes "resolve_runtime_scenario_control_stage c i = Inr stage"
    and "configure_scada_replay_runtime_stage (apply_runtime_scenario_control c stage) i sv = Inr (rp, sv1)"
    and "persist_valid_consensus_artifact ops p st out alert
      (Some (build_dataset_context (demo_fault_mode (apply_runtime_scenario_control c stage)) out (Some stage) (Some rp) camp)) now s
      = Inr (r, s')"
  shows "(\<exists>reason. evaluate_training_eligibility (artifact_record_to_dict r) =
      Inr (active_scenario stage = ''normal'' \<and> divergent_sensors out = [], reason)) \<and>
    (active_scenario stage = ''normal'' \<and> divergent_sensors out = [] \<longrightarrow>
      evaluate_inference_eligibility (artifact_record_to_dict r) = Inr (True, ''evaluation_eligible''))"
proof (cases "active_scenario stage = ''normal'' \<and> divergent_sensors out = []")
  case True
  with assms(3) have "persist_valid_consensus_artifact ops p st out alert
      (Some (dataset_context_of ''normal'' ''normal'' True ''normal_validated_run'' camp)) now s = Inr (r, s')"
    by (simp add: live_context [OF assms(1,2)])
  from persisted_eligibility [OF this] True show ?thesis by simp
next
  case False
  obtain l rs where "persist_valid_consensus_artifact ops p st out alert
      (Some (dataset_context_of l ''non_normal'' False rs camp)) now s = Inr (r, s')"
    using assms(3) False by (simp only: live_context [OF assms(1,2)] if_False)
  from persisted_eligibility(1) [OF this] False show ?thesis by auto
qed

theorem live_artifact_trains_iff_normal_witness:
  "\<exists>stage rp sv1 pkg r s'. resolve_runtime_scenario_control_stage default_config 1 = Inr stage \<and>
     configure_scada_replay_runtime_stage (apply_runtime_scenario_control default_config stage) 1 (init_service ''c'') = Inr (rp, sv1) \<and>
     persist_valid_consensus_artifact (local_ops ''b'') pkg (sample_scada_state (60, 3, 1500)) sample_output None
       (Some (build_dataset_context (demo_fault_mode (apply_runtime_scenario_control default_config stage)) sample_output (Some stage)
         (Some rp) [])) sample_time [] = Inr (r, s') \<and>
     (\<exists>reason. evaluate_training_eligibility (artifact_record_to_dict r) = Inr (True, reason))"
proof -
  have r: "resolve_runtime_scenario_control_stage default_config 1 = Inr (normal_stage ''normal'' 1 True)"
    by (simp add: resolve_runtime_scenario_control_stage_def resolve_configured_scenario_def default_config_def strip_def)
  obtain rp sv1 where c: "configure_scada_replay_runtime_stage (apply_runtime_scenario_control default_config (normal_stage ''normal'' 1 True)) 1
      (init_service ''c'') = Inr (rp, sv1)"
    using configure_stage_spec by blast
  obtain pkg where e: "evaluate (sample_input (60, 3, 1500) (0, 9, 0)) = Inr pkg" "ap_final_status pkg = SUCCESS"
    using engine_success_sample [of "(60, 3, 1500)" "(0, 9, 0)"] by (elim exE conjE) (rule that)
  let ?ctx = "build_dataset_context (demo_fault_mode (apply_runtime_scenario_control default_config (normal_stage ''normal'' 1 True)))
    sample_output (Some (normal_stage ''normal'' 1 True)) (Some rp) []"
  obtain rec s' where p: "persist_valid_consensus_artifact (local_ops ''b'') pkg (sample_scada_state (60, 3, 1500)) sample_output None
      (Some ?ctx) sample_time [] = Inr (rec, s')"
    using persist_sample [OF e] by blast
  have n: "active_scenario (normal_stage ''normal'' 1 True) = ''normal''" "divergent_sensors sample_output = []"
    by (simp_all add: normal_stage_def sample_output_def divergent_sensors_def)
  from live_artifact_trains_iff_normal [OF r c p]
  obtain reason where "evaluate_training_eligibility (artifact_record_to_dict rec) = Inr (True, reason)" by (auto simp: n)
  with r c p show ?thesis by - (intro exI conjI, assumption+)
qed

text \<open>
  The fingerprint sees the electrical loop, not the consensus: the features read back
  from a persisted artifact are the loop currents and device flags that one source edge of
  the valid state observed; no consensused value enters them.
\<close>

theorem features_from_the_loop:
  assumes "complete_input ri" "exact_sensors ri" "evaluate ri = Inr pkg"
    and "persist_valid_consensus_artifact ops pkg st out alert (Some ctx) now s = Inr (r, s')" "truthy ctx"
  shows "\<exists>source \<in> set (replicated_states ri).
    extract_feature_vector (artifact_record_to_dict r) = Inr (
      concat (map (\<lambda>(n, p). sensor_feature_names n) (sorted_items (observations_by_sensor source))),
      concat (map (\<lambda>(n, p). payload_features p) (sorted_items (observations_by_sensor source)))) \<and>
    (\<exists>v. ap_valid_state pkg = Some v \<and> owner_edge_id source \<in> set (source_edges v))"
proof -
  obtain source names vec where "source \<in> set (replicated_states ri)" "extract_feature_vector (artifact_record_to_dict r) = Inr (names, vec)"
    "names = concat (map (\<lambda>(n, p). sensor_feature_names n) (sorted_items (observations_by_sensor source)))"
    "vec = concat (map (\<lambda>(n, p). payload_features p) (sorted_items (observations_by_sensor source)))"
    "\<exists>v. ap_valid_state pkg = Some v \<and> owner_edge_id source \<in> set (source_edges v)"
    by (rule persisted_features [OF assms(2) evaluate_settles [OF complete_wf [OF assms(1)] assms(3)] assms(4,5)])
  then show ?thesis by blast
qed

theorem features_from_the_loop_witness:
  "\<exists>pkg r s'. evaluate (sample_input (60, 3, 1500) (0, 9, 0)) = Inr pkg \<and>
     persist_valid_consensus_artifact (local_ops ''b'') pkg (sample_scada_state (60, 3, 1500)) sample_output None
       (Some default_dataset_context) sample_time [] = Inr (r, s') \<and>
     (\<exists>names vals. extract_feature_vector (artifact_record_to_dict r) = Inr (names, vals))"
proof -
  obtain pkg where e: "evaluate (sample_input (60, 3, 1500) (0, 9, 0)) = Inr pkg" "ap_final_status pkg = SUCCESS"
    using engine_success_sample [of "(60, 3, 1500)" "(0, 9, 0)"] by (elim exE conjE) (rule that)
  obtain r s' where p: "persist_valid_consensus_artifact (local_ops ''b'') pkg (sample_scada_state (60, 3, 1500)) sample_output None
      (Some default_dataset_context) sample_time [] = Inr (r, s')"
    using persist_sample [OF e] by blast
  have "truthy default_dataset_context" by (simp add: default_dataset_context_def)
  from features_from_the_loop [OF sample_input_complete sample_input_exact e(1) p this] e(1) p show ?thesis by blast
qed

end
