(* ===== verification/DatasetArtifacts.thy ===== *)
theory DatasetArtifacts
  imports Dataset
begin

text \<open>
  \<open>lstm_service/dataset_artifacts.py\<close> and \<open>contracts/dataset_artifact.py\<close>: a dataset is
  persisted as a JSON manifest and a compressed numpy archive, and loaded back. numpy is
  not part of the repository: \<open>numpy\<close> holds the functions the code calls.

  From here on a call may write and then raise, so an action returns the store it leaves
  behind beside its result.
\<close>

section \<open>Actions on a store\<close>

type_synonym ('s, 'a) act = "'s \<Rightarrow> 'a res \<times> 's"

definition ret :: "'a \<Rightarrow> ('s, 'a) act" where
  "ret x s = (Inr x, s)"

definition bind_act :: "('s, 'a) act \<Rightarrow> ('a \<Rightarrow> ('s, 'b) act) \<Rightarrow> ('s, 'b) act" where
  "bind_act m f s = (case m s of (Inl e, s') \<Rightarrow> (Inl e, s') | (Inr x, s') \<Rightarrow> f x s')"

text \<open>A read or a pure step, and a write; a failed write leaves the store as it was.\<close>

definition reading :: "('s \<Rightarrow> 'a res) \<Rightarrow> ('s, 'a) act" where
  "reading f s = (f s, s)"

definition writing :: "('s \<Rightarrow> 's res) \<Rightarrow> ('s, unit) act" where
  "writing f s = (case f s of Inl e \<Rightarrow> (Inl e, s) | Inr s' \<Rightarrow> (Inr (), s'))"

named_theorems act_simps "evaluation of actions"

lemma bind_act_Inr [act_simps]: "m s = (Inr x, s') \<Longrightarrow> bind_act m f s = f x s'"
  by (simp add: bind_act_def)

lemma bind_act_Inl [act_simps]: "m s = (Inl e, s') \<Longrightarrow> bind_act m f s = (Inl e, s')"
  by (simp add: bind_act_def)

lemma bind_reading [act_simps]: "bind_act (reading g) f s = (case g s of Inl e \<Rightarrow> (Inl e, s) | Inr x \<Rightarrow> f x s)"
  by (simp add: bind_act_def reading_def split: sum.split)

lemma bind_writing [act_simps]: "bind_act (writing g) f s = (case g s of Inl e \<Rightarrow> (Inl e, s) | Inr s' \<Rightarrow> f () s')"
  by (simp add: bind_act_def writing_def split: sum.split)

lemma ret_app [act_simps]: "ret x s = (Inr x, s)"
  by (simp add: ret_def)

lemma bind_act_eq_Inr: "bind_act m f s = (Inr y, t) \<longleftrightarrow> (\<exists>x s'. m s = (Inr x, s') \<and> f x s' = (Inr y, t))"
  by (cases "m s"; cases "fst (m s)") (auto simp: bind_act_def)

section \<open>numpy\<close>

text \<open>
  The archive of a dataset: the tensor with its shape, and the string arrays.
  \<open>np_float32\<close> is the conversion of \<open>asarray(\<dots>, dtype="float32")\<close>.
\<close>

record npz_archive =
  nz_shape :: "nat list"
  nz_feature_tensor :: "flt list list list"
  nz_window_ids :: "string list"
  nz_artifact_keys :: "string list list"
  nz_round_ids :: "string list list"
  nz_timestamps :: "string list list"
  nz_labels :: "string list"

record numpy =
  np_float32 :: "flt \<Rightarrow> flt"
  np_savez :: "npz_archive \<Rightarrow> string"
  np_load :: "string \<Rightarrow> npz_archive res"
  np_window_errors :: "flt list list list \<Rightarrow> flt list list list \<Rightarrow> flt list"
  np_mean :: "flt list \<Rightarrow> flt"
  np_std :: "flt list \<Rightarrow> flt"

definition load_numpy :: "numpy option \<Rightarrow> numpy res" where
  "load_numpy np = (case np of Some x \<Rightarrow> Inr x | None \<Rightarrow> Inl (RuntimeError
     (''Story 4.2A dataset artifact persistence requires the '' @ [CHR 0x27] @ ''numpy'' @ [CHR 0x27] @ '' package.'')))"

text \<open>\<open>asarray\<close> of nested lists: all of one shape, or \<open>ValueError\<close>.\<close>

definition rows_of_length :: "nat \<Rightarrow> 'a list list \<Rightarrow> bool" where
  "rows_of_length n xs = (\<forall>x \<in> set xs. length x = n)"

definition tensor_of :: "(flt \<Rightarrow> flt) \<Rightarrow> flt list list list \<Rightarrow> (nat list \<times> flt list list list) res" where
  "tensor_of f xs = (let k = length (hd xs); w = length (hd (hd xs)) in
     if \<not> rows_of_length k xs \<or> (0 < k \<and> \<not> list_all (rows_of_length w) xs)
       then Inl (ValueError ''setting an array element with a sequence.'')
     else Inr (if k = 0 then [length xs, 0] else [length xs, k, w], map (map (map f)) xs))"

definition string_matrix :: "nat \<Rightarrow> string list list \<Rightarrow> string list list res" where
  "string_matrix k xs = (if rows_of_length k xs then Inr xs
     else Inl (ValueError ''cannot reshape array''))"

definition serialize_training_windows_npz ::
  "numpy option \<Rightarrow> training_window list \<Rightarrow> int \<Rightarrow> nat \<Rightarrow> string res" where
  "serialize_training_windows_npz np ws sequence_length feature_count = attempt (load_numpy np) (\<lambda>x.
     let k = (if ws \<noteq> [] then length (tw_artifact_keys (hd ws)) else nat sequence_length) in
     attempt (if ws \<noteq> [] then tensor_of (np_float32 x) (map tw_feature_matrix ws)
         else if sequence_length < 0 then Inl (ValueError ''negative dimensions are not allowed'')
         else Inr ([0, k, feature_count], [])) (\<lambda>(shape, tensor).
     attempt (string_matrix k (map tw_artifact_keys ws)) (\<lambda>keys.
     attempt (string_matrix k (map tw_round_ids ws)) (\<lambda>rids.
     attempt (string_matrix k (map tw_timestamps ws)) (\<lambda>tss.
       Inr (np_savez x \<lparr>nz_shape = shape, nz_feature_tensor = tensor, nz_window_ids = map tw_window_id ws,
         nz_artifact_keys = keys, nz_round_ids = rids, nz_timestamps = tss, nz_labels = map tw_label ws\<rparr>))))))"

section \<open>Adequacy\<close>

record adequacy_assessment =
  aa_validation_level :: string
  aa_adequacy_met :: bool
  aa_status_reason :: string
  aa_minimum_eligible_artifact_count :: int
  aa_minimum_window_count :: int
  aa_eligible_artifact_count :: int
  aa_window_count :: int
  aa_eligible_artifact_floor_met :: bool
  aa_window_floor_met :: bool

definition adequacy_to_dict :: "adequacy_assessment \<Rightarrow> pyval" where
  "adequacy_to_dict a = PDict [(''validation_level'', PStr (aa_validation_level a)),
     (''adequacy_met'', PBool (aa_adequacy_met a)), (''status_reason'', PStr (aa_status_reason a)),
     (''minimum_eligible_artifact_count'', PInt (aa_minimum_eligible_artifact_count a)),
     (''minimum_window_count'', PInt (aa_minimum_window_count a)),
     (''eligible_artifact_count'', PInt (aa_eligible_artifact_count a)), (''window_count'', PInt (aa_window_count a)),
     (''eligible_artifact_floor_met'', PBool (aa_eligible_artifact_floor_met a)),
     (''window_floor_met'', PBool (aa_window_floor_met a))]"

definition DEFAULT_MIN_ELIGIBLE_ARTIFACT_COUNT :: int where
  "DEFAULT_MIN_ELIGIBLE_ARTIFACT_COUNT = 30"

definition DEFAULT_MIN_WINDOW_COUNT :: int where
  "DEFAULT_MIN_WINDOW_COUNT = 20"

definition evaluate_training_dataset_adequacy :: "int \<Rightarrow> int \<Rightarrow> int \<Rightarrow> int \<Rightarrow> adequacy_assessment" where
  "evaluate_training_dataset_adequacy eligible windows min_eligible min_windows =
     (let a = (min_eligible \<le> eligible); w = (min_windows \<le> windows); met = (a \<and> w) in
      \<lparr>aa_validation_level = (if met then ''meaningful_fingerprint_valid'' else ''runtime_valid_only''),
       aa_adequacy_met = met,
       aa_status_reason = (if met then ''adequacy_floor_met'' else ''below_default_adequacy_floor''),
       aa_minimum_eligible_artifact_count = min_eligible, aa_minimum_window_count = min_windows,
       aa_eligible_artifact_count = eligible, aa_window_count = windows,
       aa_eligible_artifact_floor_met = a, aa_window_floor_met = w\<rparr>)"

section \<open>Persisted datasets\<close>

definition DATASET_PREFIX :: string where
  "DATASET_PREFIX = ''fingerprint-datasets/''"

definition DEFAULT_WINDOW_STRIDE :: int where
  "DEFAULT_WINDOW_STRIDE = 1"

definition DEFAULT_ORDERING_RULE :: string where
  "DEFAULT_ORDERING_RULE = ''round_identity.window_ended_at_then_artifact_key''"

record dataset_artifact =
  da_dataset_id :: string
  da_created_at :: string
  da_source_bucket :: string
  da_source_prefix :: string
  da_manifest_object_key :: string
  da_windows_object_key :: string
  da_chronological_ordering_rule :: string
  da_sequence_length :: int
  da_stride :: int
  da_overlap_behavior :: string
  da_feature_schema :: "string list"
  da_selected_artifact_keys :: "string list"
  da_skipped_artifacts :: "(string, string) dict"
  da_eligible_artifact_count :: int
  da_window_count :: int
  da_tensor_shape :: "int \<times> int \<times> int"
  da_training_label :: string
  da_adequacy_assessment :: adequacy_assessment

definition dataset_artifact_to_dict :: "dataset_artifact \<Rightarrow> pyval" where
  "dataset_artifact_to_dict a = (let (n, k, w) = da_tensor_shape a in PDict [
     (''dataset_id'', PStr (da_dataset_id a)), (''created_at'', PStr (da_created_at a)),
     (''source_bucket'', PStr (da_source_bucket a)), (''source_prefix'', PStr (da_source_prefix a)),
     (''manifest_object_key'', PStr (da_manifest_object_key a)),
     (''windows_object_key'', PStr (da_windows_object_key a)),
     (''chronological_ordering_rule'', PStr (da_chronological_ordering_rule a)),
     (''sequence_length'', PInt (da_sequence_length a)), (''stride'', PInt (da_stride a)),
     (''overlap_behavior'', PStr (da_overlap_behavior a)),
     (''feature_schema'', PList (map PStr (da_feature_schema a))),
     (''selected_artifact_keys'', PList (map PStr (da_selected_artifact_keys a))),
     (''skipped_artifacts'', skipped_dict (da_skipped_artifacts a)),
     (''eligible_artifact_count'', PInt (da_eligible_artifact_count a)), (''window_count'', PInt (da_window_count a)),
     (''tensor_shape'', PList [PInt n, PInt k, PInt w]), (''training_label'', PStr (da_training_label a)),
     (''adequacy_assessment'', adequacy_to_dict (da_adequacy_assessment a))])"

definition manifest_key_of :: "string \<Rightarrow> string \<Rightarrow> string" where
  "manifest_key_of pre ident = pre @ ident @ ''.manifest.json''"

definition windows_key_of :: "string \<Rightarrow> string \<Rightarrow> string" where
  "windows_key_of pre ident = pre @ ident @ ''.windows.npz''"

definition dataset_artifact_of ::
  "training_window list \<Rightarrow> dataset_manifest \<Rightarrow> string \<Rightarrow> string \<Rightarrow> int \<Rightarrow> int \<Rightarrow> dataset_artifact" where
  "dataset_artifact_of ws m created_at pre min_eligible min_windows =
     \<lparr>da_dataset_id = dm_dataset_id m, da_created_at = created_at, da_source_bucket = dm_source_bucket m,
      da_source_prefix = dm_source_prefix m, da_manifest_object_key = manifest_key_of pre (dm_dataset_id m),
      da_windows_object_key = windows_key_of pre (dm_dataset_id m),
      da_chronological_ordering_rule = DEFAULT_ORDERING_RULE, da_sequence_length = dm_sequence_length m,
      da_stride = DEFAULT_WINDOW_STRIDE,
      da_overlap_behavior = (if DEFAULT_WINDOW_STRIDE < dm_sequence_length m then ''sliding_stride_1'' else ''non_overlapping''),
      da_feature_schema = dm_feature_schema m, da_selected_artifact_keys = dm_selected_artifact_keys m,
      da_skipped_artifacts = dm_skipped_artifacts m, da_eligible_artifact_count = dm_eligible_record_count m,
      da_window_count = dm_window_count m,
      da_tensor_shape = (int (length ws), dm_sequence_length m, int (length (dm_feature_schema m))),
      da_training_label = dm_training_label m,
      da_adequacy_assessment = evaluate_training_dataset_adequacy (dm_eligible_record_count m) (dm_window_count m)
        min_eligible min_windows\<rparr>"

text \<open>The manifest is written before the archive is built; \<open>now\<close> is the clock.\<close>

definition persist_training_dataset_artifacts ::
  "'s store_ops \<Rightarrow> numpy option \<Rightarrow> training_window list \<Rightarrow> dataset_manifest \<Rightarrow> datetime option \<Rightarrow> datetime
     \<Rightarrow> string \<Rightarrow> int \<Rightarrow> int \<Rightarrow> ('s, dataset_artifact) act" where
  "persist_training_dataset_artifacts ops np ws m created_at now pre min_eligible min_windows =
     (let created = isoformat (case created_at of None \<Rightarrow> now | Some t \<Rightarrow> t);
          a = dataset_artifact_of ws m created pre min_eligible min_windows in
      bind_act (writing (op_save_json ops (da_manifest_object_key a) (dataset_artifact_to_dict a))) (\<lambda>_.
      bind_act (reading (\<lambda>_. serialize_training_windows_npz np ws (dm_sequence_length m) (length (dm_feature_schema m)))) (\<lambda>payload.
      bind_act (writing (op_save_bytes ops (da_windows_object_key a) payload)) (\<lambda>_. ret a))))"

definition nth_res :: "'a list \<Rightarrow> nat \<Rightarrow> 'a res" where
  "nth_res xs i = (if i < length xs then Inr (xs ! i) else Inl IndexError)"

definition load_window :: "string list \<Rightarrow> npz_archive \<Rightarrow> nat \<Rightarrow> training_window res" where
  "load_window schema z i = attempt (nth_res (nz_window_ids z) i) (\<lambda>wid.
     attempt (nth_res (nz_artifact_keys z) i) (\<lambda>keys.
     attempt (nth_res (nz_round_ids z) i) (\<lambda>rids.
     attempt (nth_res (nz_timestamps z) i) (\<lambda>tss.
     attempt (nth_res (nz_feature_tensor z) i) (\<lambda>rows.
     attempt (nth_res (nz_labels z) i) (\<lambda>label.
       Inr \<lparr>tw_window_id = wid, tw_artifact_keys = keys, tw_round_ids = rids, tw_timestamps = tss,
         tw_feature_schema = schema, tw_feature_matrix = rows, tw_label = label\<rparr>))))))"

definition load_manifest :: "pyval \<Rightarrow> string list \<Rightarrow> dataset_manifest res" where
  "load_manifest payload schema = attempt (sub payload ''dataset_id'') (\<lambda>ident.
     attempt (sub payload ''source_bucket'') (\<lambda>bucket.
     attempt (sub payload ''source_prefix'') (\<lambda>pre.
     attempt (attempt (sub payload ''sequence_length'') to_int) (\<lambda>k.
     attempt (attempt (attempt (sub payload ''selected_artifact_keys'') as_list) (mapM as_str)) (\<lambda>selected.
     attempt (attempt (attempt (sub payload ''skipped_artifacts'') as_items)
       (mapM (\<lambda>(key, v). attempt (as_str v) (\<lambda>t. Inr (key, t))))) (\<lambda>skipped.
     attempt (attempt (sub payload ''eligible_artifact_count'') to_int) (\<lambda>eligible.
     attempt (attempt (sub payload ''window_count'') to_int) (\<lambda>windows.
     attempt (sub payload ''training_label'') (\<lambda>label.
       Inr \<lparr>dm_dataset_id = py_str ident, dm_source_bucket = py_str bucket, dm_source_prefix = py_str pre,
         dm_sequence_length = k, dm_feature_schema = schema, dm_selected_artifact_keys = selected,
         dm_skipped_artifacts = skipped, dm_eligible_record_count = eligible, dm_window_count = windows,
         dm_training_label = py_str label\<rparr>)))))))))"

definition load_persisted_training_dataset_artifacts ::
  "'s store_ops \<Rightarrow> numpy option \<Rightarrow> string \<Rightarrow> string option \<Rightarrow> 's \<Rightarrow> (training_window list \<times> dataset_manifest) res" where
  "load_persisted_training_dataset_artifacts ops np manifest_key windows_key s =
     attempt (load_numpy np) (\<lambda>x.
     attempt (op_load_json ops manifest_key s) (\<lambda>payload.
     attempt (case windows_key of Some k \<Rightarrow> if k \<noteq> [] then Inr k else attempt (sub payload ''windows_object_key'') as_str
       | None \<Rightarrow> attempt (sub payload ''windows_object_key'') as_str) (\<lambda>wkey.
     attempt (op_load_bytes ops wkey s) (\<lambda>blob.
     attempt (np_load x blob) (\<lambda>z.
     attempt (attempt (attempt (sub payload ''feature_schema'') as_list) (mapM as_str)) (\<lambda>schema.
     if length (nz_shape z) \<noteq> 3 then Inl (ValueError ''Persisted training dataset tensor must be rank-3.'')
     else if nz_shape z ! 2 \<noteq> length schema
       then Inl (ValueError ''Persisted training dataset tensor does not match the declared feature schema.'')
     else attempt (mapM (load_window schema z) [0 ..< length (nz_window_ids z)]) (\<lambda>ws.
       attempt (load_manifest payload schema) (\<lambda>m. Inr (ws, m)))))))))"

section \<open>Laws\<close>

text \<open>
  What numpy documents: conversion to float32 is idempotent, and an archive of float32
  numbers and strings reads back as it was saved (a trailing NUL is dropped from a string).
\<close>

definition text_ok :: "string \<Rightarrow> bool" where
  "text_ok t = (CHR 0x00 \<notin> set t)"

definition archive_ok :: "(flt \<Rightarrow> flt) \<Rightarrow> npz_archive \<Rightarrow> bool" where
  "archive_ok f z = (list_all (list_all (list_all (\<lambda>v. f v = v))) (nz_feature_tensor z) \<and>
     list_all text_ok (nz_window_ids z) \<and> list_all (list_all text_ok) (nz_artifact_keys z) \<and>
     list_all (list_all text_ok) (nz_round_ids z) \<and> list_all (list_all text_ok) (nz_timestamps z) \<and>
     list_all text_ok (nz_labels z))"

definition numpy_documented :: "numpy \<Rightarrow> bool" where
  "numpy_documented x = ((\<forall>v. np_float32 x (np_float32 x v) = np_float32 x v) \<and>
     (\<forall>z. archive_ok (np_float32 x) z \<longrightarrow> np_load x (np_savez x z) = Inr z))"

text \<open>A window of \<open>k\<close> steps over the columns of the schema.\<close>

definition window_shaped :: "string list \<Rightarrow> nat \<Rightarrow> training_window \<Rightarrow> bool" where
  "window_shaped schema k w = (tw_feature_schema w = schema \<and> length (tw_artifact_keys w) = k \<and>
     length (tw_round_ids w) = k \<and> length (tw_timestamps w) = k \<and> length (tw_feature_matrix w) = k \<and>
     list_all (\<lambda>row. length row = length schema) (tw_feature_matrix w) \<and> text_ok (tw_window_id w) \<and>
     list_all text_ok (tw_artifact_keys w) \<and> list_all text_ok (tw_round_ids w) \<and>
     list_all text_ok (tw_timestamps w) \<and> text_ok (tw_label w))"

definition dataset_shaped :: "training_window list \<Rightarrow> dataset_manifest \<Rightarrow> bool" where
  "dataset_shaped ws m = (0 < dm_sequence_length m \<and>
     list_all (window_shaped (dm_feature_schema m) (nat (dm_sequence_length m))) ws)"

definition float32_window :: "numpy \<Rightarrow> training_window \<Rightarrow> training_window" where
  "float32_window x w = w\<lparr>tw_feature_matrix := map (map (np_float32 x)) (tw_feature_matrix w)\<rparr>"

definition archive_of :: "numpy \<Rightarrow> training_window list \<Rightarrow> dataset_manifest \<Rightarrow> npz_archive" where
  "archive_of x ws m = \<lparr>nz_shape = [length ws, nat (dm_sequence_length m), length (dm_feature_schema m)],
     nz_feature_tensor = map (\<lambda>w. map (map (np_float32 x)) (tw_feature_matrix w)) ws,
     nz_window_ids = map tw_window_id ws, nz_artifact_keys = map tw_artifact_keys ws,
     nz_round_ids = map tw_round_ids ws, nz_timestamps = map tw_timestamps ws, nz_labels = map tw_label ws\<rparr>"

lemma serialize_shaped:
  assumes "dataset_shaped ws m"
  shows "serialize_training_windows_npz (Some x) ws (dm_sequence_length m) (length (dm_feature_schema m)) =
    Inr (np_savez x (archive_of x ws m))"
proof (cases ws)
  case Nil
  with assms show ?thesis
    by (simp add: serialize_training_windows_npz_def load_numpy_def string_matrix_def rows_of_length_def
        archive_of_def dataset_shaped_def)
next
  case (Cons v vs)
  let ?k = "nat (dm_sequence_length m)" and ?schema = "dm_feature_schema m"
  have k: "0 < ?k" using assms by (simp add: dataset_shaped_def)
  have w: "window_shaped ?schema ?k u" if "u \<in> set ws" for u
    using assms that by (auto simp: dataset_shaped_def list_all_iff)
  have v: "length (tw_artifact_keys v) = ?k" "length (tw_feature_matrix v) = ?k"
    using w [of v] by (auto simp: window_shaped_def Cons)
  then have "length (hd (tw_feature_matrix v)) = length ?schema"
    using w [of v] k by (cases "tw_feature_matrix v") (auto simp: window_shaped_def Cons)
  moreover have r: "rows_of_length ?k (map tw_feature_matrix ws)" "rows_of_length ?k (map tw_artifact_keys ws)"
      "rows_of_length ?k (map tw_round_ids ws)" "rows_of_length ?k (map tw_timestamps ws)"
    using w by (auto simp: rows_of_length_def window_shaped_def)
  moreover have "list_all (rows_of_length (length ?schema)) (map tw_feature_matrix ws)"
    using w by (auto simp: list_all_iff rows_of_length_def window_shaped_def)
  ultimately have "tensor_of (np_float32 x) (map tw_feature_matrix ws) =
      Inr ([length ws, ?k, length ?schema], map (\<lambda>w. map (map (np_float32 x)) (tw_feature_matrix w)) ws)"
    using k v by (simp add: tensor_of_def Let_def Cons o_def)
  then show ?thesis
    using v r by (simp add: serialize_training_windows_npz_def load_numpy_def string_matrix_def Let_def archive_of_def Cons)
qed

lemma archive_ok_shaped:
  assumes "dataset_shaped ws m" "numpy_documented x"
  shows "np_load x (np_savez x (archive_of x ws m)) = Inr (archive_of x ws m)"
proof -
  have "archive_ok (np_float32 x) (archive_of x ws m)"
    using assms by (auto simp: archive_ok_def archive_of_def dataset_shaped_def window_shaped_def numpy_documented_def list_all_iff)
  with assms(2) show ?thesis by (simp add: numpy_documented_def)
qed

lemma load_windows_shaped:
  assumes "dataset_shaped ws m"
  shows "mapM (load_window (dm_feature_schema m) (archive_of x ws m)) [0 ..< length ws] = Inr (map (float32_window x) ws)"
proof -
  have "load_window (dm_feature_schema m) (archive_of x ws m) i = Inr (float32_window x (ws ! i))" if "i < length ws" for i
  proof -
    have "tw_feature_schema (ws ! i) = dm_feature_schema m"
      using assms that by (auto simp: dataset_shaped_def list_all_iff window_shaped_def)
    then show ?thesis
      using that by (cases "ws ! i") (simp add: load_window_def nth_res_def archive_of_def float32_window_def)
  qed
  then have "mapM (load_window (dm_feature_schema m) (archive_of x ws m)) [0 ..< length ws] =
      Inr (map (\<lambda>i. float32_window x (ws ! i)) [0 ..< length ws])"
    by (intro mapM_Inr) simp
  also have "map (\<lambda>i. float32_window x (ws ! i)) [0 ..< length ws] = map (float32_window x) ws"
    by (rule nth_equalityI) simp_all
  finally show ?thesis .
qed

lemma mapM_as_str [simp]: "mapM as_str (map PStr ss) = Inr ss"
  by (induction ss) simp_all

lemma mapM_skipped [simp]:
  "mapM (\<lambda>(key, v). attempt (as_str v) (\<lambda>t. Inr (key, t))) (map (\<lambda>(k, v). (k, PStr v)) d) = Inr d"
  by (induction d) auto

text \<open>The manifest read back: as it was, with the skipped artifacts in key order.\<close>

definition loaded_manifest :: "dataset_manifest \<Rightarrow> dataset_manifest" where
  "loaded_manifest m = m\<lparr>dm_skipped_artifacts := sorted_items (dm_skipped_artifacts m)\<rparr>"

lemma load_manifest_saved:
  "load_manifest (dataset_artifact_to_dict (dataset_artifact_of ws m created pre e w)) (dm_feature_schema m) =
    Inr (loaded_manifest m)"
  by (cases m) (simp add: load_manifest_def dataset_artifact_to_dict_def dataset_artifact_of_def skipped_dict_def
      loaded_manifest_def)

lemma saved_sections:
  "sub (dataset_artifact_to_dict (dataset_artifact_of ws m created pre e w)) ''feature_schema'' =
     Inr (PList (map PStr (dm_feature_schema m)))"
  "sub (dataset_artifact_to_dict (dataset_artifact_of ws m created pre e w)) ''sequence_length'' =
     Inr (PInt (dm_sequence_length m))"
  "sub (dataset_artifact_to_dict (dataset_artifact_of ws m created pre e w)) ''windows_object_key'' =
     Inr (PStr (windows_key_of pre (dm_dataset_id m)))"
  "attempt (sub (dataset_artifact_to_dict (dataset_artifact_of ws m created pre e w)) ''adequacy_assessment'')
     (\<lambda>a. sub a ''validation_level'') =
     Inr (PStr (aa_validation_level (evaluate_training_dataset_adequacy (dm_eligible_record_count m) (dm_window_count m) e w)))"
  by (simp_all add: dataset_artifact_to_dict_def dataset_artifact_of_def adequacy_to_dict_def)

lemma keys_differ: "manifest_key_of pre ident \<noteq> windows_key_of pre ident"
  by (simp add: manifest_key_of_def windows_key_of_def)

text \<open>A store holding the two objects of a dataset.\<close>

definition dataset_stored ::
  "numpy \<Rightarrow> (string \<Rightarrow> blob option) \<Rightarrow> string \<Rightarrow> training_window list \<Rightarrow> dataset_manifest \<Rightarrow> dataset_artifact \<Rightarrow> bool" where
  "dataset_stored x c pre ws m a = (dataset_shaped ws m \<and>
     (\<exists>created e w. a = dataset_artifact_of ws m created pre e w) \<and>
     c (manifest_key_of pre (dm_dataset_id m)) = Some (Json (dataset_artifact_to_dict a)) \<and>
     c (windows_key_of pre (dm_dataset_id m)) = Some (Bytes (np_savez x (archive_of x ws m))))"

context artifact_store
begin

lemma persist_dataset:
  assumes "dataset_shaped ws m"
  obtains s' where "persist_training_dataset_artifacts ops (Some x) ws m created_at now pre e w s =
      (Inr (dataset_artifact_of ws m (isoformat (case created_at of None \<Rightarrow> now | Some t \<Rightarrow> t)) pre e w), s')"
    "contents s' = (contents s)(manifest_key_of pre (dm_dataset_id m) \<mapsto> Json (dataset_artifact_to_dict
        (dataset_artifact_of ws m (isoformat (case created_at of None \<Rightarrow> now | Some t \<Rightarrow> t)) pre e w)),
      windows_key_of pre (dm_dataset_id m) \<mapsto> Bytes (np_savez x (archive_of x ws m)))"
proof -
  let ?a = "dataset_artifact_of ws m (isoformat (case created_at of None \<Rightarrow> now | Some t \<Rightarrow> t)) pre e w"
  have keys: "da_manifest_object_key ?a = manifest_key_of pre (dm_dataset_id m)"
    "da_windows_object_key ?a = windows_key_of pre (dm_dataset_id m)"
    by (simp_all add: dataset_artifact_of_def)
  obtain s1 where s1: "op_save_json ops (manifest_key_of pre (dm_dataset_id m)) (dataset_artifact_to_dict ?a) s = Inr s1"
    "contents s1 = (contents s)(manifest_key_of pre (dm_dataset_id m) \<mapsto> Json (dataset_artifact_to_dict ?a))"
    using save_json by blast
  obtain s2 where s2: "op_save_bytes ops (windows_key_of pre (dm_dataset_id m)) (np_savez x (archive_of x ws m)) s1 = Inr s2"
    "contents s2 = (contents s1)(windows_key_of pre (dm_dataset_id m) \<mapsto> Bytes (np_savez x (archive_of x ws m)))"
    using save_bytes by blast
  show ?thesis
    by (rule that [of s2])
      (simp_all add: persist_training_dataset_artifacts_def Let_def act_simps keys s1 s2 serialize_shaped [OF assms])
qed

lemma load_dataset:
  assumes "dataset_stored x (contents s) pre ws m a" "numpy_documented x"
  shows "load_persisted_training_dataset_artifacts ops (Some x) (manifest_key_of pre (dm_dataset_id m)) None s =
    Inr (map (float32_window x) ws, loaded_manifest m)"
proof -
  obtain created e w where a: "a = dataset_artifact_of ws m created pre e w" "dataset_shaped ws m"
    using assms(1) by (auto simp: dataset_stored_def)
  have json: "op_load_json ops (manifest_key_of pre (dm_dataset_id m)) s = Inr (dataset_artifact_to_dict a)"
    and bytes: "op_load_bytes ops (windows_key_of pre (dm_dataset_id m)) s = Inr (np_savez x (archive_of x ws m))"
    using assms(1) by (simp_all add: dataset_stored_def load_json load_bytes)
  have shape: "nz_shape (archive_of x ws m) = [length ws, nat (dm_sequence_length m), length (dm_feature_schema m)]"
    "length (nz_window_ids (archive_of x ws m)) = length ws"
    by (simp_all add: archive_of_def)
  show ?thesis
    by (simp add: load_persisted_training_dataset_artifacts_def load_numpy_def json a(1) saved_sections bytes shape
        archive_ok_shaped [OF a(2) assms(2)] load_windows_shaped [OF a(2)] load_manifest_saved)
qed

end

section \<open>An archive format\<close>

text \<open>
  A concrete instance of \<open>numpy\<close>: numbers in unary, lists after their length. A codec
  is a writer and a reader; \<open>codec_ok\<close> says that the reader takes back what was written.
\<close>

definition codec_ok :: "('a \<Rightarrow> string) \<Rightarrow> (string \<Rightarrow> 'a \<times> string) \<Rightarrow> bool" where
  "codec_ok put get = (\<forall>x r. get (put x @ r) = (x, r))"

definition put_nat :: "nat \<Rightarrow> string" where
  "put_nat n = replicate n (CHR ''1'') @ ''0''"

definition get_nat :: "string \<Rightarrow> nat \<times> string" where
  "get_nat s = (length (takeWhile (\<lambda>c. c = CHR ''1'') s), tl (dropWhile (\<lambda>c. c = CHR ''1'') s))"

definition put_char :: "char \<Rightarrow> string" where "put_char c = put_nat (of_char c)"

definition get_char :: "string \<Rightarrow> char \<times> string" where
  "get_char s = (let (n, r) = get_nat s in (char_of n, r))"

definition put_rat :: "rat \<Rightarrow> string" where
  "put_rat x = (let (a, b) = quotient_of x in put_nat (nat a) @ put_nat (nat (- a)) @ put_nat (nat b))"

definition get_rat :: "string \<Rightarrow> rat \<times> string" where
  "get_rat s = (let (a, r) = get_nat s; (b, r) = get_nat r; (c, r) = get_nat r in
     (of_int (int a - int b) / of_int (int c), r))"

definition put_list :: "('a \<Rightarrow> string) \<Rightarrow> 'a list \<Rightarrow> string" where
  "put_list p xs = put_nat (length xs) @ concat (map p xs)"

fun get_many :: "nat \<Rightarrow> (string \<Rightarrow> 'a \<times> string) \<Rightarrow> string \<Rightarrow> 'a list \<times> string" where
  "get_many 0 g s = ([], s)"
| "get_many (Suc n) g s = (let (x, r) = g s; (xs, r) = get_many n g r in (x # xs, r))"

definition get_list :: "(string \<Rightarrow> 'a \<times> string) \<Rightarrow> string \<Rightarrow> 'a list \<times> string" where
  "get_list g s = (let (n, r) = get_nat s in get_many n g r)"

lemma codec_nat [intro]: "codec_ok put_nat get_nat"
proof -
  have "get_nat (put_nat n @ r) = (n, r)" for n r
    by (induction n) (simp_all add: get_nat_def put_nat_def)
  then show ?thesis by (simp add: codec_ok_def)
qed

lemma codec_char [intro]: "codec_ok put_char get_char"
  using codec_nat by (simp add: codec_ok_def put_char_def get_char_def)

lemma codec_rat [intro]: "codec_ok put_rat get_rat"
proof -
  have "get_rat (put_rat x @ r) = (x, r)" for x r
  proof (cases "quotient_of x")
    case (Pair a b)
    then have b: "0 < b" and x: "of_int a / of_int b = x"
      using quotient_of_denom_pos [of x] quotient_of_div [of x] by simp_all
    have "rat_of_nat (nat a) - rat_of_nat (nat (- a)) = of_int a" by (cases "0 \<le> a") simp_all
    with b x show ?thesis
      using codec_nat by (simp add: codec_ok_def put_rat_def get_rat_def Pair)
  qed
  then show ?thesis by (simp add: codec_ok_def)
qed

lemma codec_list [intro]:
  assumes "codec_ok p g"
  shows "codec_ok (put_list p) (get_list g)"
proof -
  have "get_many (length xs) g (concat (map p xs) @ r) = (xs, r)" for xs r
    using assms by (induction xs) (simp_all add: codec_ok_def)
  then show ?thesis using codec_nat by (simp add: codec_ok_def put_list_def get_list_def)
qed

definition unary_savez :: "npz_archive \<Rightarrow> string" where
  "unary_savez z = put_list put_nat (nz_shape z) @ put_list (put_list (put_list put_rat)) (nz_feature_tensor z)
     @ put_list (put_list put_char) (nz_window_ids z) @ put_list (put_list (put_list put_char)) (nz_artifact_keys z)
     @ put_list (put_list (put_list put_char)) (nz_round_ids z) @ put_list (put_list (put_list put_char)) (nz_timestamps z)
     @ put_list (put_list put_char) (nz_labels z)"

definition unary_load :: "string \<Rightarrow> npz_archive res" where
  "unary_load s = (let (shape, s) = get_list get_nat s; (tensor, s) = get_list (get_list (get_list get_rat)) s;
     (ids, s) = get_list (get_list get_char) s; (keys, s) = get_list (get_list (get_list get_char)) s;
     (rids, s) = get_list (get_list (get_list get_char)) s; (tss, s) = get_list (get_list (get_list get_char)) s;
     (labels, s) = get_list (get_list get_char) s in
     Inr \<lparr>nz_shape = shape, nz_feature_tensor = tensor, nz_window_ids = ids, nz_artifact_keys = keys,
       nz_round_ids = rids, nz_timestamps = tss, nz_labels = labels\<rparr>)"

definition mean_squares :: "flt list list \<Rightarrow> flt list list \<Rightarrow> flt" where
  "mean_squares a b = (let d = map2 (\<lambda>x y. (x - y) * (x - y)) (concat a) (concat b) in sum_list d / of_nat (length d))"

definition unary_numpy :: numpy where
  "unary_numpy = \<lparr>np_float32 = id, np_savez = unary_savez, np_load = unary_load,
     np_window_errors = map2 mean_squares, np_mean = (\<lambda>xs. sum_list xs / of_nat (length xs)), np_std = (\<lambda>_. 0)\<rparr>"

lemma unary_numpy_documented: "numpy_documented unary_numpy"
proof -
  have "unary_load (unary_savez z) = Inr z" for z
  proof -
    have c: "codec_ok (put_list put_nat) (get_list get_nat)"
      "codec_ok (put_list (put_list (put_list put_rat))) (get_list (get_list (get_list get_rat)))"
      "codec_ok (put_list (put_list put_char)) (get_list (get_list get_char))"
      "codec_ok (put_list (put_list (put_list put_char))) (get_list (get_list (get_list get_char)))" by auto
    from c(3) have "get_list (get_list get_char) (put_list (put_list put_char) x) = (x, [])" for x
      by (metis codec_ok_def append_Nil2)
    with c show ?thesis by (simp add: codec_ok_def unary_load_def unary_savez_def)
  qed
  then show ?thesis by (simp add: numpy_documented_def unary_numpy_def)
qed

section \<open>Properties\<close>

text \<open>
  C32. A dataset survives persistence: on any artifact store, persisting a rectangular dataset
  returns, touches only its manifest and archive objects, and loading by the manifest key
  yields the same windows with their features in float32 and the same manifest with the
  skipped artifacts in key order. Loading twice gives the same windows again.
\<close>

theorem dataset_roundtrip:
  assumes "artifact_store ops contents" "numpy_documented x" "dataset_shaped ws m"
  shows "\<exists>a s'. persist_training_dataset_artifacts ops (Some x) ws m created_at now pre e w s = (Inr a, s') \<and>
    load_persisted_training_dataset_artifacts ops (Some x) (da_manifest_object_key a) None s' =
      Inr (map (float32_window x) ws, loaded_manifest m) \<and>
    (\<forall>k. contents s' k = contents s k \<or> k = da_manifest_object_key a \<or> k = da_windows_object_key a)"
proof -
  obtain a s' where a: "a = dataset_artifact_of ws m (isoformat (case created_at of None \<Rightarrow> now | Some t \<Rightarrow> t)) pre e w"
    "persist_training_dataset_artifacts ops (Some x) ws m created_at now pre e w s = (Inr a, s')"
    "contents s' = (contents s)(manifest_key_of pre (dm_dataset_id m) \<mapsto> Json (dataset_artifact_to_dict a),
      windows_key_of pre (dm_dataset_id m) \<mapsto> Bytes (np_savez x (archive_of x ws m)))"
    by (rule artifact_store.persist_dataset [OF assms(1,3)]) auto
  have keys: "da_manifest_object_key a = manifest_key_of pre (dm_dataset_id m)"
    "da_windows_object_key a = windows_key_of pre (dm_dataset_id m)"
    by (simp_all add: a(1) dataset_artifact_of_def)
  have "dataset_stored x (contents s') pre ws m a"
    using assms(3) a(1) by (auto simp: dataset_stored_def a(3) keys_differ)
  from artifact_store.load_dataset [OF assms(1) this assms(2)] have
    "load_persisted_training_dataset_artifacts ops (Some x) (da_manifest_object_key a) None s' =
      Inr (map (float32_window x) ws, loaded_manifest m)" by (simp add: keys)
  moreover have "\<forall>k. contents s' k = contents s k \<or> k = da_manifest_object_key a \<or> k = da_windows_object_key a"
    by (simp add: a(3) keys)
  ultimately show ?thesis using a(2) by blast
qed

definition sample_window :: training_window where
  "sample_window = \<lparr>tw_window_id = ''window::r1::r2'', tw_artifact_keys = [''a/r1.json'', ''a/r2.json''],
     tw_round_ids = [''r1'', ''r2''], tw_timestamps = [''r1'', ''r2''], tw_feature_schema = [''rpm.loop_current_ma''],
     tw_feature_matrix = [[12], [1/2]], tw_label = ''normal''\<rparr>"

definition sample_manifest :: dataset_manifest where
  "sample_manifest = \<lparr>dm_dataset_id = ''d'', dm_source_bucket = ''b'', dm_source_prefix = ''a/'', dm_sequence_length = 2,
     dm_feature_schema = [''rpm.loop_current_ma''], dm_selected_artifact_keys = [''a/r1.json'', ''a/r2.json''],
     dm_skipped_artifacts = [(''z'', ''scada_divergence''), (''y'', ''training_ineligible'')],
     dm_eligible_record_count = 2, dm_window_count = 1, dm_training_label = ''normal''\<rparr>"

lemma sample_shaped: "dataset_shaped [sample_window] sample_manifest"
  by (simp add: dataset_shaped_def window_shaped_def sample_window_def sample_manifest_def text_ok_def)

theorem dataset_roundtrip_witness:
  "\<exists>a s'. persist_training_dataset_artifacts (local_ops ''b'') (Some unary_numpy) [sample_window] sample_manifest None
      sample_time DATASET_PREFIX 30 20 [] = (Inr a, s') \<and>
    load_persisted_training_dataset_artifacts (local_ops ''b'') (Some unary_numpy) (da_manifest_object_key a) None s' =
      Inr (map (float32_window unary_numpy) [sample_window], loaded_manifest sample_manifest) \<and>
    (\<forall>k. map_of s' k = map_of [] k \<or> k = da_manifest_object_key a \<or> k = da_windows_object_key a)"
  by (rule dataset_roundtrip [OF local_store.artifact_store_axioms unary_numpy_documented sample_shaped])

text \<open>
  Without numpy persisting raises \<open>RuntimeError\<close>, but only after the manifest was
  written: the store then lists a dataset whose archive does not exist, and every later load of
  it fails.
\<close>

theorem manifest_without_archive:
  assumes "artifact_store ops contents" "contents s (windows_key_of pre (dm_dataset_id m)) = None"
  shows "\<exists>e s' v. persist_training_dataset_artifacts ops None ws m created_at now pre me mw s = (Inl e, s') \<and>
    e = RuntimeError (''Story 4.2A dataset artifact persistence requires the '' @ [CHR 0x27] @ ''numpy'' @ [CHR 0x27] @ '' package.'') \<and>
    contents s' = (contents s)(manifest_key_of pre (dm_dataset_id m) \<mapsto> Json v) \<and>
    contents s' (windows_key_of pre (dm_dataset_id m)) = None"
proof -
  let ?a = "dataset_artifact_of ws m (isoformat (case created_at of None \<Rightarrow> now | Some t \<Rightarrow> t)) pre me mw"
  have key: "da_manifest_object_key ?a = manifest_key_of pre (dm_dataset_id m)"
    by (simp add: dataset_artifact_of_def)
  obtain s1 where s1: "op_save_json ops (manifest_key_of pre (dm_dataset_id m)) (dataset_artifact_to_dict ?a) s = Inr s1"
    "contents s1 = (contents s)(manifest_key_of pre (dm_dataset_id m) \<mapsto> Json (dataset_artifact_to_dict ?a))"
    using artifact_store.save_json [OF assms(1)] by blast
  show ?thesis
    using assms(2) keys_differ [of pre "dm_dataset_id m"]
    by (simp add: persist_training_dataset_artifacts_def Let_def act_simps key s1 serialize_training_windows_npz_def
        load_numpy_def) blast
qed

theorem manifest_without_archive_witness:
  "\<exists>e s' v. persist_training_dataset_artifacts (local_ops ''b'') None [sample_window] sample_manifest None sample_time
      DATASET_PREFIX 30 20 [] = (Inl e, s') \<and>
    e = RuntimeError (''Story 4.2A dataset artifact persistence requires the '' @ [CHR 0x27] @ ''numpy'' @ [CHR 0x27] @ '' package.'') \<and>
    map_of s' = (map_of [])(manifest_key_of DATASET_PREFIX (dm_dataset_id sample_manifest) \<mapsto> Json v) \<and>
    map_of s' (windows_key_of DATASET_PREFIX (dm_dataset_id sample_manifest)) = None"
  by (rule manifest_without_archive [OF local_store.artifact_store_axioms]) simp

end
