(* ===== verification/Fingerprint.thy ===== *)
theory Fingerprint
  imports DatasetArtifacts
begin

text \<open>
  \<open>lstm_service/trainer.py\<close>, \<open>lstm_service/inference.py\<close> and their contracts: training and
  saving the autoencoder, loading it back, the reconstruction errors and the threshold. keras
  and torch are not part of the repository: the record \<open>keras\<close> holds what the code reads of
  the installation and the functions it calls, over an abstract type of trained models.
\<close>

section \<open>Text\<close>

text \<open>\<open>format(x, "g")\<close>: six significant digits, trailing zeros dropped.\<close>

definition with_point :: "string \<Rightarrow> string \<Rightarrow> string" where
  "with_point a b = (let f = strip_zeros b in a @ (if f = [] then [] else ''.'' @ f))"

definition fmt_g :: "flt \<Rightarrow> string" where
  "fmt_g x = (if x = 0 then ''0'' else
     let e0 = dexpo \<bar>x\<bar>; m0 = rhe (\<bar>x\<bar> * 10 powi (5 - e0));
         (m, e) = (if m0 = 1000000 then (100000, e0 + 1) else (m0, e0)); ds = digits m in
     (if x < 0 then ''-'' else []) @
     (if -4 \<le> e \<and> e < 6 then
        (if 0 \<le> e then with_point (take (nat e + 1) ds) (drop (nat e + 1) ds)
         else with_point ''0'' (replicate (nat (- e) - 1) (CHR ''0'') @ ds))
      else with_point (take 1 ds) (drop 1 ds) @ ''e'' @ (if e < 0 then ''-'' else ''+'') @ zero_pad 2 \<bar>e\<bar>))"

section \<open>The network\<close>

datatype layer =
    InputLayer string nat nat
  | LSTM string int bool
  | RepeatVector string nat
  | TimeDistributed string layer
  | Dense nat

record network =
  nw_name :: string
  nw_layers :: "layer list"
  nw_optimizer :: string
  nw_loss :: string

definition build_lstm_autoencoder :: "nat \<Rightarrow> nat \<Rightarrow> int \<Rightarrow> network" where
  "build_lstm_autoencoder sequence_length feature_count latent_units =
     \<lparr>nw_name = ''compressor_fingerprint_lstm_autoencoder'',
      nw_layers = [InputLayer ''input_window'' sequence_length feature_count, LSTM ''encoder_lstm'' latent_units False,
        RepeatVector ''repeat_latent'' sequence_length, LSTM ''decoder_lstm'' latent_units True,
        TimeDistributed ''reconstructed_window'' (Dense feature_count)],
      nw_optimizer = ''adam'', nw_loss = ''mse''\<rparr>"

text \<open>
  The backend variable of the environment, the installed packages and the calls. Fitting
  returns the trained model and the loss of each epoch, when the history has one.
\<close>

record 'm keras =
  kr_backend :: "string option"
  kr_installed :: bool
  kr_torch_installed :: bool
  kr_fit :: "network \<Rightarrow> flt list list list \<Rightarrow> int \<Rightarrow> int \<Rightarrow> ('m \<times> flt list option) res"
  kr_metadata_json :: "'m \<Rightarrow> string"
  kr_config_json :: "'m \<Rightarrow> string"
  kr_weights :: "'m \<Rightarrow> string"
  kr_zip :: "(string \<times> string) list \<Rightarrow> string"
  kr_load_model :: "string \<Rightarrow> 'm res"
  kr_predict :: "'m \<Rightarrow> flt list list list \<Rightarrow> flt list list list"

definition load_keras_module :: "'m keras \<Rightarrow> 'm keras res" where
  "load_keras_module kr =
     (if kr_backend kr \<notin> {None, Some [], Some ''torch''}
        then Inl (RuntimeError (''Story 4.2 requires KERAS_BACKEND=torch. Clear the variable or set it to '' @ [CHR 0x27]
          @ ''torch'' @ [CHR 0x27] @ ''.''))
      else if \<not> kr_installed kr
        then Inl (RuntimeError (''Story 4.2 training requires the '' @ [CHR 0x27] @ ''keras'' @ [CHR 0x27]
          @ '' package. Install project ML dependencies before training.''))
      else if \<not> kr_torch_installed kr
        then Inl (RuntimeError (''Story 4.2 training requires the '' @ [CHR 0x27] @ ''torch'' @ [CHR 0x27]
          @ '' package for the approved Keras backend.''))
      else Inr kr)"

definition import_numpy :: "numpy option \<Rightarrow> numpy res" where
  "import_numpy np = (case np of Some x \<Rightarrow> Inr x
     | None \<Rightarrow> Inl (ModuleNotFoundError (''No module named '' @ [CHR 0x27] @ ''numpy'' @ [CHR 0x27])))"

definition export_model_bytes :: "'m keras \<Rightarrow> 'm \<Rightarrow> string" where
  "export_model_bytes kr model = kr_zip kr [(''metadata.json'', kr_metadata_json kr model),
     (''config.json'', kr_config_json kr model), (''model.weights.h5'', kr_weights kr model)]"

section \<open>Training\<close>

record model_artifact =
  fm_model_id :: string
  fm_created_at :: string
  fm_backend :: string
  fm_model_format :: string
  fm_model_type :: string
  fm_source_dataset_id :: string
  fm_feature_schema :: "string list"
  fm_sequence_length :: int
  fm_training_window_count :: int
  fm_epochs :: int
  fm_batch_size :: int
  fm_loss_name :: string
  fm_bucket :: string
  fm_model_object_key :: string
  fm_metadata_object_key :: string
  fm_artifact_uri :: string
  fm_metadata_uri :: string
  fm_final_training_loss :: "flt option"

definition model_artifact_to_dict :: "model_artifact \<Rightarrow> pyval" where
  "model_artifact_to_dict a = PDict [(''model_id'', PStr (fm_model_id a)), (''created_at'', PStr (fm_created_at a)),
     (''backend'', PStr (fm_backend a)), (''model_format'', PStr (fm_model_format a)),
     (''model_type'', PStr (fm_model_type a)), (''source_dataset_id'', PStr (fm_source_dataset_id a)),
     (''feature_schema'', PList (map PStr (fm_feature_schema a))), (''sequence_length'', PInt (fm_sequence_length a)),
     (''training_window_count'', PInt (fm_training_window_count a)), (''epochs'', PInt (fm_epochs a)),
     (''batch_size'', PInt (fm_batch_size a)), (''loss_name'', PStr (fm_loss_name a)), (''bucket'', PStr (fm_bucket a)),
     (''model_object_key'', PStr (fm_model_object_key a)), (''metadata_object_key'', PStr (fm_metadata_object_key a)),
     (''artifact_uri'', PStr (fm_artifact_uri a)), (''metadata_uri'', PStr (fm_metadata_uri a)),
     (''final_training_loss'', opt_float (fm_final_training_loss a))]"

definition DEFAULT_MODEL_PREFIX :: string where
  "DEFAULT_MODEL_PREFIX = ''fingerprint-models/''"

definition build_model_id :: "string \<Rightarrow> string \<Rightarrow> string" where
  "build_model_id dataset_id created_at =
     (let timestamp = replace_all ''+00:00'' ''Z'' (replace_all ''.'' [] (replace_all '':'' [] (replace_all ''-'' [] created_at)))
      in ''lstm-fingerprint-'' @ replace_all ''::'' ''-'' dataset_id @ ''-'' @ timestamp)"

definition extract_final_loss :: "flt list option \<Rightarrow> flt option" where
  "extract_final_loss history = (case history of None \<Rightarrow> None | Some ls \<Rightarrow> if ls = [] then None else Some (last ls))"

text \<open>The checks on the windows, window by window.\<close>

fun check_training_windows :: "string list \<Rightarrow> nat \<Rightarrow> training_window list \<Rightarrow> unit res" where
  "check_training_windows schema k [] = Inr ()"
| "check_training_windows schema k (w # ws) =
     (if tw_feature_schema w \<noteq> schema then Inl (ValueError ''All training windows must share the same feature schema.'')
      else if length (tw_feature_matrix w) \<noteq> k
        then Inl (ValueError ''All training windows must share the same sequence length.'')
      else if \<not> list_all (\<lambda>row. length row = length schema) (tw_feature_matrix w)
        then Inl (ValueError ''All feature rows must match the declared feature schema.'')
      else check_training_windows schema k ws)"

definition model_artifact_of ::
  "string \<Rightarrow> training_window list \<Rightarrow> dataset_manifest \<Rightarrow> string \<Rightarrow> int \<Rightarrow> int \<Rightarrow> string \<Rightarrow> flt list option \<Rightarrow> model_artifact" where
  "model_artifact_of bucket ws m created_at epochs batch_size pre history =
     (let ident = build_model_id (dm_dataset_id m) created_at; mkey = pre @ ident @ ''.keras''; dkey = pre @ ident @ ''.json'' in
      \<lparr>fm_model_id = ident, fm_created_at = created_at, fm_backend = ''torch'', fm_model_format = ''keras'',
       fm_model_type = ''lstm_autoencoder'', fm_source_dataset_id = dm_dataset_id m,
       fm_feature_schema = tw_feature_schema (hd ws), fm_sequence_length = int (length (tw_feature_matrix (hd ws))),
       fm_training_window_count = int (length ws), fm_epochs = epochs, fm_batch_size = batch_size, fm_loss_name = ''mse'',
       fm_bucket = bucket, fm_model_object_key = mkey, fm_metadata_object_key = dkey,
       fm_artifact_uri = ''minio://'' @ bucket @ ''/'' @ mkey, fm_metadata_uri = ''minio://'' @ bucket @ ''/'' @ dkey,
       fm_final_training_loss = extract_final_loss history\<rparr>)"

definition train_and_save_lstm_fingerprint ::
  "'s store_ops \<Rightarrow> numpy option \<Rightarrow> 'm keras \<Rightarrow> training_window list \<Rightarrow> dataset_manifest \<Rightarrow> int \<Rightarrow> int \<Rightarrow> int
     \<Rightarrow> string \<Rightarrow> datetime \<Rightarrow> ('s, model_artifact) act" where
  "train_and_save_lstm_fingerprint ops np kr ws m epochs batch_size latent_units pre now =
     bind_act (reading (\<lambda>_.
       if ws = [] then Inl (ValueError ''At least one training window is required for LSTM training.'')
       else let schema = tw_feature_schema (hd ws); k = length (tw_feature_matrix (hd ws)) in
         attempt (check_training_windows schema k ws) (\<lambda>_.
         attempt (load_keras_module kr) (\<lambda>keras.
         attempt (import_numpy np) (\<lambda>x.
         attempt (tensor_of (np_float32 x) (map tw_feature_matrix ws)) (\<lambda>(_, tensor).
           kr_fit keras (build_lstm_autoencoder k (length schema) latent_units) tensor epochs batch_size)))))) (\<lambda>(model, history).
     let a = model_artifact_of (op_bucket ops) ws m (isoformat now) epochs batch_size pre history in
     bind_act (writing (op_save_bytes ops (fm_model_object_key a) (export_model_bytes kr model))) (\<lambda>_.
     bind_act (writing (op_save_json ops (fm_metadata_object_key a) (model_artifact_to_dict a))) (\<lambda>_. ret a)))"

definition train_and_save_lstm_fingerprint_from_persisted_dataset ::
  "'s store_ops \<Rightarrow> numpy option \<Rightarrow> 'm keras \<Rightarrow> string \<Rightarrow> string option \<Rightarrow> int \<Rightarrow> int \<Rightarrow> int \<Rightarrow> string \<Rightarrow> datetime
     \<Rightarrow> ('s, model_artifact) act" where
  "train_and_save_lstm_fingerprint_from_persisted_dataset ops np kr manifest_key windows_key epochs batch_size latent_units pre now =
     bind_act (reading (load_persisted_training_dataset_artifacts ops np manifest_key windows_key)) (\<lambda>(ws, m).
       train_and_save_lstm_fingerprint ops np kr ws m epochs batch_size latent_units pre now)"

section \<open>Inference\<close>

datatype inference_classification = NORMAL | ANOMALOUS

fun classification_value :: "inference_classification \<Rightarrow> string" where
  "classification_value NORMAL = ''normal''"
| "classification_value ANOMALOUS = ''anomalous''"

record inference_result =
  ir_output_channel :: string
  ir_model_id :: string
  ir_source_dataset_id :: string
  ir_inference_dataset_id :: string
  ir_source_dataset_validation_level :: string
  ir_limitation_note :: "string option"
  ir_window_id :: string
  ir_artifact_keys :: "string list"
  ir_round_ids :: "string list"
  ir_timestamps :: "string list"
  ir_anomaly_score :: flt
  ir_classification_threshold :: flt
  ir_threshold_origin :: string
  ir_classification :: inference_classification

definition inference_result_to_dict :: "inference_result \<Rightarrow> pyval" where
  "inference_result_to_dict r = PDict [(''output_channel'', PStr (ir_output_channel r)),
     (''model_id'', PStr (ir_model_id r)), (''source_dataset_id'', PStr (ir_source_dataset_id r)),
     (''inference_dataset_id'', PStr (ir_inference_dataset_id r)),
     (''source_dataset_validation_level'', PStr (ir_source_dataset_validation_level r)),
     (''limitation_note'', opt_str (ir_limitation_note r)), (''window_id'', PStr (ir_window_id r)),
     (''artifact_keys'', PList (map PStr (ir_artifact_keys r))), (''round_ids'', PList (map PStr (ir_round_ids r))),
     (''timestamps'', PList (map PStr (ir_timestamps r))), (''anomaly_score'', PFloat (ir_anomaly_score r)),
     (''classification_threshold'', PFloat (ir_classification_threshold r)),
     (''threshold_origin'', PStr (ir_threshold_origin r)),
     (''classification'', PStr (classification_value (ir_classification r)))]"

definition INFERENCE_OUTPUT_CHANNEL :: string where
  "INFERENCE_OUTPUT_CHANNEL = ''lstm_fingerprint''"

definition DEFAULT_THRESHOLD_STDDEV_MULTIPLIER :: flt where
  "DEFAULT_THRESHOLD_STDDEV_MULTIPLIER = 3"

definition DEFAULT_MINIMUM_ANOMALY_THRESHOLD :: flt where
  "DEFAULT_MINIMUM_ANOMALY_THRESHOLD = dec 1 6"

definition RUNTIME_VALID_LIMITATION_NOTE :: string where
  "RUNTIME_VALID_LIMITATION_NOTE =
     ''The fingerprint pipeline is running correctly on a runtime-valid but not yet ''
     @ ''meaningfully fingerprint-valid dataset because the current normal-history data ''
     @ ''still falls below the approved adequacy floor of 30 eligible artifacts and ''
     @ ''20 generated windows.''"

definition limitation_note_of :: "string \<Rightarrow> string option" where
  "limitation_note_of level = (if level = ''meaningful_fingerprint_valid'' then None else Some RUNTIME_VALID_LIMITATION_NOTE)"

definition validate_model_compatibility :: "pyval \<Rightarrow> pyval \<Rightarrow> dataset_manifest \<Rightarrow> unit res" where
  "validate_model_compatibility meta source m =
     attempt (attempt (sub meta ''feature_schema'') as_list) (\<lambda>schema.
     attempt (attempt (sub meta ''sequence_length'') to_int) (\<lambda>k.
     attempt (attempt (sub source ''feature_schema'') as_list) (\<lambda>source_schema.
     if source_schema \<noteq> schema
       then Inl (ValueError ''The saved model feature schema does not match its source dataset artifact.'')
     else attempt (attempt (sub source ''sequence_length'') to_int) (\<lambda>source_k.
     if source_k \<noteq> k
       then Inl (ValueError ''The saved model sequence length does not match its source dataset artifact.'')
     else if map PStr (dm_feature_schema m) \<noteq> schema
       then Inl (ValueError ''The persisted inference dataset feature schema does not match the saved model.'')
     else if dm_sequence_length m \<noteq> k
       then Inl (ValueError ''The persisted inference dataset sequence length does not match the saved model.'')
     else Inr ()))))"

definition load_saved_keras_model :: "'s store_ops \<Rightarrow> 'm keras \<Rightarrow> string \<Rightarrow> 's \<Rightarrow> 'm res" where
  "load_saved_keras_model ops kr key s = attempt (load_keras_module kr) (\<lambda>keras.
     attempt (op_load_bytes ops key s) (\<lambda>blob. kr_load_model keras blob))"

definition compute_window_reconstruction_errors ::
  "numpy \<Rightarrow> 'm keras \<Rightarrow> 'm \<Rightarrow> training_window list \<Rightarrow> flt list res" where
  "compute_window_reconstruction_errors x kr model ws =
     (if ws = [] then Inl (ValueError ''At least one valid temporal window is required for inference.'')
      else attempt (tensor_of (np_float32 x) (map tw_feature_matrix ws)) (\<lambda>(_, tensor).
        Inr (np_window_errors x (kr_predict kr model tensor) tensor)))"

text \<open>Python's \<open>max\<close>: the first of two equal numbers.\<close>

definition derive_anomaly_threshold :: "numpy \<Rightarrow> flt list \<Rightarrow> flt \<Rightarrow> flt \<Rightarrow> flt" where
  "derive_anomaly_threshold x baseline minimum_threshold multiplier =
     (let t = fadd (np_mean x baseline) (fmul multiplier (np_std x baseline)) in
      if t < minimum_threshold then minimum_threshold else t)"

definition classify :: "flt \<Rightarrow> flt \<Rightarrow> inference_classification" where
  "classify threshold score = (if score \<le> threshold then NORMAL else ANOMALOUS)"

definition inference_result_of ::
  "string \<Rightarrow> string \<Rightarrow> string \<Rightarrow> string \<Rightarrow> string \<Rightarrow> flt \<Rightarrow> training_window \<Rightarrow> flt \<Rightarrow> inference_result" where
  "inference_result_of model_id source_id inference_id level origin threshold w score =
     \<lparr>ir_output_channel = INFERENCE_OUTPUT_CHANNEL, ir_model_id = model_id, ir_source_dataset_id = source_id,
      ir_inference_dataset_id = inference_id, ir_source_dataset_validation_level = level,
      ir_limitation_note = limitation_note_of level, ir_window_id = tw_window_id w,
      ir_artifact_keys = tw_artifact_keys w, ir_round_ids = tw_round_ids w, ir_timestamps = tw_timestamps w,
      ir_anomaly_score = score, ir_classification_threshold = threshold, ir_threshold_origin = origin,
      ir_classification = classify threshold score\<rparr>"

definition threshold_origin_of :: "flt \<Rightarrow> string" where
  "threshold_origin_of multiplier = ''source_dataset_mean_plus_'' @ fmt_g multiplier @ ''std''"

definition run_lstm_fingerprint_inference_from_persisted_dataset ::
  "'s store_ops \<Rightarrow> numpy option \<Rightarrow> 'm keras \<Rightarrow> string \<Rightarrow> string \<Rightarrow> string option \<Rightarrow> flt \<Rightarrow> flt \<Rightarrow> 's
     \<Rightarrow> inference_result list res" where
  "run_lstm_fingerprint_inference_from_persisted_dataset ops np kr metadata_key manifest_key windows_key multiplier minimum s =
     attempt (op_load_json ops metadata_key s) (\<lambda>meta.
     attempt (sub meta ''source_dataset_id'') (\<lambda>source_id.
     let source_key = DATASET_PREFIX @ py_str source_id @ ''.manifest.json'' in
     attempt (op_load_json ops source_key s) (\<lambda>source.
     attempt (load_persisted_training_dataset_artifacts ops np source_key None s) (\<lambda>(source_windows, _).
     attempt (load_persisted_training_dataset_artifacts ops np manifest_key windows_key s) (\<lambda>(windows, m).
     attempt (validate_model_compatibility meta source m) (\<lambda>_.
     attempt (attempt (sub meta ''model_object_key'') as_str) (\<lambda>model_key.
     attempt (sub meta ''model_id'') (\<lambda>model_id.
     attempt (load_saved_keras_model ops kr model_key s) (\<lambda>model.
     attempt (import_numpy np) (\<lambda>x.
     attempt (compute_window_reconstruction_errors x kr model source_windows) (\<lambda>baseline.
     let threshold = derive_anomaly_threshold x baseline minimum multiplier in
     attempt (attempt (attempt (sub source ''adequacy_assessment'') (\<lambda>a. sub a ''validation_level'')) as_str) (\<lambda>level.
     attempt (compute_window_reconstruction_errors x kr model windows) (\<lambda>scores.
     let origin = threshold_origin_of multiplier in
     mapM (\<lambda>i. attempt (nth_res scores i) (\<lambda>score.
         Inr (inference_result_of (py_str model_id) (py_str source_id) (dm_dataset_id m) level origin threshold (windows ! i) score)))
       [0 ..< length windows])))))))))))))"

section \<open>Laws\<close>

text \<open>What keras documents: a saved model loads back, and predicts a tensor of the shape it got.\<close>

definition keras_documented :: "'m keras \<Rightarrow> bool" where
  "keras_documented kr = (\<forall>model. kr_load_model kr (export_model_bytes kr model) = Inr model)"

definition scores_documented :: "numpy \<Rightarrow> 'm keras \<Rightarrow> bool" where
  "scores_documented x kr = (\<forall>model t. length (np_window_errors x (kr_predict kr model t) t) = length t)"

definition keras_ready :: "'m keras \<Rightarrow> bool" where
  "keras_ready kr = (kr_backend kr \<in> {None, Some [], Some ''torch''} \<and> kr_installed kr \<and> kr_torch_installed kr)"

lemma load_keras_ready [simp]: "keras_ready kr \<Longrightarrow> load_keras_module kr = Inr kr"
  by (simp add: keras_ready_def load_keras_module_def)

lemma threshold_floor: "minimum \<le> derive_anomaly_threshold x baseline minimum k"
  by (simp add: derive_anomaly_threshold_def Let_def)

text \<open>The checks and the tensor on windows of one shape.\<close>

lemma float32_shaped: "window_shaped schema k w \<Longrightarrow> window_shaped schema k (float32_window x w)"
  by (simp add: window_shaped_def float32_window_def list_all_iff)

lemma check_shaped: "list_all (window_shaped schema k) ws \<Longrightarrow> check_training_windows schema k ws = Inr ()"
  by (induction ws) (simp_all add: window_shaped_def)

lemma tensor_shaped:
  assumes "list_all (window_shaped schema k) ws" "ws \<noteq> []" "0 < k"
  shows "\<exists>sh. tensor_of f (map tw_feature_matrix ws) = Inr (sh, map (map (map f)) (map tw_feature_matrix ws))"
proof -
  have r: "rows_of_length k (map tw_feature_matrix ws)" "list_all (rows_of_length (length schema)) (map tw_feature_matrix ws)"
    using assms(1) by (auto simp: list_all_iff rows_of_length_def window_shaped_def)
  have "length (tw_feature_matrix (hd ws)) = k" "list_all (\<lambda>row. length row = length schema) (tw_feature_matrix (hd ws))"
    using assms(1,2) by (cases ws; simp add: window_shaped_def)+
  moreover from this have "length (hd (tw_feature_matrix (hd ws))) = length schema"
    using assms(3) by (cases "tw_feature_matrix (hd ws)") auto
  ultimately show ?thesis using r assms(2) by (auto simp: tensor_of_def Let_def hd_map)
qed

text \<open>Scoring windows of one shape: one error per window.\<close>

lemma errors_shaped:
  assumes "list_all (window_shaped schema k) ws" "ws \<noteq> []" "0 < k" "scores_documented x kr"
  shows "\<exists>es. compute_window_reconstruction_errors x kr model ws = Inr es \<and> length es = length ws"
proof -
  obtain sh where "tensor_of (np_float32 x) (map tw_feature_matrix ws) = Inr (sh, map (map (map (np_float32 x))) (map tw_feature_matrix ws))"
    using tensor_shaped [OF assms(1-3)] by blast
  with assms(2,4) show ?thesis
    by (simp add: compute_window_reconstruction_errors_def scores_documented_def)
qed

text \<open>What every result of an inference shares.\<close>

lemma attempt_InrE:
  assumes "attempt r f = Inr y"
  obtains x where "r = Inr x" "f x = Inr y"
  using assms by (cases r) auto

lemma attempt_pairE:
  assumes "attempt r (\<lambda>(a, b). f a b) = Inr y"
  obtains a b where "r = Inr (a, b)" "f a b = Inr y"
  using assms by (cases r) auto

lemma inference_spec:
  assumes "run_lstm_fingerprint_inference_from_persisted_dataset ops np kr mkey ikey wkey multiplier minimum s = Inr results"
  obtains ws m scores model_id source_id level origin threshold where
    "load_persisted_training_dataset_artifacts ops np ikey wkey s = Inr (ws, m)" "minimum \<le> threshold"
    "length results = length ws" "length ws \<le> length scores"
    "\<And>i. i < length ws \<Longrightarrow> results ! i = inference_result_of model_id source_id (dm_dataset_id m) level origin threshold (ws ! i) (scores ! i)"
proof -
  from assms obtain ws m scores model_id source_id level origin x baseline where a:
    "load_persisted_training_dataset_artifacts ops np ikey wkey s = Inr (ws, m)"
    "mapM (\<lambda>i. attempt (nth_res scores i) (\<lambda>score. Inr (inference_result_of model_id source_id (dm_dataset_id m) level origin
      (derive_anomaly_threshold x baseline minimum multiplier) (ws ! i) score))) [0 ..< length ws] = Inr results"
    unfolding run_lstm_fingerprint_inference_from_persisted_dataset_def Let_def
    by (elim attempt_pairE attempt_InrE) (rule that)
  have len: "length results = length ws" using mapM_length [OF a(2)] by simp
  have nth: "i < length scores \<and> results ! i = inference_result_of model_id source_id (dm_dataset_id m) level origin
      (derive_anomaly_threshold x baseline minimum multiplier) (ws ! i) (scores ! i)" if "i < length ws" for i
    using a(2) that unfolding mapM_eq_Inr
    by (auto simp: list_all2_conv_all_nth attempt_eq_Inr nth_res_def split: if_splits)
  have "length ws \<le> length scores" using nth by (meson not_less linorder_not_less order_refl)
  with a(1) len nth threshold_floor show ?thesis
    by (intro that [of ws m "derive_anomaly_threshold x baseline minimum multiplier" scores model_id source_id level origin]) auto
qed

text \<open>A store from which a model can score: its metadata, its bytes, its source dataset, of one shape.\<close>

definition model_ready ::
  "numpy \<Rightarrow> 'm keras \<Rightarrow> (string \<Rightarrow> blob option) \<Rightarrow> string \<Rightarrow> string list \<Rightarrow> int \<Rightarrow> string \<Rightarrow> bool" where
  "model_ready x kr c key schema k source_id = (\<exists>a model ws m da. c key = Some (Json (model_artifact_to_dict a)) \<and>
     starts_with DEFAULT_MODEL_PREFIX key \<and> starts_with DEFAULT_MODEL_PREFIX (fm_model_object_key a) \<and>
     c (fm_model_object_key a) = Some (Bytes (export_model_bytes kr model)) \<and> fm_feature_schema a = schema \<and>
     fm_sequence_length a = k \<and> fm_source_dataset_id a = source_id \<and> dm_dataset_id m = source_id \<and>
     dataset_stored x c DATASET_PREFIX ws m da \<and> dm_feature_schema m = schema \<and> dm_sequence_length m = k \<and> ws \<noteq> [])"

lemma metadata_sections:
  "sub (model_artifact_to_dict a) ''source_dataset_id'' = Inr (PStr (fm_source_dataset_id a))"
  "sub (model_artifact_to_dict a) ''feature_schema'' = Inr (PList (map PStr (fm_feature_schema a)))"
  "sub (model_artifact_to_dict a) ''sequence_length'' = Inr (PInt (fm_sequence_length a))"
  "sub (model_artifact_to_dict a) ''model_object_key'' = Inr (PStr (fm_model_object_key a))"
  "sub (model_artifact_to_dict a) ''model_id'' = Inr (PStr (fm_model_id a))"
  by (simp_all add: model_artifact_to_dict_def)

lemma stored_shape:
  assumes "dataset_stored x c pre ws m a"
  shows "list_all (window_shaped (dm_feature_schema m) (nat (dm_sequence_length m))) (map (float32_window x) ws)"
    "0 < nat (dm_sequence_length m)"
  using assms float32_shaped by (auto simp: dataset_stored_def dataset_shaped_def list_all_iff)

context artifact_store
begin

lemma inference_completes:
  assumes "numpy_documented x" "keras_documented kr" "scores_documented x kr" "keras_ready kr"
    and "model_ready x kr (contents s) key schema k source_id"
    and "dataset_stored x (contents s) pre ws m da" "dm_feature_schema m = schema" "dm_sequence_length m = k" "ws \<noteq> []"
  obtains results where "run_lstm_fingerprint_inference_from_persisted_dataset ops (Some x) kr key
    (manifest_key_of pre (dm_dataset_id m)) None multiplier minimum s = Inr results" "length results = length ws"
proof -
  obtain a model sw sm sda where a: "contents s key = Some (Json (model_artifact_to_dict a))"
    "contents s (fm_model_object_key a) = Some (Bytes (export_model_bytes kr model))" "fm_feature_schema a = schema"
    "fm_sequence_length a = k" "fm_source_dataset_id a = source_id" "dm_dataset_id sm = source_id"
    "dataset_stored x (contents s) DATASET_PREFIX sw sm sda" "dm_feature_schema sm = schema" "dm_sequence_length sm = k" "sw \<noteq> []"
    using assms(5) by (auto simp: model_ready_def)
  obtain created e w where sda: "sda = dataset_artifact_of sw sm created DATASET_PREFIX e w"
    "contents s (manifest_key_of DATASET_PREFIX source_id) = Some (Json (dataset_artifact_to_dict sda))"
    using a(6,7) by (auto simp: dataset_stored_def)
  have key: "DATASET_PREFIX @ source_id @ ''.manifest.json'' = manifest_key_of DATASET_PREFIX (dm_dataset_id sm)"
    by (simp add: manifest_key_of_def a(6))
  note source = load_dataset [OF a(7) assms(1)] note given = load_dataset [OF assms(6,1)]
  have manifest: "op_load_json ops (manifest_key_of DATASET_PREFIX (dm_dataset_id sm)) s = Inr (dataset_artifact_to_dict sda)"
    using sda(2) a(6) by (simp add: load_json)
  have ok: "validate_model_compatibility (model_artifact_to_dict a) (dataset_artifact_to_dict sda) (loaded_manifest m) = Inr ()"
    by (simp add: validate_model_compatibility_def metadata_sections sda(1) saved_sections a(3,4,8,9) assms(7,8) loaded_manifest_def)
  have model: "load_saved_keras_model ops kr (fm_model_object_key a) s = Inr model"
    using assms(2,4) load_bytes [OF a(2)] by (simp add: load_saved_keras_model_def keras_documented_def)
  obtain es where es: "compute_window_reconstruction_errors x kr model (map (float32_window x) sw) = Inr es"
    using errors_shaped [OF stored_shape(1) [OF a(7)] _ stored_shape(2) [OF a(7)] assms(3), of model] a(10) by auto
  obtain fs where fs: "compute_window_reconstruction_errors x kr model (map (float32_window x) ws) = Inr fs"
    "length fs = length ws"
    using errors_shaped [OF stored_shape(1) [OF assms(6)] _ stored_shape(2) [OF assms(6)] assms(3), of model] assms(9) by auto
  show ?thesis
  proof (rule that)
    show "run_lstm_fingerprint_inference_from_persisted_dataset ops (Some x) kr key (manifest_key_of pre (dm_dataset_id m)) None multiplier minimum s =
      Inr (map (\<lambda>i. inference_result_of (fm_model_id a) source_id (dm_dataset_id (loaded_manifest m))
        (aa_validation_level (evaluate_training_dataset_adequacy (dm_eligible_record_count sm) (dm_window_count sm) e w))
        (threshold_origin_of multiplier) (derive_anomaly_threshold x es minimum multiplier)
        (map (float32_window x) ws ! i) (fs ! i)) [0 ..< length ws])"
      unfolding run_lstm_fingerprint_inference_from_persisted_dataset_def load_json [OF a(1)] metadata_sections a(5) attempt_Inr
        py_str.simps Let_def key manifest source given import_numpy_def
      by (simp add: es fs saved_sections ok [unfolded sda(1)] model sda(1) nth_res_def) (rule mapM_Inr, simp)
  qed simp
qed

end

section \<open>Properties\<close>

text \<open>
  C33. The verdicts of one inference agree with its scores: there is a result for every
  window of the scored dataset, in order and under its own identifiers; all share one
  threshold, never below the configured minimum; a window is normal exactly when its score
  does not exceed it; and the limitation note is absent exactly when the source dataset was
  adequate.
\<close>

theorem inference_verdicts:
  assumes "run_lstm_fingerprint_inference_from_persisted_dataset ops np kr mkey ikey wkey multiplier minimum s = Inr results"
  shows "\<exists>ws m threshold. load_persisted_training_dataset_artifacts ops np ikey wkey s = Inr (ws, m) \<and> minimum \<le> threshold \<and>
    map ir_window_id results = map tw_window_id ws \<and> map ir_round_ids results = map tw_round_ids ws \<and>
    (\<forall>r \<in> set results. ir_classification_threshold r = threshold \<and>
       (ir_classification r = NORMAL \<longleftrightarrow> ir_anomaly_score r \<le> threshold) \<and>
       (ir_limitation_note r = None \<longleftrightarrow> ir_source_dataset_validation_level r = ''meaningful_fingerprint_valid'') \<and>
       ir_inference_dataset_id r = dm_dataset_id m)"
proof -
  obtain ws m scores model_id source_id level origin threshold where a:
    "load_persisted_training_dataset_artifacts ops np ikey wkey s = Inr (ws, m)" "minimum \<le> threshold" "length results = length ws"
    "\<And>i. i < length ws \<Longrightarrow> results ! i = inference_result_of model_id source_id (dm_dataset_id m) level origin threshold (ws ! i) (scores ! i)"
    by (rule inference_spec [OF assms]) (rule that, assumption+)
  have ids: "map ir_window_id results = map tw_window_id ws" "map ir_round_ids results = map tw_round_ids ws"
    using a(3,4) by (auto intro!: nth_equalityI simp: inference_result_of_def)
  have "ir_classification_threshold r = threshold \<and> (ir_classification r = NORMAL \<longleftrightarrow> ir_anomaly_score r \<le> threshold) \<and>
       (ir_limitation_note r = None \<longleftrightarrow> ir_source_dataset_validation_level r = ''meaningful_fingerprint_valid'') \<and>
       ir_inference_dataset_id r = dm_dataset_id m" if r: "r \<in> set results" for r
  proof -
    obtain i where "i < length ws" "r = results ! i" using r a(3) by (auto simp: in_set_conv_nth)
    then show ?thesis using a(4) by (simp add: inference_result_of_def classify_def limitation_note_of_def)
  qed
  with a(1,2) ids show ?thesis by blast
qed

text \<open>
  A toy installation: the trained model is its weights; it predicts zeros. Saving keeps the
  weights of the archive, loading reads them back.
\<close>

definition sample_keras :: "string keras" where
  "sample_keras = \<lparr>kr_backend = None, kr_installed = True, kr_torch_installed = True,
     kr_fit = (\<lambda>net t epochs batch. Inr (''weights'', Some [1/2])), kr_metadata_json = (\<lambda>_. ''{}''), kr_config_json = (\<lambda>_. ''{}''),
     kr_weights = id, kr_zip = (\<lambda>fs. snd (last fs)), kr_load_model = Inr, kr_predict = (\<lambda>_. map (map (map (\<lambda>_. 0))))\<rparr>"

lemma sample_keras_ok: "keras_documented sample_keras" "keras_ready sample_keras" "scores_documented unary_numpy sample_keras"
  by (simp_all add: keras_documented_def keras_ready_def scores_documented_def sample_keras_def export_model_bytes_def unary_numpy_def)

definition sample_model :: model_artifact where
  "sample_model = model_artifact_of ''b'' [sample_window] sample_manifest (isoformat sample_time) 1 1 DEFAULT_MODEL_PREFIX None"

definition sample_registry :: local_files where
  "sample_registry = (let a = dataset_artifact_of [sample_window] sample_manifest (isoformat sample_time) DATASET_PREFIX 30 20 in
     [(fm_metadata_object_key sample_model, Json (model_artifact_to_dict sample_model)),
      (fm_model_object_key sample_model, Bytes (export_model_bytes sample_keras ''weights'')),
      (manifest_key_of DATASET_PREFIX ''d'', Json (dataset_artifact_to_dict a)),
      (windows_key_of DATASET_PREFIX ''d'', Bytes (unary_savez (archive_of unary_numpy [sample_window] sample_manifest)))])"

lemma sample_id [simp]: "dm_dataset_id sample_manifest = ''d''" "dm_sequence_length sample_manifest = 2"
  "dm_feature_schema sample_manifest = [''rpm.loop_current_ma'']"
  by (simp_all add: sample_manifest_def)

lemma sample_registry_stored:
  "\<exists>a. dataset_stored unary_numpy (map_of sample_registry) DATASET_PREFIX [sample_window] sample_manifest a"
proof -
  let ?a = "dataset_artifact_of [sample_window] sample_manifest (isoformat sample_time) DATASET_PREFIX 30 20"
  have "fm_metadata_object_key sample_model = ''fingerprint-models/'' @ fm_model_id sample_model @ ''.json''"
    "fm_model_object_key sample_model = ''fingerprint-models/'' @ fm_model_id sample_model @ ''.keras''"
    by (simp_all add: sample_model_def model_artifact_of_def DEFAULT_MODEL_PREFIX_def Let_def)
  then have "map_of sample_registry (manifest_key_of DATASET_PREFIX ''d'') = Some (Json (dataset_artifact_to_dict ?a))"
    "map_of sample_registry (windows_key_of DATASET_PREFIX ''d'') = Some (Bytes (unary_savez (archive_of unary_numpy [sample_window] sample_manifest)))"
    by (simp_all add: sample_registry_def Let_def manifest_key_of_def windows_key_of_def DATASET_PREFIX_def)
  then have "dataset_stored unary_numpy (map_of sample_registry) DATASET_PREFIX [sample_window] sample_manifest ?a"
    using sample_shaped unfolding dataset_stored_def by (auto simp: unary_numpy_def)
  then show ?thesis ..
qed

theorem inference_verdicts_witness:
  "\<exists>results ws m threshold. run_lstm_fingerprint_inference_from_persisted_dataset (local_ops ''b'') (Some unary_numpy) sample_keras
      (fm_metadata_object_key sample_model) (manifest_key_of DATASET_PREFIX ''d'') None 3 (dec 1 6) sample_registry = Inr results \<and>
    load_persisted_training_dataset_artifacts (local_ops ''b'') (Some unary_numpy) (manifest_key_of DATASET_PREFIX ''d'') None
      sample_registry = Inr (ws, m) \<and> dec 1 6 \<le> threshold \<and> length results = 1 \<and> map ir_window_id results = map tw_window_id ws"
proof -
  obtain da where da: "dataset_stored unary_numpy (map_of sample_registry) DATASET_PREFIX [sample_window] sample_manifest da"
    using sample_registry_stored by blast
  have pre: "starts_with DEFAULT_MODEL_PREFIX (fm_metadata_object_key sample_model)"
    "starts_with DEFAULT_MODEL_PREFIX (fm_model_object_key sample_model)"
    by (simp_all add: sample_model_def model_artifact_of_def Let_def)
  have keys: "fm_metadata_object_key sample_model = ''fingerprint-models/'' @ fm_model_id sample_model @ ''.json''"
    "fm_model_object_key sample_model = ''fingerprint-models/'' @ fm_model_id sample_model @ ''.keras''"
    "fm_source_dataset_id sample_model = ''d''"
    "fm_feature_schema sample_model = [''rpm.loop_current_ma'']" "fm_sequence_length sample_model = 2"
    by (simp_all add: sample_model_def model_artifact_of_def DEFAULT_MODEL_PREFIX_def Let_def sample_window_def)
  then have objs: "map_of sample_registry (fm_metadata_object_key sample_model) = Some (Json (model_artifact_to_dict sample_model))"
    "map_of sample_registry (fm_model_object_key sample_model) = Some (Bytes (export_model_bytes sample_keras ''weights''))"
    by (simp_all add: sample_registry_def Let_def)
  have "model_ready unary_numpy sample_keras (map_of sample_registry) (fm_metadata_object_key sample_model) [''rpm.loop_current_ma''] 2 ''d''"
    unfolding model_ready_def
    by (intro exI [of _ sample_model] exI [of _ "''weights''"] exI [of _ "[sample_window]"] exI [of _ sample_manifest] exI [of _ da])
      (simp add: da keys(3-) objs pre)
  then obtain results where r: "run_lstm_fingerprint_inference_from_persisted_dataset (local_ops ''b'') (Some unary_numpy) sample_keras
      (fm_metadata_object_key sample_model) (manifest_key_of DATASET_PREFIX ''d'') None 3 (dec 1 6) sample_registry = Inr results"
    "length results = 1"
    by (rule local_store.inference_completes [OF unary_numpy_documented sample_keras_ok(1,3,2) _ da,
          where multiplier = 3 and minimum = "dec 1 6"]) auto
  obtain ws m threshold where v: "load_persisted_training_dataset_artifacts (local_ops ''b'') (Some unary_numpy)
      (manifest_key_of DATASET_PREFIX ''d'') None sample_registry = Inr (ws, m)" "dec 1 6 \<le> threshold"
    "map ir_window_id results = map tw_window_id ws"
    using inference_verdicts [OF r(1)] by blast
  show ?thesis by (intro exI conjI) (rule r v)+
qed

text \<open>
  The timestamp of a model identifier keeps its numeric offset: the code replaces
  \<open>+00:00\<close> by \<open>Z\<close> after it has removed the colons, so for a UTC creation time the
  replacement never applies and the identifier ends with \<open>+0000\<close>.
\<close>

theorem model_id_keeps_offset:
  assumes "dt_offset t = Some 0"
  shows "ends_with ''+0000'' (build_model_id dataset_id (isoformat t))"
proof -
  define body where "body = filter (\<lambda>d. d \<noteq> CHR ''.'') (filter (\<lambda>d. d \<noteq> CHR '':'') (filter (\<lambda>d. d \<noteq> CHR ''-'') (isoformat t)))"
  have "CHR '':'' \<notin> set body" by (simp add: body_def)
  then have "replace_all ''+00:00'' ''Z'' body = body" by (intro replace_absent [of "CHR '':''"]) simp_all
  moreover have "\<exists>u. body = u @ ''+0000''"
    using assms by (simp add: body_def isoformat_def iso_offset_def zero_pad_def digit_0)
  ultimately show ?thesis
    by (auto simp: build_model_id_def replace_char body_def Let_def simp flip: append_assoc append_Cons)
qed

theorem model_id_keeps_offset_witness:
  "ends_with ''+0000'' (build_model_id ''d'' (isoformat sample_time))"
  by (rule model_id_keeps_offset) (simp add: sample_time_def)

end
