(* ===== verification/Lifecycle.thy ===== *)
theory Lifecycle
  imports Fingerprint
begin

text \<open>
  \<open>lstm_service/lifecycle.py\<close>: the deferred fingerprint lifecycle of one cycle. Without a
  saved model it waits for enough history, then trains; with one it persists the current
  datasets and scores the evaluation windows. The two clock readings of a cycle are arguments.
\<close>

section \<open>Stage\<close>

record lifecycle_stage =
  ls_cycle_index :: int
  ls_valid_artifact_count :: int
  ls_eligible_history_count :: int
  ls_eligible_history_threshold :: int
  ls_window_count :: int
  ls_latest_valid_artifact_key :: "string option"
  ls_model_status :: string
  ls_training_events :: "string list"
  ls_inference_status :: string
  ls_inference_result_count :: int
  ls_dataset_manifest_object_key :: "string option"
  ls_model_metadata_object_key :: "string option"
  ls_source_dataset_validation_level :: "string option"
  ls_limitation_note :: "string option"

definition lifecycle_stage_to_dict :: "lifecycle_stage \<Rightarrow> pyval" where
  "lifecycle_stage_to_dict s = PDict [(''cycle_index'', PInt (ls_cycle_index s)),
     (''valid_artifact_count'', PInt (ls_valid_artifact_count s)),
     (''eligible_history_count'', PInt (ls_eligible_history_count s)),
     (''eligible_history_threshold'', PInt (ls_eligible_history_threshold s)),
     (''window_count'', PInt (ls_window_count s)),
     (''latest_valid_artifact_key'', opt_str (ls_latest_valid_artifact_key s)),
     (''model_status'', PStr (ls_model_status s)), (''training_events'', PList (map PStr (ls_training_events s))),
     (''inference_status'', PStr (ls_inference_status s)),
     (''inference_result_count'', PInt (ls_inference_result_count s)),
     (''dataset_manifest_object_key'', opt_str (ls_dataset_manifest_object_key s)),
     (''model_metadata_object_key'', opt_str (ls_model_metadata_object_key s)),
     (''source_dataset_validation_level'', opt_str (ls_source_dataset_validation_level s)),
     (''limitation_note'', opt_str (ls_limitation_note s))]"

definition VALID_ARTIFACT_PREFIX :: string where
  "VALID_ARTIFACT_PREFIX = ''valid-consensus-artifacts/''"

definition MODEL_METADATA_PREFIX :: string where
  "MODEL_METADATA_PREFIX = ''fingerprint-models/''"

definition last_key :: "string list \<Rightarrow> string option" where
  "last_key ks = (if ks = [] then None else Some (last ks))"

definition latest_model_metadata_key :: "'s store_ops \<Rightarrow> 's \<Rightarrow> string option res" where
  "latest_model_metadata_key ops s = attempt (op_list_json_objects ops MODEL_METADATA_PREFIX s) (\<lambda>ks. Inr (last_key ks))"

text \<open>The fields every return of the function fills in the same way, then the others.\<close>

definition cycle_stage :: "int \<Rightarrow> string list \<Rightarrow> dataset_manifest \<Rightarrow> int \<Rightarrow> lifecycle_stage" where
  "cycle_stage cycle keys m threshold = \<lparr>ls_cycle_index = cycle, ls_valid_artifact_count = int (length keys),
     ls_eligible_history_count = dm_eligible_record_count m, ls_eligible_history_threshold = threshold,
     ls_window_count = dm_window_count m, ls_latest_valid_artifact_key = last_key keys, ls_model_status = ''model_available'',
     ls_training_events = [], ls_inference_status = [], ls_inference_result_count = 0,
     ls_dataset_manifest_object_key = None, ls_model_metadata_object_key = None,
     ls_source_dataset_validation_level = None, ls_limitation_note = None\<rparr>"

definition deferred_stage :: "lifecycle_stage \<Rightarrow> lifecycle_stage" where
  "deferred_stage st = st\<lparr>ls_model_status := ''no_model_yet'', ls_training_events := [''deferred''],
     ls_inference_status := ''skipped_no_model'', ls_limitation_note := Some RUNTIME_VALID_LIMITATION_NOTE\<rparr>"

definition trained_stage :: "lifecycle_stage \<Rightarrow> dataset_artifact \<Rightarrow> model_artifact \<Rightarrow> lifecycle_stage" where
  "trained_stage st ds meta = (let level = aa_validation_level (da_adequacy_assessment ds) in
     st\<lparr>ls_training_events := [''started'', ''completed''], ls_inference_status := ''skipped_until_next_cycle'',
       ls_dataset_manifest_object_key := Some (da_manifest_object_key ds),
       ls_model_metadata_object_key := Some (fm_metadata_object_key meta),
       ls_source_dataset_validation_level := Some level, ls_limitation_note := limitation_note_of level\<rparr>)"

definition no_windows_stage :: "lifecycle_stage \<Rightarrow> dataset_artifact \<Rightarrow> dataset_artifact \<Rightarrow> string \<Rightarrow> lifecycle_stage" where
  "no_windows_stage st td ed key = (let level = aa_validation_level (da_adequacy_assessment td) in
     st\<lparr>ls_training_events := [''reused''], ls_inference_status := ''skipped_no_windows'',
       ls_dataset_manifest_object_key := Some (da_manifest_object_key ed), ls_model_metadata_object_key := Some key,
       ls_source_dataset_validation_level := Some level, ls_limitation_note := limitation_note_of level\<rparr>)"

definition completed_stage :: "lifecycle_stage \<Rightarrow> dataset_artifact \<Rightarrow> string \<Rightarrow> inference_result list \<Rightarrow> lifecycle_stage" where
  "completed_stage st ed key results =
     st\<lparr>ls_training_events := [''reused''], ls_inference_status := ''completed'',
       ls_inference_result_count := int (length results),
       ls_dataset_manifest_object_key := Some (da_manifest_object_key ed), ls_model_metadata_object_key := Some key,
       ls_source_dataset_validation_level := (case results of [] \<Rightarrow> None | r # _ \<Rightarrow> Some (ir_source_dataset_validation_level r)),
       ls_limitation_note := (case results of [] \<Rightarrow> None | r # _ \<Rightarrow> ir_limitation_note r)\<rparr>"

section \<open>One cycle\<close>

type_synonym lifecycle_result = "lifecycle_stage \<times> inference_result list"

definition persist_default ::
  "'s store_ops \<Rightarrow> numpy option \<Rightarrow> training_window list \<Rightarrow> dataset_manifest \<Rightarrow> datetime \<Rightarrow> string \<Rightarrow> ('s, dataset_artifact) act" where
  "persist_default ops np ws m now pre = persist_training_dataset_artifacts ops np ws m None now pre
     DEFAULT_MIN_ELIGIBLE_ARTIFACT_COUNT DEFAULT_MIN_WINDOW_COUNT"

definition lifecycle_train ::
  "'s store_ops \<Rightarrow> numpy option \<Rightarrow> 'm keras \<Rightarrow> training_window list \<Rightarrow> dataset_manifest \<Rightarrow> lifecycle_stage
     \<Rightarrow> datetime \<Rightarrow> datetime \<Rightarrow> ('s, lifecycle_result) act" where
  "lifecycle_train ops np kr tw tm st now1 now2 =
     bind_act (persist_default ops np tw tm now1 DATASET_PREFIX) (\<lambda>ds.
     bind_act (train_and_save_lstm_fingerprint_from_persisted_dataset ops np kr (da_manifest_object_key ds) None 1 1 4
       DEFAULT_MODEL_PREFIX now2) (\<lambda>meta.
     ret (trained_stage st ds meta, [])))"

definition lifecycle_reuse ::
  "'s store_ops \<Rightarrow> numpy option \<Rightarrow> 'm keras \<Rightarrow> string \<Rightarrow> int \<Rightarrow> training_window list \<Rightarrow> dataset_manifest \<Rightarrow> lifecycle_stage
     \<Rightarrow> datetime \<Rightarrow> datetime \<Rightarrow> ('s, lifecycle_result) act" where
  "lifecycle_reuse ops np kr key k tw tm st now1 now2 =
     bind_act (persist_default ops np tw tm now1 DATASET_PREFIX) (\<lambda>td.
     bind_act (reading (build_evaluation_windows ops k VALID_ARTIFACT_PREFIX)) (\<lambda>(ew, em).
     bind_act (persist_default ops np ew em now2 (DATASET_PREFIX @ ''evaluation/'')) (\<lambda>ed.
     if ew = [] then ret (no_windows_stage st td ed key, [])
     else bind_act (reading (run_lstm_fingerprint_inference_from_persisted_dataset ops np kr key
         (da_manifest_object_key ed) None DEFAULT_THRESHOLD_STDDEV_MULTIPLIER DEFAULT_MINIMUM_ANOMALY_THRESHOLD)) (\<lambda>results.
       ret (completed_stage st ed key results, results)))))"

definition execute_deferred_fingerprint_lifecycle ::
  "'s store_ops \<Rightarrow> numpy option \<Rightarrow> 'm keras \<Rightarrow> int \<Rightarrow> int \<Rightarrow> int \<Rightarrow> datetime \<Rightarrow> datetime \<Rightarrow> ('s, lifecycle_result) act" where
  "execute_deferred_fingerprint_lifecycle ops np kr cycle k threshold now1 now2 =
     bind_act (reading (op_list_json_objects ops VALID_ARTIFACT_PREFIX)) (\<lambda>keys.
     bind_act (reading (build_normal_training_windows ops k VALID_ARTIFACT_PREFIX)) (\<lambda>(tw, tm).
     bind_act (reading (latest_model_metadata_key ops)) (\<lambda>latest.
     let st = cycle_stage cycle keys tm threshold in
     case latest of
       None \<Rightarrow> if dm_eligible_record_count tm < threshold \<or> dm_window_count tm = 0 then ret (deferred_stage st, [])
         else lifecycle_train ops np kr tw tm st now1 now2
     | Some key \<Rightarrow> lifecycle_reuse ops np kr key k tw tm st now1 now2)))"

section \<open>Which objects an action touches\<close>

definition confined :: "('s \<Rightarrow> string \<Rightarrow> blob option) \<Rightarrow> string set \<Rightarrow> ('s, 'a) act \<Rightarrow> bool" where
  "confined contents K f = (\<forall>s k. k \<notin> K \<longrightarrow> contents (snd (f s)) k = contents s k)"

lemma confined_ret [intro]: "confined c K (ret x)"
  by (simp add: confined_def ret_def)

lemma confined_reading [intro]: "confined c K (reading f)"
  by (simp add: confined_def reading_def)

lemma confined_bind:
  assumes "confined c K f" "\<And>x. confined c K (g x)"
  shows "confined c K (bind_act f g)"
  unfolding confined_def
proof (intro allI impI)
  fix s k assume k: "k \<notin> K"
  have "c (snd (f s)) k = c s k" "\<And>x t. c (snd (g x t)) k = c t k"
    using assms k by (simp_all add: confined_def)
  then show "c (snd (bind_act f g s)) k = c s k"
    by (cases "f s"; cases "fst (f s)") (auto simp: bind_act_def)
qed

lemma confined_option: "confined c K f \<Longrightarrow> (\<And>y. confined c K (g y)) \<Longrightarrow> confined c K (case x of None \<Rightarrow> f | Some y \<Rightarrow> g y)"
  by (cases x) auto

lemma confined_if: "confined c K f \<Longrightarrow> confined c K g \<Longrightarrow> confined c K (if b then f else g)"
  by simp

lemma confined_pair: "(\<And>a b. confined c K (f a b)) \<Longrightarrow> confined c K (case p of (a, b) \<Rightarrow> f a b)"
  by (cases p) auto

lemmas confined_intros = confined_bind confined_ret confined_reading confined_option confined_if confined_pair

lemma confined_mono: "confined c K f \<Longrightarrow> K \<subseteq> L \<Longrightarrow> confined c L f"
  by (auto simp: confined_def)

context artifact_store
begin

lemma confined_save_json: "key \<in> K \<Longrightarrow> confined contents K (writing (op_save_json ops key v))"
  unfolding confined_def
proof (intro allI impI)
  fix s k assume k: "key \<in> K" "k \<notin> K"
  obtain s' where "op_save_json ops key v s = Inr s'" "contents s' = (contents s)(key \<mapsto> Json v)"
    using save_json by blast
  with k show "contents (snd (writing (op_save_json ops key v) s)) k = contents s k" by (auto simp: writing_def)
qed

lemma confined_save_bytes: "key \<in> K \<Longrightarrow> confined contents K (writing (op_save_bytes ops key v))"
  unfolding confined_def
proof (intro allI impI)
  fix s k assume k: "key \<in> K" "k \<notin> K"
  obtain s' where "op_save_bytes ops key v s = Inr s'" "contents s' = (contents s)(key \<mapsto> Bytes v)"
    using save_bytes by blast
  with k show "contents (snd (writing (op_save_bytes ops key v) s)) k = contents s k" by (auto simp: writing_def)
qed

lemma confined_persist:
  "confined contents {k. starts_with pre k} (persist_training_dataset_artifacts ops np ws m created now pre me mw)"
  unfolding persist_training_dataset_artifacts_def Let_def
  by (intro confined_bind confined_save_json confined_save_bytes confined_reading confined_ret)
    (simp_all add: dataset_artifact_of_def manifest_key_of_def windows_key_of_def)

lemma confined_train:
  "confined contents {k. starts_with pre k} (train_and_save_lstm_fingerprint ops np kr ws m epochs batch units pre now)"
  unfolding train_and_save_lstm_fingerprint_def Let_def
  by (intro confined_bind confined_reading)
    (auto intro!: confined_bind confined_save_json confined_save_bytes simp: model_artifact_of_def Let_def)

text \<open>How a persist ends: an exception leaves the manifest behind.\<close>

lemma persist_outcome:
  assumes "persist_training_dataset_artifacts ops np ws m created now pre me mw s = (r, s')"
  obtains (failed) e a where "r = Inl e" "contents s' = (contents s)(manifest_key_of pre (dm_dataset_id m) \<mapsto> Json (dataset_artifact_to_dict a))"
    | (saved) a b where "r = Inr a" "\<exists>t. a = dataset_artifact_of ws m t pre me mw"
      "contents s' = (contents s)(manifest_key_of pre (dm_dataset_id m) \<mapsto> Json (dataset_artifact_to_dict a),
        windows_key_of pre (dm_dataset_id m) \<mapsto> Bytes b)"
proof -
  let ?t = "isoformat (case created of None \<Rightarrow> now | Some t \<Rightarrow> t)"
  let ?a = "dataset_artifact_of ws m ?t pre me mw"
  have keys: "da_manifest_object_key ?a = manifest_key_of pre (dm_dataset_id m)"
    "da_windows_object_key ?a = windows_key_of pre (dm_dataset_id m)"
    by (simp_all add: dataset_artifact_of_def)
  obtain s1 where s1: "op_save_json ops (manifest_key_of pre (dm_dataset_id m)) (dataset_artifact_to_dict ?a) s = Inr s1"
    "contents s1 = (contents s)(manifest_key_of pre (dm_dataset_id m) \<mapsto> Json (dataset_artifact_to_dict ?a))"
    using save_json by blast
  show ?thesis
  proof (cases "serialize_training_windows_npz np ws (dm_sequence_length m) (length (dm_feature_schema m))")
    case (Inl e)
    with assms s1 show ?thesis
      by (intro failed [of e ?a]) (auto simp: persist_training_dataset_artifacts_def Let_def act_simps keys)
  next
    case (Inr b)
    obtain s2 where s2: "op_save_bytes ops (windows_key_of pre (dm_dataset_id m)) b s1 = Inr s2"
      "contents s2 = (contents s1)(windows_key_of pre (dm_dataset_id m) \<mapsto> Bytes b)"
      using save_bytes by blast
    with assms s1 Inr show ?thesis
      by (intro saved [of ?a b]) (auto simp: persist_training_dataset_artifacts_def Let_def act_simps keys)
  qed
qed

text \<open>How training ends: an exception leaves the store as it was; the metadata is written last.\<close>

lemma train_outcome:
  assumes "train_and_save_lstm_fingerprint ops np kr ws m epochs batch units pre now s = (r, s')"
  obtains (failed) e where "r = Inl e" "s' = s"
    | (saved) a model where "r = Inr a" "\<exists>h. a = model_artifact_of (op_bucket ops) ws m (isoformat now) epochs batch pre h"
      "contents s' = (contents s)(fm_model_object_key a \<mapsto> Bytes (export_model_bytes kr model),
        fm_metadata_object_key a \<mapsto> Json (model_artifact_to_dict a))"
proof -
  define g where "g = (if ws = [] then Inl (ValueError ''At least one training window is required for LSTM training.'')
       else let schema = tw_feature_schema (hd ws); k = length (tw_feature_matrix (hd ws)) in
         attempt (check_training_windows schema k ws) (\<lambda>_.
         attempt (load_keras_module kr) (\<lambda>keras.
         attempt (import_numpy np) (\<lambda>x.
         attempt (tensor_of (np_float32 x) (map tw_feature_matrix ws)) (\<lambda>(_, tensor).
           kr_fit keras (build_lstm_autoencoder k (length schema) units) tensor epochs batch)))))"
  show ?thesis
  proof (cases g)
    case (Inl e)
    with assms show ?thesis
      by (intro failed [of e]) (auto simp: train_and_save_lstm_fingerprint_def act_simps g_def [symmetric])
  next
    case (Inr mh)
    obtain model h where mh: "mh = (model, h)" by (cases mh)
    let ?a = "model_artifact_of (op_bucket ops) ws m (isoformat now) epochs batch pre h"
    obtain s1 where s1: "op_save_bytes ops (fm_model_object_key ?a) (export_model_bytes kr model) s = Inr s1"
      "contents s1 = (contents s)(fm_model_object_key ?a \<mapsto> Bytes (export_model_bytes kr model))"
      using save_bytes by blast
    obtain s2 where s2: "op_save_json ops (fm_metadata_object_key ?a) (model_artifact_to_dict ?a) s1 = Inr s2"
      "contents s2 = (contents s1)(fm_metadata_object_key ?a \<mapsto> Json (model_artifact_to_dict ?a))"
      using save_json by blast
    from assms Inr s1 s2 show ?thesis
      by (intro saved [of ?a model]) (auto simp: train_and_save_lstm_fingerprint_def act_simps g_def [symmetric] mh Let_def)
  qed
qed

lemma model_keys:
  assumes "a = model_artifact_of bucket ws m t epochs batch pre h"
  shows "fm_metadata_object_key a = pre @ fm_model_id a @ ''.json''" "fm_model_object_key a = pre @ fm_model_id a @ ''.keras''"
    "fm_source_dataset_id a = dm_dataset_id m"
  using assms by (simp_all add: model_artifact_of_def Let_def)

end

lemma ends_with_longer: "length p \<le> length q \<Longrightarrow> ends_with p (s @ q) = ends_with p q"
  by (simp add: ends_with_def)

lemma starts_with_trans: "starts_with p q \<Longrightarrow> starts_with q s \<Longrightarrow> starts_with p s"
  by (auto simp: starts_with_def) (metis min_def take_take)

lemma prefix_disjoint:
  assumes "starts_with p k" "starts_with q k" "length p \<le> length q"
  shows "starts_with p q"
  using assms by (auto simp: starts_with_def) (metis min_def take_take)

lemma prefixes [simp]:
  "starts_with MODEL_METADATA_PREFIX k \<Longrightarrow> \<not> starts_with DATASET_PREFIX k"
  "starts_with VALID_ARTIFACT_PREFIX k \<Longrightarrow> \<not> starts_with DATASET_PREFIX k"
  "starts_with VALID_ARTIFACT_PREFIX k \<Longrightarrow> \<not> starts_with MODEL_METADATA_PREFIX k"
proof -
  show "starts_with MODEL_METADATA_PREFIX k \<Longrightarrow> \<not> starts_with DATASET_PREFIX k"
    using prefix_disjoint [of MODEL_METADATA_PREFIX k DATASET_PREFIX]
    by (auto simp: MODEL_METADATA_PREFIX_def DATASET_PREFIX_def starts_with_def)
  show "starts_with VALID_ARTIFACT_PREFIX k \<Longrightarrow> \<not> starts_with DATASET_PREFIX k"
    using prefix_disjoint [of DATASET_PREFIX k VALID_ARTIFACT_PREFIX]
    by (auto simp: VALID_ARTIFACT_PREFIX_def DATASET_PREFIX_def starts_with_def)
  show "starts_with VALID_ARTIFACT_PREFIX k \<Longrightarrow> \<not> starts_with MODEL_METADATA_PREFIX k"
    using prefix_disjoint [of MODEL_METADATA_PREFIX k VALID_ARTIFACT_PREFIX]
    by (auto simp: VALID_ARTIFACT_PREFIX_def MODEL_METADATA_PREFIX_def starts_with_def)
qed

section \<open>The model registry\<close>

abbreviation models :: "(string \<Rightarrow> blob option) \<Rightarrow> string set" where
  "models c \<equiv> json_under MODEL_METADATA_PREFIX c"

text \<open>A listed model refers to objects that exist: its own bytes and its source dataset.\<close>

definition model_complete :: "'m keras \<Rightarrow> (string \<Rightarrow> blob option) \<Rightarrow> string \<Rightarrow> bool" where
  "model_complete kr c key = (\<exists>a model v b. c key = Some (Json (model_artifact_to_dict a)) \<and> fm_metadata_object_key a = key \<and>
     starts_with MODEL_METADATA_PREFIX key \<and> starts_with MODEL_METADATA_PREFIX (fm_model_object_key a) \<and>
     c (fm_model_object_key a) = Some (Bytes (export_model_bytes kr model)) \<and>
     c (manifest_key_of DATASET_PREFIX (fm_source_dataset_id a)) = Some (Json v) \<and>
     c (windows_key_of DATASET_PREFIX (fm_source_dataset_id a)) = Some (Bytes b))"

text \<open>The store a dataset was written to, archive included or not.\<close>

definition dataset_written :: "(string \<Rightarrow> blob option) \<Rightarrow> (string \<Rightarrow> blob option) \<Rightarrow> string \<Rightarrow> bool" where
  "dataset_written c c' ident = ((\<exists>v. c' = c(ident @ ''.manifest.json'' \<mapsto> Json v)) \<or>
     (\<exists>v b. c' = c(ident @ ''.manifest.json'' \<mapsto> Json v, ident @ ''.windows.npz'' \<mapsto> Bytes b)))"

lemma suffix_differ: "i @ ''.manifest.json'' \<noteq> j @ ''.windows.npz''"
proof
  assume e: "i @ ''.manifest.json'' = j @ ''.windows.npz''"
  have "last (i @ ''.manifest.json'') = last (j @ ''.windows.npz'')" by (simp only: e)
  then show False by simp
qed

lemma model_complete_dataset:
  assumes "model_complete kr c key" "dataset_written c c' ident" "starts_with DATASET_PREFIX ident"
  shows "model_complete kr c' key"
proof -
  obtain a model v b where a: "c key = Some (Json (model_artifact_to_dict a))" "fm_metadata_object_key a = key"
     "starts_with MODEL_METADATA_PREFIX key" "starts_with MODEL_METADATA_PREFIX (fm_model_object_key a)"
     "c (fm_model_object_key a) = Some (Bytes (export_model_bytes kr model))"
     "c (manifest_key_of DATASET_PREFIX (fm_source_dataset_id a)) = Some (Json v)"
     "c (windows_key_of DATASET_PREFIX (fm_source_dataset_id a)) = Some (Bytes b)"
    using assms(1) by (auto simp: model_complete_def)
  have same: "c' k = c k" if "starts_with MODEL_METADATA_PREFIX k" for k
  proof -
    have "starts_with DATASET_PREFIX (ident @ t)" for t
      using starts_with_trans [OF assms(3)] by simp
    then have "k \<noteq> ident @ t" for t using prefixes(1) [OF that] by auto
    then show ?thesis using assms(2) by (auto simp: dataset_written_def)
  qed
  have "\<exists>v'. c' (manifest_key_of DATASET_PREFIX (fm_source_dataset_id a)) = Some (Json v')"
    using a(6) assms(2) suffix_differ [of "DATASET_PREFIX @ fm_source_dataset_id a" ident]
    by (auto simp: dataset_written_def manifest_key_of_def)
  moreover have "\<exists>b'. c' (windows_key_of DATASET_PREFIX (fm_source_dataset_id a)) = Some (Bytes b')"
    using a(7) assms(2) suffix_differ [of ident "DATASET_PREFIX @ fm_source_dataset_id a"]
    by (auto simp: dataset_written_def windows_key_of_def)
  moreover have "c' key = Some (Json (model_artifact_to_dict a))"
    "c' (fm_model_object_key a) = Some (Bytes (export_model_bytes kr model))"
    using same [OF a(3)] same [OF a(4)] a(1,5) by simp_all
  ultimately show ?thesis
    unfolding model_complete_def
    by (elim exE) (intro exI conjI, assumption, (assumption | rule a)+)
qed

lemma written_elsewhere:
  assumes "dataset_written c c' ident" "starts_with DATASET_PREFIX ident" "\<not> starts_with DATASET_PREFIX k"
  shows "c' k = c k"
proof -
  have "k \<noteq> ident @ t" for t using assms(2,3) starts_with_trans [OF assms(2), of "ident @ t"] by auto
  then show ?thesis using assms(1) by (auto simp: dataset_written_def)
qed

lemma models_cong: "(\<And>k. starts_with MODEL_METADATA_PREFIX k \<Longrightarrow> c' k = c k) \<Longrightarrow> models c' = models c"
  by (auto simp: json_under_def domIff)

lemma models_written:
  assumes "dataset_written c c' ident" "starts_with DATASET_PREFIX ident"
  shows "models c' = models c"
  by (rule models_cong) (simp add: written_elsewhere [OF assms])

lemma models_saved:
  "models (c(MODEL_METADATA_PREFIX @ i @ ''.keras'' \<mapsto> Bytes b, MODEL_METADATA_PREFIX @ i @ ''.json'' \<mapsto> Json v)) =
     insert (MODEL_METADATA_PREFIX @ i @ ''.json'') (models c)"
proof -
  have "ends_with ''.json'' (MODEL_METADATA_PREFIX @ i @ ''.json'')"
    "\<not> ends_with ''.json'' (MODEL_METADATA_PREFIX @ i @ ''.keras'')"
    using ends_with_longer [of "''.json''" "''.keras''" "MODEL_METADATA_PREFIX @ i"]
      ends_with_longer [of "''.json''" "''.json''" "MODEL_METADATA_PREFIX @ i"]
    by (simp_all add: ends_with_def)
  then show ?thesis by (auto simp: json_under_def)
qed

lemma loaded_dataset_id:
  assumes "load_persisted_training_dataset_artifacts ops np mkey wkey s = Inr (ws, m)"
    and "op_load_json ops mkey s = Inr (dataset_artifact_to_dict a)"
  shows "dm_dataset_id m = da_dataset_id a"
proof -
  have "sub (dataset_artifact_to_dict a) ''dataset_id'' = Inr (PStr (da_dataset_id a))"
    by (simp add: dataset_artifact_to_dict_def split: prod.split)
  with assms show ?thesis
    by (auto simp: load_persisted_training_dataset_artifacts_def attempt_eq_Inr load_manifest_def split: if_splits option.splits)
qed

context artifact_store
begin

lemma persist_written:
  assumes "persist_training_dataset_artifacts ops np ws m created now pre me mw s = (r, s')"
  shows "dataset_written (contents s) (contents s') (pre @ dm_dataset_id m)"
  by (rule persist_outcome [OF assms]) (auto simp: dataset_written_def manifest_key_of_def windows_key_of_def)

lemma lifecycle_train_registry:
  assumes "lifecycle_train ops np kr tw tm st now1 now2 s = (r, s')" "models (contents s) = {}"
  shows "(\<exists>e. r = Inl e \<and> models (contents s') = {}) \<or>
    (\<exists>stage key. r = Inr (stage, []) \<and> ls_model_metadata_object_key stage = Some key \<and>
       models (contents s') = {key} \<and> model_complete kr (contents s') key)"
proof -
  let ?pre = DATASET_PREFIX and ?id = "dm_dataset_id tm"
  obtain r1 s1 where p: "persist_training_dataset_artifacts ops np tw tm None now1 ?pre
      DEFAULT_MIN_ELIGIBLE_ARTIFACT_COUNT DEFAULT_MIN_WINDOW_COUNT s = (r1, s1)" by fastforce
  note m1 = models_written [OF persist_written [OF p], simplified, unfolded assms(2)]
  show ?thesis
  proof (rule persist_outcome [OF p])
    fix e assume "r1 = Inl e"
    with p assms(1) m1 show ?thesis by (auto simp: lifecycle_train_def persist_default_def bind_act_def)
  next
    fix a b assume r1: "r1 = Inr a" and a: "\<exists>t. a = dataset_artifact_of tw tm t ?pre DEFAULT_MIN_ELIGIBLE_ARTIFACT_COUNT DEFAULT_MIN_WINDOW_COUNT"
      and c1: "contents s1 = (contents s)(manifest_key_of ?pre ?id \<mapsto> Json (dataset_artifact_to_dict a), windows_key_of ?pre ?id \<mapsto> Bytes b)"
    have ids: "da_dataset_id a = ?id" "da_manifest_object_key a = manifest_key_of ?pre ?id"
      using a by (auto simp: dataset_artifact_of_def)
    have objs: "contents s1 (manifest_key_of ?pre ?id) = Some (Json (dataset_artifact_to_dict a))"
      "contents s1 (windows_key_of ?pre ?id) = Some (Bytes b)"
      using keys_differ [of ?pre ?id] by (simp_all add: c1)
    show ?thesis
    proof (cases "load_persisted_training_dataset_artifacts ops np (manifest_key_of ?pre ?id) None s1")
      case (Inl e)
      with p r1 assms(1) m1 show ?thesis
        by (auto simp: lifecycle_train_def persist_default_def train_and_save_lstm_fingerprint_from_persisted_dataset_def
            bind_act_def reading_def ids(2))
    next
      case (Inr wm)
      obtain ws m where wm: "wm = (ws, m)" by (cases wm)
      have id: "dm_dataset_id m = ?id"
        using loaded_dataset_id [OF Inr [unfolded wm] load_json [OF objs(1)]] ids(1) by simp
      obtain r2 s2 where t: "train_and_save_lstm_fingerprint ops np kr ws m 1 1 4 DEFAULT_MODEL_PREFIX now2 s1 = (r2, s2)"
        by fastforce
      have run: "lifecycle_train ops np kr tw tm st now1 now2 s =
          (case r2 of Inl e \<Rightarrow> (Inl e, s2) | Inr meta \<Rightarrow> (Inr (trained_stage st a meta, []), s2))"
        using p r1 t Inr wm by (simp add: lifecycle_train_def persist_default_def
            train_and_save_lstm_fingerprint_from_persisted_dataset_def bind_act_def reading_def ids(2) ret_def split: sum.split)
      show ?thesis
      proof (rule train_outcome [OF t])
        fix e assume "r2 = Inl e" "s2 = s1"
        with run assms(1) m1 show ?thesis by auto
      next
        fix f model assume r2: "r2 = Inr f" and f: "\<exists>h. f = model_artifact_of (op_bucket ops) ws m (isoformat now2) 1 1 DEFAULT_MODEL_PREFIX h"
          and c2: "contents s2 = (contents s1)(fm_model_object_key f \<mapsto> Bytes (export_model_bytes kr model),
            fm_metadata_object_key f \<mapsto> Json (model_artifact_to_dict f))"
        have P: "DEFAULT_MODEL_PREFIX = MODEL_METADATA_PREFIX" by (simp add: DEFAULT_MODEL_PREFIX_def MODEL_METADATA_PREFIX_def)
        obtain h where h: "f = model_artifact_of (op_bucket ops) ws m (isoformat now2) 1 1 DEFAULT_MODEL_PREFIX h"
          using f by (elim exE)
        have k: "fm_metadata_object_key f = MODEL_METADATA_PREFIX @ fm_model_id f @ ''.json''"
          "fm_model_object_key f = MODEL_METADATA_PREFIX @ fm_model_id f @ ''.keras''" "fm_source_dataset_id f = ?id"
          by (simp_all only: model_keys [OF h] id P)
        have "contents s2 key = contents s1 key" if "starts_with DATASET_PREFIX key" for key
          using that prefixes(1) [of key] by (auto simp: c2 k(1,2))
        then have "contents s2 (manifest_key_of ?pre ?id) = Some (Json (dataset_artifact_to_dict a))"
          "contents s2 (windows_key_of ?pre ?id) = Some (Bytes b)"
          using objs by (simp_all add: manifest_key_of_def windows_key_of_def)
        then have "model_complete kr (contents s2) (fm_metadata_object_key f)"
          unfolding model_complete_def
          by (intro exI [of _ f] exI [of _ model] exI [of _ "dataset_artifact_to_dict a"] exI [of _ b]) (simp add: c2 k)
        moreover have "models (contents s2) = {fm_metadata_object_key f}"
          using models_saved [of "contents s1" "fm_model_id f"] m1 by (simp add: c2 k)
        ultimately show ?thesis
          using run assms(1) r2 by (intro disjI2 exI [of _ "trained_stage st a f"] exI [of _ "fm_metadata_object_key f"])
            (simp add: trained_stage_def Let_def)
      qed
    qed
  qed
qed

end

lemma last_key_eq: "last_key ks = None \<longleftrightarrow> set ks = {}" "last_key ks = Some k \<Longrightarrow> k \<in> set ks"
  by (auto simp: last_key_def split: if_splits)

text \<open>One cycle, by the branch it takes.\<close>

lemma execute_cases:
  assumes "execute_deferred_fingerprint_lifecycle ops np kr cycle k threshold now1 now2 s = (r, s')"
  obtains (raised) e where "r = Inl e" "s' = s"
    | (entered) keys tw tm latest where "op_list_json_objects ops VALID_ARTIFACT_PREFIX s = Inr keys"
      "build_normal_training_windows ops k VALID_ARTIFACT_PREFIX s = Inr (tw, tm)"
      "latest_model_metadata_key ops s = Inr latest"
      "(case latest of
       None \<Rightarrow> if dm_eligible_record_count tm < threshold \<or> dm_window_count tm = 0
         then ret (deferred_stage (cycle_stage cycle keys tm threshold), [])
         else lifecycle_train ops np kr tw tm (cycle_stage cycle keys tm threshold) now1 now2
     | Some key \<Rightarrow> lifecycle_reuse ops np kr key k tw tm (cycle_stage cycle keys tm threshold) now1 now2) s = (r, s')"
proof (cases "op_list_json_objects ops VALID_ARTIFACT_PREFIX s")
  case (Inl e)
  with assms show ?thesis by (intro raised) (auto simp: execute_deferred_fingerprint_lifecycle_def act_simps)
next
  case (Inr keys)
  note keys = this
  show ?thesis
  proof (cases "build_normal_training_windows ops k VALID_ARTIFACT_PREFIX s")
    case (Inl e)
    with assms keys show ?thesis by (intro raised) (auto simp: execute_deferred_fingerprint_lifecycle_def act_simps)
  next
    case (Inr w)
    obtain tw tm where w: "w = (tw, tm)" by (cases w)
    show ?thesis
    proof (cases "latest_model_metadata_key ops s")
      case (Inl e)
      with assms keys Inr w show ?thesis by (intro raised) (auto simp: execute_deferred_fingerprint_lifecycle_def act_simps)
    next
      case (Inr latest)
      with assms keys \<open>build_normal_training_windows ops k VALID_ARTIFACT_PREFIX s = Inr w\<close> w show ?thesis
        by (intro entered [of keys tw tm latest]) (simp_all add: execute_deferred_fingerprint_lifecycle_def act_simps Let_def)
    qed
  qed
qed

context artifact_store
begin

lemma latest_model:
  assumes "latest_model_metadata_key ops s = Inr latest"
  shows "latest = None \<longleftrightarrow> models (contents s) = {}" "latest = Some key \<Longrightarrow> key \<in> models (contents s)"
proof -
  have "ends_with ''/'' MODEL_METADATA_PREFIX" by (simp add: ends_with_def MODEL_METADATA_PREFIX_def)
  then obtain ks where "op_list_json_objects ops MODEL_METADATA_PREFIX s = Inr ks" "set ks = models (contents s)"
    using list_json by blast
  with assms show "latest = None \<longleftrightarrow> models (contents s) = {}" "latest = Some key \<Longrightarrow> key \<in> models (contents s)"
    using last_key_eq by (auto simp: latest_model_metadata_key_def)
qed

text \<open>The reuse branch writes datasets only and never trains.\<close>

lemma lifecycle_reuse_writes:
  assumes "lifecycle_reuse ops np kr key k tw tm st now1 now2 s = (r, s')"
  obtains c i j where "dataset_written (contents s) c i" "starts_with DATASET_PREFIX i" "starts_with DATASET_PREFIX j"
    "contents s' = c \<or> dataset_written c (contents s') j"
    "\<And>stage results. r = Inr (stage, results) \<Longrightarrow> ls_training_events stage = [''reused''] \<and> ls_model_metadata_object_key stage = Some key"
proof -
  let ?i = "DATASET_PREFIX @ dm_dataset_id tm"
  obtain r1 s1 where p: "persist_training_dataset_artifacts ops np tw tm None now1 DATASET_PREFIX
      DEFAULT_MIN_ELIGIBLE_ARTIFACT_COUNT DEFAULT_MIN_WINDOW_COUNT s = (r1, s1)" by fastforce
  note w1 = persist_written [OF p]
  show ?thesis
  proof (cases r1)
    case (Inl e)
    with assms p show ?thesis
      by (intro that [OF w1, of ?i]) (auto simp: lifecycle_reuse_def persist_default_def bind_act_def)
  next
    case (Inr td)
    note td = this
    show ?thesis
    proof (cases "build_evaluation_windows ops k VALID_ARTIFACT_PREFIX s1")
      case (Inl e)
      with assms p td show ?thesis
        by (intro that [OF w1, of ?i]) (auto simp: lifecycle_reuse_def persist_default_def bind_act_def reading_def)
    next
      case (Inr w)
      obtain ew em where w: "w = (ew, em)" by (cases w)
      obtain r2 s2 where q: "persist_training_dataset_artifacts ops np ew em None now2 (DATASET_PREFIX @ ''evaluation/'')
          DEFAULT_MIN_ELIGIBLE_ARTIFACT_COUNT DEFAULT_MIN_WINDOW_COUNT s1 = (r2, s2)" by fastforce
      have s2: "s' = s2"
        using assms p td Inr w q by (cases r2) (auto simp: lifecycle_reuse_def persist_default_def bind_act_def reading_def
          ret_def split: if_splits sum.splits)
      have "ls_training_events stage = [''reused''] \<and> ls_model_metadata_object_key stage = Some key"
        if "r = Inr (stage, results)" for stage results
        using assms p td Inr w q that by (cases r2) (auto simp: lifecycle_reuse_def persist_default_def bind_act_def reading_def
          ret_def no_windows_stage_def completed_stage_def Let_def split: if_splits sum.splits)
      then show ?thesis
        using persist_written [OF q] by (intro that [OF w1, of "(DATASET_PREFIX @ ''evaluation/'') @ dm_dataset_id em"])
          (auto simp: s2)
    qed
  qed
qed

lemma reuse_registry:
  assumes "lifecycle_reuse ops np kr key k tw tm st now1 now2 s = (r, s')"
  shows "models (contents s') = models (contents s)"
    "\<not> starts_with DATASET_PREFIX k' \<Longrightarrow> contents s' k' = contents s k'"
    "model_complete kr (contents s) m \<Longrightarrow> model_complete kr (contents s') m"
proof -
  obtain c i j where w: "dataset_written (contents s) c i" "starts_with DATASET_PREFIX i" "starts_with DATASET_PREFIX j"
    "contents s' = c \<or> dataset_written c (contents s') j"
    by (rule lifecycle_reuse_writes [OF assms])
  show "models (contents s') = models (contents s)" using w models_written by metis
  show "\<not> starts_with DATASET_PREFIX k' \<Longrightarrow> contents s' k' = contents s k'" using w written_elsewhere by metis
  show "model_complete kr (contents s) m \<Longrightarrow> model_complete kr (contents s') m" using w model_complete_dataset by metis
qed

end

section \<open>Runs\<close>

text \<open>
  The life of a store: artifacts arrive, and cycles of the lifecycle run, whatever they
  return and whenever the clock is read.
\<close>

inductive fingerprint_run ::
  "'s store_ops \<Rightarrow> numpy option \<Rightarrow> 'm keras \<Rightarrow> int \<Rightarrow> int \<Rightarrow> 's \<Rightarrow> 's \<Rightarrow> bool" for ops np kr k threshold s where
  start: "fingerprint_run ops np kr k threshold s s"
| artifact: "fingerprint_run ops np kr k threshold s t \<Longrightarrow>
    op_save_json ops (VALID_ARTIFACT_PREFIX @ name) v t = Inr u \<Longrightarrow> fingerprint_run ops np kr k threshold s u"
| cycle: "fingerprint_run ops np kr k threshold s t \<Longrightarrow>
    execute_deferred_fingerprint_lifecycle ops np kr cycle k threshold now1 now2 t = (r, u) \<Longrightarrow>
    fingerprint_run ops np kr k threshold s u"

context artifact_store
begin

lemma artifact_elsewhere:
  assumes "op_save_json ops (VALID_ARTIFACT_PREFIX @ name) v t = Inr u" "\<not> starts_with VALID_ARTIFACT_PREFIX k"
  shows "contents u k = contents t k"
  using assms save_json [of "VALID_ARTIFACT_PREFIX @ name" v t] by auto

lemma model_complete_cong:
  assumes "model_complete kr c key"
    and "\<And>k. starts_with MODEL_METADATA_PREFIX k \<Longrightarrow> c' k = c k" "\<And>k. starts_with DATASET_PREFIX k \<Longrightarrow> c' k = c k"
  shows "model_complete kr c' key"
  using assms unfolding model_complete_def by (metis manifest_key_of_def starts_with_append windows_key_of_def)

text \<open>What one step does to the registry.\<close>

lemma cycle_registry:
  assumes "execute_deferred_fingerprint_lifecycle ops np kr cycle k threshold now1 now2 s = (r, s')"
  shows "models (contents s) = {} \<and> ((models (contents s') = {} \<and>
        (\<forall>stage results. r = Inr (stage, results) \<longrightarrow> s' = s \<and> ls_training_events stage = [''deferred''] \<and> results = [])) \<or>
      (\<exists>stage key. r = Inr (stage, []) \<and> ls_model_metadata_object_key stage = Some key \<and> models (contents s') = {key} \<and>
        model_complete kr (contents s') key)) \<or>
    models (contents s) \<noteq> {} \<and> models (contents s') = models (contents s) \<and>
      (\<forall>key. starts_with MODEL_METADATA_PREFIX key \<longrightarrow> contents s' key = contents s key) \<and>
      (\<forall>key. model_complete kr (contents s) key \<longrightarrow> model_complete kr (contents s') key) \<and>
      (\<forall>stage results. r = Inr (stage, results) \<longrightarrow> ls_training_events stage = [''reused''])"
proof (rule execute_cases [OF assms])
  fix e assume "r = Inl e" "s' = s"
  then show ?thesis by simp
next
  fix keys tw tm latest
  assume l: "latest_model_metadata_key ops s = Inr latest"
    and run: "(case latest of
       None \<Rightarrow> if dm_eligible_record_count tm < threshold \<or> dm_window_count tm = 0
         then ret (deferred_stage (cycle_stage cycle keys tm threshold), [])
         else lifecycle_train ops np kr tw tm (cycle_stage cycle keys tm threshold) now1 now2
     | Some key \<Rightarrow> lifecycle_reuse ops np kr key k tw tm (cycle_stage cycle keys tm threshold) now1 now2) s = (r, s')"
  show ?thesis
  proof (cases latest)
    case None
    with l have m: "models (contents s) = {}" using latest_model(1) by blast
    show ?thesis
    proof (cases "dm_eligible_record_count tm < threshold \<or> dm_window_count tm = 0")
      case True
      with run None m show ?thesis by (auto simp: ret_def deferred_stage_def)
    next
      case False
      with run None have "lifecycle_train ops np kr tw tm (cycle_stage cycle keys tm threshold) now1 now2 s = (r, s')" by simp
      from lifecycle_train_registry [OF this m] m show ?thesis by blast
    qed
  next
    case (Some key)
    with l have m: "models (contents s) \<noteq> {}" using latest_model(1) by blast
    from run Some have u: "lifecycle_reuse ops np kr key k tw tm (cycle_stage cycle keys tm threshold) now1 now2 s = (r, s')" by simp
    have "\<And>stage results. r = Inr (stage, results) \<Longrightarrow> ls_training_events stage = [''reused'']"
      using lifecycle_reuse_writes [OF u] by metis
    then show ?thesis using m reuse_registry [OF u] prefixes(1) by (intro disjI2 conjI) auto
  qed
qed

lemma run_registry:
  assumes "fingerprint_run ops np kr k threshold s t" "models (contents s) = {}"
  shows "models (contents t) = {} \<or> (\<exists>key. models (contents t) = {key} \<and> model_complete kr (contents t) key)"
  using assms(1)
proof induction
  case start
  show ?case using assms(2) by simp
next
  case (artifact t name v u)
  have c: "contents u key = contents t key" if "starts_with MODEL_METADATA_PREFIX key \<or> starts_with DATASET_PREFIX key" for key
    using artifact_elsewhere [OF artifact.hyps(2)] that prefixes by blast
  then have "models (contents u) = models (contents t)" by (intro models_cong) simp
  with artifact.IH c show ?case using model_complete_cong [of kr "contents t" _ "contents u"] by (metis (full_types))
next
  case (cycle t cycle now1 now2 r u)
  from cycle.IH cycle_registry [OF cycle.hyps(2)] show ?case by (elim disjE exE conjE) auto
qed

lemma run_keeps_model:
  assumes "fingerprint_run ops np kr k threshold s t" "models (contents s) \<noteq> {}"
  shows "models (contents t) = models (contents s)"
    "starts_with MODEL_METADATA_PREFIX key \<Longrightarrow> contents t key = contents s key"
proof -
  have "models (contents t) = models (contents s) \<and>
      (\<forall>key. starts_with MODEL_METADATA_PREFIX key \<longrightarrow> contents t key = contents s key)"
    using assms(1)
  proof induction
    case start
    show ?case by simp
  next
    case (artifact t name v u)
    have c: "contents u key = contents t key" if "starts_with MODEL_METADATA_PREFIX key" for key
      using artifact_elsewhere [OF artifact.hyps(2)] that prefixes by blast
    with artifact.IH show ?case using models_cong [of "contents u" "contents t"] by simp
  next
    case (cycle t cycle now1 now2 r u)
    from cycle.IH assms(2) cycle_registry [OF cycle.hyps(2)] show ?case by auto
  qed
  then show "models (contents t) = models (contents s)"
    "starts_with MODEL_METADATA_PREFIX key \<Longrightarrow> contents t key = contents s key" by blast+
qed

end

section \<open>Completion\<close>

definition keras_fits :: "'m keras \<Rightarrow> bool" where
  "keras_fits kr = (\<forall>net t epochs batch. \<exists>model h. kr_fit kr net t epochs batch = Inr (model, h))"

lemma dataset_stored_elsewhere:
  assumes "dataset_stored x c pre ws m a" "pre' @ ident \<noteq> pre @ dm_dataset_id m"
  shows "dataset_stored x (c(manifest_key_of pre' ident \<mapsto> v, windows_key_of pre' ident \<mapsto> b)) pre ws m a"
proof -
  have "manifest_key_of pre (dm_dataset_id m) \<notin> {manifest_key_of pre' ident, windows_key_of pre' ident}"
    "windows_key_of pre (dm_dataset_id m) \<notin> {manifest_key_of pre' ident, windows_key_of pre' ident}"
    using assms(2) suffix_differ [of "pre @ dm_dataset_id m" "pre' @ ident"] suffix_differ [of "pre' @ ident" "pre @ dm_dataset_id m"]
    by (auto simp: manifest_key_of_def windows_key_of_def simp flip: append_assoc)
  with assms(1) show ?thesis by (simp add: dataset_stored_def)
qed

lemma dataset_stored_here:
  assumes "dataset_shaped ws m" "a = dataset_artifact_of ws m t pre e w"
  shows "dataset_stored x (c(manifest_key_of pre (dm_dataset_id m) \<mapsto> Json (dataset_artifact_to_dict a),
    windows_key_of pre (dm_dataset_id m) \<mapsto> Bytes (np_savez x (archive_of x ws m)))) pre ws m a"
  using assms keys_differ by (auto simp: dataset_stored_def)

text \<open>A model stays ready when a dataset is persisted, unless it replaces its source by another shape.\<close>

lemma model_ready_kept:
  assumes "model_ready x kr c key schema k sid" "dataset_shaped ws m" "a = dataset_artifact_of ws m t pre e w"
    "starts_with DATASET_PREFIX pre"
    "pre @ dm_dataset_id m \<noteq> DATASET_PREFIX @ sid \<or> pre = DATASET_PREFIX \<and> dm_feature_schema m = schema \<and> dm_sequence_length m = k \<and> ws \<noteq> []"
  shows "model_ready x kr (c(manifest_key_of pre (dm_dataset_id m) \<mapsto> Json (dataset_artifact_to_dict a),
    windows_key_of pre (dm_dataset_id m) \<mapsto> Bytes (np_savez x (archive_of x ws m)))) key schema k sid" (is "model_ready x kr ?c key schema k sid")
proof -
  obtain f model sw sm da where r: "c key = Some (Json (model_artifact_to_dict f))"
     "starts_with DEFAULT_MODEL_PREFIX key" "starts_with DEFAULT_MODEL_PREFIX (fm_model_object_key f)"
     "c (fm_model_object_key f) = Some (Bytes (export_model_bytes kr model))" "fm_feature_schema f = schema"
     "fm_sequence_length f = k" "fm_source_dataset_id f = sid" "dm_dataset_id sm = sid"
     "dataset_stored x c DATASET_PREFIX sw sm da" "dm_feature_schema sm = schema" "dm_sequence_length sm = k" "sw \<noteq> []"
    using assms(1) by (auto simp: model_ready_def)
  have P: "DEFAULT_MODEL_PREFIX = MODEL_METADATA_PREFIX" by (simp add: DEFAULT_MODEL_PREFIX_def MODEL_METADATA_PREFIX_def)
  have same: "?c o' = c o'" if "starts_with DEFAULT_MODEL_PREFIX o'" for o'
  proof -
    have "starts_with DATASET_PREFIX (pre @ u)" for u using starts_with_trans [OF assms(4)] by simp
    then have "o' \<noteq> pre @ u" for u using prefixes(1) [OF that [unfolded P]] by auto
    then show ?thesis by (simp add: manifest_key_of_def windows_key_of_def)
  qed
  have ds: "\<exists>sw sm da. dm_dataset_id sm = sid \<and> dataset_stored x ?c DATASET_PREFIX sw sm da \<and> dm_feature_schema sm = schema \<and>
      dm_sequence_length sm = k \<and> sw \<noteq> []"
  proof (cases "pre @ dm_dataset_id m = DATASET_PREFIX @ sid")
    case True
    with assms(5) have pre: "DATASET_PREFIX = pre" and m: "dm_dataset_id m = sid" "dm_feature_schema m = schema"
        "dm_sequence_length m = k" "ws \<noteq> []"
      by auto
    have "dataset_stored x ?c DATASET_PREFIX ws m a" unfolding pre by (rule dataset_stored_here [OF assms(2,3)])
    with m show ?thesis by (intro exI [of _ ws] exI [of _ m] exI [of _ a] conjI)
  next
    case False
    then have "dataset_stored x ?c DATASET_PREFIX sw sm da"
      by (intro dataset_stored_elsewhere [OF r(9)]) (simp add: r(8))
    with r show ?thesis by blast
  qed
  then show ?thesis
    unfolding model_ready_def using r(2,3,5,6,7) r(1,4) [folded same [OF r(2)] same [OF r(3)]] by blast
qed

context artifact_store
begin

lemma build_windows_cong:
  assumes "build_windows_from_artifacts ops k p eligibility label s = Inr r" "ends_with ''/'' p"
    and "\<And>key. starts_with p key \<Longrightarrow> contents t key = contents s key"
  shows "build_windows_from_artifacts ops k p eligibility label t = Inr r"
proof -
  have list: "op_list_json_objects ops p t = op_list_json_objects ops p s"
    by (rule list_json_cong [OF assms(2)]) (simp add: assms(3))
  have scan: "scan_artifacts ops eligibility s keys st = Inr y \<Longrightarrow> (\<And>key. key \<in> set keys \<Longrightarrow> contents t key = contents s key) \<Longrightarrow>
      scan_artifacts ops eligibility t keys st = Inr y" for keys st y
  proof (induction keys arbitrary: st)
    case (Cons key keys)
    then obtain v where "op_load_json ops key s = Inr v" by (auto simp: attempt_eq_Inr)
    moreover from this have "op_load_json ops key t = Inr v" using Cons.prems(2) [of key] by (simp add: load_json_iff)
    ultimately show ?case using Cons by (auto simp: attempt_eq_Inr)
  qed simp
  obtain ks where ks: "op_list_json_objects ops p s = Inr ks" "set ks = json_under p (contents s)"
    using list_json [OF assms(2)] by blast
  then have "contents t key = contents s key" if "key \<in> set ks" for key
    using that assms(3) by (auto simp: json_under_def)
  with assms(1) scan [of ks] show ?thesis
    by (auto simp: build_windows_from_artifacts_def list ks(1) attempt_eq_Inr split: if_splits list.splits)
qed

lemma lifecycle_train_completes:
  assumes "numpy_documented x" "keras_ready kr" "keras_fits kr" "dataset_shaped tw tm" "tw \<noteq> []"
  obtains stage key s' where "lifecycle_train ops (Some x) kr tw tm st now1 now2 s = (Inr (stage, []), s')"
    "model_ready x kr (contents s') key (dm_feature_schema tm) (dm_sequence_length tm) (dm_dataset_id tm)"
    "ls_training_events stage = [''started'', ''completed'']" "ls_inference_status stage = ''skipped_until_next_cycle''"
    "ls_model_metadata_object_key stage = Some key"
proof -
  let ?k = "nat (dm_sequence_length tm)" and ?schema = "dm_feature_schema tm" and ?ws = "map (float32_window x) tw"
  obtain a s1 where p: "persist_default ops (Some x) tw tm now1 DATASET_PREFIX s = (Inr a, s1)"
      "da_manifest_object_key a = manifest_key_of DATASET_PREFIX (dm_dataset_id tm)"
      "dataset_stored x (contents s1) DATASET_PREFIX tw tm a"
    using persist_dataset [OF assms(4)] dataset_stored_here [OF assms(4)] unfolding persist_default_def
    by (metis dataset_artifact_of_def dataset_artifact.simps(5))
  have load: "load_persisted_training_dataset_artifacts ops (Some x) (da_manifest_object_key a) None s1 = Inr (?ws, loaded_manifest tm)"
    unfolding p(2) by (rule load_dataset [OF p(3) assms(1)])
  have shaped: "list_all (window_shaped ?schema ?k) ?ws" "0 < ?k" using stored_shape [OF p(3)] by simp_all
  have hd: "tw_feature_schema (hd ?ws) = ?schema" "length (tw_feature_matrix (hd ?ws)) = ?k"
    using shaped(1) assms(5) by (cases tw; simp add: window_shaped_def)+
  obtain sh t where tensor: "tensor_of (np_float32 x) (map tw_feature_matrix ?ws) = Inr (sh, t)"
    using tensor_shaped [OF shaped(1) _ shaped(2)] assms(5) by blast
  obtain model h where fit: "kr_fit kr (build_lstm_autoencoder ?k (length ?schema) 4) t 1 1 = Inr (model, h)"
    using assms(3) unfolding keras_fits_def by blast
  define f where "f = model_artifact_of (op_bucket ops) ?ws (loaded_manifest tm) (isoformat now2) 1 1 DEFAULT_MODEL_PREFIX h"
  obtain s2 where s2: "op_save_bytes ops (fm_model_object_key f) (export_model_bytes kr model) s1 = Inr s2"
    "contents s2 = (contents s1)(fm_model_object_key f \<mapsto> Bytes (export_model_bytes kr model))" using save_bytes by blast
  obtain s3 where s3: "op_save_json ops (fm_metadata_object_key f) (model_artifact_to_dict f) s2 = Inr s3"
    "contents s3 = (contents s2)(fm_metadata_object_key f \<mapsto> Json (model_artifact_to_dict f))" using save_json by blast
  have "train_and_save_lstm_fingerprint ops (Some x) kr ?ws (loaded_manifest tm) 1 1 4 DEFAULT_MODEL_PREFIX now2 s1 = (Inr f, s3)"
    using assms(2,5) unfolding train_and_save_lstm_fingerprint_def bind_reading
    by (simp add: Let_def hd check_shaped [OF shaped(1)] import_numpy_def tensor fit act_simps s2(1) s3(1) f_def [symmetric]
        del: map_map)
  then have train: "train_and_save_lstm_fingerprint_from_persisted_dataset ops (Some x) kr (da_manifest_object_key a) None 1 1 4
      DEFAULT_MODEL_PREFIX now2 s1 = (Inr f, s3)"
    by (simp add: train_and_save_lstm_fingerprint_from_persisted_dataset_def bind_reading load)
  have run: "lifecycle_train ops (Some x) kr tw tm st now1 now2 s = (Inr (trained_stage st a f, []), s3)"
    using p(1) train by (simp add: lifecycle_train_def bind_act_def ret_app)
  have k: "fm_metadata_object_key f = DEFAULT_MODEL_PREFIX @ fm_model_id f @ ''.json''"
    "fm_model_object_key f = DEFAULT_MODEL_PREFIX @ fm_model_id f @ ''.keras''" "fm_source_dataset_id f = dm_dataset_id tm"
    "fm_feature_schema f = ?schema" "fm_sequence_length f = dm_sequence_length tm"
    using hd shaped(2) by (simp_all add: f_def model_artifact_of_def Let_def loaded_manifest_def)
  have P: "DEFAULT_MODEL_PREFIX = MODEL_METADATA_PREFIX" by (simp add: DEFAULT_MODEL_PREFIX_def MODEL_METADATA_PREFIX_def)
  have "contents s3 key = contents s1 key" if "starts_with DATASET_PREFIX key" for key
    using that prefixes(1) [of key] by (auto simp: s3(2) s2(2) k(1,2) P)
  then have "dataset_stored x (contents s3) DATASET_PREFIX tw tm a"
    using p(3) by (simp add: dataset_stored_def manifest_key_of_def windows_key_of_def)
  then have "model_ready x kr (contents s3) (fm_metadata_object_key f) ?schema (dm_sequence_length tm) (dm_dataset_id tm)"
    unfolding model_ready_def using assms(5)
    by (intro exI [of _ f] exI [of _ model] exI [of _ tw] exI [of _ tm] exI [of _ a]) (simp add: k s3(2) s2(2))
  then show ?thesis
    by (intro that [OF run, of "fm_metadata_object_key f"]) (simp_all add: trained_stage_def cycle_stage_def Let_def)
qed

lemma lifecycle_reuse_completes:
  assumes "numpy_documented x" "keras_documented kr" "scores_documented x kr" "keras_ready kr"
    and "model_ready x kr (contents s) key schema k sid" "starts_with ''training-dataset::'' sid"
    and "dataset_shaped tw tm" "tw \<noteq> []" "dm_feature_schema tm = schema" "dm_sequence_length tm = k"
    and "build_evaluation_windows ops k VALID_ARTIFACT_PREFIX s = Inr (ew, em)"
    and "dataset_shaped ew em" "ew \<noteq> []" "dm_feature_schema em = schema" "dm_sequence_length em = k"
  obtains stage results s' where "lifecycle_reuse ops (Some x) kr key k tw tm st now1 now2 s = (Inr (stage, results), s')"
    "length results = length ew" "ls_inference_status stage = ''completed''" "ls_training_events stage = [''reused'']"
    "ls_inference_result_count stage = int (length ew)" "ls_model_metadata_object_key stage = Some key"
    "model_ready x kr (contents s') key schema k sid"
proof -
  let ?e = "DATASET_PREFIX @ ''evaluation/''"
  obtain s1 a where p: "persist_default ops (Some x) tw tm now1 DATASET_PREFIX s = (Inr a, s1)"
      "a = dataset_artifact_of tw tm (isoformat now1) DATASET_PREFIX DEFAULT_MIN_ELIGIBLE_ARTIFACT_COUNT DEFAULT_MIN_WINDOW_COUNT"
      "contents s1 = (contents s)(manifest_key_of DATASET_PREFIX (dm_dataset_id tm) \<mapsto> Json (dataset_artifact_to_dict a),
        windows_key_of DATASET_PREFIX (dm_dataset_id tm) \<mapsto> Bytes (np_savez x (archive_of x tw tm)))"
    by (rule persist_dataset [OF assms(7), where created_at = None and now = now1 and s = s and x = x]) (auto simp: persist_default_def)
  have pre: "starts_with DATASET_PREFIX DATASET_PREFIX" "starts_with DATASET_PREFIX ?e" by (simp_all add: starts_with_def)
  have m1: "model_ready x kr (contents s1) key schema k sid"
    unfolding p(3) by (rule model_ready_kept [OF assms(5,7) p(2) pre(1)]) (use assms in auto)
  have V: "ends_with ''/'' VALID_ARTIFACT_PREFIX" by (simp add: ends_with_def VALID_ARTIFACT_PREFIX_def)
  have "contents s1 o' = contents s o'" if "starts_with VALID_ARTIFACT_PREFIX o'" for o'
    using written_elsewhere [OF persist_written [OF p(1) [unfolded persist_default_def]] _ prefixes(2) [OF that]] by simp
  then have ev: "build_evaluation_windows ops k VALID_ARTIFACT_PREFIX s1 = Inr (ew, em)"
    unfolding build_evaluation_windows_def
    by (rule build_windows_cong [OF assms(11) [unfolded build_evaluation_windows_def] V])
  obtain s2 b where q: "persist_default ops (Some x) ew em now2 ?e s1 = (Inr b, s2)"
      "b = dataset_artifact_of ew em (isoformat now2) ?e DEFAULT_MIN_ELIGIBLE_ARTIFACT_COUNT DEFAULT_MIN_WINDOW_COUNT"
      "contents s2 = (contents s1)(manifest_key_of ?e (dm_dataset_id em) \<mapsto> Json (dataset_artifact_to_dict b),
        windows_key_of ?e (dm_dataset_id em) \<mapsto> Bytes (np_savez x (archive_of x ew em)))"
    by (rule persist_dataset [OF assms(12), where created_at = None and now = now2 and s = s1 and x = x]) (auto simp: persist_default_def)
  have "?e @ dm_dataset_id em \<noteq> DATASET_PREFIX @ sid" using assms(6) by (auto simp: starts_with_def)
  then have m2: "model_ready x kr (contents s2) key schema k sid"
    unfolding q(3) by (intro model_ready_kept [OF m1 assms(12) q(2) pre(2)]) simp
  have ds: "dataset_stored x (contents s2) ?e ew em b"
    unfolding q(3) by (rule dataset_stored_here [OF assms(12) q(2)])
  obtain results where r: "run_lstm_fingerprint_inference_from_persisted_dataset ops (Some x) kr key
      (manifest_key_of ?e (dm_dataset_id em)) None DEFAULT_THRESHOLD_STDDEV_MULTIPLIER DEFAULT_MINIMUM_ANOMALY_THRESHOLD s2 = Inr results"
    "length results = length ew"
    by (rule inference_completes [OF assms(1-4) m2 ds assms(14,15,13)])
  have "da_manifest_object_key b = manifest_key_of ?e (dm_dataset_id em)" by (simp add: q(2) dataset_artifact_of_def)
  then have "lifecycle_reuse ops (Some x) kr key k tw tm st now1 now2 s = (Inr (completed_stage st b key results, results), s2)"
    using p(1) q(1) ev r(1) assms(13) by (simp add: lifecycle_reuse_def bind_act_def reading_def ret_def)
  then show ?thesis
    by (rule that) (simp_all add: r(2) completed_stage_def m2)
qed

end

lemma built_facts:
  assumes "build_normal_training_windows ops k pre s = Inr (ws, m) \<or> build_evaluation_windows ops k pre s = Inr (ws, m)"
  shows "dm_sequence_length m = k" "dm_window_count m = int (length ws)" "starts_with ''training-dataset::'' (dm_dataset_id m)"
proof -
  obtain eligibility label where b: "build_windows_from_artifacts ops k pre eligibility label s = Inr (ws, m)"
    using assms by (auto simp: build_normal_training_windows_def build_evaluation_windows_def)
  have "starts_with ''training-dataset::'' (build_dataset_id recs k)" for recs
    by (simp add: build_dataset_id_def starts_with_def)
  then show "dm_sequence_length m = k" "dm_window_count m = int (length ws)" "starts_with ''training-dataset::'' (dm_dataset_id m)"
    using build_windows_spec [OF b] by metis+
qed

text \<open>
  A store whose artifacts give training and evaluation windows of the shape a model was
  trained on; and the life of a store in which every cycle meets such a store, while between
  the cycles artifacts arrive, change or go.
\<close>

definition keeps_shape :: "'s store_ops \<Rightarrow> int \<Rightarrow> string list \<Rightarrow> 's \<Rightarrow> training_window list \<Rightarrow> bool" where
  "keeps_shape ops k schema s ew = (\<exists>tw tm em. build_normal_training_windows ops k VALID_ARTIFACT_PREFIX s = Inr (tw, tm) \<and>
     build_evaluation_windows ops k VALID_ARTIFACT_PREFIX s = Inr (ew, em) \<and>
     dataset_shaped tw tm \<and> tw \<noteq> [] \<and> dm_feature_schema tm = schema \<and>
     dataset_shaped ew em \<and> ew \<noteq> [] \<and> dm_feature_schema em = schema)"

inductive detection_run :: "('s \<Rightarrow> string \<Rightarrow> blob option) \<Rightarrow> 's store_ops \<Rightarrow> numpy option \<Rightarrow> 'm keras \<Rightarrow> int \<Rightarrow> int \<Rightarrow>
    string list \<Rightarrow> 's \<Rightarrow> 's \<Rightarrow> bool" for contents ops np kr k threshold schema s where
  start: "detection_run contents ops np kr k threshold schema s s"
| artifacts: "detection_run contents ops np kr k threshold schema s t \<Longrightarrow>
    \<forall>key. \<not> starts_with VALID_ARTIFACT_PREFIX key \<longrightarrow> contents u key = contents t key \<Longrightarrow>
    detection_run contents ops np kr k threshold schema s u"
| cycle: "detection_run contents ops np kr k threshold schema s t \<Longrightarrow> keeps_shape ops k schema t ew \<Longrightarrow>
    execute_deferred_fingerprint_lifecycle ops np kr cycle k threshold now1 now2 t = (r, u) \<Longrightarrow>
    detection_run contents ops np kr k threshold schema s u"

context artifact_store
begin

lemma execute_enter:
  assumes "build_normal_training_windows ops k VALID_ARTIFACT_PREFIX s = Inr (tw, tm)"
  obtains keys latest where "latest_model_metadata_key ops s = Inr latest"
    "execute_deferred_fingerprint_lifecycle ops np kr cycle k threshold now1 now2 s = (case latest of
       None \<Rightarrow> if dm_eligible_record_count tm < threshold \<or> dm_window_count tm = 0
         then ret (deferred_stage (cycle_stage cycle keys tm threshold), [])
         else lifecycle_train ops np kr tw tm (cycle_stage cycle keys tm threshold) now1 now2
     | Some key \<Rightarrow> lifecycle_reuse ops np kr key k tw tm (cycle_stage cycle keys tm threshold) now1 now2) s"
proof -
  have "ends_with ''/'' VALID_ARTIFACT_PREFIX" "ends_with ''/'' MODEL_METADATA_PREFIX"
    by (simp_all add: ends_with_def VALID_ARTIFACT_PREFIX_def MODEL_METADATA_PREFIX_def)
  then obtain keys ks where "op_list_json_objects ops VALID_ARTIFACT_PREFIX s = Inr keys"
    "op_list_json_objects ops MODEL_METADATA_PREFIX s = Inr ks"
    using list_json by blast
  then show ?thesis
    by (intro that [of "last_key ks" keys])
      (simp_all add: assms latest_model_metadata_key_def execute_deferred_fingerprint_lifecycle_def bind_reading Let_def)
qed

lemma train_then_detect:
  assumes "numpy_documented x" "keras_documented kr" "scores_documented x kr" "keras_ready kr" "keras_fits kr"
    and "models (contents s) = {}" "build_normal_training_windows ops k VALID_ARTIFACT_PREFIX s = Inr (tw, tm)"
    and "threshold \<le> dm_eligible_record_count tm" "dataset_shaped tw tm" "tw \<noteq> []"
  obtains stage key s1 where "execute_deferred_fingerprint_lifecycle ops (Some x) kr cycle k threshold now1 now2 s = (Inr (stage, []), s1)"
    "ls_training_events stage = [''started'', ''completed'']" "ls_inference_status stage = ''skipped_until_next_cycle''"
    "ls_model_metadata_object_key stage = Some key" "models (contents s1) = {key}"
    "model_ready x kr (contents s1) key (dm_feature_schema tm) k (dm_dataset_id tm)"
proof -
  note facts = built_facts [OF disjI1, OF assms(7)]
  obtain keys latest where l: "latest_model_metadata_key ops s = Inr latest"
    "execute_deferred_fingerprint_lifecycle ops (Some x) kr cycle k threshold now1 now2 s = (case latest of
       None \<Rightarrow> if dm_eligible_record_count tm < threshold \<or> dm_window_count tm = 0
         then ret (deferred_stage (cycle_stage cycle keys tm threshold), [])
         else lifecycle_train ops (Some x) kr tw tm (cycle_stage cycle keys tm threshold) now1 now2
     | Some key \<Rightarrow> lifecycle_reuse ops (Some x) kr key k tw tm (cycle_stage cycle keys tm threshold) now1 now2) s"
    by (rule execute_enter [OF assms(7)])
  have none: "latest = None" using latest_model(1) [OF l(1)] assms(6) by simp
  obtain stage key s1 where t: "lifecycle_train ops (Some x) kr tw tm (cycle_stage cycle keys tm threshold) now1 now2 s = (Inr (stage, []), s1)"
    "model_ready x kr (contents s1) key (dm_feature_schema tm) (dm_sequence_length tm) (dm_dataset_id tm)"
    "ls_training_events stage = [''started'', ''completed'']" "ls_inference_status stage = ''skipped_until_next_cycle''"
    "ls_model_metadata_object_key stage = Some key"
    by (rule lifecycle_train_completes [OF assms(1,4,5,9,10)])
  have "models (contents s1) = {key}" using lifecycle_train_registry [OF t(1) assms(6)] t(5) by auto
  moreover have "execute_deferred_fingerprint_lifecycle ops (Some x) kr cycle k threshold now1 now2 s = (Inr (stage, []), s1)"
    using assms(8,10) by (simp add: l(2) none t(1) facts(2))
  ultimately show ?thesis using t facts(1) by (intro that) auto
qed

text \<open>No cycle touches an artifact.\<close>

lemma lifecycle_confined:
  defines "K \<equiv> {k. starts_with DATASET_PREFIX k} \<union> {k. starts_with MODEL_METADATA_PREFIX k}"
  shows "confined contents K (lifecycle_train ops np kr tw tm st now1 now2)"
    "confined contents K (lifecycle_reuse ops np kr key k tw tm st now1 now2)"
    "confined contents K (execute_deferred_fingerprint_lifecycle ops np kr cycle k threshold now1 now2)"
proof -
  have d: "confined contents K (persist_default ops np ws m now pre)" if "starts_with DATASET_PREFIX pre" for ws m now pre
    unfolding persist_default_def K_def by (rule confined_mono [OF confined_persist]) (use that starts_with_trans in blast)
  have m: "confined contents K (train_and_save_lstm_fingerprint ops np kr ws m 1 1 4 DEFAULT_MODEL_PREFIX now)" for ws m now
    unfolding K_def by (rule confined_mono [OF confined_train]) (auto simp: DEFAULT_MODEL_PREFIX_def MODEL_METADATA_PREFIX_def)
  have pre: "starts_with DATASET_PREFIX DATASET_PREFIX" "starts_with DATASET_PREFIX (DATASET_PREFIX @ ''evaluation/'')"
    by (simp_all add: starts_with_def)
  have train: "confined contents K (lifecycle_train ops np kr tw tm st now1 now2)" for tw tm st
    unfolding lifecycle_train_def train_and_save_lstm_fingerprint_from_persisted_dataset_def
    by (intro confined_intros d pre m)
  have reuse: "confined contents K (lifecycle_reuse ops np kr key k tw tm st now1 now2)" for key tw tm st
    unfolding lifecycle_reuse_def
    by (intro confined_intros d pre)
  show "confined contents K (execute_deferred_fingerprint_lifecycle ops np kr cycle k threshold now1 now2)"
    unfolding execute_deferred_fingerprint_lifecycle_def Let_def
    by (intro confined_intros train reuse)
  show "confined contents K (lifecycle_train ops np kr tw tm st now1 now2)"
    "confined contents K (lifecycle_reuse ops np kr key k tw tm st now1 now2)" by (rule train, rule reuse)
qed

lemma confined_artifact:
  assumes "confined contents ({k. starts_with DATASET_PREFIX k} \<union> {k. starts_with MODEL_METADATA_PREFIX k}) f" "f s = (r, s')"
    and "starts_with VALID_ARTIFACT_PREFIX key"
  shows "contents s' key = contents s key"
proof -
  have "contents (snd (f s)) key = contents s key"
    using assms(1,3) prefixes(2,3) unfolding confined_def by blast
  then show ?thesis by (simp add: assms(2))
qed

lemma cycle_keeps_artifacts:
  "execute_deferred_fingerprint_lifecycle ops np kr cycle k threshold now1 now2 s = (r, s') \<Longrightarrow>
    starts_with VALID_ARTIFACT_PREFIX key \<Longrightarrow> contents s' key = contents s key"
  by (rule confined_artifact [OF lifecycle_confined(3)])

lemma model_ready_cong:
  assumes "model_ready x kr c key schema k sid" "\<And>o'. \<not> starts_with VALID_ARTIFACT_PREFIX o' \<Longrightarrow> c' o' = c o'"
  shows "model_ready x kr c' key schema k sid"
proof -
  have P: "DEFAULT_MODEL_PREFIX = MODEL_METADATA_PREFIX" by (simp add: DEFAULT_MODEL_PREFIX_def MODEL_METADATA_PREFIX_def)
  have "c' o' = c o'" if "starts_with DEFAULT_MODEL_PREFIX o' \<or> starts_with DATASET_PREFIX o'" for o'
    using that assms(2) prefixes unfolding P by blast
  then show ?thesis
    using assms(1) unfolding model_ready_def dataset_stored_def manifest_key_of_def windows_key_of_def
    by (metis starts_with_append)
qed

lemma detect:
  assumes "numpy_documented x" "keras_documented kr" "scores_documented x kr" "keras_ready kr"
    and "models (contents s) = {key}" "model_ready x kr (contents s) key schema k sid" "starts_with ''training-dataset::'' sid"
    and "keeps_shape ops k schema s ew"
  obtains stage results s' where
    "execute_deferred_fingerprint_lifecycle ops (Some x) kr cycle k threshold t1 t2 s = (Inr (stage, results), s')"
    "ls_training_events stage = [''reused'']" "ls_inference_status stage = ''completed''" "length results = length ew"
    "ls_model_metadata_object_key stage = Some key" "models (contents s') = {key}" "model_ready x kr (contents s') key schema k sid"
proof -
  obtain tw tm em where b: "build_normal_training_windows ops k VALID_ARTIFACT_PREFIX s = Inr (tw, tm)"
      "build_evaluation_windows ops k VALID_ARTIFACT_PREFIX s = Inr (ew, em)" "dataset_shaped tw tm" "tw \<noteq> []"
      "dm_feature_schema tm = schema" "dataset_shaped ew em" "ew \<noteq> []" "dm_feature_schema em = schema"
    using assms(8) by (auto simp: keeps_shape_def)
  obtain keys latest where l: "latest_model_metadata_key ops s = Inr latest"
    "execute_deferred_fingerprint_lifecycle ops (Some x) kr cycle k threshold t1 t2 s = (case latest of
       None \<Rightarrow> if dm_eligible_record_count tm < threshold \<or> dm_window_count tm = 0
         then ret (deferred_stage (cycle_stage cycle keys tm threshold), [])
         else lifecycle_train ops (Some x) kr tw tm (cycle_stage cycle keys tm threshold) t1 t2
     | Some key \<Rightarrow> lifecycle_reuse ops (Some x) kr key k tw tm (cycle_stage cycle keys tm threshold) t1 t2) s"
    by (rule execute_enter [OF b(1)])
  have latest: "latest = Some key" using latest_model [OF l(1)] assms(5) by (cases latest) auto
  have k: "dm_sequence_length tm = k" "dm_sequence_length em = k"
    using built_facts(1) [OF disjI1 [OF b(1)]] built_facts(1) [OF disjI2 [OF b(2)]] .
  obtain stage results s' where r: "lifecycle_reuse ops (Some x) kr key k tw tm (cycle_stage cycle keys tm threshold) t1 t2 s = (Inr (stage, results), s')"
    "length results = length ew" "ls_inference_status stage = ''completed''" "ls_training_events stage = [''reused'']"
    "ls_model_metadata_object_key stage = Some key" "model_ready x kr (contents s') key schema k sid"
    by (rule lifecycle_reuse_completes [OF assms(1-4,6,7) b(3-5) k(1) b(2) b(6-8) k(2)])
  then show ?thesis
    by (intro that [of stage results s']) (simp_all add: l(2) latest reuse_registry(1) [OF r(1)] assms(5))
qed

lemma detection_run_ready:
  assumes "numpy_documented x" "keras_documented kr" "scores_documented x kr" "keras_ready kr"
    and "models (contents s) = {key}" "model_ready x kr (contents s) key schema k sid" "starts_with ''training-dataset::'' sid"
    and "detection_run contents ops (Some x) kr k threshold schema s t"
  shows "models (contents t) = {key} \<and> model_ready x kr (contents t) key schema k sid"
  using assms(8)
proof induction
  case start
  show ?case using assms(5,6) by simp
next
  case (artifacts t u)
  have "models (contents u) = models (contents t)"
    by (rule models_cong) (use artifacts.hyps(2) prefixes(3) in blast)
  moreover have "model_ready x kr (contents u) key schema k sid"
    by (rule model_ready_cong [of x kr "contents t"]) (use artifacts in blast)+
  ultimately show ?case using artifacts.IH by simp
next
  case (cycle t ew n t1 t2 r u)
  from cycle.IH have m: "models (contents t) = {key}" "model_ready x kr (contents t) key schema k sid" by simp_all
  obtain stage results s' where "execute_deferred_fingerprint_lifecycle ops (Some x) kr n k threshold t1 t2 t = (Inr (stage, results), s')"
    "models (contents s') = {key}" "model_ready x kr (contents s') key schema k sid"
    by (rule detect [OF assms(1-4) m assms(7) cycle.hyps(2)])
  with cycle.hyps(3) show ?case by simp
qed

end

section \<open>Properties\<close>

text \<open>
  C10. The fingerprint is trained once: from a store without models, however artifacts arrive
  and cycles run, and whether or not they raise, at most one model is ever listed, and a
  listed model is complete: its metadata names its own bytes and a source dataset whose
  manifest and archive both exist.
\<close>

theorem trained_at_most_once:
  assumes "artifact_store ops contents" "fingerprint_run ops np kr k threshold s t" "models (contents s) = {}"
  shows "models (contents t) = {} \<or> (\<exists>key. models (contents t) = {key} \<and> model_complete kr (contents t) key)"
  by (rule artifact_store.run_registry [OF assms])

text \<open>
  C27. A trained fingerprint is frozen: once a model is listed, no later cycle or artifact adds,
  removes or changes any object of the registry.
\<close>

theorem model_frozen:
  assumes "artifact_store ops contents" "fingerprint_run ops np kr k threshold s t" "models (contents s) \<noteq> {}"
  shows "models (contents t) = models (contents s) \<and>
    (\<forall>key. starts_with MODEL_METADATA_PREFIX key \<longrightarrow> contents t key = contents s key)"
  using artifact_store.run_keeps_model [OF assms] by blast

text \<open>
  C11. The first cycle with enough history trains, and every later one scores. With documented
  numpy and keras, a store without models whose eligible history reaches the threshold and
  gives windows of one shape ends the cycle with a model and no verdict; from then on, however
  artifacts arrive, change or go between the cycles and however many cycles have run, as long as
  each cycle meets histories that keep the shape of the model, the cycle reuses that model and
  returns one verdict per evaluation window.
\<close>

theorem training_then_detection:
  assumes "artifact_store ops contents" "numpy_documented x" "keras_documented kr" "scores_documented x kr" "keras_ready kr" "keras_fits kr"
    and "models (contents s) = {}" "build_normal_training_windows ops k VALID_ARTIFACT_PREFIX s = Inr (tw, tm)"
    and "threshold \<le> dm_eligible_record_count tm" "dataset_shaped tw tm" "tw \<noteq> []"
  shows "\<exists>stage s1. execute_deferred_fingerprint_lifecycle ops (Some x) kr cycle k threshold now1 now2 s = (Inr (stage, []), s1) \<and>
    ls_training_events stage = [''started'', ''completed''] \<and> ls_inference_status stage = ''skipped_until_next_cycle'' \<and>
    (\<forall>s2 ew cycle2 t1 t2. detection_run contents ops (Some x) kr k threshold (dm_feature_schema tm) s1 s2 \<longrightarrow>
       keeps_shape ops k (dm_feature_schema tm) s2 ew \<longrightarrow>
       (\<exists>stage2 results s3. execute_deferred_fingerprint_lifecycle ops (Some x) kr cycle2 k threshold t1 t2 s2 = (Inr (stage2, results), s3) \<and>
          ls_training_events stage2 = [''reused''] \<and> ls_inference_status stage2 = ''completed'' \<and> length results = length ew \<and>
          ls_model_metadata_object_key stage2 = ls_model_metadata_object_key stage))"
proof -
  obtain stage key s1 where t: "execute_deferred_fingerprint_lifecycle ops (Some x) kr cycle k threshold now1 now2 s = (Inr (stage, []), s1)"
    "ls_training_events stage = [''started'', ''completed'']" "ls_inference_status stage = ''skipped_until_next_cycle''"
    "ls_model_metadata_object_key stage = Some key" "models (contents s1) = {key}"
    "model_ready x kr (contents s1) key (dm_feature_schema tm) k (dm_dataset_id tm)"
    by (rule artifact_store.train_then_detect [OF assms])
  note id = built_facts(3) [OF disjI1 [OF assms(8)]]
  have later: "\<exists>stage2 results s3. execute_deferred_fingerprint_lifecycle ops (Some x) kr cycle2 k threshold t1 t2 s2 = (Inr (stage2, results), s3) \<and>
      ls_training_events stage2 = [''reused''] \<and> ls_inference_status stage2 = ''completed'' \<and> length results = length ew \<and>
      ls_model_metadata_object_key stage2 = ls_model_metadata_object_key stage"
    if run: "detection_run contents ops (Some x) kr k threshold (dm_feature_schema tm) s1 s2"
      and shape: "keeps_shape ops k (dm_feature_schema tm) s2 ew" for s2 ew cycle2 t1 t2
  proof -
    from artifact_store.detection_run_ready [OF assms(1-5) t(5,6) id run]
    have ready: "models (contents s2) = {key}" "model_ready x kr (contents s2) key (dm_feature_schema tm) k (dm_dataset_id tm)"
      by simp_all
    show ?thesis
      by (rule artifact_store.detect [OF assms(1-5) ready id shape, of cycle2 threshold t1 t2]) (auto simp: t(4))
  qed
  show ?thesis
    by (rule exI [of _ stage], rule exI [of _ s1], intro conjI allI impI) (rule t, rule t, rule t, rule later)
qed

text \<open>A store with two normal artifacts.\<close>

definition sample_history :: local_files where
  "sample_history = [(VALID_ARTIFACT_PREFIX @ ''r2.json'', Json (sample_artifact ''r2'' ''normal'')),
     (VALID_ARTIFACT_PREFIX @ ''r1.json'', Json (sample_artifact ''r1'' ''normal''))]"

lemma sample_history_listing: "op_list_json_objects (local_ops ''b'') VALID_ARTIFACT_PREFIX sample_history =
    Inr [VALID_ARTIFACT_PREFIX @ ''r1.json'', VALID_ARTIFACT_PREFIX @ ''r2.json'']"
  by (simp add: local_ops_def local_list_json_objects_def sample_history_def VALID_ARTIFACT_PREFIX_def ends_with_def starts_with_def
      is_dir_def dir_path_def path_parts_def Let_def)

lemma sample_history_load:
  "op_load_json (local_ops ''b'') (VALID_ARTIFACT_PREFIX @ ''r1.json'') sample_history = Inr (sample_artifact ''r1'' ''normal'')"
  "op_load_json (local_ops ''b'') (VALID_ARTIFACT_PREFIX @ ''r2.json'') sample_history = Inr (sample_artifact ''r2'' ''normal'')"
  by (simp_all add: local_ops_def local_load_json_def sample_history_def)

lemma sample_evaluation: "evaluate_inference_eligibility (sample_artifact rid ''normal'') = Inr (True, ''evaluation_eligible'')"
  by (simp add: evaluate_inference_eligibility_def sample_artifact_def)

lemma sample_history_built:
  assumes "\<And>rid. eligibility (sample_artifact rid ''normal'') = Inr (True, reason)"
  shows "\<exists>ws m. build_windows_from_artifacts (local_ops ''b'') 2 VALID_ARTIFACT_PREFIX eligibility label sample_history = Inr (ws, m) \<and>
    dataset_shaped ws m \<and> ws \<noteq> [] \<and> dm_feature_schema m = sensor_feature_names ''rpm'' \<and> dm_eligible_record_count m = 2"
proof -
  have g: "validate_fixture_consumer_source ''dataset_root'' VALID_ARTIFACT_PREFIX = []"
    by (simp add: validate_fixture_consumer_source_def contains_def starts_with_def VALID_ARTIFACT_PREFIX_def)
  have n: "sensor_feature_names ''rpm'' \<noteq> []" by (simp add: sensor_feature_names_def)
  show ?thesis
    by (simp add: build_windows_from_artifacts_def g sample_history_listing sample_history_load scan_artifact_def assms
        sample_features sample_read n record_order_def build_windows_def window_of_def dataset_shaped_def window_shaped_def Let_def)
      (simp add: text_ok_def VALID_ARTIFACT_PREFIX_def sensor_feature_names_def)
qed

lemma sample_history_normal:
  "\<exists>ws m. build_normal_training_windows (local_ops ''b'') 2 VALID_ARTIFACT_PREFIX sample_history = Inr (ws, m) \<and>
    dataset_shaped ws m \<and> ws \<noteq> [] \<and> dm_feature_schema m = sensor_feature_names ''rpm'' \<and> dm_eligible_record_count m = 2"
  unfolding build_normal_training_windows_def
  by (rule sample_history_built [where reason = "''normal_eligible''"]) (simp add: sample_admission)

lemma sample_history_evaluation:
  "\<exists>ws m. build_evaluation_windows (local_ops ''b'') 2 VALID_ARTIFACT_PREFIX sample_history = Inr (ws, m) \<and>
    dataset_shaped ws m \<and> ws \<noteq> [] \<and> dm_feature_schema m = sensor_feature_names ''rpm'' \<and> dm_eligible_record_count m = 2"
  unfolding build_evaluation_windows_def by (rule sample_history_built [where reason = "''evaluation_eligible''"]) (simp add: sample_evaluation)

lemma sample_keras_fits: "keras_fits sample_keras"
  by (simp add: keras_fits_def sample_keras_def)

lemma sample_history_models: "models (map_of sample_history) = {}"
  by (auto simp: json_under_def sample_history_def starts_with_def VALID_ARTIFACT_PREFIX_def MODEL_METADATA_PREFIX_def split: if_splits)

text \<open>Three cycles on it: training, then twice one verdict from the unchanged history.\<close>

theorem training_then_detection_witness:
  "\<exists>stage s1 stage2 results2 s2 stage3 results3 s3.
    execute_deferred_fingerprint_lifecycle (local_ops ''b'') (Some unary_numpy) sample_keras 1 2 2 sample_time sample_time sample_history =
      (Inr (stage, []), s1) \<and>
    execute_deferred_fingerprint_lifecycle (local_ops ''b'') (Some unary_numpy) sample_keras 2 2 2 sample_time sample_time s1 =
      (Inr (stage2, results2), s2) \<and>
    execute_deferred_fingerprint_lifecycle (local_ops ''b'') (Some unary_numpy) sample_keras 3 2 2 sample_time sample_time s2 =
      (Inr (stage3, results3), s3) \<and> ls_inference_status stage3 = ''completed'' \<and> results2 \<noteq> [] \<and> results3 \<noteq> []"
proof -
  obtain tw tm where n: "build_normal_training_windows (local_ops ''b'') 2 VALID_ARTIFACT_PREFIX sample_history = Inr (tw, tm)"
    "dataset_shaped tw tm" "tw \<noteq> []" "dm_feature_schema tm = sensor_feature_names ''rpm''" "dm_eligible_record_count tm = 2"
    using sample_history_normal by blast
  obtain ew em where e: "build_evaluation_windows (local_ops ''b'') 2 VALID_ARTIFACT_PREFIX sample_history = Inr (ew, em)"
    "dataset_shaped ew em" "ew \<noteq> []" "dm_feature_schema em = sensor_feature_names ''rpm''"
    using sample_history_evaluation by blast
  have two: "(2::int) \<le> dm_eligible_record_count tm" by (simp add: n(5))
  let ?cycle = "\<lambda>n s. execute_deferred_fingerprint_lifecycle (local_ops ''b'') (Some unary_numpy) sample_keras n 2 2 sample_time sample_time s"
  let ?run = "detection_run map_of (local_ops ''b'') (Some unary_numpy) sample_keras 2 2 (dm_feature_schema tm)"
  obtain stage s1 where s1: "?cycle 1 sample_history = (Inr (stage, []), s1)"
    and all: "\<forall>s2 ew n t1 t2. ?run s1 s2 \<longrightarrow> keeps_shape (local_ops ''b'') 2 (dm_feature_schema tm) s2 ew \<longrightarrow>
       (\<exists>stage2 results s3. execute_deferred_fingerprint_lifecycle (local_ops ''b'') (Some unary_numpy) sample_keras n 2 2 t1 t2 s2 =
            (Inr (stage2, results), s3) \<and>
          ls_training_events stage2 = [''reused''] \<and> ls_inference_status stage2 = ''completed'' \<and> length results = length ew \<and>
          ls_model_metadata_object_key stage2 = ls_model_metadata_object_key stage)"
    using training_then_detection [OF local_store.artifact_store_axioms unary_numpy_documented sample_keras_ok(1,3,2) sample_keras_fits
      sample_history_models n(1) two n(2,3), where cycle = 1 and ?now1.0 = sample_time and ?now2.0 = sample_time]
    by (elim exE conjE) (rule that)
  have again: "\<exists>stage2 results s3. ?cycle n s2 = (Inr (stage2, results), s3) \<and> ls_inference_status stage2 = ''completed'' \<and>
      length results = length ew"
    if run: "?run s1 s2" and shaped: "keeps_shape (local_ops ''b'') 2 (dm_feature_schema tm) s2 ew" for s2 ew n
    using all [rule_format, OF run shaped] by blast
  have V: "ends_with ''/'' VALID_ARTIFACT_PREFIX" by (simp add: ends_with_def VALID_ARTIFACT_PREFIX_def)
  have shape: "keeps_shape (local_ops ''b'') 2 (dm_feature_schema tm) s ew"
    if "\<And>key. starts_with VALID_ARTIFACT_PREFIX key \<Longrightarrow> map_of s key = map_of sample_history key" for s
    using n e local_store.build_windows_cong [OF n(1) [unfolded build_normal_training_windows_def] V that]
      local_store.build_windows_cong [OF e(1) [unfolded build_evaluation_windows_def] V that]
    unfolding keeps_shape_def build_normal_training_windows_def build_evaluation_windows_def by auto
  note same = local_store.cycle_keeps_artifacts
  have shape1: "keeps_shape (local_ops ''b'') 2 (dm_feature_schema tm) s1 ew"
    by (rule shape) (rule same [OF s1])
  obtain stage2 results2 s2 where s2: "?cycle 2 s1 = (Inr (stage2, results2), s2)" "length results2 = length ew"
    using again [OF detection_run.start shape1, of 2] by blast
  have shape2: "keeps_shape (local_ops ''b'') 2 (dm_feature_schema tm) s2 ew"
    by (rule shape) (simp add: same [OF s2(1)] same [OF s1])
  obtain stage3 results3 s3 where s3: "?cycle 3 s2 = (Inr (stage3, results3), s3)" "ls_inference_status stage3 = ''completed''"
      "length results3 = length ew"
    using again [OF detection_run.cycle [OF detection_run.start shape1 s2(1)] shape2, of 3] by blast
  have "results2 \<noteq> []" "results3 \<noteq> []" using s2(2) s3(3) e(3) by auto
  with s1 s2(1) s3 show ?thesis by blast
qed

text \<open>A run that trains, and one cycle more.\<close>

lemma sample_training:
  "\<exists>s1 key. fingerprint_run (local_ops ''b'') (Some unary_numpy) sample_keras 2 2 sample_history s1 \<and> models (map_of s1) = {key}"
proof -
  obtain tw tm where n: "build_normal_training_windows (local_ops ''b'') 2 VALID_ARTIFACT_PREFIX sample_history = Inr (tw, tm)"
    "dataset_shaped tw tm" "tw \<noteq> []" "dm_eligible_record_count tm = 2"
    using sample_history_normal by blast
  have two: "(2::int) \<le> dm_eligible_record_count tm" by (simp add: n(4))
  obtain stage key s1 where t: "execute_deferred_fingerprint_lifecycle (local_ops ''b'') (Some unary_numpy) sample_keras 1 2 2
      sample_time sample_time sample_history = (Inr (stage, []), s1)" "models (map_of s1) = {key}"
    by (rule local_store.train_then_detect [OF unary_numpy_documented sample_keras_ok(1,3,2) sample_keras_fits
      sample_history_models n(1) two n(2,3)])
  with fingerprint_run.cycle [OF fingerprint_run.start t(1)] show ?thesis by blast
qed

theorem trained_at_most_once_witness:
  "\<exists>t key. fingerprint_run (local_ops ''b'') (Some unary_numpy) sample_keras 2 2 sample_history t \<and> models (map_of t) = {key} \<and>
     model_complete sample_keras (map_of t) key"
proof -
  obtain t key where t: "fingerprint_run (local_ops ''b'') (Some unary_numpy) sample_keras 2 2 sample_history t" "models (map_of t) = {key}"
    using sample_training by blast
  from trained_at_most_once [OF local_store.artifact_store_axioms t(1) sample_history_models] t show ?thesis by auto
qed

theorem model_frozen_witness:
  "\<exists>s t r key. execute_deferred_fingerprint_lifecycle (local_ops ''b'') (Some unary_numpy) sample_keras 3 2 2 sample_time sample_time s = (r, t) \<and>
     models (map_of s) = {key} \<and> models (map_of t) = {key} \<and> map_of t key = map_of s key"
proof -
  obtain s key where s: "models (map_of s) = {key}" using sample_training by blast
  obtain r t where t: "execute_deferred_fingerprint_lifecycle (local_ops ''b'') (Some unary_numpy) sample_keras 3 2 2 sample_time sample_time s = (r, t)"
    by fastforce
  have key: "starts_with MODEL_METADATA_PREFIX key" using s by (auto simp: json_under_def)
  have "models (map_of s) \<noteq> {}" by (simp add: s)
  from model_frozen [OF local_store.artifact_store_axioms fingerprint_run.cycle [OF fingerprint_run.start t] this] key
  have "models (map_of t) = {key}" "map_of t key = map_of s key" by (simp_all add: s)
  with s t show ?thesis by blast
qed

end
