(* ===== verification/Simulator.thy ===== *)
theory Simulator
  imports FloatLaws PyValue
begin

text \<open>
  \<open>sensor_simulation/\<close> and \<open>config/ranges.py\<close>: the compressor simulator, which draws loop
  currents and derives the transmitter observations from them, and the older behaviour model.
  The generator is a stream of draws from \<open>random()\<close>, at least 0 and below 1; the
  state counts the draws made. \<open>sn\<close> stands for \<open>math.sin\<close>.
\<close>

section \<open>Profiles\<close>

record sensor_range =
  sr_minimum :: flt
  sr_maximum :: flt

record compressor_profile =
  cp_compressor_id :: string
  cp_compressor_power :: sensor_range
  cp_temperature :: sensor_range
  cp_pressure :: sensor_range
  cp_rpm :: sensor_range
  cp_base_noise_floor :: flt

definition DEFAULT_COMPRESSOR_PROFILE :: compressor_profile where
  "DEFAULT_COMPRESSOR_PROFILE = \<lparr>cp_compressor_id = ''compressor-1'',
     cp_compressor_power = \<lparr>sr_minimum = 0, sr_maximum = 100\<rparr>, cp_temperature = \<lparr>sr_minimum = 48, sr_maximum = 95\<rparr>,
     cp_pressure = \<lparr>sr_minimum = dec 18 1, sr_maximum = dec 85 1\<rparr>, cp_rpm = \<lparr>sr_minimum = 500, sr_maximum = 5000\<rparr>,
     cp_base_noise_floor = dec 15 2\<rparr>"

text \<open>Python's \<open>max\<close> and \<open>min\<close> of two numbers return the first of equal ones.\<close>

definition py_max :: "flt \<Rightarrow> flt \<Rightarrow> flt" where "py_max a b = (if a < b then b else a)"
definition py_min :: "flt \<Rightarrow> flt \<Rightarrow> flt" where "py_min a b = (if b < a then b else a)"

section \<open>The behaviour model\<close>

definition clamp :: "flt \<Rightarrow> sensor_range \<Rightarrow> flt" where
  "clamp v r = py_max (sr_minimum r) (py_min v (sr_maximum r))"

definition normalized_operating_state :: "flt \<Rightarrow> compressor_profile \<Rightarrow> flt" where
  "normalized_operating_state v p = (let lo = sr_minimum (cp_compressor_power p); hi = sr_maximum (cp_compressor_power p) in
     if hi = lo then 0 else fdiv (fsub (clamp v (cp_compressor_power p)) lo) (fsub hi lo))"

definition time_pattern :: "(flt \<Rightarrow> flt) \<Rightarrow> int \<Rightarrow> flt \<Rightarrow> flt \<Rightarrow> flt" where
  "time_pattern sn step_index period phase_shift = sn (fadd (fdiv (fl (of_int step_index)) period) phase_shift)"

definition expected_value :: "sensor_range \<Rightarrow> flt \<Rightarrow> flt \<Rightarrow> flt \<Rightarrow> flt" where
  "expected_value r ratio amplitude pattern = clamp (fadd (fadd (sr_minimum r)
     (fmul (fsub (sr_maximum r) (sr_minimum r)) ratio)) (fmul amplitude pattern)) r"

definition expected_sensor_values :: "(flt \<Rightarrow> flt) \<Rightarrow> flt \<Rightarrow> int \<Rightarrow> compressor_profile \<Rightarrow> (string, flt) dict" where
  "expected_sensor_values sn state step_index p =
     (let state_ratio = normalized_operating_state state p;
          lagged = normalized_operating_state (fsub state (fmul 8 (time_pattern sn step_index (dec 85 1) (dec 1 1)))) p;
          leading = normalized_operating_state (fadd state (fmul 6 (time_pattern sn step_index 6 (dec 2 1)))) p;
          temperature = fadd (fmul (dec 55 2) state_ratio) (fmul (dec 45 2) lagged);
          pressure = fadd (fmul (dec 72 2) state_ratio) (fmul (dec 28 2) lagged);
          rpm = fadd (fmul (dec 88 2) state_ratio) (fmul (dec 12 2) leading) in
      [(''temperature'', expected_value (cp_temperature p) temperature (dec 18 1) (time_pattern sn step_index 4 0)),
       (''pressure'', expected_value (cp_pressure p) pressure (dec 15 2) (time_pattern sn step_index 5 (dec 4 1))),
       (''rpm'', expected_value (cp_rpm p) rpm 45 (time_pattern sn step_index (dec 35 1) (dec 7 1)))])"

definition temperature_driven_noise_level :: "flt \<Rightarrow> compressor_profile \<Rightarrow> flt \<Rightarrow> flt" where
  "temperature_driven_noise_level temperature p noise_multiplier =
     fadd (cp_base_noise_floor p) (fmul (fmul (normalized_operating_state temperature
       (p\<lparr>cp_compressor_power := cp_temperature p\<rparr>)) (dec 85 2)) noise_multiplier)"

section \<open>Observations\<close>

record transmitter_variable =
  tv_value :: flt
  tv_unit :: string
  tv_unit_code :: "int option"
  tv_description :: "string option"

record transmitter_diagnostics =
  td_device_status_hex :: string
  td_field_device_malfunction :: bool
  td_loop_current_saturated :: bool

record transmitter_observation =
  to_sensor_name :: string
  to_operating_state_pct :: flt
  to_pv :: transmitter_variable
  to_sv :: "transmitter_variable option"
  to_loop_current_ma :: flt
  to_pv_percent_range :: flt
  to_diagnostics :: transmitter_diagnostics

definition transmitter_variable_dict :: "transmitter_variable \<Rightarrow> pyval" where
  "transmitter_variable_dict v = PDict [(''value'', PFloat (tv_value v)), (''unit'', PStr (tv_unit v)),
     (''unit_code'', opt_int (tv_unit_code v)), (''description'', opt_str (tv_description v))]"

definition observation_to_dict :: "transmitter_observation \<Rightarrow> pyval" where
  "observation_to_dict t = PDict ([(''sensor_name'', PStr (to_sensor_name t)),
     (''operating_state_pct'', PFloat (to_operating_state_pct t)), (''pv'', transmitter_variable_dict (to_pv t))]
     @ (case to_sv t of None \<Rightarrow> [] | Some v \<Rightarrow> [(''sv'', transmitter_variable_dict v)])
     @ [(''loop_current_ma'', PFloat (to_loop_current_ma t)), (''pv_percent_range'', PFloat (to_pv_percent_range t)),
        (''diagnostics'', PDict [(''device_status_hex'', PStr (td_device_status_hex (to_diagnostics t))),
           (''field_device_malfunction'', PBool (td_field_device_malfunction (to_diagnostics t))),
           (''loop_current_saturated'', PBool (td_loop_current_saturated (to_diagnostics t)))])])"

section \<open>The simulator\<close>

definition LOOP_CURRENT_MIN_MA :: flt where "LOOP_CURRENT_MIN_MA = 4"
definition LOOP_CURRENT_MAX_MA :: flt where "LOOP_CURRENT_MAX_MA = 20"

record simulation_control =
  sc_operating_state_offset :: flt
  sc_temperature_current_bias_ma :: flt
  sc_pressure_current_bias_ma :: flt
  sc_rpm_current_bias_ma :: flt
  sc_current_noise_multiplier :: flt

definition default_control :: simulation_control where
  "default_control = \<lparr>sc_operating_state_offset = 0, sc_temperature_current_bias_ma = 0, sc_pressure_current_bias_ma = 0,
     sc_rpm_current_bias_ma = 0, sc_current_noise_multiplier = 1\<rparr>"

record simulation_snapshot =
  sp_compressor_id :: string
  sp_operating_state_pct :: flt
  sp_sensors :: "(string, flt) dict"
  sp_transmitter_observations :: "(string, transmitter_observation) dict"
  sp_metadata :: "(string, pyval) dict"

definition snapshot_to_dict :: "simulation_snapshot \<Rightarrow> pyval" where
  "snapshot_to_dict s = PDict [(''compressor_id'', PStr (sp_compressor_id s)),
     (''operating_state_pct'', PFloat (sp_operating_state_pct s)),
     (''sensors'', PDict (map (\<lambda>(k, v). (k, PFloat v)) (sp_sensors s))),
     (''transmitter_observations'', PDict (map (\<lambda>(k, v). (k, observation_to_dict v)) (sp_transmitter_observations s))),
     (''metadata'', PDict (sp_metadata s))]"

record simulator =
  sim_profile :: compressor_profile
  sim_draws :: nat
  sim_step_index :: int
  sim_control :: simulation_control

definition init_simulator :: "compressor_profile option \<Rightarrow> simulator" where
  "init_simulator p = \<lparr>sim_profile = (case p of Some x \<Rightarrow> x | None \<Rightarrow> DEFAULT_COMPRESSOR_PROFILE), sim_draws = 0,
     sim_step_index = 0, sim_control = default_control\<rparr>"

definition set_control_hook ::
  "flt option \<Rightarrow> flt option \<Rightarrow> flt \<Rightarrow> flt \<Rightarrow> flt \<Rightarrow> flt \<Rightarrow> simulator \<Rightarrow> simulator" where
  "set_control_hook operating_state_offset power_offset tb pb rb noise sim =
     sim\<lparr>sim_control := \<lparr>sc_operating_state_offset = (case operating_state_offset of Some x \<Rightarrow> x
         | None \<Rightarrow> (case power_offset of Some x \<Rightarrow> x | None \<Rightarrow> 0)),
       sc_temperature_current_bias_ma = tb, sc_pressure_current_bias_ma = pb, sc_rpm_current_bias_ma = rb,
       sc_current_noise_multiplier = noise\<rparr>\<rparr>"

text \<open>\<open>rng.uniform(a, b)\<close> on the next draw.\<close>

definition uniform :: "flt \<Rightarrow> flt \<Rightarrow> flt \<Rightarrow> flt" where
  "uniform r a b = fadd a (fmul (fsub b a) r)"

definition resolve_operating_state :: "(nat \<Rightarrow> flt) \<Rightarrow> flt option \<Rightarrow> flt option \<Rightarrow> simulator \<Rightarrow> flt \<times> simulator" where
  "resolve_operating_state rng operating_state compressor_power sim = (case operating_state of Some x \<Rightarrow> (x, sim)
     | None \<Rightarrow> (case compressor_power of Some x \<Rightarrow> (x, sim)
       | None \<Rightarrow> let r = cp_compressor_power (sim_profile sim); midpoint = fdiv (fadd (sr_minimum r) (sr_maximum r)) 2 in
         (fadd midpoint (fmul 6 (uniform (rng (sim_draws sim)) (- 1) 1)), sim\<lparr>sim_draws := sim_draws sim + 1\<rparr>)))"

definition current_noise :: "flt \<Rightarrow> simulation_control \<Rightarrow> flt" where
  "current_noise ratio c = (if ratio \<in> {0, 1} then 0
     else fmul (fadd (dec 2 2) (fmul (dec 8 2) ratio)) (sc_current_noise_multiplier c))"

definition loop_current :: "flt \<Rightarrow> flt \<Rightarrow> flt \<Rightarrow> flt \<Rightarrow> flt" where
  "loop_current base bias noise r = py_round 3 (py_max LOOP_CURRENT_MIN_MA (py_min LOOP_CURRENT_MAX_MA
     (fadd (fadd base bias) (uniform r (- noise) noise))))"

definition build_loop_currents :: "(nat \<Rightarrow> flt) \<Rightarrow> flt \<Rightarrow> simulator \<Rightarrow> ((string, flt) dict \<times> flt \<times> simulator) res" where
  "build_loop_currents rng state sim = (let r = cp_compressor_power (sim_profile sim); c = sim_control sim; n = sim_draws sim in
     attempt (fdiv_res (fsub state (sr_minimum r)) (fsub (sr_maximum r) (sr_minimum r))) (\<lambda>ratio.
       let base = fadd LOOP_CURRENT_MIN_MA (fmul (fsub LOOP_CURRENT_MAX_MA LOOP_CURRENT_MIN_MA) ratio);
         noise = current_noise ratio c in
       Inr ([(''temperature'', loop_current base (sc_temperature_current_bias_ma c) noise (rng n)),
         (''pressure'', loop_current base (sc_pressure_current_bias_ma c) noise (rng (n + 1))),
         (''rpm'', loop_current base (sc_rpm_current_bias_ma c) noise (rng (n + 2)))], noise,
         sim\<lparr>sim_draws := n + 3\<rparr>)))"

definition percent_from_loop_current :: "flt \<Rightarrow> flt" where
  "percent_from_loop_current ma = py_round 3 (fmul (fdiv (fsub ma LOOP_CURRENT_MIN_MA) 16) 100)"

definition percent_range :: "flt \<Rightarrow> sensor_range \<Rightarrow> flt res" where
  "percent_range v r = (let span = fsub (sr_maximum r) (sr_minimum r) in
     if span \<le> 0 then Inl (ValueError ''Sensor range maximum must exceed its minimum.'')
     else Inr (fdiv (fsub v (sr_minimum r)) span))"

definition loop_current_from_percent :: "flt \<Rightarrow> flt" where
  "loop_current_from_percent p = py_round 3 (fadd LOOP_CURRENT_MIN_MA (fmul (fsub LOOP_CURRENT_MAX_MA LOOP_CURRENT_MIN_MA) p))"

definition engineering_value_from_loop_current :: "flt \<Rightarrow> sensor_range \<Rightarrow> flt" where
  "engineering_value_from_loop_current ma r = (let percent = fdiv (percent_from_loop_current ma) 100 in
     py_round 3 (fadd (sr_minimum r) (fmul (fsub (sr_maximum r) (sr_minimum r)) percent)))"

definition SECONDARY_VARIABLE_META :: "(string, string \<times> string \<times> int) dict" where
  "SECONDARY_VARIABLE_META = [(''temperature'', ''Sensor_Body_Temperature'', ''degC'', 32),
     (''pressure'', ''Transmitter_Module_Temperature'', ''degC'', 32)]"

definition secondary_variable_from_loop_current :: "string \<Rightarrow> flt \<Rightarrow> transmitter_variable option" where
  "secondary_variable_from_loop_current name ma = (case map_of SECONDARY_VARIABLE_META name of None \<Rightarrow> None
     | Some (description, unit, code) \<Rightarrow> let percent = fdiv (percent_from_loop_current ma) 100 in
       Some \<lparr>tv_value = py_round 3 (fadd 20 (fmul 20 percent)), tv_unit = unit, tv_unit_code = Some code,
         tv_description = Some description\<rparr>)"

definition SENSOR_TRANSMITTER_META :: "(string, string \<times> int option \<times> string) dict" where
  "SENSOR_TRANSMITTER_META = [(''temperature'', ''degC'', Some 32, ''Process_Temperature''),
     (''pressure'', ''bar'', Some 7, ''Process_Pressure''), (''rpm'', ''rpm'', None, ''Shaft_Speed'')]"

text \<open>\<open>getattr(profile, sensor_name)\<close> for the three sensors.\<close>

definition profile_range :: "compressor_profile \<Rightarrow> string \<Rightarrow> sensor_range" where
  "profile_range p name = (if name = ''temperature'' then cp_temperature p
     else if name = ''pressure'' then cp_pressure p else cp_rpm p)"

definition transmitter_observation_of :: "compressor_profile \<Rightarrow> flt \<Rightarrow> string \<Rightarrow> flt \<Rightarrow> transmitter_observation res" where
  "transmitter_observation_of p state name ma = attempt (getitem SENSOR_TRANSMITTER_META name) (\<lambda>(unit, code, description).
     Inr \<lparr>to_sensor_name = name, to_operating_state_pct = py_round 3 state,
       to_pv = \<lparr>tv_value = engineering_value_from_loop_current ma (profile_range p name), tv_unit = unit,
         tv_unit_code = code, tv_description = Some description\<rparr>,
       to_sv = secondary_variable_from_loop_current name ma, to_loop_current_ma = ma,
       to_pv_percent_range = percent_from_loop_current ma,
       to_diagnostics = \<lparr>td_device_status_hex = ''0x00'', td_field_device_malfunction = False,
         td_loop_current_saturated = (ma \<le> LOOP_CURRENT_MIN_MA \<or> LOOP_CURRENT_MAX_MA \<le> ma)\<rparr>\<rparr>)"

definition build_transmitter_observations ::
  "compressor_profile \<Rightarrow> (string, flt) dict \<Rightarrow> flt \<Rightarrow> (string, transmitter_observation) dict res" where
  "build_transmitter_observations p currents state =
     mapM (\<lambda>(name, ma). attempt (transmitter_observation_of p state name ma) (\<lambda>t. Inr (name, t))) currents"

definition control_dict :: "simulation_control \<Rightarrow> pyval" where
  "control_dict c = PDict [(''operating_state_offset'', PFloat (sc_operating_state_offset c)),
     (''temperature_current_bias_ma'', PFloat (sc_temperature_current_bias_ma c)),
     (''pressure_current_bias_ma'', PFloat (sc_pressure_current_bias_ma c)),
     (''rpm_current_bias_ma'', PFloat (sc_rpm_current_bias_ma c)),
     (''current_noise_multiplier'', PFloat (sc_current_noise_multiplier c))]"

definition simulator_step ::
  "(nat \<Rightarrow> flt) \<Rightarrow> flt option \<Rightarrow> flt option \<Rightarrow> simulator \<Rightarrow> (simulation_snapshot \<times> simulator) res" where
  "simulator_step rng operating_state compressor_power sim = (let (requested, sim1) = resolve_operating_state rng operating_state compressor_power sim;
       effective = clamp (fadd requested (sc_operating_state_offset (sim_control sim))) (cp_compressor_power (sim_profile sim)) in
     attempt (build_loop_currents rng effective sim1) (\<lambda>(currents, noise, sim2).
     attempt (build_transmitter_observations (sim_profile sim) currents effective) (\<lambda>obs.
       Inr (\<lparr>sp_compressor_id = cp_compressor_id (sim_profile sim), sp_operating_state_pct = effective,
           sp_sensors = map (\<lambda>(name, t). (name, tv_value (to_pv t))) obs, sp_transmitter_observations = obs,
           sp_metadata = [(''step'', PInt (sim_step_index sim)), (''input_domain'', PStr ''loop_current_ma''),
             (''current_noise_ma'', PFloat (py_round 4 noise)),
             (''hidden_process_state'', PDict [(''driver'', PStr ''compressor_load_pct''),
                (''operating_state_pct'', PFloat (py_round 3 effective))]),
             (''control_adjustments'', control_dict (sim_control sim)),
             (''display_projection'', PStr ''engineering_units_derived_from_loop_current'')]\<rparr>,
         sim2\<lparr>sim_step_index := sim_step_index sim + 1\<rparr>))))"

section \<open>Laws\<close>

lemma py_max_min_bounds: "a \<le> b \<Longrightarrow> a \<le> py_max a (py_min v b) \<and> py_max a (py_min v b) \<le> b"
  "a \<le> b \<Longrightarrow> a \<le> py_max a (py_min b v) \<and> py_max a (py_min b v) \<le> b"
  by (auto simp: py_max_def py_min_def)

lemma clamp_bounds: "sr_minimum r \<le> sr_maximum r \<Longrightarrow> sr_minimum r \<le> clamp v r \<and> clamp v r \<le> sr_maximum r"
  unfolding clamp_def by (rule py_max_min_bounds)

lemma expected_in_range:
  assumes "\<forall>name \<in> {''temperature'', ''pressure'', ''rpm''}. sr_minimum (profile_range p name) \<le> sr_maximum (profile_range p name)"
    and "(name, v) \<in> set (expected_sensor_values sn state i p)"
  shows "sr_minimum (profile_range p name) \<le> v \<and> v \<le> sr_maximum (profile_range p name)"
  using assms by (auto simp: expected_sensor_values_def expected_value_def profile_range_def Let_def clamp_bounds)

lemma rnd_numeral: "numeral n \<le> (2 ^ 53 :: int) \<Longrightarrow> py_round 3 (numeral n) = numeral n"
  by (rule rnd.numeral_exact)

lemma loop_current_bounds: "4 \<le> loop_current base bias noise r" "loop_current base bias noise r \<le> 20"
  using py_max_min_bounds(2) [of "4::flt" "20::flt"] rnd.mono [of 4 _ 3] rnd.mono [of _ 20 3]
  by (simp_all add: loop_current_def LOOP_CURRENT_MIN_MA_def LOOP_CURRENT_MAX_MA_def rnd_numeral)

lemma percent_bounds:
  assumes "4 \<le> ma" "ma \<le> 20"
  shows "0 \<le> percent_from_loop_current ma" "percent_from_loop_current ma \<le> 100"
proof -
  have a: "0 \<le> fsub ma 4" "fsub ma 4 \<le> 16"
    using assms fl.nonneg [of "ma - 4"] fl.int_upper [of "ma - 4" 16] by (simp_all add: fsub_def)
  have b: "0 \<le> fdiv (fsub ma 4) 16" "fdiv (fsub ma 4) 16 \<le> 1"
    using a fl.nonneg [of "fsub ma 4 / 16"] fl.int_upper [of "fsub ma 4 / 16" 1] by (simp_all add: fdiv_def)
  have c: "0 \<le> fmul (fdiv (fsub ma 4) 16) 100" "fmul (fdiv (fsub ma 4) 16) 100 \<le> 100"
    using b fl.nonneg [of "fdiv (fsub ma 4) 16 * 100"] fl.int_upper [of "fdiv (fsub ma 4) 16 * 100" 100]
    by (simp_all add: fmul_def)
  then show "0 \<le> percent_from_loop_current ma" "percent_from_loop_current ma \<le> 100"
    using rnd.nonneg [of _ 3] rnd.int_upper [of _ 100 3]
    by (simp_all add: percent_from_loop_current_def LOOP_CURRENT_MIN_MA_def)
qed

text \<open>A range whose end points survive the arithmetic; those of the default profile do.\<close>

definition proper_range :: "sensor_range \<Rightarrow> bool" where
  "proper_range r = (is_double (sr_minimum r) \<and> sr_minimum r \<le> sr_maximum r \<and> py_round 3 (sr_minimum r) = sr_minimum r \<and>
     py_round 3 (fadd (sr_minimum r) (fsub (sr_maximum r) (sr_minimum r))) \<le> sr_maximum r)"

definition proper_profile :: "compressor_profile \<Rightarrow> bool" where
  "proper_profile p = (fsub (sr_maximum (cp_compressor_power p)) (sr_minimum (cp_compressor_power p)) \<noteq> 0 \<and>
     proper_range (cp_temperature p) \<and> proper_range (cp_pressure p) \<and> proper_range (cp_rpm p))"

lemma engineering_bounds:
  assumes "4 \<le> ma" "ma \<le> 20" "proper_range r"
  shows "sr_minimum r \<le> engineering_value_from_loop_current ma r" "engineering_value_from_loop_current ma r \<le> sr_maximum r"
proof -
  let ?p = "percent_from_loop_current ma" and ?s = "fsub (sr_maximum r) (sr_minimum r)"
  have q: "0 \<le> fdiv ?p 100" "fdiv ?p 100 \<le> 1"
    using percent_bounds [OF assms(1,2)] fl.nonneg [of "?p / 100"] fl.int_upper [of "?p / 100" 1] by (simp_all add: fdiv_def)
  have s: "0 \<le> ?s" "fl ?s = ?s" using assms(3) fl.nonneg by (simp_all add: proper_range_def fsub_def)
  have m: "0 \<le> fmul ?s (fdiv ?p 100)" "fmul ?s (fdiv ?p 100) \<le> ?s"
    using q s fl.nonneg [of "?s * fdiv ?p 100"] fl.mono [of "?s * fdiv ?p 100" ?s] mult_left_le [of "fdiv ?p 100" ?s]
    by (simp_all add: fmul_def)
  have "sr_minimum r \<le> fadd (sr_minimum r) (fmul ?s (fdiv ?p 100))"
    using m(1) assms(3) fl.mono [of "sr_minimum r" "sr_minimum r + fmul ?s (fdiv ?p 100)"]
    by (simp add: proper_range_def is_double_def fadd_def)
  moreover have "fadd (sr_minimum r) (fmul ?s (fdiv ?p 100)) \<le> fadd (sr_minimum r) ?s"
    using m(2) by (simp add: fadd_def fl.mono)
  ultimately show "sr_minimum r \<le> engineering_value_from_loop_current ma r" "engineering_value_from_loop_current ma r \<le> sr_maximum r"
    using assms(3) rnd.mono [of "sr_minimum r" "fadd (sr_minimum r) (fmul ?s (fdiv ?p 100))" 3]
      rnd.mono [of "fadd (sr_minimum r) (fmul ?s (fdiv ?p 100))" "fadd (sr_minimum r) ?s" 3]
    by (simp_all add: proper_range_def engineering_value_from_loop_current_def Let_def)
qed

lemma default_profile_proper: "proper_profile DEFAULT_COMPRESSOR_PROFILE"
proof -
  have "py_round 3 (dec 18 1) = dec 18 1" "py_round 3 (fadd (dec 18 1) (fsub (dec 85 1) (dec 18 1))) = dec 85 1" "dec 18 1 \<le> dec 85 1"
    by code_simp+
  then have "proper_range (cp_pressure DEFAULT_COMPRESSOR_PROFILE)"
    by (simp add: proper_range_def DEFAULT_COMPRESSOR_PROFILE_def)
  moreover have "proper_range (cp_temperature DEFAULT_COMPRESSOR_PROFILE)" "proper_range (cp_rpm DEFAULT_COMPRESSOR_PROFILE)"
    by (simp_all add: proper_range_def DEFAULT_COMPRESSOR_PROFILE_def is_double_def fsub_def fadd_def fl.numeral_exact rnd_numeral)
  moreover have "fsub 100 0 \<noteq> 0" by (simp add: fsub_def fl.numeral_exact)
  ultimately show ?thesis by (simp add: proper_profile_def DEFAULT_COMPRESSOR_PROFILE_def)
qed

text \<open>What a step observes.\<close>

definition sound_observation :: "compressor_profile \<Rightarrow> string \<Rightarrow> transmitter_observation \<Rightarrow> bool" where
  "sound_observation p name t = (to_sensor_name t = name \<and> 4 \<le> to_loop_current_ma t \<and> to_loop_current_ma t \<le> 20 \<and>
     0 \<le> to_pv_percent_range t \<and> to_pv_percent_range t \<le> 100 \<and>
     sr_minimum (profile_range p name) \<le> tv_value (to_pv t) \<and> tv_value (to_pv t) \<le> sr_maximum (profile_range p name) \<and>
     tv_value (to_pv t) = engineering_value_from_loop_current (to_loop_current_ma t) (profile_range p name) \<and>
     (td_loop_current_saturated (to_diagnostics t) \<longleftrightarrow> to_loop_current_ma t \<in> {4, 20}) \<and>
     \<not> td_field_device_malfunction (to_diagnostics t))"

lemma observation_sound:
  assumes "proper_profile p" "name \<in> {''temperature'', ''pressure'', ''rpm''}" "4 \<le> ma" "ma \<le> 20"
  shows "\<exists>t. transmitter_observation_of p state name ma = Inr t \<and> sound_observation p name t \<and> to_loop_current_ma t = ma"
proof -
  have r: "proper_range (profile_range p name)" using assms(1,2) by (auto simp: proper_profile_def profile_range_def)
  obtain u c d where meta: "getitem SENSOR_TRANSMITTER_META name = Inr (u, c, d)"
    using assms(2) by (auto simp: SENSOR_TRANSMITTER_META_def getitem_def)
  show ?thesis
    using engineering_bounds [OF assms(3,4) r] percent_bounds [OF assms(3,4)] assms(3,4)
    by (auto simp: transmitter_observation_of_def meta sound_observation_def LOOP_CURRENT_MIN_MA_def LOOP_CURRENT_MAX_MA_def)
qed

lemma simulator_step_spec:
  assumes "proper_profile (sim_profile sim)"
  obtains snap sim' where "simulator_step rng state pw sim = Inr (snap, sim')" "sim_profile sim' = sim_profile sim"
    "sim_step_index sim' = sim_step_index sim + 1" "sim_draws sim < sim_draws sim'" "sim_control sim' = sim_control sim"
    "map fst (sp_transmitter_observations snap) = [''temperature'', ''pressure'', ''rpm'']"
    "\<And>name t. (name, t) \<in> set (sp_transmitter_observations snap) \<Longrightarrow> sound_observation (sim_profile sim) name t"
    "sp_sensors snap = map (\<lambda>(name, t). (name, tv_value (to_pv t))) (sp_transmitter_observations snap)"
    "map_of (sp_metadata snap) ''noise_level'' = None"
proof -
  let ?p = "sim_profile sim" and ?r = "cp_compressor_power (sim_profile sim)"
  obtain requested sim1 where req: "resolve_operating_state rng state pw sim = (requested, sim1)" by fastforce
  have same: "sim_profile sim1 = ?p" "sim_step_index sim1 = sim_step_index sim" "sim_control sim1 = sim_control sim"
      "sim_draws sim \<le> sim_draws sim1"
    using req by (auto simp: resolve_operating_state_def Let_def split: option.splits)
  let ?e = "clamp (fadd requested (sc_operating_state_offset (sim_control sim))) ?r"
  have "fsub (sr_maximum ?r) (sr_minimum ?r) \<noteq> 0" using assms by (simp add: proper_profile_def)
  then obtain a b c noise where cur: "build_loop_currents rng ?e sim1 = Inr ([(''temperature'', a), (''pressure'', b), (''rpm'', c)], noise,
      sim1\<lparr>sim_draws := sim_draws sim1 + 3\<rparr>)" "4 \<le> a" "a \<le> 20" "4 \<le> b" "b \<le> 20" "4 \<le> c" "c \<le> 20"
    by (auto simp: build_loop_currents_def same fdiv_res_def Let_def loop_current_bounds)
  obtain ta tb tc where obs: "transmitter_observation_of ?p ?e ''temperature'' a = Inr ta" "sound_observation ?p ''temperature'' ta"
    "transmitter_observation_of ?p ?e ''pressure'' b = Inr tb" "sound_observation ?p ''pressure'' tb"
    "transmitter_observation_of ?p ?e ''rpm'' c = Inr tc" "sound_observation ?p ''rpm'' tc"
    using observation_sound [OF assms] cur by (metis insertI1 insertI2)
  show ?thesis
  proof (rule that)
    show "simulator_step rng state pw sim = Inr (\<lparr>sp_compressor_id = cp_compressor_id ?p, sp_operating_state_pct = ?e,
        sp_sensors = map (\<lambda>(name, t). (name, tv_value (to_pv t))) [(''temperature'', ta), (''pressure'', tb), (''rpm'', tc)],
        sp_transmitter_observations = [(''temperature'', ta), (''pressure'', tb), (''rpm'', tc)],
        sp_metadata = [(''step'', PInt (sim_step_index sim)), (''input_domain'', PStr ''loop_current_ma''),
             (''current_noise_ma'', PFloat (py_round 4 noise)),
             (''hidden_process_state'', PDict [(''driver'', PStr ''compressor_load_pct''),
                (''operating_state_pct'', PFloat (py_round 3 ?e))]),
             (''control_adjustments'', control_dict (sim_control sim)),
             (''display_projection'', PStr ''engineering_units_derived_from_loop_current'')]\<rparr>,
        sim1\<lparr>sim_draws := sim_draws sim1 + 3, sim_step_index := sim_step_index sim + 1\<rparr>)"
      by (simp add: simulator_step_def req cur(1) build_transmitter_observations_def obs Let_def)
  qed (use obs same in auto)
qed

section \<open>Properties\<close>

text \<open>
  C40. Every step of a simulator with the default profile, the only one the repository builds, is
  physical: whatever the requested operating state, the
  control hook and the draws of the generator, it returns the three sensors with a loop
  current between 4 and 20 mA, a percentage between 0 and 100 and an engineering value inside the
  range of its sensor, and flags saturation exactly at the two ends of the loop.
\<close>

theorem simulator_observations_sound:
  assumes "sim_profile sim = DEFAULT_COMPRESSOR_PROFILE"
  shows "\<exists>snap sim'. simulator_step rng state pw sim = Inr (snap, sim') \<and>
    map fst (sp_transmitter_observations snap) = [''temperature'', ''pressure'', ''rpm''] \<and>
    (\<forall>(name, t) \<in> set (sp_transmitter_observations snap). sound_observation DEFAULT_COMPRESSOR_PROFILE name t) \<and>
    sim_profile sim' = DEFAULT_COMPRESSOR_PROFILE \<and> sim_step_index sim' = sim_step_index sim + 1"
proof -
  have p: "proper_profile (sim_profile sim)" using default_profile_proper by (simp add: assms)
  obtain snap sim' where "simulator_step rng state pw sim = Inr (snap, sim')" "sim_profile sim' = sim_profile sim"
    "sim_step_index sim' = sim_step_index sim + 1" "map fst (sp_transmitter_observations snap) = [''temperature'', ''pressure'', ''rpm'']"
    "\<And>name t. (name, t) \<in> set (sp_transmitter_observations snap) \<Longrightarrow> sound_observation (sim_profile sim) name t"
    by (rule simulator_step_spec [OF p]) (rule that, assumption+)
  then show ?thesis by (intro exI conjI) (auto simp: assms)
qed

theorem simulator_observations_sound_witness:
  "\<exists>snap sim'. simulator_step (\<lambda>_. 1/2) None (Some 65) (init_simulator None) = Inr (snap, sim') \<and>
    map fst (sp_transmitter_observations snap) = [''temperature'', ''pressure'', ''rpm'']"
  using simulator_observations_sound [of "init_simulator None" "\<lambda>_. 1/2" None "Some 65"] by (auto simp: init_simulator_def)

end
