(* ===== verification/Calendar.thy ===== *)
theory Calendar
  imports PyTime
begin

text \<open>
  Laws of the calendar: the date of a day number has that day number, so subtracting minutes
  from a datetime moves its microsecond count by exactly that much.
\<close>

section \<open>Days of a year\<close>

definition before_month :: "bool \<Rightarrow> int \<Rightarrow> int" where
  "before_month leap m = (if m \<in> {1..12} then [0, 31, 59, 90, 120, 151, 181, 212, 243, 273, 304, 334] ! nat (m - 1) else 0)
     + (if 2 < m \<and> leap then 1 else 0)"

definition month_length :: "bool \<Rightarrow> int \<Rightarrow> int" where
  "month_length leap m = (if m = 2 then (if leap then 29 else 28) else if m \<in> {4, 6, 9, 11} then 30 else 31)"

lemma before_month: "days_before_month y m = before_month (is_leap y) m"
  by (simp add: days_before_month_def before_month_def)

lemma month_length: "days_in_month y m = month_length (is_leap y) m"
  by (simp add: days_in_month_def month_length_def)

text \<open>The day-in-year computation, on every day of a common and of a leap year.\<close>

definition day_ok :: "bool \<Rightarrow> int \<Rightarrow> bool" where
  "day_ok leap r = (let month = (r + 50) div 32; before = before_month leap month in
     if r < before then before_month leap (month - 1) + (r - (before - month_length leap (month - 1)) + 1) = r + 1
     else before_month leap month + (r - before + 1) = r + 1)"

lemma month_cases: "1 \<le> m \<Longrightarrow> m \<le> 12 \<Longrightarrow> m \<in> {1, 2, 3, 4, 5, 6, 7, 8, 9, 10, 11, 12 :: int}"
  unfolding insert_iff empty_iff by presburger

lemma month_step: "2 \<le> m \<Longrightarrow> m \<le> 12 \<Longrightarrow> before_month leap (m - 1) + month_length leap (m - 1) = before_month leap m"
proof -
  assume "2 \<le> m" "m \<le> 12"
  then have "m \<in> {1, 2, 3, 4, 5, 6, 7, 8, 9, 10, 11, 12}" "m \<noteq> 1" using month_cases [of m] by simp_all
  then show ?thesis
    unfolding insert_iff empty_iff by (elim disjE) (simp_all add: before_month_def month_length_def)
qed

lemma day_ok:
  assumes "0 \<le> r" "r < (if leap then 366 else 365)"
  shows "day_ok leap r"
proof -
  have m: "1 \<le> (r + 50) div 32" "(r + 50) div 32 \<le> 12" using assms by (auto split: if_splits)
  show ?thesis
  proof (cases "(r + 50) div 32 = 1")
    case True
    then show ?thesis using assms(1) unfolding day_ok_def Let_def True by (simp add: before_month_def)
  next
    case False
    then show ?thesis using m month_step [of "(r + 50) div 32" leap] unfolding day_ok_def Let_def by simp
  qed
qed

text \<open>It yields a day of the month.\<close>

lemma day_valid:
  assumes "0 \<le> r" "r < (if leap then 366 else 365)" "m = (r + 50) div 32"
  shows "if r < before_month leap m
    then 1 \<le> m - 1 \<and> m - 1 \<le> 12 \<and> 1 \<le> r - (before_month leap m - month_length leap (m - 1)) + 1 \<and>
      r - (before_month leap m - month_length leap (m - 1)) + 1 \<le> month_length leap (m - 1)
    else 1 \<le> m \<and> m \<le> 12 \<and> 1 \<le> r - before_month leap m + 1 \<and> r - before_month leap m + 1 \<le> month_length leap m"
proof -
  have b: "32 * m \<le> r + 50" "r + 50 < 32 * m + 32" unfolding assms(3) by auto
  have l: "r < 366" using assms(2) by (auto split: if_splits)
  have "1 \<le> m" "m \<le> 12" using b l assms(1) by linarith+
  then have "m \<in> {1, 2, 3, 4, 5, 6, 7, 8, 9, 10, 11, 12}" by (rule month_cases)
  then show ?thesis
    using b assms(1,2) unfolding insert_iff empty_iff
    by (elim disjE) (simp_all add: before_month_def month_length_def split: if_splits)
qed

section \<open>Day numbers\<close>

lemma days_before_year_split:
  assumes "0 \<le> b" "b \<le> 3" "0 \<le> c" "c \<le> 24" "0 \<le> d" "d \<le> 3"
  shows "days_before_year (a * 400 + 1 + b * 100 + c * 4 + d) = 146097 * a + 36524 * b + 1461 * c + 365 * d"
proof -
  let ?p = "a * 400 + b * 100 + c * 4 + d"
  have "?p div 4 = a * 100 + b * 25 + c" "?p div 100 = a * 4 + b" "?p div 400 = a"
    using assms by simp_all
  moreover have "(a * 400 + 1 + b * 100 + c * 4 + d) - 1 = ?p" by simp
  ultimately show ?thesis unfolding days_before_year_def Let_def by (simp only:) simp
qed

lemma leap_years: "is_leap (a * 400 + 400)" "0 \<le> c \<Longrightarrow> c < 24 \<Longrightarrow> is_leap (a * 400 + b * 100 + c * 4 + 4)"
proof -
  have "a * 400 + 400 = 4 * (a * 100 + 100)" "a * 400 + 400 = 400 * (a + 1)" by simp_all
  then have "(a * 400 + 400) mod 4 = 0" "(a * 400 + 400) mod 400 = 0" by (metis mod_mult_self1_is_0)+
  then show "is_leap (a * 400 + 400)" by (simp add: is_leap_def)
  assume c: "0 \<le> c" "c < 24"
  let ?y = "a * 400 + b * 100 + c * 4 + 4"
  have "?y = 4 * (a * 100 + b * 25 + c + 1)" "?y = (c * 4 + 4) + 100 * (a * 4 + b)" by simp_all
  then have "?y mod 4 = 0" "?y mod 100 = (c * 4 + 4) mod 100" by (metis mod_mult_self1_is_0, metis mod_mult_self2)
  then show "is_leap ?y" using c by (simp add: is_leap_def)
qed

text \<open>The date of a day number.\<close>

lemma ord2ymd_parts:
  obtains a b c e r year where "n - 1 = 146097 * a + 36524 * b + 1461 * c + 365 * e + r" "year = a * 400 + 1 + b * 100 + c * 4 + e"
    "0 \<le> b" "b \<le> 4" "0 \<le> c" "c \<le> 24" "0 \<le> e" "e \<le> 4" "0 \<le> r" "r < 365" "b = 4 \<longrightarrow> c = 0 \<and> e = 0 \<and> r = 0"
    "e = 4 \<longrightarrow> r = 0 \<and> (b \<le> 3 \<longrightarrow> c < 24)" "146097 * a \<le> n - 1 \<and> n - 1 < 146097 * a + 146097"
    "ord2ymd n = (if e = 4 \<or> b = 4 then (year - 1, 12, 31)
     else (let month = (r + 50) div 32; before = days_before_month year month in
       if r < before then (year, month - 1, r - (before - days_in_month year (month - 1)) + 1)
       else (year, month, r - before + 1)))"
proof -
  define k where "k = n - 1"
  define a where "a = k div 146097" define r1 where "r1 = k mod 146097"
  define b where "b = r1 div 36524" define r2 where "r2 = r1 mod 36524"
  define c where "c = r2 div 1461" define r3 where "r3 = r2 mod 1461"
  define e where "e = r3 div 365" define r where "r = r3 mod 365"
  have k: "k = 146097 * a + r1" "r1 = 36524 * b + r2" "r2 = 1461 * c + r3" "r3 = 365 * e + r"
    unfolding a_def r1_def b_def r2_def c_def r3_def e_def r_def by (rule mult_div_mod_eq [symmetric])+
  have r1: "0 \<le> r1" "r1 < 146097" and r2: "0 \<le> r2" "r2 < 36524" and r3: "0 \<le> r3" "r3 < 1461" and r: "0 \<le> r" "r < 365"
    unfolding r1_def r2_def r3_def r_def by simp_all
  have bounds: "0 \<le> b" "b \<le> 4" "0 \<le> c" "c \<le> 24" "0 \<le> e" "e \<le> 4"
    using k r1 r2 r3 r by linarith+
  let ?year = "a * 400 + 1 + b * 100 + c * 4 + e"
  have ord: "ord2ymd n = (if e = 4 \<or> b = 4 then (?year - 1, 12, 31)
     else (let month = (r + 50) div 32; before = days_before_month ?year month in
       if r < before then (?year, month - 1, r - (before - days_in_month ?year (month - 1)) + 1)
       else (?year, month, r - before + 1)))"
    unfolding ord2ymd_def Let_def k_def [symmetric] a_def [symmetric] r1_def [symmetric] b_def [symmetric] r2_def [symmetric]
      c_def [symmetric] r3_def [symmetric] e_def [symmetric] r_def [symmetric] ..
  have four: "b = 4 \<longrightarrow> c = 0 \<and> e = 0 \<and> r = 0"
    using k r1 r2 r3 r bounds by linarith
  have leap: "e = 4 \<longrightarrow> r = 0 \<and> (b \<le> 3 \<longrightarrow> c < 24)"
    using k r1 r2 r3 r bounds by linarith
  show ?thesis
    by (rule that [OF _ refl bounds r four leap _ ord]) (use k r1 in \<open>simp_all add: k_def\<close>)
qed

lemma ymd2ord_ord2ymd:
  assumes "ord2ymd n = (y, m, d)"
  shows "ymd2ord y m d = n"
proof -
  obtain a b c e r where p: "n - 1 = 146097 * a + 36524 * b + 1461 * c + 365 * e + r"
    and bounds: "0 \<le> b" "b \<le> 4" "0 \<le> c" "c \<le> 24" "0 \<le> e" "e \<le> 4" and r: "0 \<le> r" "r < 365"
    and four: "b = 4 \<longrightarrow> c = 0 \<and> e = 0 \<and> r = 0" and leap: "e = 4 \<longrightarrow> r = 0 \<and> (b \<le> 3 \<longrightarrow> c < 24)"
    and ord: "ord2ymd n = (if e = 4 \<or> b = 4 then (a * 400 + 1 + b * 100 + c * 4 + e - 1, 12, 31)
     else (let month = (r + 50) div 32; before = days_before_month (a * 400 + 1 + b * 100 + c * 4 + e) month in
       if r < before then (a * 400 + 1 + b * 100 + c * 4 + e, month - 1, r - (before - days_in_month (a * 400 + 1 + b * 100 + c * 4 + e) (month - 1)) + 1)
       else (a * 400 + 1 + b * 100 + c * 4 + e, month, r - before + 1)))"
    using ord2ymd_parts [of n] by metis
  let ?year = "a * 400 + 1 + b * 100 + c * 4 + e"
  show ?thesis
  proof (cases "e = 4 \<or> b = 4")
    case True
    then have date: "y = ?year - 1" "m = 12" "d = 31" using assms ord by auto
    show ?thesis
    proof (cases "b = 4")
      case True
      then have z: "c = 0" "e = 0" "r = 0" using four by auto
      have "y = a * 400 + 400" using date(1) True z by simp
      moreover have "days_before_year (a * 400 + 400) = 146097 * a + 145731"
        using days_before_year_split [of 3 24 3 a] by (simp add: algebra_simps)
      ultimately have "ymd2ord y m d = 146097 * a + 145731 + 366"
        using leap_years(1) [of a] by (simp add: ymd2ord_def before_month before_month_def date(2,3))
      then show ?thesis using p z True by simp
    next
      case False
      then have e: "e = 4" "b \<le> 3" using \<open>e = 4 \<or> b = 4\<close> bounds by auto
      have z: "r = 0" "c < 24" using leap e by auto
      have "y = a * 400 + b * 100 + c * 4 + 4" using date(1) e by simp
      moreover have "days_before_year (a * 400 + b * 100 + c * 4 + 4) = 146097 * a + 36524 * b + 1461 * c + 365 * 3"
        using days_before_year_split [OF bounds(1) e(2) bounds(3,4), of 3 a] by (simp add: algebra_simps)
      ultimately have "ymd2ord y m d = 146097 * a + 36524 * b + 1461 * c + 365 * 3 + 366"
        using leap_years(2) [OF bounds(3) z(2), of a b] by (simp add: ymd2ord_def before_month before_month_def date(2,3))
      then show ?thesis using p e z by simp
    qed
  next
    case False
    then have b3: "b \<le> 3" "e \<le> 3" using bounds by auto
    note year = days_before_year_split [OF bounds(1) b3(1) bounds(3,4,5) b3(2), of a]
    have lt: "r < (if is_leap ?year then 366 else 365)" using r by simp
    have ok: "day_ok (is_leap ?year) r" by (rule day_ok [OF r(1) lt])
    have "days_before_month y m + d = r + 1" "y = ?year"
      using ok assms ord False by (auto simp: day_ok_def before_month month_length Let_def split: if_splits)
    then have "ymd2ord y m d = 146097 * a + 36524 * b + 1461 * c + 365 * e + (r + 1)"
      by (simp add: ymd2ord_def year)
    then show ?thesis using p by simp
  qed
qed

lemma ord2ymd_valid:
  assumes "ord2ymd n = (y, m, d)" "1 \<le> n" "n \<le> 3652059"
  shows "1 \<le> y \<and> y \<le> 9999 \<and> 1 \<le> m \<and> m \<le> 12 \<and> 1 \<le> d \<and> d \<le> days_in_month y m"
proof -
  obtain a b c e r year where p: "n - 1 = 146097 * a + 36524 * b + 1461 * c + 365 * e + r" and year: "year = a * 400 + 1 + b * 100 + c * 4 + e"
    and bounds: "0 \<le> b" "b \<le> 4" "0 \<le> c" "c \<le> 24" "0 \<le> e" "e \<le> 4" and r: "0 \<le> r" "r < 365"
    and total: "146097 * a \<le> n - 1 \<and> n - 1 < 146097 * a + 146097"
    and ord: "ord2ymd n = (if e = 4 \<or> b = 4 then (year - 1, 12, 31)
     else (let month = (r + 50) div 32; before = days_before_month year month in
       if r < before then (year, month - 1, r - (before - days_in_month year (month - 1)) + 1)
       else (year, month, r - before + 1)))"
    by (rule ord2ymd_parts [of n]) (rule that, assumption+)
  have a: "0 \<le> a" "a \<le> 24" using total assms(2,3) by linarith+
  have hi: "year \<le> (if e = 4 \<or> b = 4 then 10000 else 9999)"
  proof (cases "a = 24 \<and> b = 3 \<and> c = 24")
    case True
    then have "e \<le> 2" using p r assms(3) by linarith
    then show ?thesis using True year by simp
  next
    case False
    have "a \<le> 23 \<or> b \<le> 3" using p bounds r assms(3) a by linarith
    with False have "a \<le> 23 \<or> b \<le> 2 \<or> c \<le> 23" using bounds a by linarith
    moreover have "b \<le> 3 \<or> a \<le> 23" using \<open>a \<le> 23 \<or> b \<le> 3\<close> by blast
    ultimately have "year \<le> 9999" using year bounds a by linarith
    then show ?thesis by simp
  qed
  have lo: "1 \<le> year" "e = 4 \<or> b = 4 \<Longrightarrow> 2 \<le> year" using year bounds a by auto
  show ?thesis
  proof (cases "e = 4 \<or> b = 4")
    case True
    then show ?thesis using assms(1) ord hi lo(2) [OF True] by (auto simp: days_in_month_def)
  next
    case False
    have "r < (if is_leap year then 366 else 365)" using r by simp
    from day_valid [OF r(1) this refl] False assms(1) ord hi lo(1) show ?thesis
      by (auto simp: before_month month_length Let_def split: if_splits)
  qed
qed

section \<open>Subtraction\<close>

lemma split_units:
  fixes t :: int
  shows "((((t div 1000000 div 60 div 60 div 24) * 24 + t div 1000000 div 60 div 60 mod 24) * 60
     + t div 1000000 div 60 mod 60) * 60 + t div 1000000 mod 60) * 1000000 + t mod 1000000 = t"
  by (simp only: div_mult_mod_eq)

lemma dt_minus_minutes_wall:
  assumes "dt_minus_minutes d k = Inr d'"
  shows "dt_wall d' = dt_wall d - k * 60000000 \<and> dt_offset d' = dt_offset d"
proof -
  define t where "t = dt_wall d - k * 60000000"
  obtain y m dd where o: "ord2ymd (t div 1000000 div 60 div 60 div 24) = (y, m, dd)" by (metis prod_cases3)
  have "d' = \<lparr>dt_year = y, dt_month = m, dt_day = dd, dt_hour = t div 1000000 div 60 div 60 mod 24,
      dt_minute = t div 1000000 div 60 mod 60, dt_second = t div 1000000 mod 60, dt_micro = t mod 1000000, dt_offset = dt_offset d\<rparr>"
    using assms o unfolding dt_minus_minutes_def Let_def t_def [symmetric] by (simp split: if_splits)
  then have "dt_wall d' = t \<and> dt_offset d' = dt_offset d"
    using split_units [of t] by (simp only: dt_wall_def datetime.simps ymd2ord_ord2ymd [OF o] simp_thms)
  then show ?thesis by (simp add: t_def)
qed

lemma ymd2ord_bounds:
  assumes "valid_datetime d" "2 \<le> dt_year d" "dt_year d \<le> 9998"
  shows "364 \<le> ymd2ord (dt_year d) (dt_month d) (dt_day d)" "ymd2ord (dt_year d) (dt_month d) (dt_day d) \<le> 3652059"
proof -
  have "dt_month d \<in> {1, 2, 3, 4, 5, 6, 7, 8, 9, 10, 11, 12}" 
    by (rule month_cases) (use assms(1) in \<open>simp_all add: valid_datetime_def\<close>)
  then have "0 \<le> days_before_month (dt_year d) (dt_month d) \<and> days_before_month (dt_year d) (dt_month d) \<le> 335"
    by (elim insertE emptyE) (simp_all add: days_before_month_def)
  moreover have "1 \<le> dt_day d \<and> dt_day d \<le> 31" using assms(1) by (auto simp: valid_datetime_def days_in_month_def split: if_splits)
  moreover have "363 \<le> days_before_year (dt_year d)" "days_before_year (dt_year d) \<le> 3651400"
  proof -
    define p where "p = dt_year d - 1"
    have "4 * (p div 4) + p mod 4 = p" "100 * (p div 100) + p mod 100 = p" "400 * (p div 400) + p mod 400 = p" by simp_all
    moreover have "0 \<le> p mod 4" "p mod 4 < 4" "0 \<le> p mod 100" "p mod 100 < 100" "0 \<le> p mod 400" "p mod 400 < 400" by simp_all
    moreover have "1 \<le> p" "p \<le> 9997" using assms(2,3) by (simp_all add: p_def)
    ultimately show "363 \<le> days_before_year (dt_year d)" "days_before_year (dt_year d) \<le> 3651400"
      unfolding days_before_year_def Let_def p_def [symmetric] by linarith+
  qed
  ultimately show "364 \<le> ymd2ord (dt_year d) (dt_month d) (dt_day d)" "ymd2ord (dt_year d) (dt_month d) (dt_day d) \<le> 3652059"
    unfolding ymd2ord_def by linarith+
qed

text \<open>Within the years 2 to 9998, taking off up to a day does not leave the calendar.\<close>

lemma dt_minus_minutes_total:
  assumes "valid_datetime d" "2 \<le> dt_year d" "dt_year d \<le> 9998" "0 \<le> k" "k \<le> 1440"
  obtains d' where "dt_minus_minutes d k = Inr d'"
proof -
  define t where "t = dt_wall d - k * 60000000"
  let ?o = "ymd2ord (dt_year d) (dt_month d) (dt_day d)"
  have "dt_wall d = ?o * 86400000000 + (dt_hour d * 3600000000 + dt_minute d * 60000000 + dt_second d * 1000000 + dt_micro d)"
    unfolding dt_wall_def by (simp add: algebra_simps)
  moreover have "0 \<le> dt_hour d * 3600000000 + dt_minute d * 60000000 + dt_second d * 1000000 + dt_micro d"
    "dt_hour d * 3600000000 + dt_minute d * 60000000 + dt_second d * 1000000 + dt_micro d < 86400000000"
    using assms(1) unfolding valid_datetime_def by linarith+
  ultimately have "86400000000 \<le> t" "t < 3652060 * 86400000000"
    unfolding t_def using ymd2ord_bounds [OF assms(1-3)] assms(4,5) by linarith+
  then have "1 \<le> t div 86400000000" "t div 86400000000 \<le> 3652059" by linarith+
  moreover have "t div 1000000 div 60 div 60 div 24 = t div 86400000000" by (simp add: zdiv_zmult2_eq [symmetric])
  ultimately have n: "\<not> (t div 1000000 div 60 div 60 div 24 < 1 \<or> 3652059 < t div 1000000 div 60 div 60 div 24)" by linarith
  obtain y m dd where o: "ord2ymd (t div 1000000 div 60 div 60 div 24) = (y, m, dd)" by (metis prod_cases3)
  show ?thesis
    by (rule that) (simp only: dt_minus_minutes_def Let_def t_def [symmetric] o prod.case n if_False)
qed

lemma minute_window:
  assumes "dt_minus_minutes d k = Inr d'" "0 \<le> k"
  shows "dt_less d d' = Inr False"
  using dt_minus_minutes_wall [OF assms(1)] assms(2) by (auto simp: dt_less_def split: option.split)

lemma dt_minus_minutes_valid:
  assumes "dt_minus_minutes d k = Inr d'" "valid_datetime d"
  shows "valid_datetime d'"
proof -
  define t where "t = dt_wall d - k * 60000000"
  let ?n = "t div 1000000 div 60 div 60 div 24"
  obtain y m dd where o: "ord2ymd ?n = (y, m, dd)" by (metis prod_cases3)
  have d': "d' = \<lparr>dt_year = y, dt_month = m, dt_day = dd, dt_hour = t div 1000000 div 60 div 60 mod 24,
      dt_minute = t div 1000000 div 60 mod 60, dt_second = t div 1000000 mod 60, dt_micro = t mod 1000000, dt_offset = dt_offset d\<rparr>"
    "1 \<le> ?n" "?n \<le> 3652059"
    using assms(1) o unfolding dt_minus_minutes_def Let_def t_def [symmetric] by (simp_all split: if_splits)
  have bounds: "0 \<le> x mod 24 \<and> x mod 24 < 24" "0 \<le> x mod 60 \<and> x mod 60 < 60" "0 \<le> x mod 1000000 \<and> x mod 1000000 < 1000000" for x :: int
    by simp_all
  have off: "case dt_offset d of None \<Rightarrow> True | Some z \<Rightarrow> - 1440 < z \<and> z < 1440"
    using assms(2) by (simp only: valid_datetime_def)
  show ?thesis
    unfolding valid_datetime_def d'(1) using ord2ymd_valid [OF o d'(2,3)] bounds off by (simp only: datetime.simps simp_thms)
qed

end
