(* ===== verification/EdgeNodes.thy ===== *)
theory EdgeNodes
  imports Simulator FaultInjection Calendar
begin

text \<open>
  \<open>edge_nodes/\<close>: the three edges, each reading one sensor of a snapshot, the passive relay
  that carries their payloads, and the local views they rebuild. All edges share one relay,
  as in the live runtime on the passive transport; a callback is the position of its edge in
  the network. An operation that raises has no final state here. The invariant
  \<open>network_inv\<close> says that every edge holds the view of the published messages.
\<close>

section \<open>Devices\<close>

record edge_device_config =
  dc_edge_id :: string
  dc_gateway_id :: string
  dc_sensor_name :: string
  dc_tag :: string
  dc_long_tag :: string
  dc_manufacturer_id :: int
  dc_device_type :: int
  dc_unit :: string
  dc_unit_code :: "int option"
  dc_sensor_range :: sensor_range

definition EDGE_DEVICE_CONFIGS :: "(string, edge_device_config) dict" where
  "EDGE_DEVICE_CONFIGS = [
     (''edge-1'', \<lparr>dc_edge_id = ''edge-1'', dc_gateway_id = ''GW-EDGE-01'', dc_sensor_name = ''temperature'',
        dc_tag = ''TIT-101'', dc_long_tag = ''Temperature_Compressor_Casing'', dc_manufacturer_id = 26, dc_device_type = 33,
        dc_unit = ''degC'', dc_unit_code = Some 32, dc_sensor_range = cp_temperature DEFAULT_COMPRESSOR_PROFILE\<rparr>),
     (''edge-2'', \<lparr>dc_edge_id = ''edge-2'', dc_gateway_id = ''GW-EDGE-02'', dc_sensor_name = ''pressure'',
        dc_tag = ''PIT-101'', dc_long_tag = ''Pressure_Compressor_Discharge'', dc_manufacturer_id = 38, dc_device_type = 44,
        dc_unit = ''bar'', dc_unit_code = Some 7, dc_sensor_range = cp_pressure DEFAULT_COMPRESSOR_PROFILE\<rparr>),
     (''edge-3'', \<lparr>dc_edge_id = ''edge-3'', dc_gateway_id = ''GW-EDGE-03'', dc_sensor_name = ''rpm'',
        dc_tag = ''RIT-101'', dc_long_tag = ''Speed_Compressor_Shaft'', dc_manufacturer_id = 55, dc_device_type = 52,
        dc_unit = ''rpm'', dc_unit_code = None, dc_sensor_range = cp_rpm DEFAULT_COMPRESSOR_PROFILE\<rparr>)]"

section \<open>The local view\<close>

definition SENSOR_BY_TAG_PREFIX :: "(string, string) dict" where
  "SENSOR_BY_TAG_PREFIX = [(''T'', ''temperature''), (''P'', ''pressure''), (''R'', ''rpm'')]"

definition infer_sensor_name :: "raw_hart_payload \<Rightarrow> string res" where
  "infer_sensor_name p = getitem SENSOR_BY_TAG_PREFIX (map upper_char (take 1 (di_tag (hp_device_info p))))"

type_synonym view = "(string, raw_hart_payload) dict"

definition update_from_payload :: "raw_hart_payload \<Rightarrow> view \<Rightarrow> view res" where
  "update_from_payload p v = attempt (infer_sensor_name p) (\<lambda>name. Inr (AList.update name p v))"

definition view_to_dict :: "string \<Rightarrow> view \<Rightarrow> pyval" where
  "view_to_dict owner v = PDict [(''state_type'', PStr ''edge_local_replicated_state''), (''owner_edge_id'', PStr owner),
     (''is_validated'', PBool False),
     (''is_complete'', PBool (list_all (\<lambda>s. s \<in> fst ` set v) [''temperature'', ''pressure'', ''rpm''])),
     (''sensor_values'', PDict (map (\<lambda>(name, p). (name, PFloat (pv_value (pd_pv (hp_process_data p))))) v))]"

section \<open>Acquisition\<close>

record edge_runtime_context =
  rt_acquisition_count :: int
  rt_previous_pv :: "flt option"
  rt_last_payload_timestamp :: "string option"
  rt_published_observation_count :: int
  rt_peer_observation_count :: int
  rt_observation_flow_log :: "pyval list"

record edge_service =
  ed_device_config :: edge_device_config
  ed_simulator :: simulator
  ed_runtime :: edge_runtime_context
  ed_attached :: bool
  ed_observations :: view

definition init_edge_service :: "edge_device_config \<Rightarrow> simulator option \<Rightarrow> edge_service" where
  "init_edge_service cfg sim = \<lparr>ed_device_config = cfg,
     ed_simulator = (case sim of Some s \<Rightarrow> s | None \<Rightarrow> init_simulator None),
     ed_runtime = \<lparr>rt_acquisition_count = 0, rt_previous_pv = None, rt_last_payload_timestamp = None,
       rt_published_observation_count = 0, rt_peer_observation_count = 0, rt_observation_flow_log = []\<rparr>,
     ed_attached = False, ed_observations = []\<rparr>"

definition edge_id :: "edge_service \<Rightarrow> string" where
  "edge_id e = dc_edge_id (ed_device_config e)"

definition log_event :: "pyval list \<Rightarrow> edge_service \<Rightarrow> edge_service" where
  "log_event evs e = e\<lparr>ed_runtime := (ed_runtime e)\<lparr>rt_observation_flow_log := rt_observation_flow_log (ed_runtime e) @ evs\<rparr>\<rparr>"

definition stability_score :: "flt \<Rightarrow> flt \<Rightarrow> flt" where
  "stability_score rate noise_floor = (let score = fsub 1 (py_min (dec 95 2)
       (fadd (fmul \<bar>rate\<bar> (dec 15 3)) (fmul noise_floor (dec 1 1)))) in
     py_round 3 (py_max 0 score))"

text \<open>The three events logged before the payload is built.\<close>

definition acquisition_events :: "edge_device_config \<Rightarrow> simulation_snapshot \<Rightarrow> transmitter_observation \<Rightarrow> pyval list" where
  "acquisition_events cfg reading t =
     [PDict [(''stage'', PStr ''process_state_generation''), (''edge_id'', PStr (dc_edge_id cfg)),
        (''sensor_name'', PStr (dc_sensor_name cfg)), (''operating_state_pct'', PFloat (sp_operating_state_pct reading)),
        (''hidden_process_state'', case map_of (sp_metadata reading) ''hidden_process_state'' of None \<Rightarrow> PNone | Some v \<Rightarrow> v)],
      PDict [(''stage'', PStr ''sensor_generation''), (''edge_id'', PStr (dc_edge_id cfg)),
        (''sensor_name'', PStr (dc_sensor_name cfg)), (''operating_state_pct'', PFloat (sp_operating_state_pct reading)),
        (''value'', PFloat (tv_value (to_pv t)))],
      PDict [(''stage'', PStr ''transmitter_observation''), (''edge_id'', PStr (dc_edge_id cfg)),
        (''sensor_name'', PStr (dc_sensor_name cfg)), (''observation'', observation_to_dict t)]]"

definition payload_secondary_variable :: "transmitter_variable option \<Rightarrow> process_variable option" where
  "payload_secondary_variable v = (case v of None \<Rightarrow> None | Some t \<Rightarrow>
     Some \<lparr>pv_value = tv_value t, pv_unit = tv_unit t, pv_unit_code = tv_unit_code t, pv_description = tv_description t\<rparr>)"

definition read_noise_floor :: "simulation_snapshot \<Rightarrow> flt res" where
  "read_noise_floor reading = attempt (to_float (case map_of (sp_metadata reading) ''noise_level'' of None \<Rightarrow> PFloat 0 | Some v \<Rightarrow> v))
     (\<lambda>x. Inr (py_round 3 x))"

definition rate_of_change :: "flt option \<Rightarrow> flt \<Rightarrow> flt" where
  "rate_of_change prev v = (case prev of None \<Rightarrow> 0 | Some p \<Rightarrow> py_round 3 (fsub v p))"

definition payload_of :: "edge_service \<Rightarrow> datetime \<Rightarrow> transmitter_observation \<Rightarrow> flt \<Rightarrow> raw_hart_payload" where
  "payload_of e now t noise_floor = (let cfg = ed_device_config e; v = py_round 3 (tv_value (to_pv t));
       rate = rate_of_change (rt_previous_pv (ed_runtime e)) v in
     \<lparr>hp_protocol = ''HART'', hp_gateway_id = dc_gateway_id cfg, hp_timestamp = isoformat_us now,
       hp_device_info = \<lparr>di_tag = dc_tag cfg, di_long_tag = dc_long_tag cfg, di_manufacturer_id = dc_manufacturer_id cfg,
         di_device_type = dc_device_type cfg\<rparr>,
       hp_process_data = \<lparr>pd_pv = \<lparr>pv_value = v, pv_unit = tv_unit (to_pv t), pv_unit_code = tv_unit_code (to_pv t),
           pv_description = tv_description (to_pv t)\<rparr>,
         pd_sv = payload_secondary_variable (to_sv t), pd_loop_current_ma = to_loop_current_ma t,
         pd_pv_percent_range = to_pv_percent_range t,
         pd_physics_metrics = \<lparr>pm_noise_floor = noise_floor, pm_rate_of_change_dtdt = rate,
           pm_local_stability_score = stability_score rate noise_floor\<rparr>\<rparr>,
       hp_diagnostics = \<lparr>dg_device_status_hex = td_device_status_hex (to_diagnostics t),
         dg_field_device_malfunction = td_field_device_malfunction (to_diagnostics t),
         dg_loop_current_saturated = td_loop_current_saturated (to_diagnostics t),
         dg_cold_start = (rt_acquisition_count (ed_runtime e) = 0)\<rparr>\<rparr>)"

definition acquired :: "edge_service \<Rightarrow> raw_hart_payload \<Rightarrow> pyval list \<Rightarrow> edge_service" where
  "acquired e p evs = log_event (evs @ [PDict [(''stage'', PStr ''local_edge_acquisition''), (''edge_id'', PStr (edge_id e)),
        (''sensor_name'', PStr (dc_sensor_name (ed_device_config e))), (''payload_timestamp'', PStr (hp_timestamp p)),
        (''pv_value'', PFloat (pv_value (pd_pv (hp_process_data p)))), (''sv_present'', PBool (pd_sv (hp_process_data p) \<noteq> None))]])
     (e\<lparr>ed_runtime := (ed_runtime e)\<lparr>rt_acquisition_count := rt_acquisition_count (ed_runtime e) + 1,
        rt_previous_pv := Some (pv_value (pd_pv (hp_process_data p))), rt_last_payload_timestamp := Some (hp_timestamp p)\<rparr>\<rparr>)"

definition edge_acquire :: "(nat \<Rightarrow> flt) \<Rightarrow> datetime \<Rightarrow> simulation_snapshot option \<Rightarrow> flt option \<Rightarrow> flt option \<Rightarrow>
    edge_service \<Rightarrow> (raw_hart_payload \<times> edge_service) res" where
  "edge_acquire rng now snapshot state pw e = attempt (case snapshot of Some s \<Rightarrow> Inr (s, ed_simulator e)
       | None \<Rightarrow> simulator_step rng state pw (ed_simulator e)) (\<lambda>(reading, sim).
     attempt (getitem (sp_transmitter_observations reading) (dc_sensor_name (ed_device_config e))) (\<lambda>t.
     attempt (read_noise_floor reading) (\<lambda>noise.
       let p = payload_of e now t noise in
       Inr (p, acquired (e\<lparr>ed_simulator := sim\<rparr>) p (acquisition_events (ed_device_config e) reading t)))))"

section \<open>The passive relay\<close>

record relay_message =
  rm_topic :: string
  rm_publisher_id :: string
  rm_payload :: raw_hart_payload

record passive_relay =
  rl_subscribers :: "(string, (string \<times> nat) list) dict"
  rl_messages :: "relay_message list"

record edge_network =
  nw_edges :: "edge_service list"
  nw_relay :: passive_relay

definition init_relay :: passive_relay where
  "init_relay = \<lparr>rl_subscribers = [], rl_messages = []\<rparr>"

definition subscribers_of :: "passive_relay \<Rightarrow> string \<Rightarrow> (string \<times> nat) list" where
  "subscribers_of r topic = (case map_of (rl_subscribers r) topic of None \<Rightarrow> [] | Some ss \<Rightarrow> ss)"

definition relay_subscribe :: "string \<Rightarrow> string \<Rightarrow> nat \<Rightarrow> passive_relay \<Rightarrow> passive_relay" where
  "relay_subscribe topic subscriber_id callback r =
     r\<lparr>rl_subscribers := AList.update topic (subscribers_of r topic @ [(subscriber_id, callback)]) (rl_subscribers r)\<rparr>"

definition attach_transport :: "string \<Rightarrow> nat \<Rightarrow> edge_network \<Rightarrow> edge_network" where
  "attach_transport topic i nw = nw\<lparr>nw_edges := (nw_edges nw)[i := (nw_edges nw ! i)\<lparr>ed_attached := True\<rparr>],
     nw_relay := relay_subscribe topic (edge_id (nw_edges nw ! i)) i (nw_relay nw)\<rparr>"

definition view_event :: "edge_service \<Rightarrow> pyval" where
  "view_event e = PDict [(''stage'', PStr ''edge_local_replicated_state''), (''edge_id'', PStr (edge_id e)),
     (''state'', view_to_dict (edge_id e) (ed_observations e))]"

definition consume_peer_observation :: "string \<Rightarrow> raw_hart_payload \<Rightarrow> edge_service \<Rightarrow> edge_service res" where
  "consume_peer_observation publisher p e = attempt (update_from_payload p (ed_observations e)) (\<lambda>v.
     let e1 = e\<lparr>ed_observations := v, ed_runtime := (ed_runtime e)\<lparr>rt_peer_observation_count :=
       rt_peer_observation_count (ed_runtime e) + 1\<rparr>\<rparr> in
     Inr (log_event [PDict [(''stage'', PStr ''mqtt_consumption''), (''edge_id'', PStr (edge_id e)),
         (''publisher_id'', PStr publisher), (''source_tag'', PStr (di_tag (hp_device_info p))),
         (''payload_timestamp'', PStr (hp_timestamp p))], view_event e1] e1))"

fun relay_deliver :: "string \<Rightarrow> raw_hart_payload \<Rightarrow> (string \<times> nat) list \<Rightarrow> edge_service list \<Rightarrow> edge_service list res" where
  "relay_deliver publisher p [] edges = Inr edges"
| "relay_deliver publisher p ((subscriber, i) # subs) edges =
     (if subscriber = publisher then relay_deliver publisher p subs edges
      else attempt (consume_peer_observation publisher p (edges ! i)) (\<lambda>e. relay_deliver publisher p subs (edges[i := e])))"

definition relay_publish :: "string \<Rightarrow> string \<Rightarrow> raw_hart_payload \<Rightarrow> edge_network \<Rightarrow> edge_network res" where
  "relay_publish topic publisher p nw = (let r = nw_relay nw in
     attempt (relay_deliver publisher p (subscribers_of r topic) (nw_edges nw)) (\<lambda>edges.
       Inr (nw\<lparr>nw_edges := edges, nw_relay := r\<lparr>rl_messages := rl_messages r @
         [\<lparr>rm_topic = topic, rm_publisher_id = publisher, rm_payload = p\<rparr>]\<rparr>\<rparr>)))"

definition publish_local_observation :: "string \<Rightarrow> raw_hart_payload \<Rightarrow> nat \<Rightarrow> edge_network \<Rightarrow> edge_network res" where
  "publish_local_observation topic p i nw = (let e = nw_edges nw ! i in
     attempt (update_from_payload p (ed_observations e)) (\<lambda>v.
       let e1 = e\<lparr>ed_observations := v, ed_runtime := (ed_runtime e)\<lparr>rt_published_observation_count :=
             rt_published_observation_count (ed_runtime e) + 1\<rparr>\<rparr>;
           e2 = log_event [view_event e1] e1 in
       if \<not> ed_attached e2 then Inl (RuntimeError ''MQTT transport must be attached before publishing observations.'')
       else attempt (relay_publish topic (edge_id e) p (nw\<lparr>nw_edges := (nw_edges nw)[i := e2]\<rparr>)) (\<lambda>nw1.
         Inr (nw1\<lparr>nw_edges := (nw_edges nw1)[i := log_event [PDict [(''stage'', PStr ''mqtt_publication''),
           (''edge_id'', PStr (edge_id e)), (''topic'', PStr topic), (''payload_timestamp'', PStr (hp_timestamp p))]]
             (nw_edges nw1 ! i)]\<rparr>))))"

section \<open>Reading an edge\<close>

definition replicated_state_contract :: "round_identity \<Rightarrow> string list \<Rightarrow> edge_service \<Rightarrow> replicated_state res" where
  "replicated_state_contract r edges e = mk_EdgeLocalReplicatedState r (edge_id e) edges (ed_observations e) False"

definition consensus_round_identity :: "edge_service \<Rightarrow> round_identity res" where
  "consensus_round_identity e = (case rt_last_payload_timestamp (ed_runtime e) of
     None \<Rightarrow> Inl (RuntimeError ''At least one acquisition is required before building a round.'')
   | Some ts \<Rightarrow> attempt (fromisoformat (replace_all ''Z'' ''+00:00'' ts)) (\<lambda>ended.
       attempt (dt_minus_minutes ended 1) (\<lambda>started.
         mk_RoundIdentity (''round-'' @ strftime_compact ended) started ended)))"

definition runtime_state :: "edge_service \<Rightarrow> pyval" where
  "runtime_state e = (let r = ed_runtime e in PDict [(''edge_id'', PStr (edge_id e)),
     (''sensor_name'', PStr (dc_sensor_name (ed_device_config e))), (''acquisition_count'', PInt (rt_acquisition_count r)),
     (''last_payload_timestamp'', opt_str (rt_last_payload_timestamp r)),
     (''published_observation_count'', PInt (rt_published_observation_count r)),
     (''peer_observation_count'', PInt (rt_peer_observation_count r))])"

definition local_replicated_state :: "edge_service \<Rightarrow> pyval" where
  "local_replicated_state e = view_to_dict (edge_id e) (ed_observations e)"

definition build_consensus_round_input :: "edge_service list \<Rightarrow> consensus_round_input res" where
  "build_consensus_round_input edges = (let participating = map edge_id edges in
     attempt (case edges of [] \<Rightarrow> Inl IndexError | e # _ \<Rightarrow> consensus_round_identity e) (\<lambda>r.
     attempt (mapM (replicated_state_contract r participating) edges) (\<lambda>states.
       mk_ConsensusRoundInput r participating states)))"

section \<open>Deliveries\<close>

lemma infer_names: "infer_sensor_name p = Inr n \<Longrightarrow> n \<in> set consensus_sensors"
  by (auto simp: infer_sensor_name_def getitem_Inr SENSOR_BY_TAG_PREFIX_def consensus_sensors_def split: if_splits)

text \<open>An edge after a peer's payload of the sensor \<open>n\<close>.\<close>

definition received :: "string \<Rightarrow> raw_hart_payload \<Rightarrow> string \<Rightarrow> edge_service \<Rightarrow> edge_service" where
  "received publisher p n e = projr (consume_peer_observation publisher p e)"

lemma consume_received: "infer_sensor_name p = Inr n \<Longrightarrow> consume_peer_observation publisher p e = Inr (received publisher p n e)"
  by (simp add: received_def consume_peer_observation_def update_from_payload_def Let_def)

lemma edge_fields [simp]:
  "edge_id (log_event evs e) = edge_id e" "ed_device_config (log_event evs e) = ed_device_config e"
  "ed_attached (log_event evs e) = ed_attached e" "ed_observations (log_event evs e) = ed_observations e"
  "rt_published_observation_count (ed_runtime (log_event evs e)) = rt_published_observation_count (ed_runtime e)"
  "rt_peer_observation_count (ed_runtime (log_event evs e)) = rt_peer_observation_count (ed_runtime e)"
  "rt_acquisition_count (ed_runtime (log_event evs e)) = rt_acquisition_count (ed_runtime e)"
  "rt_last_payload_timestamp (ed_runtime (log_event evs e)) = rt_last_payload_timestamp (ed_runtime e)"
  by (simp_all add: log_event_def edge_id_def)

lemma received_fields:
  assumes "infer_sensor_name p = Inr n"
  shows "ed_device_config (received publisher p n e) = ed_device_config e" "ed_attached (received publisher p n e) = ed_attached e"
    "ed_observations (received publisher p n e) = AList.update n p (ed_observations e)"
    "rt_published_observation_count (ed_runtime (received publisher p n e)) = rt_published_observation_count (ed_runtime e)"
    "rt_peer_observation_count (ed_runtime (received publisher p n e)) = rt_peer_observation_count (ed_runtime e) + 1"
    "rt_last_payload_timestamp (ed_runtime (received publisher p n e)) = rt_last_payload_timestamp (ed_runtime e)"
  using assms by (simp_all add: received_def consume_peer_observation_def update_from_payload_def Let_def)

lemma acquired_fields:
  "ed_device_config (acquired e p evs) = ed_device_config e" "ed_attached (acquired e p evs) = ed_attached e"
  "ed_observations (acquired e p evs) = ed_observations e"
  "rt_published_observation_count (ed_runtime (acquired e p evs)) = rt_published_observation_count (ed_runtime e)"
  "rt_peer_observation_count (ed_runtime (acquired e p evs)) = rt_peer_observation_count (ed_runtime e)"
  "rt_last_payload_timestamp (ed_runtime (acquired e p evs)) = Some (hp_timestamp p)"
  by (simp_all add: acquired_def)

lemma deliver_spec:
  assumes "infer_sensor_name p = Inr n" "distinct (map snd subs)" "\<forall>(s, j) \<in> set subs. j < length edges"
  obtains edges' where "relay_deliver publisher p subs edges = Inr edges'" "length edges' = length edges"
    "\<And>j. j < length edges \<Longrightarrow> edges' ! j = (if \<exists>s. (s, j) \<in> set subs \<and> s \<noteq> publisher then received publisher p n (edges ! j) else edges ! j)"
proof -
  have "\<exists>edges'. relay_deliver publisher p subs edges = Inr edges' \<and> length edges' = length edges \<and>
    (\<forall>j < length edges. edges' ! j = (if \<exists>s. (s, j) \<in> set subs \<and> s \<noteq> publisher then received publisher p n (edges ! j) else edges ! j))"
    using assms(2,3)
  proof (induction subs arbitrary: edges)
    case (Cons sj subs)
    obtain s j where sj: "sj = (s, j)" by force
    let ?edges = "if s = publisher then edges else edges[j := received publisher p n (edges ! j)]"
    have len: "length ?edges = length edges" by simp
    have "distinct (map snd subs)" "\<forall>(s, i) \<in> set subs. i < length ?edges"
      unfolding len using Cons.prems by (auto simp: sj)
    from Cons.IH [OF this]
    obtain edges' where e: "relay_deliver publisher p subs ?edges = Inr edges'" "length edges' = length ?edges"
      "\<forall>i < length ?edges. edges' ! i = (if \<exists>s. (s, i) \<in> set subs \<and> s \<noteq> publisher then received publisher p n (?edges ! i) else ?edges ! i)"
      by (elim exE conjE)
    have other: "\<nexists>s. (s, j) \<in> set subs" using Cons.prems(1) by (force simp: sj)
    have "edges' ! i = (if \<exists>s. (s, i) \<in> set (sj # subs) \<and> s \<noteq> publisher then received publisher p n (edges ! i) else edges ! i)"
      if "i < length edges" for i
      using e(3) that other Cons.prems(2) by (cases "i = j") (auto simp: sj)
    with e(1,2) show ?case by (auto simp: sj consume_received [OF assms(1)])
  qed simp
  then show ?thesis using that by blast
qed

section \<open>The network's invariant\<close>

text \<open>The view a list of payloads leaves: the last of every sensor.\<close>

definition add_to_view :: "raw_hart_payload \<Rightarrow> view \<Rightarrow> view" where
  "add_to_view p v = (case infer_sensor_name p of Inl _ \<Rightarrow> v | Inr n \<Rightarrow> AList.update n p v)"

definition log_view :: "relay_message list \<Rightarrow> view" where
  "log_view ms = foldl (\<lambda>v m. add_to_view (rm_payload m) v) [] ms"

lemma log_view_snoc: "infer_sensor_name p = Inr n \<Longrightarrow>
    log_view (ms @ [\<lparr>rm_topic = t, rm_publisher_id = i, rm_payload = p\<rparr>]) = AList.update n p (log_view ms)"
  by (simp add: log_view_def add_to_view_def)

lemma log_view_keys: "distinct (map fst (log_view ms))" "set (map fst (log_view ms)) \<subseteq> set consensus_sensors"
proof -
  have "distinct (map fst (log_view ms)) \<and> set (map fst (log_view ms)) \<subseteq> set consensus_sensors"
  proof (induction ms rule: rev_induct)
    case (snoc m ms)
    have "log_view (ms @ [m]) = add_to_view (rm_payload m) (log_view ms)" by (simp add: log_view_def)
    moreover have "distinct (map fst (AList.update n (rm_payload m) (log_view ms))) \<and>
        set (map fst (AList.update n (rm_payload m) (log_view ms))) \<subseteq> set consensus_sensors"
      if "infer_sensor_name (rm_payload m) = Inr n" for n
      using snoc infer_names [OF that] by (simp add: distinct_update update_keys)
    ultimately show ?case using snoc by (cases "infer_sensor_name (rm_payload m)") (simp_all add: add_to_view_def)
  qed (simp add: log_view_def)
  then show "distinct (map fst (log_view ms))" "set (map fst (log_view ms)) \<subseteq> set consensus_sensors" by blast+
qed

text \<open>All edges are attached to the topic, and each holds the view of the published messages.\<close>

definition well_attached :: "string \<Rightarrow> edge_network \<Rightarrow> bool" where
  "well_attached topic nw = (distinct (map edge_id (nw_edges nw)) \<and> (\<forall>e \<in> set (nw_edges nw). ed_attached e) \<and>
     subscribers_of (nw_relay nw) topic = map (\<lambda>i. (edge_id (nw_edges nw ! i), i)) [0..<length (nw_edges nw)])"

definition caught_up :: "relay_message list \<Rightarrow> edge_service \<Rightarrow> bool" where
  "caught_up ms e = (ed_observations e = log_view ms \<and>
     rt_published_observation_count (ed_runtime e) = int (length (filter (\<lambda>m. rm_publisher_id m = edge_id e) ms)) \<and>
     rt_peer_observation_count (ed_runtime e) = int (length (filter (\<lambda>m. rm_publisher_id m \<noteq> edge_id e) ms)))"

definition network_inv :: "string \<Rightarrow> edge_network \<Rightarrow> bool" where
  "network_inv topic nw = (well_attached topic nw \<and> (\<forall>e \<in> set (nw_edges nw). caught_up (rl_messages (nw_relay nw)) e))"

text \<open>A publication by an attached edge reaches every other edge, and all stay caught up.\<close>

lemma publish_spec:
  assumes "network_inv topic nw" "i < length (nw_edges nw)" "infer_sensor_name p = Inr n"
  obtains nw' where "publish_local_observation topic p i nw = Inr nw'" "network_inv topic nw'"
    "rl_messages (nw_relay nw') = rl_messages (nw_relay nw) @ [\<lparr>rm_topic = topic, rm_publisher_id = edge_id (nw_edges nw ! i), rm_payload = p\<rparr>]"
    "map ed_device_config (nw_edges nw') = map ed_device_config (nw_edges nw)"
    "map (rt_last_payload_timestamp \<circ> ed_runtime) (nw_edges nw') = map (rt_last_payload_timestamp \<circ> ed_runtime) (nw_edges nw)"
proof -
  let ?e = "nw_edges nw ! i" and ?n = "length (nw_edges nw)" and ?ms = "rl_messages (nw_relay nw)"
  let ?m = "\<lparr>rm_topic = topic, rm_publisher_id = edge_id ?e, rm_payload = p\<rparr>"
  have inv: "distinct (map edge_id (nw_edges nw))" "\<And>j. j < ?n \<Longrightarrow> ed_attached (nw_edges nw ! j)"
    "subscribers_of (nw_relay nw) topic = map (\<lambda>i. (edge_id (nw_edges nw ! i), i)) [0..<?n]"
    "\<And>j. j < ?n \<Longrightarrow> caught_up ?ms (nw_edges nw ! j)"
    using assms(1) by (auto simp: network_inv_def well_attached_def)
  have ids: "edge_id (nw_edges nw ! j) = edge_id ?e \<longleftrightarrow> j = i" if "j < ?n" for j
    using inv(1) that assms(2) nth_eq_iff_index_eq [of "map edge_id (nw_edges nw)" j i] by simp
  define e1 where "e1 = ?e\<lparr>ed_observations := AList.update n p (ed_observations ?e),
    ed_runtime := (ed_runtime ?e)\<lparr>rt_published_observation_count := rt_published_observation_count (ed_runtime ?e) + 1\<rparr>\<rparr>"
  define e2 where "e2 = log_event [view_event e1] e1"
  have e2: "ed_device_config e2 = ed_device_config ?e" "ed_attached e2 = ed_attached ?e" "ed_observations e2 = AList.update n p (ed_observations ?e)"
    "rt_published_observation_count (ed_runtime e2) = rt_published_observation_count (ed_runtime ?e) + 1"
    "rt_peer_observation_count (ed_runtime e2) = rt_peer_observation_count (ed_runtime ?e)"
    "rt_last_payload_timestamp (ed_runtime e2) = rt_last_payload_timestamp (ed_runtime ?e)"
    by (simp_all add: e2_def e1_def)
  have "distinct (map snd (subscribers_of (nw_relay nw) topic))" "\<forall>(s, j) \<in> set (subscribers_of (nw_relay nw) topic). j < length ((nw_edges nw)[i := e2])"
    by (auto simp: inv(3) o_def)
  then obtain es where es: "relay_deliver (edge_id ?e) p (subscribers_of (nw_relay nw) topic) ((nw_edges nw)[i := e2]) = Inr es" "length es = ?n"
    "\<And>j. j < ?n \<Longrightarrow> es ! j = (if \<exists>s. (s, j) \<in> set (subscribers_of (nw_relay nw) topic) \<and> s \<noteq> edge_id ?e
       then received (edge_id ?e) p n ((nw_edges nw)[i := e2] ! j) else (nw_edges nw)[i := e2] ! j)"
    by (rule deliver_spec [OF assms(3)]) (rule that, assumption, simp_all)
  have es_nth: "es ! j = (if j = i then e2 else received (edge_id ?e) p n (nw_edges nw ! j))" if "j < ?n" for j
    using es(3) [OF that] ids [OF that] that by (auto simp: inv(3))
  define published where "published = log_event [PDict [(''stage'', PStr ''mqtt_publication''),
           (''edge_id'', PStr (edge_id ?e)), (''topic'', PStr topic), (''payload_timestamp'', PStr (hp_timestamp p))]] (es ! i)"
  let ?nw' = "nw\<lparr>nw_edges := es[i := published], nw_relay := (nw_relay nw)\<lparr>rl_messages := ?ms @ [?m]\<rparr>\<rparr>"
  have pub: "publish_local_observation topic p i nw = Inr ?nw'"
    using assms(2,3) es(1,2) e2(2) inv(2)
    by (simp add: publish_local_observation_def update_from_payload_def Let_def relay_publish_def e1_def [symmetric] e2_def [symmetric] published_def)
  have edge: "ed_device_config (es[i := published] ! j) = ed_device_config (nw_edges nw ! j) \<and> ed_attached (es[i := published] ! j) \<and>
      rt_last_payload_timestamp (ed_runtime (es[i := published] ! j)) = rt_last_payload_timestamp (ed_runtime (nw_edges nw ! j)) \<and>
      caught_up (?ms @ [?m]) (es[i := published] ! j)" if "j < ?n" for j
    using that es(2) inv(2) [OF that] inv(4) [OF that] ids [OF that]
    by (cases "j = i") (auto simp: es_nth published_def e2 received_fields [OF assms(3)] caught_up_def log_view_snoc [OF assms(3)] edge_id_def)
  have cfg: "map ed_device_config (es[i := published]) = map ed_device_config (nw_edges nw)"
    by (rule nth_equalityI) (use edge es(2) in auto)
  have len: "length (es[i := published]) = ?n" using es(2) by simp
  have same: "edge_id (es[i := published] ! j) = edge_id (nw_edges nw ! j)" if "j < ?n" for j
    using edge [OF that] by (simp add: edge_id_def)
  have ids': "map edge_id xs = map dc_edge_id (map ed_device_config xs)" for xs by (simp add: edge_id_def)
  have "map edge_id (es[i := published]) = map edge_id (nw_edges nw)" by (simp only: ids' cfg)
  moreover have "subscribers_of ((nw_relay nw)\<lparr>rl_messages := ?ms @ [?m]\<rparr>) topic = subscribers_of (nw_relay nw) topic"
    by (simp add: subscribers_of_def)
  ultimately have "well_attached topic ?nw'"
    using inv(1,3) edge len same by (auto simp: well_attached_def in_set_conv_nth simp del: list_update_nonempty)
  moreover have "\<forall>e \<in> set (es[i := published]). caught_up (?ms @ [?m]) e"
    using edge len by (auto simp only: in_set_conv_nth)
  ultimately have "network_inv topic ?nw'" by (simp add: network_inv_def)
  moreover have "map (rt_last_payload_timestamp \<circ> ed_runtime) (es[i := published]) = map (rt_last_payload_timestamp \<circ> ed_runtime) (nw_edges nw)"
    by (rule nth_equalityI) (use edge len in simp_all)
  ultimately show ?thesis using that [OF pub] cfg by simp
qed

text \<open>An acquisition changes neither views nor counters, and stamps the edge with its time.\<close>

lemma acquire_Inr:
  assumes "edge_acquire rng now snap state pw e = Inr (p, e')"
  shows "ed_device_config e' = ed_device_config e" "ed_attached e' = ed_attached e" "ed_observations e' = ed_observations e"
    "rt_published_observation_count (ed_runtime e') = rt_published_observation_count (ed_runtime e)"
    "rt_peer_observation_count (ed_runtime e') = rt_peer_observation_count (ed_runtime e)"
    "rt_last_payload_timestamp (ed_runtime e') = Some (isoformat_us now)" "di_tag (hp_device_info p) = dc_tag (ed_device_config e)"
  using assms by (auto simp: edge_acquire_def attempt_eq_Inr acquired_fields payload_of_def Let_def split: option.splits)

lemma network_inv_acquire:
  assumes "network_inv topic nw" "i < length (nw_edges nw)" "edge_acquire rng now snap state pw (nw_edges nw ! i) = Inr (p, e)"
  shows "network_inv topic (nw\<lparr>nw_edges := (nw_edges nw)[i := e]\<rparr>)"
    "map ed_device_config ((nw_edges nw)[i := e]) = map ed_device_config (nw_edges nw)"
proof -
  note a = acquire_Inr [OF assms(3)]
  show cfg: "map ed_device_config ((nw_edges nw)[i := e]) = map ed_device_config (nw_edges nw)"
    by (simp add: map_update a(1) assms(2)) (metis assms(2) list_update_id nth_map)
  have ids: "map edge_id xs = map dc_edge_id (map ed_device_config xs)" for xs by (simp add: edge_id_def)
  have id: "edge_id ((nw_edges nw)[i := e] ! j) = edge_id (nw_edges nw ! j)" if "j < length (nw_edges nw)" for j
    using that a(1) by (cases "j = i") (simp_all add: edge_id_def)
  have "\<forall>x \<in> set ((nw_edges nw)[i := e]). ed_attached x \<and> caught_up (rl_messages (nw_relay nw)) x"
  proof
    fix x assume "x \<in> set ((nw_edges nw)[i := e])"
    then have "x = e \<or> x \<in> set (nw_edges nw)" using set_update_subset_insert [of "nw_edges nw" i e] by auto
    moreover have "nw_edges nw ! i \<in> set (nw_edges nw)" using assms(2) by simp
    ultimately show "ed_attached x \<and> caught_up (rl_messages (nw_relay nw)) x"
      using assms(1) a by (auto simp: network_inv_def well_attached_def caught_up_def edge_id_def)
  qed
  moreover have "map (\<lambda>i. (edge_id (nw_edges nw ! i), i)) [0..<length (nw_edges nw)] =
      map (\<lambda>j. (edge_id ((nw_edges nw)[i := e] ! j), j)) [0..<length (nw_edges nw)]"
    by (rule map_cong) (simp_all add: id)
  moreover have "distinct (map edge_id ((nw_edges nw)[i := e]))"
    using assms(1) ids [of "nw_edges nw"] unfolding ids [of "(nw_edges nw)[i := e]"] cfg by (simp add: network_inv_def well_attached_def)
  ultimately show "network_inv topic (nw\<lparr>nw_edges := (nw_edges nw)[i := e]\<rparr>)"
    using assms(1) by (simp add: network_inv_def well_attached_def)
qed

section \<open>Runs of the network\<close>

text \<open>Any edge acquires, or publishes any payload on the topic, in any order.\<close>

inductive edge_run :: "string \<Rightarrow> edge_network \<Rightarrow> edge_network \<Rightarrow> bool" for topic nw0 where
  start: "edge_run topic nw0 nw0"
| acquisition: "edge_run topic nw0 nw \<Longrightarrow> i < length (nw_edges nw) \<Longrightarrow>
    edge_acquire rng now snap state pw (nw_edges nw ! i) = Inr (p, e) \<Longrightarrow> edge_run topic nw0 (nw\<lparr>nw_edges := (nw_edges nw)[i := e]\<rparr>)"
| publication: "edge_run topic nw0 nw \<Longrightarrow> i < length (nw_edges nw) \<Longrightarrow>
    publish_local_observation topic p i nw = Inr nw' \<Longrightarrow> edge_run topic nw0 nw'"

lemma publish_infers:
  "publish_local_observation topic p i nw = Inr nw' \<Longrightarrow> \<exists>n. infer_sensor_name p = Inr n"
  by (auto simp: publish_local_observation_def update_from_payload_def attempt_eq_Inr Let_def)

lemma edge_run_inv: "edge_run topic nw0 nw \<Longrightarrow> network_inv topic nw0 \<Longrightarrow> network_inv topic nw"
proof (induction rule: edge_run.induct)
  case (acquisition nw i rng now snap state pw p e)
  then show ?case by (intro network_inv_acquire(1)) auto
next
  case (publication nw i p nw')
  obtain n where n: "infer_sensor_name p = Inr n" using publish_infers [OF publication(3)] by blast
  show ?case
    by (rule publish_spec [OF publication(4) [OF publication(5)] publication(2) n]) (use publication(3) in simp)
qed

end
