(* ===== verification/LiveCollection.thy ===== *)
theory LiveCollection
  imports EdgeNodes
begin

text \<open>
  The upstream half of one live cycle, \<open>scripts/run_local_demo.py\<close>: the simulator steps,
  every edge reads the snapshot and publishes, and the edges' views become the round input.
  The clock gives the time of each acquisition in turn. The lemmas follow the readings from
  the snapshot to the consensused values.
\<close>

section \<open>The collection loop\<close>

record live_state =
  lv_simulator :: simulator
  lv_network :: edge_network
  lv_clock :: nat

text \<open>One turn of the inner loop: the edge reads the snapshot and publishes its payload.\<close>

definition edge_turn :: "(nat \<Rightarrow> flt) \<Rightarrow> (nat \<Rightarrow> datetime) \<Rightarrow> string \<Rightarrow> simulation_snapshot \<Rightarrow> nat \<Rightarrow>
    edge_network \<times> nat \<Rightarrow> (edge_network \<times> nat) res" where
  "edge_turn rng clock topic snap i = (\<lambda>(nw, k).
     attempt (edge_acquire rng (clock k) (Some snap) None None (nw_edges nw ! i)) (\<lambda>(p, e).
     attempt (publish_local_observation topic p i (nw\<lparr>nw_edges := (nw_edges nw)[i := e]\<rparr>)) (\<lambda>nw1. Inr (nw1, Suc k))))"

fun edge_turns :: "(nat \<Rightarrow> flt) \<Rightarrow> (nat \<Rightarrow> datetime) \<Rightarrow> string \<Rightarrow> simulation_snapshot \<Rightarrow> nat list \<Rightarrow>
    edge_network \<times> nat \<Rightarrow> (edge_network \<times> nat) res" where
  "edge_turns rng clock topic snap [] s = Inr s"
| "edge_turns rng clock topic snap (i # is) s = attempt (edge_turn rng clock topic snap i s) (edge_turns rng clock topic snap is)"

definition collect_step :: "(nat \<Rightarrow> flt) \<Rightarrow> (nat \<Rightarrow> datetime) \<Rightarrow> string \<Rightarrow> flt \<Rightarrow> live_state \<Rightarrow> (simulation_snapshot \<times> live_state) res" where
  "collect_step rng clock topic pw lv = attempt (simulator_step rng None (Some pw) (lv_simulator lv)) (\<lambda>(snap, sim).
     attempt (edge_turns rng clock topic snap [0..<length (nw_edges (lv_network lv))] (lv_network lv, lv_clock lv)) (\<lambda>(nw, k).
       Inr (snap, \<lparr>lv_simulator = sim, lv_network = nw, lv_clock = k\<rparr>)))"

fun collect_steps :: "(nat \<Rightarrow> flt) \<Rightarrow> (nat \<Rightarrow> datetime) \<Rightarrow> string \<Rightarrow> flt \<Rightarrow> nat \<Rightarrow> simulation_snapshot option \<Rightarrow> live_state \<Rightarrow>
    (simulation_snapshot option \<times> live_state) res" where
  "collect_steps rng clock topic pw 0 latest lv = Inr (latest, lv)"
| "collect_steps rng clock topic pw (Suc n) latest lv =
     attempt (collect_step rng clock topic pw lv) (\<lambda>(snap, lv1). collect_steps rng clock topic pw n (Some snap) lv1)"

text \<open>The network of \<open>build_demo_runtime_components\<close>, on the passive transport.\<close>

definition live_edges :: "edge_service list" where
  "live_edges = map (\<lambda>(_, cfg). init_edge_service cfg None) EDGE_DEVICE_CONFIGS"

definition build_network :: "string \<Rightarrow> edge_network" where
  "build_network topic = foldl (\<lambda>nw i. attach_transport topic i nw) \<lparr>nw_edges = live_edges, nw_relay = init_relay\<rparr> [0, 1, 2]"

lemma live_edges: "live_edges = [init_edge_service (snd (EDGE_DEVICE_CONFIGS ! 0)) None,
    init_edge_service (snd (EDGE_DEVICE_CONFIGS ! 1)) None, init_edge_service (snd (EDGE_DEVICE_CONFIGS ! 2)) None]"
  by (simp add: live_edges_def EDGE_DEVICE_CONFIGS_def)

lemma build_network_inv: "network_inv topic (build_network topic)"
  "map ed_device_config (nw_edges (build_network topic)) = map snd EDGE_DEVICE_CONFIGS"
  "rl_messages (nw_relay (build_network topic)) = []"
  by (simp_all add: network_inv_def well_attached_def caught_up_def build_network_def live_edges attach_transport_def
      init_edge_service_def edge_id_def EDGE_DEVICE_CONFIGS_def relay_subscribe_def subscribers_of_def init_relay_def log_view_def upt_rec)

section \<open>A sweep\<close>

text \<open>A snapshot of the simulator, as far as the edges read it.\<close>

definition sound_snapshot :: "simulation_snapshot \<Rightarrow> bool" where
  "sound_snapshot snap = (map fst (sp_transmitter_observations snap) = [''temperature'', ''pressure'', ''rpm''] \<and>
     (\<forall>(name, t) \<in> set (sp_transmitter_observations snap). sound_observation DEFAULT_COMPRESSOR_PROFILE name t) \<and>
     sp_sensors snap = map (\<lambda>(name, t). (name, tv_value (to_pv t))) (sp_transmitter_observations snap) \<and>
     map_of (sp_metadata snap) ''noise_level'' = None)"

definition network_configured :: "edge_network \<Rightarrow> bool" where
  "network_configured nw = (map ed_device_config (nw_edges nw) = map snd EDGE_DEVICE_CONFIGS)"

definition last_stamps :: "edge_network \<Rightarrow> string option list" where
  "last_stamps nw = map (rt_last_payload_timestamp \<circ> ed_runtime) (nw_edges nw)"

lemma configured:
  assumes "network_configured nw" "i < 3"
  shows "length (nw_edges nw) = 3" "ed_device_config (nw_edges nw ! i) = snd (EDGE_DEVICE_CONFIGS ! i)"
proof -
  have l: "map ed_device_config (nw_edges nw) = map snd EDGE_DEVICE_CONFIGS" "length EDGE_DEVICE_CONFIGS = 3"
    using assms(1) by (simp_all add: network_configured_def EDGE_DEVICE_CONFIGS_def)
  show len: "length (nw_edges nw) = 3" using arg_cong [OF l(1), of length] l(2) by simp
  show "ed_device_config (nw_edges nw ! i) = snd (EDGE_DEVICE_CONFIGS ! i)"
    using arg_cong [OF l(1), of "\<lambda>xs. xs ! i"] len l(2) assms(2) by simp
qed

lemma device_names:
  assumes "i < 3"
  shows "dc_sensor_name (snd (EDGE_DEVICE_CONFIGS ! i)) = [''temperature'', ''pressure'', ''rpm''] ! i"
    "getitem SENSOR_BY_TAG_PREFIX (map upper_char (take 1 (dc_tag (snd (EDGE_DEVICE_CONFIGS ! i))))) = Inr ([''temperature'', ''pressure'', ''rpm''] ! i)"
    "dc_edge_id (snd (EDGE_DEVICE_CONFIGS ! i)) = [''edge-1'', ''edge-2'', ''edge-3''] ! i"
proof -
  have "i = 0 \<or> i = 1 \<or> i = 2" using assms by auto
  moreover have "upper_char (CHR ''T'') = CHR ''T''" "upper_char (CHR ''P'') = CHR ''P''" "upper_char (CHR ''R'') = CHR ''R''"
    by code_simp+
  ultimately show "dc_sensor_name (snd (EDGE_DEVICE_CONFIGS ! i)) = [''temperature'', ''pressure'', ''rpm''] ! i"
    "getitem SENSOR_BY_TAG_PREFIX (map upper_char (take 1 (dc_tag (snd (EDGE_DEVICE_CONFIGS ! i))))) = Inr ([''temperature'', ''pressure'', ''rpm''] ! i)"
    "dc_edge_id (snd (EDGE_DEVICE_CONFIGS ! i)) = [''edge-1'', ''edge-2'', ''edge-3''] ! i"
    by (auto simp: EDGE_DEVICE_CONFIGS_def SENSOR_BY_TAG_PREFIX_def getitem_def)
qed

lemma turn_spec:
  assumes "network_inv topic nw" "network_configured nw" "i < 3" "name = [''temperature'', ''pressure'', ''rpm''] ! i"
    and "map_of (sp_transmitter_observations snap) name = Some t" "map_of (sp_metadata snap) ''noise_level'' = None"
  obtains nw' p where "edge_turn rng clock topic snap i (nw, k) = Inr (nw', Suc k)" "network_inv topic nw'" "network_configured nw'"
    "log_view (rl_messages (nw_relay nw')) = AList.update name p (log_view (rl_messages (nw_relay nw)))"
    "pv_value (pd_pv (hp_process_data p)) = py_round 3 (tv_value (to_pv t))"
    "last_stamps nw' = (last_stamps nw)[i := Some (isoformat_us (clock k))]"
proof -
  let ?e = "nw_edges nw ! i"
  note c = configured [OF assms(2,3)]
  have i: "i < length (nw_edges nw)" using c(1) assms(3) by simp
  have noise: "read_noise_floor snap = Inr (py_round 3 0)" using assms(6) by (simp add: read_noise_floor_def)
  define p where "p = payload_of ?e (clock k) t (py_round 3 0)"
  obtain e where acq: "edge_acquire rng (clock k) (Some snap) None None ?e = Inr (p, e)"
    using assms(5) noise c(2) device_names(1) [OF assms(3)] assms(4) by (auto simp: edge_acquire_def p_def Let_def)
  have infer: "infer_sensor_name p = Inr name"
    using device_names(2) [OF assms(3)] assms(4) c(2) by (simp add: infer_sensor_name_def p_def payload_of_def Let_def)
  note a = network_inv_acquire [OF assms(1) i acq]
  have i': "i < length (nw_edges (nw\<lparr>nw_edges := (nw_edges nw)[i := e]\<rparr>))" using i by simp
  obtain nw' where n: "publish_local_observation topic p i (nw\<lparr>nw_edges := (nw_edges nw)[i := e]\<rparr>) = Inr nw'" "network_inv topic nw'"
    "rl_messages (nw_relay nw') = rl_messages (nw_relay nw) @ [\<lparr>rm_topic = topic,
       rm_publisher_id = edge_id ((nw_edges nw)[i := e] ! i), rm_payload = p\<rparr>]"
    "map ed_device_config (nw_edges nw') = map ed_device_config ((nw_edges nw)[i := e])"
    "map (rt_last_payload_timestamp \<circ> ed_runtime) (nw_edges nw') = map (rt_last_payload_timestamp \<circ> ed_runtime) ((nw_edges nw)[i := e])"
    by (rule publish_spec [OF a(1) i' infer]) (rule that, simp_all)
  show ?thesis
  proof (rule that)
    show "edge_turn rng clock topic snap i (nw, k) = Inr (nw', Suc k)" by (simp add: edge_turn_def acq n(1))
    show "network_inv topic nw'" by (rule n(2))
    show "network_configured nw'" using assms(2) a(2) n(4) by (simp add: network_configured_def)
    show "log_view (rl_messages (nw_relay nw')) = AList.update name p (log_view (rl_messages (nw_relay nw)))"
      unfolding n(3) by (rule log_view_snoc [OF infer])
    show "pv_value (pd_pv (hp_process_data p)) = py_round 3 (tv_value (to_pv t))" by (simp add: p_def payload_of_def Let_def)
    show "last_stamps nw' = (last_stamps nw)[i := Some (isoformat_us (clock k))]"
      using n(5) acquire_Inr(6) [OF acq] by (simp add: last_stamps_def map_update)
  qed
qed

text \<open>The readings a network holds are those of a snapshot.\<close>

definition snapshot_reading :: "simulation_snapshot \<Rightarrow> string \<Rightarrow> flt" where
  "snapshot_reading snap name = py_round 3 (the (map_of (sp_sensors snap) name))"

definition reports :: "view \<Rightarrow> simulation_snapshot \<Rightarrow> bool" where
  "reports v snap = (\<forall>name \<in> set consensus_sensors. \<exists>p. map_of v name = Some p \<and>
     pv_value (pd_pv (hp_process_data p)) = snapshot_reading snap name)"

lemma sweep_spec:
  assumes "network_inv topic nw" "network_configured nw" "sound_snapshot snap"
  obtains nw' where "edge_turns rng clock topic snap [0..<length (nw_edges nw)] (nw, k) = Inr (nw', k + 3)"
    "network_inv topic nw'" "network_configured nw'" "reports (log_view (rl_messages (nw_relay nw'))) snap"
    "last_stamps nw' ! 0 = Some (isoformat_us (clock k))"
proof -
  obtain ta tb tc where t: "sp_transmitter_observations snap = [(''temperature'', ta), (''pressure'', tb), (''rpm'', tc)]"
    using assms(3) by (auto simp: sound_snapshot_def)
  have noise: "map_of (sp_metadata snap) ''noise_level'' = None" using assms(3) by (simp add: sound_snapshot_def)
  have ob: "map_of (sp_transmitter_observations snap) ''temperature'' = Some ta" "map_of (sp_transmitter_observations snap) ''pressure'' = Some tb"
    "map_of (sp_transmitter_observations snap) ''rpm'' = Some tc" by (simp_all add: t)
  obtain n1 p1 where 1: "edge_turn rng clock topic snap 0 (nw, k) = Inr (n1, Suc k)" "network_inv topic n1" "network_configured n1"
    "log_view (rl_messages (nw_relay n1)) = AList.update ''temperature'' p1 (log_view (rl_messages (nw_relay nw)))"
    "pv_value (pd_pv (hp_process_data p1)) = py_round 3 (tv_value (to_pv ta))"
    "last_stamps n1 = (last_stamps nw)[0 := Some (isoformat_us (clock k))]"
    by (rule turn_spec [OF assms(1,2) _ _ ob(1) noise, of 0]) (simp, simp, rule that, assumption+)
  obtain n2 p2 where 2: "edge_turn rng clock topic snap 1 (n1, Suc k) = Inr (n2, Suc (Suc k))" "network_inv topic n2" "network_configured n2"
    "log_view (rl_messages (nw_relay n2)) = AList.update ''pressure'' p2 (log_view (rl_messages (nw_relay n1)))"
    "pv_value (pd_pv (hp_process_data p2)) = py_round 3 (tv_value (to_pv tb))"
    "last_stamps n2 = (last_stamps n1)[1 := Some (isoformat_us (clock (Suc k)))]"
    by (rule turn_spec [OF 1(2,3) _ _ ob(2) noise, of 1]) (simp, simp, rule that, assumption+)
  obtain n3 p3 where 3: "edge_turn rng clock topic snap 2 (n2, Suc (Suc k)) = Inr (n3, Suc (Suc (Suc k)))" "network_inv topic n3" "network_configured n3"
    "log_view (rl_messages (nw_relay n3)) = AList.update ''rpm'' p3 (log_view (rl_messages (nw_relay n2)))"
    "pv_value (pd_pv (hp_process_data p3)) = py_round 3 (tv_value (to_pv tc))"
    "last_stamps n3 = (last_stamps n2)[2 := Some (isoformat_us (clock (Suc (Suc k))))]"
    by (rule turn_spec [OF 2(2,3) _ _ ob(3) noise, of 2]) (simp, simp, rule that, assumption+)
  have len: "length (nw_edges nw) = 3" using configured(1) [OF assms(2), of 0] by simp
  show ?thesis
  proof (rule that)
    have "[0..<length (nw_edges nw)] = [0, 1, 2]" by (simp add: len upt_rec)
    then show "edge_turns rng clock topic snap [0..<length (nw_edges nw)] (nw, k) = Inr (n3, k + 3)"
      using 1(1) 2(1) 3(1) by simp
    show "reports (log_view (rl_messages (nw_relay n3))) snap"
      using assms(3) 1(5) 2(5) 3(5) by (simp add: reports_def consensus_sensors_def snapshot_reading_def 1(4) 2(4) 3(4) sound_snapshot_def t)
    show "last_stamps n3 ! 0 = Some (isoformat_us (clock k))"
    proof -
      have "0 < length (last_stamps nw)" using len by (simp add: last_stamps_def)
      then show ?thesis by (simp add: 1(6) 2(6) 3(6))
    qed
  qed (rule 3(2), rule 3(3))
qed

section \<open>Collection\<close>

definition live_inv :: "string \<Rightarrow> live_state \<Rightarrow> bool" where
  "live_inv topic lv = (network_inv topic (lv_network lv) \<and> network_configured (lv_network lv) \<and>
     sim_profile (lv_simulator lv) = DEFAULT_COMPRESSOR_PROFILE)"

text \<open>What a collection of at least one step leaves for the round.\<close>

definition collected :: "(nat \<Rightarrow> datetime) \<Rightarrow> simulation_snapshot \<Rightarrow> live_state \<Rightarrow> bool" where
  "collected clock snap lv = (sound_snapshot snap \<and> reports (log_view (rl_messages (nw_relay (lv_network lv)))) snap \<and>
     (\<exists>k. last_stamps (lv_network lv) ! 0 = Some (isoformat_us (clock k))))"

lemma collect_step_spec:
  assumes "live_inv topic lv"
  obtains snap lv' where "collect_step rng clock topic pw lv = Inr (snap, lv')" "live_inv topic lv'" "collected clock snap lv'"
    "sim_step_index (lv_simulator lv') = sim_step_index (lv_simulator lv) + 1"
proof -
  have l: "network_inv topic (lv_network lv)" "network_configured (lv_network lv)"
    "sim_profile (lv_simulator lv) = DEFAULT_COMPRESSOR_PROFILE" using assms by (simp_all add: live_inv_def)
  then have "proper_profile (sim_profile (lv_simulator lv))" using default_profile_proper by simp
  then obtain snap sim where s: "simulator_step rng None (Some pw) (lv_simulator lv) = Inr (snap, sim)"
    "sim_profile sim = sim_profile (lv_simulator lv)" "sim_step_index sim = sim_step_index (lv_simulator lv) + 1"
    "map fst (sp_transmitter_observations snap) = [''temperature'', ''pressure'', ''rpm'']"
    "\<And>name t. (name, t) \<in> set (sp_transmitter_observations snap) \<Longrightarrow> sound_observation (sim_profile (lv_simulator lv)) name t"
    "sp_sensors snap = map (\<lambda>(name, t). (name, tv_value (to_pv t))) (sp_transmitter_observations snap)"
    "map_of (sp_metadata snap) ''noise_level'' = None"
    by (rule simulator_step_spec) (rule that, assumption+)
  have snap: "sound_snapshot snap" using s(4-7) l(3) by (auto simp: sound_snapshot_def)
  obtain nw' where n: "edge_turns rng clock topic snap [0..<length (nw_edges (lv_network lv))] (lv_network lv, lv_clock lv) = Inr (nw', lv_clock lv + 3)"
    "network_inv topic nw'" "network_configured nw'" "reports (log_view (rl_messages (nw_relay nw'))) snap"
    "last_stamps nw' ! 0 = Some (isoformat_us (clock (lv_clock lv)))"
    by (rule sweep_spec [OF l(1,2) snap]) (rule that, assumption+)
  show ?thesis
    by (rule that [of snap "\<lparr>lv_simulator = sim, lv_network = nw', lv_clock = lv_clock lv + 3\<rparr>"])
      (use s(1-3) n snap l(3) in \<open>auto simp: collect_step_def live_inv_def collected_def\<close>)
qed

lemma collect_steps_spec:
  assumes "live_inv topic lv"
  obtains latest lv' where "collect_steps rng clock topic pw n latest0 lv = Inr (latest, lv')" "live_inv topic lv'"
    "n = 0 \<Longrightarrow> latest = latest0 \<and> lv' = lv" "0 < n \<Longrightarrow> \<exists>snap. latest = Some snap \<and> collected clock snap lv'"
    "sim_step_index (lv_simulator lv') = sim_step_index (lv_simulator lv) + int n"
proof -
  have "\<exists>latest lv'. collect_steps rng clock topic pw n latest0 lv = Inr (latest, lv') \<and> live_inv topic lv' \<and>
    (n = 0 \<longrightarrow> latest = latest0 \<and> lv' = lv) \<and> (0 < n \<longrightarrow> (\<exists>snap. latest = Some snap \<and> collected clock snap lv')) \<and>
    sim_step_index (lv_simulator lv') = sim_step_index (lv_simulator lv) + int n"
    using assms
  proof (induction n arbitrary: lv latest0)
    case (Suc n)
    obtain snap lv1 where 1: "collect_step rng clock topic pw lv = Inr (snap, lv1)" "live_inv topic lv1" "collected clock snap lv1"
      "sim_step_index (lv_simulator lv1) = sim_step_index (lv_simulator lv) + 1"
      by (rule collect_step_spec [OF Suc.prems])
    obtain latest lv' where 2: "collect_steps rng clock topic pw n (Some snap) lv1 = Inr (latest, lv')" "live_inv topic lv'"
      "n = 0 \<longrightarrow> latest = Some snap \<and> lv' = lv1" "0 < n \<longrightarrow> (\<exists>s. latest = Some s \<and> collected clock s lv')"
      "sim_step_index (lv_simulator lv') = sim_step_index (lv_simulator lv1) + int n"
      using Suc.IH [OF 1(2)] by blast
    have "\<exists>s. latest = Some s \<and> collected clock s lv'" using 1(3) 2(3,4) by (cases "n = 0") auto
    with 1(1,4) 2(1,2,5) show ?case by auto
  qed simp
  then show ?thesis using that by blast
qed

section \<open>The round input\<close>

text \<open>A clock as the code reads it: aware UTC times, inside the years 2 to 9998.\<close>

definition utc_time :: "datetime \<Rightarrow> bool" where
  "utc_time d = (valid_datetime d \<and> dt_offset d = Some 0 \<and> 2 \<le> dt_year d \<and> dt_year d \<le> 9998)"

lemma zero_pad_no_Z: "0 < k \<Longrightarrow> 0 \<le> n \<Longrightarrow> n < 10 ^ k \<Longrightarrow> CHR ''Z'' \<notin> set (zero_pad k n)"
  using zero_pad_props [of k n] by (auto simp: list_all_iff is_digit_def)

lemma isoformat_no_Z: "utc_time d \<Longrightarrow> CHR ''Z'' \<notin> set (isoformat_us d)"
proof -
  assume u: "utc_time d"
  have "days_in_month (dt_year d) (dt_month d) \<le> 31" by (simp add: days_in_month_def)
  then have "dt_day d < 100" using u by (auto simp: utc_time_def valid_datetime_def)
  then show ?thesis
    using u by (simp add: isoformat_us_def iso_seconds_def iso_offset_def utc_time_def valid_datetime_def zero_pad_no_Z)
qed

lemma round_identity_of:
  assumes "rt_last_payload_timestamp (ed_runtime e) = Some (isoformat_us d)" "utc_time d"
  obtains started where "dt_minus_minutes d 1 = Inr started" "valid_datetime started"
    "consensus_round_identity e = Inr \<lparr>round_id = ''round-'' @ strftime_compact d, window_started_at = started, window_ended_at = d\<rparr>"
proof -
  have v: "valid_datetime d" "2 \<le> dt_year d" "dt_year d \<le> 9998" using assms(2) by (simp_all add: utc_time_def)
  obtain started where s: "dt_minus_minutes d 1 = Inr started" by (rule dt_minus_minutes_total [OF v, of 1]) auto
  have "replace_all ''Z'' ''+00:00'' (isoformat_us d) = isoformat_us d"
    by (rule replace_absent [of "CHR ''Z''"]) (simp_all add: isoformat_no_Z [OF assms(2)])
  moreover have "dt_less d started = Inr False" by (rule minute_window [OF s]) simp
  ultimately show ?thesis
    using that [OF s dt_minus_minutes_valid [OF s v(1)]] assms(1) s fromisoformat_isoformat_us [OF v(1)]
    by (simp add: consensus_round_identity_def mk_RoundIdentity_def)
qed

lemma raw_reading_bound:
  assumes "sound_snapshot snap" "name \<in> set consensus_sensors"
  shows "0 \<le> the (map_of (sp_sensors snap) name)" "\<bar>the (map_of (sp_sensors snap) name)\<bar> \<le> 5000"
proof -
  obtain t where t: "map_of (sp_sensors snap) name = Some (tv_value (to_pv t))" "sound_observation DEFAULT_COMPRESSOR_PROFILE name t"
    using assms by (auto simp: sound_snapshot_def consensus_sensors_def)
  have "0 \<le> dec 18 1" "dec 85 1 \<le> 5000" by code_simp+
  then have "0 \<le> tv_value (to_pv t)" "tv_value (to_pv t) \<le> 5000"
    using t(2) assms(2) by (auto simp: sound_observation_def profile_range_def DEFAULT_COMPRESSOR_PROFILE_def consensus_sensors_def)
  then show "0 \<le> the (map_of (sp_sensors snap) name)" "\<bar>the (map_of (sp_sensors snap) name)\<bar> \<le> 5000" by (simp_all add: t(1))
qed

lemma reading_plausible:
  assumes "sound_snapshot snap" "name \<in> set consensus_sensors"
  shows "plausible_reading (snapshot_reading snap name)"
  using raw_reading_bound [OF assms] rnd.nonneg [of "the (map_of (sp_sensors snap) name)" 3]
    rnd.int_upper [of "the (map_of (sp_sensors snap) name)" 5000 3]
  by (simp add: plausible_reading_def snapshot_reading_def)

text \<open>A round identity that every party accepts: a name, and a window in order.\<close>

definition window_valid :: "round_identity \<Rightarrow> bool" where
  "window_valid r = (round_id r \<noteq> [] \<and> valid_datetime (window_started_at r) \<and> valid_datetime (window_ended_at r) \<and>
     dt_less (window_ended_at r) (window_started_at r) = Inr False)"

lemma round_input_healthy:
  assumes "live_inv topic lv" "collected clock snap lv" "\<And>k. utc_time (clock k)"
  obtains ri where "build_consensus_round_input (nw_edges (lv_network lv)) = Inr ri" "healthy_round ri (snapshot_reading snap)"
    "ri_participating_edges ri = [''edge-1'', ''edge-2'', ''edge-3'']" "map owner_edge_id (replicated_states ri) = ri_participating_edges ri"
    "window_valid (ri_round_identity ri)"
proof -
  let ?nw = "lv_network lv" and ?edges = "[''edge-1'', ''edge-2'', ''edge-3'']"
  have inv: "network_inv topic ?nw" "network_configured ?nw" using assms(1) by (simp_all add: live_inv_def)
  have len: "length (nw_edges ?nw) = 3" using configured(1) [OF inv(2), of 0] by simp
  then obtain a b c where e: "nw_edges ?nw = [a, b, c]" by (auto simp: numeral_3_eq_3 length_Suc_conv)
  have ids: "edge_id a = ''edge-1''" "edge_id b = ''edge-2''" "edge_id c = ''edge-3''"
    using inv(2) by (simp_all add: network_configured_def e edge_id_def EDGE_DEVICE_CONFIGS_def)
  let ?v = "log_view (rl_messages (nw_relay ?nw))"
  have view: "ed_observations x = ?v" if "x \<in> {a, b, c}" for x
    using inv(1) that by (auto simp: network_inv_def caught_up_def e)
  obtain k where "rt_last_payload_timestamp (ed_runtime a) = Some (isoformat_us (clock k))"
    using assms(2) by (auto simp: collected_def last_stamps_def e)
  moreover have "valid_datetime (clock k)" using assms(3) [of k] by (simp add: utc_time_def)
  ultimately obtain r where r: "consensus_round_identity a = Inr r" "window_valid r"
    by (elim round_identity_of [OF _ assms(3)]) (auto simp: window_valid_def dest: minute_window)
  define st where "st x = \<lparr>rs_round_identity = r, owner_edge_id = edge_id x, rs_participating_edges = ?edges,
    observations_by_sensor = ?v, is_validated = False\<rparr>" for x
  let ?ri = "\<lparr>ri_round_identity = r, ri_participating_edges = ?edges, replicated_states = map st [a, b, c]\<rparr>"
  have built: "mk_ConsensusRoundInput r ?edges (map st [a, b, c]) = Inr ?ri"
    by (simp add: mk_ConsensusRoundInput_Inr st_def ids)
  have build: "build_consensus_round_input (nw_edges ?nw) = Inr ?ri"
    using built by (simp add: build_consensus_round_input_def Let_def e r(1) ids replicated_state_contract_def mk_EdgeLocalReplicatedState_def view st_def)
  have reads: "\<exists>p. map_of ?v name = Some p \<and> pv_value (pd_pv (hp_process_data p)) = snapshot_reading snap name"
    if "name \<in> set consensus_sensors" for name
    using assms(2) that by (simp add: collected_def reports_def)
  have snap: "sound_snapshot snap" using assms(2) by (simp add: collected_def)
  have all: "observes_all (st x)" for x
    using reads by (force simp: observes_all_def scales_sensors st_def)
  have "set (map fst ?v) = set consensus_sensors"
    using log_view_keys(2) [of "rl_messages (nw_relay ?nw)"] reads map_of_SomeD by force
  then have clean: "clean_state (st x)" for x using log_view_keys(1) by (simp add: clean_state_def st_def)
  have agree: "agreeing ?ri (snapshot_reading snap)"
    using reads reading_plausible [OF snap] by (fastforce simp: agreeing_def st_def sensor_value_def)
  have owner: "owner_edge_id (st x) = edge_id x" for x by (simp add: st_def)
  have "complete_round ?edges (map st [a, b, c])" using all by (auto simp: complete_round_def owner ids)
  moreover have "wf_round_input ?ri" using built by (simp add: wf_round_input_def)
  ultimately have "complete_input ?ri" by (simp add: complete_input_def)
  then have "healthy_round ?ri (snapshot_reading snap)" using clean agree by (simp add: healthy_round_def)
  from that [OF build this] r(2) show ?thesis by (simp add: st_def ids)
qed

section \<open>Consensus on equal readings\<close>

lemma fl_err_small: "\<bar>x\<bar> \<le> 2 ^ 22 \<Longrightarrow> \<bar>fl x - x\<bar> \<le> 1 / 2 ^ 31"
proof (cases "x = 0")
  case False
  assume "\<bar>x\<bar> \<le> 2 ^ 22"
  then have "\<bar>x\<bar> < 2 powi 23" by (simp add: power_int_def)
  then have "fexpo \<bar>x\<bar> < 23" using False by (intro fexpo_less) auto
  then have "(2::rat) powi (max (fexpo \<bar>x\<bar>) (- 1022) - 52) \<le> 2 powi (- 30)"
    by (intro power_int_increasing) auto
  moreover have "(2::rat) powi (- 30) = 1 / 2 ^ 30" by (simp add: power_int_def field_simps)
  ultimately have "ulp x \<le> 1 / 2 ^ 30" by (simp only: ulp_def)
  then show ?thesis using fl_err [of x] by simp
qed simp

text \<open>The mean of two or three copies of a rounded reading is that reading.\<close>

lemma py_sum_copies:
  assumes fl: "\<forall>z. \<bar>z\<bar> \<le> C \<longrightarrow> \<bar>fl z - z\<bar> \<le> u" and u: "0 \<le> u" "8 * u \<le> 1"
    and b: "\<bar>x\<bar> \<le> A" "4 * A + 4 \<le> C" and m: "m \<in> {2, 3}"
  shows "\<bar>py_sum (replicate m x) - of_nat m * x\<bar> \<le> 11 * u"
proof (cases "m = 3")
  case True
  have "\<bar>py_sum [x, x, x] - (x + x + x)\<bar> \<le> 11 * u" by (rule py_sum_three [OF fl u b(1,1,1,2)])
  then show ?thesis by (simp add: True numeral_3_eq_3 del: py_sum.simps)
next
  case False
  obtain h l where s: "cs_add (x, 0) x = (h, l)" by force
  have u4: "4 * u \<le> 1" using u by linarith
  have "2 * A + 2 \<le> C" using b by linarith
  then have 1: "\<bar>h - (x + x)\<bar> \<le> u" "\<bar>l\<bar> \<le> 4 * u"
    using cs_add_near [OF fl u(1) u4, where hi = x and B = A and lo = 0 and x = x] b(1) u by (simp_all add: s)
  have "\<bar>fadd h l - (h + l)\<bar> \<le> u" unfolding fadd_def by (rule fl [rule_format]) (use b u 1 in linarith)
  then have "\<bar>fadd h l - (x + x)\<bar> \<le> 11 * u" "\<bar>h - (x + x)\<bar> \<le> 11 * u" using 1 u by linarith+
  moreover have "py_sum [x, x] = (if l \<noteq> 0 then fadd h l else h)" by (simp add: s cs_to_double_def)
  moreover have "m = 2" using False m by simp
  ultimately show ?thesis by (simp add: numeral_2_eq_2 del: py_sum.simps)
qed

lemma mean_of_copies:
  assumes "mapM (\<lambda>s. sensor_value s n) ss = Inr (replicate m x)" "m \<in> {2, 3}" "x = py_round 3 y" "\<bar>y\<bar> \<le> 5000"
  shows "mean_reading ss n = Inr x"
proof -
  let ?u = "1 / 2147483648 :: rat" and ?k = "rhe (y * 10 ^ 3)"
  have fl: "\<forall>z. \<bar>z\<bar> \<le> 4194304 \<longrightarrow> \<bar>fl z - z\<bar> \<le> ?u" using fl_err_small by simp
  have k: "\<bar>of_int ?k / 1000 - y\<bar> \<le> 1 / 2000"
  proof -
    have "\<bar>of_int ?k - y * 10 ^ 3\<bar> \<le> 1 / 2" using rhe_bounds [of "y * 10 ^ 3"] by linarith
    then show ?thesis by (simp add: abs_le_iff field_simps)
  qed
  have xk: "\<bar>x - of_int ?k / 1000\<bar> \<le> ?u"
  proof -
    have "\<bar>of_int ?k / 1000 :: rat\<bar> \<le> 4194304" using k assms(4) by linarith
    from fl [rule_format, OF this] show ?thesis by (simp add: assms(3) py_round_def)
  qed
  have x: "\<bar>x\<bar> \<le> 6000" using xk k assms(4) by linarith
  have s: "\<bar>py_sum (replicate m x) - of_nat m * x\<bar> \<le> 11 * ?u"
    by (rule py_sum_copies [OF fl _ _ x _ assms(2)]) simp_all
  have len: "length ss = m" using mapM_length [OF assms(1)] by simp
  define p where "p = py_sum (replicate m x) / of_nat m"
  have p: "\<bar>p - x\<bar> \<le> 6 * ?u"
  proof -
    have "m = 2 \<or> m = 3" using assms(2) by simp
    then have "p = py_sum (replicate m x) / 2 \<and> of_nat m * x = 2 * x \<or> p = py_sum (replicate m x) / 3 \<and> of_nat m * x = 3 * x"
      unfolding p_def by (elim disjE) (simp_all only: of_nat_numeral simp_thms)
    with s show ?thesis by linarith
  qed
  define w where "w = fdiv (py_sum (replicate m x)) (of_nat m)"
  have "\<bar>w - p\<bar> \<le> ?u"
    unfolding w_def fdiv_def p_def [symmetric] by (rule fl [rule_format]) (use p x in linarith)
  then have "\<bar>w - of_int ?k / 1000\<bar> \<le> 8 * ?u" using p xk by linarith
  then have "\<bar>w * 10 ^ 3 - of_int ?k\<bar> < 1 / 2" by (simp add: abs_le_iff abs_less_iff field_simps)
  then have "py_round 3 w = x" by (simp add: py_round_def rhe_unique assms(3))
  moreover have "m \<noteq> 0" using assms(2) by auto
  ultimately show ?thesis using assms(1) by (simp add: mean_reading_def fdiv_res_def w_def len del: py_sum.simps)
qed

text \<open>A round whose trusted states report one reading each, two or three times, decides it.\<close>

lemma trusted_unanimous:
  assumes "complete_input ri" "evaluate ri = Inr pkg" "ap_final_status pkg = SUCCESS"
    and "\<forall>s \<in> set (trusted_states ri). \<forall>name \<in> set consensus_sensors. sensor_value s name = Inr (reading name)"
    and "length (trusted_states ri) \<in> {2, 3}"
    and "\<And>name. name \<in> set consensus_sensors \<Longrightarrow> \<exists>y. reading name = py_round 3 y \<and> \<bar>y\<bar> \<le> 5000"
  obtains v where "ap_valid_state pkg = Some v" "source_edges v = map owner_edge_id (trusted_states ri)"
    "\<forall>name \<in> set consensus_sensors. map_of (sensor_values v) name = Some (reading name)" "map fst (sensor_values v) = consensus_sensors"
proof -
  let ?ss = "trusted_states ri"
  have wf: "wf_round_input ri" using assms(1) by (simp add: complete_input_def)
  have "\<exists>v. ap_valid_state pkg = Some v \<and> build_consensused_valid_state ri ?ss = Inr v"
    using wf assms(2) by (rule evaluate_Inr) (use assms(3) in blast)
  then obtain v where v: "ap_valid_state pkg = Some v" "build_consensused_valid_state ri ?ss = Inr v" by blast
  note b = build_valid_state_Inr [OF v(2)]
  have "map_of (sensor_values v) name = Some (reading name)" if n: "name \<in> set consensus_sensors" for name
  proof -
    have "name \<in> fst ` set (sensor_values v)" using b(3) n by (metis list.set_map)
    then obtain x where x: "map_of (sensor_values v) name = Some x" by (metis map_of_eq_None_iff not_Some_eq)
    have "mapM (\<lambda>s. sensor_value s name) ?ss = Inr (map (\<lambda>s. reading name) ?ss)"
      by (rule mapM_Inr) (use assms(4) n in blast)
    then have m: "mapM (\<lambda>s. sensor_value s name) ?ss = Inr (replicate (length ?ss) (reading name))"
      by (simp add: map_replicate_const)
    obtain y where "reading name = py_round 3 y" "\<bar>y\<bar> \<le> 5000" using assms(6) [OF n] by blast
    from mean_of_copies [OF m assms(5) this] b(4) [OF map_of_SomeD [OF x]] x show ?thesis by simp
  qed
  with v(1) b(2,3) that show ?thesis by blast
qed

lemma healthy_unanimous:
  assumes "healthy_round ri reading" "map owner_edge_id (replicated_states ri) = ri_participating_edges ri"
    and "length (ri_participating_edges ri) = 3"
    and "\<And>name. name \<in> set consensus_sensors \<Longrightarrow> \<exists>y. reading name = py_round 3 y \<and> \<bar>y\<bar> \<le> 5000"
  shows "\<exists>pkg v. evaluate ri = Inr pkg \<and> ap_final_status pkg = SUCCESS \<and> ap_exclusions pkg = [] \<and> ap_valid_state pkg = Some v \<and>
    source_edges v = ri_participating_edges ri \<and> (\<forall>name \<in> set consensus_sensors. map_of (sensor_values v) name = Some (reading name)) \<and>
    map fst (sensor_values v) = consensus_sensors"
proof -
  let ?es = "ri_participating_edges ri" and ?ss = "replicated_states ri"
  have h: "complete_input ri" "agreeing ri reading" using assms(1) by (auto simp: healthy_round_def)
  then have c: "complete_round ?es ?ss" and wf: "wf_round_input ri" by (auto simp: complete_input_def)
  have compat: "compatible_edges ?ss e f" if ef: "e \<in> set ?es" "f \<in> set ?es" for e f
  proof -
    obtain a where a: "map_of (states_by_edge ?ss) e = Some a" "observes_all a" by (rule complete_round_state [OF c ef(1)])
    obtain b where b: "map_of (states_by_edge ?ss) f = Some b" "observes_all b" by (rule complete_round_state [OF c ef(2)])
    have "a \<in> set ?ss" "b \<in> set ?ss" using states_by_edge_in [OF a(1)] states_by_edge_in [OF b(1)] by auto
    then have "same_readings a b" using h(2) by (auto simp: same_readings_def agreeing_def scales_sensors)
    from same_readings_compatible [OF a(1) b(1) this a(2)] show ?thesis .
  qed
  have "majority ?es (set ?es)" using assms(1,3) by (simp add: majority_def healthy_round_def distinct_card)
  then have tr: "trusted ?es ?ss e" if "e \<in> set ?es" for e by (rule clique_trusted [OF _ that compat])
  have "\<forall>s \<in> set ?ss. owner_edge_id s \<in> set ?es" using wf_round_input_owner [OF wf] by blast
  then have ts: "trusted_states ri = ?ss" using tr by (simp add: trusted_states_def filter_id_conv)
  have len: "length ?ss = 3" using arg_cong [OF assms(2), of length] assms(3) by simp
  obtain pkg where e: "evaluate ri = Inr pkg" by (rule evaluate_total [OF h(1)])
  have d: "ap_final_status pkg = SUCCESS" "map ex_edge_id (ap_exclusions pkg) = []"
    using engine_decision [OF h(1)] e tr by (simp_all add: ts len assms(3) filter_empty_conv)
  obtain v where "ap_valid_state pkg = Some v" "source_edges v = map owner_edge_id (trusted_states ri)"
    "\<forall>name \<in> set consensus_sensors. map_of (sensor_values v) name = Some (reading name)" "map fst (sensor_values v) = consensus_sensors"
    by (rule trusted_unanimous [OF h(1) e d(1) _ _ assms(4)]) (use h(2) in \<open>auto simp: ts agreeing_def len\<close>)
  with e d assms(2) show ?thesis by (auto simp: ts)
qed

lemma live_collection:
  assumes "live_inv topic lv" "0 < n" "\<And>k. utc_time (clock k)"
  obtains snap lv' ri pkg v where "collect_steps rng clock topic pw n None lv = Inr (Some snap, lv')" "live_inv topic lv'" "sound_snapshot snap"
    "build_consensus_round_input (nw_edges (lv_network lv')) = Inr ri" "healthy_round ri (snapshot_reading snap)"
    "ri_participating_edges ri = [''edge-1'', ''edge-2'', ''edge-3'']" "map owner_edge_id (replicated_states ri) = ri_participating_edges ri"
    "window_valid (ri_round_identity ri)"
    "evaluate ri = Inr pkg" "ap_final_status pkg = SUCCESS" "ap_exclusions pkg = []" "ap_valid_state pkg = Some v"
    "source_edges v = ri_participating_edges ri" "\<forall>name \<in> set consensus_sensors. map_of (sensor_values v) name = Some (snapshot_reading snap name)"
    "map fst (sensor_values v) = consensus_sensors"
proof -
  obtain latest lv' where c: "collect_steps rng clock topic pw n None lv = Inr (latest, lv')" "live_inv topic lv'"
    "\<exists>snap. latest = Some snap \<and> collected clock snap lv'"
    by (rule collect_steps_spec [OF assms(1)]) (rule that, assumption+, use assms(2) in blast)
  then obtain snap where s: "latest = Some snap" "collected clock snap lv'" by blast
  have snap: "sound_snapshot snap" using s(2) by (simp add: collected_def)
  obtain ri where ri: "build_consensus_round_input (nw_edges (lv_network lv')) = Inr ri" "healthy_round ri (snapshot_reading snap)"
    "ri_participating_edges ri = [''edge-1'', ''edge-2'', ''edge-3'']" "map owner_edge_id (replicated_states ri) = ri_participating_edges ri"
    "window_valid (ri_round_identity ri)"
    by (rule round_input_healthy [OF c(2) s(2) assms(3)])
  have "\<exists>y. snapshot_reading snap name = py_round 3 y \<and> \<bar>y\<bar> \<le> 5000" if "name \<in> set consensus_sensors" for name
    using raw_reading_bound [OF snap that] by (auto simp: snapshot_reading_def)
  then obtain pkg v where "evaluate ri = Inr pkg" "ap_final_status pkg = SUCCESS" "ap_exclusions pkg = []" "ap_valid_state pkg = Some v"
    "source_edges v = ri_participating_edges ri" "\<forall>name \<in> set consensus_sensors. map_of (sensor_values v) name = Some (snapshot_reading snap name)"
    "map fst (sensor_values v) = consensus_sensors"
    using healthy_unanimous [OF ri(2,4)] ri(3) by auto
  then show ?thesis using that c(1,2) s(1) snap ri by blast
qed

section \<open>Properties\<close>

text \<open>
  C17. Whatever the edges acquire and publish, and in whatever order, every edge's view is
  exactly the one the relayed messages determine, the last payload of each sensor; so all views
  agree, and each edge has counted every message once, as published or as consumed.
\<close>

theorem views_follow_the_log:
  assumes "edge_run topic (build_network topic) nw" "e \<in> set (nw_edges nw)"
  shows "ed_observations e = log_view (rl_messages (nw_relay nw)) \<and>
    rt_published_observation_count (ed_runtime e) + rt_peer_observation_count (ed_runtime e) = int (length (rl_messages (nw_relay nw)))"
proof -
  have "caught_up (rl_messages (nw_relay nw)) e"
    using edge_run_inv [OF assms(1) build_network_inv(1)] assms(2) by (simp add: network_inv_def)
  then show ?thesis
    using sum_length_filter_compl [of "\<lambda>m. rm_publisher_id m = edge_id e" "rl_messages (nw_relay nw)"]
    by (simp_all add: caught_up_def)
qed

theorem views_follow_the_log_witness:
  "\<exists>nw. edge_run ''t'' (build_network ''t'') nw \<and> length (rl_messages (nw_relay nw)) = 1 \<and>
    (\<forall>e \<in> set (nw_edges nw). map_of (ed_observations e) ''temperature'' = Some (sample_payload ''degC'' 60) \<and>
      rt_published_observation_count (ed_runtime e) + rt_peer_observation_count (ed_runtime e) = 1)"
proof -
  have "upper_char (CHR ''T'') = CHR ''T''" by code_simp
  then have n: "infer_sensor_name (sample_payload ''degC'' 60) = Inr ''temperature''"
    by (simp add: infer_sensor_name_def sample_payload_def SENSOR_BY_TAG_PREFIX_def getitem_def)
  have len: "0 < length (nw_edges (build_network ''t''))"
    using arg_cong [OF build_network_inv(2), of length] by (simp add: EDGE_DEVICE_CONFIGS_def)
  obtain nw where p: "publish_local_observation ''t'' (sample_payload ''degC'' 60) 0 (build_network ''t'') = Inr nw"
    "rl_messages (nw_relay nw) = rl_messages (nw_relay (build_network ''t'')) @
       [\<lparr>rm_topic = ''t'', rm_publisher_id = edge_id (nw_edges (build_network ''t'') ! 0), rm_payload = sample_payload ''degC'' 60\<rparr>]"
    by (rule publish_spec [OF build_network_inv(1) len n])
  have r: "edge_run ''t'' (build_network ''t'') nw" by (rule publication [OF start len p(1)])
  have "log_view (rl_messages (nw_relay nw)) = [(''temperature'', sample_payload ''degC'' 60)]"
    by (simp add: p(2) build_network_inv(3) log_view_def add_to_view_def n)
  then show ?thesis
    using views_follow_the_log [OF r] p(2) by (intro exI [of _ nw]) (simp add: r build_network_inv(3))
qed

text \<open>
  C16. The upstream half of a cycle delivers what the sensors measured: from any state the live
  runtime can be in on the passive relay, one or more steps of collection succeed, the round input they lead to is
  decided with success by all three edges and without exclusions, and the consensused value
  of every sensor is the reading of the last snapshot, to the last bit. The state is again
  one the runtime can be in.
\<close>

theorem live_round_reaches_consensus:
  assumes "live_inv topic lv" "0 < n" "\<And>k. utc_time (clock k)"
  shows "\<exists>snap lv' ri pkg v. collect_steps rng clock topic pw n None lv = Inr (Some snap, lv') \<and> live_inv topic lv' \<and>
    build_consensus_round_input (nw_edges (lv_network lv')) = Inr ri \<and> evaluate ri = Inr pkg \<and>
    ap_final_status pkg = SUCCESS \<and> ap_exclusions pkg = [] \<and> ap_valid_state pkg = Some v \<and>
    source_edges v = [''edge-1'', ''edge-2'', ''edge-3''] \<and>
    (\<forall>name \<in> set consensus_sensors. map_of (sensor_values v) name = Some (snapshot_reading snap name))"
proof -
  obtain snap lv' ri pkg v where "collect_steps rng clock topic pw n None lv = Inr (Some snap, lv')" "live_inv topic lv'"
    "build_consensus_round_input (nw_edges (lv_network lv')) = Inr ri" "ri_participating_edges ri = [''edge-1'', ''edge-2'', ''edge-3'']"
    "evaluate ri = Inr pkg" "ap_final_status pkg = SUCCESS" "ap_exclusions pkg = []" "ap_valid_state pkg = Some v"
    "source_edges v = ri_participating_edges ri" "\<forall>name \<in> set consensus_sensors. map_of (sensor_values v) name = Some (snapshot_reading snap name)"
    by (rule live_collection [OF assms]) (rule that, assumption+)
  then show ?thesis by (intro exI conjI) (assumption | simp)+
qed

definition init_live :: "string \<Rightarrow> live_state" where
  "init_live topic = \<lparr>lv_simulator = init_simulator None, lv_network = build_network topic, lv_clock = 0\<rparr>"

lemma init_live_inv: "live_inv topic (init_live topic)"
  using build_network_inv [of topic] by (simp add: live_inv_def init_live_def network_configured_def init_simulator_def)

lemma sample_time_utc: "utc_time sample_time"
  by (simp add: utc_time_def sample_time_def valid_datetime_def days_in_month_def)

theorem live_round_reaches_consensus_witness:
  "\<exists>snap lv' ri pkg. collect_steps (\<lambda>_. 0) (\<lambda>_. sample_time) ''t'' 65 2 None (init_live ''t'') = Inr (Some snap, lv') \<and>
    build_consensus_round_input (nw_edges (lv_network lv')) = Inr ri \<and> evaluate ri = Inr pkg \<and> ap_final_status pkg = SUCCESS"
  using live_round_reaches_consensus [OF init_live_inv, of 2 "\<lambda>_. sample_time" "\<lambda>_. 0" "''t''" 65] sample_time_utc by auto

text \<open>The metadata of a snapshot never has the entry the edges read their noise floor from.\<close>

lemma live_noise_floor_zero:
  assumes "sound_snapshot snap" "edge_acquire rng now (Some snap) state pw e = Inr (p, e')"
  shows "pm_noise_floor (pd_physics_metrics (hp_process_data p)) = 0"
  using assms by (auto simp: edge_acquire_def attempt_eq_Inr read_noise_floor_def sound_snapshot_def payload_of_def Let_def)

end
