(* ===== verification/Transport.thy ===== *)
theory Transport
  imports Contracts
begin

text \<open>
  The wire format of payloads, \<open>edge_nodes/common/mqtt_io.py\<close>.
\<close>

section \<open>Transport of payloads\<close>

text \<open>
  \<open>deserialize_payload\<close> on the parsed value, with \<open>Cls(**d)\<close> for the parts: the keyword
  arguments are the keys of \<open>d\<close>, all of them known, and those without a default present.
\<close>

definition check_kwargs :: "string list \<Rightarrow> string list \<Rightarrow> pyval \<Rightarrow> unit res" where
  "check_kwargs required optional v = attempt (as_items v) (\<lambda>d.
     if \<not> (\<forall>k \<in> fst ` set d. k \<in> set required \<or> k \<in> set optional) then Inl (TypeError ''got an unexpected keyword argument'')
     else if \<not> (\<forall>k \<in> set required. k \<in> fst ` set d) then Inl (TypeError ''missing required argument'') else Inr ())"

definition sub_string :: "pyval \<Rightarrow> string \<Rightarrow> string res" where
  "sub_string v k = attempt (sub v k) as_str"

definition sub_number :: "pyval \<Rightarrow> string \<Rightarrow> flt res" where
  "sub_number v k = attempt (sub v k) to_float"

definition sub_integer :: "pyval \<Rightarrow> string \<Rightarrow> int res" where
  "sub_integer v k = attempt (sub v k) to_int"

fun as_bool :: "pyval \<Rightarrow> bool res" where
  "as_bool (PBool b) = Inr b"
| "as_bool _ = Inl (TypeError ''expected bool'')"

definition sub_bool :: "pyval \<Rightarrow> string \<Rightarrow> bool res" where
  "sub_bool v k = attempt (sub v k) as_bool"

fun as_opt_int :: "pyval \<Rightarrow> int option res" where
  "as_opt_int PNone = Inr None"
| "as_opt_int v = attempt (to_int v) (\<lambda>i. Inr (Some i))"

definition read_device_info :: "pyval \<Rightarrow> device_info res" where
  "read_device_info v = attempt (check_kwargs [''tag'', ''long_tag'', ''manufacturer_id'', ''device_type''] [] v) (\<lambda>_.
     attempt (sub_string v ''tag'') (\<lambda>tag. attempt (sub_string v ''long_tag'') (\<lambda>long.
     attempt (sub_integer v ''manufacturer_id'') (\<lambda>m. attempt (sub_integer v ''device_type'') (\<lambda>t.
       Inr \<lparr>di_tag = tag, di_long_tag = long, di_manufacturer_id = m, di_device_type = t\<rparr>)))))"

definition read_process_variable :: "pyval \<Rightarrow> process_variable res" where
  "read_process_variable v = attempt (check_kwargs [''value'', ''unit''] [''unit_code'', ''description''] v) (\<lambda>_.
     attempt (sub_number v ''value'') (\<lambda>x. attempt (sub_string v ''unit'') (\<lambda>u.
     attempt (attempt (pget v ''unit_code'') as_opt_int) (\<lambda>c. attempt (attempt (pget v ''description'') as_opt_str) (\<lambda>d.
       Inr \<lparr>pv_value = x, pv_unit = u, pv_unit_code = c, pv_description = d\<rparr>)))))"

definition read_physics_metrics :: "pyval \<Rightarrow> physics_metrics res" where
  "read_physics_metrics v = attempt (check_kwargs [''noise_floor'', ''rate_of_change_dtdt'', ''local_stability_score''] [] v) (\<lambda>_.
     attempt (sub_number v ''noise_floor'') (\<lambda>n. attempt (sub_number v ''rate_of_change_dtdt'') (\<lambda>r.
     attempt (sub_number v ''local_stability_score'') (\<lambda>s.
       Inr \<lparr>pm_noise_floor = n, pm_rate_of_change_dtdt = r, pm_local_stability_score = s\<rparr>))))"

definition read_diagnostics :: "pyval \<Rightarrow> diagnostics res" where
  "read_diagnostics v = attempt (check_kwargs [''device_status_hex'', ''field_device_malfunction'', ''loop_current_saturated'', ''cold_start''] [] v) (\<lambda>_.
     attempt (sub_string v ''device_status_hex'') (\<lambda>h. attempt (sub_bool v ''field_device_malfunction'') (\<lambda>m.
     attempt (sub_bool v ''loop_current_saturated'') (\<lambda>s. attempt (sub_bool v ''cold_start'') (\<lambda>c.
       Inr \<lparr>dg_device_status_hex = h, dg_field_device_malfunction = m, dg_loop_current_saturated = s, dg_cold_start = c\<rparr>)))))"

definition deserialize_value :: "pyval \<Rightarrow> raw_hart_payload res" where
  "deserialize_value data = attempt (sub data ''process_data'') (\<lambda>pd. attempt (sub data ''diagnostics'') (\<lambda>dg.
     attempt (sub pd ''physics_metrics'') (\<lambda>pm.
     attempt (sub_string data ''protocol'') (\<lambda>protocol. attempt (sub_string data ''gateway_id'') (\<lambda>gateway.
     attempt (sub_string data ''timestamp'') (\<lambda>ts. attempt (attempt (sub data ''device_info'') read_device_info) (\<lambda>di.
     attempt (attempt (sub pd ''pv'') read_process_variable) (\<lambda>pv.
     attempt (attempt (pget pd ''sv'') (\<lambda>sv. if sv = PNone then Inr None
       else attempt (attempt (sub pd ''sv'') read_process_variable) (\<lambda>s. Inr (Some s)))) (\<lambda>sv.
     attempt (sub_number pd ''loop_current_ma'') (\<lambda>ma. attempt (sub_number pd ''pv_percent_range'') (\<lambda>pct.
     attempt (read_physics_metrics pm) (\<lambda>metrics. attempt (read_diagnostics dg) (\<lambda>diag.
       Inr \<lparr>hp_protocol = protocol, hp_gateway_id = gateway, hp_timestamp = ts, hp_device_info = di,
         hp_process_data = \<lparr>pd_pv = pv, pd_sv = sv, pd_loop_current_ma = ma, pd_pv_percent_range = pct,
           pd_physics_metrics = metrics\<rparr>, hp_diagnostics = diag\<rparr>)))))))))))))"

lemmas payload_readers = sub_string_def sub_number_def sub_integer_def sub_bool_def check_kwargs_def

lemma as_opt_int_opt_int [simp]: "as_opt_int (opt_int i) = Inr i"
  by (cases i) (simp_all add: opt_int_def)

lemma read_device_info [simp]: "read_device_info (device_info_dict d) = Inr d"
  by (simp add: read_device_info_def device_info_dict_def payload_readers)

lemma read_process_variable [simp]: "read_process_variable (process_variable_dict d) = Inr d"
  by (simp add: read_process_variable_def process_variable_dict_def payload_readers)

lemma read_physics_metrics [simp]: "read_physics_metrics (physics_metrics_dict d) = Inr d"
  by (simp add: read_physics_metrics_def physics_metrics_dict_def payload_readers)

lemma read_diagnostics [simp]: "read_diagnostics (diagnostics_dict d) = Inr d"
  by (simp add: read_diagnostics_def diagnostics_dict_def payload_readers)

lemma process_variable_dict_not_None [simp]: "process_variable_dict v \<noteq> PNone"
  by (simp add: process_variable_dict_def)

lemma deserialize_value_payload: "deserialize_value (payload_to_dict p) = Inr p"
  by (cases "pd_sv (hp_process_data p)")
    (simp_all add: deserialize_value_def payload_to_dict_def process_data_dict_def payload_readers)

section \<open>Properties\<close>

text \<open>
  A payload survives its transport: what \<open>deserialize_payload\<close> builds from the
  dictionary of \<open>to_dict\<close> is the payload, the optional secondary variable, unit code and
  description included.
\<close>

theorem payload_roundtrip: "deserialize_value (payload_to_dict p) = Inr p"
  by (rule deserialize_value_payload)

end
