(* ===== verification/ReplayBehavior.thy ===== *)
theory ReplayBehavior
  imports Lifecycle
begin

text \<open>
  The detection of replayed and frozen supervisory values, the second half of
  \<open>lstm_service/replay_behavior.py\<close> with \<open>contracts/replay_behavior.py\<close>: a dataset of one
  window whose last row is rebuilt from the supervisory state, scored by the saved model. A
  round identifier read from an artifact is a key of a dictionary, so it has to be hashable.
\<close>

section \<open>The result\<close>

definition REPLAY_OUTPUT_CHANNEL :: string where
  "REPLAY_OUTPUT_CHANNEL = ''scada_replay_behavior''"

definition DEFAULT_REPLAY_THRESHOLD_STDDEV_MULTIPLIER :: flt where
  "DEFAULT_REPLAY_THRESHOLD_STDDEV_MULTIPLIER = 0"

record replay_behavior_result =
  rb_output_channel :: string
  rb_scenario_mode :: string
  rb_current_round_id :: string
  rb_scada_source_round_id :: string
  rb_replay_source_round_id :: "string option"
  rb_model_id :: string
  rb_source_dataset_id :: string
  rb_inference_dataset_id :: string
  rb_source_dataset_validation_level :: string
  rb_limitation_note :: "string option"
  rb_window_id :: string
  rb_artifact_keys :: "string list"
  rb_anomaly_score :: flt
  rb_classification_threshold :: flt
  rb_classification :: inference_classification
  rb_scada_divergent_sensors :: "string list"
  rb_consensus_final_status :: string

definition replay_behavior_to_dict :: "replay_behavior_result \<Rightarrow> pyval" where
  "replay_behavior_to_dict r = PDict [(''output_channel'', PStr (rb_output_channel r)),
     (''scenario_mode'', PStr (rb_scenario_mode r)), (''current_round_id'', PStr (rb_current_round_id r)),
     (''scada_source_round_id'', PStr (rb_scada_source_round_id r)),
     (''replay_source_round_id'', opt_str (rb_replay_source_round_id r)), (''model_id'', PStr (rb_model_id r)),
     (''source_dataset_id'', PStr (rb_source_dataset_id r)), (''inference_dataset_id'', PStr (rb_inference_dataset_id r)),
     (''source_dataset_validation_level'', PStr (rb_source_dataset_validation_level r)),
     (''limitation_note'', opt_str (rb_limitation_note r)), (''window_id'', PStr (rb_window_id r)),
     (''artifact_keys'', PList (map PStr (rb_artifact_keys r))), (''anomaly_score'', PFloat (rb_anomaly_score r)),
     (''classification_threshold'', PFloat (rb_classification_threshold r)),
     (''classification'', PStr (classification_value (rb_classification r))),
     (''scada_divergent_sensors'', PList (map PStr (rb_scada_divergent_sensors r))),
     (''consensus_final_status'', PStr (rb_consensus_final_status r))]"

section \<open>The supervisory features\<close>

text \<open>\<open>float(x or 0.0)\<close> and \<open>bool(b)\<close> on optional fields.\<close>

definition or_zero :: "flt option \<Rightarrow> flt" where
  "or_zero x = (case x of None \<Rightarrow> 0 | Some v \<Rightarrow> v)"

definition opt_flag :: "bool option \<Rightarrow> flt" where
  "opt_flag b = (if b = Some True then 1 else 0)"

definition behavioral_features :: "behavioral_state \<Rightarrow> flt list" where
  "behavioral_features b = [or_zero (bs_loop_current_ma b), fdiv (fsub (or_zero (bs_loop_current_ma b)) 4) 16,
     opt_flag (bs_field_device_malfunction b), opt_flag (bs_loop_current_saturated b), opt_flag (bs_cold_start b)]"

definition extract_scada_behavioral_feature_vector :: "scada_state \<Rightarrow> (string list \<times> flt list) res" where
  "extract_scada_behavioral_feature_vector st = (let names = map fst (sorted_items (st_sensor_values st)) in
     attempt (mapM (\<lambda>name. case map_of (behavioral_or_empty st) name of
         None \<Rightarrow> Inl (ValueError (''SCADA replay evaluation requires behavioral payload for sensor '' @ [CHR 0x27] @ name @ [CHR 0x27] @ ''.''))
       | Some b \<Rightarrow> Inr (behavioral_features b)) names) (\<lambda>vals.
     Inr (concat (map sensor_feature_names names), concat vals)))"

text \<open>\<open>a or b or c\<close> on optional texts and a text.\<close>

definition or_text :: "string option \<Rightarrow> string \<Rightarrow> string" where
  "or_text a d = (case a of None \<Rightarrow> d | Some s \<Rightarrow> if s = [] then d else s)"

definition replay_round_id_of :: "scada_state \<Rightarrow> replay_stage \<Rightarrow> string" where
  "replay_round_id_of st rp = or_text (st_behavioral_source_round_id st)
     (or_text (rp_replay_source_round_id rp) (st_source_round_id st))"

definition build_scada_state_artifact_key :: "string \<Rightarrow> scada_state \<Rightarrow> replay_stage \<Rightarrow> string" where
  "build_scada_state_artifact_key current_round_id st rp =
     ''scada-state::'' @ current_round_id @ ''::'' @ rp_mode rp @ ''::'' @ replay_round_id_of st rp"

section \<open>The dataset\<close>

fun hashable :: "pyval \<Rightarrow> bool" where
  "hashable (PList _) = False"
| "hashable (PDict _) = False"
| "hashable _ = True"

definition artifact_round_id :: "pyval \<Rightarrow> pyval res" where
  "artifact_round_id a = attempt (sub a ''round_identity'') (\<lambda>r. attempt (sub r ''round_id'') (\<lambda>v.
     if hashable v then Inr v else Inl (TypeError ''unhashable type'')))"

fun index_of :: "'a \<Rightarrow> 'a list \<Rightarrow> nat" where
  "index_of x [] = 0"
| "index_of x (y # ys) = (if y = x then 0 else Suc (index_of x ys))"

text \<open>The loop over the recent artifacts: the schema, then rows, keys, rounds and times.\<close>

type_synonym replay_rows = "string list \<times> flt list list \<times> string list \<times> string list \<times> string list"

definition schema_mismatch :: py_error where
  "schema_mismatch = ValueError ''Replay inference dataset feature schema mismatch.''"

fun replay_rows :: "replay_rows \<Rightarrow> pyval list \<Rightarrow> replay_rows res" where
  "replay_rows acc [] = Inr acc"
| "replay_rows (schema, rows, keys, rids, tss) (a # as) = attempt (extract_feature_vector a) (\<lambda>(sch, row).
     if schema \<noteq> [] \<and> sch \<noteq> schema then Inl schema_mismatch
     else attempt (attempt (sub a ''artifact_key'') as_str) (\<lambda>key.
     attempt (sub a ''round_identity'') (\<lambda>r.
     attempt (attempt (sub r ''round_id'') as_str) (\<lambda>rid. attempt (attempt (sub r ''window_ended_at'') as_str) (\<lambda>ts.
       replay_rows (if schema = [] then sch else schema, rows @ [row], keys @ [key], rids @ [rid], tss @ [ts]) as)))))"

text \<open>The window and the manifest of the rebuilt dataset.\<close>

definition replay_dataset ::
  "string \<Rightarrow> string \<Rightarrow> scada_state \<Rightarrow> replay_stage \<Rightarrow> int \<Rightarrow> replay_rows \<Rightarrow> training_window \<times> dataset_manifest" where
  "replay_dataset bucket current_round_id st rp k = (\<lambda>(schema, rows, keys, rids, tss).
     let source = replay_round_id_of st rp in
     (\<lparr>tw_window_id = ''replay-window::'' @ current_round_id @ ''::'' @ source, tw_artifact_keys = keys, tw_round_ids = rids,
        tw_timestamps = tss, tw_feature_schema = schema, tw_feature_matrix = rows, tw_label = rp_mode rp\<rparr>,
      \<lparr>dm_dataset_id = ''replay-dataset::'' @ current_round_id @ ''::'' @ rp_mode rp @ ''::'' @ source @ ''::seq-'' @ str_of_int k,
        dm_source_bucket = bucket, dm_source_prefix = VALID_ARTIFACT_PREFIX, dm_sequence_length = k,
        dm_feature_schema = schema, dm_selected_artifact_keys = keys, dm_skipped_artifacts = [],
        dm_eligible_record_count = int (length keys), dm_window_count = 1, dm_training_label = rp_mode rp @ ''_evaluation''\<rparr>))"

text \<open>The artifacts up to the current round, without it, as many as the window takes.\<close>

definition recent_artifacts :: "'s store_ops \<Rightarrow> string \<Rightarrow> int \<Rightarrow> 's \<Rightarrow> pyval list res" where
  "recent_artifacts ops current_round_id k s = (if k \<le> 0 then Inl (ValueError ''sequence_length must be positive for replay detection.'')
     else attempt (op_list_json_objects ops VALID_ARTIFACT_PREFIX s) (\<lambda>keys.
     attempt (mapM (\<lambda>key. op_load_json ops key s) keys) (\<lambda>artifacts.
     attempt (mapM artifact_round_id artifacts) (\<lambda>rids.
     if PStr current_round_id \<notin> set rids
       then Inl (ValueError ''Current round artifact is not available for replay detection.'')
     else let i = index_of (PStr current_round_id) rids in
       if int i < k - 1 then Inl (ValueError ''Not enough valid history to build replay inference dataset.'')
       else Inr (butlast (drop (i + 1 - nat k) (take (i + 1) artifacts)))))))"

definition replay_window_of ::
  "'s store_ops \<Rightarrow> string \<Rightarrow> scada_state \<Rightarrow> replay_stage \<Rightarrow> int \<Rightarrow> 's \<Rightarrow> (training_window \<times> dataset_manifest) res" where
  "replay_window_of ops current_round_id st rp k s = attempt (recent_artifacts ops current_round_id k s) (\<lambda>recent.
     attempt (extract_scada_behavioral_feature_vector st) (\<lambda>(scada_schema, scada_row).
     attempt (replay_rows ([], [], [], [], []) recent) (\<lambda>(schema, rows, keys, rids, tss).
     if schema \<noteq> [] \<and> scada_schema \<noteq> schema then Inl schema_mismatch
     else Inr (replay_dataset (op_bucket ops) current_round_id st rp k (if schema = [] then scada_schema else schema,
       rows @ [scada_row], keys @ [build_scada_state_artifact_key current_round_id st rp],
       rids @ [current_round_id], tss @ [st_timestamp st])))))"

definition persist_scada_replay_inference_dataset ::
  "'s store_ops \<Rightarrow> numpy option \<Rightarrow> string \<Rightarrow> scada_state \<Rightarrow> replay_stage \<Rightarrow> int \<Rightarrow> datetime \<Rightarrow> ('s, dataset_artifact) act" where
  "persist_scada_replay_inference_dataset ops np current_round_id st rp k now =
     bind_act (reading (replay_window_of ops current_round_id st rp k)) (\<lambda>(w, m). persist_default ops np [w] m now DATASET_PREFIX)"

section \<open>Detection\<close>

definition replay_result_of ::
  "string \<Rightarrow> string \<Rightarrow> scada_state \<Rightarrow> comparison_output \<Rightarrow> replay_stage \<Rightarrow> inference_result \<Rightarrow> replay_behavior_result" where
  "replay_result_of current_round_id final_status st out rp r = \<lparr>rb_output_channel = REPLAY_OUTPUT_CHANNEL,
     rb_scenario_mode = rp_mode rp, rb_current_round_id = current_round_id, rb_scada_source_round_id = st_source_round_id st,
     rb_replay_source_round_id = (case st_behavioral_source_round_id st of Some s \<Rightarrow>
       if s = [] then rp_replay_source_round_id rp else Some s | None \<Rightarrow> rp_replay_source_round_id rp),
     rb_model_id = ir_model_id r, rb_source_dataset_id = ir_source_dataset_id r,
     rb_inference_dataset_id = ir_inference_dataset_id r,
     rb_source_dataset_validation_level = ir_source_dataset_validation_level r, rb_limitation_note = ir_limitation_note r,
     rb_window_id = ir_window_id r, rb_artifact_keys = ir_artifact_keys r, rb_anomaly_score = ir_anomaly_score r,
     rb_classification_threshold = ir_classification_threshold r, rb_classification = ir_classification r,
     rb_scada_divergent_sensors = divergent_sensors out, rb_consensus_final_status = final_status\<rparr>"

definition run_scada_replay_behavior_detection ::
  "'s store_ops \<Rightarrow> numpy option \<Rightarrow> 'm keras \<Rightarrow> string \<Rightarrow> string \<Rightarrow> scada_state \<Rightarrow> comparison_output \<Rightarrow> replay_stage \<Rightarrow> int \<Rightarrow> flt
     \<Rightarrow> datetime \<Rightarrow> ('s, replay_behavior_result option \<times> inference_result list) act" where
  "run_scada_replay_behavior_detection ops np kr current_round_id final_status st out rp k multiplier now =
     (if \<not> rp_active rp \<or> rp_mode rp \<notin> {''replay'', ''freeze''} then ret (None, [])
      else bind_act (reading (latest_model_metadata_key ops)) (\<lambda>latest.
        case latest of None \<Rightarrow> ret (None, []) | Some key \<Rightarrow>
          bind_act (persist_scada_replay_inference_dataset ops np current_round_id st rp k now) (\<lambda>ds.
          bind_act (reading (run_lstm_fingerprint_inference_from_persisted_dataset ops np kr key (da_manifest_object_key ds)
            None multiplier DEFAULT_MINIMUM_ANOMALY_THRESHOLD)) (\<lambda>results.
          case results of [] \<Rightarrow> ret (None, [])
          | r # _ \<Rightarrow> ret (Some (replay_result_of current_round_id final_status st out rp r), results)))))"

section \<open>Laws\<close>

text \<open>The supervisory row of a state in which every sensor has a behavioral payload.\<close>

definition recorded :: "scada_state \<Rightarrow> bool" where
  "recorded st = (distinct (map fst (st_sensor_values st)) \<and> set (map fst (st_sensor_values st)) = set SUPPORTED_SCADA_SENSORS \<and>
     (\<forall>n \<in> set SUPPORTED_SCADA_SENSORS. map_of (behavioral_or_empty st) n \<noteq> None))"

definition sensor_columns :: "string list" where
  "sensor_columns = [''pressure'', ''rpm'', ''temperature'']"

definition replay_schema :: "string list" where
  "replay_schema = concat (map sensor_feature_names sensor_columns)"

lemma recorded_columns:
  assumes "recorded st"
  shows "map fst (sorted_items (st_sensor_values st)) = sensor_columns"
proof (rule sorted_distinct_set_unique)
  show "sorted (map fst (sorted_items (st_sensor_values st)))" "sorted sensor_columns"
    by (simp_all add: sorted_items_def sensor_columns_def)
  show "distinct (map fst (sorted_items (st_sensor_values st)))"
    using assms by (simp add: sorted_items_def recorded_def distinct_map)
  show "distinct sensor_columns" by (simp add: sensor_columns_def)
  show "set (map fst (sorted_items (st_sensor_values st))) = set sensor_columns"
    using assms by (auto simp: sorted_items_def recorded_def sensor_columns_def SUPPORTED_SCADA_SENSORS_def)
qed

lemma supervisory_row:
  assumes "recorded st"
  shows "extract_scada_behavioral_feature_vector st =
    Inr (replay_schema, concat (map (\<lambda>n. behavioral_features (the (map_of (behavioral_or_empty st) n))) sensor_columns))"
proof -
  have "mapM (\<lambda>name. case map_of (behavioral_or_empty st) name of
         None \<Rightarrow> Inl (ValueError (''SCADA replay evaluation requires behavioral payload for sensor '' @ [CHR 0x27] @ name @ [CHR 0x27] @ ''.''))
       | Some b \<Rightarrow> Inr (behavioral_features b)) sensor_columns =
     Inr (map (\<lambda>n. behavioral_features (the (map_of (behavioral_or_empty st) n))) sensor_columns)"
  proof (rule mapM_Inr)
    fix n assume "n \<in> set sensor_columns"
    then have "n \<in> set SUPPORTED_SCADA_SENSORS" by (auto simp: sensor_columns_def SUPPORTED_SCADA_SENSORS_def)
    then obtain b where "map_of (behavioral_or_empty st) n = Some b" using assms by (auto simp: recorded_def)
    then show "(case map_of (behavioral_or_empty st) n of
         None \<Rightarrow> Inl (ValueError (''SCADA replay evaluation requires behavioral payload for sensor '' @ [CHR 0x27] @ n @ [CHR 0x27] @ ''.''))
       | Some b \<Rightarrow> Inr (behavioral_features b)) = Inr (behavioral_features (the (map_of (behavioral_or_empty st) n)))" by simp
  qed
  then show ?thesis
    by (simp add: extract_scada_behavioral_feature_vector_def recorded_columns [OF assms] replay_schema_def Let_def)
qed

text \<open>Every projection of a validated source is such a state.\<close>

lemma projected_keys:
  assumes "project_sensors v sv names (vals, frozen, beh) = Inr (vals', frozen', beh')"
  shows "set (map fst vals') = set names \<union> set (map fst vals) \<and> (distinct (map fst vals) \<longrightarrow> distinct (map fst vals'))"
  using assms
proof (induction names arbitrary: vals frozen beh)
  case (Cons n names)
  then obtain x frozen1 beh1 where "project_sensors v sv names (AList.update n x vals, frozen1, beh1) = Inr (vals', frozen', beh')"
    by (auto simp: attempt_eq_Inr split: option.splits)
  from Cons.IH [OF this] show ?case by (auto simp: fst_update distinct_update simp del: set_map)
qed simp

lemma update_recorded:
  assumes "scada_ready v (Some src) sv" "update_from_consensused_state v (Some src) sv = Inr (st, sv')"
  shows "recorded st" "sv_history sv' = sv_history sv @ [st]"
    "n \<in> set SUPPORTED_SCADA_SENSORS \<Longrightarrow> map_of (behavioral_or_empty st) n = Some (behavioral_projection n
       (behavioral_state_from_payload (the (map_of (observations_by_sensor src) n)) (round_id (vs_round_identity v)))
       (the (map_of (sv_overrides sv) n)) (sv_history sv))"
proof -
  obtain st' frozen beh beh' where p: "project_state v (Some src) sv = Inr (st', sv\<lparr>sv_frozen_values := frozen\<rparr>)"
    "build_behavioral_sensor_values v (Some src) = Inr beh" "behavioral_or_empty st' = beh'"
    "\<And>n. n \<in> set SUPPORTED_SCADA_SENSORS \<Longrightarrow> map_of beh' n =
       map_option (\<lambda>b. behavioral_projection n b (the (map_of (sv_overrides sv) n)) (sv_history sv)) (map_of beh n)"
    by (rule project_state_spec [OF assms(1)]) (rule that, assumption+)
  have st: "st' = st" and h: "sv_history sv' = sv_history sv @ [st]"
    using assms(2) p(1) by (auto simp: update_from_consensused_state_def)
  show "sv_history sv' = sv_history sv @ [st]" by (rule h)
  have src: "observes_all src" using assms(1) by (simp add: scada_ready_def)
  have beh: "map_of beh n = Some (behavioral_state_from_payload (the (map_of (observations_by_sensor src) n)) (round_id (vs_round_identity v)))"
    if n: "n \<in> set SUPPORTED_SCADA_SENSORS" for n
  proof -
    have "\<exists>p. map_of (observations_by_sensor src) n = Some p"
      using src n by (auto simp: observes_all_def SUPPORTED_SCADA_SENSORS_def SENSOR_SCALES_def)
    with behavioral_total [of "Some src" v] src n p(2) show ?thesis by auto
  qed
  show b: "n \<in> set SUPPORTED_SCADA_SENSORS \<Longrightarrow> map_of (behavioral_or_empty st) n = Some (behavioral_projection n
       (behavioral_state_from_payload (the (map_of (observations_by_sensor src) n)) (round_id (vs_round_identity v)))
       (the (map_of (sv_overrides sv) n)) (sv_history sv))" for n
    using p(3,4) beh by (simp add: st)
  obtain vals f2 b2 where "project_sensors v sv SUPPORTED_SCADA_SENSORS ([], sv_frozen_values sv, beh) = Inr (vals, f2, b2)"
      "st_sensor_values st = vals"
    using p(1,2) by (auto simp: project_state_def Let_def attempt_eq_Inr st split: if_splits)
  from projected_keys [OF this(1)] this(2) b show "recorded st" by (auto simp: recorded_def)
qed

text \<open>The features do not read the mode, so an old payload gives its old row.\<close>

lemma behavioral_features_mode [simp]: "behavioral_features (b\<lparr>bs_mode := m\<rparr>) = behavioral_features b"
  by (simp add: behavioral_features_def)

lemma replayed_row:
  assumes "configure_scada_replay_runtime_stage c i sv0 = Inr (rp, sv)" "rp_active rp" "rp_mode rp \<in> {''replay'', ''freeze''}"
    and "sv_history sv0 \<noteq> []" "\<forall>h \<in> set (sv_history sv0). recorded h"
    and "scada_ready v (Some src) sv" "update_from_consensused_state v (Some src) sv = Inr (st, sv')"
  shows "extract_scada_behavioral_feature_vector st = extract_scada_behavioral_feature_vector
    (if rp_mode rp = ''replay'' then hd (sv_history sv0) else last (sv_history sv0))"
proof -
  let ?h = "if rp_mode rp = ''replay'' then hd (sv_history sv0) else last (sv_history sv0)"
  note inv = configured_inv [OF assms(1)]
  have mode: "rp_mode rp = demo_scada_mode c"
    "rp_mode rp = ''replay'' \<Longrightarrow> rp_replay_source_round_id rp = Some (st_source_round_id (hd (sv_history sv0)))"
    using configure_stage_spec [of c i sv0] assms(1,2,4) by auto
  have h: "recorded ?h" using assms(4,5) by simp
  have b: "behavioral_features (the (map_of (behavioral_or_empty st) n)) = behavioral_features (the (map_of (behavioral_or_empty ?h) n))"
    if n: "n \<in> set SUPPORTED_SCADA_SENSORS" for n
  proof -
    obtain b where b: "map_of (behavioral_or_empty ?h) n = Some b" using h n by (auto simp: recorded_def)
    have ov: "ov_mode (stage_override c rp n) = rp_mode rp"
      "rp_mode rp = ''replay'' \<Longrightarrow> ov_replay_round_id (stage_override c rp n) = Some (st_source_round_id (hd (sv_history sv0)))"
      "rp_mode rp = ''freeze'' \<Longrightarrow> ov_replay_round_id (stage_override c rp n) = None"
      using assms(2,3) mode(2) by (auto simp: stage_override_def default_override_def)
    have "resolve_historical_behavioral_state n (ov_replay_round_id (stage_override c rp n)) (sv_history sv0) = Some b"
      using assms(3,4) ov(2,3) b by (cases "sv_history sv0") (auto simp: resolve_historical_behavioral_state_def)
    then have "behavioral_projection n cur (stage_override c rp n) (sv_history sv) = b\<lparr>bs_mode := rp_mode rp\<rparr>" for cur
      using assms(3) by (auto simp: behavioral_projection_def ov(1) inv(3))
    then show ?thesis using update_recorded(3) [OF assms(6,7) n] inv(4) [OF n] b by simp
  qed
  have "set sensor_columns = set SUPPORTED_SCADA_SENSORS" by (auto simp: sensor_columns_def SUPPORTED_SCADA_SENSORS_def)
  then have "map (\<lambda>n. behavioral_features (the (map_of (behavioral_or_empty st) n))) sensor_columns =
      map (\<lambda>n. behavioral_features (the (map_of (behavioral_or_empty ?h) n))) sensor_columns"
    using b by (intro map_cong) auto
  then show ?thesis by (simp only: supervisory_row [OF update_recorded(1) [OF assms(6,7)]] supervisory_row [OF h])
qed

text \<open>The window: the last artifacts before the current round, then the supervisory row.\<close>

definition feature_row :: "pyval \<Rightarrow> flt list res" where
  "feature_row a = attempt (extract_feature_vector a) (\<lambda>x. Inr (snd x))"

lemma replay_rows_spec:
  assumes "replay_rows (schema, rows, keys, rids, tss) as = Inr (schema', rows', keys', rids', tss')"
  shows "\<exists>new nk nr nt. rows' = rows @ new \<and> keys' = keys @ nk \<and> rids' = rids @ nr \<and> tss' = tss @ nt \<and>
    mapM feature_row as = Inr new \<and>
    length new = length as \<and> length nk = length as \<and> length nr = length as \<and> length nt = length as"
  using assms
proof (induction as arbitrary: schema rows keys rids tss)
  case (Cons a as)
  then obtain sch row key rid ts schema1 where e: "extract_feature_vector a = Inr (sch, row)"
    "replay_rows (schema1, rows @ [row], keys @ [key], rids @ [rid], tss @ [ts]) as = Inr (schema', rows', keys', rids', tss')"
    by (auto simp: attempt_eq_Inr split: if_splits)
  from Cons.IH [OF e(2)] obtain new nk nr nt where r: "rows' = rows @ row # new" "keys' = keys @ key # nk" "rids' = rids @ rid # nr"
    "tss' = tss @ ts # nt" "mapM feature_row as = Inr new"
    "length new = length as" "length nk = length as" "length nr = length as" "length nt = length as" by auto
  have f: "feature_row a = Inr row" by (simp add: feature_row_def e(1))
  show ?case
    by (rule exI [of _ "row # new"], rule exI [of _ "key # nk"], rule exI [of _ "rid # nr"], rule exI [of _ "ts # nt"], simp add: r f)
qed simp

lemma recent_length:
  assumes "recent_artifacts ops rid k s = Inr as"
  shows "0 < k \<and> length as = nat k - 1 \<and> (\<exists>keys artifacts. op_list_json_objects ops VALID_ARTIFACT_PREFIX s = Inr keys \<and>
    mapM (\<lambda>key. op_load_json ops key s) keys = Inr artifacts \<and> set as \<subseteq> set artifacts)"
proof -
  obtain keys artifacts rids where a: "0 < k" "op_list_json_objects ops VALID_ARTIFACT_PREFIX s = Inr keys"
    "mapM (\<lambda>key. op_load_json ops key s) keys = Inr artifacts" "mapM artifact_round_id artifacts = Inr rids"
    "PStr rid \<in> set rids" "k - 1 \<le> int (index_of (PStr rid) rids)"
    "as = butlast (drop (index_of (PStr rid) rids + 1 - nat k) (take (index_of (PStr rid) rids + 1) artifacts))"
    using assms by (auto simp: recent_artifacts_def attempt_eq_Inr Let_def split: if_splits)
  have "index_of x xs < length xs" if "x \<in> set xs" for x and xs :: "pyval list"
    using that by (induction xs) auto
  then have "index_of (PStr rid) rids < length artifacts" using a(5) mapM_length [OF a(4)] by metis
  then have "length as = nat k - 1" using a(1,6) by (auto simp: a(7))
  moreover have "set as \<subseteq> set artifacts" unfolding a(7) by (meson in_set_butlastD set_drop_subset set_take_subset subset_eq)
  ultimately show ?thesis using a(1,2,3) by blast
qed

lemma replay_window_spec:
  assumes "replay_window_of ops rid st rp k s = Inr (w, m)"
  shows "0 < k" "length (tw_feature_matrix w) = nat k" "length (tw_artifact_keys w) = nat k" "length (tw_round_ids w) = nat k"
    "length (tw_timestamps w) = nat k"
    "\<exists>sch. extract_scada_behavioral_feature_vector st = Inr (sch, last (tw_feature_matrix w)) \<and> tw_feature_schema w = sch"
    "last (tw_artifact_keys w) = build_scada_state_artifact_key rid st rp" "last (tw_round_ids w) = rid"
    "dm_sequence_length m = k" "dm_feature_schema m = tw_feature_schema w" "starts_with ''replay-dataset::'' (dm_dataset_id m)"
    "\<exists>recent. recent_artifacts ops rid k s = Inr recent \<and> mapM feature_row recent = Inr (butlast (tw_feature_matrix w))"
proof -
  obtain recent sch row schema rows keys rids tss where a: "recent_artifacts ops rid k s = Inr recent"
    "extract_scada_behavioral_feature_vector st = Inr (sch, row)" "replay_rows ([], [], [], [], []) recent = Inr (schema, rows, keys, rids, tss)"
    "schema = [] \<or> sch = schema" "(w, m) = replay_dataset (op_bucket ops) rid st rp k (if schema = [] then sch else schema,
       rows @ [row], keys @ [build_scada_state_artifact_key rid st rp], rids @ [rid], tss @ [st_timestamp st])"
    using assms by (auto simp: replay_window_of_def attempt_eq_Inr split: if_splits)
  note r = recent_length [OF a(1)]
  from replay_rows_spec [OF a(3)] r have len: "length rows = nat k - 1" "length keys = nat k - 1" "length rids = nat k - 1"
    "length tss = nat k - 1" "mapM feature_row recent = Inr rows" by auto
  note d = a(5) [unfolded replay_dataset_def Let_def prod.case prod.inject]
  show "0 < k" using r by simp
  with len show "length (tw_feature_matrix w) = nat k" "length (tw_artifact_keys w) = nat k" "length (tw_round_ids w) = nat k"
    "length (tw_timestamps w) = nat k"
    using d by simp_all
  show "\<exists>sch. extract_scada_behavioral_feature_vector st = Inr (sch, last (tw_feature_matrix w)) \<and> tw_feature_schema w = sch"
    using a(2,4) d by auto
  show "last (tw_artifact_keys w) = build_scada_state_artifact_key rid st rp" "last (tw_round_ids w) = rid"
    "dm_sequence_length m = k" "dm_feature_schema m = tw_feature_schema w" "starts_with ''replay-dataset::'' (dm_dataset_id m)"
    using d by (simp_all add: starts_with_def)
  show "\<exists>recent. recent_artifacts ops rid k s = Inr recent \<and> mapM feature_row recent = Inr (butlast (tw_feature_matrix w))"
    using a(1) len(5) d by simp
qed

definition REPLAY_DATASETS :: string where
  "REPLAY_DATASETS = DATASET_PREFIX @ ''replay-dataset::''"

lemma replay_key [simp]: "starts_with ''replay-dataset::'' i \<Longrightarrow> starts_with REPLAY_DATASETS (DATASET_PREFIX @ i @ t)"
proof -
  assume "starts_with ''replay-dataset::'' i"
  then have "take (length ''replay-dataset::'') i = ''replay-dataset::''" by (simp only: starts_with_def)
  then obtain u where "i = ''replay-dataset::'' @ u" by (metis append_take_drop_id)
  then show ?thesis by (simp add: REPLAY_DATASETS_def starts_with_def)
qed

lemma replay_keys_elsewhere:
  "starts_with REPLAY_DATASETS key \<Longrightarrow> starts_with DATASET_PREFIX key"
  by (rule starts_with_trans [of _ REPLAY_DATASETS]) (simp add: REPLAY_DATASETS_def)

context artifact_store
begin

lemma confined_persist_keys:
  "confined contents {manifest_key_of pre (dm_dataset_id m), windows_key_of pre (dm_dataset_id m)}
     (persist_training_dataset_artifacts ops np ws m created now pre me mw)"
  unfolding persist_training_dataset_artifacts_def Let_def
  by (intro confined_bind confined_save_json confined_save_bytes confined_reading confined_ret)
    (simp_all add: dataset_artifact_of_def)

text \<open>Detection writes the datasets of replay only.\<close>

lemma detection_confined:
  "confined contents {key. starts_with REPLAY_DATASETS key}
     (run_scada_replay_behavior_detection ops np kr rid final st out rp k multiplier now)"
proof -
  have "confined contents {key. starts_with REPLAY_DATASETS key} (persist_scada_replay_inference_dataset ops np rid st rp k now)"
    unfolding confined_def
  proof (intro allI impI)
    fix s key assume key: "key \<notin> {key. starts_with REPLAY_DATASETS key}"
    show "contents (snd (persist_scada_replay_inference_dataset ops np rid st rp k now s)) key = contents s key"
    proof (cases "replay_window_of ops rid st rp k s")
      case (Inr r)
      obtain w m where r: "r = (w, m)" by (cases r)
      have "starts_with ''replay-dataset::'' (dm_dataset_id m)" by (rule replay_window_spec(11) [OF Inr [unfolded r]])
      then have "key \<notin> {manifest_key_of DATASET_PREFIX (dm_dataset_id m), windows_key_of DATASET_PREFIX (dm_dataset_id m)}"
        using key by (auto simp: manifest_key_of_def windows_key_of_def)
      then show ?thesis
        using confined_persist_keys [of DATASET_PREFIX m np "[w]" None now] Inr r
        by (simp add: persist_scada_replay_inference_dataset_def bind_reading persist_default_def confined_def)
    qed (simp add: persist_scada_replay_inference_dataset_def bind_reading)
  qed
  then show ?thesis
    unfolding run_scada_replay_behavior_detection_def
    by (intro confined_intros) (auto split: list.split)
qed

lemma detection_frame:
  assumes "run_scada_replay_behavior_detection ops np kr rid final st out rp k multiplier now s = (r, s')"
    and "\<not> starts_with REPLAY_DATASETS key"
  shows "contents s' key = contents s key"
proof -
  have "contents (snd (run_scada_replay_behavior_detection ops np kr rid final st out rp k multiplier now s)) key = contents s key"
    using detection_confined assms(2) unfolding confined_def by blast
  then show ?thesis by (simp add: assms(1))
qed

text \<open>Without an active replay or freeze, or without a model, nothing happens.\<close>

lemma detection_idle:
  assumes "\<not> rp_active rp \<or> rp_mode rp \<notin> {''replay'', ''freeze''} \<or> models (contents s) = {}"
  shows "run_scada_replay_behavior_detection ops np kr rid final st out rp k multiplier now s = (Inr (None, []), s)"
proof (cases "\<not> rp_active rp \<or> rp_mode rp \<notin> {''replay'', ''freeze''}")
  case False
  have "ends_with ''/'' MODEL_METADATA_PREFIX" by (simp add: ends_with_def MODEL_METADATA_PREFIX_def)
  then obtain ks where "op_list_json_objects ops MODEL_METADATA_PREFIX s = Inr ks" "set ks = models (contents s)"
    using list_json by blast
  moreover have "models (contents s) = {}" using assms False by blast
  ultimately have "latest_model_metadata_key ops s = Inr None"
    by (simp add: latest_model_metadata_key_def last_key_def)
  with False show ?thesis by (simp add: run_scada_replay_behavior_detection_def bind_reading ret_def)
qed (auto simp: run_scada_replay_behavior_detection_def ret_def)

text \<open>With a model of the window's shape, one verdict.\<close>

lemma detection_completes:
  assumes "numpy_documented x" "keras_documented kr" "scores_documented x kr" "keras_ready kr"
    and "models (contents s) = {key}" "model_ready x kr (contents s) key schema k sid" "starts_with ''training-dataset::'' sid"
    and "rp_active rp" "rp_mode rp \<in> {''replay'', ''freeze''}"
    and "replay_window_of ops rid st rp k s = Inr (w, m)" "dataset_shaped [w] m" "tw_feature_schema w = schema"
  obtains r s' where "run_scada_replay_behavior_detection ops (Some x) kr rid final st out rp k multiplier now s =
      (Inr (Some (replay_result_of rid final st out rp r), [r]), s')"
    "ir_window_id r = tw_window_id w" "ir_artifact_keys r = tw_artifact_keys w" "ir_inference_dataset_id r = dm_dataset_id m"
    "ir_classification r = NORMAL \<longleftrightarrow> ir_anomaly_score r \<le> ir_classification_threshold r"
proof -
  have "ends_with ''/'' MODEL_METADATA_PREFIX" by (simp add: ends_with_def MODEL_METADATA_PREFIX_def)
  then obtain ks where ks: "op_list_json_objects ops MODEL_METADATA_PREFIX s = Inr ks" "set ks = models (contents s)"
    using list_json by blast
  then have latest: "latest_model_metadata_key ops s = Inr (Some key)"
    using assms(5) last_in_set [of ks] by (auto simp: latest_model_metadata_key_def last_key_def)
  note win = replay_window_spec [OF assms(10)]
  obtain s1 a where p: "persist_default ops (Some x) [w] m now DATASET_PREFIX s = (Inr a, s1)"
      "a = dataset_artifact_of [w] m (isoformat now) DATASET_PREFIX DEFAULT_MIN_ELIGIBLE_ARTIFACT_COUNT DEFAULT_MIN_WINDOW_COUNT"
      "contents s1 = (contents s)(manifest_key_of DATASET_PREFIX (dm_dataset_id m) \<mapsto> Json (dataset_artifact_to_dict a),
        windows_key_of DATASET_PREFIX (dm_dataset_id m) \<mapsto> Bytes (np_savez x (archive_of x [w] m)))"
    by (rule persist_dataset [OF assms(11), where created_at = None and now = now and s = s and x = x]) (auto simp: persist_default_def)
  have differ: "DATASET_PREFIX @ dm_dataset_id m \<noteq> DATASET_PREFIX @ sid"
    using prefix_disjoint [OF win(11), of "''training-dataset::''"] assms(7) by (auto simp: starts_with_def)
  have ready: "model_ready x kr (contents s1) key schema k sid"
    unfolding p(3) by (rule model_ready_kept [OF assms(6,11) p(2)]) (use differ in \<open>auto simp: starts_with_def\<close>)
  have ds: "dataset_stored x (contents s1) DATASET_PREFIX [w] m a"
    unfolding p(3) by (rule dataset_stored_here [OF assms(11) p(2)])
  obtain results where r: "run_lstm_fingerprint_inference_from_persisted_dataset ops (Some x) kr key
      (manifest_key_of DATASET_PREFIX (dm_dataset_id m)) None multiplier DEFAULT_MINIMUM_ANOMALY_THRESHOLD s1 = Inr results"
    "length results = length [w]"
    by (rule inference_completes [OF assms(1-4) ready ds _ win(9)]) (use win(10) assms(12) in auto)
  then obtain r1 where r1: "results = [r1]" by (cases results) auto
  obtain ws lm scores model_id source_id level origin threshold where i:
    "load_persisted_training_dataset_artifacts ops (Some x) (manifest_key_of DATASET_PREFIX (dm_dataset_id m)) None s1 = Inr (ws, lm)"
    "length results = length ws"
    "\<And>i. i < length ws \<Longrightarrow> results ! i = inference_result_of model_id source_id (dm_dataset_id lm) level origin threshold (ws ! i) (scores ! i)"
    by (rule inference_spec [OF r(1)]) (rule that, assumption+)
  have l: "ws = [float32_window x w]" "lm = loaded_manifest m"
    using load_dataset [OF ds assms(1)] i(1) by simp_all
  have r1': "r1 = inference_result_of model_id source_id (dm_dataset_id m) level origin threshold (float32_window x w) (scores ! 0)"
    using i(3) [of 0] by (simp add: l r1 loaded_manifest_def)
  have "da_manifest_object_key a = manifest_key_of DATASET_PREFIX (dm_dataset_id m)" by (simp add: p(2) dataset_artifact_of_def)
  then have "run_scada_replay_behavior_detection ops (Some x) kr rid final st out rp k multiplier now s =
      (Inr (Some (replay_result_of rid final st out rp r1), [r1]), s1)"
    using assms(8,9) latest p(1) r(1)
    by (simp add: run_scada_replay_behavior_detection_def persist_scada_replay_inference_dataset_def bind_act_def reading_def
        assms(10) r1 ret_def)
  then show ?thesis
    by (rule that) (simp_all add: r1' inference_result_of_def float32_window_def classify_def)
qed

end

section \<open>Properties\<close>

text \<open>
  Under an active replay or freeze the row scored is an old one: whatever the current
  round observed, the supervisory features are those of the first recorded state (replay) or
  of the last one (freeze).
\<close>

theorem replayed_features:
  assumes "configure_scada_replay_runtime_stage c i sv0 = Inr (rp, sv)" "rp_active rp" "rp_mode rp \<in> {''replay'', ''freeze''}"
    and "sv_history sv0 \<noteq> []" "\<forall>h \<in> set (sv_history sv0). recorded h"
    and "scada_ready v (Some src) sv" "update_from_consensused_state v (Some src) sv = Inr (st, sv')"
  shows "extract_scada_behavioral_feature_vector st = extract_scada_behavioral_feature_vector
      (if rp_mode rp = ''replay'' then hd (sv_history sv0) else last (sv_history sv0)) \<and>
    sv_history sv' = sv_history sv0 @ [st] \<and> recorded st"
  using replayed_row [OF assms] update_recorded(1,2) [OF assms(6,7)] configured_inv(3) [OF assms(1)] by simp

definition replay_state :: scada_state where
  "replay_state = (sample_scada_state (60, 3, 1500))\<lparr>st_behavioral_sensor_values :=
     Some (map (\<lambda>n. (n, behavioral_state_from_payload (sample_payload ''u'' 0) ''round-0'')) sensor_columns)\<rparr>"

lemma replay_state_recorded: "recorded replay_state"
  by (simp add: recorded_def replay_state_def sample_scada_state_def SUPPORTED_SCADA_SENSORS_def sensor_columns_def behavioral_or_empty_def)

theorem replayed_features_witness:
  "\<exists>rp sv st sv'. configure_scada_replay_runtime_stage (default_config\<lparr>demo_scada_mode := ''replay'', demo_scada_start_cycle := 1\<rparr>) 4
       ((init_service ''c'')\<lparr>sv_history := [replay_state]\<rparr>) = Inr (rp, sv) \<and>
     update_from_consensused_state (sample_valid_state (60, 3, 1500)) (Some (sample_state ''edge-1'' (60, 3, 1500))) sv = Inr (st, sv') \<and>
     extract_scada_behavioral_feature_vector st = extract_scada_behavioral_feature_vector replay_state"
proof -
  let ?c = "default_config\<lparr>demo_scada_mode := ''replay'', demo_scada_start_cycle := 1\<rparr>"
  let ?sv = "(init_service ''c'')\<lparr>sv_history := [replay_state]\<rparr>"
  let ?v = "sample_valid_state (60, 3, 1500)" and ?src = "sample_state ''edge-1'' (60, 3, 1500)"
  obtain rp sv where c: "configure_scada_replay_runtime_stage ?c 4 ?sv = Inr (rp, sv)" "rp_active rp" "rp_mode rp = ''replay''"
    using configure_stage_spec [of ?c 4 ?sv] by auto
  have ready: "scada_ready ?v (Some ?src) sv"
    using configured_inv(1) [OF c(1)] sample_state_observes by (auto simp: scada_ready_def sample_valid_state_def SUPPORTED_SCADA_SENSORS_def)
  obtain st sv' where u: "update_from_consensused_state ?v (Some ?src) sv = Inr (st, sv')"
    using scada_update_spec [OF ready] by blast
  have "extract_scada_behavioral_feature_vector st = extract_scada_behavioral_feature_vector
      (if rp_mode rp = ''replay'' then hd (sv_history ?sv) else last (sv_history ?sv))"
    using replayed_features [OF c(1,2) _ _ _ ready u] replay_state_recorded by (simp add: c(3))
  with c u show ?thesis by auto
qed

text \<open>
  Detection of a replay is read-only towards the fingerprint: whatever it returns, it
  changes nothing but objects of its own replay datasets, so artifacts, models and training
  datasets stay as they were; and unless a replay or freeze is active and a model is listed,
  it returns nothing and leaves the store untouched.
\<close>

theorem replay_detection_confined:
  assumes "artifact_store ops contents"
    and "run_scada_replay_behavior_detection ops np kr rid final st out rp k multiplier now s = (r, s')"
  shows "(\<forall>key. \<not> starts_with REPLAY_DATASETS key \<longrightarrow> contents s' key = contents s key) \<and>
    (\<not> rp_active rp \<or> rp_mode rp \<notin> {''replay'', ''freeze''} \<or> models (contents s) = {} \<longrightarrow> r = Inr (None, []) \<and> s' = s)"
  using artifact_store.detection_frame [OF assms] artifact_store.detection_idle [OF assms(1)] assms(2) by (metis prod.inject)

text \<open>
  C15. An active replay or freeze is judged: with documented numpy and keras, one listed model
  ready for the shape of the window, and history enough to build it, detection returns one
  verdict. It is about the window whose earlier rows are the artifacts before the current
  round and whose last row is the supervisory one, and it is normal exactly when its score
  does not exceed the threshold.
\<close>

theorem replay_detection_judges:
  assumes "artifact_store ops contents" "numpy_documented x" "keras_documented kr" "scores_documented x kr" "keras_ready kr"
    and "models (contents s) = {key}" "model_ready x kr (contents s) key schema k sid" "starts_with ''training-dataset::'' sid"
    and "rp_active rp" "rp_mode rp \<in> {''replay'', ''freeze''}"
    and "replay_window_of ops rid st rp k s = Inr (w, m)" "dataset_shaped [w] m" "tw_feature_schema w = schema"
  shows "\<exists>r b s'. run_scada_replay_behavior_detection ops (Some x) kr rid final st out rp k multiplier now s = (Inr (Some b, [r]), s') \<and>
    rb_window_id b = tw_window_id w \<and> rb_current_round_id b = rid \<and> rb_scenario_mode b = rp_mode rp \<and>
    (rb_classification b = NORMAL \<longleftrightarrow> rb_anomaly_score b \<le> rb_classification_threshold b) \<and>
    (\<exists>recent. recent_artifacts ops rid k s = Inr recent \<and> mapM feature_row recent = Inr (butlast (tw_feature_matrix w))) \<and>
    extract_scada_behavioral_feature_vector st = Inr (schema, last (tw_feature_matrix w))"
proof -
  obtain r s' where r: "run_scada_replay_behavior_detection ops (Some x) kr rid final st out rp k multiplier now s =
      (Inr (Some (replay_result_of rid final st out rp r), [r]), s')"
    "ir_window_id r = tw_window_id w" "ir_classification r = NORMAL \<longleftrightarrow> ir_anomaly_score r \<le> ir_classification_threshold r"
    by (rule artifact_store.detection_completes [OF assms])
  show ?thesis
    using replay_window_spec(6,12) [OF assms(11)] assms(13) r
    by (intro exI [of _ r] exI [of _ "replay_result_of rid final st out rp r"] exI [of _ s']) (auto simp: replay_result_of_def)
qed

text \<open>A replay of one step: a trained model of the supervisory columns and the current artifact.\<close>

definition replay_store :: local_files where
  "replay_store = [(VALID_ARTIFACT_PREFIX @ ''round-1.json'', Json (sample_artifact ''round-1'' ''normal''))]"

definition replay_active :: replay_stage where
  "replay_active = \<lparr>rp_active = True, rp_mode = ''replay'', rp_start_cycle = 1, rp_replay_source_round_id = Some ''round-0''\<rparr>"

definition replay_window :: "flt list \<Rightarrow> training_window \<times> dataset_manifest" where
  "replay_window row = replay_dataset ''b'' ''round-1'' replay_state replay_active 1
     (replay_schema, [row], [build_scada_state_artifact_key ''round-1'' replay_state replay_active], [''round-1''],
      [st_timestamp replay_state])"

lemma replay_row_length:
  "length (concat (map (\<lambda>n. behavioral_features (f n)) sensor_columns)) = length replay_schema"
  by (simp add: sensor_columns_def behavioral_features_def replay_schema_def sensor_feature_names_def)

lemma replay_window_built:
  assumes "\<And>key. starts_with VALID_ARTIFACT_PREFIX key \<Longrightarrow> map_of s key = map_of replay_store key"
  shows "\<exists>row. length row = length replay_schema \<and>
    replay_window_of (local_ops ''b'') ''round-1'' replay_state replay_active 1 s = Inr (replay_window row)"
proof -
  let ?key = "VALID_ARTIFACT_PREFIX @ ''round-1.json''"
  have V: "ends_with ''/'' VALID_ARTIFACT_PREFIX" by (simp add: ends_with_def VALID_ARTIFACT_PREFIX_def)
  have "op_list_json_objects (local_ops ''b'') VALID_ARTIFACT_PREFIX s = op_list_json_objects (local_ops ''b'') VALID_ARTIFACT_PREFIX replay_store"
    by (rule local_store.list_json_cong [OF V assms])
  also have "\<dots> = Inr [?key]"
    by (simp add: local_ops_def local_list_json_objects_def replay_store_def ends_with_def starts_with_def is_dir_def dir_path_def
        path_parts_def Let_def VALID_ARTIFACT_PREFIX_def)
  finally have l: "op_list_json_objects (local_ops ''b'') VALID_ARTIFACT_PREFIX s = Inr [?key]" .
  have "map_of s ?key = Some (Json (sample_artifact ''round-1'' ''normal''))" using assms [of ?key] by (simp add: replay_store_def)
  then have v: "op_load_json (local_ops ''b'') ?key s = Inr (sample_artifact ''round-1'' ''normal'')" by (rule local_store.load_json)
  have a: "artifact_round_id (sample_artifact ''round-1'' ''normal'') = Inr (PStr ''round-1'')"
    by (simp add: artifact_round_id_def sample_artifact_def)
  have r: "recent_artifacts (local_ops ''b'') ''round-1'' 1 s = Inr []"
    by (simp add: recent_artifacts_def l v a Let_def)
  have bucket: "op_bucket (local_ops ''b'') = ''b''" by (simp add: local_ops_def)
  show ?thesis
    by (intro exI [of _ "concat (map (\<lambda>n. behavioral_features (the (map_of (behavioral_or_empty replay_state) n))) sensor_columns)"]
        conjI replay_row_length)
      (simp add: replay_window_of_def r supervisory_row [OF replay_state_recorded] replay_window_def bucket)
qed

lemma replay_window_shaped:
  assumes "length row = length replay_schema"
  shows "dataset_shaped [fst (replay_window row)] (snd (replay_window row))" "tw_feature_schema (fst (replay_window row)) = replay_schema"
  using assms by (simp_all add: replay_window_def replay_dataset_def Let_def dataset_shaped_def window_shaped_def text_ok_def
      replay_round_id_of_def or_text_def build_scada_state_artifact_key_def replay_state_def sample_scada_state_def replay_active_def)

text \<open>The training data of the model: one window of zeros over the same columns.\<close>

definition replay_training :: "training_window \<times> dataset_manifest" where
  "replay_training = (\<lparr>tw_window_id = ''w'', tw_artifact_keys = [''a''], tw_round_ids = [''r''], tw_timestamps = [''t''],
      tw_feature_schema = replay_schema, tw_feature_matrix = [map (\<lambda>_. 0) replay_schema], tw_label = ''normal''\<rparr>,
     \<lparr>dm_dataset_id = ''training-dataset::d'', dm_source_bucket = ''b'', dm_source_prefix = VALID_ARTIFACT_PREFIX,
      dm_sequence_length = 1, dm_feature_schema = replay_schema, dm_selected_artifact_keys = [''a''], dm_skipped_artifacts = [],
      dm_eligible_record_count = 1, dm_window_count = 1, dm_training_label = ''normal''\<rparr>)"

lemma replay_trained:
  obtains s key where "models (map_of s) = {key}"
    "model_ready unary_numpy sample_keras (map_of s) key replay_schema 1 ''training-dataset::d''"
    "\<And>k. starts_with VALID_ARTIFACT_PREFIX k \<Longrightarrow> map_of s k = map_of replay_store k"
proof -
  obtain w m where wm: "replay_training = (w, m)" by (cases replay_training)
  then have m: "dataset_shaped [w] m" "dm_feature_schema m = replay_schema" "dm_sequence_length m = 1" "dm_dataset_id m = ''training-dataset::d''"
    by (auto simp: replay_training_def dataset_shaped_def window_shaped_def text_ok_def)
  have none: "models (map_of replay_store) = {}"
    by (auto simp: json_under_def replay_store_def starts_with_def VALID_ARTIFACT_PREFIX_def MODEL_METADATA_PREFIX_def split: if_splits)
  obtain stage key s where t: "lifecycle_train (local_ops ''b'') (Some unary_numpy) sample_keras [w] m (cycle_stage 1 [] m 1) sample_time sample_time
      replay_store = (Inr (stage, []), s)"
    "model_ready unary_numpy sample_keras (map_of s) key (dm_feature_schema m) (dm_sequence_length m) (dm_dataset_id m)"
    "ls_model_metadata_object_key stage = Some key"
    by (rule local_store.lifecycle_train_completes [OF unary_numpy_documented sample_keras_ok(2) sample_keras_fits m(1)]) auto
  have "models (map_of s) = {key}" using local_store.lifecycle_train_registry [OF t(1) none] t(3) by auto
  moreover have "map_of s k = map_of replay_store k" if "starts_with VALID_ARTIFACT_PREFIX k" for k
    by (rule local_store.confined_artifact [OF local_store.lifecycle_confined(1) t(1) that])
  moreover note t(2) [unfolded m(2-4)]
  ultimately show ?thesis by (intro that)
qed

theorem replay_detection_judges_witness:
  "\<exists>s r b s'. run_scada_replay_behavior_detection (local_ops ''b'') (Some unary_numpy) sample_keras ''round-1'' ''success'' replay_state
      sample_output replay_active 1 0 sample_time s = (Inr (Some b, [r]), s') \<and> rb_scenario_mode b = ''replay''"
proof -
  obtain s key where s: "models (map_of s) = {key}"
    "model_ready unary_numpy sample_keras (map_of s) key replay_schema 1 ''training-dataset::d''"
    "\<And>k. starts_with VALID_ARTIFACT_PREFIX k \<Longrightarrow> map_of s k = map_of replay_store k"
    by (rule replay_trained) (rule that, assumption+)
  obtain row where row: "length row = length replay_schema"
    "replay_window_of (local_ops ''b'') ''round-1'' replay_state replay_active 1 s = Inr (fst (replay_window row), snd (replay_window row))"
    using replay_window_built [OF s(3)] by auto
  have "\<exists>r b s'. run_scada_replay_behavior_detection (local_ops ''b'') (Some unary_numpy) sample_keras ''round-1'' ''success'' replay_state
      sample_output replay_active 1 0 sample_time s = (Inr (Some b, [r]), s') \<and> rb_scenario_mode b = rp_mode replay_active"
    using replay_detection_judges [OF local_store.artifact_store_axioms unary_numpy_documented sample_keras_ok(1,3,2) s(1,2) _ _ _ row(2)
      replay_window_shaped [OF row(1)], where final = "''success''" and out = sample_output and multiplier = 0 and now = sample_time]
    by (auto simp: replay_active_def starts_with_def)
  then show ?thesis by (auto simp: replay_active_def)
qed

theorem replay_detection_confined_witness:
  "run_scada_replay_behavior_detection (local_ops ''b'') (None :: numpy option) sample_keras ''round-1'' ''success'' replay_state sample_output
     replay_active 1 0 sample_time replay_store = (Inr (None, []), replay_store)"
proof -
  have none: "models (map_of replay_store) = {}"
    by (auto simp: json_under_def replay_store_def starts_with_def VALID_ARTIFACT_PREFIX_def MODEL_METADATA_PREFIX_def split: if_splits)
  obtain r t where r: "run_scada_replay_behavior_detection (local_ops ''b'') (None :: numpy option) sample_keras ''round-1'' ''success'' replay_state
      sample_output replay_active 1 0 sample_time replay_store = (r, t)" by fastforce
  from replay_detection_confined [OF local_store.artifact_store_axioms r] none r show ?thesis by simp
qed

end
