(* ===== verification/ConsensusApp.thy ===== *)
theory ConsensusApp
  imports CometBft
begin

text \<open>
  The ledger's application, written in Go (\<open>abci/consensus_app/internal/app\<close>): it decodes
  the transaction of a round, evaluates it once more, and answers queries with the committed
  round. Its evaluation is not the one of the Python engine: it walks the participants and the
  sensors in sorted order, adds without compensation and rounds halves away from zero.

  JSON documents are \<open>pyval\<close>; the text between the two programs is \<open>encoding/json\<close> on one
  side and \<open>json\<close> on the other. A Go error is \<open>Inl\<close>. A NaN, which only a round without a
  second participant produces, is an error too: the application cannot marshal it, and the
  block fails. The state file and the hash of the state are not modelled.
\<close>

section \<open>Data\<close>

text \<open>\<open>types.go\<close>; rankings, deviations and distances have the fields of the Python records.\<close>

record sensor_entry =
  se_value :: flt
  se_unit :: string

record owner_state =
  os_owner_edge_id :: string
  os_sensor_values :: "(string \<times> sensor_entry) list"

record round_tx =
  tx_round_id :: string
  tx_window_started_at :: string
  tx_window_ended_at :: string
  tx_participating_edges :: "string list"
  tx_replicated_states :: "owner_state list"

record app_exclusion =
  xd_edge_id :: string
  xd_reason :: string
  xd_detail :: string

record app_evidence =
  pe_edge_id :: string
  pe_score :: flt
  pe_compatible_peer_count :: nat
  pe_overall_normalized_deviation :: flt
  pe_sensor_deviations :: "sensor_deviation list"
  pe_pairwise_distances :: "pairwise_distance list"

record app_valid_state =
  av_source_edges :: "string list"
  av_sensor_values :: "(string \<times> flt) list"

record committed_round =
  cd_round_id :: string
  cd_window_started_at :: string
  cd_window_ended_at :: string
  cd_participating_edges :: "string list"
  cd_replicated_states :: "owner_state list"
  cd_trust_ranking :: "trust_rank_entry list"
  cd_exclusions :: "app_exclusion list"
  cd_trust_evidence :: "app_evidence list"
  cd_final_status :: string
  cd_valid_state :: "app_valid_state option"
  cd_commit_height :: int

section \<open>Decoding a transaction\<close>

text \<open>\<open>json.Unmarshal\<close> into a struct: an absent field, a null field and a null struct keep their zero value.\<close>

fun go_str :: "pyval \<Rightarrow> string res" where
  "go_str PNone = Inr []"
| "go_str (PStr s) = Inr s"
| "go_str _ = Inl (TypeError ''json: cannot unmarshal into Go value of type string'')"

fun go_float :: "pyval \<Rightarrow> flt res" where
  "go_float PNone = Inr 0"
| "go_float (PFloat x) = Inr x"
| "go_float (PInt i) = Inr (fl (of_int i))"
| "go_float _ = Inl (TypeError ''json: cannot unmarshal into Go value of type float64'')"

fun go_slice :: "pyval \<Rightarrow> pyval list res" where
  "go_slice PNone = Inr []"
| "go_slice (PList xs) = Inr xs"
| "go_slice _ = Inl (TypeError ''json: cannot unmarshal into Go value of type slice'')"

fun go_map :: "pyval \<Rightarrow> (string \<times> pyval) list res" where
  "go_map PNone = Inr []"
| "go_map (PDict d) = Inr d"
| "go_map _ = Inl (TypeError ''json: cannot unmarshal into Go value of type map'')"

fun go_field :: "pyval \<Rightarrow> string \<Rightarrow> pyval res" where
  "go_field PNone _ = Inr PNone"
| "go_field v k = pget v k"

definition decode_sensor :: "pyval \<Rightarrow> sensor_entry res" where
  "decode_sensor v = attempt (attempt (go_field v ''value'') go_float) (\<lambda>x.
     attempt (attempt (go_field v ''unit'') go_str) (\<lambda>u. Inr \<lparr>se_value = x, se_unit = u\<rparr>))"

definition decode_state :: "pyval \<Rightarrow> owner_state res" where
  "decode_state v = attempt (attempt (go_field v ''owner_edge_id'') go_str) (\<lambda>owner.
     attempt (attempt (go_field v ''sensor_values'') go_map) (\<lambda>items.
     attempt (mapM (\<lambda>(k, x). attempt (decode_sensor x) (\<lambda>e. Inr (k, e))) items) (\<lambda>entries.
       Inr \<lparr>os_owner_edge_id = owner, os_sensor_values = entries\<rparr>)))"

definition decode_tx :: "pyval \<Rightarrow> round_tx res" where
  "decode_tx v = attempt (attempt (go_field v ''round_id'') go_str) (\<lambda>i.
     attempt (attempt (go_field v ''window_started_at'') go_str) (\<lambda>a.
     attempt (attempt (go_field v ''window_ended_at'') go_str) (\<lambda>b.
     attempt (attempt (attempt (go_field v ''participating_edges'') go_slice) (mapM go_str)) (\<lambda>edges.
     attempt (attempt (attempt (go_field v ''replicated_states'') go_slice) (mapM decode_state)) (\<lambda>states.
       Inr \<lparr>tx_round_id = i, tx_window_started_at = a, tx_window_ended_at = b, tx_participating_edges = edges,
         tx_replicated_states = states\<rparr>)))))"

section \<open>Distances\<close>

definition app_sensor_scales :: "(string \<times> flt) list" where
  "app_sensor_scales = [(''temperature'', 20), (''pressure'', 3), (''rpm'', 600)]"

definition app_consistency_threshold :: flt where
  "app_consistency_threshold = dec 35 2"

definition app_byzantine_threshold :: flt where
  "app_byzantine_threshold = dec 75 2"

text \<open>\<open>math.Round(value*1000) / 1000\<close>, halves away from zero.\<close>

definition half_away :: "rat \<Rightarrow> int" where
  "half_away z = (if z < 0 then - \<lfloor>1 / 2 - z\<rfloor> else \<lfloor>z + 1 / 2\<rfloor>)"

definition go_round :: "flt \<Rightarrow> flt" where
  "go_round x = fdiv (of_int (half_away (fmul x 1000))) 1000"

text \<open>A running \<open>total += x\<close>, and the mean of it; over nothing it is NaN.\<close>

definition go_total :: "flt list \<Rightarrow> flt" where
  "go_total xs = foldl fadd 0 xs"

definition go_mean :: "flt list \<Rightarrow> flt res" where
  "go_mean xs = (if xs = [] then Inl (RuntimeError ''json: unsupported value: NaN'')
     else Inr (fdiv (go_total xs) (of_nat (length xs))))"

text \<open>A map lookup yields the zero value of an absent key.\<close>

definition owner_of :: "(string \<times> owner_state) list \<Rightarrow> string \<Rightarrow> owner_state" where
  "owner_of by_edge e = (case map_of by_edge e of None \<Rightarrow> \<lparr>os_owner_edge_id = [], os_sensor_values = []\<rparr> | Some s \<Rightarrow> s)"

definition entry_of :: "owner_state \<Rightarrow> string \<Rightarrow> sensor_entry" where
  "entry_of s name = (case map_of (os_sensor_values s) name of None \<Rightarrow> \<lparr>se_value = 0, se_unit = []\<rparr> | Some e \<Rightarrow> e)"

definition required_entry :: "owner_state \<Rightarrow> string \<Rightarrow> sensor_entry res" where
  "required_entry s name = (case map_of (os_sensor_values s) name of
     None \<Rightarrow> Inl (ValueError (''missing sensor '' @ name @ '' for '' @ os_owner_edge_id s)) | Some e \<Rightarrow> Inr e)"

definition app_scaled_difference :: "owner_state \<Rightarrow> owner_state \<Rightarrow> string \<Rightarrow> flt res" where
  "app_scaled_difference l r name = attempt (required_entry l name) (\<lambda>a. attempt (required_entry r name) (\<lambda>b.
     Inr (fdiv \<bar>fsub (se_value a) (se_value b)\<bar> (the (map_of app_sensor_scales name)))))"

definition app_pair_distance :: "owner_state \<Rightarrow> owner_state \<Rightarrow> flt res" where
  "app_pair_distance l r = attempt (mapM (app_scaled_difference l r) (sort (map fst app_sensor_scales))) go_mean"

text \<open>The map of the distances, under the key \<open>edge->peer\<close>.\<close>

definition pair_key :: "string \<Rightarrow> string \<Rightarrow> string" where
  "pair_key e p = e @ ''->'' @ p"

definition app_pairwise :: "(string \<times> owner_state) list \<Rightarrow> string list \<Rightarrow> (string, flt) dict res" where
  "app_pairwise by_edge edges = attempt (mapM (\<lambda>(e, p).
     attempt (app_pair_distance (owner_of by_edge e) (owner_of by_edge p)) (\<lambda>d. Inr (pair_key e p, d))) (edge_pairs edges))
     (\<lambda>entries. Inr (dict_of entries))"

definition pair_lookup :: "(string, flt) dict \<Rightarrow> string \<Rightarrow> string \<Rightarrow> flt" where
  "pair_lookup table e p = (case map_of table (pair_key e p) of None \<Rightarrow> 0 | Some d \<Rightarrow> d)"

section \<open>The evaluation of a round\<close>

definition app_sensor_evidence ::
  "(string \<times> owner_state) list \<Rightarrow> owner_state \<Rightarrow> string list \<Rightarrow> string \<Rightarrow> (sensor_deviation \<times> pairwise_distance list) res" where
  "app_sensor_evidence by_edge state peers name = (let own = entry_of state name;
     ds = map (\<lambda>p. (p, \<bar>fsub (se_value own) (se_value (entry_of (owner_of by_edge p) name))\<bar>)) peers in
     attempt (go_mean (map snd ds)) (\<lambda>mean.
       Inr (\<lparr>sd_sensor_name = name, sd_deviation_value = go_round mean, sd_unit = se_unit own\<rparr>,
         map (\<lambda>(p, d). \<lparr>pw_peer_edge_id = p, pw_sensor_name = name, pw_distance_value = go_round d, pw_unit = se_unit own\<rparr>) ds)))"

text \<open>\<open>%.3f\<close> of a quotient; a sensor without a scale divides by zero, which Go prints.\<close>

definition norm_text :: "sensor_deviation \<Rightarrow> string" where
  "norm_text d = (let scale = (case map_of app_sensor_scales (sd_sensor_name d) of None \<Rightarrow> 0 | Some s \<Rightarrow> s) in
     if scale \<noteq> 0 then fmt_fixed 3 (fdiv (sd_deviation_value d) scale)
     else if sd_deviation_value d = 0 then ''NaN'' else if 0 < sd_deviation_value d then ''+Inf'' else ''-Inf'')"

definition app_detail :: "nat \<Rightarrow> flt \<Rightarrow> sensor_deviation list \<Rightarrow> string" where
  "app_detail compatible overall deviations = join '', ''
     ([''compatible_peers='' @ str_of_nat compatible, ''overall_normalized_deviation='' @ fmt_fixed 3 overall] @
      map (\<lambda>d. sd_sensor_name d @ '':'' @ fmt_fixed 3 (sd_deviation_value d) @ sd_unit d @ ''(norm='' @ norm_text d @ '')'') deviations)"

type_synonym app_verdict = "trust_rank_entry \<times> app_evidence \<times> app_exclusion option"

text \<open>The body of the loop over the participating edges.\<close>

definition app_edge ::
  "(string \<times> owner_state) list \<Rightarrow> string list \<Rightarrow> (string, flt) dict \<Rightarrow> nat \<Rightarrow> string \<Rightarrow> app_verdict res" where
  "app_edge by_edge edges table quorum edge = (let state = owner_of by_edge edge;
     peers = sort (filter (\<lambda>p. p \<noteq> edge) edges); names = sort (map fst (os_sensor_values state)) in
     attempt (mapM (app_sensor_evidence by_edge state peers) names) (\<lambda>evs.
       let deviations = map fst evs; ds = map (pair_lookup table edge) peers;
         compatible = length (filter (\<lambda>d. d \<le> app_consistency_threshold) ds) in
       attempt (go_mean ds) (\<lambda>mean. let overall = go_round mean; score = go_round (fdiv 1 (fadd 1 overall)) in
         Inr (\<lparr>tr_edge_id = edge, tr_score = score\<rparr>,
           \<lparr>pe_edge_id = edge, pe_score = score, pe_compatible_peer_count = compatible,
             pe_overall_normalized_deviation = overall, pe_sensor_deviations = deviations,
             pe_pairwise_distances = concat (map snd evs)\<rparr>,
           if compatible + 1 < quorum then Some \<lparr>xd_edge_id = edge,
               xd_reason = (if app_byzantine_threshold \<le> overall then ''suspected_byzantine_behavior'' else ''inconsistent_view''),
               xd_detail = app_detail compatible overall deviations\<rparr>
           else None))))"

definition app_valid_state_of :: "(string \<times> owner_state) list \<Rightarrow> string list \<Rightarrow> app_valid_state" where
  "app_valid_state_of by_edge valid = \<lparr>av_source_edges = valid,
     av_sensor_values = map (\<lambda>(name, _). (name, go_round (fdiv
       (go_total (map (\<lambda>e. se_value (entry_of (owner_of by_edge e) name)) valid)) (of_nat (length valid))))) app_sensor_scales\<rparr>"

definition owners_by_edge :: "owner_state list \<Rightarrow> (string, owner_state) dict" where
  "owners_by_edge states = dict_of (map (\<lambda>s. (os_owner_edge_id s, s)) states)"

text \<open>Rankings are sorted by falling score, equal scores by edge; the other lists by edge.\<close>

definition evaluate_round :: "round_tx \<Rightarrow> int \<Rightarrow> committed_round res" where
  "evaluate_round tx height = (let by_edge = owners_by_edge (tx_replicated_states tx); edges = tx_participating_edges tx;
     quorum = length edges div 2 + 1 in
     attempt (app_pairwise by_edge edges) (\<lambda>table.
     attempt (mapM (app_edge by_edge edges table quorum) edges) (\<lambda>vs.
       let exclusions = sort_key xd_edge_id (List.map_filter (snd \<circ> snd) vs);
         valid = sort (filter (\<lambda>e. e \<notin> xd_edge_id ` set exclusions) edges);
         success = (quorum \<le> length valid) in
       Inr \<lparr>cd_round_id = tx_round_id tx, cd_window_started_at = tx_window_started_at tx,
         cd_window_ended_at = tx_window_ended_at tx, cd_participating_edges = edges,
         cd_replicated_states = tx_replicated_states tx,
         cd_trust_ranking = sort_key (\<lambda>r. - tr_score r) (sort_key tr_edge_id (map fst vs)),
         cd_exclusions = exclusions, cd_trust_evidence = sort_key pe_edge_id (map (fst \<circ> snd) vs),
         cd_final_status = (if success then ''success'' else ''failed_consensus''),
         cd_valid_state = (if success then Some (app_valid_state_of by_edge valid) else None),
         cd_commit_height = height\<rparr>)))"

section \<open>The committed round as JSON\<close>

text \<open>
  \<open>json.Marshal\<close>, as the other side parses it: an integral number below \<open>10\<^sup>2\<^sup>1\<close> has
  neither point nor exponent and is read as an integer; map keys are sorted; a nil slice or
  pointer is null, an empty \<open>detail\<close> is left out. A state sent without a map of sensors is
  written with an empty one, where Go writes null.
\<close>

definition go_number :: "flt \<Rightarrow> pyval" where
  "go_number x = (if x = of_int \<lfloor>x\<rfloor> \<and> \<bar>x\<bar> < 10 ^ 21 then PInt \<lfloor>x\<rfloor> else PFloat x)"

definition nil_slice :: "pyval list \<Rightarrow> pyval" where
  "nil_slice xs = (if xs = [] then PNone else PList xs)"

definition sensor_entry_json :: "sensor_entry \<Rightarrow> pyval" where
  "sensor_entry_json e = PDict [(''value'', go_number (se_value e)), (''unit'', PStr (se_unit e))]"

definition owner_state_json :: "owner_state \<Rightarrow> pyval" where
  "owner_state_json s = PDict [(''owner_edge_id'', PStr (os_owner_edge_id s)),
     (''sensor_values'', PDict (map (\<lambda>(k, e). (k, sensor_entry_json e)) (sorted_items (os_sensor_values s))))]"

definition rank_json :: "trust_rank_entry \<Rightarrow> pyval" where
  "rank_json r = PDict [(''edge_id'', PStr (tr_edge_id r)), (''score'', go_number (tr_score r))]"

definition app_exclusion_json :: "app_exclusion \<Rightarrow> pyval" where
  "app_exclusion_json x = PDict ([(''edge_id'', PStr (xd_edge_id x)), (''reason'', PStr (xd_reason x))] @
     (if xd_detail x = [] then [] else [(''detail'', PStr (xd_detail x))]))"

definition app_deviation_json :: "sensor_deviation \<Rightarrow> pyval" where
  "app_deviation_json d = PDict [(''sensor_name'', PStr (sd_sensor_name d)),
     (''deviation_value'', go_number (sd_deviation_value d)), (''unit'', PStr (sd_unit d))]"

definition app_distance_json :: "pairwise_distance \<Rightarrow> pyval" where
  "app_distance_json p = PDict [(''peer_edge_id'', PStr (pw_peer_edge_id p)), (''sensor_name'', PStr (pw_sensor_name p)),
     (''distance_value'', go_number (pw_distance_value p)), (''unit'', PStr (pw_unit p))]"

definition app_evidence_json :: "app_evidence \<Rightarrow> pyval" where
  "app_evidence_json e = PDict [(''edge_id'', PStr (pe_edge_id e)), (''score'', go_number (pe_score e)),
     (''compatible_peer_count'', PInt (int (pe_compatible_peer_count e))),
     (''overall_normalized_deviation'', go_number (pe_overall_normalized_deviation e)),
     (''sensor_deviations'', PList (map app_deviation_json (pe_sensor_deviations e))),
     (''pairwise_distances'', PList (map app_distance_json (pe_pairwise_distances e)))]"

definition app_valid_state_json :: "app_valid_state \<Rightarrow> pyval" where
  "app_valid_state_json v = PDict [(''source_edges'', nil_slice (map PStr (av_source_edges v))),
     (''sensor_values'', PDict (map (\<lambda>(k, x). (k, go_number x)) (sorted_items (av_sensor_values v))))]"

definition committed_round_json :: "committed_round \<Rightarrow> pyval" where
  "committed_round_json r = PDict [(''round_id'', PStr (cd_round_id r)),
     (''window_started_at'', PStr (cd_window_started_at r)), (''window_ended_at'', PStr (cd_window_ended_at r)),
     (''participating_edges'', nil_slice (map PStr (cd_participating_edges r))),
     (''replicated_states'', nil_slice (map owner_state_json (cd_replicated_states r))),
     (''trust_ranking'', PList (map rank_json (cd_trust_ranking r))),
     (''exclusions'', PList (map app_exclusion_json (cd_exclusions r))),
     (''trust_evidence'', PList (map app_evidence_json (cd_trust_evidence r))),
     (''final_status'', PStr (cd_final_status r)),
     (''consensused_valid_state'', case cd_valid_state r of None \<Rightarrow> PNone | Some v \<Rightarrow> app_valid_state_json v),
     (''commit_height'', PInt (cd_commit_height r))]"

section \<open>The application\<close>

text \<open>The rounds it committed, and those of the block that is not committed yet.\<close>

record consensus_app =
  app_last_height :: int
  app_rounds :: "string \<rightharpoonup> committed_round"
  app_pending :: "string \<rightharpoonup> committed_round"
  app_pending_height :: int

definition new_app :: consensus_app where
  "new_app = \<lparr>app_last_height = 0, app_rounds = Map.empty, app_pending = Map.empty, app_pending_height = 0\<rparr>"

definition check_tx :: "pyval \<Rightarrow> nat" where
  "check_tx raw = (case decode_tx raw of Inl _ \<Rightarrow> 1
   | Inr tx \<Rightarrow> if tx_round_id tx = [] \<or> tx_participating_edges tx = [] \<or> tx_replicated_states tx = [] then 1 else 0)"

text \<open>
  One turn of the loop of \<open>FinalizeBlock\<close>: the code of the transaction and the pending
  rounds. A NaN fails the block, in the source when the state is hashed at its end.
\<close>

definition deliver_tx :: "int \<Rightarrow> pyval \<Rightarrow> (string \<rightharpoonup> committed_round) \<Rightarrow> (nat \<times> (string \<rightharpoonup> committed_round)) res" where
  "deliver_tx height raw pending = (case decode_tx raw of Inl _ \<Rightarrow> Inr (1, pending)
   | Inr tx \<Rightarrow> (case evaluate_round tx height of Inl (RuntimeError m) \<Rightarrow> Inl (RuntimeError m)
     | Inl _ \<Rightarrow> Inr (1, pending)
     | Inr decided \<Rightarrow> Inr (0, pending(tx_round_id tx \<mapsto> decided))))"

fun deliver_all :: "int \<Rightarrow> pyval list \<Rightarrow> (string \<rightharpoonup> committed_round) \<Rightarrow> (nat list \<times> (string \<rightharpoonup> committed_round)) res" where
  "deliver_all height [] pending = Inr ([], pending)"
| "deliver_all height (raw # raws) pending = attempt (deliver_tx height raw pending) (\<lambda>(code, pending').
     attempt (deliver_all height raws pending') (\<lambda>(codes, last). Inr (code # codes, last)))"

definition finalize_block :: "int \<Rightarrow> pyval list \<Rightarrow> consensus_app \<Rightarrow> (nat list \<times> consensus_app) res" where
  "finalize_block height txs app = attempt (deliver_all height txs Map.empty) (\<lambda>(codes, pending).
     Inr (codes, app\<lparr>app_pending := pending, app_pending_height := height\<rparr>))"

definition commit_block :: "consensus_app \<Rightarrow> consensus_app" where
  "commit_block app = app\<lparr>app_rounds := app_rounds app ++ app_pending app, app_last_height := app_pending_height app\<rparr>"

definition query_round :: "consensus_app \<Rightarrow> string \<Rightarrow> pyval option" where
  "query_round app rid = map_option committed_round_json (app_rounds app rid)"

text \<open>The blocks of a chain, each finalized and then committed.\<close>

fun run_blocks :: "(int \<times> pyval list) list \<Rightarrow> consensus_app \<Rightarrow> consensus_app res" where
  "run_blocks [] app = Inr app"
| "run_blocks ((height, txs) # blocks) app = attempt (finalize_block height txs app) (\<lambda>(_, app'). run_blocks blocks (commit_block app'))"

end
