(* ===== verification/ConsensusAppLaws.thy ===== *)
theory ConsensusAppLaws
  imports ConsensusApp
begin

text \<open>
  The laws of the ledger's application: the transaction it decodes, what its evaluation always
  says, which audit package the Python side reads back from it, and what a chain of blocks
  keeps for a query.
\<close>

section \<open>The transaction of a round\<close>

definition round_document :: "consensus_round_input \<Rightarrow> pyval" where
  "round_document ri = PDict [
     (''round_id'', PStr (round_id (ri_round_identity ri))),
     (''window_started_at'', PStr (isoformat (window_started_at (ri_round_identity ri)))),
     (''window_ended_at'', PStr (isoformat (window_ended_at (ri_round_identity ri)))),
     (''participating_edges'', PList (map PStr (ri_participating_edges ri))),
     (''replicated_states'', PList (map state_dict (sort_key owner_edge_id (replicated_states ri))))]"

lemma serialized_document: "serialize_round_input ri = json_dumps (round_document ri)"
  by (simp add: serialize_round_input_def round_document_def)

definition entry_of_payload :: "raw_hart_payload \<Rightarrow> sensor_entry" where
  "entry_of_payload p = \<lparr>se_value = pv_value (pd_pv (hp_process_data p)), se_unit = pv_unit (pd_pv (hp_process_data p))\<rparr>"

definition owner_state_of :: "replicated_state \<Rightarrow> owner_state" where
  "owner_state_of s = \<lparr>os_owner_edge_id = owner_edge_id s,
     os_sensor_values = map (\<lambda>(k, p). (k, entry_of_payload p)) (sorted_items (observations_by_sensor s))\<rparr>"

definition tx_of :: "consensus_round_input \<Rightarrow> round_tx" where
  "tx_of ri = \<lparr>tx_round_id = round_id (ri_round_identity ri),
     tx_window_started_at = isoformat (window_started_at (ri_round_identity ri)),
     tx_window_ended_at = isoformat (window_ended_at (ri_round_identity ri)),
     tx_participating_edges = ri_participating_edges ri,
     tx_replicated_states = map owner_state_of (sort_key owner_edge_id (replicated_states ri))\<rparr>"

lemma decode_sensor_dict: "decode_sensor (sensor_value_dict p) = Inr (entry_of_payload p)"
  by (simp add: decode_sensor_def sensor_value_dict_def entry_of_payload_def)

lemma decode_state_dict: "decode_state (state_dict s) = Inr (owner_state_of s)"
proof -
  have "mapM (\<lambda>(k, x). attempt (decode_sensor x) (\<lambda>e. Inr (k, e))) (map (\<lambda>(k, p). (k, sensor_value_dict p)) xs) =
      Inr (map (\<lambda>(k, p). (k, entry_of_payload p)) xs)" for xs :: "(string \<times> raw_hart_payload) list"
    unfolding mapM_map by (rule mapM_Inr) (auto simp: decode_sensor_dict)
  then show ?thesis by (simp add: decode_state_def state_dict_def owner_state_of_def)
qed

lemma decode_document: "decode_tx (round_document ri) = Inr (tx_of ri)"
proof -
  have "mapM decode_state (map state_dict ss) = Inr (map owner_state_of ss)" for ss
    unfolding mapM_map by (rule mapM_Inr) (simp add: decode_state_dict)
  moreover have "mapM go_str (map PStr es) = Inr es" for es by (rule mapM_inverse) simp
  ultimately show ?thesis by (simp add: decode_tx_def round_document_def tx_of_def)
qed

section \<open>Lookups\<close>

lemma map_of_rev_last:
  "map_of (rev (map (\<lambda>s. (f s, g s)) xs)) k =
     (let ys = filter (\<lambda>s. f s = k) xs in if ys = [] then None else Some (g (last ys)))"
  by (induction xs rule: rev_induct) (auto simp: Let_def)

lemma map_of_first: "map_of xs k = (case filter (\<lambda>e. fst e = k) xs of [] \<Rightarrow> None | e # _ \<Rightarrow> Some (snd e))"
  by (induction xs) auto

lemma map_of_sorted_items: "map_of (sorted_items d) k = map_of d k"
  unfolding map_of_first sorted_items_def by (simp add: sort_key_stable)

lemma owners_lookup:
  "map_of (owners_by_edge (tx_replicated_states (tx_of ri))) e =
     map_option owner_state_of (map_of (states_by_edge (replicated_states ri)) e)"
proof -
  let ?ss = "replicated_states ri"
  have "map_of (owners_by_edge (tx_replicated_states (tx_of ri))) e =
      map_of (rev (map (\<lambda>s. (owner_edge_id s, owner_state_of s)) (sort_key owner_edge_id ?ss))) e"
    by (simp add: owners_by_edge_def tx_of_def map_of_dict_of o_def owner_state_of_def)
  also have "\<dots> = map_option owner_state_of (map_of (states_by_edge ?ss) e)"
    unfolding states_by_edge_def map_of_dict_of map_of_rev_last by (simp add: Let_def sort_key_stable)
  finally show ?thesis .
qed

lemma owner_of_tx:
  assumes "map_of (states_by_edge (replicated_states ri)) e = Some s"
  shows "owner_of (owners_by_edge (tx_replicated_states (tx_of ri))) e = owner_state_of s"
  by (simp add: owner_of_def owners_lookup assms)

lemma entry_lookup:
  assumes "sensor_value s name = Inr v"
  shows "\<exists>u. map_of (os_sensor_values (owner_state_of s)) name = Some \<lparr>se_value = v, se_unit = u\<rparr>"
proof -
  obtain p where p: "map_of (observations_by_sensor s) name = Some p" "pv_value (pd_pv (hp_process_data p)) = v"
    using assms by (auto simp: sensor_value_def attempt_eq_Inr getitem_Inr)
  have "map_of (map (\<lambda>(k, p). (k, entry_of_payload p)) xs) name = map_option entry_of_payload (map_of xs name)" for xs
    by (induction xs) auto
  then show ?thesis using p by (simp add: owner_state_of_def map_of_sorted_items entry_of_payload_def)
qed

lemma entry_values:
  assumes "sensor_value s name = Inr v"
  shows "se_value (entry_of (owner_state_of s) name) = v" "\<exists>e. required_entry (owner_state_of s) name = Inr e \<and> se_value e = v"
  using entry_lookup [OF assms] by (auto simp: entry_of_def required_entry_def)

lemma scaled_difference_values:
  assumes "sensor_value a name = Inr x" "sensor_value b name = Inr y"
  shows "app_scaled_difference (owner_state_of a) (owner_state_of b) name =
    Inr (fdiv \<bar>fsub x y\<bar> (the (map_of app_sensor_scales name)))"
  using entry_values(2) [OF assms(1)] entry_values(2) [OF assms(2)] by (auto simp: app_scaled_difference_def)

lemma app_sensors_sorted: "sort (map fst app_sensor_scales) = [''pressure'', ''rpm'', ''temperature'']"
  by (simp add: app_sensor_scales_def)

section \<open>What an evaluation says\<close>

lemma go_round_double [simp]: "is_double (go_round x)"
  by (simp add: go_round_def)

lemma go_mean_Inr: "go_mean xs = Inr m \<longleftrightarrow> xs \<noteq> [] \<and> m = fdiv (go_total xs) (of_nat (length xs))"
  by (auto simp: go_mean_def)

definition app_support :: "(string, flt) dict \<Rightarrow> string list \<Rightarrow> string \<Rightarrow> nat" where
  "app_support table edges e = length (filter (\<lambda>p. p \<noteq> e \<and> pair_lookup table e p \<le> app_consistency_threshold) edges)"

text \<open>Numbers that survive the way through JSON, and reasons the other side knows.\<close>

definition sound_evidence :: "app_evidence \<Rightarrow> bool" where
  "sound_evidence e = (is_double (pe_score e) \<and> is_double (pe_overall_normalized_deviation e) \<and>
     (\<forall>d \<in> set (pe_sensor_deviations e). is_double (sd_deviation_value d)) \<and>
     (\<forall>p \<in> set (pe_pairwise_distances e). is_double (pw_distance_value p)))"

definition known_reason :: "app_exclusion \<Rightarrow> bool" where
  "known_reason x = (xd_reason x = ''suspected_byzantine_behavior'' \<or> xd_reason x = ''inconsistent_view'')"

lemma app_sensor_evidence_Inr:
  assumes "app_sensor_evidence by_edge state peers name = Inr (d, ps)"
  shows "is_double (sd_deviation_value d)" "\<forall>p \<in> set ps. is_double (pw_distance_value p)"
  using assms by (auto simp: app_sensor_evidence_def Let_def attempt_eq_Inr)

lemma app_edge_Inr:
  assumes "app_edge by_edge edges table quorum e = Inr (entry, ev, exo)"
  shows "tr_edge_id entry = e" "is_double (tr_score entry)" "pe_edge_id ev = e" "sound_evidence ev"
    "exo \<noteq> None \<longleftrightarrow> app_support table edges e + 1 < quorum" "exo = Some x \<Longrightarrow> xd_edge_id x = e \<and> known_reason x"
proof -
  let ?peers = "sort (filter (\<lambda>p. p \<noteq> e) edges)"
  obtain evs mean where m: "mapM (app_sensor_evidence by_edge (owner_of by_edge e) ?peers)
      (sort (map fst (os_sensor_values (owner_of by_edge e)))) = Inr evs"
    and r: "entry = \<lparr>tr_edge_id = e, tr_score = go_round (fdiv 1 (fadd 1 (go_round mean)))\<rparr>"
      "pe_edge_id ev = e" "pe_score ev = go_round (fdiv 1 (fadd 1 (go_round mean)))" "pe_overall_normalized_deviation ev = go_round mean"
      "pe_sensor_deviations ev = map fst evs" "pe_pairwise_distances ev = concat (map snd evs)"
    and x: "exo = (if length (filter (\<lambda>d. d \<le> app_consistency_threshold) (map (pair_lookup table e) ?peers)) + 1 < quorum then
        Some \<lparr>xd_edge_id = e, xd_reason = (if app_byzantine_threshold \<le> go_round mean then ''suspected_byzantine_behavior''
            else ''inconsistent_view''), xd_detail = app_detail
            (length (filter (\<lambda>d. d \<le> app_consistency_threshold) (map (pair_lookup table e) ?peers))) (go_round mean) (map fst evs)\<rparr>
        else None)"
    using assms unfolding app_edge_def Let_def attempt_eq_Inr by auto
  have "is_double (sd_deviation_value d) \<and> (\<forall>p \<in> set ps. is_double (pw_distance_value p))" if "(d, ps) \<in> set evs" for d ps
    using mapM_set_origin [OF m that] app_sensor_evidence_Inr by blast
  then show "sound_evidence ev" by (fastforce simp: sound_evidence_def r)
  show "tr_edge_id entry = e" "is_double (tr_score entry)" "pe_edge_id ev = e" by (simp_all add: r)
  have "length (filter (\<lambda>d. d \<le> app_consistency_threshold) (map (pair_lookup table e) ?peers)) = app_support table edges e"
    by (simp add: app_support_def filter_map o_def filter_sort conj_commute)
  then show "exo \<noteq> None \<longleftrightarrow> app_support table edges e + 1 < quorum" by (simp add: x)
  show "exo = Some x \<Longrightarrow> xd_edge_id x = e \<and> known_reason x" by (auto simp: x known_reason_def split: if_splits)
qed

lemma evaluate_round_Inr:
  assumes "evaluate_round tx h = Inr cd"
  obtains table where "app_pairwise (owners_by_edge (tx_replicated_states tx)) (tx_participating_edges tx) = Inr table"
    "cd_round_id cd = tx_round_id tx" "cd_window_started_at cd = tx_window_started_at tx" "cd_window_ended_at cd = tx_window_ended_at tx"
    "cd_participating_edges cd = tx_participating_edges tx"
    "tr_edge_id ` set (cd_trust_ranking cd) = set (tx_participating_edges tx)"
    "\<forall>r \<in> set (cd_trust_ranking cd). is_double (tr_score r)" "\<forall>e \<in> set (cd_trust_evidence cd). sound_evidence e"
    "\<forall>x \<in> set (cd_exclusions cd). known_reason x"
    "xd_edge_id ` set (cd_exclusions cd) = {e \<in> set (tx_participating_edges tx).
       app_support table (tx_participating_edges tx) e + 1 < length (tx_participating_edges tx) div 2 + 1}"
    "cd_valid_state cd = (let valid = sort (filter (\<lambda>e. length (tx_participating_edges tx) div 2 \<le> app_support table (tx_participating_edges tx) e)
         (tx_participating_edges tx)) in
       if length (tx_participating_edges tx) div 2 + 1 \<le> length valid
       then Some (app_valid_state_of (owners_by_edge (tx_replicated_states tx)) valid) else None)"
    "cd_final_status cd = (if cd_valid_state cd = None then ''failed_consensus'' else ''success'')"
proof -
  let ?es = "tx_participating_edges tx" and ?by = "owners_by_edge (tx_replicated_states tx)"
  let ?q = "length ?es div 2 + 1"
  obtain table vs where t: "app_pairwise ?by ?es = Inr table" and v: "mapM (app_edge ?by ?es table ?q) ?es = Inr vs"
    and cd: "cd_round_id cd = tx_round_id tx" "cd_window_started_at cd = tx_window_started_at tx"
      "cd_window_ended_at cd = tx_window_ended_at tx" "cd_participating_edges cd = ?es"
      "cd_trust_ranking cd = sort_key (\<lambda>r. - tr_score r) (sort_key tr_edge_id (map fst vs))"
      "cd_exclusions cd = sort_key xd_edge_id (List.map_filter (snd \<circ> snd) vs)"
      "cd_trust_evidence cd = sort_key pe_edge_id (map (fst \<circ> snd) vs)"
      "cd_valid_state cd = (let valid = sort (filter (\<lambda>e. e \<notin> xd_edge_id ` set (cd_exclusions cd)) ?es) in
        if ?q \<le> length valid then Some (app_valid_state_of ?by valid) else None)"
      "cd_final_status cd = (if cd_valid_state cd = None then ''failed_consensus'' else ''success'')"
    using assms unfolding evaluate_round_def Let_def attempt_eq_Inr by auto
  have fwd: "\<exists>v \<in> set vs. app_edge ?by ?es table ?q e = Inr v" if "e \<in> set ?es" for e using mapM_set_Inr [OF v that] .
  have orig: "\<exists>e \<in> set ?es. app_edge ?by ?es table ?q e = Inr (en, ev, exo)" if "(en, ev, exo) \<in> set vs" for en ev exo
    using mapM_set_origin [OF v that] .
  have ranks: "tr_edge_id ` set (cd_trust_ranking cd) = set ?es"
  proof -
    have "tr_edge_id ` fst ` set vs = set ?es"
    proof
      show "tr_edge_id ` fst ` set vs \<subseteq> set ?es" using orig app_edge_Inr(1) by fastforce
      show "set ?es \<subseteq> tr_edge_id ` fst ` set vs"
      proof
        fix e assume "e \<in> set ?es"
        then obtain en ev exo where "(en, ev, exo) \<in> set vs" "app_edge ?by ?es table ?q e = Inr (en, ev, exo)"
          using fwd by (metis prod_cases3)
        then show "e \<in> tr_edge_id ` fst ` set vs" using app_edge_Inr(1) by force
      qed
    qed
    then show ?thesis by (simp add: cd(5))
  qed
  have doubles: "\<forall>r \<in> set (cd_trust_ranking cd). is_double (tr_score r)" "\<forall>e \<in> set (cd_trust_evidence cd). sound_evidence e"
    using orig app_edge_Inr(2,4) by (fastforce simp: cd(5,7))+
  have exs: "(x \<in> set (cd_exclusions cd)) = (\<exists>en ev. (en, ev, Some x) \<in> set vs)" for x
    by (force simp: cd(6) List.map_filter_def)
  have known: "\<forall>x \<in> set (cd_exclusions cd). known_reason x" using exs orig app_edge_Inr(6) by blast
  have excluded: "xd_edge_id ` set (cd_exclusions cd) = {e \<in> set ?es. app_support table ?es e + 1 < ?q}"
  proof (intro set_eqI iffI)
    fix e assume "e \<in> xd_edge_id ` set (cd_exclusions cd)"
    then obtain x en ev where "xd_edge_id x = e" "(en, ev, Some x) \<in> set vs" using exs by auto
    moreover from this obtain f where "f \<in> set ?es" "app_edge ?by ?es table ?q f = Inr (en, ev, Some x)" using orig by blast
    ultimately show "e \<in> {e \<in> set ?es. app_support table ?es e + 1 < ?q}" using app_edge_Inr(5,6) by fastforce
  next
    fix e assume e: "e \<in> {e \<in> set ?es. app_support table ?es e + 1 < ?q}"
    then obtain en ev exo where v: "(en, ev, exo) \<in> set vs" "app_edge ?by ?es table ?q e = Inr (en, ev, exo)"
      using fwd by (metis (no_types, lifting) mem_Collect_eq prod_cases3)
    then obtain x where "exo = Some x" using app_edge_Inr(5) [OF v(2)] e by auto
    then show "e \<in> xd_edge_id ` set (cd_exclusions cd)" using v exs app_edge_Inr(6) by blast
  qed
  have "filter (\<lambda>e. e \<notin> xd_edge_id ` set (cd_exclusions cd)) ?es = filter (\<lambda>e. length ?es div 2 \<le> app_support table ?es e) ?es"
    unfolding excluded by (rule filter_cong) (auto simp: not_less)
  then have valid: "cd_valid_state cd = (let valid = sort (filter (\<lambda>e. length ?es div 2 \<le> app_support table ?es e) ?es) in
      if ?q \<le> length valid then Some (app_valid_state_of ?by valid) else None)" using cd(8) by simp
  show ?thesis by (rule that [OF t cd(1-4) ranks doubles known excluded valid cd(9)])
qed

section \<open>Every complete round is evaluated\<close>

lemma pair_distance_total:
  assumes "observes_all a" "observes_all b"
  shows "\<exists>d. app_pair_distance (owner_state_of a) (owner_state_of b) = Inr d"
proof -
  have "\<exists>y. app_scaled_difference (owner_state_of a) (owner_state_of b) name = Inr y" if "name \<in> set (sort (map fst app_sensor_scales))" for name
  proof -
    have n: "name \<in> fst ` set SENSOR_SCALES" using that by (auto simp: app_sensor_scales_def SENSOR_SCALES_def)
    obtain x where "sensor_value a name = Inr x" by (rule sensor_value_total [OF assms(1) n])
    moreover obtain y where "sensor_value b name = Inr y" by (rule sensor_value_total [OF assms(2) n])
    ultimately show ?thesis using scaled_difference_values by blast
  qed
  then obtain ds where ds: "mapM (app_scaled_difference (owner_state_of a) (owner_state_of b)) (sort (map fst app_sensor_scales)) = Inr ds"
    by (rule mapM_total)
  have "length ds = 3" using mapM_length [OF ds] by (simp add: app_sensor_scales_def)
  then show ?thesis using ds by (auto simp: app_pair_distance_def go_mean_def)
qed

lemma app_edge_total:
  assumes "p \<in> set edges" "p \<noteq> e"
  shows "\<exists>v. app_edge by_edge edges table quorum e = Inr v"
proof -
  let ?peers = "sort (filter (\<lambda>p. p \<noteq> e) edges)"
  have ne: "?peers \<noteq> []" using assms by (metis (mono_tags, lifting) filter_empty_conv set_empty set_sort)
  then have "\<exists>v. app_sensor_evidence by_edge (owner_of by_edge e) ?peers name = Inr v" for name
    by (simp add: app_sensor_evidence_def go_mean_def Let_def)
  then obtain evs where "mapM (app_sensor_evidence by_edge (owner_of by_edge e) ?peers)
      (sort (map fst (os_sensor_values (owner_of by_edge e)))) = Inr evs" by (metis mapM_total)
  with ne show ?thesis by (simp add: app_edge_def go_mean_def Let_def)
qed

lemma evaluate_round_total:
  assumes "complete_input ri"
  shows "\<exists>cd. evaluate_round (tx_of ri) h = Inr cd"
proof -
  let ?es = "ri_participating_edges ri" and ?by = "owners_by_edge (tx_replicated_states (tx_of ri))"
  have c: "complete_round ?es (replicated_states ri)" and two: "2 \<le> card (set ?es)" using assms by (auto simp: complete_input_def)
  have owner: "\<exists>s. owner_of ?by e = owner_state_of s \<and> observes_all s" if "e \<in> set ?es" for e
    by (rule complete_round_state [OF c that]) (use owner_of_tx in blast)
  have "\<exists>y. (\<lambda>(e, p). attempt (app_pair_distance (owner_of ?by e) (owner_of ?by p)) (\<lambda>d. Inr (pair_key e p, d))) k = Inr y"
    if "k \<in> set (edge_pairs ?es)" for k
  proof -
    obtain e p where k: "k = (e, p)" by (cases k)
    then have "e \<in> set ?es" "p \<in> set ?es" using that by (simp_all add: edge_pairs_set)
    with owner pair_distance_total obtain d where "app_pair_distance (owner_of ?by e) (owner_of ?by p) = Inr d" by metis
    then show ?thesis by (simp add: k)
  qed
  then obtain table where t: "app_pairwise ?by ?es = Inr table"
    unfolding app_pairwise_def by (metis (no_types, lifting) attempt_Inr mapM_total)
  have "\<exists>v. app_edge ?by ?es table (length ?es div 2 + 1) e = Inr v" if "e \<in> set ?es" for e
    using two_participants [OF two that] app_edge_total by blast
  then obtain vs where v: "mapM (app_edge ?by ?es table (length ?es div 2 + 1)) ?es = Inr vs" by (rule mapM_total)
  have es: "tx_participating_edges (tx_of ri) = ?es" by (simp add: tx_of_def)
  show ?thesis by (simp add: evaluate_round_def Let_def es t v del: One_nat_def)
qed

section \<open>Reading a committed round back\<close>

lemma to_float_number [simp]: "is_double x \<Longrightarrow> to_float (go_number x) = Inr x"
  by (auto simp: go_number_def is_double_def)

definition app_reason :: "string \<Rightarrow> exclusion_reason" where
  "app_reason s = (if s = ''inconsistent_view'' then INCONSISTENT_VIEW else SUSPECTED_BYZANTINE_BEHAVIOR)"

definition exclusion_of :: "round_identity \<Rightarrow> app_exclusion \<Rightarrow> exclusion_decision" where
  "exclusion_of r x = \<lparr>ex_round_identity = r, ex_edge_id = xd_edge_id x, ex_reason = app_reason (xd_reason x),
     ex_detail = (if xd_detail x = [] then None else Some (xd_detail x))\<rparr>"

definition evidence_of :: "round_identity \<Rightarrow> app_evidence \<Rightarrow> trust_evidence" where
  "evidence_of r e = \<lparr>te_round_identity = r, te_edge_id = pe_edge_id e, te_score = pe_score e,
     te_compatible_peer_count = int (pe_compatible_peer_count e),
     te_overall_normalized_deviation = pe_overall_normalized_deviation e, te_sensor_deviations = pe_sensor_deviations e,
     te_pairwise_distances = pe_pairwise_distances e\<rparr>"

definition valid_state_of :: "round_identity \<Rightarrow> app_valid_state \<Rightarrow> valid_state" where
  "valid_state_of r v = \<lparr>vs_round_identity = r, source_edges = av_source_edges v, sensor_values = sorted_items (av_sensor_values v)\<rparr>"

text \<open>The audit package that the other side makes of a committed round.\<close>

definition committed_package :: "consensus_round_input \<Rightarrow> committed_round \<Rightarrow> audit_package" where
  "committed_package ri cd = (let r = ri_round_identity ri; edges = ri_participating_edges ri;
     ranking = \<lparr>tr_round_identity = r, tr_participating_edges = edges, tr_entries = cd_trust_ranking cd\<rparr>;
     exs = map (exclusion_of r) (cd_exclusions cd); v = map_option (valid_state_of r) (cd_valid_state cd);
     st = (if cd_valid_state cd = None then FAILED_CONSENSUS else SUCCESS) in
     \<lparr>ap_round_input = ri, ap_trust_ranking = ranking, ap_exclusions = exs,
       ap_trust_evidence = map (evidence_of r) (cd_trust_evidence cd), ap_final_status = st,
       ap_consensus_result = \<lparr>cr_round_identity = r, cr_status = st, cr_participating_edges = edges, cr_trust_ranking = ranking,
         cr_exclusions = exs, cr_valid_state = v\<rparr>, ap_valid_state = v\<rparr>)"

lemma read_app_exclusion: "known_reason x \<Longrightarrow> read_exclusion r (app_exclusion_json x) = Inr (exclusion_of r x)"
  by (auto simp: read_exclusion_def app_exclusion_json_def exclusion_of_def app_reason_def known_reason_def parse_reason_def reads)

lemma read_app_evidence:
  assumes "sound_evidence e" shows "read_evidence r (app_evidence_json e) = Inr (evidence_of r e)"
proof -
  have "mapM read_deviation (map app_deviation_json (pe_sensor_deviations e)) = Inr (pe_sensor_deviations e)"
    by (rule mapM_inverse) (use assms in \<open>simp add: read_deviation_def app_deviation_json_def reads sound_evidence_def\<close>)
  moreover have "mapM read_pairwise (map app_distance_json (pe_pairwise_distances e)) = Inr (pe_pairwise_distances e)"
    by (rule mapM_inverse) (use assms in \<open>simp add: read_pairwise_def app_distance_json_def reads sound_evidence_def\<close>)
  ultimately show ?thesis
    using assms by (simp add: read_evidence_def app_evidence_json_def evidence_of_def reads sound_evidence_def)
qed

lemma read_rank: "is_double (tr_score x) \<Longrightarrow> read_rank_entry (rank_json x) = Inr x"
  by (simp add: read_rank_entry_def rank_json_def reads)

lemma read_app_valid_state:
  assumes "av_source_edges v \<noteq> []" "\<forall>(k, x) \<in> set (av_sensor_values v). is_double x"
  shows "read_valid_state r (app_valid_state_json v) = Inr (Some (valid_state_of r v))"
proof -
  have "mapM (\<lambda>(k, x). attempt (to_float x) (\<lambda>f. Inr (k, f))) (map (\<lambda>(k, x). (k, go_number x)) (sorted_items (av_sensor_values v)))
      = Inr (sorted_items (av_sensor_values v))"
    by (rule mapM_inverse) (use assms(2) in \<open>auto simp: case_prod_beta\<close>)
  with assms(1) show ?thesis
    by (simp add: read_valid_state_def app_valid_state_json_def valid_state_of_def reads nil_slice_def mapM_inverse)
qed

lemma read_committed_round:
  assumes wf: "wf_round_input ri" and e: "evaluate_round (tx_of ri) h = Inr cd" and ne: "ri_participating_edges ri \<noteq> []"
    and states: "\<forall>s \<in> set (replicated_states ri). \<not> is_validated s"
    and window: "valid_datetime (window_started_at (ri_round_identity ri))" "valid_datetime (window_ended_at (ri_round_identity ri))"
      "dt_less (window_ended_at (ri_round_identity ri)) (window_started_at (ri_round_identity ri)) = Inr False"
  shows "committed_round_to_audit_package ri (committed_round_json cd) = Inr (committed_package ri cd)"
proof -
  let ?r = "ri_round_identity ri" and ?es = "ri_participating_edges ri" and ?v = "committed_round_json cd"
  have tx: "tx_participating_edges (tx_of ri) = ?es" "tx_round_id (tx_of ri) = round_id ?r"
    "tx_window_started_at (tx_of ri) = isoformat (window_started_at ?r)" "tx_window_ended_at (tx_of ri) = isoformat (window_ended_at ?r)"
    by (simp_all add: tx_of_def)
  obtain table where t: "cd_round_id cd = round_id ?r" "cd_window_started_at cd = isoformat (window_started_at ?r)"
    "cd_window_ended_at cd = isoformat (window_ended_at ?r)" "cd_participating_edges cd = ?es"
    "tr_edge_id ` set (cd_trust_ranking cd) = set ?es" "\<forall>r \<in> set (cd_trust_ranking cd). is_double (tr_score r)"
    "\<forall>e \<in> set (cd_trust_evidence cd). sound_evidence e" "\<forall>x \<in> set (cd_exclusions cd). known_reason x"
    "cd_valid_state cd = (let valid = sort (filter (\<lambda>e. length ?es div 2 \<le> app_support table ?es e) ?es) in
       if length ?es div 2 + 1 \<le> length valid
       then Some (app_valid_state_of (owners_by_edge (tx_replicated_states (tx_of ri))) valid) else None)"
    "cd_final_status cd = (if cd_valid_state cd = None then ''failed_consensus'' else ''success'')"
    by (rule evaluate_round_Inr [OF e, unfolded tx])
  have rid: "read_round_identity ?v = Inr ?r"
    using window by (simp add: read_round_identity_def committed_round_json_def t(1-3) fromisoformat_isoformat mk_RoundIdentity_def)
  have ss: "mapM (rescope_state ?r) (replicated_states ri) = Inr (replicated_states ri)"
    using mapM_inverse [of "replicated_states ri" "rescope_state ?r" "\<lambda>s. s"] states wf
    by (simp add: rescope_same wf_round_input_def mk_ConsensusRoundInput_Inr)
  have entries: "mapM read_rank_entry (map rank_json (cd_trust_ranking cd)) = Inr (cd_trust_ranking cd)"
    by (rule mapM_inverse) (use t(6) in \<open>simp add: read_rank\<close>)
  have exs: "mapM (read_exclusion ?r) (map app_exclusion_json (cd_exclusions cd)) = Inr (map (exclusion_of ?r) (cd_exclusions cd))"
    unfolding mapM_map by (rule mapM_Inr) (use t(8) in \<open>simp add: read_app_exclusion\<close>)
  have evs: "mapM (read_evidence ?r) (map app_evidence_json (cd_trust_evidence cd)) = Inr (map (evidence_of ?r) (cd_trust_evidence cd))"
    unfolding mapM_map by (rule mapM_Inr) (use t(7) in \<open>simp add: read_app_evidence\<close>)
  have fields: "attempt (sub_list ?v ''participating_edges'') (mapM as_str) = Inr ?es"
    "attempt (sub_list ?v ''trust_ranking'') (mapM read_rank_entry) = Inr (cd_trust_ranking cd)"
    "attempt (sub_list ?v ''exclusions'') (mapM (read_exclusion ?r)) = Inr (map (exclusion_of ?r) (cd_exclusions cd))"
    "attempt (sub_list ?v ''trust_evidence'') (mapM (read_evidence ?r)) = Inr (map (evidence_of ?r) (cd_trust_evidence cd))"
    "attempt (sub_str ?v ''final_status'') parse_status = Inr (if cd_valid_state cd = None then FAILED_CONSENSUS else SUCCESS)"
    using ne entries exs evs
    by (simp_all add: committed_round_json_def reads nil_slice_def t(4,10) mapM_inverse parse_status_def)
  have vs: "attempt (pget ?v ''consensused_valid_state'') (read_valid_state ?r) = Inr (map_option (valid_state_of ?r) (cd_valid_state cd))"
  proof (cases "cd_valid_state cd")
    case (Some v)
    then obtain valid where "length ?es div 2 + 1 \<le> length valid"
        "v = app_valid_state_of (owners_by_edge (tx_replicated_states (tx_of ri))) valid"
      unfolding t(9) Let_def by (metis option.distinct(1) option.inject)
    then have "av_source_edges v \<noteq> []" "\<forall>(k, x) \<in> set (av_sensor_values v). is_double x"
      by (auto simp: app_valid_state_of_def)
    from read_app_valid_state [OF this] Some show ?thesis by (simp add: committed_round_json_def)
  qed (simp add: committed_round_json_def read_valid_state_def)
  let ?pkg = "committed_package ri cd"
  have res: "mk_ConsensusResult ?r (ap_final_status ?pkg) ?es (ap_trust_ranking ?pkg) (ap_exclusions ?pkg) (ap_valid_state ?pkg) =
      Inr (ap_consensus_result ?pkg)"
    unfolding committed_package_def Let_def audit_package.simps
    by (subst mk_ConsensusResult_ok) (use t(5) in \<open>auto simp: exclusion_of_def valid_state_of_def\<close>)
  have pkg: "mk_ConsensusAuditPackage ri (ap_trust_ranking ?pkg) (ap_exclusions ?pkg) (ap_trust_evidence ?pkg)
      (ap_final_status ?pkg) (ap_consensus_result ?pkg) (ap_valid_state ?pkg) = Inr ?pkg"
    unfolding committed_package_def Let_def audit_package.simps
    by (subst mk_ConsensusAuditPackage_ok) (auto simp: exclusion_of_def evidence_of_def)
  have ranking: "mk_TrustRanking ?r ?es (cd_trust_ranking cd) = Inr (ap_trust_ranking ?pkg)"
    using t(5) by (simp add: mk_TrustRanking_def committed_package_def Let_def)
  have parts: "ap_exclusions ?pkg = map (exclusion_of ?r) (cd_exclusions cd)" "ap_trust_evidence ?pkg = map (evidence_of ?r) (cd_trust_evidence cd)"
    "ap_valid_state ?pkg = map_option (valid_state_of ?r) (cd_valid_state cd)"
    "ap_final_status ?pkg = (if cd_valid_state cd = None then FAILED_CONSENSUS else SUCCESS)"
    by (simp_all add: committed_package_def Let_def)
  show ?thesis
    using wf unfolding committed_round_to_audit_package_def rid ss fields vs attempt_Inr ranking wf_round_input_def
    by (simp add: ranking res [unfolded parts] pkg [unfolded parts] split del: if_split)
qed

section \<open>Chains of blocks\<close>

text \<open>A transaction that does not decide the round \<open>rid\<close>.\<close>

definition foreign :: "string \<Rightarrow> pyval \<Rightarrow> bool" where
  "foreign rid raw = (case decode_tx raw of Inl _ \<Rightarrow> True | Inr tx \<Rightarrow> tx_round_id tx \<noteq> rid)"

text \<open>
  What a node that runs this application answers once the transaction was in a block: the
  state of the application after some chain, in which no later transaction is about the same
  round.
\<close>

definition committed_answer :: "pyval \<Rightarrow> pyval \<Rightarrow> bool" where
  "committed_answer raw answer = (\<exists>tx app before height txs txs' after app'. decode_tx raw = Inr tx \<and>
     run_blocks (before @ (height, txs @ raw # txs') # after) app = Inr app' \<and>
     (\<forall>t \<in> set txs'. foreign (tx_round_id tx) t) \<and> (\<forall>b \<in> set after. \<forall>t \<in> set (snd b). foreign (tx_round_id tx) t) \<and>
     query_round app' (tx_round_id tx) = Some answer)"

lemma deliver_foreign:
  assumes "deliver_tx h raw pending = Inr (code, pending')" "foreign rid raw"
  shows "pending' rid = pending rid"
  using assms by (auto simp: deliver_tx_def foreign_def split: sum.splits py_error.splits)

lemma deliver_all_foreign:
  "deliver_all h txs pending = Inr (codes, pending') \<Longrightarrow> \<forall>t \<in> set txs. foreign rid t \<Longrightarrow> pending' rid = pending rid"
proof (induction txs arbitrary: pending codes)
  case (Cons t ts)
  then show ?case using deliver_foreign by (auto simp: attempt_eq_Inr)
qed simp

lemma deliver_all_append:
  "deliver_all h (xs @ ys) pending = attempt (deliver_all h xs pending) (\<lambda>(codes, p).
     attempt (deliver_all h ys p) (\<lambda>(codes', p'). Inr (codes @ codes', p')))"
  by (induction xs arbitrary: pending) (auto simp: attempt_def split: sum.split prod.split)

lemma finalize_foreign:
  assumes "finalize_block h txs app = Inr (codes, app')" "\<forall>t \<in> set txs. foreign rid t"
  shows "app_rounds (commit_block app') rid = app_rounds app rid"
proof -
  obtain p where p: "deliver_all h txs Map.empty = Inr (codes, p)" "app' = app\<lparr>app_pending := p, app_pending_height := h\<rparr>"
    using assms(1) by (auto simp: finalize_block_def attempt_eq_Inr)
  have "p rid = None" using deliver_all_foreign [OF p(1) assms(2)] by simp
  then show ?thesis by (simp add: p(2) commit_block_def map_add_def)
qed

lemma run_blocks_foreign:
  "run_blocks blocks app = Inr app' \<Longrightarrow> \<forall>b \<in> set blocks. \<forall>t \<in> set (snd b). foreign rid t \<Longrightarrow> app_rounds app' rid = app_rounds app rid"
proof (induction blocks arbitrary: app)
  case (Cons b bs)
  obtain h txs where b: "b = (h, txs)" by (cases b)
  obtain codes a1 where f: "finalize_block h txs app = Inr (codes, a1)" "run_blocks bs (commit_block a1) = Inr app'"
    using Cons.prems(1) by (auto simp: b attempt_eq_Inr)
  have "app_rounds app' rid = app_rounds (commit_block a1) rid" by (rule Cons.IH [OF f(2)]) (use Cons.prems(2) in simp)
  also have "\<dots> = app_rounds app rid" by (rule finalize_foreign [OF f(1)]) (use Cons.prems(2) in \<open>simp add: b\<close>)
  finally show ?case .
qed simp

lemma run_blocks_append: "run_blocks (xs @ ys) app = attempt (run_blocks xs app) (run_blocks ys)"
proof (induction xs arbitrary: app)
  case (Cons b bs)
  then show ?case by (cases b) (auto simp: attempt_def split: sum.split prod.split)
qed simp

lemma finalize_decides:
  assumes "finalize_block h (txs @ raw # txs') app = Inr (codes, app')" "decode_tx raw = Inr tx" "evaluate_round tx h = Inr cd"
    and "\<forall>t \<in> set txs'. foreign (tx_round_id tx) t"
  shows "app_rounds (commit_block app') (tx_round_id tx) = Some cd"
proof -
  obtain p0 codes1 p1 where d: "deliver_all h txs' (p0(tx_round_id tx \<mapsto> cd)) = Inr (codes1, p1)" "app_pending app' = p1"
    using assms(1-3) by (auto simp: finalize_block_def deliver_all_append deliver_tx_def attempt_eq_Inr)
  have "p1 (tx_round_id tx) = Some cd" using deliver_all_foreign [OF d(1) assms(4)] by simp
  then show ?thesis by (simp add: commit_block_def d(2) map_add_def)
qed

text \<open>The answer is the evaluation of the transaction, at the height of its block.\<close>

lemma committed_answer_evaluates:
  assumes "committed_answer raw answer" "decode_tx raw = Inr tx" "\<And>h. \<exists>cd. evaluate_round tx h = Inr cd"
  obtains h cd where "evaluate_round tx h = Inr cd" "answer = committed_round_json cd"
proof -
  obtain app before h txs txs' after app' where a: "run_blocks (before @ (h, txs @ raw # txs') # after) app = Inr app'"
    "\<forall>t \<in> set txs'. foreign (tx_round_id tx) t" "\<forall>b \<in> set after. \<forall>t \<in> set (snd b). foreign (tx_round_id tx) t"
    "query_round app' (tx_round_id tx) = Some answer"
    using assms(1,2) unfolding committed_answer_def by auto
  obtain a1 codes a2 where f: "finalize_block h (txs @ raw # txs') a1 = Inr (codes, a2)" "run_blocks after (commit_block a2) = Inr app'"
    using a(1) by (auto simp: run_blocks_append attempt_eq_Inr)
  obtain cd where cd: "evaluate_round tx h = Inr cd" using assms(3) by blast
  have "app_rounds app' (tx_round_id tx) = Some cd"
    using run_blocks_foreign [OF f(2) a(3)] finalize_decides [OF f(1) assms(2) cd a(2)] by simp
  then have "answer = committed_round_json cd" using a(4) by (simp add: query_round_def)
  with cd show ?thesis by (rule that)
qed

text \<open>The other way round: a single block with the transaction answers.\<close>

lemma single_block:
  assumes "decode_tx raw = Inr tx" "evaluate_round tx h = Inr cd"
  shows "\<exists>app'. run_blocks [(h, [raw])] app = Inr app' \<and> query_round app' (tx_round_id tx) = Some (committed_round_json cd)"
    "run_blocks [(h, [raw])] app = Inr app' \<Longrightarrow> query_round app' (tx_round_id tx) = Some answer \<Longrightarrow> committed_answer raw answer"
proof -
  show "\<exists>app'. run_blocks [(h, [raw])] app = Inr app' \<and> query_round app' (tx_round_id tx) = Some (committed_round_json cd)"
    using assms by (simp add: finalize_block_def deliver_tx_def commit_block_def query_round_def)
  show "committed_answer raw answer" if "run_blocks [(h, [raw])] app = Inr app'" "query_round app' (tx_round_id tx) = Some answer"
    unfolding committed_answer_def
    by (intro exI [of _ tx] exI [of _ app] exI [of _ "[]"] exI [of _ h] exI [of _ app'] conjI) (use that assms(1) in auto)
qed

end
