(* ===== verification/ScenarioRounds.thy ===== *)
theory ScenarioRounds
  imports LiveCollection ConsensusAppLaws RuntimeCycle
begin

text \<open>
  What the round of a live cycle decides under each fault scenario: the composition of the
  collection, the fault injection, the evaluation by the ledger's application and the audit
  package read back from it. Consensus succeeds on the readings of the last snapshot unless the
  quorum is lost; a single faulty edge changes nothing in them.
\<close>

section \<open>The injected round\<close>

lemma injected_owners: "map owner_edge_id (replicated_states (injected c ri)) = map owner_edge_id (replicated_states ri)"
  by (auto simp: injected_def shift_state_def split: option.split)

lemma injected_origin:
  assumes "s \<in> set (replicated_states (injected c ri))"
  obtains s0 where "s0 \<in> set (replicated_states ri)" "s = s0 \<or> demo_fault_mode c \<noteq> ''none'' \<and>
    owner_edge_id s \<in> set (resolve_faulty_edges c (ri_participating_edges ri)) \<and> (\<exists>d. s = shift_state d s0)"
proof (cases "demo_fault_mode c = ''none''")
  case False
  let ?o = "offsets_by_edge (resolve_faulty_edges c (ri_participating_edges ri))"
  obtain s0 where s0: "s0 \<in> set (replicated_states ri)"
    "s = (case map_of ?o (owner_edge_id s0) of None \<Rightarrow> s0 | Some d \<Rightarrow> shift_state d s0)"
    using assms False by (auto simp: injected_def)
  show ?thesis
  proof (cases "map_of ?o (owner_edge_id s0)")
    case None
    with s0 show ?thesis by (intro that [of s0]) simp_all
  next
    case (Some d)
    then have "owner_edge_id s0 \<in> set (resolve_faulty_edges c (ri_participating_edges ri))" using offsets_by_edge_in by blast
    with s0 Some False show ?thesis by (intro that [of s0]) (auto simp: shift_state_def)
  qed
qed (use assms that in \<open>simp add: injected_def\<close>)

lemma injected_exact:
  assumes "\<forall>s \<in> set (replicated_states ri). clean_state s"
  shows "exact_sensors (injected c ri)" "\<forall>s \<in> set (replicated_states (injected c ri)). \<not> is_validated s"
    "ri_round_identity (injected c ri) = ri_round_identity ri"
proof -
  have "set (map fst (observations_by_sensor s)) = set consensus_sensors \<and> \<not> is_validated s"
    if s: "s \<in> set (replicated_states (injected c ri))" for s
  proof -
    obtain s0 where s0: "s0 \<in> set (replicated_states ri)" "s = s0 \<or> (\<exists>d. s = shift_state d s0)"
      using injected_origin [OF s] by metis
    have "map fst (observations_by_sensor (shift_state d s0)) = map fst (observations_by_sensor s0)" for d
      by (simp add: shift_state_def case_prod_beta' o_def)
    moreover have "is_validated (shift_state d s0) = is_validated s0" for d by (simp add: shift_state_def)
    ultimately show ?thesis using s0 assms by (metis clean_state_def)
  qed
  then show "exact_sensors (injected c ri)" "\<forall>s \<in> set (replicated_states (injected c ri)). \<not> is_validated s"
    by (auto simp: exact_sensors_def)
  show "ri_round_identity (injected c ri) = ri_round_identity ri" by (simp add: injected_def)
qed

text \<open>Which fault an edge has, and its state in the injected round.\<close>

definition edge_fault :: "runtime_config \<Rightarrow> string list \<Rightarrow> string \<Rightarrow> nat option" where
  "edge_fault c edges e = (if demo_fault_mode c = ''none'' then None else fault_index (resolve_faulty_edges c edges) e)"

lemma injected_lookup:
  "map_of (states_by_edge (replicated_states (injected c ri))) e =
    map_option (shifted (edge_fault c (ri_participating_edges ri) e)) (map_of (states_by_edge (replicated_states ri)) e)"
proof (cases "demo_fault_mode c = ''none''")
  case True
  have "map_option (shifted None) m = m" for m by (cases m) (simp_all add: shifted_def)
  then show ?thesis by (simp add: True injected_def edge_fault_def)
next
  case False
  show ?thesis using injected_by_edge [OF False refl] by (simp add: edge_fault_def False)
qed

lemma scenario_faults:
  assumes "demo_faulty_edges c = []"
  shows "demo_fault_mode c = ''none'' \<Longrightarrow> edge_fault c [''edge-1'', ''edge-2'', ''edge-3''] e = None"
    "demo_fault_mode c = ''single_edge_exclusion'' \<Longrightarrow>
      edge_fault c [''edge-1'', ''edge-2'', ''edge-3''] e = (if e = ''edge-3'' then Some 0 else None)"
    "demo_fault_mode c = ''quorum_loss'' \<Longrightarrow> edge_fault c [''edge-1'', ''edge-2'', ''edge-3''] e =
      (if e = ''edge-3'' then Some 1 else if e = ''edge-2'' then Some 0 else None)"
  using assms
  by (simp_all add: edge_fault_def fault_index_def resolve_faulty_edges_def default_faulty_edges_def)

lemma consensus_sensors_distinct: "distinct consensus_sensors"
  by (simp add: consensus_sensors_def)

section \<open>The distances of the application\<close>

lemma go_total_three: "go_total [x, y, z] = fadd (fadd (fadd 0 x) y) z"
  by (simp add: go_total_def)

lemma app_distance:
  assumes "\<And>name. name \<in> set consensus_sensors \<Longrightarrow> sensor_value a name = Inr (f name)"
    and "\<And>name. name \<in> set consensus_sensors \<Longrightarrow> sensor_value b name = Inr (g name)"
  shows "app_pair_distance (owner_state_of a) (owner_state_of b) = Inr (fdiv (go_total [
    fdiv \<bar>fsub (f ''pressure'') (g ''pressure'')\<bar> 3, fdiv \<bar>fsub (f ''rpm'') (g ''rpm'')\<bar> 600,
    fdiv \<bar>fsub (f ''temperature'') (g ''temperature'')\<bar> 20]) 3)"
proof -
  have s: "app_scaled_difference (owner_state_of a) (owner_state_of b) name =
      Inr (fdiv \<bar>fsub (f name) (g name)\<bar> (the (map_of app_sensor_scales name)))" if "name \<in> set consensus_sensors" for name
    by (rule scaled_difference_values [OF assms [OF that]])
  show ?thesis
    unfolding app_pair_distance_def app_sensors_sorted
    by (simp add: s consensus_sensors_def go_mean_def del: One_nat_def) (simp add: app_sensor_scales_def)
qed

lemma app_threshold: "0 \<le> app_consistency_threshold" "app_consistency_threshold < 1"
proof -
  show "0 \<le> app_consistency_threshold" unfolding app_consistency_threshold_def dec_def by (intro fl.nonneg) simp
  have "\<bar>dec 35 2 - 35 / 100\<bar> \<le> 1 / 8192" unfolding dec_def using fl_near [of "35 / 100"] by simp
  then show "app_consistency_threshold < 1" unfolding app_consistency_threshold_def by linarith
qed

lemma app_near:
  assumes "\<And>name. name \<in> set consensus_sensors \<Longrightarrow> sensor_value a name = Inr (f name)"
    and "\<And>name. name \<in> set consensus_sensors \<Longrightarrow> sensor_value b name = Inr (f name)"
  shows "app_pair_distance (owner_state_of a) (owner_state_of b) = Inr 0"
  by (simp add: app_distance [OF assms] go_total_three fdiv_def fadd_def)

lemma app_far:
  assumes a: "\<And>name. name \<in> set consensus_sensors \<Longrightarrow> sensor_value a name = Inr (r name) \<and> plausible_reading (r name)"
    and b: "\<And>name. name \<in> set consensus_sensors \<Longrightarrow> sensor_value b name = Inr (r name)"
    and kinds: "map_option even k \<noteq> map_option even l"
  shows "\<exists>d. app_pair_distance (owner_state_of (shifted k a)) (owner_state_of (shifted l b)) = Inr d \<and> 1 \<le> d"
proof -
  have "\<exists>y z. sensor_value (shifted k a) name = Inr y \<and> sensor_value (shifted l b) name = Inr z \<and>
      1 \<le> fdiv \<bar>fsub y z\<bar> s" if sc: "(name, s) \<in> set SENSOR_SCALES" for name s
  proof -
    have n: "name \<in> set consensus_sensors" using scales_sensors sc by force
    obtain y where y: "sensor_value (shifted k a) name = Inr y" "near_shift y (r name) (nominal_shift k name)"
      using shifted_value [of a name "r name" k] a n by blast
    obtain z where z: "sensor_value (shifted l b) name = Inr z" "near_shift z (r name) (nominal_shift l name)"
      using shifted_value [of b name "r name" l] a b n by blast
    show ?thesis
      using scaled_difference_near(1) [OF y(2) z(2), of s] nominal_gap [OF kinds sc] y(1) z(1) by blast
  qed
  note far = this
  obtain p p' where p: "sensor_value (shifted k a) ''pressure'' = Inr p" "sensor_value (shifted l b) ''pressure'' = Inr p'"
    "1 \<le> fdiv \<bar>fsub p p'\<bar> 3" using far [of "''pressure''" 3] by (auto simp: SENSOR_SCALES_def)
  obtain m m' where m: "sensor_value (shifted k a) ''rpm'' = Inr m" "sensor_value (shifted l b) ''rpm'' = Inr m'"
    "1 \<le> fdiv \<bar>fsub m m'\<bar> 600" using far [of "''rpm''" 600] by (auto simp: SENSOR_SCALES_def)
  obtain t t' where t: "sensor_value (shifted k a) ''temperature'' = Inr t" "sensor_value (shifted l b) ''temperature'' = Inr t'"
    "1 \<le> fdiv \<bar>fsub t t'\<bar> 20" using far [of "''temperature''" 20] by (auto simp: SENSOR_SCALES_def)
  let ?f = "\<lambda>name. if name = ''pressure'' then p else if name = ''rpm'' then m else t"
  let ?g = "\<lambda>name. if name = ''pressure'' then p' else if name = ''rpm'' then m' else t'"
  have d: "app_pair_distance (owner_state_of (shifted k a)) (owner_state_of (shifted l b)) =
      Inr (fdiv (go_total [fdiv \<bar>fsub p p'\<bar> 3, fdiv \<bar>fsub m m'\<bar> 600, fdiv \<bar>fsub t t'\<bar> 20]) 3)"
  proof -
    have "sensor_value (shifted k a) name = Inr (?f name)" "sensor_value (shifted l b) name = Inr (?g name)"
      if "name \<in> set consensus_sensors" for name
      using that p m t by (auto simp: consensus_sensors_def)
    from app_distance [OF this] show ?thesis by simp
  qed
  have 1: "1 \<le> fadd 0 x" if "1 \<le> x" for x using fl.int_lower [of 1 "0 + x"] that by (simp add: fadd_def)
  have 2: "2 \<le> fadd x y" if "1 \<le> x" "1 \<le> y" for x y using fl.int_lower [of 2 "x + y"] that by (simp add: fadd_def)
  have 3: "3 \<le> fadd x y" if "2 \<le> x" "1 \<le> y" for x y using fl.int_lower [of 3 "x + y"] that by (simp add: fadd_def)
  have "1 \<le> fdiv x 3" if "3 \<le> x" for x using fl.int_lower [of 1 "x / 3"] that by (simp add: fdiv_def)
  then show ?thesis using d 3 [OF 2 [OF 1 [OF p(3)] m(3)] t(3)] by (simp add: go_total_three)
qed

text \<open>The mean of two or three copies of a rounded reading, as the application rounds.\<close>

lemma half_away_unique:
  assumes "\<bar>z - of_int k\<bar> < 1 / 2"
  shows "half_away z = k"
proof (cases "z < 0")
  case True
  have "\<lfloor>1 / 2 - z\<rfloor> = - k" by (rule floor_unique) (use assms in \<open>simp_all, linarith+\<close>)
  with True show ?thesis by (simp add: half_away_def)
next
  case False
  have "\<lfloor>z + 1 / 2\<rfloor> = k" by (rule floor_unique) (use assms in linarith)+
  with False show ?thesis by (simp add: half_away_def)
qed

lemma app_mean_of_copies:
  assumes "m \<in> {2, 3}" "x = py_round 3 y" "\<bar>y\<bar> \<le> 5000"
  shows "go_round (fdiv (go_total (replicate m x)) (of_nat m)) = x"
proof -
  let ?u = "1 / 2147483648 :: rat" and ?k = "rhe (y * 10 ^ 3)"
  have fl: "\<bar>fl z - z\<bar> \<le> ?u" if "\<bar>z\<bar> \<le> 4194304" for z using fl_err_small [of z] that by simp
  have k: "\<bar>of_int ?k / 1000 - y\<bar> \<le> 1 / 2000"
  proof -
    have "\<bar>of_int ?k - y * 10 ^ 3\<bar> \<le> 1 / 2" using rhe_bounds [of "y * 10 ^ 3"] by linarith
    then show ?thesis by (simp add: abs_le_iff field_simps)
  qed
  have xk: "\<bar>x - of_int ?k / 1000\<bar> \<le> ?u"
  proof -
    have "\<bar>of_int ?k / 1000 :: rat\<bar> \<le> 4194304" using k assms(3) by linarith
    from fl [OF this] show ?thesis by (simp add: assms(2) py_round_def)
  qed
  have x: "\<bar>x\<bar> \<le> 6000" using xk k assms(3) by linarith
  have a: "\<bar>fadd 0 x - x\<bar> \<le> ?u" using fl [of "0 + x"] x by (simp add: fadd_def)
  have b: "\<bar>fadd (fadd 0 x) x - 2 * x\<bar> \<le> 2 * ?u"
    using fl [of "fadd 0 x + x"] a x unfolding fadd_def by linarith
  have c: "\<bar>fadd (fadd (fadd 0 x) x) x - 3 * x\<bar> \<le> 3 * ?u"
    using fl [of "fadd (fadd 0 x) x + x"] b x unfolding fadd_def by linarith
  define w where "w = fdiv (go_total (replicate m x)) (of_nat m)"
  have w: "\<bar>w - x\<bar> \<le> 3 * ?u"
  proof -
    consider "m = 2" | "m = 3" using assms(1) by auto
    then show ?thesis
    proof cases
      case 1
      have "\<bar>fadd (fadd 0 x) x / 2 - x\<bar> \<le> ?u" using b by (simp add: abs_le_iff field_simps)
      moreover from this have "\<bar>fl (fadd (fadd 0 x) x / 2) - fadd (fadd 0 x) x / 2\<bar> \<le> ?u" using x by (intro fl) linarith
      moreover have "w = fl (fadd (fadd 0 x) x / 2)" by (simp add: w_def 1 fdiv_def go_total_def numeral_2_eq_2)
      ultimately show ?thesis by linarith
    next
      case 2
      have "\<bar>fadd (fadd (fadd 0 x) x) x / 3 - x\<bar> \<le> ?u" using c by (simp add: abs_le_iff field_simps)
      moreover from this have "\<bar>fl (fadd (fadd (fadd 0 x) x) x / 3) - fadd (fadd (fadd 0 x) x) x / 3\<bar> \<le> ?u"
        using x by (intro fl) linarith
      moreover have "w = fl (fadd (fadd (fadd 0 x) x) x / 3)" by (simp add: w_def 2 fdiv_def go_total_def numeral_3_eq_3)
      ultimately show ?thesis by linarith
    qed
  qed
  have "\<bar>w - of_int ?k / 1000\<bar> \<le> 4 * ?u" using w xk by linarith
  then have "\<bar>w * 1000 - of_int ?k\<bar> \<le> 1 / 4" by (simp add: abs_le_iff field_simps)
  moreover from this have "\<bar>fl (w * 1000) - w * 1000\<bar> \<le> 1 / 8192" using w x by (intro fl_near) linarith
  ultimately have "\<bar>fmul w 1000 - of_int ?k\<bar> < 1 / 2" unfolding fmul_def by linarith
  then have "half_away (fmul w 1000) = ?k" by (rule half_away_unique)
  then have "go_round w = x" by (simp add: go_round_def fdiv_def assms(2) py_round_def)
  then show ?thesis by (simp only: w_def)
qed

section \<open>The decision of a scenario\<close>

text \<open>What the later stages need of a decided round.\<close>

definition decided_round :: "string \<Rightarrow> (string \<Rightarrow> flt) \<Rightarrow> consensus_round_input \<Rightarrow> audit_package \<Rightarrow> bool" where
  "decided_round mode reading ri pkg = (complete_input ri \<and> exact_sensors ri \<and> settles ri pkg \<and>
     (ap_final_status pkg = SUCCESS \<longleftrightarrow> mode \<noteq> ''quorum_loss'') \<and>
     (\<forall>v. ap_valid_state pkg = Some v \<longrightarrow> (\<forall>name \<in> set consensus_sensors. map_of (sensor_values v) name = Some (reading name))))"

lemma app_value:
  assumes "name \<in> set consensus_sensors"
  shows "map_of (sensor_values (valid_state_of r (app_valid_state_of by_edge valid))) name = Some (go_round (fdiv
    (go_total (map (\<lambda>e. se_value (entry_of (owner_of by_edge e) name)) valid)) (of_nat (length valid))))"
  using assms
  by (auto simp: valid_state_of_def app_valid_state_of_def map_of_sorted_items app_sensor_scales_def consensus_sensors_def)

lemma committed_settles:
  assumes "complete_input ri" "evaluate_round (tx_of ri) h = Inr cd"
  shows "settles ri (committed_package ri cd)"
proof -
  let ?es = "ri_participating_edges ri" and ?by = "owners_by_edge (tx_replicated_states (tx_of ri))"
  have es: "tx_participating_edges (tx_of ri) = ?es" by (simp add: tx_of_def)
  obtain table where t: "cd_valid_state cd = (let valid = sort (filter (\<lambda>e. length ?es div 2 \<le> app_support table ?es e) ?es) in
      if length ?es div 2 + 1 \<le> length valid then Some (app_valid_state_of ?by valid) else None)"
    by (rule evaluate_round_Inr [OF assms(2), unfolded es])
  have owners: "set ?es \<subseteq> owner_edge_id ` set (replicated_states ri)"
    using assms(1) by (simp add: complete_input_def complete_round_def)
  have "\<exists>s \<in> set (replicated_states ri). owner_edge_id s \<in> set (av_source_edges v)" if some: "cd_valid_state cd = Some v" for v
  proof -
    define valid where "valid = sort (filter (\<lambda>e. length ?es div 2 \<le> app_support table ?es e) ?es)"
    have valid: "valid = sort (filter (\<lambda>e. length ?es div 2 \<le> app_support table ?es e) ?es)"
      "length ?es div 2 + 1 \<le> length valid" "v = app_valid_state_of ?by valid"
      using some [unfolded t Let_def, folded valid_def] by (simp_all only: valid_def [symmetric] option.inject split: if_splits) simp_all
    have "valid \<noteq> []" using valid(2) by fastforce
    then obtain e where "e \<in> set valid" by (metis list.set_intros(1) neq_Nil_conv)
    moreover from this valid(1) have "e \<in> set ?es" by simp
    ultimately show ?thesis using owners by (auto simp: valid(3) app_valid_state_of_def)
  qed
  moreover have "set (map fst (sorted_items (av_sensor_values v))) = set consensus_sensors \<and>
      distinct (map fst (sorted_items (av_sensor_values v)))" if "cd_valid_state cd = Some v" for v
  proof -
    have "map fst (av_sensor_values v) = consensus_sensors"
      using that by (auto simp: t Let_def app_valid_state_of_def app_sensor_scales_def consensus_sensors_def split: if_splits)
    moreover have m: "mset (map fst (sorted_items (av_sensor_values v))) = mset (map fst (av_sensor_values v))"
      by (simp add: sorted_items_def)
    ultimately show ?thesis
      using mset_eq_setD [OF m] mset_eq_imp_distinct_iff [OF m] consensus_sensors_distinct by (simp del: set_map)
  qed
  moreover have "ex_round_identity x = r" if "x \<in> set (map (exclusion_of r) xs)" for x r xs using that by (auto simp: exclusion_of_def)
  moreover have "te_round_identity x = r" if "x \<in> set (map (evidence_of r) xs)" for x r xs using that by (auto simp: evidence_of_def)
  ultimately show ?thesis
    by (auto simp: settles_def committed_package_def Let_def valid_state_of_def simp del: set_map)
qed

lemma pair_lookup_value:
  assumes "app_pairwise by_edge edges = Inr table" "e \<in> set edges" "p \<in> set edges" "e \<noteq> p"
    and inj: "inj_on (\<lambda>(e, p). pair_key e p) (set (edge_pairs edges))"
  shows "app_pair_distance (owner_of by_edge e) (owner_of by_edge p) = Inr (pair_lookup table e p)"
proof -
  let ?f = "\<lambda>(e, p). attempt (app_pair_distance (owner_of by_edge e) (owner_of by_edge p)) (\<lambda>d. Inr (pair_key e p, d))"
  obtain es where es: "mapM ?f (edge_pairs edges) = Inr es" "table = dict_of es"
    using assms(1) by (auto simp: app_pairwise_def attempt_eq_Inr)
  have k: "(e, p) \<in> set (edge_pairs edges)" using assms(2-4) by (simp add: edge_pairs_set)
  have val: "app_pair_distance (owner_of by_edge e) (owner_of by_edge p) = Inr d" if d: "(pair_key e p, d) \<in> set es" for d
  proof -
    obtain e' p' where o: "(e', p') \<in> set (edge_pairs edges)" "?f (e', p') = Inr (pair_key e p, d)"
      using mapM_set_origin [OF es(1) d] by auto
    then have "pair_key e' p' = pair_key e p" by (auto simp: attempt_eq_Inr)
    then have "(e', p') = (e, p)" using inj_onD [OF inj _ o(1) k] by simp
    then show ?thesis using o(2) by (auto simp: attempt_eq_Inr)
  qed
  obtain d where "(pair_key e p, d) \<in> set es" using mapM_set_Inr [OF es(1) k] by (auto simp: attempt_eq_Inr)
  then have "pair_key e p \<in> fst ` set (rev es)" by force
  then obtain d' where d': "map_of (rev es) (pair_key e p) = Some d'" by (metis map_of_eq_None_iff not_None_eq)
  then have "(pair_key e p, d') \<in> set es" using map_of_SomeD by fastforce
  then show ?thesis using val d' by (simp add: pair_lookup_def es(2) map_of_dict_of)
qed

lemma live_pair_keys: "inj_on (\<lambda>(e, p). pair_key e p) (set (edge_pairs [''edge-1'', ''edge-2'', ''edge-3'']))"
  by (simp add: edge_pairs_def pair_key_def inj_on_def)

lemma scenario_decides:
  assumes healthy: "healthy_round ri reading" and es: "ri_participating_edges ri = [''edge-1'', ''edge-2'', ''edge-3'']"
    and readings: "\<And>name. name \<in> set consensus_sensors \<Longrightarrow> \<exists>y. reading name = py_round 3 y \<and> \<bar>y\<bar> \<le> 5000"
    and fe: "demo_faulty_edges c = []" and mode: "demo_fault_mode c \<in> {''none'', ''single_edge_exclusion'', ''quorum_loss''}"
    and e: "evaluate_round (tx_of (injected c ri)) h = Inr cd"
  shows "decided_round (demo_fault_mode c) reading (injected c ri) (committed_package (injected c ri) cd)"
proof -
  let ?ri = "injected c ri" and ?es = "[''edge-1'', ''edge-2'', ''edge-3'']"
  let ?by = "owners_by_edge (tx_replicated_states (tx_of ?ri))" and ?k = "edge_fault c ?es"
  have h: "complete_input ri" "\<forall>s \<in> set (replicated_states ri). clean_state s" "agreeing ri reading"
    using healthy by (auto simp: healthy_round_def)
  note parts = injected_complete [OF h(1,2), of c] and exact = injected_exact [OF h(2), of c]
  have tx: "tx_participating_edges (tx_of ?ri) = ?es" by (simp add: tx_of_def parts(2) es)
  have q: "length ?es div 2 = 1" "(1::nat) + 1 = 2" by simp_all
  obtain table where t: "app_pairwise ?by ?es = Inr table"
    "cd_valid_state cd = (let valid = sort (filter (\<lambda>e. 1 \<le> app_support table ?es e) ?es) in
       if 2 \<le> length valid then Some (app_valid_state_of ?by valid) else None)"
    by (rule evaluate_round_Inr [OF e, unfolded tx q])
  have state: "\<exists>a. owner_of ?by e = owner_state_of (shifted (?k e) a) \<and> (\<forall>name \<in> set consensus_sensors.
      sensor_value a name = Inr (reading name) \<and> plausible_reading (reading name))" if "e \<in> set ?es" for e
  proof -
    have c: "complete_round (ri_participating_edges ri) (replicated_states ri)" using h(1) by (simp add: complete_input_def)
    have "e \<in> set (ri_participating_edges ri)" using that by (simp only: es)
    from complete_round_state [OF c this] obtain a where a: "map_of (states_by_edge (replicated_states ri)) e = Some a" by blast
    then have "map_of (states_by_edge (replicated_states ?ri)) e = Some (shifted (?k e) a)" by (simp add: injected_lookup es)
    moreover have "a \<in> set (replicated_states ri)" using states_by_edge_in [OF a] by simp
    ultimately show ?thesis using h(3) owner_of_tx unfolding agreeing_def by blast
  qed
  have near: "pair_lookup table e p \<le> app_consistency_threshold"
    if "e \<in> set ?es" "p \<in> set ?es" "e \<noteq> p" "?k e = None" "?k p = None" for e p
    using state [OF that(1)] state [OF that(2)] pair_lookup_value [OF t(1) that(1-3) live_pair_keys] app_near [of _ reading] app_threshold(1)
    by (auto simp: that(4,5) shifted_def)
  have far: "\<not> pair_lookup table e p \<le> app_consistency_threshold"
    if m: "e \<in> set ?es" "p \<in> set ?es" "e \<noteq> p" "map_option even (?k e) \<noteq> map_option even (?k p)" for e p
  proof -
    obtain a b where ab: "owner_of ?by e = owner_state_of (shifted (?k e) a)" "owner_of ?by p = owner_state_of (shifted (?k p) b)"
      "\<forall>name \<in> set consensus_sensors. sensor_value a name = Inr (reading name) \<and> plausible_reading (reading name)"
      "\<forall>name \<in> set consensus_sensors. sensor_value b name = Inr (reading name)"
      using state [OF m(1)] state [OF m(2)] by blast
    have "\<exists>d. app_pair_distance (owner_state_of (shifted (?k e) a)) (owner_state_of (shifted (?k p) b)) = Inr d \<and> 1 \<le> d"
      by (rule app_far [where r = reading]) (use ab(3,4) m(4) in blast)+
    then show ?thesis
      using pair_lookup_value [OF t(1) m(1-3) live_pair_keys] app_threshold(2) by (auto simp: ab(1,2))
  qed
  have vals: "map_of (sensor_values (valid_state_of r (app_valid_state_of ?by valid))) name = Some (reading name)"
    if v: "set valid \<subseteq> set ?es" "\<forall>e \<in> set valid. ?k e = None" "length valid \<in> {2, 3}" and n: "name \<in> set consensus_sensors" for r valid name
  proof -
    have "se_value (entry_of (owner_of ?by e) name) = reading name" if e: "e \<in> set valid" for e
    proof -
      obtain a where "owner_of ?by e = owner_state_of (shifted None a)" "sensor_value a name = Inr (reading name)"
        using state [of e] v(1,2) n e by force
      then show ?thesis using entry_values(1) by (simp add: shifted_def)
    qed
    then have "map (\<lambda>e. se_value (entry_of (owner_of ?by e) name)) valid = replicate (length valid) (reading name)"
      by (simp add: map_replicate_const [symmetric])
    then show ?thesis using app_mean_of_copies [OF v(3)] readings [OF n] unfolding app_value [OF n] by metis
  qed
  have st: "ap_final_status (committed_package ?ri cd) = (if cd_valid_state cd = None then FAILED_CONSENSUS else SUCCESS)"
    "ap_valid_state (committed_package ?ri cd) = map_option (valid_state_of (ri_round_identity ?ri)) (cd_valid_state cd)"
    by (simp_all add: committed_package_def Let_def)
  note faults = scenario_faults [OF fe]
  have "(ap_final_status (committed_package ?ri cd) = SUCCESS \<longleftrightarrow> demo_fault_mode c \<noteq> ''quorum_loss'') \<and>
     (\<forall>v. ap_valid_state (committed_package ?ri cd) = Some v \<longrightarrow>
        (\<forall>name \<in> set consensus_sensors. map_of (sensor_values v) name = Some (reading name)))"
  proof -
    consider (none) "demo_fault_mode c = ''none''" | (single) "demo_fault_mode c = ''single_edge_exclusion''"
      | (quorum) "demo_fault_mode c = ''quorum_loss''" using mode by auto
    then show ?thesis
    proof cases
      case none
      have "filter (\<lambda>e. 1 \<le> app_support table ?es e) ?es = ?es"
        using near faults(1) [OF none] by (simp add: app_support_def)
      then have "cd_valid_state cd = Some (app_valid_state_of ?by ?es)" by (simp add: t(2))
      then show ?thesis using vals [of ?es] faults(1) [OF none] none by (auto simp: st)
    next
      case single
      have "filter (\<lambda>e. 1 \<le> app_support table ?es e) ?es = [''edge-1'', ''edge-2'']"
        using near [of "''edge-1''" "''edge-2''"] near [of "''edge-2''" "''edge-1''"] far [of "''edge-3''"] faults(2) [OF single]
        by (simp add: app_support_def)
      then have "cd_valid_state cd = Some (app_valid_state_of ?by [''edge-1'', ''edge-2''])" by (simp add: t(2))
      then show ?thesis using vals [of "[''edge-1'', ''edge-2'']"] faults(2) [OF single] single by (auto simp: st)
    next
      case quorum
      have "filter (\<lambda>e. 1 \<le> app_support table ?es e) ?es = []"
        using far faults(3) [OF quorum] by (simp add: app_support_def)
      then have "cd_valid_state cd = None" by (simp add: t(2))
      then show ?thesis using quorum by (simp add: st)
    qed
  qed
  then show ?thesis
    using parts(1) exact(1) committed_settles [OF parts(1) e] by (simp add: decided_round_def)
qed

end
