(* ===== verification/LiveArtifacts.thy ===== *)
theory LiveArtifacts
  imports ScenarioRounds Lifecycle
begin

text \<open>
  The artifacts of the live runtime in its store. What the persistence stage writes, the
  dataset builder can read, so datasets can be built at any time from a store whose artifacts
  the runtime wrote.
\<close>

section \<open>Readable artifacts\<close>

definition readable :: "pyval \<Rightarrow> bool" where
  "readable a = ((\<exists>ok reason. evaluate_training_eligibility a = Inr (ok, reason)) \<and>
     (\<exists>ok reason. evaluate_inference_eligibility a = Inr (ok, reason)) \<and>
     (\<exists>names vec. extract_feature_vector a = Inr (names, vec)) \<and> (\<forall>key vec. \<exists>r. read_eligible key a vec = Inr r))"

definition live_artifacts :: "(string \<Rightarrow> blob option) \<Rightarrow> bool" where
  "live_artifacts c = (\<forall>key b. starts_with VALID_ARTIFACT_PREFIX key \<and> c key = Some b \<longrightarrow> (\<exists>a. b = Json a \<and> readable a))"

lemma artifact_key_prefix: "starts_with VALID_ARTIFACT_PREFIX (artifact_key_of rid)"
  by (simp add: VALID_ARTIFACT_PREFIX_def artifact_key_of_def starts_with_def)

lemma live_artifacts_update: "live_artifacts c \<Longrightarrow> readable a \<Longrightarrow> live_artifacts (c(key \<mapsto> Json a))"
  by (simp add: live_artifacts_def)

lemma live_artifacts_cong:
  "live_artifacts c \<Longrightarrow> (\<And>key. starts_with VALID_ARTIFACT_PREFIX key \<Longrightarrow> c' key = c key) \<Longrightarrow> live_artifacts c'"
  unfolding live_artifacts_def by metis

lemma live_artifacts_empty: "live_artifacts Map.empty"
  by (simp add: live_artifacts_def)

lemma scan_readable:
  assumes "readable a" "eligibility \<in> {evaluate_training_eligibility, evaluate_inference_eligibility}"
  shows "\<exists>st'. scan_artifact eligibility key a st = Inr st'"
proof -
  obtain recs skipped schema where st: "st = (recs, skipped, schema)" by (cases st)
  obtain ok reason where "eligibility a = Inr (ok, reason)" using assms by (auto simp: readable_def)
  moreover obtain names vec where "extract_feature_vector a = Inr (names, vec)" using assms(1) by (auto simp: readable_def)
  moreover obtain r where "read_eligible key a vec = Inr r" using assms(1) by (auto simp: readable_def)
  ultimately show ?thesis by (simp add: scan_artifact_def st)
qed

lemma scan_all_readable:
  assumes "\<forall>key \<in> set keys. \<exists>a. op_load_json ops key s = Inr a \<and> readable a"
    and "eligibility \<in> {evaluate_training_eligibility, evaluate_inference_eligibility}"
  shows "\<exists>st'. scan_artifacts ops eligibility s keys st = Inr st'"
  using assms(1)
proof (induction keys arbitrary: st)
  case (Cons key keys)
  then obtain a where a: "op_load_json ops key s = Inr a" "readable a" by auto
  obtain st1 where st1: "scan_artifact eligibility key a st = Inr st1" using scan_readable [OF a(2) assms(2)] by blast
  obtain st' where "scan_artifacts ops eligibility s keys st1 = Inr st'" using Cons.IH [of st1] Cons.prems by auto
  then show ?case by (intro exI [of _ st']) (simp add: a(1) st1)
next
  case Nil
  show ?case by (rule exI) (rule scan_artifacts.simps(1))
qed

lemma artifact_source_admitted: "validate_fixture_consumer_source ''dataset_root'' VALID_ARTIFACT_PREFIX = []"
  by code_simp

context artifact_store
begin

lemma windows_total:
  assumes "live_artifacts (contents s)" "0 < k"
    and "eligibility \<in> {evaluate_training_eligibility, evaluate_inference_eligibility}"
  shows "\<exists>ws m. build_windows_from_artifacts ops k VALID_ARTIFACT_PREFIX eligibility label s = Inr (ws, m)"
proof -
  have "ends_with ''/'' VALID_ARTIFACT_PREFIX" by (simp add: ends_with_def VALID_ARTIFACT_PREFIX_def)
  then obtain keys where keys: "op_list_json_objects ops VALID_ARTIFACT_PREFIX s = Inr keys"
    "set keys = json_under VALID_ARTIFACT_PREFIX (contents s)"
    using list_json by blast
  have "\<exists>a. op_load_json ops key s = Inr a \<and> readable a" if "key \<in> set keys" for key
  proof -
    from that have "starts_with VALID_ARTIFACT_PREFIX key" "contents s key \<noteq> None"
      by (auto simp: keys(2) json_under_def)
    moreover from this obtain b where "contents s key = Some b" by blast
    ultimately obtain a where "contents s key = Some (Json a)" "readable a"
      using assms(1) unfolding live_artifacts_def by blast
    then show ?thesis using load_json by blast
  qed
  then have "\<forall>key \<in> set keys. \<exists>a. op_load_json ops key s = Inr a \<and> readable a" by (rule ballI)
  from scan_all_readable [OF this assms(3)]
  obtain st' where "scan_artifacts ops eligibility s keys ([], [], []) = Inr st'" ..
  then obtain recs skipped schema where scan: "scan_artifacts ops eligibility s keys ([], [], []) = Inr (recs, skipped, schema)"
    by (cases st') simp
  have k: "\<not> k \<le> 0" using assms(2) by simp
  show ?thesis
    unfolding build_windows_from_artifacts_def artifact_source_admitted keys(1) list.case attempt_Inr scan prod.case Let_def if_not_P [OF k]
    by (rule exI, rule exI, rule refl)
qed

end

section \<open>What is persisted is readable\<close>

lemma persisted_readable:
  assumes "exact_sensors ri" "settles ri pkg"
    and "persist_valid_consensus_artifact ops pkg st out alert (Some (dataset_context_of l t e rs camp)) now s = Inr (r, s')"
  shows "readable (artifact_record_to_dict r)"
proof -
  note truthy = context_fields(2)
  obtain v snapshot quorum where r: "r = build_record pkg v st out alert (dataset_context_of l t e rs camp) now snapshot quorum"
    by (rule persisted_fields [OF assms(3) truthy])
  have id: "sub (artifact_record_to_dict r) ''round_identity'' = Inr (round_identity_dict (vs_round_identity v))"
    by (simp add: r artifact_record_to_dict_def build_record_def Let_def)
  have "\<exists>x. read_eligible key (artifact_record_to_dict r) vec = Inr x" for key vec
    by (simp add: read_eligible_def id record_sections(4) [OF r] round_identity_dict_def dataset_context_of_def)
  moreover obtain names vec where "extract_feature_vector (artifact_record_to_dict r) = Inr (names, vec)"
    using persisted_features [OF assms truthy] by blast
  ultimately show ?thesis unfolding readable_def persisted_eligibility [OF assms(3)] by auto
qed

end
