(* ===== verification/Pipeline.thy ===== *)
theory Pipeline
  imports ReplayBehavior LiveArtifacts
begin

text \<open>
  One whole cycle of the live runtime, \<open>scripts/run_local_demo.py\<close>: collection, consensus on
  the ledger, supervisory comparison, persistence, and the fingerprint stages behind the
  gates. The clients a cycle works with are fields of a record; what they keep is the state
  of the cycle. Sleeping between steps has no effect on it.
\<close>

section \<open>Lifecycle reports without a lifecycle\<close>

definition lifecycle_report :: "int \<Rightarrow> int \<Rightarrow> int \<Rightarrow> int \<Rightarrow> int \<Rightarrow> string option \<Rightarrow> string \<Rightarrow> string \<Rightarrow> string \<Rightarrow> string option
    \<Rightarrow> string option \<Rightarrow> lifecycle_stage" where
  "lifecycle_report cycle artifacts eligible threshold windows latest model_status event inference metadata note =
     \<lparr>ls_cycle_index = cycle, ls_valid_artifact_count = artifacts, ls_eligible_history_count = eligible,
      ls_eligible_history_threshold = threshold, ls_window_count = windows, ls_latest_valid_artifact_key = latest,
      ls_model_status = model_status, ls_training_events = [event], ls_inference_status = inference,
      ls_inference_result_count = 0, ls_dataset_manifest_object_key = None, ls_model_metadata_object_key = metadata,
      ls_source_dataset_validation_level = None, ls_limitation_note = note\<rparr>"

definition build_lifecycle_error_stage :: "int \<Rightarrow> runtime_config \<Rightarrow> string option \<Rightarrow> py_error \<Rightarrow> lifecycle_stage" where
  "build_lifecycle_error_stage cycle c artifact_key e =
     lifecycle_report cycle 0 0 (demo_train_after_eligible_cycles c) 0 artifact_key ''error'' ''deferred''
       (''error:'' @ error_text e) None (Some (error_text e))"

definition build_lifecycle_blocked_stage ::
  "'s store_ops \<Rightarrow> int \<Rightarrow> runtime_config \<Rightarrow> string \<Rightarrow> string \<Rightarrow> 's \<Rightarrow> lifecycle_stage res" where
  "build_lifecycle_blocked_stage ops cycle c reason_code operator_message s =
     attempt (op_list_json_objects ops VALID_ARTIFACT_PREFIX s) (\<lambda>keys.
     attempt (build_normal_training_windows ops (demo_fingerprint_sequence_length c) VALID_ARTIFACT_PREFIX s) (\<lambda>(_, m).
     attempt (latest_model_metadata_key ops s) (\<lambda>latest.
       Inr (lifecycle_report cycle (int (length keys)) (dm_eligible_record_count m) (demo_train_after_eligible_cycles c)
         (dm_window_count m) (last_key keys) (if latest \<noteq> None then ''model_available'' else ''no_model_yet'') ''blocked''
         (''blocked:'' @ reason_code) latest (Some operator_message)))))"

definition build_runtime_autoencoder_disabled_stage ::
  "'s store_ops \<Rightarrow> int \<Rightarrow> runtime_config \<Rightarrow> string option \<Rightarrow> 's \<Rightarrow> lifecycle_stage res" where
  "build_runtime_autoencoder_disabled_stage ops cycle c artifact_key s =
     attempt (op_list_json_objects ops VALID_ARTIFACT_PREFIX s) (\<lambda>keys.
     attempt (build_normal_training_windows ops (demo_fingerprint_sequence_length c) VALID_ARTIFACT_PREFIX s) (\<lambda>(_, m).
       Inr (lifecycle_report cycle (int (length keys)) (dm_eligible_record_count m) (demo_train_after_eligible_cycles c)
         (dm_window_count m) (if artifact_key = None \<or> artifact_key = Some [] then last_key keys else artifact_key)
         ''runtime_autoencoder_disabled'' ''runtime_autoencoder_disabled'' ''skipped_runtime_autoencoder_disabled'' None
         (Some (''Runtime autoencoder was explicitly disabled for a transport-only ''
           @ ''diagnostic. This run cannot produce a custom fingerprint result.'')))))"

section \<open>The fingerprint pipeline\<close>

text \<open>\<open>try: \<dots> except Exception\<close>: the store keeps what was written before the exception.\<close>

definition catching :: "('s, 'a) act \<Rightarrow> ('s, py_error + 'a) act" where
  "catching f s = (case f s of (r, s') \<Rightarrow> (Inr r, s'))"

fun set_entry :: "string \<Rightarrow> pyval \<Rightarrow> pyval \<Rightarrow> pyval" where
  "set_entry k v (PDict d) = PDict (AList.update k v d)"
| "set_entry k v x = x"

definition stage_key :: "pyval \<Rightarrow> string option" where
  "stage_key stage = (case pget stage ''artifact_key'' of Inr (PStr k) \<Rightarrow> Some k | _ \<Rightarrow> None)"

text \<open>The clock readings of the stages: datasets, training or evaluation, replay dataset.\<close>

type_synonym stage_clock = "datetime \<times> datetime \<times> datetime"

record fingerprint_report =
  fr_stage :: lifecycle_stage
  fr_inference :: "inference_result list"
  fr_replay :: "replay_behavior_result option"
  fr_replay_inference :: "inference_result list"
  fr_comparison_stage :: pyval

definition report_only :: "pyval \<Rightarrow> lifecycle_stage \<Rightarrow> fingerprint_report" where
  "report_only comparison st = \<lparr>fr_stage = st, fr_inference = [], fr_replay = None, fr_replay_inference = [],
     fr_comparison_stage = comparison\<rparr>"

definition execute_fingerprint_pipeline_for_cycle ::
  "'s store_ops \<Rightarrow> numpy option \<Rightarrow> 'm keras \<Rightarrow> int \<Rightarrow> runtime_config \<Rightarrow> scada_state option \<Rightarrow> comparison_output option \<Rightarrow> pyval
     \<Rightarrow> pyval \<Rightarrow> replay_stage \<Rightarrow> round_summary \<Rightarrow> stage_clock \<Rightarrow> ('s, fingerprint_report) act" where
  "execute_fingerprint_pipeline_for_cycle ops np kr cycle c st out comparison persistence rp summary clock =
     (let k = demo_fingerprint_sequence_length c; (t1, t2, t3) = clock in
      case downstream_block_reason comparison persistence of
        Some (reason, msg) \<Rightarrow> bind_act (reading (build_lifecycle_blocked_stage ops cycle c reason msg)) (\<lambda>stage.
          ret (report_only comparison stage))
      | None \<Rightarrow>
        if demo_disable_runtime_autoencoder c
        then bind_act (reading (build_runtime_autoencoder_disabled_stage ops cycle c (stage_key persistence))) (\<lambda>stage.
          ret (report_only comparison stage))
        else bind_act (catching (execute_deferred_fingerprint_lifecycle ops np kr cycle k (demo_train_after_eligible_cycles c) t1 t2))
          (\<lambda>lifecycle. case lifecycle of
            Inl e \<Rightarrow> ret (report_only comparison (build_lifecycle_error_stage cycle c (stage_key persistence) e))
          | Inr (stage, results) \<Rightarrow>
            bind_act (catching (case (st, out) of
                (Some state, Some output) \<Rightarrow> run_scada_replay_behavior_detection ops np kr (sm_round_id summary)
                  (status_value (final_consensus_status summary)) state output rp k DEFAULT_REPLAY_THRESHOLD_STDDEV_MULTIPLIER t3
              | _ \<Rightarrow> ret (None, []))) (\<lambda>replay. ret \<lparr>fr_stage = stage, fr_inference = results,
                fr_replay = (case replay of Inl _ \<Rightarrow> None | Inr (b, _) \<Rightarrow> b),
                fr_replay_inference = (case replay of Inl _ \<Rightarrow> [] | Inr (_, rs) \<Rightarrow> rs),
                fr_comparison_stage = (case replay of Inl e \<Rightarrow> set_entry ''replay_behavior_error'' (PStr (error_text e)) comparison
                  | Inr _ \<Rightarrow> comparison)\<rparr>)))"

section \<open>The cycle\<close>

record commit_receipt =
  cm_round_id :: string
  cm_height :: int
  cm_tx_hash :: string
  cm_check_tx_code :: int
  cm_deliver_tx_code :: int

text \<open>The ledger client, the other clients and clocks, and the state the cycle works on.\<close>

record 'l ledger_client =
  lc_status :: "('l, pyval) act"
  lc_broadcast_round :: "consensus_round_input \<Rightarrow> ('l, commit_receipt) act"
  lc_query_committed_round :: "string \<Rightarrow> ('l, pyval) act"

record ('s, 'l, 'm) runtime_env =
  en_store :: "'s store_ops"
  en_minio :: minio_store_config
  en_numpy :: "numpy option"
  en_keras :: "'m keras"
  en_ledger :: "'l ledger_client"
  en_rng :: "nat \<Rightarrow> flt"
  en_clock :: "nat \<Rightarrow> datetime"
  en_persisted_at :: "int \<Rightarrow> datetime"
  en_stage_clock :: "int \<Rightarrow> stage_clock"

record ('s, 'l) runtime =
  ru_live :: live_state
  ru_service :: scada_service
  ru_store :: 's
  ru_ledger :: 'l

definition on_store :: "('s, 'a) act \<Rightarrow> (('s, 'l) runtime, 'a) act" where
  "on_store f r = (case f (ru_store r) of (x, s') \<Rightarrow> (x, r\<lparr>ru_store := s'\<rparr>))"

definition on_ledger :: "('l, 'a) act \<Rightarrow> (('s, 'l) runtime, 'a) act" where
  "on_ledger f r = (case f (ru_ledger r) of (x, l') \<Rightarrow> (x, r\<lparr>ru_ledger := l'\<rparr>))"

text \<open>A step that leaves the state as it was when it raises.\<close>

definition updating :: "('r \<Rightarrow> ('a \<times> 'r) res) \<Rightarrow> ('r, 'a) act" where
  "updating f r = (case f r of Inl e \<Rightarrow> (Inl e, r) | Inr (x, r') \<Rightarrow> (Inr x, r'))"

record cycle_result =
  cy_cycle_index :: int
  cy_simulator_snapshot :: "simulation_snapshot option"
  cy_node_status :: pyval
  cy_commit_receipt :: commit_receipt
  cy_committed_round :: pyval
  cy_consensus_summary :: round_summary
  cy_consensus_log :: round_log
  cy_consensus_alert :: "consensus_alert option"
  cy_outcome :: cycle_outcome
  cy_fault_edges :: "string list"
  cy_scenario_control_stage :: scenario_stage
  cy_scada_replay_stage :: replay_stage
  cy_fingerprint :: fingerprint_report

text \<open>The steps of the cycle that touch the live state, the supervisory service and the store.\<close>

definition collect_cycle :: "('s, 'l, 'm) runtime_env \<Rightarrow> runtime_config \<Rightarrow> (('s, 'l) runtime, simulation_snapshot option) act" where
  "collect_cycle env c = updating (\<lambda>r.
     attempt (collect_steps (en_rng env) (en_clock env) (mqtt_topic c) (demo_power c) (nat (demo_steps c)) None (ru_live r))
       (\<lambda>(snap, lv). Inr (snap, r\<lparr>ru_live := lv\<rparr>)))"

definition configure_cycle :: "runtime_config \<Rightarrow> int \<Rightarrow> (('s, 'l) runtime, replay_stage) act" where
  "configure_cycle c cycle = updating (\<lambda>r. attempt (configure_scada_replay_runtime_stage c cycle (ru_service r))
     (\<lambda>(rp, sv). Inr (rp, r\<lparr>ru_service := sv\<rparr>)))"

definition compare_and_persist ::
  "('s, 'l, 'm) runtime_env \<Rightarrow> int \<Rightarrow> audit_package \<Rightarrow> string \<Rightarrow> scenario_stage \<Rightarrow> replay_stage \<Rightarrow> string
     \<Rightarrow> (('s, 'l) runtime, cycle_outcome) act" where
  "compare_and_persist env cycle p fault_mode scenario rp campaign = updating (\<lambda>r.
     attempt (run_scada_comparison_and_persistence (en_store env) (en_minio env) p (Some (ru_service r)) fault_mode
       (Some scenario) (Some rp) campaign (en_persisted_at env cycle) (ru_store r)) (\<lambda>(oc, sv, s).
     Inr (oc, r\<lparr>ru_service := (case sv of None \<Rightarrow> ru_service r | Some x \<Rightarrow> x), ru_store := s\<rparr>)))"

definition execute_demo_cycle ::
  "('s, 'l, 'm) runtime_env \<Rightarrow> int \<Rightarrow> runtime_config \<Rightarrow> (('s, 'l) runtime, cycle_result) act" where
  "execute_demo_cycle env cycle c =
     bind_act (reading (\<lambda>_. resolve_runtime_scenario_control_stage c cycle)) (\<lambda>scenario.
     let cc = apply_runtime_scenario_control c scenario; ledger = en_ledger env in
     bind_act (collect_cycle env c) (\<lambda>snap.
     bind_act (reading (\<lambda>r. build_consensus_round_input (nw_edges (lv_network (ru_live r))))) (\<lambda>ri0.
     bind_act (reading (\<lambda>_. inject_faults ri0 cc)) (\<lambda>ri.
     bind_act (on_ledger (lc_status ledger)) (\<lambda>status.
     bind_act (on_ledger (lc_broadcast_round ledger ri)) (\<lambda>receipt.
     bind_act (on_ledger (lc_query_committed_round ledger (cm_round_id receipt))) (\<lambda>committed.
     bind_act (reading (\<lambda>_. committed_round_to_audit_package ri committed)) (\<lambda>p.
     bind_act (reading (\<lambda>_. build_round_summary p)) (\<lambda>summary.
     bind_act (reading (\<lambda>_. build_consensus_alert p (build_round_log p))) (\<lambda>alert.
     bind_act (configure_cycle cc cycle) (\<lambda>rp.
     bind_act (compare_and_persist env cycle p (demo_fault_mode cc) scenario rp (demo_campaign_id c)) (\<lambda>oc.
     bind_act (on_store (execute_fingerprint_pipeline_for_cycle (en_store env) (en_numpy env) (en_keras env) cycle c
         (oc_scada_state oc) (oc_comparison_output oc) (oc_comparison_stage oc) (oc_persistence_stage oc) rp summary
         (en_stage_clock env cycle))) (\<lambda>fp.
     ret \<lparr>cy_cycle_index = cycle, cy_simulator_snapshot = snap, cy_node_status = status, cy_commit_receipt = receipt,
       cy_committed_round = committed, cy_consensus_summary = summary, cy_consensus_log = build_round_log p,
       cy_consensus_alert = alert, cy_outcome = oc\<lparr>oc_comparison_stage := fr_comparison_stage fp\<rparr>,
       cy_fault_edges = resolve_faulty_edges cc (ri_participating_edges ri), cy_scenario_control_stage = scenario,
       cy_scada_replay_stage = rp, cy_fingerprint = fp\<rparr>)))))))))))))"

end
