(* ===== verification/CycleLaws.thy ===== *)
theory CycleLaws
  imports Pipeline
begin

text \<open>
  The laws of the two halves of a cycle, \<open>Pipeline\<close>: what comparison and persistence do under
  each scenario, and what the fingerprint stages may touch.
\<close>

section \<open>The downstream half under a scenario\<close>

definition scada_mode_of :: "string \<Rightarrow> string" where
  "scada_mode_of scenario = (if scenario = ''scada_replay'' then ''replay'' else if scenario = ''scada_freeze'' then ''freeze''
     else if scenario = ''scada_divergence'' then ''offset'' else ''match'')"

definition fault_mode_of :: "string \<Rightarrow> string" where
  "fault_mode_of scenario = (if scenario \<in> {''single_edge_exclusion'', ''quorum_loss''} then scenario else ''none'')"

lemma resolved_modes:
  assumes "resolve_runtime_scenario_control_stage c i = Inr stage"
  shows "sg_fault_mode stage = fault_mode_of (active_scenario stage) \<and> sg_scada_mode stage = scada_mode_of (active_scenario stage)"
  using assms
  by (auto simp: resolve_runtime_scenario_control_stage_def attempt_eq_Inr Let_def normal_stage_def fault_stage_def
      fault_mode_of_def scada_mode_of_def split: if_splits)

lemma applied_modes:
  assumes "resolve_runtime_scenario_control_stage c i = Inr stage"
  shows "demo_fault_mode (apply_runtime_scenario_control c stage) = fault_mode_of (active_scenario stage)"
    "demo_scada_mode (apply_runtime_scenario_control c stage) = scada_mode_of (active_scenario stage)"
    "demo_faulty_edges (apply_runtime_scenario_control c stage) = demo_faulty_edges c"
  using resolved_modes [OF assms] by (simp_all add: apply_runtime_scenario_control_def)

lemma run_cases:
  assumes "run_scada_comparison_and_persistence ops mc pkg service fm sc rp camp now s = Inr (oc, sv', s')"
  obtains (blocked) summary meta where "build_minio_runtime_metadata mc = Inr meta" "ap_valid_state pkg = None" "oc = consensus_blocked_outcome summary meta" "sv' = service" "s' = s"
  | (compared) out st alert meta stage where "build_minio_runtime_metadata mc = Inr meta" "oc = \<lparr>oc_scada_state = Some st, oc_comparison_stage = comparison_stage_of out,
        oc_comparison_output = Some out, oc_scada_alert = alert, oc_persistence_stage = stage\<rparr>"
      "build_scada_divergence_alert out = Inr alert"
      "divergent_sensors out \<noteq> [] \<and> stage = divergence_blocked_stage meta out \<and> s' = s \<or>
       divergent_sensors out = [] \<and> (\<exists>r. persist_valid_consensus_artifact ops pkg st out alert
         (Some (build_dataset_context fm out sc rp camp)) now s = Inr (r, s') \<and> stage = persisted_stage meta (ms_bucket mc) r) \<or>
       divergent_sensors out = [] \<and> (\<exists>e. stage = persistence_error_stage meta e) \<and> s' = s"
proof -
  obtain meta summary where m: "build_minio_runtime_metadata mc = Inr meta" "build_round_summary pkg = Inr summary"
    using assms by (auto simp: run_scada_comparison_and_persistence_def attempt_eq_Inr)
  show ?thesis
  proof (cases "ap_valid_state pkg")
    case None
    show ?thesis by (rule blocked [OF m(1) None]) (use assms None m in \<open>auto simp: run_scada_comparison_and_persistence_def\<close>)
  next
    case (Some v)
    let ?sv = "case service of Some x \<Rightarrow> x | None \<Rightarrow> init_service ''compressor-1''"
    obtain source st sv1 result alert where c: "select_scada_source_state (replicated_states (ap_round_input pkg)) (source_edges v) = Inr source"
      "update_from_consensused_state v (Some source) ?sv = Inr (st, sv1)"
      "compare_consensused_to_scada (Some v) st None (Some (build_scada_contextual_evidence st)) = Inr result"
      "build_scada_divergence_alert (build_scada_comparison_output result) = Inr alert"
      using assms by (auto simp: run_scada_comparison_and_persistence_def m Some attempt_eq_Inr Let_def)
    let ?out = "build_scada_comparison_output result"
    let ?p = "persist_valid_consensus_artifact ops pkg st ?out alert (Some (build_dataset_context fm ?out sc rp camp)) now s"
    note run = assms [unfolded run_scada_comparison_and_persistence_def m Some option.case attempt_Inr Let_def c prod.case]
    consider "divergent_sensors ?out \<noteq> []" | e where "divergent_sensors ?out = []" "?p = Inl e"
      | r s1 where "divergent_sensors ?out = []" "?p = Inr (r, s1)"
      by (cases ?p) auto
    then show ?thesis
    proof cases
      case 1
      with run show ?thesis by (intro compared [OF m(1) _ c(4), where stage = "divergence_blocked_stage meta ?out"]) auto
    next
      case (2 e)
      with run show ?thesis by (intro compared [OF m(1) _ c(4), where stage = "persistence_error_stage meta e"]) auto
    next
      case (3 r s1)
      with run show ?thesis by (intro compared [OF m(1) _ c(4), where stage = "persisted_stage meta (ms_bucket mc) r"]) auto
    qed
  qed
qed

text \<open>The report of a cycle names its gate: downstream stages are open exactly for persisted cycles.\<close>

lemma gate_open:
  assumes "run_scada_comparison_and_persistence ops mc pkg service fm sc rp camp now s = Inr (oc, sv', s')"
  shows "downstream_block_reason (oc_comparison_stage oc) (oc_persistence_stage oc) = None \<longleftrightarrow> is_persisted oc"
  using assms
proof (cases rule: run_cases)
  case (blocked summary meta)
  then show ?thesis
    by (simp add: downstream_block_reason_def consensus_blocked_outcome_def is_persisted_def Let_def)
next
  case (compared out st alert meta stage)
  have "divergent_sensors out = [] \<or> pget stage ''status'' \<noteq> Inr (PStr ''persisted'')"
    using compared(4) by (auto simp: divergence_blocked_stage_def)
  then show ?thesis
    by (auto simp: compared(2) downstream_block_reason_def stage_permission is_persisted_def)
qed

text \<open>Unless the scenario is the divergence one, a successful round of plausible readings raises no alert.\<close>

lemma scenario_agrees:
  assumes "resolve_runtime_scenario_control_stage c i = Inr stage" "active_scenario stage \<noteq> ''scada_divergence''"
    and "configure_scada_replay_runtime_stage (apply_runtime_scenario_control c stage) i sv0 = Inr (rp, sv)"
    and "complete_input ri" "exact_sensors ri" "settles ri pkg"
    and "ap_valid_state pkg = Some v" "\<forall>(n, x) \<in> set (sensor_values v). plausible_reading x"
    and "run_scada_comparison_and_persistence ops mc pkg (Some sv) fm sc rp' camp now s = Inr (oc, sv', s')"
  shows "oc_scada_alert oc = None"
proof -
  let ?c = "apply_runtime_scenario_control c stage"
  note p = settled_input [OF assms(6)]
  have succ: "ap_final_status pkg = SUCCESS" using settled_success [OF assms(6)] assms(7) by simp
  note cfg = configured_inv [OF assms(3)]
  obtain v' source st sv1 r alert where c: "ap_valid_state pkg = Some v'"
    "select_scada_source_state (replicated_states ri) (source_edges v') = Inr source"
    "scada_ready v' (Some source) sv" "update_from_consensused_state v' (Some source) sv = Inr (st, sv1)"
    "compare_consensused_to_scada (Some v') st None (Some (build_scada_contextual_evidence st)) = Inr r"
    "build_scada_divergence_alert (build_scada_comparison_output r) = Inr alert"
    by (rule comparison_steps [OF assms(5,6) succ cfg(1)])
  have v': "v' = v" using c(1) assms(7) by simp
  have "demo_scada_mode ?c \<noteq> ''offset''"
    using assms(2) by (simp add: applied_modes(2) [OF assms(1)] scada_mode_of_def)
  then have "rp_mode rp \<noteq> ''offset''"
    using configure_stage_spec [of ?c i sv0] assms(3) by auto
  then have "\<exists>ov. map_of (sv_overrides sv) n = Some ov \<and> ov_mode ov \<noteq> ''offset'' \<and> ov_fixed_value ov = None"
    if "n \<in> set SUPPORTED_SCADA_SENSORS" for n
    using cfg(4) [OF that] by (auto simp: stage_override_def default_override_def)
  then obtain st0 sv2 r0 where n: "update_from_consensused_state v (Some source) sv = Inr (st0, sv2)"
    "compare_consensused_to_scada (Some v) st0 None None = Inr r0"
    "build_scada_divergence_alert (build_scada_comparison_output r0) = Inr None"
    using present_values_never_alert [OF c(3) [unfolded v'] cfg(2) _ assms(8)] by blast
  have "divergent_sensors (build_scada_comparison_output r) = divergent_sensors (build_scada_comparison_output r0)"
    using divergent_context [OF c(5)] n(1,2) c(4) by (auto simp: v')
  also have "\<dots> = []" using alert_iff_divergent [OF n(3)] by simp
  finally have d: "divergent_sensors (build_scada_comparison_output r) = []" .
  have alert: "alert = None" using alert_iff_divergent [OF c(6)] d by simp
  obtain meta where m: "build_minio_runtime_metadata mc = Inr meta"
    using assms(9) by (auto simp: run_scada_comparison_and_persistence_def attempt_eq_Inr)
  obtain sm where sm: "build_round_summary pkg = Inr sm" using summary_total [OF assms(4,6)] ..
  show ?thesis
    using assms(9) [unfolded run_scada_comparison_and_persistence_def m sm c(1) option.case attempt_Inr Let_def p c prod.case]
    by (auto simp: d alert split: sum.splits)
qed

lemma decided_plausible:
  assumes "decided_round mode measured ri pkg" "ap_valid_state pkg = Some v"
    and "\<And>name. name \<in> set consensus_sensors \<Longrightarrow> \<exists>y. measured name = py_round 3 y \<and> \<bar>y\<bar> \<le> 5000"
  shows "\<forall>(n, x) \<in> set (sensor_values v). plausible_reading x"
proof -
  have s: "settles ri pkg" "\<forall>name \<in> set consensus_sensors. map_of (sensor_values v) name = Some (measured name)"
    using assms(1,2) by (simp_all add: decided_round_def)
  note keys = settled_state(2,3) [OF s(1) assms(2)]
  have "plausible_reading x" if x: "(n, x) \<in> set (sensor_values v)" for n x
  proof -
    have "n \<in> set (map fst (sensor_values v))" using x by force
    then have n: "n \<in> set consensus_sensors" by (simp only: keys(1))
    have "map_of (sensor_values v) n = Some x" using x keys(2) by simp
    then have "x = measured n" using s(2) n by simp
    moreover obtain y where y: "measured n = py_round 3 y" "\<bar>y\<bar> \<le> 5000" using assms(3) [OF n] by blast
    moreover have "\<bar>py_round 3 y - y\<bar> \<le> 1 / 1600" by (rule py_round3_err) (use y(2) in simp)
    moreover have "(2::rat) ^ 30 = 1073741824" by simp
    ultimately show ?thesis unfolding plausible_reading_def by linarith
  qed
  then show ?thesis by auto
qed

text \<open>What one cycle leaves in the store, by scenario.\<close>

definition offset_caught :: "runtime_config \<Rightarrow> bool" where
  "offset_caught c = (3 \<le> \<bar>demo_scada_offset_value c\<bar> \<and> \<bar>demo_scada_offset_value c\<bar> \<le> 1000000)"

lemma downstream_half:
  assumes store: "artifact_store ops contents" and mc: "build_minio_runtime_metadata mc = Inr meta"
    and stage: "resolve_runtime_scenario_control_stage c i = Inr stage"
    and cfg: "configure_scada_replay_runtime_stage (apply_runtime_scenario_control c stage) i sv0 = Inr (rp, sv)"
    and round: "decided_round (fault_mode_of (active_scenario stage)) measured ri pkg"
    and readings: "\<And>name. name \<in> set consensus_sensors \<Longrightarrow> \<exists>y. measured name = py_round 3 y \<and> \<bar>y\<bar> \<le> 5000"
    and offset: "active_scenario stage = ''scada_divergence'' \<longrightarrow> offset_caught c"
  obtains oc sv' s' where "run_scada_comparison_and_persistence ops mc pkg (Some sv)
      (demo_fault_mode (apply_runtime_scenario_control c stage)) (Some stage) (Some rp) camp now s = Inr (oc, Some sv', s')"
    "downstream_block_reason (oc_comparison_stage oc) (oc_persistence_stage oc) = None \<longleftrightarrow> is_persisted oc"
    "is_persisted oc \<longleftrightarrow> active_scenario stage \<notin> {''quorum_loss'', ''scada_divergence''}"
    "\<not> is_persisted oc \<longrightarrow> s' = s"
    "is_persisted oc \<longrightarrow> (\<exists>a reason. readable a \<and> evaluate_training_eligibility a = Inr (active_scenario stage = ''normal'', reason) \<and>
       contents s' = (contents s)(artifact_key_of (round_id (ri_round_identity ri)) \<mapsto> Json a))"
proof -
  let ?c = "apply_runtime_scenario_control c stage" and ?a = "active_scenario stage"
  have ri: "complete_input ri" "exact_sensors ri" "settles ri pkg"
      "ap_final_status pkg = SUCCESS \<longleftrightarrow> fault_mode_of ?a \<noteq> ''quorum_loss''"
    using round by (simp_all add: decided_round_def)
  obtain oc sv' s' where r: "run_scada_comparison_and_persistence ops mc pkg (Some sv) (demo_fault_mode ?c) (Some stage) (Some rp)
      camp now s = Inr (oc, Some sv', s')"
    "is_persisted oc \<longleftrightarrow> ap_final_status pkg = SUCCESS \<and> oc_scada_alert oc = None"
    "if is_persisted oc
     then \<exists>out r. oc_comparison_output oc = Some out \<and> divergent_sensors out = [] \<and>
       ar_artifact_key r = artifact_key_of (round_id (ri_round_identity ri)) \<and>
       ar_dataset_context r = build_dataset_context (demo_fault_mode ?c) out (Some stage) (Some rp) camp \<and>
       contents s' = (contents s)(ar_artifact_key r \<mapsto> Json (artifact_record_to_dict r)) \<and>
       (\<exists>st alert. oc_scada_state oc = Some st \<and> oc_persistence_stage oc = persisted_stage meta (ms_bucket mc) r \<and>
          oc_comparison_stage oc = comparison_stage_of out \<and>
          persist_valid_consensus_artifact ops pkg st out alert
            (Some (build_dataset_context (demo_fault_mode ?c) out (Some stage) (Some rp) camp)) now s = Inr (r, s'))
     else s' = s"
    using cycle_spec [OF store mc ri(1-3) configured_inv(1) [OF cfg], of "demo_fault_mode ?c" "Some stage" "Some rp" camp now s]
    by (elim exE conjE) (rule that)
  have valid: "\<exists>v. ap_valid_state pkg = Some v \<and> (\<forall>(n, x) \<in> set (sensor_values v). plausible_reading x)" if "ap_final_status pkg = SUCCESS"
    using settled_success [OF ri(3)] that decided_plausible [OF round _ readings] by blast
  have persisted: "is_persisted oc \<longleftrightarrow> ?a \<notin> {''quorum_loss'', ''scada_divergence''}"
  proof (cases "?a = ''quorum_loss''")
    case True
    then show ?thesis using r(2) ri(4) by (simp add: fault_mode_of_def)
  next
    case False
    then have s: "ap_final_status pkg = SUCCESS" using ri(4) by (auto simp: fault_mode_of_def)
    from valid [OF this] obtain v where v: "ap_valid_state pkg = Some v" "\<forall>(n, x) \<in> set (sensor_values v). plausible_reading x"
      by (elim exE conjE)
    show ?thesis
    proof (cases "?a = ''scada_divergence''")
      case True
      then have off: "3 \<le> \<bar>demo_scada_offset_value c\<bar>" "\<bar>demo_scada_offset_value c\<bar> \<le> 1000000"
        using offset by (simp_all add: offset_caught_def)
      obtain oc2 sv2 where "run_scada_comparison_and_persistence ops mc pkg (Some sv) (demo_fault_mode ?c) (Some stage) (Some rp) camp now s =
          Inr (oc2, Some sv2, s)" "\<not> is_persisted oc2"
        using divergence_blocks [OF stage True cfg off mc ri(1-3) v, of ops "demo_fault_mode ?c" "Some stage" camp now s]
        by (elim exE conjE) (rule that)
      then show ?thesis using r(1) True by simp
    next
      case no: False
      have "oc_scada_alert oc = None"
        by (rule scenario_agrees [OF stage no cfg ri(1-3) v r(1)])
      then show ?thesis using r(2) s False no by simp
    qed
  qed
  have stored: "\<exists>a reason. readable a \<and> evaluate_training_eligibility a = Inr (?a = ''normal'', reason) \<and>
       contents s' = (contents s)(artifact_key_of (round_id (ri_round_identity ri)) \<mapsto> Json a)" if p: "is_persisted oc"
  proof -
    obtain out rec st alert where o: "divergent_sensors out = []" "ar_artifact_key rec = artifact_key_of (round_id (ri_round_identity ri))"
      "contents s' = (contents s)(ar_artifact_key rec \<mapsto> Json (artifact_record_to_dict rec))"
      "persist_valid_consensus_artifact ops pkg st out alert
        (Some (build_dataset_context (demo_fault_mode ?c) out (Some stage) (Some rp) camp)) now s = Inr (rec, s')"
      using r(3) p by auto
    obtain l t e rs where ctx: "build_dataset_context (demo_fault_mode ?c) out (Some stage) (Some rp) camp = dataset_context_of l t e rs camp"
      "(t = ''normal'' \<and> e) = (?a = ''normal'')"
      using live_context [OF stage cfg, of out camp] o(1) by (cases "?a = ''normal''") auto
    note w = o(4) [unfolded ctx(1)]
    have "\<exists>reason. evaluate_training_eligibility (artifact_record_to_dict rec) = Inr (?a = ''normal'', reason)"
      unfolding ctx(2) [symmetric] persisted_eligibility(1) [OF w] o(1) by simp
    then show ?thesis using persisted_readable [OF ri(2,3) w] o(2,3) by auto
  qed
  show ?thesis
    by (rule that [OF r(1) gate_open [OF r(1)] persisted]) (use r(3) stored in auto)
qed

section \<open>The fingerprint stages\<close>

text \<open>At most one model, and it is complete: what every step of the runtime keeps of the registry.\<close>

definition registry_sound :: "'m keras \<Rightarrow> (string \<Rightarrow> blob option) \<Rightarrow> bool" where
  "registry_sound kr c = (models c = {} \<or> (\<exists>key. models c = {key} \<and> model_complete kr c key))"

lemma registry_written:
  "registry_sound kr c \<Longrightarrow> dataset_written c c' ident \<Longrightarrow> starts_with DATASET_PREFIX ident \<Longrightarrow> registry_sound kr c'"
  unfolding registry_sound_def using models_written model_complete_dataset by metis

lemma catching_eq: "catching f s = (Inr r, s') \<longleftrightarrow> f s = (r, s')"
  by (cases "f s") (auto simp: catching_def)

lemma bind_catching: "bind_act (catching f) g s = (case f s of (r, s') \<Rightarrow> g r s')"
  by (cases "f s") (simp add: bind_act_def catching_def)

text \<open>What the stages keep of a store: the artifacts, and a sound registry with its models.\<close>

definition stages_keep :: "'m keras \<Rightarrow> (string \<Rightarrow> blob option) \<Rightarrow> (string \<Rightarrow> blob option) \<Rightarrow> bool" where
  "stages_keep kr c c' = ((\<forall>key. starts_with VALID_ARTIFACT_PREFIX key \<longrightarrow> c' key = c key) \<and>
     (registry_sound kr c \<longrightarrow> registry_sound kr c') \<and> (models c \<noteq> {} \<longrightarrow> models c' = models c))"

lemma stages_keep_refl: "stages_keep kr c c"
  by (simp add: stages_keep_def)

lemma stages_keep_trans: "stages_keep kr c c' \<Longrightarrow> stages_keep kr c' c'' \<Longrightarrow> stages_keep kr c c''"
  by (simp add: stages_keep_def)

context artifact_store
begin

lemma registry_artifact:
  assumes "registry_sound kr (contents s)" "starts_with VALID_ARTIFACT_PREFIX key"
  shows "registry_sound kr ((contents s)(key \<mapsto> b))"
proof -
  have c: "((contents s)(key \<mapsto> b)) k = contents s k" if "starts_with MODEL_METADATA_PREFIX k \<or> starts_with DATASET_PREFIX k" for k
    using that assms(2) prefixes(2,3) by auto
  then have "models ((contents s)(key \<mapsto> b)) = models (contents s)" by (intro models_cong) simp
  then show ?thesis
    using assms(1) c model_complete_cong [of kr "contents s" _ "(contents s)(key \<mapsto> b)"] unfolding registry_sound_def by (metis (full_types))
qed

lemma registry_cycle:
  assumes "execute_deferred_fingerprint_lifecycle ops np kr cycle k threshold now1 now2 s = (r, s')" "registry_sound kr (contents s)"
  shows "registry_sound kr (contents s')"
  using cycle_registry [OF assms(1)] assms(2) unfolding registry_sound_def by (elim disjE exE conjE) auto

lemma detection_written:
  assumes "run_scada_replay_behavior_detection ops np kr rid final st out rp k multiplier now s = (r, s')"
  shows "s' = s \<or> (\<exists>ident. starts_with DATASET_PREFIX ident \<and> dataset_written (contents s) (contents s') ident)"
proof (cases "\<not> rp_active rp \<or> rp_mode rp \<notin> {''replay'', ''freeze''}")
  case False
  show ?thesis
  proof (cases "persist_scada_replay_inference_dataset ops np rid st rp k now s")
    case (Pair r1 s1)
    have "s' = s \<or> s' = s1"
      using assms False Pair
      by (auto simp: run_scada_replay_behavior_detection_def bind_act_def reading_def ret_def split: sum.splits option.splits list.splits)
    moreover have "s1 = s \<or> (\<exists>u. dataset_written (contents s) (contents s1) (DATASET_PREFIX @ u))"
    proof (cases "replay_window_of ops rid st rp k s")
      case (Inr wm)
      obtain w m where "wm = (w, m)" by (cases wm)
      with Inr Pair have "persist_default ops np [w] m now DATASET_PREFIX s = (r1, s1)"
        by (simp add: persist_scada_replay_inference_dataset_def bind_reading)
      then have "dataset_written (contents s) (contents s1) (DATASET_PREFIX @ dm_dataset_id m)"
        unfolding persist_default_def by (rule persist_written)
      then show ?thesis by blast
    qed (use Pair in \<open>simp add: persist_scada_replay_inference_dataset_def bind_reading\<close>)
    moreover have "starts_with DATASET_PREFIX (DATASET_PREFIX @ u)" for u by simp
    ultimately show ?thesis by metis
  qed
qed (use assms in \<open>auto simp: run_scada_replay_behavior_detection_def ret_def\<close>)

lemma lifecycle_keeps:
  assumes "execute_deferred_fingerprint_lifecycle ops np kr cycle k threshold now1 now2 s = (r, s')"
  shows "stages_keep kr (contents s) (contents s')"
  using cycle_keeps_artifacts [OF assms] registry_cycle [OF assms] cycle_registry [OF assms] by (auto simp: stages_keep_def)

lemma detection_keeps:
  assumes "run_scada_replay_behavior_detection ops np kr rid final st out rp k multiplier now s = (r, s')"
  shows "stages_keep kr (contents s) (contents s')"
proof -
  consider "s' = s" | ident where "starts_with DATASET_PREFIX ident" "dataset_written (contents s) (contents s') ident"
    using detection_written [OF assms] by blast
  then show ?thesis
  proof cases
    case (2 ident)
    note elsewhere = written_elsewhere [OF 2(2,1)] and models = models_written [OF 2(2,1)]
    show ?thesis
      using elsewhere models registry_written [OF _ 2(2,1), of kr] prefixes(2) by (simp add: stages_keep_def)
  qed (simp add: stages_keep_refl)
qed

lemma pipeline_closed:
  assumes "live_artifacts (contents s)" "0 < demo_fingerprint_sequence_length c"
    and "downstream_block_reason comparison persistence \<noteq> None \<or> demo_disable_runtime_autoencoder c"
  shows "\<exists>stage. execute_fingerprint_pipeline_for_cycle ops np kr cycle c st out comparison persistence rp summary clock s =
    (Inr (report_only comparison stage), s)"
proof -
  let ?k = "demo_fingerprint_sequence_length c"
  have "ends_with ''/'' VALID_ARTIFACT_PREFIX" "ends_with ''/'' MODEL_METADATA_PREFIX"
    by (simp_all add: ends_with_def VALID_ARTIFACT_PREFIX_def MODEL_METADATA_PREFIX_def)
  then obtain keys ks where l: "op_list_json_objects ops VALID_ARTIFACT_PREFIX s = Inr keys"
    "op_list_json_objects ops MODEL_METADATA_PREFIX s = Inr ks"
    using list_json by blast
  obtain ws m where w: "build_normal_training_windows ops ?k VALID_ARTIFACT_PREFIX s = Inr (ws, m)"
    using windows_total [OF assms(1,2) insertI1, of "''normal''"] by (elim exE) (rule that, simp only: build_normal_training_windows_def)
  obtain t1 t2 t3 where clock: "clock = (t1, t2, t3)" by (cases clock)
  show ?thesis
  proof (cases "downstream_block_reason comparison persistence")
    case None
    have "\<exists>stage. build_runtime_autoencoder_disabled_stage ops cycle c (stage_key persistence) s = Inr stage"
      unfolding build_runtime_autoencoder_disabled_stage_def l w attempt_Inr prod.case by (rule exI, rule refl)
    then obtain stage where "build_runtime_autoencoder_disabled_stage ops cycle c (stage_key persistence) s = Inr stage" ..
    then show ?thesis
      using assms(3) None
      by (intro exI [of _ stage]) (simp add: execute_fingerprint_pipeline_for_cycle_def clock bind_reading ret_def Let_def)
  next
    case (Some b)
    obtain reason msg where "b = (reason, msg)" by (cases b)
    moreover have "\<exists>stage. build_lifecycle_blocked_stage ops cycle c reason msg s = Inr stage"
      unfolding build_lifecycle_blocked_stage_def latest_model_metadata_key_def l w attempt_Inr prod.case by (rule exI, rule refl)
    then obtain stage where "build_lifecycle_blocked_stage ops cycle c reason msg s = Inr stage" ..
    ultimately show ?thesis
      using Some by (intro exI [of _ stage]) (simp add: execute_fingerprint_pipeline_for_cycle_def clock bind_reading ret_def Let_def)
  qed
qed

lemma pipeline_total:
  assumes "live_artifacts (contents s)" "0 < demo_fingerprint_sequence_length c"
  obtains rep s' where "execute_fingerprint_pipeline_for_cycle ops np kr cycle c st out comparison persistence rp summary clock s = (Inr rep, s')"
    "stages_keep kr (contents s) (contents s')"
    "downstream_block_reason comparison persistence \<noteq> None \<longrightarrow> s' = s \<and> fr_inference rep = [] \<and> fr_replay rep = None"
    "fr_comparison_stage rep = comparison \<or> (\<exists>e. fr_comparison_stage rep = set_entry ''replay_behavior_error'' e comparison)"
proof (cases "downstream_block_reason comparison persistence \<noteq> None \<or> demo_disable_runtime_autoencoder c")
  case True
  from pipeline_closed [OF assms True] obtain stage where
    "execute_fingerprint_pipeline_for_cycle ops np kr cycle c st out comparison persistence rp summary clock s =
      (Inr (report_only comparison stage), s)" ..
  then show ?thesis by (rule that) (simp_all add: stages_keep_refl report_only_def)
next
  case False
  obtain t1 t2 t3 where clock: "clock = (t1, t2, t3)" by (cases clock)
  let ?k = "demo_fingerprint_sequence_length c"
  let ?l = "execute_deferred_fingerprint_lifecycle ops np kr cycle ?k (demo_train_after_eligible_cycles c) t1 t2"
  let ?d = "case (st, out) of (Some state, Some output) \<Rightarrow> run_scada_replay_behavior_detection ops np kr (sm_round_id summary)
      (status_value (final_consensus_status summary)) state output rp ?k DEFAULT_REPLAY_THRESHOLD_STDDEV_MULTIPLIER t3
    | _ \<Rightarrow> ret (None, [])"
  obtain r1 s1 where l: "?l s = (r1, s1)" by fastforce
  obtain r2 s2 where d: "?d s1 = (r2, s2)" by fastforce
  have keep2: "stages_keep kr (contents s1) (contents s2)"
    using d detection_keeps stages_keep_refl by (auto simp: ret_def split: option.splits)
  note keep1 = lifecycle_keeps [OF l]
  have none: "downstream_block_reason comparison persistence = None" "\<not> demo_disable_runtime_autoencoder c" using False by blast+
  show ?thesis
  proof (cases r1)
    case (Inl e)
    have "execute_fingerprint_pipeline_for_cycle ops np kr cycle c st out comparison persistence rp summary clock s =
        (Inr (report_only comparison (build_lifecycle_error_stage cycle c (stage_key persistence) e)), s1)"
      using none l by (simp add: execute_fingerprint_pipeline_for_cycle_def clock bind_catching Inl ret_def Let_def)
    then show ?thesis by (rule that [OF _ keep1]) (simp_all add: none report_only_def)
  next
    case (Inr x)
    obtain stage results where x: "x = (stage, results)" by (cases x)
    have "\<exists>rep. execute_fingerprint_pipeline_for_cycle ops np kr cycle c st out comparison persistence rp summary clock s = (Inr rep, s2) \<and>
        (fr_comparison_stage rep = comparison \<or> (\<exists>e. fr_comparison_stage rep = set_entry ''replay_behavior_error'' e comparison))"
      using none l d
      by (simp add: execute_fingerprint_pipeline_for_cycle_def clock bind_catching Inr x ret_def Let_def del: prod.case split: sum.split)
        blast
    then obtain rep where "execute_fingerprint_pipeline_for_cycle ops np kr cycle c st out comparison persistence rp summary clock s = (Inr rep, s2)"
      "fr_comparison_stage rep = comparison \<or> (\<exists>e. fr_comparison_stage rep = set_entry ''replay_behavior_error'' e comparison)" by (elim exE conjE)
    then show ?thesis by (intro that [OF _ stages_keep_trans [OF keep1 keep2]]) (simp_all add: none)
  qed
qed

end

section \<open>Properties\<close>

text \<open>
  C7. The fingerprint works behind the gate, and what goes wrong in it stays there. After the
  comparison and persistence of a cycle, on a store whose artifacts the runtime wrote, the
  fingerprint stages always return a report, whatever numpy, keras or a stored object make them
  raise; no artifact is touched, the registry stays sound and a listed model stays listed.
  Unless the cycle was persisted they do not run at all: no verdict, and the store is untouched.
\<close>

theorem stages_behind_the_gate:
  assumes "artifact_store ops contents" "live_artifacts (contents s1)" "0 < demo_fingerprint_sequence_length c"
    and "run_scada_comparison_and_persistence ops mc pkg service fm sc rp camp now s = Inr (oc, sv', s1)"
  shows "\<exists>rep s2. execute_fingerprint_pipeline_for_cycle ops np kr cycle c (oc_scada_state oc) (oc_comparison_output oc)
      (oc_comparison_stage oc) (oc_persistence_stage oc) stage summary clock s1 = (Inr rep, s2) \<and>
    (\<forall>key. starts_with VALID_ARTIFACT_PREFIX key \<longrightarrow> contents s2 key = contents s1 key) \<and>
    (registry_sound kr (contents s1) \<longrightarrow> registry_sound kr (contents s2)) \<and>
    (models (contents s1) \<noteq> {} \<longrightarrow> models (contents s2) = models (contents s1)) \<and>
    (\<not> is_persisted oc \<longrightarrow> s2 = s1 \<and> fr_inference rep = [] \<and> fr_replay rep = None)"
proof -
  obtain rep s2 where p: "execute_fingerprint_pipeline_for_cycle ops np kr cycle c (oc_scada_state oc) (oc_comparison_output oc)
      (oc_comparison_stage oc) (oc_persistence_stage oc) stage summary clock s1 = (Inr rep, s2)"
    "stages_keep kr (contents s1) (contents s2)"
    "downstream_block_reason (oc_comparison_stage oc) (oc_persistence_stage oc) \<noteq> None \<longrightarrow> s2 = s1 \<and> fr_inference rep = [] \<and> fr_replay rep = None"
    by (rule artifact_store.pipeline_total [OF assms(1-3)]) (rule that)
  then show ?thesis
    using gate_open [OF assms(4)] unfolding stages_keep_def by (intro exI [of _ rep] exI [of _ s2]) blast
qed

theorem stages_behind_the_gate_witness:
  "\<exists>pkg oc sv' rep summary. run_scada_comparison_and_persistence (local_ops ''b'') local_minio pkg None ''none'' None None [] sample_time [] =
      Inr (oc, sv', []) \<and> \<not> is_persisted oc \<and>
    execute_fingerprint_pipeline_for_cycle (local_ops ''b'') None sample_keras 1 default_config (oc_scada_state oc) (oc_comparison_output oc)
      (oc_comparison_stage oc) (oc_persistence_stage oc) replay_active summary (sample_time, sample_time, sample_time) [] = (Inr rep, []) \<and>
    fr_inference rep = []"
proof -
  obtain pkg where e: "evaluate agreeing_input = Inr pkg" using agreeing_input_valid by blast
  have "complete_input agreeing_input" by (simp add: agreeing_input_def sample_input_complete)
  from summary_total [OF this evaluate_settles [OF complete_wf [OF this] e]] obtain sm where sm: "build_round_summary pkg = Inr sm" ..
  let ?p = "pkg\<lparr>ap_valid_state := None\<rparr>"
  obtain sm' where sm': "build_round_summary ?p = Inr sm'"
    using sm by (auto simp: build_round_summary_def Let_def attempt_eq_Inr)
  let ?oc = "consensus_blocked_outcome sm' [(''backend'', PStr ''minio''), (''endpoint'', PStr ''localhost:9000''),
    (''host'', PStr ''localhost''), (''port'', PInt 9000), (''secure'', PBool False), (''bucket'', PStr ''artifacts'')]"
  have run: "run_scada_comparison_and_persistence (local_ops ''b'') local_minio ?p None ''none'' None None [] sample_time [] = Inr (?oc, None, [])"
    by (simp add: run_scada_comparison_and_persistence_def local_minio_metadata sm')
  have not: "\<not> is_persisted ?oc" by (simp add: is_persisted_def consensus_blocked_outcome_def Let_def)
  have live: "live_artifacts (map_of [])" by (simp add: live_artifacts_def)
  have k: "0 < demo_fingerprint_sequence_length default_config" by (simp add: default_config_def)
  from stages_behind_the_gate [OF local_store.artifact_store_axioms [of "''b''"] live k run, of None sample_keras 1 replay_active sm'
      "(sample_time, sample_time, sample_time)"] not
  obtain rep s2 where "execute_fingerprint_pipeline_for_cycle (local_ops ''b'') None sample_keras 1 default_config (oc_scada_state ?oc)
      (oc_comparison_output ?oc) (oc_comparison_stage ?oc) (oc_persistence_stage ?oc) replay_active sm'
      (sample_time, sample_time, sample_time) [] = (Inr rep, s2)" "s2 = [] \<and> fr_inference rep = [] \<and> fr_replay rep = None"
    by blast
  with run not show ?thesis
    by (intro exI [of _ ?p] exI [of _ ?oc] exI [of _ None] exI [of _ rep] exI [of _ sm']) blast
qed

end
