(* ===== verification/CycleReport.thy ===== *)
theory CycleReport
  imports CycleLaws
begin

text \<open>
  The reports of \<open>scripts/run_local_demo.py\<close>: the log payload of a cycle, its entry in the
  cycle history, the runtime envelope around them, and the lines printed for the operator.
  Stages are dictionaries, so a report fails when it reads a key that is not there.
\<close>

section \<open>Compact lines\<close>

text \<open>\<open>f"{stage[k]}"\<close>, and \<open>f"{stage.get(k, d)}"\<close>.\<close>

definition shown :: "string \<Rightarrow> pyval \<Rightarrow> string res" where
  "shown k stage = attempt (sub stage k) (\<lambda>v. Inr (py_str v))"

definition shown_or :: "string \<Rightarrow> string \<Rightarrow> pyval \<Rightarrow> string res" where
  "shown_or k dflt stage = attempt (pget_or stage k (PStr dflt)) (\<lambda>v. Inr (py_str v))"

definition lower_bool :: "bool \<Rightarrow> string" where
  "lower_bool b = (if b then ''true'' else ''false'')"

text \<open>\<open>s or 'none'\<close> of an optional string.\<close>

definition or_none :: "string option \<Rightarrow> string" where
  "or_none s = (case s of None \<Rightarrow> ''none'' | Some t \<Rightarrow> if t = [] then ''none'' else t)"

definition format_edge_summary :: "edge_service \<Rightarrow> string" where
  "format_edge_summary e = (let r = ed_runtime e; v = ed_observations e in
     edge_id e @ '': published='' @ str_of_int (rt_published_observation_count r)
     @ '' consumed='' @ str_of_int (rt_peer_observation_count r)
     @ '' complete='' @ py_repr (PBool (list_all (\<lambda>s. s \<in> fst ` set v) [''temperature'', ''pressure'', ''rpm'']))
     @ '' validated='' @ py_repr (PBool False)
     @ '' view['' @ join '', '' (map (\<lambda>(name, p). name @ ''='' @ flt_repr (pv_value (pd_pv (hp_process_data p)))) (sorted_items v)) @ '']'')"

definition format_comparison_stage_compact :: "pyval \<Rightarrow> string res" where
  "format_comparison_stage_compact stage = attempt (sub stage ''status'') (\<lambda>status.
     if status = PStr ''blocked'' then
       attempt (shown_or ''blocked_by_stage'' ''comparison'' stage) (\<lambda>by. attempt (shown ''reason'' stage) (\<lambda>reason.
         Inr (''comparison=blocked stage='' @ by @ '' reason='' @ reason)))
     else if status = PStr ''blocked_downstream'' then
       attempt (pget stage ''divergent_sensors'') (\<lambda>d.
       attempt (if truthy d then attempt (as_list d) (mapM as_str) else Inr []) (\<lambda>names.
       attempt (shown_or ''reason'' ''unknown'' stage) (\<lambda>reason.
         Inr (''comparison=completed downstream=blocked reason='' @ reason @ '' divergent[''
           @ (let text = join '','' names in if text = [] then ''none'' else text) @ '']''))))
     else attempt (sub stage ''compact'') as_str)"

text \<open>\<open>str(stage['secure']).lower()\<close>.\<close>

definition store_text :: "pyval \<Rightarrow> string res" where
  "store_text stage = attempt (shown ''backend'' stage) (\<lambda>backend. attempt (shown ''endpoint'' stage) (\<lambda>endpoint.
     attempt (shown ''secure'' stage) (\<lambda>secure. attempt (shown ''bucket'' stage) (\<lambda>bucket.
       Inr ('' backend='' @ backend @ '' endpoint='' @ endpoint @ '' secure='' @ map lower_char secure @ '' bucket='' @ bucket)))))"

definition format_persistence_stage_compact :: "pyval \<Rightarrow> string res" where
  "format_persistence_stage_compact stage = attempt (sub stage ''status'') (\<lambda>status.
     attempt (store_text stage) (\<lambda>text.
     if status = PStr ''blocked'' then
       attempt (shown_or ''blocked_by_stage'' ''persistence'' stage) (\<lambda>by. attempt (shown ''reason'' stage) (\<lambda>reason.
         Inr (''persistence=blocked'' @ text @ '' stage='' @ by @ '' reason='' @ reason)))
     else if status = PStr ''error'' then
       attempt (shown ''reason'' stage) (\<lambda>reason. Inr (''persistence=error'' @ text @ '' reason='' @ reason))
     else attempt (shown ''artifact_key'' stage) (\<lambda>key. attempt (shown ''artifact_uri'' stage) (\<lambda>uri.
       Inr (''persistence='' @ py_str status @ text @ '' artifact_key='' @ key @ '' artifact_uri='' @ uri)))))"

definition build_cadence_stage :: "int \<Rightarrow> flt \<Rightarrow> flt \<Rightarrow> flt \<Rightarrow> bool \<Rightarrow> pyval" where
  "build_cadence_stage cycle interval elapsed next_sleep continue = PDict [(''cycle_index'', PInt cycle),
     (''status'', PStr (if continue \<and> next_sleep = 0 then ''continuing_without_sleep''
        else if continue then ''sleeping_until_next_cycle'' else ''cycle_complete'')),
     (''configured_interval_seconds'', PFloat (py_round 3 interval)), (''elapsed_seconds'', PFloat (py_round 3 elapsed)),
     (''next_sleep_seconds'', PFloat (py_round 3 next_sleep)), (''will_continue'', PBool continue)]"

definition format_cadence_stage_compact :: "pyval \<Rightarrow> string res" where
  "format_cadence_stage_compact stage = attempt (shown ''cycle_index'' stage) (\<lambda>cycle. attempt (shown ''status'' stage) (\<lambda>status.
     attempt (shown ''configured_interval_seconds'' stage) (\<lambda>interval. attempt (shown ''elapsed_seconds'' stage) (\<lambda>elapsed.
     attempt (shown ''next_sleep_seconds'' stage) (\<lambda>next_sleep.
       Inr (''cycle='' @ cycle @ '' cadence='' @ status @ '' interval_seconds='' @ interval @ '' elapsed_seconds='' @ elapsed
         @ '' next_sleep_seconds='' @ next_sleep))))))"

definition format_scenario_control_compact :: "scenario_stage \<Rightarrow> string" where
  "format_scenario_control_compact s = ''scenario=active='' @ lower_bool (sg_active s) @ '' configured='' @ configured_scenario s
     @ '' current='' @ active_scenario s @ '' start_cycle='' @ str_of_int (sg_start_cycle s)
     @ '' training_eligible='' @ lower_bool (sg_training_eligible s)
     @ '' expected_outputs='' @ join '','' (expected_output_channels s)"

definition format_fingerprint_lifecycle_compact :: "lifecycle_stage \<Rightarrow> string" where
  "format_fingerprint_lifecycle_compact s = (let part = (\<lambda>k v. case v of None \<Rightarrow> [] | Some t \<Rightarrow> [k @ ''='' @ t]) in
     join '' '' ([''fingerprint=model_status='' @ ls_model_status s, ''training='' @ join ''+'' (ls_training_events s),
       ''inference='' @ ls_inference_status s, ''valid_artifacts='' @ str_of_int (ls_valid_artifact_count s),
       ''eligible_history='' @ str_of_int (ls_eligible_history_count s) @ ''/'' @ str_of_int (ls_eligible_history_threshold s),
       ''windows='' @ str_of_int (ls_window_count s), ''latest_artifact='' @ or_none (ls_latest_valid_artifact_key s)]
       @ part ''dataset_manifest'' (ls_dataset_manifest_object_key s)
       @ part ''model_metadata'' (ls_model_metadata_object_key s)
       @ part ''validation_level'' (ls_source_dataset_validation_level s)))"

definition format_inference_results_compact :: "inference_result list \<Rightarrow> string" where
  "format_inference_results_compact rs = (case rs of [] \<Rightarrow> ''fingerprint_inference=none'' | r # _ \<Rightarrow>
     ''fingerprint_inference=completed results='' @ str_of_nat (length rs)
     @ '' classification='' @ classification_value (ir_classification r)
     @ '' score='' @ flt_repr (py_round 6 (ir_anomaly_score r))
     @ '' threshold='' @ flt_repr (py_round 6 (ir_classification_threshold r))
     @ '' validation_level='' @ ir_source_dataset_validation_level r)"

definition format_scada_runtime_scenario_compact :: "replay_stage \<Rightarrow> string" where
  "format_scada_runtime_scenario_compact s = ''scada_runtime=active='' @ lower_bool (rp_active s) @ '' mode='' @ rp_mode s
     @ '' start_cycle='' @ str_of_int (rp_start_cycle s) @ '' replay_source_round_id='' @ or_none (rp_replay_source_round_id s)"

definition format_replay_behavior_compact :: "replay_behavior_result option \<Rightarrow> string" where
  "format_replay_behavior_compact b = (case b of None \<Rightarrow> ''replay_behavior=none'' | Some r \<Rightarrow>
     ''replay_behavior=completed mode='' @ rb_scenario_mode r @ '' classification='' @ classification_value (rb_classification r)
     @ '' score='' @ flt_repr (py_round 6 (rb_anomaly_score r))
     @ '' threshold='' @ flt_repr (py_round 6 (rb_classification_threshold r))
     @ '' replay_source_round_id='' @ or_none (rb_replay_source_round_id r))"

section \<open>Log payloads\<close>

definition opt_dict :: "('a \<Rightarrow> pyval) \<Rightarrow> 'a option \<Rightarrow> pyval" where
  "opt_dict f x = (case x of None \<Rightarrow> PNone | Some y \<Rightarrow> f y)"

text \<open>\<open>status["node_info"]["version"]\<close> and \<open>status["sync_info"]["latest_block_height"]\<close>.\<close>

definition node_version :: "pyval \<Rightarrow> pyval res" where
  "node_version status = attempt (sub status ''node_info'') (\<lambda>i. sub i ''version'')"

definition node_height :: "pyval \<Rightarrow> pyval res" where
  "node_height status = attempt (sub status ''sync_info'') (\<lambda>i. sub i ''latest_block_height'')"

definition edge_log_entry :: "edge_service \<Rightarrow> pyval" where
  "edge_log_entry e = PDict [(''edge_id'', PStr (edge_id e)), (''summary'', PStr (format_edge_summary e)),
     (''runtime_state'', runtime_state e), (''replicated_state'', local_replicated_state e),
     (''observation_flow'', PList (rt_observation_flow_log (ed_runtime e)))]"

definition build_detailed_log_payload :: "runtime_config \<Rightarrow> cycle_result \<Rightarrow> pyval \<Rightarrow> edge_service list \<Rightarrow> pyval res" where
  "build_detailed_log_payload c cy cadence edges =
     attempt (node_version (cy_node_status cy)) (\<lambda>version. attempt (node_height (cy_node_status cy)) (\<lambda>height.
     let i = cy_cycle_index cy; oc = cy_outcome cy; fp = cy_fingerprint cy; receipt = cy_commit_receipt cy in
     Inr (PDict [
       (''demo'', PDict [(''cycle_index'', PInt i), (''mqtt_transport'', PStr (mqtt_transport c)), (''mqtt_topic'', PStr (mqtt_topic c)),
          (''fault_mode'', PStr (demo_fault_mode c)), (''faulty_edges'', PList (map PStr (cy_fault_edges cy))),
          (''log_path'', PStr (demo_log_path c)), (''cycle_interval_seconds'', PFloat (demo_cycle_interval_seconds c)),
          (''train_after_eligible_cycles'', PInt (demo_train_after_eligible_cycles c)),
          (''fingerprint_sequence_length'', PInt (demo_fingerprint_sequence_length c)),
          (''scenario_name'', PStr (demo_scenario_name c)), (''scenario_start_cycle'', PInt (demo_scenario_start_cycle c)),
          (''scada_mode'', PStr (demo_scada_mode c)), (''scada_start_cycle'', PInt (demo_scada_start_cycle c))]),
       (''runtime_cycle'', PDict [(''current_cycle'', PInt i), (''cadence_stage'', cadence)]),
       (''simulator_snapshot'', opt_dict snapshot_to_dict (cy_simulator_snapshot cy)),
       (''scenario_control'', scenario_stage_to_dict (cy_scenario_control_stage cy)),
       (''scada_runtime_scenario'', replay_stage_to_dict (cy_scada_replay_stage cy)),
       (''fingerprint_lifecycle'', lifecycle_stage_to_dict (fr_stage fp)),
       (''fingerprint_inference_results'', PList (map inference_result_to_dict (fr_inference fp))),
       (''replay_behavior'', opt_dict replay_behavior_to_dict (fr_replay fp)),
       (''replay_inference_results'', PList (map inference_result_to_dict (fr_replay_inference fp))),
       (''cometbft'', PDict [(''node_version'', version), (''latest_block_height'', height),
          (''committed_height'', PInt (cm_height receipt)), (''tx_hash'', PStr (cm_tx_hash receipt)),
          (''check_tx_code'', PInt (cm_check_tx_code receipt)), (''deliver_tx_code'', PInt (cm_deliver_tx_code receipt))]),
       (''consensus_summary'', round_summary_to_dict (cy_consensus_summary cy)),
       (''committed_round_state'', cy_committed_round cy),
       (''consensus_log'', PDict [(''compact'', PStr (format_round_log_compact (cy_consensus_log cy))),
          (''detailed'', PStr (format_round_log_detailed (cy_consensus_log cy))),
          (''structured'', round_log_to_dict (cy_consensus_log cy))]),
       (''consensus_alert'', PDict [(''compact'', PStr (format_consensus_alert_compact (cy_consensus_alert cy))),
          (''detailed'', PStr (format_consensus_alert_detailed (cy_consensus_alert cy))),
          (''structured'', opt_dict consensus_alert_to_dict (cy_consensus_alert cy))]),
       (''scada_state'', opt_dict scada_state_to_dict (oc_scada_state oc)),
       (''comparison_stage'', oc_comparison_stage oc),
       (''comparison_output'', PDict [
          (''compact'', opt_dict (\<lambda>out. PStr (format_scada_comparison_output_compact out)) (oc_comparison_output oc)),
          (''structured'', opt_dict comparison_output_to_dict (oc_comparison_output oc))]),
       (''scada_divergence_alert'', PDict [(''compact'', PStr (format_scada_alert_compact (oc_scada_alert oc))),
          (''detailed'', PStr (format_scada_alert_detailed (oc_scada_alert oc))),
          (''structured'', opt_dict scada_alert_to_dict (oc_scada_alert oc))]),
       (''persistence_stage'', oc_persistence_stage oc),
       (''edges'', PList (map edge_log_entry edges))])))"

definition build_cycle_history_entry :: "cycle_result \<Rightarrow> pyval \<Rightarrow> pyval res" where
  "build_cycle_history_entry cy cadence = (let stage = oc_persistence_stage (cy_outcome cy); fp = cy_fingerprint cy in
     attempt (sub stage ''status'') (\<lambda>status. attempt (pget stage ''artifact_key'') (\<lambda>key.
     Inr (PDict [(''cycle_index'', PInt (cy_cycle_index cy)), (''round_id'', PStr (sm_round_id (cy_consensus_summary cy))),
       (''final_consensus_status'', PStr (status_value (final_consensus_status (cy_consensus_summary cy)))),
       (''persistence_status'', status), (''artifact_key'', key), (''cadence_stage'', cadence),
       (''scenario_control'', scenario_stage_to_dict (cy_scenario_control_stage cy)),
       (''scada_runtime_scenario'', replay_stage_to_dict (cy_scada_replay_stage cy)),
       (''fingerprint_lifecycle'', lifecycle_stage_to_dict (fr_stage fp)),
       (''fingerprint_inference_results'', PList (map inference_result_to_dict (fr_inference fp))),
       (''replay_behavior'', opt_dict replay_behavior_to_dict (fr_replay fp))]))))"

definition build_runtime_log_payload :: "runtime_config \<Rightarrow> string \<Rightarrow> pyval list \<Rightarrow> pyval option \<Rightarrow> pyval res" where
  "build_runtime_log_payload c status history latest =
     attempt (case latest of None \<Rightarrow> Inr (PDict []) | Some p \<Rightarrow> pget_or p ''fingerprint_lifecycle'' (PDict [])) (\<lambda>stage.
     attempt (if history = [] then Inr (PInt 0) else sub (last history) ''cycle_index'') (\<lambda>current.
     attempt (pget stage ''model_status'') (\<lambda>model. attempt (pget_or stage ''training_events'' (PList [])) (\<lambda>events.
     attempt (pget stage ''valid_artifact_count'') (\<lambda>artifacts. attempt (pget stage ''eligible_history_count'') (\<lambda>eligible.
     attempt (pget stage ''window_count'') (\<lambda>windows.
     Inr (PDict [(''runtime'', PDict [(''status'', PStr status), (''completed_cycles'', PInt (int (length history))),
          (''current_cycle'', current), (''cycle_interval_seconds'', PFloat (demo_cycle_interval_seconds c)),
          (''max_cycles'', PInt (demo_max_cycles c)), (''configured_power_pct'', PFloat (demo_power c)),
          (''train_after_eligible_cycles'', PInt (demo_train_after_eligible_cycles c)),
          (''fingerprint_sequence_length'', PInt (demo_fingerprint_sequence_length c)), (''model_status'', model),
          (''training_events'', events), (''latest_valid_artifact_count'', artifacts),
          (''latest_eligible_history_count'', eligible), (''latest_window_count'', windows)]),
       (''scenario_control'', PDict [
          (''configured_scenario'', if demo_scenario_name c = [] then PNone else PStr (demo_scenario_name c)),
          (''scenario_start_cycle'', PInt (demo_scenario_start_cycle c))]),
       (''cycle_history'', PList history), (''latest_cycle'', case latest of None \<Rightarrow> PNone | Some p \<Rightarrow> p)]))))))))"

text \<open>The printed report, line by line.\<close>

definition print_cycle_report :: "cycle_result \<Rightarrow> pyval \<Rightarrow> edge_service list \<Rightarrow> string \<Rightarrow> string list res" where
  "print_cycle_report cy cadence edges log_path =
     attempt (node_version (cy_node_status cy)) (\<lambda>version. attempt (node_height (cy_node_status cy)) (\<lambda>height.
     attempt (format_cadence_stage_compact cadence) (\<lambda>cadence_line.
     attempt (format_comparison_stage_compact (oc_comparison_stage (cy_outcome cy))) (\<lambda>comparison.
     attempt (format_persistence_stage_compact (oc_persistence_stage (cy_outcome cy))) (\<lambda>persistence.
     let receipt = cy_commit_receipt cy; fp = cy_fingerprint cy in
     Inr ([''=== Local Demo Cycle '' @ str_of_int (cy_cycle_index cy) @ '' ==='', ''Compact view:'']
       @ map (\<lambda>e. ''- '' @ format_edge_summary e) edges
       @ (case cy_simulator_snapshot cy of None \<Rightarrow> [] | Some s \<Rightarrow>
          [''- compressor='' @ sp_compressor_id s @ '' power_pct='' @ flt_repr (sp_operating_state_pct s)
            @ '' sensors='' @ py_str (PDict (map (\<lambda>(k, v). (k, PFloat v)) (sp_sensors s)))])
       @ [newline @ ''Consensus summary:'',
          ''- source=cometbft node_version='' @ py_str version @ '' latest_block_height='' @ py_str height,
          ''- committed_height='' @ str_of_int (cm_height receipt) @ '' tx_hash='' @ cm_tx_hash receipt
            @ '' check_tx_code='' @ str_of_int (cm_check_tx_code receipt) @ '' deliver_tx_code='' @ str_of_int (cm_deliver_tx_code receipt),
          ''- fault_mode='' @ sg_fault_mode (cy_scenario_control_stage cy)
            @ '' faulty_edges='' @ py_str (PList (map PStr (cy_fault_edges cy)))]
       @ map (\<lambda>line. ''- '' @ line) [format_round_summary (cy_consensus_summary cy), format_round_log_compact (cy_consensus_log cy),
          format_consensus_alert_compact (cy_consensus_alert cy), cadence_line,
          format_scenario_control_compact (cy_scenario_control_stage cy),
          format_scada_runtime_scenario_compact (cy_scada_replay_stage cy), comparison,
          format_scada_alert_compact (oc_scada_alert (cy_outcome cy)), persistence,
          format_fingerprint_lifecycle_compact (fr_stage fp), format_inference_results_compact (fr_inference fp),
          format_replay_behavior_compact (fr_replay fp), ''detailed_log='' @ log_path]))))))"

section \<open>Reports do not fail\<close>

lemma set_entry_other [simp]:
  "k' \<noteq> k \<Longrightarrow> sub (set_entry k v x) k' = sub x k'" "k' \<noteq> k \<Longrightarrow> pget (set_entry k v x) k' = pget x k'"
  "k' \<noteq> k \<Longrightarrow> pget_or (set_entry k v x) k' d = pget_or x k' d"
  by (cases x; simp add: sub.simps(1) getitem_def pget.simps(1))+

lemma comparison_line_entry: "format_comparison_stage_compact (set_entry ''replay_behavior_error'' v x) = format_comparison_stage_compact x"
  by (simp add: format_comparison_stage_compact_def shown_def shown_or_def cong: if_cong)

lemma comparison_line_total: "\<exists>line. format_comparison_stage_compact (comparison_stage_of out) = Inr line"
proof (cases "divergent_sensors out = []")
  case False
  have "mapM as_str (map PStr (divergent_sensors out)) = Inr (divergent_sensors out)"
    unfolding mapM_map by (rule mapM_Inr [where g = id, simplified]) simp
  with False show ?thesis
    by (simp add: format_comparison_stage_compact_def comparison_stage_of_def Let_def shown_or_def)
qed (simp add: format_comparison_stage_compact_def comparison_stage_of_def Let_def)

text \<open>The stages a cycle reports can be printed, and its entry can be written.\<close>

definition printable :: "cycle_outcome \<Rightarrow> bool" where
  "printable oc = ((\<exists>line. format_comparison_stage_compact (oc_comparison_stage oc) = Inr line) \<and>
     (\<exists>line. format_persistence_stage_compact (oc_persistence_stage oc) = Inr line) \<and>
     (\<exists>status key. sub (oc_persistence_stage oc) ''status'' = Inr (PStr status) \<and> pget (oc_persistence_stage oc) ''artifact_key'' = Inr key))"

lemma store_metadata:
  assumes "build_minio_runtime_metadata mc = Inr meta"
  obtains host port where "meta = [(''backend'', PStr ''minio''), (''endpoint'', PStr (ms_endpoint mc)), (''host'', PStr host),
    (''port'', port), (''secure'', PBool (ms_secure mc)), (''bucket'', PStr (ms_bucket mc))]"
  using assms by (auto simp: build_minio_runtime_metadata_def attempt_eq_Inr)

lemma outcome_printable:
  assumes "run_scada_comparison_and_persistence ops mc pkg service fm sc rp camp now s = Inr (oc, sv', s')"
  shows "printable oc"
proof -
  have stopped: "\<exists>line. format_persistence_stage_compact (PDict ((''status'', PStr ''blocked'') # meta @ (''reason'', r) # (''blocked_by_stage'', b) # rest)) = Inr line"
    if "build_minio_runtime_metadata mc = Inr meta" for meta r b rest
    by (rule store_metadata [OF that]) (simp add: format_persistence_stage_compact_def store_text_def shown_def shown_or_def)
  have failed: "\<exists>line. format_persistence_stage_compact (PDict ((''status'', PStr ''error'') # meta @ (''reason'', r) # rest)) = Inr line"
    if "build_minio_runtime_metadata mc = Inr meta" for meta r rest
    by (rule store_metadata [OF that]) (simp add: format_persistence_stage_compact_def store_text_def shown_def)
  have persisted: "\<exists>line. format_persistence_stage_compact (persisted_stage meta bucket r) = Inr line"
    if "build_minio_runtime_metadata mc = Inr meta" for meta bucket r
    by (rule store_metadata [OF that]) (simp add: format_persistence_stage_compact_def persisted_stage_def store_text_def shown_def)
  have entry: "\<exists>st key. sub (PDict ((''status'', PStr x) # rest)) ''status'' = Inr (PStr st) \<and> pget (PDict ((''status'', PStr x) # rest)) ''artifact_key'' = Inr key"
    for x rest by (simp add: pget.simps(1))
  from assms show ?thesis
  proof (cases rule: run_cases)
    case (blocked summary meta)
    have "\<exists>line. format_comparison_stage_compact (oc_comparison_stage (consensus_blocked_outcome summary meta)) = Inr line"
      by (simp add: consensus_blocked_outcome_def Let_def format_comparison_stage_compact_def shown_def shown_or_def)
    with stopped [OF blocked(1)] entry show ?thesis
      by (simp add: blocked(3) printable_def consensus_blocked_outcome_def Let_def)
  next
    case (compared out st alert meta stage)
    have "(\<exists>line. format_persistence_stage_compact stage = Inr line) \<and>
        (\<exists>status key. sub stage ''status'' = Inr (PStr status) \<and> pget stage ''artifact_key'' = Inr key)"
      using compared(4) stopped [OF compared(1)] failed [OF compared(1)] persisted [OF compared(1)] entry
      by (auto simp: divergence_blocked_stage_def persistence_error_stage_def persisted_stage_def Let_def)
    then show ?thesis using comparison_line_total by (simp add: compared(2) printable_def)
  qed
qed

end
