(* ===== verification/LiveCycle.thy ===== *)
theory LiveCycle
  imports CycleReport
begin

text \<open>
  A whole cycle of the live runtime always ends with a report, and its scenario decides what
  it leaves in the store. The CometBFT node is a parameter; the application it runs, which
  decides the round, is \<open>ConsensusApp\<close>.
\<close>

section \<open>One cycle\<close>

lemma sort_key_nonempty: "xs \<noteq> [] \<Longrightarrow> sort_key f xs \<noteq> []"
  by (metis length_0_conv length_sort)

text \<open>
  The node is up and reports its version and height. A round transaction that the application
  checks and evaluates is broadcast until it is in a block; a query for its round then answers
  from a state of the application after that block, \<open>committed_answer\<close>, whatever else the chain
  holds.
\<close>

definition ledger_commits :: "'l ledger_client \<Rightarrow> bool" where
  "ledger_commits lc = (\<forall>l. \<exists>status l1. lc_status lc l = (Inr status, l1) \<and>
     (\<exists>version height. node_version status = Inr version \<and> node_height status = Inr height) \<and>
     (\<forall>ri. check_tx (round_document ri) = 0 \<and> (\<forall>h. \<exists>cd. evaluate_round (tx_of ri) h = Inr cd) \<longrightarrow>
        (\<exists>receipt answer l2 l3. lc_broadcast_round lc ri l1 = (Inr receipt, l2) \<and>
           cm_round_id receipt = round_id (ri_round_identity ri) \<and>
           lc_query_committed_round lc (cm_round_id receipt) l2 = (Inr answer, l3) \<and>
           committed_answer (round_document ri) answer)))"

text \<open>
  The documented environment of a runtime on the passive transport, and the state between two
  of its cycles.
\<close>

definition environment_ok :: "('s \<Rightarrow> string \<Rightarrow> blob option) \<Rightarrow> ('s, 'l, 'm) runtime_env \<Rightarrow> runtime_config \<Rightarrow> bool" where
  "environment_ok contents env c = (artifact_store (en_store env) contents \<and> (\<exists>meta. build_minio_runtime_metadata (en_minio env) = Inr meta) \<and>
     ledger_commits (en_ledger env) \<and> mqtt_transport c = ''passive'' \<and> (\<forall>k. utc_time (en_clock env k)) \<and> 0 < demo_steps c \<and>
     0 < demo_fingerprint_sequence_length c \<and> demo_faulty_edges c = [])"

definition runtime_inv :: "('s \<Rightarrow> string \<Rightarrow> blob option) \<Rightarrow> 'm keras \<Rightarrow> runtime_config \<Rightarrow> ('s, 'l) runtime \<Rightarrow> bool" where
  "runtime_inv contents kr c r = (live_inv (mqtt_topic c) (ru_live r) \<and> live_artifacts (contents (ru_store r)) \<and>
     registry_sound kr (contents (ru_store r)))"

definition reportable :: "cycle_result \<Rightarrow> bool" where
  "reportable cy = ((\<exists>version height. node_version (cy_node_status cy) = Inr version \<and> node_height (cy_node_status cy) = Inr height) \<and>
     printable (cy_outcome cy))"

text \<open>What a cycle did, by its scenario.\<close>

definition cycle_decided :: "('s \<Rightarrow> string \<Rightarrow> blob option) \<Rightarrow> scenario_stage \<Rightarrow> cycle_result \<Rightarrow> 's \<Rightarrow> 's \<Rightarrow> bool" where
  "cycle_decided contents stage cy s s' = (
     (rl_final_status (cy_consensus_log cy) = SUCCESS \<longleftrightarrow> active_scenario stage \<noteq> ''quorum_loss'') \<and>
     (active_scenario stage \<noteq> ''quorum_loss'' \<longrightarrow> (\<exists>snap v. cy_simulator_snapshot cy = Some snap \<and>
        rl_valid_state (cy_consensus_log cy) = Some v \<and>
        (\<forall>name \<in> set consensus_sensors. map_of (sensor_values v) name = Some (snapshot_reading snap name)))) \<and>
     (is_persisted (cy_outcome cy) \<longleftrightarrow> active_scenario stage \<notin> {''quorum_loss'', ''scada_divergence''}) \<and>
     (if is_persisted (cy_outcome cy)
      then \<exists>a reason. evaluate_training_eligibility a = Inr (active_scenario stage = ''normal'', reason) \<and>
        (\<forall>key. starts_with VALID_ARTIFACT_PREFIX key \<longrightarrow> contents s' key =
           ((contents s)(artifact_key_of (round_id (rl_round_identity (cy_consensus_log cy))) \<mapsto> Json a)) key)
      else s' = s))"

lemma models_artifact: "starts_with VALID_ARTIFACT_PREFIX key \<Longrightarrow> models (c(key \<mapsto> b)) = models c"
  by (rule models_cong) (use prefixes(3) in auto)

lemma updating_step: "f r = Inr (x, r') \<Longrightarrow> bind_act (updating f) g r = g x r'"
  by (simp add: bind_act_def updating_def)

lemma ledger_step: "f (ru_ledger r) = (Inr x, l') \<Longrightarrow> bind_act (on_ledger f) g r = g x (r\<lparr>ru_ledger := l'\<rparr>)"
  by (simp add: bind_act_def on_ledger_def)

lemma store_step: "f (ru_store r) = (Inr x, s') \<Longrightarrow> bind_act (on_store f) g r = g x (r\<lparr>ru_store := s'\<rparr>)"
  by (simp add: bind_act_def on_store_def)

lemma reading_step: "f r = Inr x \<Longrightarrow> bind_act (reading f) g r = g x r"
  by (simp add: bind_act_def reading_def)

lemmas cycle_steps = updating_step ledger_step store_step reading_step

lemma cycle_runs:
  assumes env: "environment_ok contents env c" and inv: "runtime_inv contents (en_keras env) c r"
    and stage: "resolve_runtime_scenario_control_stage c i = Inr stage"
    and offset: "active_scenario stage = ''scada_divergence'' \<longrightarrow> offset_caught c"
  obtains cy r' where "execute_demo_cycle env i c r = (Inr cy, r')" "runtime_inv contents (en_keras env) c r'"
    "cy_cycle_index cy = i" "cy_scenario_control_stage cy = stage" "cycle_decided contents stage cy (ru_store r) (ru_store r')"
    "models (contents (ru_store r)) \<noteq> {} \<longrightarrow> models (contents (ru_store r')) = models (contents (ru_store r))" "reportable cy"
proof -
  let ?c = "apply_runtime_scenario_control c stage" and ?lc = "en_ledger env" and ?kr = "en_keras env"
  have store: "artifact_store (en_store env) contents" and utc: "\<And>k. utc_time (en_clock env k)"
    and steps: "0 < nat (demo_steps c)" and k: "0 < demo_fingerprint_sequence_length c" and fe: "demo_faulty_edges c = []"
    using env by (simp_all add: environment_ok_def)
  obtain meta where mc: "build_minio_runtime_metadata (en_minio env) = Inr meta" using env by (auto simp: environment_ok_def)
  have live: "live_inv (mqtt_topic c) (ru_live r)" and arts: "live_artifacts (contents (ru_store r))"
    and reg: "registry_sound ?kr (contents (ru_store r))"
    using inv by (simp_all add: runtime_inv_def)
  obtain snap lv' ri where u: "collect_steps (en_rng env) (en_clock env) (mqtt_topic c) (demo_power c) (nat (demo_steps c)) None (ru_live r) =
        Inr (Some snap, lv')" "live_inv (mqtt_topic c) lv'" "sound_snapshot snap"
    "build_consensus_round_input (nw_edges (lv_network lv')) = Inr ri" "healthy_round ri (snapshot_reading snap)"
    "ri_participating_edges ri = [''edge-1'', ''edge-2'', ''edge-3'']" "map owner_edge_id (replicated_states ri) = ri_participating_edges ri"
    "window_valid (ri_round_identity ri)"
    by (rule live_collection [OF live steps utc]) (rule that, assumption+)
  have readings: "\<exists>y. snapshot_reading snap name = py_round 3 y \<and> \<bar>y\<bar> \<le> 5000" if "name \<in> set consensus_sensors" for name
    using raw_reading_bound [OF u(3) that] by (auto simp: snapshot_reading_def)
  note modes = applied_modes [OF stage]
  have mode: "demo_fault_mode ?c \<in> {''none'', ''single_edge_exclusion'', ''quorum_loss''}"
    unfolding modes fault_mode_of_def by simp
  let ?ri = "injected ?c ri"
  have h: "complete_input ri" "\<forall>s \<in> set (replicated_states ri). clean_state s" using u(5) by (simp_all add: healthy_round_def)
  note exact = injected_exact [OF h(2), of ?c] and complete = injected_complete(1) [OF h, of ?c]
  have inject: "inject_faults ri ?c = Inr ?ri" using complete_wf [OF h(1)] h(2) by (rule inject_faults_spec)
  have total: "\<exists>cd. evaluate_round (tx_of ?ri) k = Inr cd" for k by (rule evaluate_round_total [OF complete])
  have ne: "ri_participating_edges ?ri \<noteq> []" using complete by (auto simp: complete_input_def)
  have "replicated_states ?ri \<noteq> []" using complete ne by (auto simp: complete_input_def complete_round_def)
  then have checked: "check_tx (round_document ?ri) = 0"
    using ne u(8) exact(3) by (simp add: check_tx_def decode_document tx_of_def window_valid_def sort_key_nonempty)
  obtain status l1 receipt answer l2 l3 where l: "lc_status ?lc (ru_ledger r) = (Inr status, l1)"
    "lc_broadcast_round ?lc ?ri l1 = (Inr receipt, l2)" "lc_query_committed_round ?lc (cm_round_id receipt) l2 = (Inr answer, l3)"
    "\<exists>version height. node_version status = Inr version \<and> node_height status = Inr height"
    "committed_answer (round_document ?ri) answer"
    using env checked total unfolding environment_ok_def ledger_commits_def by metis
  obtain height cd where cd: "evaluate_round (tx_of ?ri) height = Inr cd" "answer = committed_round_json cd"
    by (rule committed_answer_evaluates [OF l(5) decode_document total])
  let ?pkg = "committed_package ?ri cd"
  have back': "committed_round_to_audit_package ?ri answer = Inr ?pkg"
    unfolding cd(2) by (rule read_committed_round [OF complete_wf [OF complete] cd(1) ne exact(2)])
      (use u(8) exact(3) in \<open>simp_all add: window_valid_def\<close>)
  define pkg where "pkg = ?pkg"
  have e: "committed_round_to_audit_package ?ri answer = Inr pkg" by (simp add: back' pkg_def)
  have d: "decided_round (demo_fault_mode ?c) (snapshot_reading snap) ?ri pkg"
    unfolding pkg_def by (rule scenario_decides [OF u(5,6) readings _ mode cd(1)]) (simp_all add: modes fe)
  have settled: "settles ?ri pkg" using d by (simp add: decided_round_def)
  note p = settled_input [OF settled]
  obtain sm where sm: "build_round_summary pkg = Inr sm" using summary_total [OF complete settled] ..
  obtain alert where alert: "build_consensus_alert pkg (build_round_log pkg) = Inr alert" using alert_of_settled [OF settled] by blast
  obtain rp sv where cfg: "configure_scada_replay_runtime_stage ?c i (ru_service r) = Inr (rp, sv)"
    using configure_stage_spec by blast
  obtain oc sv' s' where o: "run_scada_comparison_and_persistence (en_store env) (en_minio env) pkg (Some sv) (demo_fault_mode ?c) (Some stage)
      (Some rp) (demo_campaign_id c) (en_persisted_at env i) (ru_store r) = Inr (oc, Some sv', s')"
    "downstream_block_reason (oc_comparison_stage oc) (oc_persistence_stage oc) = None \<longleftrightarrow> is_persisted oc"
    "is_persisted oc \<longleftrightarrow> active_scenario stage \<notin> {''quorum_loss'', ''scada_divergence''}"
    "\<not> is_persisted oc \<longrightarrow> s' = ru_store r"
    "is_persisted oc \<longrightarrow> (\<exists>a reason. readable a \<and> evaluate_training_eligibility a = Inr (active_scenario stage = ''normal'', reason) \<and>
       contents s' = (contents (ru_store r))(artifact_key_of (round_id (ri_round_identity ?ri)) \<mapsto> Json a))"
    by (rule downstream_half [OF store mc stage cfg d [unfolded modes] readings offset])
  have s': "live_artifacts (contents s')" "registry_sound ?kr (contents s')" "models (contents s') = models (contents (ru_store r))"
  proof -
    have "contents s' = contents (ru_store r) \<or> (\<exists>a. readable a \<and>
        contents s' = (contents (ru_store r))(artifact_key_of (round_id (ri_round_identity ?ri)) \<mapsto> Json a))"
      using o(4,5) by blast
    then show "live_artifacts (contents s')" "registry_sound ?kr (contents s')" "models (contents s') = models (contents (ru_store r))"
      using arts reg live_artifacts_update artifact_store.registry_artifact [OF store reg artifact_key_prefix]
        models_artifact [OF artifact_key_prefix] by metis+
  qed
  obtain fp s2 where f: "execute_fingerprint_pipeline_for_cycle (en_store env) (en_numpy env) ?kr i c (oc_scada_state oc) (oc_comparison_output oc)
      (oc_comparison_stage oc) (oc_persistence_stage oc) rp sm (en_stage_clock env i) s' = (Inr fp, s2)"
    "stages_keep ?kr (contents s') (contents s2)"
    "downstream_block_reason (oc_comparison_stage oc) (oc_persistence_stage oc) \<noteq> None \<longrightarrow> s2 = s' \<and> fr_inference fp = [] \<and> fr_replay fp = None"
    "fr_comparison_stage fp = oc_comparison_stage oc \<or> (\<exists>e. fr_comparison_stage fp = set_entry ''replay_behavior_error'' e (oc_comparison_stage oc))"
    by (rule artifact_store.pipeline_total [OF store s'(1) k]) (rule that)
  let ?r = "r\<lparr>ru_live := lv', ru_ledger := l3, ru_service := sv', ru_store := s2\<rparr>"
  have run: "\<exists>cy. execute_demo_cycle env i c r = (Inr cy, ?r) \<and> cy_cycle_index cy = i \<and> cy_scenario_control_stage cy = stage \<and>
      cy_simulator_snapshot cy = Some snap \<and> cy_consensus_log cy = build_round_log pkg \<and>
      cy_outcome cy = oc\<lparr>oc_comparison_stage := fr_comparison_stage fp\<rparr> \<and> cy_node_status cy = status"
    unfolding execute_demo_cycle_def collect_cycle_def configure_cycle_def compare_and_persist_def Let_def
    by (simp add: cycle_steps stage u(1,4) inject l(1-3) e sm alert cfg o(1) f(1) ret_def)
  then obtain cy where cy: "execute_demo_cycle env i c r = (Inr cy, ?r)" "cy_cycle_index cy = i" "cy_scenario_control_stage cy = stage"
    "cy_simulator_snapshot cy = Some snap" "cy_consensus_log cy = build_round_log pkg" "cy_outcome cy = oc\<lparr>oc_comparison_stage := fr_comparison_stage fp\<rparr>"
    "cy_node_status cy = status" by (elim exE conjE)
  note keep = f(2) [unfolded stages_keep_def]
  have inv': "runtime_inv contents ?kr c ?r"
    using u(2) s'(1,2) keep live_artifacts_cong [OF s'(1)] by (simp add: runtime_inv_def)
  have models: "models (contents (ru_store r)) \<noteq> {} \<longrightarrow> models (contents (ru_store ?r)) = models (contents (ru_store r))"
    using keep s'(3) by simp
  have persisted: "is_persisted (cy_outcome cy) = is_persisted oc" by (simp add: is_persisted_def cy(6))
  have log: "rl_final_status (build_round_log pkg) = ap_final_status pkg" "rl_valid_state (build_round_log pkg) = ap_valid_state pkg"
    "rl_round_identity (build_round_log pkg) = ri_round_identity ?ri"
    by (simp_all add: build_round_log_def p)
  have mode': "demo_fault_mode ?c = ''quorum_loss'' \<longleftrightarrow> active_scenario stage = ''quorum_loss''"
    by (simp add: modes fault_mode_of_def)
  have round: "ap_final_status pkg = SUCCESS \<longleftrightarrow> active_scenario stage \<noteq> ''quorum_loss''"
    "active_scenario stage \<noteq> ''quorum_loss'' \<Longrightarrow> \<exists>v. ap_valid_state pkg = Some v \<and>
       (\<forall>name \<in> set consensus_sensors. map_of (sensor_values v) name = Some (snapshot_reading snap name))"
    using d settled_success [OF settled] unfolding decided_round_def mode' by blast+
  have left: "if is_persisted oc
      then \<exists>a reason. evaluate_training_eligibility a = Inr (active_scenario stage = ''normal'', reason) \<and>
        (\<forall>key. starts_with VALID_ARTIFACT_PREFIX key \<longrightarrow> contents s2 key =
           ((contents (ru_store r))(artifact_key_of (round_id (ri_round_identity ?ri)) \<mapsto> Json a)) key)
      else s2 = ru_store r"
  proof (cases "is_persisted oc")
    case True
    then obtain a reason where a: "evaluate_training_eligibility a = Inr (active_scenario stage = ''normal'', reason)"
      "contents s' = (contents (ru_store r))(artifact_key_of (round_id (ri_round_identity ?ri)) \<mapsto> Json a)"
      using o(5) by blast
    have "contents s2 key = ((contents (ru_store r))(artifact_key_of (round_id (ri_round_identity ?ri)) \<mapsto> Json a)) key"
      if "starts_with VALID_ARTIFACT_PREFIX key" for key
      using keep that unfolding a(2) by blast
    with True a(1) show ?thesis by auto
  next
    case False
    then show ?thesis using o(2,4) f(3) by simp
  qed
  have new: "ru_store ?r = s2" by simp
  have "cycle_decided contents stage cy (ru_store r) (ru_store ?r)"
    unfolding cycle_decided_def cy(4,5) log persisted new
    by (intro conjI round(1) o(3) left) (use round(2) in blast)
  moreover have "reportable cy"
    using outcome_printable [OF o(1)] l(4) f(4) comparison_line_entry by (auto simp: reportable_def cy(6,7) printable_def)
  ultimately show ?thesis by (intro that [OF cy(1) inv' cy(2,3) _ models])
qed

section \<open>Properties\<close>

text \<open>
  C3. A cycle of the live runtime always ends with a report, and its scenario decides what it
  leaves behind. Consensus succeeds unless the quorum is lost, and then the consensused value
  of every sensor is the reading of the last snapshot. The cycle persists unless the quorum is
  lost or the supervisory layer diverges; what it persists is one artifact under the key of its
  round, admitted to training exactly when the scenario is normal, and no other artifact
  changes. A cycle that does not persist leaves the store untouched. Afterwards the runtime is
  again in a state a cycle can start from, with at most one model, a complete one. The transport
  is passive, the faulty edges are the default ones, the node commits what its application
  decides, and a divergence scenario has an offset between 3 and a million.
\<close>

theorem live_cycle:
  assumes "environment_ok contents env c" "runtime_inv contents (en_keras env) c r"
    and "resolve_runtime_scenario_control_stage c i = Inr stage" "active_scenario stage = ''scada_divergence'' \<longrightarrow> offset_caught c"
  shows "\<exists>cy r'. execute_demo_cycle env i c r = (Inr cy, r') \<and> runtime_inv contents (en_keras env) c r' \<and>
    (rl_final_status (cy_consensus_log cy) = SUCCESS \<longleftrightarrow> active_scenario stage \<noteq> ''quorum_loss'') \<and>
    (active_scenario stage \<noteq> ''quorum_loss'' \<longrightarrow> (\<exists>snap v. cy_simulator_snapshot cy = Some snap \<and>
       rl_valid_state (cy_consensus_log cy) = Some v \<and>
       (\<forall>name \<in> set consensus_sensors. map_of (sensor_values v) name = Some (snapshot_reading snap name)))) \<and>
    (is_persisted (cy_outcome cy) \<longleftrightarrow> active_scenario stage \<notin> {''quorum_loss'', ''scada_divergence''}) \<and>
    (if is_persisted (cy_outcome cy)
     then \<exists>a reason. evaluate_training_eligibility a = Inr (active_scenario stage = ''normal'', reason) \<and>
       (\<forall>key. starts_with VALID_ARTIFACT_PREFIX key \<longrightarrow> contents (ru_store r') key =
          ((contents (ru_store r))(artifact_key_of (round_id (rl_round_identity (cy_consensus_log cy))) \<mapsto> Json a)) key)
     else ru_store r' = ru_store r)"
proof -
  obtain cy r' where "execute_demo_cycle env i c r = (Inr cy, r')" "runtime_inv contents (en_keras env) c r'"
    "cycle_decided contents stage cy (ru_store r) (ru_store r')"
    by (rule cycle_runs [OF assms])
  then show ?thesis unfolding cycle_decided_def by blast
qed

text \<open>A node that puts every transaction in a block of its own, and a runtime on local files.\<close>

definition application_ledger :: "consensus_app ledger_client" where
  "application_ledger = \<lparr>lc_status = (\<lambda>app. (Inr (PDict [(''node_info'', PDict [(''version'', PStr ''1.0'')]),
       (''sync_info'', PDict [(''latest_block_height'', PStr (str_of_int (app_last_height app)))])]), app)),
     lc_broadcast_round = (\<lambda>ri app. if check_tx (round_document ri) \<noteq> 0 then (Inl (RuntimeError ''invalid round tx''), app)
       else case run_blocks [(app_last_height app + 1, [round_document ri])] app of Inl e \<Rightarrow> (Inl e, app)
       | Inr app' \<Rightarrow> (Inr \<lparr>cm_round_id = round_id (ri_round_identity ri), cm_height = app_last_height app', cm_tx_hash = ''AA'',
           cm_check_tx_code = 0, cm_deliver_tx_code = 0\<rparr>, app')),
     lc_query_committed_round = (\<lambda>rid app. case query_round app rid of None \<Rightarrow> (Inl (RuntimeError ''round not found''), app)
       | Some v \<Rightarrow> (Inr v, app))\<rparr>"

lemma application_ledger_commits: "ledger_commits application_ledger"
  unfolding ledger_commits_def
proof
  fix app :: consensus_app
  let ?status = "PDict [(''node_info'', PDict [(''version'', PStr ''1.0'')]),
    (''sync_info'', PDict [(''latest_block_height'', PStr (str_of_int (app_last_height app)))])]"
  have commits: "\<exists>receipt answer l2 l3. lc_broadcast_round application_ledger ri app = (Inr receipt, l2) \<and>
      cm_round_id receipt = round_id (ri_round_identity ri) \<and>
      lc_query_committed_round application_ledger (cm_round_id receipt) l2 = (Inr answer, l3) \<and>
      committed_answer (round_document ri) answer"
    if ri: "check_tx (round_document ri) = 0" "\<forall>h. \<exists>cd. evaluate_round (tx_of ri) h = Inr cd" for ri
  proof -
    let ?h = "app_last_height app + 1" and ?id = "round_id (ri_round_identity ri)"
    obtain cd where cd: "evaluate_round (tx_of ri) ?h = Inr cd" using ri(2) by blast
    have id: "tx_round_id (tx_of ri) = ?id" by (simp add: tx_of_def)
    obtain app' where a: "run_blocks [(?h, [round_document ri])] app = Inr app'" "query_round app' ?id = Some (committed_round_json cd)"
      using single_block(1) [OF decode_document cd] unfolding id by blast
    from single_block(2) [OF decode_document cd a(1)] a(2) have "committed_answer (round_document ri) (committed_round_json cd)"
      unfolding id by blast
    then show ?thesis by (simp add: application_ledger_def ri(1) a del: run_blocks.simps)
  qed
  have "lc_status application_ledger app = (Inr ?status, app)" by (simp add: application_ledger_def)
  moreover have "\<exists>version. node_version ?status = Inr version" "\<exists>height. node_height ?status = Inr height"
    by (simp_all add: node_version_def node_height_def)
  ultimately show "\<exists>status l1. lc_status application_ledger app = (Inr status, l1) \<and>
      (\<exists>version height. node_version status = Inr version \<and> node_height status = Inr height) \<and>
      (\<forall>ri. check_tx (round_document ri) = 0 \<and> (\<forall>h. \<exists>cd. evaluate_round (tx_of ri) h = Inr cd) \<longrightarrow>
        (\<exists>receipt answer l2 l3. lc_broadcast_round application_ledger ri l1 = (Inr receipt, l2) \<and>
           cm_round_id receipt = round_id (ri_round_identity ri) \<and>
           lc_query_committed_round application_ledger (cm_round_id receipt) l2 = (Inr answer, l3) \<and>
           committed_answer (round_document ri) answer))"
    using commits by blast
qed

definition sample_env :: "(local_files, consensus_app, string) runtime_env" where
  "sample_env = \<lparr>en_store = local_ops ''b'', en_minio = local_minio, en_numpy = None, en_keras = sample_keras,
     en_ledger = application_ledger, en_rng = (\<lambda>_. 0), en_clock = (\<lambda>_. sample_time), en_persisted_at = (\<lambda>_. sample_time),
     en_stage_clock = (\<lambda>_. (sample_time, sample_time, sample_time))\<rparr>"

definition sample_runtime :: "(local_files, consensus_app) runtime" where
  "sample_runtime = \<lparr>ru_live = init_live ''edges/observations'', ru_service = init_service ''compressor-1'', ru_store = [], ru_ledger = new_app\<rparr>"

lemma sample_env_ok: "environment_ok map_of sample_env (default_config\<lparr>mqtt_transport := ''passive'', demo_max_cycles := n, demo_scenario_name := name\<rparr>)"
  using local_store.artifact_store_axioms [of "''b''"] application_ledger_commits local_minio_metadata sample_time_utc
  by (simp add: environment_ok_def sample_env_def default_config_def)

lemma sample_runtime_inv: "runtime_inv map_of kr (default_config\<lparr>mqtt_transport := ''passive'', demo_max_cycles := n, demo_scenario_name := name\<rparr>) sample_runtime"
  by (simp add: runtime_inv_def sample_runtime_def init_live_inv live_artifacts_def registry_sound_def json_under_def default_config_def)

theorem live_cycle_witness:
  "\<exists>cy r'. execute_demo_cycle sample_env 1 (default_config\<lparr>mqtt_transport := ''passive'', demo_max_cycles := 2, demo_scenario_name := ''quorum_loss''\<rparr>) sample_runtime =
      (Inr cy, r') \<and> rl_final_status (cy_consensus_log cy) \<noteq> SUCCESS \<and> ru_store r' = []"
proof -
  let ?c = "default_config\<lparr>mqtt_transport := ''passive'', demo_max_cycles := 2, demo_scenario_name := ''quorum_loss''\<rparr>"
  let ?st = "fault_stage ''quorum_loss'' 1 ''quorum_loss'' ''match'' ''quorum_loss'' ''scenario:quorum_loss'' SCENARIO_OUTPUTS_QUORUM"
  have s: "resolve_runtime_scenario_control_stage ?c 1 = Inr ?st"
    by (simp add: resolve_runtime_scenario_control_stage_def resolve_configured_scenario_def default_config_def strip_def is_space_def)
  have a: "active_scenario ?st = ''quorum_loss''" by (simp add: fault_stage_def)
  have off: "active_scenario ?st = ''scada_divergence'' \<longrightarrow> offset_caught ?c" by (simp add: a)
  from live_cycle [OF sample_env_ok sample_runtime_inv s off] obtain cy r' where
    "execute_demo_cycle sample_env 1 ?c sample_runtime = (Inr cy, r')"
    "rl_final_status (cy_consensus_log cy) = SUCCESS \<longleftrightarrow> active_scenario ?st \<noteq> ''quorum_loss''"
    "is_persisted (cy_outcome cy) \<longleftrightarrow> active_scenario ?st \<notin> {''quorum_loss'', ''scada_divergence''}"
    "if is_persisted (cy_outcome cy)
     then \<exists>a reason. evaluate_training_eligibility a = Inr (active_scenario ?st = ''normal'', reason) \<and>
       (\<forall>key. starts_with VALID_ARTIFACT_PREFIX key \<longrightarrow> map_of (ru_store r') key =
          ((map_of (ru_store sample_runtime))(artifact_key_of (round_id (rl_round_identity (cy_consensus_log cy))) \<mapsto> Json a)) key)
     else ru_store r' = ru_store sample_runtime"
    by (elim exE conjE)
  then show ?thesis unfolding a by (intro exI [of _ cy] exI [of _ r']) (simp add: sample_runtime_def)
qed

end
