(* ===== verification/RuntimeLoop.thy ===== *)
theory RuntimeLoop
  imports LiveCycle
begin

text \<open>
  The autonomous loop of \<open>scripts/run_local_demo.py\<close>: cycles until the configured number is
  reached or a stop is requested, with a sleep in slices between them. The configuration
  provider, the stop request and the monotonic clock are functions of how often they were
  asked. A loop that never returns is \<open>None\<close>; an interrupt from the keyboard, which can come
  at any point, is not modelled.
\<close>

section \<open>Sleeping\<close>

text \<open>The loop of \<open>sleep_until_next_cycle\<close>: stopped or not, the polls so far, the slices slept.\<close>

partial_function (option) sleep_slices :: "(nat \<Rightarrow> bool) \<Rightarrow> flt \<Rightarrow> nat \<Rightarrow> flt \<Rightarrow> flt list \<Rightarrow> (bool \<times> nat \<times> flt list) option" where
  "sleep_slices stop poll n remaining slept =
     (if remaining > 0 then
        if stop n then Some (True, Suc n, slept)
        else let slice = min remaining poll in sleep_slices stop poll (Suc n) (max (fsub remaining slice) 0) (slept @ [slice])
      else Some (stop n, Suc n, slept))"


definition sleep_until_next_cycle :: "flt \<Rightarrow> (nat \<Rightarrow> bool) option \<Rightarrow> flt \<Rightarrow> nat \<Rightarrow> (bool \<times> nat \<times> flt list) option" where
  "sleep_until_next_cycle duration stop poll n = (let remaining = max duration 0 in
     case stop of None \<Rightarrow> Some (False, n, if remaining > 0 then [remaining] else [])
     | Some f \<Rightarrow> sleep_slices f poll n remaining [])"

definition POLL_INTERVAL :: flt where
  "POLL_INTERVAL = dec 1 1"

section \<open>The loop\<close>

record loop_env =
  le_config :: "nat \<Rightarrow> runtime_config"
  le_stop :: "(nat \<Rightarrow> bool) option"
  le_monotonic :: "nat \<Rightarrow> flt"
  le_log_path :: string

record ('s, 'l) loop_state =
  lp_runtime :: "('s, 'l) runtime"
  lp_cycle_index :: int
  lp_polls :: nat
  lp_history :: "pyval list"
  lp_latest :: "pyval option"
  lp_log_file :: "pyval option"
  lp_observed :: "pyval list"
  lp_printed :: "string list"

definition start_loop :: "('s, 'l) runtime \<Rightarrow> ('s, 'l) loop_state" where
  "start_loop r = \<lparr>lp_runtime = r, lp_cycle_index = 0, lp_polls = 0, lp_history = [], lp_latest = None, lp_log_file = None,
     lp_observed = [], lp_printed = []\<rparr>"

text \<open>\<open>stop_requested_fn is not None and stop_requested_fn()\<close>.\<close>

definition poll_stop :: "loop_env \<Rightarrow> ('s, 'l) loop_state \<Rightarrow> bool \<times> ('s, 'l) loop_state" where
  "poll_stop le st = (case le_stop le of None \<Rightarrow> (False, st) | Some f \<Rightarrow> (f (lp_polls st), st\<lparr>lp_polls := Suc (lp_polls st)\<rparr>))"

text \<open>\<open>write_detailed_log\<close> replaces the log file, then the observer is called.\<close>

definition observe :: "pyval \<Rightarrow> ('s, 'l) loop_state \<Rightarrow> ('s, 'l) loop_state" where
  "observe p st = st\<lparr>lp_observed := lp_observed st @ [p]\<rparr>"

definition write_log :: "pyval \<Rightarrow> ('s, 'l) loop_state \<Rightarrow> ('s, 'l) loop_state" where
  "write_log p st = st\<lparr>lp_log_file := Some p\<rparr>"

text \<open>A step that may raise, in a state that stays as it is then.\<close>

definition keeping :: "'s \<Rightarrow> 'a res \<Rightarrow> ('a \<Rightarrow> (py_error + 'b) \<times> 's) \<Rightarrow> (py_error + 'b) \<times> 's" where
  "keeping st r f = (case r of Inl e \<Rightarrow> (Inl e, st) | Inr x \<Rightarrow> f x)"

definition stop_by_operator :: "runtime_config \<Rightarrow> (('s, 'l) loop_state, pyval) act" where
  "stop_by_operator c st = keeping st (build_runtime_log_payload c ''stopped_operator'' (lp_history st) (lp_latest st))
     (\<lambda>p. (Inr p, observe p (write_log p st)))"

definition finish_loop :: "runtime_config \<Rightarrow> (('s, 'l) loop_state, pyval) act" where
  "finish_loop c st = keeping st (build_runtime_log_payload c ''completed'' (lp_history st) (lp_latest st))
     (\<lambda>p. (Inr p, observe p st))"

text \<open>One turn: the cycle, its cadence, the reports. The result: the payload, the sleep, whether to go on.\<close>

definition cadence_of :: "loop_env \<Rightarrow> runtime_config \<Rightarrow> int \<Rightarrow> flt \<times> flt \<times> bool" where
  "cadence_of le c i = (let k = nat (i - 1);
     elapsed = max (fsub (le_monotonic le (2 * k + 1)) (le_monotonic le (2 * k))) 0;
     continue = (demo_max_cycles c \<le> 0 \<or> i < demo_max_cycles c) in
     (elapsed, if continue then max (fsub (demo_cycle_interval_seconds c) elapsed) 0 else 0, continue))"

definition report_turn ::
  "loop_env \<Rightarrow> runtime_config \<Rightarrow> cycle_result \<Rightarrow> (('s, 'l) loop_state, pyval \<times> flt \<times> bool) act" where
  "report_turn le c cy st = (case cadence_of le c (lp_cycle_index st) of (elapsed, next_sleep, continue) \<Rightarrow>
     let cadence = build_cadence_stage (lp_cycle_index st) (demo_cycle_interval_seconds c) elapsed next_sleep continue;
       edges = nw_edges (lv_network (ru_live (lp_runtime st))) in
     keeping st (build_detailed_log_payload c cy cadence edges) (\<lambda>latest. let st1 = st\<lparr>lp_latest := Some latest\<rparr> in
     keeping st1 (build_cycle_history_entry cy cadence) (\<lambda>entry. let st2 = st1\<lparr>lp_history := lp_history st1 @ [entry]\<rparr> in
     keeping st2 (build_runtime_log_payload c (if continue then ''active'' else ''completed'') (lp_history st2) (lp_latest st2)) (\<lambda>p.
     let st3 = observe p (write_log p st2) in
     keeping st3 (print_cycle_report cy cadence edges (le_log_path le)) (\<lambda>lines.
       (Inr (p, next_sleep, continue), st3\<lparr>lp_printed := lp_printed st3 @ lines\<rparr>))))))"

definition loop_turn ::
  "('s, 'l, 'm) runtime_env \<Rightarrow> loop_env \<Rightarrow> runtime_config \<Rightarrow> (('s, 'l) loop_state, pyval \<times> flt \<times> bool) act" where
  "loop_turn env le c st = (let i = lp_cycle_index st + 1 in
     case execute_demo_cycle env i c (lp_runtime st) of
       (Inl e, r) \<Rightarrow> (Inl e, st\<lparr>lp_cycle_index := i, lp_runtime := r\<rparr>)
     | (Inr cy, r) \<Rightarrow> report_turn le c cy (st\<lparr>lp_cycle_index := i, lp_runtime := r\<rparr>))"

partial_function (option) run_loop ::
  "('s, 'l, 'm) runtime_env \<Rightarrow> loop_env \<Rightarrow> ('s, 'l) loop_state \<Rightarrow> ((py_error + pyval) \<times> ('s, 'l) loop_state) option" where
  "run_loop env le st0 = (let c = le_config le (nat (lp_cycle_index st0)) in
     case poll_stop le st0 of (stop, st) \<Rightarrow>
       if stop then Some (stop_by_operator c st)
       else if 0 < demo_max_cycles c \<and> demo_max_cycles c \<le> lp_cycle_index st then Some (finish_loop c st)
       else (case loop_turn env le c st of
           (Inl e, st1) \<Rightarrow> Some (Inl e, st1)
         | (Inr (p, next_sleep, continue), st1) \<Rightarrow>
           if \<not> continue then Some (Inr p, st1)
           else Option.bind (sleep_until_next_cycle next_sleep (le_stop le) POLL_INTERVAL (lp_polls st1)) (\<lambda>(stopped, n, slept).
             let st2 = st1\<lparr>lp_polls := n\<rparr> in
             if stopped then Some (stop_by_operator c st2) else run_loop env le st2)))"

definition run_autonomous_demo_loop ::
  "('s, 'l, 'm) runtime_env \<Rightarrow> loop_env \<Rightarrow> ('s, 'l) runtime \<Rightarrow> ((py_error + pyval) \<times> ('s, 'l) loop_state) option" where
  "run_autonomous_demo_loop env le r = run_loop env le (start_loop r)"

section \<open>Laws of sleeping\<close>

lemma poll_interval: "1 / 11 \<le> POLL_INTERVAL" "POLL_INTERVAL \<le> 1 / 9"
proof -
  have "\<bar>fl (1 / 10) - 1 / 10\<bar> \<le> 1 / 8192" by (rule fl_near) simp
  moreover have "POLL_INTERVAL = fl (1 / 10)" by (simp add: POLL_INTERVAL_def dec_def)
  ultimately show "1 / 11 \<le> POLL_INTERVAL" "POLL_INTERVAL \<le> 1 / 9" by linarith+
qed

text \<open>One slice brings the end nearer by at least a twentieth of a second.\<close>

lemma slice_progress:
  assumes "0 < r" "r \<le> 4194304"
  shows "0 \<le> max (fsub r (min r POLL_INTERVAL)) 0" "max (fsub r (min r POLL_INTERVAL)) 0 \<le> r"
    "max (fsub r (min r POLL_INTERVAL)) 0 = 0 \<or> max (fsub r (min r POLL_INTERVAL)) 0 \<le> r - 1 / 20"
proof -
  let ?p = POLL_INTERVAL
  have "max (fsub r (min r ?p)) 0 = 0 \<or> max (fsub r (min r ?p)) 0 \<le> r - 1 / 20"
  proof (cases "r \<le> ?p")
    case True
    then show ?thesis by (simp add: fsub_def fl_def)
  next
    case False
    then have "\<bar>fl (r - ?p) - (r - ?p)\<bar> \<le> 1 / 8192"
      by (intro fl_near) (use assms poll_interval in linarith)
    then have "fl (r - ?p) \<le> r - 1 / 20" using poll_interval(1) by linarith
    moreover have "min r ?p = ?p" using False by simp
    ultimately show ?thesis unfolding fsub_def max_def by auto
  qed
  then show "max (fsub r (min r ?p)) 0 = 0 \<or> max (fsub r (min r ?p)) 0 \<le> r - 1 / 20" "max (fsub r (min r ?p)) 0 \<le> r"
    using assms(1) by linarith+
qed simp

lemma sleep_slices_returns:
  assumes "r \<le> 4194304"
  shows "\<exists>slices. sleep_slices f POLL_INTERVAL n r slept =
      Some (f (n + length slices), Suc (n + length slices), slept @ slices) \<and>
    (\<forall>j < length slices. \<not> f (n + j)) \<and> (\<forall>x \<in> set slices. 0 < x \<and> x \<le> POLL_INTERVAL) \<and> length slices \<le> nat \<lceil>20 * r\<rceil>"
  using assms
proof (induction "nat \<lceil>20 * r\<rceil>" arbitrary: r n slept rule: less_induct)
  case less
  show ?case
  proof (cases "0 < r \<and> \<not> f n")
    case False
    then show ?thesis by (intro exI [of _ "[]"]) (subst sleep_slices.simps, auto)
  next
    case True
    let ?s = "min r POLL_INTERVAL" and ?r = "max (fsub r (min r POLL_INTERVAL)) 0"
    note next' = slice_progress [OF conjunct1 [OF True] less.prems]
    have "20 * ?r \<le> 20 * r - 1 \<or> ?r = 0" using next'(3) by linarith
    then have less': "nat \<lceil>20 * ?r\<rceil> < nat \<lceil>20 * r\<rceil>" using True by (auto simp: less_ceiling_iff ceiling_le_iff) linarith+
    then obtain slices where s: "sleep_slices f POLL_INTERVAL (Suc n) ?r (slept @ [?s]) =
        Some (f (Suc n + length slices), Suc (Suc n + length slices), (slept @ [?s]) @ slices)"
      "\<forall>j < length slices. \<not> f (Suc n + j)" "\<forall>x \<in> set slices. 0 < x \<and> x \<le> POLL_INTERVAL" "length slices \<le> nat \<lceil>20 * ?r\<rceil>"
      using less.hyps [OF less', of "Suc n" "slept @ [?s]"] next'(2) less.prems by auto
    have "sleep_slices f POLL_INTERVAL n r slept = sleep_slices f POLL_INTERVAL (Suc n) ?r (slept @ [?s])"
      using True by (subst sleep_slices.simps) (simp add: Let_def)
    moreover have "\<not> f (n + j)" if "j < length (?s # slices)" for j
      using that True s(2) by (cases j) auto
    moreover have "0 < ?s" "?s \<le> POLL_INTERVAL" using True poll_interval(1) by auto
    moreover have "length (?s # slices) \<le> nat \<lceil>20 * r\<rceil>" using s(4) less' by (simp only: length_Cons)
    ultimately show ?thesis
      using s(1,3) by (intro exI [of _ "?s # slices"]) auto
  qed
qed

text \<open>The first \<open>n\<close> polls were all negative; or the last of them was the first positive one.\<close>

definition unstopped :: "(nat \<Rightarrow> bool) option \<Rightarrow> nat \<Rightarrow> bool" where
  "unstopped stop n = (\<forall>f. stop = Some f \<longrightarrow> (\<forall>k < n. \<not> f k))"

definition first_stop :: "(nat \<Rightarrow> bool) option \<Rightarrow> nat \<Rightarrow> bool" where
  "first_stop stop n = (\<exists>f m. stop = Some f \<and> n = Suc m \<and> f m \<and> (\<forall>k < m. \<not> f k))"

lemma never_stopped: "\<forall>f. stop = Some f \<longrightarrow> (\<forall>k. \<not> f k) \<Longrightarrow> unstopped stop n \<and> \<not> first_stop stop n"
  by (auto simp: unstopped_def first_stop_def)

lemma sleep_returns:
  assumes "duration \<le> 4194304" "unstopped stop n"
  shows "\<exists>stopped n' slices. sleep_until_next_cycle duration stop POLL_INTERVAL n = Some (stopped, n', slices) \<and>
    (if stopped then first_stop stop n' else unstopped stop n')"
proof (cases stop)
  case (Some f)
  have "max duration 0 \<le> 4194304" using assms(1) by simp
  from sleep_slices_returns [OF this, of f n "[]"] obtain slices where s:
    "sleep_slices f POLL_INTERVAL n (max duration 0) [] = Some (f (n + length slices), Suc (n + length slices), slices)"
    "\<forall>j < length slices. \<not> f (n + j)" by auto
  have "\<not> f k" if "k < n + length slices" for k
    using assms(2) s(2) [rule_format, of "k - n"] that by (cases "k < n") (auto simp: unstopped_def Some)
  then have "if f (n + length slices) then first_stop stop (Suc (n + length slices)) else unstopped stop (Suc (n + length slices))"
    by (auto simp: first_stop_def unstopped_def Some less_Suc_eq)
  then show ?thesis using s(1) by (auto simp: sleep_until_next_cycle_def Some Let_def)
qed (use assms(2) in \<open>auto simp: sleep_until_next_cycle_def Let_def\<close>)

section \<open>Laws of the loop\<close>

text \<open>A payload says what the runtime is doing, and after how many cycles.\<close>

definition runtime_report :: "string \<Rightarrow> nat \<Rightarrow> pyval \<Rightarrow> bool" where
  "runtime_report status n p = (\<exists>r. sub p ''runtime'' = Inr r \<and> sub r ''status'' = Inr (PStr status) \<and>
     sub r ''completed_cycles'' = Inr (PInt (int n)))"

definition logged :: "pyval list \<Rightarrow> pyval option \<Rightarrow> bool" where
  "logged history latest = (history = [] \<and> latest = None \<or> history \<noteq> [] \<and> (\<exists>i. sub (last history) ''cycle_index'' = Inr i) \<and>
     (\<exists>p d. latest = Some p \<and> pget_or p ''fingerprint_lifecycle'' (PDict []) = Inr (PDict d)))"

lemma payload_total:
  assumes "logged history latest"
  shows "\<exists>p. build_runtime_log_payload c status history latest = Inr p \<and> runtime_report status (length history) p"
proof -
  have "\<exists>d. (case latest of None \<Rightarrow> Inr (PDict []) | Some p \<Rightarrow> pget_or p ''fingerprint_lifecycle'' (PDict [])) = Inr (PDict d)"
    using assms by (auto simp: logged_def)
  moreover have "\<exists>i. (if history = [] then Inr (PInt 0) else sub (last history) ''cycle_index'') = Inr i"
    using assms by (auto simp: logged_def)
  ultimately show ?thesis
    by (elim exE) (simp add: build_runtime_log_payload_def runtime_report_def pget.simps(1))
qed

lemma payload_stage:
  assumes "build_detailed_log_payload c cy cadence edges = Inr p"
  shows "\<exists>d. pget_or p ''fingerprint_lifecycle'' (PDict []) = Inr (PDict d)"
  using assms by (auto simp: build_detailed_log_payload_def attempt_eq_Inr Let_def lifecycle_stage_to_dict_def)

lemma history_entry:
  assumes "build_cycle_history_entry cy cadence = Inr entry"
  shows "sub entry ''cycle_index'' = Inr (PInt (cy_cycle_index cy))"
    "sub entry ''persistence_status'' = sub (oc_persistence_stage (cy_outcome cy)) ''status''"
    "sub entry ''scenario_control'' = Inr (scenario_stage_to_dict (cy_scenario_control_stage cy))"
  using assms by (auto simp: build_cycle_history_entry_def attempt_eq_Inr Let_def)

lemma cadence_line_total: "\<exists>line. format_cadence_stage_compact (build_cadence_stage i a b d e) = Inr line"
  by (simp add: format_cadence_stage_compact_def build_cadence_stage_def shown_def)

text \<open>The reports of a reportable cycle succeed.\<close>

lemma report_turn_spec:
  assumes "reportable cy" "cadence_of le c (lp_cycle_index st) = (elapsed, next_sleep, continue)"
  obtains p st' entry where "report_turn le c cy st = (Inr (p, next_sleep, continue), st')"
    "lp_runtime st' = lp_runtime st" "lp_cycle_index st' = lp_cycle_index st" "lp_polls st' = lp_polls st"
    "build_cycle_history_entry cy (build_cadence_stage (lp_cycle_index st) (demo_cycle_interval_seconds c) elapsed next_sleep continue) = Inr entry"
    "lp_history st' = lp_history st @ [entry]" "logged (lp_history st') (lp_latest st')" "lp_log_file st' = Some p"
    "lp_observed st' = lp_observed st @ [p]"
    "runtime_report (if continue then ''active'' else ''completed'') (length (lp_history st')) p"
proof -
  let ?cadence = "build_cadence_stage (lp_cycle_index st) (demo_cycle_interval_seconds c) elapsed next_sleep continue"
  let ?edges = "nw_edges (lv_network (ru_live (lp_runtime st)))"
  obtain version height where n: "node_version (cy_node_status cy) = Inr version" "node_height (cy_node_status cy) = Inr height"
    using assms(1) by (auto simp: reportable_def)
  obtain comparison persistence status key where s: "format_comparison_stage_compact (oc_comparison_stage (cy_outcome cy)) = Inr comparison"
    "format_persistence_stage_compact (oc_persistence_stage (cy_outcome cy)) = Inr persistence"
    "sub (oc_persistence_stage (cy_outcome cy)) ''status'' = Inr (PStr status)" "pget (oc_persistence_stage (cy_outcome cy)) ''artifact_key'' = Inr key"
    using assms(1) by (auto simp: reportable_def printable_def)
  obtain latest where l: "build_detailed_log_payload c cy ?cadence ?edges = Inr latest"
    by (simp add: build_detailed_log_payload_def n Let_def)
  obtain entry where e: "build_cycle_history_entry cy ?cadence = Inr entry"
    by (simp add: build_cycle_history_entry_def s Let_def)
  obtain lines where o: "print_cycle_report cy ?cadence ?edges (le_log_path le) = Inr lines"
    using cadence_line_total [of "lp_cycle_index st" "demo_cycle_interval_seconds c" elapsed next_sleep continue]
    by (auto simp: print_cycle_report_def n s Let_def)
  have logged: "logged (lp_history st @ [entry]) (Some latest)"
    using payload_stage [OF l] history_entry(1) [OF e] by (auto simp: logged_def)
  from payload_total [OF this] obtain p where p: "build_runtime_log_payload c (if continue then ''active'' else ''completed'')
      (lp_history st @ [entry]) (Some latest) = Inr p"
    "runtime_report (if continue then ''active'' else ''completed'') (length (lp_history st @ [entry])) p"
    by blast
  let ?st = "st\<lparr>lp_latest := Some latest, lp_history := lp_history st @ [entry], lp_log_file := Some p, lp_observed := lp_observed st @ [p],
    lp_printed := lp_printed st @ lines\<rparr>"
  have "report_turn le c cy st = (Inr (p, next_sleep, continue), ?st)"
    unfolding report_turn_def assms(2) prod.case Let_def keeping_def l e sum.case
    by (simp add: p(1) o observe_def write_log_def)
  then show ?thesis by (rule that) (use e logged p(2) in simp_all)
qed

text \<open>What the environment of a whole run is documented to do, cycle by cycle.\<close>

definition run_ok :: "('s \<Rightarrow> string \<Rightarrow> blob option) \<Rightarrow> ('s, 'l, 'm) runtime_env \<Rightarrow> loop_env \<Rightarrow> string \<Rightarrow> bool" where
  "run_ok contents env le topic = (\<forall>k. environment_ok contents env (le_config le k) \<and> mqtt_topic (le_config le k) = topic \<and>
     demo_cycle_interval_seconds (le_config le k) \<le> 4194304 \<and>
     (\<exists>stage. resolve_runtime_scenario_control_stage (le_config le k) (int k + 1) = Inr stage \<and>
        (active_scenario stage = ''scada_divergence'' \<longrightarrow> offset_caught (le_config le k))))"

text \<open>The entry of the cycle after \<open>k\<close> others says what its scenario decided.\<close>

definition entry_ok :: "loop_env \<Rightarrow> nat \<Rightarrow> pyval \<Rightarrow> bool" where
  "entry_ok le k entry = (\<exists>stage. resolve_runtime_scenario_control_stage (le_config le k) (int k + 1) = Inr stage \<and>
     sub entry ''cycle_index'' = Inr (PInt (int k + 1)) \<and> sub entry ''scenario_control'' = Inr (scenario_stage_to_dict stage) \<and>
     (sub entry ''persistence_status'' = Inr (PStr ''persisted'') \<longleftrightarrow> active_scenario stage \<notin> {''quorum_loss'', ''scada_divergence''}))"

definition loop_inv :: "('s \<Rightarrow> string \<Rightarrow> blob option) \<Rightarrow> 'm keras \<Rightarrow> loop_env \<Rightarrow> ('s, 'l) loop_state \<Rightarrow> bool" where
  "loop_inv contents kr le st = (runtime_inv contents kr (le_config le 0) (lp_runtime st) \<and>
     lp_cycle_index st = int (length (lp_history st)) \<and> logged (lp_history st) (lp_latest st) \<and>
     (\<forall>k < length (lp_history st). entry_ok le k (lp_history st ! k)))"

lemma runtime_inv_topic: "mqtt_topic c = mqtt_topic c' \<Longrightarrow> runtime_inv contents kr c r = runtime_inv contents kr c' r"
  by (simp add: runtime_inv_def)

lemma persistence_status: "(sub p ''status'' = Inr v) = (pget p ''status'' = Inr v)" if "sub p ''status'' = Inr (PStr x)"
  using that by (cases p) (auto simp: sub.simps(1) pget.simps(1) getitem_Inr)

text \<open>The sleep after a cycle is not longer than the interval.\<close>

lemma cadence_bounds:
  assumes "cadence_of le c i = (elapsed, next_sleep, continue)" "demo_cycle_interval_seconds c \<le> 4194304"
  shows "next_sleep \<le> 4194304" "continue \<longleftrightarrow> demo_max_cycles c \<le> 0 \<or> i < demo_max_cycles c"
proof -
  have e: "0 \<le> elapsed" and n: "next_sleep = 0 \<or> next_sleep = max (fsub (demo_cycle_interval_seconds c) elapsed) 0"
    using assms(1) by (auto simp: cadence_of_def Let_def split: if_splits)
  have "fl (demo_cycle_interval_seconds c - elapsed) \<le> fl 4194304" by (rule fl.mono) (use e assms(2) in linarith)
  also have "\<dots> = 4194304" by (rule fl.numeral_exact) simp
  finally show "next_sleep \<le> 4194304" using n by (auto simp: fsub_def)
  show "continue \<longleftrightarrow> demo_max_cycles c \<le> 0 \<or> i < demo_max_cycles c" using assms(1) by (auto simp: cadence_of_def Let_def)
qed

lemma turn_runs:
  assumes ok: "run_ok contents env le topic" and inv: "loop_inv contents (en_keras env) le st"
    and c: "c = le_config le (length (lp_history st))"
  obtains p next_sleep st' where
    "loop_turn env le c st = (Inr (p, next_sleep, demo_max_cycles c \<le> 0 \<or> lp_cycle_index st + 1 < demo_max_cycles c), st')"
    "loop_inv contents (en_keras env) le st'" "length (lp_history st') = Suc (length (lp_history st))" "next_sleep \<le> 4194304"
    "lp_log_file st' = Some p" "lp_observed st' = lp_observed st @ [p]"
    "runtime_report (if demo_max_cycles c \<le> 0 \<or> lp_cycle_index st + 1 < demo_max_cycles c then ''active'' else ''completed'')
       (Suc (length (lp_history st))) p" "lp_polls st' = lp_polls st"
proof -
  let ?n = "length (lp_history st)" and ?i = "lp_cycle_index st + 1"
  have i: "?i = int ?n + 1" using inv by (simp add: loop_inv_def)
  obtain stage where stage: "resolve_runtime_scenario_control_stage c ?i = Inr stage"
    "active_scenario stage = ''scada_divergence'' \<longrightarrow> offset_caught c"
    using ok unfolding run_ok_def c i by blast
  have env: "environment_ok contents env c" "mqtt_topic c = mqtt_topic (le_config le 0)" "demo_cycle_interval_seconds c \<le> 4194304"
    using ok unfolding run_ok_def c by metis+
  have rinv: "runtime_inv contents (en_keras env) c (lp_runtime st)"
    using inv runtime_inv_topic [OF env(2), of contents "en_keras env" "lp_runtime st"] by (simp add: loop_inv_def)
  obtain cy r' where cy: "execute_demo_cycle env ?i c (lp_runtime st) = (Inr cy, r')" "runtime_inv contents (en_keras env) c r'"
    "cy_cycle_index cy = ?i" "cy_scenario_control_stage cy = stage" "cycle_decided contents stage cy (ru_store (lp_runtime st)) (ru_store r')"
    "models (contents (ru_store (lp_runtime st))) \<noteq> {} \<longrightarrow> models (contents (ru_store r')) = models (contents (ru_store (lp_runtime st)))"
    "reportable cy"
    by (rule cycle_runs [OF env(1) rinv stage])
  let ?st = "st\<lparr>lp_cycle_index := ?i, lp_runtime := r'\<rparr>"
  obtain elapsed next_sleep continue where cad: "cadence_of le c (lp_cycle_index ?st) = (elapsed, next_sleep, continue)" by (rule prod_cases3)
  note bounds = cadence_bounds [OF cad env(3)]
  let ?cadence = "build_cadence_stage (lp_cycle_index ?st) (demo_cycle_interval_seconds c) elapsed next_sleep continue"
  obtain p st' entry where t: "report_turn le c cy ?st = (Inr (p, next_sleep, continue), st')"
    "lp_runtime st' = lp_runtime ?st" "lp_cycle_index st' = lp_cycle_index ?st" "lp_polls st' = lp_polls ?st"
    "build_cycle_history_entry cy ?cadence = Inr entry"
    "lp_history st' = lp_history ?st @ [entry]" "logged (lp_history st') (lp_latest st')" "lp_log_file st' = Some p"
    "lp_observed st' = lp_observed ?st @ [p]" "runtime_report (if continue then ''active'' else ''completed'') (length (lp_history st')) p"
    by (rule report_turn_spec [OF cy(7) cad])
  have cont: "continue = (demo_max_cycles c \<le> 0 \<or> ?i < demo_max_cycles c)" using bounds(2) by simp
  obtain status where status: "sub (oc_persistence_stage (cy_outcome cy)) ''status'' = Inr (PStr status)"
    using cy(7) by (auto simp: reportable_def printable_def)
  have "is_persisted (cy_outcome cy) \<longleftrightarrow> active_scenario stage \<notin> {''quorum_loss'', ''scada_divergence''}"
    using cy(5) unfolding cycle_decided_def by blast
  then have "entry_ok le ?n entry"
    using history_entry [OF t(5)] stage(1) status
    unfolding entry_ok_def c i cy(3,4) is_persisted_def persistence_status [OF status, symmetric] by (auto simp: i)
  then have "entry_ok le k (lp_history st' ! k)" if "k < length (lp_history st')" for k
    using inv that by (auto simp: t(6) loop_inv_def nth_append less_Suc_eq)
  then have inv': "loop_inv contents (en_keras env) le st'"
    using cy(2) runtime_inv_topic [OF env(2), of contents "en_keras env" r'] t(2,3,7) i by (simp add: loop_inv_def t(6))
  have "loop_turn env le c st = (Inr (p, next_sleep, continue), st')"
    using t(1) by (simp add: loop_turn_def cy(1) Let_def)
  then show ?thesis
    using inv' bounds(1) t(4,8,9,10) by (intro that [of p next_sleep st']) (simp_all add: cont t(6))
qed

text \<open>How a bounded loop ended.\<close>

definition stopped_by :: "loop_env \<Rightarrow> int \<Rightarrow> string \<Rightarrow> ('s, 'l) loop_state \<Rightarrow> bool" where
  "stopped_by le N status st =
     (status = ''completed'' \<and> int (length (lp_history st)) = N \<and> unstopped (le_stop le) (lp_polls st) \<or>
      status = ''stopped_operator'' \<and> int (length (lp_history st)) < N \<and> first_stop (le_stop le) (lp_polls st))"

lemma operator_stop:
  assumes "loop_inv contents kr le st" "first_stop (le_stop le) (lp_polls st)" "int (length (lp_history st)) < N"
  shows "\<exists>p st'. stop_by_operator c st = (Inr p, st') \<and> loop_inv contents kr le st' \<and> lp_log_file st' = Some p \<and>
    (\<exists>status. stopped_by le N status st' \<and> runtime_report status (length (lp_history st')) p)"
proof -
  have "logged (lp_history st) (lp_latest st)" using assms(1) by (simp add: loop_inv_def)
  from payload_total [OF this] obtain p where "build_runtime_log_payload c ''stopped_operator'' (lp_history st) (lp_latest st) = Inr p"
    "runtime_report ''stopped_operator'' (length (lp_history st)) p" by blast
  then show ?thesis
    using assms by (intro exI [of _ p] exI [of _ "observe p (write_log p st)"])
      (auto simp: stop_by_operator_def keeping_def observe_def write_log_def loop_inv_def stopped_by_def)
qed

lemma poll_inv:
  assumes "poll_stop le st0 = (stop, st)" "loop_inv contents kr le st0" "unstopped (le_stop le) (lp_polls st0)"
  shows "loop_inv contents kr le st" "lp_history st = lp_history st0" "lp_cycle_index st = lp_cycle_index st0"
    "if stop then first_stop (le_stop le) (lp_polls st) else unstopped (le_stop le) (lp_polls st)"
  using assms by (auto simp: poll_stop_def loop_inv_def first_stop_def unstopped_def less_Suc_eq split: option.splits)

text \<open>A bounded loop returns after at most that many cycles, and after exactly as many unless it is stopped.\<close>

lemma loop_returns:
  assumes ok: "run_ok contents env le topic" and max: "\<And>k. demo_max_cycles (le_config le k) = N"
    and "loop_inv contents (en_keras env) le st0" "lp_cycle_index st0 < N" "0 < N" "unstopped (le_stop le) (lp_polls st0)"
  shows "\<exists>p st'. run_loop env le st0 = Some (Inr p, st') \<and> loop_inv contents (en_keras env) le st' \<and> lp_log_file st' = Some p \<and>
    (\<exists>status. stopped_by le N status st' \<and> runtime_report status (length (lp_history st')) p)"
  using assms(3-)
proof (induction "nat (N - lp_cycle_index st0)" arbitrary: st0 rule: less_induct)
  case less
  let ?c = "le_config le (nat (lp_cycle_index st0))"
  obtain stop st where poll: "poll_stop le st0 = (stop, st)" by (cases "poll_stop le st0")
  note p = poll_inv [OF poll less.prems(1,4)]
  have len: "lp_cycle_index st = int (length (lp_history st))" using p(1) by (simp add: loop_inv_def)
  show ?case
  proof (cases stop)
    case True
    with p(4) have "first_stop (le_stop le) (lp_polls st)" by simp
    from operator_stop [OF p(1) this, of N ?c] less.prems(2) len p(3) True show ?thesis
      by (subst run_loop.simps) (simp add: poll Let_def)
  next
    case go: False
    have c: "?c = le_config le (length (lp_history st))" using len p(3) by simp
    obtain q next_sleep st1 where t: "loop_turn env le ?c st = (Inr (q, next_sleep, demo_max_cycles ?c \<le> 0 \<or> lp_cycle_index st + 1 < demo_max_cycles ?c), st1)"
      "loop_inv contents (en_keras env) le st1" "length (lp_history st1) = Suc (length (lp_history st))" "next_sleep \<le> 4194304"
      "lp_log_file st1 = Some q" "lp_observed st1 = lp_observed st @ [q]"
      "runtime_report (if demo_max_cycles ?c \<le> 0 \<or> lp_cycle_index st + 1 < demo_max_cycles ?c then ''active'' else ''completed'')
         (Suc (length (lp_history st))) q" "lp_polls st1 = lp_polls st"
      by (rule turn_runs [OF ok p(1) c])
    have len1: "lp_cycle_index st1 = lp_cycle_index st + 1" using t(2,3) len by (simp add: loop_inv_def)
    have polls: "unstopped (le_stop le) (lp_polls st1)" using p(4) go t(8) by simp
    note step = run_loop.simps [of env le st0]
    show ?thesis
    proof (cases "lp_cycle_index st + 1 < N")
      case False
      then have "run_loop env le st0 = Some (Inr q, st1)"
        using t(1) less.prems(2,3) go p(3) by (subst step) (simp add: poll Let_def max)
      then show ?thesis
        using t False less.prems(2,3) p(3) len polls by (intro exI [of _ q] exI [of _ st1]) (auto simp: max stopped_by_def)
    next
      case True
      obtain stopped n slices where sl: "sleep_until_next_cycle next_sleep (le_stop le) POLL_INTERVAL (lp_polls st1) = Some (stopped, n, slices)"
        "if stopped then first_stop (le_stop le) n else unstopped (le_stop le) n"
        using sleep_returns [OF t(4) polls] by blast
      let ?st2 = "st1\<lparr>lp_polls := n\<rparr>"
      have inv2: "loop_inv contents (en_keras env) le ?st2" using t(2) by (simp add: loop_inv_def)
      have run: "run_loop env le st0 = (if stopped then Some (stop_by_operator ?c ?st2) else run_loop env le ?st2)"
        using t(1) less.prems(2,3) go p(3) True by (subst step) (simp add: poll Let_def max sl(1))
      show ?thesis
      proof (cases stopped)
        case True
        with sl(2) have "first_stop (le_stop le) (lp_polls ?st2)" by simp
        from operator_stop [OF inv2 this, of N ?c] show ?thesis
          using True \<open>lp_cycle_index st + 1 < N\<close> len t(3) by (simp add: run)
      next
        case False
        have "nat (N - lp_cycle_index ?st2) < nat (N - lp_cycle_index st0)" using len1 p(3) less.prems(2) by simp
        from less.hyps [OF this inv2] True len1 less.prems(3) sl(2) show ?thesis using False by (simp add: run)
      qed
    qed
  qed
qed

lemma start_inv:
  assumes "runtime_inv contents kr (le_config le 0) r"
  shows "loop_inv contents kr le (start_loop r)"
  using assms by (simp add: loop_inv_def start_loop_def logged_def)

text \<open>A loop that is neither bounded nor stopped goes on for ever.\<close>

lemma loop_forever:
  assumes ok: "run_ok contents env le topic" and max: "\<And>k. demo_max_cycles (le_config le k) \<le> 0"
    and never: "\<forall>f. le_stop le = Some f \<longrightarrow> (\<forall>k. \<not> f k)" and inv: "loop_inv contents (en_keras env) le st"
  shows "run_loop env le st = None"
proof (rule ccontr)
  assume "run_loop env le st \<noteq> None"
  then obtain y where "run_loop env le st = Some y" by blast
  then show False
    using inv ok max never
  proof (induction rule: run_loop.raw_induct [rotated, consumes 1])
    case (1 run env le st0 y)
    note inv = 1(3) and ok = 1(4) and max = 1(5) and never = 1(6)
    let ?c = "le_config le (nat (lp_cycle_index st0))"
    obtain stop st where poll: "poll_stop le st0 = (stop, st)" by (cases "poll_stop le st0")
    note p = poll_inv [OF poll inv conjunct1 [OF never_stopped [OF never]]]
    have go: "\<not> stop" using p(4) never_stopped [OF never] by auto
    have c: "?c = le_config le (length (lp_history st))" using p(1,3) by (simp add: loop_inv_def)
    obtain q next_sleep st1 where t: "loop_turn env le ?c st = (Inr (q, next_sleep, demo_max_cycles ?c \<le> 0 \<or> lp_cycle_index st + 1 < demo_max_cycles ?c), st1)"
      "loop_inv contents (en_keras env) le st1"
      "next_sleep \<le> 4194304" by (rule turn_runs [OF ok p(1) c])
    obtain n slices where "sleep_until_next_cycle next_sleep (le_stop le) POLL_INTERVAL (lp_polls st1) = Some (False, n, slices)"
      using sleep_returns [OF t(3) conjunct1 [OF never_stopped [OF never]]] never_stopped [OF never] by (metis (full_types))
    then have "run env le (st1\<lparr>lp_polls := n\<rparr>) = Some y"
      using 1(2) t(1) max [of "nat (lp_cycle_index st0)"] go by (simp add: poll Let_def p(3))
    moreover have "loop_inv contents (en_keras env) le (st1\<lparr>lp_polls := n\<rparr>)" using t(2) by (simp add: loop_inv_def)
    ultimately show ?case using 1(1) ok max never by blast
  qed
qed

section \<open>Properties\<close>

text \<open>
  C4. A bounded run ends. With a positive maximum number of cycles, in an environment in which
  every cycle completes (\<open>run_ok\<close>, that of a live cycle with sleeps of at most \<open>2 ^ 22\<close> seconds), from a
  state of the runtime a cycle can start from, and whatever the stop requests, the loop returns: after exactly that
  many cycles with the status of a completed run, and then no poll asked it to stop, or earlier
  as stopped by the operator, and then its last poll was the first that asked it to.
  The payload it returns is what the log file holds and counts the cycles of the history, the
  entry of every cycle says what its scenario decided, and the runtime and its store are sound.
\<close>

theorem runtime_terminates:
  assumes "run_ok contents env le topic" "\<And>k. demo_max_cycles (le_config le k) = N" "0 < N"
    and "runtime_inv contents (en_keras env) (le_config le 0) r"
  shows "\<exists>p st status. run_autonomous_demo_loop env le r = Some (Inr p, st) \<and> lp_log_file st = Some p \<and>
    runtime_report status (length (lp_history st)) p \<and>
    (status = ''completed'' \<and> int (length (lp_history st)) = N \<and> (\<forall>f. le_stop le = Some f \<longrightarrow> (\<forall>k < lp_polls st. \<not> f k)) \<or>
     status = ''stopped_operator'' \<and> int (length (lp_history st)) < N \<and>
       (\<exists>f m. le_stop le = Some f \<and> lp_polls st = Suc m \<and> f m \<and> (\<forall>k < m. \<not> f k))) \<and>
    (\<forall>k < length (lp_history st). entry_ok le k (lp_history st ! k)) \<and>
    runtime_inv contents (en_keras env) (le_config le 0) (lp_runtime st)"
proof -
  have s: "lp_cycle_index (start_loop r) < N" "unstopped (le_stop le) (lp_polls (start_loop r))"
    using assms(3) by (simp_all add: start_loop_def unstopped_def)
  from loop_returns [OF assms(1,2) start_inv [OF assms(4)] s(1) assms(3) s(2)] obtain p st status where
    "run_loop env le (start_loop r) = Some (Inr p, st)" "loop_inv contents (en_keras env) le st" "lp_log_file st = Some p"
    "stopped_by le N status st" "runtime_report status (length (lp_history st)) p"
    by (elim exE conjE)
  then show ?thesis
    unfolding run_autonomous_demo_loop_def loop_inv_def stopped_by_def unstopped_def first_stop_def by (intro exI conjI) (assumption | blast)+
qed

definition sample_loop :: "int \<Rightarrow> (nat \<Rightarrow> bool) option \<Rightarrow> loop_env" where
  "sample_loop n stop = \<lparr>le_config = (\<lambda>_. default_config\<lparr>mqtt_transport := ''passive'', demo_max_cycles := n, demo_scenario_name := []\<rparr>), le_stop = stop,
     le_monotonic = (\<lambda>k. of_nat k), le_log_path = ''demo.log''\<rparr>"

lemma sample_run_ok: "run_ok map_of sample_env (sample_loop n stop) ''edges/observations''"
proof -
  let ?c = "default_config\<lparr>mqtt_transport := ''passive'', demo_max_cycles := n, demo_scenario_name := []\<rparr>"
  have "resolve_runtime_scenario_control_stage ?c i = Inr (normal_stage ''normal'' 1 True)" for i
    by (simp add: resolve_runtime_scenario_control_stage_def resolve_configured_scenario_def default_config_def strip_def)
  then have "\<exists>stage. resolve_runtime_scenario_control_stage ?c i = Inr stage \<and>
      (active_scenario stage = ''scada_divergence'' \<longrightarrow> offset_caught ?c)" for i
    by (intro exI [of _ "normal_stage ''normal'' 1 True"]) (simp add: normal_stage_def)
  moreover have "mqtt_topic ?c = ''edges/observations''" "demo_cycle_interval_seconds ?c \<le> 4194304"
    by (simp_all add: default_config_def)
  ultimately show ?thesis
    using sample_env_ok [of "[]" n] by (simp add: run_ok_def sample_loop_def)
qed

theorem runtime_terminates_witness:
  "\<exists>p st. run_autonomous_demo_loop sample_env (sample_loop 2 None) sample_runtime = Some (Inr p, st) \<and>
    length (lp_history st) = 2 \<and> runtime_report ''completed'' 2 p"
proof -
  let ?le = "sample_loop 2 None"
  have c: "demo_max_cycles (le_config ?le k) = 2" for k by (simp add: sample_loop_def)
  have r: "runtime_inv map_of (en_keras sample_env) (le_config ?le 0) sample_runtime"
    using sample_runtime_inv by (simp add: sample_loop_def)
  from runtime_terminates [OF sample_run_ok c zero_less_numeral r] obtain p st status where
    "run_autonomous_demo_loop sample_env ?le sample_runtime = Some (Inr p, st)"
    "runtime_report status (length (lp_history st)) p"
    "status = ''completed'' \<and> int (length (lp_history st)) = 2 \<and> (\<forall>f. le_stop ?le = Some f \<longrightarrow> (\<forall>k < lp_polls st. \<not> f k)) \<or>
     status = ''stopped_operator'' \<and> int (length (lp_history st)) < 2 \<and>
       (\<exists>f m. le_stop ?le = Some f \<and> lp_polls st = Suc m \<and> f m \<and> (\<forall>k < m. \<not> f k))"
    by (elim exE conjE) (rule that)
  then show ?thesis by (intro exI [of _ p] exI [of _ st]) (auto simp: sample_loop_def)
qed

text \<open>
  C38. The sleep between cycles ends, for up to 48 days, although the remaining time is a float
  that shrinks by rounded steps. It polls before every slice and once at the end, sleeps no
  slice longer than the poll interval, and stops at the first request: all polls before the
  last one were negative, and the last one is the answer.
\<close>

theorem sleep_ends:
  assumes "duration \<le> 4194304"
  shows "\<exists>slices. sleep_until_next_cycle duration (Some f) POLL_INTERVAL n = Some (f (n + length slices), Suc (n + length slices), slices) \<and>
    (\<forall>j < length slices. \<not> f (n + j)) \<and> (\<forall>x \<in> set slices. 0 < x \<and> x \<le> POLL_INTERVAL) \<and>
    length slices \<le> nat \<lceil>20 * max duration 0\<rceil>"
proof -
  have "max duration 0 \<le> 4194304" using assms by simp
  from sleep_slices_returns [OF this, of f n "[]"] show ?thesis by (simp add: sleep_until_next_cycle_def Let_def)
qed

theorem sleep_ends_witness:
  "\<exists>slices. sleep_until_next_cycle 30 (Some (\<lambda>k. k = 5)) POLL_INTERVAL 0 = Some (length slices = 5, Suc (length slices), slices) \<and>
    length slices \<le> 600"
  using sleep_ends [of 30 "\<lambda>k. k = 5" 0] by auto

text \<open>
  C19. A run without a bound never ends by itself: in the same environment, with no maximum number of cycles, and whether
  nothing can ask it to stop or the stop checker never does, no cycle fails and the loop does
  not return.
\<close>

theorem runtime_goes_on:
  assumes "run_ok contents env le topic" "\<And>k. demo_max_cycles (le_config le k) \<le> 0" "\<forall>f. le_stop le = Some f \<longrightarrow> (\<forall>k. \<not> f k)"
    and "runtime_inv contents (en_keras env) (le_config le 0) r"
  shows "run_autonomous_demo_loop env le r = None"
  unfolding run_autonomous_demo_loop_def by (rule loop_forever [OF assms(1-3) start_inv [OF assms(4)]])

theorem runtime_goes_on_witness:
  "run_autonomous_demo_loop sample_env (sample_loop 0 (Some (\<lambda>_. False))) sample_runtime = None"
  by (rule runtime_goes_on [OF sample_run_ok])
    (use sample_runtime_inv in \<open>simp_all add: sample_loop_def\<close>)

text \<open>
  The log keeps its shape: a turn of the loop, from a well-formed state, adds one entry to the
  history, numbered with its cycle and labelled with its scenario and its persistence, writes
  and shows a payload with a status, the number of cycles and a fingerprint section, and leaves
  a well-formed state.
\<close>

theorem turn_well_formed:
  assumes "run_ok contents env le topic" "loop_inv contents (en_keras env) le st" "c = le_config le (length (lp_history st))"
  shows "\<exists>p next_sleep continue st'. loop_turn env le c st = (Inr (p, next_sleep, continue), st') \<and> loop_inv contents (en_keras env) le st' \<and>
    length (lp_history st') = Suc (length (lp_history st)) \<and> entry_ok le (length (lp_history st)) (last (lp_history st')) \<and>
    lp_log_file st' = Some p \<and> lp_observed st' = lp_observed st @ [p] \<and>
    runtime_report (if continue then ''active'' else ''completed'') (Suc (length (lp_history st))) p \<and>
    (continue \<longleftrightarrow> demo_max_cycles c \<le> 0 \<or> lp_cycle_index st + 1 < demo_max_cycles c)"
proof -
  let ?go = "demo_max_cycles c \<le> 0 \<or> lp_cycle_index st + 1 < demo_max_cycles c"
  obtain p next_sleep st' where t: "loop_turn env le c st = (Inr (p, next_sleep, ?go), st')"
    "loop_inv contents (en_keras env) le st'" "length (lp_history st') = Suc (length (lp_history st))" "next_sleep \<le> 4194304"
    "lp_log_file st' = Some p" "lp_observed st' = lp_observed st @ [p]"
    "runtime_report (if ?go then ''active'' else ''completed'') (Suc (length (lp_history st))) p"
    by (rule turn_runs [OF assms])
  have "lp_history st' \<noteq> []" using t(3) by auto
  then have "entry_ok le (length (lp_history st)) (last (lp_history st'))"
    using t(2,3) by (simp add: loop_inv_def last_conv_nth)
  with t show ?thesis
    by (intro exI [of _ p] exI [of _ next_sleep] exI [of _ ?go] exI [of _ st']) blast
qed

theorem turn_well_formed_witness:
  "\<exists>p st. loop_turn sample_env (sample_loop 2 None) (le_config (sample_loop 2 None) 0) (start_loop sample_runtime) = (Inr p, st) \<and>
    entry_ok (sample_loop 2 None) 0 (last (lp_history st))"
proof -
  have "loop_inv map_of (en_keras sample_env) (sample_loop 2 None) (start_loop sample_runtime)"
    by (rule start_inv) (use sample_runtime_inv in \<open>simp add: sample_loop_def\<close>)
  from turn_well_formed [OF sample_run_ok this refl] show ?thesis by (auto simp: start_loop_def)
qed

end
