(* ===== verification/Sha256.thy ===== *)
theory Sha256
  imports CometBft "HOL-Library.Word"
begin

text \<open>
  \<open>hashlib.sha256(data).hexdigest()\<close> on a byte string, written over 32-bit words, and the
  identifiers built from it: \<open>is_immutable_id\<close> (\<open>contracts/scientific_governance.py\<close>) and the
  content identifier of a JSON object. The theorems use of a digest only its form; that two
  contents have different digests is nowhere assumed.
\<close>

section \<open>SHA-256\<close>

unbundle bit_operations_syntax

definition sha_constants :: "32 word list" where
  "sha_constants = [
     0x428a2f98, 0x71374491, 0xb5c0fbcf, 0xe9b5dba5, 0x3956c25b, 0x59f111f1, 0x923f82a4, 0xab1c5ed5,
     0xd807aa98, 0x12835b01, 0x243185be, 0x550c7dc3, 0x72be5d74, 0x80deb1fe, 0x9bdc06a7, 0xc19bf174,
     0xe49b69c1, 0xefbe4786, 0x0fc19dc6, 0x240ca1cc, 0x2de92c6f, 0x4a7484aa, 0x5cb0a9dc, 0x76f988da,
     0x983e5152, 0xa831c66d, 0xb00327c8, 0xbf597fc7, 0xc6e00bf3, 0xd5a79147, 0x06ca6351, 0x14292967,
     0x27b70a85, 0x2e1b2138, 0x4d2c6dfc, 0x53380d13, 0x650a7354, 0x766a0abb, 0x81c2c92e, 0x92722c85,
     0xa2bfe8a1, 0xa81a664b, 0xc24b8b70, 0xc76c51a3, 0xd192e819, 0xd6990624, 0xf40e3585, 0x106aa070,
     0x19a4c116, 0x1e376c08, 0x2748774c, 0x34b0bcb5, 0x391c0cb3, 0x4ed8aa4a, 0x5b9cca4f, 0x682e6ff3,
     0x748f82ee, 0x78a5636f, 0x84c87814, 0x8cc70208, 0x90befffa, 0xa4506ceb, 0xbef9a3f7, 0xc67178f2]"

definition sha_initial :: "32 word list" where
  "sha_initial = [0x6a09e667, 0xbb67ae85, 0x3c6ef372, 0xa54ff53a, 0x510e527f, 0x9b05688c, 0x1f83d9ab, 0x5be0cd19]"

text \<open>The message as bytes: a one bit, zeros up to 56 modulo 64, the length in bits.\<close>

definition sha_pad :: "nat list \<Rightarrow> nat list" where
  "sha_pad bytes = (let n = length bytes in
     bytes @ [128] @ replicate ((119 - n mod 64) mod 64) 0 @ map (\<lambda>i. (8 * n) div 256 ^ i mod 256) (rev [0 ..< 8]))"

fun sha_words :: "nat list \<Rightarrow> 32 word list" where
  "sha_words (a # b # c # d # rest) = of_nat (((a * 256 + b) * 256 + c) * 256 + d) # sha_words rest"
| "sha_words _ = []"

text \<open>The schedule holds the newest word first.\<close>

definition sha_extend :: "32 word list \<Rightarrow> 32 word list" where
  "sha_extend w = (let x = w ! 14; y = w ! 1 in
     (w ! 15 + (word_rotr 7 x XOR word_rotr 18 x XOR drop_bit 3 x) + w ! 6
       + (word_rotr 17 y XOR word_rotr 19 y XOR drop_bit 10 y)) # w)"

definition sha_schedule :: "32 word list \<Rightarrow> 32 word list" where
  "sha_schedule block = rev ((sha_extend ^^ 48) (rev block))"

fun sha_round :: "32 word list \<Rightarrow> 32 word \<times> 32 word \<Rightarrow> 32 word list" where
  "sha_round [a, b, c, d, e, f, g, h] (k, w) =
     (let t1 = h + (word_rotr 6 e XOR word_rotr 11 e XOR word_rotr 25 e) + ((e AND f) XOR (NOT e AND g)) + k + w;
          t2 = (word_rotr 2 a XOR word_rotr 13 a XOR word_rotr 22 a) + ((a AND b) XOR (a AND c) XOR (b AND c)) in
      [t1 + t2, a, b, c, d + t1, e, f, g])"
| "sha_round state _ = state"

definition sha_block :: "32 word list \<Rightarrow> 32 word list \<Rightarrow> 32 word list" where
  "sha_block state block = map2 (+) state (foldl sha_round state (zip sha_constants (sha_schedule block)))"

fun sha_blocks :: "nat \<Rightarrow> 32 word list \<Rightarrow> 32 word list \<Rightarrow> 32 word list" where
  "sha_blocks 0 state _ = state"
| "sha_blocks (Suc n) state ws = sha_blocks n (sha_block state (take 16 ws)) (drop 16 ws)"

definition hex_word :: "32 word \<Rightarrow> string" where
  "hex_word w = map (\<lambda>i. hex_digit (unat w div 16 ^ i mod 16)) (rev [0 ..< 8])"

definition sha256_hexdigest :: "string \<Rightarrow> string" where
  "sha256_hexdigest s = (let ws = sha_words (sha_pad (map of_char s)) in
     concat (map hex_word (sha_blocks (length ws div 16) sha_initial ws)))"

section \<open>Immutable identifiers\<close>

definition hex_lower :: "char set" where
  "hex_lower = set ''0123456789abcdef''"

definition DIGEST_PREFIX :: string where
  "DIGEST_PREFIX = ''sha256:''"

text \<open>The pattern \<open>sha256:[0-9a-f]{64}\<close>.\<close>

definition is_immutable_id :: "string \<Rightarrow> bool" where
  "is_immutable_id s = (take 7 s = DIGEST_PREFIX \<and> length s = 71 \<and> list_all (\<lambda>c. c \<in> hex_lower) (drop 7 s))"

definition sha256_id :: "string \<Rightarrow> string" where
  "sha256_id s = DIGEST_PREFIX @ sha256_hexdigest s"

section \<open>Laws\<close>

lemma hex_digits_lower: "list_all (\<lambda>n. hex_digit n \<in> hex_lower) [0 ..< 16]"
  by (simp add: upt_rec hex_digit_def hex_lower_def char_of_def bit_0)

lemma hex_digit_lower: "n < 16 \<Longrightarrow> hex_digit n \<in> hex_lower"
  using hex_digits_lower by (simp add: list_all_iff)

lemma sha_round_length: "length state = 8 \<Longrightarrow> length (sha_round state kw) = 8"
  by (cases "(state, kw)" rule: sha_round.cases) (simp_all add: Let_def)

lemma sha_rounds_length: "length state = 8 \<Longrightarrow> length (foldl sha_round state kws) = 8"
  by (induction kws arbitrary: state) (simp_all add: sha_round_length)

lemma sha_blocks_length: "length state = 8 \<Longrightarrow> length (sha_blocks n state ws) = 8"
  by (induction n arbitrary: state ws) (simp_all add: sha_block_def sha_rounds_length)

lemma hex_word_form: "length (hex_word w) = 8" "set (hex_word w) \<subseteq> hex_lower"
  by (auto simp: hex_word_def intro: hex_digit_lower)

lemma concat_hex: "length (concat (map hex_word ws)) = 8 * length ws" "set (concat (map hex_word ws)) \<subseteq> hex_lower"
  using hex_word_form(2) by (induction ws) (auto simp: hex_word_form(1))

text \<open>A digest is an identifier.\<close>

lemma sha256_id_immutable [simp]: "is_immutable_id (sha256_id s)"
proof -
  let ?d = "sha256_hexdigest s"
  have "length ?d = 64"
    by (simp add: sha256_hexdigest_def Let_def concat_hex(1) sha_blocks_length sha_initial_def)
  moreover have "set ?d \<subseteq> hex_lower" by (simp only: sha256_hexdigest_def Let_def concat_hex(2))
  ultimately show ?thesis by (auto simp: is_immutable_id_def sha256_id_def DIGEST_PREFIX_def list_all_iff)
qed

end
