(* ===== verification/ConsensusV2Contracts.thy ===== *)
theory ConsensusV2Contracts
  imports Sha256 "HOL-Library.Product_Lexorder"
begin

text \<open>
  The contracts of the second consensus version (\<open>contracts/consensus_v2.py\<close>): a round input
  and a decision are JSON objects, checked field by field and bound to the SHA-256 digest of
  their canonical bytes. Freezing and thawing a payload only changes its mutability, so both
  are the identity here. A text that is not a known token is compared as a value; a list or an
  object in its place cannot be looked up in a set, which raises \<open>TypeError\<close>.
\<close>

section \<open>Field checks\<close>

definition CONSENSUS_V2_SCHEMA :: string where
  "CONSENSUS_V2_SCHEMA = ''Consensus.v2''"

definition opaque :: "string \<Rightarrow> pyval \<Rightarrow> string res" where
  "opaque code v = (case v of PStr s \<Rightarrow> if is_immutable_id s then Inr s else Inl (ConsensusV2Error code)
     | _ \<Rightarrow> Inl (ConsensusV2Error code))"

definition closed_fields :: "pyval \<Rightarrow> string list \<Rightarrow> string \<Rightarrow> (string, pyval) dict res" where
  "closed_fields v names code = (case v of PDict d \<Rightarrow> if set (map fst d) = set names then Inr d else Inl (ConsensusV2Error code)
     | _ \<Rightarrow> Inl (ConsensusV2Error code))"

definition ordered_ids :: "pyval \<Rightarrow> string \<Rightarrow> bool \<Rightarrow> string list res" where
  "ordered_ids v code nonempty = (case v of PList xs \<Rightarrow>
       if nonempty \<and> xs = [] then Inl (ConsensusV2Error code)
       else attempt (mapM (opaque code) xs) (\<lambda>ids.
         if ids \<noteq> sort ids \<or> \<not> distinct ids then Inl (ConsensusV2Error code) else Inr ids)
     | _ \<Rightarrow> Inl (ConsensusV2Error code))"

definition unhashable :: "pyval \<Rightarrow> bool" where
  "unhashable v = (case v of PList _ \<Rightarrow> True | PDict _ \<Rightarrow> True | _ \<Rightarrow> False)"

definition is_text :: "pyval \<Rightarrow> bool" where
  "is_text v = (case v of PStr _ \<Rightarrow> True | _ \<Rightarrow> False)"

definition ascii :: "string \<Rightarrow> bool" where
  "ascii s = list_all (\<lambda>c. of_char c < (128 :: nat)) s"

section \<open>The comparison basis\<close>

definition BASIS_FIELDS :: "string list" where
  "BASIS_FIELDS = [''basis_id'', ''schema_version'', ''canonical_bytes'', ''canonical_bytes_hash'', ''kind'', ''unit'',
     ''profile_ids'', ''uncertainty_parameter_ids'']"

text \<open>The result holds what the callers read of a checked basis: kind, profiles, uncertainty.\<close>

definition check_basis :: "pyval \<Rightarrow> (pyval \<times> string list \<times> string list) res" where
  "check_basis v = attempt (closed_fields v BASIS_FIELDS ''CV2_BASIS_FIELDS'') (\<lambda>d.
     attempt (attempt (getitem d ''basis_id'') (opaque ''CV2_BASIS_ID'')) (\<lambda>_.
     attempt (getitem d ''schema_version'') (\<lambda>version. attempt (getitem d ''canonical_bytes'') (\<lambda>content.
     case (version, content) of (PStr (c # cs), PStr bytes) \<Rightarrow>
       if \<not> ascii bytes then Inl (ConsensusV2Error ''CV2_BASIS_CANONICAL_BYTES'')
       else attempt (getitem d ''canonical_bytes_hash'') (\<lambda>h.
       if h \<noteq> PStr (sha256_id bytes) then Inl (ConsensusV2Error ''CV2_BASIS_HASH'')
       else attempt (getitem d ''kind'') (\<lambda>kind.
       attempt (attempt (getitem d ''profile_ids'') (\<lambda>x. ordered_ids x ''CV2_BASIS_PROFILE'' True)) (\<lambda>profiles.
       attempt (attempt (getitem d ''uncertainty_parameter_ids'') (\<lambda>x. ordered_ids x ''CV2_BASIS_UNCERTAINTY'' False)) (\<lambda>uncertainty.
       attempt (getitem d ''unit'') (\<lambda>unit.
       if unhashable kind then Inl (TypeError ''unhashable type'')
       else if kind \<notin> {PStr ''same_profile_raw_current'', PStr ''dimensionless_profile_residual''}
         then Inl (ConsensusV2Error ''CV2_BASIS_KIND'')
       else if kind = PStr ''same_profile_raw_current'' \<and> (unit \<noteq> PStr ''mA'' \<or> length profiles \<noteq> 1 \<or> uncertainty \<noteq> [])
         then Inl (ConsensusV2Error ''CV2_RAW_CURRENT_CLOSURE'')
       else if kind = PStr ''dimensionless_profile_residual'' \<and> (unit \<noteq> PStr ''one'' \<or> length profiles < 2 \<or> uncertainty = [])
         then Inl (ConsensusV2Error ''CV2_RESIDUAL_CLOSURE'')
       else Inr (kind, profiles, uncertainty))))))
     | _ \<Rightarrow> Inl (ConsensusV2Error ''CV2_BASIS_VERSION'')))))"

section \<open>Round inputs\<close>

record observation_v2 =
  ob_edge_id :: string
  ob_observation_id :: string
  ob_canonical_hash :: string
  ob_profile_id :: string
  ob_source_sequence :: int

definition OBSERVATION_FIELDS :: "string list" where
  "OBSERVATION_FIELDS = [''edge_id'', ''observation_id'', ''observation_canonical_hash'', ''profile_id'', ''source_sequence'',
     ''correlation_id'', ''raw_current_unit'']"

definition check_observation :: "pyval \<Rightarrow> observation_v2 res" where
  "check_observation v = attempt (closed_fields v OBSERVATION_FIELDS ''CV2_OBSERVATION_FIELDS'') (\<lambda>d.
     attempt (attempt (getitem d ''edge_id'') (opaque ''CV2_OBSERVATION_ID'')) (\<lambda>edge.
     attempt (attempt (getitem d ''observation_id'') (opaque ''CV2_OBSERVATION_ID'')) (\<lambda>obs.
     attempt (attempt (getitem d ''profile_id'') (opaque ''CV2_OBSERVATION_ID'')) (\<lambda>profile.
     attempt (attempt (getitem d ''correlation_id'') (opaque ''CV2_OBSERVATION_ID'')) (\<lambda>_.
     attempt (attempt (getitem d ''observation_canonical_hash'') (opaque ''CV2_OBSERVATION_HASH'')) (\<lambda>h.
     attempt (getitem d ''source_sequence'') (\<lambda>sequence. case sequence of
       PInt n \<Rightarrow> if n \<le> 0 then Inl (ConsensusV2Error ''CV2_SOURCE_SEQUENCE'')
         else attempt (getitem d ''raw_current_unit'') (\<lambda>unit.
           if unit \<noteq> PStr ''mA'' then Inl (ConsensusV2Error ''CV2_RAW_CURRENT_UNIT'')
           else Inr \<lparr>ob_edge_id = edge, ob_observation_id = obs, ob_canonical_hash = h, ob_profile_id = profile, ob_source_sequence = n\<rparr>)
     | _ \<Rightarrow> Inl (ConsensusV2Error ''CV2_SOURCE_SEQUENCE''))))))))"

text \<open>The digest of the canonical bytes: the object without its own identifier.\<close>

definition content_bytes :: "string \<Rightarrow> (string, pyval) dict \<Rightarrow> string" where
  "content_bytes name d = json_dumps (PDict (dpop name d))"

definition content_id :: "string \<Rightarrow> (string, pyval) dict \<Rightarrow> string" where
  "content_id name d = sha256_id (content_bytes name d)"

definition INPUT_FIELDS :: "string list" where
  "INPUT_FIELDS = [''schema_version'', ''experiment_id'', ''run_id'', ''round_id'', ''qualification_result_id'', ''comparison_basis'',
     ''quality_policy_ids'', ''parameter_ids'', ''observations'', ''input_content_id'', ''authorization_effect'']"

definition observation_key :: "observation_v2 \<Rightarrow> string \<times> int \<times> string" where
  "observation_key r = (ob_edge_id r, ob_source_sequence r, ob_observation_id r)"

definition check_observations :: "pyval \<Rightarrow> observation_v2 list res" where
  "check_observations v = attempt (case v of PList xs \<Rightarrow> mapM check_observation xs | _ \<Rightarrow> Inr []) (\<lambda>rows.
     if rows = [] then Inl (ConsensusV2Error ''CV2_OBSERVATION_CLOSURE'')
     else if \<not> sorted (map observation_key rows) \<or> \<not> distinct (map ob_edge_id rows)
       then Inl (ConsensusV2Error ''CV2_OBSERVATION_ORDER'')
     else Inr rows)"

definition check_version :: "(string, pyval) dict \<Rightarrow> string \<Rightarrow> unit res" where
  "check_version d code = attempt (getitem d ''schema_version'') (\<lambda>version.
     if version \<noteq> PStr CONSENSUS_V2_SCHEMA then Inl (ConsensusV2Error code)
     else attempt (getitem d ''authorization_effect'') (\<lambda>effect.
       if effect \<noteq> PStr ''none'' then Inl (ConsensusV2Error code) else Inr ()))"

text \<open>The identifier of an object is its digest.\<close>

definition check_content_id :: "(string, pyval) dict \<Rightarrow> string \<Rightarrow> string \<Rightarrow> string \<Rightarrow> string res" where
  "check_content_id d name id_code hash_code = attempt (attempt (getitem d name) (opaque id_code)) (\<lambda>given.
     if given \<noteq> content_id name d then Inl (ConsensusV2Error hash_code) else Inr given)"

definition check_input :: "pyval \<Rightarrow> unit res" where
  "check_input p = attempt (closed_fields p INPUT_FIELDS ''CV2_INPUT_FIELDS'') (\<lambda>d.
     attempt (check_version d ''CV2_INPUT_VERSION'') (\<lambda>_.
     attempt (mapM (\<lambda>name. attempt (getitem d name) (opaque ''CV2_INPUT_ID''))
       [''experiment_id'', ''run_id'', ''round_id'', ''qualification_result_id'']) (\<lambda>_.
     attempt (attempt (getitem d ''comparison_basis'') check_basis) (\<lambda>(kind, profiles, uncertainty).
     attempt (attempt (getitem d ''quality_policy_ids'') (\<lambda>x. ordered_ids x ''CV2_QUALITY_POLICY_CLOSURE'' True)) (\<lambda>_.
     attempt (attempt (getitem d ''parameter_ids'') (\<lambda>x. ordered_ids x ''CV2_PARAMETER_CLOSURE'' False)) (\<lambda>parameters.
     attempt (attempt (getitem d ''observations'') check_observations) (\<lambda>rows.
     if kind = PStr ''same_profile_raw_current'' \<and> set (map ob_profile_id rows) \<noteq> {hd profiles}
       then Inl (ConsensusV2Error ''CV2_RAW_CURRENT_PROFILE'')
     else if kind = PStr ''dimensionless_profile_residual'' \<and> \<not> set (map ob_profile_id rows) \<subseteq> set profiles
       then Inl (ConsensusV2Error ''CV2_RESIDUAL_PROFILE'')
     else if \<not> set uncertainty \<subseteq> set parameters then Inl (ConsensusV2Error ''CV2_PARAMETER_CLOSURE'')
     else attempt (check_content_id d ''input_content_id'' ''CV2_INPUT_CONTENT_ID'' ''CV2_INPUT_CONTENT_HASH'') (\<lambda>_. Inr ()))))))))"

record round_input_v2 =
  iv_payload :: pyval

definition mk_ConsensusRoundInputV2 :: "pyval \<Rightarrow> round_input_v2 res" where
  "mk_ConsensusRoundInputV2 p = attempt (check_input p) (\<lambda>_. Inr \<lparr>iv_payload = p\<rparr>)"

definition parse_consensus_round_input_v2 :: "pyval \<Rightarrow> round_input_v2 res" where
  "parse_consensus_round_input_v2 p = (if is_dict p then mk_ConsensusRoundInputV2 p
     else Inl (ConsensusV2Error ''CV2_INPUT_OBJECT''))"

section \<open>Decisions\<close>

definition EXCLUSION_FIELDS :: "string list" where
  "EXCLUSION_FIELDS = [''edge_id'', ''reason_id'', ''evidence_ids'']"

definition check_exclusion :: "pyval \<Rightarrow> string res" where
  "check_exclusion v = attempt (closed_fields v EXCLUSION_FIELDS ''CV2_EXCLUSION_FIELDS'') (\<lambda>d.
     attempt (attempt (getitem d ''edge_id'') (opaque ''CV2_EXCLUSION_ID'')) (\<lambda>edge.
     attempt (attempt (getitem d ''reason_id'') (opaque ''CV2_EXCLUSION_REASON'')) (\<lambda>_.
     attempt (attempt (getitem d ''evidence_ids'') (\<lambda>x. ordered_ids x ''CV2_EXCLUSION_EVIDENCE'' True)) (\<lambda>_. Inr edge))))"

text \<open>The excluded edges are in order and, with the included ones, partition the participants.\<close>

definition check_partition :: "string list \<Rightarrow> string list \<Rightarrow> pyval \<Rightarrow> unit res" where
  "check_partition participants included v = (case v of PList xs \<Rightarrow>
       attempt (mapM check_exclusion xs) (\<lambda>excluded.
       if excluded \<noteq> sort excluded \<or> \<not> distinct excluded \<or> set excluded \<union> set included \<noteq> set participants
           \<or> set excluded \<inter> set included \<noteq> {}
         then Inl (ConsensusV2Error ''CV2_EXCLUSION_CLOSURE'') else Inr ())
     | _ \<Rightarrow> Inl (ConsensusV2Error ''CV2_EXCLUSION_CLOSURE''))"

definition check_diagnostics :: "pyval \<Rightarrow> unit res" where
  "check_diagnostics v = (case v of PList xs \<Rightarrow>
       if list_all (\<lambda>x. is_text x \<and> x \<noteq> PStr []) xs then Inr () else Inl (ConsensusV2Error ''CV2_DIAGNOSTICS'')
     | _ \<Rightarrow> Inl (ConsensusV2Error ''CV2_DIAGNOSTICS''))"

definition check_outcome :: "pyval \<Rightarrow> string list \<Rightarrow> string list \<Rightarrow> unit res" where
  "check_outcome outcome ranking included =
     (if outcome = PStr ''success'' \<and> (set ranking \<noteq> set included \<or> ranking = []) then Inl (ConsensusV2Error ''CV2_SUCCESS_RANKING'')
      else if outcome = PStr ''failure'' \<and> (ranking \<noteq> [] \<or> included \<noteq> []) then Inl (ConsensusV2Error ''CV2_FAILURE_NO_RANKING'')
      else Inr ())"

definition DECISION_FIELDS :: "string list" where
  "DECISION_FIELDS = [''schema_version'', ''round_input_id'', ''round_input_hash'', ''comparison_basis'', ''outcome'', ''participant_ids'',
     ''included_ids'', ''excluded'', ''ranking'', ''diagnostics'', ''decision_content_id'', ''authorization_effect'']"

definition check_decision :: "pyval \<Rightarrow> unit res" where
  "check_decision p = attempt (closed_fields p DECISION_FIELDS ''CV2_DECISION_FIELDS'') (\<lambda>d.
     attempt (check_version d ''CV2_DECISION_VERSION'') (\<lambda>_.
     attempt (mapM (\<lambda>name. attempt (getitem d name) (opaque ''CV2_DECISION_INPUT'')) [''round_input_id'', ''round_input_hash'']) (\<lambda>_.
     attempt (attempt (getitem d ''comparison_basis'') check_basis) (\<lambda>_.
     attempt (attempt (getitem d ''participant_ids'') (\<lambda>x. ordered_ids x ''CV2_PARTICIPANT_CLOSURE'' True)) (\<lambda>participants.
     attempt (attempt (getitem d ''included_ids'') (\<lambda>x. ordered_ids x ''CV2_INCLUDED_CLOSURE'' False)) (\<lambda>included.
     if \<not> set included \<subseteq> set participants then Inl (ConsensusV2Error ''CV2_INCLUDED_CLOSURE'')
     else attempt (attempt (getitem d ''excluded'') (check_partition participants included)) (\<lambda>_.
     attempt (attempt (getitem d ''diagnostics'') check_diagnostics) (\<lambda>_.
     attempt (getitem d ''outcome'') (\<lambda>outcome.
     if unhashable outcome then Inl (TypeError ''unhashable type'')
     else if outcome \<notin> {PStr ''success'', PStr ''failure''} then Inl (ConsensusV2Error ''CV2_OUTCOME'')
     else attempt (attempt (getitem d ''ranking'') (\<lambda>x. ordered_ids x ''CV2_RANKING'' False)) (\<lambda>ranking.
     attempt (check_outcome outcome ranking included) (\<lambda>_.
     attempt (check_content_id d ''decision_content_id'' ''CV2_DECISION_CONTENT_ID'' ''CV2_DECISION_CONTENT_HASH'') (\<lambda>_.
     Inr ()))))))))))))"

record decision_v2 =
  dv_payload :: pyval

definition mk_ConsensusDecisionV2 :: "pyval \<Rightarrow> decision_v2 res" where
  "mk_ConsensusDecisionV2 p = attempt (check_decision p) (\<lambda>_. Inr \<lparr>dv_payload = p\<rparr>)"

definition parse_consensus_decision_v2 :: "pyval \<Rightarrow> decision_v2 res" where
  "parse_consensus_decision_v2 p = (if is_dict p then mk_ConsensusDecisionV2 p
     else Inl (ConsensusV2Error ''CV2_DECISION_OBJECT''))"

end
