(* ===== verification/ConsensusV2Validation.thy ===== *)
theory ConsensusV2Validation
  imports ConsensusV2Contracts Dataset
begin

text \<open>
  The closure of the evidence a round input and a decision refer to
  (\<open>evidence/consensus_contract_validation.py\<close>). A resolver is a function from an identifier to
  the record it has for it, a dictionary.
\<close>

section \<open>Values of dictionaries\<close>

text \<open>Iterating a value, \<open>tuple(sorted(set(xs)))\<close>, and equality with numbers by value.\<close>

definition py_iter :: "pyval \<Rightarrow> pyval list res" where
  "py_iter v = (case v of PList xs \<Rightarrow> Inr xs | PStr s \<Rightarrow> Inr (map (\<lambda>c. PStr [c]) s) | PDict d \<Rightarrow> Inr (map (PStr \<circ> fst) d)
     | _ \<Rightarrow> Inl (TypeError ''object is not iterable''))"

definition sorted_set :: "string list \<Rightarrow> string list" where
  "sorted_set xs = sort (remdups xs)"

definition number_of :: "pyval \<Rightarrow> rat option" where
  "number_of v = (case v of PInt i \<Rightarrow> Some (of_int i) | PFloat x \<Rightarrow> Some x | PBool b \<Rightarrow> Some (if b then 1 else 0) | _ \<Rightarrow> None)"

definition equals_int :: "pyval \<Rightarrow> int \<Rightarrow> bool" where
  "equals_int v n = (number_of v = Some (of_int n))"

type_synonym record_v2 = "(string, pyval) dict"

definition dget :: "record_v2 \<Rightarrow> string \<Rightarrow> pyval" where
  "dget d k = (case map_of d k of None \<Rightarrow> PNone | Some v \<Rightarrow> v)"

definition dget_or :: "record_v2 \<Rightarrow> string \<Rightarrow> pyval \<Rightarrow> pyval" where
  "dget_or d k v = (case map_of d k of None \<Rightarrow> v | Some w \<Rightarrow> w)"

section \<open>The contract closure\<close>

record contract_resolver =
  cx_immutable :: "string \<Rightarrow> bool"
  cx_observation :: "string \<Rightarrow> record_v2 option"
  cx_qualification :: "string \<Rightarrow> record_v2 option"
  cx_dependency :: "string \<Rightarrow> record_v2 option"

record contract_validation =
  cv_valid :: bool
  cv_diagnostics :: "string list"
  cv_authorization_effect :: string

definition FORBIDDEN :: "string list" where
  "FORBIDDEN = [''syscall'', ''truth'', ''label'', ''scenario'', ''detector_score'', ''fusion'', ''opc'', ''actuator'', ''command'']"

definition tokens_of :: "record_v2 \<Rightarrow> string \<Rightarrow> string list res" where
  "tokens_of d k = attempt (py_iter (dget_or d k (PList []))) (\<lambda>xs. Inr (map (\<lambda>v. map lower_char (py_str v)) xs))"

definition safe_dependency :: "string \<Rightarrow> contract_resolver \<Rightarrow> bool res" where
  "safe_dependency i cx = (case cx_dependency cx i of None \<Rightarrow> Inr False | Some d \<Rightarrow>
     if \<not> cx_immutable cx i \<or> dget d ''immutable'' \<noteq> PBool True \<or> dget d ''audience'' \<noteq> PStr ''public'' then Inr False
     else attempt (tokens_of d ''semantic_tokens'') (\<lambda>a. attempt (tokens_of d ''provenance_tokens'') (\<lambda>b.
       Inr (set (a @ b) \<inter> set FORBIDDEN = {}))))"

text \<open>A set built from a field of the qualification; its elements have to be hashable.\<close>

definition identity_set :: "record_v2 option \<Rightarrow> string \<Rightarrow> pyval list res" where
  "identity_set q k = (case q of None \<Rightarrow> Inr [] | Some d \<Rightarrow> if d = [] then Inr [] else
     attempt (py_iter (dget_or d k (PList []))) (\<lambda>xs.
       if list_ex unhashable xs then Inl (TypeError ''unhashable type'') else Inr xs))"

definition unsafe_dependencies :: "contract_resolver \<Rightarrow> pyval list \<Rightarrow> string list \<Rightarrow> string list res" where
  "unsafe_dependencies cx closure ids = attempt (mapM (\<lambda>i. attempt (safe_dependency i cx) (\<lambda>safe.
     Inr (if \<not> safe \<or> PStr i \<notin> set closure then [''CV2_DEPENDENCY_UNSAFE''] else []))) ids) (\<lambda>es. Inr (concat es))"

definition unresolved_observations :: "contract_resolver \<Rightarrow> pyval list \<Rightarrow> observation_v2 list \<Rightarrow> string list res" where
  "unresolved_observations cx known rows = attempt (mapM (\<lambda>r. attempt (safe_dependency (ob_observation_id r) cx) (\<lambda>safe.
     Inr (case cx_observation cx (ob_observation_id r) of None \<Rightarrow> [''CV2_OBSERVATION_UNRESOLVED''] | Some d \<Rightarrow>
       if \<not> safe \<or> dget d ''observation_content_id'' \<noteq> PStr (ob_observation_id r)
          \<or> dget d ''canonical_hash'' \<noteq> PStr (ob_canonical_hash r) \<or> dget d ''profile_id'' \<noteq> PStr (ob_profile_id r)
          \<or> \<not> equals_int (dget d ''source_sequence'') (ob_source_sequence r) \<or> PStr (ob_observation_id r) \<notin> set known
       then [''CV2_OBSERVATION_UNRESOLVED''] else []))) rows) (\<lambda>es. Inr (concat es))"

text \<open>The fields of a constructed input, which are of the checked types.\<close>

definition text_field :: "pyval \<Rightarrow> string \<Rightarrow> string res" where
  "text_field p k = attempt (sub p k) as_str"

definition text_list_field :: "pyval \<Rightarrow> string \<Rightarrow> string list res" where
  "text_list_field p k = attempt (attempt (sub p k) as_list) (mapM as_str)"

definition input_rows :: "round_input_v2 \<Rightarrow> observation_v2 list res" where
  "input_rows ri = attempt (attempt (sub (iv_payload ri) ''observations'') as_list) (mapM check_observation)"

definition dependency_ids :: "pyval \<Rightarrow> string list res" where
  "dependency_ids p = attempt (sub p ''comparison_basis'') (\<lambda>basis.
     attempt (text_field basis ''basis_id'') (\<lambda>b. attempt (text_list_field p ''quality_policy_ids'') (\<lambda>q.
     attempt (text_list_field p ''parameter_ids'') (\<lambda>ps. attempt (text_list_field basis ''profile_ids'') (\<lambda>pr.
     attempt (text_list_field basis ''uncertainty_parameter_ids'') (\<lambda>u. Inr ([b] @ q @ ps @ pr @ u)))))))"

definition validate_consensus_round_input_v2 :: "round_input_v2 \<Rightarrow> contract_resolver \<Rightarrow> contract_validation res" where
  "validate_consensus_round_input_v2 ri cx = attempt (text_field (iv_payload ri) ''qualification_result_id'') (\<lambda>qid.
     let q = cx_qualification cx qid in
     attempt (safe_dependency qid cx) (\<lambda>safe.
     let qualified = safe \<and> (case q of None \<Rightarrow> False | Some d \<Rightarrow>
           dget d ''disposition'' = PStr ''qualified'' \<and> dget d ''g2'' = PStr ''pass'') in
     attempt (identity_set q ''observation_ids'') (\<lambda>known. attempt (identity_set q ''closure_ids'') (\<lambda>closure.
     attempt (dependency_ids (iv_payload ri)) (\<lambda>ids. attempt (unsafe_dependencies cx closure ids) (\<lambda>unsafe.
     attempt (input_rows ri) (\<lambda>rows. attempt (unresolved_observations cx known rows) (\<lambda>unresolved.
     let errors = (if qualified then [] else [''CV2_QUALIFICATION_UNRESOLVED'']) @ unsafe @ unresolved in
     Inr \<lparr>cv_valid = (errors = []), cv_diagnostics = sorted_set errors, cv_authorization_effect = ''none''\<rparr>))))))))"

definition validate_consensus_decision_v2 :: "decision_v2 \<Rightarrow> round_input_v2 \<Rightarrow> contract_resolver \<Rightarrow> contract_validation res" where
  "validate_consensus_decision_v2 dv ri cx = attempt (validate_consensus_round_input_v2 ri cx) (\<lambda>v.
     attempt (sub (dv_payload dv) ''round_input_id'') (\<lambda>i. attempt (sub (iv_payload ri) ''input_content_id'') (\<lambda>cid.
     attempt (sub (dv_payload dv) ''round_input_hash'') (\<lambda>h.
     attempt (sub (dv_payload dv) ''comparison_basis'') (\<lambda>b. attempt (sub (iv_payload ri) ''comparison_basis'') (\<lambda>b'.
     let errors = cv_diagnostics v @ (if i \<noteq> cid \<or> h \<noteq> cid then [''CV2_DECISION_INPUT_MISMATCH''] else [])
       @ (if b \<noteq> b' then [''CV2_DECISION_BASIS_MISMATCH''] else []) in
     Inr \<lparr>cv_valid = (errors = []), cv_diagnostics = sorted_set errors, cv_authorization_effect = ''none''\<rparr>))))))"

end
