(* ===== verification/ConsensusV2Parameters.thy ===== *)
theory ConsensusV2Parameters
  imports ConsensusV2Validation
begin

text \<open>
  Parameter sets of the second consensus version (\<open>consensus_v2_parameters.py\<close>) and the
  resolution of everything they declare (\<open>evidence/consensus_parameter_validation.py\<close>). The
  records behind the resolvers are dictionaries here; each block of checks of the source is a
  function that returns its violations.
\<close>

section \<open>Parameter sets\<close>

record parameter_slot =
  sl_slot_id :: string
  sl_parameter_revision_id :: string
  sl_parameter_revision_sha256 :: string
  sl_parameter_class :: string
  sl_quantity_kind :: string
  sl_unit :: string
  sl_dimension :: string
  sl_profile_id :: string
  sl_experiment_scope :: string
  sl_decision_id :: "string option"
  sl_decision_record_sha256 :: "string option"

record parameter_set =
  pset_schema_version :: string
  pset_parameter_set_id :: string
  pset_component_identity :: string
  pset_experiment_scope :: string
  pset_profile_id :: string
  pset_comparison_basis_id :: string
  pset_comparison_basis_schema :: string
  pset_comparison_basis_sha256 :: string
  pset_comparison_basis_canonical_bytes_sha256 :: string
  pset_quality_policy_id :: string
  pset_numeric_inventory_id :: string
  pset_numeric_inventory_sha256 :: string
  pset_required_parameter_set_id :: string
  pset_required_parameter_set_sha256 :: string
  pset_parameter_gate_result_id :: string
  pset_parameter_gate_result_sha256 :: string
  pset_comparison_mode :: string
  pset_residual_policy_id :: string
  pset_residual_policy_schema :: string
  pset_residual_policy_sha256 :: string
  pset_residual_policy_canonical_bytes_sha256 :: string
  pset_residual_policy_slot_ids :: "string list"
  pset_residual_policy_units :: "string list"
  pset_residual_policy_dimensions :: "string list"
  pset_residual_policy_conformance_id :: string
  pset_analysis_plan_id :: string
  pset_analysis_plan_sha256 :: string
  pset_sensitivity_plan_id :: string
  pset_sensitivity_plan_sha256 :: string
  pset_sensitivity_alternative_ids :: "string list"
  pset_selected_alternative_id :: string
  pset_primary_decision_id :: string
  pset_primary_decision_record_sha256 :: string
  pset_scientific_freeze_id :: string
  pset_scientific_freeze_sha256 :: string
  pset_partition_lock_id :: string
  pset_partition_lock_sha256 :: string
  pset_slots :: "parameter_slot list"
  pset_authorization_effect :: string

definition mk_ConsensusParameterSet :: "parameter_set \<Rightarrow> parameter_set" where
  "mk_ConsensusParameterSet p = p\<lparr>pset_slots := sort_key sl_slot_id (pset_slots p),
     pset_residual_policy_slot_ids := sort (pset_residual_policy_slot_ids p),
     pset_residual_policy_units := sort (pset_residual_policy_units p),
     pset_residual_policy_dimensions := sort (pset_residual_policy_dimensions p),
     pset_sensitivity_alternative_ids := sort (pset_sensitivity_alternative_ids p)\<rparr>"

record parameter_resolvers =
  px_inventory :: "string \<Rightarrow> record_v2 option"
  px_required_set :: "string \<Rightarrow> record_v2 option"
  px_gate_result :: "string \<Rightarrow> record_v2 option"
  px_parameter_revision :: "string \<Rightarrow> record_v2 option"
  px_decision_record :: "string \<Rightarrow> record_v2 option"
  px_scientific_freeze :: "string \<Rightarrow> record_v2 option"
  px_partition_lock :: "string \<Rightarrow> record_v2 option"
  px_analysis_plan :: "string \<Rightarrow> record_v2 option"
  px_residual_policy :: "string \<Rightarrow> record_v2 option"

record parameter_violation =
  vi_rule_id :: string
  vi_field :: string
  vi_reference :: string
  vi_explanation :: string

record parameter_validation =
  pvr_status :: string
  pvr_parameter_set_id :: string
  pvr_violations :: "parameter_violation list"
  pvr_authorization_effect :: string

section \<open>Resolution\<close>

text \<open>\<open>_value(record, name, default)\<close>.\<close>

definition value_or :: "record_v2 option \<Rightarrow> string \<Rightarrow> pyval \<Rightarrow> pyval" where
  "value_or r k v = (case r of None \<Rightarrow> v | Some d \<Rightarrow> dget_or d k v)"

definition MUTABLE_NAMES :: "string list" where
  "MUTABLE_NAMES = ['''', ''latest'', ''current'', ''default'', ''legacy'', ''v1'']"

definition opaque_name :: "string \<Rightarrow> bool" where
  "opaque_name s = (strip s = s \<and> map lower_char s \<notin> set MUTABLE_NAMES)"

definition record_hash :: "record_v2 option \<Rightarrow> string list \<Rightarrow> string option" where
  "record_hash r self_fields = (case r of None \<Rightarrow> None | Some d \<Rightarrow>
     Some (sha256_id (json_dumps (PDict (foldl (\<lambda>p name. AList.update name (PStr []) p) d self_fields)))))"

definition matches_hash :: "record_v2 option \<Rightarrow> string \<Rightarrow> string list \<Rightarrow> bool" where
  "matches_hash r expected declared_names = (is_immutable_id expected \<and>
     (expected \<in> set (map (\<lambda>name. py_str (value_or r name (PStr []))) declared_names)
      \<or> Some expected \<in> {record_hash r [], record_hash r declared_names}))"

definition violation :: "string \<Rightarrow> string \<Rightarrow> string \<Rightarrow> string \<Rightarrow> parameter_violation" where
  "violation rule field reference explanation = \<lparr>vi_rule_id = rule, vi_field = field, vi_reference = reference, vi_explanation = explanation\<rparr>"

definition fail_if :: "bool \<Rightarrow> string \<Rightarrow> string \<Rightarrow> string \<Rightarrow> string \<Rightarrow> parameter_violation list" where
  "fail_if b rule field reference explanation = (if b then [violation rule field reference explanation] else [])"

definition declaration_violations :: "parameter_set \<Rightarrow> parameter_violation list" where
  "declaration_violations p =
     fail_if (pset_schema_version p \<noteq> ''ConsensusParameterSet.v2'') ''CPS-SCHEMA'' ''schema_version'' (pset_schema_version p)
       ''Only ConsensusParameterSet.v2 is accepted.''
     @ fail_if (pset_authorization_effect p \<noteq> ''none'') ''CPS-AUTHORIZATION-EFFECT'' ''authorization_effect''
       (pset_authorization_effect p) ''This resolver can never authorize activity.''
     @ concat (map (\<lambda>(field, v). fail_if (\<not> opaque_name v) ''CPS-MUTABLE-OR-MISSING'' field v
         ''Aliases, defaults, legacy tokens, and blank identifiers are forbidden.'')
       [(''parameter_set_id'', pset_parameter_set_id p), (''component_identity'', pset_component_identity p),
        (''experiment_scope'', pset_experiment_scope p), (''profile_id'', pset_profile_id p),
        (''comparison_basis_id'', pset_comparison_basis_id p), (''comparison_basis_schema'', pset_comparison_basis_schema p),
        (''quality_policy_id'', pset_quality_policy_id p), (''comparison_mode'', pset_comparison_mode p),
        (''residual_policy_id'', pset_residual_policy_id p), (''residual_policy_schema'', pset_residual_policy_schema p),
        (''residual_policy_conformance_id'', pset_residual_policy_conformance_id p),
        (''analysis_plan_id'', pset_analysis_plan_id p), (''sensitivity_plan_id'', pset_sensitivity_plan_id p),
        (''selected_alternative_id'', pset_selected_alternative_id p), (''primary_decision_id'', pset_primary_decision_id p),
        (''scientific_freeze_id'', pset_scientific_freeze_id p), (''partition_lock_id'', pset_partition_lock_id p)])
     @ concat (map (\<lambda>(field, v). fail_if (\<not> is_immutable_id v) ''CPS-IMMUTABLE-HASH'' field v
         ''An exact SHA-256 content identity is required.'')
       [(''comparison_basis_sha256'', pset_comparison_basis_sha256 p),
        (''comparison_basis_canonical_bytes_sha256'', pset_comparison_basis_canonical_bytes_sha256 p),
        (''numeric_inventory_sha256'', pset_numeric_inventory_sha256 p),
        (''required_parameter_set_sha256'', pset_required_parameter_set_sha256 p),
        (''parameter_gate_result_sha256'', pset_parameter_gate_result_sha256 p),
        (''residual_policy_sha256'', pset_residual_policy_sha256 p),
        (''residual_policy_canonical_bytes_sha256'', pset_residual_policy_canonical_bytes_sha256 p),
        (''analysis_plan_sha256'', pset_analysis_plan_sha256 p), (''sensitivity_plan_sha256'', pset_sensitivity_plan_sha256 p),
        (''primary_decision_record_sha256'', pset_primary_decision_record_sha256 p),
        (''scientific_freeze_sha256'', pset_scientific_freeze_sha256 p), (''partition_lock_sha256'', pset_partition_lock_sha256 p)])"

text \<open>The inventory, the required set and the gate, and the scope they share.\<close>

definition scope_violations :: "parameter_set \<Rightarrow> string \<Rightarrow> record_v2 option \<Rightarrow> parameter_violation list" where
  "scope_violations p field r = (case r of None \<Rightarrow> [] | Some d \<Rightarrow>
     concat (map (\<lambda>(name, wanted). let actual = dget d name in
       fail_if (actual \<noteq> PNone \<and> py_str actual \<noteq> wanted) ''CPS-SCOPE-CLOSURE'' (field @ ''.'' @ name) (py_str actual)
         ''Inventory, required set, and gate must use the exact component/scope/profile closure.'')
     [(''component_identity'', pset_component_identity p), (''scope'', pset_experiment_scope p), (''profile_id'', pset_profile_id p)]))"

definition binding_violations :: "parameter_set \<Rightarrow> record_v2 option \<Rightarrow> record_v2 option \<Rightarrow> record_v2 option \<Rightarrow> parameter_violation list" where
  "binding_violations p inventory required gate =
     fail_if (inventory = None \<or> \<not> matches_hash inventory (pset_numeric_inventory_sha256 p) []) ''CPS-INVENTORY''
       ''numeric_inventory_id'' (pset_numeric_inventory_id p) ''The exact numeric inventory was not resolved.''
     @ fail_if (required = None \<or> \<not> matches_hash required (pset_required_parameter_set_sha256 p) []) ''CPS-REQUIRED-SET''
       ''required_parameter_set_id'' (pset_required_parameter_set_id p) ''The exact closed required set was not resolved.''
     @ (if gate = None \<or> \<not> matches_hash gate (pset_parameter_gate_result_sha256 p) [''gate_result_id'']
        then [violation ''CPS-GATE'' ''parameter_gate_result_id'' (pset_parameter_gate_result_id p)
          ''The exact accountable parameter gate result was not resolved.'']
        else fail_if (py_str (value_or gate ''accountability_outcome'' PNone) \<noteq> ''accountable''
            \<or> value_or gate ''authorization_effect'' PNone \<noteq> PStr ''none'') ''CPS-GATE-BLOCKED'' ''parameter_gate_result_id''
          (pset_parameter_gate_result_id p) ''A blocked or authorizing parameter gate cannot satisfy v2.'')
     @ scope_violations p ''inventory'' inventory @ scope_violations p ''required_set'' required @ scope_violations p ''gate'' gate
     @ fail_if (required \<noteq> None \<and> py_str (value_or required ''inventory_id'' PNone) \<noteq> pset_numeric_inventory_id p)
       ''CPS-INVENTORY-REQUIRED-LINK'' ''required_parameter_set_id'' (pset_required_parameter_set_id p)
       ''Required set does not bind this inventory.''
     @ fail_if (gate \<noteq> None \<and> (py_str (value_or gate ''inventory_id'' PNone) \<noteq> pset_numeric_inventory_id p
         \<or> py_str (value_or gate ''required_set_id'' PNone) \<noteq> pset_required_parameter_set_id p))
       ''CPS-GATE-CLOSURE'' ''parameter_gate_result_id'' (pset_parameter_gate_result_id p)
       ''Gate must bind the same inventory and required set.''"

text \<open>The slots that the required set asks for; an entry that is no dictionary has no fields.\<close>

definition item_value :: "pyval \<Rightarrow> string \<Rightarrow> pyval \<Rightarrow> pyval" where
  "item_value v k w = (case v of PDict d \<Rightarrow> dget_or d k w | PNone \<Rightarrow> w | _ \<Rightarrow> w)"

definition required_slots :: "record_v2 option \<Rightarrow> string list res" where
  "required_slots required = (let b = value_or required ''bindings'' (PList []) in
     attempt (if truthy b then py_iter b else Inr []) (\<lambda>items.
       Inr (map (\<lambda>i. py_str (item_value i ''slot_id'' PNone))
         (filter (\<lambda>i. \<not> truthy (item_value i ''not_applicable'' (PBool False))) items))))"

definition slot_decision_violations :: "parameter_resolvers \<Rightarrow> parameter_slot \<Rightarrow> parameter_violation list" where
  "slot_decision_violations px s = (let given = (\<lambda>x. x \<noteq> None \<and> x \<noteq> Some []); field = ''slots.'' @ sl_slot_id s;
       text = (\<lambda>x. case x of None \<Rightarrow> [] | Some t \<Rightarrow> t) in
     fail_if (sl_parameter_class s = ''preregistered_factor'' \<and> (\<not> given (sl_decision_id s) \<or> \<not> given (sl_decision_record_sha256 s)))
       ''CPS-DECISION-REQUIRED'' field (sl_slot_id s) ''Preregistered factors require a frozen DecisionRecord.''
     @ fail_if ((given (sl_decision_id s) \<or> given (sl_decision_record_sha256 s)) \<and> (\<not> given (sl_decision_id s)
         \<or> \<not> matches_hash (px_decision_record px (text (sl_decision_id s))) (text (sl_decision_record_sha256 s)) [''record_sha256'']))
       ''CPS-DECISION'' field (py_str (opt_str (sl_decision_id s))) ''Decision identity is absent or stale.'')"

definition slot_violations :: "parameter_set \<Rightarrow> parameter_resolvers \<Rightarrow> parameter_slot \<Rightarrow> parameter_violation list" where
  "slot_violations p px s = (let r = px_parameter_revision px (sl_parameter_revision_id s); field = ''slots.'' @ sl_slot_id s in
     fail_if (\<not> opaque_name (sl_slot_id s) \<or> \<not> opaque_name (sl_parameter_revision_id s) \<or> \<not> is_immutable_id (sl_parameter_revision_sha256 s))
       ''CPS-SLOT-IDENTITY'' ''slots'' (sl_slot_id s) ''A slot requires exact non-alias revision identity and hash.''
     @ (if r = None \<or> \<not> matches_hash r (sl_parameter_revision_sha256 s) [''revision_sha256'']
        then [violation ''CPS-REVISION'' field (sl_parameter_revision_id s) ''Revision is absent, stale, or hash-conflicting.'']
        else concat (map (\<lambda>(name, wanted). let actual = py_str (value_or r name PNone) in
            fail_if (actual \<noteq> wanted) ''CPS-REVISION-CLOSURE'' (field @ ''.'' @ name) actual
              ''Revision fields must exactly match the declared slot.'')
          [(''parameter_class'', sl_parameter_class s), (''quantity_kind'', sl_quantity_kind s), (''unit'', sl_unit s),
           (''profile_id'', sl_profile_id s), (''experiment_scope'', sl_experiment_scope s)])
        @ fail_if (sl_profile_id s \<noteq> pset_profile_id p \<or> sl_experiment_scope s \<noteq> pset_experiment_scope p) ''CPS-SLOT-SCOPE'' field
          (sl_slot_id s) ''Slots cannot cross profiles or experiment scopes.''
        @ slot_decision_violations px s))"

definition slots_violations :: "parameter_set \<Rightarrow> parameter_resolvers \<Rightarrow> string list \<Rightarrow> parameter_violation list" where
  "slots_violations p px wanted = (let ids = map sl_slot_id (pset_slots p) in
     fail_if (pset_slots p = [] \<or> \<not> distinct ids \<or> set ids \<noteq> set wanted) ''CPS-SLOT-CLOSURE'' ''slots'' (join '','' ids)
       ''Slots must match the required non-N/A inventory exactly once; no relaxation is allowed.''
     @ concat (map (slot_violations p px) (pset_slots p)))"

definition comparison_violations :: "parameter_set \<Rightarrow> parameter_resolvers \<Rightarrow> parameter_violation list" where
  "comparison_violations p px = (let mode = pset_comparison_mode p; policy = px_residual_policy px (pset_residual_policy_id p);
       ids = pset_residual_policy_slot_ids p; units = pset_residual_policy_units p; dims = pset_residual_policy_dimensions p in
     fail_if (mode \<notin> {''same_profile_raw_current'', ''cross_profile_residual''}) ''CPS-COMPARISON-MODE'' ''comparison_mode'' mode
       ''Comparison mode is closed.''
     @ fail_if (policy = None \<or> \<not> matches_hash policy (pset_residual_policy_sha256 p) [''content_sha256'', ''policy_sha256''])
       ''CPS-RESIDUAL-POLICY'' ''residual_policy_id'' (pset_residual_policy_id p) ''Residual policy requires its exact immutable content.''
     @ (if mode = ''cross_profile_residual'' then
          fail_if (ids = [] \<or> units = [] \<or> dims = [] \<or> \<not> is_immutable_id (pset_residual_policy_canonical_bytes_sha256 p))
            ''CPS-CROSS-PROFILE-RESIDUAL'' ''residual_policy_id'' (pset_residual_policy_id p)
            ''Cross-profile residuals require slots, units, dimensions and canonical operation closure.''
          @ fail_if (\<not> set ids \<subseteq> set (map sl_slot_id (pset_slots p))) ''CPS-RESIDUAL-SLOT'' ''residual_policy_slot_ids'' (join '','' ids)
            ''Residual policy names an undeclared slot.''
          @ fail_if (\<not> list_ex (\<lambda>s. sl_parameter_class s \<in> {''measured'', ''derived''} \<and> sl_dimension s = ''one'') (pset_slots p))
            ''CPS-CROSS-PROFILE-UNCERTAINTY'' ''slots'' []
            ''Cross-profile residuals require explicit dimensionless measured or derived uncertainty support.''
        else fail_if (ids \<noteq> [] \<or> units \<noteq> [] \<or> dims \<noteq> []) ''CPS-SAME-PROFILE-RESIDUAL'' ''residual_policy_slot_ids'' []
          ''Raw same-profile comparison cannot smuggle cross-profile residual inputs.''))"

definition plan_violations :: "parameter_set \<Rightarrow> parameter_resolvers \<Rightarrow> parameter_violation list" where
  "plan_violations p px = (let plan = px_analysis_plan px (pset_analysis_plan_id p);
       freeze = px_scientific_freeze px (pset_scientific_freeze_id p); lock = px_partition_lock px (pset_partition_lock_id p);
       primary = px_decision_record px (pset_primary_decision_id p) in
     fail_if (plan = None \<or> \<not> matches_hash plan (pset_analysis_plan_sha256 p) [''content_sha256'', ''plan_sha256''])
       ''CPS-ANALYSIS-PLAN'' ''analysis_plan_id'' (pset_analysis_plan_id p) ''Frozen analysis plan did not resolve exactly.''
     @ fail_if (freeze = None \<or> \<not> matches_hash freeze (pset_scientific_freeze_sha256 p) [])
       ''CPS-SCIENTIFIC-FREEZE'' ''scientific_freeze_id'' (pset_scientific_freeze_id p) ''ScientificFreeze identity is missing or stale.''
     @ fail_if (lock = None \<or> \<not> matches_hash lock (pset_partition_lock_sha256 p) [''content_sha256'', ''record_sha256''])
       ''CPS-PARTITION-LOCK'' ''partition_lock_id'' (pset_partition_lock_id p) ''Partition-lock identity is missing or stale.''
     @ fail_if (primary = None \<or> \<not> matches_hash primary (pset_primary_decision_record_sha256 p) [''record_sha256''])
       ''CPS-PRIMARY-DECISION'' ''primary_decision_id'' (pset_primary_decision_id p)
       ''Primary selection requires exact pre-test DecisionRecord.''
     @ fail_if (pset_selected_alternative_id p \<notin> set (''primary'' # pset_sensitivity_alternative_ids p)) ''CPS-UNKNOWN-SENSITIVITY''
       ''selected_alternative_id'' (pset_selected_alternative_id p) ''Selected configuration is not in the frozen sensitivity plan.''
     @ fail_if (\<not> distinct (pset_sensitivity_alternative_ids p)) ''CPS-SENSITIVITY-DUPLICATE'' ''sensitivity_alternative_ids''
       (join '','' (pset_sensitivity_alternative_ids p)) ''Sensitivity alternatives must be unique.'')"

definition validate_consensus_parameter_set :: "parameter_set \<Rightarrow> parameter_resolvers \<Rightarrow> parameter_validation res" where
  "validate_consensus_parameter_set p px = (let inventory = px_inventory px (pset_numeric_inventory_id p);
       required = px_required_set px (pset_required_parameter_set_id p); gate = px_gate_result px (pset_parameter_gate_result_id p) in
     attempt (required_slots required) (\<lambda>wanted.
     let vs = declaration_violations p @ binding_violations p inventory required gate @ slots_violations p px wanted
           @ comparison_violations p px @ plan_violations p px in
     Inr \<lparr>pvr_status = (if vs = [] then ''valid'' else ''blocked''), pvr_parameter_set_id = pset_parameter_set_id p,
       pvr_violations = sort_key (\<lambda>v. (vi_rule_id v, vi_field v, vi_reference v)) vs, pvr_authorization_effect = ''none''\<rparr>))"

end
