(* ===== verification/PyDecimal.thy ===== *)
theory PyDecimal
  imports PyTime FloatLaws
begin

text \<open>
  \<open>decimal.Decimal\<close> in the default context: a finite decimal is the rational it denotes, and a
  sum, a difference or a quotient is the exact result rounded to 28 significant digits, halves
  to even. The limits of the exponent, a million digits away, are outside the model. Reading a
  text is exact. Here too is \<open>exact_decimal\<close> (\<open>consensus_v2/reference_inputs.py\<close>).
\<close>

type_synonym decimal = rat

definition drnd :: "rat \<Rightarrow> decimal" where
  "drnd x = (if x = 0 then 0 else let q = 10 powi (dexpo \<bar>x\<bar> - 27) in of_int (rhe (x / q)) * q)"

definition dadd :: "decimal \<Rightarrow> decimal \<Rightarrow> decimal" where "dadd a b = drnd (a + b)"
definition dsub :: "decimal \<Rightarrow> decimal \<Rightarrow> decimal" where "dsub a b = drnd (a - b)"
definition ddiv :: "decimal \<Rightarrow> decimal \<Rightarrow> decimal" where "ddiv a b = drnd (a / b)"

text \<open>\<open>sum(xs, Decimal("0"))\<close>.\<close>

definition dsum :: "decimal list \<Rightarrow> decimal" where
  "dsum xs = foldl dadd 0 xs"

text \<open>The pattern \<open>-?(?:0|[1-9][0-9]*)(?:\.[0-9]+)?\<close> and the number it spells.\<close>

definition unsigned_decimal :: "string \<Rightarrow> decimal option" where
  "unsigned_decimal s = (let whole = takeWhile is_digit s; rest = dropWhile is_digit s in
     if whole = [] \<or> (hd whole = CHR ''0'' \<and> tl whole \<noteq> []) then None
     else if rest = [] then Some (of_int (digits_value whole))
     else if hd rest = CHR ''.'' \<and> tl rest \<noteq> [] \<and> list_all is_digit (tl rest)
       then Some (of_int (digits_value whole) + of_int (digits_value (tl rest)) / 10 ^ length (tl rest))
     else None)"

definition exact_decimal :: "string \<Rightarrow> decimal res" where
  "exact_decimal s = (case (if s \<noteq> [] \<and> hd s = CHR ''-'' then map_option uminus (unsigned_decimal (tl s)) else unsigned_decimal s) of
     None \<Rightarrow> Inl (ValueError ''CV2_REFERENCE_DECIMAL'') | Some v \<Rightarrow> Inr v)"

lemma drnd_0 [simp]: "drnd 0 = 0"
  by (simp add: drnd_def)

lemma dsub_self [simp]: "dsub a a = 0"
  by (simp add: dsub_def)

text \<open>A number with few enough digits is not rounded.\<close>

lemma drnd_short:
  assumes "x * 10 ^ k = of_int n" "int k \<le> 27 - dexpo \<bar>x\<bar>"
  shows "drnd x = x"
proof (cases "x = 0")
  case False
  let ?q = "10 powi (dexpo \<bar>x\<bar> - 27) :: rat"
  obtain j where j: "27 - dexpo \<bar>x\<bar> = int (k + j)" using assms(2) by (metis zle_iff_zadd of_nat_add)
  then have "dexpo \<bar>x\<bar> - 27 = - int (k + j)" by simp
  then have q: "?q = 1 / 10 ^ (k + j)" by (simp only: power_int_minus power_int_of_nat inverse_eq_divide)
  then have x: "x / ?q = of_int (n * 10 ^ j)" using assms(1) by (simp add: power_add)
  have "drnd x = of_int (rhe (x / ?q)) * ?q" using False by (simp add: drnd_def Let_def)
  also have "\<dots> = x / ?q * ?q" by (simp only: x rhe_of_int)
  finally show ?thesis using q by simp
qed simp

end
