(* ===== verification/ConsensusV2Reference.thy ===== *)
theory ConsensusV2Reference
  imports ConsensusV2Parameters PyDecimal
begin

text \<open>
  The reference evaluator of the second consensus version: \<open>consensus_v2/reference_inputs.py\<close> and
  \<open>consensus_v2/reference_evaluator.py\<close>. It refuses to evaluate without a closed operation and an
  exact projection of every observation; then it compares each value with the mean.
\<close>

section \<open>Inputs\<close>

definition MEAN_CURRENT_RESIDUAL_V1 :: string where
  "MEAN_CURRENT_RESIDUAL_V1 = concat [[CHR 0x7B, CHR 0x22], ''algorithm'', [CHR 0x22], '':'', [CHR 0x22], ''mean_current_residual'',
     [CHR 0x22], '','', [CHR 0x22], ''version'', [CHR 0x22], '':'', [CHR 0x22], ''1'', [CHR 0x22, CHR 0x7D]]"

definition identity_of :: "string \<Rightarrow> string \<Rightarrow> string res" where
  "identity_of code s = (if is_immutable_id s then Inr s else Inl (ValueError code))"

record evaluation_observation =
  eo_edge_id :: string
  eo_observation_id :: string
  eo_observation_canonical_hash :: string
  eo_current_value :: string
  eo_eligibility_reason_id :: "string option"
  eo_eligibility_evidence_id :: string

definition mk_ConsensusEvaluationObservationV2 :: "evaluation_observation \<Rightarrow> evaluation_observation res" where
  "mk_ConsensusEvaluationObservationV2 x =
     attempt (mapM (identity_of ''CV2_REFERENCE_OBSERVATION_ID'')
       [eo_edge_id x, eo_observation_id x, eo_observation_canonical_hash x, eo_eligibility_evidence_id x]) (\<lambda>_.
     attempt (case eo_eligibility_reason_id x of None \<Rightarrow> Inr [] | Some r \<Rightarrow> identity_of ''CV2_REFERENCE_ELIGIBILITY_REASON'' r) (\<lambda>_.
     attempt (exact_decimal (eo_current_value x)) (\<lambda>_. Inr x)))"

record operation_closure =
  cl_operation_id :: string
  cl_canonical_bytes :: string
  cl_canonical_bytes_hash :: string
  cl_conformance_vector_ids :: "string list"
  cl_conformance_vector_hash :: string
  cl_minimum_participants :: int
  cl_max_abs_residual :: string
  cl_trace_max_events :: int
  cl_exclusion_reason_ids :: "(string, string) dict"

definition check_operation :: "operation_closure \<Rightarrow> unit res" where
  "check_operation c = attempt (identity_of ''CV2_REFERENCE_OPERATION_ID'' (cl_operation_id c)) (\<lambda>_.
     if cl_canonical_bytes c \<noteq> MEAN_CURRENT_RESIDUAL_V1 then Inl (ValueError ''CV2_REFERENCE_OPERATION_BYTES'')
     else if cl_canonical_bytes_hash c \<noteq> sha256_id (cl_canonical_bytes c) \<or> cl_operation_id c \<noteq> sha256_id (cl_canonical_bytes c)
       then Inl (ValueError ''CV2_REFERENCE_OPERATION_HASH'')
     else if cl_conformance_vector_ids c = [] \<or> cl_conformance_vector_ids c \<noteq> sort (cl_conformance_vector_ids c)
         \<or> \<not> distinct (cl_conformance_vector_ids c) then Inl (ValueError ''CV2_REFERENCE_CONFORMANCE_VECTOR'')
     else attempt (mapM (identity_of ''CV2_REFERENCE_CONFORMANCE_VECTOR'') (cl_conformance_vector_ids c)) (\<lambda>_.
     if cl_conformance_vector_hash c \<noteq> sha256_id (join newline (cl_conformance_vector_ids c))
       then Inl (ValueError ''CV2_REFERENCE_CONFORMANCE_HASH'')
     else if cl_minimum_participants c < 1 then Inl (ValueError ''CV2_REFERENCE_MINIMUM_PARTICIPANTS'')
     else if cl_trace_max_events c < 1 then Inl (ValueError ''CV2_REFERENCE_TRACE_BUDGET'')
     else attempt (exact_decimal (cl_max_abs_residual c)) (\<lambda>bound.
     if bound < 0 then Inl (ValueError ''CV2_REFERENCE_RESIDUAL_BOUND'')
     else if set (map fst (cl_exclusion_reason_ids c)) \<noteq> {''no_ranking'', ''residual''} then Inl (ValueError ''CV2_REFERENCE_REASON_CLOSURE'')
     else attempt (mapM (identity_of ''CV2_REFERENCE_REASON_CLOSURE'') (map snd (cl_exclusion_reason_ids c))) (\<lambda>_. Inr ()))))"

definition mk_ConsensusOperationClosureV2 :: "operation_closure \<Rightarrow> operation_closure res" where
  "mk_ConsensusOperationClosureV2 c = attempt (check_operation c) (\<lambda>_.
     Inr (c\<lparr>cl_exclusion_reason_ids := sorted_items (cl_exclusion_reason_ids c)\<rparr>))"

section \<open>Results\<close>

datatype reference_status = BLOCKED | EVALUATED

definition reference_status_value :: "reference_status \<Rightarrow> string" where
  "reference_status_value s = (case s of BLOCKED \<Rightarrow> ''blocked'' | EVALUATED \<Rightarrow> ''evaluated'')"

record reference_trace =
  rt2_round_input_id :: pyval
  rt2_parameter_set_id :: string
  rt2_events :: "(string \<times> string) list"
  rt2_authorization_effect :: string

record reference_evaluation =
  re_status :: reference_status
  re_decision :: "decision_v2 option"
  re_diagnostics :: "string list"
  re_trace :: reference_trace
  re_authorization_effect :: string

definition trace_of :: "pyval \<Rightarrow> parameter_set \<Rightarrow> (string \<times> string) list \<Rightarrow> reference_trace" where
  "trace_of input_id p events = \<lparr>rt2_round_input_id = input_id, rt2_parameter_set_id = pset_parameter_set_id p,
     rt2_events = events, rt2_authorization_effect = ''none''\<rparr>"

definition blocked_evaluation :: "pyval \<Rightarrow> parameter_set \<Rightarrow> string list \<Rightarrow> reference_evaluation" where
  "blocked_evaluation input_id p diagnostics = \<lparr>re_status = BLOCKED, re_decision = None,
     re_diagnostics = sorted_set diagnostics, re_trace = trace_of input_id p [], re_authorization_effect = ''none''\<rparr>"

section \<open>The gates\<close>

definition declared_diagnostics ::
  "contract_validation \<Rightarrow> parameter_validation \<Rightarrow> operation_closure option \<Rightarrow> evaluation_observation list \<Rightarrow> string list" where
  "declared_diagnostics cv pv op obs = cv_diagnostics cv @ map vi_rule_id (pvr_violations pv)
     @ (if cv_valid cv then [] else [''CV2_REFERENCE_CONTRACT_BLOCKED''])
     @ (if pvr_status pv = ''valid'' then [] else [''CV2_REFERENCE_PARAMETER_BLOCKED''])
     @ (if op = None \<or> obs = [] then [''CV2_REFERENCE_OPERATION_INPUT_UNAVAILABLE''] else [])"

definition parameters_bound :: "parameter_set \<Rightarrow> pyval \<Rightarrow> operation_closure \<Rightarrow> bool res" where
  "parameters_bound p data op = attempt (sub data ''comparison_basis'') (\<lambda>basis.
     attempt (sub basis ''basis_id'') (\<lambda>b. attempt (text_list_field basis ''profile_ids'') (\<lambda>profiles.
     attempt (text_list_field data ''quality_policy_ids'') (\<lambda>policies.
     Inr (PStr (pset_comparison_basis_id p) = b \<and> pset_profile_id p \<in> set profiles \<and> pset_quality_policy_id p \<in> set policies
       \<and> pset_residual_policy_id p = cl_operation_id op
       \<and> pset_residual_policy_canonical_bytes_sha256 p = cl_canonical_bytes_hash op
       \<and> pset_residual_policy_conformance_id p = cl_conformance_vector_hash op)))))"

text \<open>\<open>provided\<close>: the projections by edge, a later one replacing an earlier one.\<close>

definition provided_of :: "evaluation_observation list \<Rightarrow> (string, evaluation_observation) dict" where
  "provided_of obs = dict_of (map (\<lambda>x. (eo_edge_id x, x)) obs)"

definition binding_diagnostics :: "(string, observation_v2) dict \<Rightarrow> (string, evaluation_observation) dict \<Rightarrow> string list" where
  "binding_diagnostics rows provided = concat (map (\<lambda>(edge, x). case map_of rows edge of
       None \<Rightarrow> [''CV2_REFERENCE_PROJECTION_BINDING'']
     | Some r \<Rightarrow> if ob_observation_id r \<noteq> eo_observation_id x \<or> ob_canonical_hash r \<noteq> eo_observation_canonical_hash x
         then [''CV2_REFERENCE_PROJECTION_BINDING''] else []) provided)"

definition closure_diagnostics ::
  "bool \<Rightarrow> (string, observation_v2) dict \<Rightarrow> evaluation_observation list \<Rightarrow> operation_closure \<Rightarrow> string list" where
  "closure_diagnostics bound rows obs op = (let provided = provided_of obs in
     (if bound then [] else [''CV2_REFERENCE_OPERATION_PARAMETER_CLOSURE''])
     @ (if length provided \<noteq> length obs \<or> set (map fst provided) \<noteq> set (map fst rows) then [''CV2_REFERENCE_PROJECTION_CLOSURE''] else [])
     @ binding_diagnostics rows provided
     @ (if int (length obs) + 1 > cl_trace_max_events op then [''CV2_REFERENCE_TRACE_BUDGET_EXCEEDED''] else []))"

section \<open>The operation\<close>

definition decimal_values :: "evaluation_observation list \<Rightarrow> (string, decimal) dict res" where
  "decimal_values obs = attempt (mapM (\<lambda>x. attempt (exact_decimal (eo_current_value x)) (\<lambda>v. Inr (eo_edge_id x, v)))
     (filter (\<lambda>x. eo_eligibility_reason_id x = None) obs)) (\<lambda>es. Inr (dict_of es))"

definition mean_of_values :: "(string, decimal) dict \<Rightarrow> decimal" where
  "mean_of_values values = ddiv (dsum (map snd values)) (of_nat (length values))"

definition residual_of :: "(string, decimal) dict \<Rightarrow> decimal \<Rightarrow> decimal" where
  "residual_of values v = \<bar>dsub v (mean_of_values values)\<bar>"

text \<open>The edges left out with their reason and evidence: the ineligible ones, then the distant ones.\<close>

definition ineligible :: "evaluation_observation list \<Rightarrow> (string, string \<times> string) dict" where
  "ineligible obs = dict_of (map (\<lambda>x. (eo_edge_id x, the (eo_eligibility_reason_id x), eo_eligibility_evidence_id x))
     (filter (\<lambda>x. eo_eligibility_reason_id x \<noteq> None) obs))"

definition excluded_edges ::
  "evaluation_observation list \<Rightarrow> (string, decimal) dict \<Rightarrow> decimal \<Rightarrow> string \<Rightarrow> (string, string \<times> string) dict res" where
  "excluded_edges obs values bound reason = attempt (mapM (\<lambda>(edge, _).
       attempt (getitem (provided_of obs) edge) (\<lambda>x. Inr (edge, reason, eo_eligibility_evidence_id x)))
     (filter (\<lambda>(edge, v). bound < residual_of values v) values)) (\<lambda>es.
     Inr (foldl (\<lambda>d e. AList.update (fst e) (snd e) d) (ineligible obs) es))"

definition exclusion_entry :: "string \<times> string \<times> string \<Rightarrow> pyval" where
  "exclusion_entry e = PDict [(''edge_id'', PStr (fst e)), (''reason_id'', PStr (fst (snd e))),
     (''evidence_ids'', PList [PStr (snd (snd e))])]"

definition decision_payload ::
  "pyval \<Rightarrow> pyval \<Rightarrow> string \<Rightarrow> string list \<Rightarrow> string list \<Rightarrow> (string, string \<times> string) dict \<Rightarrow> string list \<Rightarrow> string list \<Rightarrow> (string, pyval) dict" where
  "decision_payload input_id basis outcome participants included excluded ranking diagnostics = [
     (''schema_version'', PStr ''Consensus.v2''), (''round_input_id'', input_id), (''round_input_hash'', input_id),
     (''comparison_basis'', basis), (''outcome'', PStr outcome), (''participant_ids'', PList (map PStr participants)),
     (''included_ids'', PList (map PStr included)), (''excluded'', PList (map exclusion_entry (sorted_items excluded))),
     (''ranking'', PList (map PStr ranking)), (''diagnostics'', PList (map PStr diagnostics)),
     (''decision_content_id'', PStr []), (''authorization_effect'', PStr ''none'')]"

definition sealed :: "(string, pyval) dict \<Rightarrow> pyval" where
  "sealed d = PDict (AList.update ''decision_content_id'' (PStr (content_id ''decision_content_id'' d)) d)"

definition operation_note :: "operation_closure \<Rightarrow> string" where
  "operation_note op = ''CV2_OPERATION:'' @ cl_operation_id op"

text \<open>The included edges in the order of their residuals, the identifier deciding among equals.\<close>

definition residual_ranking :: "(string, decimal) dict \<Rightarrow> string list \<Rightarrow> string list res" where
  "residual_ranking values included = attempt (mapM (\<lambda>edge. attempt (getitem values edge) (\<lambda>v. Inr (residual_of values v, edge))) included)
     (\<lambda>keyed. Inr (map snd (sort keyed)))"

definition included_edges :: "(string, decimal) dict \<Rightarrow> (string, string \<times> string) dict \<Rightarrow> string list" where
  "included_edges values excluded = sort (filter (\<lambda>e. e \<notin> set (map fst excluded)) (map fst values))"

definition reference_decision ::
  "pyval \<Rightarrow> pyval \<Rightarrow> operation_closure \<Rightarrow> evaluation_observation list \<Rightarrow> decision_v2 res" where
  "reference_decision input_id basis op obs = (let participants = sort (map fst (provided_of obs)) in
     attempt (decimal_values obs) (\<lambda>values.
     attempt (exact_decimal (cl_max_abs_residual op)) (\<lambda>bound.
     attempt (getitem (cl_exclusion_reason_ids op) ''residual'') (\<lambda>residual.
     attempt (excluded_edges obs values bound residual) (\<lambda>excluded. let included = included_edges values excluded in
     if int (length included) < cl_minimum_participants op then
       attempt (getitem (cl_exclusion_reason_ids op) ''no_ranking'') (\<lambda>no_ranking.
       attempt (mapM (\<lambda>edge. attempt (getitem (provided_of obs) edge) (\<lambda>x. Inr (edge, no_ranking, eo_eligibility_evidence_id x))) participants)
         (\<lambda>all. mk_ConsensusDecisionV2 (sealed (decision_payload input_id basis ''failure'' participants [] all []
           [''no_ranking'', operation_note op]))))
     else attempt (residual_ranking values included) (\<lambda>ranking.
       mk_ConsensusDecisionV2 (sealed (decision_payload input_id basis ''success'' participants included excluded ranking
         [operation_note op]))))))))"

definition trace_events :: "evaluation_observation list \<Rightarrow> operation_closure \<Rightarrow> (string \<times> string) list" where
  "trace_events obs op = map (\<lambda>e. (''observation'', e)) (sort (map fst (provided_of obs))) @ [(''operation'', cl_operation_id op)]"

definition evaluate_consensus_v2_reference ::
  "round_input_v2 \<Rightarrow> parameter_set \<Rightarrow> contract_validation \<Rightarrow> parameter_validation \<Rightarrow> operation_closure option
     \<Rightarrow> evaluation_observation list \<Rightarrow> reference_evaluation res" where
  "evaluate_consensus_v2_reference ri p cv pv operation obs = attempt (sub (iv_payload ri) ''input_content_id'') (\<lambda>input_id.
     let declared = declared_diagnostics cv pv operation obs in
     case operation of
       None \<Rightarrow> Inr (blocked_evaluation input_id p declared)
     | Some op \<Rightarrow> if declared \<noteq> [] then Inr (blocked_evaluation input_id p declared)
       else attempt (parameters_bound p (iv_payload ri) op) (\<lambda>bound.
       attempt (input_rows ri) (\<lambda>rows.
       let unclosed = closure_diagnostics bound (dict_of (map (\<lambda>r. (ob_edge_id r, r)) rows)) obs op in
       if unclosed \<noteq> [] then Inr (blocked_evaluation input_id p unclosed)
       else attempt (sub (iv_payload ri) ''comparison_basis'') (\<lambda>basis.
       attempt (reference_decision input_id basis op obs) (\<lambda>d.
       Inr \<lparr>re_status = EVALUATED, re_decision = Some d, re_diagnostics = [], re_trace = trace_of input_id p (trace_events obs op),
         re_authorization_effect = ''none''\<rparr>)))))"

end
