(* ===== verification/ConsensusV2Laws.thy ===== *)
theory ConsensusV2Laws
  imports ConsensusV2Reference
begin

text \<open>
  Laws of the second consensus version: what a constructed input and a constructed decision
  promise, and what the reference evaluator returns.
\<close>

section \<open>Checked fields\<close>

text \<open>Taking a sequence of checks that succeeded apart.\<close>

lemma attemptE:
  assumes "attempt r f = Inr y"
  obtains x where "r = Inr x" "f x = Inr y"
  using assms by (auto simp: attempt_eq_Inr)

lemma guardE:
  assumes "(if b then Inl e else r) = Inr y"
  obtains "\<not> b" "r = Inr y"
  using assms by (simp split: if_splits)

lemma choiceE:
  assumes "(if b then Inl e else if b' then Inl e' else r) = Inr y"
  obtains "\<not> b" "\<not> b'" "r = Inr y"
  using assms by (simp split: if_splits)

lemma opaque_Inr: "opaque code v = Inr s \<longleftrightarrow> v = PStr s \<and> is_immutable_id s"
  by (auto simp: opaque_def split: pyval.splits)

lemma opaque_PStr: "is_immutable_id s \<Longrightarrow> opaque code (PStr s) = Inr s"
  by (simp add: opaque_def)

lemma mapM_opaque: "mapM (opaque code) xs = Inr ids \<longleftrightarrow> xs = map PStr ids \<and> list_all is_immutable_id ids"
proof (induction xs arbitrary: ids)
  case (Cons x xs)
  show ?case by (cases ids) (auto simp: attempt_eq_Inr opaque_Inr Cons.IH)
qed auto

lemma closed_fields_Inr: "closed_fields v names code = Inr d \<longleftrightarrow> v = PDict d \<and> set (map fst d) = set names"
  by (auto simp: closed_fields_def split: pyval.splits if_splits)

lemma sort_iff_sorted: "xs = sort xs \<longleftrightarrow> sorted xs" for xs :: "'a :: linorder list"
  by (metis sorted_sort sort_key_id_if_sorted map_ident)

lemma ordered_ids_Inr: "ordered_ids v code nonempty = Inr ids \<longleftrightarrow>
    v = PList (map PStr ids) \<and> list_all is_immutable_id ids \<and> sorted ids \<and> distinct ids \<and> (nonempty \<longrightarrow> ids \<noteq> [])"
  by (auto simp: ordered_ids_def attempt_eq_Inr mapM_opaque sort_iff_sorted [symmetric] split: pyval.splits if_splits)

lemma ordered_ids_map:
  assumes "list_all is_immutable_id ids" "nonempty \<longrightarrow> ids \<noteq> []"
  shows "ordered_ids (PList (map PStr ids)) code nonempty = (if sorted ids \<and> distinct ids then Inr ids else Inl (ConsensusV2Error code))"
proof -
  have "mapM (opaque code) (map PStr ids) = Inr ids" using assms(1) by (simp add: mapM_opaque)
  then show ?thesis using assms(2) by (auto simp: ordered_ids_def sort_iff_sorted [symmetric])
qed

lemma check_version_Inr: "check_version d code = Inr u \<longleftrightarrow>
    map_of d ''schema_version'' = Some (PStr CONSENSUS_V2_SCHEMA) \<and> map_of d ''authorization_effect'' = Some (PStr ''none'')"
  by (auto simp: check_version_def attempt_eq_Inr getitem_Inr split: if_splits)

lemma check_content_id_Inr: "check_content_id d name c1 c2 = Inr s \<longleftrightarrow>
    map_of d name = Some (PStr s) \<and> s = content_id name d"
  by (auto simp: check_content_id_def attempt_eq_Inr getitem_Inr opaque_Inr content_id_def split: if_splits)

section \<open>Constructed inputs\<close>

lemma check_observation_Inr:
  assumes "check_observation v = Inr r"
  obtains d where "v = PDict (d :: (string, pyval) dict)" "is_immutable_id (ob_edge_id r)" "is_immutable_id (ob_observation_id r)"
    "is_immutable_id (ob_canonical_hash r)" "is_immutable_id (ob_profile_id r)" "0 < ob_source_sequence r"
proof -
  from assms obtain d e i p h x where steps: "v = PDict d" "is_immutable_id e" "is_immutable_id i" "is_immutable_id p" "is_immutable_id h"
    "(case x of PInt n \<Rightarrow> if n \<le> 0 then Inl (ConsensusV2Error ''CV2_SOURCE_SEQUENCE'')
         else attempt (getitem d ''raw_current_unit'') (\<lambda>unit.
           if unit \<noteq> PStr ''mA'' then Inl (ConsensusV2Error ''CV2_RAW_CURRENT_UNIT'')
           else Inr \<lparr>ob_edge_id = e, ob_observation_id = i, ob_canonical_hash = h, ob_profile_id = p, ob_source_sequence = n\<rparr>)
     | _ \<Rightarrow> Inl (ConsensusV2Error ''CV2_SOURCE_SEQUENCE'')) = Inr r"
    unfolding check_observation_def attempt_eq_Inr closed_fields_Inr opaque_Inr by (elim exE conjE) (rule that)
  from steps(6) obtain n where "0 < n"
    "r = \<lparr>ob_edge_id = e, ob_observation_id = i, ob_canonical_hash = h, ob_profile_id = p, ob_source_sequence = n\<rparr>"
    by (cases x) (auto simp: attempt_eq_Inr split: if_splits)
  with steps show thesis by (intro that) simp_all
qed

text \<open>What a constructed round input promises.\<close>

definition input_ok :: "pyval \<Rightarrow> pyval \<Rightarrow> string \<Rightarrow> observation_v2 list \<Rightarrow> bool" where
  "input_ok p basis cid rows = (sub p ''input_content_id'' = Inr (PStr cid) \<and> is_immutable_id cid \<and>
     sub p ''comparison_basis'' = Inr basis \<and> (\<exists>kb. check_basis basis = Inr kb) \<and>
     input_rows \<lparr>iv_payload = p\<rparr> = Inr rows \<and> rows \<noteq> [] \<and> sorted (map ob_edge_id rows) \<and> distinct (map ob_edge_id rows) \<and>
     (\<forall>r \<in> set rows. is_immutable_id (ob_edge_id r)) \<and>
     (\<exists>d. p = PDict d \<and> cid = content_id ''input_content_id'' d))"

lemma sorted_edges: "sorted (map observation_key rows) \<Longrightarrow> sorted (map ob_edge_id rows)"
  by (induction rows) (auto simp: observation_key_def less_eq_prod_def)

lemma constructed_input:
  assumes "mk_ConsensusRoundInputV2 p = Inr ri"
  obtains basis cid rows where "ri = \<lparr>iv_payload = p\<rparr>" "input_ok p basis cid rows"
proof -
  have c: "check_input p = Inr ()" and ri: "ri = \<lparr>iv_payload = p\<rparr>"
    using assms by (auto simp: mk_ConsensusRoundInputV2_def attempt_eq_Inr)
  obtain d where cf: "closed_fields p INPUT_FIELDS ''CV2_INPUT_FIELDS'' = Inr d"
    using c unfolding check_input_def by (elim attemptE)
  then have p: "p = PDict d" by (simp add: closed_fields_Inr)
  have "\<exists>basis kb v rows cid. getitem d ''comparison_basis'' = Inr basis \<and> check_basis basis = Inr kb \<and>
      getitem d ''observations'' = Inr v \<and> check_observations v = Inr rows \<and>
      check_content_id d ''input_content_id'' ''CV2_INPUT_CONTENT_ID'' ''CV2_INPUT_CONTENT_HASH'' = Inr cid"
    using c unfolding check_input_def cf attempt_Inr split_def by (elim attemptE guardE) (intro exI conjI)
  then obtain basis kb v rows cid where raw: "getitem d ''comparison_basis'' = Inr basis" "check_basis basis = Inr kb"
      "getitem d ''observations'' = Inr v" "check_observations v = Inr rows"
      "check_content_id d ''input_content_id'' ''CV2_INPUT_CONTENT_ID'' ''CV2_INPUT_CONTENT_HASH'' = Inr cid"
    by (elim exE conjE)
  have f: "map_of d ''comparison_basis'' = Some basis" "check_basis basis = Inr kb"
    "map_of d ''observations'' = Some v" "check_observations v = Inr rows"
    "check_content_id d ''input_content_id'' ''CV2_INPUT_CONTENT_ID'' ''CV2_INPUT_CONTENT_HASH'' = Inr cid"
    using raw by (simp_all add: getitem_Inr)
  have rows: "sorted (map observation_key rows)" "distinct (map ob_edge_id rows)" "rows \<noteq> []"
    using f(4) by (auto simp: check_observations_def attempt_eq_Inr split: if_splits)
  obtain xs where xs: "v = PList xs" "mapM check_observation xs = Inr rows"
    using f(4) rows(3) by (cases v) (auto simp: check_observations_def attempt_eq_Inr split: if_splits)
  have "is_immutable_id (ob_edge_id r)" if "r \<in> set rows" for r
    using mapM_set_origin [OF xs(2) that] by (auto elim: check_observation_Inr)
  moreover have "input_rows \<lparr>iv_payload = p\<rparr> = Inr rows" by (simp add: input_rows_def p f(3) xs sub.simps(1))
  moreover have "cid = content_id ''input_content_id'' d" "map_of d ''input_content_id'' = Some (PStr cid)"
    using f(5) by (simp_all add: check_content_id_Inr)
  moreover from this(1) have "is_immutable_id cid" by (simp add: content_id_def)
  ultimately have "input_ok p basis cid rows"
    unfolding input_ok_def using rows f(1,2) sorted_edges [OF rows(1)] by (cases kb) (auto simp: p sub.simps(1))
  with ri show thesis by (rule that)
qed

section \<open>Constructed decisions\<close>

text \<open>What a constructed decision promises: the ranking of a success is the list of the included edges.\<close>

definition decision_ok :: "pyval \<Rightarrow> bool" where
  "decision_ok p = (\<exists>d participants included excluded ranking. p = PDict d \<and>
     map_of d ''participant_ids'' = Some (PList (map PStr participants)) \<and> participants \<noteq> [] \<and>
     map_of d ''included_ids'' = Some (PList (map PStr included)) \<and>
     map_of d ''ranking'' = Some (PList (map PStr ranking)) \<and>
     map_of d ''excluded'' = Some (PList excluded) \<and>
     (\<exists>edges. mapM check_exclusion excluded = Inr edges \<and> set edges \<union> set included = set participants \<and> set edges \<inter> set included = {}) \<and>
     sorted participants \<and> distinct participants \<and>
     (map_of d ''outcome'' = Some (PStr ''success'') \<and> ranking = included \<and> included \<noteq> [] \<or>
      map_of d ''outcome'' = Some (PStr ''failure'') \<and> ranking = [] \<and> included = []) \<and>
     map_of d ''decision_content_id'' = Some (PStr (content_id ''decision_content_id'' d)))"

lemma decision_checked_ok:
  assumes "check_decision p = Inr ()"
  shows "decision_ok p"
proof -
  obtain d where cf: "closed_fields p DECISION_FIELDS ''CV2_DECISION_FIELDS'' = Inr d"
    using assms unfolding check_decision_def by (elim attemptE)
  then have p: "p = PDict d" by (simp add: closed_fields_Inr)
  obtain pv iv ex rv outcome pt inc ranking u w cid where raw:
    "getitem d ''participant_ids'' = Inr pv" "ordered_ids pv ''CV2_PARTICIPANT_CLOSURE'' True = Inr pt"
    "getitem d ''included_ids'' = Inr iv" "ordered_ids iv ''CV2_INCLUDED_CLOSURE'' False = Inr inc" "\<not> \<not> set inc \<subseteq> set pt"
    "getitem d ''excluded'' = Inr ex" "check_partition pt inc ex = Inr u"
    "getitem d ''outcome'' = Inr outcome" "\<not> outcome \<notin> {PStr ''success'', PStr ''failure''}"
    "getitem d ''ranking'' = Inr rv" "ordered_ids rv ''CV2_RANKING'' False = Inr ranking" "check_outcome outcome ranking inc = Inr w"
    "check_content_id d ''decision_content_id'' ''CV2_DECISION_CONTENT_ID'' ''CV2_DECISION_CONTENT_HASH'' = Inr cid"
    using assms unfolding check_decision_def cf attempt_Inr
    by (elim attemptE guardE) (rule that)
  have f: "map_of d ''participant_ids'' = Some (PList (map PStr pt))" "sorted pt" "distinct pt" "pt \<noteq> []"
    "map_of d ''included_ids'' = Some (PList (map PStr inc))" "sorted inc" "distinct inc"
    "map_of d ''excluded'' = Some ex" "map_of d ''outcome'' = Some outcome"
    "map_of d ''ranking'' = Some (PList (map PStr ranking))" "sorted ranking" "distinct ranking"
    using raw(1-4,6,8,10,11) by (simp_all add: getitem_Inr ordered_ids_Inr)
  obtain xs edges where ex: "ex = PList xs" "mapM check_exclusion xs = Inr edges" "set edges \<union> set inc = set pt" "set edges \<inter> set inc = {}"
    using raw(7) by (cases ex) (auto simp: check_partition_def attempt_eq_Inr split: if_splits)
  have same: "set ranking = set inc \<Longrightarrow> ranking = inc" by (rule sorted_distinct_set_unique [OF f(11,12,6,7)])
  have "map_of d ''outcome'' = Some (PStr ''success'') \<and> ranking = inc \<and> inc \<noteq> [] \<or>
      map_of d ''outcome'' = Some (PStr ''failure'') \<and> ranking = [] \<and> inc = []"
  proof (cases "outcome = PStr ''success''")
    case True
    then show ?thesis using raw(12) f(9) same by (cases "ranking = []") (simp_all add: check_outcome_def split: if_splits)
  next
    case False
    with raw(9) have "outcome = PStr ''failure''" by simp
    then show ?thesis using raw(12) f(9) by (simp add: check_outcome_def split: if_splits)
  qed
  moreover have "map_of d ''decision_content_id'' = Some (PStr (content_id ''decision_content_id'' d))"
    using raw(13) by (simp add: check_content_id_Inr)
  moreover have "map_of d ''excluded'' = Some (PList xs)" using f(8) ex(1) by simp
  ultimately show ?thesis unfolding decision_ok_def using p f(1-5,10) ex(2-4)
    by - (rule exI [of _ d], rule exI [of _ pt], rule exI [of _ inc], rule exI [of _ xs], rule exI [of _ ranking], intro conjI exI [of _ edges]; assumption)
qed

text \<open>The payload the evaluator builds: accepted exactly when its ranking is in the order of identifiers.\<close>

lemma dpop_update [simp]: "dpop k (AList.update k v d) = dpop k d"
  by (induction d) (auto simp: dpop_def)

lemma content_id_sealed: "content_id name (AList.update name v d) = content_id name d"
  by (simp add: content_id_def content_bytes_def)

lemma check_exclusion_entry:
  assumes "is_immutable_id e" "is_immutable_id r" "is_immutable_id ev"
  shows "check_exclusion (exclusion_entry (e, r, ev)) = Inr e"
proof -
  have "ordered_ids (PList [PStr ev]) c True = Inr [ev]" for c
    using ordered_ids_map [of "[ev]" True c] assms(3) by simp
  then show ?thesis
    using assms by (simp add: check_exclusion_def exclusion_entry_def closed_fields_def EXCLUSION_FIELDS_def getitem_def opaque_PStr)
qed

lemma check_entries:
  assumes "\<forall>(e, r, ev) \<in> set es. is_immutable_id e \<and> is_immutable_id r \<and> is_immutable_id ev"
  shows "mapM check_exclusion (map exclusion_entry es) = Inr (map fst es)"
  using assms by (induction es) (auto simp: check_exclusion_entry)

definition outcome_fits :: "string \<Rightarrow> string list \<Rightarrow> string list \<Rightarrow> bool" where
  "outcome_fits outcome included ranking = (outcome = ''success'' \<and> set ranking = set included \<and> ranking \<noteq> [] \<or>
     outcome = ''failure'' \<and> ranking = [] \<and> included = [])"

lemma decision_accepted:
  assumes ids: "is_immutable_id cid" "check_basis basis = Inr kb"
    and participants: "list_all is_immutable_id participants" "sorted participants" "distinct participants" "participants \<noteq> []"
    and included: "sorted included" "distinct included" "set included \<subseteq> set participants"
    and excluded: "\<forall>(e, r, ev) \<in> set excluded. is_immutable_id r \<and> is_immutable_id ev" "distinct (map fst excluded)"
      "set (map fst excluded) = set participants - set included"
    and rest: "list_all (\<lambda>x. x \<noteq> []) diagnostics" "outcome_fits outcome included ranking"
  shows "mk_ConsensusDecisionV2 (sealed (decision_payload (PStr cid) basis outcome participants included excluded ranking diagnostics)) =
    (if sorted ranking \<and> distinct ranking
     then Inr \<lparr>dv_payload = sealed (decision_payload (PStr cid) basis outcome participants included excluded ranking diagnostics)\<rparr>
     else Inl (ConsensusV2Error ''CV2_RANKING''))"
proof -
  let ?p = "decision_payload (PStr cid) basis outcome participants included excluded ranking diagnostics"
  let ?d = "AList.update ''decision_content_id'' (PStr (content_id ''decision_content_id'' ?p)) ?p"
  have imm: "list_all is_immutable_id included" "list_all is_immutable_id ranking"
    using participants(1) included(3) rest(2) by (auto simp: list_all_iff outcome_fits_def)
  have get: "getitem ?d ''schema_version'' = Inr (PStr ''Consensus.v2'')" "getitem ?d ''authorization_effect'' = Inr (PStr ''none'')"
      "getitem ?d ''round_input_id'' = Inr (PStr cid)" "getitem ?d ''round_input_hash'' = Inr (PStr cid)"
      "getitem ?d ''comparison_basis'' = Inr basis" "getitem ?d ''participant_ids'' = Inr (PList (map PStr participants))"
      "getitem ?d ''included_ids'' = Inr (PList (map PStr included))"
      "getitem ?d ''excluded'' = Inr (PList (map exclusion_entry (sorted_items excluded)))"
      "getitem ?d ''diagnostics'' = Inr (PList (map PStr diagnostics))" "getitem ?d ''outcome'' = Inr (PStr outcome)"
      "getitem ?d ''ranking'' = Inr (PList (map PStr ranking))"
      "getitem ?d ''decision_content_id'' = Inr (PStr (content_id ''decision_content_id'' ?p))"
    by (simp_all add: decision_payload_def getitem_def)
  have fields: "closed_fields (PDict ?d) DECISION_FIELDS ''CV2_DECISION_FIELDS'' = Inr ?d"
    by (auto simp: closed_fields_def decision_payload_def DECISION_FIELDS_def)
  have version: "check_version ?d ''CV2_DECISION_VERSION'' = Inr ()" by (simp add: check_version_def get CONSENSUS_V2_SCHEMA_def)
  have ident: "check_content_id ?d ''decision_content_id'' ''CV2_DECISION_CONTENT_ID'' ''CV2_DECISION_CONTENT_HASH'' =
      Inr (content_id ''decision_content_id'' ?p)"
    by (simp add: check_content_id_Inr content_id_sealed)
  have entries: "mapM check_exclusion (map exclusion_entry (sorted_items excluded)) = Inr (map fst (sorted_items excluded))"
    using excluded(1,3) participants(1) by (intro check_entries) (force simp: list_all_iff)
  have "sorted (map fst (sorted_items excluded))" "distinct (map fst (sorted_items excluded))"
    "set (map fst (sorted_items excluded)) = set (map fst excluded)"
    using excluded(2) by (simp_all add: sorted_items_def distinct_map)
  then have partition: "check_partition participants included (PList (map exclusion_entry (sorted_items excluded))) = Inr ()"
    using excluded(3) included(3) by (auto simp: check_partition_def entries sort_iff_sorted)
  have texts: "check_diagnostics (PList (map PStr diagnostics)) = Inr ()"
    using rest(1) by (auto simp: check_diagnostics_def list_all_iff is_text_def)
  have outcome: "check_outcome (PStr outcome) ranking included = Inr ()" "\<not> unhashable (PStr outcome)"
      "PStr outcome \<in> {PStr ''success'', PStr ''failure''}"
    using rest(2) by (auto simp: check_outcome_def outcome_fits_def unhashable_def)
  have "check_decision (PDict ?d) = (if sorted ranking \<and> distinct ranking then Inr () else Inl (ConsensusV2Error ''CV2_RANKING''))"
    unfolding check_decision_def fields attempt_Inr version get ids(2) partition texts ident
    using ids(1) imm participants included outcome by (simp add: get opaque_PStr ordered_ids_map partition texts ident)
  then show ?thesis by (simp add: mk_ConsensusDecisionV2_def sealed_def)
qed

section \<open>The evaluator\<close>

text \<open>Dictionaries built by updates.\<close>

lemma foldl_update_keys:
  "set (map fst (foldl (\<lambda>d e. AList.update (fst e) (snd e) d) d es)) = set (map fst d) \<union> set (map fst es)"
proof (induction es arbitrary: d)
  case (Cons e es)
  show ?case by (simp only: foldl_Cons Cons.IH) (auto simp: dom_update dom_map_of_conv_image_fst [symmetric] update_conv')
qed simp

lemma foldl_update_distinct:
  "distinct (map fst d) \<Longrightarrow> distinct (map fst (foldl (\<lambda>d e. AList.update (fst e) (snd e) d) d es))"
  by (induction es arbitrary: d) (simp_all add: distinct_update)

lemma set_update_subset: "set (AList.update k v d) \<subseteq> insert (k, v) (set d)"
  by (induction d) auto

lemma foldl_update_all:
  "\<forall>x \<in> set d. P x \<Longrightarrow> \<forall>x \<in> set es. P x \<Longrightarrow> \<forall>x \<in> set (foldl (\<lambda>d e. AList.update (fst e) (snd e) d) d es). P x"
proof (induction es arbitrary: d)
  case (Cons e es)
  have "\<forall>x \<in> set (AList.update (fst e) (snd e) d). P x"
    using Cons.prems set_update_subset [of "fst e" "snd e" d] by auto
  from Cons.IH [OF this] Cons.prems(2) show ?case by simp
qed simp

lemma dict_of_full_length:
  assumes "length (dict_of es) = length es"
  shows "distinct (map fst es)"
proof -
  have "length (map fst (dict_of es)) = card (set (map fst (dict_of es)))"
    using foldl_update_distinct [of "[]" es] by (intro distinct_card [symmetric]) (simp add: dict_of_def)
  also have "set (map fst (dict_of es)) = set (map fst es)"
    using foldl_update_keys [of "[]" es] by (simp add: dict_of_def)
  finally show ?thesis using assms by (intro card_distinct) simp
qed

text \<open>The operation, on its inputs: the eligible values, the edges within the bound, their order by residual.\<close>

definition value_of :: "evaluation_observation \<Rightarrow> decimal" where
  "value_of x = (case exact_decimal (eo_current_value x) of Inl _ \<Rightarrow> 0 | Inr v \<Rightarrow> v)"

definition residual_bound :: "operation_closure \<Rightarrow> decimal" where
  "residual_bound op = (case exact_decimal (cl_max_abs_residual op) of Inl _ \<Rightarrow> 0 | Inr v \<Rightarrow> v)"

definition eligible_values :: "evaluation_observation list \<Rightarrow> (string, decimal) dict" where
  "eligible_values obs = map (\<lambda>x. (eo_edge_id x, value_of x)) (filter (\<lambda>x. eo_eligibility_reason_id x = None) obs)"

definition kept_edges :: "operation_closure \<Rightarrow> evaluation_observation list \<Rightarrow> string list" where
  "kept_edges op obs = (let values = eligible_values obs in
     sort (map fst (filter (\<lambda>(e, v). residual_of values v \<le> residual_bound op) values)))"

definition edge_residual :: "evaluation_observation list \<Rightarrow> string \<Rightarrow> decimal" where
  "edge_residual obs e = residual_of (eligible_values obs) (the (map_of (eligible_values obs) e))"

definition residual_order :: "operation_closure \<Rightarrow> evaluation_observation list \<Rightarrow> string list" where
  "residual_order op obs = map snd (sort (map (\<lambda>e. (edge_residual obs e, e)) (kept_edges op obs)))"

text \<open>The declarations are valid and the projection is closed.\<close>

definition admitted ::
  "round_input_v2 \<Rightarrow> parameter_set \<Rightarrow> contract_validation \<Rightarrow> parameter_validation \<Rightarrow> operation_closure \<Rightarrow> evaluation_observation list \<Rightarrow> bool" where
  "admitted ri p cv pv op obs = (declared_diagnostics cv pv (Some op) obs = [] \<and>
     (\<exists>bound rows. parameters_bound p (iv_payload ri) op = Inr bound \<and> input_rows ri = Inr rows \<and>
        closure_diagnostics bound (dict_of (map (\<lambda>r. (ob_edge_id r, r)) rows)) obs op = []))"

definition wf_observations :: "evaluation_observation list \<Rightarrow> bool" where
  "wf_observations obs = (\<forall>x \<in> set obs. mk_ConsensusEvaluationObservationV2 x = Inr x)"

lemma observation_fields:
  assumes "mk_ConsensusEvaluationObservationV2 x = Inr x"
  shows "is_immutable_id (eo_edge_id x)" "is_immutable_id (eo_eligibility_evidence_id x)"
    "eo_eligibility_reason_id x = Some r \<Longrightarrow> is_immutable_id r" "exact_decimal (eo_current_value x) = Inr (value_of x)"
  using assms by (auto simp: mk_ConsensusEvaluationObservationV2_def attempt_eq_Inr identity_of_def value_of_def split: if_splits)

lemma operation_fields:
  assumes "mk_ConsensusOperationClosureV2 op0 = Inr op"
  obtains residual no_ranking where "exact_decimal (cl_max_abs_residual op) = Inr (residual_bound op)" "1 \<le> cl_minimum_participants op"
    "getitem (cl_exclusion_reason_ids op) ''residual'' = Inr residual" "is_immutable_id residual"
    "getitem (cl_exclusion_reason_ids op) ''no_ranking'' = Inr no_ranking" "is_immutable_id no_ranking"
proof -
  obtain u where c: "check_operation op0 = Inr u" and op: "op = op0\<lparr>cl_exclusion_reason_ids := sorted_items (cl_exclusion_reason_ids op0)\<rparr>"
    using assms by (auto simp: mk_ConsensusOperationClosureV2_def attempt_eq_Inr)
  obtain b ids where f: "exact_decimal (cl_max_abs_residual op0) = Inr b" "\<not> cl_minimum_participants op0 < 1"
    "\<not> set (map fst (cl_exclusion_reason_ids op0)) \<noteq> {''no_ranking'', ''residual''}"
    "mapM (identity_of ''CV2_REFERENCE_REASON_CLOSURE'') (map snd (cl_exclusion_reason_ids op0)) = Inr ids"
    using c unfolding check_operation_def by (elim attemptE guardE) (rule that)
  have imm: "is_immutable_id r" if "r \<in> snd ` set (cl_exclusion_reason_ids op0)" for r
    using mapM_set_Inr [OF f(4), of r] that by (auto simp: identity_of_def split: if_splits)
  have entry: "\<exists>r. getitem (cl_exclusion_reason_ids op) k = Inr r \<and> is_immutable_id r" if k: "k \<in> {''no_ranking'', ''residual''}" for k
  proof -
    have "k \<in> fst ` set (cl_exclusion_reason_ids op)" using f(3) k by (simp add: op)
    then obtain r where r: "map_of (cl_exclusion_reason_ids op) k = Some r" by (metis map_of_eq_None_iff not_None_eq)
    then have "r \<in> snd ` set (cl_exclusion_reason_ids op0)" using map_of_SomeD [OF r] by (force simp: op)
    with r imm show ?thesis by auto
  qed
  from entry [of "''residual''"] entry [of "''no_ranking''"] obtain r n where
    "getitem (cl_exclusion_reason_ids op) ''residual'' = Inr r" "is_immutable_id r"
    "getitem (cl_exclusion_reason_ids op) ''no_ranking'' = Inr n" "is_immutable_id n" by auto
  with f(1,2) show thesis by (intro that [of r n]) (simp_all add: op residual_bound_def)
qed

end
