(* ===== verification/ConsensusV2Outcome.thy ===== *)
theory ConsensusV2Outcome
  imports ConsensusV2Laws
begin

text \<open>
  What the reference evaluator of the second consensus version returns, and what the decisions
  it can return look like.
\<close>

section \<open>The exclusions\<close>

lemma provided_distinct:
  assumes "distinct (map eo_edge_id obs)"
  shows "provided_of obs = map (\<lambda>x. (eo_edge_id x, x)) obs"
  using assms by (simp add: provided_of_def dict_of_distinct comp_def)

lemma provided_entry:
  assumes "distinct (map eo_edge_id obs)" "x \<in> set obs"
  shows "getitem (provided_of obs) (eo_edge_id x) = Inr x"
  using assms by (simp add: provided_distinct getitem_Inr comp_def)

lemma decimal_values_of:
  assumes "wf_observations obs" "distinct (map eo_edge_id obs)"
  shows "decimal_values obs = Inr (eligible_values obs)"
proof -
  let ?xs = "filter (\<lambda>x. eo_eligibility_reason_id x = None) obs"
  have "mapM (\<lambda>x. attempt (exact_decimal (eo_current_value x)) (\<lambda>v. Inr (eo_edge_id x, v))) ?xs =
      Inr (map (\<lambda>x. (eo_edge_id x, value_of x)) ?xs)"
    using assms(1) by (intro mapM_Inr) (auto simp: wf_observations_def observation_fields(4))
  moreover have "distinct (map fst (map (\<lambda>x. (eo_edge_id x, value_of x)) ?xs))"
    using assms(2) by (simp add: comp_def distinct_map inj_on_def)
  ultimately show ?thesis by (simp add: decimal_values_def eligible_values_def dict_of_distinct)
qed

text \<open>The edges that the bound leaves out, with their reason and evidence.\<close>

lemma exclusions_of:
  assumes wf: "wf_observations obs" "distinct (map eo_edge_id obs)" and reason: "is_immutable_id reason"
  obtains excluded where "excluded_edges obs (eligible_values obs) bound reason = Inr excluded"
    "distinct (map fst excluded)" "\<forall>(e, r, ev) \<in> set excluded. is_immutable_id r \<and> is_immutable_id ev"
    "set (map fst excluded) = eo_edge_id ` {x \<in> set obs. eo_eligibility_reason_id x \<noteq> None \<or> bound < residual_of (eligible_values obs) (value_of x)}"
proof -
  let ?v = "eligible_values obs"
  let ?far = "filter (\<lambda>(e, v). bound < residual_of ?v v) ?v"
  let ?far_obs = "filter (\<lambda>x. bound < residual_of ?v (value_of x)) (filter (\<lambda>x. eo_eligibility_reason_id x = None) obs)"
  let ?es = "map (\<lambda>x. (eo_edge_id x, reason, eo_eligibility_evidence_id x)) ?far_obs"
  have "?far = map (\<lambda>x. (eo_edge_id x, value_of x)) ?far_obs"
    by (simp add: eligible_values_def filter_map comp_def)
  then have "mapM (\<lambda>(edge, _). attempt (getitem (provided_of obs) edge) (\<lambda>x. Inr (edge, reason, eo_eligibility_evidence_id x))) ?far = Inr ?es"
    using wf(2) by (auto simp: mapM_map comp_def provided_entry intro!: mapM_Inr)
  then have run: "excluded_edges obs ?v bound reason = Inr (foldl (\<lambda>d e. AList.update (fst e) (snd e) d) (ineligible obs) ?es)"
    by (simp add: excluded_edges_def)
  let ?inel = "map (\<lambda>x. (eo_edge_id x, the (eo_eligibility_reason_id x), eo_eligibility_evidence_id x))
     (filter (\<lambda>x. eo_eligibility_reason_id x \<noteq> None) obs)"
  have d: "distinct (map fst ?inel)" using wf(2) by (simp add: comp_def distinct_map inj_on_def)
  then have inel: "ineligible obs = ?inel" by (simp add: ineligible_def dict_of_distinct)
  let ?P = "\<lambda>(e :: string, r, ev). is_immutable_id r \<and> is_immutable_id ev"
  have imm: "\<forall>x \<in> set ?inel. ?P x" "\<forall>x \<in> set ?es. ?P x"
    using wf(1) reason by (auto simp: wf_observations_def observation_fields)
  show thesis
  proof (rule that [OF run])
    show "distinct (map fst (foldl (\<lambda>d e. AList.update (fst e) (snd e) d) (ineligible obs) ?es))"
      unfolding inel by (rule foldl_update_distinct [OF d])
    show "\<forall>(e, r, ev) \<in> set (foldl (\<lambda>d e. AList.update (fst e) (snd e) d) (ineligible obs) ?es). is_immutable_id r \<and> is_immutable_id ev"
      unfolding inel by (rule foldl_update_all [OF imm])
    have "set (map fst (foldl (\<lambda>d e. AList.update (fst e) (snd e) d) (ineligible obs) ?es)) =
        eo_edge_id ` (set (filter (\<lambda>x. eo_eligibility_reason_id x \<noteq> None) obs) \<union> set ?far_obs)"
      unfolding foldl_update_keys inel by (simp only: set_map image_image image_Un fst_conv)
    also have "\<dots> = eo_edge_id ` {x \<in> set obs. eo_eligibility_reason_id x \<noteq> None \<or> bound < residual_of ?v (value_of x)}"
      by (rule arg_cong [where f = "image eo_edge_id"]) auto
    finally show "set (map fst (foldl (\<lambda>d e. AList.update (fst e) (snd e) d) (ineligible obs) ?es)) =
        eo_edge_id ` {x \<in> set obs. eo_eligibility_reason_id x \<noteq> None \<or> bound < residual_of ?v (value_of x)}" .
  qed
qed

text \<open>The included edges and their order.\<close>

lemma eligible_keys: "map fst (eligible_values obs) = map eo_edge_id (filter (\<lambda>x. eo_eligibility_reason_id x = None) obs)"
  by (simp add: eligible_values_def comp_def)

lemma kept_set: "set (kept_edges op obs) = eo_edge_id ` {x \<in> set obs. eo_eligibility_reason_id x = None \<and>
    residual_of (eligible_values obs) (value_of x) \<le> residual_bound op}"
  by (force simp: kept_edges_def Let_def eligible_values_def)

lemma kept_distinct:
  assumes "distinct (map eo_edge_id obs)"
  shows "sorted (kept_edges op obs)" "distinct (kept_edges op obs)"
proof -
  have "distinct (map fst (eligible_values obs))" using assms by (simp add: eligible_keys distinct_map inj_on_def)
  then show "sorted (kept_edges op obs)" "distinct (kept_edges op obs)"
    by (simp_all add: kept_edges_def Let_def distinct_map inj_on_def)
qed

lemma included_kept:
  assumes "distinct (map eo_edge_id obs)"
    and "set (map fst excluded) = eo_edge_id ` {x \<in> set obs. eo_eligibility_reason_id x \<noteq> None \<or>
      residual_bound op < residual_of (eligible_values obs) (value_of x)}"
  shows "included_edges (eligible_values obs) excluded = kept_edges op obs"
proof (rule sorted_distinct_set_unique)
  have inj: "inj_on eo_edge_id (set obs)" using assms(1) by (simp add: distinct_map)
  have "set (included_edges (eligible_values obs) excluded) =
      eo_edge_id ` {x \<in> set obs. eo_eligibility_reason_id x = None} - set (map fst excluded)"
    by (auto simp: included_edges_def eligible_keys simp del: set_map) auto
  also have "\<dots> = eo_edge_id ` ({x \<in> set obs. eo_eligibility_reason_id x = None} -
      {x \<in> set obs. eo_eligibility_reason_id x \<noteq> None \<or> residual_bound op < residual_of (eligible_values obs) (value_of x)})"
    unfolding assms(2) by (rule inj_on_image_set_diff [OF inj, symmetric]) auto
  also have "\<dots> = set (kept_edges op obs)" unfolding kept_set by (rule arg_cong [where f = "image eo_edge_id"]) auto
  finally show "set (included_edges (eligible_values obs) excluded) = set (kept_edges op obs)" .
  show "sorted (included_edges (eligible_values obs) excluded)" by (simp add: included_edges_def)
  show "distinct (included_edges (eligible_values obs) excluded)"
    using assms(1) by (simp add: included_edges_def eligible_keys distinct_map inj_on_def)
qed (simp_all add: kept_distinct [OF assms(1)])

lemma residual_order_perm: "mset (residual_order op obs) = mset (kept_edges op obs)"
proof -
  have "mset (map snd (sort (map (\<lambda>e. (edge_residual obs e, e)) (kept_edges op obs)))) =
      image_mset snd (mset (map (\<lambda>e. (edge_residual obs e, e)) (kept_edges op obs)))"
    by (simp only: mset_map mset_sort)
  then show ?thesis by (simp add: residual_order_def image_mset.compositionality comp_def)
qed

lemma ranking_of:
  assumes "distinct (map eo_edge_id obs)"
  shows "residual_ranking (eligible_values obs) (kept_edges op obs) = Inr (residual_order op obs)"
proof -
  have "getitem (eligible_values obs) e = Inr (the (map_of (eligible_values obs) e))" if "e \<in> set (kept_edges op obs)" for e
  proof -
    have "e \<in> set (map fst (eligible_values obs))" using that by (auto simp: kept_set eligible_keys)
    then obtain v where "map_of (eligible_values obs) e = Some v" by (metis map_of_eq_None_iff not_None_eq set_map)
    then show ?thesis by simp
  qed
  then have "mapM (\<lambda>edge. attempt (getitem (eligible_values obs) edge) (\<lambda>v. Inr (residual_of (eligible_values obs) v, edge)))
      (kept_edges op obs) = Inr (map (\<lambda>e. (edge_residual obs e, e)) (kept_edges op obs))"
    by (intro mapM_Inr) (simp add: edge_residual_def)
  then show ?thesis by (simp add: residual_ranking_def residual_order_def)
qed

section \<open>The decision\<close>

definition decides :: "decision_v2 \<Rightarrow> string \<Rightarrow> string list \<Rightarrow> bool" where
  "decides d outcome included = (sub (dv_payload d) ''outcome'' = Inr (PStr outcome) \<and>
     sub (dv_payload d) ''included_ids'' = Inr (PList (map PStr included)) \<and>
     sub (dv_payload d) ''ranking'' = Inr (PList (map PStr included)))"

lemma decides_payload:
  "decides \<lparr>dv_payload = sealed (decision_payload i basis outcome participants included excluded included diagnostics)\<rparr> outcome included"
  by (simp add: decides_def sealed_def decision_payload_def getitem_def sub.simps(1))

lemma participants_facts:
  assumes "wf_observations obs" "distinct (map eo_edge_id obs)" "obs \<noteq> []"
  defines "ps \<equiv> sort (map fst (provided_of obs))"
  shows "set ps = eo_edge_id ` set obs" "list_all is_immutable_id ps" "sorted ps" "distinct ps" "ps \<noteq> []"
proof -
  have ps: "ps = sort (map eo_edge_id obs)" by (simp add: ps_def provided_distinct [OF assms(2)] comp_def)
  show "set ps = eo_edge_id ` set obs" "sorted ps" "distinct ps" using assms(2) by (simp_all add: ps)
  then show "list_all is_immutable_id ps" using assms(1) by (auto simp: list_all_iff wf_observations_def observation_fields)
  show "ps \<noteq> []" using assms(3) \<open>set ps = eo_edge_id ` set obs\<close> by auto
qed

lemma failure_decision:
  assumes ids: "is_immutable_id cid" "check_basis basis = Inr kb"
    and obs: "wf_observations obs" "distinct (map eo_edge_id obs)" "obs \<noteq> []"
    and op: "mk_ConsensusOperationClosureV2 op0 = Inr op"
    and few: "int (length (kept_edges op obs)) < cl_minimum_participants op"
  shows "\<exists>d. reference_decision (PStr cid) basis op obs = Inr d \<and> decides d ''failure'' []"
proof -
  obtain residual no_ranking where f: "exact_decimal (cl_max_abs_residual op) = Inr (residual_bound op)"
    "getitem (cl_exclusion_reason_ids op) ''residual'' = Inr residual" "is_immutable_id residual"
    "getitem (cl_exclusion_reason_ids op) ''no_ranking'' = Inr no_ranking" "is_immutable_id no_ranking"
    by (rule operation_fields [OF op])
  obtain excluded where ex: "excluded_edges obs (eligible_values obs) (residual_bound op) residual = Inr excluded"
    "set (map fst excluded) = eo_edge_id ` {x \<in> set obs. eo_eligibility_reason_id x \<noteq> None \<or>
      residual_bound op < residual_of (eligible_values obs) (value_of x)}"
    by (rule exclusions_of [OF obs(1,2) f(3), of "residual_bound op"])
  let ?ps = "sort (map fst (provided_of obs))"
  let ?g = "\<lambda>e. (e, no_ranking, eo_eligibility_evidence_id (the (map_of (provided_of obs) e)))"
  note ps = participants_facts [OF obs]
  have entry: "\<exists>x \<in> set obs. map_of (provided_of obs) e = Some x" if "e \<in> set ?ps" for e
    using that provided_entry [OF obs(2)] unfolding ps(1) by (auto simp: getitem_Inr)
  have "mapM (\<lambda>edge. attempt (getitem (provided_of obs) edge) (\<lambda>x. Inr (edge, no_ranking, eo_eligibility_evidence_id x))) ?ps = Inr (map ?g ?ps)"
    using entry by (intro mapM_Inr) fastforce
  moreover have imm: "\<forall>(e, r, ev) \<in> set (map ?g ?ps). is_immutable_id r \<and> is_immutable_id ev"
    using entry obs(1) f(5) by (fastforce simp: wf_observations_def observation_fields)
  have keys: "map fst (map ?g ?ps) = ?ps" by (simp add: comp_def)
  have "mk_ConsensusDecisionV2 (sealed (decision_payload (PStr cid) basis ''failure'' ?ps [] (map ?g ?ps) [] [''no_ranking'', operation_note op])) =
      Inr \<lparr>dv_payload = sealed (decision_payload (PStr cid) basis ''failure'' ?ps [] (map ?g ?ps) [] [''no_ranking'', operation_note op])\<rparr>"
    by (rule trans [OF decision_accepted [OF ids ps(2-5) _ _ _ imm]], simp_all only: keys ps(4))
      (simp_all add: outcome_fits_def operation_note_def)
  ultimately have "reference_decision (PStr cid) basis op obs =
      Inr \<lparr>dv_payload = sealed (decision_payload (PStr cid) basis ''failure'' ?ps [] (map ?g ?ps) [] [''no_ranking'', operation_note op])\<rparr>"
    using few by (simp add: reference_decision_def Let_def decimal_values_of [OF obs(1,2)] f(1,2,4) ex(1) included_kept [OF obs(2) ex(2)])
  then show ?thesis using decides_payload by blast
qed

lemma success_decision:
  assumes ids: "is_immutable_id cid" "check_basis basis = Inr kb"
    and obs: "wf_observations obs" "distinct (map eo_edge_id obs)" "obs \<noteq> []"
    and op: "mk_ConsensusOperationClosureV2 op0 = Inr op"
    and many: "cl_minimum_participants op \<le> int (length (kept_edges op obs))"
  shows "if sorted (residual_order op obs)
    then \<exists>d. reference_decision (PStr cid) basis op obs = Inr d \<and> decides d ''success'' (kept_edges op obs)
    else reference_decision (PStr cid) basis op obs = Inl (ConsensusV2Error ''CV2_RANKING'')"
proof -
  obtain residual where f: "exact_decimal (cl_max_abs_residual op) = Inr (residual_bound op)" "1 \<le> cl_minimum_participants op"
    "getitem (cl_exclusion_reason_ids op) ''residual'' = Inr residual" "is_immutable_id residual"
    by (rule operation_fields [OF op])
  obtain excluded where ex: "excluded_edges obs (eligible_values obs) (residual_bound op) residual = Inr excluded"
    "distinct (map fst excluded)" "\<forall>(e, r, ev) \<in> set excluded. is_immutable_id r \<and> is_immutable_id ev"
    "set (map fst excluded) = eo_edge_id ` {x \<in> set obs. eo_eligibility_reason_id x \<noteq> None \<or>
      residual_bound op < residual_of (eligible_values obs) (value_of x)}"
    by (rule exclusions_of [OF obs(1,2) f(4), of "residual_bound op"])
  let ?ps = "sort (map fst (provided_of obs))"
  let ?k = "kept_edges op obs" and ?r = "residual_order op obs"
  note ps = participants_facts [OF obs]
  have inj: "inj_on eo_edge_id (set obs)" using obs(2) by (simp add: distinct_map)
  have "set ?ps - set ?k = eo_edge_id ` (set obs - {x \<in> set obs. eo_eligibility_reason_id x = None \<and>
      residual_of (eligible_values obs) (value_of x) \<le> residual_bound op})"
    unfolding ps(1) kept_set by (rule inj_on_image_set_diff [OF inj, symmetric]) auto
  also have "\<dots> = set (map fst excluded)" unfolding ex(4) by (rule arg_cong [where f = "image eo_edge_id"]) auto
  finally have closure: "set (map fst excluded) = set ?ps - set ?k" ..
  have same: "set ?r = set ?k" "length ?r = length ?k" "distinct ?r"
    using mset_eq_setD [OF residual_order_perm] mset_eq_length [OF residual_order_perm]
      mset_eq_imp_distinct_iff [OF residual_order_perm] kept_distinct(2) [OF obs(2)] by simp_all
  have "?r \<noteq> []" using many f(2) same(2) by auto
  have subset: "set ?k \<subseteq> set ?ps" unfolding ps(1) kept_set by auto
  have "reference_decision (PStr cid) basis op obs =
      mk_ConsensusDecisionV2 (sealed (decision_payload (PStr cid) basis ''success'' ?ps ?k excluded ?r [operation_note op]))"
    using many by (simp add: reference_decision_def Let_def decimal_values_of [OF obs(1,2)] f(1,3) ex(1) included_kept [OF obs(2) ex(4)]
        ranking_of [OF obs(2)])
  also have "\<dots> = (if sorted ?r \<and> distinct ?r
      then Inr \<lparr>dv_payload = sealed (decision_payload (PStr cid) basis ''success'' ?ps ?k excluded ?r [operation_note op])\<rparr>
      else Inl (ConsensusV2Error ''CV2_RANKING''))"
    by (rule decision_accepted [OF ids ps(2-5) kept_distinct [OF obs(2)] subset ex(3,2) closure])
      (simp_all add: operation_note_def outcome_fits_def same(1) \<open>?r \<noteq> []\<close>)
  finally have run: "reference_decision (PStr cid) basis op obs = (if sorted ?r
      then Inr \<lparr>dv_payload = sealed (decision_payload (PStr cid) basis ''success'' ?ps ?k excluded ?r [operation_note op])\<rparr>
      else Inl (ConsensusV2Error ''CV2_RANKING''))"
    by (simp add: same(3))
  have "?r = ?k" if "sorted ?r" by (rule sorted_distinct_set_unique [OF that same(3) kept_distinct [OF obs(2)] same(1)])
  then show ?thesis using run decides_payload [of "PStr cid" basis "''success''" ?ps ?k excluded "[operation_note op]"] by auto
qed

section \<open>The evaluation\<close>

lemma admitted_obs:
  assumes "admitted ri p cv pv op obs"
  shows "distinct (map eo_edge_id obs)" "obs \<noteq> []"
proof -
  have "length (provided_of obs) = length obs" "obs \<noteq> []"
    using assms by (auto simp: admitted_def closure_diagnostics_def declared_diagnostics_def Let_def split: if_splits)
  then show "distinct (map eo_edge_id obs)" "obs \<noteq> []"
    using dict_of_full_length [of "map (\<lambda>x. (eo_edge_id x, x)) obs"] by (simp_all add: provided_of_def comp_def)
qed

lemma sorted_set_empty [simp]: "sorted_set xs = [] \<longleftrightarrow> xs = []"
  by (metis set_empty set_remdups set_sort sorted_set_def)

lemma evaluation_unfold:
  assumes "mk_ConsensusRoundInputV2 p0 = Inr ri" "admitted ri p cv pv op obs"
  obtains basis kb cid where "is_immutable_id cid" "check_basis basis = Inr kb" "sub (iv_payload ri) ''input_content_id'' = Inr (PStr cid)"
    "evaluate_consensus_v2_reference ri p cv pv (Some op) obs = attempt (reference_decision (PStr cid) basis op obs) (\<lambda>d.
       Inr \<lparr>re_status = EVALUATED, re_decision = Some d, re_diagnostics = [], re_trace = trace_of (PStr cid) p (trace_events obs op),
         re_authorization_effect = ''none''\<rparr>)"
proof -
  obtain basis cid rows where i: "ri = \<lparr>iv_payload = p0\<rparr>" "input_ok p0 basis cid rows" by (rule constructed_input [OF assms(1)])
  then obtain kb where f: "is_immutable_id cid" "check_basis basis = Inr kb" "sub (iv_payload ri) ''input_content_id'' = Inr (PStr cid)"
    "sub (iv_payload ri) ''comparison_basis'' = Inr basis" by (auto simp: input_ok_def)
  from assms(2) have "evaluate_consensus_v2_reference ri p cv pv (Some op) obs = attempt (reference_decision (PStr cid) basis op obs) (\<lambda>d.
       Inr \<lparr>re_status = EVALUATED, re_decision = Some d, re_diagnostics = [], re_trace = trace_of (PStr cid) p (trace_events obs op),
         re_authorization_effect = ''none''\<rparr>)"
    by (auto simp: evaluate_consensus_v2_reference_def f(3,4) admitted_def Let_def)
  with f(1-3) show thesis by (rule that)
qed

lemma outcome_of_admitted:
  assumes "mk_ConsensusRoundInputV2 p0 = Inr ri" "mk_ConsensusOperationClosureV2 op0 = Inr op" "wf_observations obs"
    and "admitted ri p cv pv op obs"
  shows "if \<not> int (length (kept_edges op obs)) < cl_minimum_participants op \<and> \<not> sorted (residual_order op obs)
    then evaluate_consensus_v2_reference ri p cv pv (Some op) obs = Inl (ConsensusV2Error ''CV2_RANKING'')
    else \<exists>ev d. evaluate_consensus_v2_reference ri p cv pv (Some op) obs = Inr ev \<and> re_status ev = EVALUATED \<and> re_decision ev = Some d \<and>
      (if int (length (kept_edges op obs)) < cl_minimum_participants op then decides d ''failure'' [] else decides d ''success'' (kept_edges op obs))"
proof -
  obtain basis kb cid where f: "is_immutable_id cid" "check_basis basis = Inr kb"
    and run: "evaluate_consensus_v2_reference ri p cv pv (Some op) obs = attempt (reference_decision (PStr cid) basis op obs) (\<lambda>d.
       Inr \<lparr>re_status = EVALUATED, re_decision = Some d, re_diagnostics = [], re_trace = trace_of (PStr cid) p (trace_events obs op),
         re_authorization_effect = ''none''\<rparr>)"
    by (rule evaluation_unfold [OF assms(1,4)])
  note obs = assms(3) admitted_obs [OF assms(4)]
  show ?thesis
  proof (cases "int (length (kept_edges op obs)) < cl_minimum_participants op")
    case True
    with failure_decision [OF f obs assms(2)] show ?thesis by (auto simp: run)
  next
    case False
    with success_decision [OF f obs assms(2)] show ?thesis by (auto simp: run split: if_splits)
  qed
qed

lemma evaluation_fails_closed:
  assumes "evaluate_consensus_v2_reference ri p cv pv operation obs = Inr ev"
  shows "(re_decision ev = None \<longleftrightarrow> re_status ev = BLOCKED) \<and> (re_decision ev = None \<longleftrightarrow> re_diagnostics ev \<noteq> []) \<and>
    (re_decision ev = None \<longrightarrow> rt2_events (re_trace ev) = []) \<and> re_authorization_effect ev = ''none'' \<and>
    (\<forall>d. re_decision ev = Some d \<longrightarrow> cv_valid cv \<and> pvr_status pv = ''valid'' \<and> (\<exists>op. operation = Some op \<and> admitted ri p cv pv op obs) \<and>
       decision_ok (dv_payload d))"
proof -
  obtain i where i: "sub (iv_payload ri) ''input_content_id'' = Inr i"
    using assms by (auto simp: evaluate_consensus_v2_reference_def attempt_eq_Inr)
  let ?decl = "declared_diagnostics cv pv operation obs"
  have blocked: ?thesis if "ev = blocked_evaluation i p ds" "ds \<noteq> []" for ds
    using that by (simp add: blocked_evaluation_def trace_of_def)
  show ?thesis
  proof (cases operation)
    case None
    then have "ev = blocked_evaluation i p ?decl" "?decl \<noteq> []"
      using assms by (simp_all add: evaluate_consensus_v2_reference_def i Let_def declared_diagnostics_def)
    then show ?thesis by (rule blocked)
  next
    case (Some op)
    show ?thesis
    proof (cases "?decl = []")
      case False
      then have "ev = blocked_evaluation i p ?decl" using assms Some by (simp add: evaluate_consensus_v2_reference_def i Let_def)
      then show ?thesis using False by (rule blocked)
    next
      case True
      obtain bound rows where f: "parameters_bound p (iv_payload ri) op = Inr bound" "input_rows ri = Inr rows"
        using assms Some True by (auto simp: evaluate_consensus_v2_reference_def i Let_def attempt_eq_Inr)
      let ?c = "closure_diagnostics bound (dict_of (map (\<lambda>r. (ob_edge_id r, r)) rows)) obs op"
      show ?thesis
      proof (cases "?c = []")
        case False
        then have "ev = blocked_evaluation i p ?c" using assms Some True by (simp add: evaluate_consensus_v2_reference_def i Let_def f)
        then show ?thesis using False by (rule blocked)
      next
        case closed: True
        obtain basis d where d: "reference_decision i basis op obs = Inr d" "ev = \<lparr>re_status = EVALUATED, re_decision = Some d,
            re_diagnostics = [], re_trace = trace_of i p (trace_events obs op), re_authorization_effect = ''none''\<rparr>"
          using assms Some True closed by (auto simp: evaluate_consensus_v2_reference_def i Let_def f attempt_eq_Inr)
        have "admitted ri p cv pv op obs" using True Some f closed by (auto simp: admitted_def)
        moreover have "\<exists>q. mk_ConsensusDecisionV2 q = Inr d"
          using d(1) by (auto simp: reference_decision_def Let_def attempt_eq_Inr split: if_splits)
        then have "decision_ok (dv_payload d)"
          using decision_checked_ok by (auto simp: mk_ConsensusDecisionV2_def attempt_eq_Inr)
        moreover have "cv_valid cv" "pvr_status pv = ''valid''" using True by (auto simp: declared_diagnostics_def split: if_splits)
        ultimately show ?thesis using d(2) Some by simp
      qed
    qed
  qed
qed

section \<open>A sample round\<close>

definition sid :: "char \<Rightarrow> string" where
  "sid c = DIGEST_PREFIX @ replicate 64 c"

definition sample_basis :: pyval where
  "sample_basis = PDict [(''basis_id'', PStr (sid CHR ''a'')), (''schema_version'', PStr ''Basis.v2''), (''canonical_bytes'', PStr ''basis''),
     (''canonical_bytes_hash'', PStr (sha256_id ''basis'')), (''kind'', PStr ''same_profile_raw_current''), (''unit'', PStr ''mA''),
     (''profile_ids'', PList [PStr (sid CHR ''b'')]), (''uncertainty_parameter_ids'', PList [])]"

definition sample_row :: "char \<Rightarrow> pyval" where
  "sample_row e = PDict [(''edge_id'', PStr (sid e)), (''observation_id'', PStr (sid e)), (''observation_canonical_hash'', PStr (sid e)),
     (''profile_id'', PStr (sid CHR ''b'')), (''source_sequence'', PInt 1), (''correlation_id'', PStr (sid e)), (''raw_current_unit'', PStr ''mA'')]"

definition sample_body :: "(string, pyval) dict" where
  "sample_body = [(''schema_version'', PStr ''Consensus.v2''), (''experiment_id'', PStr (sid CHR ''c'')), (''run_id'', PStr (sid CHR ''c'')),
     (''round_id'', PStr (sid CHR ''c'')), (''qualification_result_id'', PStr (sid CHR ''c'')), (''comparison_basis'', sample_basis),
     (''quality_policy_ids'', PList [PStr (sid CHR ''d'')]), (''parameter_ids'', PList []),
     (''observations'', PList (map sample_row ''123'')), (''authorization_effect'', PStr ''none'')]"

definition sample_round_v2 :: pyval where
  "sample_round_v2 = PDict (sample_body @ [(''input_content_id'', PStr (content_id ''input_content_id'' sample_body))])"

definition sample_operation :: operation_closure where
  "sample_operation = \<lparr>cl_operation_id = sha256_id MEAN_CURRENT_RESIDUAL_V1, cl_canonical_bytes = MEAN_CURRENT_RESIDUAL_V1,
     cl_canonical_bytes_hash = sha256_id MEAN_CURRENT_RESIDUAL_V1, cl_conformance_vector_ids = [sid CHR ''e''],
     cl_conformance_vector_hash = sha256_id (sid CHR ''e''), cl_minimum_participants = 2, cl_max_abs_residual = ''1.0'',
     cl_trace_max_events = 4, cl_exclusion_reason_ids = [(''no_ranking'', sid CHR ''e''), (''residual'', sid CHR ''f'')]\<rparr>"

definition sample_observations :: "string list \<Rightarrow> evaluation_observation list" where
  "sample_observations texts = map (\<lambda>(e, t). \<lparr>eo_edge_id = sid e, eo_observation_id = sid e, eo_observation_canonical_hash = sid e,
     eo_current_value = t, eo_eligibility_reason_id = None, eo_eligibility_evidence_id = sid e\<rparr>) (zip ''123'' texts)"

definition sample_parameters :: parameter_set where
  "sample_parameters = \<lparr>pset_schema_version = ''ConsensusParameterSet.v2'', pset_parameter_set_id = ''set'', pset_component_identity = ''component'',
     pset_experiment_scope = ''scope'', pset_profile_id = sid CHR ''b'', pset_comparison_basis_id = sid CHR ''a'',
     pset_comparison_basis_schema = ''Basis.v2'', pset_comparison_basis_sha256 = sid CHR ''a'', pset_comparison_basis_canonical_bytes_sha256 = sid CHR ''a'',
     pset_quality_policy_id = sid CHR ''d'', pset_numeric_inventory_id = ''inventory'', pset_numeric_inventory_sha256 = sid CHR ''1'',
     pset_required_parameter_set_id = ''required'', pset_required_parameter_set_sha256 = sid CHR ''2'', pset_parameter_gate_result_id = ''gate'',
     pset_parameter_gate_result_sha256 = sid CHR ''3'', pset_comparison_mode = ''same_profile_raw_current'',
     pset_residual_policy_id = sha256_id MEAN_CURRENT_RESIDUAL_V1, pset_residual_policy_schema = ''policy'', pset_residual_policy_sha256 = sid CHR ''4'',
     pset_residual_policy_canonical_bytes_sha256 = sha256_id MEAN_CURRENT_RESIDUAL_V1, pset_residual_policy_slot_ids = [],
     pset_residual_policy_units = [], pset_residual_policy_dimensions = [], pset_residual_policy_conformance_id = sha256_id (sid CHR ''e''),
     pset_analysis_plan_id = ''plan'', pset_analysis_plan_sha256 = sid CHR ''5'', pset_sensitivity_plan_id = ''sensitivity'',
     pset_sensitivity_plan_sha256 = sid CHR ''6'', pset_sensitivity_alternative_ids = [], pset_selected_alternative_id = ''primary'',
     pset_primary_decision_id = ''decision'', pset_primary_decision_record_sha256 = sid CHR ''7'', pset_scientific_freeze_id = ''freeze'',
     pset_scientific_freeze_sha256 = sid CHR ''8'', pset_partition_lock_id = ''lock'', pset_partition_lock_sha256 = sid CHR ''9'',
     pset_slots = [\<lparr>sl_slot_id = ''slot'', sl_parameter_revision_id = ''revision'', sl_parameter_revision_sha256 = sid CHR ''0'',
       sl_parameter_class = ''direct'', sl_quantity_kind = ''current'', sl_unit = ''mA'', sl_dimension = ''current'', sl_profile_id = sid CHR ''b'',
       sl_experiment_scope = ''scope'', sl_decision_id = None, sl_decision_record_sha256 = None\<rparr>], pset_authorization_effect = ''none''\<rparr>"

definition contract_granted :: contract_validation where
  "contract_granted = \<lparr>cv_valid = True, cv_diagnostics = [], cv_authorization_effect = ''none''\<rparr>"

definition parameters_granted :: parameter_validation where
  "parameters_granted = \<lparr>pvr_status = ''valid'', pvr_parameter_set_id = ''set'', pvr_violations = [], pvr_authorization_effect = ''none''\<rparr>"

lemma sid_immutable: "is_immutable_id (sid c) \<longleftrightarrow> c \<in> hex_lower"
  by (simp add: is_immutable_id_def sid_def DIGEST_PREFIX_def list_all_iff)

lemma sid_hex: "c \<in> set ''0123456789abcdef'' \<Longrightarrow> is_immutable_id (sid c)"
  by (simp add: sid_immutable hex_lower_def)

lemma replicate_order: "replicate n c \<le> replicate n d \<longleftrightarrow> n = 0 \<or> c \<le> d" for c d :: char
  by (induction n) auto

lemma sid_order: "sid c \<le> sid d \<longleftrightarrow> c \<le> d" "sid c = sid d \<longleftrightarrow> c = d"
  by (simp_all add: sid_def DIGEST_PREFIX_def replicate_order)

lemma sample_rows: "check_observation (sample_row e) = (if e \<in> hex_lower then Inr \<lparr>ob_edge_id = sid e, ob_observation_id = sid e,
    ob_canonical_hash = sid e, ob_profile_id = sid CHR ''b'', ob_source_sequence = 1\<rparr> else Inl (ConsensusV2Error ''CV2_OBSERVATION_ID''))"
proof -
  have "CHR ''b'' \<in> hex_lower" by (simp add: hex_lower_def)
  then show ?thesis
    by (auto simp: check_observation_def sample_row_def closed_fields_def OBSERVATION_FIELDS_def getitem_def opaque_def sid_immutable)
qed

lemma sample_basis_ok: "check_basis sample_basis = Inr (PStr ''same_profile_raw_current'', [sid CHR ''b''], [])"
proof -
  have "ordered_ids (PList [PStr (sid CHR ''b'')]) c True = Inr [sid CHR ''b'']" "ordered_ids (PList []) c False = Inr []" for c
    using ordered_ids_map [of "[sid CHR ''b'']" True c] sid_hex [of "CHR ''b''"] ordered_ids_map [of "[]" False c] by simp_all
  then show ?thesis
    using sid_hex [of "CHR ''a''"] by (simp add: check_basis_def sample_basis_def closed_fields_def BASIS_FIELDS_def getitem_def opaque_PStr ascii_def unhashable_def)
qed

lemma sample_input_ok: "mk_ConsensusRoundInputV2 sample_round_v2 = Inr \<lparr>iv_payload = sample_round_v2\<rparr>"
proof -
  have policies: "ordered_ids (PList [PStr (sid CHR ''d'')]) c True = Inr [sid CHR ''d'']" "ordered_ids (PList []) c False = Inr []" for c
    using ordered_ids_map [of "[sid CHR ''d'']" True c] sid_hex [of "CHR ''d''"] ordered_ids_map [of "[]" False c] by simp_all
  have digits: "list_all (\<lambda>e. e \<in> hex_lower) ''123''" by (simp add: hex_lower_def)
  have rows: "check_observations (PList (map sample_row ''123'')) = Inr (map (\<lambda>e. \<lparr>ob_edge_id = sid e, ob_observation_id = sid e,
      ob_canonical_hash = sid e, ob_profile_id = sid CHR ''b'', ob_source_sequence = 1\<rparr>) ''123'')"
    using digits by (simp add: check_observations_def sample_rows observation_key_def less_eq_prod_def sid_order less_le)
  have ident: "content_id ''input_content_id'' (sample_body @ [(''input_content_id'', v)]) = content_id ''input_content_id'' sample_body" for v
    by (simp add: content_id_def content_bytes_def dpop_def)
  let ?id = "content_id ''input_content_id'' sample_body"
  let ?d = "sample_body @ [(''input_content_id'', PStr ?id)]"
  have get: "getitem ?d ''schema_version'' = Inr (PStr ''Consensus.v2'')" "getitem ?d ''experiment_id'' = Inr (PStr (sid CHR ''c''))"
      "getitem ?d ''run_id'' = Inr (PStr (sid CHR ''c''))" "getitem ?d ''round_id'' = Inr (PStr (sid CHR ''c''))"
      "getitem ?d ''qualification_result_id'' = Inr (PStr (sid CHR ''c''))" "getitem ?d ''comparison_basis'' = Inr sample_basis"
      "getitem ?d ''quality_policy_ids'' = Inr (PList [PStr (sid CHR ''d'')])" "getitem ?d ''parameter_ids'' = Inr (PList [])"
      "getitem ?d ''observations'' = Inr (PList (map sample_row ''123''))" "getitem ?d ''authorization_effect'' = Inr (PStr ''none'')"
      "getitem ?d ''input_content_id'' = Inr (PStr ?id)"
    by (simp_all add: getitem_def sample_body_def)
  have fields: "closed_fields (PDict ?d) INPUT_FIELDS ''CV2_INPUT_FIELDS'' = Inr ?d"
    by (auto simp: closed_fields_def sample_body_def INPUT_FIELDS_def)
  have closed: "check_content_id ?d ''input_content_id'' ''CV2_INPUT_CONTENT_ID'' ''CV2_INPUT_CONTENT_HASH'' = Inr ?id"
    using get(11) by (simp only: check_content_id_Inr getitem_Inr ident simp_thms)
  have "check_version ?d ''CV2_INPUT_VERSION'' = Inr ()" by (simp add: check_version_def get CONSENSUS_V2_SCHEMA_def)
  then have "check_input (PDict ?d) = Inr ()"
    unfolding check_input_def fields attempt_Inr
    using sid_hex [of "CHR ''c''"] by (simp add: get opaque_PStr sample_basis_ok policies rows [simplified] closed)
  then show ?thesis by (simp add: mk_ConsensusRoundInputV2_def sample_round_v2_def)
qed

lemma sample_operation_ok: "mk_ConsensusOperationClosureV2 sample_operation = Inr sample_operation"
proof -
  have "exact_decimal ''1.0'' = Inr 1" by code_simp
  moreover have "is_immutable_id (sid CHR ''e'')" "is_immutable_id (sid CHR ''f'')" by (simp_all add: sid_hex)
  ultimately have "check_operation sample_operation = Inr ()"
    by (auto simp: check_operation_def sample_operation_def identity_of_def)
  moreover have "sorted_items (cl_exclusion_reason_ids sample_operation) = cl_exclusion_reason_ids sample_operation"
    by (simp add: sorted_items_def sample_operation_def)
  ultimately show ?thesis by (simp add: mk_ConsensusOperationClosureV2_def)
qed

lemma sample_observations_unfold: "sample_observations [a, b, c] = map (\<lambda>(e, t). \<lparr>eo_edge_id = sid e, eo_observation_id = sid e,
    eo_observation_canonical_hash = sid e, eo_current_value = t, eo_eligibility_reason_id = None, eo_eligibility_evidence_id = sid e\<rparr>)
    [(CHR ''1'', a), (CHR ''2'', b), (CHR ''3'', c)]"
  by (simp add: sample_observations_def)

lemma sample_wf:
  assumes "exact_decimal a = Inr x" "exact_decimal b = Inr y" "exact_decimal c = Inr z"
  shows "wf_observations (sample_observations [a, b, c])"
proof -
  have "is_immutable_id (sid CHR ''1'')" "is_immutable_id (sid CHR ''2'')" "is_immutable_id (sid CHR ''3'')" by (simp_all add: sid_hex)
  then show ?thesis using assms
    by (simp add: wf_observations_def sample_observations_unfold mk_ConsensusEvaluationObservationV2_def identity_of_def)
qed

lemma sample_admitted:
  "admitted \<lparr>iv_payload = sample_round_v2\<rparr> sample_parameters contract_granted parameters_granted sample_operation (sample_observations [a, b, c])"
proof -
  let ?row = "\<lambda>e. \<lparr>ob_edge_id = sid e, ob_observation_id = sid e, ob_canonical_hash = sid e, ob_profile_id = sid CHR ''b'', ob_source_sequence = 1\<rparr>"
  have digits: "CHR ''1'' \<in> hex_lower" "CHR ''2'' \<in> hex_lower" "CHR ''3'' \<in> hex_lower" by (simp_all add: hex_lower_def)
  have "sub sample_round_v2 ''observations'' = Inr (PList (map sample_row ''123''))"
    by (simp add: sample_round_v2_def sample_body_def sub.simps(1) getitem_def)
  then have rows: "input_rows \<lparr>iv_payload = sample_round_v2\<rparr> = Inr (map ?row ''123'')"
    using digits by (simp add: input_rows_def sample_rows)
  have "sub sample_round_v2 ''comparison_basis'' = Inr sample_basis" "sub sample_round_v2 ''quality_policy_ids'' = Inr (PList [PStr (sid CHR ''d'')])"
    by (simp_all add: sample_round_v2_def sample_body_def sub.simps(1) getitem_def)
  then have bound: "parameters_bound sample_parameters sample_round_v2 sample_operation = Inr True"
    by (simp add: parameters_bound_def text_list_field_def sample_parameters_def sample_operation_def sample_basis_def sub.simps(1) getitem_def)
  have edges: "distinct (map fst (map (\<lambda>r. (ob_edge_id r, r)) (map ?row ''123'')))" by (simp add: sid_order)
  have "closure_diagnostics True (dict_of (map (\<lambda>r. (ob_edge_id r, r)) (map ?row ''123''))) (sample_observations [a, b, c]) sample_operation = []"
    unfolding dict_of_distinct [OF edges]
    by (simp add: closure_diagnostics_def binding_diagnostics_def provided_of_def dict_of_def sample_observations_unfold sid_order sample_operation_def)
  moreover have "declared_diagnostics contract_granted parameters_granted (Some sample_operation) (sample_observations [a, b, c]) = []"
    by (simp add: declared_diagnostics_def contract_granted_def parameters_granted_def sample_observations_unfold)
  ultimately show ?thesis unfolding admitted_def using rows bound by auto
qed

text \<open>The order of the residuals, from the values of the three edges.\<close>

lemma sample_kept:
  assumes v: "exact_decimal a = Inr x" "exact_decimal b = Inr y" "exact_decimal c = Inr z"
    and m: "ddiv (dsum [x, y, z]) 3 = m" "\<bar>dsub x m\<bar> = rx" "\<bar>dsub y m\<bar> = ry" "\<bar>dsub z m\<bar> = rz" "rx \<le> 1" "ry \<le> 1" "rz \<le> 1"
  shows "kept_edges sample_operation (sample_observations [a, b, c]) = [sid CHR ''1'', sid CHR ''2'', sid CHR ''3'']"
    "residual_order sample_operation (sample_observations [a, b, c]) =
      map snd (sort [(rx, sid CHR ''1''), (ry, sid CHR ''2''), (rz, sid CHR ''3'')])"
proof -
  let ?v = "[(sid CHR ''1'', x), (sid CHR ''2'', y), (sid CHR ''3'', z)]"
  have vals: "eligible_values (sample_observations [a, b, c]) = ?v"
    using v by (simp add: eligible_values_def sample_observations_unfold value_of_def)
  have "mean_of_values ?v = m" using m(1) by (simp add: mean_of_values_def)
  then have r: "residual_of ?v x = rx" "residual_of ?v y = ry" "residual_of ?v z = rz" using m(2-4) by (simp_all add: residual_of_def)
  have "exact_decimal ''1.0'' = Inr 1" by code_simp
  then have "residual_bound sample_operation = 1" by (simp add: residual_bound_def sample_operation_def)
  then show k: "kept_edges sample_operation (sample_observations [a, b, c]) = [sid CHR ''1'', sid CHR ''2'', sid CHR ''3'']"
    using m(5-7) by (simp add: kept_edges_def Let_def vals r sid_order)
  have "edge_residual (sample_observations [a, b, c]) (sid CHR ''1'') = rx" "edge_residual (sample_observations [a, b, c]) (sid CHR ''2'') = ry"
      "edge_residual (sample_observations [a, b, c]) (sid CHR ''3'') = rz"
    by (simp_all add: edge_residual_def vals r sid_order)
  then show "residual_order sample_operation (sample_observations [a, b, c]) =
      map snd (sort [(rx, sid CHR ''1''), (ry, sid CHR ''2''), (rz, sid CHR ''3'')])"
    by (simp add: residual_order_def k)
qed

lemma short_decimal:
  assumes "x * 10 = of_int n" "\<bar>x\<bar> < 100"
  shows "drnd x = x"
proof (rule drnd_short)
  show "x * 10 ^ 1 = of_int n" using assms(1) by simp
  have "dexpo \<bar>x\<bar> \<le> 1"
  proof (cases "1 \<le> \<bar>x\<bar>")
    case True
    have f: "\<lfloor>\<bar>x\<bar>\<rfloor> < 100" using assms(2) by linarith
    have "length (digits \<lfloor>\<bar>x\<bar>\<rfloor>) \<le> 2"
    proof (cases "\<lfloor>\<bar>x\<bar>\<rfloor> < 10")
      case False
      define w where "w = \<lfloor>\<bar>x\<bar>\<rfloor>"
      have "w div 10 < 10" using f by (simp add: w_def [symmetric])
      then have "digits w = [digit (w div 10), digit (w mod 10)]" using False by (subst digits.simps) (simp add: w_def [symmetric])
      then have "digits \<lfloor>\<bar>x\<bar>\<rfloor> = [digit (\<lfloor>\<bar>x\<bar>\<rfloor> div 10), digit (\<lfloor>\<bar>x\<bar>\<rfloor> mod 10)]"
        by (simp add: w_def)
      then show ?thesis by simp
    qed simp
    then show ?thesis using True by (simp add: dexpo_def)
  qed (simp add: dexpo_def)
  then show "int 1 \<le> 27 - dexpo \<bar>x\<bar>" by simp
qed

lemma ordered_values:
  "exact_decimal ''10.2'' = Inr (51 / 5)" "exact_decimal ''10.0'' = Inr 10" "exact_decimal ''10.7'' = Inr (107 / 10)"
  "exact_decimal ''10.4'' = Inr (52 / 5)" "exact_decimal ''10.5'' = Inr (21 / 2)"
  by (simp_all add: exact_decimal_def unsigned_decimal_def is_digit_def digits_value_def)

lemma ordered_residuals:
  "ddiv (dsum [51 / 5, 10, 107 / 10]) 3 = 103 / 10" "\<bar>dsub (51 / 5) (103 / 10)\<bar> = 1 / 10" "\<bar>dsub 10 (103 / 10)\<bar> = 3 / 10"
  "\<bar>dsub (107 / 10) (103 / 10)\<bar> = 2 / 5"
  by (simp_all add: dsum_def dadd_def ddiv_def dsub_def short_decimal [of _ 102] short_decimal [of _ 202] short_decimal [of _ 309]
      short_decimal [of _ 103] short_decimal [of _ "-1"] short_decimal [of _ "-3"] short_decimal [of _ 4])

lemma unordered_residuals:
  "ddiv (dsum [10, 52 / 5, 21 / 2]) 3 = 103 / 10" "\<bar>dsub (52 / 5) (103 / 10)\<bar> = 1 / 10" "\<bar>dsub (21 / 2) (103 / 10)\<bar> = 1 / 5"
  by (simp_all add: dsum_def dadd_def ddiv_def dsub_def short_decimal [of _ 100] short_decimal [of _ 204] short_decimal [of _ 309]
      short_decimal [of _ 103] short_decimal [of _ 1] short_decimal [of _ 2])

section \<open>The properties\<close>

text \<open>
  C36. The decision of a round is well formed whoever built it: included and excluded edges partition the
  participants, the identifier is the digest of the content, a failure includes nobody, and the
  ranking of a success is the list of the included edges in the order of their identifiers. So
  a decision cannot record an order of trust.
\<close>

theorem decision_well_formed:
  assumes "mk_ConsensusDecisionV2 p = Inr d"
  shows "decision_ok (dv_payload d)"
  using assms decision_checked_ok [of p] by (auto simp: mk_ConsensusDecisionV2_def attempt_eq_Inr)

theorem decision_well_formed_witness:
  "\<exists>d. mk_ConsensusDecisionV2 (sealed (decision_payload (PStr (sid CHR ''c'')) sample_basis ''failure'' [sid CHR ''1''] []
     [(sid CHR ''1'', sid CHR ''e'', sid CHR ''e'')] [] [''no_ranking''])) = Inr d \<and> decision_ok (dv_payload d)"
proof -
  let ?p = "sealed (decision_payload (PStr (sid CHR ''c'')) sample_basis ''failure'' [sid CHR ''1''] []
     [(sid CHR ''1'', sid CHR ''e'', sid CHR ''e'')] [] [''no_ranking''])"
  have "is_immutable_id (sid CHR ''c'')" "is_immutable_id (sid CHR ''1'')" "is_immutable_id (sid CHR ''e'')" by (simp_all add: sid_hex)
  then have "mk_ConsensusDecisionV2 ?p = Inr \<lparr>dv_payload = ?p\<rparr>"
    by (subst decision_accepted [OF _ sample_basis_ok]) (simp_all add: outcome_fits_def)
  with decision_well_formed [OF this] show ?thesis by blast
qed

text \<open>
  C14. The evaluator fails closed. It returns a decision exactly when it reports no diagnostics;
  then both validations succeeded, the operation and the projection were closed, and the decision
  is well formed. Otherwise there is neither a decision nor a trace event. Nothing it returns
  authorizes anything.
\<close>

theorem reference_fails_closed:
  assumes "evaluate_consensus_v2_reference ri p cv pv operation obs = Inr ev"
  shows "(re_decision ev = None \<longleftrightarrow> re_status ev = BLOCKED) \<and> (re_decision ev = None \<longleftrightarrow> re_diagnostics ev \<noteq> []) \<and>
    (re_decision ev = None \<longrightarrow> rt2_events (re_trace ev) = []) \<and> re_authorization_effect ev = ''none'' \<and>
    (\<forall>d. re_decision ev = Some d \<longrightarrow> cv_valid cv \<and> pvr_status pv = ''valid'' \<and> (\<exists>op. operation = Some op \<and> admitted ri p cv pv op obs) \<and>
       decision_ok (dv_payload d))"
  by (rule evaluation_fails_closed [OF assms])

theorem reference_fails_closed_witness:
  "\<exists>ev. evaluate_consensus_v2_reference \<lparr>iv_payload = sample_round_v2\<rparr> sample_parameters contract_granted parameters_granted None [] = Inr ev \<and>
     re_decision ev = None \<and> re_diagnostics ev \<noteq> [] \<and> rt2_events (re_trace ev) = []"
proof -
  have "sub sample_round_v2 ''input_content_id'' = Inr (PStr (content_id ''input_content_id'' sample_body))"
    by (simp add: sample_round_v2_def sample_body_def sub.simps(1) getitem_def)
  then obtain ev where ev: "evaluate_consensus_v2_reference \<lparr>iv_payload = sample_round_v2\<rparr> sample_parameters contract_granted parameters_granted None [] = Inr ev"
    "re_status ev = BLOCKED"
    by (simp add: evaluate_consensus_v2_reference_def Let_def blocked_evaluation_def)
  with reference_fails_closed [OF ev(1)] show ?thesis by auto
qed

text \<open>
  C13. What an admitted round returns, in every case. Below the minimum of edges within the
  residual bound the decision is a failure that excludes every participant. With enough of them
  it is a success with exactly these edges when the order of the residuals is the order of the
  identifiers, and the evaluation raises \<open>CV2_RANKING\<close> when it is not.
\<close>

theorem reference_outcome:
  assumes "mk_ConsensusRoundInputV2 p0 = Inr ri" "mk_ConsensusOperationClosureV2 op0 = Inr op" "wf_observations obs"
    and "admitted ri p cv pv op obs"
  shows "if int (length (kept_edges op obs)) < cl_minimum_participants op
    then \<exists>ev d. evaluate_consensus_v2_reference ri p cv pv (Some op) obs = Inr ev \<and> re_status ev = EVALUATED \<and> re_decision ev = Some d \<and>
      decides d ''failure'' []
    else if sorted (residual_order op obs)
    then \<exists>ev d. evaluate_consensus_v2_reference ri p cv pv (Some op) obs = Inr ev \<and> re_status ev = EVALUATED \<and> re_decision ev = Some d \<and>
      decides d ''success'' (kept_edges op obs)
    else evaluate_consensus_v2_reference ri p cv pv (Some op) obs = Inl (ConsensusV2Error ''CV2_RANKING'')"
  using outcome_of_admitted [OF assms] by (auto split: if_splits)

theorem reference_outcome_witness:
  "\<exists>ev d. evaluate_consensus_v2_reference \<lparr>iv_payload = sample_round_v2\<rparr> sample_parameters contract_granted parameters_granted
      (Some sample_operation) (sample_observations [''10.2'', ''10.0'', ''10.7'']) = Inr ev \<and> re_decision ev = Some d \<and>
    decides d ''success'' [sid CHR ''1'', sid CHR ''2'', sid CHR ''3'']"
proof -
  let ?obs = "sample_observations [''10.2'', ''10.0'', ''10.7'']"
  note k = sample_kept [OF ordered_values(1-3) ordered_residuals]
  have "residual_order sample_operation ?obs = [sid CHR ''1'', sid CHR ''2'', sid CHR ''3'']"
    using k(2) by (simp add: less_eq_prod_def)
  then have s: "sorted (residual_order sample_operation ?obs)" by (simp add: sid_order)
  have n: "cl_minimum_participants sample_operation = 2" by (simp add: sample_operation_def)
  from reference_outcome [OF sample_input_ok sample_operation_ok sample_wf [OF ordered_values(1-3)] sample_admitted]
  show ?thesis using k(1) n s by auto
qed



end
