(* ===== verification/ConsensusV2Closure.thy ===== *)
theory ConsensusV2Closure
  imports ConsensusV2Outcome
begin

text \<open>
  What a round input and a parameter set have resolved once their validations found nothing, and
  that a decision of the reference evaluator rests on both.
\<close>

section \<open>Closed evidence\<close>

text \<open>A public, immutable record that mentions nothing the evaluator may not depend on.\<close>

definition safe :: "contract_resolver \<Rightarrow> string \<Rightarrow> bool" where
  "safe cx i = (\<exists>d a b. cx_dependency cx i = Some d \<and> cx_immutable cx i \<and> dget d ''immutable'' = PBool True \<and>
     dget d ''audience'' = PStr ''public'' \<and> tokens_of d ''semantic_tokens'' = Inr a \<and> tokens_of d ''provenance_tokens'' = Inr b \<and>
     set (a @ b) \<inter> set FORBIDDEN = {})"

definition closed_observation :: "contract_resolver \<Rightarrow> observation_v2 \<Rightarrow> bool" where
  "closed_observation cx r = (safe cx (ob_observation_id r) \<and> (\<exists>d. cx_observation cx (ob_observation_id r) = Some d \<and>
     dget d ''canonical_hash'' = PStr (ob_canonical_hash r) \<and> dget d ''profile_id'' = PStr (ob_profile_id r) \<and>
     equals_int (dget d ''source_sequence'') (ob_source_sequence r)))"

text \<open>The qualification passed, and everything the round names is safe and in its closure.\<close>

definition closed_evidence :: "round_input_v2 \<Rightarrow> contract_resolver \<Rightarrow> bool" where
  "closed_evidence ri cx = (\<exists>qid q closure ids rows. text_field (iv_payload ri) ''qualification_result_id'' = Inr qid \<and>
     cx_qualification cx qid = Some q \<and> safe cx qid \<and> dget q ''disposition'' = PStr ''qualified'' \<and> dget q ''g2'' = PStr ''pass'' \<and>
     identity_set (Some q) ''closure_ids'' = Inr closure \<and> dependency_ids (iv_payload ri) = Inr ids \<and> input_rows ri = Inr rows \<and>
     (\<forall>i \<in> set ids. safe cx i \<and> PStr i \<in> set closure) \<and> (\<forall>r \<in> set rows. closed_observation cx r))"

lemma safe_iff: "safe_dependency i cx = Inr True \<longleftrightarrow> safe cx i"
  by (auto simp: safe_dependency_def safe_def attempt_eq_Inr split: option.splits)

lemma mapM_concat_Nil:
  assumes "mapM f xs = Inr es" "concat es = []" "x \<in> set xs"
  shows "f x = Inr []"
  using assms by (induction xs arbitrary: es) (auto simp: attempt_eq_Inr)

lemma unsafe_none:
  assumes "unsafe_dependencies cx closure ids = Inr []" "i \<in> set ids"
  shows "safe cx i \<and> PStr i \<in> set closure"
proof -
  obtain es where "mapM (\<lambda>i. attempt (safe_dependency i cx) (\<lambda>safe.
     Inr (if \<not> safe \<or> PStr i \<notin> set closure then [''CV2_DEPENDENCY_UNSAFE''] else []))) ids = Inr es" "concat es = []"
    using assms(1) by (auto simp: unsafe_dependencies_def attempt_eq_Inr)
  from mapM_concat_Nil [OF this assms(2)] show ?thesis by (auto simp: attempt_eq_Inr safe_iff split: if_splits)
qed

lemma unresolved_none:
  assumes "unresolved_observations cx known rows = Inr []" "r \<in> set rows"
  shows "closed_observation cx r"
proof -
  obtain es where "mapM (\<lambda>r. attempt (safe_dependency (ob_observation_id r) cx) (\<lambda>safe.
     Inr (case cx_observation cx (ob_observation_id r) of None \<Rightarrow> [''CV2_OBSERVATION_UNRESOLVED''] | Some d \<Rightarrow>
       if \<not> safe \<or> dget d ''observation_content_id'' \<noteq> PStr (ob_observation_id r)
          \<or> dget d ''canonical_hash'' \<noteq> PStr (ob_canonical_hash r) \<or> dget d ''profile_id'' \<noteq> PStr (ob_profile_id r)
          \<or> \<not> equals_int (dget d ''source_sequence'') (ob_source_sequence r) \<or> PStr (ob_observation_id r) \<notin> set known
       then [''CV2_OBSERVATION_UNRESOLVED''] else []))) rows = Inr es" "concat es = []"
    using assms(1) by (auto simp: unresolved_observations_def attempt_eq_Inr)
  from mapM_concat_Nil [OF this assms(2)] show ?thesis
    by (auto simp: closed_observation_def attempt_eq_Inr safe_iff split: if_splits option.splits)
qed

lemma reported_unless: "(if P then [] else [x]) = [] \<longleftrightarrow> P"
  by simp

lemma valid_evidence:
  assumes "validate_consensus_round_input_v2 ri cx = Inr cv" "cv_valid cv"
  shows "closed_evidence ri cx"
proof -
  obtain qid qualifies known closure ids unsafe rows unresolved where f: "text_field (iv_payload ri) ''qualification_result_id'' = Inr qid"
      "safe_dependency qid cx = Inr qualifies" "identity_set (cx_qualification cx qid) ''closure_ids'' = Inr closure"
      "dependency_ids (iv_payload ri) = Inr ids" "unsafe_dependencies cx closure ids = Inr unsafe" "input_rows ri = Inr rows"
      "unresolved_observations cx known rows = Inr unresolved"
    and v: "cv_valid cv \<longleftrightarrow> (qualifies \<and> (case cx_qualification cx qid of None \<Rightarrow> False | Some d \<Rightarrow>
           dget d ''disposition'' = PStr ''qualified'' \<and> dget d ''g2'' = PStr ''pass'')) \<and> unsafe = [] \<and> unresolved = []"
    using assms(1) by (auto simp: validate_consensus_round_input_v2_def Let_def attempt_eq_Inr reported_unless)
  obtain q where q: "qualifies" "cx_qualification cx qid = Some q" "dget q ''disposition'' = PStr ''qualified''" "dget q ''g2'' = PStr ''pass''"
      "unsafe = []" "unresolved = []"
    using v assms(2) by (auto split: option.splits)
  show ?thesis
    unfolding closed_evidence_def using f q unsafe_none unresolved_none by (simp add: safe_iff)
qed

section \<open>Closed parameter sets\<close>

text \<open>A record is resolved when it exists and has the declared hash.\<close>

definition resolved :: "record_v2 option \<Rightarrow> string \<Rightarrow> string list \<Rightarrow> bool" where
  "resolved r expected names = (r \<noteq> None \<and> matches_hash r expected names)"

definition closed_slot :: "parameter_set \<Rightarrow> parameter_resolvers \<Rightarrow> parameter_slot \<Rightarrow> bool" where
  "closed_slot p px s = (let r = px_parameter_revision px (sl_parameter_revision_id s) in
     resolved r (sl_parameter_revision_sha256 s) [''revision_sha256''] \<and>
     py_str (value_or r ''unit'' PNone) = sl_unit s \<and> py_str (value_or r ''quantity_kind'' PNone) = sl_quantity_kind s \<and>
     sl_profile_id s = pset_profile_id p \<and> sl_experiment_scope s = pset_experiment_scope p \<and>
     (sl_parameter_class s = ''preregistered_factor'' \<longrightarrow> (\<exists>i h. sl_decision_id s = Some i \<and> sl_decision_record_sha256 s = Some h \<and>
        resolved (px_decision_record px i) h [''record_sha256''])))"

definition closed_slots :: "parameter_set \<Rightarrow> parameter_resolvers \<Rightarrow> bool" where
  "closed_slots p px = (let ids = map sl_slot_id (pset_slots p) in
     distinct ids \<and> required_slots (px_required_set px (pset_required_parameter_set_id p)) \<in> Inr ` {wanted. set wanted = set ids} \<and>
     (\<forall>s \<in> set (pset_slots p). closed_slot p px s))"

definition closed_gate :: "parameter_set \<Rightarrow> parameter_resolvers \<Rightarrow> bool" where
  "closed_gate p px = (let gate = px_gate_result px (pset_parameter_gate_result_id p) in
     resolved gate (pset_parameter_gate_result_sha256 p) [''gate_result_id''] \<and>
     py_str (value_or gate ''accountability_outcome'' PNone) = ''accountable'' \<and>
     py_str (value_or gate ''inventory_id'' PNone) = pset_numeric_inventory_id p \<and>
     py_str (value_or gate ''required_set_id'' PNone) = pset_required_parameter_set_id p)"

text \<open>Every record behind the set is resolved, and the selected configuration was planned.\<close>

definition closed_parameters :: "parameter_set \<Rightarrow> parameter_resolvers \<Rightarrow> bool" where
  "closed_parameters p px =
     (resolved (px_inventory px (pset_numeric_inventory_id p)) (pset_numeric_inventory_sha256 p) [] \<and>
      resolved (px_required_set px (pset_required_parameter_set_id p)) (pset_required_parameter_set_sha256 p) [] \<and>
      closed_gate p px \<and> closed_slots p px \<and>
      resolved (px_residual_policy px (pset_residual_policy_id p)) (pset_residual_policy_sha256 p) [''content_sha256'', ''policy_sha256''] \<and>
      resolved (px_analysis_plan px (pset_analysis_plan_id p)) (pset_analysis_plan_sha256 p) [''content_sha256'', ''plan_sha256''] \<and>
      resolved (px_scientific_freeze px (pset_scientific_freeze_id p)) (pset_scientific_freeze_sha256 p) [] \<and>
      resolved (px_partition_lock px (pset_partition_lock_id p)) (pset_partition_lock_sha256 p) [''content_sha256'', ''record_sha256''] \<and>
      resolved (px_decision_record px (pset_primary_decision_id p)) (pset_primary_decision_record_sha256 p) [''record_sha256''] \<and>
      pset_selected_alternative_id p \<in> set (''primary'' # pset_sensitivity_alternative_ids p) \<and>
      pset_authorization_effect p = ''none'')"

section \<open>Violations\<close>

lemma fail_if_Nil [simp]: "fail_if b rule field reference explanation = [] \<longleftrightarrow> \<not> b"
  by (simp add: fail_if_def)

lemma concat_Nil: "concat (map f xs) = [] \<longleftrightarrow> (\<forall>x \<in> set xs. f x = [])"
  by auto

lemma unresolved_violation: "r = None \<or> \<not> matches_hash r h names \<longleftrightarrow> \<not> resolved r h names"
  by (auto simp: resolved_def)

lemma absent_record: "\<not> matches_hash None h [n]"
  by (auto simp: matches_hash_def value_or_def record_hash_def is_immutable_id_def DIGEST_PREFIX_def)

lemma slot_decision_closed:
  assumes "slot_decision_violations px s = []" "sl_parameter_class s = ''preregistered_factor''"
  shows "\<exists>i h. sl_decision_id s = Some i \<and> sl_decision_record_sha256 s = Some h \<and> resolved (px_decision_record px i) h [''record_sha256'']"
proof -
  obtain i h where ih: "sl_decision_id s = Some i" "i \<noteq> []" "sl_decision_record_sha256 s = Some h" "h \<noteq> []"
    using assms by (auto simp: slot_decision_violations_def Let_def)
  then have "matches_hash (px_decision_record px i) h [''record_sha256'']"
    using assms(1) by (simp add: slot_decision_violations_def Let_def)
  then have "resolved (px_decision_record px i) h [''record_sha256'']"
    by (cases "px_decision_record px i") (simp_all add: resolved_def absent_record)
  with ih show ?thesis by blast
qed

lemma slot_closed:
  assumes "slot_violations p px s = []"
  shows "closed_slot p px s"
proof -
  let ?r = "px_parameter_revision px (sl_parameter_revision_id s)"
  have r: "resolved ?r (sl_parameter_revision_sha256 s) [''revision_sha256'']"
    using assms by (simp add: slot_violations_def Let_def unresolved_violation split: if_splits)
  then have rest: "py_str (value_or ?r ''unit'' PNone) = sl_unit s" "py_str (value_or ?r ''quantity_kind'' PNone) = sl_quantity_kind s"
    "sl_profile_id s = pset_profile_id p" "sl_experiment_scope s = pset_experiment_scope p" "slot_decision_violations px s = []"
    using assms by (simp_all add: slot_violations_def Let_def unresolved_violation)
  with r slot_decision_closed [OF rest(5)] show ?thesis by (simp add: closed_slot_def Let_def)
qed

lemma no_violations_closed:
  assumes "required_slots (px_required_set px (pset_required_parameter_set_id p)) = Inr wanted"
    and d: "declaration_violations p = []"
    and b: "binding_violations p (px_inventory px (pset_numeric_inventory_id p)) (px_required_set px (pset_required_parameter_set_id p))
      (px_gate_result px (pset_parameter_gate_result_id p)) = []"
    and s: "slots_violations p px wanted = []" and c: "comparison_violations p px = []" and l: "plan_violations p px = []"
  shows "closed_parameters p px"
proof -
  have "closed_slots p px" using s assms(1) slot_closed
    by (auto simp: closed_slots_def slots_violations_def Let_def concat_Nil)
  moreover have gate: "resolved (px_gate_result px (pset_parameter_gate_result_id p)) (pset_parameter_gate_result_sha256 p) [''gate_result_id'']"
    using b by (simp add: binding_violations_def unresolved_violation split: if_splits)
  have "px_gate_result px (pset_parameter_gate_result_id p) \<noteq> None" using gate by (simp add: resolved_def)
  then have "closed_gate p px" using b gate
    by (simp add: binding_violations_def unresolved_violation closed_gate_def Let_def)
  ultimately show ?thesis using d b c l
    by (simp add: closed_parameters_def declaration_violations_def binding_violations_def comparison_violations_def plan_violations_def
        Let_def unresolved_violation)
qed

lemma valid_closed:
  assumes "validate_consensus_parameter_set p px = Inr v" "pvr_status v = ''valid''"
  shows "closed_parameters p px"
proof -
  obtain wanted where w: "required_slots (px_required_set px (pset_required_parameter_set_id p)) = Inr wanted"
    using assms(1) by (auto simp: validate_consensus_parameter_set_def Let_def attempt_eq_Inr)
  show ?thesis
    by (rule no_violations_closed [OF w]) (use assms w in \<open>auto simp: validate_consensus_parameter_set_def Let_def split: if_splits\<close>)
qed

text \<open>A record that declares the expected hash is accepted whatever its content is.\<close>

lemma declared_hash_suffices:
  "is_immutable_id h \<Longrightarrow> map_of d name = Some (PStr h) \<Longrightarrow> matches_hash (Some d) h [name]"
  by (simp add: matches_hash_def value_or_def dget_or_def)

section \<open>A closed sample\<close>

definition sample_inventory :: record_v2 where
  "sample_inventory = [(''scope'', PStr ''scope'')]"

definition sample_required :: record_v2 where
  "sample_required = [(''inventory_id'', PStr ''inventory''), (''bindings'', PList [PDict [(''slot_id'', PStr ''slot'')]])]"

definition sample_gate :: record_v2 where
  "sample_gate = [(''gate_result_id'', PStr (sid CHR ''3'')), (''accountability_outcome'', PStr ''accountable''),
     (''authorization_effect'', PStr ''none''), (''inventory_id'', PStr ''inventory''), (''required_set_id'', PStr ''required'')]"

definition sample_revision :: record_v2 where
  "sample_revision = [(''revision_sha256'', PStr (sid CHR ''0'')), (''parameter_class'', PStr ''direct''), (''quantity_kind'', PStr ''current''),
     (''unit'', PStr ''mA''), (''profile_id'', PStr (sid CHR ''b'')), (''experiment_scope'', PStr ''scope'')]"

definition sample_freeze :: record_v2 where
  "sample_freeze = [(''freeze'', PInt 1)]"

definition sample_resolvers :: parameter_resolvers where
  "sample_resolvers = \<lparr>px_inventory = [''inventory'' \<mapsto> sample_inventory], px_required_set = [''required'' \<mapsto> sample_required],
     px_gate_result = [''gate'' \<mapsto> sample_gate], px_parameter_revision = [''revision'' \<mapsto> sample_revision],
     px_decision_record = [''decision'' \<mapsto> [(''record_sha256'', PStr (sid CHR ''7''))]], px_scientific_freeze = [''freeze'' \<mapsto> sample_freeze],
     px_partition_lock = [''lock'' \<mapsto> [(''record_sha256'', PStr (sid CHR ''9''))]],
     px_analysis_plan = [''plan'' \<mapsto> [(''plan_sha256'', PStr (sid CHR ''5''))]],
     px_residual_policy = [sha256_id MEAN_CURRENT_RESIDUAL_V1 \<mapsto> [(''policy_sha256'', PStr (sid CHR ''4''))]]\<rparr>"

text \<open>The sample set with the hashes of the records that do not declare one.\<close>

definition closed_sample :: parameter_set where
  "closed_sample = sample_parameters\<lparr>pset_numeric_inventory_sha256 := sha256_id (json_dumps (PDict sample_inventory)),
     pset_required_parameter_set_sha256 := sha256_id (json_dumps (PDict sample_required)),
     pset_scientific_freeze_sha256 := sha256_id (json_dumps (PDict sample_freeze))\<rparr>"

lemma opaque_immutable:
  assumes "is_immutable_id s"
  shows "opaque_name s"
proof -
  have s: "take 7 s = DIGEST_PREFIX" "length s = 71" "list_all (\<lambda>c. c \<in> hex_lower) (drop 7 s)" using assms by (simp_all add: is_immutable_id_def)
  have d: "s = ''sha256:'' @ drop 7 s" using append_take_drop_id [of 7 s] by (simp only: s(1) DIGEST_PREFIX_def)
  have "drop 7 s \<noteq> []" using s(2) by simp
  then obtain e c where e: "drop 7 s = e @ [c]" by (metis append_butlast_last_id)
  have "c \<in> hex_lower" using s(3) e by simp
  then have "\<not> is_space c" by (auto simp: hex_lower_def is_space_def)
  then have "strip (''sha256:'' @ e @ [c]) = ''sha256:'' @ e @ [c]" by (simp add: strip_def is_space_def)
  then have "strip s = s" using d e by simp
  moreover have "map lower_char s \<notin> set MUTABLE_NAMES"
    using s(2) by (auto simp: MUTABLE_NAMES_def dest!: arg_cong [where f = length])
  ultimately show ?thesis by (simp add: opaque_name_def)
qed

lemma plain_names: "opaque_name ''set''" "opaque_name ''component''" "opaque_name ''scope''" "opaque_name ''Basis.v2''"
  "opaque_name ''same_profile_raw_current''" "opaque_name ''policy''" "opaque_name ''plan''" "opaque_name ''sensitivity''"
  "opaque_name ''primary''" "opaque_name ''decision''" "opaque_name ''freeze''" "opaque_name ''lock''"
  "opaque_name ''slot''" "opaque_name ''revision''"
  by (simp_all add: opaque_name_def strip_def is_space_def MUTABLE_NAMES_def lower_char_def)

lemma closed_sample_declared: "declaration_violations closed_sample = []"
  by (simp add: declaration_violations_def closed_sample_def sample_parameters_def plain_names opaque_immutable sid_hex)

lemma record_matches: "is_immutable_id h \<Longrightarrow> h = sha256_id (json_dumps (PDict d)) \<Longrightarrow> matches_hash (Some d) h []"
  by (simp add: matches_hash_def record_hash_def)

lemma closed_sample_bindings: "binding_violations closed_sample (Some sample_inventory) (Some sample_required) (Some sample_gate) = []"
proof -
  have "matches_hash (Some sample_gate) (sid CHR ''3'') [''gate_result_id'']"
    by (rule declared_hash_suffices) (simp_all add: sid_hex sample_gate_def)
  then show ?thesis
    by (simp add: binding_violations_def closed_sample_def record_matches)
      (simp add: scope_violations_def sample_inventory_def sample_required_def sample_gate_def sample_parameters_def dget_def value_or_def dget_or_def)
qed

lemma closed_sample_slots: "slots_violations closed_sample sample_resolvers [''slot''] = []"
proof -
  have "matches_hash (Some sample_revision) (sid CHR ''0'') [''revision_sha256'']"
    by (rule declared_hash_suffices) (simp_all add: sid_hex sample_revision_def)
  then show ?thesis
    by (simp add: slots_violations_def slot_violations_def slot_decision_violations_def closed_sample_def sample_parameters_def
        sample_resolvers_def Let_def plain_names sid_hex) (simp add: sample_revision_def value_or_def dget_or_def)
qed

lemma closed_sample_comparison: "comparison_violations closed_sample sample_resolvers = []"
  by (simp add: comparison_violations_def closed_sample_def sample_parameters_def sample_resolvers_def Let_def declared_hash_suffices
      sid_hex matches_hash_def value_or_def dget_or_def)

lemma closed_sample_plan: "plan_violations closed_sample sample_resolvers = []"
  by (simp add: plan_violations_def closed_sample_def sample_parameters_def sample_resolvers_def Let_def record_matches
      sid_hex) (simp add: matches_hash_def value_or_def dget_or_def sid_hex)

lemma closed_sample_valid:
  "validate_consensus_parameter_set closed_sample sample_resolvers = Inr parameters_granted"
proof -
  have "required_slots (Some sample_required) = Inr [''slot'']"
    by (simp add: required_slots_def sample_required_def value_or_def dget_or_def py_iter_def item_value_def)
  moreover have "px_inventory sample_resolvers (pset_numeric_inventory_id closed_sample) = Some sample_inventory"
    "px_required_set sample_resolvers (pset_required_parameter_set_id closed_sample) = Some sample_required"
    "px_gate_result sample_resolvers (pset_parameter_gate_result_id closed_sample) = Some sample_gate"
    "pset_parameter_set_id closed_sample = ''set''"
    by (simp_all add: sample_resolvers_def closed_sample_def sample_parameters_def)
  ultimately show ?thesis
    by (simp add: validate_consensus_parameter_set_def Let_def closed_sample_declared closed_sample_bindings closed_sample_slots
        closed_sample_comparison closed_sample_plan parameters_granted_def)
qed

lemma closed_sample_admitted: "admitted ri closed_sample cv pv op obs \<longleftrightarrow> admitted ri sample_parameters cv pv op obs"
  by (simp add: admitted_def parameters_bound_def closed_sample_def)

lemma blocked_rules:
  assumes "evaluate_consensus_v2_reference ri p cv pv operation obs = Inr ev"
  shows "set (cv_diagnostics cv) \<union> vi_rule_id ` set (pvr_violations pv) \<subseteq> set (re_diagnostics ev)"
proof (cases "cv_diagnostics cv = [] \<and> pvr_violations pv = []")
  case False
  then have "declared_diagnostics cv pv operation obs \<noteq> []" by (auto simp: declared_diagnostics_def)
  with assms obtain i where "ev = blocked_evaluation i p (declared_diagnostics cv pv operation obs)"
    by (auto simp: evaluate_consensus_v2_reference_def Let_def attempt_eq_Inr split: option.splits)
  then show ?thesis by (auto simp: blocked_evaluation_def sorted_set_def declared_diagnostics_def)
qed simp

text \<open>A resolver that knows every identifier of the sample round.\<close>

definition sample_dependency :: record_v2 where
  "sample_dependency = [(''immutable'', PBool True), (''audience'', PStr ''public'')]"

definition sample_qualification :: record_v2 where
  "sample_qualification = [(''disposition'', PStr ''qualified''), (''g2'', PStr ''pass''),
     (''observation_ids'', PList (map (PStr \<circ> sid) ''123'')), (''closure_ids'', PList (map (PStr \<circ> sid) ''abd''))]"

definition sample_evidence :: contract_resolver where
  "sample_evidence = \<lparr>cx_immutable = is_immutable_id,
     cx_observation = (\<lambda>i. Some [(''observation_content_id'', PStr i), (''canonical_hash'', PStr i), (''profile_id'', PStr (sid CHR ''b'')),
       (''source_sequence'', PInt 1)]),
     cx_qualification = (\<lambda>_. Some sample_qualification), cx_dependency = (\<lambda>_. Some sample_dependency)\<rparr>"

lemma sample_safe: "is_immutable_id i \<Longrightarrow> safe_dependency i sample_evidence = Inr True"
  by (simp add: safe_dependency_def sample_evidence_def sample_dependency_def dget_def dget_or_def tokens_of_def py_iter_def)

lemma sample_sets:
  "identity_set (Some sample_qualification) ''observation_ids'' = Inr (map (PStr \<circ> sid) ''123'')"
  "identity_set (Some sample_qualification) ''closure_ids'' = Inr (map (PStr \<circ> sid) ''abd'')"
  by (simp_all add: identity_set_def sample_qualification_def dget_or_def py_iter_def unhashable_def)

lemma sample_ids: "dependency_ids sample_round_v2 = Inr (map sid ''adb'')"
  by (simp add: dependency_ids_def sample_round_v2_def sample_body_def sample_basis_def sub.simps(1) getitem_def text_field_def
      text_list_field_def)

definition sample_rows_v2 :: "observation_v2 list" where
  "sample_rows_v2 = map (\<lambda>e. \<lparr>ob_edge_id = sid e, ob_observation_id = sid e, ob_canonical_hash = sid e, ob_profile_id = sid CHR ''b'',
     ob_source_sequence = 1\<rparr>) ''123''"

lemma sample_input_rows: "input_rows \<lparr>iv_payload = sample_round_v2\<rparr> = Inr sample_rows_v2"
  by (simp add: input_rows_def sample_round_v2_def sample_body_def sub.simps(1) getitem_def sample_rows sample_rows_v2_def
      hex_lower_def)

lemma sample_evidence_ok: "validate_consensus_round_input_v2 \<lparr>iv_payload = sample_round_v2\<rparr> sample_evidence = Inr contract_granted"
proof -
  have deps: "unsafe_dependencies sample_evidence (map (PStr \<circ> sid) ''abd'') (map sid ''adb'') = Inr []"
    by (simp add: unsafe_dependencies_def sample_safe sid_hex)
  have rows: "unresolved_observations sample_evidence (map (PStr \<circ> sid) ''123'') sample_rows_v2 = Inr []"
    by (simp add: unresolved_observations_def sample_rows_v2_def sample_safe sid_hex)
      (simp add: sample_evidence_def dget_def equals_int_def number_of_def)
  have qid: "text_field sample_round_v2 ''qualification_result_id'' = Inr (sid CHR ''c'')"
    by (simp add: text_field_def sample_round_v2_def sample_body_def sub.simps(1) getitem_def)
  have "cx_qualification sample_evidence (sid CHR ''c'') = Some sample_qualification" by (simp add: sample_evidence_def)
  moreover have "dget sample_qualification ''disposition'' = PStr ''qualified''" "dget sample_qualification ''g2'' = PStr ''pass''"
    by (simp_all add: sample_qualification_def dget_def)
  ultimately show ?thesis
    by (simp only: validate_consensus_round_input_v2_def round_input_v2.select_convs qid attempt_Inr sample_safe [OF sid_hex] Let_def
        sample_sets sample_ids deps sample_input_rows rows)
      (simp add: sample_safe sid_hex sample_sets sample_ids deps rows contract_granted_def sorted_set_def del: list.map)
qed

section \<open>The property\<close>

text \<open>
  C12. A decision of the evaluator rests on closed evidence. When it decides under the validations of
  a round and of a parameter set, the qualification of the round passed and everything the round names
  is public, immutable and in its closure; every record the parameters declare was resolved with
  the declared hash, the slots are exactly the required ones, each in the profile and scope of
  the set, and the gate is accountable and bound to the same inventory. Whatever a validation
  reported is among the diagnostics.
\<close>

theorem decided_on_closed_evidence:
  assumes "validate_consensus_round_input_v2 ri cx = Inr cv" "validate_consensus_parameter_set p px = Inr pv"
    and "evaluate_consensus_v2_reference ri p cv pv operation obs = Inr ev"
  shows "(re_decision ev \<noteq> None \<longrightarrow> closed_evidence ri cx \<and> closed_parameters p px) \<and>
    set (cv_diagnostics cv) \<union> vi_rule_id ` set (pvr_violations pv) \<subseteq> set (re_diagnostics ev)"
  using evaluation_fails_closed [OF assms(3)] valid_evidence [OF assms(1)] valid_closed [OF assms(2)] blocked_rules [OF assms(3)] by auto

theorem decided_on_closed_evidence_witness:
  "\<exists>ev. evaluate_consensus_v2_reference \<lparr>iv_payload = sample_round_v2\<rparr> closed_sample contract_granted parameters_granted
      (Some sample_operation) (sample_observations [''10.2'', ''10.0'', ''10.7'']) = Inr ev \<and> re_decision ev \<noteq> None \<and>
    closed_evidence \<lparr>iv_payload = sample_round_v2\<rparr> sample_evidence \<and> closed_parameters closed_sample sample_resolvers"
proof -
  let ?obs = "sample_observations [''10.2'', ''10.0'', ''10.7'']"
  note k = sample_kept [OF ordered_values(1-3) ordered_residuals]
  have "residual_order sample_operation ?obs = [sid CHR ''1'', sid CHR ''2'', sid CHR ''3'']" using k(2) by (simp add: less_eq_prod_def)
  then have "sorted (residual_order sample_operation ?obs)" by (simp add: sid_order)
  moreover have "admitted \<lparr>iv_payload = sample_round_v2\<rparr> closed_sample contract_granted parameters_granted sample_operation ?obs"
    by (simp only: closed_sample_admitted sample_admitted)
  note outcome_of_admitted [OF sample_input_ok sample_operation_ok sample_wf [OF ordered_values(1-3)] this]
  ultimately obtain ev where "evaluate_consensus_v2_reference \<lparr>iv_payload = sample_round_v2\<rparr> closed_sample contract_granted parameters_granted
      (Some sample_operation) ?obs = Inr ev" "re_decision ev \<noteq> None"
    by (auto split: if_splits)
  with decided_on_closed_evidence [OF sample_evidence_ok closed_sample_valid this(1)] show ?thesis by blast
qed

end
