(* ===== verification/VersionedState.thy ===== *)
theory VersionedState
  imports Sha256
begin

text \<open>
  Versioned state records of the two consensus versions (\<open>consensus_v2/versioned_state.py\<close>): a
  state, a query, a projection, a restart and a rollback name their version, and their
  identifiers are digests of their content. Fields have the types the source annotates; the
  checks that a field is a text at all are then vacuous.
\<close>

section \<open>Checks\<close>

definition VERSIONS :: "(string, string) dict" where
  "VERSIONS = [(''v1'', ''Consensus.v1''), (''v2'', ''Consensus.v2'')]"

definition V2_TO_V1_PROJECTION_SCHEMA :: string where
  "V2_TO_V1_PROJECTION_SCHEMA = ''ConsensusV2ToV1Projection.v1''"

definition identity_text :: "string \<Rightarrow> string \<Rightarrow> string res" where
  "identity_text code s = (if is_immutable_id s then Inr s else Inl (VersionedConsensusStateError code))"

definition refuse_if :: "bool \<Rightarrow> string \<Rightarrow> unit res" where
  "refuse_if b code = (if b then Inl (VersionedConsensusStateError code) else Inr ())"

definition check_route :: "string \<Rightarrow> string \<Rightarrow> string \<Rightarrow> string \<Rightarrow> string \<Rightarrow> string \<Rightarrow> unit res" where
  "check_route version schema key unknown mismatch storage = attempt (refuse_if (map_of VERSIONS version = None) unknown) (\<lambda>_.
     attempt (refuse_if (map_of VERSIONS version \<noteq> Some schema) mismatch) (\<lambda>_.
     refuse_if (\<not> starts_with (''consensus/'' @ version @ ''/'') key) storage))"

section \<open>States\<close>

record versioned_state =
  vst_contract_version :: string
  vst_schema_identity :: string
  vst_storage_key :: string
  vst_height :: int
  vst_app_hash :: string
  vst_state_bytes :: string
  vst_state_sha256 :: string
  vst_state_id :: string

definition versioned_state_id :: "string \<Rightarrow> string \<Rightarrow> string \<Rightarrow> int \<Rightarrow> string \<Rightarrow> string \<Rightarrow> string" where
  "versioned_state_id version schema key height app_hash state_sha256 = sha256_id (json_dumps (PDict [
     (''contract_version'', PStr version), (''schema_identity'', PStr schema), (''storage_key'', PStr key), (''height'', PInt height),
     (''app_hash'', PStr app_hash), (''state_sha256'', PStr state_sha256)]))"

definition state_identity :: "versioned_state \<Rightarrow> string" where
  "state_identity s = versioned_state_id (vst_contract_version s) (vst_schema_identity s) (vst_storage_key s) (vst_height s)
     (vst_app_hash s) (vst_state_sha256 s)"

definition mk_VersionedConsensusState :: "versioned_state \<Rightarrow> versioned_state res" where
  "mk_VersionedConsensusState s = attempt (check_route (vst_contract_version s) (vst_schema_identity s) (vst_storage_key s)
       ''VCS_UNKNOWN_VERSION'' ''VCS_SCHEMA_VERSION_MISMATCH'' ''VCS_STORAGE_KEY'') (\<lambda>_.
     attempt (refuse_if (vst_height s < 0) ''VCS_HEIGHT'') (\<lambda>_.
     attempt (identity_text ''VCS_APP_HASH'' (vst_app_hash s)) (\<lambda>_.
     attempt (refuse_if (vst_state_bytes s = []) ''VCS_STATE_BYTES'') (\<lambda>_.
     attempt (refuse_if (vst_state_sha256 s \<noteq> sha256_id (vst_state_bytes s)) ''VCS_STATE_HASH'') (\<lambda>_.
     attempt (identity_text ''VCS_STATE_ID'' (vst_state_id s)) (\<lambda>_.
     attempt (refuse_if (vst_state_id s \<noteq> state_identity s) ''VCS_STATE_ID_HASH'') (\<lambda>_. Inr s)))))))"

section \<open>Queries\<close>

record versioned_query =
  vq_contract_version :: string
  vq_schema_identity :: string
  vq_storage_key :: string

definition mk_VersionedQuery :: "versioned_query \<Rightarrow> versioned_query res" where
  "mk_VersionedQuery q = attempt (check_route (vq_contract_version q) (vq_schema_identity q) (vq_storage_key q)
     ''VCQ_UNKNOWN_VERSION'' ''VCQ_SCHEMA_VERSION_MISMATCH'' ''VCQ_STORAGE_KEY'') (\<lambda>_. Inr q)"

record versioned_response =
  vr_contract_version :: string
  vr_schema_identity :: string
  vr_state :: "versioned_state option"
  vr_status :: string

definition matches_query :: "versioned_query \<Rightarrow> versioned_state \<Rightarrow> bool" where
  "matches_query q s = (vst_contract_version s = vq_contract_version q \<and> vst_schema_identity s = vq_schema_identity q \<and>
     vst_storage_key s = vq_storage_key q)"

definition resolve_versioned_query :: "versioned_query \<Rightarrow> versioned_state list \<Rightarrow> versioned_response res" where
  "resolve_versioned_query q records = (let found = filter (matches_query q) records in
     if 1 < length found then Inl (VersionedConsensusStateError ''VCQ_AMBIGUOUS_STATE'')
     else Inr \<lparr>vr_contract_version = vq_contract_version q, vr_schema_identity = vq_schema_identity q,
       vr_state = (case found of [] \<Rightarrow> None | s # _ \<Rightarrow> Some s), vr_status = (if found = [] then ''missing'' else ''found'')\<rparr>)"

section \<open>Projections, restarts, evidence and rollbacks\<close>

record projection_v1 =
  pj_projection_schema :: string
  pj_source_v2_state_id :: string
  pj_target_v1_schema_identity :: string
  pj_projected_fields :: "(string, string) dict"
  pj_projection_id :: string

definition mk_V2ToV1Projection :: "projection_v1 \<Rightarrow> projection_v1 res" where
  "mk_V2ToV1Projection p = attempt (refuse_if (pj_projection_schema p \<noteq> V2_TO_V1_PROJECTION_SCHEMA
       \<or> pj_target_v1_schema_identity p \<noteq> ''Consensus.v1'') ''VCP_SCHEMA'') (\<lambda>_.
     attempt (identity_text ''VCP_SOURCE_ID'' (pj_source_v2_state_id p)) (\<lambda>_.
     attempt (refuse_if (pj_projected_fields p = [] \<or> list_ex (\<lambda>(k, v). k = [] \<or> v = []) (pj_projected_fields p)) ''VCP_FIELDS'') (\<lambda>_.
     attempt (refuse_if (pj_projection_id p \<noteq> sha256_id (json_dumps (PDict [(''projection_schema'', PStr (pj_projection_schema p)),
         (''source_v2_state_id'', PStr (pj_source_v2_state_id p)),
         (''target_v1_schema_identity'', PStr (pj_target_v1_schema_identity p)),
         (''projected_fields'', PDict (map (\<lambda>(k, v). (k, PStr v)) (pj_projected_fields p)))]))) ''VCP_ID'') (\<lambda>_. Inr p))))"

record restart_qualification =
  rq_code_identity :: string
  rq_runtime_identity :: string
  rq_requested_state_ids :: "string list"
  rq_reconstructed_state_ids :: "string list"
  rq_status :: string

definition mk_RestartQualification :: "restart_qualification \<Rightarrow> restart_qualification res" where
  "mk_RestartQualification r = attempt (identity_text ''VCR_CODE_IDENTITY'' (rq_code_identity r)) (\<lambda>_.
     attempt (identity_text ''VCR_RUNTIME_IDENTITY'' (rq_runtime_identity r)) (\<lambda>_.
     attempt (mapM (identity_text ''VCR_STATE_ID'') (rq_requested_state_ids r @ rq_reconstructed_state_ids r)) (\<lambda>_.
     attempt (refuse_if (rq_requested_state_ids r \<noteq> rq_reconstructed_state_ids r \<or> rq_status r \<noteq> ''qualified'') ''VCR_REPLAY_MISMATCH'')
       (\<lambda>_. Inr r))))"

definition qualify_restart ::
  "string \<Rightarrow> string \<Rightarrow> versioned_state list \<Rightarrow> versioned_state list \<Rightarrow> restart_qualification res" where
  "qualify_restart code runtime expected reconstructed = attempt (identity_text ''VCR_CODE_IDENTITY'' code) (\<lambda>_.
     attempt (identity_text ''VCR_RUNTIME_IDENTITY'' runtime) (\<lambda>_.
     mk_RestartQualification \<lparr>rq_code_identity = code, rq_runtime_identity = runtime,
       rq_requested_state_ids = map vst_state_id expected, rq_reconstructed_state_ids = map vst_state_id reconstructed,
       rq_status = ''qualified''\<rparr>))"

record round_evidence =
  ve_round_id :: string
  ve_participant_ids :: "string list"
  ve_ranking_ids :: "string list"
  ve_exclusion_ids :: "string list"
  ve_input_id :: string
  ve_parameter_id :: string
  ve_code_identity :: string
  ve_runtime_identity :: string
  ve_state_id :: string
  ve_decision_id :: string
  ve_log_id :: string

definition mk_ConsensusRoundEvidence :: "round_evidence \<Rightarrow> round_evidence res" where
  "mk_ConsensusRoundEvidence e = attempt (mapM (identity_text ''VCE_IMMUTABLE_ID'')
       ([ve_round_id e, ve_input_id e, ve_parameter_id e, ve_code_identity e, ve_runtime_identity e, ve_state_id e, ve_decision_id e, ve_log_id e]
        @ ve_participant_ids e @ ve_ranking_ids e @ ve_exclusion_ids e)) (\<lambda>_.
     attempt (refuse_if (ve_participant_ids e \<noteq> sort (remdups (ve_participant_ids e))
         \<or> \<not> set (ve_ranking_ids e) \<subseteq> set (ve_participant_ids e)) ''VCE_PARTICIPANT_CLOSURE'') (\<lambda>_. Inr e))"

datatype rollback_status = ROUTED

record rollback_evidence =
  rv_authorization_id :: string
  rv_from_version :: string
  rv_to_version :: string
  rv_prior_verified_state_id :: string
  rv_rollback_id :: string
  rv_status :: rollback_status

definition mk_RollbackEvidence :: "rollback_evidence \<Rightarrow> rollback_evidence res" where
  "mk_RollbackEvidence r = attempt (identity_text ''VCRB_AUTHORIZATION'' (rv_authorization_id r)) (\<lambda>_.
     attempt (identity_text ''VCRB_STATE_ID'' (rv_prior_verified_state_id r)) (\<lambda>_.
     attempt (refuse_if (map_of VERSIONS (rv_from_version r) = None \<or> map_of VERSIONS (rv_to_version r) = None
         \<or> rv_from_version r = rv_to_version r) ''VCRB_VERSION'') (\<lambda>_.
     attempt (refuse_if (rv_rollback_id r \<noteq> sha256_id (json_dumps (PDict [(''authorization_id'', PStr (rv_authorization_id r)),
         (''from_version'', PStr (rv_from_version r)), (''to_version'', PStr (rv_to_version r)),
         (''prior_verified_state_id'', PStr (rv_prior_verified_state_id r))]))) ''VCRB_ID'') (\<lambda>_. Inr r))))"

section \<open>Laws\<close>

lemma refuse_if_Inr [simp]: "refuse_if b code = Inr u \<longleftrightarrow> \<not> b"
  by (simp add: refuse_if_def)

lemma identity_text_Inr: "identity_text code s = Inr t \<longleftrightarrow> t = s \<and> is_immutable_id s"
  by (auto simp: identity_text_def)

lemma versions_of: "map_of VERSIONS v = Some schema \<longleftrightarrow> v \<in> {''v1'', ''v2''} \<and> schema = ''Consensus.'' @ v"
  by (auto simp: VERSIONS_def)

text \<open>A constructed state: its schema and its key follow from its version, its digests from its content.\<close>

lemma constructed_state:
  assumes "mk_VersionedConsensusState s = Inr t"
  shows "t = s" "vst_contract_version s \<in> {''v1'', ''v2''}" "vst_schema_identity s = ''Consensus.'' @ vst_contract_version s"
    "starts_with (''consensus/'' @ vst_contract_version s @ ''/'') (vst_storage_key s)" "0 \<le> vst_height s"
    "vst_state_sha256 s = sha256_id (vst_state_bytes s)" "vst_state_id s = state_identity s" "is_immutable_id (vst_state_id s)"
  using assms by (auto simp: mk_VersionedConsensusState_def check_route_def attempt_eq_Inr identity_text_Inr versions_of)

lemma prefix_version:
  assumes "starts_with (''consensus/'' @ v @ ''/'') key" "starts_with (''consensus/'' @ w @ ''/'') key" "v \<in> {''v1'', ''v2''}" "w \<in> {''v1'', ''v2''}"
  shows "v = w"
  using assms by (auto simp: starts_with_def)

lemma constructed_query:
  assumes "mk_VersionedQuery q = Inr q'"
  shows "q' = q" "vq_contract_version q \<in> {''v1'', ''v2''}" "vq_schema_identity q = ''Consensus.'' @ vq_contract_version q"
    "starts_with (''consensus/'' @ vq_contract_version q @ ''/'') (vq_storage_key q)"
  using assms by (auto simp: mk_VersionedQuery_def check_route_def attempt_eq_Inr versions_of)

text \<open>Among constructed states the key alone decides whether a query matches.\<close>

lemma key_decides:
  assumes "mk_VersionedQuery q = Inr q" "mk_VersionedConsensusState s = Inr s"
  shows "matches_query q s \<longleftrightarrow> vst_storage_key s = vq_storage_key q"
proof
  assume key: "vst_storage_key s = vq_storage_key q"
  note s = constructed_state [OF assms(2)] and q = constructed_query [OF assms(1)]
  have "vst_contract_version s = vq_contract_version q"
    by (rule prefix_version [OF s(4) _ s(2) q(2)]) (unfold key, rule q(4))
  then show "matches_query q s" using key s(3) q(3) by (simp add: matches_query_def)
qed (simp add: matches_query_def)

lemma restart_exact:
  assumes "\<forall>s \<in> set expected. mk_VersionedConsensusState s = Inr s" "\<forall>s \<in> set reconstructed. mk_VersionedConsensusState s = Inr s"
  shows "(\<exists>r. qualify_restart code runtime expected reconstructed = Inr r) \<longleftrightarrow>
    is_immutable_id code \<and> is_immutable_id runtime \<and> map vst_state_id expected = map vst_state_id reconstructed"
proof -
  have "mapM (identity_text ''VCR_STATE_ID'') (map vst_state_id expected @ map vst_state_id reconstructed) =
      Inr (map (\<lambda>x. x) (map vst_state_id expected @ map vst_state_id reconstructed))"
    using assms constructed_state(8) by (intro mapM_Inr) (fastforce simp: identity_text_def)
  then show ?thesis
    by (auto simp: qualify_restart_def mk_RestartQualification_def attempt_eq_Inr identity_text_Inr)
qed

section \<open>The property\<close>

definition sample_versioned_state :: "string \<Rightarrow> versioned_state" where
  "sample_versioned_state v = (let s = \<lparr>vst_contract_version = v, vst_schema_identity = ''Consensus.'' @ v,
     vst_storage_key = ''consensus/'' @ v @ ''/round-1'', vst_height = 7, vst_app_hash = sha256_id ''app'', vst_state_bytes = ''state'',
     vst_state_sha256 = sha256_id ''state'', vst_state_id = []\<rparr> in s\<lparr>vst_state_id := state_identity s\<rparr>)"

lemma sample_versioned_state_ok:
  "v \<in> {''v1'', ''v2''} \<Longrightarrow> mk_VersionedConsensusState (sample_versioned_state v) = Inr (sample_versioned_state v)"
  by (auto simp: mk_VersionedConsensusState_def sample_versioned_state_def Let_def check_route_def VERSIONS_def refuse_if_def
      state_identity_def versioned_state_id_def identity_text_def starts_with_def)

text \<open>
  C37. Versions never mix. Among constructed states a constructed query is decided by the storage
  key alone: two states under the key are refused, otherwise the one found is returned, and it
  is of the version and the schema asked for, with bytes that hash to the digest it states.
\<close>

theorem versioned_lookup:
  assumes "mk_VersionedQuery q = Inr q" "\<forall>s \<in> set records. mk_VersionedConsensusState s = Inr s"
  shows "case filter (\<lambda>s. vst_storage_key s = vq_storage_key q) records of
      [] \<Rightarrow> resolve_versioned_query q records = Inr \<lparr>vr_contract_version = vq_contract_version q,
        vr_schema_identity = vq_schema_identity q, vr_state = None, vr_status = ''missing''\<rparr>
    | [s] \<Rightarrow> resolve_versioned_query q records = Inr \<lparr>vr_contract_version = vst_contract_version s,
        vr_schema_identity = vst_schema_identity s, vr_state = Some s, vr_status = ''found''\<rparr> \<and>
        vst_state_sha256 s = sha256_id (vst_state_bytes s) \<and> vst_state_id s = state_identity s
    | _ \<Rightarrow> resolve_versioned_query q records = Inl (VersionedConsensusStateError ''VCQ_AMBIGUOUS_STATE'')"
proof -
  let ?f = "filter (\<lambda>s. vst_storage_key s = vq_storage_key q) records"
  have f: "filter (matches_query q) records = ?f" using key_decides [OF assms(1)] assms(2) by (intro filter_cong) auto
  have found: "matches_query q s" "mk_VersionedConsensusState s = Inr s" if "s \<in> set ?f" for s
    using that assms(2) key_decides [OF assms(1)] by auto
  consider "?f = []" | s where "?f = [s]" | s s' r where "?f = s # s' # r" by (metis neq_Nil_conv)
  then show ?thesis
  proof cases
    case (2 s)
    with found [of s] have "matches_query q s" "mk_VersionedConsensusState s = Inr s" by simp_all
    then show ?thesis using constructed_state(6,7) [of s s]
      by (simp add: resolve_versioned_query_def f 2 matches_query_def)
  qed (simp_all add: resolve_versioned_query_def f)
qed

theorem versioned_lookup_witness:
  "resolve_versioned_query \<lparr>vq_contract_version = ''v2'', vq_schema_identity = ''Consensus.v2'', vq_storage_key = ''consensus/v2/round-1''\<rparr>
     [sample_versioned_state ''v1'', sample_versioned_state ''v2''] =
   Inr \<lparr>vr_contract_version = ''v2'', vr_schema_identity = ''Consensus.v2'', vr_state = Some (sample_versioned_state ''v2''), vr_status = ''found''\<rparr>"
proof -
  let ?q = "\<lparr>vq_contract_version = ''v2'', vq_schema_identity = ''Consensus.v2'', vq_storage_key = ''consensus/v2/round-1''\<rparr>"
  have q: "mk_VersionedQuery ?q = Inr ?q" by (simp add: mk_VersionedQuery_def check_route_def VERSIONS_def refuse_if_def starts_with_def)
  have "\<forall>s \<in> set [sample_versioned_state ''v1'', sample_versioned_state ''v2'']. mk_VersionedConsensusState s = Inr s"
    by (simp add: sample_versioned_state_ok)
  from versioned_lookup [OF q this] show ?thesis by (simp add: sample_versioned_state_def Let_def)
qed

end
