(* ===== verification/DashboardControl.thy ===== *)
theory DashboardControl
  imports RuntimeLoop
begin

text \<open>
  The controller of the operator dashboard (\<open>dashboard/control_surface.py\<close>): the state the
  operator and the background thread of the runtime share, the operations of the operator, and the
  thread as a sequence of atomic steps. What the dashboard displays is computed from this state; the
  sections about the runtime and the controls are modelled, the views of events, pipeline and
  evidence are not.
\<close>

section \<open>State\<close>

record operator_action =
  oa_action :: string
  oa_applied_at :: string
  oa_applies_on_cycle :: int
  oa_runtime_command :: string
  oa_configuration_change :: "(string, pyval) dict"
  oa_expected_output_channels :: "string list"
  oa_effect_scope :: string
  oa_note :: string

definition operator_action_to_dict :: "operator_action \<Rightarrow> pyval" where
  "operator_action_to_dict a = PDict [(''action'', PStr (oa_action a)), (''applied_at'', PStr (oa_applied_at a)),
     (''applies_on_cycle'', PInt (oa_applies_on_cycle a)), (''runtime_command'', PStr (oa_runtime_command a)),
     (''configuration_change'', PDict (oa_configuration_change a)),
     (''expected_output_channels'', PList (map PStr (oa_expected_output_channels a))), (''effect_scope'', PStr (oa_effect_scope a)),
     (''note'', PStr (oa_note a))]"

text \<open>
  Where the background thread is: before the components are built, at the head of the loop, with a
  configuration fetched, in a cycle with it, asleep with what remains, returned with a
  payload, raised, in the steps of its \<open>finally\<close> block, or about to end.
\<close>

datatype ('s, 'l) runtime_thread =
    NoThread
  | Booting
  | AtTop "('s, 'l) loop_state"
  | Fetched "('s, 'l) loop_state" runtime_config
  | Cycling "('s, 'l) loop_state" runtime_config
  | Sleeping "('s, 'l) loop_state" runtime_config flt
  | Finished pyval
  | Raised py_error
  | Clearing
  | Closing
  | Exiting

record ('s, 'l) controller =
  ct_base :: runtime_config
  ct_thread :: "('s, 'l) runtime_thread"
  ct_stop :: bool
  ct_status :: string
  ct_latest :: "pyval option"
  ct_last_status :: pyval
  ct_scenario :: string
  ct_start_cycle :: int
  ct_power :: flt
  ct_last_error :: "string option"
  ct_actions :: "operator_action list"

definition ACTION_LOG_LIMIT :: nat where
  "ACTION_LOG_LIMIT = 32"

definition POWER_OUTPUT_CHANNELS :: "string list" where
  "POWER_OUTPUT_CHANNELS = [''sensor_values'', ''consensus_alert'', ''persistence_stage'', ''fingerprint_inference'']"

definition clamp_power :: "flt \<Rightarrow> flt" where
  "clamp_power v = (let r = cp_compressor_power DEFAULT_COMPRESSOR_PROFILE in
     py_round 3 (py_min (py_max v (sr_minimum r)) (sr_maximum r)))"

definition or_normal :: "string \<Rightarrow> string" where
  "or_normal name = (if strip name = [] then ''normal'' else strip name)"

definition new_controller :: "runtime_config \<Rightarrow> ('s, 'l) controller" where
  "new_controller c = \<lparr>ct_base = c, ct_thread = NoThread, ct_stop = False, ct_status = ''stopped'', ct_latest = None,
     ct_last_status = PStr ''not_started'', ct_scenario = or_normal (demo_scenario_name c),
     ct_start_cycle = max (demo_scenario_start_cycle c) 1, ct_power = clamp_power (demo_power c), ct_last_error = None, ct_actions = []\<rparr>"

section \<open>Parts under the lock\<close>

definition thread_alive :: "('s, 'l) controller \<Rightarrow> bool" where
  "thread_alive ct = (case ct_thread ct of NoThread \<Rightarrow> False | _ \<Rightarrow> True)"

definition is_runtime_active :: "('s, 'l) controller \<Rightarrow> bool" where
  "is_runtime_active ct = (ct_status ct \<in> {''starting'', ''running'', ''stopping''})"

definition current_cycle :: "('s, 'l) controller \<Rightarrow> int res" where
  "current_cycle ct = (case ct_latest ct of None \<Rightarrow> Inr 0 | Some p \<Rightarrow>
     attempt (pget_or p ''runtime'' (PDict [])) (\<lambda>r. attempt (pget_or r ''current_cycle'' (PInt 0)) to_int))"

text \<open>A \<open>deque\<close> with a maximal length drops its oldest entry.\<close>

definition append_action :: "operator_action \<Rightarrow> ('s, 'l) controller \<Rightarrow> ('s, 'l) controller" where
  "append_action a ct = (let entries = ct_actions ct @ [a] in ct\<lparr>ct_actions := drop (length entries - ACTION_LOG_LIMIT) entries\<rparr>)"

definition current_runtime_config :: "('s, 'l) controller \<Rightarrow> runtime_config" where
  "current_runtime_config ct = (ct_base ct)\<lparr>demo_power := ct_power ct, demo_scenario_name := ct_scenario ct,
     demo_scenario_start_cycle := ct_start_cycle ct, demo_fault_mode := ''none'', demo_scada_mode := ''match'', demo_scada_start_cycle := 0\<rparr>"

definition expected_outputs :: "('s, 'l) controller \<Rightarrow> string \<Rightarrow> int \<Rightarrow> string list res" where
  "expected_outputs ct name cycle = attempt (resolve_runtime_scenario_control_stage ((ct_base ct)\<lparr>demo_scenario_name := name,
       demo_scenario_start_cycle := cycle, demo_fault_mode := ''none'', demo_scada_mode := ''match'', demo_scada_start_cycle := 0\<rparr>) cycle)
     (\<lambda>stage. Inr (expected_output_channels stage))"

definition record_runtime_payload :: "pyval \<Rightarrow> (('s, 'l) controller, unit) act" where
  "record_runtime_payload p ct0 = (let ct = ct0\<lparr>ct_latest := Some p\<rparr> in
     keeping ct (attempt (pget_or p ''runtime'' (PDict [])) (\<lambda>r. pget_or r ''status'' (PStr ''unknown''))) (\<lambda>status.
     (Inr (), ct\<lparr>ct_last_status := status,
        ct_status := (if status = PStr ''active'' then ''running'' else if ct_status ct \<noteq> ''stopping'' then ''stopped'' else ct_status ct)\<rparr>)))"

section \<open>Operations of the operator\<close>

definition start_runtime :: "string \<Rightarrow> (('s, 'l) controller, unit) act" where
  "start_runtime now ct = (if thread_alive ct then keeping ct (current_cycle ct) (\<lambda>cycle. (Inr (), append_action
       \<lparr>oa_action = ''start_runtime'', oa_applied_at = now, oa_applies_on_cycle = cycle + 1, oa_runtime_command = ''start_runtime()'',
        oa_configuration_change = [], oa_expected_output_channels = [''runtime_state''], oa_effect_scope = ''no_change_already_running'',
        oa_note = ''Runtime start ignored because the dashboard runtime is already running.''\<rparr> ct))
     else (Inr (), (append_action
       \<lparr>oa_action = ''start_runtime'', oa_applied_at = now, oa_applies_on_cycle = 1, oa_runtime_command = ''start_runtime()'',
        oa_configuration_change = [(''runtime_state'', PStr ''running'')],
        oa_expected_output_channels = [''runtime_state'', ''consensus_alert'', ''persistence_stage'', ''fingerprint_lifecycle''],
        oa_effect_scope = ''runtime_command_started'',
        oa_note = ''Dashboard requested the autonomous runtime to start from cycle 1.''\<rparr>
       (ct\<lparr>ct_stop := False, ct_status := ''starting'', ct_last_error := None, ct_latest := None, ct_last_status := PStr ''starting''\<rparr>))
       \<lparr>ct_thread := Booting\<rparr>))"

definition stop_runtime :: "string \<Rightarrow> (('s, 'l) controller, unit) act" where
  "stop_runtime now ct = keeping ct (current_cycle ct) (\<lambda>cycle. (Inr (), append_action
     \<lparr>oa_action = ''stop_runtime'', oa_applied_at = now, oa_applies_on_cycle = cycle + 1, oa_runtime_command = ''stop_runtime()'',
      oa_configuration_change = [(''runtime_state'', PStr ''stopped'')], oa_expected_output_channels = [''runtime_state''],
      oa_effect_scope = (if thread_alive ct then ''runtime_command_requested_stop'' else ''no_change_already_stopped''),
      oa_note = (if thread_alive ct then ''Dashboard requested the autonomous runtime to stop after the current cycle boundary.''
        else ''Dashboard stop request found the runtime already stopped.'')\<rparr>
     (ct\<lparr>ct_stop := True, ct_status := (if thread_alive ct then ''stopping'' else ''stopped'')\<rparr>)))"

definition live_note :: "bool \<Rightarrow> string" where
  "live_note live = (if live then ''The runtime is live, so the change will affect the next eligible cycle.''
     else ''The runtime is stopped, so this only updates configured state until the next start.'')"

definition effect_scope :: "bool \<Rightarrow> string" where
  "effect_scope live = (if live then ''applies_next_cycle'' else ''configuration_only_until_next_start'')"

text \<open>The cycle a change is announced for.\<close>

definition applies_on_cycle :: "('s, 'l) controller \<Rightarrow> int res" where
  "applies_on_cycle ct = (if \<not> is_runtime_active ct then Inr 1 else attempt (current_cycle ct) (\<lambda>n. Inr (n + 1)))"

definition set_scenario :: "string \<Rightarrow> string \<Rightarrow> (('s, 'l) controller, unit) act" where
  "set_scenario now name0 ct = (let name = or_normal name0; live = is_runtime_active ct in
     if name \<notin> set SUPPORTED_DEMO_SCENARIOS then
       (Inl (ValueError (''Unsupported dashboard scenario '' @ [CHR 0x27] @ name @ [CHR 0x27] @ ''. Expected one of ''
          @ py_str (PList (map PStr SUPPORTED_DEMO_SCENARIOS)) @ ''.'')), ct)
     else keeping ct (applies_on_cycle ct) (\<lambda>cycle.
     let ct1 = ct\<lparr>ct_scenario := name, ct_start_cycle := cycle\<rparr> in
     keeping ct1 (expected_outputs ct1 name cycle) (\<lambda>outputs. (Inr (), append_action
       \<lparr>oa_action = ''set_scenario'', oa_applied_at = now, oa_applies_on_cycle = cycle,
        oa_runtime_command = ''set_scenario('' @ [CHR 0x27] @ name @ [CHR 0x27] @ '')'',
        oa_configuration_change = [(''demo_scenario_name'', PStr name), (''demo_scenario_start_cycle'', PInt cycle)],
        oa_expected_output_channels = outputs, oa_effect_scope = effect_scope live,
        oa_note = ''Dashboard configured scenario '' @ [CHR 0x27] @ name @ [CHR 0x27] @ '' to activate on cycle '' @ str_of_int cycle @ ''. ''
          @ live_note live\<rparr> ct1))))"

definition set_power :: "string \<Rightarrow> flt \<Rightarrow> (('s, 'l) controller, unit) act" where
  "set_power now level ct = (let power = clamp_power level; live = is_runtime_active ct in
     keeping ct (applies_on_cycle ct) (\<lambda>cycle. (Inr (), append_action
       \<lparr>oa_action = ''set_power'', oa_applied_at = now, oa_applies_on_cycle = cycle,
        oa_runtime_command = ''set_power('' @ flt_repr power @ '')'', oa_configuration_change = [(''demo_power'', PFloat power)],
        oa_expected_output_channels = POWER_OUTPUT_CHANNELS, oa_effect_scope = effect_scope live,
        oa_note = ''Dashboard configured compressor operating level to '' @ flt_repr power @ ''% starting on cycle '' @ str_of_int cycle
          @ ''. '' @ live_note live\<rparr> (ct\<lparr>ct_power := power\<rparr>))))"

section \<open>What the dashboard shows\<close>

text \<open>\<open>v.get(k) or {}\<close>.\<close>

definition section_of :: "pyval \<Rightarrow> string \<Rightarrow> pyval res" where
  "section_of v k = attempt (pget v k) (\<lambda>x. Inr (if truthy x then x else PDict []))"

definition latest_payload :: "('s, 'l) controller \<Rightarrow> pyval" where
  "latest_payload ct = (case ct_latest ct of None \<Rightarrow> PDict [] | Some p \<Rightarrow> if truthy p then p else PDict [])"

definition shown_message :: "pyval \<Rightarrow> string \<Rightarrow> string res" where
  "shown_message stage fallback = attempt (pget stage ''operator_message'') (\<lambda>m. Inr (if truthy m then py_str m else fallback))"

definition runtime_status_note :: "('s, 'l) controller \<Rightarrow> string res" where
  "runtime_status_note ct = attempt (section_of (latest_payload ct) ''latest_cycle'') (\<lambda>cycle.
     attempt (section_of cycle ''comparison_stage'') (\<lambda>comparison. attempt (section_of cycle ''persistence_stage'') (\<lambda>persistence.
     if ct_last_error ct \<noteq> None \<and> ct_last_error ct \<noteq> Some [] then
       Inr ''The last runtime attempt failed before a live cycle completed. Inspect the active failure message and fix the live path before trusting operator changes.''
     else attempt (pget comparison ''status'') (\<lambda>compared.
     if compared \<in> {PStr ''blocked'', PStr ''blocked_downstream''} then
       shown_message comparison ''The latest cycle was deliberately blocked before downstream propagation.''
     else attempt (pget persistence ''status'') (\<lambda>persisted.
     if persisted = PStr ''blocked'' then
       shown_message persistence ''The latest cycle did not produce an approved downstream artifact.''
     else if ct_status ct = ''running'' then
       Inr ''The runtime is active. Watch cycle count and valid-artifact growth to confirm live continuity.''
     else if ct_status ct = ''starting'' then
       Inr ''The runtime is starting. The first live cycle is still being established.''
     else if ct_status ct = ''stopping'' then Inr ''The runtime is stopping at the next safe cycle boundary.''
     else Inr ''The runtime is stopped. Start it from the dashboard before expecting live cycle effects.'')))))"

definition control_apply_mode :: "('s, 'l) controller \<Rightarrow> string" where
  "control_apply_mode ct = (if ct_status ct = ''running'' then ''next_cycle''
     else if ct_status ct \<in> {''starting'', ''stopping''} then ''queued_until_runtime_stabilizes'' else ''next_start'')"

definition control_runtime_note :: "('s, 'l) controller \<Rightarrow> string" where
  "control_runtime_note ct = (if control_apply_mode ct = ''next_cycle'' then
       ''Scenario and power changes are applied to the next eligible live cycle. They do not rewrite the current cycle retroactively.''
     else if control_apply_mode ct = ''queued_until_runtime_stabilizes'' then
       ''The runtime is not in a stable running cycle yet. Control changes are queued and will only take effect once live cycling continues.''
     else ''The runtime is stopped. Control changes update configured state only and will not affect live cycles until the next start.'')"

text \<open>The sections about the runtime and about the controls.\<close>

definition runtime_section :: "('s, 'l) controller \<Rightarrow> pyval res" where
  "runtime_section ct = attempt (section_of (latest_payload ct) ''runtime'') (\<lambda>info.
     attempt (runtime_status_note ct) (\<lambda>note. attempt (pget_or info ''current_cycle'' (PInt 0)) (\<lambda>current.
     attempt (pget_or info ''completed_cycles'' (PInt 0)) (\<lambda>completed.
     attempt (pget_or info ''cycle_interval_seconds'' (PFloat (demo_cycle_interval_seconds (ct_base ct)))) (\<lambda>interval.
     Inr (PDict [(''ui_status'', PStr (ct_status ct)), (''is_running'', PBool (is_runtime_active ct)),
       (''last_runtime_status'', ct_last_status ct), (''status_note'', PStr note), (''current_cycle'', current),
       (''completed_cycles'', completed), (''cycle_interval_seconds'', interval), (''configured_power_pct'', PFloat (ct_power ct)),
       (''configured_scenario'', PStr (ct_scenario ct)), (''scenario_start_cycle'', PInt (ct_start_cycle ct)),
       (''last_error'', opt_str (ct_last_error ct))]))))))"

definition controls_section :: "('s, 'l) controller \<Rightarrow> pyval" where
  "controls_section ct = PDict [(''supported_scenarios'', PList (map PStr SUPPORTED_DEMO_SCENARIOS)),
     (''configured_scenario'', PStr (ct_scenario ct)), (''scenario_start_cycle'', PInt (ct_start_cycle ct)),
     (''configured_power_pct'', PFloat (ct_power ct)), (''apply_mode'', PStr (control_apply_mode ct)),
     (''runtime_effect_note'', PStr (control_runtime_note ct))]"

definition feedback_section :: "('s, 'l) controller \<Rightarrow> pyval" where
  "feedback_section ct = PDict [(''actions'', PList (map operator_action_to_dict (rev (ct_actions ct))))]"

section \<open>The thread of the runtime\<close>

text \<open>The environment of the thread: building the components, the cycles, the clock of the loop.\<close>

record ('s, 'l, 'm) thread_env =
  th_build :: "runtime_config \<Rightarrow> ('s, 'l) runtime res"
  th_env :: "('s, 'l, 'm) runtime_env"
  th_loop :: loop_env

fun record_all :: "pyval list \<Rightarrow> (('s, 'l) controller, unit) act" where
  "record_all [] = ret ()"
| "record_all (p # ps) = bind_act (record_runtime_payload p) (\<lambda>_. record_all ps)"

text \<open>What the loop observed in a step goes to the controller; then the thread goes on from the result.\<close>

definition after_loop ::
  "('s, 'l) loop_state \<Rightarrow> (py_error + 'a) \<times> ('s, 'l) loop_state \<Rightarrow> ('a \<Rightarrow> ('s, 'l) loop_state \<Rightarrow> ('s, 'l) runtime_thread)
     \<Rightarrow> ('s, 'l) controller \<Rightarrow> ('s, 'l) controller" where
  "after_loop st r next ct = (case record_all (drop (length (lp_observed st)) (lp_observed (snd r))) ct of
       (Inl e, ct1) \<Rightarrow> ct1\<lparr>ct_thread := Raised e\<rparr>
     | (Inr _, ct1) \<Rightarrow> ct1\<lparr>ct_thread := (case fst r of Inl e \<Rightarrow> Raised e | Inr x \<Rightarrow> next x (snd r))\<rparr>)"

definition thread_failed :: "string \<Rightarrow> py_error \<Rightarrow> ('s, 'l) controller \<Rightarrow> ('s, 'l) controller" where
  "thread_failed now e ct0 = (let ct = ct0\<lparr>ct_last_error := Some (error_text e), ct_status := ''stopped'', ct_last_status := PStr ''error''\<rparr> in
     (snd (keeping ct (current_cycle ct) (\<lambda>cycle. (Inr (), append_action
       \<lparr>oa_action = ''runtime_error'', oa_applied_at = now, oa_applies_on_cycle = cycle + 1, oa_runtime_command = ''runtime_error'',
        oa_configuration_change = [], oa_expected_output_channels = [''runtime_state''], oa_effect_scope = ''runtime_error'',
        oa_note = ''Dashboard runtime failed: '' @ error_text e\<rparr> ct))))\<lparr>ct_thread := Clearing\<rparr>)"

text \<open>One atomic step of the thread; the configuration and the stop request are read in steps of their own.\<close>

fun thread_step :: "('s, 'l, 'm) thread_env \<Rightarrow> string \<Rightarrow> ('s, 'l) runtime_thread \<Rightarrow> ('s, 'l) controller \<Rightarrow> ('s, 'l) controller" where
  "thread_step env now NoThread ct = ct"
| "thread_step env now Booting ct = ct\<lparr>ct_thread := (case th_build env (current_runtime_config ct) of
     Inl e \<Rightarrow> Raised e | Inr r \<Rightarrow> AtTop (start_loop r))\<rparr>"
| "thread_step env now (AtTop st) ct = ct\<lparr>ct_thread := Fetched st (current_runtime_config ct)\<rparr>"
| "thread_step env now (Fetched st c) ct = (if ct_stop ct then after_loop st (stop_by_operator c st) (\<lambda>p _. Finished p) ct
     else if 0 < demo_max_cycles c \<and> demo_max_cycles c \<le> lp_cycle_index st then after_loop st (finish_loop c st) (\<lambda>p _. Finished p) ct
     else ct\<lparr>ct_thread := Cycling st c\<rparr>)"
| "thread_step env now (Cycling st c) ct = after_loop st (loop_turn (th_env env) (th_loop env) c st)
     (\<lambda>(p, next_sleep, continue) st'. if continue then Sleeping st' c (max next_sleep 0) else Finished p) ct"
| "thread_step env now (Sleeping st c remaining) ct = (if ct_stop ct then after_loop st (stop_by_operator c st) (\<lambda>p _. Finished p) ct
     else if remaining > 0 then ct\<lparr>ct_thread := Sleeping st c (max (fsub remaining (min remaining POLL_INTERVAL)) 0)\<rparr>
     else ct\<lparr>ct_thread := AtTop st\<rparr>)"
| "thread_step env now (Finished p) ct = (case record_runtime_payload p ct of
     (Inl e, ct1) \<Rightarrow> ct1\<lparr>ct_thread := Raised e\<rparr> | (Inr _, ct1) \<Rightarrow> ct1\<lparr>ct_thread := Clearing\<rparr>)"
| "thread_step env now (Raised e) ct = thread_failed now e ct"
| "thread_step env now Clearing ct = ct\<lparr>ct_stop := False, ct_thread := Closing\<rparr>"
| "thread_step env now Closing ct = ct\<lparr>ct_status := ''stopped'', ct_thread := Exiting\<rparr>"
| "thread_step env now Exiting ct = ct\<lparr>ct_thread := NoThread\<rparr>"

section \<open>Interleavings\<close>

datatype dashboard_event =
    StartRuntime
  | StopRuntime
  | SetScenario string
  | SetPower flt
  | ThreadStep

fun perform :: "('s, 'l, 'm) thread_env \<Rightarrow> string \<times> dashboard_event \<Rightarrow> ('s, 'l) controller \<Rightarrow> ('s, 'l) controller" where
  "perform env (now, StartRuntime) ct = snd (start_runtime now ct)"
| "perform env (now, StopRuntime) ct = snd (stop_runtime now ct)"
| "perform env (now, SetScenario name) ct = snd (set_scenario now name ct)"
| "perform env (now, SetPower level) ct = snd (set_power now level ct)"
| "perform env (now, ThreadStep) ct = thread_step env now (ct_thread ct) ct"

definition perform_all :: "('s, 'l, 'm) thread_env \<Rightarrow> (string \<times> dashboard_event) list \<Rightarrow> ('s, 'l) controller \<Rightarrow> ('s, 'l) controller" where
  "perform_all env evs ct = foldl (\<lambda>ct ev. perform env ev ct) ct evs"

inductive dashboard_reachable :: "('s, 'l, 'm) thread_env \<Rightarrow> runtime_config \<Rightarrow> ('s, 'l) controller \<Rightarrow> bool" for env c where
  fresh: "dashboard_reachable env c (new_controller c)"
| event: "dashboard_reachable env c ct \<Longrightarrow> dashboard_reachable env c (perform env ev ct)"

end
