(* ===== verification/DashboardLaws.thy ===== *)
theory DashboardLaws
  imports DashboardControl
begin

text \<open>
  Laws of the dashboard controller: what the loop reports to it, the invariant of every reachable
  state, how a stop request ends the thread, and which cycle a change of the operator reaches.
\<close>

section \<open>What the loop reports\<close>

text \<open>A payload of the loop, as the controller reads it.\<close>

definition shows_run :: "string \<Rightarrow> int \<Rightarrow> pyval \<Rightarrow> bool" where
  "shows_run status n p = (\<exists>r. pget_or p ''runtime'' (PDict []) = Inr (PDict r) \<and> map_of r ''status'' = Some (PStr status) \<and>
     map_of r ''current_cycle'' = Some (PInt n))"

definition counted :: "('s, 'l) loop_state \<Rightarrow> bool" where
  "counted st = (lp_cycle_index st = int (length (lp_history st)) \<and>
     (lp_history st \<noteq> [] \<longrightarrow> sub (last (lp_history st)) ''cycle_index'' = Inr (PInt (lp_cycle_index st))))"

lemma payload_shows:
  assumes "build_runtime_log_payload c status (lp_history st) latest = Inr p" "counted st"
  shows "shows_run status (lp_cycle_index st) p"
proof -
  have "(if lp_history st = [] then Inr (PInt 0) else sub (last (lp_history st)) ''cycle_index'') = Inr (PInt (lp_cycle_index st))"
    using assms(2) by (simp add: counted_def)
  then show ?thesis
    using assms(1) by (auto simp: build_runtime_log_payload_def attempt_eq_Inr shows_run_def)
qed

lemma start_counted: "counted (start_loop r)" "lp_cycle_index (start_loop r) = 0"
  by (simp_all add: counted_def start_loop_def)

text \<open>A return from the loop: it raises before it reports, or reports what it returns.\<close>

lemma stop_reports:
  assumes "counted st"
  obtains e where "stop_by_operator c st = (Inl e, st)"
  | p st' where "stop_by_operator c st = (Inr p, st')" "lp_observed st' = lp_observed st @ [p]" "shows_run ''stopped_operator'' (lp_cycle_index st) p"
  using payload_shows [OF _ assms]
  by (cases "build_runtime_log_payload c ''stopped_operator'' (lp_history st) (lp_latest st)")
    (auto simp: stop_by_operator_def keeping_def observe_def write_log_def)

lemma finish_reports:
  assumes "counted st"
  obtains e where "finish_loop c st = (Inl e, st)"
  | p st' where "finish_loop c st = (Inr p, st')" "lp_observed st' = lp_observed st @ [p]" "shows_run ''completed'' (lp_cycle_index st) p"
  using payload_shows [OF _ assms]
  by (cases "build_runtime_log_payload c ''completed'' (lp_history st) (lp_latest st)")
    (auto simp: finish_loop_def keeping_def observe_def write_log_def)

lemma cycle_index_of: "execute_demo_cycle env i c r = (Inr cy, r') \<Longrightarrow> cy_cycle_index cy = i"
  by (auto simp: execute_demo_cycle_def bind_act_def Let_def ret_def reading_def split: prod.splits sum.splits)

text \<open>A turn: no report and an error, or one report of the cycle and then an error or the result.\<close>

lemma turn_reports:
  assumes "counted st"
  obtains e st' where "loop_turn env le c st = (Inl e, st')" "lp_observed st' = lp_observed st"
  | r p st' status where "loop_turn env le c st = (r, st')" "lp_observed st' = lp_observed st @ [p]" "counted st'"
      "lp_cycle_index st' = lp_cycle_index st + 1" "shows_run status (lp_cycle_index st + 1) p"
      "(\<exists>e. r = Inl e) \<and> status \<in> {''active'', ''completed''} \<or> (\<exists>next_sleep continue. r = Inr (p, next_sleep, continue) \<and>
         status = (if continue then ''active'' else ''completed''))"
proof -
  let ?i = "lp_cycle_index st + 1"
  show thesis
  proof (cases "execute_demo_cycle env ?i c (lp_runtime st)")
    case (Pair x r')
    show thesis
    proof (cases x)
      case (Inl e)
      then have "loop_turn env le c st = (Inl e, st\<lparr>lp_cycle_index := ?i, lp_runtime := r'\<rparr>)" by (simp add: loop_turn_def Pair Let_def)
      then show thesis by (rule that(1)) simp
    next
      case (Inr cy)
      let ?st = "st\<lparr>lp_cycle_index := ?i, lp_runtime := r'\<rparr>"
      have turn: "loop_turn env le c st = report_turn le c cy ?st" by (simp add: loop_turn_def Pair Inr Let_def)
      have i: "cy_cycle_index cy = ?i" by (rule cycle_index_of [of env _ c "lp_runtime st" cy r']) (simp add: Pair Inr)
      obtain elapsed next_sleep continue where cad: "cadence_of le c (lp_cycle_index ?st) = (elapsed, next_sleep, continue)" by (rule prod_cases3)
      let ?cadence = "build_cadence_stage (lp_cycle_index ?st) (demo_cycle_interval_seconds c) elapsed next_sleep continue"
      let ?edges = "nw_edges (lv_network (ru_live (lp_runtime ?st)))"
      note run = turn [unfolded report_turn_def cad prod.case Let_def keeping_def]
      show thesis
      proof (cases "build_detailed_log_payload c cy ?cadence ?edges")
        case (Inl e)
        then have "loop_turn env le c st = (Inl e, ?st)" using run by simp
        then show thesis by (rule that(1)) simp
      next
        case latest: (Inr latest)
        show thesis
        proof (cases "build_cycle_history_entry cy ?cadence")
          case (Inl e)
          then have "loop_turn env le c st = (Inl e, ?st\<lparr>lp_latest := Some latest\<rparr>)" using run latest by simp
          then show thesis by (rule that(1)) simp
        next
          case entry: (Inr entry)
          let ?st2 = "?st\<lparr>lp_latest := Some latest, lp_history := lp_history st @ [entry]\<rparr>"
          let ?status = "if continue then ''active'' else ''completed''"
          have counted: "counted ?st2" using assms history_entry(1) [OF entry] i by (simp add: counted_def)
          show thesis
          proof (cases "build_runtime_log_payload c ?status (lp_history st @ [entry]) (Some latest)")
            case (Inl e)
            then have "loop_turn env le c st = (Inl e, ?st2)" using run latest entry by simp
            then show thesis by (rule that(1)) simp
          next
            case p: (Inr p)
            have "build_runtime_log_payload c ?status (lp_history ?st2) (Some latest) = Inr p" using p by simp
            from payload_shows [OF this counted] have shown: "shows_run ?status ?i p" by simp
            show thesis
            proof (cases "print_cycle_report cy ?cadence ?edges (le_log_path le)")
              case (Inl e)
              have "loop_turn env le c st = (Inl e, observe p (write_log p ?st2))" using run latest entry p Inl by simp
              then show thesis by (rule that(2)) (use counted shown in \<open>auto simp: observe_def write_log_def counted_def split: if_splits\<close>)
            next
              case (Inr lines)
              have "loop_turn env le c st = (Inr (p, next_sleep, continue), (observe p (write_log p ?st2))\<lparr>lp_printed := lp_printed st @ lines\<rparr>)"
                using run latest entry p Inr by (simp add: observe_def write_log_def)
              then show thesis by (rule that(2)) (use counted shown in \<open>auto simp: observe_def write_log_def counted_def split: if_splits\<close>)
            qed
          qed
        qed
      qed
    qed
  qed
qed

section \<open>The invariant\<close>

lemma record_shows:
  assumes "shows_run status n p"
  shows "record_runtime_payload p ct = (Inr (), ct\<lparr>ct_latest := Some p, ct_last_status := PStr status,
      ct_status := (if status = ''active'' then ''running'' else if ct_status ct \<noteq> ''stopping'' then ''stopped'' else ''stopping'')\<rparr>)"
  using assms by (auto simp: shows_run_def record_runtime_payload_def keeping_def Let_def)

lemma current_shows:
  assumes "shows_run status n p"
  shows "current_cycle (ct\<lparr>ct_latest := Some p\<rparr>) = Inr n"
  using assms by (auto simp: shows_run_def current_cycle_def)

lemma current_cycle_cong: "ct_latest ct = ct_latest ct' \<Longrightarrow> current_cycle ct = current_cycle ct'"
  by (simp add: current_cycle_def)

text \<open>A configuration the dashboard runs: a supported scenario or the one of the base, and nothing else injected.\<close>

definition dashboard_config :: "runtime_config \<Rightarrow> runtime_config \<Rightarrow> bool" where
  "dashboard_config base c = (\<exists>power name start. c = base\<lparr>demo_power := power, demo_scenario_name := name, demo_scenario_start_cycle := start,
     demo_fault_mode := ''none'', demo_scada_mode := ''match'', demo_scada_start_cycle := 0\<rparr> \<and> 0 \<le> power \<and> power \<le> 100 \<and>
     name \<in> insert (or_normal (demo_scenario_name base)) (set SUPPORTED_DEMO_SCENARIOS) \<and> 1 \<le> start)"

text \<open>What holds in each phase of the thread after \<open>n\<close> reported cycles.\<close>

fun phase_ok :: "runtime_config \<Rightarrow> bool \<Rightarrow> string \<Rightarrow> int \<Rightarrow> ('s, 'l) runtime_thread \<Rightarrow> bool" where
  "phase_ok base active status n NoThread = (status \<in> {''stopped'', ''stopping''})"
| "phase_ok base active status n Booting = (active \<and> n = 0)"
| "phase_ok base active status n (AtTop st) = (active \<and> counted st \<and> lp_cycle_index st = n)"
| "phase_ok base active status n (Fetched st c) = (active \<and> counted st \<and> lp_cycle_index st = n \<and> dashboard_config base c)"
| "phase_ok base active status n (Cycling st c) = (active \<and> counted st \<and> lp_cycle_index st = n \<and> dashboard_config base c)"
| "phase_ok base active status n (Sleeping st c r) = (active \<and> counted st \<and> lp_cycle_index st = n)"
| "phase_ok base active status n (Finished p) = (\<exists>s. s \<noteq> ''active'' \<and> shows_run s n p)"
| "phase_ok base active status n (Raised e) = True"
| "phase_ok base active status n Clearing = True"
| "phase_ok base active status n Closing = True"
| "phase_ok base active status n Exiting = (status \<in> {''stopped'', ''stopping''})"

definition dashboard_inv :: "runtime_config \<Rightarrow> ('s, 'l) controller \<Rightarrow> bool" where
  "dashboard_inv base ct = (ct_base ct = base \<and> ct_status ct \<in> {''stopped'', ''starting'', ''running'', ''stopping''} \<and>
     length (ct_actions ct) \<le> ACTION_LOG_LIMIT \<and> dashboard_config base (current_runtime_config ct) \<and>
     (\<exists>n \<ge> 0. current_cycle ct = Inr n \<and> phase_ok base (is_runtime_active ct) (ct_status ct) n (ct_thread ct)))"

lemma clamp_power_bounds: "0 \<le> clamp_power v" "clamp_power v \<le> 100"
proof -
  have b: "0 \<le> py_min (py_max v 0) 100" "py_min (py_max v 0) 100 \<le> 100" by (auto simp: py_min_def py_max_def)
  have "py_round 3 100 = 100" by (simp add: rnd.numeral_exact)
  then show "0 \<le> clamp_power v" "clamp_power v \<le> 100"
    using rnd.mono [OF b(1), of 3] rnd.mono [OF b(2), of 3] by (simp_all add: clamp_power_def DEFAULT_COMPRESSOR_PROFILE_def)
qed

lemma config_of_state:
  assumes "ct_base ct = base" "0 \<le> ct_power ct" "ct_power ct \<le> 100" "1 \<le> ct_start_cycle ct"
    and "ct_scenario ct \<in> insert (or_normal (demo_scenario_name base)) (set SUPPORTED_DEMO_SCENARIOS)"
  shows "dashboard_config base (current_runtime_config ct)"
  using assms unfolding dashboard_config_def current_runtime_config_def by blast

lemma config_fields:
  assumes "dashboard_config base (current_runtime_config ct)" "ct_base ct = base"
  shows "0 \<le> ct_power ct" "ct_power ct \<le> 100" "1 \<le> ct_start_cycle ct"
    "ct_scenario ct \<in> insert (or_normal (demo_scenario_name base)) (set SUPPORTED_DEMO_SCENARIOS)"
proof -
  obtain power name start where e: "current_runtime_config ct = base\<lparr>demo_power := power, demo_scenario_name := name,
      demo_scenario_start_cycle := start, demo_fault_mode := ''none'', demo_scada_mode := ''match'', demo_scada_start_cycle := 0\<rparr>"
    and f: "0 \<le> power" "power \<le> 100" "name \<in> insert (or_normal (demo_scenario_name base)) (set SUPPORTED_DEMO_SCENARIOS)" "1 \<le> start"
    using assms(1) unfolding dashboard_config_def by blast
  from arg_cong [OF e, of demo_power] arg_cong [OF e, of demo_scenario_name] arg_cong [OF e, of demo_scenario_start_cycle]
  have "ct_power ct = power" "ct_scenario ct = name" "ct_start_cycle ct = start" by (simp_all add: current_runtime_config_def)
  with f show "0 \<le> ct_power ct" "ct_power ct \<le> 100" "1 \<le> ct_start_cycle ct"
    "ct_scenario ct \<in> insert (or_normal (demo_scenario_name base)) (set SUPPORTED_DEMO_SCENARIOS)" by simp_all
qed

lemma append_action_state [simp]:
  "ct_base (append_action a ct) = ct_base ct" "ct_thread (append_action a ct) = ct_thread ct" "ct_stop (append_action a ct) = ct_stop ct"
  "ct_status (append_action a ct) = ct_status ct" "ct_latest (append_action a ct) = ct_latest ct" "ct_scenario (append_action a ct) = ct_scenario ct"
  "ct_start_cycle (append_action a ct) = ct_start_cycle ct" "ct_power (append_action a ct) = ct_power ct"
  "current_runtime_config (append_action a ct) = current_runtime_config ct" "current_cycle (append_action a ct) = current_cycle ct"
  "is_runtime_active (append_action a ct) = is_runtime_active ct" "length (ct_actions (append_action a ct)) \<le> ACTION_LOG_LIMIT"
  "last (ct_actions (append_action a ct)) = a"
  by (simp_all add: append_action_def Let_def current_runtime_config_def current_cycle_def is_runtime_active_def ACTION_LOG_LIMIT_def)

lemma new_controller_inv: "dashboard_inv c (new_controller c)"
proof -
  have "dashboard_config c (current_runtime_config (new_controller c))"
    by (rule config_of_state) (simp_all add: new_controller_def clamp_power_bounds)
  then show ?thesis by (simp add: dashboard_inv_def new_controller_def current_cycle_def)
qed

lemma invI:
  assumes "ct_base ct = base" "ct_status ct \<in> {''stopped'', ''starting'', ''running'', ''stopping''}" "length (ct_actions ct) \<le> ACTION_LOG_LIMIT"
    "dashboard_config base (current_runtime_config ct)" "current_cycle ct = Inr n" "0 \<le> n"
    "phase_ok base (is_runtime_active ct) (ct_status ct) n (ct_thread ct)"
  shows "dashboard_inv base ct"
  using assms unfolding dashboard_inv_def by blast

lemma invE:
  assumes "dashboard_inv base ct"
  obtains n where "ct_base ct = base" "ct_status ct \<in> {''stopped'', ''starting'', ''running'', ''stopping''}" "length (ct_actions ct) \<le> ACTION_LOG_LIMIT"
    "dashboard_config base (current_runtime_config ct)" "current_cycle ct = Inr n" "0 \<le> n"
    "phase_ok base (is_runtime_active ct) (ct_status ct) n (ct_thread ct)"
  using assms unfolding dashboard_inv_def by blast

lemma start_inv_step:
  assumes inv: "dashboard_inv base ct"
  shows "dashboard_inv base (snd (start_runtime now ct))"
proof (rule invE [OF inv])
  fix n
  assume f: "ct_base ct = base" "ct_status ct \<in> {''stopped'', ''starting'', ''running'', ''stopping''}" "length (ct_actions ct) \<le> ACTION_LOG_LIMIT"
    "dashboard_config base (current_runtime_config ct)" "current_cycle ct = Inr n" "0 \<le> n"
    "phase_ok base (is_runtime_active ct) (ct_status ct) n (ct_thread ct)"
  show ?thesis
  proof (cases "thread_alive ct")
    case True
    show ?thesis by (rule invI [where n = n]) (use f True in \<open>simp_all add: start_runtime_def keeping_def\<close>)
  next
    case False
    show ?thesis
      by (rule invI [where n = 0])
        (use f False in \<open>simp_all add: start_runtime_def current_runtime_config_def current_cycle_def is_runtime_active_def append_action_def
           Let_def ACTION_LOG_LIMIT_def\<close>)
  qed
qed

lemma phase_active:
  assumes "phase_ok base active status n th" "active' \<or> \<not> active" "th = NoThread \<or> th = Exiting \<longrightarrow> status' \<in> {''stopped'', ''stopping''}"
  shows "phase_ok base active' status' n th"
  using assms by (cases th) auto

lemma stop_inv_step:
  assumes inv: "dashboard_inv base ct"
  shows "dashboard_inv base (snd (stop_runtime now ct))"
proof (rule invE [OF inv])
  fix n
  assume f: "ct_base ct = base" "ct_status ct \<in> {''stopped'', ''starting'', ''running'', ''stopping''}" "length (ct_actions ct) \<le> ACTION_LOG_LIMIT"
    "dashboard_config base (current_runtime_config ct)" "current_cycle ct = Inr n" "0 \<le> n"
    "phase_ok base (is_runtime_active ct) (ct_status ct) n (ct_thread ct)"
  let ?ct = "snd (stop_runtime now ct)"
  have s: "ct_thread ?ct = ct_thread ct" "ct_status ?ct = (if thread_alive ct then ''stopping'' else ''stopped'')"
    using f(5) by (simp_all add: stop_runtime_def keeping_def)
  have "phase_ok base (is_runtime_active ?ct) (ct_status ?ct) n (ct_thread ?ct)"
  proof (cases "thread_alive ct")
    case True
    then show ?thesis unfolding s(1) by (intro phase_active [OF f(7)]) (simp_all add: s(2) is_runtime_active_def)
  next
    case False
    then have "ct_thread ct = NoThread" by (auto simp: thread_alive_def split: runtime_thread.splits)
    then show ?thesis using False by (simp add: s)
  qed
  then show ?thesis
    by (intro invI [where n = n]) (use f s in \<open>simp_all add: stop_runtime_def keeping_def current_runtime_config_def current_cycle_def\<close>)
qed

lemma announced_cycle:
  assumes "current_cycle ct = Inr n" "0 \<le> n"
  shows "applies_on_cycle ct = Inr (if is_runtime_active ct then n + 1 else 1)"
  using assms by (simp add: applies_on_cycle_def)

text \<open>A supported scenario resolves from the cycle it starts on.\<close>

lemma supported_resolves:
  assumes "name \<in> set SUPPORTED_DEMO_SCENARIOS" "demo_scenario_name c = name" "demo_scenario_start_cycle c \<le> k" "1 \<le> k"
  shows "\<exists>stage. resolve_runtime_scenario_control_stage c k = Inr stage \<and> active_scenario stage = name"
proof -
  have "strip name = name" "name \<noteq> []" using assms(1) by (auto simp: SUPPORTED_DEMO_SCENARIOS_def strip_def is_space_def)
  then show ?thesis using assms
    by (auto simp: resolve_runtime_scenario_control_stage_def resolve_configured_scenario_def SUPPORTED_DEMO_SCENARIOS_def Let_def
        normal_stage_def fault_stage_def)
qed

lemma set_scenario_state:
  assumes "or_normal name0 \<in> set SUPPORTED_DEMO_SCENARIOS" "current_cycle ct = Inr n" "0 \<le> n"
  obtains a where "set_scenario now name0 ct = (Inr (), append_action a (ct\<lparr>ct_scenario := or_normal name0,
      ct_start_cycle := if is_runtime_active ct then n + 1 else 1\<rparr>))" "oa_applies_on_cycle a = (if is_runtime_active ct then n + 1 else 1)"
    "oa_effect_scope a = effect_scope (is_runtime_active ct)"
proof -
  let ?k = "if is_runtime_active ct then n + 1 else 1"
  let ?ct = "ct\<lparr>ct_scenario := or_normal name0, ct_start_cycle := ?k\<rparr>"
  let ?c = "(ct_base ?ct)\<lparr>demo_scenario_name := or_normal name0, demo_scenario_start_cycle := ?k, demo_fault_mode := ''none'',
    demo_scada_mode := ''match'', demo_scada_start_cycle := 0\<rparr>"
  have k: "1 \<le> ?k" using assms(3) by simp
  obtain stage where "resolve_runtime_scenario_control_stage ?c ?k = Inr stage"
    using supported_resolves [OF assms(1) _ _ k, of ?c] by force
  then have "expected_outputs ?ct (or_normal name0) ?k = Inr (expected_output_channels stage)" by (simp add: expected_outputs_def)
  then show thesis
    using announced_cycle [OF assms(2,3)] assms(1) by (intro that) (simp add: set_scenario_def Let_def keeping_def, simp_all)
qed

lemma set_scenario_inv_step:
  assumes inv: "dashboard_inv base ct"
  shows "dashboard_inv base (snd (set_scenario now name0 ct))"
proof (rule invE [OF inv])
  fix n
  assume f: "ct_base ct = base" "ct_status ct \<in> {''stopped'', ''starting'', ''running'', ''stopping''}" "length (ct_actions ct) \<le> ACTION_LOG_LIMIT"
    "dashboard_config base (current_runtime_config ct)" "current_cycle ct = Inr n" "0 \<le> n"
    "phase_ok base (is_runtime_active ct) (ct_status ct) n (ct_thread ct)"
  show ?thesis
  proof (cases "or_normal name0 \<in> set SUPPORTED_DEMO_SCENARIOS")
    case False
    then show ?thesis using inv by (simp add: set_scenario_def Let_def)
  next
    case True
    let ?ct = "ct\<lparr>ct_scenario := or_normal name0, ct_start_cycle := if is_runtime_active ct then n + 1 else 1\<rparr>"
    obtain a where a: "set_scenario now name0 ct = (Inr (), append_action a ?ct)"
      by (rule set_scenario_state [OF True f(5,6)])
    have "dashboard_config base (current_runtime_config ?ct)"
      by (rule config_of_state) (use f(1,6) True config_fields [OF f(4,1)] in simp_all)
    moreover have "current_cycle ?ct = Inr n" "is_runtime_active ?ct = is_runtime_active ct"
      using f(5) by (simp_all add: current_cycle_def is_runtime_active_def)
    ultimately show ?thesis unfolding a by (intro invI [where n = n]) (use f in simp_all)
  qed
qed

lemma set_power_state:
  assumes "current_cycle ct = Inr n" "0 \<le> n"
  obtains a where "set_power now level ct = (Inr (), append_action a (ct\<lparr>ct_power := clamp_power level\<rparr>))"
    "oa_applies_on_cycle a = (if is_runtime_active ct then n + 1 else 1)"
  using announced_cycle [OF assms] by (intro that) (simp add: set_power_def Let_def keeping_def, simp)

lemma set_power_inv_step:
  assumes inv: "dashboard_inv base ct"
  shows "dashboard_inv base (snd (set_power now level ct))"
proof (rule invE [OF inv])
  fix n
  assume f: "ct_base ct = base" "ct_status ct \<in> {''stopped'', ''starting'', ''running'', ''stopping''}" "length (ct_actions ct) \<le> ACTION_LOG_LIMIT"
    "dashboard_config base (current_runtime_config ct)" "current_cycle ct = Inr n" "0 \<le> n"
    "phase_ok base (is_runtime_active ct) (ct_status ct) n (ct_thread ct)"
  let ?ct = "ct\<lparr>ct_power := clamp_power level\<rparr>"
  obtain a where a: "set_power now level ct = (Inr (), append_action a ?ct)" by (rule set_power_state [OF f(5,6)])
  have "dashboard_config base (current_runtime_config ?ct)"
    by (rule config_of_state) (use f(1) config_fields [OF f(4,1)] clamp_power_bounds in simp_all)
  moreover have "current_cycle ?ct = Inr n" "is_runtime_active ?ct = is_runtime_active ct"
    using f(5) by (simp_all add: current_cycle_def is_runtime_active_def)
  ultimately show ?thesis unfolding a by (intro invI [where n = n]) (use f in simp_all)
qed

section \<open>Steps of the thread\<close>

text \<open>The controller after it has recorded a payload.\<close>

definition after_record :: "string \<Rightarrow> pyval \<Rightarrow> ('s, 'l) controller \<Rightarrow> ('s, 'l) controller" where
  "after_record status p ct = ct\<lparr>ct_latest := Some p, ct_last_status := PStr status,
     ct_status := (if status = ''active'' then ''running'' else if ct_status ct \<noteq> ''stopping'' then ''stopped'' else ''stopping'')\<rparr>"

lemma after_loop_silent: "lp_observed st' = lp_observed st \<Longrightarrow> after_loop st (Inl e, st') next ct = ct\<lparr>ct_thread := Raised e\<rparr>"
  by (simp add: after_loop_def ret_def)

lemma after_loop_report:
  assumes "lp_observed st' = lp_observed st @ [p]" "shows_run status n p"
  shows "after_loop st (r, st') next ct = (after_record status p ct)\<lparr>ct_thread := (case r of Inl e \<Rightarrow> Raised e | Inr x \<Rightarrow> next x st')\<rparr>"
proof -
  have "record_runtime_payload p ct = (Inr (), after_record status p ct)" by (simp only: after_record_def record_shows [OF assms(2)])
  then show ?thesis by (simp add: after_loop_def assms(1) bind_act_def ret_def split: sum.split)
qed

lemma recorded_state [simp]:
  "ct_base (after_record s p ct) = ct_base ct" "ct_stop (after_record s p ct) = ct_stop ct" "ct_actions (after_record s p ct) = ct_actions ct"
  "ct_thread (after_record s p ct) = ct_thread ct" "ct_latest (after_record s p ct) = Some p"
  "ct_scenario (after_record s p ct) = ct_scenario ct" "ct_start_cycle (after_record s p ct) = ct_start_cycle ct" "ct_power (after_record s p ct) = ct_power ct"
  "current_runtime_config (after_record s p ct) = current_runtime_config ct"
  by (simp_all add: after_record_def current_runtime_config_def)

lemma recorded_inv:
  assumes inv: "dashboard_inv base ct" and s: "shows_run status n p" "0 \<le> n"
    and th: "phase_ok base (is_runtime_active (after_record status p ct)) (ct_status (after_record status p ct)) n th"
  shows "dashboard_inv base ((after_record status p ct)\<lparr>ct_thread := th\<rparr>)"
proof (rule invE [OF inv])
  fix m
  assume f: "ct_base ct = base" "ct_status ct \<in> {''stopped'', ''starting'', ''running'', ''stopping''}" "length (ct_actions ct) \<le> ACTION_LOG_LIMIT"
    "dashboard_config base (current_runtime_config ct)"
  have "current_cycle ((after_record status p ct)\<lparr>ct_thread := th\<rparr>) = Inr n"
    using current_shows [OF s(1), of ct] by (simp add: current_cycle_def)
  then show ?thesis
    by (intro invI [where n = n]) (use f s(2) th in \<open>simp_all add: current_runtime_config_def is_runtime_active_def after_record_def\<close>)
qed

lemma moved_inv:
  assumes inv: "dashboard_inv base ct" and th: "\<And>n. current_cycle ct = Inr n \<Longrightarrow> 0 \<le> n \<Longrightarrow> phase_ok base (is_runtime_active ct) (ct_status ct) n (ct_thread ct) \<Longrightarrow>
    dashboard_config base (current_runtime_config ct) \<Longrightarrow> phase_ok base (is_runtime_active ct) (ct_status ct) n th"
  shows "dashboard_inv base (ct\<lparr>ct_thread := th\<rparr>)"
proof (rule invE [OF inv])
  fix n
  assume f: "ct_base ct = base" "ct_status ct \<in> {''stopped'', ''starting'', ''running'', ''stopping''}" "length (ct_actions ct) \<le> ACTION_LOG_LIMIT"
    "dashboard_config base (current_runtime_config ct)" "current_cycle ct = Inr n" "0 \<le> n"
    "phase_ok base (is_runtime_active ct) (ct_status ct) n (ct_thread ct)"
  show ?thesis
    by (rule invI [where n = n]) (use f th [OF f(5-7,4)] in \<open>simp_all add: current_runtime_config_def is_runtime_active_def current_cycle_def\<close>)
qed

lemma returned_inv:
  assumes inv: "dashboard_inv base ct" and n: "lp_cycle_index st = n" "0 \<le> n"
    and r: "(\<exists>e. r = (Inl e, st)) \<or> (\<exists>p st' status. r = (Inr p, st') \<and> lp_observed st' = lp_observed st @ [p] \<and> status \<noteq> ''active'' \<and> shows_run status n p)"
  shows "dashboard_inv base (after_loop st r (\<lambda>p _. Finished p) ct)"
  using r
proof (elim disjE exE conjE)
  fix e assume "r = (Inl e, st)"
  then show ?thesis by (simp add: after_loop_silent moved_inv [OF inv])
next
  fix p st' status
  assume r: "r = (Inr p, st')" "lp_observed st' = lp_observed st @ [p]" "status \<noteq> ''active''" "shows_run status n p"
  show ?thesis
    unfolding r(1) after_loop_report [OF r(2,4)] sum.case by (rule recorded_inv [OF inv r(4) n(2)]) (use r(3,4) in auto)
qed

lemma stop_returned:
  assumes "counted st"
  shows "(\<exists>e. stop_by_operator c st = (Inl e, st)) \<or> (\<exists>p st' status. stop_by_operator c st = (Inr p, st') \<and>
    lp_observed st' = lp_observed st @ [p] \<and> status \<noteq> ''active'' \<and> shows_run status (lp_cycle_index st) p)"
proof (rule stop_reports [OF assms, of c], goal_cases)
  case (1 e)
  then show ?case by (intro disjI1 exI)
next
  case (2 p st')
  then show ?case by (intro disjI2 exI [of _ p] exI [of _ st'] exI [of _ "''stopped_operator''"]) simp
qed

lemma finish_returned:
  assumes "counted st"
  shows "(\<exists>e. finish_loop c st = (Inl e, st)) \<or> (\<exists>p st' status. finish_loop c st = (Inr p, st') \<and>
    lp_observed st' = lp_observed st @ [p] \<and> status \<noteq> ''active'' \<and> shows_run status (lp_cycle_index st) p)"
proof (rule finish_reports [OF assms, of c], goal_cases)
  case (1 e)
  then show ?case by (intro disjI1 exI)
next
  case (2 p st')
  then show ?case by (intro disjI2 exI [of _ p] exI [of _ st'] exI [of _ "''completed''"]) simp
qed

lemma turn_inv:
  assumes inv: "dashboard_inv base ct" and th: "ct_thread ct = Cycling st c"
  shows "dashboard_inv base (after_loop st (loop_turn env le c st)
     (\<lambda>(p, next_sleep, continue) st'. if continue then Sleeping st' c (max next_sleep 0) else Finished p) ct)"
proof -
  obtain n where n: "0 \<le> n" "counted st" "lp_cycle_index st = n" using inv th by (auto simp: dashboard_inv_def)
  show ?thesis
  proof (rule turn_reports [OF n(2), of env le c], goal_cases)
    case (1 e st')
    then show ?case by (simp add: after_loop_silent moved_inv [OF inv])
  next
    case (2 r p st' status)
    have pos: "0 \<le> lp_cycle_index st + 1" using n by simp
    show ?case unfolding 2(1) after_loop_report [OF 2(2,5)]
      by (rule recorded_inv [OF inv 2(5) pos]) (use 2(3-6) in \<open>auto simp: after_record_def is_runtime_active_def\<close>)
  qed
qed

lemma failed_inv:
  assumes inv: "dashboard_inv base ct"
  shows "dashboard_inv base (thread_failed now e ct)"
proof (rule invE [OF inv])
  fix n
  assume f: "ct_base ct = base" "ct_status ct \<in> {''stopped'', ''starting'', ''running'', ''stopping''}" "length (ct_actions ct) \<le> ACTION_LOG_LIMIT"
    "dashboard_config base (current_runtime_config ct)" "current_cycle ct = Inr n" "0 \<le> n"
  show ?thesis
    by (rule invI [where n = n])
      (use f in \<open>simp_all add: thread_failed_def Let_def keeping_def current_cycle_def current_runtime_config_def append_action_def ACTION_LOG_LIMIT_def
         split: option.splits sum.splits\<close>)
qed

lemma thread_step_inv:
  assumes inv: "dashboard_inv base ct"
  shows "dashboard_inv base (thread_step env now (ct_thread ct) ct)"
proof (cases "ct_thread ct")
  case NoThread
  then show ?thesis using inv by simp
next
  case Booting
  then show ?thesis using moved_inv [OF inv] by (auto simp: start_counted split: sum.split)
next
  case (AtTop st)
  then show ?thesis using moved_inv [OF inv] by simp
next
  case (Fetched st c)
  obtain n where n: "0 \<le> n" "counted st" "lp_cycle_index st = n" using inv Fetched by (auto simp: dashboard_inv_def)
  then show ?thesis using Fetched moved_inv [OF inv] returned_inv [OF inv n(3,1)] stop_returned [OF n(2), of c] finish_returned [OF n(2), of c]
    by (auto simp del: ex_simps all_simps)
next
  case (Cycling st c)
  then show ?thesis using turn_inv [OF inv Cycling] by simp
next
  case (Sleeping st c r)
  obtain n where n: "0 \<le> n" "counted st" "lp_cycle_index st = n" using inv Sleeping by (auto simp: dashboard_inv_def)
  then show ?thesis using Sleeping moved_inv [OF inv] returned_inv [OF inv n(3,1)] stop_returned [OF n(2), of c] by auto
next
  case (Finished p)
  obtain n s where n: "0 \<le> n" "s \<noteq> ''active''" "shows_run s n p" using inv Finished by (auto simp: dashboard_inv_def)
  have "record_runtime_payload p ct = (Inr (), after_record s p ct)" by (simp only: after_record_def record_shows [OF n(3)])
  then show ?thesis using recorded_inv [OF inv n(3,1), of Clearing] Finished by simp
next
  case (Raised e)
  then show ?thesis using failed_inv [OF inv] by simp
next
  case Clearing
  have "dashboard_inv base (ct\<lparr>ct_stop := False\<rparr>)"
    using inv by (auto simp: dashboard_inv_def current_cycle_def current_runtime_config_def is_runtime_active_def)
  from moved_inv [OF this, of Closing] show ?thesis using Clearing by simp
next
  case Closing
  have "dashboard_inv base (ct\<lparr>ct_status := ''stopped''\<rparr>)"
    using inv Closing by (auto simp: dashboard_inv_def current_cycle_def current_runtime_config_def is_runtime_active_def)
  from moved_inv [OF this, of Exiting] show ?thesis using Closing by simp
next
  case Exiting
  then show ?thesis using moved_inv [OF inv, of NoThread] by simp
qed

lemma perform_inv: "dashboard_inv base ct \<Longrightarrow> dashboard_inv base (perform env ev ct)"
  by (cases "(env, ev, ct)" rule: perform.cases)
    (simp_all add: start_inv_step stop_inv_step set_scenario_inv_step set_power_inv_step thread_step_inv)

lemma reachable_inv: "dashboard_reachable env base ct \<Longrightarrow> dashboard_inv base ct"
  by (induction rule: dashboard_reachable.induct) (simp_all add: new_controller_inv perform_inv)

lemma perform_all_Nil [simp]: "perform_all env [] ct = ct"
  by (simp add: perform_all_def)

lemma perform_all_Cons [simp]: "perform_all env (ev # evs) ct = perform_all env evs (perform env ev ct)"
  by (simp add: perform_all_def)

lemma perform_all_append: "perform_all env (evs @ evs') ct = perform_all env evs' (perform_all env evs ct)"
  by (simp add: perform_all_def)

lemma reachable_all: "dashboard_reachable env base ct \<Longrightarrow> dashboard_reachable env base (perform_all env evs ct)"
  by (induction evs arbitrary: ct) (simp_all add: dashboard_reachable.event)

section \<open>The end of a run\<close>

text \<open>How many steps the thread has left once a stop is requested.\<close>

fun stop_rank :: "('s, 'l) runtime_thread \<Rightarrow> nat" where
  "stop_rank NoThread = 0"
| "stop_rank Exiting = 1"
| "stop_rank Closing = 2"
| "stop_rank Clearing = 3"
| "stop_rank (Raised _) = 4"
| "stop_rank (Finished _) = 5"
| "stop_rank (Sleeping _ _ _) = 6"
| "stop_rank (Fetched _ _) = 6"
| "stop_rank (AtTop _) = 7"
| "stop_rank (Cycling _ _) = 7"
| "stop_rank Booting = 8"

definition ending :: "('s, 'l) controller \<Rightarrow> bool" where
  "ending ct = (ct_stop ct \<or> stop_rank (ct_thread ct) \<le> 5)"

fun in_cycle :: "('s, 'l) runtime_thread \<Rightarrow> int" where
  "in_cycle (Cycling _ _) = 1"
| "in_cycle _ = 0"

lemma in_cycle_nonneg: "0 \<le> in_cycle th"
  by (cases th) simp_all

lemma operator_keeps:
  assumes "snd ev \<noteq> ThreadStep" "thread_alive ct"
  shows "ct_thread (perform env ev ct) = ct_thread ct" "current_cycle (perform env ev ct) = current_cycle ct"
    "ct_stop ct \<Longrightarrow> ct_stop (perform env ev ct)"
  using assms by (cases "(env, ev, ct)" rule: perform.cases;
      auto simp: start_runtime_def stop_runtime_def set_scenario_def set_power_def keeping_def Let_def current_cycle_def split: sum.splits)+

lemma alive_rank: "thread_alive ct \<longleftrightarrow> 0 < stop_rank (ct_thread ct)"
  by (cases "ct_thread ct") (simp_all add: thread_alive_def)

text \<open>What a step of an ending thread does to the rank and to the count of cycles.\<close>

definition step_toward_end :: "('s, 'l) controller \<Rightarrow> ('s, 'l) controller \<Rightarrow> bool" where
  "step_toward_end ct ct' = (stop_rank (ct_thread ct') < stop_rank (ct_thread ct) \<and> ending ct' \<and> (\<exists>n m. current_cycle ct = Inr n \<and>
     current_cycle ct' = Inr m \<and> n \<le> m \<and> m + in_cycle (ct_thread ct') \<le> n + in_cycle (ct_thread ct)))"

lemma returned_end:
  assumes n: "current_cycle ct = Inr (lp_cycle_index st)" and th: "stop_rank (ct_thread ct) = 6"
    and r: "(\<exists>e. r = (Inl e, st)) \<or> (\<exists>p st' status. r = (Inr p, st') \<and> lp_observed st' = lp_observed st @ [p] \<and> status \<noteq> ''active'' \<and>
      shows_run status (lp_cycle_index st) p)"
  shows "step_toward_end ct (after_loop st r (\<lambda>p _. Finished p) ct)"
  using r
proof (elim disjE exE conjE)
  fix e assume "r = (Inl e, st)"
  then show ?thesis using n th in_cycle_nonneg [of "ct_thread ct"]
    by (simp add: after_loop_silent step_toward_end_def ending_def current_cycle_def)
next
  fix p st' status
  assume r: "r = (Inr p, st')" "lp_observed st' = lp_observed st @ [p]" "shows_run status (lp_cycle_index st) p"
  have "current_cycle ((after_record status p ct)\<lparr>ct_thread := Finished p\<rparr>) = Inr (lp_cycle_index st)"
    using current_shows [OF r(3), of ct] by (simp add: current_cycle_def)
  then show ?thesis unfolding r(1) after_loop_report [OF r(2,3)]
    using n th in_cycle_nonneg [of "ct_thread ct"] by (simp add: step_toward_end_def ending_def)
qed

lemma turn_end:
  assumes n: "current_cycle ct = Inr (lp_cycle_index st)" "counted st" and th: "ct_thread ct = Cycling st c" "ct_stop ct"
  shows "step_toward_end ct (after_loop st (loop_turn env le c st)
     (\<lambda>(p, next_sleep, continue) st'. if continue then Sleeping st' c (max next_sleep 0) else Finished p) ct)"
proof (rule turn_reports [OF n(2), of env le c], goal_cases)
  case (1 e st')
  then show ?case using n th by (simp add: after_loop_silent step_toward_end_def ending_def current_cycle_def)
next
  case (2 r p st' status)
  let ?th = "case r of Inl e \<Rightarrow> Raised e | Inr x \<Rightarrow>
    (\<lambda>(p, next_sleep, continue) st'. if continue then Sleeping st' c (max next_sleep 0) else Finished p) x st'"
  have "current_cycle ((after_record status p ct)\<lparr>ct_thread := ?th\<rparr>) = Inr (lp_cycle_index st + 1)"
    using current_shows [OF 2(5), of ct] by (simp add: current_cycle_def)
  moreover have "stop_rank ?th < 7" "in_cycle ?th = 0" by (auto split: sum.split)
  ultimately show ?case unfolding 2(1) after_loop_report [OF 2(2,5)] using n th by (simp add: step_toward_end_def ending_def)
qed

lemma thread_toward_end:
  assumes inv: "dashboard_inv base ct" and e: "ending ct" "thread_alive ct"
  shows "step_toward_end ct (thread_step env now (ct_thread ct) ct)"
proof -
  obtain n where n: "current_cycle ct = Inr n" "phase_ok base (is_runtime_active ct) (ct_status ct) n (ct_thread ct)"
    using inv unfolding dashboard_inv_def by blast
  note cc = current_cycle_cong
  show ?thesis
  proof (cases "ct_thread ct")
    case (Fetched st c)
    then show ?thesis using n e(1) returned_end [of ct st "stop_by_operator c st"] stop_returned [of st c] by (simp add: ending_def)
  next
    case (Cycling st c)
    then show ?thesis using n e(1) turn_end [of ct st c "th_env env" "th_loop env"] by (simp add: ending_def)
  next
    case (Sleeping st c r)
    then show ?thesis using n e(1) returned_end [of ct st "stop_by_operator c st"] stop_returned [of st c] by (simp add: ending_def)
  next
    case (Finished p)
    then obtain s where s: "shows_run s n p" using n(2) by auto
    have "record_runtime_payload p ct = (Inr (), after_record s p ct)" by (simp only: after_record_def record_shows [OF s])
    moreover have "current_cycle ((after_record s p ct)\<lparr>ct_thread := Clearing\<rparr>) = Inr n"
      using current_shows [OF s, of ct] by (simp add: current_cycle_def)
    ultimately show ?thesis using Finished n(1) by (simp add: step_toward_end_def ending_def)
  next
    case (Raised e)
    have "current_cycle (thread_failed now e ct) = Inr n" "ct_thread (thread_failed now e ct) = Clearing"
      using n(1) by (simp_all add: thread_failed_def Let_def keeping_def current_cycle_def append_action_def split: option.splits sum.splits)
    then show ?thesis using Raised n(1) by (simp add: step_toward_end_def ending_def)
  qed (use n(1) e in \<open>auto simp: step_toward_end_def ending_def thread_alive_def current_cycle_def split: sum.split\<close>)
qed

end
