(* ===== verification/DashboardOutcome.thy ===== *)
theory DashboardOutcome
  imports DashboardLaws
begin

text \<open>
  The properties of the dashboard controller: its invariant, the end of a run after a stop
  request, the cycles a change of the scenario reaches, and the status that a late stop request
  leaves behind.
\<close>

section \<open>Stop requests\<close>

definition thread_steps :: "(string \<times> dashboard_event) list \<Rightarrow> nat" where
  "thread_steps evs = length (filter (\<lambda>ev. snd ev = ThreadStep) evs)"

lemma run_ends:
  assumes "dashboard_reachable env base ct" "ending ct" "stop_rank (ct_thread ct) \<le> thread_steps evs"
  shows "\<exists>pre suf n m. evs = pre @ suf \<and> ct_thread (perform_all env pre ct) = NoThread \<and> current_cycle ct = Inr n \<and>
    current_cycle (perform_all env pre ct) = Inr m \<and> n \<le> m \<and> m \<le> n + in_cycle (ct_thread ct)"
  using assms
proof (induction evs arbitrary: ct)
  case Nil
  obtain n where "current_cycle ct = Inr n" using reachable_inv [OF Nil(1)] unfolding dashboard_inv_def by blast
  then show ?case using Nil(3) alive_rank [of ct] in_cycle_nonneg [of "ct_thread ct"]
    by (auto simp: thread_steps_def thread_alive_def split: runtime_thread.splits)
next
  case (Cons ev evs)
  note inv = reachable_inv [OF Cons.prems(1)]
  obtain n where n: "current_cycle ct = Inr n" using inv unfolding dashboard_inv_def by blast
  let ?ct = "perform env ev ct"
  have reach: "dashboard_reachable env base ?ct" by (rule dashboard_reachable.event [OF Cons.prems(1)])
  show ?case
  proof (cases "thread_alive ct")
    case False
    then show ?thesis using n in_cycle_nonneg [of "ct_thread ct"]
      by (intro exI [of _ "[]"] exI [of _ "ev # evs"]) (auto simp: thread_alive_def split: runtime_thread.splits)
  next
    case True
    have "ending ?ct \<and> stop_rank (ct_thread ?ct) \<le> thread_steps evs \<and> (\<exists>n'. current_cycle ?ct = Inr n' \<and> n \<le> n' \<and>
        n' + in_cycle (ct_thread ?ct) \<le> n + in_cycle (ct_thread ct))"
    proof (cases "snd ev = ThreadStep")
      case step: True
      then have "?ct = thread_step env (fst ev) (ct_thread ct) ct" by (cases ev) simp
      then have "step_toward_end ct ?ct" using thread_toward_end [OF inv Cons.prems(2) True] by simp
      then show ?thesis using n Cons.prems(3) step by (auto simp: step_toward_end_def thread_steps_def)
    next
      case False
      then show ?thesis using operator_keeps [OF False True, of env] Cons.prems(2,3) n by (auto simp: ending_def thread_steps_def)
    qed
    then obtain n' where s: "ending ?ct" "stop_rank (ct_thread ?ct) \<le> thread_steps evs" "current_cycle ?ct = Inr n'" "n \<le> n'"
      "n' + in_cycle (ct_thread ?ct) \<le> n + in_cycle (ct_thread ct)" by blast
    obtain pre suf m where e: "evs = pre @ suf" "ct_thread (perform_all env pre ?ct) = NoThread"
      "current_cycle (perform_all env pre ?ct) = Inr m" "n' \<le> m" "m \<le> n' + in_cycle (ct_thread ?ct)"
      using Cons.IH [OF reach s(1,2)] s(3) by auto
    show ?thesis using e s n by (intro exI [of _ "ev # pre"] exI [of _ suf] exI [of _ n] exI [of _ m]) simp
  qed
qed

lemma rank_bound: "stop_rank th \<le> 8"
  by (cases th) simp_all

lemma stop_requested:
  assumes "dashboard_inv base ct"
  shows "ct_stop (perform env (now, StopRuntime) ct)" "ct_thread (perform env (now, StopRuntime) ct) = ct_thread ct"
    "current_cycle (perform env (now, StopRuntime) ct) = current_cycle ct"
    "ct_status (perform env (now, StopRuntime) ct) = (if thread_alive ct then ''stopping'' else ''stopped'')"
  using assms by (auto simp: dashboard_inv_def stop_runtime_def keeping_def current_cycle_def)

text \<open>The report of a cycle in progress shows the run as running again, although the stop is requested.\<close>

lemma stopping_shown_running:
  assumes "dashboard_reachable env base ct" "ct_thread ct = Cycling st c"
    and "loop_turn (th_env env) (th_loop env) c st = (Inr (p, next_sleep, True), st')"
  shows "ct_status (perform_all env [(t1, StopRuntime), (t2, ThreadStep)] ct) = ''running'' \<and>
    ct_stop (perform_all env [(t1, StopRuntime), (t2, ThreadStep)] ct)"
proof -
  let ?ct = "perform env (t1, StopRuntime) ct"
  note inv = reachable_inv [OF assms(1)]
  note s = stop_requested [OF inv, of env t1]
  have n: "counted st" using inv assms(2) by (auto simp: dashboard_inv_def)
  show ?thesis
  proof (rule turn_reports [OF n, of "th_env env" "th_loop env" c], goal_cases)
    case (1 e st'')
    then show ?case using assms(3) by simp
  next
    case (2 r q st'' status)
    have r: "r = Inr (p, next_sleep, True)" "st'' = st'" using 2(1) assms(3) by simp_all
    then have q: "status = ''active''" using 2(6) by auto
    show ?case
      using s(1,2) assms(2,3) after_loop_report [OF 2(2,5), of "Inr (p, next_sleep, True)" _ ?ct] q r
      by (simp add: after_record_def del: perform.simps(2))
  qed
qed

section \<open>Changes of the scenario\<close>

text \<open>The configuration a thread has fetched for the cycle it is about to run or running.\<close>

fun held :: "('s, 'l) runtime_thread \<Rightarrow> runtime_config option" where
  "held (Fetched _ c) = Some c"
| "held (Cycling _ c) = Some c"
| "held _ = None"

text \<open>Every configuration fetched from cycle \<open>m\<close> on is for the scenario.\<close>

definition carries :: "string \<Rightarrow> int \<Rightarrow> runtime_config \<Rightarrow> bool" where
  "carries name k c = (demo_scenario_name c = name \<and> demo_scenario_start_cycle c = k)"

fun passed :: "string \<Rightarrow> int \<Rightarrow> int \<Rightarrow> ('s, 'l) runtime_thread \<Rightarrow> bool" where
  "passed name k m (AtTop st) = (m \<le> lp_cycle_index st)"
| "passed name k m (Fetched st c) = (m \<le> lp_cycle_index st \<and> carries name k c)"
| "passed name k m (Cycling st c) = (m \<le> lp_cycle_index st \<and> carries name k c)"
| "passed name k m (Sleeping st c r) = (m \<le> lp_cycle_index st)"
| "passed name k m Booting = (m \<le> 0)"
| "passed name k m _ = True"

fun holding :: "runtime_config \<Rightarrow> int \<Rightarrow> ('s, 'l) runtime_thread \<Rightarrow> bool" where
  "holding c0 n (Fetched st c) = (lp_cycle_index st = n \<and> c = c0)"
| "holding c0 n (Cycling st c) = (lp_cycle_index st = n \<and> c = c0)"
| "holding c0 n _ = False"

definition scheduled :: "string \<Rightarrow> int \<Rightarrow> runtime_config option \<Rightarrow> ('s, 'l) controller \<Rightarrow> bool" where
  "scheduled name n kept ct = (ct_scenario ct = name \<and> ct_start_cycle ct = n + 1 \<and> (case kept of None \<Rightarrow> passed name (n + 1) n (ct_thread ct)
     | Some c0 \<Rightarrow> holding c0 n (ct_thread ct) \<or> passed name (n + 1) (n + 1) (ct_thread ct)))"

lemma after_loop_config:
  "ct_scenario (after_loop st r next ct) = ct_scenario ct" "ct_start_cycle (after_loop st r next ct) = ct_start_cycle ct"
proof -
  have "ct_scenario (snd (record_all ps ct)) = ct_scenario ct \<and> ct_start_cycle (snd (record_all ps ct)) = ct_start_cycle ct" for ps
    by (induction ps arbitrary: ct) (auto simp: ret_def bind_act_def record_runtime_payload_def keeping_def Let_def split: sum.splits prod.splits)
  then show "ct_scenario (after_loop st r next ct) = ct_scenario ct" "ct_start_cycle (after_loop st r next ct) = ct_start_cycle ct"
    by (auto simp: after_loop_def split: prod.split sum.split) (metis snd_conv)+
qed

lemma thread_config:
  "ct_scenario (thread_step env now th ct) = ct_scenario ct" "ct_start_cycle (thread_step env now th ct) = ct_start_cycle ct"
  by (cases "(env, now, th, ct)" rule: thread_step.cases;
      auto simp: after_loop_config thread_failed_def keeping_def Let_def record_runtime_payload_def split: sum.split)+

text \<open>After the step of a cycle the thread is past it, or out of the loop.\<close>

lemma turn_passes:
  assumes "counted st" "m \<le> lp_cycle_index st + 1" "ct_thread ct = Cycling st c"
  shows "passed name k m (ct_thread (thread_step env now (Cycling st c) ct))"
proof (rule turn_reports [OF assms(1), of "th_env env" "th_loop env" c], goal_cases)
  case (1 e st')
  then show ?case by (simp add: after_loop_silent)
next
  case (2 r p st' status)
  then show ?case using assms(2) by (simp only: thread_step.simps 2(1) after_loop_report [OF 2(2,5)]) (auto split: sum.split)
qed

lemma return_passes:
  assumes "(\<exists>e. r = (Inl e, st)) \<or> (\<exists>p st' status. r = (Inr p, st') \<and> lp_observed st' = lp_observed st @ [p] \<and> status \<noteq> ''active'' \<and>
      shows_run status n p)"
  shows "passed name k m (ct_thread (after_loop st r (\<lambda>p _. Finished p) ct))"
  using assms
proof (elim disjE exE conjE)
  fix p st' status
  assume r: "r = (Inr p, st')" "lp_observed st' = lp_observed st @ [p]" "shows_run status n p"
  then show ?thesis by (simp add: after_loop_report [OF r(2,3)])
qed (simp add: after_loop_silent)

lemma step_passes:
  assumes inv: "dashboard_inv base ct" and p: "passed name k m (ct_thread ct)" and c: "ct_scenario ct = name" "ct_start_cycle ct = k"
  shows "passed name k m (ct_thread (thread_step env now (ct_thread ct) ct))"
proof -
  obtain n where n: "phase_ok base (is_runtime_active ct) (ct_status ct) n (ct_thread ct)" using inv unfolding dashboard_inv_def by blast
  show ?thesis
  proof (cases "ct_thread ct")
    case Booting
    then show ?thesis using p by (simp add: start_counted split: sum.split)
  next
    case (AtTop st)
    then show ?thesis using p c by (simp add: carries_def current_runtime_config_def)
  next
    case (Fetched st c)
    then show ?thesis using n p return_passes [OF stop_returned, of st] return_passes [OF finish_returned, of st] by simp
  next
    case (Cycling st c)
    then show ?thesis using n p turn_passes [of st m ct c name k env now] by simp
  next
    case (Sleeping st c r)
    then show ?thesis using n p return_passes [OF stop_returned, of st] by simp
  next
    case (Finished q)
    then obtain s where s: "shows_run s n q" using n by auto
    have "record_runtime_payload q ct = (Inr (), after_record s q ct)" by (simp only: after_record_def record_shows [OF s])
    then show ?thesis using Finished by simp
  next
    case (Raised e)
    then show ?thesis by (simp add: thread_failed_def Let_def)
  qed simp_all
qed

lemma step_scheduled:
  assumes inv: "dashboard_inv base ct" and s: "scheduled name n kept ct"
  shows "scheduled name n kept (thread_step env now (ct_thread ct) ct)"
proof -
  have c: "ct_scenario ct = name" "ct_start_cycle ct = n + 1" using s by (simp_all add: scheduled_def)
  obtain i where i: "phase_ok base (is_runtime_active ct) (ct_status ct) i (ct_thread ct)" using inv unfolding dashboard_inv_def by blast
  let ?ct = "thread_step env now (ct_thread ct) ct"
  have hold: "holding c0 n (ct_thread ?ct) \<or> passed name (n + 1) (n + 1) (ct_thread ?ct)"
    if h: "holding c0 n (ct_thread ct)" for c0
  proof (cases "ct_thread ct")
    case (Fetched st d)
    then show ?thesis using h i return_passes [OF stop_returned, of st] return_passes [OF finish_returned, of st] by simp
  next
    case (Cycling st d)
    then show ?thesis using h i turn_passes [of st "n + 1" ct d name "n + 1" env now] by simp
  qed (use h in simp_all)
  show ?thesis
    using s step_passes [OF inv _ c, of _ env now] hold by (auto simp: scheduled_def thread_config split: option.splits)
qed

lemma operator_scheduled:
  assumes s: "scheduled name n kept ct" and ev: "snd ev \<notin> {ThreadStep, StartRuntime}" "\<forall>x. snd ev \<noteq> SetScenario x"
  shows "scheduled name n kept (perform env ev ct)"
  using assms by (cases "(env, ev, ct)" rule: perform.cases)
    (auto simp: scheduled_def stop_runtime_def set_power_def keeping_def Let_def split: sum.splits option.splits)

lemma run_scheduled:
  assumes "dashboard_reachable env base ct" "scheduled name n kept ct"
    and "\<forall>ev \<in> set evs. snd ev \<noteq> StartRuntime \<and> (\<forall>x. snd ev \<noteq> SetScenario x)"
  shows "scheduled name n kept (perform_all env evs ct)"
  using assms
proof (induction evs arbitrary: ct)
  case (Cons ev evs)
  have "scheduled name n kept (perform env ev ct)"
  proof (cases "snd ev = ThreadStep")
    case True
    then show ?thesis using step_scheduled [OF reachable_inv [OF Cons.prems(1)] Cons.prems(2), of env "fst ev"] by (cases ev) simp
  next
    case False
    then show ?thesis using operator_scheduled [OF Cons.prems(2), of ev env] Cons.prems(3) by auto
  qed
  then show ?case using Cons.IH [OF dashboard_reachable.event [OF Cons.prems(1), of ev]] Cons.prems(3) by simp
qed simp

text \<open>Right after a live change the scenario is scheduled, the held configuration kept.\<close>

lemma change_scheduled:
  assumes inv: "dashboard_inv base ct" and live: "is_runtime_active ct" "current_cycle ct = Inr n"
    and set: "set_scenario now name0 ct = (Inr (), ct')"
  shows "scheduled (or_normal name0) n (held (ct_thread ct)) ct'" "or_normal name0 \<in> set SUPPORTED_DEMO_SCENARIOS"
    "oa_applies_on_cycle (last (ct_actions ct')) = n + 1"
proof -
  show name: "or_normal name0 \<in> set SUPPORTED_DEMO_SCENARIOS" using set by (auto simp: set_scenario_def Let_def split: if_splits)
  have n: "0 \<le> n" "phase_ok base (is_runtime_active ct) (ct_status ct) n (ct_thread ct)" using inv live(2) by (auto simp: dashboard_inv_def)
  obtain a where a: "set_scenario now name0 ct = (Inr (), append_action a (ct\<lparr>ct_scenario := or_normal name0,
      ct_start_cycle := if is_runtime_active ct then n + 1 else 1\<rparr>))" "oa_applies_on_cycle a = (if is_runtime_active ct then n + 1 else 1)"
    by (rule set_scenario_state [OF name live(2) n(1)])
  then have ct': "ct' = append_action a (ct\<lparr>ct_scenario := or_normal name0, ct_start_cycle := n + 1\<rparr>)" "oa_applies_on_cycle a = n + 1"
    using set live(1) by simp_all
  show "oa_applies_on_cycle (last (ct_actions ct')) = n + 1" by (simp add: ct')
  show "scheduled (or_normal name0) n (held (ct_thread ct)) ct'"
    using n(2) by (cases "ct_thread ct") (simp_all add: ct'(1) scheduled_def)
qed

lemma cycle_after_change:
  assumes "scheduled name n kept ct" "ct_thread ct = Cycling st c" "name \<in> set SUPPORTED_DEMO_SCENARIOS" "0 \<le> n"
  shows "(kept = Some c \<and> lp_cycle_index st = n) \<or> ((kept = None \<and> n \<le> lp_cycle_index st \<or> n < lp_cycle_index st) \<and>
    (\<exists>stage. resolve_runtime_scenario_control_stage c (lp_cycle_index st + 1) = Inr stage \<and> active_scenario stage = name))"
proof -
  have "\<exists>stage. resolve_runtime_scenario_control_stage c (lp_cycle_index st + 1) = Inr stage \<and> active_scenario stage = name"
    if "n \<le> lp_cycle_index st" "carries name (n + 1) c"
    by (rule supported_resolves) (use assms(3,4) that in \<open>simp_all add: carries_def\<close>)
  then show ?thesis using assms(1,2) by (auto simp: scheduled_def split: option.splits)
qed

section \<open>A late stop request\<close>

lemma late_stop_stays:
  assumes "dashboard_inv base ct" "ct_status ct = ''stopping''" "ct_stop ct" "ct_thread ct = Exiting \<or> ct_thread ct = NoThread"
    and "\<forall>ev \<in> set evs. snd ev \<noteq> StartRuntime \<and> snd ev \<noteq> StopRuntime"
  shows "ct_status (perform_all env evs ct) = ''stopping'' \<and> ct_stop (perform_all env evs ct) \<and>
    (ct_thread (perform_all env evs ct) = Exiting \<or> ct_thread (perform_all env evs ct) = NoThread) \<and>
    (0 < thread_steps evs \<longrightarrow> ct_thread (perform_all env evs ct) = NoThread) \<and>
    (ct_thread ct = NoThread \<longrightarrow> ct_thread (perform_all env evs ct) = NoThread)"
  using assms
proof (induction evs arbitrary: ct)
  case (Cons ev evs)
  let ?ct = "perform env ev ct"
  have "ct_status ?ct = ''stopping'' \<and> ct_stop ?ct \<and> (ct_thread ?ct = NoThread \<or> ct_thread ?ct = ct_thread ct) \<and>
      (snd ev = ThreadStep \<longrightarrow> ct_thread ?ct = NoThread)"
    using Cons.prems by (cases "(env, ev, ct)" rule: perform.cases)
      (auto simp: set_scenario_def set_power_def keeping_def Let_def split: sum.split)
  then have s: "ct_status ?ct = ''stopping''" "ct_stop ?ct" "ct_thread ?ct = NoThread \<or> ct_thread ?ct = ct_thread ct"
    "snd ev = ThreadStep \<longrightarrow> ct_thread ?ct = NoThread" by blast+
  have "ct_thread ?ct = Exiting \<or> ct_thread ?ct = NoThread" using s(3) Cons.prems(4) by auto
  from Cons.IH [OF perform_inv [OF Cons.prems(1)] s(1,2) this] Cons.prems(5)
  show ?case using s(3,4) by (auto simp: thread_steps_def)
qed (auto simp: thread_steps_def)

section \<open>Sample runs\<close>

text \<open>One thread whose components are built, and one whose are not.\<close>

definition sample_thread :: "(local_files, consensus_app, string) thread_env" where
  "sample_thread = \<lparr>th_build = (\<lambda>_. Inr sample_runtime), th_env = sample_env, th_loop = sample_loop 0 None\<rparr>"

definition broken_thread :: "(local_files, consensus_app, string) thread_env" where
  "broken_thread = \<lparr>th_build = (\<lambda>_. Inl (RuntimeError ''no broker'')), th_env = sample_env, th_loop = sample_loop 0 None\<rparr>"

definition started :: "(local_files, consensus_app, string) thread_env \<Rightarrow> nat \<Rightarrow> (local_files, consensus_app) controller" where
  "started env k = perform_all env ((''t'', StartRuntime) # replicate k (''t'', ThreadStep)) (new_controller default_config)"

lemma started_reachable: "dashboard_reachable env default_config (started env k)"
  unfolding started_def by (rule reachable_all [OF dashboard_reachable.fresh])

lemma started_zero: "ct_thread (started env 0) = Booting" "ct_latest (started env 0) = None" "ct_status (started env 0) = ''starting''"
  by (simp_all add: started_def start_runtime_def thread_alive_def new_controller_def append_action_def Let_def)

lemma started_Suc: "started env (Suc k) = thread_step env ''t'' (ct_thread (started env k)) (started env k)"
proof -
  have "replicate (Suc k) (''t'', ThreadStep) = replicate k (''t'', ThreadStep) @ [(''t'', ThreadStep)]"
    by (simp only: replicate_Suc replicate_append_same)
  then show ?thesis by (simp only: started_def perform_all_append append_Cons [symmetric] perform_all_Cons perform_all_Nil perform.simps)
qed

lemma sample_fetched:
  "ct_thread (started sample_thread 2) = Fetched (start_loop sample_runtime) (current_runtime_config (started sample_thread 1))"
  "ct_latest (started sample_thread 2) = None" "ct_status (started sample_thread 2) = ''starting''"
proof -
  have "ct_thread (started sample_thread 1) = AtTop (start_loop sample_runtime)" "ct_latest (started sample_thread 1) = None"
    "ct_status (started sample_thread 1) = ''starting''"
    using started_Suc [of sample_thread 0] by (simp_all add: started_zero sample_thread_def)
  then show "ct_thread (started sample_thread 2) = Fetched (start_loop sample_runtime) (current_runtime_config (started sample_thread 1))"
    "ct_latest (started sample_thread 2) = None" "ct_status (started sample_thread 2) = ''starting''"
    using started_Suc [of sample_thread 1] by (simp_all add: numeral_2_eq_2)
qed

lemma broken_exiting: "ct_thread (started broken_thread 4) = Exiting"
proof -
  have "ct_thread (started broken_thread 1) = Raised (RuntimeError ''no broker'')"
    using started_Suc [of broken_thread 0] by (simp add: started_zero broken_thread_def)
  then have "ct_thread (started broken_thread 2) = Clearing"
    using started_Suc [of broken_thread 1] by (simp add: numeral_2_eq_2 thread_failed_def Let_def)
  then have "ct_thread (started broken_thread 3) = Closing"
    using started_Suc [of broken_thread 2] by (simp add: numeral_3_eq_3 numeral_2_eq_2)
  then show ?thesis using started_Suc [of broken_thread 3] by (simp add: eval_nat_numeral)
qed

section \<open>The properties\<close>

text \<open>
  C8. In every reachable state of the dashboard the status is one of four, the log of actions is
  bounded, the configured power, scenario and start cycle are in range, a run that has not
  returned is shown as active, the cycle shown is the last one the thread has reported, and
  whatever configuration the thread holds is the base with a supported scenario or the base's own
  (which the resolution of a cycle refuses when it is not supported): nothing else is injected.
\<close>

theorem dashboard_invariant:
  assumes "dashboard_reachable env base ct"
  shows "ct_status ct \<in> {''stopped'', ''starting'', ''running'', ''stopping''} \<and> length (ct_actions ct) \<le> ACTION_LOG_LIMIT \<and>
    0 \<le> ct_power ct \<and> ct_power ct \<le> 100 \<and> 1 \<le> ct_start_cycle ct \<and>
    ct_scenario ct \<in> insert (or_normal (demo_scenario_name base)) (set SUPPORTED_DEMO_SCENARIOS) \<and>
    (\<not> thread_alive ct \<longrightarrow> ct_status ct \<in> {''stopped'', ''stopping''}) \<and>
    (\<exists>n \<ge> 0. current_cycle ct = Inr n \<and> (\<forall>st c. ct_thread ct = Fetched st c \<or> ct_thread ct = Cycling st c \<longrightarrow>
       is_runtime_active ct \<and> lp_cycle_index st = n \<and> dashboard_config base c))"
proof -
  note inv = reachable_inv [OF assms]
  obtain n where n: "ct_base ct = base" "dashboard_config base (current_runtime_config ct)" "0 \<le> n" "current_cycle ct = Inr n"
    "phase_ok base (is_runtime_active ct) (ct_status ct) n (ct_thread ct)"
    using inv unfolding dashboard_inv_def by blast
  have "\<not> thread_alive ct \<longrightarrow> ct_status ct \<in> {''stopped'', ''stopping''}"
    using n(5) by (cases "ct_thread ct") (simp_all add: thread_alive_def)
  moreover have "\<forall>st c. ct_thread ct = Fetched st c \<or> ct_thread ct = Cycling st c \<longrightarrow>
      is_runtime_active ct \<and> lp_cycle_index st = n \<and> dashboard_config base c" using n(5) by auto
  ultimately show ?thesis
    using inv n(3,4) config_fields [OF n(2,1)] unfolding dashboard_inv_def by blast
qed

theorem dashboard_invariant_witness:
  "ct_thread (started sample_thread 2) = Fetched (start_loop sample_runtime) (current_runtime_config (started sample_thread 1)) \<and>
    ct_power (started sample_thread 2) \<le> 100 \<and> is_runtime_active (started sample_thread 2) \<and>
    dashboard_config default_config (current_runtime_config (started sample_thread 1))"
  using dashboard_invariant [OF started_reachable [of sample_thread 2]] sample_fetched(1) by blast

text \<open>
  C18. A change of the scenario while the runtime is live is announced for the next cycle \<open>n + 1\<close>. When the thread has
  fetched no configuration for that cycle, every cycle it starts runs the scenario. Otherwise cycle
  \<open>n + 1\<close> still runs with the configuration it holds, whatever was announced, and the
  scenario begins one cycle later.
\<close>

theorem scenario_takes_effect:
  assumes "dashboard_reachable env base ct" "is_runtime_active ct" "set_scenario now name ct = (Inr (), ct')"
    and "\<forall>ev \<in> set evs. snd ev \<noteq> StartRuntime \<and> (\<forall>x. snd ev \<noteq> SetScenario x)" "ct_thread (perform_all env evs ct') = Cycling st c"
  shows "\<exists>n. current_cycle ct = Inr n \<and> oa_applies_on_cycle (last (ct_actions ct')) = n + 1 \<and> n \<le> lp_cycle_index st \<and>
    (if held (ct_thread ct) \<noteq> None \<and> lp_cycle_index st = n then held (ct_thread ct) = Some c
     else \<exists>stage. resolve_runtime_scenario_control_stage c (lp_cycle_index st + 1) = Inr stage \<and> active_scenario stage = or_normal name)"
proof -
  note inv = reachable_inv [OF assms(1)]
  obtain n where n: "current_cycle ct = Inr n" "0 \<le> n" using inv unfolding dashboard_inv_def by blast
  note s = change_scheduled [OF inv assms(2) n(1) assms(3)]
  have "ct' = perform env (now, SetScenario name) ct" using assms(3) by simp
  then have "dashboard_reachable env base ct'" using dashboard_reachable.event [OF assms(1), of "(now, SetScenario name)"] by simp
  from cycle_after_change [OF run_scheduled [OF this s(1) assms(4)] assms(5) s(2) n(2)] show ?thesis using n(1) s(3) by auto
qed

theorem scenario_takes_effect_witness:
  "\<exists>ct'. set_scenario ''t'' ''quorum_loss'' (started sample_thread 2) = (Inr (), ct') \<and> oa_applies_on_cycle (last (ct_actions ct')) = 1 \<and>
    ct_thread (perform_all sample_thread [(''t'', ThreadStep)] ct') =
      Cycling (start_loop sample_runtime) (current_runtime_config (started sample_thread 1)) \<and>
    demo_scenario_name (current_runtime_config (started sample_thread 1)) = ''normal''"
proof -
  let ?ct = "started sample_thread 2" and ?c = "current_runtime_config (started sample_thread 1)"
  have q: "or_normal ''quorum_loss'' = ''quorum_loss''" by (simp add: or_normal_def strip_def is_space_def)
  have supported: "or_normal ''quorum_loss'' \<in> set SUPPORTED_DEMO_SCENARIOS" by (simp add: q SUPPORTED_DEMO_SCENARIOS_def)
  have cur: "current_cycle ?ct = Inr 0" "is_runtime_active ?ct" using sample_fetched by (simp_all add: current_cycle_def is_runtime_active_def)
  obtain a where a: "set_scenario ''t'' ''quorum_loss'' ?ct = (Inr (), append_action a (?ct\<lparr>ct_scenario := or_normal ''quorum_loss'',
      ct_start_cycle := if is_runtime_active ?ct then 0 + 1 else 1\<rparr>))"
    by (rule set_scenario_state [OF supported cur(1) order_refl])
  let ?ct' = "append_action a (?ct\<lparr>ct_scenario := or_normal ''quorum_loss'', ct_start_cycle := if is_runtime_active ?ct then 0 + 1 else 1\<rparr>)"
  have "ct_stop ?ct = False" "demo_max_cycles ?c = 0" "demo_scenario_name ?c = ''normal''"
    by (simp_all add: started_def start_runtime_def thread_alive_def new_controller_def append_action_def Let_def current_runtime_config_def
        sample_thread_def numeral_2_eq_2 default_config_def or_normal_def strip_def)
  then have run: "ct_thread (perform_all sample_thread [(''t'', ThreadStep)] ?ct') = Cycling (start_loop sample_runtime) ?c" "demo_scenario_name ?c = ''normal''"
    using sample_fetched(1) by (simp_all add: start_counted)
  from scenario_takes_effect [OF started_reachable cur(2) a _ run(1)] cur(1)
  have "oa_applies_on_cycle (last (ct_actions ?ct')) = 1" by simp
  with a run show ?thesis by blast
qed

text \<open>
  C35. A stop request that arrives after the thread has set the status and before it has ended is
  never answered: the dashboard shows \<open>stopping\<close> and an active runtime although there is no thread, until the
  operator starts or stops again.
\<close>

theorem late_stop_stuck:
  assumes "dashboard_reachable env base ct" "ct_thread ct = Exiting" "0 < thread_steps evs"
    and "\<forall>ev \<in> set evs. snd ev \<noteq> StartRuntime \<and> snd ev \<noteq> StopRuntime"
  shows "ct_thread (perform_all env ((now, StopRuntime) # evs) ct) = NoThread \<and>
    ct_status (perform_all env ((now, StopRuntime) # evs) ct) = ''stopping'' \<and> is_runtime_active (perform_all env ((now, StopRuntime) # evs) ct)"
proof -
  let ?ct = "perform env (now, StopRuntime) ct"
  note inv = reachable_inv [OF assms(1)]
  note s = stop_requested [OF inv, of env now]
  have "ct_status ?ct = ''stopping''" "ct_thread ?ct = Exiting \<or> ct_thread ?ct = NoThread" using s assms(2) by (simp_all add: thread_alive_def)
  from late_stop_stays [OF perform_inv [OF inv] this(1) s(1) this(2) assms(4), where env = env] assms(3)
  show ?thesis by (simp add: is_runtime_active_def del: perform.simps)
qed

theorem late_stop_stuck_witness:
  "is_runtime_active (perform_all broken_thread [(''t'', StopRuntime), (''t'', ThreadStep)] (started broken_thread 4)) \<and>
    ct_thread (perform_all broken_thread [(''t'', StopRuntime), (''t'', ThreadStep)] (started broken_thread 4)) = NoThread"
  using late_stop_stuck [OF started_reachable broken_exiting, of "[(''t'', ThreadStep)]" "''t''"] by (simp add: thread_steps_def)

text \<open>
  C9. A stop request ends the run. Whatever the operator does meanwhile, within the next eight steps
  of the thread there is a moment when the thread has ended, and until then at most the cycle in
  progress is completed: none is started.
\<close>

theorem stop_ends_run:
  assumes "dashboard_reachable env base ct" "8 \<le> thread_steps evs"
  shows "\<exists>pre suf n m. evs = pre @ suf \<and> ct_thread (perform_all env ((now, StopRuntime) # pre) ct) = NoThread \<and> current_cycle ct = Inr n \<and>
    current_cycle (perform_all env ((now, StopRuntime) # pre) ct) = Inr m \<and> n \<le> m \<and> m \<le> n + in_cycle (ct_thread ct)"
proof -
  let ?ct = "perform env (now, StopRuntime) ct"
  note s = stop_requested [OF reachable_inv [OF assms(1)], of env now]
  have "dashboard_reachable env base ?ct" "ending ?ct" "stop_rank (ct_thread ?ct) \<le> thread_steps evs"
    using dashboard_reachable.event [OF assms(1)] s(1) rank_bound [of "ct_thread ?ct"] assms(2) unfolding ending_def by (blast, blast, linarith)
  from run_ends [OF this] show ?thesis by (simp only: perform_all_Cons s(2,3))
qed

theorem stop_ends_run_witness:
  "\<exists>pre suf. replicate 8 (''t'', ThreadStep) = pre @ suf \<and>
    ct_thread (perform_all sample_thread ((''t'', StopRuntime) # pre) (started sample_thread 2)) = NoThread"
proof -
  have "8 \<le> thread_steps (replicate 8 (''t'', ThreadStep))" by (simp add: thread_steps_def)
  from stop_ends_run [OF started_reachable this] show ?thesis by blast
qed

end
