(* ===== verification/WindowScan.thy ===== *)
theory WindowScan
  imports Sha256 "HOL-Library.Product_Lexorder"
begin

text \<open>
  What the partition checks of \<open>evidence/physical_partitions.py\<close> and
  \<open>evidence/syscall_partitions.py\<close> share: diagnostics and their canonical order, identifiers behind a
  resolver, and the scan of ordered rows for complete windows that cross no boundary.
\<close>

section \<open>Diagnostics\<close>

record diagnostic =
  dg_code :: string
  dg_subject_id :: string

record validation =
  va_accepted :: bool
  va_diagnostics :: "diagnostic list"
  va_authorization_effect :: string

type_synonym syscall_diagnostic = diagnostic
type_synonym syscall_validation = validation

definition diag :: "string \<Rightarrow> string \<Rightarrow> diagnostic" where
  "diag code subject = \<lparr>dg_code = code, dg_subject_id = subject\<rparr>"

definition diag_if :: "bool \<Rightarrow> string \<Rightarrow> string \<Rightarrow> diagnostic list" where
  "diag_if b code subject = (if b then [diag code subject] else [])"

text \<open>\<open>_result\<close>: without repetitions, by code and subject; accepted when there is none.\<close>

definition result_of :: "diagnostic list \<Rightarrow> validation" where
  "result_of ds = (let ordered = sort_key (\<lambda>d. (dg_code d, dg_subject_id d)) (remdups ds) in
     \<lparr>va_accepted = (ordered = []), va_diagnostics = ordered, va_authorization_effect = ''none''\<rparr>)"

type_synonym immutable_resolver = "string \<Rightarrow> bool"

definition immutable :: "immutable_resolver \<Rightarrow> string \<Rightarrow> bool" where
  "immutable resolver s = (is_immutable_id s \<and> resolver s)"

section \<open>Windows\<close>

text \<open>Rows in consecutive order with one boundary, and no gap but before the first.\<close>

definition contiguous :: "('e \<Rightarrow> int) \<Rightarrow> ('e \<Rightarrow> bool) \<Rightarrow> ('e \<Rightarrow> 'b) \<Rightarrow> 'e list \<Rightarrow> bool" where
  "contiguous sequence gap boundary rows = (\<forall>(i, e) \<in> set (enumerate 0 rows).
     sequence e = sequence (hd rows) + int i \<and> \<not> (i \<noteq> 0 \<and> gap e) \<and> boundary e = boundary (hd rows))"

text \<open>The loop: a window at every stride, the first crossing ends it. It does not end for a stride of zero.\<close>

partial_function (option) scan_windows :: "('e list \<Rightarrow> bool) \<Rightarrow> ('e list \<Rightarrow> 'w) \<Rightarrow> nat \<Rightarrow> nat \<Rightarrow> 'e list \<Rightarrow> 'w list \<Rightarrow> ('e + 'w list) option" where
  "scan_windows ok window len stride rows found =
     (if rows = [] \<or> length rows < len then Some (Inr found)
      else if \<not> ok (take len rows) then Some (Inl (hd rows))
      else scan_windows ok window len stride (drop stride rows) (found @ [window (take len rows)]))"

section \<open>Laws\<close>

lemma diag_if_Nil [simp]: "diag_if b code subject = [] \<longleftrightarrow> \<not> b"
  by (simp add: diag_if_def)

lemma result_accepted [simp]: "va_accepted (result_of ds) \<longleftrightarrow> ds = []"
proof -
  have "set (va_diagnostics (result_of ds)) = set ds" by (simp add: result_of_def Let_def)
  then show ?thesis by (auto simp: result_of_def Let_def simp flip: set_empty)
qed

lemma result_diagnostics: "set (va_diagnostics (result_of ds)) = set ds"
  by (simp add: result_of_def Let_def)

text \<open>How many windows fit, and the \<open>i\<close>-th of them.\<close>

definition window_count :: "nat \<Rightarrow> nat \<Rightarrow> nat \<Rightarrow> nat" where
  "window_count len stride n = (if n < len then 0 else Suc ((n - len) div stride))"

definition window_at :: "nat \<Rightarrow> nat \<Rightarrow> 'e list \<Rightarrow> nat \<Rightarrow> 'e list" where
  "window_at len stride rows i = take len (drop (i * stride) rows)"

lemma window_count_drop:
  assumes "0 < len" "0 < stride" "len \<le> n"
  shows "window_count len stride n = Suc (window_count len stride (n - stride))"
proof (cases "n - stride < len")
  case True
  then have "n - len < stride" using assms by linarith
  then show ?thesis using True assms by (simp add: window_count_def)
next
  case False
  then have "n - len = (n - stride - len) + stride" using assms by linarith
  then have "(n - len) div stride = Suc ((n - stride - len) div stride)" using assms by (metis div_add_self2 Suc_eq_plus1 not_gr_zero)
  then show ?thesis using False assms by (simp add: window_count_def)
qed

lemma window_at_drop: "window_at len stride (drop stride rows) i = window_at len stride rows (Suc i)"
  by (simp add: window_at_def add.commute)

lemma window_length:
  assumes "0 < stride" "i < window_count len stride (length rows)"
  shows "length (window_at len stride rows i) = len" "i * stride + len \<le> length rows"
proof -
  have n: "len \<le> length rows" "i \<le> (length rows - len) div stride" using assms(2) by (auto simp: window_count_def split: if_splits)
  then have "i * stride \<le> length rows - len" using assms(1) by (simp add: less_eq_div_iff_mult_less_eq)
  then show "i * stride + len \<le> length rows" using n(1) by linarith
  then show "length (window_at len stride rows i) = len" by (simp add: window_at_def)
qed

text \<open>The scan ends: with every window when none crosses a boundary, otherwise at the first that does.\<close>

lemma scan_result:
  assumes "0 < len" "0 < stride"
  shows "if \<forall>i < window_count len stride (length rows). ok (window_at len stride rows i)
    then scan_windows ok w len stride rows found =
      Some (Inr (found @ map (\<lambda>i. w (window_at len stride rows i)) [0 ..< window_count len stride (length rows)]))
    else \<exists>j < window_count len stride (length rows). \<not> ok (window_at len stride rows j) \<and>
      scan_windows ok w len stride rows found = Some (Inl (hd (window_at len stride rows j)))"
proof (induction "length rows" arbitrary: rows found rule: less_induct)
  case less
  let ?n = "window_count len stride (length rows)"
  note step = scan_windows.simps [of ok w len stride rows found]
  show ?case
  proof (cases "length rows < len")
    case True
    then show ?thesis by (simp add: step window_count_def)
  next
    case False
    then have ne: "rows \<noteq> []" using assms(1) by auto
    let ?rest = "drop stride rows"
    have n: "?n = Suc (window_count len stride (length ?rest))" using window_count_drop [OF assms, of "length rows"] False by simp
    have first: "window_at len stride rows 0 = take len rows" by (simp add: window_at_def)
    have hd: "hd (take len rows) = hd rows" using assms(1) by (cases rows; cases len) simp_all
    show ?thesis
    proof (cases "ok (take len rows)")
      case False
      then have "scan_windows ok w len stride rows found = Some (Inl (hd (window_at len stride rows 0)))"
        using \<open>\<not> length rows < len\<close> ne by (simp add: step first hd)
      then show ?thesis using False n first by (auto intro: exI [of _ 0])
    next
      case True
      have run: "scan_windows ok w len stride rows found = scan_windows ok w len stride ?rest (found @ [w (window_at len stride rows 0)])"
        using True False ne by (subst step) (simp add: first)
      have all: "(\<forall>i < ?n. ok (window_at len stride rows i)) \<longleftrightarrow> (\<forall>i < window_count len stride (length ?rest). ok (window_at len stride ?rest i))"
        unfolding n window_at_drop using True first by (metis less_Suc_eq_0_disj)
      have less': "length ?rest < length rows" using ne assms(2) by simp
      show ?thesis
      proof (cases "\<forall>i < ?n. ok (window_at len stride rows i)")
        case good: True
        have "map (\<lambda>i. w (window_at len stride rows i)) [0 ..< ?n] = w (window_at len stride rows 0) #
            map (\<lambda>i. w (window_at len stride ?rest i)) [0 ..< window_count len stride (length ?rest)]"
          unfolding n by (simp add: upt_conv_Cons map_Suc_upt [symmetric] comp_def window_at_drop del: upt_Suc)
        then show ?thesis using less.hyps [OF less', of "found @ [w (window_at len stride rows 0)]"] good all run by simp
      next
        case bad: False
        then obtain j where "j < window_count len stride (length ?rest)" "\<not> ok (window_at len stride ?rest j)"
          "scan_windows ok w len stride ?rest (found @ [w (window_at len stride rows 0)]) = Some (Inl (hd (window_at len stride ?rest j)))"
          using less.hyps [OF less', of "found @ [w (window_at len stride rows 0)]"] all by (auto split: if_splits)
        then have "Suc j < ?n" "\<not> ok (window_at len stride rows (Suc j))"
          "scan_windows ok w len stride rows found = Some (Inl (hd (window_at len stride rows (Suc j))))"
          by (simp_all add: n run window_at_drop)
        then show ?thesis using bad by auto
      qed
    qed
  qed
qed

lemma contiguous_iff:
  "contiguous sequence gap boundary rows \<longleftrightarrow> (\<forall>i < length rows. sequence (rows ! i) = sequence (hd rows) + int i \<and>
     (i \<noteq> 0 \<longrightarrow> \<not> gap (rows ! i)) \<and> boundary (rows ! i) = boundary (hd rows))"
proof -
  have "set (enumerate 0 rows) = {(i, rows ! i) | i. i < length rows}" by (auto simp: in_set_enumerate_eq)
  then show ?thesis by (auto simp: contiguous_def)
qed

text \<open>With a stride of one and windows of two rows or more, rows without a crossing have one boundary.\<close>

lemma one_boundary:
  assumes "2 \<le> len" "\<forall>i < window_count len 1 (length rows). contiguous sequence gap boundary (window_at len 1 rows i)" "len \<le> length rows"
  shows "\<forall>i < length rows. boundary (rows ! i) = boundary (hd rows) \<and> sequence (rows ! i) = sequence (hd rows) + int i"
proof -
  have step: "boundary (rows ! Suc i) = boundary (rows ! i) \<and> sequence (rows ! Suc i) = sequence (rows ! i) + 1" if i: "Suc i < length rows" for i
  proof -
    obtain k j where kj: "k < window_count len 1 (length rows)" "i = k + j" "Suc j < len"
    proof (cases "i + len \<le> length rows")
      case True
      then show ?thesis using assms(1,3) by (intro that [of i 0]) (auto simp: window_count_def)
    next
      case False
      then show ?thesis using assms(1,3) i by (intro that [of "length rows - len" "i - (length rows - len)"]) (auto simp: window_count_def)
    qed
    let ?w = "window_at len 1 rows k"
    have l: "length ?w = len" using window_length(1) [OF _ kj(1)] by simp
    have w: "?w ! m = rows ! (k + m)" if "m < len" for m
      using that window_length(2) [OF _ kj(1)] by (simp add: window_at_def)
    have "contiguous sequence gap boundary ?w" using assms(2) kj(1) by blast
    then have "boundary (?w ! j) = boundary (hd ?w)" "boundary (?w ! Suc j) = boundary (hd ?w)"
      "sequence (?w ! j) = sequence (hd ?w) + int j" "sequence (?w ! Suc j) = sequence (hd ?w) + int (Suc j)"
      using kj(3) unfolding contiguous_iff l by simp_all
    then show ?thesis using w kj(2,3) by simp
  qed
  have "boundary (rows ! i) = boundary (rows ! 0) \<and> sequence (rows ! i) = sequence (rows ! 0) + int i" if "i < length rows" for i
    using that step by (induction i) auto
  moreover have "hd rows = rows ! 0" using assms(1,3) by (cases rows) simp_all
  ultimately show ?thesis by simp
qed

end
