(* ===== verification/PhysicalPartitions.thy ===== *)
theory PhysicalPartitions
  imports WindowScan
begin

text \<open>
  \<open>evidence/physical_partitions.py\<close>: a partition of runs into roles, the windows of its observations, and
  the preprocessing that may only be fitted on the normal training runs. The resolver of
  identifiers is a parameter.
\<close>

section \<open>Partitions\<close>

definition PARTITION_ROLES :: "string list" where
  "PARTITION_ROLES = [''train'', ''validation'', ''calibration'', ''test'']"

record partition_member =
  pm_run_id :: string
  pm_role :: string
  pm_normal_eligible :: bool
  pm_run_manifest_id :: string

record physical_partition =
  pp_partition_id :: string
  pp_feature_schema_id :: string
  pp_parameter_evidence_ids :: "string list"
  pp_members :: "partition_member list"
  pp_authorization_effect :: string

definition reference_diagnostics :: "immutable_resolver \<Rightarrow> string \<Rightarrow> string list \<Rightarrow> diagnostic list" where
  "reference_diagnostics resolver code ids = concat (map (\<lambda>i. diag_if (\<not> immutable resolver i) code i) ids)"

definition partition_diagnostics :: "physical_partition \<Rightarrow> immutable_resolver \<Rightarrow> diagnostic list" where
  "partition_diagnostics p resolver = (let run_ids = map pm_run_id (pp_members p) in
     diag_if (pp_authorization_effect p \<noteq> ''none'') ''PPV1_PARTITION_AUTHORIZATION_EFFECT'' (pp_partition_id p)
     @ reference_diagnostics resolver ''PPV1_PARTITION_REFERENCE_UNRESOLVED''
         ([pp_partition_id p, pp_feature_schema_id p] @ pp_parameter_evidence_ids p)
     @ diag_if (pp_members p = []) ''PPV1_PARTITION_EMPTY'' (pp_partition_id p)
     @ (if distinct run_ids then [] else map (diag ''PPV1_RUN_ROLE_OVERLAP'') run_ids)
     @ concat (map (\<lambda>m. diag_if (pm_role m \<notin> set PARTITION_ROLES) ''PPV1_PARTITION_ROLE_INVALID'' (pm_run_id m)
         @ reference_diagnostics resolver ''PPV1_RUN_REFERENCE_UNRESOLVED'' [pm_run_id m, pm_run_manifest_id m]) (pp_members p)))"

definition validate_physical_partition :: "physical_partition \<Rightarrow> immutable_resolver \<Rightarrow> validation" where
  "validate_physical_partition p resolver = result_of (partition_diagnostics p resolver)"

section \<open>Windows\<close>

record physical_observation =
  po_observation_id :: string
  po_run_id :: string
  po_experiment_id :: string
  po_phase_id :: string
  po_scenario_id :: string
  po_profile_id :: string
  po_schema_id :: string
  po_partition_id :: string
  po_sequence :: int
  po_valid :: bool
  po_gap_before :: bool
  po_quality_id :: string

record window_parameters =
  wp_parameter_evidence_id :: string
  wp_window_length :: int
  wp_stride :: int
  wp_padding :: string
  wp_exclusion_policy_id :: string

record physical_window =
  pw_window_id :: string
  pw_source_run_id :: string
  pw_observation_ids :: "string list"
  pw_observation_start :: int
  pw_observation_end :: int
  pw_partition_id :: string
  pw_feature_schema_id :: string
  pw_preprocessing_id :: string
  pw_quality_ids :: "string list"
  pw_exclusion_ids :: "string list"
  pw_authorization_effect :: string

text \<open>What all observations of one window share.\<close>

definition observation_boundary :: "physical_observation \<Rightarrow> string list" where
  "observation_boundary x = [po_run_id x, po_experiment_id x, po_phase_id x, po_scenario_id x, po_profile_id x, po_schema_id x, po_partition_id x]"

definition observation_references :: "physical_observation \<Rightarrow> string list" where
  "observation_references x = [po_observation_id x, po_run_id x, po_experiment_id x, po_phase_id x, po_scenario_id x, po_profile_id x,
     po_schema_id x, po_partition_id x, po_quality_id x]"

definition observation_diagnostics :: "physical_partition \<Rightarrow> immutable_resolver \<Rightarrow> physical_observation \<Rightarrow> diagnostic list" where
  "observation_diagnostics p resolver x =
     diag_if (po_run_id x \<notin> set (map pm_run_id (pp_members p)) \<or> po_partition_id x \<noteq> pp_partition_id p
         \<or> po_schema_id x \<noteq> pp_feature_schema_id p) ''PPV1_OBSERVATION_PARTITION_MISMATCH'' (po_observation_id x)
     @ diag_if (\<not> list_all (immutable resolver) (observation_references x)) ''PPV1_OBSERVATION_REFERENCE_UNRESOLVED'' (po_observation_id x)
     @ diag_if (\<not> po_valid x) ''PPV1_INVALID_OBSERVATION'' (po_observation_id x)"

definition window_diagnostics ::
  "physical_partition \<Rightarrow> physical_observation list \<Rightarrow> window_parameters \<Rightarrow> string \<Rightarrow> immutable_resolver \<Rightarrow> diagnostic list" where
  "window_diagnostics p rows w preprocessing resolver =
     va_diagnostics (validate_physical_partition p resolver)
     @ reference_diagnostics resolver ''PPV1_WINDOW_REFERENCE_UNRESOLVED'' [wp_parameter_evidence_id w, wp_exclusion_policy_id w, preprocessing]
     @ diag_if (wp_window_length w < 1 \<or> wp_stride w < 1 \<or> wp_padding w \<noteq> ''none'') ''PPV1_WINDOW_PARAMETERS_INVALID'' (wp_parameter_evidence_id w)
     @ concat (map (observation_diagnostics p resolver) rows)"

definition physical_window_of :: "physical_partition \<Rightarrow> string \<Rightarrow> physical_observation list \<Rightarrow> physical_window" where
  "physical_window_of p preprocessing rows = \<lparr>
     pw_window_id = po_run_id (hd rows) @ '':'' @ str_of_int (po_sequence (hd rows)) @ '':'' @ str_of_int (po_sequence (last rows)),
     pw_source_run_id = po_run_id (hd rows), pw_observation_ids = map po_observation_id rows,
     pw_observation_start = po_sequence (hd rows), pw_observation_end = po_sequence (last rows),
     pw_partition_id = pp_partition_id p, pw_feature_schema_id = pp_feature_schema_id p, pw_preprocessing_id = preprocessing,
     pw_quality_ids = map po_quality_id rows, pw_exclusion_ids = [], pw_authorization_effect = ''none''\<rparr>"

definition ordered_observations :: "physical_observation list \<Rightarrow> physical_observation list" where
  "ordered_observations rows = sort_key (\<lambda>x. (po_run_id x, po_sequence x, po_observation_id x)) rows"

text \<open>The windows, or the diagnostics that refuse the whole preparation; \<open>None\<close> would be a loop without an end.\<close>

definition build_physical_windows ::
  "physical_partition \<Rightarrow> physical_observation list \<Rightarrow> window_parameters \<Rightarrow> string \<Rightarrow> immutable_resolver
     \<Rightarrow> (validation + physical_window list) option" where
  "build_physical_windows p rows w preprocessing resolver = (let errors = window_diagnostics p rows w preprocessing resolver in
     if errors \<noteq> [] then Some (Inl (result_of errors))
     else map_option (\<lambda>r. case r of Inl first \<Rightarrow> Inl (result_of [diag ''PPV1_WINDOW_BOUNDARY_CROSSING'' (po_observation_id first)])
           | Inr windows \<Rightarrow> Inr windows)
       (scan_windows (contiguous po_sequence po_gap_before observation_boundary) (physical_window_of p preprocessing)
          (nat (wp_window_length w)) (nat (wp_stride w)) (ordered_observations rows) []))"

section \<open>Preprocessing\<close>

record preprocessing_fit =
  pf_preprocessing_id :: string
  pf_partition_id :: string
  pf_training_run_ids :: "string list"
  pf_schema_id :: string
  pf_profile_id :: string
  pf_feature_order :: "string list"
  pf_missingness_policy_id :: string
  pf_algorithm_id :: string
  pf_parameter_evidence_ids :: "string list"
  pf_output_hash :: string
  pf_authorization_effect :: string

definition allowed_training_runs :: "physical_partition \<Rightarrow> string set" where
  "allowed_training_runs p = set (map pm_run_id (filter (\<lambda>m. pm_role m = ''train'' \<and> pm_normal_eligible m) (pp_members p)))"

definition fit_diagnostics :: "preprocessing_fit \<Rightarrow> physical_partition \<Rightarrow> immutable_resolver \<Rightarrow> diagnostic list" where
  "fit_diagnostics f p resolver =
     diag_if (\<not> va_accepted (validate_physical_partition p resolver)) ''PPV1_FIT_PARTITION_INVALID'' (pp_partition_id p)
     @ diag_if (pf_training_run_ids f = [] \<or> set (pf_training_run_ids f) \<noteq> allowed_training_runs p) ''PPV1_FIT_TRAINING_CLOSURE_INVALID''
         (pf_preprocessing_id f)
     @ diag_if (pf_partition_id f \<noteq> pp_partition_id p \<or> pf_schema_id f \<noteq> pp_feature_schema_id p)
         ''PPV1_FIT_PARTITION_OR_SCHEMA_MISMATCH'' (pf_preprocessing_id f)
     @ diag_if (pf_feature_order f = [] \<or> \<not> distinct (pf_feature_order f)) ''PPV1_FIT_FEATURE_ORDER_INVALID'' (pf_preprocessing_id f)
     @ reference_diagnostics resolver ''PPV1_FIT_REFERENCE_UNRESOLVED'' ([pf_preprocessing_id f, pf_partition_id f, pf_schema_id f,
         pf_profile_id f, pf_missingness_policy_id f, pf_algorithm_id f, pf_output_hash f] @ pf_training_run_ids f @ pf_parameter_evidence_ids f)"

definition validate_preprocessing_fit :: "preprocessing_fit \<Rightarrow> physical_partition \<Rightarrow> immutable_resolver \<Rightarrow> validation" where
  "validate_preprocessing_fit f p resolver = result_of (fit_diagnostics f p resolver)"

definition validate_frozen_preprocessing_application ::
  "preprocessing_fit \<Rightarrow> physical_partition \<Rightarrow> string \<Rightarrow> string \<Rightarrow> string \<Rightarrow> string list \<Rightarrow> string \<Rightarrow> string \<Rightarrow> immutable_resolver \<Rightarrow> validation" where
  "validate_frozen_preprocessing_application f p role schema_id profile_id feature_order missingness_policy_id output_hash resolver =
     result_of (va_diagnostics (validate_preprocessing_fit f p resolver)
       @ diag_if (role \<notin> {''validation'', ''calibration'', ''test'', ''live''}) ''PPV1_APPLY_ROLE_INVALID'' role
       @ diag_if ((schema_id, profile_id, feature_order, missingness_policy_id, output_hash)
           \<noteq> (pf_schema_id f, pf_profile_id f, pf_feature_order f, pf_missingness_policy_id f, pf_output_hash f))
         ''PPV1_FROZEN_PREPROCESSING_MISMATCH'' (pf_preprocessing_id f))"

section \<open>Laws\<close>

lemma concat_map_Nil: "concat (map f xs) = [] \<longleftrightarrow> (\<forall>x \<in> set xs. f x = [])"
  by auto

lemma result_Nil: "va_diagnostics (result_of ds) = [] \<longleftrightarrow> ds = []"
  using result_diagnostics [of ds] by (auto simp flip: set_empty)

lemma accepted_partition:
  assumes "va_accepted (validate_physical_partition p resolver)"
  shows "distinct (map pm_run_id (pp_members p))" "pp_members p \<noteq> []" "\<forall>m \<in> set (pp_members p). pm_role m \<in> set PARTITION_ROLES"
  using assms by (auto simp: validate_physical_partition_def partition_diagnostics_def Let_def concat_map_Nil split: if_splits)

lemma accepted_windows:
  assumes "window_diagnostics p rows w preprocessing resolver = []"
  shows "va_accepted (validate_physical_partition p resolver)" "1 \<le> wp_window_length w" "1 \<le> wp_stride w"
    "\<forall>x \<in> set rows. po_valid x \<and> po_run_id x \<in> set (map pm_run_id (pp_members p)) \<and> po_partition_id x = pp_partition_id p"
  using assms by (auto simp: window_diagnostics_def validate_physical_partition_def observation_diagnostics_def concat_map_Nil result_Nil)

text \<open>What an accepted preparation consists of.\<close>

lemma built_windows:
  assumes "build_physical_windows p rows w preprocessing resolver = Some (Inr ws)"
  defines "len \<equiv> nat (wp_window_length w)" and "stride \<equiv> nat (wp_stride w)" and "os \<equiv> ordered_observations rows"
  shows "window_diagnostics p rows w preprocessing resolver = []" "0 < len" "0 < stride"
    "\<forall>i < window_count len stride (length os). contiguous po_sequence po_gap_before observation_boundary (window_at len stride os i)"
    "ws = map (\<lambda>i. physical_window_of p preprocessing (window_at len stride os i)) [0 ..< window_count len stride (length os)]"
proof -
  show d: "window_diagnostics p rows w preprocessing resolver = []"
    using assms(1) by (auto simp: build_physical_windows_def Let_def split: if_splits)
  then show l: "0 < len" "0 < stride" using accepted_windows(2,3) [OF d] by (simp_all add: len_def stride_def)
  have s: "scan_windows (contiguous po_sequence po_gap_before observation_boundary) (physical_window_of p preprocessing) len stride os [] = Some (Inr ws)"
    using assms(1) d unfolding build_physical_windows_def Let_def len_def stride_def os_def
    by (auto simp: map_option_case split: option.splits sum.splits if_splits)
  note r = scan_result [OF l, where ok = "contiguous po_sequence po_gap_before observation_boundary" and rows = os
    and w = "physical_window_of p preprocessing" and found = "[]"]
  show "\<forall>i < window_count len stride (length os). contiguous po_sequence po_gap_before observation_boundary (window_at len stride os i)"
    using r s by (auto split: if_splits)
  then show "ws = map (\<lambda>i. physical_window_of p preprocessing (window_at len stride os i)) [0 ..< window_count len stride (length os)]"
    using r s by simp
qed

lemma build_total: "\<exists>r. build_physical_windows p rows w preprocessing resolver = Some r"
proof (cases "window_diagnostics p rows w preprocessing resolver = []")
  case True
  then have "0 < nat (wp_window_length w)" "0 < nat (wp_stride w)" using accepted_windows(2,3) [OF True] by simp_all
  from scan_result [OF this, where rows = "ordered_observations rows" and ok = "contiguous po_sequence po_gap_before observation_boundary"
      and w = "physical_window_of p preprocessing" and found = "[]"]
  show ?thesis using True by (auto simp: build_physical_windows_def Let_def split: if_splits)
qed (simp add: build_physical_windows_def Let_def)

lemma window_rows: "i < window_count len stride (length os) \<Longrightarrow> 0 < len \<Longrightarrow> 0 < stride \<Longrightarrow>
    window_at len stride os i \<noteq> [] \<and> set (window_at len stride os i) \<subseteq> set os"
  using window_length(1) [of stride i len os] by (auto simp: window_at_def dest: in_set_takeD in_set_dropD)

lemma ordered_set [simp]: "set (ordered_observations rows) = set rows"
  by (simp add: ordered_observations_def)

lemma ordered_length [simp]: "length (ordered_observations rows) = length rows"
  by (simp add: ordered_observations_def)

lemma one_member_each:
  assumes "distinct (map pm_run_id ms)" "m \<in> set ms" "m' \<in> set ms" "pm_run_id m = pm_run_id m'"
  shows "m = m'"
  using assms by (simp add: distinct_map inj_on_def)

lemma accepted_fit:
  assumes "va_accepted (validate_preprocessing_fit f p resolver)"
  shows "va_accepted (validate_physical_partition p resolver)" "set (pf_training_run_ids f) = allowed_training_runs p" "pf_training_run_ids f \<noteq> []"
  using assms by (auto simp: validate_preprocessing_fit_def fit_diagnostics_def)

text \<open>A window is whole: as many rows as the parameters ask for, of one run, in sequence and valid.\<close>

definition whole_window :: "physical_partition \<Rightarrow> physical_observation list \<Rightarrow> window_parameters \<Rightarrow> physical_window \<Rightarrow> bool" where
  "whole_window p rows w pw \<longleftrightarrow> (\<exists>os. set os \<subseteq> set rows \<and> int (length os) = wp_window_length w \<and> pw_observation_ids pw = map po_observation_id os \<and>
     (\<forall>i < length os. po_valid (os ! i) \<and> po_run_id (os ! i) = pw_source_run_id pw \<and> po_sequence (os ! i) = pw_observation_start pw + int i \<and>
        (i \<noteq> 0 \<longrightarrow> \<not> po_gap_before (os ! i)) \<and> observation_boundary (os ! i) = observation_boundary (hd os)) \<and>
     pw_observation_end pw = pw_observation_start pw + wp_window_length w - 1 \<and>
     (\<exists>!m. m \<in> set (pp_members p) \<and> pm_run_id m = pw_source_run_id pw))"

lemma boundary_run: "observation_boundary x = observation_boundary y \<Longrightarrow> po_run_id x = po_run_id y"
  by (simp add: observation_boundary_def)

lemma built_whole:
  assumes "build_physical_windows p rows w preprocessing resolver = Some (Inr ws)" "pw \<in> set ws"
  shows "whole_window p rows w pw"
proof -
  note b = built_windows [OF assms(1)]
  note acc = accepted_windows [OF b(1)]
  let ?len = "nat (wp_window_length w)" and ?stride = "nat (wp_stride w)" and ?os = "ordered_observations rows"
  obtain i where i: "i < window_count ?len ?stride (length ?os)" "pw = physical_window_of p preprocessing (window_at ?len ?stride ?os i)"
    using assms(2) unfolding b(5) by auto
  define os where "os = window_at ?len ?stride ?os i"
  have l: "length os = ?len" "os \<noteq> []" "set os \<subseteq> set rows"
    using window_length(1) [OF b(3) i(1)] window_rows [OF i(1) b(2,3)] by (simp_all add: os_def)
  have c: "contiguous po_sequence po_gap_before observation_boundary os" using b(4) i(1) by (simp add: os_def)
  have pw: "pw_source_run_id pw = po_run_id (hd os)" "pw_observation_start pw = po_sequence (hd os)" "pw_observation_end pw = po_sequence (last os)"
    "pw_observation_ids pw = map po_observation_id os"
    by (simp_all add: i(2) physical_window_of_def os_def)
  have rows: "po_valid (os ! k) \<and> po_run_id (os ! k) = pw_source_run_id pw \<and> po_sequence (os ! k) = pw_observation_start pw + int k \<and>
      (k \<noteq> 0 \<longrightarrow> \<not> po_gap_before (os ! k)) \<and> observation_boundary (os ! k) = observation_boundary (hd os)" if "k < length os" for k
    using that c acc(4) l(3) boundary_run unfolding contiguous_iff pw by (meson nth_mem subsetD)
  have "po_sequence (last os) = po_sequence (hd os) + wp_window_length w - 1"
    using rows [of "length os - 1"] l(1,2) acc(2) by (simp add: last_conv_nth pw)
  moreover have "hd os \<in> set rows" using l(2,3) hd_in_set by blast
  then have "\<exists>m \<in> set (pp_members p). pm_run_id m = pw_source_run_id pw" using acc(4) unfolding pw by force
  then have "\<exists>!m. m \<in> set (pp_members p) \<and> pm_run_id m = pw_source_run_id pw"
    using one_member_each [OF accepted_partition(1) [OF acc(1)]] by metis
  ultimately show ?thesis using rows l acc(2) pw unfolding whole_window_def by (intro exI [of _ os]) (simp add: pw)
qed

lemma built_one_run:
  assumes "build_physical_windows p rows w preprocessing resolver = Some (Inr ws)" "wp_stride w = 1" "2 \<le> wp_window_length w"
    "wp_window_length w \<le> int (length rows)" "x \<in> set rows" "y \<in> set rows"
  shows "po_run_id x = po_run_id y"
proof -
  note b = built_windows [OF assms(1)]
  let ?os = "ordered_observations rows"
  have "2 \<le> nat (wp_window_length w)" "nat (wp_window_length w) \<le> length ?os" using assms(3,4) by simp_all
  then have all: "\<forall>i < length ?os. observation_boundary (?os ! i) = observation_boundary (hd ?os)"
    using one_boundary [of "nat (wp_window_length w)" ?os po_sequence po_gap_before observation_boundary] b(4)
    by (simp only: assms(2) nat_one_as_int [symmetric] simp_thms) simp
  have "po_run_id z = po_run_id (hd ?os)" if "z \<in> set rows" for z
    using all that boundary_run by (metis in_set_conv_nth ordered_set)
  then show ?thesis using assms(5,6) by simp
qed

section \<open>Properties\<close>

text \<open>
  C26. Building the windows always ends. Accepted windows are as many as fit, and each is whole: of the
  declared length, valid, in consecutive sequence without a gap, inside one run, experiment,
  phase, scenario, profile, schema and partition, and that run has exactly one role.
\<close>
theorem physical_windows_whole:
  shows "\<exists>r. build_physical_windows p rows w preprocessing resolver = Some r \<and> (\<forall>ws. r = Inr ws \<longrightarrow>
    length ws = window_count (nat (wp_window_length w)) (nat (wp_stride w)) (length rows) \<and> (\<forall>pw \<in> set ws. whole_window p rows w pw))"
proof -
  obtain r where r: "build_physical_windows p rows w preprocessing resolver = Some r" using build_total by metis
  moreover have "length ws = window_count (nat (wp_window_length w)) (nat (wp_stride w)) (length rows)" if "r = Inr ws" for ws
    using built_windows(5) [of p rows w preprocessing resolver ws] r that by (metis diff_zero length_map length_upt ordered_length)
  moreover have "\<forall>pw \<in> set ws. whole_window p rows w pw" if "r = Inr ws" for ws using built_whole r that by blast
  ultimately show ?thesis by blast
qed

text \<open>
  C23. Fitted state learns from the training runs only: the runs of an accepted fit are all normal
  eligible members with the role train, and no member with another role shares a run with them.
\<close>
theorem physical_fit_no_leakage:
  assumes "va_accepted (validate_preprocessing_fit f p resolver)"
  shows "set (pf_training_run_ids f) = pm_run_id ` {m \<in> set (pp_members p). pm_role m = ''train'' \<and> pm_normal_eligible m} \<and>
    (\<forall>m\<in>set (pp_members p). pm_run_id m \<in> set (pf_training_run_ids f) \<longleftrightarrow> pm_role m = ''train'' \<and> pm_normal_eligible m)"
proof
  show eq: "set (pf_training_run_ids f) = pm_run_id ` {m \<in> set (pp_members p). pm_role m = ''train'' \<and> pm_normal_eligible m}"
    using accepted_fit(2) [OF assms] by (auto simp: allowed_training_runs_def)
  show "\<forall>m\<in>set (pp_members p). pm_run_id m \<in> set (pf_training_run_ids f) \<longleftrightarrow> pm_role m = ''train'' \<and> pm_normal_eligible m"
    using one_member_each [OF accepted_partition(1) [OF accepted_fit(1) [OF assms]]] unfolding eq by auto
qed

text \<open>
  With a stride of one and windows of two observations or more, the observations of an accepted
  preparation all belong to one run: several runs in one call are always refused.
\<close>
theorem physical_windows_one_run:
  assumes "build_physical_windows p rows w preprocessing resolver = Some (Inr ws)" "wp_stride w = 1" "2 \<le> wp_window_length w"
    "wp_window_length w \<le> int (length rows)" "x \<in> set rows" "y \<in> set rows"
  shows "po_run_id x = po_run_id y"
  using assms by (rule built_one_run)

section \<open>Witnesses\<close>

definition example_id :: "char \<Rightarrow> string" where
  "example_id c = DIGEST_PREFIX @ replicate 64 c"

definition example_partition :: physical_partition where
  "example_partition = \<lparr>pp_partition_id = example_id CHR ''a'', pp_feature_schema_id = example_id CHR ''b'', pp_parameter_evidence_ids = [],
     pp_members = [\<lparr>pm_run_id = example_id CHR ''1'', pm_role = ''train'', pm_normal_eligible = True, pm_run_manifest_id = example_id CHR ''c''\<rparr>,
       \<lparr>pm_run_id = example_id CHR ''2'', pm_role = ''test'', pm_normal_eligible = True, pm_run_manifest_id = example_id CHR ''d''\<rparr>],
     pp_authorization_effect = ''none''\<rparr>"

definition example_observation :: "int \<Rightarrow> physical_observation" where
  "example_observation i = \<lparr>po_observation_id = example_id CHR ''3'', po_run_id = example_id CHR ''1'', po_experiment_id = example_id CHR ''4'',
     po_phase_id = example_id CHR ''5'', po_scenario_id = example_id CHR ''6'', po_profile_id = example_id CHR ''7'', po_schema_id = example_id CHR ''b'',
     po_partition_id = example_id CHR ''a'', po_sequence = i, po_valid = True, po_gap_before = False, po_quality_id = example_id CHR ''8''\<rparr>"

definition example_window :: window_parameters where
  "example_window = \<lparr>wp_parameter_evidence_id = example_id CHR ''9'', wp_window_length = 2, wp_stride = 1, wp_padding = ''none'',
     wp_exclusion_policy_id = example_id CHR ''e''\<rparr>"

definition example_fit :: preprocessing_fit where
  "example_fit = \<lparr>pf_preprocessing_id = example_id CHR ''f'', pf_partition_id = example_id CHR ''a'', pf_training_run_ids = [example_id CHR ''1''],
     pf_schema_id = example_id CHR ''b'', pf_profile_id = example_id CHR ''7'', pf_feature_order = [''temperature'', ''pressure''],
     pf_missingness_policy_id = example_id CHR ''0'', pf_algorithm_id = example_id CHR ''3'', pf_parameter_evidence_ids = [],
     pf_output_hash = example_id CHR ''4'', pf_authorization_effect = ''none''\<rparr>"

lemma example_immutable: "c \<in> hex_lower \<Longrightarrow> immutable (\<lambda>_. True) (example_id c)"
  by (simp add: immutable_def is_immutable_id_def example_id_def DIGEST_PREFIX_def list_all_iff)

lemma example_id_inject [simp]: "example_id c = example_id d \<longleftrightarrow> c = d"
  by (simp add: example_id_def)

lemma example_partition_accepted: "partition_diagnostics example_partition (\<lambda>_. True) = []"
  unfolding partition_diagnostics_def example_partition_def
  by (simp add: Let_def reference_diagnostics_def example_immutable hex_lower_def PARTITION_ROLES_def)

lemma example_windows:
  "build_physical_windows example_partition (map example_observation [1, 2, 3]) example_window (example_id CHR ''f'') (\<lambda>_. True) =
     Some (Inr (map (physical_window_of example_partition (example_id CHR ''f'')) [map example_observation [1, 2], map example_observation [2, 3]]))"
proof -
  have d: "window_diagnostics example_partition (map example_observation [1, 2, 3]) example_window (example_id CHR ''f'') (\<lambda>_. True) = []"
    by (simp add: window_diagnostics_def validate_physical_partition_def example_partition_accepted result_Nil reference_diagnostics_def
        example_immutable hex_lower_def example_window_def observation_diagnostics_def observation_references_def example_observation_def)
      (simp add: example_partition_def)
  have sorted: "ordered_observations (map example_observation [1, 2, 3]) = map example_observation [1, 2, 3]"
    by (simp add: ordered_observations_def example_observation_def)
  show ?thesis unfolding build_physical_windows_def d sorted Let_def
    by (simp add: example_window_def scan_windows.simps contiguous_def example_observation_def observation_boundary_def)
qed

lemma example_training_runs: "allowed_training_runs example_partition = {example_id CHR ''1''}"
  unfolding allowed_training_runs_def example_partition_def by (simp del: set_map set_filter)

theorem physical_fit_no_leakage_witness:
  "set (pf_training_run_ids example_fit) = {example_id CHR ''1''} \<and> example_id CHR ''2'' \<notin> set (pf_training_run_ids example_fit)"
proof -
  have a: "va_accepted (validate_preprocessing_fit example_fit example_partition (\<lambda>_. True))"
    by (simp add: validate_preprocessing_fit_def fit_diagnostics_def validate_physical_partition_def example_partition_accepted
        reference_diagnostics_def example_fit_def example_immutable hex_lower_def example_training_runs) (simp add: example_partition_def)
  have "{m \<in> set (pp_members example_partition). pm_role m = ''train'' \<and> pm_normal_eligible m} = {pp_members example_partition ! 0}"
    by (auto simp: example_partition_def)
  then show ?thesis using conjunct1 [OF physical_fit_no_leakage [OF a]] by (simp add: example_partition_def)
qed

theorem physical_windows_one_run_witness: "po_run_id (example_observation 1) = po_run_id (example_observation 3)"
  using physical_windows_one_run [OF example_windows, of "example_observation 1" "example_observation 3"] by (simp add: example_window_def)

theorem physical_windows_whole_witness:
  "whole_window example_partition (map example_observation [1, 2, 3]) example_window
       (physical_window_of example_partition (example_id CHR ''f'') (map example_observation [1, 2])) \<and>
     whole_window example_partition (map example_observation [1, 2, 3]) example_window
       (physical_window_of example_partition (example_id CHR ''f'') (map example_observation [2, 3]))"
  using physical_windows_whole [of example_partition "map example_observation [1, 2, 3]" example_window "example_id CHR ''f''" "\<lambda>_. True"]
    example_windows by simp

end
