(* ===== verification/SyscallPartitions.thy ===== *)
theory SyscallPartitions
  imports PhysicalPartitions
begin

text \<open>
  \<open>evidence/syscall_partitions.py\<close>: capture groups assigned to roles, the canonical order of categorical
  system call events, their windows, and the closure of a fitted vocabulary.
\<close>

section \<open>Partitions\<close>

definition SYSCALL_ROLES :: "string list" where
  "SYSCALL_ROLES = [''train'', ''validation'', ''calibration'', ''test'']"

record syscall_member =
  sm_run_id :: string
  sm_role :: string
  sm_normal_eligible :: bool
  sm_run_manifest_id :: string
  sm_boot_id :: string
  sm_session_id :: string
  sm_container_id :: string
  sm_process_scope_id :: string
  sm_capture_group_id :: string
  sm_batch_ids :: "string list"

record syscall_partition =
  sp_partition_id :: string
  sp_feature_schema_id :: string
  sp_parameter_evidence_ids :: "string list"
  sp_members :: "syscall_member list"
  sp_authorization_effect :: string

definition member_identities :: "syscall_member \<Rightarrow> string list" where
  "member_identities m = [sm_run_id m, sm_run_manifest_id m, sm_boot_id m, sm_session_id m, sm_container_id m, sm_process_scope_id m,
     sm_capture_group_id m] @ sm_batch_ids m"

definition member_diagnostics :: "immutable_resolver \<Rightarrow> syscall_member \<Rightarrow> diagnostic list" where
  "member_diagnostics resolver m =
     diag_if (sm_role m \<notin> set SYSCALL_ROLES) ''SPV1_PARTITION_ROLE_INVALID'' (sm_capture_group_id m)
     @ diag_if (sm_batch_ids m = []) ''SPV1_CAPTURE_GROUP_BATCHES_EMPTY'' (sm_capture_group_id m)
     @ diag_if (\<not> list_all (immutable resolver) (member_identities m)) ''SPV1_CAPTURE_GROUP_REFERENCE_UNRESOLVED'' (sm_capture_group_id m)"

definition syscall_partition_diagnostics :: "syscall_partition \<Rightarrow> immutable_resolver \<Rightarrow> diagnostic list" where
  "syscall_partition_diagnostics p resolver = (let group_ids = map sm_capture_group_id (sp_members p) in
     diag_if (sp_authorization_effect p \<noteq> ''none'') ''SPV1_PARTITION_AUTHORIZATION_EFFECT'' (sp_partition_id p)
     @ reference_diagnostics resolver ''SPV1_PARTITION_REFERENCE_UNRESOLVED''
         ([sp_partition_id p, sp_feature_schema_id p] @ sp_parameter_evidence_ids p)
     @ diag_if (sp_members p = []) ''SPV1_PARTITION_EMPTY'' (sp_partition_id p)
     @ (if distinct group_ids then [] else map (diag ''SPV1_CAPTURE_GROUP_ROLE_OVERLAP'') group_ids)
     @ concat (map (member_diagnostics resolver) (sp_members p)))"

definition validate_syscall_partition :: "syscall_partition \<Rightarrow> immutable_resolver \<Rightarrow> syscall_validation" where
  "validate_syscall_partition p resolver = result_of (syscall_partition_diagnostics p resolver)"

section \<open>Events\<close>

record syscall_event =
  se_event_id :: string
  se_batch_id :: string
  se_raw_segment_id :: string
  se_run_id :: string
  se_boot_id :: string
  se_session_id :: string
  se_container_id :: string
  se_process_scope_id :: string
  se_capture_group_id :: string
  se_collector_id :: string
  se_filter_id :: string
  se_kernel_id :: string
  se_abi_id :: string
  se_schema_id :: string
  se_partition_id :: string
  se_source_identity :: string
  se_categorical_name :: string
  se_direction :: string
  se_sequence :: int
  se_timestamp :: string
  se_gap_before :: bool
  se_loss_boundary_before :: bool
  se_duplicate :: bool
  se_queue_pressure :: bool
  se_quality_id :: string
  se_exclusion_policy_id :: string

definition event_identities :: "syscall_event \<Rightarrow> string list" where
  "event_identities e = [se_event_id e, se_batch_id e, se_raw_segment_id e, se_run_id e, se_boot_id e, se_session_id e, se_container_id e,
     se_process_scope_id e, se_capture_group_id e, se_collector_id e, se_filter_id e, se_kernel_id e, se_abi_id e, se_schema_id e,
     se_partition_id e, se_source_identity e, se_quality_id e, se_exclusion_policy_id e]"

definition event_key :: "syscall_event \<Rightarrow> string \<times> int" where
  "event_key e = (se_raw_segment_id e, se_sequence e)"

text \<open>The loop over the events, with the positions it has seen.\<close>

fun event_diagnostics :: "immutable_resolver \<Rightarrow> (string \<times> int) set \<Rightarrow> syscall_event list \<Rightarrow> diagnostic list" where
  "event_diagnostics resolver seen [] = []"
| "event_diagnostics resolver seen (e # es) =
     diag_if (\<not> list_all (immutable resolver) (event_identities e)) ''SPV1_EVENT_REFERENCE_UNRESOLVED'' (se_event_id e)
     @ diag_if (se_categorical_name e = [] \<or> se_direction e = [] \<or> se_timestamp e = [] \<or> se_sequence e < 0)
         ''SPV1_EVENT_CATEGORICAL_FIELDS_INVALID'' (se_event_id e)
     @ diag_if (event_key e \<in> seen \<or> se_duplicate e) ''SPV1_EVENT_DUPLICATE_OR_AMBIGUOUS'' (se_event_id e)
     @ event_diagnostics resolver (insert (event_key e) seen) es"

definition canonicalize_categorical_syscalls :: "syscall_event list \<Rightarrow> immutable_resolver \<Rightarrow> syscall_validation + syscall_event list" where
  "canonicalize_categorical_syscalls rows resolver = (let errors = event_diagnostics resolver {} rows in
     if errors \<noteq> [] then Inl (result_of errors)
     else Inr (sort_key (\<lambda>e. (se_run_id e, se_raw_segment_id e, se_sequence e, se_event_id e)) rows))"

section \<open>Windows\<close>

record syscall_window_parameters =
  sw_parameter_evidence_id :: string
  sw_window_length :: int
  sw_stride :: int
  sw_padding :: string
  sw_exclusion_policy_id :: string
  sw_loss_policy_id :: string

record syscall_window =
  cw_window_id :: string
  cw_source_run_id :: string
  cw_event_ids :: "string list"
  cw_batch_ids :: "string list"
  cw_raw_segment_ids :: "string list"
  cw_event_start :: int
  cw_event_end :: int
  cw_partition_id :: string
  cw_feature_schema_id :: string
  cw_preprocessing_id :: string
  cw_quality_ids :: "string list"
  cw_exclusion_ids :: "string list"
  cw_authorization_effect :: string

definition event_boundary :: "syscall_event \<Rightarrow> string list" where
  "event_boundary e = [se_run_id e, se_boot_id e, se_session_id e, se_container_id e, se_process_scope_id e, se_capture_group_id e,
     se_raw_segment_id e, se_batch_id e, se_collector_id e, se_filter_id e, se_kernel_id e, se_abi_id e, se_schema_id e, se_partition_id e,
     se_exclusion_policy_id e]"

definition event_scope :: "syscall_event \<Rightarrow> string list" where
  "event_scope e = [se_boot_id e, se_session_id e, se_container_id e, se_process_scope_id e, se_capture_group_id e]"

definition member_scope :: "syscall_member \<Rightarrow> string list" where
  "member_scope m = [sm_boot_id m, sm_session_id m, sm_container_id m, sm_process_scope_id m, sm_capture_group_id m]"

text \<open>The dictionary of members by run: the last member of a run wins.\<close>

definition members_by_run :: "syscall_partition \<Rightarrow> string \<rightharpoonup> syscall_member" where
  "members_by_run p = map_of (rev (map (\<lambda>m. (sm_run_id m, m)) (sp_members p)))"

definition membership_diagnostics :: "syscall_partition \<Rightarrow> syscall_event \<Rightarrow> diagnostic list" where
  "membership_diagnostics p e = (case members_by_run p (se_run_id e) of
       None \<Rightarrow> [diag ''SPV1_EVENT_PARTITION_MISMATCH'' (se_event_id e)]
     | Some m \<Rightarrow>
         if se_partition_id e \<noteq> sp_partition_id p \<or> se_schema_id e \<noteq> sp_feature_schema_id p then [diag ''SPV1_EVENT_PARTITION_MISMATCH'' (se_event_id e)]
         else if event_scope e \<noteq> member_scope m then [diag ''SPV1_EVENT_CAPTURE_SCOPE_MISMATCH'' (se_event_id e)]
         else diag_if (se_batch_id e \<notin> set (sm_batch_ids m)) ''SPV1_EVENT_BATCH_UNDECLARED'' (se_event_id e))"

definition syscall_parameter_diagnostics :: "syscall_partition \<Rightarrow> syscall_window_parameters \<Rightarrow> string \<Rightarrow> immutable_resolver \<Rightarrow> diagnostic list" where
  "syscall_parameter_diagnostics p w preprocessing resolver =
     va_diagnostics (validate_syscall_partition p resolver)
     @ reference_diagnostics resolver ''SPV1_WINDOW_REFERENCE_UNRESOLVED''
         [sw_parameter_evidence_id w, sw_exclusion_policy_id w, sw_loss_policy_id w, preprocessing]
     @ diag_if (sw_window_length w < 1 \<or> sw_stride w < 1 \<or> sw_padding w \<noteq> ''none'') ''SPV1_WINDOW_PARAMETERS_INVALID'' (sw_parameter_evidence_id w)"

definition syscall_window_of :: "syscall_partition \<Rightarrow> string \<Rightarrow> syscall_event list \<Rightarrow> syscall_window" where
  "syscall_window_of p preprocessing es = \<lparr>
     cw_window_id = se_run_id (hd es) @ '':'' @ se_raw_segment_id (hd es) @ '':'' @ str_of_int (se_sequence (hd es)) @ '':'' @ str_of_int (se_sequence (last es)),
     cw_source_run_id = se_run_id (hd es), cw_event_ids = map se_event_id es, cw_batch_ids = map se_batch_id es,
     cw_raw_segment_ids = map se_raw_segment_id es, cw_event_start = se_sequence (hd es), cw_event_end = se_sequence (last es),
     cw_partition_id = sp_partition_id p, cw_feature_schema_id = sp_feature_schema_id p, cw_preprocessing_id = preprocessing,
     cw_quality_ids = map se_quality_id es, cw_exclusion_ids = [se_exclusion_policy_id (hd es)], cw_authorization_effect = ''none''\<rparr>"

definition event_gap :: "syscall_event \<Rightarrow> bool" where
  "event_gap e = (se_gap_before e \<or> se_loss_boundary_before e)"

definition build_syscall_windows ::
  "syscall_partition \<Rightarrow> syscall_event list \<Rightarrow> syscall_window_parameters \<Rightarrow> string \<Rightarrow> immutable_resolver
     \<Rightarrow> (syscall_validation + syscall_window list) option" where
  "build_syscall_windows p rows w preprocessing resolver = (let errors = syscall_parameter_diagnostics p w preprocessing resolver in
     case canonicalize_categorical_syscalls rows resolver of
       Inl v \<Rightarrow> Some (Inl (result_of (errors @ va_diagnostics v)))
     | Inr canonical \<Rightarrow>
         let errors = errors @ concat (map (membership_diagnostics p) canonical) in
         if errors \<noteq> [] then Some (Inl (result_of errors))
         else map_option (\<lambda>r. case r of Inl first \<Rightarrow> Inl (result_of [diag ''SPV1_WINDOW_BOUNDARY_CROSSING'' (se_event_id first)])
               | Inr windows \<Rightarrow> Inr windows)
           (scan_windows (contiguous se_sequence event_gap event_boundary) (syscall_window_of p preprocessing)
              (nat (sw_window_length w)) (nat (sw_stride w)) canonical []))"

section \<open>Preprocessing\<close>

record syscall_fit =
  sf_preprocessing_id :: string
  sf_partition_id :: string
  sf_training_run_ids :: "string list"
  sf_training_event_ids :: "string list"
  sf_schema_id :: string
  sf_vocabulary_id :: string
  sf_vocabulary_mapping_hash :: string
  sf_frequency_state_hash :: string
  sf_unknown_event_policy_id :: string
  sf_algorithm_id :: string
  sf_parameter_evidence_ids :: "string list"
  sf_code_id :: string
  sf_output_hash :: string
  sf_authorization_effect :: string

definition allowed_syscall_runs :: "syscall_partition \<Rightarrow> string set" where
  "allowed_syscall_runs p = set (map sm_run_id (filter (\<lambda>m. sm_role m = ''train'' \<and> sm_normal_eligible m) (sp_members p)))"

definition fit_identities :: "syscall_fit \<Rightarrow> string list" where
  "fit_identities f = [sf_preprocessing_id f, sf_partition_id f] @ sf_training_run_ids f @ sf_training_event_ids f @
     [sf_schema_id f, sf_vocabulary_id f, sf_vocabulary_mapping_hash f, sf_frequency_state_hash f, sf_unknown_event_policy_id f, sf_algorithm_id f]
     @ sf_parameter_evidence_ids f @ [sf_code_id f, sf_output_hash f]"

definition syscall_fit_diagnostics :: "syscall_fit \<Rightarrow> syscall_partition \<Rightarrow> immutable_resolver \<Rightarrow> diagnostic list" where
  "syscall_fit_diagnostics f p resolver =
     diag_if (\<not> va_accepted (validate_syscall_partition p resolver)) ''SPV1_FIT_PARTITION_INVALID'' (sf_preprocessing_id f)
     @ diag_if (sf_training_run_ids f = [] \<or> set (sf_training_run_ids f) \<noteq> allowed_syscall_runs p \<or> sf_training_event_ids f = [])
         ''SPV1_FIT_TRAINING_CLOSURE_INVALID'' (sf_preprocessing_id f)
     @ diag_if (sf_partition_id f \<noteq> sp_partition_id p \<or> sf_schema_id f \<noteq> sp_feature_schema_id p)
         ''SPV1_FIT_PARTITION_OR_SCHEMA_MISMATCH'' (sf_preprocessing_id f)
     @ diag_if (sf_authorization_effect f \<noteq> ''none'') ''SPV1_FIT_AUTHORIZATION_EFFECT'' (sf_preprocessing_id f)
     @ diag_if (\<not> list_all (immutable resolver) (fit_identities f)) ''SPV1_FIT_REFERENCE_UNRESOLVED'' (sf_preprocessing_id f)"

definition validate_syscall_preprocessing_fit :: "syscall_fit \<Rightarrow> syscall_partition \<Rightarrow> immutable_resolver \<Rightarrow> syscall_validation" where
  "validate_syscall_preprocessing_fit f p resolver = result_of (syscall_fit_diagnostics f p resolver)"

section \<open>Laws\<close>

lemma events_clean:
  "event_diagnostics resolver seen es = [] \<longleftrightarrow>
     (\<forall>e \<in> set es. list_all (immutable resolver) (event_identities e) \<and> se_categorical_name e \<noteq> [] \<and> se_direction e \<noteq> [] \<and> se_timestamp e \<noteq> []
        \<and> 0 \<le> se_sequence e \<and> \<not> se_duplicate e) \<and> distinct (map event_key es) \<and> set (map event_key es) \<inter> seen = {}"
  by (induction resolver seen es rule: event_diagnostics.induct) (auto simp: not_less)

lemma canonical_events:
  assumes "canonicalize_categorical_syscalls rows resolver = Inr es"
  shows "mset es = mset rows" "distinct (map event_key es)" "\<forall>e \<in> set es. 0 \<le> se_sequence e \<and> \<not> se_duplicate e"
    "sorted (map (\<lambda>e. (se_run_id e, se_raw_segment_id e, se_sequence e, se_event_id e)) es)"
proof -
  have e: "event_diagnostics resolver {} rows = []"
    "es = sort_key (\<lambda>e. (se_run_id e, se_raw_segment_id e, se_sequence e, se_event_id e)) rows"
    using assms by (simp_all add: canonicalize_categorical_syscalls_def Let_def split: if_splits)
  then show "mset es = mset rows" "sorted (map (\<lambda>e. (se_run_id e, se_raw_segment_id e, se_sequence e, se_event_id e)) es)" by simp_all
  show "\<forall>e \<in> set es. 0 \<le> se_sequence e \<and> \<not> se_duplicate e" using e events_clean by simp
  have "distinct (map event_key rows)" using e(1) events_clean by blast
  then show "distinct (map event_key es)" using \<open>mset es = mset rows\<close> by (metis mset_eq_imp_distinct_iff mset_map)
qed

lemma parameters_clean:
  assumes "syscall_parameter_diagnostics p w preprocessing resolver = []"
  shows "va_accepted (validate_syscall_partition p resolver)" "1 \<le> sw_window_length w" "1 \<le> sw_stride w"
  using assms by (auto simp: syscall_parameter_diagnostics_def validate_syscall_partition_def result_Nil)

lemma membership_clean:
  "membership_diagnostics p e = [] \<longleftrightarrow> (\<exists>m. members_by_run p (se_run_id e) = Some m \<and> se_partition_id e = sp_partition_id p \<and>
     se_schema_id e = sp_feature_schema_id p \<and> event_scope e = member_scope m \<and> se_batch_id e \<in> set (sm_batch_ids m))"
  by (auto simp: membership_diagnostics_def split: option.splits)

lemma member_found:
  assumes "members_by_run p r = Some m"
  shows "m \<in> set (sp_members p)" "sm_run_id m = r"
  using map_of_SomeD [OF assms [unfolded members_by_run_def]] by auto

text \<open>What an accepted preparation of windows consists of.\<close>

lemma built_syscall:
  assumes "build_syscall_windows p rows w preprocessing resolver = Some (Inr ws)"
  defines "len \<equiv> nat (sw_window_length w)" and "stride \<equiv> nat (sw_stride w)"
  obtains es where "syscall_parameter_diagnostics p w preprocessing resolver = []" "canonicalize_categorical_syscalls rows resolver = Inr es"
    "0 < len" "0 < stride" "\<forall>e \<in> set es. membership_diagnostics p e = []"
    "\<forall>i < window_count len stride (length es). contiguous se_sequence event_gap event_boundary (window_at len stride es i)"
    "ws = map (\<lambda>i. syscall_window_of p preprocessing (window_at len stride es i)) [0 ..< window_count len stride (length es)]"
proof -
  obtain es where es: "canonicalize_categorical_syscalls rows resolver = Inr es"
    using assms(1) by (auto simp: build_syscall_windows_def Let_def split: sum.splits)
  then have d: "syscall_parameter_diagnostics p w preprocessing resolver = []" "\<forall>e \<in> set es. membership_diagnostics p e = []"
    using assms(1) by (auto simp: build_syscall_windows_def Let_def split: if_splits)
  then have l: "0 < len" "0 < stride" using parameters_clean(2,3) [OF d(1)] by (simp_all add: len_def stride_def)
  have s: "scan_windows (contiguous se_sequence event_gap event_boundary) (syscall_window_of p preprocessing) len stride es [] = Some (Inr ws)"
    using assms(1) d es unfolding build_syscall_windows_def Let_def len_def stride_def
    by (auto simp: map_option_case split: option.splits sum.splits if_splits)
  note r = scan_result [OF l, where ok = "contiguous se_sequence event_gap event_boundary" and rows = es
    and w = "syscall_window_of p preprocessing" and found = "[]"]
  have c: "\<forall>i < window_count len stride (length es). contiguous se_sequence event_gap event_boundary (window_at len stride es i)"
    using r s by (auto split: if_splits)
  then have "ws = map (\<lambda>i. syscall_window_of p preprocessing (window_at len stride es i)) [0 ..< window_count len stride (length es)]"
    using r s by simp
  then show ?thesis using that d es l c by blast
qed

lemma build_syscall_total: "\<exists>r. build_syscall_windows p rows w preprocessing resolver = Some r"
proof (cases "canonicalize_categorical_syscalls rows resolver")
  case (Inr es)
  show ?thesis
  proof (cases "syscall_parameter_diagnostics p w preprocessing resolver = []")
    case True
    then have "0 < nat (sw_window_length w)" "0 < nat (sw_stride w)" using parameters_clean(2,3) [OF True] by simp_all
    from scan_result [OF this, where rows = es and ok = "contiguous se_sequence event_gap event_boundary"
        and w = "syscall_window_of p preprocessing" and found = "[]"]
    show ?thesis using True Inr by (auto simp: build_syscall_windows_def Let_def split: if_splits)
  qed (simp add: build_syscall_windows_def Let_def Inr)
qed (simp add: build_syscall_windows_def Let_def)

text \<open>A whole window of events: one boundary, no gap or loss inside, and one declared capture group.\<close>

definition whole_syscall_window :: "syscall_partition \<Rightarrow> syscall_event list \<Rightarrow> syscall_window_parameters \<Rightarrow> syscall_window \<Rightarrow> bool" where
  "whole_syscall_window p rows w cw \<longleftrightarrow> (\<exists>es. set es \<subseteq> set rows \<and> int (length es) = sw_window_length w \<and> cw_event_ids cw = map se_event_id es \<and>
     distinct (map event_key es) \<and>
     (\<forall>i < length es. \<not> se_duplicate (es ! i) \<and> se_sequence (es ! i) = cw_event_start cw + int i \<and> (i \<noteq> 0 \<longrightarrow> \<not> event_gap (es ! i)) \<and>
        event_boundary (es ! i) = event_boundary (hd es)) \<and>
     (\<exists>m \<in> set (sp_members p). sm_run_id m = cw_source_run_id cw \<and>
        (\<forall>e \<in> set es. se_run_id e = sm_run_id m \<and> event_scope e = member_scope m \<and> se_batch_id e \<in> set (sm_batch_ids m))))"

lemma distinct_window: "distinct (map f es) \<Longrightarrow> distinct (map f (window_at len stride es i))"
  by (simp add: window_at_def flip: take_map drop_map)

lemma event_boundary_run: "event_boundary x = event_boundary y \<Longrightarrow> se_run_id x = se_run_id y"
  by (simp add: event_boundary_def)

lemma built_syscall_whole:
  assumes "build_syscall_windows p rows w preprocessing resolver = Some (Inr ws)" "cw \<in> set ws"
  shows "whole_syscall_window p rows w cw"
proof -
  let ?len = "nat (sw_window_length w)" and ?stride = "nat (sw_stride w)"
  obtain all where b: "syscall_parameter_diagnostics p w preprocessing resolver = []" "canonicalize_categorical_syscalls rows resolver = Inr all"
    "0 < ?len" "0 < ?stride" "\<forall>e \<in> set all. membership_diagnostics p e = []"
    "\<forall>i < window_count ?len ?stride (length all). contiguous se_sequence event_gap event_boundary (window_at ?len ?stride all i)"
    "ws = map (\<lambda>i. syscall_window_of p preprocessing (window_at ?len ?stride all i)) [0 ..< window_count ?len ?stride (length all)]"
    using built_syscall [OF assms(1)] by metis
  note c = canonical_events [OF b(2)]
  obtain i where i: "i < window_count ?len ?stride (length all)" "cw = syscall_window_of p preprocessing (window_at ?len ?stride all i)"
    using assms(2) unfolding b(7) by auto
  define es where "es = window_at ?len ?stride all i"
  have l: "length es = ?len" "es \<noteq> []" "set es \<subseteq> set all"
    using window_length(1) [OF b(4) i(1)] window_rows [OF i(1) b(3,4)] by (simp_all add: es_def)
  have sub: "set es \<subseteq> set rows" using l(3) c(1) mset_eq_setD by blast
  have cw: "cw_source_run_id cw = se_run_id (hd es)" "cw_event_start cw = se_sequence (hd es)" "cw_event_ids cw = map se_event_id es"
    by (simp_all add: i(2) syscall_window_of_def es_def)
  have con: "contiguous se_sequence event_gap event_boundary es" using b(6) i(1) by (simp add: es_def)
  have rows: "\<not> se_duplicate (es ! k) \<and> se_sequence (es ! k) = cw_event_start cw + int k \<and> (k \<noteq> 0 \<longrightarrow> \<not> event_gap (es ! k)) \<and>
      event_boundary (es ! k) = event_boundary (hd es)" if "k < length es" for k
    using that con c(3) l(3) unfolding contiguous_iff cw by (meson nth_mem subsetD)
  have "membership_diagnostics p (hd es) = []" using b(5) l(2,3) hd_in_set by blast
  then obtain m where m: "members_by_run p (se_run_id (hd es)) = Some m" by (auto simp: membership_clean)
  have "se_run_id e = sm_run_id m \<and> event_scope e = member_scope m \<and> se_batch_id e \<in> set (sm_batch_ids m)" if "e \<in> set es" for e
  proof -
    have run: "se_run_id e = se_run_id (hd es)" using that rows event_boundary_run by (metis in_set_conv_nth)
    have "membership_diagnostics p e = []" using that b(5) l(3) by blast
    then show ?thesis using m run member_found(2) by (auto simp: membership_clean)
  qed
  then have "\<exists>m \<in> set (sp_members p). sm_run_id m = cw_source_run_id cw \<and>
      (\<forall>e \<in> set es. se_run_id e = sm_run_id m \<and> event_scope e = member_scope m \<and> se_batch_id e \<in> set (sm_batch_ids m))"
    using member_found [OF m] cw(1) by auto
  moreover have "distinct (map event_key es)" using distinct_window [OF c(2)] by (simp add: es_def)
  ultimately show ?thesis using sub l(1) parameters_clean(2) [OF b(1)] cw(3) rows unfolding whole_syscall_window_def
    by (intro exI [of _ es] conjI) simp_all
qed

lemma built_syscall_count:
  assumes "build_syscall_windows p rows w preprocessing resolver = Some (Inr ws)"
  shows "length ws = window_count (nat (sw_window_length w)) (nat (sw_stride w)) (length rows)"
proof -
  obtain es where es: "canonicalize_categorical_syscalls rows resolver = Inr es"
    "ws = map (\<lambda>i. syscall_window_of p preprocessing (window_at (nat (sw_window_length w)) (nat (sw_stride w)) es i))
       [0 ..< window_count (nat (sw_window_length w)) (nat (sw_stride w)) (length es)]"
    using built_syscall [OF assms] by blast
  moreover have "length es = length rows" using canonical_events(1) [OF es(1)] by (rule mset_eq_length)
  ultimately show ?thesis by simp
qed

section \<open>Properties\<close>

text \<open>
  Building the windows of system calls always ends. Every window of an accepted preparation is
  whole: of the declared length, without duplicates, in consecutive sequence without a gap or a
  loss, and inside the one capture group and the batches its run declares.
\<close>
theorem syscall_windows_whole:
  shows "\<exists>r. build_syscall_windows p rows w preprocessing resolver = Some r \<and>
    (\<forall>ws. r = Inr ws \<longrightarrow> length ws = window_count (nat (sw_window_length w)) (nat (sw_stride w)) (length rows) \<and>
      (\<forall>cw \<in> set ws. whole_syscall_window p rows w cw))"
proof -
  obtain r where r: "build_syscall_windows p rows w preprocessing resolver = Some r" using build_syscall_total by metis
  moreover have "length ws = window_count (nat (sw_window_length w)) (nat (sw_stride w)) (length rows)" if "r = Inr ws" for ws
  proof -
    have "build_syscall_windows p rows w preprocessing resolver = Some (Inr ws)" using r that by simp
    then show ?thesis by (rule built_syscall_count)
  qed
  moreover have "\<forall>cw \<in> set ws. whole_syscall_window p rows w cw" if "r = Inr ws" for ws using built_syscall_whole r that by blast
  ultimately show ?thesis by blast
qed

text \<open>
  The canonical order drops and invents nothing: accepted events are a permutation of the given
  ones, sorted by run, segment, sequence and identifier, each position of a segment taken once.
\<close>
theorem syscall_canonical_order:
  assumes "canonicalize_categorical_syscalls rows resolver = Inr es"
  shows "mset es = mset rows \<and> sorted (map (\<lambda>e. (se_run_id e, se_raw_segment_id e, se_sequence e, se_event_id e)) es) \<and>
    distinct (map event_key es) \<and> (\<forall>e \<in> set es. 0 \<le> se_sequence e \<and> \<not> se_duplicate e)"
  using canonical_events [OF assms] by blast

text \<open>The example: one run captured in two groups, one for training and one for testing.\<close>

definition example_syscall_member :: "char \<Rightarrow> string \<Rightarrow> syscall_member" where
  "example_syscall_member g role = \<lparr>sm_run_id = example_id CHR ''1'', sm_role = role, sm_normal_eligible = True,
     sm_run_manifest_id = example_id CHR ''c'', sm_boot_id = example_id CHR ''4'', sm_session_id = example_id CHR ''5'',
     sm_container_id = example_id CHR ''6'', sm_process_scope_id = example_id CHR ''7'', sm_capture_group_id = example_id g,
     sm_batch_ids = [example_id CHR ''8'']\<rparr>"

definition example_syscall_partition :: syscall_partition where
  "example_syscall_partition = \<lparr>sp_partition_id = example_id CHR ''a'', sp_feature_schema_id = example_id CHR ''b'', sp_parameter_evidence_ids = [],
     sp_members = [example_syscall_member CHR ''2'' ''test'', example_syscall_member CHR ''3'' ''train''], sp_authorization_effect = ''none''\<rparr>"

definition example_event :: "int \<Rightarrow> syscall_event" where
  "example_event i = \<lparr>se_event_id = example_id CHR ''0'', se_batch_id = example_id CHR ''8'', se_raw_segment_id = example_id CHR ''9'',
     se_run_id = example_id CHR ''1'', se_boot_id = example_id CHR ''4'', se_session_id = example_id CHR ''5'', se_container_id = example_id CHR ''6'',
     se_process_scope_id = example_id CHR ''7'', se_capture_group_id = example_id CHR ''3'', se_collector_id = example_id CHR ''c'',
     se_filter_id = example_id CHR ''d'', se_kernel_id = example_id CHR ''e'', se_abi_id = example_id CHR ''f'', se_schema_id = example_id CHR ''b'',
     se_partition_id = example_id CHR ''a'', se_source_identity = example_id CHR ''7'', se_categorical_name = ''read'', se_direction = ''enter'',
     se_sequence = i, se_timestamp = ''t'', se_gap_before = False, se_loss_boundary_before = False, se_duplicate = False, se_queue_pressure = False,
     se_quality_id = example_id CHR ''2'', se_exclusion_policy_id = example_id CHR ''d''\<rparr>"

definition example_syscall_window :: syscall_window_parameters where
  "example_syscall_window = \<lparr>sw_parameter_evidence_id = example_id CHR ''9'', sw_window_length = 2, sw_stride = 2, sw_padding = ''none'',
     sw_exclusion_policy_id = example_id CHR ''e'', sw_loss_policy_id = example_id CHR ''f''\<rparr>"

definition example_syscall_fit :: syscall_fit where
  "example_syscall_fit = \<lparr>sf_preprocessing_id = example_id CHR ''f'', sf_partition_id = example_id CHR ''a'', sf_training_run_ids = [example_id CHR ''1''],
     sf_training_event_ids = [example_id CHR ''0''], sf_schema_id = example_id CHR ''b'', sf_vocabulary_id = example_id CHR ''7'',
     sf_vocabulary_mapping_hash = example_id CHR ''8'', sf_frequency_state_hash = example_id CHR ''9'', sf_unknown_event_policy_id = example_id CHR ''0'',
     sf_algorithm_id = example_id CHR ''3'', sf_parameter_evidence_ids = [], sf_code_id = example_id CHR ''4'', sf_output_hash = example_id CHR ''5'',
     sf_authorization_effect = ''none''\<rparr>"

lemma example_syscall_accepted: "syscall_partition_diagnostics example_syscall_partition (\<lambda>_. True) = []"
  unfolding syscall_partition_diagnostics_def example_syscall_partition_def
  by (simp add: Let_def reference_diagnostics_def member_diagnostics_def member_identities_def example_syscall_member_def
      example_immutable hex_lower_def SYSCALL_ROLES_def)

lemma example_syscall_runs: "allowed_syscall_runs example_syscall_partition = {example_id CHR ''1''}"
  unfolding allowed_syscall_runs_def example_syscall_partition_def example_syscall_member_def by (simp del: set_map set_filter)

lemma example_canonical:
  "canonicalize_categorical_syscalls [example_event 3, example_event 2] (\<lambda>_. True) = Inr [example_event 2, example_event 3]"
proof -
  have "event_diagnostics (\<lambda>_. True) {} [example_event 3, example_event 2] = []"
    by (simp add: event_identities_def example_event_def example_immutable hex_lower_def event_key_def)
  then show ?thesis by (simp add: canonicalize_categorical_syscalls_def example_event_def)
qed

lemma example_syscall_windows:
  "build_syscall_windows example_syscall_partition [example_event 3, example_event 2] example_syscall_window (example_id CHR ''f'') (\<lambda>_. True) =
     Some (Inr [syscall_window_of example_syscall_partition (example_id CHR ''f'') [example_event 2, example_event 3]])"
proof -
  have d: "syscall_parameter_diagnostics example_syscall_partition example_syscall_window (example_id CHR ''f'') (\<lambda>_. True) = []"
    by (simp add: syscall_parameter_diagnostics_def validate_syscall_partition_def example_syscall_accepted result_Nil reference_diagnostics_def
        example_immutable hex_lower_def example_syscall_window_def)
  have m: "membership_diagnostics example_syscall_partition (example_event i) = []" for i
    by (simp add: membership_clean members_by_run_def example_syscall_partition_def example_syscall_member_def example_event_def event_scope_def member_scope_def)
  show ?thesis unfolding build_syscall_windows_def d example_canonical Let_def
    by (simp add: m) (simp add: example_syscall_window_def scan_windows.simps contiguous_def example_event_def event_gap_def event_boundary_def)
qed

text \<open>
  Distinct capture groups do not separate the runs: there is an accepted partition with one run
  in the roles train and test, and a fit on that run is accepted against it.
\<close>
theorem syscall_run_in_two_roles:
  "\<exists>p f m m'. va_accepted (validate_syscall_partition p (\<lambda>_. True)) \<and> va_accepted (validate_syscall_preprocessing_fit f p (\<lambda>_. True)) \<and>
     m \<in> set (sp_members p) \<and> m' \<in> set (sp_members p) \<and> sm_role m = ''train'' \<and> sm_role m' = ''test'' \<and>
     sm_run_id m = sm_run_id m' \<and> sm_run_id m' \<in> set (sf_training_run_ids f)"
proof -
  let ?p = example_syscall_partition and ?f = example_syscall_fit
  have p: "va_accepted (validate_syscall_partition ?p (\<lambda>_. True))" by (simp add: validate_syscall_partition_def example_syscall_accepted)
  have f: "va_accepted (validate_syscall_preprocessing_fit ?f ?p (\<lambda>_. True))"
    by (simp add: validate_syscall_preprocessing_fit_def syscall_fit_diagnostics_def p example_syscall_runs fit_identities_def example_syscall_fit_def
        example_immutable hex_lower_def) (simp add: example_syscall_partition_def)
  show ?thesis using p f
    by (intro exI [of _ ?p] exI [of _ ?f] exI [of _ "example_syscall_member CHR ''3'' ''train''"] exI [of _ "example_syscall_member CHR ''2'' ''test''"])
      (simp add: example_syscall_partition_def example_syscall_member_def example_syscall_fit_def)
qed

section \<open>Witnesses\<close>

theorem syscall_windows_whole_witness:
  "whole_syscall_window example_syscall_partition [example_event 3, example_event 2] example_syscall_window
     (syscall_window_of example_syscall_partition (example_id CHR ''f'') [example_event 2, example_event 3])"
  using syscall_windows_whole [of example_syscall_partition "[example_event 3, example_event 2]" example_syscall_window "example_id CHR ''f''" "\<lambda>_. True"]
    example_syscall_windows by simp

theorem syscall_canonical_order_witness: "mset [example_event 2, example_event 3] = mset [example_event 3, example_event 2]"
  using syscall_canonical_order [OF example_canonical] by blast

end
