(* ===== verification/SyscallCapture.thy ===== *)
theory SyscallCapture
  imports Sha256 RuntimeConfig "HOL-Library.Product_Lexorder"
begin

text \<open>
  \<open>contracts/syscall_capture.py\<close> and \<open>evidence/syscall_capture.py\<close>: raw capture segments, batches of
  system call events, and the checks that admit them. Fields have their declared types; the
  resolvers of segments and of raw bytes are parameters.
\<close>

section \<open>Contracts\<close>

definition RAW_CAPTURE_SEGMENT_VERSION :: string where
  "RAW_CAPTURE_SEGMENT_VERSION = ''RawCaptureSegment.v1''"

definition SYSCALL_EVENT_BATCH_VERSION :: string where
  "SYSCALL_EVENT_BATCH_VERSION = ''SyscallEventBatch.v1''"

definition SYSCALL_TRANSPORT_PATH :: string where
  "SYSCALL_TRANSPORT_PATH = ''host/syscalls/v1''"

definition CAPTURE_ORIGINS :: "string list" where
  "CAPTURE_ORIGINS = [''host_capture'', ''fixture_replay'']"

definition SEGMENT_OUTCOMES :: "string list" where
  "SEGMENT_OUTCOMES = [''complete'', ''partial'', ''failed'', ''aborted'']"

record queue_evidence =
  qe_queue_identity :: string
  qe_dropped_count :: int
  qe_duplicate_count :: int
  qe_gap_count :: int
  qe_storage_lag_count :: int
  qe_outcome :: string

record capture_segment =
  cs_schema_version :: string
  cs_segment_id :: string
  cs_capture_origin :: string
  cs_raw_segment_uri :: string
  cs_raw_segment_content_id :: string
  cs_byte_count :: int
  cs_event_count :: int
  cs_capture_started_at :: string
  cs_capture_ended_at :: string
  cs_collector_identity :: string
  cs_filter_identity :: string
  cs_host_or_vm_identity :: string
  cs_boot_identity :: string
  cs_kernel_identity :: string
  cs_architecture_identity :: string
  cs_workload_identity :: string
  cs_container_or_cgroup_identity :: string
  cs_process_scope_identity :: string
  cs_experiment_identity :: string
  cs_run_identity :: string
  cs_edge_identity :: string
  cs_session_identity :: string
  cs_correlation_identity :: string
  cs_source_sequence_start :: int
  cs_source_sequence_end :: int
  cs_queue_evidence :: queue_evidence
  cs_outcome :: string
  cs_exclusion_or_abort_reason :: "string option"
  cs_test_only :: bool
  cs_segment_content_id :: string
  cs_authorization_effect :: string

record raw_event_range =
  rr_start_offset :: int
  rr_end_offset :: int
  rr_collector_record_offset :: "int option"

record captured_event =
  ce_event_identity :: string
  ce_source_sequence :: int
  ce_source_timestamp :: "string option"
  ce_observed_timestamp :: "string option"
  ce_monotonic_timestamp :: "string option"
  ce_process_identity :: string
  ce_thread_identity :: "string option"
  ce_syscall_name :: string
  ce_direction :: string
  ce_abi_identity :: string
  ce_syscall_number :: "int option"
  ce_canonical_name_mapping_identity :: "string option"
  ce_return_value :: "string option"
  ce_sanitized_arguments :: "(string \<times> string) list"
  ce_raw_event_range :: raw_event_range

record event_batch =
  eb_schema_version :: string
  eb_batch_id :: string
  eb_transport_path :: string
  eb_capture_origin :: string
  eb_raw_segment_id :: string
  eb_raw_segment_content_id :: string
  eb_run_identity :: string
  eb_edge_identity :: string
  eb_boot_identity :: string
  eb_session_identity :: string
  eb_container_or_cgroup_identity :: string
  eb_kernel_identity :: string
  eb_architecture_identity :: string
  eb_collector_identity :: string
  eb_filter_identity :: string
  eb_queue_evidence :: queue_evidence
  eb_events :: "captured_event list"
  eb_test_only :: bool
  eb_batch_content_id :: string
  eb_authorization_effect :: string

text \<open>The constructors put arguments and events into order.\<close>

definition mk_captured_event :: "captured_event \<Rightarrow> captured_event" where
  "mk_captured_event e = e\<lparr>ce_sanitized_arguments := sort_key (\<lambda>(k, v). (k, v)) (ce_sanitized_arguments e)\<rparr>"

definition mk_event_batch :: "event_batch \<Rightarrow> event_batch" where
  "mk_event_batch b = b\<lparr>eb_events := sort_key ce_source_sequence (eb_events b)\<rparr>"

definition queue_to_dict :: "queue_evidence \<Rightarrow> pyval" where
  "queue_to_dict q = PDict [(''queue_identity'', PStr (qe_queue_identity q)), (''dropped_count'', PInt (qe_dropped_count q)),
     (''duplicate_count'', PInt (qe_duplicate_count q)), (''gap_count'', PInt (qe_gap_count q)), (''storage_lag_count'', PInt (qe_storage_lag_count q)),
     (''outcome'', PStr (qe_outcome q))]"

definition segment_to_dict :: "capture_segment \<Rightarrow> (string, pyval) dict" where
  "segment_to_dict s = [(''schema_version'', PStr (cs_schema_version s)), (''segment_id'', PStr (cs_segment_id s)),
     (''capture_origin'', PStr (cs_capture_origin s)), (''raw_segment_uri'', PStr (cs_raw_segment_uri s)),
     (''raw_segment_content_id'', PStr (cs_raw_segment_content_id s)), (''byte_count'', PInt (cs_byte_count s)), (''event_count'', PInt (cs_event_count s)),
     (''capture_started_at'', PStr (cs_capture_started_at s)), (''capture_ended_at'', PStr (cs_capture_ended_at s)),
     (''collector_identity'', PStr (cs_collector_identity s)), (''filter_identity'', PStr (cs_filter_identity s)),
     (''host_or_vm_identity'', PStr (cs_host_or_vm_identity s)), (''boot_identity'', PStr (cs_boot_identity s)),
     (''kernel_identity'', PStr (cs_kernel_identity s)), (''architecture_identity'', PStr (cs_architecture_identity s)),
     (''workload_identity'', PStr (cs_workload_identity s)), (''container_or_cgroup_identity'', PStr (cs_container_or_cgroup_identity s)),
     (''process_scope_identity'', PStr (cs_process_scope_identity s)), (''experiment_identity'', PStr (cs_experiment_identity s)),
     (''run_identity'', PStr (cs_run_identity s)), (''edge_identity'', PStr (cs_edge_identity s)), (''session_identity'', PStr (cs_session_identity s)),
     (''correlation_identity'', PStr (cs_correlation_identity s)), (''source_sequence_start'', PInt (cs_source_sequence_start s)),
     (''source_sequence_end'', PInt (cs_source_sequence_end s)), (''queue_evidence'', queue_to_dict (cs_queue_evidence s)),
     (''outcome'', PStr (cs_outcome s)), (''exclusion_or_abort_reason'', opt_str (cs_exclusion_or_abort_reason s)), (''test_only'', PBool (cs_test_only s)),
     (''segment_content_id'', PStr (cs_segment_content_id s)), (''authorization_effect'', PStr (cs_authorization_effect s))]"

definition event_to_dict :: "captured_event \<Rightarrow> pyval" where
  "event_to_dict e = (let r = ce_raw_event_range e in PDict [(''event_identity'', PStr (ce_event_identity e)), (''source_sequence'', PInt (ce_source_sequence e)),
     (''source_timestamp'', opt_str (ce_source_timestamp e)), (''observed_timestamp'', opt_str (ce_observed_timestamp e)),
     (''monotonic_timestamp'', opt_str (ce_monotonic_timestamp e)), (''process_identity'', PStr (ce_process_identity e)),
     (''thread_identity'', opt_str (ce_thread_identity e)), (''syscall_name'', PStr (ce_syscall_name e)), (''direction'', PStr (ce_direction e)),
     (''abi_identity'', PStr (ce_abi_identity e)), (''syscall_number'', opt_int (ce_syscall_number e)),
     (''canonical_name_mapping_identity'', opt_str (ce_canonical_name_mapping_identity e)), (''return_value'', opt_str (ce_return_value e)),
     (''sanitized_arguments'', PList (map (\<lambda>(k, v). PList [PStr k, PStr v]) (ce_sanitized_arguments e))),
     (''raw_event_range'', PDict [(''start_offset'', PInt (rr_start_offset r)), (''end_offset'', PInt (rr_end_offset r)),
        (''collector_record_offset'', opt_int (rr_collector_record_offset r))])])"

definition batch_to_dict :: "event_batch \<Rightarrow> (string, pyval) dict" where
  "batch_to_dict b = [(''schema_version'', PStr (eb_schema_version b)), (''batch_id'', PStr (eb_batch_id b)),
     (''transport_path'', PStr (eb_transport_path b)), (''capture_origin'', PStr (eb_capture_origin b)), (''raw_segment_id'', PStr (eb_raw_segment_id b)),
     (''raw_segment_content_id'', PStr (eb_raw_segment_content_id b)), (''run_identity'', PStr (eb_run_identity b)),
     (''edge_identity'', PStr (eb_edge_identity b)), (''boot_identity'', PStr (eb_boot_identity b)), (''session_identity'', PStr (eb_session_identity b)),
     (''container_or_cgroup_identity'', PStr (eb_container_or_cgroup_identity b)), (''kernel_identity'', PStr (eb_kernel_identity b)),
     (''architecture_identity'', PStr (eb_architecture_identity b)), (''collector_identity'', PStr (eb_collector_identity b)),
     (''filter_identity'', PStr (eb_filter_identity b)), (''queue_evidence'', queue_to_dict (eb_queue_evidence b)),
     (''events'', PList (map event_to_dict (eb_events b))), (''test_only'', PBool (eb_test_only b)),
     (''batch_content_id'', PStr (eb_batch_content_id b)), (''authorization_effect'', PStr (eb_authorization_effect b))]"

text \<open>The digest of the canonical bytes, both identity fields left empty.\<close>

definition canonical_without :: "string \<Rightarrow> string \<Rightarrow> (string, pyval) dict \<Rightarrow> string" where
  "canonical_without identity_field id_field d = json_dumps (PDict (AList.update id_field (PStr []) (AList.update identity_field (PStr []) d)))"

definition raw_capture_segment_content_id :: "capture_segment \<Rightarrow> string" where
  "raw_capture_segment_content_id s = sha256_id (canonical_without ''segment_content_id'' ''segment_id'' (segment_to_dict s))"

definition syscall_event_batch_content_id :: "event_batch \<Rightarrow> string" where
  "syscall_event_batch_content_id b = sha256_id (canonical_without ''batch_content_id'' ''batch_id'' (batch_to_dict b))"

section \<open>Checks\<close>

record capture_violation =
  cv_rule_id :: string
  cv_field :: string
  cv_detail :: string

record capture_validation =
  cv_allowed :: bool
  cv_formal_eligible :: bool
  cv_violations :: "capture_violation list"
  cv_authorization_effect :: string

type_synonym raw_segment_resolver = "string \<Rightarrow> capture_segment option"
type_synonym raw_content_resolver = "capture_segment \<Rightarrow> bool"

definition add_if :: "bool \<Rightarrow> string \<Rightarrow> string \<Rightarrow> string \<Rightarrow> capture_violation list" where
  "add_if c rule field detail = (if c then [\<lparr>cv_rule_id = rule, cv_field = field, cv_detail = detail\<rparr>] else [])"

text \<open>The pattern \<open>\d{4}-\d{2}-\d{2}T\d{2}:\d{2}:\d{2}(?:\.\d+)?Z\<close>.\<close>

definition utc_timestamp :: "string \<Rightarrow> bool" where
  "utc_timestamp t = (20 \<le> length t \<and>
     list_all (\<lambda>i. is_digit (t ! i)) [0, 1, 2, 3, 5, 6, 8, 9, 11, 12, 14, 15, 17, 18] \<and>
     t ! 4 = CHR ''-'' \<and> t ! 7 = CHR ''-'' \<and> t ! 10 = CHR ''T'' \<and> t ! 13 = CHR '':'' \<and> t ! 16 = CHR '':'' \<and>
     (let fraction = drop 19 t in last fraction = CHR ''Z'' \<and>
       (length fraction = 1 \<or> (3 \<le> length fraction \<and> hd fraction = CHR ''.'' \<and> list_all is_digit (butlast (tl fraction))))))"

definition identity_fields :: "string \<Rightarrow> (string \<times> string) list \<Rightarrow> capture_violation list" where
  "identity_fields rule named = concat (map (\<lambda>(name, v). add_if (\<not> is_immutable_id v) rule name ''exact_immutable_identity_required'') named)"

definition check_queue :: "queue_evidence \<Rightarrow> capture_violation list" where
  "check_queue q = add_if (\<not> is_immutable_id (qe_queue_identity q)
       \<or> list_ex (\<lambda>n. n < 0) [qe_dropped_count q, qe_duplicate_count q, qe_gap_count q, qe_storage_lag_count q] \<or> qe_outcome q = [])
     ''SEC1_QUEUE_EVIDENCE_INVALID'' ''queue_evidence'' ''resolved_queue_identity_nonnegative_counts_and_outcome_required''"

definition segment_identities :: "capture_segment \<Rightarrow> (string \<times> string) list" where
  "segment_identities s = [(''raw_segment_content_id'', cs_raw_segment_content_id s), (''collector_identity'', cs_collector_identity s),
     (''filter_identity'', cs_filter_identity s), (''host_or_vm_identity'', cs_host_or_vm_identity s), (''boot_identity'', cs_boot_identity s),
     (''kernel_identity'', cs_kernel_identity s), (''architecture_identity'', cs_architecture_identity s), (''workload_identity'', cs_workload_identity s),
     (''container_or_cgroup_identity'', cs_container_or_cgroup_identity s), (''process_scope_identity'', cs_process_scope_identity s),
     (''experiment_identity'', cs_experiment_identity s), (''run_identity'', cs_run_identity s), (''edge_identity'', cs_edge_identity s),
     (''session_identity'', cs_session_identity s), (''correlation_identity'', cs_correlation_identity s)]"

definition segment_time_invalid :: "capture_segment \<Rightarrow> bool" where
  "segment_time_invalid s = (\<not> utc_timestamp (cs_capture_started_at s) \<or> \<not> utc_timestamp (cs_capture_ended_at s)
     \<or> cs_capture_ended_at s < cs_capture_started_at s)"

definition segment_violations :: "capture_segment \<Rightarrow> capture_violation list" where
  "segment_violations s =
     add_if (cs_schema_version s \<noteq> RAW_CAPTURE_SEGMENT_VERSION) ''SEC1_SEGMENT_SCHEMA_INVALID'' ''schema_version'' ''exact_v1_schema_required''
     @ add_if (cs_capture_origin s \<notin> set CAPTURE_ORIGINS) ''SEC1_CAPTURE_ORIGIN_INVALID'' ''capture_origin'' ''closed_capture_origin_required''
     @ add_if (cs_authorization_effect s \<noteq> ''none'') ''SEC1_AUTHORIZATION_EFFECT_INVALID'' ''authorization_effect'' ''contract_must_not_authorize''
     @ add_if (strip (cs_raw_segment_uri s) = []) ''SEC1_RAW_URI_INVALID'' ''raw_segment_uri'' ''explicit_raw_object_uri_required''
     @ identity_fields ''SEC1_SEGMENT_IDENTITY_INVALID'' (segment_identities s)
     @ add_if (cs_segment_id s \<noteq> raw_capture_segment_content_id s \<or> cs_segment_content_id s \<noteq> cs_segment_id s)
         ''SEC1_SEGMENT_CONTENT_ID_INVALID'' ''segment_id'' ''canonical_self_identity_required''
     @ add_if (list_ex (\<lambda>n. n < 0) [cs_byte_count s, cs_event_count s, cs_source_sequence_start s, cs_source_sequence_end s]
         \<or> cs_source_sequence_end s < cs_source_sequence_start s)
         ''SEC1_SEGMENT_COUNTS_INVALID'' ''byte_count'' ''nonnegative_counts_and_ordered_source_sequence_required''
     @ add_if (segment_time_invalid s) ''SEC1_SEGMENT_TIME_INVALID'' ''capture_started_at'' ''ordered_canonical_capture_times_required''
     @ check_queue (cs_queue_evidence s)
     @ add_if (cs_outcome s \<notin> set SEGMENT_OUTCOMES) ''SEC1_SEGMENT_OUTCOME_INVALID'' ''outcome'' ''closed_finalization_outcome_required''
     @ add_if (cs_outcome s = ''complete'' \<and> cs_exclusion_or_abort_reason s \<noteq> None)
         ''SEC1_SEGMENT_OUTCOME_REASON_INVALID'' ''exclusion_or_abort_reason'' ''complete_segment_must_not_declare_abort_reason''
     @ add_if (cs_outcome s \<noteq> ''complete'' \<and> cs_exclusion_or_abort_reason s \<in> {None, Some []})
         ''SEC1_SEGMENT_OUTCOME_REASON_MISSING'' ''exclusion_or_abort_reason'' ''partial_failed_or_aborted_segment_requires_explicit_reason''
     @ add_if (cs_capture_origin s = ''host_capture'' \<and> cs_test_only s)
         ''SEC1_HOST_CAPTURE_TEST_ONLY'' ''test_only'' ''host_capture_cannot_be_test_fixture''
     @ add_if (cs_capture_origin s = ''fixture_replay'' \<and> \<not> cs_test_only s)
         ''SEC1_FIXTURE_NOT_TEST_ONLY'' ''test_only'' ''fixture_replay_must_be_test_only''"

definition validate_raw_capture_segment :: "capture_segment \<Rightarrow> capture_validation" where
  "validate_raw_capture_segment s = (let vs = segment_violations s in
     \<lparr>cv_allowed = (vs = []), cv_formal_eligible = (vs = [] \<and> cs_capture_origin s = ''host_capture''), cv_violations = vs,
      cv_authorization_effect = ''none''\<rparr>)"

text \<open>The fields in which a batch repeats the provenance of its segment.\<close>

definition provenance_pairs :: "event_batch \<Rightarrow> capture_segment \<Rightarrow> (string \<times> string \<times> string) list" where
  "provenance_pairs b s = [(''run_identity'', eb_run_identity b, cs_run_identity s), (''edge_identity'', eb_edge_identity b, cs_edge_identity s),
     (''boot_identity'', eb_boot_identity b, cs_boot_identity s), (''session_identity'', eb_session_identity b, cs_session_identity s),
     (''container_or_cgroup_identity'', eb_container_or_cgroup_identity b, cs_container_or_cgroup_identity s),
     (''kernel_identity'', eb_kernel_identity b, cs_kernel_identity s), (''architecture_identity'', eb_architecture_identity b, cs_architecture_identity s),
     (''collector_identity'', eb_collector_identity b, cs_collector_identity s), (''filter_identity'', eb_filter_identity b, cs_filter_identity s)]"

definition segment_event_violations :: "capture_segment \<Rightarrow> captured_event \<Rightarrow> capture_violation list" where
  "segment_event_violations s e =
     add_if (cs_byte_count s < rr_end_offset (ce_raw_event_range e))
       ''SEC1_RAW_EVENT_RANGE_UNMAPPED'' ''events'' ''event_range_must_resolve_inside_declared_raw_segment''
     @ add_if (ce_source_sequence e < cs_source_sequence_start s \<or> cs_source_sequence_end s < ce_source_sequence e)
       ''SEC1_EVENT_SEQUENCE_OUTSIDE_SEGMENT'' ''events'' ''event_sequence_must_resolve_to_declared_segment''"

definition resolved_violations :: "event_batch \<Rightarrow> raw_content_resolver option \<Rightarrow> capture_segment \<Rightarrow> capture_violation list" where
  "resolved_violations b content s =
     cv_violations (validate_raw_capture_segment s)
     @ add_if (eb_raw_segment_content_id b \<noteq> cs_raw_segment_content_id s \<or> eb_capture_origin b \<noteq> cs_capture_origin s)
         ''SEC1_RAW_SEGMENT_BINDING_MISMATCH'' ''raw_segment_content_id'' ''batch_must_bind_declared_segment_and_origin''
     @ concat (map (\<lambda>(name, x, y). add_if (x \<noteq> y) ''SEC1_SEGMENT_PROVENANCE_MISMATCH'' name ''batch_provenance_must_match_raw_segment'')
         (provenance_pairs b s))
     @ concat (map (segment_event_violations s) (eb_events b))
     @ add_if (eb_capture_origin b = ''host_capture'' \<and> (case content of None \<Rightarrow> True | Some verify \<Rightarrow> \<not> verify s))
         ''SEC1_RAW_CONTENT_UNVERIFIED'' ''raw_segment_content_id'' ''formal_host_capture_requires_verified_immutable_raw_bytes''
     @ add_if (eb_capture_origin b = ''fixture_replay'' \<and> \<not> eb_test_only b)
         ''SEC1_BATCH_FIXTURE_NOT_TEST_ONLY'' ''test_only'' ''fixture_batch_must_remain_test_only''
     @ add_if (eb_capture_origin b = ''host_capture'' \<and> eb_test_only b)
         ''SEC1_BATCH_HOST_CAPTURE_TEST_ONLY'' ''test_only'' ''host_capture_batch_cannot_be_fixture''"

definition validate_raw_capture_segment_result ::
  "event_batch \<Rightarrow> raw_segment_resolver \<Rightarrow> raw_content_resolver option \<Rightarrow> capture_violation list" where
  "validate_raw_capture_segment_result b resolver content =
     (case (if is_immutable_id (eb_raw_segment_id b) then resolver (eb_raw_segment_id b) else None) of
       None \<Rightarrow> add_if True ''SEC1_RAW_SEGMENT_UNRESOLVED'' ''raw_segment_id'' ''declared_immutable_raw_segment_required''
     | Some s \<Rightarrow> resolved_violations b content s)"

definition batch_identities :: "event_batch \<Rightarrow> (string \<times> string) list" where
  "batch_identities b = [(''raw_segment_id'', eb_raw_segment_id b), (''raw_segment_content_id'', eb_raw_segment_content_id b),
     (''run_identity'', eb_run_identity b), (''edge_identity'', eb_edge_identity b), (''boot_identity'', eb_boot_identity b),
     (''session_identity'', eb_session_identity b), (''container_or_cgroup_identity'', eb_container_or_cgroup_identity b),
     (''kernel_identity'', eb_kernel_identity b), (''architecture_identity'', eb_architecture_identity b),
     (''collector_identity'', eb_collector_identity b), (''filter_identity'', eb_filter_identity b)]"

text \<open>One event of the loop, after the identities seen, the previous sequence number and the last end.\<close>

definition event_violations :: "string set \<Rightarrow> int option \<Rightarrow> int \<Rightarrow> captured_event \<Rightarrow> capture_violation list" where
  "event_violations seen previous last_end e = (let r = ce_raw_event_range e in
     add_if (\<not> is_immutable_id (ce_event_identity e) \<or> ce_event_identity e \<in> seen)
       ''SEC1_EVENT_IDENTITY_INVALID'' ''events'' ''unique_immutable_event_identity_required''
     @ add_if (case previous of None \<Rightarrow> False | Some n \<Rightarrow> ce_source_sequence e \<le> n)
       ''SEC1_EVENT_SEQUENCE_INVALID'' ''events'' ''strictly_ordered_source_sequence_required''
     @ add_if (list_ex (\<lambda>t. case t of None \<Rightarrow> False | Some x \<Rightarrow> \<not> utc_timestamp x)
         [ce_source_timestamp e, ce_observed_timestamp e, ce_monotonic_timestamp e])
       ''SEC1_EVENT_TIME_INVALID'' ''events'' ''timestamps_must_be_canonical_when_available''
     @ add_if (\<not> is_immutable_id (ce_process_identity e) \<or> (case ce_thread_identity e of None \<Rightarrow> False | Some t \<Rightarrow> \<not> is_immutable_id t))
       ''SEC1_EVENT_PROCESS_IDENTITY_INVALID'' ''events'' ''immutable_process_and_thread_identity_required''
     @ add_if (ce_syscall_name e = [] \<or> ce_direction e \<notin> {''enter'', ''exit''} \<or> \<not> is_immutable_id (ce_abi_identity e))
       ''SEC1_EVENT_CATEGORICAL_CONTEXT_INVALID'' ''events'' ''categorical_name_direction_and_abi_required''
     @ add_if (ce_syscall_number e \<noteq> None \<and> (case ce_canonical_name_mapping_identity e of None \<Rightarrow> True | Some i \<Rightarrow> \<not> is_immutable_id i))
       ''SEC1_SYSCALL_NUMBER_CONTEXT_INVALID'' ''events'' ''numeric_identifier_requires_exact_abi_name_mapping''
     @ add_if (rr_start_offset r < 0 \<or> rr_end_offset r \<le> rr_start_offset r \<or> rr_start_offset r < last_end)
       ''SEC1_RAW_EVENT_RANGE_INVALID'' ''events'' ''ordered_nonoverlapping_raw_ranges_required''
     @ add_if (case rr_collector_record_offset r of None \<Rightarrow> False | Some n \<Rightarrow> n < 0)
       ''SEC1_COLLECTOR_OFFSET_INVALID'' ''events'' ''nonnegative_collector_offset_required'')"

fun events_violations :: "string set \<Rightarrow> int option \<Rightarrow> int \<Rightarrow> captured_event list \<Rightarrow> capture_violation list" where
  "events_violations seen previous last_end [] = []"
| "events_violations seen previous last_end (e # es) = event_violations seen previous last_end e
     @ events_violations (insert (ce_event_identity e) seen) (Some (ce_source_sequence e)) (max last_end (rr_end_offset (ce_raw_event_range e))) es"

definition batch_violations :: "event_batch \<Rightarrow> raw_segment_resolver \<Rightarrow> raw_content_resolver option \<Rightarrow> capture_violation list" where
  "batch_violations b resolver content =
     validate_raw_capture_segment_result b resolver content
     @ add_if (eb_schema_version b \<noteq> SYSCALL_EVENT_BATCH_VERSION) ''SEC1_BATCH_SCHEMA_INVALID'' ''schema_version'' ''exact_v1_schema_required''
     @ add_if (eb_transport_path b \<noteq> SYSCALL_TRANSPORT_PATH)
         ''SEC1_TRANSPORT_PATH_INVALID'' ''transport_path'' ''separate_host_syscalls_v1_path_required''
     @ add_if (eb_authorization_effect b \<noteq> ''none'')
         ''SEC1_BATCH_AUTHORIZATION_EFFECT_INVALID'' ''authorization_effect'' ''contract_must_not_authorize''
     @ identity_fields ''SEC1_BATCH_IDENTITY_INVALID'' (batch_identities b)
     @ add_if (eb_batch_id b \<noteq> syscall_event_batch_content_id b \<or> eb_batch_content_id b \<noteq> eb_batch_id b)
         ''SEC1_BATCH_CONTENT_ID_INVALID'' ''batch_id'' ''canonical_self_identity_required''
     @ check_queue (eb_queue_evidence b)
     @ add_if (eb_events b = []) ''SEC1_BATCH_EVENTS_EMPTY'' ''events'' ''at_least_one_captured_event_required''
     @ events_violations {} None (- 1) (eb_events b)"

definition validate_syscall_event_batch :: "event_batch \<Rightarrow> raw_segment_resolver \<Rightarrow> raw_content_resolver option \<Rightarrow> capture_validation" where
  "validate_syscall_event_batch b resolver content = (let vs = batch_violations b resolver content in
     \<lparr>cv_allowed = (vs = []), cv_formal_eligible = (vs = [] \<and> eb_capture_origin b = ''host_capture'' \<and> \<not> eb_test_only b), cv_violations = vs,
      cv_authorization_effect = ''none''\<rparr>)"

section \<open>Laws\<close>

lemma add_if_Nil [simp]: "add_if c rule field detail = [] \<longleftrightarrow> \<not> c"
  by (simp add: add_if_def)

lemma segment_allowed: "cv_violations (validate_raw_capture_segment s) = segment_violations s" "cv_allowed (validate_raw_capture_segment s) \<longleftrightarrow> segment_violations s = []"
  by (simp_all add: validate_raw_capture_segment_def Let_def)

lemma batch_allowed:
  "cv_allowed (validate_syscall_event_batch b resolver content) \<longleftrightarrow> batch_violations b resolver content = []"
  "cv_formal_eligible (validate_syscall_event_batch b resolver content) \<longleftrightarrow>
     batch_violations b resolver content = [] \<and> eb_capture_origin b = ''host_capture'' \<and> \<not> eb_test_only b"
  by (simp_all add: validate_syscall_event_batch_def Let_def)

text \<open>The loop is clean exactly when the events are distinct, strictly ordered and laid out one after the other.\<close>

definition event_lies :: "captured_event \<Rightarrow> captured_event \<Rightarrow> bool" where
  "event_lies e e' \<longleftrightarrow> ce_event_identity e \<noteq> ce_event_identity e' \<and> rr_end_offset (ce_raw_event_range e) \<le> rr_start_offset (ce_raw_event_range e')"

lemma event_clean:
  assumes "event_violations seen previous last_end e = []"
  shows "is_immutable_id (ce_event_identity e)" "ce_event_identity e \<notin> seen" "previous = Some n \<Longrightarrow> n < ce_source_sequence e"
    "0 \<le> rr_start_offset (ce_raw_event_range e)" "rr_start_offset (ce_raw_event_range e) < rr_end_offset (ce_raw_event_range e)"
    "last_end \<le> rr_start_offset (ce_raw_event_range e)"
  using assms by (simp_all add: event_violations_def Let_def not_le not_less)

lemma events_clean_all:
  assumes "events_violations seen previous last_end es = []"
  shows "sorted_wrt event_lies es" "sorted_wrt (\<lambda>e e'. ce_source_sequence e < ce_source_sequence e') es"
    "\<forall>e \<in> set es. ce_event_identity e \<notin> seen \<and> is_immutable_id (ce_event_identity e) \<and> last_end \<le> rr_start_offset (ce_raw_event_range e) \<and>
       0 \<le> rr_start_offset (ce_raw_event_range e) \<and> rr_start_offset (ce_raw_event_range e) < rr_end_offset (ce_raw_event_range e)"
    "\<forall>n. previous = Some n \<longrightarrow> (\<forall>e \<in> set es. n < ce_source_sequence e)"
proof -
  have "sorted_wrt event_lies es \<and> sorted_wrt (\<lambda>e e'. ce_source_sequence e < ce_source_sequence e') es \<and>
    (\<forall>e \<in> set es. ce_event_identity e \<notin> seen \<and> is_immutable_id (ce_event_identity e) \<and> last_end \<le> rr_start_offset (ce_raw_event_range e) \<and>
       0 \<le> rr_start_offset (ce_raw_event_range e) \<and> rr_start_offset (ce_raw_event_range e) < rr_end_offset (ce_raw_event_range e)) \<and>
    (\<forall>n. previous = Some n \<longrightarrow> (\<forall>e \<in> set es. n < ce_source_sequence e))"
    using assms
  proof (induction es arbitrary: seen previous last_end)
    case (Cons e es)
    then have v: "event_violations seen previous last_end e = []"
      "events_violations (insert (ce_event_identity e) seen) (Some (ce_source_sequence e)) (max last_end (rr_end_offset (ce_raw_event_range e))) es = []"
      by simp_all
    from Cons.IH [OF v(2)] event_clean [OF v(1)] show ?case by (auto simp: event_lies_def)
  qed simp
  then show "sorted_wrt event_lies es" "sorted_wrt (\<lambda>e e'. ce_source_sequence e < ce_source_sequence e') es"
    "\<forall>e \<in> set es. ce_event_identity e \<notin> seen \<and> is_immutable_id (ce_event_identity e) \<and> last_end \<le> rr_start_offset (ce_raw_event_range e) \<and>
       0 \<le> rr_start_offset (ce_raw_event_range e) \<and> rr_start_offset (ce_raw_event_range e) < rr_end_offset (ce_raw_event_range e)"
    "\<forall>n. previous = Some n \<longrightarrow> (\<forall>e \<in> set es. n < ce_source_sequence e)" by blast+
qed

text \<open>What an accepted batch has behind it.\<close>

lemma resolved_segment:
  assumes "validate_raw_capture_segment_result b resolver content = []"
  obtains s where "resolver (eb_raw_segment_id b) = Some s" "segment_violations s = []" "eb_raw_segment_content_id b = cs_raw_segment_content_id s"
    "eb_capture_origin b = cs_capture_origin s" "\<forall>(name, x, y) \<in> set (provenance_pairs b s). x = y"
    "\<forall>e \<in> set (eb_events b). rr_end_offset (ce_raw_event_range e) \<le> cs_byte_count s \<and>
       cs_source_sequence_start s \<le> ce_source_sequence e \<and> ce_source_sequence e \<le> cs_source_sequence_end s"
    "eb_capture_origin b = ''host_capture'' \<longrightarrow> (\<exists>verify. content = Some verify \<and> verify s) \<and> \<not> eb_test_only b"
proof -
  obtain s where s: "resolver (eb_raw_segment_id b) = Some s" "resolved_violations b content s = []" using assms
    by (auto simp: validate_raw_capture_segment_result_def split: option.splits if_splits)
  have conj: "segment_violations s = [] \<and>
    \<not> (eb_raw_segment_content_id b \<noteq> cs_raw_segment_content_id s \<or> eb_capture_origin b \<noteq> cs_capture_origin s) \<and>
    concat (map (\<lambda>(name, x, y). add_if (x \<noteq> y) ''SEC1_SEGMENT_PROVENANCE_MISMATCH'' name ''batch_provenance_must_match_raw_segment'')
       (provenance_pairs b s)) = [] \<and>
    concat (map (segment_event_violations s) (eb_events b)) = [] \<and>
    \<not> (eb_capture_origin b = ''host_capture'' \<and> (case content of None \<Rightarrow> True | Some verify \<Rightarrow> \<not> verify s)) \<and>
    \<not> (eb_capture_origin b = ''fixture_replay'' \<and> \<not> eb_test_only b) \<and>
    \<not> (eb_capture_origin b = ''host_capture'' \<and> eb_test_only b)"
    by (rule s(2) [unfolded resolved_violations_def append_is_Nil_conv add_if_Nil segment_allowed])
  note all = conj [THEN conjunct1] conj [THEN conjunct2, THEN conjunct1] conj [THEN conjunct2, THEN conjunct2, THEN conjunct1]
    conj [THEN conjunct2, THEN conjunct2, THEN conjunct2, THEN conjunct1] conj [THEN conjunct2, THEN conjunct2, THEN conjunct2, THEN conjunct2]
  have "\<forall>(name, x, y) \<in> set (provenance_pairs b s). x = y" using all(3) unfolding concat_eq_Nil_conv by auto
  moreover have "\<forall>e \<in> set (eb_events b). rr_end_offset (ce_raw_event_range e) \<le> cs_byte_count s \<and>
       cs_source_sequence_start s \<le> ce_source_sequence e \<and> ce_source_sequence e \<le> cs_source_sequence_end s"
    using all(4) unfolding concat_eq_Nil_conv by (auto simp: segment_event_violations_def not_less)
  moreover have "eb_capture_origin b = ''host_capture'' \<longrightarrow> (\<exists>verify. content = Some verify \<and> verify s) \<and> \<not> eb_test_only b"
    using all(5) by (auto split: option.splits)
  ultimately show ?thesis using that [OF s(1) all(1)] all(2) by blast
qed

lemma batch_clean:
  assumes "batch_violations b resolver content = []"
  shows "validate_raw_capture_segment_result b resolver content = []" "eb_events b \<noteq> []" "events_violations {} None (- 1) (eb_events b) = []"
    "eb_batch_id b = syscall_event_batch_content_id b"
  using assms unfolding batch_violations_def append_is_Nil_conv add_if_Nil by blast+

lemma segment_clean:
  assumes "segment_violations s = []"
  shows "cs_segment_id s = raw_capture_segment_content_id s" "cs_capture_origin s \<in> set CAPTURE_ORIGINS"
    "cs_capture_origin s = ''host_capture'' \<Longrightarrow> \<not> cs_test_only s" "cs_capture_origin s = ''fixture_replay'' \<Longrightarrow> cs_test_only s"
  using assms unfolding segment_violations_def append_is_Nil_conv add_if_Nil by blast+

text \<open>A batch that lies inside its segment, event by event.\<close>

definition batch_within :: "event_batch \<Rightarrow> capture_segment \<Rightarrow> bool" where
  "batch_within b s \<longleftrightarrow> sorted_wrt event_lies (eb_events b) \<and> sorted_wrt (\<lambda>e e'. ce_source_sequence e < ce_source_sequence e') (eb_events b) \<and>
     (\<forall>e \<in> set (eb_events b). 0 \<le> rr_start_offset (ce_raw_event_range e) \<and>
        rr_start_offset (ce_raw_event_range e) < rr_end_offset (ce_raw_event_range e) \<and> rr_end_offset (ce_raw_event_range e) \<le> cs_byte_count s \<and>
        cs_source_sequence_start s \<le> ce_source_sequence e \<and> ce_source_sequence e \<le> cs_source_sequence_end s)"

lemma batch_admitted:
  assumes "batch_violations b resolver content = []"
  shows "\<exists>s. resolver (eb_raw_segment_id b) = Some s \<and> segment_violations s = [] \<and> (\<forall>(name, x, y) \<in> set (provenance_pairs b s). x = y) \<and>
    batch_within b s \<and> eb_capture_origin b = cs_capture_origin s \<and>
    (eb_capture_origin b = ''host_capture'' \<longrightarrow> (\<exists>verify. content = Some verify \<and> verify s) \<and> \<not> eb_test_only b \<and> \<not> cs_test_only s)"
proof (rule resolved_segment [OF batch_clean(1) [OF assms]])
  note ev = events_clean_all [OF batch_clean(3) [OF assms]]
  fix s
  assume s: "resolver (eb_raw_segment_id b) = Some s" "segment_violations s = []" "eb_capture_origin b = cs_capture_origin s"
    "\<forall>(name, x, y) \<in> set (provenance_pairs b s). x = y"
    and inside: "\<forall>e \<in> set (eb_events b). rr_end_offset (ce_raw_event_range e) \<le> cs_byte_count s \<and>
       cs_source_sequence_start s \<le> ce_source_sequence e \<and> ce_source_sequence e \<le> cs_source_sequence_end s"
    and host: "eb_capture_origin b = ''host_capture'' \<longrightarrow> (\<exists>verify. content = Some verify \<and> verify s) \<and> \<not> eb_test_only b"
  have "batch_within b s" using ev(1,2,3) inside unfolding batch_within_def by blast
  moreover have "eb_capture_origin b = ''host_capture'' \<longrightarrow> \<not> cs_test_only s" using segment_clean(3) [OF s(2)] s(3) by simp
  ultimately show ?thesis using s host by blast
qed

section \<open>Properties\<close>

text \<open>
  C24. An admitted batch has a valid segment behind it with its provenance: its events are distinct and
  strictly ordered, and their raw ranges follow each other without overlap inside the segment. A
  batch that is formally eligible was captured on a host, its raw bytes were verified, and neither it
  nor its segment is a test fixture.
\<close>
theorem syscall_batch_admitted:
  assumes "cv_allowed (validate_syscall_event_batch b resolver content)"
  shows "\<exists>s. resolver (eb_raw_segment_id b) = Some s \<and> cv_allowed (validate_raw_capture_segment s) \<and>
    (\<forall>(name, x, y) \<in> set (provenance_pairs b s). x = y) \<and> eb_events b \<noteq> [] \<and> batch_within b s \<and>
    (cv_formal_eligible (validate_syscall_event_batch b resolver content) \<longrightarrow> cs_capture_origin s = ''host_capture'' \<and>
       (\<exists>verify. content = Some verify \<and> verify s) \<and> \<not> eb_test_only b \<and> \<not> cs_test_only s)"
proof -
  have c: "batch_violations b resolver content = []" using assms by (simp add: batch_allowed)
  show ?thesis using batch_admitted [OF c] batch_clean(2) [OF c] unfolding batch_allowed segment_allowed by auto
qed

text \<open>
  Capture times are compared as text: a segment that ends half a second after it starts is refused
  when only its end has a fraction, and one that ends half a second before its start is not.
\<close>
theorem capture_times_compared_as_text:
  "segment_time_invalid (s\<lparr>cs_capture_started_at := ''2026-01-01T00:00:00Z'', cs_capture_ended_at := ''2026-01-01T00:00:00.5Z''\<rparr>) \<and>
   \<not> cv_allowed (validate_raw_capture_segment (s\<lparr>cs_capture_started_at := ''2026-01-01T00:00:00Z'', cs_capture_ended_at := ''2026-01-01T00:00:00.5Z''\<rparr>)) \<and>
   \<not> segment_time_invalid (s\<lparr>cs_capture_started_at := ''2026-01-01T00:00:00.5Z'', cs_capture_ended_at := ''2026-01-01T00:00:00Z''\<rparr>)"
proof -
  have t: "utc_timestamp ''2026-01-01T00:00:00Z''" "utc_timestamp ''2026-01-01T00:00:00.5Z''" by (simp_all add: utc_timestamp_def is_digit_def Let_def)
  have l: "''2026-01-01T00:00:00.5Z'' < ''2026-01-01T00:00:00Z''" by (simp add: less_char_def)
  have i: "segment_time_invalid (s\<lparr>cs_capture_started_at := ''2026-01-01T00:00:00Z'', cs_capture_ended_at := ''2026-01-01T00:00:00.5Z''\<rparr>)"
    using l by (simp add: segment_time_invalid_def)
  moreover have "\<not> segment_time_invalid (s\<lparr>cs_capture_started_at := ''2026-01-01T00:00:00.5Z'', cs_capture_ended_at := ''2026-01-01T00:00:00Z''\<rparr>)"
    using t l by (simp add: segment_time_invalid_def not_less_iff_gr_or_eq)
  moreover have "segment_violations v \<noteq> []" if "segment_time_invalid v" for v
    using that unfolding segment_violations_def append_is_Nil_conv add_if_Nil by blast
  ultimately show ?thesis unfolding segment_allowed by blast
qed

section \<open>Witnesses\<close>

definition sample_queue :: queue_evidence where
  "sample_queue = \<lparr>qe_queue_identity = sha256_id ''queue'', qe_dropped_count = 0, qe_duplicate_count = 0, qe_gap_count = 0, qe_storage_lag_count = 0,
     qe_outcome = ''complete''\<rparr>"

definition sample_segment_with :: "string \<Rightarrow> capture_segment" where
  "sample_segment_with self = \<lparr>cs_schema_version = RAW_CAPTURE_SEGMENT_VERSION, cs_segment_id = self, cs_capture_origin = ''host_capture'',
     cs_raw_segment_uri = ''s3://raw/1'', cs_raw_segment_content_id = sha256_id ''raw'', cs_byte_count = 64, cs_event_count = 2,
     cs_capture_started_at = ''2026-01-01T00:00:00Z'', cs_capture_ended_at = ''2026-01-01T00:00:00Z'', cs_collector_identity = sha256_id ''collector'',
     cs_filter_identity = sha256_id ''filter'', cs_host_or_vm_identity = sha256_id ''host'', cs_boot_identity = sha256_id ''boot'',
     cs_kernel_identity = sha256_id ''kernel'', cs_architecture_identity = sha256_id ''arch'', cs_workload_identity = sha256_id ''work'',
     cs_container_or_cgroup_identity = sha256_id ''cgroup'', cs_process_scope_identity = sha256_id ''scope'', cs_experiment_identity = sha256_id ''exp'',
     cs_run_identity = sha256_id ''run'', cs_edge_identity = sha256_id ''edge'', cs_session_identity = sha256_id ''session'',
     cs_correlation_identity = sha256_id ''corr'', cs_source_sequence_start = 1, cs_source_sequence_end = 2, cs_queue_evidence = sample_queue,
     cs_outcome = ''complete'', cs_exclusion_or_abort_reason = None, cs_test_only = False, cs_segment_content_id = self, cs_authorization_effect = ''none''\<rparr>"

definition sample_capture_event :: "string \<Rightarrow> int \<Rightarrow> captured_event" where
  "sample_capture_event ident n = \<lparr>ce_event_identity = sha256_id ident, ce_source_sequence = n, ce_source_timestamp = None, ce_observed_timestamp = None,
     ce_monotonic_timestamp = None, ce_process_identity = sha256_id ''process'', ce_thread_identity = None, ce_syscall_name = ''read'',
     ce_direction = ''enter'', ce_abi_identity = sha256_id ''abi'', ce_syscall_number = None, ce_canonical_name_mapping_identity = None,
     ce_return_value = None, ce_sanitized_arguments = [], ce_raw_event_range = \<lparr>rr_start_offset = 0, rr_end_offset = 32, rr_collector_record_offset = None\<rparr>\<rparr>"

definition sample_batch_with :: "string \<Rightarrow> event_batch" where
  "sample_batch_with self = \<lparr>eb_schema_version = SYSCALL_EVENT_BATCH_VERSION, eb_batch_id = self, eb_transport_path = SYSCALL_TRANSPORT_PATH,
     eb_capture_origin = ''host_capture'', eb_raw_segment_id = sha256_id ''segment'', eb_raw_segment_content_id = sha256_id ''raw'',
     eb_run_identity = sha256_id ''run'', eb_edge_identity = sha256_id ''edge'', eb_boot_identity = sha256_id ''boot'',
     eb_session_identity = sha256_id ''session'', eb_container_or_cgroup_identity = sha256_id ''cgroup'', eb_kernel_identity = sha256_id ''kernel'',
     eb_architecture_identity = sha256_id ''arch'', eb_collector_identity = sha256_id ''collector'', eb_filter_identity = sha256_id ''filter'',
     eb_queue_evidence = sample_queue, eb_events = [sample_capture_event ''e'' 1], eb_test_only = False, eb_batch_content_id = self,
     eb_authorization_effect = ''none''\<rparr>"

lemma sample_self:
  "raw_capture_segment_content_id (sample_segment_with self) = raw_capture_segment_content_id (sample_segment_with [])"
  "syscall_event_batch_content_id (sample_batch_with self) = syscall_event_batch_content_id (sample_batch_with [])"
  by (simp_all add: raw_capture_segment_content_id_def syscall_event_batch_content_id_def canonical_without_def segment_to_dict_def batch_to_dict_def
      sample_segment_with_def sample_batch_with_def del: json_dumps.simps)

definition sample_segment :: capture_segment where
  "sample_segment = sample_segment_with (raw_capture_segment_content_id (sample_segment_with []))"

definition sample_batch :: event_batch where
  "sample_batch = sample_batch_with (syscall_event_batch_content_id (sample_batch_with []))"

lemma sample_segment_clean: "segment_violations sample_segment = []"
proof -
  have i: "raw_capture_segment_content_id sample_segment = raw_capture_segment_content_id (sample_segment_with [])"
    unfolding sample_segment_def by (rule sample_self(1))
  have "cs_segment_id sample_segment = raw_capture_segment_content_id sample_segment \<and> cs_segment_content_id sample_segment = cs_segment_id sample_segment"
    unfolding i by (simp add: sample_segment_def sample_segment_with_def [of "raw_capture_segment_content_id v" for v])
  then show ?thesis unfolding segment_violations_def append_is_Nil_conv add_if_Nil
    by (simp add: sample_segment_def sample_segment_with_def sample_queue_def CAPTURE_ORIGINS_def SEGMENT_OUTCOMES_def strip_def is_space_def
        identity_fields_def segment_identities_def check_queue_def segment_time_invalid_def utc_timestamp_def is_digit_def Let_def)
qed

theorem syscall_batch_admitted_witness: "batch_within sample_batch sample_segment"
proof -
  have i: "syscall_event_batch_content_id sample_batch = syscall_event_batch_content_id (sample_batch_with [])"
    unfolding sample_batch_def by (rule sample_self(2))
  have self: "eb_batch_id sample_batch = syscall_event_batch_content_id sample_batch \<and> eb_batch_content_id sample_batch = eb_batch_id sample_batch"
    unfolding i by (simp add: sample_batch_def sample_batch_with_def [of "syscall_event_batch_content_id v" for v])
  have r: "resolved_violations sample_batch (Some (\<lambda>_. True)) sample_segment = []"
    unfolding resolved_violations_def append_is_Nil_conv add_if_Nil segment_allowed sample_segment_clean
    by (simp add: sample_batch_def sample_batch_with_def sample_segment_def sample_segment_with_def provenance_pairs_def segment_event_violations_def
        sample_capture_event_def)
  have s: "validate_raw_capture_segment_result sample_batch (\<lambda>_. Some sample_segment) (Some (\<lambda>_. True)) = []"
    using r by (simp add: validate_raw_capture_segment_result_def) (simp add: sample_batch_def sample_batch_with_def)
  have "batch_violations sample_batch (\<lambda>_. Some sample_segment) (Some (\<lambda>_. True)) = []"
    unfolding batch_violations_def append_is_Nil_conv add_if_Nil using self s
    by (simp add: sample_batch_def sample_batch_with_def sample_queue_def identity_fields_def batch_identities_def check_queue_def
        event_violations_def sample_capture_event_def)
  then have "cv_allowed (validate_syscall_event_batch sample_batch (\<lambda>_. Some sample_segment) (Some (\<lambda>_. True)))" by (simp add: batch_allowed)
  from syscall_batch_admitted [OF this] show ?thesis by auto
qed

end
