(* ===== verification/EvidenceStore.thy ===== *)
theory EvidenceStore
  imports Sha256 RuntimeConfig
begin

text \<open>
  \<open>persistence/evidence_store.py\<close>: the write-once store of formal evidence over an S3 client. Objects
  are named by the digest of their content and created by a conditional put; what was written is
  read back before a result is given. The boto3 client is a parameter: \<open>conditional_store\<close> states
  what its documentation promises.
\<close>

section \<open>Errors and the client\<close>

text \<open>An exception of the client: its text, and the error code of its response if it has one.\<close>

record s3_error =
  er_text :: string
  er_code :: "string option"

datatype evidence_error =
    EvidenceStoreConflict string
  | EvidenceStoreUnavailable string
  | EvidenceValueError string
  | EvidenceClientError s3_error

fun error_text :: "evidence_error \<Rightarrow> string" where
  "error_text (EvidenceStoreConflict t) = t"
| "error_text (EvidenceStoreUnavailable t) = t"
| "error_text (EvidenceValueError t) = t"
| "error_text (EvidenceClientError e) = er_text e"

fun error_code :: "evidence_error \<Rightarrow> string option" where
  "error_code (EvidenceClientError e) = er_code e"
| "error_code _ = None"

type_synonym s3_metadata = "(string, string) dict"

record 's s3_api =
  s3_installed :: bool
  s3_connect :: "string \<Rightarrow> string \<Rightarrow> s3_error option"
  s3_put :: "'s \<Rightarrow> string \<Rightarrow> string \<Rightarrow> string \<Rightarrow> (s3_error + s3_metadata) \<times> 's"
  s3_get :: "'s \<Rightarrow> string \<Rightarrow> string \<Rightarrow> string option \<Rightarrow> (s3_error + s3_metadata \<times> string) \<times> 's"
  s3_versioning :: "'s \<Rightarrow> string \<Rightarrow> s3_error + string option"
  s3_lock :: "'s \<Rightarrow> string \<Rightarrow> s3_error + string option"

section \<open>Names\<close>

definition NAMESPACE_REVISION :: string where
  "NAMESPACE_REVISION = ''evidence-namespace-policy.v1''"

definition OBJECT_ROLES :: "string list" where
  "OBJECT_ROLES = [''artifact'', ''manifest'', ''receipt'', ''snapshot'']"

text \<open>Access class, its policy and its prefix.\<close>

definition NAMESPACE_PREFIXES :: "(string \<times> string \<times> string) list" where
  "NAMESPACE_PREFIXES = [(''detector_facing'', ''detector_facing'', ''detector-facing''),
     (''evaluator_restricted'', ''evaluator_restricted'', ''evaluator-restricted''),
     (''public_reference'', ''public_reference'', ''public-reference'')]"

definition evidence_key_for :: "string \<Rightarrow> string \<Rightarrow> string \<Rightarrow> evidence_error + string" where
  "evidence_key_for access role content = (case map_of NAMESPACE_PREFIXES access of
       None \<Rightarrow> Inl (EvidenceValueError ''STORAGE-NAMESPACE-INVALID'')
     | Some (_, pre) \<Rightarrow> if role \<notin> set OBJECT_ROLES then Inl (EvidenceValueError ''STORAGE-NAMESPACE-INVALID'')
         else Inr (''formal/v1/'' @ pre @ ''/'' @ role @ ''/sha256-'' @ sha256_hexdigest content))"

definition policy_for :: "string \<Rightarrow> evidence_error + string" where
  "policy_for access = (case map_of NAMESPACE_PREFIXES access of
       None \<Rightarrow> Inl (EvidenceValueError ''STORAGE-NAMESPACE-INVALID'') | Some (policy, _) \<Rightarrow> Inr policy)"

section \<open>The store\<close>

record evidence_config =
  ec_endpoint_url :: string
  ec_bucket :: string
  ec_namespace_policy_revision :: string
  ec_region_name :: string

record evidence_store =
  es_config :: evidence_config
  es_connected :: bool

record write_result =
  wr_created :: bool
  wr_immutable_key :: string
  wr_content_sha256 :: string
  wr_byte_size :: nat
  wr_backend_version_id :: "string option"
  wr_backend_etag :: "string option"
  wr_role_prefix_policy :: string
  wr_authorization_effect :: string

record storage_object_observation =
  so_immutable_key :: string
  so_role_prefix_policy :: string
  so_byte_size :: int
  so_content_sha256 :: string
  so_backend_version_id :: "string option"
  so_backend_etag :: "string option"
  so_capability_state :: string

definition observation_of :: "write_result \<Rightarrow> storage_object_observation" where
  "observation_of r = \<lparr>so_immutable_key = wr_immutable_key r, so_role_prefix_policy = wr_role_prefix_policy r, so_byte_size = int (wr_byte_size r),
     so_content_sha256 = wr_content_sha256 r, so_backend_version_id = wr_backend_version_id r, so_backend_etag = wr_backend_etag r,
     so_capability_state = ''proven''\<rparr>"

definition open_store :: "evidence_config \<Rightarrow> bool \<Rightarrow> evidence_error + evidence_store" where
  "open_store c injected =
     (if ec_namespace_policy_revision c \<noteq> NAMESPACE_REVISION then Inl (EvidenceValueError ''STORAGE-NAMESPACE-REVISION-UNQUALIFIED'')
      else if ec_endpoint_url c = [] \<or> ec_bucket c = [] \<or> list_ex (\<lambda>t. sublist t (map lower_char (ec_bucket c))) [''legacy'', ''latest'']
        then Inl (EvidenceValueError ''STORAGE-CONFIG-UNSAFE'')
      else Inr \<lparr>es_config = c, es_connected = injected\<rparr>)"

text \<open>\<open>_client_or_create\<close>: a client once created is kept.\<close>

definition connect_client :: "'s s3_api \<Rightarrow> evidence_store \<Rightarrow> (evidence_error + unit) \<times> evidence_store" where
  "connect_client api st =
     (if es_connected st then (Inr (), st)
      else if \<not> s3_installed api then (Inl (EvidenceStoreUnavailable ''STORAGE-BOTO3-DEPENDENCY-MISSING''), st)
      else case s3_connect api (ec_endpoint_url (es_config st)) (ec_region_name (es_config st)) of
          Some e \<Rightarrow> (Inl (EvidenceClientError e), st)
        | None \<Rightarrow> (Inr (), st\<lparr>es_connected := True\<rparr>))"

definition is_precondition_failure :: "evidence_error \<Rightarrow> bool" where
  "is_precondition_failure e = (sublist ''precondition'' (map lower_char (error_text e)) \<or>
     (case error_code e of None \<Rightarrow> False | Some c \<Rightarrow> map lower_char c \<in> {''preconditionfailed'', ''412''}))"

text \<open>The put and the get inside their \<open>try\<close> blocks, the creation of the client included.\<close>

definition try_put :: "'s s3_api \<Rightarrow> evidence_store \<Rightarrow> string \<Rightarrow> string \<Rightarrow> 's \<Rightarrow> (evidence_error + s3_metadata) \<times> evidence_store \<times> 's" where
  "try_put api st key body w = (case connect_client api st of
       (Inl e, st') \<Rightarrow> (Inl e, st', w)
     | (Inr _, st') \<Rightarrow> (case s3_put api w (ec_bucket (es_config st)) key body of
           (Inl e, w') \<Rightarrow> (Inl (EvidenceClientError e), st', w')
         | (Inr response, w') \<Rightarrow> (Inr response, st', w')))"

definition try_get :: "'s s3_api \<Rightarrow> evidence_store \<Rightarrow> string \<Rightarrow> string option \<Rightarrow> 's \<Rightarrow> (evidence_error + s3_metadata \<times> string) \<times> evidence_store \<times> 's" where
  "try_get api st key version w = (case connect_client api st of
       (Inl e, st') \<Rightarrow> (Inl e, st', w)
     | (Inr _, st') \<Rightarrow> (case s3_get api w (ec_bucket (es_config st)) key version of
           (Inl e, w') \<Rightarrow> (Inl (EvidenceClientError e), st', w')
         | (Inr observed, w') \<Rightarrow> (Inr observed, st', w')))"

text \<open>The version of a response, when it names one.\<close>

definition version_of :: "s3_metadata option \<Rightarrow> string option" where
  "version_of response = (case response of None \<Rightarrow> None
     | Some d \<Rightarrow> (case map_of d ''VersionId'' of None \<Rightarrow> None | Some v \<Rightarrow> if v = [] then None else Some v))"

definition readback ::
  "'s s3_api \<Rightarrow> evidence_store \<Rightarrow> string \<Rightarrow> string \<Rightarrow> string \<Rightarrow> string \<Rightarrow> bool \<Rightarrow> s3_metadata option \<Rightarrow> 's
     \<Rightarrow> (evidence_error + write_result) \<times> evidence_store \<times> 's" where
  "readback api st key content digest policy created response w =
     (case try_get api st key (version_of response) w of
       (Inl e, st', w') \<Rightarrow> (Inl (EvidenceStoreUnavailable ''STORAGE-READBACK-UNAVAILABLE''), st', w')
     | (Inr (observed, actual), st', w') \<Rightarrow>
         if actual \<noteq> content \<or> sha256_id actual \<noteq> digest then (Inl (EvidenceStoreConflict ''STORAGE-CONFLICT-CONTENT-MISMATCH''), st', w')
         else let metadata = (case response of None \<Rightarrow> observed | Some d \<Rightarrow> if d = [] then observed else d) in
           (Inr \<lparr>wr_created = created, wr_immutable_key = key, wr_content_sha256 = digest, wr_byte_size = length actual,
              wr_backend_version_id = map_of metadata ''VersionId'', wr_backend_etag = map_of metadata ''ETag'',
              wr_role_prefix_policy = policy, wr_authorization_effect = ''none''\<rparr>, st', w'))"

definition existing_or_conflict ::
  "'s s3_api \<Rightarrow> evidence_store \<Rightarrow> string \<Rightarrow> string \<Rightarrow> string \<Rightarrow> string \<Rightarrow> 's \<Rightarrow> (evidence_error + write_result) \<times> evidence_store \<times> 's" where
  "existing_or_conflict api st key content digest policy w = (case readback api st key content digest policy False None w of
       (Inl (EvidenceStoreUnavailable _), st', w') \<Rightarrow> (Inl (EvidenceStoreUnavailable ''STORAGE-CONFLICT-AMBIGUOUS''), st', w')
     | r \<Rightarrow> r)"

definition evidence_create ::
  "'s s3_api \<Rightarrow> evidence_store \<Rightarrow> string \<Rightarrow> string \<Rightarrow> string \<Rightarrow> 's \<Rightarrow> (evidence_error + write_result) \<times> evidence_store \<times> 's" where
  "evidence_create api st access role content w = (case evidence_key_for access role content of
       Inl e \<Rightarrow> (Inl e, st, w)
     | Inr key \<Rightarrow> (case policy_for access of
           Inl e \<Rightarrow> (Inl e, st, w)
         | Inr policy \<Rightarrow> (case try_put api st key content w of
               (Inl e, st', w') \<Rightarrow> if is_precondition_failure e then existing_or_conflict api st' key content (sha256_id content) policy w'
                 else (Inl (EvidenceStoreUnavailable ''STORAGE-CONDITIONAL-CREATE-UNAVAILABLE''), st', w')
             | (Inr response, st', w') \<Rightarrow> readback api st' key content (sha256_id content) policy True (Some response) w')))"

definition evidence_read :: "'s s3_api \<Rightarrow> evidence_store \<Rightarrow> string \<Rightarrow> 's \<Rightarrow> (evidence_error + string) \<times> evidence_store \<times> 's" where
  "evidence_read api st key w =
     (if \<not> starts_with ''formal/v1/'' key \<or> sublist ''..'' key \<or> CHR 0x5C \<in> set key then (Inl (EvidenceValueError ''STORAGE-KEY-UNSAFE''), st, w)
      else case try_get api st key None w of
          (Inl e, st', w') \<Rightarrow> (Inl (EvidenceStoreUnavailable ''STORAGE-READ-UNAVAILABLE''), st', w')
        | (Inr (_, body), st', w') \<Rightarrow> (Inr body, st', w'))"

record bucket_observation =
  bo_versioning_state :: string
  bo_object_lock_state :: string
  bo_authorization_effect :: string

definition lock_state_of :: "s3_error + string option \<Rightarrow> evidence_error + string" where
  "lock_state_of r = (case r of
       Inr lock \<Rightarrow> Inr (if lock = Some ''Enabled'' then ''enabled'' else ''disabled'')
     | Inl e \<Rightarrow> let t = map lower_char (er_text e) in
         if sublist ''notfound'' t \<or> sublist ''nosuchobjectlockconfiguration'' t then Inr ''disabled''
         else Inl (EvidenceStoreUnavailable ''STORAGE-OBJECT-LOCK-OBSERVATION-UNAVAILABLE''))"

definition observe_bucket :: "'s s3_api \<Rightarrow> evidence_store \<Rightarrow> 's \<Rightarrow> (evidence_error + bucket_observation) \<times> evidence_store" where
  "observe_bucket api st w = (case connect_client api st of
       (Inl e, st') \<Rightarrow> (Inl e, st')
     | (Inr _, st') \<Rightarrow> (case s3_versioning api w (ec_bucket (es_config st)) of
           Inl _ \<Rightarrow> (Inl (EvidenceStoreUnavailable ''STORAGE-VERSIONING-OBSERVATION-UNAVAILABLE''), st')
         | Inr status \<Rightarrow> (case lock_state_of (s3_lock api w (ec_bucket (es_config st))) of
               Inl e \<Rightarrow> (Inl e, st')
             | Inr lock \<Rightarrow> (Inr \<lparr>bo_versioning_state = (if status = Some ''Enabled'' then ''enabled'' else ''disabled''),
                 bo_object_lock_state = lock, bo_authorization_effect = ''none''\<rparr>, st'))))"

section \<open>What the client promises\<close>

text \<open>
  The documented behaviour of a conditional put and of a get: \<open>view\<close> is the current content of each
  bucket. A put that returns has created an object that was not there, and its version reads back
  as written. A put that fails may have created it all the same, since the client retries a request
  whose response was lost; a failed precondition says that an object is there when the call is over,
  not that it was there before.
\<close>

type_synonym 's s3_view = "'s \<Rightarrow> string \<Rightarrow> string \<Rightarrow> string option"

definition put_effect :: "'s s3_view \<Rightarrow> 's \<Rightarrow> string \<Rightarrow> string \<Rightarrow> string \<Rightarrow> 's \<Rightarrow> bool" where
  "put_effect view w b k body w' \<longleftrightarrow> view w b k = None \<and> view w' b k = Some body \<and> (\<forall>b' k'. (b', k') \<noteq> (b, k) \<longrightarrow> view w' b' k' = view w b' k')"

definition put_promise :: "'s s3_api \<Rightarrow> 's s3_view \<Rightarrow> bool" where
  "put_promise api view \<longleftrightarrow> (\<forall>w b k body d w'. s3_put api w b k body = (Inr d, w') \<longrightarrow> put_effect view w b k body w' \<and>
     (\<forall>r w''. s3_get api w' b k (version_of (Some d)) = (Inr r, w'') \<longrightarrow> snd r = body))"

definition failed_put_promise :: "'s s3_api \<Rightarrow> 's s3_view \<Rightarrow> bool" where
  "failed_put_promise api view \<longleftrightarrow> (\<forall>w b k body e w'. s3_put api w b k body = (Inl e, w') \<longrightarrow>
     (view w' = view w \<or> put_effect view w b k body w') \<and> (is_precondition_failure (EvidenceClientError e) \<longrightarrow> view w' b k \<noteq> None))"

definition get_promise :: "'s s3_api \<Rightarrow> 's s3_view \<Rightarrow> bool" where
  "get_promise api view \<longleftrightarrow> (\<forall>w b k v r w'. s3_get api w b k v = (r, w') \<longrightarrow>
     view w' = view w \<and> (\<forall>d body. v = None \<longrightarrow> r = Inr (d, body) \<longrightarrow> view w b k = Some body))"

definition conditional_store :: "'s s3_api \<Rightarrow> 's s3_view \<Rightarrow> bool" where
  "conditional_store api view \<longleftrightarrow> put_promise api view \<and> failed_put_promise api view \<and> get_promise api view"

lemma put_done:
  assumes "conditional_store api view" "s3_put api w b k body = (Inr d, w')"
  shows "put_effect view w b k body w'" "s3_get api w' b k (version_of (Some d)) = (Inr r, w'') \<Longrightarrow> snd r = body"
proof -
  have p: "put_promise api view" using assms(1) by (simp add: conditional_store_def)
  note q = p [unfolded put_promise_def, rule_format, OF assms(2)]
  show "put_effect view w b k body w'" using q by (rule conjunct1)
  show "s3_get api w' b k (version_of (Some d)) = (Inr r, w'') \<Longrightarrow> snd r = body" using q by blast
qed

lemma put_failed:
  assumes "conditional_store api view" "s3_put api w b k body = (Inl e, w')"
  shows "view w' = view w \<or> put_effect view w b k body w'" "is_precondition_failure (EvidenceClientError e) \<Longrightarrow> view w' b k \<noteq> None"
proof -
  have p: "failed_put_promise api view" using assms(1) by (simp add: conditional_store_def)
  note q = p [unfolded failed_put_promise_def, rule_format, OF assms(2)]
  show "view w' = view w \<or> put_effect view w b k body w'" using q by (rule conjunct1)
  show "is_precondition_failure (EvidenceClientError e) \<Longrightarrow> view w' b k \<noteq> None" using q by blast
qed

lemma get_done:
  assumes "conditional_store api view" "s3_get api w b k v = (r, w')"
  shows "view w' = view w" "v = None \<Longrightarrow> r = Inr (d, body) \<Longrightarrow> view w b k = Some body"
proof -
  have p: "get_promise api view" using assms(1) by (simp add: conditional_store_def)
  note q = p [unfolded get_promise_def, rule_format, OF assms(2)]
  show "view w' = view w" using q by (rule conjunct1)
  show "v = None \<Longrightarrow> r = Inr (d, body) \<Longrightarrow> view w b k = Some body" using q by blast
qed

section \<open>Laws\<close>

lemma connect_bucket [simp]: "es_config (snd (connect_client api st)) = es_config st"
  by (simp add: connect_client_def split: option.splits)

text \<open>No failure to create the client looks like a failed precondition unless the client says so.\<close>

lemma try_put_cases:
  assumes "try_put api st key body w = (r, st', w')"
  obtains (unconnected) e where "r = Inl e" "w' = w" "fst (connect_client api st) = Inl e" "st' = st"
  | (failed) e where "r = Inl (EvidenceClientError e)" "s3_put api w (ec_bucket (es_config st)) key body = (Inl e, w')" "es_config st' = es_config st"
  | (stored) d where "r = Inr d" "s3_put api w (ec_bucket (es_config st)) key body = (Inr d, w')" "es_config st' = es_config st"
proof (cases "connect_client api st")
  case (Pair c st1)
  then have "es_config st1 = es_config st" using connect_bucket [of api st] by simp
  moreover have "st1 = st" if "c = Inl e" for e
    using that Pair by (auto simp: connect_client_def split: if_splits option.splits)
  ultimately show ?thesis using assms that Pair by (auto simp: try_put_def split: prod.splits sum.splits)
qed

lemma try_get_view:
  assumes "conditional_store api view" "try_get api st key version w = (r, st', w')"
  shows "view w' = view w" "r = Inr (d, body) \<Longrightarrow> s3_get api w (ec_bucket (es_config st)) key version = (Inr (d, body), w')"
  using assms(2) get_done(1) [OF assms(1)] by (auto simp: try_get_def split: prod.splits sum.splits)

lemma readback_view:
  assumes "conditional_store api view" "readback api st key content digest policy created response w = (r, st', w')"
  shows "view w' = view w"
  using assms(2) try_get_view(1) [OF assms(1)]
  by (auto simp: readback_def Let_def split: prod.splits sum.splits if_splits)

lemma readback_result:
  assumes "readback api st key content digest policy created response w = (Inr x, st', w')"
  shows "wr_created x = created" "wr_immutable_key x = key" "wr_content_sha256 x = digest" "wr_byte_size x = length content"
    "wr_role_prefix_policy x = policy" "\<exists>d. s3_get api w (ec_bucket (es_config st)) key (version_of response) = (Inr (d, content), w')"
  using assms
  by (auto simp: readback_def try_get_def Let_def split: prod.splits sum.splits if_splits)

lemma readback_conflict:
  assumes "readback api st key content (sha256_id content) policy created response w = (Inl (EvidenceStoreConflict t), st', w')"
  shows "\<exists>d actual. s3_get api w (ec_bucket (es_config st)) key (version_of response) = (Inr (d, actual), w') \<and> actual \<noteq> content"
  using assms
  by (auto simp: readback_def try_get_def Let_def split: prod.splits sum.splits if_splits)

text \<open>What a creation does to the objects, whatever it returns.\<close>

lemma existing_view:
  assumes "conditional_store api view" "existing_or_conflict api st key content digest policy w = (r, st', w')"
  shows "view w' = view w"
proof (cases "readback api st key content digest policy False None w")
  case (fields a b c)
  then have "w' = c" using assms(2) by (auto simp: existing_or_conflict_def split: sum.splits evidence_error.splits)
  then show ?thesis using readback_view [OF assms(1) fields] by simp
qed

lemma existing_result:
  assumes "conditional_store api view" "existing_or_conflict api st key content (sha256_id content) policy w = (r, st', w')"
  shows "r = Inr x \<Longrightarrow> readback api st key content (sha256_id content) policy False None w = (Inr x, st', w') \<and>
      view w (ec_bucket (es_config st)) key = Some content"
    "r = Inl (EvidenceStoreConflict t) \<Longrightarrow> \<exists>actual. view w (ec_bucket (es_config st)) key = Some actual \<and> actual \<noteq> content"
proof -
  obtain q s1 w1 where q: "readback api st key content (sha256_id content) policy False None w = (q, s1, w1)" by (metis prod_cases3)
  show "r = Inr x \<Longrightarrow> readback api st key content (sha256_id content) policy False None w = (Inr x, st', w') \<and>
      view w (ec_bucket (es_config st)) key = Some content"
  proof -
    assume "r = Inr x"
    then have b: "readback api st key content (sha256_id content) policy False None w = (Inr x, st', w')"
      using assms(2) q by (auto simp: existing_or_conflict_def split: sum.splits evidence_error.splits)
    obtain d where "s3_get api w (ec_bucket (es_config st)) key None = (Inr (d, content), w')"
      using readback_result(6) [OF b] by (auto simp: version_of_def)
    then show ?thesis using b get_done(2) [OF assms(1)] by blast
  qed
  show "r = Inl (EvidenceStoreConflict t) \<Longrightarrow> \<exists>actual. view w (ec_bucket (es_config st)) key = Some actual \<and> actual \<noteq> content"
  proof -
    assume "r = Inl (EvidenceStoreConflict t)"
    then have "readback api st key content (sha256_id content) policy False None w = (Inl (EvidenceStoreConflict t), st', w')"
      using assms(2) q by (auto simp: existing_or_conflict_def split: sum.splits evidence_error.splits)
    then obtain d actual where "s3_get api w (ec_bucket (es_config st)) key None = (Inr (d, actual), w')" "actual \<noteq> content"
      using readback_conflict by (fastforce simp: version_of_def)
    then show ?thesis using get_done(2) [OF assms(1)] by blast
  qed
qed

lemma create_keyed:
  assumes "evidence_create api st access role content w = (r, st', w')" "w' \<noteq> w \<or> (\<exists>x. r = Inr x) \<or> (\<exists>t. r = Inl (EvidenceStoreConflict t))"
  obtains key policy q s1 w1 where "evidence_key_for access role content = Inr key" "policy_for access = Inr policy"
    "try_put api st key content w = (q, s1, w1)"
    "(\<exists>e. q = Inl e \<and> is_precondition_failure e \<and> existing_or_conflict api s1 key content (sha256_id content) policy w1 = (r, st', w')) \<or>
     (\<exists>e. q = Inl e \<and> \<not> is_precondition_failure e \<and> r = Inl (EvidenceStoreUnavailable ''STORAGE-CONDITIONAL-CREATE-UNAVAILABLE'') \<and> w' = w1) \<or>
     (\<exists>d. q = Inr d \<and> readback api s1 key content (sha256_id content) policy True (Some d) w1 = (r, st', w'))"
proof (cases "evidence_key_for access role content")
  case (Inl e)
  then have "\<exists>t. e = EvidenceValueError t" by (auto simp: evidence_key_for_def split: option.splits if_splits prod.splits)
  then show ?thesis using assms Inl by (auto simp: evidence_create_def)
next
  case (Inr key)
  then obtain policy where "policy_for access = Inr policy"
    by (auto simp: evidence_key_for_def policy_for_def split: option.splits prod.splits)
  moreover obtain q s1 w1 where "try_put api st key content w = (q, s1, w1)" by (metis prod_cases3)
  ultimately show ?thesis using assms(1) Inr that by (cases q) (auto simp: evidence_create_def split: if_splits)
qed

lemma try_put_view:
  assumes "conditional_store api view" "try_put api st key body w = (r, st', w')"
  shows "view w' = view w \<or> put_effect view w (ec_bucket (es_config st)) key body w'"
  using assms(2) by (rule try_put_cases) (auto dest: put_done(1) [OF assms(1)] put_failed(1) [OF assms(1)])

lemma put_effect_cong: "view v = view w' \<Longrightarrow> put_effect view w b k body v \<longleftrightarrow> put_effect view w b k body w'"
  by (simp add: put_effect_def)

lemma create_view:
  assumes "conditional_store api view" "evidence_create api st access role content w = (r, st', w')"
  shows "view w' = view w \<or> (\<exists>key. evidence_key_for access role content = Inr key \<and> put_effect view w (ec_bucket (es_config st)) key content w')"
proof (cases "w' = w")
  case False
  then have n: "w' \<noteq> w \<or> (\<exists>x. r = Inr x) \<or> (\<exists>t. r = Inl (EvidenceStoreConflict t))" by simp
  show ?thesis
  proof (rule create_keyed [OF assms(2) n])
    fix key policy q s1 w1
    assume c: "evidence_key_for access role content = Inr key" "try_put api st key content w = (q, s1, w1)"
      "(\<exists>e. q = Inl e \<and> is_precondition_failure e \<and> existing_or_conflict api s1 key content (sha256_id content) policy w1 = (r, st', w')) \<or>
       (\<exists>e. q = Inl e \<and> \<not> is_precondition_failure e \<and> r = Inl (EvidenceStoreUnavailable ''STORAGE-CONDITIONAL-CREATE-UNAVAILABLE'') \<and> w' = w1) \<or>
       (\<exists>d. q = Inr d \<and> readback api s1 key content (sha256_id content) policy True (Some d) w1 = (r, st', w'))"
    then have v: "view w' = view w1" using existing_view [OF assms(1)] readback_view [OF assms(1)] by blast
    show ?thesis using try_put_view [OF assms(1) c(2)] c(1) v put_effect_cong [OF v] by auto
  qed
qed simp

lemma create_frame:
  assumes "conditional_store api view" "evidence_create api st access role content w = (r, st', w')"
  shows "\<forall>b k. view w' b k \<noteq> view w b k \<longrightarrow> b = ec_bucket (es_config st) \<and> evidence_key_for access role content = Inr k \<and>
      view w b k = None \<and> view w' b k = Some content"
proof (intro allI impI)
  fix b k assume changed: "view w' b k \<noteq> view w b k"
  then obtain key where key: "evidence_key_for access role content = Inr key" "put_effect view w (ec_bucket (es_config st)) key content w'"
    using create_view [OF assms] by auto
  then have "(b, k) = (ec_bucket (es_config st), key)" using changed unfolding put_effect_def by metis
  with key show "b = ec_bucket (es_config st) \<and> evidence_key_for access role content = Inr k \<and> view w b k = None \<and> view w' b k = Some content"
    by (simp add: put_effect_def)
qed

lemma unconnected_readback:
  assumes "fst (connect_client api st) = Inl e"
  shows "\<exists>st'. readback api st key content digest policy created response w = (Inl (EvidenceStoreUnavailable ''STORAGE-READBACK-UNAVAILABLE''), st', w)"
  using assms by (cases "connect_client api st") (auto simp: readback_def try_get_def)

lemma unconnected_existing:
  assumes "fst (connect_client api st) = Inl e"
  shows "\<exists>st'. existing_or_conflict api st key content digest policy w = (Inl (EvidenceStoreUnavailable ''STORAGE-CONFLICT-AMBIGUOUS''), st', w)"
proof -
  obtain s1 where "readback api st key content digest policy False None w = (Inl (EvidenceStoreUnavailable ''STORAGE-READBACK-UNAVAILABLE''), s1, w)"
    using unconnected_readback [OF assms] by metis
  then show ?thesis by (simp add: existing_or_conflict_def)
qed

text \<open>How a creation that returns a result came to it, and one that reports a conflict.\<close>

lemma create_done:
  assumes "conditional_store api view" "evidence_create api st access role content w = (Inr x, st', w')"
  defines "b \<equiv> ec_bucket (es_config st)"
  obtains key policy where "evidence_key_for access role content = Inr key" "policy_for access = Inr policy"
    "wr_immutable_key x = key" "wr_content_sha256 x = sha256_id content" "wr_byte_size x = length content" "wr_role_prefix_policy x = policy"
    "view w' b key = Some content" "wr_created x \<Longrightarrow> view w b key = None"
    "wr_created x \<longleftrightarrow> (\<exists>d. fst (s3_put api w b key content) = Inr d)"
proof (rule create_keyed [OF assms(2)])
  fix key policy q s1 w1
  assume c: "evidence_key_for access role content = Inr key" "policy_for access = Inr policy" "try_put api st key content w = (q, s1, w1)"
    and d: "(\<exists>e. q = Inl e \<and> is_precondition_failure e \<and> existing_or_conflict api s1 key content (sha256_id content) policy w1 = (Inr x, st', w')) \<or>
     (\<exists>e. q = Inl e \<and> \<not> is_precondition_failure e \<and> Inr x = Inl (EvidenceStoreUnavailable ''STORAGE-CONDITIONAL-CREATE-UNAVAILABLE'') \<and> w' = w1) \<or>
     (\<exists>d. q = Inr d \<and> readback api s1 key content (sha256_id content) policy True (Some d) w1 = (Inr x, st', w'))"
  from c(3) show ?thesis
  proof (cases rule: try_put_cases)
    case (unconnected e)
    then show ?thesis using d unconnected_existing [of api st e key content "sha256_id content" policy w] by auto
  next
    case (failed e)
    then have x: "is_precondition_failure (EvidenceClientError e)" "existing_or_conflict api s1 key content (sha256_id content) policy w1 = (Inr x, st', w')"
      using d by auto
    note res = existing_result(1) [OF assms(1) x(2) refl]
    note rb = readback_result [OF conjunct1 [OF res]]
    have "view w' b key = Some content" using res existing_view [OF assms(1) x(2)] failed(3) by (simp add: b_def)
    then show ?thesis using that [OF c(1,2)] rb failed(2) by (simp add: b_def)
  next
    case (stored d')
    then have x: "readback api s1 key content (sha256_id content) policy True (Some d') w1 = (Inr x, st', w')" using d by auto
    note rb = readback_result [OF x]
    have "put_effect view w b key content w'"
      using put_done(1) [OF assms(1) stored(2)] readback_view [OF assms(1) x] put_effect_cong by (metis b_def)
    then show ?thesis using that [OF c(1,2)] rb stored(2) by (simp add: put_effect_def b_def)
  qed
qed simp

lemma create_conflict:
  assumes "conditional_store api view" "evidence_create api st access role content w = (Inl (EvidenceStoreConflict t), st', w')"
  obtains key actual where "evidence_key_for access role content = Inr key" "view w (ec_bucket (es_config st)) key = Some actual" "actual \<noteq> content"
    "view w' = view w"
proof (rule create_keyed [OF assms(2)])
  fix key policy q s1 w1
  assume c: "evidence_key_for access role content = Inr key" "try_put api st key content w = (q, s1, w1)"
    and d: "(\<exists>e. q = Inl e \<and> is_precondition_failure e \<and>
        existing_or_conflict api s1 key content (sha256_id content) policy w1 = (Inl (EvidenceStoreConflict t), st', w')) \<or>
     (\<exists>e. q = Inl e \<and> \<not> is_precondition_failure e \<and>
        Inl (EvidenceStoreConflict t) = Inl (EvidenceStoreUnavailable ''STORAGE-CONDITIONAL-CREATE-UNAVAILABLE'') \<and> w' = w1) \<or>
     (\<exists>d. q = Inr d \<and> readback api s1 key content (sha256_id content) policy True (Some d) w1 = (Inl (EvidenceStoreConflict t), st', w'))"
  from c(2) show ?thesis
  proof (cases rule: try_put_cases)
    case (unconnected e)
    then show ?thesis using d unconnected_existing [of api st e key content "sha256_id content" policy w] by auto
  next
    case (failed e)
    then have x: "is_precondition_failure (EvidenceClientError e)"
      "existing_or_conflict api s1 key content (sha256_id content) policy w1 = (Inl (EvidenceStoreConflict t), st', w')" using d by auto
    obtain actual where actual: "view w1 (ec_bucket (es_config st)) key = Some actual" "actual \<noteq> content"
      using existing_result(2) [OF assms(1) x(2) refl] failed(3) by auto
    then have "view w1 = view w" using put_failed(1) [OF assms(1) failed(2)] by (auto simp: put_effect_def)
    then show ?thesis using actual that [OF c(1)] existing_view [OF assms(1) x(2)] by simp
  next
    case (stored d')
    then have "readback api s1 key content (sha256_id content) policy True (Some d') w1 = (Inl (EvidenceStoreConflict t), st', w')" using d by auto
    from readback_conflict [OF this] obtain dd actual
      where "s3_get api w1 (ec_bucket (es_config st)) key (version_of (Some d')) = (Inr (dd, actual), w')" "actual \<noteq> content"
      unfolding stored(3) by blast
    then show ?thesis using put_done(2) [OF assms(1) stored(2)] by auto
  qed
qed simp

section \<open>Runs\<close>

text \<open>Any number of stores on one service, each at any time creating or reading.\<close>

inductive evidence_run :: "'s s3_api \<Rightarrow> 's \<Rightarrow> 's \<Rightarrow> bool" for api where
  start: "evidence_run api w w"
| create: "evidence_run api w w1 \<Longrightarrow> evidence_create api st access role content w1 = (r, st', w2) \<Longrightarrow> evidence_run api w w2"
| read: "evidence_run api w w1 \<Longrightarrow> evidence_read api st key w1 = (r, st', w2) \<Longrightarrow> evidence_run api w w2"

text \<open>Every object in the formal namespace is named by the digest of its content.\<close>

definition content_addressed :: "(string \<Rightarrow> string \<Rightarrow> string option) \<Rightarrow> bool" where
  "content_addressed objs \<longleftrightarrow> (\<forall>b k c. objs b k = Some c \<longrightarrow> starts_with ''formal/v1/'' k \<longrightarrow>
     (\<exists>pre. k = pre @ sha256_hexdigest c))"

lemma digest_length [simp]: "length (sha256_hexdigest s) = 64"
proof -
  have "length (sha256_id s) = 71" using sha256_id_immutable [of s] by (simp add: is_immutable_id_def)
  then show ?thesis by (simp add: sha256_id_def DIGEST_PREFIX_def)
qed

lemma key_shape:
  assumes "evidence_key_for access role content = Inr key"
  shows "\<exists>pre. key = pre @ sha256_hexdigest content" "starts_with ''formal/v1/'' key"
proof -
  obtain p where key: "key = ''formal/v1/'' @ p @ ''/'' @ role @ ''/sha256-'' @ sha256_hexdigest content"
    using assms by (fastforce simp del: append.simps simp: evidence_key_for_def split: option.splits prod.splits if_splits)
  then have "key = (''formal/v1/'' @ p @ ''/'' @ role @ ''/sha256-'') @ sha256_hexdigest content" by (simp only: append_assoc)
  then show "\<exists>pre. key = pre @ sha256_hexdigest content" by (rule exI)
  show "starts_with ''formal/v1/'' key" unfolding key by (simp add: starts_with_def)
qed

lemma key_digest:
  assumes "evidence_key_for access role content = Inr key" "content_addressed objs" "objs b key = Some actual"
  shows "sha256_hexdigest actual = sha256_hexdigest content"
proof -
  obtain pre pre' where "key = pre @ sha256_hexdigest content" "key = pre' @ sha256_hexdigest actual"
    using key_shape [OF assms(1)] assms(2,3) unfolding content_addressed_def by blast
  then show ?thesis by (metis append_eq_append_conv digest_length)
qed

lemma effect_preserves:
  assumes "put_effect view w b key body w'" "view w b' k = Some c"
  shows "view w' b' k = Some c"
  using assms by (cases "(b', k) = (b, key)") (simp_all add: put_effect_def)

lemma effect_addressed:
  assumes "put_effect view w b key content w'" "evidence_key_for access role content = Inr key" "content_addressed (view w)"
  shows "content_addressed (view w')"
  unfolding content_addressed_def
proof (intro allI impI)
  fix b' k c
  assume k: "view w' b' k = Some c" "starts_with ''formal/v1/'' k"
  show "\<exists>pre. k = pre @ sha256_hexdigest c"
  proof (cases "(b', k) = (b, key)")
    case True
    then show ?thesis using k(1) assms(1) key_shape(1) [OF assms(2)] by (simp add: put_effect_def)
  next
    case False
    then have "view w b' k = Some c" using k(1) assms(1) by (simp add: put_effect_def)
    then show ?thesis using assms(3) k(2) unfolding content_addressed_def by blast
  qed
qed

lemma read_view:
  assumes "conditional_store api view" "evidence_read api st key w = (r, st', w')"
  shows "view w' = view w"
  using assms(2) try_get_view(1) [OF assms(1)] by (auto simp: evidence_read_def split: if_splits prod.splits sum.splits)

lemma run_preserves:
  assumes "conditional_store api view" "evidence_run api w w'"
  shows "view w b k = Some c \<Longrightarrow> view w' b k = Some c" "content_addressed (view w) \<Longrightarrow> content_addressed (view w')"
proof -
  have "(view w b k = Some c \<longrightarrow> view w' b k = Some c) \<and> (content_addressed (view w) \<longrightarrow> content_addressed (view w'))"
    using assms(2)
  proof (induction rule: evidence_run.induct)
    case (create w w1 st access role content r st' w2)
    then show ?case using create_view [OF assms(1) create(2)] effect_preserves effect_addressed by metis
  next
    case (read w w1 st key r st' w2)
    then show ?case using read_view [OF assms(1) read(2)] by simp
  qed simp
  then show "view w b k = Some c \<Longrightarrow> view w' b k = Some c" "content_addressed (view w) \<Longrightarrow> content_addressed (view w')" by blast+
qed

section \<open>Properties\<close>

text \<open>
  C21. Formal evidence is write-once: whatever stores create and read on the service, in whatever
  order and with whatever failures, an object that exists keeps its bytes for ever, and every
  object of the formal namespace stays named by the digest of its content.
\<close>
theorem evidence_write_once:
  assumes "conditional_store api view" "evidence_run api w w'"
  shows "(view w b k = Some c \<longrightarrow> view w' b k = Some c) \<and> (content_addressed (view w) \<longrightarrow> content_addressed (view w'))"
  using run_preserves [OF assms] by blast

text \<open>
  C22. A creation changes at most one object, the one its content names, and only from nothing to
  that content. One that returns has its content stored under the key of that content; it says
  created exactly when the client confirmed its put, and then no object was there before. (An
  object that was not there need not be reported as created: when the response to the put that
  stored it is lost, the client's own retry fails the precondition, and the creation says
  existing.) A conflict is reported only for another content with the same digest, and then
  nothing has changed.
\<close>
theorem evidence_create_outcome:
  assumes "conditional_store api view" "evidence_create api st access role content w = (r, st', w')" "content_addressed (view w)"
  shows "(\<forall>b k. view w' b k \<noteq> view w b k \<longrightarrow> b = ec_bucket (es_config st) \<and> evidence_key_for access role content = Inr k \<and>
      view w b k = None \<and> view w' b k = Some content) \<and>
    (case r of
      Inr x \<Rightarrow> evidence_key_for access role content = Inr (wr_immutable_key x) \<and> wr_content_sha256 x = sha256_id content \<and>
        wr_byte_size x = length content \<and> view w' (ec_bucket (es_config st)) (wr_immutable_key x) = Some content \<and>
        (wr_created x \<longleftrightarrow> (\<exists>d. fst (s3_put api w (ec_bucket (es_config st)) (wr_immutable_key x) content) = Inr d)) \<and>
        (wr_created x \<longrightarrow> view w (ec_bucket (es_config st)) (wr_immutable_key x) = None)
    | Inl (EvidenceStoreConflict t) \<Rightarrow> view w' = view w \<and> (\<exists>other. other \<noteq> content \<and> sha256_hexdigest other = sha256_hexdigest content)
    | Inl _ \<Rightarrow> True)"
proof
  show "\<forall>b k. view w' b k \<noteq> view w b k \<longrightarrow> b = ec_bucket (es_config st) \<and> evidence_key_for access role content = Inr k \<and>
      view w b k = None \<and> view w' b k = Some content"
    by (rule create_frame [OF assms(1,2)])
  show "case r of
      Inr x \<Rightarrow> evidence_key_for access role content = Inr (wr_immutable_key x) \<and> wr_content_sha256 x = sha256_id content \<and>
        wr_byte_size x = length content \<and> view w' (ec_bucket (es_config st)) (wr_immutable_key x) = Some content \<and>
        (wr_created x \<longleftrightarrow> (\<exists>d. fst (s3_put api w (ec_bucket (es_config st)) (wr_immutable_key x) content) = Inr d)) \<and>
        (wr_created x \<longrightarrow> view w (ec_bucket (es_config st)) (wr_immutable_key x) = None)
    | Inl (EvidenceStoreConflict t) \<Rightarrow> view w' = view w \<and> (\<exists>other. other \<noteq> content \<and> sha256_hexdigest other = sha256_hexdigest content)
    | Inl _ \<Rightarrow> True"
  proof (cases r)
    case (Inr x)
    then show ?thesis using create_done [OF assms(1) assms(2) [unfolded Inr]] by simp metis
  next
    case (Inl e)
    show ?thesis
    proof (cases e)
      case (EvidenceStoreConflict t)
      obtain key actual where "evidence_key_for access role content = Inr key" "view w (ec_bucket (es_config st)) key = Some actual"
          "actual \<noteq> content" "view w' = view w"
        using create_conflict [OF assms(1) assms(2) [unfolded Inl EvidenceStoreConflict]] .
      then show ?thesis using key_digest [OF _ assms(3)] Inl EvidenceStoreConflict by auto
    qed (simp_all add: Inl)
  qed
qed

text \<open>A service that is up: it refuses a put only for an object that exists, and finds every object.\<close>

definition reliable_service :: "'s s3_api \<Rightarrow> 's s3_view \<Rightarrow> bool" where
  "reliable_service api view \<longleftrightarrow>
     (\<forall>w b k body. case s3_put api w b k body of (Inr _, _) \<Rightarrow> True | (Inl e, _) \<Rightarrow> is_precondition_failure (EvidenceClientError e)) \<and>
     (\<forall>w b k v. view w b k \<noteq> None \<longrightarrow> (\<exists>r w'. s3_get api w b k v = (Inr r, w')))"

lemma connected_client: "es_connected st \<Longrightarrow> connect_client api st = (Inr (), st)"
  by (simp add: connect_client_def)

lemma reliable_readback:
  assumes "conditional_store api view" "reliable_service api view" "es_connected st" "view w (ec_bucket (es_config st)) key = Some content"
    "\<And>r w'. s3_get api w (ec_bucket (es_config st)) key (version_of response) = (Inr r, w') \<Longrightarrow> snd r = content"
  shows "\<exists>x w'. readback api st key content (sha256_id content) policy created response w = (Inr x, st, w')"
proof -
  obtain r w' where g: "s3_get api w (ec_bucket (es_config st)) key (version_of response) = (Inr r, w')"
    using assms(2,4) unfolding reliable_service_def by (metis option.distinct(1))
  then have "snd r = content" by (rule assms(5))
  then show ?thesis using g by (cases r) (simp add: connected_client [OF assms(3)] readback_def try_get_def Let_def)
qed

lemma reliable_create:
  assumes "conditional_store api view" "reliable_service api view" "es_connected st" "evidence_key_for access role content = Inr key"
    "\<forall>c. view w (ec_bucket (es_config st)) key = Some c \<longrightarrow> c = content"
  shows "\<exists>x w'. evidence_create api st access role content w = (Inr x, st, w')"
proof -
  let ?b = "ec_bucket (es_config st)"
  obtain policy where p: "policy_for access = Inr policy"
    using assms(4) by (auto simp: evidence_key_for_def policy_for_def split: option.splits prod.splits)
  obtain r w1 where r: "s3_put api w ?b key content = (r, w1)" by fastforce
  show ?thesis
  proof (cases r)
    case (Inr d)
    have "view w1 ?b key = Some content" using put_done(1) [OF assms(1) r [unfolded Inr]] by (simp add: put_effect_def)
    from reliable_readback [OF assms(1-3) this, of "Some d" policy True] put_done(2) [OF assms(1) r [unfolded Inr]]
    show ?thesis using r Inr p assms(4) by (auto simp: connected_client [OF assms(3)] evidence_create_def try_put_def)
  next
    case (Inl e)
    have "case s3_put api w ?b key content of (Inr _, _) \<Rightarrow> True | (Inl e, _) \<Rightarrow> is_precondition_failure (EvidenceClientError e)"
      by (rule conjunct1 [OF assms(2) [unfolded reliable_service_def], rule_format])
    then have f: "is_precondition_failure (EvidenceClientError e)" by (simp add: r Inl)
    note put = put_failed [OF assms(1) r [unfolded Inl]]
    have v: "view w1 ?b key = Some content" using put(1) put(2) [OF f] assms(5) by (auto simp: put_effect_def)
    have same: "snd r = content" if "s3_get api w1 ?b key (version_of None) = (Inr r, w')" for r w'
      using get_done(2) [OF assms(1) that, of "fst r" "snd r"] v by (simp add: version_of_def)
    obtain x w2 where "readback api st key content (sha256_id content) policy False None w1 = (Inr x, st, w2)"
      using reliable_readback [where response = None, OF assms(1-3) v] same by blast
    then show ?thesis using r Inl p f assms(4) by (auto simp: connected_client [OF assms(3)] evidence_create_def try_put_def existing_or_conflict_def)
  qed
qed

text \<open>
  C25. On a service that is up, creating the same evidence again succeeds, creates nothing, and names
  the same object: retries after an ambiguous failure are harmless.
\<close>
theorem evidence_create_converges:
  assumes "conditional_store api view" "reliable_service api view" "es_connected st" "evidence_key_for access role content = Inr key"
    "\<forall>c. view w (ec_bucket (es_config st)) key = Some c \<longrightarrow> c = content"
  shows "\<exists>x w1 y w2. evidence_create api st access role content w = (Inr x, st, w1) \<and> evidence_create api st access role content w1 = (Inr y, st, w2) \<and>
    \<not> wr_created y \<and> wr_immutable_key y = wr_immutable_key x \<and> view w2 = view w1"
proof -
  note key = assms(4)
  obtain x w1 where x: "evidence_create api st access role content w = (Inr x, st, w1)" using reliable_create [OF assms] by blast
  have k: "wr_immutable_key x = key \<and> view w1 (ec_bucket (es_config st)) key = Some content"
    by (rule create_done [OF assms(1) x]) (simp add: key)
  then have "\<forall>c. view w1 (ec_bucket (es_config st)) key = Some c \<longrightarrow> c = content" by simp
  then obtain y w2 where y: "evidence_create api st access role content w1 = (Inr y, st, w2)"
    using reliable_create [OF assms(1-4)] by blast
  have l: "wr_immutable_key y = key \<and> \<not> wr_created y"
    by (rule create_done [OF assms(1) y]) (use k in \<open>auto simp: key\<close>)
  have "view w2 = view w1" using create_view [OF assms(1) y] k by (auto simp: put_effect_def key)
  then show ?thesis using x y k l by blast
qed

section \<open>Witnesses\<close>

type_synonym object_map = "string \<times> string \<Rightarrow> string option"

definition example_api :: "object_map s3_api" where
  "example_api = \<lparr>s3_installed = True, s3_connect = (\<lambda>_ _. None),
     s3_put = (\<lambda>w b k body. if w (b, k) = None then (Inr [(''VersionId'', ''v1''), (''ETag'', ''e'')], w((b, k) \<mapsto> body))
        else (Inl \<lparr>er_text = ''412'', er_code = Some ''412''\<rparr>, w)),
     s3_get = (\<lambda>w b k v. case w (b, k) of None \<Rightarrow> (Inl \<lparr>er_text = ''NoSuchKey'', er_code = Some ''NoSuchKey''\<rparr>, w)
        | Some body \<Rightarrow> (Inr ([(''VersionId'', ''v1'')], body), w)),
     s3_versioning = (\<lambda>_ _. Inr (Some ''Enabled'')), s3_lock = (\<lambda>_ _. Inr None)\<rparr>"

definition example_view :: "object_map s3_view" where
  "example_view w b k = w (b, k)"

lemma example_conditional: "conditional_store example_api example_view"
  unfolding conditional_store_def put_promise_def failed_put_promise_def get_promise_def
  by (intro conjI allI impI; auto simp: example_api_def example_view_def put_effect_def split: if_splits option.splits prod.splits)

lemma example_reliable: "reliable_service example_api example_view"
  by (auto simp: reliable_service_def example_api_def example_view_def is_precondition_failure_def lower_char_def split: option.splits)

definition example_store :: evidence_store where
  "example_store = \<lparr>es_config = \<lparr>ec_endpoint_url = ''http://localhost:9000'', ec_bucket = ''formal'',
     ec_namespace_policy_revision = NAMESPACE_REVISION, ec_region_name = ''us-east-1''\<rparr>, es_connected = True\<rparr>"

lemma example_key: "evidence_key_for ''public_reference'' ''receipt'' content =
    Inr (''formal/v1/public-reference/receipt/sha256-'' @ sha256_hexdigest content)"
  by (simp add: evidence_key_for_def NAMESPACE_PREFIXES_def OBJECT_ROLES_def)

lemma example_created: "\<exists>x w'. evidence_create example_api example_store ''public_reference'' ''receipt'' ''data'' Map.empty = (Inr x, example_store, w')"
  by (rule reliable_create [OF example_conditional example_reliable _ example_key]) (simp_all add: example_store_def example_view_def)

theorem evidence_write_once_witness:
  "\<exists>w. evidence_run example_api [(''b'', ''old'') \<mapsto> ''kept''] w \<and> example_view w ''b'' ''old'' = Some ''kept''"
proof -
  let ?w = "[(''b'', ''old'') \<mapsto> ''kept'']"
  obtain r st w where "evidence_create example_api example_store ''public_reference'' ''receipt'' ''data'' ?w = (r, st, w)" by (metis prod_cases3)
  then have "evidence_run example_api ?w w" by (rule evidence_run.create [OF evidence_run.start])
  moreover have "example_view ?w ''b'' ''old'' = Some ''kept''" by (simp add: example_view_def)
  ultimately show ?thesis using evidence_write_once [OF example_conditional, of ?w w "''b''" "''old''" "''kept''"] by blast
qed

theorem evidence_create_outcome_witness:
  "\<exists>x w'. evidence_create example_api example_store ''public_reference'' ''receipt'' ''data'' Map.empty = (Inr x, example_store, w') \<and>
     wr_created x \<and> example_view w' ''formal'' (wr_immutable_key x) = Some ''data''"
proof -
  obtain x w' where x: "evidence_create example_api example_store ''public_reference'' ''receipt'' ''data'' Map.empty = (Inr x, example_store, w')"
    using example_created by blast
  have "content_addressed (example_view Map.empty)" by (simp add: content_addressed_def example_view_def)
  from evidence_create_outcome [where view = example_view, OF example_conditional x this] x show ?thesis
    by (simp add: example_store_def example_view_def) (simp add: example_api_def)
qed

theorem evidence_create_converges_witness:
  "\<exists>x w1 y w2. evidence_create example_api example_store ''public_reference'' ''receipt'' ''data'' Map.empty = (Inr x, example_store, w1) \<and>
     evidence_create example_api example_store ''public_reference'' ''receipt'' ''data'' w1 = (Inr y, example_store, w2) \<and> \<not> wr_created y"
proof -
  have "es_connected example_store" "\<forall>c. example_view Map.empty (ec_bucket (es_config example_store)) k = Some c \<longrightarrow> c = ''data''" for k
    by (simp_all add: example_store_def example_view_def)
  from evidence_create_converges [where view = example_view and w = Map.empty, OF example_conditional example_reliable this(1) example_key this(2)] show ?thesis by blast
qed

end
