(* ===== verification/Spec2Isabelle.thy ===== *)
theory Spec2Isabelle
  imports CometBft Lifecycle LiveCollection Transport RuntimeLoop ConsensusV2Closure VersionedState DashboardOutcome
    SyscallPartitions SyscallCapture EvidenceStore
begin

text \<open>
  Verification development of the parallel truth fingerprint prototype
  (\<open>src/parallel_truth_fingerprint\<close>, \<open>src/scripts/run_local_demo.py\<close> and the Go application under \<open>abci/\<close>;
  file names below are relative to the package).

  \<^bold>\<open>The program.\<close> A simulated compressor is read by three edges, which exchange their HART payloads and
  each hold a replicated view of a round. A consensus engine decides the round: it excludes the
  edges that contradict too many peers and succeeds when the trusted ones reach the quorum. The
  round goes through a CometBFT ledger, whose application evaluates it once more and whose decision
  comes back as the audit package of the live runtime. A supervisory service
  (SCADA) projects the agreed values, possibly altered by an operator scenario, and a comparison
  raises an alert on divergent sensors. A round that succeeded and did not diverge is persisted as
  an artifact; artifacts of normal cycles become training windows of an LSTM fingerprint, which is
  trained once and then judges later windows and suspected replays. One cycle of all this is run
  in a loop, or by a thread that the operator's dashboard starts, stops and reconfigures. Beside
  it stand the contracts of a second consensus version, offline partitions and captures, and a
  write-once evidence store.

  \<^bold>\<open>Generic theories.\<close>
  \<^item> \<open>Prelude\<close>: exceptions as values of a result type, dictionaries as association lists, strings, the
    collection \<open>res_simps\<close>. \<open>PyValue\<close>: untyped values, JSON included. \<open>PyTime\<close>, \<open>Calendar\<close>: the used
    part of \<open>datetime\<close> and its laws.
  \<^item> \<open>PyFloat\<close>, \<open>FloatLaws\<close>: binary64 arithmetic as rounded rationals (no infinities and no NaN), \<open>round\<close>
    and \<open>format\<close>; the locale \<open>rounding\<close> is interpreted by both roundings. \<open>PyDecimal\<close>: decimals as
    rationals rounded to 28 significant digits, with fewer than a million digits in a literal. \<open>Sha256\<close>: the digest and the identifiers
    built from it; no theorem assumes that digests do not collide.

  \<^bold>\<open>Consensus.\<close>
  \<^item> \<open>Contracts\<close> (\<open>contracts/*.py\<close> of a round), \<open>TrustModel\<close>, \<open>Engine\<close> (\<open>consensus/trust_model.py\<close>, \<open>quorum.py\<close>,
    \<open>engine.py\<close>): the decision of a round as a function of its input. The lemmas show that every
    complete round is decided, that a majority of compatible edges wins whatever the others report,
    and that the audit trail agrees with the decision. The locale \<open>quorum_system\<close> gives quorum intersection and
    is interpreted by the majorities of the participants.
  \<^item> \<open>Observability\<close> (\<open>consensus/alerts.py\<close>, \<open>logging.py\<close>, \<open>summary.py\<close>): log, alert and summary agree with the
    decision. \<open>CometBft\<close> (\<open>consensus/cometbft_*.py\<close>): the transaction is canonical, and a committed log
    maps back to the same audit package.
  \<^item> \<open>ConsensusApp\<close>, \<open>ConsensusAppLaws\<close> (\<open>abci/consensus_app/internal/app/app.go\<close>, \<open>types.go\<close>): the application of
    the ledger, which decides the rounds of the live runtime. It is not the Python engine: it
    walks edges and sensors in sorted order, adds without compensation and rounds halves away from
    zero. The lemmas decode the transaction the Python side writes, show that a complete round is
    always decided and what its document reads back as, and that a query after any chain of blocks
    answers with that decision as long as no later transaction is about the same round. What the
    stages after consensus need of a package, whichever of the two evaluations made it, is the
    predicate \<open>settles\<close> of \<open>Observability\<close>: both satisfy it.
  \<^item> \<open>FaultInjection\<close>, \<open>ScenarioRounds\<close>: which edges a fault scenario shifts, and what the application then
    decides.

  \<^bold>\<open>Acquisition.\<close>
  \<^item> \<open>Simulator\<close> (\<open>sensor_simulation/\<close>, \<open>config/ranges.py\<close>): observations within the loop and engineering
    ranges. The random numbers are a parameter; a reading is below 5000.
  \<^item> \<open>Transport\<close>, \<open>EdgeNodes\<close>, \<open>LiveCollection\<close> (\<open>edge_nodes/\<close> and the collection of the script): payloads, the
    relay and the three views; an inductive relation of the network with the invariant that each view
    is what the relayed messages determine.

  \<^bold>\<open>Supervision.\<close>
  \<^item> \<open>ScadaContracts\<close>, \<open>ScadaService\<close> (\<open>scada/opcua_service.py\<close>), \<open>Comparison\<close> (\<open>comparison/\<close>), \<open>ReplayStage\<close> and
    \<open>ReplayBehavior\<close> (\<open>lstm_service/replay_behavior.py\<close>): projection with its overrides, the alert
    on exactly the sensors beyond tolerance, offsets between 3 and a million that are always
    detected, replays that are judged by the model.

  \<^bold>\<open>Artifacts and fingerprints.\<close>
  \<^item> \<open>Stores\<close> (\<open>persistence/local_filesystem.py\<close>, \<open>artifact_store.py\<close>): the locale \<open>artifact_store\<close> is the contract of
    the clients; the local files and the MinIO adapter over a conforming service satisfy it. In this
    contract saves never fail: a full disk or a service that is down is outside of it.
    \<open>Persistence\<close> (\<open>persistence/service.py\<close>), \<open>LiveArtifacts\<close>: what is stored, and that it can be read back.
  \<^item> \<open>Dataset\<close>, \<open>DatasetArtifacts\<close>, \<open>Fingerprint\<close>, \<open>Lifecycle\<close> (\<open>lstm_service/\<close>): eligibility, windows, archives,
    training and inference, and the lifecycle that trains at most once and then judges in every
    later cycle. numpy and keras are parameters
    with the documented shape of their results.

  \<^bold>\<open>The runtime.\<close>
  \<^item> \<open>RuntimeConfig\<close> (\<open>config/runtime.py\<close>), \<open>Scenario\<close> (\<open>scenario_control/runtime.py\<close>), \<open>RuntimeCycle\<close>, \<open>Pipeline\<close>,
    \<open>CycleLaws\<close>, \<open>CycleReport\<close>, \<open>LiveCycle\<close>, \<open>RuntimeLoop\<close> (\<open>scripts/run_local_demo.py\<close>): the gates of a
    cycle, its stages in order with their effects on the store, its report, and the loop. A bounded
    run returns; an unbounded one goes on; a sleep ends at the first stop request. The loop and the sleep are partial functions,
    so that returning is something to prove; sleeps are at most \<open>2 ^ 22\<close> seconds, which keeps the
    clock arithmetic exact. Clocks, the CometBFT node, the provider of configurations and of stop requests are
    parameters. Of the node the hypothesis \<open>ledger_commits\<close> says that it reports its status, puts a transaction
    that the application accepts into a block, and answers a query from a state of the application after
    that block; what is decided is computed by \<open>ConsensusApp\<close>. The transport is the passive relay: the default of
    the configuration, real MQTT clients, is not modelled, and the theorems about cycles say so in
    \<open>environment_ok\<close>. A step that raises (\<open>updating\<close>) leaves the modelled state as it was before the step,
    where the objects of the program keep what they had changed; no theorem speaks about the state
    after such an exception.
  \<^item> \<open>DashboardControl\<close>, \<open>DashboardLaws\<close>, \<open>DashboardOutcome\<close> (\<open>dashboard/control_surface.py\<close>): the controller and its
    thread as a step relation. A thread step is what the thread does between two acquisitions of the controller's
    lock, an operator action is atomic because it holds the lock, and steps interleave in any order. The
    lemmas give the invariant, a rank by which a stopped run ends within eight steps of the thread, and
    the cycles a change of the scenario reaches. The base configuration may name a scenario of its own,
    supported or not, since its loader does not check it.

  \<^bold>\<open>The second consensus version.\<close>
  \<^item> \<open>ConsensusV2Contracts\<close>, \<open>ConsensusV2Validation\<close>, \<open>ConsensusV2Parameters\<close>, \<open>ConsensusV2Reference\<close>
    (\<open>contracts/consensus_v2.py\<close>, \<open>evidence/consensus_*_validation.py\<close>, \<open>consensus_v2_parameters.py\<close>,
    \<open>consensus_v2/reference_*.py\<close>), with \<open>ConsensusV2Laws\<close>, \<open>ConsensusV2Outcome\<close>, \<open>ConsensusV2Closure\<close>: rounds,
    decisions and parameter sets as checked dictionaries, the reference evaluator, and that a
    decision rests on closed evidence. \<open>VersionedState\<close> (\<open>consensus_v2/versioned_state.py\<close>): states and queries of
    both versions never mix. Resolvers are parameters.

  \<^bold>\<open>Offline evidence.\<close>
  \<^item> \<open>WindowScan\<close>, \<open>PhysicalPartitions\<close>, \<open>SyscallPartitions\<close> (\<open>evidence/physical_partitions.py\<close>,
    \<open>evidence/syscall_partitions.py\<close>): the scan for complete windows ends for every positive stride,
    and what it accepts is whole; a fit learns from exactly the normal training runs.
  \<^item> \<open>SyscallCapture\<close> (\<open>contracts/syscall_capture.py\<close>, \<open>evidence/syscall_capture.py\<close>): an admitted batch lies inside
    its segment.
  \<^item> \<open>EvidenceStore\<close> (\<open>persistence/evidence_store.py\<close>): over a service that keeps the documented contract of a
    conditional put, objects are written once, named by their digest, and created again without harm. The client
    retries by default, so a failed precondition says only that the object is there after the call.

  \<^bold>\<open>Not modelled.\<close> The text of JSON documents where only the encoded value matters, and its strict
  parsing (\<open>parse_*_json\<close>), because the json module is a library; printing and log files; the interrupt from the
  keyboard; the RPC, MQTT, HTTP and OPC UA clients and the construction of clients, which are network input and output;
  of the Go application the state file, the hash of its state and the bridge of the second version; the views, the server and the page of the
  dashboard, which only render payloads; the offline training and its reports, experiments over keras, numpy and
  files; the registers of documents and their hashes (\<open>evidence/v1_baseline.py\<close> and the catalogs); the
  transmitter, signal acquisition and remaining physical and system call boundaries, which the live runtime does not
  call; the qualification reports of the evidence store. Strings are strings of
  characters below 256, and fields have the types they are declared with unless the code checks them. The history of cycles that a report shows is the
  value at the time of the report, although the code passes the list itself.
\<close>

end
